(* ===== verification/Sdi_Prelude.thy ===== *)
theory Sdi_Prelude
  imports Main "HOL-Library.Word" "HOL-Library.Monad_Syntax"
begin

text \<open>
  What every theory of the development shares: the machine integers of the C code, its error
  codes, the way a C function that may abort is written, the services of the operating system
  and of the base libraries that the repository calls but does not contain, and the generic
  lemmas on lists, options and words.

  Conventions.
  \<^item> A C function that reads or changes the outside world (registers behind a bus, mutexes, the
    kernel) takes the world \<open>w\<close> of an arbitrary type and returns an option: \<open>None\<close> means that
    the call does not return normally (a failed STD\_ASSERT, an arithmetic trap, a read outside
    an object, a mutex that is never obtained), and \<open>Some (\<dots>, w')\<close> carries the return code,
    the output parameters and the new world. \<open>do\<close>-blocks are those of the option monad.
  \<^item> An output parameter of the C function is an argument (the value the caller's variable has
    before the call) and a component of the result (its value afterwards), so that a path that
    leaves the variable alone is visible.
  \<^item> A handle that the code only dereferences is the object itself, so the STD\_ASSERTs that
    reject a NULL argument hold by typing. A pointer whose NULL value the code tests for, or
    relies on not being NULL without a test, is an option.
  \<^item> Log messages are not modelled.
\<close>

unbundle bit_operations_syntax

section \<open>Machine integers\<close>

type_synonym u8 = "8 word"
type_synonym u16 = "16 word"
type_synonym u32 = "32 word"
type_synonym u64 = "64 word"

text \<open>The bits of the masks the code uses.\<close>

lemma bit_0xFF [simp]: "bit (255 :: int) n \<longleftrightarrow> n < 8"
proof -
  have "(255 :: int) = mask 8" by (simp add: mask_eq_exp_minus_1)
  then show ?thesis by (simp only: bit_mask_iff) auto
qed

lemma bit_0xFFFF [simp]: "bit (65535 :: int) n \<longleftrightarrow> n < 16"
proof -
  have "(65535 :: int) = mask 16" by (simp add: mask_eq_exp_minus_1)
  then show ?thesis by (simp only: bit_mask_iff) auto
qed

text \<open>Widening keeps the value.\<close>

lemma unat_ucast_widen [simp]:
  "unat (ucast (x :: u32) :: u64) = unat x"
  "unat (ucast (y :: u8) :: u32) = unat y"
  "unat (ucast (z :: u16) :: u32) = unat z"
  "unat (ucast (y :: u8) :: u16) = unat y"
  by (transfer, simp)+

section \<open>Hint collections\<close>

named_theorems sdi_simps \<open>equations that evaluate the building blocks of the model\<close>
named_theorems sdi_frame \<open>facts that say what an operation leaves unchanged\<close>

section \<open>Error codes\<close>

text \<open>
  The values of errno that the code names, and any other one. The macros SDI\_ERRCODE and
  SDI\_DEVICE\_ERRCODE (sdi\_sys\_common.h, sdi\_device\_common.h) build the same value from an
  errno; SDI\_ERRNO and SDI\_DEVICE\_ERRNO build it from the current errno. A library outside the
  repository may return any other non-zero code.
\<close>

datatype errno =
    EPERM | ENXIO | EIO | ENOMEM | EINVAL | ENOTSUP | EOPNOTSUPP | ENODATA | ENOSYS | ETIMEDOUT
  | EBADMSG | Errno nat

datatype t_std_error =
    STD_ERR_OK
  | SDI_ERRCODE errno
  | SDI_DEVICE_ERR_PARAM
  | SDI_DEVICE_ERR_CFG
  | STD_ERR_UNIMPLEMENTED
  | STD_ERR_OTHER nat

abbreviation SDI_DEVICE_ERRCODE :: "errno \<Rightarrow> t_std_error" where
  "SDI_DEVICE_ERRCODE \<equiv> SDI_ERRCODE"

section \<open>Calls that may not return\<close>

definition STD_ASSERT :: "bool \<Rightarrow> unit option" where
  "STD_ASSERT b = (if b then Some () else None)"

lemma STD_ASSERT_simps [simp, sdi_simps]:
  "STD_ASSERT True = Some ()"
  "STD_ASSERT False = None"
  by (simp_all add: STD_ASSERT_def)

lemma STD_ASSERT_eq_Some [simp]: "STD_ASSERT b = Some u \<longleftrightarrow> b"
  by (simp add: STD_ASSERT_def)

lemma STD_ASSERT_bind [simp]: "(STD_ASSERT b \<bind> f) = (if b then f () else None)"
  by (simp add: STD_ASSERT_def)

lemma bind_triple_eq_Some:
  "(x \<bind> (\<lambda>(a, b, c). f a b c)) = Some y \<longleftrightarrow> (\<exists>a b c. x = Some (a, b, c) \<and> f a b c = Some y)"
  by (cases x) auto

lemma bind_pair_eq_Some:
  "(x \<bind> (\<lambda>(a, b). f a b)) = Some y \<longleftrightarrow> (\<exists>a b. x = Some (a, b) \<and> f a b = Some y)"
  by (cases x) auto

lemma bind_any_eq_Some:
  "(x \<bind> f) = Some y \<longleftrightarrow> (\<exists>a. x = Some a \<and> f a = Some y)"
  by (cases x) auto

lemmas bind_SomeD = bind_triple_eq_Some bind_pair_eq_Some bind_any_eq_Some

section \<open>Bus types\<close>

text \<open>
  The enumeration sdi\_bus\_type\_t with its closing bound SDI\_MAX\_BUS. The code compares bus
  types as integers (\<open>bus_type < SDI_MAX_BUS\<close>), so the type is ordered as the enumeration is.
\<close>

datatype sdi_bus_type =
    SDI_I2C_BUS | SDI_PIN_BUS | SDI_PIN_GROUP_BUS | SDI_PSEUDO_BUS | SDI_IO_BUS
  | SDI_SF_IO_BUS | SDI_BMC_IO_BUS | SDI_FPGA_PCI_BUS | SDI_MAX_BUS

fun bus_type_index :: "sdi_bus_type \<Rightarrow> nat" where
  "bus_type_index SDI_I2C_BUS = 0"
| "bus_type_index SDI_PIN_BUS = 1"
| "bus_type_index SDI_PIN_GROUP_BUS = 2"
| "bus_type_index SDI_PSEUDO_BUS = 3"
| "bus_type_index SDI_IO_BUS = 4"
| "bus_type_index SDI_SF_IO_BUS = 5"
| "bus_type_index SDI_BMC_IO_BUS = 6"
| "bus_type_index SDI_FPGA_PCI_BUS = 7"
| "bus_type_index SDI_MAX_BUS = 8"

lemma bus_type_index_inject [simp]: "bus_type_index a = bus_type_index b \<longleftrightarrow> a = b"
  by (cases a; cases b) simp_all

instantiation sdi_bus_type :: linorder
begin

definition less_eq_sdi_bus_type :: "sdi_bus_type \<Rightarrow> sdi_bus_type \<Rightarrow> bool" where
  "less_eq_sdi_bus_type a b \<longleftrightarrow> bus_type_index a \<le> bus_type_index b"

definition less_sdi_bus_type :: "sdi_bus_type \<Rightarrow> sdi_bus_type \<Rightarrow> bool" where
  "less_sdi_bus_type a b \<longleftrightarrow> bus_type_index a < bus_type_index b"

instance
  by standard (auto simp: less_eq_sdi_bus_type_def less_sdi_bus_type_def)

end

lemma less_SDI_MAX_BUS [simp]: "t < SDI_MAX_BUS \<longleftrightarrow> t \<noteq> SDI_MAX_BUS"
  by (cases t) (simp_all add: less_sdi_bus_type_def)

section \<open>The operating system: mutexes, sleeping, errno\<close>

text \<open>
  std\_mutex\_lock, std\_mutex\_unlock and std\_usleep come from the OPX base library, errno from
  the C library. They are parameters: functions on the world. A lock call may fail with an error
  code, and may never return (\<open>None\<close>). A mutex is known by its identity.
\<close>

datatype mutex = Mutex nat

record 'w os =
  std_mutex_lock_init :: "mutex \<Rightarrow> 'w \<Rightarrow> 'w"
  std_mutex_lock :: "mutex \<Rightarrow> 'w \<Rightarrow> (t_std_error \<times> 'w) option"
  std_mutex_unlock :: "mutex \<Rightarrow> 'w \<Rightarrow> (t_std_error \<times> 'w) option"
  std_usleep :: "nat \<Rightarrow> 'w \<Rightarrow> 'w"
  os_errno :: "'w \<Rightarrow> errno"

text \<open>Mutex calls that always succeed, the documented behaviour without an error.\<close>

definition os_reliable :: "'w os \<Rightarrow> bool" where
  "os_reliable os \<longleftrightarrow>
     (\<forall>m w. (\<exists>w'. std_mutex_lock os m w = Some (STD_ERR_OK, w')) \<and>
            (\<exists>w'. std_mutex_unlock os m w = Some (STD_ERR_OK, w')))"

lemma os_reliableE:
  assumes "os_reliable os"
  obtains w1 where "std_mutex_lock os m w = Some (STD_ERR_OK, w1)"
  using assms by (auto simp: os_reliable_def)

lemma os_reliable_unlockE:
  assumes "os_reliable os"
  obtains w1 where "std_mutex_unlock os m w = Some (STD_ERR_OK, w1)"
  using assms by (auto simp: os_reliable_def)

text \<open>An operating system whose world is the list of the mutexes that are held.\<close>

definition sample_os :: "mutex list os" where
  "sample_os = \<lparr>
     std_mutex_lock_init = (\<lambda>m w. w),
     std_mutex_lock = (\<lambda>m w. Some (STD_ERR_OK, m # w)),
     std_mutex_unlock = (\<lambda>m w. Some (STD_ERR_OK, remove1 m w)),
     std_usleep = (\<lambda>n w. w),
     os_errno = (\<lambda>w. EIO)\<rparr>"

lemma sample_os_reliable: "os_reliable sample_os"
  by (simp add: os_reliable_def sample_os_def)

section \<open>The base library: strings and bit macros\<close>

text \<open>
  safestrncpy (std\_utils.h) and the macros STD\_BIT\_TEST, STD\_BIT\_SET and STD\_BIT\_CLEAR
  (std\_bit\_ops.h) belong to the OPX base library too. They are parameters here;
  \<open>string_laws\<close>, \<open>bit8_laws\<close> and \<open>bit32_laws\<close> state what their documentation promises: a copy into a buffer of \<open>n\<close> bytes
  that fits is exact and never longer than the buffer, and the bit macros read, set and clear
  one bit of an integer whose bits are numbered.
\<close>

record std_lib =
  safestrncpy :: "nat \<Rightarrow> string \<Rightarrow> string"
  bit8_test :: "u8 \<Rightarrow> u32 \<Rightarrow> bool"
  bit8_set :: "u8 \<Rightarrow> u32 \<Rightarrow> u8"
  bit8_clear :: "u8 \<Rightarrow> u32 \<Rightarrow> u8"
  bit32_test :: "u32 \<Rightarrow> u32 \<Rightarrow> bool"
  bit32_set :: "u32 \<Rightarrow> u32 \<Rightarrow> u32"
  bit32_clear :: "u32 \<Rightarrow> u32 \<Rightarrow> u32"

definition bit8_laws :: "std_lib \<Rightarrow> bool" where
  "bit8_laws L \<longleftrightarrow>
     (\<forall>x b. b < 8 \<longrightarrow> bit8_test L (bit8_set L x b) b) \<and>
     (\<forall>x b. b < 8 \<longrightarrow> \<not> bit8_test L (bit8_clear L x b) b) \<and>
     (\<forall>x b c. b < 8 \<longrightarrow> c < 8 \<longrightarrow> b \<noteq> c \<longrightarrow> bit8_test L (bit8_set L x b) c = bit8_test L x c) \<and>
     (\<forall>x b c. b < 8 \<longrightarrow> c < 8 \<longrightarrow> b \<noteq> c \<longrightarrow> bit8_test L (bit8_clear L x b) c = bit8_test L x c)"

definition bit32_laws :: "std_lib \<Rightarrow> bool" where
  "bit32_laws L \<longleftrightarrow>
     (\<forall>x b. b < 32 \<longrightarrow> bit32_test L (bit32_set L x b) b) \<and>
     (\<forall>x b. b < 32 \<longrightarrow> \<not> bit32_test L (bit32_clear L x b) b) \<and>
     (\<forall>x b c. b < 32 \<longrightarrow> c < 32 \<longrightarrow> b \<noteq> c \<longrightarrow> bit32_test L (bit32_set L x b) c = bit32_test L x c) \<and>
     (\<forall>x b c. b < 32 \<longrightarrow> c < 32 \<longrightarrow> b \<noteq> c \<longrightarrow> bit32_test L (bit32_clear L x b) c = bit32_test L x c) \<and>
     (\<forall>b. b < 32 \<longrightarrow> \<not> bit32_test L 0 b)"

definition string_laws :: "std_lib \<Rightarrow> bool" where
  "string_laws L \<longleftrightarrow>
     (\<forall>n s. length s < n \<longrightarrow> safestrncpy L n s = s) \<and>
     (\<forall>n s. 0 < n \<longrightarrow> length (safestrncpy L n s) < n)"

text \<open>A library with the documented behaviour, used by the witnesses.\<close>

definition sample_lib :: std_lib where
  "sample_lib = \<lparr>
     safestrncpy = (\<lambda>n s. take (n - 1) s),
     bit8_test = (\<lambda>x b. bit x (unat b)),
     bit8_set = (\<lambda>x b. set_bit (unat b) x),
     bit8_clear = (\<lambda>x b. unset_bit (unat b) x),
     bit32_test = (\<lambda>x b. bit x (unat b)),
     bit32_set = (\<lambda>x b. set_bit (unat b) x),
     bit32_clear = (\<lambda>x b. unset_bit (unat b) x)\<rparr>"

lemma unat_less_numeral_u32:
  "(b :: u32) < 8 \<Longrightarrow> unat b < 8"
  "(b :: u32) < 32 \<Longrightarrow> unat b < 32"
  by (simp_all add: word_less_nat_alt)

lemma unat_inj_iff: "unat (a :: u32) = unat b \<longleftrightarrow> a = b"
  by (simp add: word_unat_eq_iff)

lemma sample_lib_bit8: "bit8_laws sample_lib"
  unfolding bit8_laws_def sample_lib_def
  by (auto simp: bit_simps unat_less_numeral_u32 unat_inj_iff)

lemma sample_lib_bit32: "bit32_laws sample_lib"
  unfolding bit32_laws_def sample_lib_def
  by (auto simp: bit_simps unat_less_numeral_u32 unat_inj_iff)

lemma sample_lib_string: "string_laws sample_lib"
  by (auto simp: string_laws_def sample_lib_def)

section \<open>C strings\<close>

text \<open>
  A C string is the list of its characters before the terminating NUL. strncmp (s, t, n) is zero
  exactly when the first n characters agree.
\<close>

definition strncmp_eq :: "string \<Rightarrow> string \<Rightarrow> nat \<Rightarrow> bool" where
  "strncmp_eq s t n \<longleftrightarrow> take n s = take n t"

lemma strncmp_eq_refl [simp]: "strncmp_eq s s n"
  by (simp add: strncmp_eq_def)

lemma strncmp_eq_short:
  "length s < n \<Longrightarrow> length t < n \<Longrightarrow> strncmp_eq s t n \<longleftrightarrow> s = t"
  by (simp add: strncmp_eq_def)

definition SDI_MAX_NAME_LEN :: nat where
  "SDI_MAX_NAME_LEN = 64"

section \<open>Traces of lock operations\<close>

text \<open>
  To speak of the order of the calls a function makes, the world is paired with the list of the
  events that happened: locks obtained, locks given back, transfers on a bus. An
  unlock counts as one whatever code it returns.
\<close>

datatype event = Locked mutex | Unlocked mutex | Transfer int

definition traced_lock ::
    "(mutex \<Rightarrow> 'w \<Rightarrow> (t_std_error \<times> 'w) option) \<Rightarrow> mutex \<Rightarrow> 'w \<times> event list
      \<Rightarrow> (t_std_error \<times> ('w \<times> event list)) option" where
  "traced_lock f m wt =
     (case f m (fst wt) of
        None \<Rightarrow> None
      | Some (e, w') \<Rightarrow> Some (e, (w', if e = STD_ERR_OK then snd wt @ [Locked m] else snd wt)))"

definition traced_unlock ::
    "(mutex \<Rightarrow> 'w \<Rightarrow> (t_std_error \<times> 'w) option) \<Rightarrow> mutex \<Rightarrow> 'w \<times> event list
      \<Rightarrow> (t_std_error \<times> ('w \<times> event list)) option" where
  "traced_unlock f m wt =
     (case f m (fst wt) of
        None \<Rightarrow> None
      | Some (e, w') \<Rightarrow> Some (e, (w', snd wt @ [Unlocked m])))"

text \<open>The locks a trace leaves held, in the order of their acquisition.\<close>

fun locks_held :: "event list \<Rightarrow> mutex list \<Rightarrow> mutex list" where
  "locks_held [] hs = hs"
| "locks_held (Locked m # es) hs = locks_held es (m # hs)"
| "locks_held (Unlocked m # es) hs = locks_held es (remove1 m hs)"
| "locks_held (Transfer fd # es) hs = locks_held es hs"

text \<open>Every transfer on the bus of file descriptor \<open>fd\<close> happens while the mutex \<open>m\<close> is held.\<close>

fun transfers_guarded :: "mutex \<Rightarrow> int \<Rightarrow> event list \<Rightarrow> mutex list \<Rightarrow> bool" where
  "transfers_guarded m fd [] hs = True"
| "transfers_guarded m fd (Locked k # es) hs = transfers_guarded m fd es (k # hs)"
| "transfers_guarded m fd (Unlocked k # es) hs = transfers_guarded m fd es (remove1 k hs)"
| "transfers_guarded m fd (Transfer g # es) hs =
     ((g = fd \<longrightarrow> m \<in> set hs) \<and> transfers_guarded m fd es hs)"

lemma locks_held_append: "locks_held (es @ fs) hs = locks_held fs (locks_held es hs)"
  by (induction es hs rule: locks_held.induct) simp_all

lemma transfers_guarded_append:
  "transfers_guarded m fd (es @ fs) hs \<longleftrightarrow>
     transfers_guarded m fd es hs \<and> transfers_guarded m fd fs (locks_held es hs)"
  by (induction m fd es hs rule: transfers_guarded.induct) auto

section \<open>Lists\<close>

lemma find_append:
  "List.find P (xs @ ys) = (case List.find P xs of None \<Rightarrow> List.find P ys | Some x \<Rightarrow> Some x)"
  by (induction xs) auto

lemma find_Some_in_set: "List.find P xs = Some x \<Longrightarrow> x \<in> set xs \<and> P x"
  by (induction xs) (auto split: if_splits)

lemma find_None_set: "List.find P xs = None \<longleftrightarrow> (\<forall>x \<in> set xs. \<not> P x)"
  by (induction xs) auto

section \<open>Registries: lists of registered objects that are searched by key\<close>

text \<open>
  The framework keeps buses, resources and entities in lists: objects are added, and looked up by
  the first object that matches a key. The calls may fail, because they take a lock. This is the
  contract of all of them: a successful \<open>add\<close> puts the object at the end, a failing one changes
  the contents by at most that, and a lookup changes nothing and answers with nothing or with the
  first match. \<open>matches\<close> may depend on the state (a name kept in the object), but adding an object
  does not change what the others are called.
\<close>

locale registry =
  fixes entries :: "'s \<Rightarrow> 'a list"
    and admissible :: "'a \<Rightarrow> 's \<Rightarrow> bool"
    and matches :: "'s \<Rightarrow> 'k \<Rightarrow> 'a \<Rightarrow> bool"
    and add :: "'a \<Rightarrow> 's \<Rightarrow> (t_std_error \<times> 's) option"
    and lookup :: "'k \<Rightarrow> 's \<Rightarrow> ('a option \<times> 's) option"
  assumes add_ok:
      "admissible x s \<Longrightarrow> add x s = Some (STD_ERR_OK, s') \<Longrightarrow> entries s' = entries s @ [x]"
    and add_err:
      "admissible x s \<Longrightarrow> add x s = Some (e, s') \<Longrightarrow>
         entries s' = entries s \<or> entries s' = entries s @ [x]"
    and add_matches: "admissible x s \<Longrightarrow> add x s = Some (e, s') \<Longrightarrow> matches s' k y = matches s k y"
    and lookup_entries: "lookup k s = Some (r, s') \<Longrightarrow> entries s' = entries s"
    and lookup_matches: "lookup k s = Some (r, s') \<Longrightarrow> matches s' j y = matches s j y"
    and lookup_find: "lookup k s = Some (Some x, s') \<Longrightarrow> List.find (matches s k) (entries s) = Some x"
begin

lemma lookup_sound:
  assumes "lookup k s = Some (Some x, s')"
  shows "x \<in> set (entries s) \<and> matches s k x"
  using lookup_find [OF assms] by (rule find_Some_in_set)

lemma lookup_after_add_first:
  assumes "admissible x s" and "add x s = Some (STD_ERR_OK, s')"
    and "\<forall>y \<in> set (entries s). \<not> matches s k y" and "lookup k s' = Some (Some z, s'')"
  shows "z = x"
proof -
  have eq: "matches s' k = matches s k"
    by (rule ext) (rule add_matches [OF assms(1,2)])
  have "List.find (matches s k) (entries s @ [x]) = Some z"
    using lookup_find [OF assms(4)] add_ok [OF assms(1,2)] eq by simp
  moreover have "List.find (matches s k) (entries s) = None"
    using assms(3) by (simp add: find_None_set)
  ultimately show ?thesis by (simp add: find_append split: if_splits)
qed

lemma lookup_after_add_stable:
  assumes "admissible x s" and "add x s = Some (e, s')"
    and "List.find (matches s k) (entries s) = Some y" and "lookup k s' = Some (Some z, s'')"
  shows "z = y"
proof -
  have eq: "matches s' k = matches s k"
    by (rule ext) (rule add_matches [OF assms(1,2)])
  have "List.find (matches s k) (entries s') = Some z"
    using lookup_find [OF assms(4)] eq by simp
  then show ?thesis
    using add_err [OF assms(1,2)] assms(3) by (auto simp: find_append)
qed

lemma lookup_lookup:
  assumes "lookup k s = Some (Some x, s')" and "lookup k s' = Some (Some y, s'')"
  shows "y = x"
proof -
  have "matches s' k = matches s k"
    by (rule ext) (rule lookup_matches [OF assms(1)])
  then show ?thesis
    using lookup_find [OF assms(1)] lookup_find [OF assms(2)] lookup_entries [OF assms(1)] by simp
qed

end

end
