(* ===== verification/Bus_Framework.thy ===== *)
theory Bus_Framework
  imports Sdi_Prelude
begin

text \<open>
  The bus and driver frameworks: src/framework/sdi\_bus\_framework.c and
  src/framework/sdi\_driver\_framework.c, with the types of private/sdi\_bus.h and
  private/sdi\_driver\_internal.h.

  The framework keeps one list of registered buses per bus type, one list of devices per bus and
  the master list of devices. Bus and device handles are pointers: \<open>Bus_Hdl\<close> and \<open>Device_Hdl\<close>
  are their identities, and \<open>bus_heap\<close> is the memory the bus handles point to. A list node holds a
  handle that may be NULL, which the iterators test, so the lists hold options. The lists of the
  base library (std\_llist.h) are HOL lists, the configuration tree (std\_config\_node.h) is a
  datatype. Drivers are found by dlsym and called through function pointers; they are parameters,
  functions on the framework state, because a driver registers further buses and devices.
  A list node is known by the list it is in and its position. calloc does not fail.
\<close>

section \<open>The state of the framework\<close>

datatype bus_hdl = Bus_Hdl nat
datatype device_hdl = Device_Hdl nat

record sdi_bus =
  bus_type :: sdi_bus_type
  bus_id :: u32
  bus_name :: string
  sdi_device_list :: "device_hdl option list"

record 'w sdi_fw =
  bus_heap :: "bus_hdl \<Rightarrow> sdi_bus"
  sdi_bus_lists :: "sdi_bus_type \<Rightarrow> bus_hdl option list"
  device_list :: "device_hdl option list"
  dl_loaded :: bool
  os_world :: 'w

datatype bus_node = Bus_Node sdi_bus_type nat

fun bus_list_lock :: "sdi_bus_type \<Rightarrow> mutex" where
  "bus_list_lock t = Mutex (bus_type_index t)"

fun dev_list_lock :: "bus_hdl \<Rightarrow> mutex" where
  "dev_list_lock (Bus_Hdl n) = Mutex (bus_type_index SDI_MAX_BUS + n)"

definition fw_lock :: "'w os \<Rightarrow> mutex \<Rightarrow> 'w sdi_fw \<Rightarrow> (t_std_error \<times> 'w sdi_fw) option" where
  "fw_lock os m s = do {
     (e, w) \<leftarrow> std_mutex_lock os m (os_world s);
     Some (e, s\<lparr>os_world := w\<rparr>)
   }"

definition fw_unlock :: "'w os \<Rightarrow> mutex \<Rightarrow> 'w sdi_fw \<Rightarrow> (t_std_error \<times> 'w sdi_fw) option" where
  "fw_unlock os m s = do {
     (e, w) \<leftarrow> std_mutex_unlock os m (os_world s);
     Some (e, s\<lparr>os_world := w\<rparr>)
   }"

definition fw_lock_init :: "'w os \<Rightarrow> mutex \<Rightarrow> 'w sdi_fw \<Rightarrow> 'w sdi_fw" where
  "fw_lock_init os m s = s\<lparr>os_world := std_mutex_lock_init os m (os_world s)\<rparr>"

lemma fw_lock_frame [sdi_frame]:
  "fw_lock os m s = Some (e, s') \<Longrightarrow> \<exists>w. s' = s\<lparr>os_world := w\<rparr>"
  "fw_unlock os m s = Some (e, s') \<Longrightarrow> \<exists>w. s' = s\<lparr>os_world := w\<rparr>"
  by (auto simp: fw_lock_def fw_unlock_def bind_SomeD)

section \<open>Bus lists\<close>

definition sdi_bus_init_list :: "'w os \<Rightarrow> sdi_bus_type \<Rightarrow> 'w sdi_fw \<Rightarrow> 'w sdi_fw" where
  "sdi_bus_init_list os t s =
     fw_lock_init os (bus_list_lock t) (s\<lparr>sdi_bus_lists := (sdi_bus_lists s)(t := [])\<rparr>)"

definition sdi_bus_framework_init :: "'w os \<Rightarrow> 'w sdi_fw \<Rightarrow> 'w sdi_fw" where
  "sdi_bus_framework_init os s =
     fold (sdi_bus_init_list os)
       [SDI_I2C_BUS, SDI_PIN_BUS, SDI_PIN_GROUP_BUS, SDI_PSEUDO_BUS, SDI_IO_BUS, SDI_SF_IO_BUS,
        SDI_BMC_IO_BUS, SDI_FPGA_PCI_BUS] s"

definition sdi_bus_get_list_by_bus_type :: "sdi_bus_type \<Rightarrow> sdi_bus_type option" where
  "sdi_bus_get_list_by_bus_type t = (if t < SDI_MAX_BUS then Some t else None)"

definition sdi_bus_enqueue_list ::
    "'w os \<Rightarrow> sdi_bus_type \<Rightarrow> bus_hdl option \<Rightarrow> 'w sdi_fw \<Rightarrow> (t_std_error \<times> 'w sdi_fw) option" where
  "sdi_bus_enqueue_list os t bus s = do {
     (ret, s) \<leftarrow> fw_lock os (bus_list_lock t) s;
     if ret \<noteq> STD_ERR_OK then Some (ret, s)
     else fw_unlock os (bus_list_lock t)
            (s\<lparr>sdi_bus_lists := (sdi_bus_lists s)(t := sdi_bus_lists s t @ [bus])\<rparr>)
   }"

definition sdi_bus_dequeue_list ::
    "'w os \<Rightarrow> bus_node \<Rightarrow> 'w sdi_fw \<Rightarrow> (t_std_error \<times> 'w sdi_fw) option" where
  "sdi_bus_dequeue_list os node s =
     (case node of Bus_Node t i \<Rightarrow> do {
        STD_ASSERT (i < length (sdi_bus_lists s t));
        bus \<leftarrow> sdi_bus_lists s t ! i;
        l \<leftarrow> sdi_bus_get_list_by_bus_type (bus_type (bus_heap s bus));
        STD_ASSERT (l = t);
        (ret, s) \<leftarrow> fw_lock os (bus_list_lock l) s;
        if ret \<noteq> STD_ERR_OK then Some (ret, s)
        else fw_unlock os (bus_list_lock l)
               (s\<lparr>sdi_bus_lists := (sdi_bus_lists s)
                   (l := take i (sdi_bus_lists s l) @ drop (Suc i) (sdi_bus_lists s l))\<rparr>)
      })"

definition sdi_bus_register ::
    "'w os \<Rightarrow> bus_hdl \<Rightarrow> 'w sdi_fw \<Rightarrow> (t_std_error \<times> 'w sdi_fw) option" where
  "sdi_bus_register os b s = do {
     l \<leftarrow> sdi_bus_get_list_by_bus_type (bus_type (bus_heap s b));
     sdi_bus_enqueue_list os l (Some b)
       (fw_lock_init os (dev_list_lock b)
          (s\<lparr>bus_heap := (bus_heap s)(b := (bus_heap s b)\<lparr>sdi_device_list := []\<rparr>)\<rparr>))
   }"

text \<open>The scan of a list for the first node that satisfies a test: its position.\<close>

fun first_node :: "('a \<Rightarrow> bool) \<Rightarrow> nat \<Rightarrow> 'a list \<Rightarrow> nat option" where
  "first_node P i [] = None"
| "first_node P i (x # xs) = (if P x then Some i else first_node P (Suc i) xs)"

definition sdi_bus_get_node ::
    "'w os \<Rightarrow> bus_hdl \<Rightarrow> 'w sdi_fw \<Rightarrow> (bus_node option \<times> 'w sdi_fw) option" where
  "sdi_bus_get_node os bus s = do {
     l \<leftarrow> sdi_bus_get_list_by_bus_type (bus_type (bus_heap s bus));
     (ret, s) \<leftarrow> fw_lock os (bus_list_lock l) s;
     if ret \<noteq> STD_ERR_OK then Some (None, s)
     else do {
       let found = first_node (\<lambda>b. b = Some bus) 0 (sdi_bus_lists s l);
       (ret, s) \<leftarrow> fw_unlock os (bus_list_lock l) s;
       if ret \<noteq> STD_ERR_OK then Some (None, s)
       else Some (map_option (Bus_Node l) found, s)
     }
   }"

definition sdi_bus_unregister ::
    "'w os \<Rightarrow> bus_hdl \<Rightarrow> 'w sdi_fw \<Rightarrow> (t_std_error \<times> 'w sdi_fw) option" where
  "sdi_bus_unregister os bus s = do {
     (node, s) \<leftarrow> sdi_bus_get_node os bus s;
     n \<leftarrow> node;
     sdi_bus_dequeue_list os n s
   }"

text \<open>
  Iteration. The C loop walks the list while the callback runs, so a callback that appends to the
  list is visited too: the walk reads the list of the current state at each step. (A callback that
  removes the node it is called for leaves the C loop with a freed node; the model goes on with the
  node that moved to its place.)
\<close>

partial_function (option) bus_walk ::
    "sdi_bus_type \<Rightarrow> (bus_hdl \<Rightarrow> 'w sdi_fw \<Rightarrow> 'w sdi_fw option) \<Rightarrow> nat \<Rightarrow> 'w sdi_fw \<Rightarrow> 'w sdi_fw option"
  where
  "bus_walk t fn i s =
     (if i < length (sdi_bus_lists s t) then
        (case sdi_bus_lists s t ! i of
           None \<Rightarrow> bus_walk t fn (Suc i) s
         | Some b \<Rightarrow> fn b s \<bind> (\<lambda>s'. bus_walk t fn (Suc i) s'))
      else Some s)"

definition sdi_bus_for_each ::
    "'w os \<Rightarrow> sdi_bus_type \<Rightarrow> (bus_hdl \<Rightarrow> 'w sdi_fw \<Rightarrow> 'w sdi_fw option) \<Rightarrow> 'w sdi_fw
      \<Rightarrow> (t_std_error \<times> 'w sdi_fw) option" where
  "sdi_bus_for_each os t fn s = do {
     l \<leftarrow> sdi_bus_get_list_by_bus_type t;
     (ret, s) \<leftarrow> fw_lock os (bus_list_lock l) s;
     if ret \<noteq> STD_ERR_OK then Some (ret, s)
     else do {
       s \<leftarrow> bus_walk l fn 0 s;
       fw_unlock os (bus_list_lock l) s
     }
   }"

definition sdi_bus_for_each_bus_in_list ::
    "'w os \<Rightarrow> sdi_bus_type \<Rightarrow> (bus_hdl \<Rightarrow> 'w sdi_fw \<Rightarrow> 'w sdi_fw option) \<Rightarrow> 'w sdi_fw
      \<Rightarrow> 'w sdi_fw option" where
  "sdi_bus_for_each_bus_in_list os l fn s = do {
     (_, s) \<leftarrow> fw_lock os (bus_list_lock l) s;
     s \<leftarrow> bus_walk l fn 0 s;
     (_, s) \<leftarrow> fw_unlock os (bus_list_lock l) s;
     Some s
   }"

definition sdi_init_bus_for_each_bus_in_list ::
    "'w os \<Rightarrow> sdi_bus_type \<Rightarrow> (bus_hdl \<Rightarrow> 'w sdi_fw \<Rightarrow> (t_std_error \<times> 'w sdi_fw) option) option
      \<Rightarrow> (bus_hdl \<Rightarrow> 'w sdi_fw \<Rightarrow> 'w sdi_fw option) option \<Rightarrow> 'w sdi_fw \<Rightarrow> 'w sdi_fw option" where
  "sdi_init_bus_for_each_bus_in_list os l bus_init failure_handler s = do {
     (_, s) \<leftarrow> fw_lock os (bus_list_lock l) s;
     s \<leftarrow> bus_walk l
            (\<lambda>b s. case bus_init of
               None \<Rightarrow> Some s
             | Some init \<Rightarrow> do {
                 (error, s) \<leftarrow> init b s;
                 if error \<noteq> STD_ERR_OK then
                   (case failure_handler of None \<Rightarrow> Some s | Some h \<Rightarrow> h b s)
                 else Some s
               }) 0 s;
     (_, s) \<leftarrow> fw_unlock os (bus_list_lock l) s;
     Some s
   }"

section \<open>Looking up a bus\<close>

datatype bus_search = SDI_COMPARE_BY_NAME string | SDI_COMPARE_BY_ID u32

fun bus_compare :: "bus_search \<Rightarrow> sdi_bus \<Rightarrow> bool" where
  "bus_compare (SDI_COMPARE_BY_ID n) b = (n = bus_id b)"
| "bus_compare (SDI_COMPARE_BY_NAME n) b = strncmp_eq n (bus_name b) SDI_MAX_NAME_LEN"

definition node_compare :: "'w sdi_fw \<Rightarrow> bus_search \<Rightarrow> bus_hdl option \<Rightarrow> bool" where
  "node_compare s k node = (case node of None \<Rightarrow> False | Some b \<Rightarrow> bus_compare k (bus_heap s b))"

definition sdi_bus_get_handle ::
    "'w os \<Rightarrow> sdi_bus_type \<Rightarrow> bus_search \<Rightarrow> 'w sdi_fw \<Rightarrow> (bus_hdl option \<times> 'w sdi_fw) option" where
  "sdi_bus_get_handle os t k s = do {
     l \<leftarrow> sdi_bus_get_list_by_bus_type t;
     (ret, s) \<leftarrow> fw_lock os (bus_list_lock l) s;
     if ret \<noteq> STD_ERR_OK then Some (None, s)
     else do {
       let node = List.find (node_compare s k) (sdi_bus_lists s l);
       (ret, s) \<leftarrow> fw_unlock os (bus_list_lock l) s;
       if ret \<noteq> STD_ERR_OK then Some (None, s)
       else Some (case node of None \<Rightarrow> None | Some b \<Rightarrow> b, s)
     }
   }"

definition sdi_bus_get_handle_by_name ::
    "'w os \<Rightarrow> string \<Rightarrow> sdi_bus_type \<Rightarrow> 'w sdi_fw \<Rightarrow> (bus_hdl option \<times> 'w sdi_fw) option" where
  "sdi_bus_get_handle_by_name os n t = sdi_bus_get_handle os t (SDI_COMPARE_BY_NAME n)"

definition sdi_bus_get_handle_by_id ::
    "'w os \<Rightarrow> u32 \<Rightarrow> sdi_bus_type \<Rightarrow> 'w sdi_fw \<Rightarrow> (bus_hdl option \<times> 'w sdi_fw) option" where
  "sdi_bus_get_handle_by_id os n t = sdi_bus_get_handle os t (SDI_COMPARE_BY_ID n)"

definition sdi_is_i2c_bus :: "sdi_bus \<Rightarrow> bool" where
  "sdi_is_i2c_bus b = (if bus_type b = SDI_I2C_BUS then True else False)"

definition sdi_is_pin_bus :: "sdi_bus \<Rightarrow> bool" where
  "sdi_is_pin_bus b = (if bus_type b = SDI_PIN_BUS then True else False)"

definition sdi_is_pin_group_bus :: "sdi_bus \<Rightarrow> bool" where
  "sdi_is_pin_group_bus b = (if bus_type b = SDI_PIN_GROUP_BUS then True else False)"

definition sdi_is_io_bus :: "sdi_bus \<Rightarrow> bool" where
  "sdi_is_io_bus b = (if bus_type b = SDI_IO_BUS then True else False)"

section \<open>Drivers\<close>

text \<open>
  The configuration tree. std\_config\_get\_child and std\_config\_next\_node walk the children in
  order; std\_config\_name\_get is the tag of a node, std\_config\_attr\_get an attribute of it.
\<close>

datatype config_node =
  Config_Node (std_config_name_get: string) (std_config_attrs: "(string \<times> string) list")
    (std_config_children: "config_node list")

definition std_config_attr_get :: "config_node \<Rightarrow> string \<Rightarrow> string option" where
  "std_config_attr_get n a = map_of (std_config_attrs n) a"

record 'w sdi_bus_driver =
  drv_bus_register :: "config_node \<Rightarrow> 'w sdi_fw \<Rightarrow> (t_std_error \<times> bus_hdl option \<times> 'w sdi_fw) option"
  drv_bus_init :: "bus_hdl option \<Rightarrow> 'w sdi_fw \<Rightarrow> (t_std_error \<times> 'w sdi_fw) option"

record 'w sdi_driver =
  register_fn ::
    "config_node \<Rightarrow> bus_hdl \<Rightarrow> 'w sdi_fw \<Rightarrow> (t_std_error \<times> device_hdl option \<times> 'w sdi_fw) option"
  init_fn :: "device_hdl \<Rightarrow> 'w sdi_fw \<Rightarrow> (t_std_error \<times> 'w sdi_fw) option"

text \<open>
  The driver library as dlsym shows it: the value of a call to a bus or device entry function, if
  the symbol exists (the function may return NULL), the older \<open>_entry\<close> variables, and the driver
  a device was created by (the \<open>callbacks\<close> of its entry).
\<close>

record 'w driver_lib =
  dlsym_bus_callbacks :: "string \<Rightarrow> 'w sdi_bus_driver option option"
  dlsym_dev_callbacks :: "string \<Rightarrow> 'w sdi_driver option option"
  dlsym_dev_entry :: "string \<Rightarrow> 'w sdi_driver option"
  device_callbacks :: "device_hdl \<Rightarrow> 'w sdi_driver"

definition entry_str :: "string \<Rightarrow> string" where
  "entry_str s = take (SDI_MAX_NAME_LEN - 1) s"

definition sdi_get_device_driver :: "'w driver_lib \<Rightarrow> string \<Rightarrow> 'w sdi_fw \<Rightarrow> 'w sdi_driver option" where
  "sdi_get_device_driver dl driver_name s = do {
     STD_ASSERT (dl_loaded s);
     case dlsym_dev_callbacks dl (entry_str (''sdi_'' @ driver_name @ ''_entry_callbacks'')) of
       None \<Rightarrow> dlsym_dev_entry dl (entry_str (driver_name @ ''_entry''))
     | Some r \<Rightarrow> r
   }"

definition sdi_get_bus_driver :: "'w driver_lib \<Rightarrow> string \<Rightarrow> 'w sdi_fw \<Rightarrow> 'w sdi_bus_driver option" where
  "sdi_get_bus_driver dl bus_driver_name s = do {
     STD_ASSERT (dl_loaded s);
     r \<leftarrow> dlsym_bus_callbacks dl (entry_str (bus_driver_name @ ''_entry_callbacks''));
     r
   }"

definition sdi_bus_get_symbol :: "'w driver_lib \<Rightarrow> config_node \<Rightarrow> 'w sdi_fw \<Rightarrow> 'w sdi_bus_driver option" where
  "sdi_bus_get_symbol dl node s = sdi_get_bus_driver dl (std_config_name_get node) s"

primrec register_bus_nodes :: "'w driver_lib \<Rightarrow> config_node list \<Rightarrow> 'w sdi_fw \<Rightarrow> 'w sdi_fw option" where
  "register_bus_nodes dl [] s = Some s"
| "register_bus_nodes dl (n # ns) s = do {
     drv \<leftarrow> sdi_bus_get_symbol dl n s;
     (e, bus, s) \<leftarrow> drv_bus_register drv n s;
     if e = STD_ERR_OK then do {
       (_, s) \<leftarrow> drv_bus_init drv bus s;
       register_bus_nodes dl ns s
     } else register_bus_nodes dl ns s
   }"

definition sdi_bus_register_node :: "'w driver_lib \<Rightarrow> config_node \<Rightarrow> 'w sdi_fw \<Rightarrow> 'w sdi_fw option" where
  "sdi_bus_register_node dl root s = register_bus_nodes dl (std_config_children root) s"

definition sdi_add_device :: "device_hdl option \<Rightarrow> 'w sdi_fw \<Rightarrow> 'w sdi_fw" where
  "sdi_add_device hdl s = s\<lparr>device_list := hdl # device_list s\<rparr>"

definition sdi_register_driver ::
    "'w driver_lib \<Rightarrow> config_node \<Rightarrow> bus_hdl \<Rightarrow> device_hdl option \<Rightarrow> 'w sdi_fw
      \<Rightarrow> (t_std_error \<times> device_hdl option \<times> 'w sdi_fw) option" where
  "sdi_register_driver dl node bus device_hdl s = do {
     driver \<leftarrow> sdi_get_device_driver dl (std_config_name_get node) s;
     (error, dev_hdl, s) \<leftarrow> register_fn driver node bus s;
     if error = STD_ERR_OK then Some (error, dev_hdl, sdi_add_device dev_hdl s)
     else Some (error, device_hdl, s)
   }"

definition sdi_register_drivers ::
    "'w driver_lib \<Rightarrow> (string \<Rightarrow> config_node option) \<Rightarrow> bool \<Rightarrow> string \<Rightarrow> 'w sdi_fw \<Rightarrow> 'w sdi_fw option" where
  "sdi_register_drivers dl config_load dlopen_ok driver_cfg_file s = do {
     root \<leftarrow> config_load driver_cfg_file;
     let s = s\<lparr>device_list := [], dl_loaded := dlopen_ok\<rparr>;
     STD_ASSERT (dl_loaded s);
     sdi_bus_register_node dl root s
   }"

definition sdi_device_init ::
    "'w driver_lib \<Rightarrow> device_hdl option \<Rightarrow> 'w sdi_fw \<Rightarrow> (t_std_error \<times> 'w sdi_fw) option" where
  "sdi_device_init dl device s = do { d \<leftarrow> device; init_fn (device_callbacks dl d) d s }"

section \<open>The devices of a bus\<close>

definition sdi_attach_device_to_bus ::
    "'w os \<Rightarrow> bus_hdl \<Rightarrow> device_hdl option \<Rightarrow> 'w sdi_fw \<Rightarrow> 'w sdi_fw option" where
  "sdi_attach_device_to_bus os b dev s = do {
     (_, s) \<leftarrow> fw_lock os (dev_list_lock b) s;
     (_, s) \<leftarrow> fw_unlock os (dev_list_lock b)
        (s\<lparr>bus_heap := (bus_heap s)
             (b := (bus_heap s b)\<lparr>sdi_device_list := sdi_device_list (bus_heap s b) @ [dev]\<rparr>)\<rparr>);
     Some s
   }"

primrec register_device_nodes ::
    "'w os \<Rightarrow> 'w driver_lib \<Rightarrow> config_node list \<Rightarrow> bus_hdl \<Rightarrow> device_hdl option \<Rightarrow> 'w sdi_fw
      \<Rightarrow> 'w sdi_fw option" where
  "register_device_nodes os dl [] b device_hdl s = Some s"
| "register_device_nodes os dl (n # ns) b device_hdl s = do {
     (_, device_hdl, s) \<leftarrow> sdi_register_driver dl n b device_hdl s;
     s \<leftarrow> sdi_attach_device_to_bus os b device_hdl s;
     register_device_nodes os dl ns b device_hdl s
   }"

definition sdi_bus_register_device_list ::
    "'w os \<Rightarrow> 'w driver_lib \<Rightarrow> config_node \<Rightarrow> bus_hdl \<Rightarrow> 'w sdi_fw \<Rightarrow> 'w sdi_fw option" where
  "sdi_bus_register_device_list os dl bus_node b s =
     register_device_nodes os dl (std_config_children bus_node) b None s"

definition sdi_bus_get_first_device ::
    "'w os \<Rightarrow> bus_hdl \<Rightarrow> 'w sdi_fw \<Rightarrow> (nat option \<times> 'w sdi_fw) option" where
  "sdi_bus_get_first_device os b s = do {
     (_, s) \<leftarrow> fw_lock os (dev_list_lock b) s;
     let node = (if sdi_device_list (bus_heap s b) = [] then None else Some 0);
     (_, s) \<leftarrow> fw_unlock os (dev_list_lock b) s;
     Some (node, s)
   }"

definition sdi_bus_get_next_device ::
    "'w os \<Rightarrow> bus_hdl \<Rightarrow> nat \<Rightarrow> 'w sdi_fw \<Rightarrow> (nat option \<times> 'w sdi_fw) option" where
  "sdi_bus_get_next_device os b device_node s = do {
     (_, s) \<leftarrow> fw_lock os (dev_list_lock b) s;
     let node = (if Suc device_node < length (sdi_device_list (bus_heap s b))
                 then Some (Suc device_node) else None);
     (_, s) \<leftarrow> fw_unlock os (dev_list_lock b) s;
     Some (node, s)
   }"

partial_function (option) init_devices_from ::
    "'w os \<Rightarrow> 'w driver_lib \<Rightarrow> bus_hdl \<Rightarrow> nat option \<Rightarrow> 'w sdi_fw \<Rightarrow> 'w sdi_fw option" where
  "init_devices_from os dl b node s =
     (case node of
        None \<Rightarrow> Some s
      | Some i \<Rightarrow>
          sdi_device_init dl (sdi_device_list (bus_heap s b) ! i) s \<bind> (\<lambda>(_, s).
          sdi_bus_get_next_device os b i s \<bind> (\<lambda>(next_node, s).
          init_devices_from os dl b next_node s)))"

definition sdi_bus_init_device_list ::
    "'w os \<Rightarrow> 'w driver_lib \<Rightarrow> bus_hdl \<Rightarrow> 'w sdi_fw \<Rightarrow> 'w sdi_fw option" where
  "sdi_bus_init_device_list os dl b s = do {
     (node, s) \<leftarrow> sdi_bus_get_first_device os b s;
     init_devices_from os dl b node s
   }"

section \<open>The bus lists are registries\<close>

lemmas fw_simps = fw_lock_def fw_unlock_def fw_lock_init_def bind_SomeD Let_def

lemma sdi_bus_enqueue_list_effect:
  assumes "sdi_bus_enqueue_list os t n s = Some (e, s')"
  shows "bus_heap s' = bus_heap s \<and>
    (sdi_bus_lists s' = sdi_bus_lists s \<and> e \<noteq> STD_ERR_OK \<or>
     sdi_bus_lists s' = (sdi_bus_lists s)(t := sdi_bus_lists s t @ [n]))"
proof -
  obtain r s1 where lock: "fw_lock os (bus_list_lock t) s = Some (r, s1)"
    and rest: "(if r \<noteq> STD_ERR_OK then Some (r, s1)
        else fw_unlock os (bus_list_lock t)
          (s1\<lparr>sdi_bus_lists := (sdi_bus_lists s1)(t := sdi_bus_lists s1 t @ [n])\<rparr>)) = Some (e, s')"
    using assms by (auto simp: sdi_bus_enqueue_list_def bind_SomeD)
  obtain w where s1: "s1 = s\<lparr>os_world := w\<rparr>"
    using fw_lock_frame(1) [OF lock] by blast
  show ?thesis
  proof (cases "r = STD_ERR_OK")
    case True
    then obtain w' where
      "s' = s\<lparr>os_world := w, sdi_bus_lists := (sdi_bus_lists s)(t := sdi_bus_lists s t @ [n]), os_world := w'\<rparr>"
      using rest s1 fw_lock_frame(2) by fastforce
    then show ?thesis by simp
  next
    case False
    then show ?thesis using rest s1 by auto
  qed
qed

lemma sdi_bus_register_effect:
  assumes "sdi_bus_register os b s = Some (e, s')"
  shows "bus_type (bus_heap s b) \<noteq> SDI_MAX_BUS \<and>
    bus_heap s' = (bus_heap s)(b := (bus_heap s b)\<lparr>sdi_device_list := []\<rparr>) \<and>
    (sdi_bus_lists s' = sdi_bus_lists s \<and> e \<noteq> STD_ERR_OK \<or>
     sdi_bus_lists s' = (sdi_bus_lists s)
       (bus_type (bus_heap s b) := sdi_bus_lists s (bus_type (bus_heap s b)) @ [Some b]))"
  using assms
  by (auto simp: sdi_bus_register_def sdi_bus_get_list_by_bus_type_def fw_lock_init_def
      split: if_splits dest: sdi_bus_enqueue_list_effect)

lemma sdi_bus_get_handle_effect:
  assumes "sdi_bus_get_handle os t k s = Some (r, s')"
  shows "t \<noteq> SDI_MAX_BUS \<and> (\<exists>w. s' = s\<lparr>os_world := w\<rparr>)"
  using assms
  by (fastforce simp: sdi_bus_get_handle_def sdi_bus_get_list_by_bus_type_def fw_simps split: if_splits)

lemma node_compare_Some_iff:
  "node_compare s k n \<longleftrightarrow> (\<exists>b. n = Some b \<and> bus_compare k (bus_heap s b))"
  by (auto simp: node_compare_def split: option.splits)

lemma bus_compare_device_list [simp]:
  "bus_compare k (b\<lparr>sdi_device_list := d\<rparr>) = bus_compare k b"
  by (cases k) simp_all

lemma node_compare_world [simp]: "node_compare (s\<lparr>os_world := w\<rparr>) = node_compare s"
  by (intro ext) (simp add: node_compare_Some_iff)

lemma sdi_bus_get_handle_found:
  assumes "sdi_bus_get_handle os t k s = Some (Some b, s')"
  shows "List.find (node_compare s k) (sdi_bus_lists s t) = Some (Some b)"
proof -
  obtain n where "List.find (node_compare s k) (sdi_bus_lists s t) = Some n" and "n = Some b"
    using assms
    by (auto simp: sdi_bus_get_handle_def sdi_bus_get_list_by_bus_type_def fw_simps
        split: if_splits option.splits)
  then show ?thesis by simp
qed

definition bus_registry_add ::
    "'w os \<Rightarrow> bus_hdl option \<Rightarrow> 'w sdi_fw \<Rightarrow> (t_std_error \<times> 'w sdi_fw) option" where
  "bus_registry_add os n s = do { b \<leftarrow> n; sdi_bus_register os b s }"

definition bus_registry_lookup ::
    "'w os \<Rightarrow> sdi_bus_type \<Rightarrow> bus_search \<Rightarrow> 'w sdi_fw \<Rightarrow> (bus_hdl option option \<times> 'w sdi_fw) option"
  where
  "bus_registry_lookup os t k s = do {
     (r, s) \<leftarrow> sdi_bus_get_handle os t k s;
     Some (map_option Some r, s)
   }"

interpretation bus_registry: registry
  "\<lambda>s. sdi_bus_lists s t"
  "\<lambda>n s. \<forall>b. n = Some b \<longrightarrow> bus_type (bus_heap s b) = t"
  node_compare
  "bus_registry_add os"
  "bus_registry_lookup os t"
  for t :: sdi_bus_type and os :: "'w os"
proof unfold_locales
  fix n :: "bus_hdl option" and s s' :: "'w sdi_fw" and e r k y
  assume typed: "\<forall>b. n = Some b \<longrightarrow> bus_type (bus_heap s b) = t"
  {
    assume "bus_registry_add os n s = Some (STD_ERR_OK, s')"
    then show "sdi_bus_lists s' t = sdi_bus_lists s t @ [n]"
      using typed by (auto simp: bus_registry_add_def bind_SomeD dest: sdi_bus_register_effect)
  next
    assume "bus_registry_add os n s = Some (e, s')"
    then show "sdi_bus_lists s' t = sdi_bus_lists s t \<or> sdi_bus_lists s' t = sdi_bus_lists s t @ [n]"
      using typed by (auto simp: bus_registry_add_def bind_SomeD dest: sdi_bus_register_effect)
  next
    assume "bus_registry_add os n s = Some (e, s')"
    then show "node_compare s' k y = node_compare s k y"
      by (auto simp: bus_registry_add_def bind_SomeD node_compare_Some_iff split: if_splits
          dest!: sdi_bus_register_effect)
  }
next
  fix s s' :: "'w sdi_fw" and r k j y
  assume "bus_registry_lookup os t k s = Some (r, s')"
  then obtain w where s': "s' = s\<lparr>os_world := w\<rparr>"
    by (auto simp: bus_registry_lookup_def bind_SomeD dest: sdi_bus_get_handle_effect)
  then show "sdi_bus_lists s' t = sdi_bus_lists s t" by simp
  from s' show "node_compare s' j y = node_compare s j y" by simp
next
  fix s s' :: "'w sdi_fw" and k x
  assume "bus_registry_lookup os t k s = Some (Some x, s')"
  then show "List.find (node_compare s k) (sdi_bus_lists s t) = Some x"
    by (auto simp: bus_registry_lookup_def bind_SomeD dest: sdi_bus_get_handle_found)
qed

section \<open>Reachable framework states\<close>

text \<open>
  The states the framework can get into from its initialisation by the calls of drivers and
  clients, whatever the locks answer.
\<close>

inductive fw_reachable :: "'w os \<Rightarrow> 'w sdi_fw \<Rightarrow> bool" for os :: "'w os" where
  fw_init: "fw_reachable os (sdi_bus_framework_init os s)"
| fw_register: "fw_reachable os s \<Longrightarrow> sdi_bus_register os b s = Some (e, s') \<Longrightarrow> fw_reachable os s'"
| fw_unregister: "fw_reachable os s \<Longrightarrow> sdi_bus_unregister os b s = Some (e, s') \<Longrightarrow> fw_reachable os s'"
| fw_get_handle: "fw_reachable os s \<Longrightarrow> sdi_bus_get_handle os t k s = Some (r, s') \<Longrightarrow> fw_reachable os s'"
| fw_attach: "fw_reachable os s \<Longrightarrow> sdi_attach_device_to_bus os b d s = Some s' \<Longrightarrow> fw_reachable os s'"
| fw_first: "fw_reachable os s \<Longrightarrow> sdi_bus_get_first_device os b s = Some (n, s') \<Longrightarrow> fw_reachable os s'"
| fw_next: "fw_reachable os s \<Longrightarrow> sdi_bus_get_next_device os b i s = Some (n, s') \<Longrightarrow> fw_reachable os s'"

definition bus_lists_typed :: "'w sdi_fw \<Rightarrow> bool" where
  "bus_lists_typed s \<longleftrightarrow>
     (\<forall>t. t \<noteq> SDI_MAX_BUS \<longrightarrow>
        (\<forall>n \<in> set (sdi_bus_lists s t). \<exists>b. n = Some b \<and> bus_type (bus_heap s b) = t))"

lemma bus_lists_typed_frame [sdi_frame]:
  assumes "bus_lists_typed s" and "\<And>t. set (sdi_bus_lists s' t) \<subseteq> set (sdi_bus_lists s t)"
    and "\<And>b. bus_type (bus_heap s' b) = bus_type (bus_heap s b)"
  shows "bus_lists_typed s'"
  using assms unfolding bus_lists_typed_def by (metis subsetD)

lemma bus_lists_typed_init: "bus_lists_typed (sdi_bus_framework_init os s)"
  unfolding bus_lists_typed_def
proof (intro allI impI ballI)
  fix t n
  assume "t \<noteq> SDI_MAX_BUS" and "n \<in> set (sdi_bus_lists (sdi_bus_framework_init os s) t)"
  then show "\<exists>b. n = Some b \<and> bus_type (bus_heap (sdi_bus_framework_init os s) b) = t"
    by (cases t) (simp_all add: sdi_bus_framework_init_def sdi_bus_init_list_def fw_lock_init_def)
qed

lemma bus_lists_typed_register:
  assumes "bus_lists_typed s" and "sdi_bus_register os b s = Some (e, s')"
  shows "bus_lists_typed s'"
  unfolding bus_lists_typed_def
proof (intro allI impI ballI)
  fix t n
  assume t: "t \<noteq> SDI_MAX_BUS" and n: "n \<in> set (sdi_bus_lists s' t)"
  have heap: "bus_type (bus_heap s' c) = bus_type (bus_heap s c)" for c
    using sdi_bus_register_effect [OF assms(2)] by simp
  have "n \<in> set (sdi_bus_lists s t) \<or> n = Some b \<and> bus_type (bus_heap s b) = t"
    using sdi_bus_register_effect [OF assms(2)] n by (auto split: if_splits)
  then show "\<exists>b. n = Some b \<and> bus_type (bus_heap s' b) = t"
    unfolding heap using assms(1) t unfolding bus_lists_typed_def by blast
qed

lemma sdi_bus_get_node_effect:
  assumes "sdi_bus_get_node os b s = Some (n, s')"
  shows "\<exists>w. s' = s\<lparr>os_world := w\<rparr>"
  using assms
  by (fastforce simp: sdi_bus_get_node_def sdi_bus_get_list_by_bus_type_def fw_simps split: if_splits)

lemma sdi_bus_dequeue_list_effect:
  assumes "sdi_bus_dequeue_list os n s = Some (e, s')"
  shows "bus_heap s' = bus_heap s \<and> set (sdi_bus_lists s' t) \<subseteq> set (sdi_bus_lists s t)"
  using assms
  by (cases n)
    (auto simp: sdi_bus_dequeue_list_def sdi_bus_get_list_by_bus_type_def fw_simps
      split: if_splits dest: in_set_takeD in_set_dropD)

lemma bus_lists_typed_unregister:
  assumes "bus_lists_typed s" and "sdi_bus_unregister os b s = Some (e, s')"
  shows "bus_lists_typed s'"
proof -
  obtain n s1 where s1: "sdi_bus_get_node os b s = Some (Some n, s1)"
    and s': "sdi_bus_dequeue_list os n s1 = Some (e, s')"
    using assms(2) by (auto simp: sdi_bus_unregister_def bind_SomeD)
  have "bus_lists_typed s1"
    using assms(1) sdi_bus_get_node_effect [OF s1] by (auto simp: bus_lists_typed_def)
  then show ?thesis
    by (rule bus_lists_typed_frame) (use sdi_bus_dequeue_list_effect [OF s'] in auto)
qed

lemma device_calls_effect:
  "sdi_attach_device_to_bus os b d s = Some s' \<Longrightarrow>
     sdi_bus_lists s' = sdi_bus_lists s \<and> bus_type (bus_heap s' c) = bus_type (bus_heap s c)"
  "sdi_bus_get_first_device os b s = Some (n, s') \<Longrightarrow> \<exists>w. s' = s\<lparr>os_world := w\<rparr>"
  "sdi_bus_get_next_device os b i s = Some (n, s') \<Longrightarrow> \<exists>w. s' = s\<lparr>os_world := w\<rparr>"
  by (auto simp: sdi_attach_device_to_bus_def sdi_bus_get_first_device_def
      sdi_bus_get_next_device_def fw_simps)

lemma bus_lists_typed_reachable: "fw_reachable os s \<Longrightarrow> bus_lists_typed s"
proof (induction rule: fw_reachable.induct)
  case (fw_attach s b d s')
  then show ?case
    by (intro bus_lists_typed_frame [OF fw_attach.IH])
      (simp_all add: device_calls_effect(1) [OF fw_attach.hyps(2)])
next
  case (fw_get_handle s t k r s')
  then show ?case using sdi_bus_get_handle_effect [OF fw_get_handle.hyps(2)]
    by (auto simp: bus_lists_typed_def)
next
  case (fw_first s b n s')
  then show ?case using device_calls_effect(2) [OF fw_first.hyps(2)]
    by (auto simp: bus_lists_typed_def)
next
  case (fw_next s b i n s')
  then show ?case using device_calls_effect(3) [OF fw_next.hyps(2)]
    by (auto simp: bus_lists_typed_def)
next
  case (fw_register s b e s')
  then show ?case by (blast intro: bus_lists_typed_register)
next
  case (fw_unregister s b e s')
  then show ?case by (blast intro: bus_lists_typed_unregister)
qed (rule bus_lists_typed_init)

section \<open>What the framework guarantees\<close>

lemma fw_lock_reliable:
  assumes "os_reliable os"
  obtains w1 where "fw_lock os m s = Some (STD_ERR_OK, s\<lparr>os_world := w1\<rparr>)"
proof -
  obtain w1 where "std_mutex_lock os m (os_world s) = Some (STD_ERR_OK, w1)"
    using os_reliableE [OF assms] .
  then have "fw_lock os m s = Some (STD_ERR_OK, s\<lparr>os_world := w1\<rparr>)"
    by (simp add: fw_lock_def)
  then show ?thesis by (rule that)
qed

lemma fw_unlock_reliable:
  assumes "os_reliable os"
  obtains w1 where "fw_unlock os m s = Some (STD_ERR_OK, s\<lparr>os_world := w1\<rparr>)"
proof -
  obtain w1 where "std_mutex_unlock os m (os_world s) = Some (STD_ERR_OK, w1)"
    using os_reliable_unlockE [OF assms] .
  then have "fw_unlock os m s = Some (STD_ERR_OK, s\<lparr>os_world := w1\<rparr>)"
    by (simp add: fw_unlock_def)
  then show ?thesis by (rule that)
qed

lemma sdi_bus_register_reliable:
  assumes "os_reliable os" and "bus_type (bus_heap s b) \<noteq> SDI_MAX_BUS"
  obtains s' where "sdi_bus_register os b s = Some (STD_ERR_OK, s')"
proof -
  let ?t = "bus_type (bus_heap s b)"
  let ?s0 = "fw_lock_init os (dev_list_lock b)
          (s\<lparr>bus_heap := (bus_heap s)(b := (bus_heap s b)\<lparr>sdi_device_list := []\<rparr>)\<rparr>)"
  obtain w1 where l: "fw_lock os (bus_list_lock ?t) ?s0 = Some (STD_ERR_OK, ?s0\<lparr>os_world := w1\<rparr>)"
    using fw_lock_reliable [OF assms(1)] .
  let ?s1 = "?s0\<lparr>os_world := w1\<rparr>"
  let ?s2 = "?s1\<lparr>sdi_bus_lists := (sdi_bus_lists ?s1)(?t := sdi_bus_lists ?s1 ?t @ [Some b])\<rparr>"
  obtain w2 where u: "fw_unlock os (bus_list_lock ?t) ?s2 = Some (STD_ERR_OK, ?s2\<lparr>os_world := w2\<rparr>)"
    using fw_unlock_reliable [OF assms(1)] .
  have "sdi_bus_register os b s = Some (STD_ERR_OK, ?s2\<lparr>os_world := w2\<rparr>)"
    using assms(2) l u
    by (simp add: sdi_bus_register_def sdi_bus_enqueue_list_def sdi_bus_get_list_by_bus_type_def)
  then show ?thesis by (rule that)
qed

lemma sdi_bus_get_handle_reliable:
  assumes "os_reliable os" and "t \<noteq> SDI_MAX_BUS"
    and "List.find (node_compare s k) (sdi_bus_lists s t) = Some (Some b)"
  obtains s' where "sdi_bus_get_handle os t k s = Some (Some b, s')"
proof -
  obtain w1 where l: "fw_lock os (bus_list_lock t) s = Some (STD_ERR_OK, s\<lparr>os_world := w1\<rparr>)"
    using fw_lock_reliable [OF assms(1)] .
  obtain w2 where u: "fw_unlock os (bus_list_lock t) (s\<lparr>os_world := w1\<rparr>) =
      Some (STD_ERR_OK, s\<lparr>os_world := w1\<rparr>\<lparr>os_world := w2\<rparr>)"
    using fw_unlock_reliable [OF assms(1)] .
  have "sdi_bus_get_handle os t k s = Some (Some b, s\<lparr>os_world := w2\<rparr>)"
    using l u assms(2,3)
    by (simp add: sdi_bus_get_handle_def sdi_bus_get_list_by_bus_type_def Let_def
        del: bus_list_lock.simps)
  then show ?thesis by (rule that)
qed

lemma node_compare_register:
  assumes "sdi_bus_register os b s = Some (e, s')"
  shows "node_compare s' k = node_compare s k"
proof (intro ext)
  fix y
  show "node_compare s' k y = node_compare s k y"
    by (rule bus_registry.add_matches [where x = "Some b" and e = e and os = os and
          t = "bus_type (bus_heap s b)"]) (simp_all add: bus_registry_add_def assms)
qed

text \<open>
  C1. A registered bus is found. When the mutexes work, sdi\_bus\_register of a bus of a real bus
  type succeeds, puts the bus at the end of the list of its type and clears its device list, and
  sdi\_bus\_get\_handle\_by\_name then returns this bus, unless a bus registered earlier answers to the
  same name.
\<close>

theorem bus_register_then_found:
  assumes "os_reliable os" and "bus_type (bus_heap s b) \<noteq> SDI_MAX_BUS"
    and "\<forall>n \<in> set (sdi_bus_lists s (bus_type (bus_heap s b))).
           \<not> node_compare s (SDI_COMPARE_BY_NAME (bus_name (bus_heap s b))) n"
  shows "\<exists>s1 s2. sdi_bus_register os b s = Some (STD_ERR_OK, s1) \<and>
    sdi_bus_lists s1 = (sdi_bus_lists s)
      (bus_type (bus_heap s b) := sdi_bus_lists s (bus_type (bus_heap s b)) @ [Some b]) \<and>
    sdi_device_list (bus_heap s1 b) = [] \<and>
    sdi_bus_get_handle_by_name os (bus_name (bus_heap s b)) (bus_type (bus_heap s b)) s1 =
      Some (Some b, s2)"
proof -
  let ?t = "bus_type (bus_heap s b)" and ?k = "SDI_COMPARE_BY_NAME (bus_name (bus_heap s b))"
  obtain s1 where s1: "sdi_bus_register os b s = Some (STD_ERR_OK, s1)"
    using sdi_bus_register_reliable [OF assms(1,2)] .
  note eff = sdi_bus_register_effect [OF s1]
  have "List.find (node_compare s1 ?k) (sdi_bus_lists s1 ?t) = Some (Some b)"
    using assms(3) eff
    by (simp add: node_compare_register [OF s1] find_append find_None_set [THEN iffD2]
        node_compare_Some_iff)
  then obtain s2 where "sdi_bus_get_handle os ?t ?k s1 = Some (Some b, s2)"
    using sdi_bus_get_handle_reliable [OF assms(1,2)] by blast
  then show ?thesis
    using s1 eff unfolding sdi_bus_get_handle_by_name_def by auto
qed

text \<open>
  C2. Lookup is sound in every state the framework reaches: a handle that sdi\_bus\_get\_handle
  returns for a bus type and a key belongs to a registered bus of exactly this type, matches the
  key, and every bus registered before it does not match.
\<close>

theorem bus_lookup_sound:
  assumes "fw_reachable os s" and "sdi_bus_get_handle os t k s = Some (Some b, s')"
  shows "bus_type (bus_heap s b) = t \<and> bus_compare k (bus_heap s b) \<and>
    (\<exists>before after. sdi_bus_lists s t = before @ Some b # after \<and>
       (\<forall>c. Some c \<in> set before \<longrightarrow> \<not> bus_compare k (bus_heap s c)))"
proof -
  have found: "List.find (node_compare s k) (sdi_bus_lists s t) = Some (Some b)"
    by (rule sdi_bus_get_handle_found [OF assms(2)])
  then obtain i where i: "i < length (sdi_bus_lists s t)" "sdi_bus_lists s t ! i = Some b"
      "node_compare s k (Some b)" "\<And>j. j < i \<Longrightarrow> \<not> node_compare s k (sdi_bus_lists s t ! j)"
    by (auto simp: find_Some_iff)
  have "sdi_bus_lists s t = take i (sdi_bus_lists s t) @ Some b # drop (Suc i) (sdi_bus_lists s t)"
    using i(1,2) by (metis id_take_nth_drop)
  moreover have "\<forall>c. Some c \<in> set (take i (sdi_bus_lists s t)) \<longrightarrow> \<not> bus_compare k (bus_heap s c)"
    using i(1,4) by (fastforce simp: in_set_conv_nth node_compare_Some_iff)
  moreover have "bus_type (bus_heap s b) = t"
    using bus_lists_typed_reachable [OF assms(1)] sdi_bus_get_handle_effect [OF assms(2)]
      nth_mem [OF i(1)] i(2) unfolding bus_lists_typed_def by fastforce
  ultimately show ?thesis using i(3) by (auto simp: node_compare_Some_iff)
qed

text \<open>A concrete framework state for the witnesses: one I2C bus in memory, no bus registered.\<close>

definition sample_fw :: "mutex list sdi_fw" where
  "sample_fw = \<lparr>
     bus_heap = (\<lambda>_. \<lparr>bus_type = SDI_I2C_BUS, bus_id = 7, bus_name = ''i2c-7'', sdi_device_list = []\<rparr>),
     sdi_bus_lists = (\<lambda>_. []), device_list = [], dl_loaded = True, os_world = []\<rparr>"

lemma bus_register_then_found_witness:
  "\<exists>s1 s2. sdi_bus_register sample_os (Bus_Hdl 0) sample_fw = Some (STD_ERR_OK, s1) \<and>
    sdi_bus_get_handle_by_name sample_os ''i2c-7'' SDI_I2C_BUS s1 = Some (Some (Bus_Hdl 0), s2)"
  using bus_register_then_found [OF sample_os_reliable, of sample_fw "Bus_Hdl 0"]
  by (auto simp: sample_fw_def)

lemma bus_lookup_sound_witness:
  "let s = sdi_bus_framework_init sample_os sample_fw;
       s1 = snd (the (sdi_bus_register sample_os (Bus_Hdl 3) s))
   in bus_type (bus_heap s1 (Bus_Hdl 3)) = SDI_I2C_BUS"
proof -
  let ?s = "sdi_bus_framework_init sample_os sample_fw"
  let ?s1 = "snd (the (sdi_bus_register sample_os (Bus_Hdl 3) ?s))"
  note defs = sdi_bus_framework_init_def sdi_bus_init_list_def sample_fw_def sample_os_def
    sdi_bus_register_def sdi_bus_enqueue_list_def sdi_bus_get_list_by_bus_type_def fw_lock_init_def
    fw_lock_def fw_unlock_def
  have reg: "sdi_bus_register sample_os (Bus_Hdl 3) ?s = Some (STD_ERR_OK, ?s1)"
    by (simp add: defs)
  have reach: "fw_reachable sample_os ?s1"
    by (rule fw_register [OF fw_init reg])
  have "\<exists>s2. sdi_bus_get_handle sample_os SDI_I2C_BUS (SDI_COMPARE_BY_ID 7) ?s1 =
      Some (Some (Bus_Hdl 3), s2)"
    by (simp add: defs sdi_bus_get_handle_def node_compare_def)
  then show ?thesis
    using bus_lookup_sound [OF reach] by (auto simp: Let_def)
qed

lemma first_node_append:
  "(\<forall>x \<in> set xs. \<not> P x) \<Longrightarrow> P y \<Longrightarrow> first_node P i (xs @ y # ys) = Some (i + length xs)"
  by (induction xs arbitrary: i) auto

text \<open>
  C3. Unregistering undoes registering: a bus that was not registered, registered and unregistered
  again leaves every bus list as it was.
\<close>

theorem bus_unregister_register:
  assumes "os_reliable os"
    and "Some b \<notin> set (sdi_bus_lists s (bus_type (bus_heap s b)))"
    and "sdi_bus_register os b s = Some (STD_ERR_OK, s1)"
  shows "\<exists>s2. sdi_bus_unregister os b s1 = Some (STD_ERR_OK, s2) \<and>
    sdi_bus_lists s2 = sdi_bus_lists s"
proof -
  let ?t = "bus_type (bus_heap s b)"
  note eff = sdi_bus_register_effect [OF assms(3)]
  have ty: "bus_type (bus_heap s1 b) = ?t" and heap: "?t \<noteq> SDI_MAX_BUS"
    and ls: "sdi_bus_lists s1 = (sdi_bus_lists s)(?t := sdi_bus_lists s ?t @ [Some b])"
    using eff by auto
  have fst: "first_node (\<lambda>n. n = Some b) 0 (sdi_bus_lists s1 ?t) = Some (length (sdi_bus_lists s ?t))"
    using first_node_append [of "sdi_bus_lists s ?t" "\<lambda>n. n = Some b" "Some b" 0 "[]"] assms(2)
    by (auto simp: ls)
  obtain w1 where l1: "fw_lock os (bus_list_lock ?t) s1 = Some (STD_ERR_OK, s1\<lparr>os_world := w1\<rparr>)"
    using fw_lock_reliable [OF assms(1)] .
  obtain w2 where u1: "fw_unlock os (bus_list_lock ?t) (s1\<lparr>os_world := w1\<rparr>) =
      Some (STD_ERR_OK, s1\<lparr>os_world := w1\<rparr>\<lparr>os_world := w2\<rparr>)"
    using fw_unlock_reliable [OF assms(1)] .
  let ?s2 = "s1\<lparr>os_world := w2\<rparr>" and ?n = "Bus_Node ?t (length (sdi_bus_lists s ?t))"
  have node: "sdi_bus_get_node os b s1 = Some (Some ?n, ?s2)"
    using l1 u1 heap fst
    by (simp add: sdi_bus_get_node_def ty sdi_bus_get_list_by_bus_type_def Let_def
        del: bus_list_lock.simps)
  obtain w3 where l2: "fw_lock os (bus_list_lock ?t) ?s2 = Some (STD_ERR_OK, ?s2\<lparr>os_world := w3\<rparr>)"
    using fw_lock_reliable [OF assms(1)] .
  let ?s3 = "?s2\<lparr>os_world := w3, sdi_bus_lists := (sdi_bus_lists s1)(?t := sdi_bus_lists s ?t)\<rparr>"
  obtain w4 where u2: "fw_unlock os (bus_list_lock ?t) ?s3 = Some (STD_ERR_OK, ?s3\<lparr>os_world := w4\<rparr>)"
    using fw_unlock_reliable [OF assms(1)] .
  have "sdi_bus_dequeue_list os ?n ?s2 = Some (STD_ERR_OK, ?s3\<lparr>os_world := w4\<rparr>)"
    using l2 u2 heap
    by (simp add: sdi_bus_dequeue_list_def ls ty sdi_bus_get_list_by_bus_type_def nth_append
        del: bus_list_lock.simps)
  then show ?thesis
    using node by (simp add: sdi_bus_unregister_def ls)
qed

lemma bus_unregister_register_witness:
  "\<exists>s2. sdi_bus_unregister sample_os (Bus_Hdl 0)
      (snd (the (sdi_bus_register sample_os (Bus_Hdl 0) sample_fw))) = Some (STD_ERR_OK, s2)"
proof -
  have "sdi_bus_register sample_os (Bus_Hdl 0) sample_fw =
      Some (STD_ERR_OK, snd (the (sdi_bus_register sample_os (Bus_Hdl 0) sample_fw)))"
    by (simp add: sample_fw_def sample_os_def sdi_bus_register_def sdi_bus_enqueue_list_def
        sdi_bus_get_list_by_bus_type_def fw_lock_init_def fw_lock_def fw_unlock_def)
  then show ?thesis
    using bus_unregister_register [OF sample_os_reliable, of "Bus_Hdl 0" sample_fw]
    by (auto simp: sample_fw_def)
qed

text \<open>Running a function on every bus of a list of nodes, one after the other.\<close>

primrec run_on_buses ::
    "(bus_hdl \<Rightarrow> 'w sdi_fw \<Rightarrow> 'w sdi_fw option) \<Rightarrow> bus_hdl option list \<Rightarrow> 'w sdi_fw \<Rightarrow> 'w sdi_fw option"
  where
  "run_on_buses fn [] s = Some s"
| "run_on_buses fn (n # ns) s =
     (case n of None \<Rightarrow> run_on_buses fn ns s | Some b \<Rightarrow> fn b s \<bind> run_on_buses fn ns)"

lemma bus_walk_run:
  assumes keep: "\<And>b s s'. fn b s = Some s' \<Longrightarrow> sdi_bus_lists s' t = sdi_bus_lists s t"
  shows "sdi_bus_lists s t = xs @ ys \<Longrightarrow> bus_walk t fn (length xs) s = run_on_buses fn ys s"
proof (induction ys arbitrary: xs s)
  case Nil
  then show ?case by (simp add: bus_walk.simps)
next
  case (Cons n ns)
  have step: "sdi_bus_lists s' t = xs @ n # ns \<Longrightarrow>
      bus_walk t fn (Suc (length xs)) s' = run_on_buses fn ns s'" for s'
    using Cons.IH [of s' "xs @ [n]"] by simp
  show ?case
  proof (cases n)
    case None
    then show ?thesis using Cons.prems step by (subst bus_walk.simps) simp
  next
    case (Some b)
    then have "bus_walk t fn (length xs) s = fn b s \<bind> (\<lambda>s'. bus_walk t fn (Suc (length xs)) s')"
      using Cons.prems by (subst bus_walk.simps) simp
    also have "\<dots> = fn b s \<bind> run_on_buses fn ns"
      using step keep [of b s] Cons.prems by (cases "fn b s") auto
    finally show ?thesis using Some by simp
  qed
qed

text \<open>
  sdi\_bus\_for\_each runs its callback on every registered bus of the type, each once and in the
  order of registration, between taking and giving back the lock of the list, provided the callback
  leaves this list alone; the walk over the changing list then is the plain loop over the buses, and
  the code returned is that of the unlock.
\<close>

theorem bus_for_each_visits_all:
  assumes "\<forall>b s s'. fn b s = Some s' \<longrightarrow> sdi_bus_lists s' t = sdi_bus_lists s t"
    and "t \<noteq> SDI_MAX_BUS" and "fw_lock os (bus_list_lock t) s = Some (STD_ERR_OK, s1)"
  shows "sdi_bus_for_each os t fn s =
    run_on_buses fn (sdi_bus_lists s t) s1 \<bind> fw_unlock os (bus_list_lock t)"
proof -
  have "sdi_bus_lists s1 t = [] @ sdi_bus_lists s t"
    using fw_lock_frame(1) [OF assms(3)] by auto
  then have "bus_walk t fn 0 s1 = run_on_buses fn (sdi_bus_lists s t) s1"
    using bus_walk_run [of fn t s1 "[]"] assms(1) by auto
  then show ?thesis
    using assms(2,3) by (simp add: sdi_bus_for_each_def sdi_bus_get_list_by_bus_type_def)
qed

lemma bus_for_each_visits_all_witness:
  "\<exists>s1. sdi_bus_for_each sample_os SDI_I2C_BUS (\<lambda>b s. Some (s\<lparr>device_list := [None]\<rparr>))
     (sample_fw\<lparr>sdi_bus_lists := (\<lambda>_. [Some (Bus_Hdl 0), None])\<rparr>) = Some (STD_ERR_OK, s1) \<and>
     device_list s1 = [None]"
proof -
  let ?s = "sample_fw\<lparr>sdi_bus_lists := (\<lambda>_. [Some (Bus_Hdl 0), None])\<rparr>"
  have "fw_lock sample_os (bus_list_lock SDI_I2C_BUS) ?s =
      Some (STD_ERR_OK, ?s\<lparr>os_world := [Mutex 0]\<rparr>)"
    by (simp add: fw_lock_def sample_os_def sample_fw_def)
  from bus_for_each_visits_all [OF _ _ this, of "\<lambda>b s. Some (s\<lparr>device_list := [None]\<rparr>)"]
  show ?thesis by (simp add: sample_fw_def sample_os_def fw_unlock_def)
qed

lemma sdi_attach_device_to_bus_reliable:
  assumes "os_reliable os"
  obtains s' where "sdi_attach_device_to_bus os b d s = Some s'"
    and "sdi_device_list (bus_heap s' b) = sdi_device_list (bus_heap s b) @ [d]"
    and "device_list s' = device_list s" and "dl_loaded s' = dl_loaded s"
proof -
  obtain w1 where l: "fw_lock os (dev_list_lock b) s = Some (STD_ERR_OK, s\<lparr>os_world := w1\<rparr>)"
    using fw_lock_reliable [OF assms] .
  let ?s1 = "s\<lparr>os_world := w1,
    bus_heap := (bus_heap s)(b := (bus_heap s b)\<lparr>sdi_device_list := sdi_device_list (bus_heap s b) @ [d]\<rparr>)\<rparr>"
  obtain w2 where u: "fw_unlock os (dev_list_lock b) ?s1 = Some (STD_ERR_OK, ?s1\<lparr>os_world := w2\<rparr>)"
    using fw_unlock_reliable [OF assms] .
  have "sdi_attach_device_to_bus os b d s = Some (?s1\<lparr>os_world := w2\<rparr>)"
    using l u by (simp add: sdi_attach_device_to_bus_def)
  then show ?thesis by (rule that) simp_all
qed

text \<open>
  What the drivers of the children of a bus node answer, node by node: an error code and a handle. The
  handles that are attached to the bus for these answers: each node adds one, and sdi\_register\_driver
  leaves the handle of the caller alone when the driver refuses its node.
\<close>

fun attached_handles ::
    "device_hdl option \<Rightarrow> (t_std_error \<times> device_hdl option) list \<Rightarrow> device_hdl option list" where
  "attached_handles prev [] = []"
| "attached_handles prev ((e, d) # as) =
     (if e = STD_ERR_OK then d # attached_handles d as else prev # attached_handles prev as)"

fun registered_handles :: "(t_std_error \<times> device_hdl option) list \<Rightarrow> device_hdl option list" where
  "registered_handles [] = []"
| "registered_handles ((e, d) # as) = (if e = STD_ERR_OK then d # registered_handles as else registered_handles as)"

text \<open>
  A node whose driver exists and answers \<open>out n\<close>; it registers its own device only, so that it leaves
  the lists of devices to the framework.
\<close>

definition driver_answers ::
    "'w driver_lib \<Rightarrow> bus_hdl \<Rightarrow> (config_node \<Rightarrow> t_std_error \<times> device_hdl option) \<Rightarrow> config_node \<Rightarrow> bool" where
  "driver_answers dl b out n \<longleftrightarrow>
     (\<forall>s. dl_loaded s \<longrightarrow> (\<exists>drv s'. sdi_get_device_driver dl (std_config_name_get n) s = Some drv \<and>
        register_fn drv n b s = Some (fst (out n), snd (out n), s') \<and> dl_loaded s' \<and>
        device_list s' = device_list s \<and>
        sdi_device_list (bus_heap s' b) = sdi_device_list (bus_heap s b)))"

lemma register_device_nodes_attach:
  assumes "os_reliable os"
  shows "dl_loaded s \<Longrightarrow> \<forall>n\<in>set ns. driver_answers dl b out n \<Longrightarrow>
    \<exists>s2. register_device_nodes os dl ns b prev s = Some s2 \<and>
      sdi_device_list (bus_heap s2 b) = sdi_device_list (bus_heap s b) @ attached_handles prev (map out ns) \<and>
      device_list s2 = rev (registered_handles (map out ns)) @ device_list s"
proof (induction ns arbitrary: prev s)
  case (Cons n ns)
  obtain e d where out: "out n = (e, d)" by fastforce
  obtain drv s1 where drv: "sdi_get_device_driver dl (std_config_name_get n) s = Some drv"
    and reg: "register_fn drv n b s = Some (e, d, s1)"
    and s1: "dl_loaded s1" "device_list s1 = device_list s"
      "sdi_device_list (bus_heap s1 b) = sdi_device_list (bus_heap s b)"
    using Cons.prems out by (fastforce simp: driver_answers_def)
  define h where "h = (if e = STD_ERR_OK then d else prev)"
  define s2 where "s2 = (if e = STD_ERR_OK then sdi_add_device d s1 else s1)"
  have step: "sdi_register_driver dl n b prev s = Some (e, h, s2)"
    using drv reg by (simp add: sdi_register_driver_def h_def s2_def)
  have s2: "dl_loaded s2" "sdi_device_list (bus_heap s2 b) = sdi_device_list (bus_heap s b)"
    "device_list s2 = (if e = STD_ERR_OK then [d] else []) @ device_list s"
    using s1 by (simp_all add: s2_def sdi_add_device_def)
  obtain s3 where s3: "sdi_attach_device_to_bus os b h s2 = Some s3"
    "sdi_device_list (bus_heap s3 b) = sdi_device_list (bus_heap s2 b) @ [h]"
    "device_list s3 = device_list s2" "dl_loaded s3 = dl_loaded s2"
    using sdi_attach_device_to_bus_reliable [OF assms, of b h s2] .
  obtain s4 where "register_device_nodes os dl ns b h s3 = Some s4"
    "sdi_device_list (bus_heap s4 b) = sdi_device_list (bus_heap s3 b) @ attached_handles h (map out ns)"
    "device_list s4 = rev (registered_handles (map out ns)) @ device_list s3"
    using Cons.IH [of s3 h] Cons.prems(2) s2(1) s3(4) by auto
  then show ?case using step s2 s3 out by (simp add: h_def)
qed simp

lemma init_devices_of_null_head:
  assumes "os_reliable os" and "sdi_device_list (bus_heap s b) = None # hs"
  shows "sdi_bus_init_device_list os dl b s = None"
proof -
  obtain w1 where l: "fw_lock os (dev_list_lock b) s = Some (STD_ERR_OK, s\<lparr>os_world := w1\<rparr>)"
    using fw_lock_reliable [OF assms(1)] .
  obtain w2 where u: "fw_unlock os (dev_list_lock b) (s\<lparr>os_world := w1\<rparr>) =
      Some (STD_ERR_OK, s\<lparr>os_world := w1\<rparr>\<lparr>os_world := w2\<rparr>)"
    using fw_unlock_reliable [OF assms(1)] .
  have "sdi_bus_get_first_device os b s = Some (Some 0, s\<lparr>os_world := w2\<rparr>)"
    using l u assms(2) by (simp add: sdi_bus_get_first_device_def)
  then show ?thesis
    using assms(2) by (simp add: sdi_bus_init_device_list_def init_devices_from.simps sdi_device_init_def)
qed

text \<open>
  C5. sdi\_bus\_register\_device\_list does not look at the error of sdi\_register\_driver. Whatever the
  drivers of the children of a node answer, a new bus gets one handle for each child, in order: the
  device, or, for a child that its driver refuses, once more the handle of the last sibling before it
  that was registered, or NULL when there is none; the master list gets the registered devices only.
  When the first child is refused, the later sdi\_bus\_init\_device\_list of the bus never returns: it
  reaches the STD\_ASSERT of sdi\_device\_init on the NULL handle.
\<close>

theorem refused_devices_are_attached:
  assumes "os_reliable os" and "dl_loaded s" and "sdi_device_list (bus_heap s b) = []"
    and "\<forall>n\<in>set (std_config_children node). driver_answers dl b out n"
  shows "\<exists>s2. sdi_bus_register_device_list os dl node b s = Some s2 \<and>
    sdi_device_list (bus_heap s2 b) = attached_handles None (map out (std_config_children node)) \<and>
    device_list s2 = rev (registered_handles (map out (std_config_children node))) @ device_list s \<and>
    (\<forall>n ns. std_config_children node = n # ns \<longrightarrow> fst (out n) \<noteq> STD_ERR_OK \<longrightarrow>
       sdi_bus_init_device_list os dl b s2 = None)"
proof -
  obtain s2 where s2: "register_device_nodes os dl (std_config_children node) b None s = Some s2"
    "sdi_device_list (bus_heap s2 b) = attached_handles None (map out (std_config_children node))"
    "device_list s2 = rev (registered_handles (map out (std_config_children node))) @ device_list s"
    using register_device_nodes_attach [OF assms(1,2,4), of None] assms(3) by auto
  have "sdi_bus_init_device_list os dl b s2 = None"
    if "std_config_children node = n # ns" "fst (out n) \<noteq> STD_ERR_OK" for n ns
  proof (rule init_devices_of_null_head [OF assms(1)])
    show "sdi_device_list (bus_heap s2 b) = None # attached_handles None (map out ns)"
      using s2(2) that by (cases "out n") simp
  qed
  then show ?thesis using s2 by (auto simp: sdi_bus_register_device_list_def)
qed

text \<open>
  Three children, the middle one refused: its entry is the handle of the first one again. A single
  child that is refused: NULL, and the initialisation of the bus does not return.
\<close>

definition picky_lib :: "mutex list driver_lib" where
  "picky_lib =
     (let drv = \<lparr>register_fn = (\<lambda>n b s. if std_config_name_get n = ''bad'' then Some (SDI_DEVICE_ERR_CFG, None, s)
                  else Some (STD_ERR_OK, Some (Device_Hdl (length (std_config_name_get n))), s)),
                init_fn = (\<lambda>d s. Some (STD_ERR_OK, s))\<rparr>
      in \<lparr>dlsym_bus_callbacks = (\<lambda>_. None), dlsym_dev_callbacks = (\<lambda>_. None),
         dlsym_dev_entry = (\<lambda>_. Some drv), device_callbacks = (\<lambda>_. drv)\<rparr>)"

definition picky_answer :: "config_node \<Rightarrow> t_std_error \<times> device_hdl option" where
  "picky_answer n = (if std_config_name_get n = ''bad'' then (SDI_DEVICE_ERR_CFG, None)
     else (STD_ERR_OK, Some (Device_Hdl (length (std_config_name_get n)))))"

lemma picky_driver_answers: "driver_answers picky_lib b picky_answer n"
  by (simp add: driver_answers_def picky_lib_def picky_answer_def sdi_get_device_driver_def Let_def)

lemma refused_devices_are_attached_witness:
  "let node = (\<lambda>names. Config_Node ''i2c_bus'' [] (map (\<lambda>x. Config_Node x [] []) names))
   in (\<exists>s2. sdi_bus_register_device_list sample_os picky_lib (node [''tmp75'', ''bad'', ''fan'']) (Bus_Hdl 0) sample_fw =
         Some s2 \<and> sdi_device_list (bus_heap s2 (Bus_Hdl 0)) =
         [Some (Device_Hdl 5), Some (Device_Hdl 5), Some (Device_Hdl 3)] \<and>
         device_list s2 = [Some (Device_Hdl 3), Some (Device_Hdl 5)] @ device_list sample_fw) \<and>
      (\<exists>s2. sdi_bus_register_device_list sample_os picky_lib (node [''bad'']) (Bus_Hdl 0) sample_fw = Some s2 \<and>
         sdi_device_list (bus_heap s2 (Bus_Hdl 0)) = [None] \<and>
         sdi_bus_init_device_list sample_os picky_lib (Bus_Hdl 0) s2 = None)"
proof -
  note T = refused_devices_are_attached [OF sample_os_reliable, of sample_fw "Bus_Hdl 0" _ picky_lib picky_answer]
  have fw: "dl_loaded sample_fw" "sdi_device_list (bus_heap sample_fw (Bus_Hdl 0)) = []"
    by (simp_all add: sample_fw_def)
  show ?thesis
    using T [OF fw, of "Config_Node ''i2c_bus'' [] (map (\<lambda>x. Config_Node x [] []) [''tmp75'', ''bad'', ''fan''])"]
      T [OF fw, of "Config_Node ''i2c_bus'' [] (map (\<lambda>x. Config_Node x [] []) [''bad''])"]
    by (auto simp: picky_driver_answers picky_answer_def Let_def eval_nat_numeral)
qed

end
