(* ===== verification/I2c_Bus.thy ===== *)
theory I2c_Bus
  imports Bus_Framework
begin

text \<open>
  The I2C bus interface of private/sdi\_i2c.h and the SMBus API that device drivers call,
  src/framework/sdi\_i2c\_bus\_api.c.

  A bus is its common part and a table of operations. A C operation gets the bus handle and casts
  it to the structure of its driver; here the operations are functions that already know their bus.
  The \<open>void *buffer\<close> of an operation points to a byte, a word or the kernel's block union:
  \<open>smbus_buf\<close>. Reading or writing the wrong width through it is possible, as in C (the targets are
  little endian); reading past it is \<open>None\<close>. The argument \<open>block_len\<close> is SDI\_SMBUS\_SIZE\_NON\_BLOCK
  (NULL) in every call and is left out.
\<close>

section \<open>Types\<close>

record sdi_i2c_addr =
  i2c_addr :: u16
  addr_mode_16bit :: bool

datatype sdi_i2c_operation = SDI_I2C_WRITE | SDI_I2C_READ
datatype sdi_smbus_operation = SDI_SMBUS_WRITE | SDI_SMBUS_READ
datatype sdi_smbus_data_type =
  SDI_SMBUS_BYTE | SDI_SMBUS_BYTE_DATA | SDI_SMBUS_WORD_DATA | SDI_SMBUS_BLOCK_DATA

definition SDI_I2C_FLAG_PEC :: u32 where "SDI_I2C_FLAG_PEC = 2"
definition SDI_I2C_FLAG_NONE :: u32 where "SDI_I2C_FLAG_NONE = 0"
definition SDI_SMBUS_OFFSET_NON_CMD :: u32 where "SDI_SMBUS_OFFSET_NON_CMD = 0"

datatype smbus_buf = Buf8 u8 | Buf16 u16 | BufBlk "u8 list"

text \<open>The dereferences \<open>*(uint8_t *)p\<close> and \<open>*(uint16_t *)p\<close>, and the stores through them.\<close>

fun load_byte :: "smbus_buf \<Rightarrow> u8 option" where
  "load_byte (Buf8 b) = Some b"
| "load_byte (Buf16 v) = Some (ucast v)"
| "load_byte (BufBlk bs) = (case bs of [] \<Rightarrow> None | b # _ \<Rightarrow> Some b)"

fun load_word :: "smbus_buf \<Rightarrow> u16 option" where
  "load_word (Buf8 b) = None"
| "load_word (Buf16 v) = Some v"
| "load_word (BufBlk bs) =
     (case bs of lo # hi # _ \<Rightarrow> Some (ucast lo OR push_bit 8 (ucast hi)) | _ \<Rightarrow> None)"

fun store_byte :: "smbus_buf \<Rightarrow> u8 \<Rightarrow> smbus_buf option" where
  "store_byte (Buf8 _) b = Some (Buf8 b)"
| "store_byte (Buf16 v) b = Some (Buf16 ((v AND 0xFF00) OR ucast b))"
| "store_byte (BufBlk bs) b = (case bs of [] \<Rightarrow> None | _ # r \<Rightarrow> Some (BufBlk (b # r)))"

fun store_word :: "smbus_buf \<Rightarrow> u16 \<Rightarrow> smbus_buf option" where
  "store_word (Buf8 _) v = None"
| "store_word (Buf16 _) v = Some (Buf16 v)"
| "store_word (BufBlk bs) v =
     (case bs of _ # _ # r \<Rightarrow> Some (BufBlk (ucast v # ucast (drop_bit 8 v) # r)) | _ \<Rightarrow> None)"

fun block_bytes :: "smbus_buf \<Rightarrow> u8 list option" where
  "block_bytes (BufBlk bs) = Some bs"
| "block_bytes _ = None"

lemma block_bytes_eq_Some [simp]: "block_bytes p = Some bs \<longleftrightarrow> p = BufBlk bs"
  by (cases p) auto

fun same_kind :: "smbus_buf \<Rightarrow> smbus_buf \<Rightarrow> bool" where
  "same_kind (Buf8 _) (Buf8 _) = True"
| "same_kind (Buf16 _) (Buf16 _) = True"
| "same_kind (BufBlk xs) (BufBlk ys) = (length xs = length ys)"
| "same_kind _ _ = False"

lemma same_kind_refl [simp]: "same_kind b b"
  by (cases b) simp_all

lemma same_kind_Buf [simp]:
  "same_kind (Buf8 x) b \<longleftrightarrow> (\<exists>y. b = Buf8 y)"
  "same_kind (Buf16 v) b \<longleftrightarrow> (\<exists>u. b = Buf16 u)"
  by (cases b; simp)+

lemma same_kind_store:
  "store_byte p b = Some p' \<Longrightarrow> same_kind p p'"
  "store_word p v = Some p' \<Longrightarrow> same_kind p p'"
  by (cases p; auto split: list.splits)+

record 'w sdi_i2c_bus_ops =
  ops_acquire_bus :: "'w \<Rightarrow> (t_std_error \<times> 'w) option"
  ops_smbus_execute :: "sdi_i2c_addr \<Rightarrow> sdi_smbus_operation \<Rightarrow> sdi_smbus_data_type \<Rightarrow> u32
      \<Rightarrow> smbus_buf \<Rightarrow> u32 \<Rightarrow> 'w \<Rightarrow> (t_std_error \<times> smbus_buf \<times> 'w) option"
  ops_i2c_execute :: "(sdi_i2c_addr \<Rightarrow> sdi_i2c_operation \<Rightarrow> u8 list \<Rightarrow> u32
      \<Rightarrow> smbus_buf \<Rightarrow> u32 \<Rightarrow> u32 \<Rightarrow> 'w \<Rightarrow> (t_std_error \<times> smbus_buf \<times> 'w) option) option"
  ops_release_bus :: "'w \<Rightarrow> 'w option"
  ops_get_capability :: "u64"

record 'w sdi_i2c_bus =
  bus :: sdi_bus
  ops :: "'w sdi_i2c_bus_ops"

section \<open>The wrappers of sdi\_i2c.h\<close>

definition sdi_i2c_acquire_bus :: "'w sdi_i2c_bus \<Rightarrow> 'w \<Rightarrow> (t_std_error \<times> 'w) option" where
  "sdi_i2c_acquire_bus b = ops_acquire_bus (ops b)"

definition sdi_smbus_execute ::
    "'w sdi_i2c_bus \<Rightarrow> sdi_i2c_addr \<Rightarrow> sdi_smbus_operation \<Rightarrow> sdi_smbus_data_type \<Rightarrow> u32
      \<Rightarrow> smbus_buf \<Rightarrow> u32 \<Rightarrow> 'w \<Rightarrow> (t_std_error \<times> smbus_buf \<times> 'w) option" where
  "sdi_smbus_execute b = ops_smbus_execute (ops b)"

text \<open>Calling through a NULL function pointer does not return.\<close>

definition sdi_i2c_bus_execute ::
    "'w sdi_i2c_bus \<Rightarrow> sdi_i2c_addr \<Rightarrow> sdi_i2c_operation \<Rightarrow> u8 list \<Rightarrow> u32
      \<Rightarrow> smbus_buf \<Rightarrow> u32 \<Rightarrow> u32 \<Rightarrow> 'w \<Rightarrow> (t_std_error \<times> smbus_buf \<times> 'w) option" where
  "sdi_i2c_bus_execute b addr operation cmd cmdlen buffer buflen flags w =
     (case ops_i2c_execute (ops b) of
        None \<Rightarrow> None
      | Some f \<Rightarrow> f addr operation cmd cmdlen buffer buflen flags w)"

definition sdi_i2c_release_bus :: "'w sdi_i2c_bus \<Rightarrow> 'w \<Rightarrow> 'w option" where
  "sdi_i2c_release_bus b = ops_release_bus (ops b)"

definition sdi_i2c_bus_get_capability :: "'w sdi_i2c_bus \<Rightarrow> u64" where
  "sdi_i2c_bus_get_capability b = ops_get_capability (ops b)"

section \<open>The SMBus API\<close>

text \<open>
  The part all calls share: the bus is acquired, the transaction runs, the bus is released and the
  error of the transaction is returned.
\<close>

definition with_bus ::
    "'w sdi_i2c_bus \<Rightarrow> 'a \<Rightarrow> ('w \<Rightarrow> (t_std_error \<times> 'a \<times> 'w) option) \<Rightarrow> 'w
      \<Rightarrow> (t_std_error \<times> 'a \<times> 'w) option" where
  "with_bus bus_handle buffer transaction w = do {
     STD_ASSERT (bus_type (bus bus_handle) = SDI_I2C_BUS);
     (error, w) \<leftarrow> sdi_i2c_acquire_bus bus_handle w;
     if error \<noteq> STD_ERR_OK then Some (error, buffer, w)
     else do {
       (error, buffer, w) \<leftarrow> transaction w;
       w \<leftarrow> sdi_i2c_release_bus bus_handle w;
       Some (error, buffer, w)
     }
   }"

definition sdi_smbus_recv_byte ::
    "'w sdi_i2c_bus \<Rightarrow> sdi_i2c_addr \<Rightarrow> u8 \<Rightarrow> u32 \<Rightarrow> 'w \<Rightarrow> (t_std_error \<times> u8 \<times> 'w) option" where
  "sdi_smbus_recv_byte h addr buffer flags = with_bus h buffer (\<lambda>w. do {
     (error, b, w) \<leftarrow> sdi_smbus_execute h addr SDI_SMBUS_READ SDI_SMBUS_BYTE
        SDI_SMBUS_OFFSET_NON_CMD (Buf8 buffer) flags w;
     buffer \<leftarrow> load_byte b;
     Some (error, buffer, w)
   })"

definition sdi_smbus_send_byte ::
    "'w sdi_i2c_bus \<Rightarrow> sdi_i2c_addr \<Rightarrow> u8 \<Rightarrow> u32 \<Rightarrow> 'w \<Rightarrow> (t_std_error \<times> 'w) option" where
  "sdi_smbus_send_byte h addr buffer flags w = do {
     (error, _, w) \<leftarrow> with_bus h (Buf8 buffer) (sdi_smbus_execute h addr SDI_SMBUS_WRITE
        SDI_SMBUS_BYTE SDI_SMBUS_OFFSET_NON_CMD (Buf8 buffer) flags) w;
     Some (error, w)
   }"

definition sdi_smbus_read_byte ::
    "'w sdi_i2c_bus \<Rightarrow> sdi_i2c_addr \<Rightarrow> u32 \<Rightarrow> u8 \<Rightarrow> u32 \<Rightarrow> 'w \<Rightarrow> (t_std_error \<times> u8 \<times> 'w) option" where
  "sdi_smbus_read_byte h addr cmd buffer flags = with_bus h buffer (\<lambda>w. do {
     (error, b, w) \<leftarrow> sdi_smbus_execute h addr SDI_SMBUS_READ SDI_SMBUS_BYTE_DATA
        cmd (Buf8 buffer) flags w;
     buffer \<leftarrow> load_byte b;
     Some (error, buffer, w)
   })"

definition sdi_smbus_write_byte ::
    "'w sdi_i2c_bus \<Rightarrow> sdi_i2c_addr \<Rightarrow> u32 \<Rightarrow> u8 \<Rightarrow> u32 \<Rightarrow> 'w \<Rightarrow> (t_std_error \<times> 'w) option" where
  "sdi_smbus_write_byte h addr cmd buffer flags w = do {
     (error, _, w) \<leftarrow> with_bus h (Buf8 buffer) (sdi_smbus_execute h addr SDI_SMBUS_WRITE
        SDI_SMBUS_BYTE_DATA cmd (Buf8 buffer) flags) w;
     Some (error, w)
   }"

definition sdi_smbus_read_word ::
    "'w sdi_i2c_bus \<Rightarrow> sdi_i2c_addr \<Rightarrow> u32 \<Rightarrow> u16 \<Rightarrow> u32 \<Rightarrow> 'w \<Rightarrow> (t_std_error \<times> u16 \<times> 'w) option" where
  "sdi_smbus_read_word h addr cmd buffer flags = with_bus h buffer (\<lambda>w. do {
     (error, b, w) \<leftarrow> sdi_smbus_execute h addr SDI_SMBUS_READ SDI_SMBUS_WORD_DATA
        cmd (Buf16 buffer) flags w;
     buffer \<leftarrow> load_word b;
     Some (error, buffer, w)
   })"

definition sdi_smbus_write_word ::
    "'w sdi_i2c_bus \<Rightarrow> sdi_i2c_addr \<Rightarrow> u32 \<Rightarrow> u16 \<Rightarrow> u32 \<Rightarrow> 'w \<Rightarrow> (t_std_error \<times> 'w) option" where
  "sdi_smbus_write_word h addr cmd buffer flags w = do {
     (error, _, w) \<leftarrow> with_bus h (Buf16 buffer) (sdi_smbus_execute h addr SDI_SMBUS_WRITE
        SDI_SMBUS_WORD_DATA cmd (Buf16 buffer) flags) w;
     Some (error, w)
   }"

text \<open>
  The transactions of several bytes: the loop over \<open>buffer + count\<close> and \<open>cmd + count\<close>, left at the
  first error. A buffer shorter than the byte count is overrun.
\<close>

primrec smbus_multi ::
    "'w sdi_i2c_bus \<Rightarrow> sdi_i2c_addr \<Rightarrow> sdi_smbus_operation \<Rightarrow> u32 \<Rightarrow> nat \<Rightarrow> u32 \<Rightarrow> u8 list \<Rightarrow> 'w
      \<Rightarrow> (t_std_error \<times> u8 list \<times> 'w) option" where
  "smbus_multi h addr operation flags 0 cmd buffer w = Some (STD_ERR_OK, buffer, w)"
| "smbus_multi h addr operation flags (Suc n) cmd buffer w =
     (case buffer of
        [] \<Rightarrow> None
      | b # rest \<Rightarrow> do {
          (error, p, w) \<leftarrow> sdi_smbus_execute h addr operation SDI_SMBUS_BYTE_DATA cmd (Buf8 b) flags w;
          b \<leftarrow> load_byte p;
          if error \<noteq> STD_ERR_OK then Some (error, b # rest, w)
          else do {
            (error, rest, w) \<leftarrow> smbus_multi h addr operation flags n (cmd + 1) rest w;
            Some (error, b # rest, w)
          }
        })"

lemma smbus_multi_numeral [sdi_simps]:
  "smbus_multi h addr oper flags (numeral k) cmd buffer w =
     (case buffer of
        [] \<Rightarrow> None
      | b # rest \<Rightarrow> do {
          (error, p, w) \<leftarrow> sdi_smbus_execute h addr oper SDI_SMBUS_BYTE_DATA cmd (Buf8 b) flags w;
          b \<leftarrow> load_byte p;
          if error \<noteq> STD_ERR_OK then Some (error, b # rest, w)
          else do {
            (error, rest, w) \<leftarrow> smbus_multi h addr oper flags (pred_numeral k) (cmd + 1) rest w;
            Some (error, b # rest, w)
          }
        })"
  by (simp only: numeral_eq_Suc smbus_multi.simps)

definition sdi_smbus_read_multi_byte ::
    "'w sdi_i2c_bus \<Rightarrow> sdi_i2c_addr \<Rightarrow> u32 \<Rightarrow> u8 list \<Rightarrow> u32 \<Rightarrow> u32 \<Rightarrow> 'w
      \<Rightarrow> (t_std_error \<times> u8 list \<times> 'w) option" where
  "sdi_smbus_read_multi_byte h addr cmd buffer byte_count flags =
     with_bus h buffer (smbus_multi h addr SDI_SMBUS_READ flags (unat byte_count) cmd buffer)"

definition sdi_smbus_write_multi_byte ::
    "'w sdi_i2c_bus \<Rightarrow> sdi_i2c_addr \<Rightarrow> u32 \<Rightarrow> u8 list \<Rightarrow> u32 \<Rightarrow> u32 \<Rightarrow> 'w
      \<Rightarrow> (t_std_error \<times> u8 list \<times> 'w) option" where
  "sdi_smbus_write_multi_byte h addr cmd buffer byte_count flags =
     with_bus h buffer (smbus_multi h addr SDI_SMBUS_WRITE flags (unat byte_count) cmd buffer)"

text \<open>
  sdi\_i2c\_read and sdi\_i2c\_write take a list of command bytes, NULL when there is none. The names
  carry a suffix because the kernel bus driver has functions of the same names.
\<close>

definition sdi_i2c_read_api ::
    "'w sdi_i2c_bus \<Rightarrow> sdi_i2c_addr \<Rightarrow> u8 list option \<Rightarrow> u32 \<Rightarrow> u8 list \<Rightarrow> u32 \<Rightarrow> u32 \<Rightarrow> 'w
      \<Rightarrow> (t_std_error \<times> u8 list \<times> 'w) option" where
  "sdi_i2c_read_api h addr cmd cmdlen buffer buflen flags w = do {
     STD_ASSERT (bus_type (bus h) = SDI_I2C_BUS);
     STD_ASSERT (cmdlen \<noteq> 0 \<longrightarrow> cmd \<noteq> None);
     with_bus h buffer (\<lambda>w. do {
       (rc, p, w) \<leftarrow> sdi_i2c_bus_execute h addr SDI_I2C_READ
          (case cmd of None \<Rightarrow> [] | Some c \<Rightarrow> c) cmdlen (BufBlk buffer) buflen flags w;
       buffer \<leftarrow> block_bytes p;
       Some (rc, buffer, w)
     }) w
   }"

definition sdi_i2c_write_api ::
    "'w sdi_i2c_bus \<Rightarrow> sdi_i2c_addr \<Rightarrow> u8 list option \<Rightarrow> u32 \<Rightarrow> u8 \<Rightarrow> u32 \<Rightarrow> u32 \<Rightarrow> 'w
      \<Rightarrow> (t_std_error \<times> 'w) option" where
  "sdi_i2c_write_api h addr cmd cmdlen buffer buflen flags w = do {
     STD_ASSERT (bus_type (bus h) = SDI_I2C_BUS);
     STD_ASSERT (cmdlen \<noteq> 0 \<longrightarrow> cmd \<noteq> None);
     (rc, _, w) \<leftarrow> with_bus h (Buf8 buffer) (sdi_i2c_bus_execute h addr SDI_I2C_WRITE
        (case cmd of None \<Rightarrow> [] | Some c \<Rightarrow> c) cmdlen (Buf8 buffer) buflen flags) w;
     Some (rc, w)
   }"

text \<open>
  The block write builds the kernel's block: the length of what follows, the high byte of the
  command, and at most I2C\_SMBUS\_BLOCK\_MAX / 2 = 16 values; the rest of the union is what the
  stack held (\<open>stack\<close>, 34 bytes).
\<close>

definition smbus_block :: "u8 list \<Rightarrow> u16 \<Rightarrow> u8 \<Rightarrow> u8 list \<Rightarrow> u8 list option" where
  "smbus_block stack cmd len values = do {
     let len = (if len > 16 then 16 else len);
     STD_ASSERT (unat len \<le> length values);
     Some ([len + 1, ucast (drop_bit 8 cmd AND 0xFF)] @ take (unat len) values @ drop (2 + unat len) stack)
   }"

definition sdi_smbus_write_i2c_block_data ::
    "u8 list \<Rightarrow> 'w sdi_i2c_bus \<Rightarrow> sdi_i2c_addr \<Rightarrow> u16 \<Rightarrow> u8 \<Rightarrow> u8 list \<Rightarrow> u32 \<Rightarrow> 'w
      \<Rightarrow> (t_std_error \<times> 'w) option" where
  "sdi_smbus_write_i2c_block_data stack h addr cmd len values flags w = do {
     (error, _, w) \<leftarrow> with_bus h (BufBlk stack) (\<lambda>w. do {
       block \<leftarrow> smbus_block stack cmd len values;
       sdi_smbus_execute h addr SDI_SMBUS_WRITE SDI_SMBUS_BLOCK_DATA (ucast (cmd AND 0xFF))
         (BufBlk block) flags w
     }) w;
     Some (error, w)
   }"

section \<open>What a provider of the bus promises\<close>

text \<open>
  The contract device drivers rely on. A transaction leaves the buffer a buffer of the same width;
  a write leaves the caller's data alone, and so does a transaction that fails (for the byte and
  word transactions without packet error checking: switching PEC off after a good read may fail).
\<close>

locale smbus_provider =
  fixes h :: "'w sdi_i2c_bus"
  assumes is_i2c: "bus_type (bus h) = SDI_I2C_BUS"
    and execute_kind:
      "dt \<noteq> SDI_SMBUS_BLOCK_DATA \<Longrightarrow> sdi_smbus_execute h addr oper dt cmd p flags w = Some (e, p', w') \<Longrightarrow>
         same_kind p p'"
    and write_keeps:
      "dt \<noteq> SDI_SMBUS_BLOCK_DATA \<Longrightarrow>
         sdi_smbus_execute h addr SDI_SMBUS_WRITE dt cmd p flags w = Some (e, p', w') \<Longrightarrow> p' = p"
    and failure_keeps:
      "dt \<noteq> SDI_SMBUS_BLOCK_DATA \<Longrightarrow> flags \<noteq> SDI_I2C_FLAG_PEC \<Longrightarrow>
         sdi_smbus_execute h addr oper dt cmd p flags w = Some (e, p', w') \<Longrightarrow> e \<noteq> STD_ERR_OK \<Longrightarrow> p' = p"
begin

lemma smbus_multi_write:
  "smbus_multi h addr SDI_SMBUS_WRITE flags n cmd buffer w = Some (e, buffer', w') \<Longrightarrow> buffer' = buffer"
proof (induction n arbitrary: cmd buffer buffer' w)
  case (Suc n)
  show ?case
  proof (cases buffer)
    case (Cons b rest)
    from Suc.prems Cons obtain e1 p w1 b1 where
      ex: "sdi_smbus_execute h addr SDI_SMBUS_WRITE SDI_SMBUS_BYTE_DATA cmd (Buf8 b) flags w = Some (e1, p, w1)"
      and b1: "load_byte p = Some b1"
      and rest: "(if e1 \<noteq> STD_ERR_OK then Some (e1, b1 # rest, w1)
         else do { (error, rest, w) \<leftarrow> smbus_multi h addr SDI_SMBUS_WRITE flags n (cmd + 1) rest w1;
                   Some (error, b1 # rest, w) }) = Some (e, buffer', w')"
      by (auto simp: bind_SomeD)
    have "p = Buf8 b" using write_keeps [OF _ ex] by simp
    with b1 have "b1 = b" by simp
    with rest show ?thesis using Suc.IH Cons by (auto simp: bind_SomeD split: if_splits)
  qed (use Suc.prems in simp)
qed simp

text \<open>
  A read of several bytes keeps the length of the buffer, fills a prefix of it and leaves the rest
  alone: all bytes when it succeeds, and when it fails the bytes before the failing one.
\<close>

lemma smbus_multi_read_prefix:
  assumes "flags \<noteq> SDI_I2C_FLAG_PEC"
  shows "smbus_multi h addr SDI_SMBUS_READ flags n cmd buffer w = Some (e, buffer', w') \<Longrightarrow>
    length buffer' = length buffer \<and>
    (\<exists>k \<le> n. drop k buffer' = drop k buffer \<and> (e = STD_ERR_OK \<longrightarrow> k = n \<and> n \<le> length buffer) \<and>
       (e \<noteq> STD_ERR_OK \<longrightarrow> k < n))"
proof (induction n arbitrary: cmd buffer buffer' w)
  case (Suc n)
  show ?case
  proof (cases buffer)
    case (Cons b rest)
    from Suc.prems Cons obtain e1 p w1 b1 where
      ex: "sdi_smbus_execute h addr SDI_SMBUS_READ SDI_SMBUS_BYTE_DATA cmd (Buf8 b) flags w = Some (e1, p, w1)"
      and b1: "load_byte p = Some b1"
      and rest: "(if e1 \<noteq> STD_ERR_OK then Some (e1, b1 # rest, w1)
         else do { (error, rest, w) \<leftarrow> smbus_multi h addr SDI_SMBUS_READ flags n (cmd + 1) rest w1;
                   Some (error, b1 # rest, w) }) = Some (e, buffer', w')"
      by (auto simp: bind_SomeD)
    show ?thesis
    proof (cases "e1 = STD_ERR_OK")
      case True
      with rest obtain rest' where r: "smbus_multi h addr SDI_SMBUS_READ flags n (cmd + 1) rest w1 =
          Some (e, rest', w')" and b': "buffer' = b1 # rest'"
        by (auto simp: bind_SomeD)
      from Suc.IH [OF r] obtain k where "length rest' = length rest" "k \<le> n"
        "drop k rest' = drop k rest" "e = STD_ERR_OK \<longrightarrow> k = n \<and> n \<le> length rest"
        "e \<noteq> STD_ERR_OK \<longrightarrow> k < n" by blast
      then show ?thesis using b' Cons by (intro conjI exI [of _ "Suc k"]) auto
    next
      case False
      have "p = Buf8 b" using failure_keeps [OF _ assms ex False] by simp
      with False rest b1 show ?thesis using Cons by (intro conjI exI [of _ 0]) auto
    qed
  qed (use Suc.prems in simp)
qed simp

lemma read_byte_returns_error_or_value:
  assumes "sdi_smbus_read_byte h addr cmd old flags w = Some (e, v, w')"
    and "flags \<noteq> SDI_I2C_FLAG_PEC" and "e \<noteq> STD_ERR_OK"
  shows "v = old"
proof -
  from assms(1) consider "v = old"
    | w1 p w2 where "sdi_smbus_execute h addr SDI_SMBUS_READ SDI_SMBUS_BYTE_DATA cmd (Buf8 old) flags w1 =
        Some (e, p, w2)" "load_byte p = Some v"
    by (auto simp: sdi_smbus_read_byte_def with_bus_def bind_SomeD split: if_splits)
  then show ?thesis
  proof cases
    case 2
    then have "p = Buf8 old" using failure_keeps [OF _ assms(2) 2(1) assms(3)] by simp
    with 2(2) show ?thesis by simp
  qed
qed

end

section \<open>Calls of the API\<close>

text \<open>One call of the SMBus API on a bus, with any arguments, that returns.\<close>

inductive api_step :: "'w sdi_i2c_bus \<Rightarrow> 'w \<Rightarrow> 'w \<Rightarrow> bool" for h :: "'w sdi_i2c_bus" where
  recv_byte: "sdi_smbus_recv_byte h addr v flags w = Some (e, v', w') \<Longrightarrow> api_step h w w'"
| send_byte: "sdi_smbus_send_byte h addr v flags w = Some (e, w') \<Longrightarrow> api_step h w w'"
| read_byte: "sdi_smbus_read_byte h addr cmd v flags w = Some (e, v', w') \<Longrightarrow> api_step h w w'"
| write_byte: "sdi_smbus_write_byte h addr cmd v flags w = Some (e, w') \<Longrightarrow> api_step h w w'"
| read_word: "sdi_smbus_read_word h addr cmd u flags w = Some (e, u', w') \<Longrightarrow> api_step h w w'"
| write_word: "sdi_smbus_write_word h addr cmd u flags w = Some (e, w') \<Longrightarrow> api_step h w w'"
| read_multi: "sdi_smbus_read_multi_byte h addr cmd vs n flags w = Some (e, vs', w') \<Longrightarrow> api_step h w w'"
| write_multi: "sdi_smbus_write_multi_byte h addr cmd vs n flags w = Some (e, vs', w') \<Longrightarrow> api_step h w w'"
| i2c_read: "sdi_i2c_read_api h addr cs cl vs n flags w = Some (e, vs', w') \<Longrightarrow> api_step h w w'"
| i2c_write: "sdi_i2c_write_api h addr cs cl v n flags w = Some (e, w') \<Longrightarrow> api_step h w w'"
| write_block: "sdi_smbus_write_i2c_block_data st h addr c len vs flags w = Some (e, w') \<Longrightarrow> api_step h w w'"

section \<open>Lock discipline\<close>

text \<open>
  \<open>runs tr m fd held held' w w'\<close>: from \<open>w\<close> to \<open>w'\<close> the trace \<open>tr\<close> grows by events that turn the
  locks \<open>held\<close> into \<open>held'\<close>, whatever else is held, and during which every transfer on \<open>fd\<close> happens
  while \<open>m\<close> is held.
\<close>

definition runs ::
    "('w \<Rightarrow> event list) \<Rightarrow> mutex \<Rightarrow> int \<Rightarrow> mutex list \<Rightarrow> mutex list \<Rightarrow> 'w \<Rightarrow> 'w \<Rightarrow> bool" where
  "runs tr m fd held held' w w' \<longleftrightarrow>
     (\<exists>ts. tr w' = tr w @ ts \<and>
        (\<forall>hs. locks_held ts (held @ hs) = held' @ hs \<and> transfers_guarded m fd ts (held @ hs)))"

lemma runs_refl [simp]: "runs tr m fd held held w w"
  by (auto simp: runs_def intro: exI [of _ "[]"])

lemma runs_trans [trans]:
  assumes "runs tr m fd h1 h2 w1 w2" and "runs tr m fd h2 h3 w2 w3"
  shows "runs tr m fd h1 h3 w1 w3"
proof -
  obtain ts us where "tr w2 = tr w1 @ ts" "tr w3 = tr w2 @ us"
    and "\<forall>hs. locks_held ts (h1 @ hs) = h2 @ hs \<and> transfers_guarded m fd ts (h1 @ hs)"
    and "\<forall>hs. locks_held us (h2 @ hs) = h3 @ hs \<and> transfers_guarded m fd us (h2 @ hs)"
    using assms unfolding runs_def by blast
  then show ?thesis
    unfolding runs_def
    by (intro exI [of _ "ts @ us"]) (simp add: locks_held_append transfers_guarded_append)
qed

text \<open>
  The second contract of a bus, for a caller that holds the locks \<open>ctx\<close>: acquiring takes the locks
  \<open>locks\<close>, releasing gives them back, a failed acquire keeps none, and transactions in between
  neither take nor give back a lock for good and only touch \<open>fd\<close> while \<open>m\<close> is held.
\<close>

locale bus_locking =
  fixes h :: "'w sdi_i2c_bus" and tr :: "'w \<Rightarrow> event list" and m :: mutex and fd :: int
    and locks ctx :: "mutex list"
  assumes acquire_ok: "sdi_i2c_acquire_bus h w = Some (STD_ERR_OK, w') \<Longrightarrow> runs tr m fd ctx (locks @ ctx) w w'"
    and acquire_err:
      "sdi_i2c_acquire_bus h w = Some (e, w') \<Longrightarrow> e \<noteq> STD_ERR_OK \<Longrightarrow> runs tr m fd ctx ctx w w'"
    and execute: "sdi_smbus_execute h addr oper dt cmd p flags w = Some (e, p', w') \<Longrightarrow>
       runs tr m fd (locks @ ctx) (locks @ ctx) w w'"
    and i2c_execute: "sdi_i2c_bus_execute h addr iop cs cl p bl flags w = Some (e, p', w') \<Longrightarrow>
       runs tr m fd (locks @ ctx) (locks @ ctx) w w'"
    and release: "sdi_i2c_release_bus h w = Some w' \<Longrightarrow> runs tr m fd (locks @ ctx) ctx w w'"
begin

lemma with_bus_runs:
  assumes "with_bus h p f w = Some (e, p', w')"
    and "\<And>w e p' w'. f w = Some (e, p', w') \<Longrightarrow> runs tr m fd (locks @ ctx) (locks @ ctx) w w'"
  shows "runs tr m fd ctx ctx w w'"
proof -
  from assms(1) obtain e1 w1 where acq: "sdi_i2c_acquire_bus h w = Some (e1, w1)"
    and rest: "(if e1 \<noteq> STD_ERR_OK then Some (e1, p, w1)
      else do { (error, buffer, w) \<leftarrow> f w1; w \<leftarrow> sdi_i2c_release_bus h w; Some (error, buffer, w) }) =
      Some (e, p', w')"
    by (auto simp: with_bus_def bind_SomeD split: if_splits)
  show ?thesis
  proof (cases "e1 = STD_ERR_OK")
    case True
    with rest obtain w2 where "f w1 = Some (e, p', w2)" and rel: "sdi_i2c_release_bus h w2 = Some w'"
      by (auto simp: bind_SomeD)
    then have "runs tr m fd (locks @ ctx) (locks @ ctx) w1 w2" by (auto dest: assms(2))
    with acquire_ok [of w w1] acq True have "runs tr m fd ctx (locks @ ctx) w w2"
      by (auto intro: runs_trans)
    then show ?thesis by (rule runs_trans) (rule release [OF rel])
  next
    case False
    with rest acq show ?thesis by (auto dest: acquire_err)
  qed
qed

lemma smbus_multi_runs:
  "smbus_multi h addr oper flags n cmd buffer w = Some (e, buffer', w') \<Longrightarrow> runs tr m fd (locks @ ctx) (locks @ ctx) w w'"
proof (induction n arbitrary: cmd buffer w buffer')
  case (Suc n)
  then show ?case
    by (auto simp: bind_SomeD split: list.splits if_splits dest!: execute intro: runs_trans)
qed simp

text \<open>Every call of the API gives back the locks it took, in all its branches.\<close>

lemma api_runs:
  "sdi_smbus_recv_byte h addr v flags w = Some (e, v', w') \<Longrightarrow> runs tr m fd ctx ctx w w'"
  "sdi_smbus_send_byte h addr v flags w = Some (e, w') \<Longrightarrow> runs tr m fd ctx ctx w w'"
  "sdi_smbus_read_byte h addr cmd v flags w = Some (e, v', w') \<Longrightarrow> runs tr m fd ctx ctx w w'"
  "sdi_smbus_write_byte h addr cmd v flags w = Some (e, w') \<Longrightarrow> runs tr m fd ctx ctx w w'"
  "sdi_smbus_read_word h addr cmd u flags w = Some (e, u', w') \<Longrightarrow> runs tr m fd ctx ctx w w'"
  "sdi_smbus_write_word h addr cmd u flags w = Some (e, w') \<Longrightarrow> runs tr m fd ctx ctx w w'"
  "sdi_smbus_read_multi_byte h addr cmd vs n flags w = Some (e, vs', w') \<Longrightarrow> runs tr m fd ctx ctx w w'"
  "sdi_smbus_write_multi_byte h addr cmd vs n flags w = Some (e, vs', w') \<Longrightarrow> runs tr m fd ctx ctx w w'"
  "sdi_i2c_read_api h addr cs cl vs n flags w = Some (e, vs', w') \<Longrightarrow> runs tr m fd ctx ctx w w'"
  "sdi_i2c_write_api h addr cs cl v n flags w = Some (e, w') \<Longrightarrow> runs tr m fd ctx ctx w w'"
  "sdi_smbus_write_i2c_block_data st h addr c len vs flags w = Some (e, w') \<Longrightarrow> runs tr m fd ctx ctx w w'"
  unfolding sdi_smbus_recv_byte_def sdi_smbus_send_byte_def sdi_smbus_read_byte_def
    sdi_smbus_write_byte_def sdi_smbus_read_word_def sdi_smbus_write_word_def
    sdi_smbus_read_multi_byte_def sdi_smbus_write_multi_byte_def sdi_i2c_read_api_def
    sdi_i2c_write_api_def sdi_smbus_write_i2c_block_data_def
  by (auto simp: bind_SomeD split: if_splits
      dest!: with_bus_runs dest: execute i2c_execute smbus_multi_runs)

lemma api_step_runs: "api_step h w w' \<Longrightarrow> runs tr m fd ctx ctx w w'"
  by (auto elim!: api_step.cases dest: api_runs)

lemma api_steps_run: "(api_step h)\<^sup>*\<^sup>* w w' \<Longrightarrow> runs tr m fd ctx ctx w w'"
  by (induction rule: rtranclp_induct) (auto dest: api_step_runs intro: runs_trans)

end

end
