(* ===== verification/I2cdev.thy ===== *)
theory I2cdev
  imports I2c_Bus
begin

text \<open>
  The I2C bus driver on top of the kernel's i2c-dev interface,
  src/drivers/sys-interface-drivers/sdi\_i2cdev.c. The ioctls, the reset script and errno are the
  kernel's: parameters, fields of \<open>i2c_os\<close>. The inline helpers of this file carry the names of API
  functions of other files; they have the suffix \<open>_i2cdev\<close> here.
\<close>

section \<open>The kernel interface\<close>

datatype i2c_smbus_size =
  I2C_SMBUS_BYTE | I2C_SMBUS_BYTE_DATA | I2C_SMBUS_WORD_DATA | I2C_SMBUS_I2C_BLOCK_BROKEN

text \<open>
  An ioctl answers whether it succeeded. The data of an SMBus ioctl is a pointer to the kernel's
  union or NULL; the kernel may change what it points to.
\<close>

record 'w i2c_os = "'w os" +
  ioctl_slave :: "int \<Rightarrow> u16 \<Rightarrow> 'w \<Rightarrow> (bool \<times> 'w) option"
  ioctl_pec :: "int \<Rightarrow> bool \<Rightarrow> 'w \<Rightarrow> (bool \<times> 'w) option"
  ioctl_smbus :: "int \<Rightarrow> sdi_smbus_operation \<Rightarrow> u8 \<Rightarrow> i2c_smbus_size \<Rightarrow> smbus_buf option \<Rightarrow> 'w
      \<Rightarrow> (bool \<times> smbus_buf option \<times> 'w) option"
  reset_script_access :: "'w \<Rightarrow> bool"
  reset_script_run :: "string \<Rightarrow> sdi_smbus_operation \<Rightarrow> i2c_smbus_size \<Rightarrow> u32 \<Rightarrow> 'w \<Rightarrow> 'w"

record sdi_sys_i2c_bus =
  sys_bus :: sdi_bus
  sys_lock :: mutex
  i2cdev_fd :: int
  capability :: u64

definition SDI_MAX_IIC_RETRY :: nat where "SDI_MAX_IIC_RETRY = 5"
definition SDI_IIC_WAIT_TIME :: nat where "SDI_IIC_WAIT_TIME = 1000"

section \<open>One SMBus transaction\<close>

definition i2c_reset ::
    "'w i2c_os \<Rightarrow> sdi_smbus_operation \<Rightarrow> i2c_smbus_size \<Rightarrow> u32 \<Rightarrow> 'w \<Rightarrow> 'w" where
  "i2c_reset os operation sz commandbuf w =
     (if \<not> reset_script_access os w then w
      else reset_script_run os ''sdi_sys_smbus_execute'' operation sz commandbuf w)"

text \<open>The loop of sdi\_sys\_smbus\_execute; its argument is \<open>retry_count\<close>.\<close>

primrec smbus_retry ::
    "'w i2c_os \<Rightarrow> int \<Rightarrow> sdi_smbus_operation \<Rightarrow> i2c_smbus_size \<Rightarrow> u32 \<Rightarrow> nat \<Rightarrow> smbus_buf option \<Rightarrow> 'w
      \<Rightarrow> (bool \<times> smbus_buf option \<times> 'w) option" where
  "smbus_retry os fd operation sz commandbuf 0 data w = Some (False, data, w)"
| "smbus_retry os fd operation sz commandbuf (Suc retry_count) data w = do {
     (ok, data, w) \<leftarrow> ioctl_smbus os fd operation (ucast commandbuf) sz data w;
     if ok then Some (True, data, w)
     else smbus_retry os fd operation sz commandbuf retry_count data
            (std_usleep os SDI_IIC_WAIT_TIME (i2c_reset os operation sz commandbuf w))
   }"

lemma smbus_retry_numeral [sdi_simps]:
  "smbus_retry os fd oper sz c (numeral k) d w = do {
     (ok, d, w) \<leftarrow> ioctl_smbus os fd oper (ucast c) sz d w;
     if ok then Some (True, d, w)
     else smbus_retry os fd oper sz c (pred_numeral k) d
            (std_usleep os SDI_IIC_WAIT_TIME (i2c_reset os oper sz c w))
   }"
  by (simp only: numeral_eq_Suc smbus_retry.simps)

definition sdi_sys_smbus_execute ::
    "'w i2c_os \<Rightarrow> int \<Rightarrow> sdi_smbus_operation \<Rightarrow> i2c_smbus_size \<Rightarrow> u32 \<Rightarrow> smbus_buf option \<Rightarrow> 'w
      \<Rightarrow> (t_std_error \<times> smbus_buf option \<times> 'w) option" where
  "sdi_sys_smbus_execute os fd operation sz commandbuf data w = do {
     (ok, data, w) \<leftarrow> smbus_retry os fd operation sz commandbuf SDI_MAX_IIC_RETRY data w;
     let w = std_usleep os SDI_IIC_WAIT_TIME w;
     if ok then Some (STD_ERR_OK, data, w)
     else (let errno = os_errno os w;
               error = SDI_DEVICE_ERRCODE errno;
               w = (if errno = EIO \<or> errno = ETIMEDOUT then i2c_reset os operation sz commandbuf w else w)
           in Some (error, data, w))
   }"

definition sdi_smbus_recv_byte_i2cdev ::
    "'w i2c_os \<Rightarrow> int \<Rightarrow> sdi_smbus_operation \<Rightarrow> i2c_smbus_size \<Rightarrow> smbus_buf \<Rightarrow> 'w
      \<Rightarrow> (t_std_error \<times> smbus_buf \<times> 'w) option" where
  "sdi_smbus_recv_byte_i2cdev os fd operation sz buffer w = do {
     (error, data, w) \<leftarrow> sdi_sys_smbus_execute os fd operation sz 0 (Some (Buf8 0)) w;
     if error = STD_ERR_OK then do {
       d \<leftarrow> data; b \<leftarrow> load_byte d; buffer \<leftarrow> store_byte buffer (0xFF AND b);
       Some (error, buffer, w)
     } else Some (error, buffer, w)
   }"

definition sdi_smbus_send_byte_i2cdev ::
    "'w i2c_os \<Rightarrow> int \<Rightarrow> sdi_smbus_operation \<Rightarrow> i2c_smbus_size \<Rightarrow> u32 \<Rightarrow> 'w
      \<Rightarrow> (t_std_error \<times> 'w) option" where
  "sdi_smbus_send_byte_i2cdev os fd operation sz commandbuf w = do {
     (error, _, w) \<leftarrow> sdi_sys_smbus_execute os fd operation sz commandbuf None w;
     Some (error, w)
   }"

definition sdi_smbus_read_byte_i2cdev ::
    "'w i2c_os \<Rightarrow> int \<Rightarrow> sdi_smbus_operation \<Rightarrow> i2c_smbus_size \<Rightarrow> u32 \<Rightarrow> smbus_buf \<Rightarrow> 'w
      \<Rightarrow> (t_std_error \<times> smbus_buf \<times> 'w) option" where
  "sdi_smbus_read_byte_i2cdev os fd operation sz commandbuf buffer w = do {
     (error, data, w) \<leftarrow> sdi_sys_smbus_execute os fd operation sz commandbuf (Some (Buf8 0)) w;
     if error = STD_ERR_OK then do {
       d \<leftarrow> data; b \<leftarrow> load_byte d; buffer \<leftarrow> store_byte buffer (0xFF AND b);
       Some (error, buffer, w)
     } else Some (error, buffer, w)
   }"

definition sdi_smbus_write_byte_i2cdev ::
    "'w i2c_os \<Rightarrow> int \<Rightarrow> sdi_smbus_operation \<Rightarrow> i2c_smbus_size \<Rightarrow> u32 \<Rightarrow> smbus_buf \<Rightarrow> 'w
      \<Rightarrow> (t_std_error \<times> 'w) option" where
  "sdi_smbus_write_byte_i2cdev os fd operation sz commandbuf buffer w = do {
     b \<leftarrow> load_byte buffer;
     (error, _, w) \<leftarrow> sdi_sys_smbus_execute os fd operation sz commandbuf (Some (Buf8 b)) w;
     Some (error, w)
   }"

definition sdi_smbus_write_block_i2cdev ::
    "'w i2c_os \<Rightarrow> int \<Rightarrow> sdi_smbus_operation \<Rightarrow> i2c_smbus_size \<Rightarrow> u32 \<Rightarrow> smbus_buf \<Rightarrow> 'w
      \<Rightarrow> (t_std_error \<times> smbus_buf \<times> 'w) option" where
  "sdi_smbus_write_block_i2cdev os fd operation sz commandbuf buffer w = do {
     (error, data, w) \<leftarrow> sdi_sys_smbus_execute os fd operation sz commandbuf (Some buffer) w;
     buffer \<leftarrow> data;
     Some (error, buffer, w)
   }"

definition sdi_smbus_read_word_i2cdev ::
    "'w i2c_os \<Rightarrow> int \<Rightarrow> sdi_smbus_operation \<Rightarrow> i2c_smbus_size \<Rightarrow> u32 \<Rightarrow> smbus_buf \<Rightarrow> 'w
      \<Rightarrow> (t_std_error \<times> smbus_buf \<times> 'w) option" where
  "sdi_smbus_read_word_i2cdev os fd operation sz commandbuf buffer w = do {
     (error, data, w) \<leftarrow> sdi_sys_smbus_execute os fd operation sz commandbuf (Some (Buf16 0)) w;
     if error = STD_ERR_OK then do {
       d \<leftarrow> data; v \<leftarrow> load_word d; buffer \<leftarrow> store_word buffer (0xFFFF AND v);
       Some (error, buffer, w)
     } else Some (error, buffer, w)
   }"

definition sdi_smbus_write_word_i2cdev ::
    "'w i2c_os \<Rightarrow> int \<Rightarrow> sdi_smbus_operation \<Rightarrow> i2c_smbus_size \<Rightarrow> u32 \<Rightarrow> smbus_buf \<Rightarrow> 'w
      \<Rightarrow> (t_std_error \<times> 'w) option" where
  "sdi_smbus_write_word_i2cdev os fd operation sz commandbuf buffer w = do {
     v \<leftarrow> load_word buffer;
     (error, _, w) \<leftarrow> sdi_sys_smbus_execute os fd operation sz commandbuf (Some (Buf16 v)) w;
     Some (error, w)
   }"

text \<open>
  The transfers with a 16 bit offset. Both use only the first byte of \<open>cmd\<close>: \<open>*(cmd++)\<close> yields the
  byte before the increment, which nothing reads afterwards.
\<close>

definition sdi_i2c_read_i2cdev ::
    "'w i2c_os \<Rightarrow> int \<Rightarrow> sdi_i2c_addr \<Rightarrow> u8 list \<Rightarrow> u32 \<Rightarrow> smbus_buf \<Rightarrow> u32 \<Rightarrow> u32 \<Rightarrow> 'w
      \<Rightarrow> (t_std_error \<times> smbus_buf \<times> 'w) option" where
  "sdi_i2c_read_i2cdev os fd address cmd cmdlen buf buflen flag w =
     (if cmdlen = 2 then do {
        STD_ASSERT (cmd \<noteq> []);
        (error, w) \<leftarrow> sdi_smbus_write_byte_i2cdev os fd SDI_SMBUS_WRITE I2C_SMBUS_BYTE_DATA
           (ucast (hd cmd)) (Buf8 (hd cmd)) w;
        if error \<noteq> STD_ERR_OK then Some (error, buf, w)
        else do {
          (error, data, w) \<leftarrow> sdi_sys_smbus_execute os fd SDI_SMBUS_READ I2C_SMBUS_BYTE 0 (Some (Buf8 0)) w;
          if error = STD_ERR_OK then do {
            d \<leftarrow> data; b \<leftarrow> load_byte d; buf \<leftarrow> store_byte buf b;
            Some (error, buf, w)
          } else Some (error, buf, w)
        }
      } else Some (SDI_DEVICE_ERRCODE EOPNOTSUPP, buf, w))"

definition sdi_i2c_write_i2cdev ::
    "'w i2c_os \<Rightarrow> int \<Rightarrow> sdi_i2c_addr \<Rightarrow> u8 list \<Rightarrow> u32 \<Rightarrow> smbus_buf \<Rightarrow> u32 \<Rightarrow> u32 \<Rightarrow> 'w
      \<Rightarrow> (t_std_error \<times> 'w) option" where
  "sdi_i2c_write_i2cdev os fd address cmd cmdlen buf buflen flag w =
     (if cmdlen = 2 then do {
        STD_ASSERT (cmd \<noteq> []);
        b \<leftarrow> load_byte buf;
        (error, _, w) \<leftarrow> sdi_sys_smbus_execute os fd SDI_SMBUS_WRITE I2C_SMBUS_WORD_DATA
           (ucast (hd cmd)) (Some (Buf16 (ucast (hd cmd) OR push_bit 8 (ucast b)))) w;
        Some (error, w)
      } else Some (SDI_DEVICE_ERRCODE EOPNOTSUPP, w))"

section \<open>The operations of the bus\<close>

definition sdi_i2cdev_acquire_bus ::
    "'w i2c_os \<Rightarrow> sdi_sys_i2c_bus \<Rightarrow> 'w \<Rightarrow> (t_std_error \<times> 'w) option" where
  "sdi_i2cdev_acquire_bus os b w = std_mutex_lock os (sys_lock b) w"

definition sdi_i2cdev_release_bus :: "'w i2c_os \<Rightarrow> sdi_sys_i2c_bus \<Rightarrow> 'w \<Rightarrow> 'w option" where
  "sdi_i2cdev_release_bus os b w = do { (_, w) \<leftarrow> std_mutex_unlock os (sys_lock b) w; Some w }"

definition sdi_sys_i2c_get_capability :: "sdi_sys_i2c_bus \<Rightarrow> u64" where
  "sdi_sys_i2c_get_capability b = capability b"

definition sdi_i2cdev_i2c_execute ::
    "'w i2c_os \<Rightarrow> sdi_sys_i2c_bus \<Rightarrow> sdi_i2c_addr \<Rightarrow> sdi_i2c_operation \<Rightarrow> u8 list \<Rightarrow> u32
      \<Rightarrow> smbus_buf \<Rightarrow> u32 \<Rightarrow> u32 \<Rightarrow> 'w \<Rightarrow> (t_std_error \<times> smbus_buf \<times> 'w) option" where
  "sdi_i2cdev_i2c_execute os b address operation cmd cmdlen buffer buflen flags w = do {
     (ok, w) \<leftarrow> ioctl_slave os (i2cdev_fd b) (i2c_addr address) w;
     if \<not> ok then Some (SDI_DEVICE_ERRCODE (os_errno os w), buffer, w)
     else (case operation of
         SDI_I2C_WRITE \<Rightarrow> do {
           (error, w) \<leftarrow> sdi_i2c_write_i2cdev os (i2cdev_fd b) address cmd cmdlen buffer buflen flags w;
           Some (error, buffer, w)
         }
       | SDI_I2C_READ \<Rightarrow>
           sdi_i2c_read_i2cdev os (i2cdev_fd b) address cmd cmdlen buffer buflen flags w)
   }"

text \<open>The switch over the data type; \<open>fd\<close> is the file descriptor of the bus.\<close>

definition keep_buffer ::
    "smbus_buf \<Rightarrow> (t_std_error \<times> 'w) option \<Rightarrow> (t_std_error \<times> smbus_buf \<times> 'w) option" where
  "keep_buffer buffer r = do { (error, w) \<leftarrow> r; Some (error, buffer, w) }"

text \<open>
  16 bit offsets: the high byte of the offset goes out as the command, the low byte as the first
  byte of data. A write needs one word transaction, a read a byte write and a receive.
\<close>

definition write_16bit ::
    "'w i2c_os \<Rightarrow> int \<Rightarrow> i2c_smbus_size \<Rightarrow> u32 \<Rightarrow> smbus_buf \<Rightarrow> 'w
      \<Rightarrow> (t_std_error \<times> smbus_buf \<times> 'w) option" where
  "write_16bit os fd sz commandbuf buffer w = do {
     temp_buf \<leftarrow> load_byte buffer;
     let temp_word = push_bit 8 (ucast temp_buf :: u16) OR ucast (commandbuf AND 0xFF);
     keep_buffer buffer (sdi_smbus_write_word_i2cdev os fd SDI_SMBUS_WRITE sz
       (drop_bit 8 commandbuf AND 0xFF) (Buf16 temp_word) w)
   }"

definition read_16bit ::
    "'w i2c_os \<Rightarrow> int \<Rightarrow> i2c_smbus_size \<Rightarrow> i2c_smbus_size \<Rightarrow> u32 \<Rightarrow> smbus_buf \<Rightarrow> 'w
      \<Rightarrow> (t_std_error \<times> smbus_buf \<times> 'w) option" where
  "read_16bit os fd write_sz read_sz commandbuf buffer w = do {
     (error, w) \<leftarrow> sdi_smbus_write_byte_i2cdev os fd SDI_SMBUS_WRITE write_sz
        (drop_bit 8 commandbuf AND 0xFF) (Buf8 (ucast (commandbuf AND 0xFF))) w;
     if error = STD_ERR_OK
     then sdi_smbus_recv_byte_i2cdev os fd SDI_SMBUS_READ read_sz buffer w
     else Some (error, buffer, w)
   }"

definition smbus_switch ::
    "'w i2c_os \<Rightarrow> int \<Rightarrow> sdi_i2c_addr \<Rightarrow> sdi_smbus_operation \<Rightarrow> sdi_smbus_data_type \<Rightarrow> u32
      \<Rightarrow> smbus_buf \<Rightarrow> 'w \<Rightarrow> (t_std_error \<times> smbus_buf \<times> 'w) option" where
  "smbus_switch os fd address operation data_type commandbuf buffer w =
     (case data_type of
        SDI_SMBUS_BYTE \<Rightarrow>
          (if operation = SDI_SMBUS_WRITE
           then keep_buffer buffer (sdi_smbus_send_byte_i2cdev os fd operation I2C_SMBUS_BYTE commandbuf w)
           else sdi_smbus_recv_byte_i2cdev os fd operation I2C_SMBUS_BYTE buffer w)
      | SDI_SMBUS_BYTE_DATA \<Rightarrow>
          (if operation = SDI_SMBUS_WRITE then
             (if \<not> addr_mode_16bit address
              then keep_buffer buffer
                     (sdi_smbus_write_byte_i2cdev os fd operation I2C_SMBUS_BYTE_DATA commandbuf buffer w)
              else write_16bit os fd I2C_SMBUS_WORD_DATA commandbuf buffer w)
           else
             (if \<not> addr_mode_16bit address
              then sdi_smbus_read_byte_i2cdev os fd operation I2C_SMBUS_BYTE_DATA commandbuf buffer w
              else read_16bit os fd I2C_SMBUS_BYTE_DATA I2C_SMBUS_BYTE commandbuf buffer w))
      | SDI_SMBUS_WORD_DATA \<Rightarrow>
          (if operation = SDI_SMBUS_WRITE
           then keep_buffer buffer
                  (sdi_smbus_write_word_i2cdev os fd operation I2C_SMBUS_WORD_DATA commandbuf buffer w)
           else sdi_smbus_read_word_i2cdev os fd operation I2C_SMBUS_WORD_DATA commandbuf buffer w)
      | SDI_SMBUS_BLOCK_DATA \<Rightarrow>
          (if operation = SDI_SMBUS_WRITE then
             (if \<not> addr_mode_16bit address
              then sdi_smbus_write_block_i2cdev os fd operation I2C_SMBUS_I2C_BLOCK_BROKEN commandbuf buffer w
              else write_16bit os fd I2C_SMBUS_I2C_BLOCK_BROKEN commandbuf buffer w)
           else
             (if \<not> addr_mode_16bit address
              then sdi_smbus_read_byte_i2cdev os fd operation I2C_SMBUS_I2C_BLOCK_BROKEN commandbuf buffer w
              else read_16bit os fd I2C_SMBUS_I2C_BLOCK_BROKEN I2C_SMBUS_I2C_BLOCK_BROKEN commandbuf buffer w)))"

text \<open>The end of the transaction: PEC off again, whose failure replaces the error.\<close>

definition pec_off ::
    "'w i2c_os \<Rightarrow> int \<Rightarrow> u32 \<Rightarrow> t_std_error \<times> smbus_buf \<times> 'w \<Rightarrow> (t_std_error \<times> smbus_buf \<times> 'w) option"
  where
  "pec_off os fd flags r =
     (case r of (error, buffer, w) \<Rightarrow>
        if flags = SDI_I2C_FLAG_PEC then do {
          (ok, w) \<leftarrow> ioctl_pec os fd False w;
          Some (if ok then error else SDI_DEVICE_ERRCODE (os_errno os w), buffer, w)
        } else Some (error, buffer, w))"

definition sdi_i2cdev_smbus_execute ::
    "'w i2c_os \<Rightarrow> sdi_sys_i2c_bus \<Rightarrow> sdi_i2c_addr \<Rightarrow> sdi_smbus_operation \<Rightarrow> sdi_smbus_data_type \<Rightarrow> u32
      \<Rightarrow> smbus_buf \<Rightarrow> u32 \<Rightarrow> 'w \<Rightarrow> (t_std_error \<times> smbus_buf \<times> 'w) option" where
  "sdi_i2cdev_smbus_execute os b address operation data_type commandbuf buffer flags w = do {
     (ok, w) \<leftarrow> ioctl_slave os (i2cdev_fd b) (i2c_addr address) w;
     if \<not> ok then Some (SDI_DEVICE_ERRCODE (os_errno os w), buffer, w)
     else do {
       (ok, w) \<leftarrow> (if flags = SDI_I2C_FLAG_PEC then ioctl_pec os (i2cdev_fd b) True w else Some (True, w));
       if \<not> ok then Some (SDI_DEVICE_ERRCODE (os_errno os w), buffer, w)
       else do {
         r \<leftarrow> smbus_switch os (i2cdev_fd b) address operation data_type commandbuf buffer w;
         pec_off os (i2cdev_fd b) flags r
       }
     }
   }"

text \<open>The table sdi\_i2cdev\_bus\_ops and the bus type that the registration of the driver sets.\<close>

definition sdi_i2cdev_bus_ops :: "'w i2c_os \<Rightarrow> sdi_sys_i2c_bus \<Rightarrow> 'w sdi_i2c_bus_ops" where
  "sdi_i2cdev_bus_ops os b = \<lparr>
     ops_acquire_bus = sdi_i2cdev_acquire_bus os b,
     ops_smbus_execute = sdi_i2cdev_smbus_execute os b,
     ops_i2c_execute = Some (sdi_i2cdev_i2c_execute os b),
     ops_release_bus = sdi_i2cdev_release_bus os b,
     ops_get_capability = sdi_sys_i2c_get_capability b\<rparr>"

definition i2cdev_bus :: "'w i2c_os \<Rightarrow> sdi_sys_i2c_bus \<Rightarrow> 'w sdi_i2c_bus" where
  "i2cdev_bus os b = \<lparr>bus = (sys_bus b)\<lparr>bus_type := SDI_I2C_BUS\<rparr>, ops = sdi_i2cdev_bus_ops os b\<rparr>"

section \<open>The kernel bus is a provider\<close>

lemmas i2cdev_call_defs =
  sdi_smbus_recv_byte_i2cdev_def sdi_smbus_send_byte_i2cdev_def sdi_smbus_read_byte_i2cdev_def
  sdi_smbus_write_byte_i2cdev_def sdi_smbus_read_word_i2cdev_def sdi_smbus_write_word_i2cdev_def
  write_16bit_def read_16bit_def keep_buffer_def

lemma i2cdev_reads_effect:
  "sdi_smbus_recv_byte_i2cdev os fd oper sz p w = Some (e, p', w') \<Longrightarrow>
     same_kind p p' \<and> (e \<noteq> STD_ERR_OK \<longrightarrow> p' = p)"
  "sdi_smbus_read_byte_i2cdev os fd oper sz c p w = Some (e, p', w') \<Longrightarrow>
     same_kind p p' \<and> (e \<noteq> STD_ERR_OK \<longrightarrow> p' = p)"
  "sdi_smbus_read_word_i2cdev os fd oper sz c p w = Some (e, p', w') \<Longrightarrow>
     same_kind p p' \<and> (e \<noteq> STD_ERR_OK \<longrightarrow> p' = p)"
  by (auto simp: sdi_smbus_recv_byte_i2cdev_def sdi_smbus_read_byte_i2cdev_def
      sdi_smbus_read_word_i2cdev_def bind_SomeD split: if_splits dest: same_kind_store)

lemma read_16bit_effect:
  "read_16bit os fd sz sz' c p w = Some (e, p', w') \<Longrightarrow> same_kind p p' \<and> (e \<noteq> STD_ERR_OK \<longrightarrow> p' = p)"
  by (auto simp: read_16bit_def bind_SomeD split: if_splits dest: i2cdev_reads_effect)

lemma smbus_switch_effect:
  assumes "smbus_switch os fd address oper dt c p w = Some (e, p', w')" and "dt \<noteq> SDI_SMBUS_BLOCK_DATA"
  shows "same_kind p p' \<and> (e \<noteq> STD_ERR_OK \<longrightarrow> p' = p) \<and> (oper = SDI_SMBUS_WRITE \<longrightarrow> p' = p)"
  using assms
  by (cases dt)
    (auto simp: smbus_switch_def write_16bit_def keep_buffer_def bind_SomeD Let_def split: if_splits
      dest: i2cdev_reads_effect read_16bit_effect)

lemma i2cdev_execute_effect:
  assumes "sdi_i2cdev_smbus_execute os b address oper dt c p flags w = Some (e, p', w')"
    and "dt \<noteq> SDI_SMBUS_BLOCK_DATA"
  shows "same_kind p p' \<and> (flags \<noteq> SDI_I2C_FLAG_PEC \<longrightarrow> e \<noteq> STD_ERR_OK \<longrightarrow> p' = p) \<and>
    (oper = SDI_SMBUS_WRITE \<longrightarrow> p' = p)"
  using assms
  by (auto simp: sdi_i2cdev_smbus_execute_def pec_off_def bind_SomeD split: if_splits
      dest!: smbus_switch_effect)

interpretation i2cdev: smbus_provider "i2cdev_bus os b" for os :: "'w i2c_os" and b
proof unfold_locales
  show "bus_type (bus (i2cdev_bus os b)) = SDI_I2C_BUS"
    by (simp add: i2cdev_bus_def)
qed (auto simp: sdi_smbus_execute_def i2cdev_bus_def sdi_i2cdev_bus_ops_def dest: i2cdev_execute_effect)

section \<open>Lock discipline on the kernel bus\<close>

text \<open>
  The same operating system with the world paired with a trace: locks and unlocks are recorded, and
  every SMBus ioctl is a transfer on its file descriptor.
\<close>

definition lift_ok :: "('w \<Rightarrow> (bool \<times> 'w) option) \<Rightarrow> 'w \<times> event list \<Rightarrow> (bool \<times> ('w \<times> event list)) option" where
  "lift_ok f wt = (case f (fst wt) of None \<Rightarrow> None | Some (ok, w) \<Rightarrow> Some (ok, (w, snd wt)))"

definition traced_i2c_os :: "'w i2c_os \<Rightarrow> ('w \<times> event list) i2c_os" where
  "traced_i2c_os os = \<lparr>
     std_mutex_lock_init = (\<lambda>m wt. (std_mutex_lock_init os m (fst wt), snd wt)),
     std_mutex_lock = traced_lock (std_mutex_lock os),
     std_mutex_unlock = traced_unlock (std_mutex_unlock os),
     std_usleep = (\<lambda>n wt. (std_usleep os n (fst wt), snd wt)),
     os_errno = (\<lambda>wt. os_errno os (fst wt)),
     ioctl_slave = (\<lambda>fd a. lift_ok (ioctl_slave os fd a)),
     ioctl_pec = (\<lambda>fd on. lift_ok (ioctl_pec os fd on)),
     ioctl_smbus = (\<lambda>fd oper c sz d wt.
        case ioctl_smbus os fd oper c sz d (fst wt) of
          None \<Rightarrow> None
        | Some (ok, d', w) \<Rightarrow> Some (ok, d', (w, snd wt @ [Transfer fd]))),
     reset_script_access = (\<lambda>wt. reset_script_access os (fst wt)),
     reset_script_run = (\<lambda>f oper sz c wt. (reset_script_run os f oper sz c (fst wt), snd wt))\<rparr>"

lemma runs_transfer:
  assumes "m \<in> set ms" and "snd w' = snd w @ [Transfer fd]"
  shows "runs snd m fd ms ms w w'"
  using assms by (auto simp: runs_def)

lemma runs_same:
  assumes "snd w' = snd w"
  shows "runs snd m fd ms ms w w'"
  using assms by (auto simp: runs_def intro: exI [of _ "[]"])

lemma smbus_retry_runs:
  assumes "m \<in> set ms"
  shows "smbus_retry (traced_i2c_os os) fd oper sz c n d w = Some (ok, d', w') \<Longrightarrow> runs snd m fd ms ms w w'"
proof (induction n arbitrary: d w)
  case (Suc n)
  from Suc.prems obtain ok1 d1 w1 where
    io: "ioctl_smbus (traced_i2c_os os) fd oper (ucast c) sz d w = Some (ok1, d1, w1)"
    and rest: "(if ok1 then Some (True, d1, w1)
      else smbus_retry (traced_i2c_os os) fd oper sz c n d1
        (std_usleep (traced_i2c_os os) SDI_IIC_WAIT_TIME (i2c_reset (traced_i2c_os os) oper sz c w1))) =
      Some (ok, d', w')"
    by (auto simp: bind_SomeD)
  have step: "runs snd m fd ms ms w w1"
    using io by (auto simp: traced_i2c_os_def split: option.splits intro!: runs_transfer [OF assms])
  show ?case
  proof (cases ok1)
    case True
    then show ?thesis using rest step by simp
  next
    case False
    let ?w2 = "std_usleep (traced_i2c_os os) SDI_IIC_WAIT_TIME (i2c_reset (traced_i2c_os os) oper sz c w1)"
    have "runs snd m fd ms ms w1 ?w2"
      by (rule runs_same) (simp add: traced_i2c_os_def i2c_reset_def)
    moreover have "runs snd m fd ms ms ?w2 w'"
      using rest False by (auto dest: Suc.IH)
    ultimately show ?thesis using step by (blast intro: runs_trans)
  qed
qed simp

lemma sdi_sys_smbus_execute_runs:
  assumes "m \<in> set ms"
    and "sdi_sys_smbus_execute (traced_i2c_os os) fd oper sz c d w = Some (e, d', w')"
  shows "runs snd m fd ms ms w w'"
proof -
  from assms(2) obtain ok w1 where
    r: "smbus_retry (traced_i2c_os os) fd oper sz c SDI_MAX_IIC_RETRY d w = Some (ok, d', w1)"
    and w': "snd w' = snd w1"
    by (auto simp: sdi_sys_smbus_execute_def bind_SomeD Let_def traced_i2c_os_def i2c_reset_def
        split: if_splits)
  show ?thesis
    by (rule runs_trans [OF smbus_retry_runs [OF assms(1) r] runs_same]) (rule w')
qed

lemma i2cdev_calls_run:
  assumes "m \<in> set ms"
  shows
    "sdi_smbus_recv_byte_i2cdev (traced_i2c_os os) fd oper sz p w = Some (e, p', w') \<Longrightarrow> runs snd m fd ms ms w w'"
    "sdi_smbus_send_byte_i2cdev (traced_i2c_os os) fd oper sz c w = Some (e, w') \<Longrightarrow> runs snd m fd ms ms w w'"
    "sdi_smbus_read_byte_i2cdev (traced_i2c_os os) fd oper sz c p w = Some (e, p', w') \<Longrightarrow> runs snd m fd ms ms w w'"
    "sdi_smbus_write_byte_i2cdev (traced_i2c_os os) fd oper sz c p w = Some (e, w') \<Longrightarrow> runs snd m fd ms ms w w'"
    "sdi_smbus_write_block_i2cdev (traced_i2c_os os) fd oper sz c p w = Some (e, p', w') \<Longrightarrow> runs snd m fd ms ms w w'"
    "sdi_smbus_read_word_i2cdev (traced_i2c_os os) fd oper sz c p w = Some (e, p', w') \<Longrightarrow> runs snd m fd ms ms w w'"
    "sdi_smbus_write_word_i2cdev (traced_i2c_os os) fd oper sz c p w = Some (e, w') \<Longrightarrow> runs snd m fd ms ms w w'"
  unfolding sdi_smbus_write_block_i2cdev_def i2cdev_call_defs
  by (auto simp: bind_SomeD split: if_splits dest: sdi_sys_smbus_execute_runs [OF assms])

lemma smbus_switch_runs:
  assumes "m \<in> set ms"
    and "smbus_switch (traced_i2c_os os) fd address oper dt c p w = Some (e, p', w')"
  shows "runs snd m fd ms ms w w'"
  using assms(2)
  by (cases dt)
    (auto simp: smbus_switch_def write_16bit_def read_16bit_def keep_buffer_def bind_SomeD Let_def
      split: if_splits dest!: i2cdev_calls_run [OF assms(1)] intro: runs_trans)

lemma lift_ok_runs: "lift_ok f w = Some (ok, w') \<Longrightarrow> runs snd m fd ms ms w w'"
  by (rule runs_same) (auto simp: lift_ok_def split: option.splits)

lemma ioctls_run:
  "ioctl_slave (traced_i2c_os os) fd a w = Some (ok, w') \<Longrightarrow> runs snd m fd' ms ms w w'"
  "ioctl_pec (traced_i2c_os os) fd on w = Some (ok, w') \<Longrightarrow> runs snd m fd' ms ms w w'"
  by (auto simp: traced_i2c_os_def intro: lift_ok_runs)

lemma i2cdev_execute_runs:
  assumes "m \<in> set ms"
    and "sdi_i2cdev_smbus_execute (traced_i2c_os os) b addr oper dt c p flags w = Some (e, p', w')"
  shows "runs snd m (i2cdev_fd b) ms ms w w'"
proof -
  note run = ioctls_run(1) [where m = m and fd' = "i2cdev_fd b" and ms = ms]
    ioctls_run(2) [where m = m and fd' = "i2cdev_fd b" and ms = ms] smbus_switch_runs [OF assms(1)]
  show ?thesis
    using assms(2)
    by (auto simp: sdi_i2cdev_smbus_execute_def pec_off_def bind_SomeD split: if_splits
        dest!: run intro: runs_trans)
qed

lemma i2cdev_i2c_execute_runs:
  assumes "m \<in> set ms"
    and "sdi_i2cdev_i2c_execute (traced_i2c_os os) b addr iop cs cl p bl flags w = Some (e, p', w')"
  shows "runs snd m (i2cdev_fd b) ms ms w w'"
  using assms(2)
  by (auto simp: sdi_i2cdev_i2c_execute_def sdi_i2c_read_i2cdev_def sdi_i2c_write_i2cdev_def bind_SomeD
      split: if_splits sdi_i2c_operation.splits
      dest!: ioctls_run(1) i2cdev_calls_run [OF assms(1)] sdi_sys_smbus_execute_runs [OF assms(1)]
      intro: runs_trans)

lemma i2cdev_acquire_runs:
  "sdi_i2c_acquire_bus (i2cdev_bus (traced_i2c_os os) b) w = Some (STD_ERR_OK, w') \<Longrightarrow>
     runs snd m fd ctx (sys_lock b # ctx) w w'"
  "sdi_i2c_acquire_bus (i2cdev_bus (traced_i2c_os os) b) w = Some (e, w') \<Longrightarrow> e \<noteq> STD_ERR_OK \<Longrightarrow>
     runs snd m fd ctx ctx w w'"
  "sdi_i2c_release_bus (i2cdev_bus (traced_i2c_os os) b) w = Some w' \<Longrightarrow>
     runs snd m fd (sys_lock b # ctx) ctx w w'"
  by (auto simp: sdi_i2c_acquire_bus_def sdi_i2c_release_bus_def i2cdev_bus_def sdi_i2cdev_bus_ops_def
      sdi_i2cdev_acquire_bus_def sdi_i2cdev_release_bus_def traced_i2c_os_def traced_lock_def
      traced_unlock_def runs_def bind_SomeD split: option.splits)

lemma i2cdev_execute_runs':
  assumes "m \<in> set ms"
  shows "sdi_smbus_execute (i2cdev_bus (traced_i2c_os os) b) addr oper dt c p flags w = Some (e, p', w') \<Longrightarrow>
      runs snd m (i2cdev_fd b) ms ms w w'"
    and "sdi_i2c_bus_execute (i2cdev_bus (traced_i2c_os os) b) addr iop cs cl p bl flags w = Some (e, p', w') \<Longrightarrow>
      runs snd m (i2cdev_fd b) ms ms w w'"
  by (auto simp: sdi_smbus_execute_def sdi_i2c_bus_execute_def i2cdev_bus_def sdi_i2cdev_bus_ops_def
      dest: i2cdev_execute_runs [OF assms] i2cdev_i2c_execute_runs [OF assms])

text \<open>The bus guards its transfers with its own mutex, and with any mutex its caller holds.\<close>

interpretation i2cdev_locks: bus_locking "i2cdev_bus (traced_i2c_os os) b" snd "sys_lock b" "i2cdev_fd b"
  "[sys_lock b]" ctx
  for os :: "'w i2c_os" and b ctx
  by unfold_locales
    (simp_all add: i2cdev_acquire_runs, (erule i2cdev_execute_runs' [rotated], simp)+)

interpretation i2cdev_outer: bus_locking "i2cdev_bus (traced_i2c_os os) b" snd m "i2cdev_fd b"
  "[sys_lock b]" "m # ctx"
  for os :: "'w i2c_os" and b m ctx
  by unfold_locales
    (simp_all add: i2cdev_acquire_runs, (erule i2cdev_execute_runs' [rotated], simp)+)

section \<open>Properties of the kernel bus\<close>

text \<open>
  C6. Lock discipline. In any sequence of SMBus API calls on a kernel bus, whatever the kernel and
  the mutex answer and whatever branch each call takes, every transfer on the file descriptor of the
  bus happens while the mutex of the bus is held, and at the end the calls hold no lock they did
  not hold before.
\<close>

theorem i2cdev_api_lock_discipline:
  assumes "(api_step (i2cdev_bus (traced_i2c_os os) b))\<^sup>*\<^sup>* (w, ts) (w', ts')"
  shows "\<exists>us. ts' = ts @ us \<and>
    (\<forall>hs. locks_held us hs = hs \<and> transfers_guarded (sys_lock b) (i2cdev_fd b) us hs)"
  using i2cdev_locks.api_steps_run [OF assms, where ctx = "[]"] by (simp add: runs_def)

text \<open>A kernel that answers every ioctl with success and reads zero, for the witnesses.\<close>

definition idle_i2c_os :: "mutex list i2c_os" where
  "idle_i2c_os = \<lparr>
     std_mutex_lock_init = (\<lambda>m w. w),
     std_mutex_lock = (\<lambda>m w. Some (STD_ERR_OK, m # w)),
     std_mutex_unlock = (\<lambda>m w. Some (STD_ERR_OK, remove1 m w)),
     std_usleep = (\<lambda>n w. w),
     os_errno = (\<lambda>w. EIO),
     ioctl_slave = (\<lambda>fd a w. Some (True, w)),
     ioctl_pec = (\<lambda>fd on w. Some (True, w)),
     ioctl_smbus = (\<lambda>fd oper c sz d w. Some (True, d, w)),
     reset_script_access = (\<lambda>w. False),
     reset_script_run = (\<lambda>f oper sz c w. w)\<rparr>"

definition sample_i2c_bus :: sdi_sys_i2c_bus where
  "sample_i2c_bus = \<lparr>
     sys_bus = \<lparr>bus_type = SDI_I2C_BUS, bus_id = 1, bus_name = ''smbus0'', sdi_device_list = []\<rparr>,
     sys_lock = Mutex 20, i2cdev_fd = 5, capability = 0\<rparr>"

definition sample_addr :: sdi_i2c_addr where
  "sample_addr = \<lparr>i2c_addr = 0x50, addr_mode_16bit = False\<rparr>"

lemmas i2cdev_eval =
  with_bus_def sdi_i2c_acquire_bus_def sdi_i2c_release_bus_def sdi_smbus_execute_def i2cdev_bus_def
  sdi_i2cdev_bus_ops_def sdi_i2cdev_acquire_bus_def sdi_i2cdev_release_bus_def
  sdi_i2cdev_smbus_execute_def smbus_switch_def pec_off_def keep_buffer_def
  sdi_sys_smbus_execute_def SDI_MAX_IIC_RETRY_def sample_i2c_bus_def sample_addr_def
  SDI_I2C_FLAG_PEC_def SDI_I2C_FLAG_NONE_def

lemma i2cdev_api_lock_discipline_witness:
  "\<exists>us. [Locked (Mutex 20), Transfer 5, Unlocked (Mutex 20)] = us \<and>
    transfers_guarded (Mutex 20) 5 us [] \<and> locks_held us [] = []"
proof -
  have "sdi_smbus_read_byte (i2cdev_bus (traced_i2c_os idle_i2c_os) sample_i2c_bus) sample_addr 7 9
      SDI_I2C_FLAG_NONE ([], []) =
    Some (STD_ERR_OK, 0, ([], [Locked (Mutex 20), Transfer 5, Unlocked (Mutex 20)]))"
    by (simp add: sdi_smbus_read_byte_def sdi_smbus_read_byte_i2cdev_def i2cdev_eval idle_i2c_os_def
        traced_i2c_os_def lift_ok_def traced_lock_def traced_unlock_def sdi_simps)
  then have "(api_step (i2cdev_bus (traced_i2c_os idle_i2c_os) sample_i2c_bus))\<^sup>*\<^sup>*
      ([], []) ([], [Locked (Mutex 20), Transfer 5, Unlocked (Mutex 20)])"
    by (intro r_into_rtranclp) (rule api_step.read_byte)
  from i2cdev_api_lock_discipline [OF this]
  show ?thesis by (simp add: sample_i2c_bus_def)
qed

text \<open>
  Reading several bytes. sdi\_smbus\_read\_multi\_byte over the kernel bus (without PEC) never
  changes the length of the buffer; when it reports success it has read exactly the requested number
  of bytes and left the rest of the buffer alone, and when it reports an error the bytes from the
  failing one on are untouched.
\<close>

theorem i2cdev_read_multi_byte_prefix:
  assumes "sdi_smbus_read_multi_byte (i2cdev_bus os b) addr cmd buffer n flags w = Some (e, buffer', w')"
    and "flags \<noteq> SDI_I2C_FLAG_PEC"
  shows "length buffer' = length buffer \<and>
    (\<exists>k \<le> unat n. drop k buffer' = drop k buffer \<and>
       (e = STD_ERR_OK \<longrightarrow> k = unat n \<and> unat n \<le> length buffer))"
proof -
  from assms(1) consider (acquire) "buffer' = buffer" "e \<noteq> STD_ERR_OK"
    | (read) w1 w2 where
      "smbus_multi (i2cdev_bus os b) addr SDI_SMBUS_READ flags (unat n) cmd buffer w1 = Some (e, buffer', w2)"
    by (auto simp: sdi_smbus_read_multi_byte_def with_bus_def bind_SomeD split: if_splits)
  then show ?thesis
  proof cases
    case acquire
    then show ?thesis by auto
  next
    case read
    from i2cdev.smbus_multi_read_prefix [OF assms(2) read] show ?thesis by blast
  qed
qed

lemma i2cdev_read_multi_byte_prefix_witness:
  "let r = the (sdi_smbus_read_multi_byte (i2cdev_bus idle_i2c_os sample_i2c_bus) sample_addr 0
        [1, 2, 3] 2 SDI_I2C_FLAG_NONE [])
   in length (fst (snd r)) = 3"
proof -
  let ?r = "sdi_smbus_read_multi_byte (i2cdev_bus idle_i2c_os sample_i2c_bus) sample_addr 0
        [1, 2, 3] 2 SDI_I2C_FLAG_NONE []"
  have r: "?r = Some (STD_ERR_OK, [0, 0, 3], [])"
    by (simp add: sdi_smbus_read_multi_byte_def sdi_smbus_read_byte_i2cdev_def i2cdev_eval
        idle_i2c_os_def sdi_simps)
  from i2cdev_read_multi_byte_prefix [OF this] show ?thesis
    unfolding r by (simp add: SDI_I2C_FLAG_NONE_def SDI_I2C_FLAG_PEC_def Let_def)
qed

text \<open>
  C8. The retries are bounded. Whatever measure counts the SMBus ioctls, a transaction of
  sdi\_sys\_smbus\_execute issues between one and SDI\_MAX\_IIC\_RETRY = 5 of them, and reports an error
  only after all five have failed.
\<close>

lemma smbus_retry_count:
  assumes io: "\<And>fd oper c sz d w ok d' w'. ioctl_smbus os fd oper c sz d w = Some (ok, d', w') \<Longrightarrow>
      count w' = Suc (count w)"
    and quiet: "\<And>t w. count (std_usleep os t w) = count w"
      "\<And>f oper sz c w. count (reset_script_run os f oper sz c w) = count w"
  shows "smbus_retry os fd oper sz c n d w = Some (ok, d', w') \<Longrightarrow>
    count w' \<le> count w + n \<and> (\<not> ok \<longrightarrow> count w' = count w + n) \<and> count w + min n 1 \<le> count w'"
proof (induction n arbitrary: d w)
  case (Suc n)
  have reset: "count (i2c_reset os oper sz c w) = count w" for w
    by (simp add: i2c_reset_def quiet)
  from Suc.prems obtain ok1 d1 w1 where
    o1: "ioctl_smbus os fd oper (ucast c) sz d w = Some (ok1, d1, w1)"
    and rest: "(if ok1 then Some (True, d1, w1) else smbus_retry os fd oper sz c n d1
        (std_usleep os SDI_IIC_WAIT_TIME (i2c_reset os oper sz c w1))) = Some (ok, d', w')"
    by (auto simp: bind_SomeD)
  have c1: "count w1 = Suc (count w)" by (rule io [OF o1])
  show ?case
  proof (cases ok1)
    case True
    then show ?thesis using rest c1 by simp
  next
    case False
    then have "smbus_retry os fd oper sz c n d1
        (std_usleep os SDI_IIC_WAIT_TIME (i2c_reset os oper sz c w1)) = Some (ok, d', w')"
      using rest by simp
    from Suc.IH [OF this] c1 show ?thesis by (auto simp: quiet reset)
  qed
qed simp

theorem smbus_transaction_retries_bounded:
  fixes os :: "'w i2c_os" and count :: "'w \<Rightarrow> nat"
  assumes "\<forall>fd oper c sz d w ok d' w'. ioctl_smbus os fd oper c sz d w = Some (ok, d', w') \<longrightarrow>
      count w' = Suc (count w)"
    and "\<forall>t w. count (std_usleep os t w) = count w"
    and "\<forall>f oper sz c w. count (reset_script_run os f oper sz c w) = count w"
    and "sdi_sys_smbus_execute os fd oper sz c d w = Some (e, d', w')"
  shows "count w < count w' \<and> count w' \<le> count w + 5 \<and>
    (e \<noteq> STD_ERR_OK \<longrightarrow> count w' = count w + 5)"
proof -
  from assms(4) obtain ok w1 where
    r: "smbus_retry os fd oper sz c SDI_MAX_IIC_RETRY d w = Some (ok, d', w1)"
    and c: "count w' = count w1" and e: "e \<noteq> STD_ERR_OK \<longrightarrow> \<not> ok"
    using assms(2,3)
    by (auto simp: sdi_sys_smbus_execute_def bind_SomeD Let_def i2c_reset_def split: if_splits)
  have "count w1 \<le> count w + 5 \<and> (\<not> ok \<longrightarrow> count w1 = count w + 5) \<and> count w < count w1"
    using smbus_retry_count [of os count, OF _ _ _ r] assms(1-3)
    by (auto simp: SDI_MAX_IIC_RETRY_def)
  with c e show ?thesis by simp
qed

definition failing_i2c_os :: "nat i2c_os" where
  "failing_i2c_os = \<lparr>
     std_mutex_lock_init = (\<lambda>m w. w),
     std_mutex_lock = (\<lambda>m w. Some (STD_ERR_OK, w)),
     std_mutex_unlock = (\<lambda>m w. Some (STD_ERR_OK, w)),
     std_usleep = (\<lambda>n w. w),
     os_errno = (\<lambda>w. EIO),
     ioctl_slave = (\<lambda>fd a w. Some (True, w)),
     ioctl_pec = (\<lambda>fd on w. Some (True, w)),
     ioctl_smbus = (\<lambda>fd oper c sz d w. Some (False, d, Suc w)),
     reset_script_access = (\<lambda>w. True),
     reset_script_run = (\<lambda>f oper sz c w. w)\<rparr>"

lemma smbus_transaction_retries_bounded_witness:
  "snd (snd (the (sdi_sys_smbus_execute failing_i2c_os 5 SDI_SMBUS_READ I2C_SMBUS_BYTE 0 None 2))) = 7"
proof -
  have r: "sdi_sys_smbus_execute failing_i2c_os 5 SDI_SMBUS_READ I2C_SMBUS_BYTE 0 None 2 =
      Some (SDI_ERRCODE EIO, None, 7)"
    by (simp add: sdi_sys_smbus_execute_def failing_i2c_os_def SDI_MAX_IIC_RETRY_def i2c_reset_def
        sdi_simps)
  from smbus_transaction_retries_bounded [of failing_i2c_os id, OF _ _ _ this]
  have "(7 :: nat) = 2 + 5" by (simp add: failing_i2c_os_def)
  then show ?thesis by (simp add: r)
qed

text \<open>
  SMBus Send Byte loses its data: over the kernel bus, sdi\_smbus\_send\_byte behaves the same
  whatever byte it is asked to send, because the bus driver passes the command argument of the call
  (always zero) instead of the buffer. The documented format of the call has the data byte on the
  wire.
\<close>

theorem i2cdev_send_byte_ignores_data:
  "sdi_smbus_send_byte (i2cdev_bus os b) addr x flags w =
   sdi_smbus_send_byte (i2cdev_bus os b) addr y flags w"
proof -
  have execute: "sdi_smbus_execute (i2cdev_bus os b) addr SDI_SMBUS_WRITE SDI_SMBUS_BYTE c (Buf8 v) flags w =
      map_option (\<lambda>(e, p, w). (e, Buf8 v, w))
        (sdi_smbus_execute (i2cdev_bus os b) addr SDI_SMBUS_WRITE SDI_SMBUS_BYTE c (Buf8 u) flags w)"
    for c v u w
    by (simp add: sdi_smbus_execute_def i2cdev_bus_def
      sdi_i2cdev_bus_ops_def sdi_i2cdev_smbus_execute_def smbus_switch_def keep_buffer_def
      pec_off_def split: bind_split)
  show ?thesis
    unfolding sdi_smbus_send_byte_def with_bus_def
    by (subst execute [of _ x _ y]) (auto split: bind_split)
qed

text \<open>
  The transfers with a two byte offset use its first byte only: sdi\_i2c\_read and sdi\_i2c\_write
  over the kernel bus do the same for any two offsets that agree in their first byte, so 256 cells
  share every address.
\<close>

theorem i2cdev_i2c_offset_low_byte_ignored:
  "sdi_i2c_read_api (i2cdev_bus os b) addr (Some [hi, lo]) 2 buffer n flags w =
     sdi_i2c_read_api (i2cdev_bus os b) addr (Some [hi, lo']) 2 buffer n flags w \<and>
   sdi_i2c_write_api (i2cdev_bus os b) addr (Some [hi, lo]) 2 v n flags w =
     sdi_i2c_write_api (i2cdev_bus os b) addr (Some [hi, lo']) 2 v n flags w"
proof -
  have io: "sdi_i2c_write_i2cdev os (i2cdev_fd b) addr [hi, lo] 2 p n flags =
        sdi_i2c_write_i2cdev os (i2cdev_fd b) addr [hi, lo'] 2 p n flags"
      "sdi_i2c_read_i2cdev os (i2cdev_fd b) addr [hi, lo] 2 p n flags =
        sdi_i2c_read_i2cdev os (i2cdev_fd b) addr [hi, lo'] 2 p n flags" for p
    by (rule ext, simp add: sdi_i2c_read_i2cdev_def sdi_i2c_write_i2cdev_def)+
  have bus: "sdi_i2c_bus_execute (i2cdev_bus os b) addr oper [hi, lo] 2 p n flags =
      sdi_i2c_bus_execute (i2cdev_bus os b) addr oper [hi, lo'] 2 p n flags" for oper p
    by (rule ext) (unfold sdi_i2c_bus_execute_def i2cdev_bus_def sdi_i2cdev_bus_ops_def
      sdi_i2c_bus.simps sdi_i2c_bus_ops.simps option.simps sdi_i2cdev_i2c_execute_def io, rule refl)
  show ?thesis
    unfolding sdi_i2c_read_api_def sdi_i2c_write_api_def option.simps bus by simp
qed

text \<open>
  A memory behind a 16 bit offset, as serial EEPROMs behave: a word write stores its high byte at
  the offset made of the command and the low byte; a byte write sets the address pointer; a receive
  reads the cell at the pointer. Nothing else changes the memory or the pointer.
\<close>

definition offset16 :: "u8 \<Rightarrow> u8 \<Rightarrow> u16" where
  "offset16 hi lo = push_bit 8 (ucast hi) OR ucast lo"

definition word_addressed_memory ::
    "'w i2c_os \<Rightarrow> int \<Rightarrow> ('w \<Rightarrow> u16 \<Rightarrow> u8) \<Rightarrow> ('w \<Rightarrow> u16) \<Rightarrow> bool" where
  "word_addressed_memory os fd mem ptr \<longleftrightarrow>
     (\<forall>a w. \<exists>w'. ioctl_slave os fd a w = Some (True, w') \<and> mem w' = mem w \<and> ptr w' = ptr w) \<and>
     (\<forall>hi v w. \<exists>d w'. ioctl_smbus os fd SDI_SMBUS_WRITE hi I2C_SMBUS_WORD_DATA (Some (Buf16 v)) w =
         Some (True, d, w') \<and>
         mem w' = (mem w)(offset16 hi (ucast v) := ucast (drop_bit 8 v))) \<and>
     (\<forall>hi lo w. \<exists>d w'. ioctl_smbus os fd SDI_SMBUS_WRITE hi I2C_SMBUS_BYTE_DATA (Some (Buf8 lo)) w =
         Some (True, d, w') \<and> mem w' = mem w \<and> ptr w' = offset16 hi lo) \<and>
     (\<forall>w. \<exists>w'. ioctl_smbus os fd SDI_SMBUS_READ 0 I2C_SMBUS_BYTE (Some (Buf8 0)) w =
         Some (True, Some (Buf8 (mem w (ptr w))), w') \<and> mem w' = mem w) \<and>
     (\<forall>m w. \<exists>w'. std_mutex_lock os m w = Some (STD_ERR_OK, w') \<and> mem w' = mem w) \<and>
     (\<forall>m w. \<exists>w'. std_mutex_unlock os m w = Some (STD_ERR_OK, w') \<and> mem w' = mem w) \<and>
     (\<forall>t w. mem (std_usleep os t w) = mem w \<and> ptr (std_usleep os t w) = ptr w)"

lemma smbus_execute_first_try:
  assumes "ioctl_smbus os fd oper (ucast c) sz d w = Some (True, d', w')"
  shows "sdi_sys_smbus_execute os fd oper sz c d w =
    Some (STD_ERR_OK, d', std_usleep os SDI_IIC_WAIT_TIME w')"
  using assms by (simp add: sdi_sys_smbus_execute_def SDI_MAX_IIC_RETRY_def sdi_simps)

lemma word_addressed_write:
  assumes M: "word_addressed_memory os (i2cdev_fd b) mem ptr" and "addr_mode_16bit addr"
  shows "\<exists>w'. sdi_smbus_write_byte (i2cdev_bus os b) addr off v SDI_I2C_FLAG_NONE w = Some (STD_ERR_OK, w') \<and>
    mem w' = (mem w)(offset16 (ucast (drop_bit 8 off AND 0xFF)) (ucast (off AND 0xFF)) := v)"
proof -
  let ?hi = "ucast (drop_bit 8 off AND 0xFF) :: u8" and ?fd = "i2cdev_fd b"
  let ?v = "push_bit 8 (ucast v :: u16) OR ucast (off AND 0xFF)"
  obtain w1 where l: "std_mutex_lock os (sys_lock b) w = Some (STD_ERR_OK, w1)" "mem w1 = mem w"
    using M unfolding word_addressed_memory_def by meson
  obtain w2 where s: "ioctl_slave os ?fd (i2c_addr addr) w1 = Some (True, w2)" "mem w2 = mem w1"
    using M unfolding word_addressed_memory_def by meson
  obtain d w3 where x: "ioctl_smbus os ?fd SDI_SMBUS_WRITE ?hi I2C_SMBUS_WORD_DATA (Some (Buf16 ?v)) w2 =
      Some (True, d, w3)" "mem w3 = (mem w2)(offset16 ?hi (ucast ?v) := ucast (drop_bit 8 ?v))"
    using M unfolding word_addressed_memory_def by meson
  let ?w4 = "std_usleep os SDI_IIC_WAIT_TIME w3"
  have w4: "mem ?w4 = mem w3"
    using M unfolding word_addressed_memory_def by blast
  obtain w5 where u: "std_mutex_unlock os (sys_lock b) ?w4 = Some (STD_ERR_OK, w5)" "mem w5 = mem ?w4"
    using M unfolding word_addressed_memory_def by meson
  have "sdi_smbus_write_byte (i2cdev_bus os b) addr off v SDI_I2C_FLAG_NONE w = Some (STD_ERR_OK, w5)"
    using l(1) s(1) u(1) assms(2) smbus_execute_first_try [OF x(1)]
    by (simp add: sdi_smbus_write_byte_def sdi_smbus_write_word_i2cdev_def write_16bit_def
        with_bus_def sdi_i2c_acquire_bus_def sdi_i2c_release_bus_def sdi_smbus_execute_def
        i2cdev_bus_def sdi_i2cdev_bus_ops_def sdi_i2cdev_acquire_bus_def sdi_i2cdev_release_bus_def
        sdi_i2cdev_smbus_execute_def smbus_switch_def pec_off_def keep_buffer_def
        SDI_I2C_FLAG_PEC_def SDI_I2C_FLAG_NONE_def)
  moreover have "(ucast ?v :: u8) = ucast (off AND 0xFF)" and "ucast (drop_bit 8 ?v) = v"
    by (rule bit_word_eqI; simp add: bit_simps; auto simp: bit_simps)+
  ultimately show ?thesis using l(2) s(2) x(2) w4 u(2) by auto
qed

lemma word_addressed_read:
  assumes M: "word_addressed_memory os (i2cdev_fd b) mem ptr" and "addr_mode_16bit addr"
  shows "\<exists>w'. sdi_smbus_read_byte (i2cdev_bus os b) addr off old SDI_I2C_FLAG_NONE w =
      Some (STD_ERR_OK, mem w (offset16 (ucast (drop_bit 8 off AND 0xFF)) (ucast (off AND 0xFF))), w')"
proof -
  let ?hi = "ucast (drop_bit 8 off AND 0xFF) :: u8" and ?lo = "ucast (off AND 0xFF) :: u8"
    and ?fd = "i2cdev_fd b"
  obtain w1 where l: "std_mutex_lock os (sys_lock b) w = Some (STD_ERR_OK, w1)" "mem w1 = mem w"
    using M unfolding word_addressed_memory_def by meson
  obtain w2 where s: "ioctl_slave os ?fd (i2c_addr addr) w1 = Some (True, w2)" "mem w2 = mem w1"
    using M unfolding word_addressed_memory_def by meson
  obtain d w3 where x: "ioctl_smbus os ?fd SDI_SMBUS_WRITE ?hi I2C_SMBUS_BYTE_DATA (Some (Buf8 ?lo)) w2 =
      Some (True, d, w3)" "mem w3 = mem w2" "ptr w3 = offset16 ?hi ?lo"
    using M unfolding word_addressed_memory_def by meson
  let ?w4 = "std_usleep os SDI_IIC_WAIT_TIME w3"
  have w4: "mem ?w4 = mem w3" "ptr ?w4 = ptr w3"
    using M unfolding word_addressed_memory_def by blast+
  obtain w5 where y: "ioctl_smbus os ?fd SDI_SMBUS_READ 0 I2C_SMBUS_BYTE (Some (Buf8 0)) ?w4 =
      Some (True, Some (Buf8 (mem ?w4 (ptr ?w4))), w5)"
    using M unfolding word_addressed_memory_def by meson
  obtain w6 where u: "std_mutex_unlock os (sys_lock b) (std_usleep os SDI_IIC_WAIT_TIME w5) =
      Some (STD_ERR_OK, w6)"
    using M unfolding word_addressed_memory_def by meson
  have y0: "ioctl_smbus os ?fd SDI_SMBUS_READ (ucast (0 :: u32)) I2C_SMBUS_BYTE (Some (Buf8 0)) ?w4 =
      Some (True, Some (Buf8 (mem ?w4 (ptr ?w4))), w5)"
    using y by simp
  have ff: "0xFF AND (x :: u8) = x" for x
    by (rule bit_word_eqI) (auto simp: bit_simps)
  have "sdi_smbus_read_byte (i2cdev_bus os b) addr off old SDI_I2C_FLAG_NONE w =
      Some (STD_ERR_OK, mem ?w4 (ptr ?w4), w6)"
    using l(1) s(1) u(1) assms(2) smbus_execute_first_try [OF x(1)] smbus_execute_first_try [OF y0]
    by (simp add: sdi_smbus_read_byte_def sdi_smbus_write_byte_i2cdev_def sdi_smbus_recv_byte_i2cdev_def
        read_16bit_def with_bus_def sdi_i2c_acquire_bus_def sdi_i2c_release_bus_def sdi_smbus_execute_def
        i2cdev_bus_def sdi_i2cdev_bus_ops_def sdi_i2cdev_acquire_bus_def sdi_i2cdev_release_bus_def
        sdi_i2cdev_smbus_execute_def smbus_switch_def pec_off_def ff
        SDI_I2C_FLAG_PEC_def SDI_I2C_FLAG_NONE_def)
  then show ?thesis using l(2) s(2) x(2,3) w4 by auto
qed

text \<open>
  C11. Sixteen bit offsets round trip. On a device with a two byte offset, sdi\_smbus\_write\_byte
  followed by sdi\_smbus\_read\_byte through the kernel bus returns the byte written, at every offset
  that agrees with the written one in its low 16 bits, and any other cell reads as before.
\<close>

theorem i2cdev_16bit_offset_roundtrip:
  assumes "word_addressed_memory os (i2cdev_fd b) mem ptr" and "addr_mode_16bit addr"
  shows "\<exists>w1. sdi_smbus_write_byte (i2cdev_bus os b) addr off v SDI_I2C_FLAG_NONE w = Some (STD_ERR_OK, w1) \<and>
    (\<forall>off' old. \<exists>w2. sdi_smbus_read_byte (i2cdev_bus os b) addr off' old SDI_I2C_FLAG_NONE w1 =
       Some (STD_ERR_OK, if (ucast off' :: u16) = ucast off then v else mem w (ucast off'), w2))"
proof -
  have off: "offset16 (ucast (drop_bit 8 o' AND 0xFF)) (ucast (o' AND 0xFF)) = ucast (o' :: u32)" for o'
    unfolding offset16_def
    by (rule bit_word_eqI) (auto simp: bit_simps)
  obtain w1 where w1: "sdi_smbus_write_byte (i2cdev_bus os b) addr off v SDI_I2C_FLAG_NONE w = Some (STD_ERR_OK, w1)"
    and mem: "mem w1 = (mem w)(ucast off := v)"
    using word_addressed_write [OF assms, of off v w] by (auto simp: off)
  have "\<exists>w2. sdi_smbus_read_byte (i2cdev_bus os b) addr off' old SDI_I2C_FLAG_NONE w1 =
       Some (STD_ERR_OK, if (ucast off' :: u16) = ucast off then v else mem w (ucast off'), w2)" for off' old
    using word_addressed_read [OF assms, of off' old w1] by (simp add: off mem)
  with w1 show ?thesis by blast
qed

text \<open>An EEPROM: the world is its memory and its address pointer.\<close>

definition eeprom_i2c_os :: "((u16 \<Rightarrow> u8) \<times> u16) i2c_os" where
  "eeprom_i2c_os = \<lparr>
     std_mutex_lock_init = (\<lambda>m w. w),
     std_mutex_lock = (\<lambda>m w. Some (STD_ERR_OK, w)),
     std_mutex_unlock = (\<lambda>m w. Some (STD_ERR_OK, w)),
     std_usleep = (\<lambda>n w. w),
     os_errno = (\<lambda>w. EIO),
     ioctl_slave = (\<lambda>fd a w. Some (True, w)),
     ioctl_pec = (\<lambda>fd on w. Some (True, w)),
     ioctl_smbus = (\<lambda>fd oper c sz d w.
        case (oper, d) of
          (SDI_SMBUS_WRITE, Some (Buf16 v)) \<Rightarrow>
            Some (True, d, ((fst w)(offset16 c (ucast v) := ucast (drop_bit 8 v)), snd w))
        | (SDI_SMBUS_WRITE, Some (Buf8 v)) \<Rightarrow> Some (True, d, (fst w, offset16 c v))
        | (SDI_SMBUS_READ, _) \<Rightarrow> Some (True, Some (Buf8 (fst w (snd w))), w)
        | _ \<Rightarrow> Some (False, d, w)),
     reset_script_access = (\<lambda>w. False),
     reset_script_run = (\<lambda>f oper sz c w. w)\<rparr>"

lemma i2cdev_16bit_offset_roundtrip_witness:
  "let addr = \<lparr>i2c_addr = 0x50, addr_mode_16bit = True\<rparr>
   in \<exists>w1 w2. sdi_smbus_write_byte (i2cdev_bus eeprom_i2c_os sample_i2c_bus) addr 0x1234 0xAB
          SDI_I2C_FLAG_NONE (\<lambda>_. 0, 0) = Some (STD_ERR_OK, w1) \<and>
        sdi_smbus_read_byte (i2cdev_bus eeprom_i2c_os sample_i2c_bus) addr 0x1234 0
          SDI_I2C_FLAG_NONE w1 = Some (STD_ERR_OK, 0xAB, w2)"
proof -
  have M: "word_addressed_memory eeprom_i2c_os (i2cdev_fd sample_i2c_bus) fst snd"
    by (simp add: word_addressed_memory_def eeprom_i2c_os_def)
  have A: "addr_mode_16bit \<lparr>i2c_addr = 0x50, addr_mode_16bit = True\<rparr>"
    by simp
  from i2cdev_16bit_offset_roundtrip [OF M A, where off = "0x1234" and v = "0xAB" and w = "(\<lambda>_. 0, 0)"]
  obtain w1 where w1: "sdi_smbus_write_byte (i2cdev_bus eeprom_i2c_os sample_i2c_bus)
      \<lparr>i2c_addr = 0x50, addr_mode_16bit = True\<rparr> 0x1234 0xAB SDI_I2C_FLAG_NONE (\<lambda>_. 0, 0) =
        Some (STD_ERR_OK, w1)"
    and r: "\<forall>off' old. \<exists>w2. sdi_smbus_read_byte (i2cdev_bus eeprom_i2c_os sample_i2c_bus)
      \<lparr>i2c_addr = 0x50, addr_mode_16bit = True\<rparr> off' old SDI_I2C_FLAG_NONE w1 =
        Some (STD_ERR_OK, if ucast off' = (ucast (0x1234 :: u32) :: u16) then 0xAB
          else fst ((\<lambda>_. 0) :: u16 \<Rightarrow> u8, 0 :: u16) (ucast off'), w2)"
    by blast
  from r [THEN spec, THEN spec, of "0x1234" 0] w1 show ?thesis by (cases w1) (simp add: Let_def)
qed

end
