(* ===== verification/Register_Device.thy ===== *)
theory Register_Device
  imports I2cdev
begin

text \<open>
  What the drivers of sensors, fan controllers and EEPROMs rely on: a device behind the SMBus API
  whose byte transfers read and write numbered registers. \<open>register_file\<close> states it on the
  operations of the bus; the lemmas give the calls of the API that the drivers make. A kernel bus
  (\<open>I2cdev\<close>) with such a device attached is an instance: \<open>i2cdev_register_file\<close>.
\<close>

lemma ucast_u8_u32 [simp]: "(ucast (ucast (r :: u8) :: u32) :: u8) = r"
  by (rule bit_word_eqI) (auto simp: bit_simps dest: bit_imp_le_length)

section \<open>A register file behind a bus\<close>

definition register_file :: "'w sdi_i2c_bus \<Rightarrow> sdi_i2c_addr \<Rightarrow> ('w \<Rightarrow> u8 \<Rightarrow> u8) \<Rightarrow> bool" where
  "register_file h addr regs \<longleftrightarrow>
     bus_type (bus h) = SDI_I2C_BUS \<and>
     (\<forall>w. \<exists>w'. sdi_i2c_acquire_bus h w = Some (STD_ERR_OK, w') \<and> regs w' = regs w) \<and>
     (\<forall>w. \<exists>w'. sdi_i2c_release_bus h w = Some w' \<and> regs w' = regs w) \<and>
     (\<forall>c v w. \<exists>w'. sdi_smbus_execute h addr SDI_SMBUS_READ SDI_SMBUS_BYTE_DATA c (Buf8 v)
        SDI_I2C_FLAG_NONE w = Some (STD_ERR_OK, Buf8 (regs w (ucast c)), w') \<and> regs w' = regs w) \<and>
     (\<forall>c v w. \<exists>w'. sdi_smbus_execute h addr SDI_SMBUS_WRITE SDI_SMBUS_BYTE_DATA c (Buf8 v)
        SDI_I2C_FLAG_NONE w = Some (STD_ERR_OK, Buf8 v, w') \<and> regs w' = (regs w)(ucast c := v))"

lemma register_fileD:
  assumes "register_file h addr regs"
  shows "bus_type (bus h) = SDI_I2C_BUS"
    and "\<exists>w'. sdi_i2c_acquire_bus h w = Some (STD_ERR_OK, w') \<and> regs w' = regs w"
    and "\<exists>w'. sdi_i2c_release_bus h w = Some w' \<and> regs w' = regs w"
    and "\<exists>w'. sdi_smbus_execute h addr SDI_SMBUS_READ SDI_SMBUS_BYTE_DATA c (Buf8 v)
        SDI_I2C_FLAG_NONE w = Some (STD_ERR_OK, Buf8 (regs w (ucast c)), w') \<and> regs w' = regs w"
    and "\<exists>w'. sdi_smbus_execute h addr SDI_SMBUS_WRITE SDI_SMBUS_BYTE_DATA c (Buf8 v)
        SDI_I2C_FLAG_NONE w = Some (STD_ERR_OK, Buf8 v, w') \<and> regs w' = (regs w)(ucast c := v)"
  using assms unfolding register_file_def by blast+

text \<open>A transaction between acquire and release.\<close>

lemma register_with_bus:
  assumes R: "register_file h addr regs"
    and f: "\<And>w. \<exists>w'. f w = Some (STD_ERR_OK, x (regs w), w') \<and> regs w' = g (regs w)"
  shows "\<exists>w'. with_bus h p f w = Some (STD_ERR_OK, x (regs w), w') \<and> regs w' = g (regs w)"
proof -
  obtain w1 where w1: "sdi_i2c_acquire_bus h w = Some (STD_ERR_OK, w1)" "regs w1 = regs w"
    using register_fileD(2) [OF R] by blast
  obtain w2 where w2: "f w1 = Some (STD_ERR_OK, x (regs w1), w2)" "regs w2 = g (regs w1)"
    using f by blast
  obtain w3 where w3: "sdi_i2c_release_bus h w2 = Some w3" "regs w3 = regs w2"
    using register_fileD(3) [OF R] by blast
  show ?thesis
    using w1 w2 w3 register_fileD(1) [OF R] by (simp add: with_bus_def)
qed

lemma register_read_byte:
  assumes R: "register_file h addr regs"
  shows "\<exists>w'. sdi_smbus_read_byte h addr c v SDI_I2C_FLAG_NONE w =
    Some (STD_ERR_OK, regs w (ucast c), w') \<and> regs w' = regs w"
  unfolding sdi_smbus_read_byte_def
proof (rule register_with_bus [OF R, where x = "\<lambda>r. r (ucast c)" and g = "\<lambda>r. r"])
  fix w
  show "\<exists>w'. (do { (error, b, w) \<leftarrow> sdi_smbus_execute h addr SDI_SMBUS_READ SDI_SMBUS_BYTE_DATA c (Buf8 v)
           SDI_I2C_FLAG_NONE w; buffer \<leftarrow> load_byte b; Some (error, buffer, w) }) =
        Some (STD_ERR_OK, regs w (ucast c), w') \<and> regs w' = regs w"
    using register_fileD(4) [OF R, of c v w] by auto
qed

lemma register_write_byte:
  assumes R: "register_file h addr regs"
  shows "\<exists>w'. sdi_smbus_write_byte h addr c v SDI_I2C_FLAG_NONE w = Some (STD_ERR_OK, w') \<and>
    regs w' = (regs w)(ucast c := v)"
  using register_with_bus [OF R, of "sdi_smbus_execute h addr SDI_SMBUS_WRITE SDI_SMBUS_BYTE_DATA c
      (Buf8 v) SDI_I2C_FLAG_NONE" "\<lambda>_. Buf8 v" "\<lambda>r. r(ucast c := v)" "Buf8 v" w]
    register_fileD(5) [OF R, of c v]
  by (auto simp: sdi_smbus_write_byte_def)

text \<open>The consecutive registers that a read of several bytes delivers.\<close>

definition registers_from :: "(u8 \<Rightarrow> u8) \<Rightarrow> u32 \<Rightarrow> nat \<Rightarrow> u8 list" where
  "registers_from regs c n = map (\<lambda>i. regs (ucast (c + of_nat i))) [0..<n]"

lemma length_registers_from [simp]: "length (registers_from regs c n) = n"
  by (simp add: registers_from_def)

lemma registers_from_Suc:
  "registers_from regs c (Suc n) = regs (ucast c) # registers_from regs (c + 1) n"
proof -
  have "[0..<Suc n] = 0 # map Suc [0..<n]" by (simp add: map_Suc_upt upt_conv_Cons)
  then show ?thesis
    by (simp add: registers_from_def algebra_simps del: upt_Suc)
qed

lemma registers_from_0 [simp]: "registers_from regs c 0 = []"
  by (simp add: registers_from_def)

lemma register_multi:
  assumes R: "register_file h addr regs"
  shows "n \<le> length buf \<Longrightarrow> \<exists>w'. smbus_multi h addr SDI_SMBUS_READ SDI_I2C_FLAG_NONE n c buf w =
    Some (STD_ERR_OK, registers_from (regs w) c n @ drop n buf, w') \<and> regs w' = regs w"
proof (induction n arbitrary: c buf w)
  case (Suc n)
  then obtain b rest where buf: "buf = b # rest" by (cases buf) auto
  obtain w1 where w1: "sdi_smbus_execute h addr SDI_SMBUS_READ SDI_SMBUS_BYTE_DATA c (Buf8 b)
      SDI_I2C_FLAG_NONE w = Some (STD_ERR_OK, Buf8 (regs w (ucast c)), w1)" "regs w1 = regs w"
    using register_fileD(4) [OF R] by blast
  obtain w2 where "smbus_multi h addr SDI_SMBUS_READ SDI_I2C_FLAG_NONE n (c + 1) rest w1 =
      Some (STD_ERR_OK, registers_from (regs w) (c + 1) n @ drop n rest, w2)" "regs w2 = regs w"
    using Suc.IH [of rest "c + 1" w1] Suc.prems buf w1(2) by auto
  then show ?case
    using w1 buf by (simp add: registers_from_Suc)
qed simp

lemma register_read_multi:
  assumes R: "register_file h addr regs" and "unat n \<le> length buf"
  shows "\<exists>w'. sdi_smbus_read_multi_byte h addr c buf n SDI_I2C_FLAG_NONE w =
    Some (STD_ERR_OK, registers_from (regs w) c (unat n) @ drop (unat n) buf, w') \<and> regs w' = regs w"
  unfolding sdi_smbus_read_multi_byte_def
  by (rule register_with_bus [OF R, where g = "\<lambda>r. r" and x = "\<lambda>r. registers_from r c (unat n) @ drop (unat n) buf"])
    (rule register_multi [OF R assms(2)])

section \<open>A register device on a kernel bus\<close>

text \<open>
  A device with a one-byte register number: the kernel's byte transfers read and write one
  register, and nothing else changes the registers.
\<close>

definition byte_addressed_memory :: "'w i2c_os \<Rightarrow> int \<Rightarrow> ('w \<Rightarrow> u8 \<Rightarrow> u8) \<Rightarrow> bool" where
  "byte_addressed_memory os fd mem \<longleftrightarrow>
     (\<forall>a w. \<exists>w'. ioctl_slave os fd a w = Some (True, w') \<and> mem w' = mem w) \<and>
     (\<forall>c v w. \<exists>w'. ioctl_smbus os fd SDI_SMBUS_WRITE c I2C_SMBUS_BYTE_DATA (Some (Buf8 v)) w =
         Some (True, Some (Buf8 v), w') \<and> mem w' = (mem w)(c := v)) \<and>
     (\<forall>c w. \<exists>w'. ioctl_smbus os fd SDI_SMBUS_READ c I2C_SMBUS_BYTE_DATA (Some (Buf8 0)) w =
         Some (True, Some (Buf8 (mem w c)), w') \<and> mem w' = mem w) \<and>
     (\<forall>m w. \<exists>w'. std_mutex_lock os m w = Some (STD_ERR_OK, w') \<and> mem w' = mem w) \<and>
     (\<forall>m w. \<exists>w'. std_mutex_unlock os m w = Some (STD_ERR_OK, w') \<and> mem w' = mem w) \<and>
     (\<forall>t w. mem (std_usleep os t w) = mem w)"

lemma i2cdev_execute_byte_data:
  assumes "ioctl_slave os (i2cdev_fd b) (i2c_addr addr) w = Some (True, w1)" and "\<not> addr_mode_16bit addr"
  shows "ioctl_smbus os (i2cdev_fd b) SDI_SMBUS_WRITE (ucast c) I2C_SMBUS_BYTE_DATA (Some (Buf8 v)) w1 =
        Some (True, Some (Buf8 v), w2) \<Longrightarrow>
      sdi_smbus_execute (i2cdev_bus os b) addr SDI_SMBUS_WRITE SDI_SMBUS_BYTE_DATA c (Buf8 v)
        SDI_I2C_FLAG_NONE w = Some (STD_ERR_OK, Buf8 v, std_usleep os SDI_IIC_WAIT_TIME w2)"
    and "ioctl_smbus os (i2cdev_fd b) SDI_SMBUS_READ (ucast c) I2C_SMBUS_BYTE_DATA (Some (Buf8 0)) w1 =
        Some (True, Some (Buf8 r), w2) \<Longrightarrow>
      sdi_smbus_execute (i2cdev_bus os b) addr SDI_SMBUS_READ SDI_SMBUS_BYTE_DATA c (Buf8 v)
        SDI_I2C_FLAG_NONE w = Some (STD_ERR_OK, Buf8 r, std_usleep os SDI_IIC_WAIT_TIME w2)"
proof -
  have ff: "0xFF AND (x :: u8) = x" for x
    by (rule bit_word_eqI) (auto simp: bit_simps)
  note defs = sdi_smbus_execute_def i2cdev_bus_def sdi_i2cdev_bus_ops_def sdi_i2cdev_smbus_execute_def
    smbus_switch_def pec_off_def keep_buffer_def SDI_I2C_FLAG_PEC_def SDI_I2C_FLAG_NONE_def
    sdi_smbus_write_byte_i2cdev_def sdi_smbus_read_byte_i2cdev_def
  show "ioctl_smbus os (i2cdev_fd b) SDI_SMBUS_WRITE (ucast c) I2C_SMBUS_BYTE_DATA (Some (Buf8 v)) w1 =
        Some (True, Some (Buf8 v), w2) \<Longrightarrow>
      sdi_smbus_execute (i2cdev_bus os b) addr SDI_SMBUS_WRITE SDI_SMBUS_BYTE_DATA c (Buf8 v)
        SDI_I2C_FLAG_NONE w = Some (STD_ERR_OK, Buf8 v, std_usleep os SDI_IIC_WAIT_TIME w2)"
    using assms smbus_execute_first_try [of os "i2cdev_fd b" SDI_SMBUS_WRITE c I2C_SMBUS_BYTE_DATA "Some (Buf8 v)" w1 "Some (Buf8 v)" w2]
    by (simp add: defs)
  show "ioctl_smbus os (i2cdev_fd b) SDI_SMBUS_READ (ucast c) I2C_SMBUS_BYTE_DATA (Some (Buf8 0)) w1 =
        Some (True, Some (Buf8 r), w2) \<Longrightarrow>
      sdi_smbus_execute (i2cdev_bus os b) addr SDI_SMBUS_READ SDI_SMBUS_BYTE_DATA c (Buf8 v)
        SDI_I2C_FLAG_NONE w = Some (STD_ERR_OK, Buf8 r, std_usleep os SDI_IIC_WAIT_TIME w2)"
    using assms smbus_execute_first_try [of os "i2cdev_fd b" SDI_SMBUS_READ c I2C_SMBUS_BYTE_DATA "Some (Buf8 0)" w1 "Some (Buf8 r)" w2]
    by (simp add: defs ff)
qed

lemma i2cdev_register_file:
  assumes M: "byte_addressed_memory os (i2cdev_fd b) mem" and A: "\<not> addr_mode_16bit addr"
  shows "register_file (i2cdev_bus os b) addr mem"
  unfolding register_file_def
proof (intro conjI allI)
  show "bus_type (bus (i2cdev_bus os b)) = SDI_I2C_BUS" by (simp add: i2cdev.is_i2c)
  show "\<exists>w'. sdi_i2c_acquire_bus (i2cdev_bus os b) w = Some (STD_ERR_OK, w') \<and> mem w' = mem w" for w
    using M by (auto simp: byte_addressed_memory_def sdi_i2c_acquire_bus_def i2cdev_bus_def
        sdi_i2cdev_bus_ops_def sdi_i2cdev_acquire_bus_def)
  show "\<exists>w'. sdi_i2c_release_bus (i2cdev_bus os b) w = Some w' \<and> mem w' = mem w" for w
  proof -
    obtain w1 where "std_mutex_unlock os (sys_lock b) w = Some (STD_ERR_OK, w1)" "mem w1 = mem w"
      using M unfolding byte_addressed_memory_def by meson
    then show ?thesis
      by (simp add: sdi_i2c_release_bus_def i2cdev_bus_def sdi_i2cdev_bus_ops_def sdi_i2cdev_release_bus_def)
  qed
  fix c :: u32 and v :: u8 and w
  obtain w1 where w1: "ioctl_slave os (i2cdev_fd b) (i2c_addr addr) w = Some (True, w1)" "mem w1 = mem w"
    using M unfolding byte_addressed_memory_def by meson
  have sleep: "mem (std_usleep os t u) = mem u" for t u
    using M unfolding byte_addressed_memory_def by blast
  obtain w2 where w2: "ioctl_smbus os (i2cdev_fd b) SDI_SMBUS_READ (ucast c) I2C_SMBUS_BYTE_DATA (Some (Buf8 0)) w1 =
      Some (True, Some (Buf8 (mem w1 (ucast c))), w2)" "mem w2 = mem w1"
    using M unfolding byte_addressed_memory_def by meson
  show "\<exists>w'. sdi_smbus_execute (i2cdev_bus os b) addr SDI_SMBUS_READ SDI_SMBUS_BYTE_DATA c (Buf8 v)
      SDI_I2C_FLAG_NONE w = Some (STD_ERR_OK, Buf8 (mem w (ucast c)), w') \<and> mem w' = mem w"
    using i2cdev_execute_byte_data(2) [OF w1(1) A w2(1)] w1(2) w2(2) sleep by auto
  obtain w3 where w3: "ioctl_smbus os (i2cdev_fd b) SDI_SMBUS_WRITE (ucast c) I2C_SMBUS_BYTE_DATA (Some (Buf8 v)) w1 =
      Some (True, Some (Buf8 v), w3)" "mem w3 = (mem w1)(ucast c := v)"
    using M unfolding byte_addressed_memory_def by meson
  show "\<exists>w'. sdi_smbus_execute (i2cdev_bus os b) addr SDI_SMBUS_WRITE SDI_SMBUS_BYTE_DATA c (Buf8 v)
      SDI_I2C_FLAG_NONE w = Some (STD_ERR_OK, Buf8 v, w') \<and> mem w' = (mem w)(ucast c := v)"
    using i2cdev_execute_byte_data(1) [OF w1(1) A w3(1)] w1(2) w3(2) sleep by auto
qed

text \<open>A kernel whose only device is a register file: the world is the registers.\<close>

definition register_i2c_os :: "(u8 \<Rightarrow> u8) i2c_os" where
  "register_i2c_os = \<lparr>
     std_mutex_lock_init = (\<lambda>m w. w),
     std_mutex_lock = (\<lambda>m w. Some (STD_ERR_OK, w)),
     std_mutex_unlock = (\<lambda>m w. Some (STD_ERR_OK, w)),
     std_usleep = (\<lambda>n w. w),
     os_errno = (\<lambda>w. EIO),
     ioctl_slave = (\<lambda>fd a w. Some (True, w)),
     ioctl_pec = (\<lambda>fd on w. Some (True, w)),
     ioctl_smbus = (\<lambda>fd oper c sz d w.
        case (oper, d) of
          (SDI_SMBUS_WRITE, Some (Buf8 v)) \<Rightarrow> Some (True, d, w(c := v))
        | (SDI_SMBUS_READ, _) \<Rightarrow> Some (True, Some (Buf8 (w c)), w)
        | _ \<Rightarrow> Some (False, d, w)),
     reset_script_access = (\<lambda>w. False),
     reset_script_run = (\<lambda>f oper sz c w. w)\<rparr>"

definition sample_chip_addr :: sdi_i2c_addr where
  "sample_chip_addr = \<lparr>i2c_addr = 0x4C, addr_mode_16bit = False\<rparr>"

lemma sample_register_file:
  "register_file (i2cdev_bus register_i2c_os sample_i2c_bus) sample_chip_addr (\<lambda>w. w)"
  by (rule i2cdev_register_file)
    (simp_all add: byte_addressed_memory_def register_i2c_os_def sample_chip_addr_def)

end
