(* ===== verification/Pin_Bus.thy ===== *)
theory Pin_Bus
  imports I2c_Bus
begin

text \<open>
  Byte access through any bus (src/framework/sdi\_bus\_api.c, sdi\_io\_port\_api.c,
  sdi\_smartfusion\_io\_bus\_api.c, sdi\_fpga\_pci\_bus\_api.c), the pin bus and pin group bus APIs
  (sdi\_pin\_bus\_api.c, sdi\_pin\_group\_bus\_api.c) and the CPLD pin driver
  (src/drivers/sdi\_cpld\_pin.c).

  A bus handle that is cast according to its bus type is the datatype \<open>any_bus\<close>, whose constructors
  are the cases of the C switch. inb, outb and ioperm belong to the machine: parameters.
\<close>

section \<open>Byte access on any bus\<close>

record 'w port_io =
  inb :: "u16 \<Rightarrow> 'w \<Rightarrow> u8 \<times> 'w"
  outb :: "u16 \<Rightarrow> u8 \<Rightarrow> 'w \<Rightarrow> 'w"
  ioperm :: "u32 \<Rightarrow> u32 \<Rightarrow> 'w \<Rightarrow> t_std_error \<times> 'w"

text \<open>The operation table of the SmartFusion and FPGA buses.\<close>

record 'w byte_ops =
  ops_read_byte :: "u32 \<Rightarrow> u8 \<Rightarrow> 'w \<Rightarrow> (t_std_error \<times> u8 \<times> 'w) option"
  ops_write_byte :: "u32 \<Rightarrow> u8 \<Rightarrow> 'w \<Rightarrow> (t_std_error \<times> 'w) option"

datatype 'w any_bus =
    I2C_Handle "'w sdi_i2c_bus"
  | IO_Handle sdi_bus
  | SF_IO_Handle mutex "'w byte_ops"
  | FPGA_PCI_Handle mutex "'w byte_ops"
  | Other_Handle sdi_bus

definition sdi_io_read_byte ::
    "'w port_io \<Rightarrow> sdi_bus \<Rightarrow> u16 \<Rightarrow> u8 \<Rightarrow> 'w \<Rightarrow> (t_std_error \<times> u8 \<times> 'w) option" where
  "sdi_io_read_byte io b addr buffer w = do {
     STD_ASSERT (bus_type b = SDI_IO_BUS);
     let (buffer, w) = inb io addr w;
     Some (STD_ERR_OK, buffer, w)
   }"

definition sdi_io_write_byte ::
    "'w port_io \<Rightarrow> sdi_bus \<Rightarrow> u16 \<Rightarrow> u8 \<Rightarrow> 'w \<Rightarrow> (t_std_error \<times> 'w) option" where
  "sdi_io_write_byte io b addr buffer w = do {
     STD_ASSERT (bus_type b = SDI_IO_BUS);
     Some (STD_ERR_OK, outb io addr buffer w)
   }"

definition sdi_sf_io_bus_read_byte ::
    "'w byte_ops \<Rightarrow> u32 \<Rightarrow> u8 \<Rightarrow> 'w \<Rightarrow> (t_std_error \<times> u8 \<times> 'w) option" where
  "sdi_sf_io_bus_read_byte sf addr value w = ops_read_byte sf addr value w"

definition sdi_sf_io_bus_write_byte :: "'w byte_ops \<Rightarrow> u32 \<Rightarrow> u8 \<Rightarrow> 'w \<Rightarrow> (t_std_error \<times> 'w) option" where
  "sdi_sf_io_bus_write_byte sf addr value w = ops_write_byte sf addr value w"

definition sdi_fpga_pci_bus_read_byte ::
    "'w byte_ops \<Rightarrow> u32 \<Rightarrow> u8 \<Rightarrow> 'w \<Rightarrow> (t_std_error \<times> u8 \<times> 'w) option" where
  "sdi_fpga_pci_bus_read_byte fpga addr value w = ops_read_byte fpga addr value w"

definition sdi_fpga_pci_bus_write_byte :: "'w byte_ops \<Rightarrow> u32 \<Rightarrow> u8 \<Rightarrow> 'w \<Rightarrow> (t_std_error \<times> 'w) option" where
  "sdi_fpga_pci_bus_write_byte fpga addr value w = ops_write_byte fpga addr value w"

definition sdi_bus_read_byte ::
    "'w port_io \<Rightarrow> 'w any_bus \<Rightarrow> sdi_i2c_addr \<Rightarrow> u32 \<Rightarrow> u8 \<Rightarrow> 'w \<Rightarrow> (t_std_error \<times> u8 \<times> 'w) option" where
  "sdi_bus_read_byte io bus_hdl addr offset buffer w =
     (case bus_hdl of
        I2C_Handle b \<Rightarrow> sdi_smbus_read_byte b addr offset buffer SDI_I2C_FLAG_NONE w
      | IO_Handle b \<Rightarrow> sdi_io_read_byte io b (ucast offset) buffer w
      | SF_IO_Handle _ sf \<Rightarrow> sdi_sf_io_bus_read_byte sf offset buffer w
      | FPGA_PCI_Handle _ fpga \<Rightarrow> sdi_fpga_pci_bus_read_byte fpga offset buffer w
      | Other_Handle _ \<Rightarrow> Some (SDI_ERRCODE ENOTSUP, buffer, w))"

definition sdi_bus_write_byte ::
    "'w port_io \<Rightarrow> 'w any_bus \<Rightarrow> sdi_i2c_addr \<Rightarrow> u32 \<Rightarrow> u8 \<Rightarrow> 'w \<Rightarrow> (t_std_error \<times> 'w) option" where
  "sdi_bus_write_byte io bus_hdl addr offset buffer w =
     (case bus_hdl of
        I2C_Handle b \<Rightarrow> sdi_smbus_write_byte b addr offset buffer SDI_I2C_FLAG_NONE w
      | IO_Handle b \<Rightarrow> sdi_io_write_byte io b (ucast offset) buffer w
      | SF_IO_Handle _ sf \<Rightarrow> sdi_sf_io_bus_write_byte sf offset buffer w
      | FPGA_PCI_Handle _ fpga \<Rightarrow> sdi_fpga_pci_bus_write_byte fpga offset buffer w
      | Other_Handle _ \<Rightarrow> Some (SDI_ERRCODE ENOTSUP, w))"

section \<open>Pin buses\<close>

datatype sdi_pin_bus_direction = SDI_PIN_BUS_INPUT | SDI_PIN_BUS_OUTPUT
datatype sdi_pin_bus_polarity = SDI_PIN_POLARITY_NORMAL | SDI_PIN_POLARITY_INVERTED
datatype sdi_pin_bus_level = SDI_PIN_LEVEL_LOW | SDI_PIN_LEVEL_HIGH

text \<open>
  A pin bus (levels of type \<open>'l\<close>: one pin) and a pin group bus (\<open>'l\<close>: unsigned int) have the same
  shape: the common part, a lock, the configured defaults and a table of operations.
\<close>

record ('l, 'w) pin_ops =
  ops_read_level :: "'l \<Rightarrow> 'w \<Rightarrow> (t_std_error \<times> 'l \<times> 'w) option"
  ops_write_level :: "'l \<Rightarrow> 'w \<Rightarrow> (t_std_error \<times> 'w) option"
  ops_set_direction :: "sdi_pin_bus_direction \<Rightarrow> 'w \<Rightarrow> (t_std_error \<times> 'w) option"
  ops_get_direction :: "sdi_pin_bus_direction \<Rightarrow> 'w \<Rightarrow> (t_std_error \<times> sdi_pin_bus_direction \<times> 'w) option"
  ops_set_polarity :: "sdi_pin_bus_polarity \<Rightarrow> 'w \<Rightarrow> (t_std_error \<times> 'w) option"
  ops_get_polarity :: "sdi_pin_bus_polarity \<Rightarrow> 'w \<Rightarrow> (t_std_error \<times> sdi_pin_bus_polarity \<times> 'w) option"

record ('l, 'w) pin_bus =
  pin_base :: sdi_bus
  pin_lock :: mutex
  pin_ops :: "('l, 'w) pin_ops"

text \<open>The calls of the pin bus API: the lock around one operation.\<close>

definition with_pin ::
    "'w os \<Rightarrow> ('l, 'w) pin_bus \<Rightarrow> 'a \<Rightarrow> ('w \<Rightarrow> (t_std_error \<times> 'a \<times> 'w) option) \<Rightarrow> 'w
      \<Rightarrow> (t_std_error \<times> 'a \<times> 'w) option" where
  "with_pin os b value f w = do {
     STD_ASSERT (bus_type (pin_base b) = SDI_PIN_BUS);
     (error, w) \<leftarrow> std_mutex_lock os (pin_lock b) w;
     if error \<noteq> STD_ERR_OK then Some (error, value, w)
     else do {
       (error, value, w) \<leftarrow> f w;
       (_, w) \<leftarrow> std_mutex_unlock os (pin_lock b) w;
       Some (error, value, w)
     }
   }"

definition no_out ::
    "('w \<Rightarrow> (t_std_error \<times> 'w) option) \<Rightarrow> 'w \<Rightarrow> (t_std_error \<times> unit \<times> 'w) option" where
  "no_out f w = do { (error, w) \<leftarrow> f w; Some (error, (), w) }"

definition drop_out :: "(t_std_error \<times> 'a \<times> 'w) option \<Rightarrow> (t_std_error \<times> 'w) option" where
  "drop_out r = do { (error, _, w) \<leftarrow> r; Some (error, w) }"

definition sdi_pin_read_level ::
    "'w os \<Rightarrow> (sdi_pin_bus_level, 'w) pin_bus \<Rightarrow> sdi_pin_bus_level \<Rightarrow> 'w
      \<Rightarrow> (t_std_error \<times> sdi_pin_bus_level \<times> 'w) option" where
  "sdi_pin_read_level os b value = with_pin os b value (ops_read_level (pin_ops b) value)"

definition sdi_pin_write_level ::
    "'w os \<Rightarrow> (sdi_pin_bus_level, 'w) pin_bus \<Rightarrow> sdi_pin_bus_level \<Rightarrow> 'w \<Rightarrow> (t_std_error \<times> 'w) option" where
  "sdi_pin_write_level os b value w =
     drop_out (with_pin os b () (no_out (ops_write_level (pin_ops b) value)) w)"

definition sdi_pin_set_direction ::
    "'w os \<Rightarrow> (sdi_pin_bus_level, 'w) pin_bus \<Rightarrow> sdi_pin_bus_direction \<Rightarrow> 'w \<Rightarrow> (t_std_error \<times> 'w) option" where
  "sdi_pin_set_direction os b direction w =
     drop_out (with_pin os b () (no_out (ops_set_direction (pin_ops b) direction)) w)"

definition sdi_pin_get_direction ::
    "'w os \<Rightarrow> (sdi_pin_bus_level, 'w) pin_bus \<Rightarrow> sdi_pin_bus_direction \<Rightarrow> 'w
      \<Rightarrow> (t_std_error \<times> sdi_pin_bus_direction \<times> 'w) option" where
  "sdi_pin_get_direction os b direction =
     with_pin os b direction (ops_get_direction (pin_ops b) direction)"

definition sdi_pin_set_polarity ::
    "'w os \<Rightarrow> (sdi_pin_bus_level, 'w) pin_bus \<Rightarrow> sdi_pin_bus_polarity \<Rightarrow> 'w \<Rightarrow> (t_std_error \<times> 'w) option" where
  "sdi_pin_set_polarity os b polarity w =
     drop_out (with_pin os b () (no_out (ops_set_polarity (pin_ops b) polarity)) w)"

definition sdi_pin_get_polarity ::
    "'w os \<Rightarrow> (sdi_pin_bus_level, 'w) pin_bus \<Rightarrow> sdi_pin_bus_polarity \<Rightarrow> 'w
      \<Rightarrow> (t_std_error \<times> sdi_pin_bus_polarity \<times> 'w) option" where
  "sdi_pin_get_polarity os b polarity =
     with_pin os b polarity (ops_get_polarity (pin_ops b) polarity)"

text \<open>The pin group API leaves the lock to its caller.\<close>

definition sdi_pin_group_acquire_bus :: "'w os \<Rightarrow> (u32, 'w) pin_bus \<Rightarrow> 'w \<Rightarrow> (t_std_error \<times> 'w) option" where
  "sdi_pin_group_acquire_bus os b w = std_mutex_lock os (pin_lock b) w"

definition sdi_pin_group_release_bus :: "'w os \<Rightarrow> (u32, 'w) pin_bus \<Rightarrow> 'w \<Rightarrow> 'w option" where
  "sdi_pin_group_release_bus os b w = do { (_, w) \<leftarrow> std_mutex_unlock os (pin_lock b) w; Some w }"

definition sdi_pin_group_read_level ::
    "(u32, 'w) pin_bus \<Rightarrow> u32 \<Rightarrow> 'w \<Rightarrow> (t_std_error \<times> u32 \<times> 'w) option" where
  "sdi_pin_group_read_level b value w = do {
     STD_ASSERT (bus_type (pin_base b) = SDI_PIN_GROUP_BUS);
     ops_read_level (pin_ops b) value w
   }"

definition sdi_pin_group_write_level ::
    "(u32, 'w) pin_bus \<Rightarrow> u32 \<Rightarrow> 'w \<Rightarrow> (t_std_error \<times> 'w) option" where
  "sdi_pin_group_write_level b value w = do {
     STD_ASSERT (bus_type (pin_base b) = SDI_PIN_GROUP_BUS);
     ops_write_level (pin_ops b) value w
   }"

definition sdi_pin_group_set_direction ::
    "(u32, 'w) pin_bus \<Rightarrow> sdi_pin_bus_direction \<Rightarrow> 'w \<Rightarrow> (t_std_error \<times> 'w) option" where
  "sdi_pin_group_set_direction b direction w = do {
     STD_ASSERT (bus_type (pin_base b) = SDI_PIN_GROUP_BUS);
     ops_set_direction (pin_ops b) direction w
   }"

definition sdi_pin_group_get_direction ::
    "(u32, 'w) pin_bus \<Rightarrow> sdi_pin_bus_direction \<Rightarrow> 'w
      \<Rightarrow> (t_std_error \<times> sdi_pin_bus_direction \<times> 'w) option" where
  "sdi_pin_group_get_direction b direction w = do {
     STD_ASSERT (bus_type (pin_base b) = SDI_PIN_GROUP_BUS);
     ops_get_direction (pin_ops b) direction w
   }"

definition sdi_pin_group_set_polarity ::
    "(u32, 'w) pin_bus \<Rightarrow> sdi_pin_bus_polarity \<Rightarrow> 'w \<Rightarrow> (t_std_error \<times> 'w) option" where
  "sdi_pin_group_set_polarity b polarity w = do {
     STD_ASSERT (bus_type (pin_base b) = SDI_PIN_GROUP_BUS);
     ops_set_polarity (pin_ops b) polarity w
   }"

definition sdi_pin_group_get_polarity ::
    "(u32, 'w) pin_bus \<Rightarrow> sdi_pin_bus_polarity \<Rightarrow> 'w
      \<Rightarrow> (t_std_error \<times> sdi_pin_bus_polarity \<times> 'w) option" where
  "sdi_pin_group_get_polarity b polarity w = do {
     STD_ASSERT (bus_type (pin_base b) = SDI_PIN_GROUP_BUS);
     ops_get_polarity (pin_ops b) polarity w
   }"

section \<open>CPLD pins\<close>

text \<open>
  A CPLD pin is one bit of a register of a CPLD device. \<open>cpld_bus\<close> and \<open>cpld_addr\<close> are the bus
  and the address of the device the pin belongs to, \<open>cpld_width\<close> its register width.
\<close>

record 'w cpld_dev =
  cpld_bus :: "'w any_bus"
  cpld_addr :: sdi_i2c_addr
  cpld_width :: u32

record pin_defaults =
  default_direction :: sdi_pin_bus_direction
  default_polarity :: sdi_pin_bus_polarity
  default_level :: u32

record 'w cpld_pin =
  pin_defs :: pin_defaults
  pin_addr :: u32
  pin_offset :: u32
  pin_cpld :: "'w cpld_dev"

definition SDI_CPLD_DEFAULT_REGISTER_WIDTH :: u32 where "SDI_CPLD_DEFAULT_REGISTER_WIDTH = 1"

text \<open>The level a register bit means, and the bit a level is written as.\<close>

fun level_of_bit :: "sdi_pin_bus_polarity \<Rightarrow> bool \<Rightarrow> sdi_pin_bus_level" where
  "level_of_bit p True =
     (if p = SDI_PIN_POLARITY_NORMAL then SDI_PIN_LEVEL_HIGH else SDI_PIN_LEVEL_LOW)"
| "level_of_bit p False =
     (if p = SDI_PIN_POLARITY_NORMAL then SDI_PIN_LEVEL_LOW else SDI_PIN_LEVEL_HIGH)"

definition apply_level ::
    "std_lib \<Rightarrow> sdi_pin_bus_polarity \<Rightarrow> sdi_pin_bus_level \<Rightarrow> u8 \<Rightarrow> u32 \<Rightarrow> u8" where
  "apply_level L p value buffer offset =
     (if p = SDI_PIN_POLARITY_NORMAL
      then (if value = SDI_PIN_LEVEL_HIGH then bit8_set L buffer offset else bit8_clear L buffer offset)
      else (if value = SDI_PIN_LEVEL_HIGH then bit8_clear L buffer offset else bit8_set L buffer offset))"

definition sdi_cpld_pin_read_level ::
    "'w port_io \<Rightarrow> std_lib \<Rightarrow> 'w cpld_pin \<Rightarrow> sdi_pin_bus_level \<Rightarrow> 'w
      \<Rightarrow> (t_std_error \<times> sdi_pin_bus_level \<times> 'w) option" where
  "sdi_cpld_pin_read_level io L pin value w = do {
     let dev = pin_cpld pin;
     STD_ASSERT (cpld_width dev = SDI_CPLD_DEFAULT_REGISTER_WIDTH);
     (error, buffer, w) \<leftarrow> sdi_bus_read_byte io (cpld_bus dev) (cpld_addr dev) (pin_addr pin) 0 w;
     if error \<noteq> STD_ERR_OK then Some (error, value, w)
     else Some (error, level_of_bit (default_polarity (pin_defs pin)) (bit8_test L buffer (pin_offset pin)), w)
   }"

text \<open>The read-modify-write of one register that both CPLD drivers do.\<close>

definition rmw_byte ::
    "'w port_io \<Rightarrow> 'w any_bus \<Rightarrow> sdi_i2c_addr \<Rightarrow> u32 \<Rightarrow> (u8 \<Rightarrow> u8) \<Rightarrow> 'w \<Rightarrow> (t_std_error \<times> 'w) option" where
  "rmw_byte io b addr a f w = do {
     (error, buffer, w) \<leftarrow> sdi_bus_read_byte io b addr a 0 w;
     if error \<noteq> STD_ERR_OK then Some (error, w)
     else sdi_bus_write_byte io b addr a (f buffer) w
   }"

definition sdi_cpld_pin_write_level ::
    "'w port_io \<Rightarrow> std_lib \<Rightarrow> 'w cpld_pin \<Rightarrow> sdi_pin_bus_level \<Rightarrow> 'w \<Rightarrow> (t_std_error \<times> 'w) option" where
  "sdi_cpld_pin_write_level io L pin value w = do {
     let dev = pin_cpld pin;
     STD_ASSERT (cpld_width dev = SDI_CPLD_DEFAULT_REGISTER_WIDTH);
     if default_direction (pin_defs pin) = SDI_PIN_BUS_INPUT then Some (SDI_DEVICE_ERRCODE ENOTSUP, w)
     else rmw_byte io (cpld_bus dev) (cpld_addr dev) (pin_addr pin)
            (\<lambda>buffer. apply_level L (default_polarity (pin_defs pin)) value buffer (pin_offset pin)) w
   }"

definition sdi_cpld_pin_set_direction :: "sdi_pin_bus_direction \<Rightarrow> 'w \<Rightarrow> (t_std_error \<times> 'w) option" where
  "sdi_cpld_pin_set_direction direction w = Some (SDI_DEVICE_ERRCODE ENOTSUP, w)"

definition sdi_cpld_pin_get_direction ::
    "'w cpld_pin \<Rightarrow> sdi_pin_bus_direction \<Rightarrow> 'w \<Rightarrow> (t_std_error \<times> sdi_pin_bus_direction \<times> 'w) option" where
  "sdi_cpld_pin_get_direction pin direction w = Some (STD_ERR_OK, default_direction (pin_defs pin), w)"

definition sdi_cpld_pin_set_polarity :: "sdi_pin_bus_polarity \<Rightarrow> 'w \<Rightarrow> (t_std_error \<times> 'w) option" where
  "sdi_cpld_pin_set_polarity polarity w = Some (SDI_DEVICE_ERRCODE ENOTSUP, w)"

definition sdi_cpld_pin_get_polarity ::
    "'w cpld_pin \<Rightarrow> sdi_pin_bus_polarity \<Rightarrow> 'w \<Rightarrow> (t_std_error \<times> sdi_pin_bus_polarity \<times> 'w) option" where
  "sdi_cpld_pin_get_polarity pin polarity w = Some (STD_ERR_OK, default_polarity (pin_defs pin), w)"

definition sdi_cpld_pin_ops ::
    "'w port_io \<Rightarrow> std_lib \<Rightarrow> 'w cpld_pin \<Rightarrow> (sdi_pin_bus_level, 'w) pin_ops" where
  "sdi_cpld_pin_ops io L pin = \<lparr>
     ops_read_level = sdi_cpld_pin_read_level io L pin,
     ops_write_level = sdi_cpld_pin_write_level io L pin,
     ops_set_direction = sdi_cpld_pin_set_direction,
     ops_get_direction = sdi_cpld_pin_get_direction pin,
     ops_set_polarity = sdi_cpld_pin_set_polarity,
     ops_get_polarity = sdi_cpld_pin_get_polarity pin\<rparr>"

text \<open>The level configured for an output pin is written when the pin is initialised.\<close>

definition level_of_config :: "u32 \<Rightarrow> sdi_pin_bus_level" where
  "level_of_config v = (if v = 0 then SDI_PIN_LEVEL_LOW else SDI_PIN_LEVEL_HIGH)"

definition sdi_cpld_pin_driver_init ::
    "'w port_io \<Rightarrow> std_lib \<Rightarrow> 'w cpld_pin \<Rightarrow> 'w \<Rightarrow> (t_std_error \<times> 'w) option" where
  "sdi_cpld_pin_driver_init io L pin w = do {
     let (error, w) = (case cpld_bus (pin_cpld pin) of
                         IO_Handle _ \<Rightarrow> ioperm io (pin_addr pin) 1 w
                       | _ \<Rightarrow> (STD_ERR_OK, w));
     if error \<noteq> STD_ERR_OK then Some (error, w)
     else if default_direction (pin_defs pin) = SDI_PIN_BUS_OUTPUT
     then sdi_cpld_pin_write_level io L pin (level_of_config (default_level (pin_defs pin))) w
     else Some (error, w)
   }"

section \<open>A register behind a bus\<close>

text \<open>
  What the CPLD driver needs from the bus: byte access that works and behaves as memory at the
  addresses \<open>A\<close> of the device. \<open>reg w a\<close> is the content of the register at \<open>a\<close> in the world \<open>w\<close>.
  Cpld\_Buses shows it of the kernel I2C bus, of the ports, of the SmartFusion window and of the FPGA.
\<close>

definition same_registers :: "u32 set \<Rightarrow> (u32 \<Rightarrow> u8) \<Rightarrow> (u32 \<Rightarrow> u8) \<Rightarrow> bool" where
  "same_registers A r r' \<longleftrightarrow> (\<forall>a\<in>A. r' a = r a)"

definition byte_memory ::
    "u32 set \<Rightarrow> 'w port_io \<Rightarrow> 'w any_bus \<Rightarrow> sdi_i2c_addr \<Rightarrow> ('w \<Rightarrow> u32 \<Rightarrow> u8) \<Rightarrow> bool" where
  "byte_memory A io b addr reg \<longleftrightarrow>
     (\<forall>a\<in>A. \<forall>v w. \<exists>w'. sdi_bus_read_byte io b addr a v w = Some (STD_ERR_OK, reg w a, w') \<and>
        same_registers A (reg w) (reg w')) \<and>
     (\<forall>a\<in>A. \<forall>v w. \<exists>w'. sdi_bus_write_byte io b addr a v w = Some (STD_ERR_OK, w') \<and>
        same_registers A ((reg w)(a := v)) (reg w'))"

lemma byte_memory_readE:
  assumes "byte_memory A io b addr reg" and "a \<in> A"
  obtains w' where "sdi_bus_read_byte io b addr a v w = Some (STD_ERR_OK, reg w a, w')"
    "same_registers A (reg w) (reg w')"
  using assms unfolding byte_memory_def by meson

lemma byte_memory_writeE:
  assumes "byte_memory A io b addr reg" and "a \<in> A"
  obtains w' where "sdi_bus_write_byte io b addr a v w = Some (STD_ERR_OK, w')"
    "same_registers A ((reg w)(a := v)) (reg w')"
  using assms unfolding byte_memory_def by meson

text \<open>
  Fields of a register: getting a field after putting one returns the value put, for the values the
  field can hold, and putting leaves the bits outside the field alone.
\<close>

locale reg_field =
  fixes get :: "'r \<Rightarrow> 'v" and put :: "'v \<Rightarrow> 'r \<Rightarrow> 'r" and fits :: "'v \<Rightarrow> bool"
    and outside :: "'r \<Rightarrow> 'o"
  assumes get_put: "fits v \<Longrightarrow> get (put v r) = v"
    and put_outside: "fits v \<Longrightarrow> outside (put v r) = outside r"
begin

lemma get_put_put: "fits v \<Longrightarrow> fits u \<Longrightarrow> get (put v (put u r)) = v"
  by (rule get_put)

lemma put_put_outside: "fits v \<Longrightarrow> fits u \<Longrightarrow> outside (put v (put u r)) = outside r"
  by (simp add: put_outside)

end

text \<open>A field of a byte register that is updated by reading, modifying and writing it.\<close>

locale byte_field = reg_field get put fits outside
  for get :: "u8 \<Rightarrow> 'v" and put :: "'v \<Rightarrow> u8 \<Rightarrow> u8" and fits :: "'v \<Rightarrow> bool" and outside :: "u8 \<Rightarrow> 'o"
begin

lemma rmw_get:
  assumes "byte_memory A io b addr reg" and "a \<in> A" and "fits v"
  obtains w1 where "rmw_byte io b addr a (put v) w = Some (STD_ERR_OK, w1)"
    and "get (reg w1 a) = v" and "outside (reg w1 a) = outside (reg w a)"
    and "\<forall>a'\<in>A. a' \<noteq> a \<longrightarrow> reg w1 a' = reg w a'"
proof -
  obtain w' where r: "sdi_bus_read_byte io b addr a 0 w = Some (STD_ERR_OK, reg w a, w')"
      "same_registers A (reg w) (reg w')"
    using byte_memory_readE [OF assms(1,2)] by blast
  obtain w1 where w: "sdi_bus_write_byte io b addr a (put v (reg w a)) w' = Some (STD_ERR_OK, w1)"
      "same_registers A ((reg w')(a := put v (reg w a))) (reg w1)"
    using byte_memory_writeE [OF assms(1,2)] by blast
  have "rmw_byte io b addr a (put v) w = Some (STD_ERR_OK, w1)"
    using r w by (simp add: rmw_byte_def)
  moreover have "reg w1 a = put v (reg w a)" "\<forall>a'\<in>A. a' \<noteq> a \<longrightarrow> reg w1 a' = reg w a'"
    using r(2) w(2) assms(2) by (simp_all add: same_registers_def)
  ultimately show ?thesis
    by (intro that) (simp_all add: get_put put_outside assms(3))
qed

end

lemma level_of_bit_cases [simp]:
  "level_of_bit SDI_PIN_POLARITY_NORMAL t = (if t then SDI_PIN_LEVEL_HIGH else SDI_PIN_LEVEL_LOW)"
  "level_of_bit SDI_PIN_POLARITY_INVERTED t = (if t then SDI_PIN_LEVEL_LOW else SDI_PIN_LEVEL_HIGH)"
  by (cases t; simp)+

definition pin_bits_outside :: "std_lib \<Rightarrow> u32 \<Rightarrow> u8 \<Rightarrow> u32 \<Rightarrow> bool" where
  "pin_bits_outside L offset r c = (c < 8 \<and> c \<noteq> offset \<and> bit8_test L r c)"

interpretation cpld_pin_field: byte_field
  "\<lambda>r. level_of_bit p (bit8_test L r offset)"
  "\<lambda>v r. apply_level L p v r offset"
  "\<lambda>v. bit8_laws L \<and> offset < 8"
  "pin_bits_outside L offset"
  for p L offset
proof unfold_locales
  fix v r
  assume laws: "bit8_laws L \<and> offset < 8"
  show "level_of_bit p (bit8_test L (apply_level L p v r offset) offset) = v"
    using laws by (cases p; cases v) (simp_all add: apply_level_def bit8_laws_def)
  show "pin_bits_outside L offset (apply_level L p v r offset) = pin_bits_outside L offset r"
    using laws
    by (intro ext) (auto simp: pin_bits_outside_def apply_level_def bit8_laws_def)
qed

text \<open>
  C12. A CPLD pin keeps the level it is set to. For an output pin with a bit offset inside the
  register, on a device whose registers, at the addresses \<open>A\<close> of its bus, behave as memory, writing a
  level succeeds, reading the pin afterwards returns this level for either polarity, and neither the
  other bits of the register nor any other register of the device change.
\<close>

theorem cpld_pin_write_read:
  assumes "byte_memory A io (cpld_bus (pin_cpld pin)) (cpld_addr (pin_cpld pin)) reg" and "pin_addr pin \<in> A"
    and "bit8_laws L" and "pin_offset pin < 8"
    and "cpld_width (pin_cpld pin) = SDI_CPLD_DEFAULT_REGISTER_WIDTH"
    and "default_direction (pin_defs pin) = SDI_PIN_BUS_OUTPUT"
  shows "\<exists>w1 w2. sdi_cpld_pin_write_level io L pin v w = Some (STD_ERR_OK, w1) \<and>
    sdi_cpld_pin_read_level io L pin old w1 = Some (STD_ERR_OK, v, w2) \<and>
    (\<forall>c < 8. c \<noteq> pin_offset pin \<longrightarrow>
       bit8_test L (reg w1 (pin_addr pin)) c = bit8_test L (reg w (pin_addr pin)) c) \<and>
    (\<forall>a\<in>A. a \<noteq> pin_addr pin \<longrightarrow> reg w1 a = reg w a)"
proof -
  have fits: "bit8_laws L \<and> pin_offset pin < 8" using assms(3,4) by simp
  obtain w1 where w1: "rmw_byte io (cpld_bus (pin_cpld pin)) (cpld_addr (pin_cpld pin)) (pin_addr pin)
        (\<lambda>r. apply_level L (default_polarity (pin_defs pin)) v r (pin_offset pin)) w = Some (STD_ERR_OK, w1)"
      "level_of_bit (default_polarity (pin_defs pin)) (bit8_test L (reg w1 (pin_addr pin)) (pin_offset pin)) = v"
      "pin_bits_outside L (pin_offset pin) (reg w1 (pin_addr pin)) =
         pin_bits_outside L (pin_offset pin) (reg w (pin_addr pin))"
      "\<forall>a\<in>A. a \<noteq> pin_addr pin \<longrightarrow> reg w1 a = reg w a"
    using cpld_pin_field.rmw_get [OF assms(1,2) fits] by blast
  have "sdi_cpld_pin_write_level io L pin v w = Some (STD_ERR_OK, w1)"
    using w1(1) assms(5,6) by (simp add: sdi_cpld_pin_write_level_def Let_def)
  moreover obtain w2 where "sdi_bus_read_byte io (cpld_bus (pin_cpld pin)) (cpld_addr (pin_cpld pin))
      (pin_addr pin) 0 w1 = Some (STD_ERR_OK, reg w1 (pin_addr pin), w2)"
    using byte_memory_readE [OF assms(1,2)] by blast
  then have "sdi_cpld_pin_read_level io L pin old w1 = Some (STD_ERR_OK, v, w2)"
    using w1(2) assms(5) by (simp add: sdi_cpld_pin_read_level_def Let_def)
  moreover have "bit8_test L (reg w1 (pin_addr pin)) c = bit8_test L (reg w (pin_addr pin)) c"
    if "c < 8" "c \<noteq> pin_offset pin" for c
    using fun_cong [OF w1(3), of c] that by (simp add: pin_bits_outside_def)
  ultimately show ?thesis using w1(4) by blast
qed

section \<open>A CPLD behind I/O ports\<close>

text \<open>The ports \<open>P\<close> behave as memory: an I/O bus over them does, at the numbers of these ports.\<close>

definition port_memory :: "u16 set \<Rightarrow> 'w port_io \<Rightarrow> ('w \<Rightarrow> u16 \<Rightarrow> u8) \<Rightarrow> bool" where
  "port_memory P io ports \<longleftrightarrow>
     (\<forall>p\<in>P. \<forall>w. fst (inb io p w) = ports w p \<and> (\<forall>q\<in>P. ports (snd (inb io p w)) q = ports w q)) \<and>
     (\<forall>p\<in>P. \<forall>v w. \<forall>q\<in>P. ports (outb io p v w) q = ((ports w)(p := v)) q)"

lemma port_number_eq:
  fixes a b :: u32
  assumes "a < 0x10000" and "b < 0x10000"
  shows "(ucast a :: u16) = ucast b \<longleftrightarrow> a = b"
  using assms
  by (simp add: word_unat_eq_iff unsigned_ucast_eq take_bit_eq_mod word_less_nat_alt)

lemma port_byte_memory:
  assumes "port_memory P io ports" and "bus_type b = SDI_IO_BUS"
  shows "byte_memory {a. a < 0x10000 \<and> ucast a \<in> P} io (IO_Handle b) addr (\<lambda>w a. ports w (ucast a))"
  unfolding byte_memory_def
proof (intro conjI ballI allI)
  fix a :: u32 and v :: u8 and w
  assume a: "a \<in> {a. a < 0x10000 \<and> ucast a \<in> P}"
  obtain x w' where x: "inb io (ucast a) w = (x, w')" by fastforce
  then have "x = ports w (ucast a) \<and> (\<forall>q\<in>P. ports w' q = ports w q)"
    using assms(1) a unfolding port_memory_def by (metis (mono_tags, lifting) fst_conv mem_Collect_eq snd_conv)
  then show "\<exists>w'. sdi_bus_read_byte io (IO_Handle b) addr a v w = Some (STD_ERR_OK, ports w (ucast a), w') \<and>
      same_registers {a. a < 0x10000 \<and> ucast a \<in> P} (\<lambda>a. ports w (ucast a)) (\<lambda>a. ports w' (ucast a))"
    using x assms(2) by (simp add: sdi_bus_read_byte_def sdi_io_read_byte_def same_registers_def)
  show "\<exists>w'. sdi_bus_write_byte io (IO_Handle b) addr a v w = Some (STD_ERR_OK, w') \<and>
      same_registers {a. a < 0x10000 \<and> ucast a \<in> P} ((\<lambda>a. ports w (ucast a))(a := v)) (\<lambda>a. ports w' (ucast a))"
    using assms a
    by (auto simp: sdi_bus_write_byte_def sdi_io_write_byte_def same_registers_def port_memory_def port_number_eq)
qed

text \<open>Ports that are plain memory, and a CPLD behind them, for the witnesses.\<close>

definition memory_ports :: "(u16 \<Rightarrow> u8) port_io" where
  "memory_ports = \<lparr>inb = (\<lambda>a w. (w a, w)), outb = (\<lambda>a v w. w(a := v)), ioperm = (\<lambda>a n w. (STD_ERR_OK, w))\<rparr>"

definition no_ports :: "'w port_io" where
  "no_ports = \<lparr>inb = (\<lambda>a w. (0, w)), outb = (\<lambda>a v w. w), ioperm = (\<lambda>a n w. (STD_ERR_OK, w))\<rparr>"

definition memory_cpld :: "(u16 \<Rightarrow> u8) cpld_dev" where
  "memory_cpld = \<lparr>cpld_bus = IO_Handle \<lparr>bus_type = SDI_IO_BUS, bus_id = 0, bus_name = ''io'', sdi_device_list = []\<rparr>,
     cpld_addr = \<lparr>i2c_addr = 0, addr_mode_16bit = False\<rparr>, cpld_width = 1\<rparr>"

lemma memory_cpld_byte_memory:
  "byte_memory {a. a < 0x10000} memory_ports (cpld_bus memory_cpld) (cpld_addr memory_cpld) (\<lambda>w a. w (ucast a))"
proof -
  have "port_memory UNIV memory_ports (\<lambda>w. w)" by (simp add: port_memory_def memory_ports_def)
  from port_byte_memory [OF this] show ?thesis by (simp add: memory_cpld_def)
qed

lemma cpld_pin_write_read_witness:
  "let pin = \<lparr>pin_defs = \<lparr>default_direction = SDI_PIN_BUS_OUTPUT,
                 default_polarity = SDI_PIN_POLARITY_INVERTED, default_level = 0\<rparr>,
              pin_addr = 0x12, pin_offset = 3, pin_cpld = memory_cpld\<rparr>
   in \<exists>w1 w2. sdi_cpld_pin_write_level memory_ports sample_lib pin SDI_PIN_LEVEL_HIGH (\<lambda>_. 0) =
        Some (STD_ERR_OK, w1) \<and>
      sdi_cpld_pin_read_level memory_ports sample_lib pin SDI_PIN_LEVEL_LOW w1 =
        Some (STD_ERR_OK, SDI_PIN_LEVEL_HIGH, w2)"
proof -
  let ?pin = "\<lparr>pin_defs = \<lparr>default_direction = SDI_PIN_BUS_OUTPUT,
                 default_polarity = SDI_PIN_POLARITY_INVERTED, default_level = 0\<rparr>,
              pin_addr = 0x12, pin_offset = 3, pin_cpld = memory_cpld\<rparr>"
  have M: "byte_memory {a. a < 0x10000} memory_ports (cpld_bus (pin_cpld ?pin)) (cpld_addr (pin_cpld ?pin))
      (\<lambda>w a. w (ucast a))" and "pin_addr ?pin \<in> {a. a < 0x10000}"
    by (simp_all add: memory_cpld_byte_memory)
  from cpld_pin_write_read [OF this sample_lib_bit8, of SDI_PIN_LEVEL_HIGH "\<lambda>_. 0" SDI_PIN_LEVEL_LOW]
  show ?thesis
    by (simp add: memory_cpld_def SDI_CPLD_DEFAULT_REGISTER_WIDTH_def Let_def) blast
qed

end
