(* ===== verification/C_Float.thy ===== *)
theory C_Float
  imports Sdi_Prelude "HOL-Library.Log_Nat"
begin

text \<open>
  The C types float and double, as the media drivers use them: IEEE binary32 and binary64 with
  rounding to nearest, ties to even, and expressions evaluated in their own type. A finite value is
  a rational number, its precision is 24 or 53 bits; the exponent is not bounded, since no value
  the drivers compute comes near the ends of the range. The two zeros are one value, which matters
  only for a division by zero: its divisors here are never negative zeros.

  The functions log10f and powf of the C library round as the library likes: parameters.
\<close>

section \<open>Rounding\<close>

definition exp_of :: "rat \<Rightarrow> int" where
  "exp_of x =
     (let (a, b) = quotient_of \<bar>x\<bar>;
          k = int (floorlog 2 (nat a)) - int (floorlog 2 (nat b))
      in if \<bar>x\<bar> < 2 powi k then k - 1 else k)"

definition round_half_even :: "rat \<Rightarrow> int" where
  "round_half_even x =
     (let f = \<lfloor>x\<rfloor>; d = x - of_int f
      in if d < 1 / 2 \<or> d = 1 / 2 \<and> even f then f else f + 1)"

definition round_to :: "nat \<Rightarrow> rat \<Rightarrow> rat" where
  "round_to p x =
     (if x = 0 then 0
      else let u = 2 powi (exp_of x - int p + 1) in of_int (round_half_even (x / u)) * u)"

lemma floorlog_2_bounds:
  assumes "0 < n"
  shows "2 ^ (floorlog 2 n - 1) \<le> n" and "n < 2 ^ floorlog 2 n" and "0 < floorlog 2 n"
  using floorlog_bounds [OF assms, of 2] assms floorlog_eq_zero_iff [of 2 n] by simp_all

text \<open>The exponent is that of the leading bit.\<close>

lemma exp_of_upper:
  assumes "x \<noteq> 0" and "\<bar>x\<bar> < 2 powi k"
  shows "exp_of x < k"
proof -
  obtain a b where ab: "quotient_of \<bar>x\<bar> = (a, b)" by fastforce
  have b: "b > 0" and q: "\<bar>x\<bar> = of_int a / of_int b"
    using quotient_of_denom_pos [OF ab] quotient_of_div [OF ab] by auto
  have a: "a > 0" using assms(1) q b by (simp add: zero_less_divide_iff flip: zero_less_abs_iff [of x])
  let ?la = "floorlog 2 (nat a)" and ?lb = "floorlog 2 (nat b)"
  have la: "2 ^ (?la - 1) \<le> nat a" "0 < ?la" and lb: "nat b < 2 ^ ?lb"
    using floorlog_2_bounds [of "nat a"] floorlog_2_bounds [of "nat b"] a b by auto
  have a': "(2 :: rat) ^ (?la - 1) \<le> of_int a"
    using la(1) a by (metis of_nat_le_iff of_nat_nat of_nat_numeral of_nat_power order_less_imp_le of_int_of_nat_eq)
  have b': "(of_int b :: rat) < 2 ^ ?lb"
    using lb b by (metis of_nat_less_iff of_nat_nat of_nat_numeral of_nat_power order_less_imp_le of_int_of_nat_eq)
  have "2 powi (int ?la - int ?lb - 1) = (2 :: rat) ^ (?la - 1) / 2 ^ ?lb"
  proof -
    obtain n where "?la = Suc n" using la(2) by (cases ?la) auto
    then show ?thesis by (simp add: power_int_diff)
  qed
  also have "\<dots> < of_int a / of_int b"
  proof -
    have "(2 :: rat) ^ (?la - 1) * of_int b < 2 ^ (?la - 1) * 2 ^ ?lb" using b' by simp
    also have "\<dots> \<le> of_int a * 2 ^ ?lb" using a' by simp
    finally show ?thesis using b by (simp add: field_simps)
  qed
  finally have low: "2 powi (int ?la - int ?lb - 1) < \<bar>x\<bar>" by (simp add: q)
  have "2 powi exp_of x \<le> \<bar>x\<bar>"
    using low by (auto simp: exp_of_def ab Let_def)
  then have "(2 :: rat) powi exp_of x < 2 powi k" using assms(2) by simp
  then show ?thesis by (metis power_int_increasing one_le_numeral leD leI)
qed

text \<open>A value that fits into the precision is not changed.\<close>

lemma round_half_even_int [simp]: "round_half_even (of_int i) = i"
  by (simp add: round_half_even_def)

lemma round_to_exact:
  assumes "\<bar>m\<bar> < 2 ^ p"
  shows "round_to p (of_int m * 2 powi j) = of_int m * 2 powi j"
proof (cases "m = 0")
  case False
  let ?x = "of_int m * 2 powi j :: rat" and ?e = "exp_of (of_int m * 2 powi j) - int p + 1"
  have "\<bar>of_int m :: rat\<bar> < 2 ^ p"
    using assms by (metis of_int_abs of_int_less_iff of_int_numeral of_int_power)
  then have "\<bar>?x\<bar> < 2 powi (int p + j)" by (simp add: abs_mult power_int_add)
  then have "exp_of ?x < int p + j" using False by (intro exp_of_upper) auto
  then have "0 \<le> j - ?e" by simp
  then have "?x / 2 powi ?e = of_int (m * 2 ^ nat (j - ?e))"
    by (simp add: power_int_diff flip: power_int_of_nat)
  then have "round_half_even (?x / 2 powi ?e) = m * 2 ^ nat (j - ?e)"
    by (simp only: round_half_even_int)
  moreover have "of_int (m * 2 ^ nat (j - ?e)) * 2 powi ?e = ?x"
    by (simp only: \<open>?x / 2 powi ?e = of_int (m * 2 ^ nat (j - ?e))\<close> [symmetric]
        nonzero_divide_mult_cancel_right [of "2 powi ?e :: rat"] times_divide_eq_left) simp
  ultimately show ?thesis using False by (simp only: round_to_def Let_def) simp
qed (simp add: round_to_def)

lemma round_to_int [simp]: "\<bar>m\<bar> < 2 ^ p \<Longrightarrow> round_to p (of_int m) = of_int m"
  using round_to_exact [of m p 0] by simp

section \<open>Values and operations\<close>

datatype c_float = Fin rat | Inf bool | NaN

text \<open>
  The operations take the precision of the type they are done in. \<open>Inf True\<close> is the negative
  infinity.
\<close>

fun fp_round :: "nat \<Rightarrow> c_float \<Rightarrow> c_float" where
  "fp_round p (Fin x) = Fin (round_to p x)"
| "fp_round p v = v"

abbreviation to_float :: "c_float \<Rightarrow> c_float" where "to_float \<equiv> fp_round 24"
abbreviation to_double :: "c_float \<Rightarrow> c_float" where "to_double \<equiv> fp_round 53"

definition float_of_int :: "int \<Rightarrow> c_float" where "float_of_int i = to_float (Fin (of_int i))"

text \<open>A decimal constant of type double.\<close>

definition double_const :: "rat \<Rightarrow> c_float" where "double_const x = to_double (Fin x)"

fun fp_neg :: "c_float \<Rightarrow> c_float" where
  "fp_neg (Fin x) = Fin (- x)"
| "fp_neg (Inf s) = Inf (\<not> s)"
| "fp_neg NaN = NaN"

fun fp_add :: "nat \<Rightarrow> c_float \<Rightarrow> c_float \<Rightarrow> c_float" where
  "fp_add p (Fin x) (Fin y) = Fin (round_to p (x + y))"
| "fp_add p (Inf s) (Inf t) = (if s = t then Inf s else NaN)"
| "fp_add p (Inf s) (Fin y) = Inf s"
| "fp_add p (Fin x) (Inf t) = Inf t"
| "fp_add p _ _ = NaN"

definition fp_sub :: "nat \<Rightarrow> c_float \<Rightarrow> c_float \<Rightarrow> c_float" where
  "fp_sub p x y = fp_add p x (fp_neg y)"

fun fp_mul :: "nat \<Rightarrow> c_float \<Rightarrow> c_float \<Rightarrow> c_float" where
  "fp_mul p (Fin x) (Fin y) = Fin (round_to p (x * y))"
| "fp_mul p (Inf s) (Inf t) = Inf (s \<noteq> t)"
| "fp_mul p (Inf s) (Fin y) = (if y = 0 then NaN else Inf (s \<noteq> (y < 0)))"
| "fp_mul p (Fin x) (Inf t) = (if x = 0 then NaN else Inf (t \<noteq> (x < 0)))"
| "fp_mul p _ _ = NaN"

fun fp_div :: "nat \<Rightarrow> c_float \<Rightarrow> c_float \<Rightarrow> c_float" where
  "fp_div p (Fin x) (Fin y) =
     (if y = 0 then (if x = 0 then NaN else Inf (x < 0)) else Fin (round_to p (x / y)))"
| "fp_div p (Inf s) (Fin y) = Inf (s \<noteq> (y < 0))"
| "fp_div p (Fin x) (Inf t) = Fin 0"
| "fp_div p _ _ = NaN"

fun fp_less :: "c_float \<Rightarrow> c_float \<Rightarrow> bool" where
  "fp_less (Fin x) (Fin y) \<longleftrightarrow> x < y"
| "fp_less (Inf s) (Fin y) \<longleftrightarrow> s"
| "fp_less (Fin x) (Inf t) \<longleftrightarrow> \<not> t"
| "fp_less (Inf s) (Inf t) \<longleftrightarrow> s \<and> \<not> t"
| "fp_less _ _ \<longleftrightarrow> False"

definition fp_le :: "c_float \<Rightarrow> c_float \<Rightarrow> bool" where
  "fp_le x y \<longleftrightarrow> fp_less x y \<or> x = y \<and> x \<noteq> NaN"

text \<open>
  A conversion to an integer type truncates, and lroundf rounds to the nearest integer, halves away
  from zero; a value that the type does not hold is undefined. The bounds are those of the type.
\<close>

definition fp_truncate :: "rat \<Rightarrow> int" where
  "fp_truncate x = (if x < 0 then - \<lfloor>- x\<rfloor> else \<lfloor>x\<rfloor>)"

fun fp_to_int :: "int \<Rightarrow> int \<Rightarrow> c_float \<Rightarrow> int option" where
  "fp_to_int lo hi (Fin x) =
     (let i = fp_truncate x in if lo \<le> i \<and> i \<le> hi then Some i else None)"
| "fp_to_int lo hi _ = None"

text \<open>
  The functions of the C library; what lroundf gives for a value without a nearest long is not
  specified.
\<close>

record math_lib =
  log10f :: "c_float \<Rightarrow> c_float"
  powf :: "c_float \<Rightarrow> c_float \<Rightarrow> c_float"
  pow :: "c_float \<Rightarrow> c_float \<Rightarrow> c_float"
  lroundf_unspecified :: "c_float \<Rightarrow> int"

fun lroundf :: "math_lib \<Rightarrow> c_float \<Rightarrow> int" where
  "lroundf M (Fin x) =
     (let i = (if x < 0 then - \<lfloor>1 / 2 - x\<rfloor> else \<lfloor>x + 1 / 2\<rfloor>)
      in if - (2 ^ 63) \<le> i \<and> i < 2 ^ 63 then i else lroundf_unspecified M (Fin x))"
| "lroundf M v = lroundf_unspecified M v"

end
