(* ===== verification/Media_Types.thy ===== *)
theory Media_Types
  imports C_Float
begin

text \<open>
  The types of the media API (src/inc/opx/sdi\_media.h) and the table of functions a media driver
  registers.
\<close>

section \<open>Types of the media API\<close>

datatype sdi_media_speed =
    SDI_MEDIA_INVALID_SPEED | SDI_MEDIA_SPEED_10M | SDI_MEDIA_SPEED_100M | SDI_MEDIA_SPEED_1G
  | SDI_MEDIA_SPEED_10G | SDI_MEDIA_SPEED_25G | SDI_MEDIA_SPEED_40G | SDI_MEDIA_SPEED_100G
  | SDI_MEDIA_SPEED_20G | SDI_MEDIA_SPEED_50G | SDI_MEDIA_SPEED_200G | SDI_MEDIA_SPEED_400G
  | SDI_MEDIA_SPEED_4GFC | SDI_MEDIA_SPEED_8GFC | SDI_MEDIA_SPEED_16GFC | SDI_MEDIA_SPEED_32GFC
  | SDI_MEDIA_SPEED_2500M | SDI_MEDIA_SPEED_5G

datatype sdi_media_mode = SDI_MEDIA_MODE_MII | SDI_MEDIA_MODE_GMII | SDI_MEDIA_MODE_SGMII

datatype sdi_media_type = SDI_MEDIA_DEFAULT | QSFP_4X1_1000BASE_T | QSFP_QSA_ADAPTER

datatype sdi_media_module_monitor = SDI_MEDIA_TEMP | SDI_MEDIA_VOLT

datatype sdi_media_channel_monitor =
    SDI_MEDIA_INTERNAL_RX_POWER_MONITOR | SDI_MEDIA_INTERNAL_TX_BIAS_CURRENT
  | SDI_MEDIA_INTERNAL_TX_OUTPUT_POWER

datatype sdi_media_param_type =
    SDI_MEDIA_WAVELENGTH | SDI_MEDIA_WAVELENGTH_TOLERANCE | SDI_MEDIA_MAX_CASE_TEMP
  | SDI_MEDIA_CC_BASE | SDI_MEDIA_CC_EXT | SDI_MEDIA_CONNECTOR | SDI_MEDIA_ENCODING_TYPE
  | SDI_MEDIA_NM_BITRATE | SDI_MEDIA_IDENTIFIER | SDI_MEDIA_EXT_IDENTIFIER
  | SDI_MEDIA_LENGTH_SMF_KM | SDI_MEDIA_LENGTH_OM1 | SDI_MEDIA_LENGTH_OM2 | SDI_MEDIA_LENGTH_OM3
  | SDI_MEDIA_LENGTH_CABLE_ASSEMBLY | SDI_MEDIA_LENGTH_SMF | SDI_MEDIA_OPTIONS
  | SDI_MEDIA_ENHANCED_OPTIONS | SDI_MEDIA_DIAG_MON_TYPE | SDI_MEDIA_DEVICE_TECH
  | SDI_MEDIA_MAX_BITRATE | SDI_MEDIA_MIN_BITRATE | SDI_MEDIA_EXT_COMPLIANCE_CODE
  | SDI_FREE_SIDE_DEV_PROP | SDI_TUNE_WAVELENGTH_PICO_METERS

datatype sdi_media_vendor_info_type =
    SDI_MEDIA_VENDOR_NAME | SDI_MEDIA_VENDOR_OUI | SDI_MEDIA_VENDOR_SN | SDI_MEDIA_VENDOR_DATE
  | SDI_MEDIA_VENDOR_PN | SDI_MEDIA_VENDOR_REVISION

datatype sdi_media_threshold_type =
    SDI_MEDIA_TEMP_HIGH_ALARM_THRESHOLD | SDI_MEDIA_TEMP_LOW_ALARM_THRESHOLD
  | SDI_MEDIA_TEMP_HIGH_WARNING_THRESHOLD | SDI_MEDIA_TEMP_LOW_WARNING_THRESHOLD
  | SDI_MEDIA_VOLT_HIGH_ALARM_THRESHOLD | SDI_MEDIA_VOLT_LOW_ALARM_THRESHOLD
  | SDI_MEDIA_VOLT_HIGH_WARNING_THRESHOLD | SDI_MEDIA_VOLT_LOW_WARNING_THRESHOLD
  | SDI_MEDIA_RX_PWR_HIGH_ALARM_THRESHOLD | SDI_MEDIA_RX_PWR_LOW_ALARM_THRESHOLD
  | SDI_MEDIA_RX_PWR_HIGH_WARNING_THRESHOLD | SDI_MEDIA_RX_PWR_LOW_WARNING_THRESHOLD
  | SDI_MEDIA_TX_BIAS_HIGH_ALARM_THRESHOLD | SDI_MEDIA_TX_BIAS_LOW_ALARM_THRESHOLD
  | SDI_MEDIA_TX_BIAS_HIGH_WARNING_THRESHOLD | SDI_MEDIA_TX_BIAS_LOW_WARNING_THRESHOLD
  | SDI_MEDIA_TX_PWR_HIGH_ALARM_THRESHOLD | SDI_MEDIA_TX_PWR_LOW_ALARM_THRESHOLD
  | SDI_MEDIA_TX_PWR_HIGH_WARNING_THRESHOLD | SDI_MEDIA_TX_PWR_LOW_WARNING_THRESHOLD

datatype sdi_media_module_ctrl_type = SDI_MEDIA_LP_MODE | SDI_MEDIA_RESET

datatype sdi_media_fw_rev = SDI_MEDIA_FW_REV0 | SDI_MEDIA_FW_REV1

datatype sdi_qsa_adapter_type =
    SDI_QSA_ADAPTER_NONE | SDI_QSA_ADAPTER_UNKNOWN | SDI_QSA_ADAPTER_QSA | SDI_QSA_ADAPTER_QSA28

text \<open>The address of a raw access: device address and page are signed ints.\<close>

record sdi_media_eeprom_addr =
  eeprom_device_addr :: int
  eeprom_page :: int
  eeprom_offset :: u32

abbreviation (input) SDI_MEDIA_PAGE_SELECT_IGNORE :: int where "SDI_MEDIA_PAGE_SELECT_IGNORE \<equiv> - 1"
abbreviation (input) SDI_MEDIA_DEVICE_ADDR_AUTO :: int where "SDI_MEDIA_DEVICE_ADDR_AUTO \<equiv> - 1"
abbreviation (input) SDI_MEDIA_DEVICE_ADDR_A2 :: int where "SDI_MEDIA_DEVICE_ADDR_A2 \<equiv> 0x51"
abbreviation (input) SDI_MEDIA_MINIMUM_PAGE :: int where "SDI_MEDIA_MINIMUM_PAGE \<equiv> 0"
abbreviation (input) SDI_MEDIA_PAGE_DEFAULT :: u8 where "SDI_MEDIA_PAGE_DEFAULT \<equiv> 0"

section \<open>Structures of the media API\<close>

text \<open>
  The members of the union of the compliance codes never read what another one wrote. The two
  members of the union of the features have the same layout, so a driver that fills the other one
  starts from the same five flags.
\<close>

record sdi_sfp_transceiver_descr =
  sdi_sfp_eth_10g_code :: u8
  sdi_sfp_infiniband_code :: u8
  sdi_sfp_escon_code :: u16
  sdi_sfp_sonet_code :: u16
  sdi_sfp_eth_1g_code :: u8
  sdi_sfp_fc_distance :: u16
  sdi_sfp_fc_technology :: u16
  sdi_sfp_plus_cable_technology :: u16
  sdi_sfp_fc_media :: u8
  sdi_sfp_fc_speed :: u8

record sdi_qsfp_transceiver_descr =
  sdi_qsfp_eth_1040g_code :: u8
  sdi_qsfp_sonet_code :: u8
  sdi_qsfp_sas_code :: u8
  sdi_qsfp_eth_1g_code :: u8
  sdi_qsfp_fc_distance :: u16
  sdi_qsfp_fc_technology :: u16
  sdi_qsfp_fc_media :: u8
  sdi_qsfp_fc_speed :: u8

datatype sdi_media_transceiver_descr =
    Qsfp_Descr sdi_qsfp_transceiver_descr | Sfp_Descr sdi_sfp_transceiver_descr

record sdi_qsfp_supported_feature =
  qsfp_rate_select_status :: bool
  tx_control_support_status :: bool
  paging_support_status :: bool
  software_controlled_power_mode_status :: bool
  qsfp_ext_mod_ctrl_support_status :: bool

record sdi_sfp_supported_feature =
  rate_select_status :: bool
  alarm_support_status :: bool
  diag_mntr_support_status :: bool
  wavelength_tune_support_status :: bool
  ext_mod_ctrl_support_status :: bool

datatype sdi_media_supported_feature =
    Qsfp_Features sdi_qsfp_supported_feature | Sfp_Features sdi_sfp_supported_feature

fun sfp_features :: "sdi_media_supported_feature \<Rightarrow> sdi_sfp_supported_feature" where
  "sfp_features (Sfp_Features f) = f"
| "sfp_features (Qsfp_Features f) = \<lparr>rate_select_status = qsfp_rate_select_status f,
     alarm_support_status = tx_control_support_status f,
     diag_mntr_support_status = paging_support_status f,
     wavelength_tune_support_status = software_controlled_power_mode_status f,
     ext_mod_ctrl_support_status = qsfp_ext_mod_ctrl_support_status f\<rparr>"

fun qsfp_features :: "sdi_media_supported_feature \<Rightarrow> sdi_qsfp_supported_feature" where
  "qsfp_features (Qsfp_Features f) = f"
| "qsfp_features (Sfp_Features f) = \<lparr>qsfp_rate_select_status = rate_select_status f,
     tx_control_support_status = alarm_support_status f,
     paging_support_status = diag_mntr_support_status f,
     software_controlled_power_mode_status = wavelength_tune_support_status f,
     qsfp_ext_mod_ctrl_support_status = ext_mod_ctrl_support_status f\<rparr>"

datatype sdi_port_type =
    SDI_MEDIA_PORT_TYPE_BACKPLANE | SDI_MEDIA_PORT_TYPE_RJ45 | SDI_MEDIA_PORT_TYPE_SFP
  | SDI_MEDIA_PORT_TYPE_SFP_PLUS | SDI_MEDIA_PORT_TYPE_SFP28 | SDI_MEDIA_PORT_TYPE_SFP56
  | SDI_MEDIA_PORT_TYPE_QSFP | SDI_MEDIA_PORT_TYPE_QSFP_PLUS | SDI_MEDIA_PORT_TYPE_QSFP28
  | SDI_MEDIA_PORT_TYPE_QSFP28_DD_1 | SDI_MEDIA_PORT_TYPE_QSFP28_DD_2 | SDI_MEDIA_PORT_TYPE_QSFP56
  | SDI_MEDIA_PORT_TYPE_QSFP56_DD

record sdi_media_port_info =
  max_port_speed_mbps :: u32
  port_density :: u32
  max_port_power_mw :: int
  port_type :: sdi_port_type
  sub_port_rank :: u32
  sub_port_channel_offset :: u32

record sdi_media_module_info =
  module_density :: u32
  eeprom_map_version :: int
  software_controlled_power_mode :: bool
  max_module_power_mw :: int

section \<open>The callback table\<close>

type_synonym 'w action = "'w \<Rightarrow> (t_std_error \<times> 'w) option"
type_synonym ('a, 'w) query = "'a \<Rightarrow> 'w \<Rightarrow> (t_std_error \<times> 'a \<times> 'w) option"

text \<open>
  media\_ctrl\_t of src/inc/opx/private/sdi\_media\_internal.h. An entry that one of the drivers
  leaves NULL is an option.
\<close>

record 'w media_ctrl =
  mc_presence_get :: "(bool, 'w) query"
  mc_module_init :: "bool \<Rightarrow> 'w action"
  mc_module_monitor_status_get :: "u32 \<Rightarrow> (u32, 'w) query"
  mc_channel_monitor_status_get :: "u32 \<Rightarrow> u32 \<Rightarrow> (u32, 'w) query"
  mc_channel_status_get :: "u32 \<Rightarrow> u32 \<Rightarrow> (u32, 'w) query"
  mc_tx_control :: "u32 \<Rightarrow> bool \<Rightarrow> 'w action"
  mc_tx_control_status_get :: "u32 \<Rightarrow> (bool, 'w) query"
  mc_cdr_status_set :: "(u32 \<Rightarrow> bool \<Rightarrow> 'w action) option"
  mc_cdr_status_get :: "(u32 \<Rightarrow> (bool, 'w) query) option"
  mc_speed_get :: "(sdi_media_speed, 'w) query"
  mc_parameter_get :: "sdi_media_param_type \<Rightarrow> (u32, 'w) query"
  mc_vendor_info_get :: "sdi_media_vendor_info_type \<Rightarrow> (u8 list, 'w) query"
  mc_transceiver_code_get :: "(sdi_media_transceiver_descr, 'w) query"
  mc_threshold_get :: "sdi_media_threshold_type \<Rightarrow> (c_float, 'w) query"
  mc_module_monitor_threshold_get :: "u32 \<Rightarrow> (u32, 'w) query"
  mc_channel_monitor_threshold_get :: "u32 \<Rightarrow> (u32, 'w) query"
  mc_module_control :: "(sdi_media_module_ctrl_type \<Rightarrow> bool \<Rightarrow> 'w action) option"
  mc_module_control_status_get :: "(sdi_media_module_ctrl_type \<Rightarrow> (bool, 'w) query) option"
  mc_module_monitor_get :: "sdi_media_module_monitor \<Rightarrow> (c_float, 'w) query"
  mc_channel_monitor_get :: "u32 \<Rightarrow> sdi_media_channel_monitor \<Rightarrow> (c_float, 'w) query"
  mc_feature_support_status_get :: "(sdi_media_supported_feature, 'w) query"
  mc_led_set :: "(u32 \<Rightarrow> sdi_media_speed \<Rightarrow> 'w action) option"
  mc_read :: "u32 \<Rightarrow> u32 \<Rightarrow> (u8 list, 'w) query"
  mc_write :: "u32 \<Rightarrow> u32 \<Rightarrow> (u8 list, 'w) query"
  mc_read_generic :: "sdi_media_eeprom_addr \<Rightarrow> u32 \<Rightarrow> (u8 list, 'w) query"
  mc_write_generic :: "sdi_media_eeprom_addr \<Rightarrow> u32 \<Rightarrow> (u8 list, 'w) query"
  mc_phy_autoneg_set :: "u32 \<Rightarrow> sdi_media_type \<Rightarrow> bool \<Rightarrow> 'w action"
  mc_phy_speed_set :: "u32 \<Rightarrow> sdi_media_type \<Rightarrow> sdi_media_speed \<Rightarrow> 'w action"
  mc_phy_mode_set :: "u32 \<Rightarrow> sdi_media_type \<Rightarrow> sdi_media_mode \<Rightarrow> 'w action"
  mc_wavelength_set :: "c_float \<Rightarrow> 'w action"
  mc_phy_link_status_get :: "u32 \<Rightarrow> sdi_media_type \<Rightarrow> (bool, 'w) query"
  mc_phy_power_down_enable :: "u32 \<Rightarrow> sdi_media_type \<Rightarrow> bool \<Rightarrow> 'w action"
  mc_ext_rate_select :: "(u32 \<Rightarrow> sdi_media_fw_rev \<Rightarrow> bool \<Rightarrow> 'w action) option"
  mc_phy_serdes_control :: "u32 \<Rightarrow> sdi_media_type \<Rightarrow> bool \<Rightarrow> 'w action"
  mc_qsa_adapter_type_get :: "(sdi_qsa_adapter_type, 'w) query"
  mc_port_info_get :: "(sdi_media_port_info, 'w) query"
  mc_module_info_get :: "(sdi_media_module_info, 'w) query"

end
