(* ===== verification/Resource.thy ===== *)
theory Resource
  imports Pin_Bus Media_Types
begin

text \<open>
  Resources and entities: the data of src/inc/opx/private/sdi\_resource\_internal.h,
  sdi\_entity\_internal.h and of the callback tables of the resource kinds (sdi\_fan\_internal.h,
  sdi\_thermal\_internal.h, \<dots>), the state of the system they form, and the resource framework
  (src/framework/sdi\_resource\_framework.c) with the entity-info API (src/hwcore/sdi\_entity\_info.c).

  Resources and entities are allocated once and never freed: a handle is the number of the
  allocation, the heaps are total maps and the counters are the next free handles. A callback
  table is a record of functions in which the callback handle is already applied; a table entry
  that the code tests for NULL is an option. Callbacks that get the resource handle besides read
  the entity information of the parent through it: they are given that information, if there is
  a parent. A \<open>void *\<close> table is a datatype with one constructor for each kind: reading it as
  the table of another kind is undefined in C and \<open>None\<close> here.
\<close>

section \<open>Kinds of entities and resources\<close>

datatype sdi_entity_type = SDI_ENTITY_SYSTEM_BOARD | SDI_ENTITY_FAN_TRAY | SDI_ENTITY_PSU_TRAY

datatype sdi_resource_type =
    SDI_RESOURCE_TEMPERATURE | SDI_RESOURCE_FAN | SDI_RESOURCE_LED | SDI_RESOURCE_DIGIT_DISPLAY_LED
  | SDI_RESOURCE_ENTITY_INFO | SDI_RESOURCE_UPGRADABLE_PLD | SDI_RESOURCE_MEDIA | SDI_RESOURCE_NVRAM
  | SDI_RESOURCE_COMM_DEV | SDI_RESOURCE_HOST_SYSTEM | SDI_RESOURCE_POWER_MONITOR
  | SDI_RESOURCE_BMC_DEV | SDI_RESOURCE_EXT_CONTROL | SDI_RESOURCE_MAX

datatype sdi_threshold = SDI_LOW_THRESHOLD | SDI_HIGH_THRESHOLD | SDI_CRITICAL_THRESHOLD

datatype sdi_reset_type = WARM_RESET | COLD_RESET | MAX_NUM_RESET

datatype sdi_entity_access_type = SDI_ENT_ACCESS_DIRECT | SDI_ENT_ACCESS_BMC

text \<open>What an entity says about itself: sdi\_entity\_info\_t. The C type int is a 32-bit word.\<close>

record sdi_entity_info =
  prod_name :: string
  ppid :: string
  hw_revision :: string
  platform_name :: string
  vendor_name :: string
  service_tag :: string
  mac_size :: u32
  base_mac :: "u8 list"
  num_fans :: u32
  max_speed :: u32
  air_flow :: u32
  power_rating :: u32
  ac_power :: bool
  dc_power :: bool
  part_number :: string

definition zero_entity_info :: sdi_entity_info where
  "zero_entity_info = \<lparr>prod_name = [], ppid = [], hw_revision = [], platform_name = [],
     vendor_name = [], service_tag = [], mac_size = 0, base_mac = replicate 6 0, num_fans = 0,
     max_speed = 0, air_flow = 0, power_rating = 0, ac_power = False, dc_power = False,
     part_number = []\<rparr>"

section \<open>Callback tables\<close>


record 'w fan_ctrl =
  fan_init :: "(u32 \<Rightarrow> 'w action) option"
  fan_speed_get :: "sdi_entity_info option \<Rightarrow> (u32, 'w) query"
  fan_speed_set :: "(sdi_entity_info option \<Rightarrow> u32 \<Rightarrow> 'w action) option"
  fan_status_get :: "(bool, 'w) query"
  fan_rpm_to_pct :: "(sdi_entity_info option \<Rightarrow> u32 \<Rightarrow> 'w \<Rightarrow> u32 option) option"
  fan_pct_to_rpm :: "(sdi_entity_info option \<Rightarrow> u32 \<Rightarrow> 'w \<Rightarrow> u32 option) option"

record 'w temperature_sensor =
  ts_init :: "'w action option"
  ts_temperature_get :: "(u32, 'w) query"
  ts_threshold_get :: "sdi_threshold \<Rightarrow> (u32, 'w) query"
  ts_threshold_set :: "sdi_threshold \<Rightarrow> u32 \<Rightarrow> 'w action"
  ts_status_get :: "(bool, 'w) query"

record 'w led_sensor =
  led_on :: "'w action"
  led_off :: "'w action"

record 'w digital_display_led =
  digital_on :: "'w action"
  digital_off :: "'w action"
  digital_get_state :: "(bool, 'w) query"
  digital_get :: "nat \<Rightarrow> (string, 'w) query"
  digital_set :: "string \<Rightarrow> 'w action"

record 'w entity_info_ctrl =
  ei_init :: "'w action option"
  entity_info_data_get :: "(sdi_entity_info, 'w) query"

record 'w nvram_ctrl =
  nv_init :: "'w action option"
  nv_size :: "(u32, 'w) query"
  nv_read :: "u32 \<Rightarrow> u32 \<Rightarrow> (u8 list, 'w) query"
  nv_write :: "u8 list \<Rightarrow> u32 \<Rightarrow> u32 \<Rightarrow> 'w action"

record 'w power_monitor =
  pm_init :: "'w action option"
  pm_current_amp_get :: "(c_float, 'w) query"
  pm_voltage_volt_get :: "(c_float, 'w) query"
  pm_power_watt_get :: "(c_float, 'w) query"

record 'w ext_ctrl =
  ec_init :: "'w action option"
  ec_get :: "(u32 list \<times> u32, 'w) query"
  ec_set :: "u32 list \<Rightarrow> u32 \<Rightarrow> 'w action"

text \<open>
  The tables of the communication device and of the host system it sits in
  (private/sdi\_comm\_dev\_internal.h, sdi\_host\_system\_internal.h), and the information that the
  device has about the chassis (sdi\_comm\_dev.h).
\<close>

record sdi_platform_info =
  chassis_service_tag :: "u8 list"
  comm_dev_fw_ver :: "u8 list"
  slot_occupation :: u32

record 'w comm_dev_ctrl =
  read_mbox :: "(u8 list, 'w) query"
  write_mbox :: "u16 \<Rightarrow> u8 list \<Rightarrow> 'w action"
  write_pckg_read_verif :: "'w action"
  write_pckg_downl_compl :: "'w action"
  access_fw_rev :: "bool \<Rightarrow> (u8 list, 'w) query"
  write_temp_sensor :: "u32 \<Rightarrow> 'w action"
  write_npu_temp_sensor :: "u32 \<Rightarrow> 'w action"
  write_ambient_temp_sensor :: "u32 \<Rightarrow> 'w action"
  read_platform_info :: "(sdi_platform_info, 'w) query"
  flush_msg_buffer :: "'w action"
  get_buffer_ready :: "(bool, 'w) query"
  ctrl_messaging_enable :: "bool \<Rightarrow> 'w action"

record 'w host_system_ctrl =
  get_slot :: "(u8, 'w) query"
  get_pkg_notify :: "(bool, 'w) query"
  set_booted :: "bool \<Rightarrow> 'w action"

text \<open>\<open>Other_Fns\<close> are the tables of the kinds that have no model here (the BMC device, \<dots>).\<close>

datatype 'w callbacks =
    Fan_Fns "'w fan_ctrl" | Temperature_Fns "'w temperature_sensor" | Led_Fns "'w led_sensor"
  | Digital_Led_Fns "'w digital_display_led" | Entity_Info_Fns "'w entity_info_ctrl"
  | Nvram_Fns "'w nvram_ctrl" | Power_Monitor_Fns "'w power_monitor" | Ext_Ctrl_Fns "'w ext_ctrl"
  | Media_Fns "'w media_ctrl" | Comm_Dev_Fns "'w comm_dev_ctrl"
  | Host_System_Fns "'w host_system_ctrl" | Other_Fns

fun as_fan where "as_fan (Fan_Fns f) = Some f" | "as_fan _ = None"
fun as_temperature where "as_temperature (Temperature_Fns f) = Some f" | "as_temperature _ = None"
fun as_led where "as_led (Led_Fns f) = Some f" | "as_led _ = None"
fun as_digital_led where "as_digital_led (Digital_Led_Fns f) = Some f" | "as_digital_led _ = None"
fun as_entity_info where "as_entity_info (Entity_Info_Fns f) = Some f" | "as_entity_info _ = None"
fun as_nvram where "as_nvram (Nvram_Fns f) = Some f" | "as_nvram _ = None"
fun as_power_monitor where "as_power_monitor (Power_Monitor_Fns f) = Some f" | "as_power_monitor _ = None"
fun as_media where "as_media (Media_Fns f) = Some f" | "as_media _ = None"
fun as_ext_ctrl where "as_ext_ctrl (Ext_Ctrl_Fns f) = Some f" | "as_ext_ctrl _ = None"
fun as_comm_dev where "as_comm_dev (Comm_Dev_Fns f) = Some f" | "as_comm_dev _ = None"
fun as_host_system where "as_host_system (Host_System_Fns f) = Some f" | "as_host_system _ = None"

text \<open>The table a resource of each kind has to be registered with.\<close>

fun table_fits :: "sdi_resource_type \<Rightarrow> 'w callbacks \<Rightarrow> bool" where
  "table_fits SDI_RESOURCE_FAN c = (as_fan c \<noteq> None)"
| "table_fits SDI_RESOURCE_TEMPERATURE c = (as_temperature c \<noteq> None)"
| "table_fits SDI_RESOURCE_LED c = (as_led c \<noteq> None)"
| "table_fits SDI_RESOURCE_DIGIT_DISPLAY_LED c = (as_digital_led c \<noteq> None)"
| "table_fits SDI_RESOURCE_ENTITY_INFO c = (as_entity_info c \<noteq> None)"
| "table_fits SDI_RESOURCE_NVRAM c = (as_nvram c \<noteq> None)"
| "table_fits SDI_RESOURCE_POWER_MONITOR c = (as_power_monitor c \<noteq> None)"
| "table_fits SDI_RESOURCE_EXT_CONTROL c = (as_ext_ctrl c \<noteq> None)"
| "table_fits SDI_RESOURCE_COMM_DEV c = (as_comm_dev c \<noteq> None)"
| "table_fits SDI_RESOURCE_HOST_SYSTEM c = (as_host_system c \<noteq> None)"
| "table_fits SDI_RESOURCE_MEDIA c = (as_media c \<noteq> None)"
| "table_fits _ c = True"

section \<open>The state of the system\<close>

datatype res_hdl = Res_Hdl (res_no: nat)
datatype ent_hdl = Ent_Hdl (ent_no: nat)

text \<open>
  \<open>entity_ppid_regexp\<close> is the pattern that was last compiled into the resource, \<open>None\<close> when
  the memory does not hold a compiled expression (never compiled, or the last regcomp failed).
\<close>

record 'w sdi_resource =
  res_name :: string
  res_type :: sdi_resource_type
  callback_fns :: "'w callbacks"
  res_alias :: string
  res_parent :: "ent_hdl option"
  entity_ppid_regexp_valid :: bool
  entity_ppid_regexp :: "string option"

record 'w sdi_entity =
  ent_name :: string
  oper_support_flag :: u32
  ent_type :: sdi_entity_type
  access_type :: sdi_entity_access_type
  ent_instance :: u32
  reset_value :: "sdi_reset_type \<Rightarrow> u32"
  delay :: u32
  power_output_status_attr :: string
  power_output_status_pin_hdl :: "(sdi_pin_bus_level, 'w) pin_bus option"
  pres_attr :: string
  pres_bit :: u32
  pres_pin_hdl :: "(sdi_pin_bus_level, 'w) pin_bus option"
  fault_status_pin_hdl :: "(sdi_pin_bus_level, 'w) pin_bus option"
  power_pin_hdl :: "(sdi_pin_bus_level, 'w) pin_bus option"
  reset_pin_grp_hdl :: "sdi_reset_type \<Rightarrow> (u32, 'w) pin_bus option"
  reset_pin_grp_hdl_l1 :: "(u32, 'w) pin_bus option"
  reset_value_l1 :: u32
  gpr_pin_grp_hdl :: "(u32, 'w) pin_bus option"
  entity_info_hdl :: "res_hdl option"
  entity_info :: sdi_entity_info
  entity_resource_list :: "res_hdl list"
  present :: bool
  entity_info_valid :: bool

record 'w sdi_sys =
  resource_heap :: "res_hdl \<Rightarrow> 'w sdi_resource"
  next_resource :: nat
  resource_list :: "res_hdl list"
  entity_heap :: "ent_hdl \<Rightarrow> 'w sdi_entity"
  next_entity :: nat
  entity_list :: "ent_hdl list"
  sdi_init_status :: bool
  dev :: 'w

text \<open>A call of a device function from the framework: only the device world changes.\<close>

definition act :: "'w action \<Rightarrow> 'w sdi_sys \<Rightarrow> (t_std_error \<times> 'w sdi_sys) option" where
  "act f s = do { (e, w) \<leftarrow> f (dev s); Some (e, s\<lparr>dev := w\<rparr>) }"

definition ask ::
    "('w \<Rightarrow> (t_std_error \<times> 'a \<times> 'w) option) \<Rightarrow> 'w sdi_sys \<Rightarrow> (t_std_error \<times> 'a \<times> 'w sdi_sys) option" where
  "ask f s = do { (e, x, w) \<leftarrow> f (dev s); Some (e, x, s\<lparr>dev := w\<rparr>) }"

lemma act_frame [sdi_frame]: "act f s = Some (e, s') \<Longrightarrow> \<exists>w. s' = s\<lparr>dev := w\<rparr>"
  by (auto simp: act_def bind_SomeD)

lemma ask_frame [sdi_frame]: "ask f s = Some (e, x, s') \<Longrightarrow> \<exists>w. s' = s\<lparr>dev := w\<rparr>"
  by (auto simp: ask_def bind_SomeD)

lemma act_eq_None: "act f s = None \<longleftrightarrow> f (dev s) = None"
  by (cases "f (dev s)") (auto simp: act_def)

lemma ask_eq_None: "ask f s = None \<longleftrightarrow> f (dev s) = None"
  by (cases "f (dev s)") (auto simp: ask_def)

definition upd_entity :: "ent_hdl \<Rightarrow> ('w sdi_entity \<Rightarrow> 'w sdi_entity) \<Rightarrow> 'w sdi_sys \<Rightarrow> 'w sdi_sys" where
  "upd_entity h f s = s\<lparr>entity_heap := (entity_heap s)(h := f (entity_heap s h))\<rparr>"

definition upd_resource ::
    "res_hdl \<Rightarrow> ('w sdi_resource \<Rightarrow> 'w sdi_resource) \<Rightarrow> 'w sdi_sys \<Rightarrow> 'w sdi_sys" where
  "upd_resource h f s = s\<lparr>resource_heap := (resource_heap s)(h := f (resource_heap s h))\<rparr>"

lemma upd_entity_sel [simp, sdi_simps]:
  "entity_heap (upd_entity h f s) = (entity_heap s)(h := f (entity_heap s h))"
  "resource_heap (upd_entity h f s) = resource_heap s"
  "next_resource (upd_entity h f s) = next_resource s"
  "resource_list (upd_entity h f s) = resource_list s"
  "next_entity (upd_entity h f s) = next_entity s"
  "entity_list (upd_entity h f s) = entity_list s"
  "sdi_init_status (upd_entity h f s) = sdi_init_status s"
  "dev (upd_entity h f s) = dev s"
  by (simp_all add: upd_entity_def)

lemma upd_resource_sel [simp, sdi_simps]:
  "resource_heap (upd_resource k g s) = (resource_heap s)(k := g (resource_heap s k))"
  "entity_heap (upd_resource k g s) = entity_heap s"
  "next_resource (upd_resource k g s) = next_resource s"
  "resource_list (upd_resource k g s) = resource_list s"
  "next_entity (upd_resource k g s) = next_entity s"
  "entity_list (upd_resource k g s) = entity_list s"
  "sdi_init_status (upd_resource k g s) = sdi_init_status s"
  "dev (upd_resource k g s) = dev s"
  by (simp_all add: upd_resource_def)

section \<open>The resource framework\<close>

definition sdi_resource_name_get :: "res_hdl \<Rightarrow> 'w sdi_sys \<Rightarrow> string" where
  "sdi_resource_name_get h s = res_name (resource_heap s h)"

definition sdi_internal_resource_type_get :: "res_hdl \<Rightarrow> 'w sdi_sys \<Rightarrow> sdi_resource_type" where
  "sdi_internal_resource_type_get h s = res_type (resource_heap s h)"

definition sdi_resource_mgr_init :: "'w sdi_sys \<Rightarrow> 'w sdi_sys" where
  "sdi_resource_mgr_init s = s\<lparr>resource_list := []\<rparr>"

text \<open>A resource as calloc and sdi\_resource\_add leave it.\<close>

definition sdi_resource_new :: "std_lib \<Rightarrow> sdi_resource_type \<Rightarrow> string \<Rightarrow> 'w callbacks \<Rightarrow> 'w sdi_resource" where
  "sdi_resource_new L t name fns = \<lparr>
     res_name = safestrncpy L SDI_MAX_NAME_LEN name, res_type = t, callback_fns = fns,
     res_alias = [], res_parent = None, entity_ppid_regexp_valid = False,
     entity_ppid_regexp = None\<rparr>"

definition sdi_resource_add ::
    "std_lib \<Rightarrow> sdi_resource_type \<Rightarrow> string \<Rightarrow> 'w callbacks \<Rightarrow> 'w sdi_sys \<Rightarrow> 'w sdi_sys" where
  "sdi_resource_add L t name fns s =
     (let h = Res_Hdl (next_resource s) in
      s\<lparr>resource_heap := (resource_heap s)(h := sdi_resource_new L t name fns),
        next_resource := Suc (next_resource s),
        resource_list := resource_list s @ [h]\<rparr>)"

definition sdi_find_resource_by_name :: "string \<Rightarrow> 'w sdi_sys \<Rightarrow> res_hdl option" where
  "sdi_find_resource_by_name name s =
     List.find (\<lambda>h. strncmp_eq (sdi_resource_name_get h s) name SDI_MAX_NAME_LEN) (resource_list s)"

text \<open>A callback that may be missing.\<close>

definition init_with :: "'w action option \<Rightarrow> 'w sdi_sys \<Rightarrow> (t_std_error \<times> 'w sdi_sys) option" where
  "init_with f s = (case f of None \<Rightarrow> Some (STD_ERR_OK, s) | Some g \<Rightarrow> act g s)"

definition sdi_resource_init ::
    "res_hdl \<Rightarrow> u32 \<Rightarrow> 'w sdi_sys \<Rightarrow> (t_std_error \<times> 'w sdi_sys) option" where
  "sdi_resource_init h data s =
     (let fns = callback_fns (resource_heap s h) in
      case sdi_internal_resource_type_get h s of
        SDI_RESOURCE_FAN \<Rightarrow>
          do { f \<leftarrow> as_fan fns; init_with (map_option (\<lambda>g. g data) (fan_init f)) s }
      | SDI_RESOURCE_ENTITY_INFO \<Rightarrow> do { f \<leftarrow> as_entity_info fns; init_with (ei_init f) s }
      | SDI_RESOURCE_TEMPERATURE \<Rightarrow> do { f \<leftarrow> as_temperature fns; init_with (ts_init f) s }
      | SDI_RESOURCE_NVRAM \<Rightarrow> do { f \<leftarrow> as_nvram fns; init_with (nv_init f) s }
      | SDI_RESOURCE_POWER_MONITOR \<Rightarrow> do { f \<leftarrow> as_power_monitor fns; init_with (pm_init f) s }
      | SDI_RESOURCE_EXT_CONTROL \<Rightarrow> do { f \<leftarrow> as_ext_ctrl fns; init_with (ec_init f) s }
      | _ \<Rightarrow> Some (STD_ERR_OK, s))"

section \<open>Reading the cached entity information\<close>

definition sdi_entity_info_read ::
    "res_hdl \<Rightarrow> sdi_entity_info \<Rightarrow> 'w sdi_sys \<Rightarrow> (t_std_error \<times> sdi_entity_info) option" where
  "sdi_entity_info_read h info s = do {
     p \<leftarrow> res_parent (resource_heap s h);
     if \<not> entity_info_valid (entity_heap s p) then Some (SDI_ERRCODE ENODATA, info)
     else Some (STD_ERR_OK, entity_info (entity_heap s p))
   }"

lemma sdi_resource_init_frame [sdi_frame]:
  "sdi_resource_init h data s = Some (e, s') \<Longrightarrow> \<exists>w. s' = s\<lparr>dev := w\<rparr>"
  by (auto simp: sdi_resource_init_def init_with_def bind_SomeD Let_def
      split: sdi_resource_type.splits option.splits dest: act_frame intro: exI [where x = "dev s"])

section \<open>The resources as a registry\<close>

definition resources_wf :: "'w sdi_sys \<Rightarrow> bool" where
  "resources_wf s \<longleftrightarrow> (\<forall>h \<in> set (resource_list s). res_no h < next_resource s)"

definition resource_entries :: "'w sdi_sys \<Rightarrow> (res_hdl \<times> string) list" where
  "resource_entries s = map (\<lambda>h. (h, sdi_resource_name_get h s)) (resource_list s)"

definition resource_lookup :: "string \<Rightarrow> 'w sdi_sys \<Rightarrow> ((res_hdl \<times> string) option \<times> 'w sdi_sys) option" where
  "resource_lookup k s =
     Some (map_option (\<lambda>h. (h, sdi_resource_name_get h s)) (sdi_find_resource_by_name k s), s)"

lemma sdi_resource_add_wf: "resources_wf s \<Longrightarrow> resources_wf (sdi_resource_add L t name fns s)"
  by (auto simp: resources_wf_def sdi_resource_add_def Let_def)

lemma resource_entries_add:
  assumes "resources_wf s"
  shows "resource_entries (sdi_resource_add L t name fns s) =
    resource_entries s @ [(Res_Hdl (next_resource s), safestrncpy L SDI_MAX_NAME_LEN name)]"
proof -
  have "Res_Hdl (next_resource s) \<notin> set (resource_list s)"
    using assms by (auto simp: resources_wf_def)
  then show ?thesis
    by (auto simp: resource_entries_def sdi_resource_add_def sdi_resource_name_get_def
        sdi_resource_new_def Let_def)
qed

lemma find_map_pair:
  "map_option (\<lambda>h. (h, f h)) (List.find (\<lambda>h. P (f h)) hs) =
     List.find (\<lambda>(h, n). P n) (map (\<lambda>h. (h, f h)) hs)"
  by (induction hs) auto

lemma resource_lookup_find:
  "resource_lookup k s = Some (List.find (\<lambda>(h, n). strncmp_eq n k SDI_MAX_NAME_LEN) (resource_entries s), s)"
  unfolding resource_lookup_def sdi_find_resource_by_name_def resource_entries_def
  by (simp add: find_map_pair [where f = "\<lambda>h. sdi_resource_name_get h s" and
        P = "\<lambda>n. strncmp_eq n k SDI_MAX_NAME_LEN"])

interpretation resource_registry: registry
  resource_entries
  "\<lambda>(h, n) s. resources_wf s \<and> h = Res_Hdl (next_resource s) \<and> n = safestrncpy L SDI_MAX_NAME_LEN name"
  "\<lambda>s k (h, n). strncmp_eq n k SDI_MAX_NAME_LEN"
  "\<lambda>x s. Some (STD_ERR_OK, sdi_resource_add L t name fns s)"
  resource_lookup
  for L :: std_lib and t :: sdi_resource_type and name :: string and fns :: "'w callbacks"
  by unfold_locales (auto simp: resource_entries_add resource_lookup_find split_beta)

lemma sdi_find_resource_by_name_entries:
  "sdi_find_resource_by_name k s =
     map_option fst (List.find (\<lambda>(h, n). strncmp_eq n k SDI_MAX_NAME_LEN) (resource_entries s))"
  using resource_lookup_find [of k s] unfolding resource_lookup_def
  by (cases "sdi_find_resource_by_name k s") (auto dest: sym)

text \<open>
  C19. Resources are found by their name. After sdi\_resource\_add, sdi\_find\_resource\_by\_name
  answers a name with the resource it answered before, if there was one, and otherwise with the
  new resource exactly when the name is the new one (names that fit into their buffer). The new
  resource has the type and the table it was registered with.
\<close>

theorem resource_add_then_find:
  assumes "string_laws L" and "resources_wf s"
    and "length name < SDI_MAX_NAME_LEN" and "length k < SDI_MAX_NAME_LEN"
  shows "sdi_find_resource_by_name k (sdi_resource_add L t name fns s) =
      (case sdi_find_resource_by_name k s of
         Some h \<Rightarrow> Some h
       | None \<Rightarrow> if name = k then Some (Res_Hdl (next_resource s)) else None) \<and>
    sdi_internal_resource_type_get (Res_Hdl (next_resource s)) (sdi_resource_add L t name fns s) = t \<and>
    callback_fns (resource_heap (sdi_resource_add L t name fns s) (Res_Hdl (next_resource s))) = fns"
proof -
  have "safestrncpy L SDI_MAX_NAME_LEN name = name"
    using assms(1,3) by (simp add: string_laws_def)
  then have "sdi_find_resource_by_name k (sdi_resource_add L t name fns s) =
      (case sdi_find_resource_by_name k s of
         Some h \<Rightarrow> Some h
       | None \<Rightarrow> if name = k then Some (Res_Hdl (next_resource s)) else None)"
    using assms(3,4)
    by (auto simp: sdi_find_resource_by_name_entries resource_entries_add [OF assms(2)] find_append
        strncmp_eq_short split: option.splits)
  then show ?thesis
    by (simp add: sdi_resource_add_def sdi_internal_resource_type_get_def sdi_resource_new_def Let_def)
qed

definition sample_sys :: "'w \<Rightarrow> 'w sdi_sys" where
  "sample_sys w = \<lparr>
     resource_heap = (\<lambda>_. sdi_resource_new sample_lib SDI_RESOURCE_MAX [] Other_Fns), next_resource = 0,
     resource_list = [], entity_heap = (\<lambda>_. undefined), next_entity = 0, entity_list = [],
     sdi_init_status = False, dev = w\<rparr>"

lemma sample_sys_wf: "resources_wf (sample_sys w)"
  by (simp add: resources_wf_def sample_sys_def)

theorem resource_add_then_find_witness:
  "sdi_find_resource_by_name ''fan1'' (sdi_resource_add sample_lib SDI_RESOURCE_FAN ''fan1'' Other_Fns
     (sample_sys ())) = Some (Res_Hdl 0)"
  using resource_add_then_find [OF sample_lib_string sample_sys_wf [of "()"], of "''fan1''" "''fan1''"
      SDI_RESOURCE_FAN Other_Fns]
  by (simp add: SDI_MAX_NAME_LEN_def sdi_find_resource_by_name_def sample_sys_def)

end
