(* ===== verification/Entity.thy ===== *)
theory Entity
  imports Resource
begin

text \<open>
  The entity framework (src/hwcore/sdi\_entity\_framework.c, without sdi\_entity\_init): the list of
  entities, the resources of an entity and the visibility of a resource by the PPID of its
  entity, the creation of an entity from its node of the configuration file.

  Parameters (\<open>sdi_env\<close>): the operating system, the base library, regcomp and regexec of the C
  library, dn\_std\_string\_to\_enum, the contents of the pin bus and pin group bus lists once the
  drivers are registered, the BMC database, and \<open>t_or\<close>, the bitwise or of two error codes.
\<close>

section \<open>What the framework runs on\<close>

datatype sdi_sdr_rd_type =
    SDI_SDR_READING_THRESHOLD | SDI_SDR_READING_DISCRETE | SDI_SDR_READING_ENTITY_INFO
  | SDI_SDR_READING_OEM_DISCRETE

record sdi_bmc_sensor =
  reading_type :: sdi_sdr_rd_type
  discrete_state :: u32

record 'w sdi_env =
  env_os :: "'w os"
  env_lib :: std_lib
  regcomp_ok :: "string \<Rightarrow> bool"
  regexec_match :: "string \<Rightarrow> string \<Rightarrow> bool"
  dn_std_string_to_enum :: "string list \<Rightarrow> string \<Rightarrow> nat option"
  pin_buses :: "(sdi_pin_bus_level, 'w) pin_bus list"
  pin_group_buses :: "(u32, 'w) pin_bus list"
  sdi_bmc_db_sensor_get_by_name :: "string \<Rightarrow> 'w \<Rightarrow> sdi_bmc_sensor option"
  t_or :: "t_std_error \<Rightarrow> t_std_error \<Rightarrow> t_std_error"

text \<open>The lookup in the bus lists (\<open>Bus_Framework\<close> shows that it finds the first bus of that name).\<close>

definition sdi_get_pin_bus_handle_by_name ::
    "'w sdi_env \<Rightarrow> string \<Rightarrow> (sdi_pin_bus_level, 'w) pin_bus option" where
  "sdi_get_pin_bus_handle_by_name E n =
     List.find (\<lambda>b. strncmp_eq n (bus_name (pin_base b)) SDI_MAX_NAME_LEN) (pin_buses E)"

definition sdi_get_pin_group_bus_handle_by_name ::
    "'w sdi_env \<Rightarrow> string \<Rightarrow> (u32, 'w) pin_bus option" where
  "sdi_get_pin_group_bus_handle_by_name E n =
     List.find (\<lambda>b. strncmp_eq n (bus_name (pin_base b)) SDI_MAX_NAME_LEN) (pin_group_buses E)"

section \<open>Numbers in configuration attributes\<close>

text \<open>
  strtoul and atoi of the C library with a 64-bit long: leading white space, a sign, a 0x prefix
  in base 16, the longest run of digits; strtoul saturates at ULONG\_MAX. With base 0 the prefix of
  the number tells its base.
\<close>

definition digit_value :: "nat \<Rightarrow> char \<Rightarrow> nat option" where
  "digit_value base c =
     (let n = of_char c :: nat;
          d = (if 48 \<le> n \<and> n \<le> 57 then n - 48
               else if 97 \<le> n \<and> n \<le> 122 then n - 87
               else if 65 \<le> n \<and> n \<le> 90 then n - 55
               else base)
      in if d < base then Some d else None)"

fun digits_value :: "nat \<Rightarrow> nat \<Rightarrow> string \<Rightarrow> nat" where
  "digits_value base acc [] = acc"
| "digits_value base acc (c # cs) =
     (case digit_value base c of None \<Rightarrow> acc | Some d \<Rightarrow> digits_value base (base * acc + d) cs)"

definition skip_space :: "string \<Rightarrow> string" where
  "skip_space s = dropWhile (\<lambda>c. of_char c \<in> {9, 10, 11, 12, 13, 32 :: nat}) s"

fun sign_of :: "string \<Rightarrow> bool \<times> string" where
  "sign_of [] = (False, [])"
| "sign_of (c # cs) =
     (if c = CHR ''-'' then (True, cs) else if c = CHR ''+'' then (False, cs) else (False, c # cs))"

definition skip_0x :: "nat \<Rightarrow> string \<Rightarrow> string" where
  "skip_0x base s =
     (if base = 16 \<and> (take 2 s = ''0x'' \<or> take 2 s = ''0X'') then drop 2 s else s)"

definition number_base :: "nat \<Rightarrow> string \<Rightarrow> nat" where
  "number_base base s =
     (if base \<noteq> 0 then base
      else if take 2 s = ''0x'' \<or> take 2 s = ''0X'' then 16
      else if take 1 s = ''0'' then 8 else 10)"

definition strtoul :: "string \<Rightarrow> nat \<Rightarrow> u64" where
  "strtoul s base =
     (let (neg, t) = sign_of (skip_space s);
          base = number_base base t;
          v = int (digits_value base 0 (skip_0x base t))
      in if 2 ^ 64 \<le> v then - 1 else word_of_int (if neg then - v else v))"

definition atoi :: "string \<Rightarrow> u32" where
  "atoi s =
     (let (neg, t) = sign_of (skip_space s);
          v = int (digits_value 10 0 t);
          l = (if neg then max (- (2 ^ 63)) (- v) else min (2 ^ 63 - 1) v)
      in word_of_int l)"

text \<open>The conversion \<open>%u\<close> of printf.\<close>

fun decimal :: "nat \<Rightarrow> string" where
  "decimal n = (if n < 10 then [char_of (48 + n)] else decimal (n div 10) @ [char_of (48 + n mod 10)])"

declare decimal.simps [simp del]

section \<open>Features of an entity\<close>

datatype sdi_entity_feature =
  SDI_WARM_RESET_TYPE | SDI_COLD_RESET_TYPE | SDI_HOTSWAPPABLE | SDI_PWR_CTRL_SUPPORT

fun feature_bit :: "sdi_entity_feature \<Rightarrow> u32" where
  "feature_bit SDI_WARM_RESET_TYPE = 0"
| "feature_bit SDI_COLD_RESET_TYPE = 1"
| "feature_bit SDI_HOTSWAPPABLE = 2"
| "feature_bit SDI_PWR_CTRL_SUPPORT = 3"

text \<open>A reset type is the number of its feature bit.\<close>

fun reset_feature :: "sdi_reset_type \<Rightarrow> sdi_entity_feature option" where
  "reset_feature WARM_RESET = Some SDI_WARM_RESET_TYPE"
| "reset_feature COLD_RESET = Some SDI_COLD_RESET_TYPE"
| "reset_feature MAX_NUM_RESET = None"

fun reset_bit :: "sdi_reset_type \<Rightarrow> u32" where
  "reset_bit WARM_RESET = 0"
| "reset_bit COLD_RESET = 1"
| "reset_bit MAX_NUM_RESET = 2"

definition entity_has_feature :: "'w sdi_env \<Rightarrow> 'w sdi_entity \<Rightarrow> u32 \<Rightarrow> bool" where
  "entity_has_feature E e b = bit32_test (env_lib E) (oper_support_flag e) b"

definition sdi_is_entity_feature_support ::
    "'w sdi_env \<Rightarrow> ent_hdl \<Rightarrow> u32 \<Rightarrow> 'w sdi_sys \<Rightarrow> bool" where
  "sdi_is_entity_feature_support E h b s = entity_has_feature E (entity_heap s h) b"

section \<open>The list of entities\<close>

definition sdi_entity_name_get :: "ent_hdl \<Rightarrow> 'w sdi_sys \<Rightarrow> string" where
  "sdi_entity_name_get h s = ent_name (entity_heap s h)"

definition sdi_entity_type_get :: "ent_hdl \<Rightarrow> 'w sdi_sys \<Rightarrow> sdi_entity_type" where
  "sdi_entity_type_get h s = ent_type (entity_heap s h)"

definition sdi_resource_type_get :: "res_hdl \<Rightarrow> 'w sdi_sys \<Rightarrow> sdi_resource_type" where
  "sdi_resource_type_get h s = sdi_internal_resource_type_get h s"

definition sdi_entity_count_get :: "sdi_entity_type \<Rightarrow> 'w sdi_sys \<Rightarrow> u32" where
  "sdi_entity_count_get t s =
     fold (\<lambda>h n. if ent_type (entity_heap s h) = t then n + 1 else n) (entity_list s) 0"

text \<open>The callbacks do not add or remove entities, so the list that is walked is the one at the call.\<close>

primrec for_each_entity ::
    "(ent_hdl \<Rightarrow> 'd \<Rightarrow> 'w sdi_sys \<Rightarrow> ('d \<times> 'w sdi_sys) option) \<Rightarrow> ent_hdl list \<Rightarrow> 'd \<Rightarrow> 'w sdi_sys
      \<Rightarrow> ('d \<times> 'w sdi_sys) option" where
  "for_each_entity fn [] d s = Some (d, s)"
| "for_each_entity fn (h # hs) d s = do { (d, s) \<leftarrow> fn h d s; for_each_entity fn hs d s }"

definition sdi_entity_for_each ::
    "(ent_hdl \<Rightarrow> 'd \<Rightarrow> 'w sdi_sys \<Rightarrow> ('d \<times> 'w sdi_sys) option) \<Rightarrow> 'd \<Rightarrow> 'w sdi_sys
      \<Rightarrow> ('d \<times> 'w sdi_sys) option" where
  "sdi_entity_for_each fn user_data s = for_each_entity fn (entity_list s) user_data s"

definition entity_is :: "'w sdi_sys \<Rightarrow> sdi_entity_type \<times> u32 \<Rightarrow> ent_hdl \<Rightarrow> bool" where
  "entity_is s k h \<longleftrightarrow> ent_type (entity_heap s h) = fst k \<and> ent_instance (entity_heap s h) = snd k"

definition sdi_entity_lookup :: "sdi_entity_type \<Rightarrow> u32 \<Rightarrow> 'w sdi_sys \<Rightarrow> ent_hdl option" where
  "sdi_entity_lookup etype instance s = List.find (entity_is s (etype, instance)) (entity_list s)"

section \<open>The resources of an entity\<close>

text \<open>A resource with a PPID pattern belongs to its entity only while the PPID of the entity matches.\<close>

definition resource_entity_ppid_match :: "'w sdi_env \<Rightarrow> res_hdl \<Rightarrow> 'w sdi_sys \<Rightarrow> bool option" where
  "resource_entity_ppid_match E h s =
     (let r = resource_heap s h in
      if \<not> entity_ppid_regexp_valid r then Some True
      else do {
        p \<leftarrow> res_parent r;
        if \<not> entity_info_valid (entity_heap s p) then Some False
        else do {
          re \<leftarrow> entity_ppid_regexp r;
          Some (regexec_match E re (ppid (entity_info (entity_heap s p))))
        }
      })"

primrec count_resources ::
    "'w sdi_env \<Rightarrow> sdi_resource_type \<Rightarrow> 'w sdi_sys \<Rightarrow> res_hdl list \<Rightarrow> u32 \<Rightarrow> u32 option" where
  "count_resources E t s [] n = Some n"
| "count_resources E t s (h # hs) n = do {
     m \<leftarrow> resource_entity_ppid_match E h s;
     count_resources E t s hs (if m \<and> res_type (resource_heap s h) = t then n + 1 else n)
   }"

definition sdi_entity_resource_count_get ::
    "'w sdi_env \<Rightarrow> ent_hdl \<Rightarrow> sdi_resource_type \<Rightarrow> 'w sdi_sys \<Rightarrow> u32 option" where
  "sdi_entity_resource_count_get E h resource_type s =
     count_resources E resource_type s (entity_resource_list (entity_heap s h)) 0"

primrec find_resource ::
    "'w sdi_env \<Rightarrow> string \<Rightarrow> 'w sdi_sys \<Rightarrow> res_hdl list \<Rightarrow> res_hdl option option" where
  "find_resource E alias s [] = Some None"
| "find_resource E alias s (h # hs) = do {
     m \<leftarrow> resource_entity_ppid_match E h s;
     if m \<and> strncmp_eq (res_alias (resource_heap s h)) alias SDI_MAX_NAME_LEN then Some (Some h)
     else find_resource E alias s hs
   }"

definition sdi_entity_resource_lookup ::
    "'w sdi_env \<Rightarrow> ent_hdl \<Rightarrow> sdi_resource_type \<Rightarrow> string \<Rightarrow> 'w sdi_sys \<Rightarrow> res_hdl option option" where
  "sdi_entity_resource_lookup E h resource alias s =
     find_resource E alias s (entity_resource_list (entity_heap s h))"

definition sdi_resource_alias_get :: "res_hdl \<Rightarrow> 'w sdi_sys \<Rightarrow> string" where
  "sdi_resource_alias_get h s = res_alias (resource_heap s h)"

primrec for_each_resource ::
    "'w sdi_env \<Rightarrow> (res_hdl \<Rightarrow> 'd \<Rightarrow> 'w sdi_sys \<Rightarrow> ('d \<times> 'w sdi_sys) option) \<Rightarrow> res_hdl list \<Rightarrow> 'd
      \<Rightarrow> 'w sdi_sys \<Rightarrow> ('d \<times> 'w sdi_sys) option" where
  "for_each_resource E fn [] d s = Some (d, s)"
| "for_each_resource E fn (h # hs) d s = do {
     m \<leftarrow> resource_entity_ppid_match E h s;
     if \<not> m then for_each_resource E fn hs d s
     else do { (d, s) \<leftarrow> fn h d s; for_each_resource E fn hs d s }
   }"

definition sdi_entity_for_each_resource ::
    "'w sdi_env \<Rightarrow> ent_hdl \<Rightarrow> (res_hdl \<Rightarrow> 'd \<Rightarrow> 'w sdi_sys \<Rightarrow> ('d \<times> 'w sdi_sys) option) \<Rightarrow> 'd \<Rightarrow> 'w sdi_sys
      \<Rightarrow> ('d \<times> 'w sdi_sys) option" where
  "sdi_entity_for_each_resource E h fn user_data s =
     for_each_resource E fn (entity_resource_list (entity_heap s h)) user_data s"

definition sdi_entity_get_first_resource :: "ent_hdl \<Rightarrow> sdi_resource_type \<Rightarrow> res_hdl option" where
  "sdi_entity_get_first_resource h resource = None"

definition sdi_entity_get_next_resource :: "res_hdl \<Rightarrow> sdi_resource_type \<Rightarrow> res_hdl option" where
  "sdi_entity_get_next_resource h resource = None"

section \<open>Creating entities\<close>

definition SDI_BMC_INVALID_BIT :: u32 where "SDI_BMC_INVALID_BIT = 0xFF"

definition sdi_entity_new :: "std_lib \<Rightarrow> sdi_entity_type \<Rightarrow> u32 \<Rightarrow> string \<Rightarrow> 'w sdi_entity" where
  "sdi_entity_new L t instance name = \<lparr>
     ent_name = safestrncpy L SDI_MAX_NAME_LEN name, oper_support_flag = 0, ent_type = t,
     access_type = SDI_ENT_ACCESS_DIRECT, ent_instance = instance, reset_value = (\<lambda>_. 0), delay = 0,
     power_output_status_attr = [], power_output_status_pin_hdl = None, pres_attr = [],
     pres_bit = SDI_BMC_INVALID_BIT, pres_pin_hdl = None, fault_status_pin_hdl = None,
     power_pin_hdl = None, reset_pin_grp_hdl = (\<lambda>_. None), reset_pin_grp_hdl_l1 = None,
     reset_value_l1 = 0, gpr_pin_grp_hdl = None, entity_info_hdl = None,
     entity_info = zero_entity_info, entity_resource_list = [], present = False,
     entity_info_valid = False\<rparr>"

definition sdi_entity_create ::
    "std_lib \<Rightarrow> sdi_entity_type \<Rightarrow> u32 \<Rightarrow> string \<Rightarrow> 'w sdi_sys \<Rightarrow> ent_hdl \<times> 'w sdi_sys" where
  "sdi_entity_create L t instance name s =
     (let h = Ent_Hdl (next_entity s) in
      (h, s\<lparr>entity_heap := (entity_heap s)(h := sdi_entity_new L t instance name),
            next_entity := Suc (next_entity s)\<rparr>))"

definition sdi_entity_add :: "ent_hdl \<Rightarrow> 'w sdi_sys \<Rightarrow> 'w sdi_sys" where
  "sdi_entity_add h s = s\<lparr>entity_list := entity_list s @ [h]\<rparr>"

definition sdi_add_entity :: "ent_hdl \<Rightarrow> 'w sdi_sys \<Rightarrow> 'w sdi_sys" where
  "sdi_add_entity h s = s\<lparr>entity_list := h # entity_list s\<rparr>"

definition sdi_entity_add_resource ::
    "std_lib \<Rightarrow> ent_hdl \<Rightarrow> res_hdl \<Rightarrow> string \<Rightarrow> 'w sdi_sys \<Rightarrow> 'w sdi_sys" where
  "sdi_entity_add_resource L eh rh name s =
     upd_resource rh (\<lambda>r. r\<lparr>res_alias := safestrncpy L SDI_MAX_NAME_LEN name, res_parent := Some eh\<rparr>)
       (upd_entity eh (\<lambda>e. e\<lparr>entity_resource_list := entity_resource_list e @ [rh]\<rparr>) s)"

definition sdi_entity_names :: "string list" where
  "sdi_entity_names =
     [''SDI_ENTITY_SYSTEM_BOARD'', ''SDI_ENTITY_FAN_TRAY'', ''SDI_ENTITY_PSU_TRAY'']"

fun entity_type_of_index :: "nat \<Rightarrow> sdi_entity_type option" where
  "entity_type_of_index n =
     (if n = 0 then Some SDI_ENTITY_SYSTEM_BOARD else if n = 1 then Some SDI_ENTITY_FAN_TRAY
      else if n = 2 then Some SDI_ENTITY_PSU_TRAY else None)"

definition sdi_entity_string_to_type :: "'w sdi_env \<Rightarrow> string \<Rightarrow> sdi_entity_type option" where
  "sdi_entity_string_to_type E entity_name = do {
     entity_index \<leftarrow> dn_std_string_to_enum E sdi_entity_names entity_name;
     entity_type_of_index entity_index
   }"

text \<open>
  One child of an entity node: the body of the loop, once the resource is found. A pattern that does not
  compile leaves the resource out.
\<close>

definition link_resource ::
    "'w sdi_env \<Rightarrow> config_node \<Rightarrow> ent_hdl \<Rightarrow> res_hdl \<Rightarrow> string \<Rightarrow> 'w sdi_sys \<Rightarrow> 'w sdi_sys" where
  "link_resource E n eh rh name s0 =
     (let s = (if sdi_resource_type_get rh s0 = SDI_RESOURCE_ENTITY_INFO
               then upd_entity eh (\<lambda>e. e\<lparr>entity_info_hdl := Some rh\<rparr>) s0 else s0) in
      case std_config_attr_get n ''ppid'' of
        None \<Rightarrow> sdi_entity_add_resource (env_lib E) eh rh name s
      | Some p \<Rightarrow>
          if \<not> regcomp_ok E p then upd_resource rh (\<lambda>r. r\<lparr>entity_ppid_regexp := None\<rparr>) s
          else sdi_entity_add_resource (env_lib E) eh rh name
                 (upd_resource rh
                    (\<lambda>r. r\<lparr>entity_ppid_regexp := Some p, entity_ppid_regexp_valid := True\<rparr>) s))"

primrec register_resources ::
    "'w sdi_env \<Rightarrow> config_node list \<Rightarrow> ent_hdl \<Rightarrow> 'w sdi_sys \<Rightarrow> 'w sdi_sys option" where
  "register_resources E [] eh s = Some s"
| "register_resources E (n # ns) eh s = do {
     reference \<leftarrow> std_config_attr_get n ''reference'';
     name \<leftarrow> std_config_attr_get n ''name'';
     rh \<leftarrow> sdi_find_resource_by_name reference s;
     register_resources E ns eh (link_resource E n eh rh name s)
   }"

definition sdi_entity_register_resources ::
    "'w sdi_env \<Rightarrow> config_node \<Rightarrow> ent_hdl \<Rightarrow> 'w sdi_sys \<Rightarrow> 'w sdi_sys option" where
  "sdi_entity_register_resources E node eh s = register_resources E (std_config_children node) eh s"

text \<open>An attribute that is optional: what is done with its value when it is there.\<close>

definition with_attr :: "config_node \<Rightarrow> string \<Rightarrow> (string \<Rightarrow> 'a \<Rightarrow> 'a) \<Rightarrow> 'a \<Rightarrow> 'a" where
  "with_attr node a f x = (case std_config_attr_get node a of None \<Rightarrow> x | Some v \<Rightarrow> f v x)"

definition set_feature :: "'w sdi_env \<Rightarrow> u32 \<Rightarrow> 'w sdi_entity \<Rightarrow> 'w sdi_entity" where
  "set_feature E b e = e\<lparr>oper_support_flag := bit32_set (env_lib E) (oper_support_flag e) b\<rparr>"

definition clear_feature :: "'w sdi_env \<Rightarrow> u32 \<Rightarrow> 'w sdi_entity \<Rightarrow> 'w sdi_entity" where
  "clear_feature E b e = e\<lparr>oper_support_flag := bit32_clear (env_lib E) (oper_support_flag e) b\<rparr>"

definition fill_reset_type ::
    "'w sdi_env \<Rightarrow> config_node \<Rightarrow> string \<Rightarrow> sdi_reset_type \<Rightarrow> 'w sdi_entity \<Rightarrow> 'w sdi_entity" where
  "fill_reset_type E node attr t =
     with_attr node attr
       (\<lambda>v e. (set_feature E (reset_bit t) e)\<lparr>reset_value := (reset_value e)(t := ucast (strtoul v 16))\<rparr>)"

definition sdi_fill_reset_info :: "'w sdi_env \<Rightarrow> config_node \<Rightarrow> 'w sdi_entity \<Rightarrow> 'w sdi_entity" where
  "sdi_fill_reset_info E node e0 = (
     let e = fill_reset_type E node ''warm_reset'' WARM_RESET e0;
         e = fill_reset_type E node ''cold_reset'' COLD_RESET e;
         e = with_attr node ''warm_reset_register'' (\<lambda>v e. e\<lparr>reset_pin_grp_hdl :=
               (reset_pin_grp_hdl e)(WARM_RESET := sdi_get_pin_group_bus_handle_by_name E v)\<rparr>) e;
         e = with_attr node ''cold_reset_register'' (\<lambda>v e. e\<lparr>reset_pin_grp_hdl :=
               (reset_pin_grp_hdl e)(COLD_RESET := sdi_get_pin_group_bus_handle_by_name E v)\<rparr>) e;
         e = with_attr node ''reset_register_l1''
               (\<lambda>v e. e\<lparr>reset_pin_grp_hdl_l1 := sdi_get_pin_group_bus_handle_by_name E v\<rparr>) e;
         e = with_attr node ''reset_value_l1'' (\<lambda>v e. e\<lparr>reset_value_l1 := ucast (strtoul v 16)\<rparr>) e;
         e = with_attr node ''power''
               (\<lambda>v e. (set_feature E (feature_bit SDI_PWR_CTRL_SUPPORT) e)
                  \<lparr>power_pin_hdl := sdi_get_pin_bus_handle_by_name E v\<rparr>) e
     in with_attr node ''delay'' (\<lambda>v e. e\<lparr>delay := ucast (strtoul v 10)\<rparr>) e)"

definition SDI_STR_FIXED_SLOT :: string where "SDI_STR_FIXED_SLOT = ''FIXED_SLOT''"

text \<open>The access type and the presence of an entity; a missing presence pin fails an assertion.\<close>

definition fill_access_type :: "config_node \<Rightarrow> 'w sdi_entity \<Rightarrow> 'w sdi_entity" where
  "fill_access_type node e =
     with_attr node ''access_type''
       (\<lambda>v e. if v = ''BMC'' then e\<lparr>access_type := SDI_ENT_ACCESS_BMC\<rparr> else e)
       (e\<lparr>access_type := SDI_ENT_ACCESS_DIRECT\<rparr>)"

definition fill_presence ::
    "'w sdi_env \<Rightarrow> string \<Rightarrow> 'w sdi_entity \<Rightarrow> 'w sdi_entity option" where
  "fill_presence E presence_name e =
     (if \<not> strncmp_eq presence_name SDI_STR_FIXED_SLOT 10 then
        let e = (set_feature E (feature_bit SDI_HOTSWAPPABLE) e)
                  \<lparr>pres_attr := safestrncpy (env_lib E) SDI_MAX_NAME_LEN presence_name\<rparr> in
        if access_type e \<noteq> SDI_ENT_ACCESS_BMC then do {
          pin \<leftarrow> sdi_get_pin_bus_handle_by_name E presence_name;
          Some (e\<lparr>pres_pin_hdl := Some pin\<rparr>)
        } else Some e
      else Some ((clear_feature E (feature_bit SDI_HOTSWAPPABLE) e)\<lparr>pres_pin_hdl := None\<rparr>))"

definition fill_status_attrs :: "'w sdi_env \<Rightarrow> config_node \<Rightarrow> 'w sdi_entity \<Rightarrow> 'w sdi_entity" where
  "fill_status_attrs E node e0 = (
     let e = with_attr node ''presence_bit'' (\<lambda>v e. e\<lparr>pres_bit := ucast (strtoul v 16)\<rparr>) e0;
         e = with_attr node ''fault''
               (\<lambda>v e. e\<lparr>fault_status_pin_hdl := sdi_get_pin_bus_handle_by_name E v\<rparr>) e;
         e = with_attr node ''power_output_status''
               (\<lambda>v e. let e = e\<lparr>power_output_status_attr := safestrncpy (env_lib E) SDI_MAX_NAME_LEN v\<rparr> in
                  if access_type e \<noteq> SDI_ENT_ACCESS_BMC
                  then e\<lparr>power_output_status_pin_hdl := sdi_get_pin_bus_handle_by_name E v\<rparr> else e) e
     in with_attr node ''gpr_register''
          (\<lambda>v e. e\<lparr>gpr_pin_grp_hdl := sdi_get_pin_group_bus_handle_by_name E v\<rparr>) e)"

definition entity_alias :: "'w sdi_env \<Rightarrow> config_node \<Rightarrow> u32 \<Rightarrow> string" where
  "entity_alias E node instance =
     (case std_config_attr_get node ''alias'' of
        None \<Rightarrow> take (SDI_MAX_NAME_LEN - 1) (std_config_name_get node @ ''-'' @ decimal (unat instance))
      | Some a \<Rightarrow> safestrncpy (env_lib E) SDI_MAX_NAME_LEN a)"

definition sdi_register_entity :: "'w sdi_env \<Rightarrow> config_node \<Rightarrow> 'w sdi_sys \<Rightarrow> 'w sdi_sys option" where
  "sdi_register_entity E node s = do {
     inst \<leftarrow> std_config_attr_get node ''instance'';
     let instance = atoi inst;
     type_attr \<leftarrow> std_config_attr_get node ''type'';
     entity_type \<leftarrow> sdi_entity_string_to_type E type_attr;
     let (h, s) = sdi_entity_create (env_lib E) entity_type instance (entity_alias E node instance) s;
     presence_name \<leftarrow> std_config_attr_get node ''presence'';
     e \<leftarrow> fill_presence E presence_name (fill_access_type node (entity_heap s h));
     let e = sdi_fill_reset_info E node (fill_status_attrs E node e);
     s \<leftarrow> sdi_entity_register_resources E node h (upd_entity h (\<lambda>_. e) s);
     Some (sdi_add_entity h s)
   }"

primrec register_entities :: "'w sdi_env \<Rightarrow> config_node list \<Rightarrow> 'w sdi_sys \<Rightarrow> 'w sdi_sys option" where
  "register_entities E [] s = Some s"
| "register_entities E (n # ns) s = do { s \<leftarrow> sdi_register_entity E n s; register_entities E ns s }"

definition sdi_register_entities ::
    "'w sdi_env \<Rightarrow> (string \<Rightarrow> config_node option) \<Rightarrow> string \<Rightarrow> 'w sdi_sys \<Rightarrow> 'w sdi_sys option" where
  "sdi_register_entities E config_load entity_cfg_file s = do {
     root \<leftarrow> config_load entity_cfg_file;
     register_entities E (std_config_children root) (s\<lparr>entity_list := []\<rparr>)
   }"

section \<open>What registration changes\<close>

lemma sdi_entity_add_resource_sel [simp, sdi_simps]:
  "entity_heap (sdi_entity_add_resource L eh rh name s) =
     (entity_heap s)(eh := (entity_heap s eh)
       \<lparr>entity_resource_list := entity_resource_list (entity_heap s eh) @ [rh]\<rparr>)"
  "resource_heap (sdi_entity_add_resource L eh rh name s) =
     (resource_heap s)(rh := (resource_heap s rh)
       \<lparr>res_alias := safestrncpy L SDI_MAX_NAME_LEN name, res_parent := Some eh\<rparr>)"
  "next_resource (sdi_entity_add_resource L eh rh name s) = next_resource s"
  "resource_list (sdi_entity_add_resource L eh rh name s) = resource_list s"
  "next_entity (sdi_entity_add_resource L eh rh name s) = next_entity s"
  "entity_list (sdi_entity_add_resource L eh rh name s) = entity_list s"
  "sdi_init_status (sdi_entity_add_resource L eh rh name s) = sdi_init_status s"
  "dev (sdi_entity_add_resource L eh rh name s) = dev s"
  by (simp_all add: sdi_entity_add_resource_def)

lemma register_resources_Cons_iff:
  "register_resources E (n # ns) eh s = Some s' \<longleftrightarrow>
     (\<exists>ref name rh. std_config_attr_get n ''reference'' = Some ref \<and>
        std_config_attr_get n ''name'' = Some name \<and> sdi_find_resource_by_name ref s = Some rh \<and>
        register_resources E ns eh (link_resource E n eh rh name s) = Some s')"
  by (auto simp: bind_any_eq_Some)

lemma link_resource_sel [simp]:
  "next_resource (link_resource E n eh rh name s) = next_resource s"
  "resource_list (link_resource E n eh rh name s) = resource_list s"
  "next_entity (link_resource E n eh rh name s) = next_entity s"
  "entity_list (link_resource E n eh rh name s) = entity_list s"
  "sdi_init_status (link_resource E n eh rh name s) = sdi_init_status s"
  "dev (link_resource E n eh rh name s) = dev s"
  by (simp_all add: link_resource_def Let_def split: option.split)

definition linked :: "'w sdi_env \<Rightarrow> config_node \<Rightarrow> bool" where
  "linked E n = (case std_config_attr_get n ''ppid'' of None \<Rightarrow> True | Some p \<Rightarrow> regcomp_ok E p)"

lemma link_resource_entity [simp]:
  "entity_heap (link_resource E n eh rh name s) = (entity_heap s)(eh := (entity_heap s eh)
     \<lparr>entity_info_hdl := (if res_type (resource_heap s rh) = SDI_RESOURCE_ENTITY_INFO then Some rh
                        else entity_info_hdl (entity_heap s eh)),
      entity_resource_list := entity_resource_list (entity_heap s eh) @ (if linked E n then [rh] else [])\<rparr>)"
  by (auto simp: link_resource_def linked_def sdi_resource_type_get_def
      sdi_internal_resource_type_get_def fun_eq_iff Let_def split: option.split)

lemma link_resource_kept [simp]:
  "res_name (resource_heap (link_resource E n eh rh name s) k) = res_name (resource_heap s k)"
  "res_type (resource_heap (link_resource E n eh rh name s) k) = res_type (resource_heap s k)"
  "callback_fns (resource_heap (link_resource E n eh rh name s) k) = callback_fns (resource_heap s k)"
  by (simp_all add: link_resource_def Let_def split: option.split)

lemma sdi_find_resource_by_name_in:
  "sdi_find_resource_by_name k s = Some h \<Longrightarrow> h \<in> set (resource_list s)"
  unfolding sdi_find_resource_by_name_def by (drule find_Some_in_set) simp

lemma entity_links_same:
  "\<exists>i l. (e :: 'w sdi_entity) = e\<lparr>entity_info_hdl := i, entity_resource_list := l\<rparr>"
  by (rule exI [where x = "entity_info_hdl e"], rule exI [where x = "entity_resource_list e"]) simp

lemma register_resources_frame:
  assumes "register_resources E ns eh s = Some s'"
  shows "next_resource s' = next_resource s \<and> resource_list s' = resource_list s \<and>
    next_entity s' = next_entity s \<and> entity_list s' = entity_list s \<and>
    sdi_init_status s' = sdi_init_status s \<and> dev s' = dev s \<and>
    (\<forall>h. h \<noteq> eh \<longrightarrow> entity_heap s' h = entity_heap s h) \<and>
    (\<exists>i l. entity_heap s' eh = (entity_heap s eh)\<lparr>entity_info_hdl := i, entity_resource_list := l\<rparr>) \<and>
    (\<forall>k. res_type (resource_heap s' k) = res_type (resource_heap s k) \<and>
         callback_fns (resource_heap s' k) = callback_fns (resource_heap s k))"
  using assms
proof (induction ns arbitrary: s)
  case Nil
  then show ?case
    using entity_links_same [of "entity_heap s eh"] by auto
next
  case (Cons n ns)
  then obtain name rh where "register_resources E ns eh (link_resource E n eh rh name s) = Some s'"
    by (auto simp: register_resources_Cons_iff simp del: register_resources.simps)
  from Cons.IH [OF this] show ?case by auto
qed

lemma sdi_find_resource_by_name_link [simp]:
  "sdi_find_resource_by_name k (link_resource E n eh rh name s) = sdi_find_resource_by_name k s"
  by (simp add: sdi_find_resource_by_name_def sdi_resource_name_get_def)

text \<open>The resources a list of children stands for.\<close>

definition referenced :: "config_node list \<Rightarrow> 'w sdi_sys \<Rightarrow> res_hdl list" where
  "referenced ns s =
     map (\<lambda>n. the (sdi_find_resource_by_name (the (std_config_attr_get n ''reference'')) s)) ns"

lemma referenced_link [simp]: "referenced ns (link_resource E n eh rh name s) = referenced ns s"
  by (simp add: referenced_def)

lemma register_resources_list:
  "register_resources E ns eh s = Some s' \<Longrightarrow>
     entity_resource_list (entity_heap s' eh) =
       entity_resource_list (entity_heap s eh) @ referenced (filter (linked E) ns) s"
  by (induction ns arbitrary: s)
    (auto simp: register_resources_Cons_iff referenced_def simp del: register_resources.simps(2))

section \<open>Well-formed systems\<close>

text \<open>
  Every handle that is stored points to an object that exists, a resource that belongs to an
  entity has a parent, a valid PPID pattern is a compiled one, and the callback table of a
  resource is the one of its type.
\<close>

definition resource_ok :: "'w sdi_sys \<Rightarrow> res_hdl \<Rightarrow> bool" where
  "resource_ok s rh \<longleftrightarrow>
     (entity_ppid_regexp_valid (resource_heap s rh) \<longrightarrow> entity_ppid_regexp (resource_heap s rh) \<noteq> None) \<and>
     table_fits (res_type (resource_heap s rh)) (callback_fns (resource_heap s rh))"

definition member_ok :: "'w sdi_sys \<Rightarrow> res_hdl \<Rightarrow> bool" where
  "member_ok s rh \<longleftrightarrow> rh \<in> set (resource_list s) \<and> res_parent (resource_heap s rh) \<noteq> None"

definition entity_ok :: "'w sdi_sys \<Rightarrow> ent_hdl \<Rightarrow> bool" where
  "entity_ok s h \<longleftrightarrow>
     (\<forall>rh \<in> set (entity_resource_list (entity_heap s h)). member_ok s rh) \<and>
     (\<forall>rh. entity_info_hdl (entity_heap s h) = Some rh \<longrightarrow>
        member_ok s rh \<and> res_type (resource_heap s rh) = SDI_RESOURCE_ENTITY_INFO)"

definition sys_wf :: "'w sdi_sys \<Rightarrow> bool" where
  "sys_wf s \<longleftrightarrow> resources_wf s \<and> (\<forall>h \<in> set (entity_list s). ent_no h < next_entity s) \<and>
     (\<forall>h. ent_no h < next_entity s \<longrightarrow> entity_ok s h) \<and> (\<forall>rh \<in> set (resource_list s). resource_ok s rh)"

lemma sys_wfD:
  assumes "sys_wf s"
  shows "resources_wf s" and "h \<in> set (entity_list s) \<Longrightarrow> ent_no h < next_entity s"
    and "ent_no h < next_entity s \<Longrightarrow> entity_ok s h"
    and "rh \<in> set (resource_list s) \<Longrightarrow> resource_ok s rh"
  using assms by (auto simp: sys_wf_def)

lemma entity_okD:
  assumes "entity_ok s h"
  shows "rh \<in> set (entity_resource_list (entity_heap s h)) \<Longrightarrow> member_ok s rh"
    and "entity_info_hdl (entity_heap s h) = Some rh \<Longrightarrow>
           member_ok s rh \<and> res_type (resource_heap s rh) = SDI_RESOURCE_ENTITY_INFO"
  using assms by (auto simp: entity_ok_def)

lemma sys_wf_init: "sys_wf (sdi_resource_mgr_init (s\<lparr>entity_list := [], next_entity := 0\<rparr>))"
  by (simp add: sys_wf_def sdi_resource_mgr_init_def resources_wf_def)

lemma sdi_resource_add_sel [simp]:
  "next_entity (sdi_resource_add L t name fns s) = next_entity s"
  "entity_list (sdi_resource_add L t name fns s) = entity_list s"
  "entity_heap (sdi_resource_add L t name fns s) = entity_heap s"
  "dev (sdi_resource_add L t name fns s) = dev s"
  "resource_list (sdi_resource_add L t name fns s) = resource_list s @ [Res_Hdl (next_resource s)]"
  "resource_heap (sdi_resource_add L t name fns s) =
     (resource_heap s)(Res_Hdl (next_resource s) := sdi_resource_new L t name fns)"
  by (simp_all add: sdi_resource_add_def Let_def)

lemma sdi_resource_add_sys_wf:
  assumes "sys_wf s" and "table_fits t fns"
  shows "sys_wf (sdi_resource_add L t name fns s)"
proof -
  let ?s = "sdi_resource_add L t name fns s"
  have old: "rh \<noteq> Res_Hdl (next_resource s)" if "rh \<in> set (resource_list s)" for rh
    using sys_wfD(1) [OF assms(1)] that by (auto simp: resources_wf_def)
  have mem: "member_ok ?s rh" if "member_ok s rh" for rh
    using that old [of rh] by (simp add: member_ok_def)
  have "entity_ok ?s h" if "ent_no h < next_entity s" for h
    using sys_wfD(3) [OF assms(1) that] mem old by (auto simp: entity_ok_def member_ok_def)
  moreover have "resource_ok ?s rh" if "rh \<in> set (resource_list ?s)" for rh
    using that old [of rh] sys_wfD(4) [OF assms(1), of rh] assms(2)
    by (auto simp: resource_ok_def sdi_resource_new_def)
  ultimately show ?thesis
    using sys_wfD(2) [OF assms(1)] sdi_resource_add_wf [OF sys_wfD(1) [OF assms(1)]]
    by (auto simp: sys_wf_def)
qed

text \<open>The configuration file holds no pattern that regcomp rejects.\<close>

definition patterns_ok :: "'w sdi_env \<Rightarrow> config_node \<Rightarrow> bool" where
  "patterns_ok E node \<longleftrightarrow> (\<forall>n \<in> set (std_config_children node). linked E n)"

lemma link_resource_resource:
  assumes "linked E n"
  shows "resource_heap (link_resource E n eh rh name s) k =
    (if k = rh then (resource_heap s rh)
       \<lparr>res_alias := safestrncpy (env_lib E) SDI_MAX_NAME_LEN name, res_parent := Some eh,
        entity_ppid_regexp_valid :=
          (std_config_attr_get n ''ppid'' \<noteq> None \<or> entity_ppid_regexp_valid (resource_heap s rh)),
        entity_ppid_regexp :=
          (case std_config_attr_get n ''ppid'' of None \<Rightarrow> entity_ppid_regexp (resource_heap s rh)
           | Some p \<Rightarrow> Some p)\<rparr>
     else resource_heap s k)"
  using assms by (auto simp: link_resource_def linked_def Let_def split: option.splits)

lemma link_resource_sys_wf:
  assumes "sys_wf s" and "ent_no eh < next_entity s" and "rh \<in> set (resource_list s)" and "linked E n"
  shows "sys_wf (link_resource E n eh rh name s)"
proof -
  let ?s = "link_resource E n eh rh name s"
  have mem: "member_ok ?s k" if "member_ok s k" for k
    using that assms(3) by (auto simp: member_ok_def link_resource_resource [OF assms(4)])
  have new: "member_ok ?s rh"
    using assms(3) by (simp add: member_ok_def link_resource_resource [OF assms(4)])
  have "entity_ok ?s h" if "ent_no h < next_entity s" for h
    using entity_okD [OF sys_wfD(3) [OF assms(1) that]] mem new assms(4)
    by (auto simp: entity_ok_def)
  moreover have "resource_ok ?s k" if "k \<in> set (resource_list s)" for k
    using sys_wfD(4) [OF assms(1) that]
    by (auto simp: resource_ok_def link_resource_resource [OF assms(4)] split: option.split)
  ultimately show ?thesis
    using sys_wfD(1,2) [OF assms(1)] by (auto simp: sys_wf_def resources_wf_def)
qed

lemma register_resources_sys_wf:
  "register_resources E ns eh s = Some s' \<Longrightarrow> sys_wf s \<Longrightarrow> ent_no eh < next_entity s \<Longrightarrow>
     \<forall>n \<in> set ns. linked E n \<Longrightarrow> sys_wf s'"
proof (induction ns arbitrary: s)
  case (Cons n ns)
  then obtain ref name rh where *: "sdi_find_resource_by_name ref s = Some rh"
      "register_resources E ns eh (link_resource E n eh rh name s) = Some s'"
    by (auto simp: register_resources_Cons_iff simp del: register_resources.simps)
  have "sys_wf (link_resource E n eh rh name s)"
    using Cons.prems sdi_find_resource_by_name_in [OF *(1)] by (intro link_resource_sys_wf) auto
  then show ?case
    using Cons.IH [OF *(2)] Cons.prems by simp
qed simp

section \<open>What the configuration of an entity sets\<close>

text \<open>The part of an entity that the attributes of its node leave alone.\<close>

definition entity_core where
  "entity_core e = (ent_name e, ent_type e, ent_instance e, entity_resource_list e, entity_info_hdl e,
     entity_info e, present e, entity_info_valid e)"

lemma with_attr_preserves:
  "(\<And>v e. P (f v e) = P e) \<Longrightarrow> P (with_attr node a f e) = P e"
  by (simp add: with_attr_def split: option.split)

lemma entity_core_update [simp]:
  "entity_core (oper_support_flag_update f1 e) = entity_core e"
  "entity_core (access_type_update f2 e) = entity_core e"
  "entity_core (reset_value_update f3 e) = entity_core e"
  "entity_core (delay_update f4 e) = entity_core e"
  "entity_core (power_output_status_attr_update f5 e) = entity_core e"
  "entity_core (power_output_status_pin_hdl_update f6 e) = entity_core e"
  "entity_core (pres_attr_update f7 e) = entity_core e"
  "entity_core (pres_bit_update f8 e) = entity_core e"
  "entity_core (pres_pin_hdl_update f9 e) = entity_core e"
  "entity_core (fault_status_pin_hdl_update f10 e) = entity_core e"
  "entity_core (power_pin_hdl_update f11 e) = entity_core e"
  "entity_core (reset_pin_grp_hdl_update f12 e) = entity_core e"
  "entity_core (reset_pin_grp_hdl_l1_update f13 e) = entity_core e"
  "entity_core (reset_value_l1_update f14 e) = entity_core e"
  "entity_core (gpr_pin_grp_hdl_update f15 e) = entity_core e"
  by (simp_all add: entity_core_def)

lemma entity_core_new [simp]:
  "entity_core (sdi_entity_new L t i n) =
     (safestrncpy L SDI_MAX_NAME_LEN n, t, i, [], None, zero_entity_info, False, False)"
  by (simp add: entity_core_def sdi_entity_new_def)

lemma set_feature_core [simp]:
  "entity_core (set_feature E b e) = entity_core e" "entity_core (clear_feature E b e) = entity_core e"
  by (simp_all add: set_feature_def clear_feature_def)

lemma fill_core [simp]:
  "entity_core (sdi_fill_reset_info E node e) = entity_core e"
  "entity_core (fill_status_attrs E node e) = entity_core e"
  "entity_core (fill_access_type node e) = entity_core e"
  unfolding sdi_fill_reset_info_def fill_status_attrs_def fill_access_type_def fill_reset_type_def Let_def
  by (simp_all add: with_attr_preserves [where P = entity_core])

lemma fill_presence_core: "fill_presence E n e = Some e' \<Longrightarrow> entity_core e' = entity_core e"
  by (auto simp: fill_presence_def bind_any_eq_Some Let_def split: if_splits)

text \<open>The handle sdi\_register\_entity allocates and the state it registers the resources in.\<close>

lemma sdi_register_entity_cases:
  assumes "sdi_register_entity E node s = Some s'"
  obtains inst t pn e s1 where "std_config_attr_get node ''instance'' = Some inst"
    and "std_config_attr_get node ''type'' \<bind> sdi_entity_string_to_type E = Some t"
    and "std_config_attr_get node ''presence'' = Some pn"
    and "fill_presence E pn (fill_access_type node
           (sdi_entity_new (env_lib E) t (atoi inst) (entity_alias E node (atoi inst)))) = Some e"
    and "register_resources E (std_config_children node) (Ent_Hdl (next_entity s))
           (s\<lparr>next_entity := Suc (next_entity s),
              entity_heap := (entity_heap s)(Ent_Hdl (next_entity s) :=
                sdi_fill_reset_info E node (fill_status_attrs E node e))\<rparr>) = Some s1"
    and "s' = sdi_add_entity (Ent_Hdl (next_entity s)) s1"
  using assms
  by (auto simp: sdi_register_entity_def sdi_entity_create_def sdi_entity_register_resources_def
      bind_any_eq_Some upd_entity_def Let_def)

lemma sys_wf_new_entity:
  assumes "sys_wf s" and "entity_resource_list e = []" and "entity_info_hdl e = None"
  shows "sys_wf (s\<lparr>next_entity := Suc (next_entity s),
                  entity_heap := (entity_heap s)(Ent_Hdl (next_entity s) := e)\<rparr>)" (is "sys_wf ?s")
proof -
  have "entity_ok ?s h" if "ent_no h < Suc (next_entity s)" for h
  proof (cases "h = Ent_Hdl (next_entity s)")
    case True
    then show ?thesis using assms(2,3) by (simp add: entity_ok_def)
  next
    case False
    then have "ent_no h < next_entity s" using that by (cases h) auto
    then show ?thesis
      using sys_wfD(3) [OF assms(1)] False by (simp add: entity_ok_def member_ok_def)
  qed
  then show ?thesis
    using sys_wfD(1,2,4) [OF assms(1)]
    by (auto simp: sys_wf_def resources_wf_def resource_ok_def less_Suc_eq)
qed

lemma sdi_register_entity_sys_wf:
  assumes "sdi_register_entity E node s = Some s'" and "sys_wf s" and "patterns_ok E node"
  shows "sys_wf s'"
proof -
  obtain inst t pn e s1 where
    e: "fill_presence E pn (fill_access_type node
          (sdi_entity_new (env_lib E) t (atoi inst) (entity_alias E node (atoi inst)))) = Some e"
    and s1: "register_resources E (std_config_children node) (Ent_Hdl (next_entity s))
           (s\<lparr>next_entity := Suc (next_entity s),
              entity_heap := (entity_heap s)(Ent_Hdl (next_entity s) :=
                sdi_fill_reset_info E node (fill_status_attrs E node e))\<rparr>) = Some s1"
    and s': "s' = sdi_add_entity (Ent_Hdl (next_entity s)) s1"
    using sdi_register_entity_cases [OF assms(1)] by metis
  let ?e = "sdi_fill_reset_info E node (fill_status_attrs E node e)"
  have "entity_core ?e = (safestrncpy (env_lib E) SDI_MAX_NAME_LEN (entity_alias E node (atoi inst)), t,
      atoi inst, [], None, zero_entity_info, False, False)"
    using fill_presence_core [OF e] by simp
  then have "entity_resource_list ?e = []" "entity_info_hdl ?e = None"
    by (simp_all add: entity_core_def)
  note wf = sys_wf_new_entity [OF assms(2) this]
  have "sys_wf s1"
    using register_resources_sys_wf [OF s1 wf] assms(3) by (simp add: patterns_ok_def)
  moreover have "next_entity s1 = Suc (next_entity s)"
    using register_resources_frame [OF s1] by simp
  ultimately show ?thesis
    by (auto simp: s' sdi_add_entity_def sys_wf_def resources_wf_def entity_ok_def member_ok_def
        resource_ok_def)
qed

lemma sdi_register_entity_keeps:
  assumes "sdi_register_entity E node s = Some s'"
  shows "resource_list s' = resource_list s \<and> next_resource s' = next_resource s \<and>
    next_entity s' = Suc (next_entity s) \<and> dev s' = dev s \<and> sdi_init_status s' = sdi_init_status s \<and>
    res_type (resource_heap s' k) = res_type (resource_heap s k) \<and>
    callback_fns (resource_heap s' k) = callback_fns (resource_heap s k)"
proof -
  obtain e s1 where s1: "register_resources E (std_config_children node) (Ent_Hdl (next_entity s))
         (s\<lparr>next_entity := Suc (next_entity s),
            entity_heap := (entity_heap s)(Ent_Hdl (next_entity s) :=
              sdi_fill_reset_info E node (fill_status_attrs E node e))\<rparr>) = Some s1"
    and s': "s' = sdi_add_entity (Ent_Hdl (next_entity s)) s1"
    using sdi_register_entity_cases [OF assms] by metis
  show ?thesis
    using register_resources_frame [OF s1] by (simp add: s' sdi_add_entity_def)
qed

section \<open>The entities as a registry\<close>

definition entity_registry_lookup ::
    "sdi_entity_type \<times> u32 \<Rightarrow> 'w sdi_sys \<Rightarrow> (ent_hdl option \<times> 'w sdi_sys) option" where
  "entity_registry_lookup k s = Some (sdi_entity_lookup (fst k) (snd k) s, s)"

interpretation entity_registry: registry
  entity_list "\<lambda>h s. True" entity_is "\<lambda>h s. Some (STD_ERR_OK, sdi_entity_add h s)" entity_registry_lookup
  by unfold_locales
    (auto simp: sdi_entity_add_def entity_registry_lookup_def sdi_entity_lookup_def entity_is_def)

section \<open>The resources an entity shows\<close>

definition ppid_visible :: "'w sdi_env \<Rightarrow> 'w sdi_sys \<Rightarrow> res_hdl \<Rightarrow> bool" where
  "ppid_visible E s h \<longleftrightarrow>
     (let r = resource_heap s h; e = entity_heap s (the (res_parent r)) in
      entity_ppid_regexp_valid r \<longrightarrow>
        entity_info_valid e \<and> regexec_match E (the (entity_ppid_regexp r)) (ppid (entity_info e)))"

lemma resource_entity_ppid_match_defined:
  assumes "member_ok s h" and "resource_ok s h"
  shows "resource_entity_ppid_match E h s = Some (ppid_visible E s h)"
  using assms by (auto simp: resource_entity_ppid_match_def ppid_visible_def member_ok_def resource_ok_def Let_def)

lemma entity_resources_defined:
  assumes "sys_wf s" and "ent_no h < next_entity s"
    and "rh \<in> set (entity_resource_list (entity_heap s h))"
  shows "resource_entity_ppid_match E rh s = Some (ppid_visible E s rh)"
proof -
  have "member_ok s rh"
    using entity_okD(1) [OF sys_wfD(3) [OF assms(1,2)] assms(3)] .
  moreover from this have "resource_ok s rh"
    using sys_wfD(4) [OF assms(1)] by (simp add: member_ok_def)
  ultimately show ?thesis by (rule resource_entity_ppid_match_defined)
qed

lemma count_resources_filter:
  "\<forall>h \<in> set hs. resource_entity_ppid_match E h s = Some (ppid_visible E s h) \<Longrightarrow>
     count_resources E t s hs n =
       Some (n + of_nat (length (filter (\<lambda>h. ppid_visible E s h \<and> res_type (resource_heap s h) = t) hs)))"
  by (induction hs arbitrary: n) (simp_all add: algebra_simps)

lemma find_resource_find:
  "\<forall>h \<in> set hs. resource_entity_ppid_match E h s = Some (ppid_visible E s h) \<Longrightarrow>
     find_resource E alias s hs =
       Some (List.find (\<lambda>h. ppid_visible E s h \<and>
                strncmp_eq (res_alias (resource_heap s h)) alias SDI_MAX_NAME_LEN) hs)"
  by (induction hs) simp_all

text \<open>
  C20. Registering an entity. In a well-formed system, when sdi\_register\_entity completes for a
  configuration node, the new entity stands first in the entity list, so sdi\_entity\_lookup finds
  it (and no entity registered before it) under its type and instance, while every other type and
  instance is answered as before. The type and the instance are those of the node's attributes, the entity
  starts absent and without valid information, and its resources are the ones its children
  reference, in order, less those whose PPID pattern regcomp rejects.
\<close>

theorem register_entity_then_lookup:
  assumes "sdi_register_entity E node s = Some s'" and "sys_wf s"
  defines "h \<equiv> Ent_Hdl (next_entity s)"
  shows "entity_list s' = h # entity_list s \<and>
    sdi_entity_lookup t i s' =
      (if t = ent_type (entity_heap s' h) \<and> i = ent_instance (entity_heap s' h) then Some h
       else sdi_entity_lookup t i s) \<and>
    std_config_attr_get node ''type'' \<bind> sdi_entity_string_to_type E = Some (ent_type (entity_heap s' h)) \<and>
    map_option atoi (std_config_attr_get node ''instance'') = Some (ent_instance (entity_heap s' h)) \<and>
    \<not> present (entity_heap s' h) \<and> \<not> entity_info_valid (entity_heap s' h) \<and>
    entity_resource_list (entity_heap s' h) = referenced (filter (linked E) (std_config_children node)) s"
proof -
  obtain inst ty pn e s1 where
    inst: "std_config_attr_get node ''instance'' = Some inst"
    and ty: "std_config_attr_get node ''type'' \<bind> sdi_entity_string_to_type E = Some ty"
    and e: "fill_presence E pn (fill_access_type node
          (sdi_entity_new (env_lib E) ty (atoi inst) (entity_alias E node (atoi inst)))) = Some e"
    and s1: "register_resources E (std_config_children node) h
           (s\<lparr>next_entity := Suc (next_entity s),
              entity_heap := (entity_heap s)(h :=
                sdi_fill_reset_info E node (fill_status_attrs E node e))\<rparr>) = Some s1"
    and s': "s' = sdi_add_entity h s1"
    using sdi_register_entity_cases [OF assms(1)] unfolding h_def by metis
  let ?e = "sdi_fill_reset_info E node (fill_status_attrs E node e)"
  have core: "entity_core ?e = (safestrncpy (env_lib E) SDI_MAX_NAME_LEN (entity_alias E node (atoi inst)),
      ty, atoi inst, [], None, zero_entity_info, False, False)"
    using fill_presence_core [OF e] by simp
  note frame = register_resources_frame [OF s1]
  have new: "ent_type (entity_heap s' h) = ty \<and> ent_instance (entity_heap s' h) = atoi inst \<and> \<not> present (entity_heap s' h) \<and>
      \<not> entity_info_valid (entity_heap s' h)"
    using frame core by (auto simp: s' sdi_add_entity_def entity_core_def)
  have list: "entity_list s' = h # entity_list s"
    using frame by (simp add: s' sdi_add_entity_def)
  have old: "entity_is s' k x = entity_is s k x" if "x \<in> set (entity_list s)" for k x
  proof -
    have "x \<noteq> h" using sys_wfD(2) [OF assms(2) that] by (auto simp: h_def)
    then show ?thesis using frame by (simp add: s' sdi_add_entity_def entity_is_def)
  qed
  have "List.find (entity_is s' (t, i)) (entity_list s) = List.find (entity_is s (t, i)) (entity_list s)"
    by (rule find_cong) (simp_all add: old)
  then have "sdi_entity_lookup t i s' =
      (if t = ent_type (entity_heap s' h) \<and> i = ent_instance (entity_heap s' h) then Some h
       else sdi_entity_lookup t i s)"
    by (auto simp: sdi_entity_lookup_def list entity_is_def)
  moreover have "entity_resource_list (entity_heap s1 h) =
      referenced (filter (linked E) (std_config_children node)) s"
    using register_resources_list [OF s1] core
    by (simp add: entity_core_def referenced_def sdi_find_resource_by_name_def sdi_resource_name_get_def)
  ultimately show ?thesis
    using inst ty new list by (simp add: s' sdi_add_entity_def)
qed

text \<open>
  C21. What an entity shows of its resources. In a well-formed system the queries about an entity
  that exists always return. sdi\_entity\_resource\_count\_get counts the resources of the type that
  are visible under the PPID of the entity; sdi\_entity\_resource\_lookup returns the first visible
  resource with the alias, whatever its type: the resource type the caller asks for plays no part.
\<close>

theorem entity_resource_queries:
  assumes "sys_wf s" and "ent_no h < next_entity s"
  shows "sdi_entity_resource_count_get E h t s =
      Some (of_nat (length (filter (\<lambda>r. ppid_visible E s r \<and> sdi_resource_type_get r s = t)
        (entity_resource_list (entity_heap s h))))) \<and>
    sdi_entity_resource_lookup E h t alias s =
      Some (List.find (\<lambda>r. ppid_visible E s r \<and> strncmp_eq (sdi_resource_alias_get r s) alias SDI_MAX_NAME_LEN)
        (entity_resource_list (entity_heap s h)))"
proof -
  have "\<forall>r \<in> set (entity_resource_list (entity_heap s h)).
      resource_entity_ppid_match E r s = Some (ppid_visible E s r)"
    using entity_resources_defined [OF assms] by blast
  from count_resources_filter [OF this] find_resource_find [OF this] show ?thesis
    by (simp add: sdi_entity_resource_count_get_def sdi_entity_resource_lookup_def
        sdi_resource_type_get_def sdi_internal_resource_type_get_def sdi_resource_alias_get_def)
qed

section \<open>A sample system\<close>

text \<open>
  The world of the samples is the level of one presence pin. The configuration has a fan tray with
  an EEPROM and a fan.
\<close>

definition quiet_os :: "'w os" where
  "quiet_os = \<lparr>std_mutex_lock_init = (\<lambda>m w. w), std_mutex_lock = (\<lambda>m w. Some (STD_ERR_OK, w)),
     std_mutex_unlock = (\<lambda>m w. Some (STD_ERR_OK, w)), std_usleep = (\<lambda>n w. w), os_errno = (\<lambda>w. EIO)\<rparr>"

definition sample_presence_pin :: "(sdi_pin_bus_level, bool) pin_bus" where
  "sample_presence_pin = \<lparr>
     pin_base = \<lparr>bus_type = SDI_PIN_BUS, bus_id = 0, bus_name = ''fan_presence'', sdi_device_list = []\<rparr>,
     pin_lock = Mutex 0,
     pin_ops = \<lparr>
       ops_read_level = (\<lambda>v w. Some (STD_ERR_OK, if w then SDI_PIN_LEVEL_HIGH else SDI_PIN_LEVEL_LOW, w)),
       ops_write_level = (\<lambda>v w. Some (STD_ERR_OK, v = SDI_PIN_LEVEL_HIGH)),
       ops_set_direction = (\<lambda>d w. Some (STD_ERR_OK, w)),
       ops_get_direction = (\<lambda>d w. Some (STD_ERR_OK, d, w)),
       ops_set_polarity = (\<lambda>d w. Some (STD_ERR_OK, w)),
       ops_get_polarity = (\<lambda>d w. Some (STD_ERR_OK, d, w))\<rparr>\<rparr>"

fun index_of :: "'a list \<Rightarrow> 'a \<Rightarrow> nat option" where
  "index_of [] x = None"
| "index_of (y # ys) x = (if x = y then Some 0 else map_option Suc (index_of ys x))"

definition sample_env :: "bool sdi_env" where
  "sample_env = \<lparr>
     env_os = quiet_os, env_lib = sample_lib, regcomp_ok = (\<lambda>_. True), regexec_match = (=),
     dn_std_string_to_enum = index_of, pin_buses = [sample_presence_pin], pin_group_buses = [],
     sdi_bmc_db_sensor_get_by_name = (\<lambda>_ _. None), t_or = (\<lambda>a b. if a = STD_ERR_OK then b else a)\<rparr>"

definition sample_eeprom :: "bool callbacks" where
  "sample_eeprom = Entity_Info_Fns \<lparr>ei_init = None,
     entity_info_data_get = (\<lambda>i w. if w then Some (STD_ERR_OK, i\<lparr>ppid := ''PP1'', max_speed := 10000\<rparr>, w)
                                   else Some (SDI_ERRCODE EIO, i, w))\<rparr>"

definition sample_fan :: "bool callbacks" where
  "sample_fan = Fan_Fns \<lparr>fan_init = None,
     fan_speed_get = (\<lambda>i v w. Some (STD_ERR_OK, 5000, w)), fan_speed_set = None,
     fan_status_get = (\<lambda>v w. Some (STD_ERR_OK, True, w)), fan_rpm_to_pct = None, fan_pct_to_rpm = None\<rparr>"

definition sample_resources :: "bool sdi_sys" where
  "sample_resources =
     sdi_resource_add sample_lib SDI_RESOURCE_FAN ''fan1'' sample_fan
       (sdi_resource_add sample_lib SDI_RESOURCE_ENTITY_INFO ''eeprom1'' sample_eeprom
         (sdi_resource_mgr_init ((sample_sys True)\<lparr>entity_list := [], next_entity := 0\<rparr>)))"

definition sample_node :: config_node where
  "sample_node = Config_Node ''entity''
     [(''instance'', ''2''), (''type'', ''SDI_ENTITY_FAN_TRAY''), (''presence'', ''fan_presence'')]
     [Config_Node ''resource'' [(''reference'', ''eeprom1''), (''name'', ''info'')] [],
      Config_Node ''resource'' [(''reference'', ''fan1''), (''name'', ''fan''), (''ppid'', ''PP1'')] []]"

lemma sample_resources_wf: "sys_wf sample_resources"
  unfolding sample_resources_def
  by (intro sdi_resource_add_sys_wf sys_wf_init) (simp_all add: sample_fan_def sample_eeprom_def)

lemma sample_registered: "sdi_register_entity sample_env sample_node sample_resources \<noteq> None"
  by code_simp

definition sample_entities :: "bool sdi_sys" where
  "sample_entities = the (sdi_register_entity sample_env sample_node sample_resources)"

lemma sample_entities_eq:
  "sdi_register_entity sample_env sample_node sample_resources = Some sample_entities"
  using sample_registered by (auto simp: sample_entities_def)

lemma sample_entities_wf: "sys_wf sample_entities"
  by (rule sdi_register_entity_sys_wf [OF sample_entities_eq sample_resources_wf])
    (simp add: patterns_ok_def linked_def sample_node_def sample_env_def split: option.split)

theorem register_entity_then_lookup_witness:
  "sdi_register_entity sample_env sample_node sample_resources = Some sample_entities \<and>
   sdi_entity_lookup SDI_ENTITY_FAN_TRAY 2 sample_entities = Some (Ent_Hdl 0)"
proof -
  have no: "next_entity sample_resources = 0"
    by (simp add: sample_resources_def sdi_resource_mgr_init_def)
  have "std_config_attr_get sample_node ''type'' \<bind> sdi_entity_string_to_type sample_env = Some SDI_ENTITY_FAN_TRAY"
    and "map_option atoi (std_config_attr_get sample_node ''instance'') = Some 2"
    by code_simp+
  then show ?thesis
    using register_entity_then_lookup [OF sample_entities_eq sample_resources_wf,
        where t = SDI_ENTITY_FAN_TRAY and i = 2]
    by (simp add: sample_entities_eq no)
qed

theorem entity_resource_queries_witness:
  "\<exists>n. sdi_entity_resource_count_get sample_env (Ent_Hdl 0) SDI_RESOURCE_FAN sample_entities = Some n"
proof -
  have "ent_no (Ent_Hdl 0) < next_entity sample_entities" by code_simp
  from entity_resource_queries [OF sample_entities_wf this] show ?thesis by blast
qed

end
