(* ===== verification/Device.thy ===== *)
theory Device
  imports Register_Device Entity "HOL-Library.Signed_Division"
begin

text \<open>
  What the device drivers (src/drivers) share: the device handle, the conversions of the C library
  they use on configuration attributes, and the transfers of one register of a chip.
\<close>

section \<open>Chips\<close>

text \<open>
  A device handle (sdi\_device\_entry\_t of private/sdi\_driver\_internal.h) is its bus, address,
  instance and alias. The private data of a device changes, so it is threaded beside the world: the
  functions of a driver work on pairs of the private data and the world, and the callback table a
  driver registers is a table over such pairs.
\<close>

record 'w chip =
  chip_bus :: "'w sdi_i2c_bus"
  chip_addr :: sdi_i2c_addr
  chip_instance :: u32
  chip_alias :: string

text \<open>The conversion \<open>%d\<close> of printf, and snprintf into a buffer of \<open>n\<close> bytes.\<close>

definition signed_decimal :: "int \<Rightarrow> string" where
  "signed_decimal i = (if i < 0 then ''-'' @ decimal (nat (- i)) else decimal (nat i))"

definition snprintf :: "nat \<Rightarrow> string \<Rightarrow> string" where
  "snprintf n s = take (n - 1) s"

text \<open>strtol of the C library with a 64-bit long; it saturates at both ends.\<close>

definition strtol :: "string \<Rightarrow> nat \<Rightarrow> u64" where
  "strtol s base =
     (let (neg, t) = sign_of (skip_space s);
          base = number_base base t;
          v = int (digits_value base 0 (skip_0x base t))
      in word_of_int (if neg then max (- (2 ^ 63)) (- v) else min (2 ^ 63 - 1) v))"

text \<open>The alias of a device: configured, or a prefix and the number of its instance.\<close>

definition device_alias :: "std_lib \<Rightarrow> string \<Rightarrow> config_node \<Rightarrow> u32 \<Rightarrow> string" where
  "device_alias L prefix node inst =
     (case std_config_attr_get node ''alias'' of
        None \<Rightarrow> snprintf SDI_MAX_NAME_LEN (prefix @ signed_decimal (sint inst))
      | Some a \<Rightarrow> safestrncpy L SDI_MAX_NAME_LEN a)"

text \<open>An int divided by ten, towards zero, and an int times ten, where an overflow is undefined.\<close>

definition int_div_10 :: "u32 \<Rightarrow> u32" where
  "int_div_10 x = word_of_int (sint x sdiv 10)"

definition int_times_10 :: "u32 \<Rightarrow> u32 option" where
  "int_times_10 x = (let i = sint x * 10 in if - (2 ^ 31) \<le> i \<and> i < 2 ^ 31 then Some (word_of_int i) else None)"

text \<open>Arrays of a driver are lists; an access outside of an array is undefined.\<close>

definition at_index :: "'a list \<Rightarrow> u32 \<Rightarrow> 'a option" where
  "at_index xs i = (if unat i < length xs then Some (xs ! unat i) else None)"

lemma at_index_eq_Some [simp]: "at_index xs i = Some x \<longleftrightarrow> unat i < length xs \<and> xs ! unat i = x"
  by (auto simp: at_index_def)

section \<open>Registers of a chip\<close>

definition chip_read :: "'w chip \<Rightarrow> u8 \<Rightarrow> 'w \<Rightarrow> (t_std_error \<times> u8 \<times> 'w) option" where
  "chip_read c reg = sdi_smbus_read_byte (chip_bus c) (chip_addr c) (ucast reg) 0 SDI_I2C_FLAG_NONE"

definition chip_write :: "'w chip \<Rightarrow> u8 \<Rightarrow> u8 \<Rightarrow> 'w \<Rightarrow> (t_std_error \<times> 'w) option" where
  "chip_write c reg v = sdi_smbus_write_byte (chip_bus c) (chip_addr c) (ucast reg) v SDI_I2C_FLAG_NONE"

lemma register_chip_read:
  assumes "register_file (chip_bus c) (chip_addr c) regs"
  shows "\<exists>w'. chip_read c reg w = Some (STD_ERR_OK, regs w reg, w') \<and> regs w' = regs w"
  using register_read_byte [OF assms, of "ucast reg" 0 w] by (simp add: chip_read_def)

lemma register_chip_write:
  assumes "register_file (chip_bus c) (chip_addr c) regs"
  shows "\<exists>w'. chip_write c reg v w = Some (STD_ERR_OK, w') \<and> regs w' = (regs w)(reg := v)"
  using register_write_byte [OF assms, of "ucast reg" v w] by (simp add: chip_write_def)

section \<open>Adding a resource\<close>

lemma dev_sdi_resource_add [simp]: "dev (sdi_resource_add L t n f s) = dev s"
  by (simp add: sdi_resource_add_def Let_def)

text \<open>The resource of a freshly registered sensor.\<close>

lemma sdi_resource_add_new:
  "callback_fns (resource_heap (sdi_resource_add L t n f s) (Res_Hdl (next_resource s))) = f"
  "res_type (resource_heap (sdi_resource_add L t n f s) (Res_Hdl (next_resource s))) = t"
  by (simp_all add: sdi_resource_add_def sdi_resource_new_def Let_def)

section \<open>Samples\<close>

abbreviation sample_bus :: "(u8 \<Rightarrow> u8) sdi_i2c_bus" where
  "sample_bus \<equiv> i2cdev_bus register_i2c_os sample_i2c_bus"

lemma the_SomeI: "map_option fst x = Some e \<Longrightarrow> x = Some (e, snd (the x))"
  by auto

end
