(* ===== verification/Hwcore_Api.thy ===== *)
theory Hwcore_Api
  imports Entity
begin

text \<open>
  The calls an application makes on resources: src/hwcore/sdi\_fan.c, sdi\_thermal.c, sdi\_led.c,
  sdi\_nvram.c, sdi\_power\_monitor.c and sdi\_ext\_ctrl.c. Each checks that the system is initialised
  (LED displays and NVRAM do not), that the resource has the right type, and calls the function of
  the resource's table. \<open>api_call\<close> names the calls, to state what they have in common.
\<close>

definition is_sdi_inited :: "'w sdi_sys \<Rightarrow> bool" where
  "is_sdi_inited s = sdi_init_status s"

text \<open>What a callback can read of the entity through the resource handle.\<close>

definition parent_info :: "'w sdi_sys \<Rightarrow> 'w sdi_resource \<Rightarrow> sdi_entity_info option" where
  "parent_info s r = map_option (\<lambda>p. entity_info (entity_heap s p)) (res_parent r)"

section \<open>Fans\<close>

definition sdi_fan_speed_get ::
    "res_hdl \<Rightarrow> u32 \<Rightarrow> 'w sdi_sys
      \<Rightarrow> (t_std_error \<times> u32 \<times> 'w sdi_sys) option" where
  "sdi_fan_speed_get h speed s = do {
     STD_ASSERT (is_sdi_inited s);
     let r = resource_heap s h;
     if res_type r \<noteq> SDI_RESOURCE_FAN then Some (SDI_ERRCODE EPERM, speed, s)
     else do { f \<leftarrow> as_fan (callback_fns r); ask (fan_speed_get f (parent_info s r) speed) s }
   }"

definition sdi_fan_speed_set ::
    "res_hdl \<Rightarrow> u32 \<Rightarrow> 'w sdi_sys \<Rightarrow> (t_std_error \<times> 'w sdi_sys) option" where
  "sdi_fan_speed_set h speed s = do {
     STD_ASSERT (is_sdi_inited s);
     let r = resource_heap s h;
     if res_type r \<noteq> SDI_RESOURCE_FAN then Some (SDI_ERRCODE EPERM, s)
     else do {
       f \<leftarrow> as_fan (callback_fns r);
       case fan_speed_set f of
         None \<Rightarrow> Some (SDI_ERRCODE EOPNOTSUPP, s)
       | Some g \<Rightarrow> act (g (parent_info s r) speed) s
     }
   }"

definition sdi_fan_status_get ::
    "res_hdl \<Rightarrow> bool \<Rightarrow> 'w sdi_sys
      \<Rightarrow> (t_std_error \<times> bool \<times> 'w sdi_sys) option" where
  "sdi_fan_status_get h status s = do {
     STD_ASSERT (is_sdi_inited s);
     let r = resource_heap s h;
     if res_type r \<noteq> SDI_RESOURCE_FAN then Some (SDI_ERRCODE EPERM, status, s)
     else do { f \<leftarrow> as_fan (callback_fns r); ask (fan_status_get f status) s }
   }"

text \<open>
  Speeds in percent. The type of the resource is not checked. Without a callback the maximum
  speed of the entity is used; \<open>max_speed\<close> is an int that the unsigned operand converts.
\<close>

definition sdi_fan_speed_rpm_to_pct :: "res_hdl \<Rightarrow> u32 \<Rightarrow> 'w sdi_sys \<Rightarrow> u32 option" where
  "sdi_fan_speed_rpm_to_pct h rpm s = do {
     let r = resource_heap s h;
     f \<leftarrow> as_fan (callback_fns r);
     case fan_rpm_to_pct f of
       None \<Rightarrow> do {
         p \<leftarrow> res_parent r;
         let e = entity_heap s p;
         if entity_info_valid e
         then (if max_speed (entity_info e) = 0 then None
               else Some ((100 * rpm) div max_speed (entity_info e)))
         else Some 100
       }
     | Some g \<Rightarrow> g (parent_info s r) rpm (dev s)
   }"

definition sdi_fan_speed_pct_to_rpm :: "res_hdl \<Rightarrow> u32 \<Rightarrow> 'w sdi_sys \<Rightarrow> u32 option" where
  "sdi_fan_speed_pct_to_rpm h pct s = do {
     let r = resource_heap s h;
     f \<leftarrow> as_fan (callback_fns r);
     case fan_pct_to_rpm f of
       None \<Rightarrow> do {
         p \<leftarrow> res_parent r;
         let e = entity_heap s p;
         if entity_info_valid e then Some ((pct * max_speed (entity_info e)) div 100) else Some 0
       }
     | Some g \<Rightarrow> g (parent_info s r) pct (dev s)
   }"

section \<open>Temperature sensors\<close>

definition sdi_temperature_get ::
    "res_hdl \<Rightarrow> u32 \<Rightarrow> 'w sdi_sys
      \<Rightarrow> (t_std_error \<times> u32 \<times> 'w sdi_sys) option" where
  "sdi_temperature_get h temp s = do {
     STD_ASSERT (is_sdi_inited s);
     let r = resource_heap s h;
     if res_type r \<noteq> SDI_RESOURCE_TEMPERATURE then Some (SDI_ERRCODE EPERM, temp, s)
     else do { f \<leftarrow> as_temperature (callback_fns r); ask (ts_temperature_get f temp) s }
   }"

definition sdi_temperature_threshold_get ::
    "res_hdl \<Rightarrow> sdi_threshold \<Rightarrow> u32 \<Rightarrow> 'w sdi_sys
      \<Rightarrow> (t_std_error \<times> u32 \<times> 'w sdi_sys) option" where
  "sdi_temperature_threshold_get h threshold_type val s = do {
     STD_ASSERT (is_sdi_inited s);
     let r = resource_heap s h;
     if res_type r \<noteq> SDI_RESOURCE_TEMPERATURE then Some (SDI_ERRCODE EPERM, val, s)
     else do { f \<leftarrow> as_temperature (callback_fns r); ask (ts_threshold_get f threshold_type val) s }
   }"

definition sdi_temperature_threshold_set ::
    "res_hdl \<Rightarrow> sdi_threshold \<Rightarrow> u32 \<Rightarrow> 'w sdi_sys \<Rightarrow> (t_std_error \<times> 'w sdi_sys) option" where
  "sdi_temperature_threshold_set h threshold_type val s = do {
     STD_ASSERT (is_sdi_inited s);
     let r = resource_heap s h;
     if res_type r \<noteq> SDI_RESOURCE_TEMPERATURE then Some (SDI_ERRCODE EPERM, s)
     else do { f \<leftarrow> as_temperature (callback_fns r); act (ts_threshold_set f threshold_type val) s }
   }"

definition sdi_temperature_status_get ::
    "res_hdl \<Rightarrow> bool \<Rightarrow> 'w sdi_sys
      \<Rightarrow> (t_std_error \<times> bool \<times> 'w sdi_sys) option" where
  "sdi_temperature_status_get h alert_on s = do {
     STD_ASSERT (is_sdi_inited s);
     let r = resource_heap s h;
     if res_type r \<noteq> SDI_RESOURCE_TEMPERATURE then Some (SDI_ERRCODE EPERM, alert_on, s)
     else do { f \<leftarrow> as_temperature (callback_fns r); ask (ts_status_get f alert_on) s }
   }"

section \<open>LEDs\<close>

definition sdi_led_on ::
    "res_hdl \<Rightarrow> 'w sdi_sys \<Rightarrow> (t_std_error \<times> 'w sdi_sys) option" where
  "sdi_led_on h s = do {
     STD_ASSERT (is_sdi_inited s);
     let r = resource_heap s h;
     if res_type r \<noteq> SDI_RESOURCE_LED then Some (SDI_ERRCODE EPERM, s)
     else do { f \<leftarrow> as_led (callback_fns r); act (led_on f) s }
   }"

definition sdi_led_off ::
    "res_hdl \<Rightarrow> 'w sdi_sys \<Rightarrow> (t_std_error \<times> 'w sdi_sys) option" where
  "sdi_led_off h s = do {
     STD_ASSERT (is_sdi_inited s);
     let r = resource_heap s h;
     if res_type r \<noteq> SDI_RESOURCE_LED then Some (SDI_ERRCODE EPERM, s)
     else do { f \<leftarrow> as_led (callback_fns r); act (led_off f) s }
   }"

definition sdi_digital_display_led_on ::
    "res_hdl \<Rightarrow> 'w sdi_sys \<Rightarrow> (t_std_error \<times> 'w sdi_sys) option" where
  "sdi_digital_display_led_on h s = do {
     let r = resource_heap s h;
     if res_type r \<noteq> SDI_RESOURCE_DIGIT_DISPLAY_LED then Some (SDI_ERRCODE EPERM, s)
     else do { f \<leftarrow> as_digital_led (callback_fns r); act (digital_on f) s }
   }"

definition sdi_digital_display_led_off ::
    "res_hdl \<Rightarrow> 'w sdi_sys \<Rightarrow> (t_std_error \<times> 'w sdi_sys) option" where
  "sdi_digital_display_led_off h s = do {
     let r = resource_heap s h;
     if res_type r \<noteq> SDI_RESOURCE_DIGIT_DISPLAY_LED then Some (SDI_ERRCODE EPERM, s)
     else do { f \<leftarrow> as_digital_led (callback_fns r); act (digital_off f) s }
   }"

definition sdi_digital_display_led_get_state ::
    "res_hdl \<Rightarrow> bool \<Rightarrow> 'w sdi_sys
      \<Rightarrow> (t_std_error \<times> bool \<times> 'w sdi_sys) option" where
  "sdi_digital_display_led_get_state h state s = do {
     let r = resource_heap s h;
     if res_type r \<noteq> SDI_RESOURCE_DIGIT_DISPLAY_LED then Some (SDI_ERRCODE EPERM, state, s)
     else do { f \<leftarrow> as_digital_led (callback_fns r); ask (digital_get_state f state) s }
   }"

definition sdi_digital_display_led_get ::
    "res_hdl \<Rightarrow> string \<Rightarrow> nat \<Rightarrow> 'w sdi_sys
      \<Rightarrow> (t_std_error \<times> string \<times> 'w sdi_sys) option" where
  "sdi_digital_display_led_get h display_string buf_size s = do {
     let r = resource_heap s h;
     if res_type r \<noteq> SDI_RESOURCE_DIGIT_DISPLAY_LED then Some (SDI_ERRCODE EPERM, display_string, s)
     else do { f \<leftarrow> as_digital_led (callback_fns r); ask (digital_get f buf_size display_string) s }
   }"

definition sdi_digital_display_led_set ::
    "res_hdl \<Rightarrow> string \<Rightarrow> 'w sdi_sys \<Rightarrow> (t_std_error \<times> 'w sdi_sys) option" where
  "sdi_digital_display_led_set h display_string s = do {
     let r = resource_heap s h;
     if res_type r \<noteq> SDI_RESOURCE_DIGIT_DISPLAY_LED then Some (SDI_ERRCODE EPERM, s)
     else do { f \<leftarrow> as_digital_led (callback_fns r); act (digital_set f display_string) s }
   }"

section \<open>Non-volatile memory\<close>

definition sdi_nvram_size ::
    "res_hdl \<Rightarrow> u32 \<Rightarrow> 'w sdi_sys
      \<Rightarrow> (t_std_error \<times> u32 \<times> 'w sdi_sys) option" where
  "sdi_nvram_size h size_out s = do {
     let r = resource_heap s h;
     if res_type r \<noteq> SDI_RESOURCE_NVRAM then Some (SDI_ERRCODE EPERM, size_out, s)
     else do { f \<leftarrow> as_nvram (callback_fns r); ask (nv_size f size_out) s }
   }"

definition sdi_nvram_read ::
    "res_hdl \<Rightarrow> u8 list \<Rightarrow> u32 \<Rightarrow> u32 \<Rightarrow> 'w sdi_sys
      \<Rightarrow> (t_std_error \<times> u8 list \<times> 'w sdi_sys) option" where
  "sdi_nvram_read h buf ofs len s = do {
     let r = resource_heap s h;
     if res_type r \<noteq> SDI_RESOURCE_NVRAM then Some (SDI_ERRCODE EPERM, buf, s)
     else do { f \<leftarrow> as_nvram (callback_fns r); ask (nv_read f ofs len buf) s }
   }"

definition sdi_nvram_write ::
    "res_hdl \<Rightarrow> u8 list \<Rightarrow> u32 \<Rightarrow> u32 \<Rightarrow> 'w sdi_sys \<Rightarrow> (t_std_error \<times> 'w sdi_sys) option" where
  "sdi_nvram_write h buf ofs len s = do {
     let r = resource_heap s h;
     if res_type r \<noteq> SDI_RESOURCE_NVRAM then Some (SDI_ERRCODE EPERM, s)
     else do { f \<leftarrow> as_nvram (callback_fns r); act (nv_write f buf ofs len) s }
   }"

section \<open>Power monitors\<close>

definition sdi_power_monitor_current_amp_get ::
    "res_hdl \<Rightarrow> c_float \<Rightarrow> 'w sdi_sys
      \<Rightarrow> (t_std_error \<times> c_float \<times> 'w sdi_sys) option" where
  "sdi_power_monitor_current_amp_get h current_amp s = do {
     STD_ASSERT (is_sdi_inited s);
     let r = resource_heap s h;
     if res_type r \<noteq> SDI_RESOURCE_POWER_MONITOR then Some (SDI_ERRCODE EPERM, current_amp, s)
     else do { f \<leftarrow> as_power_monitor (callback_fns r); ask (pm_current_amp_get f current_amp) s }
   }"

definition sdi_power_monitor_voltage_volt_get ::
    "res_hdl \<Rightarrow> c_float \<Rightarrow> 'w sdi_sys
      \<Rightarrow> (t_std_error \<times> c_float \<times> 'w sdi_sys) option" where
  "sdi_power_monitor_voltage_volt_get h voltage_volt s = do {
     STD_ASSERT (is_sdi_inited s);
     let r = resource_heap s h;
     if res_type r \<noteq> SDI_RESOURCE_POWER_MONITOR then Some (SDI_ERRCODE EPERM, voltage_volt, s)
     else do { f \<leftarrow> as_power_monitor (callback_fns r); ask (pm_voltage_volt_get f voltage_volt) s }
   }"

definition sdi_power_monitor_power_watt_get ::
    "res_hdl \<Rightarrow> c_float \<Rightarrow> 'w sdi_sys
      \<Rightarrow> (t_std_error \<times> c_float \<times> 'w sdi_sys) option" where
  "sdi_power_monitor_power_watt_get h power_watt s = do {
     STD_ASSERT (is_sdi_inited s);
     let r = resource_heap s h;
     if res_type r \<noteq> SDI_RESOURCE_POWER_MONITOR then Some (SDI_ERRCODE EPERM, power_watt, s)
     else do { f \<leftarrow> as_power_monitor (callback_fns r); ask (pm_power_watt_get f power_watt) s }
   }"

section \<open>External control\<close>

definition sdi_ext_ctrl_get ::
    "res_hdl \<Rightarrow> u32 list \<Rightarrow> u32 \<Rightarrow> 'w sdi_sys
      \<Rightarrow> (t_std_error \<times> (u32 list \<times> u32) \<times> 'w sdi_sys) option" where
  "sdi_ext_ctrl_get h ext_ctrl size_out s = do {
     STD_ASSERT (is_sdi_inited s);
     let r = resource_heap s h;
     if res_type r \<noteq> SDI_RESOURCE_EXT_CONTROL then Some (SDI_ERRCODE EPERM, (ext_ctrl, size_out), s)
     else do { f \<leftarrow> as_ext_ctrl (callback_fns r); ask (ec_get f (ext_ctrl, size_out)) s }
   }"

definition sdi_ext_ctrl_set ::
    "res_hdl \<Rightarrow> u32 list \<Rightarrow> u32 \<Rightarrow> 'w sdi_sys \<Rightarrow> (t_std_error \<times> 'w sdi_sys) option" where
  "sdi_ext_ctrl_set h ext_ctrl size_in s = do {
     STD_ASSERT (is_sdi_inited s);
     let r = resource_heap s h;
     if res_type r \<noteq> SDI_RESOURCE_EXT_CONTROL then Some (SDI_ERRCODE EPERM, s)
     else do { f \<leftarrow> as_ext_ctrl (callback_fns r); act (ec_set f ext_ctrl size_in) s }
   }"

section \<open>What the calls have in common\<close>

datatype api_call =
    Fan_Speed_Get u32
  | Fan_Speed_Set u32
  | Fan_Status_Get bool
  | Temperature_Get u32
  | Threshold_Get sdi_threshold u32
  | Threshold_Set sdi_threshold u32
  | Temperature_Status_Get bool
  | Led_On
  | Led_Off
  | Digital_Led_On
  | Digital_Led_Off
  | Digital_Led_Get_State bool
  | Digital_Led_Get string nat
  | Digital_Led_Set string
  | Nvram_Size u32
  | Nvram_Read "u8 list" u32 u32
  | Nvram_Write "u8 list" u32 u32
  | Current_Get c_float
  | Voltage_Get c_float
  | Power_Get c_float
  | Ext_Ctrl_Get "u32 list" u32
  | Ext_Ctrl_Set "u32 list" u32

fun api_type :: "api_call \<Rightarrow> sdi_resource_type" where
  "api_type (Fan_Speed_Get _) = SDI_RESOURCE_FAN"
| "api_type (Fan_Speed_Set _) = SDI_RESOURCE_FAN"
| "api_type (Fan_Status_Get _) = SDI_RESOURCE_FAN"
| "api_type (Temperature_Get _) = SDI_RESOURCE_TEMPERATURE"
| "api_type (Threshold_Get _ _) = SDI_RESOURCE_TEMPERATURE"
| "api_type (Threshold_Set _ _) = SDI_RESOURCE_TEMPERATURE"
| "api_type (Temperature_Status_Get _) = SDI_RESOURCE_TEMPERATURE"
| "api_type Led_On = SDI_RESOURCE_LED"
| "api_type Led_Off = SDI_RESOURCE_LED"
| "api_type Digital_Led_On = SDI_RESOURCE_DIGIT_DISPLAY_LED"
| "api_type Digital_Led_Off = SDI_RESOURCE_DIGIT_DISPLAY_LED"
| "api_type (Digital_Led_Get_State _) = SDI_RESOURCE_DIGIT_DISPLAY_LED"
| "api_type (Digital_Led_Get _ _) = SDI_RESOURCE_DIGIT_DISPLAY_LED"
| "api_type (Digital_Led_Set _) = SDI_RESOURCE_DIGIT_DISPLAY_LED"
| "api_type (Nvram_Size _) = SDI_RESOURCE_NVRAM"
| "api_type (Nvram_Read _ _ _) = SDI_RESOURCE_NVRAM"
| "api_type (Nvram_Write _ _ _) = SDI_RESOURCE_NVRAM"
| "api_type (Current_Get _) = SDI_RESOURCE_POWER_MONITOR"
| "api_type (Voltage_Get _) = SDI_RESOURCE_POWER_MONITOR"
| "api_type (Power_Get _) = SDI_RESOURCE_POWER_MONITOR"
| "api_type (Ext_Ctrl_Get _ _) = SDI_RESOURCE_EXT_CONTROL"
| "api_type (Ext_Ctrl_Set _ _) = SDI_RESOURCE_EXT_CONTROL"

fun needs_init :: "api_call \<Rightarrow> bool" where
  "needs_init (Fan_Speed_Get _) = True"
| "needs_init (Fan_Speed_Set _) = True"
| "needs_init (Fan_Status_Get _) = True"
| "needs_init (Temperature_Get _) = True"
| "needs_init (Threshold_Get _ _) = True"
| "needs_init (Threshold_Set _ _) = True"
| "needs_init (Temperature_Status_Get _) = True"
| "needs_init Led_On = True"
| "needs_init Led_Off = True"
| "needs_init Digital_Led_On = False"
| "needs_init Digital_Led_Off = False"
| "needs_init (Digital_Led_Get_State _) = False"
| "needs_init (Digital_Led_Get _ _) = False"
| "needs_init (Digital_Led_Set _) = False"
| "needs_init (Nvram_Size _) = False"
| "needs_init (Nvram_Read _ _ _) = False"
| "needs_init (Nvram_Write _ _ _) = False"
| "needs_init (Current_Get _) = True"
| "needs_init (Voltage_Get _) = True"
| "needs_init (Power_Get _) = True"
| "needs_init (Ext_Ctrl_Get _ _) = True"
| "needs_init (Ext_Ctrl_Set _ _) = True"

fun run_api :: "api_call \<Rightarrow> res_hdl \<Rightarrow> 'w sdi_sys \<Rightarrow> (t_std_error \<times> 'w sdi_sys) option" where
  "run_api (Fan_Speed_Get n) h s = drop_out (sdi_fan_speed_get h n s)"
| "run_api (Fan_Speed_Set n) h s = sdi_fan_speed_set h n s"
| "run_api (Fan_Status_Get b) h s = drop_out (sdi_fan_status_get h b s)"
| "run_api (Temperature_Get n) h s = drop_out (sdi_temperature_get h n s)"
| "run_api (Threshold_Get t n) h s = drop_out (sdi_temperature_threshold_get h t n s)"
| "run_api (Threshold_Set t n) h s = sdi_temperature_threshold_set h t n s"
| "run_api (Temperature_Status_Get b) h s = drop_out (sdi_temperature_status_get h b s)"
| "run_api Led_On h s = sdi_led_on h s"
| "run_api Led_Off h s = sdi_led_off h s"
| "run_api Digital_Led_On h s = sdi_digital_display_led_on h s"
| "run_api Digital_Led_Off h s = sdi_digital_display_led_off h s"
| "run_api (Digital_Led_Get_State b) h s = drop_out (sdi_digital_display_led_get_state h b s)"
| "run_api (Digital_Led_Get t n) h s = drop_out (sdi_digital_display_led_get h t n s)"
| "run_api (Digital_Led_Set t) h s = sdi_digital_display_led_set h t s"
| "run_api (Nvram_Size n) h s = drop_out (sdi_nvram_size h n s)"
| "run_api (Nvram_Read bs a n) h s = drop_out (sdi_nvram_read h bs a n s)"
| "run_api (Nvram_Write bs a n) h s = sdi_nvram_write h bs a n s"
| "run_api (Current_Get n) h s = drop_out (sdi_power_monitor_current_amp_get h n s)"
| "run_api (Voltage_Get n) h s = drop_out (sdi_power_monitor_voltage_volt_get h n s)"
| "run_api (Power_Get n) h s = drop_out (sdi_power_monitor_power_watt_get h n s)"
| "run_api (Ext_Ctrl_Get bs n) h s = drop_out (sdi_ext_ctrl_get h bs n s)"
| "run_api (Ext_Ctrl_Set bs n) h s = sdi_ext_ctrl_set h bs n s"

lemmas api_defs =
  sdi_fan_speed_get_def sdi_fan_speed_set_def sdi_fan_status_get_def sdi_temperature_get_def
  sdi_temperature_threshold_get_def sdi_temperature_threshold_set_def
  sdi_temperature_status_get_def sdi_led_on_def sdi_led_off_def sdi_digital_display_led_on_def
  sdi_digital_display_led_off_def sdi_digital_display_led_get_state_def
  sdi_digital_display_led_get_def sdi_digital_display_led_set_def sdi_nvram_size_def
  sdi_nvram_read_def sdi_nvram_write_def sdi_power_monitor_current_amp_get_def
  sdi_power_monitor_voltage_volt_get_def sdi_power_monitor_power_watt_get_def sdi_ext_ctrl_get_def
  sdi_ext_ctrl_set_def

text \<open>A table whose functions return for all arguments and worlds.\<close>

definition act_returns :: "'w action \<Rightarrow> bool" where
  "act_returns f \<longleftrightarrow> (\<forall>w. f w \<noteq> None)"

definition query_returns :: "('a, 'w) query \<Rightarrow> bool" where
  "query_returns f \<longleftrightarrow> (\<forall>x w. f x w \<noteq> None)"

fun table_returns :: "'w callbacks \<Rightarrow> bool" where
  "table_returns (Fan_Fns f) \<longleftrightarrow>
     pred_option (\<lambda>g. \<forall>n. act_returns (g n)) (fan_init f) \<and> (\<forall>i. query_returns (fan_speed_get f i)) \<and>
     pred_option (\<lambda>g. \<forall>i n. act_returns (g i n)) (fan_speed_set f) \<and> query_returns (fan_status_get f)"
| "table_returns (Temperature_Fns f) \<longleftrightarrow>
     pred_option act_returns (ts_init f) \<and> query_returns (ts_temperature_get f) \<and>
     (\<forall>t. query_returns (ts_threshold_get f t)) \<and> (\<forall>t n. act_returns (ts_threshold_set f t n)) \<and>
     query_returns (ts_status_get f)"
| "table_returns (Led_Fns f) \<longleftrightarrow> act_returns (led_on f) \<and> act_returns (led_off f)"
| "table_returns (Digital_Led_Fns f) \<longleftrightarrow>
     act_returns (digital_on f) \<and> act_returns (digital_off f) \<and> query_returns (digital_get_state f) \<and>
     (\<forall>n. query_returns (digital_get f n)) \<and> (\<forall>t. act_returns (digital_set f t))"
| "table_returns (Entity_Info_Fns f) \<longleftrightarrow>
     pred_option act_returns (ei_init f) \<and> query_returns (entity_info_data_get f)"
| "table_returns (Nvram_Fns f) \<longleftrightarrow>
     pred_option act_returns (nv_init f) \<and> query_returns (nv_size f) \<and>
     (\<forall>a n. query_returns (nv_read f a n)) \<and> (\<forall>b a n. act_returns (nv_write f b a n))"
| "table_returns (Power_Monitor_Fns f) \<longleftrightarrow>
     pred_option act_returns (pm_init f) \<and> query_returns (pm_current_amp_get f) \<and>
     query_returns (pm_voltage_volt_get f) \<and> query_returns (pm_power_watt_get f)"
| "table_returns (Ext_Ctrl_Fns f) \<longleftrightarrow>
     pred_option act_returns (ec_init f) \<and> query_returns (ec_get f) \<and> (\<forall>b n. act_returns (ec_set f b n))"
| "table_returns _ \<longleftrightarrow> True"

lemma act_returns_act: "act_returns f \<Longrightarrow> \<exists>e s'. act f s = Some (e, s')"
  unfolding act_returns_def act_def by (erule allE [where x = "dev s"]) auto

lemma query_returns_ask: "query_returns f \<Longrightarrow> \<exists>e y s'. ask (f x) s = Some (e, y, s')"
  unfolding query_returns_def ask_def
  by (erule allE [where x = x], erule allE [where x = "dev s"]) auto

lemma query_returns_ask_pair: "query_returns f \<Longrightarrow> \<exists>e y z s'. ask (f x) s = Some (e, (y, z), s')"
  using query_returns_ask [of f x s] by auto

lemma drop_out_eq_None [simp]: "drop_out r = None \<longleftrightarrow> r = None"
  by (cases r) (auto simp: drop_out_def)

lemma as_table_Some [simp]:
  "as_fan c = Some f \<longleftrightarrow> c = Fan_Fns f"
  "as_temperature c = Some g \<longleftrightarrow> c = Temperature_Fns g"
  "as_led c = Some l \<longleftrightarrow> c = Led_Fns l"
  "as_digital_led c = Some d \<longleftrightarrow> c = Digital_Led_Fns d"
  "as_entity_info c = Some i \<longleftrightarrow> c = Entity_Info_Fns i"
  "as_nvram c = Some n \<longleftrightarrow> c = Nvram_Fns n"
  "as_power_monitor c = Some p \<longleftrightarrow> c = Power_Monitor_Fns p"
  "as_ext_ctrl c = Some e \<longleftrightarrow> c = Ext_Ctrl_Fns e"
  by (cases c; auto)+

text \<open>A call touches nothing but the device.\<close>

lemma run_api_frame [sdi_frame]:
  "run_api c h s = Some (e, s') \<Longrightarrow> \<exists>w. s' = s\<lparr>dev := w\<rparr>"
  by (cases c)
    (auto simp: api_defs drop_out_def bind_any_eq_Some Let_def split: if_splits option.splits
      dest: act_frame ask_frame intro: exI [where x = "dev s"])

lemma run_api_wrong_type:
  "(needs_init c \<longrightarrow> is_sdi_inited s) \<Longrightarrow> res_type (resource_heap s h) \<noteq> api_type c \<Longrightarrow>
     run_api c h s = Some (SDI_ERRCODE EPERM, s)"
  by (cases c) (simp_all add: api_defs drop_out_def Let_def)

lemma run_api_right_type:
  "(needs_init c \<longrightarrow> is_sdi_inited s) \<Longrightarrow> res_type (resource_heap s h) = api_type c \<Longrightarrow>
     table_fits (api_type c) (callback_fns (resource_heap s h)) \<Longrightarrow>
     table_returns (callback_fns (resource_heap s h)) \<Longrightarrow> run_api c h s \<noteq> None"
  by (cases c)
    (auto simp: api_defs Let_def act_returns_act query_returns_ask query_returns_ask_pair
      split: option.split)

text \<open>
  C22. Resource calls are safe. Take any of the fan, thermal, LED, display, NVRAM, power monitor
  and external control calls, made on a resource of a well-formed system that is initialised. On a
  resource of another type it returns EPERM and changes nothing, not even the device. On a
  resource of its type it never reads the callback table as the table of another kind: it returns
  whenever the functions of the table return, and it changes at most the device.
\<close>

theorem resource_calls_safe:
  assumes "sys_wf s" and "h \<in> set (resource_list s)" and "is_sdi_inited s"
    and "table_returns (callback_fns (resource_heap s h))"
  shows "(sdi_resource_type_get h s \<noteq> api_type c \<longrightarrow> run_api c h s = Some (SDI_ERRCODE EPERM, s)) \<and>
    (\<exists>e w. run_api c h s = Some (e, s\<lparr>dev := w\<rparr>))"
proof (cases "sdi_resource_type_get h s = api_type c")
  case True
  then have ty: "res_type (resource_heap s h) = api_type c"
    by (simp add: sdi_resource_type_get_def sdi_internal_resource_type_get_def)
  then have "run_api c h s \<noteq> None"
    using run_api_right_type [OF _ ty] sys_wfD(4) [OF assms(1,2)] assms(3,4)
    by (simp add: resource_ok_def)
  then obtain e s' where r: "run_api c h s = Some (e, s')" by auto
  from run_api_frame [OF r] r True show ?thesis by auto
next
  case False
  then have "run_api c h s = Some (SDI_ERRCODE EPERM, s)"
    using run_api_wrong_type [of c s h] assms(3)
    by (simp add: sdi_resource_type_get_def sdi_internal_resource_type_get_def)
  then show ?thesis by (auto intro: exI [where x = "dev s"])
qed

definition sample_running :: "bool sdi_sys" where
  "sample_running = sample_entities\<lparr>sdi_init_status := True\<rparr>"

lemma sample_running_wf: "sys_wf sample_running"
  using sample_entities_wf
  by (simp add: sample_running_def sys_wf_def resources_wf_def entity_ok_def member_ok_def resource_ok_def)

lemma sample_running_fan:
  "callback_fns (resource_heap sample_running (Res_Hdl 1)) = sample_fan"
  "res_type (resource_heap sample_running (Res_Hdl 1)) = SDI_RESOURCE_FAN"
  "Res_Hdl 1 \<in> set (resource_list sample_running)"
  using sdi_register_entity_keeps [OF sample_entities_eq, of "Res_Hdl 1"]
  by (simp_all add: sample_running_def sample_resources_def sdi_resource_mgr_init_def
      sdi_resource_add_def sdi_resource_new_def sample_sys_def Let_def)

theorem resource_calls_safe_witness:
  "run_api Led_On (Res_Hdl 1) sample_running = Some (SDI_ERRCODE EPERM, sample_running)"
proof -
  have "table_returns (callback_fns (resource_heap sample_running (Res_Hdl 1)))"
    unfolding sample_running_fan sample_fan_def by (simp add: query_returns_def)
  moreover have "is_sdi_inited sample_running"
    by (simp add: is_sdi_inited_def sample_running_def)
  moreover have "sdi_resource_type_get (Res_Hdl 1) sample_running \<noteq> api_type Led_On"
    unfolding sdi_resource_type_get_def sdi_internal_resource_type_get_def sample_running_fan by simp
  ultimately show ?thesis
    using resource_calls_safe [OF sample_running_wf sample_running_fan(3), of Led_On] by blast
qed

text \<open>A fan that converts speeds with the maximum speed of its entity.\<close>

definition plain_fan :: "'w sdi_sys \<Rightarrow> res_hdl \<Rightarrow> sdi_entity_info \<Rightarrow> bool" where
  "plain_fan s h info \<longleftrightarrow>
     (\<exists>f p. callback_fns (resource_heap s h) = Fan_Fns f \<and> fan_rpm_to_pct f = None \<and>
        fan_pct_to_rpm f = None \<and> res_parent (resource_heap s h) = Some p \<and>
        entity_info_valid (entity_heap s p) \<and> entity_info (entity_heap s p) = info)"

lemma plain_fan_convert:
  assumes "plain_fan s h info"
  shows "sdi_fan_speed_pct_to_rpm h pct s = Some ((pct * max_speed info) div 100)"
    and "sdi_fan_speed_rpm_to_pct h rpm s =
      (if max_speed info = 0 then None else Some ((100 * rpm) div max_speed info))"
  using assms by (auto simp: plain_fan_def sdi_fan_speed_pct_to_rpm_def sdi_fan_speed_rpm_to_pct_def Let_def)

lemma pct_floor:
  fixes p m :: nat
  assumes "100 \<le> m"
  shows "100 * (p * m div 100) div m \<le> p \<and> p \<le> 100 * (p * m div 100) div m + 1"
proof
  have "100 * (p * m div 100) \<le> p * m" by simp
  then show "100 * (p * m div 100) div m \<le> p"
    using assms by (metis div_le_mono less_le_trans nonzero_mult_div_cancel_right not_less0 zero_less_numeral)
  have "p * m < 100 * (p * m div 100) + 100"
    using mult_div_mod_eq [of 100 "p * m"] mod_less_divisor [of 100 "p * m"] by linarith
  then have "p * m \<le> 100 * (p * m div 100) + m" using assms by linarith
  then have "p * m div m \<le> (100 * (p * m div 100) + m) div m" by (rule div_le_mono)
  moreover have "m \<noteq> 0" using assms by simp
  moreover from this have "p * m div m = p" by simp
  ultimately show "p \<le> 100 * (p * m div 100) div m + 1"
    using div_add_self2 [of m "100 * (p * m div 100)"] by linarith
qed

text \<open>
  C23. Fan speeds in percent. For a fan without conversion functions in an entity whose maximum
  speed is at least 100 and small enough that 100 times it fits into 32 bits, converting a
  percentage to RPM gives the rounded-down share of the maximum speed, and converting the result
  back gives the percentage again or one less. With a maximum speed of 0 the conversion of any
  RPM divides by zero.
\<close>

theorem fan_pct_round_trip:
  assumes "plain_fan s h info"
  shows "(100 \<le> unat (max_speed info) \<longrightarrow> 100 * unat (max_speed info) < 2 ^ 32 \<longrightarrow> unat pct \<le> 100 \<longrightarrow>
      (\<exists>rpm pct'. sdi_fan_speed_pct_to_rpm h pct s = Some rpm \<and>
        unat rpm = unat pct * unat (max_speed info) div 100 \<and>
        sdi_fan_speed_rpm_to_pct h rpm s = Some pct' \<and>
        unat pct' \<le> unat pct \<and> unat pct \<le> unat pct' + 1)) \<and>
    (max_speed info = 0 \<longrightarrow> (\<forall>rpm. sdi_fan_speed_rpm_to_pct h rpm s = None))"
proof (intro conjI impI)
  let ?m = "max_speed info" and ?rpm = "(pct * max_speed info) div 100"
  assume m: "100 \<le> unat ?m" "100 * unat ?m < 2 ^ 32" and p: "unat pct \<le> 100"
  have "unat pct * unat ?m \<le> 100 * unat ?m" using p by (rule mult_le_mono1)
  then have "unat pct * unat ?m < 2 ^ 32" using m(2) by linarith
  then have "unat (pct * ?m) = unat pct * unat ?m"
    using unat_mult_lem [of pct ?m] by simp
  then have rpm: "unat ?rpm = unat pct * unat ?m div 100" by (simp add: unat_div)
  have "100 * unat ?rpm \<le> unat pct * unat ?m" unfolding rpm by simp
  then have "100 * unat ?rpm < 2 ^ 32"
    using \<open>unat pct * unat ?m \<le> 100 * unat ?m\<close> m(2) by linarith
  then have prod: "unat (100 * ?rpm) = 100 * unat ?rpm"
    using unat_mult_lem [of 100 ?rpm] by simp
  have pct: "unat ((100 * ?rpm) div ?m) = 100 * (unat pct * unat ?m div 100) div unat ?m"
    by (simp only: unat_div [of "100 * ?rpm" ?m] prod rpm)
  have "?m \<noteq> 0" using m(1) by auto
  then show "\<exists>rpm pct'. sdi_fan_speed_pct_to_rpm h pct s = Some rpm \<and>
        unat rpm = unat pct * unat ?m div 100 \<and> sdi_fan_speed_rpm_to_pct h rpm s = Some pct' \<and>
        unat pct' \<le> unat pct \<and> unat pct \<le> unat pct' + 1"
    using plain_fan_convert [OF assms] rpm pct pct_floor [OF m(1), of "unat pct"] by simp
next
  assume "max_speed info = 0"
  then show "\<forall>rpm. sdi_fan_speed_rpm_to_pct h rpm s = None"
    by (simp add: plain_fan_convert(2) [OF assms])
qed

text \<open>The sample fan tray once its EEPROM has been read.\<close>

definition sample_polled :: "bool sdi_sys" where
  "sample_polled = upd_entity (Ent_Hdl 0)
     (\<lambda>e. e\<lparr>present := True, entity_info_valid := True,
           entity_info := zero_entity_info\<lparr>ppid := ''PP1'', max_speed := 10000\<rparr>\<rparr>) sample_running"

lemma sample_fan_parent: "res_parent (resource_heap sample_entities (Res_Hdl 1)) = Some (Ent_Hdl 0)"
  by code_simp

lemma sample_polled_fan:
  "plain_fan sample_polled (Res_Hdl 1) (zero_entity_info\<lparr>ppid := ''PP1'', max_speed := 10000\<rparr>)"
  unfolding plain_fan_def sample_polled_def
  using sample_fan_parent sample_running_fan(1)
  by (auto simp: sample_fan_def sample_running_def)

theorem fan_pct_round_trip_witness:
  "\<exists>rpm pct'. sdi_fan_speed_pct_to_rpm (Res_Hdl 1) 33 sample_polled = Some rpm \<and> unat rpm = 3300 \<and>
     sdi_fan_speed_rpm_to_pct (Res_Hdl 1) rpm sample_polled = Some pct' \<and>
     unat pct' \<le> 33 \<and> 33 \<le> unat pct' + 1"
  using fan_pct_round_trip [OF sample_polled_fan, of 33] by simp

end
