(* ===== verification/Temp_Sensors.thy ===== *)
theory Temp_Sensors
  imports Device Hwcore_Api
begin

text \<open>
  The temperature sensor drivers src/drivers/sdi\_tmp75.c, sdi\_emc142x.c and sdi\_max6699.c: reading
  a temperature, the limits and the fault status through the SMBus API, their registration from
  the configuration and their initialisation.

  The functions of a driver work on pairs of the private data of the chip and the world (\<open>Device\<close>).
\<close>

section \<open>Limits that fit into a register\<close>

text \<open>A limit has to fit into one byte: when \<open>temperature & ~0xff\<close> is not zero it is an EINVAL.\<close>

definition fits_byte :: "u32 \<Rightarrow> bool" where
  "fits_byte temperature \<longleftrightarrow> temperature AND NOT 0xFF = 0"

lemma fits_byte_ucast: "fits_byte t \<Longrightarrow> (ucast (ucast t :: u8) :: u32) = t"
  unfolding fits_byte_def
  by (rule bit_word_eqI) (auto simp: bit_simps dest: arg_cong [where f = "\<lambda>x. bit x _"])

lemma fits_byte_of_u8 [simp]: "fits_byte (ucast (b :: u8))"
  unfolding fits_byte_def
  by (rule bit_word_eqI) (auto simp: bit_simps dest: bit_imp_le_length)

section \<open>The TMP75\<close>

definition TMP75_TEMP_REG :: u8 where "TMP75_TEMP_REG = 0x00"
definition TMP75_TLOW_REG :: u8 where "TMP75_TLOW_REG = 0x02"
definition TMP75_THIGH_REG :: u8 where "TMP75_THIGH_REG = 0x03"
definition TMP75_DEFAULT_TLOW :: u32 where "TMP75_DEFAULT_TLOW = 70"
definition TMP75_DEFAULT_THIGH :: u32 where "TMP75_DEFAULT_THIGH = 80"

record tmp75_device =
  tmp_low_threshold :: u32
  tmp_high_threshold :: u32
  tmp_default_low_threshold :: u32
  tmp_default_high_threshold :: u32

definition sdi_tmp75_temperature_get :: "'w chip \<Rightarrow> (u32, tmp75_device \<times> 'w) query" where
  "sdi_tmp75_temperature_get chip temperature = (\<lambda>(d, w). do {
     (rc, buf, w) \<leftarrow> chip_read chip TMP75_TEMP_REG w;
     if rc \<noteq> STD_ERR_OK then Some (rc, temperature, d, w) else Some (rc, ucast buf, d, w)
   })"

definition sdi_tmp75_threshold_get ::
    "'w chip \<Rightarrow> sdi_threshold \<Rightarrow> (u32, tmp75_device \<times> 'w) query" where
  "sdi_tmp75_threshold_get chip type temperature = (\<lambda>(d, w).
     case type of
       SDI_LOW_THRESHOLD \<Rightarrow> Some (STD_ERR_OK, tmp_low_threshold d, d, w)
     | SDI_HIGH_THRESHOLD \<Rightarrow> Some (STD_ERR_OK, tmp_high_threshold d, d, w)
     | _ \<Rightarrow> Some (SDI_DEVICE_ERRCODE EOPNOTSUPP, temperature, d, w))"

definition sdi_tmp75_threshold_set ::
    "'w chip \<Rightarrow> sdi_threshold \<Rightarrow> u32 \<Rightarrow> (tmp75_device \<times> 'w) action" where
  "sdi_tmp75_threshold_set chip type temperature = (\<lambda>(d, w).
     if \<not> fits_byte temperature then Some (SDI_DEVICE_ERRCODE EINVAL, d, w)
     else case type of
       SDI_LOW_THRESHOLD \<Rightarrow> do {
         let d = d\<lparr>tmp_low_threshold := temperature\<rparr>;
         (rc, w) \<leftarrow> chip_write chip TMP75_TLOW_REG (ucast temperature) w;
         Some (rc, d, w)
       }
     | SDI_HIGH_THRESHOLD \<Rightarrow> do {
         let d = d\<lparr>tmp_high_threshold := temperature\<rparr>;
         (rc, w) \<leftarrow> chip_write chip TMP75_THIGH_REG (ucast temperature) w;
         Some (rc, d, w)
       }
     | _ \<Rightarrow> Some (SDI_DEVICE_ERRCODE EOPNOTSUPP, d, w))"

definition sdi_tmp75_status_get :: "'w chip \<Rightarrow> (bool, tmp75_device \<times> 'w) query" where
  "sdi_tmp75_status_get chip status s = do {
     (rc, temperature, d, w) \<leftarrow> sdi_tmp75_temperature_get chip 0 s;
     if rc \<noteq> STD_ERR_OK then Some (rc, status, d, w)
     else Some (rc, tmp_high_threshold d <=s temperature \<or> temperature <=s tmp_low_threshold d, d, w)
   }"

definition tmp75_sensor :: "'w chip \<Rightarrow> (tmp75_device \<times> 'w) temperature_sensor" where
  "tmp75_sensor chip = \<lparr>
     ts_init = None,
     ts_temperature_get = sdi_tmp75_temperature_get chip,
     ts_threshold_get = sdi_tmp75_threshold_get chip,
     ts_threshold_set = sdi_tmp75_threshold_set chip,
     ts_status_get = sdi_tmp75_status_get chip\<rparr>"

definition sdi_tmp75_chip_init :: "'w chip \<Rightarrow> (tmp75_device \<times> 'w) action" where
  "sdi_tmp75_chip_init chip s = do {
     (rc, d, w) \<leftarrow> sdi_tmp75_threshold_set chip SDI_LOW_THRESHOLD (tmp_default_low_threshold (fst s)) s;
     if rc \<noteq> STD_ERR_OK then Some (rc, d, w)
     else do {
       let d = d\<lparr>tmp_low_threshold := tmp_default_low_threshold d\<rparr>;
       (rc, d, w) \<leftarrow> sdi_tmp75_threshold_set chip SDI_HIGH_THRESHOLD (tmp_default_high_threshold d) (d, w);
       if rc \<noteq> STD_ERR_OK then Some (rc, d, w)
       else Some (rc, d\<lparr>tmp_high_threshold := tmp_default_high_threshold d\<rparr>, w)
     }
   }"

text \<open>
  The registration allocates the private data (all zero), which becomes the private data of the
  device in the state, and adds the sensor as a resource.
\<close>

definition threshold_attr :: "config_node \<Rightarrow> string \<Rightarrow> u32 \<Rightarrow> u32" where
  "threshold_attr node a dflt =
     (case std_config_attr_get node a of None \<Rightarrow> dflt | Some v \<Rightarrow> ucast (strtol v 0))"

definition tmp75_data_new :: "config_node \<Rightarrow> tmp75_device" where
  "tmp75_data_new node = \<lparr>
     tmp_low_threshold = 0, tmp_high_threshold = 0,
     tmp_default_low_threshold = threshold_attr node ''low_threshold'' TMP75_DEFAULT_TLOW,
     tmp_default_high_threshold = threshold_attr node ''high_threshold'' TMP75_DEFAULT_THIGH\<rparr>"

definition sdi_tmp75_register ::
    "std_lib \<Rightarrow> config_node \<Rightarrow> 'w sdi_i2c_bus \<Rightarrow> (tmp75_device \<times> 'w) sdi_sys
      \<Rightarrow> (t_std_error \<times> 'w chip \<times> (tmp75_device \<times> 'w) sdi_sys) option" where
  "sdi_tmp75_register L node bus_handle s = do {
     STD_ASSERT (bus_type (bus bus_handle) = SDI_I2C_BUS);
     inst_attr \<leftarrow> std_config_attr_get node ''instance'';
     addr \<leftarrow> std_config_attr_get node ''addr'';
     let inst = ucast (strtoul inst_attr 0);
     let chip = \<lparr>chip_bus = bus_handle,
       chip_addr = \<lparr>i2c_addr = ucast (strtoul addr 16), addr_mode_16bit = False\<rparr>,
       chip_instance = inst,
       chip_alias = (case std_config_attr_get node ''alias'' of
           None \<Rightarrow> snprintf SDI_MAX_NAME_LEN (''tmp75-'' @ signed_decimal (sint inst))
         | Some a \<Rightarrow> safestrncpy L SDI_MAX_NAME_LEN a)\<rparr>;
     let s = s\<lparr>dev := (tmp75_data_new node, snd (dev s))\<rparr>;
     Some (STD_ERR_OK, chip, sdi_resource_add L SDI_RESOURCE_TEMPERATURE (chip_alias chip)
       (Temperature_Fns (tmp75_sensor chip)) s)
   }"

section \<open>Chips with several sensors\<close>

text \<open>
  STD\_BIT\_ARRAY\_TEST and STD\_BIT\_ARRAY\_SET are macros of the OPX base library that number the
  bits of an array of bytes; both chips use arrays of one byte. \<open>bit_array_laws\<close> is what the
  macros are for. std\_config\_for\_each\_node of that library calls a function on the nodes of a
  configuration tree in its order: \<open>each_node\<close>.
\<close>

record sensor_lib =
  sensor_std :: std_lib
  array_test :: "u8 \<Rightarrow> u32 \<Rightarrow> bool"
  array_set :: "u8 \<Rightarrow> u32 \<Rightarrow> u8"
  each_node :: "config_node \<Rightarrow> config_node list"

definition bit_array_laws :: "sensor_lib \<Rightarrow> bool" where
  "bit_array_laws B \<longleftrightarrow>
     (\<forall>i. i < 8 \<longrightarrow> \<not> array_test B 0 i) \<and>
     (\<forall>x i j. i < 8 \<longrightarrow> j < 8 \<longrightarrow> array_test B (array_set B x i) j = (i = j \<or> array_test B x j))"

section \<open>The EMC142x\<close>

definition EMC142x_MAX_SENSORS :: nat where "EMC142x_MAX_SENSORS = 8"
definition EMC142x_FAULT_STATUS :: u8 where "EMC142x_FAULT_STATUS = 0x1B"

definition emc_temp_reg :: "u8 list" where
  "emc_temp_reg = [0x00, 0x01, 0x23, 0x2A, 0x41, 0x43, 0x45, 0x47]"
definition emc_high_limit_reg :: "u8 list" where
  "emc_high_limit_reg = [0x05, 0x07, 0x15, 0x2C, 0x50, 0x54, 0x58, 0x5C]"
definition emc_low_limit_reg :: "u8 list" where
  "emc_low_limit_reg = [0x06, 0x08, 0x16, 0x2D, 0x51, 0x55, 0x59, 0x5D]"
definition emc_critical_limit_reg :: "u8 list" where
  "emc_critical_limit_reg = [0x20, 0x19, 0x1A, 0x30, 0x64, 0x65, 0x66, 0x67]"

record emc142x_device =
  emc_connected :: u8
  emc_low_threshold :: "u32 list"
  emc_high_threshold :: "u32 list"
  emc_critical_threshold :: "u32 list"
  emc_default_low_threshold :: "u32 list"
  emc_default_high_threshold :: "u32 list"
  emc_default_critical_threshold :: "u32 list"
  emc_alias :: "string list"

definition sdi_emc142x_temperature_get ::
    "'w chip \<Rightarrow> u32 \<Rightarrow> (u32, emc142x_device \<times> 'w) query" where
  "sdi_emc142x_temperature_get chip sensor_id temperature = (\<lambda>(d, w). do {
     reg \<leftarrow> at_index emc_temp_reg sensor_id;
     (rc, buf, w) \<leftarrow> chip_read chip reg w;
     if rc \<noteq> STD_ERR_OK then Some (rc, temperature, d, w) else Some (rc, ucast buf, d, w)
   })"

definition sdi_emc142x_threshold_get ::
    "'w chip \<Rightarrow> u32 \<Rightarrow> sdi_threshold \<Rightarrow> (u32, emc142x_device \<times> 'w) query" where
  "sdi_emc142x_threshold_get chip sensor_id type temperature = (\<lambda>(d, w). do {
     t \<leftarrow> (case type of
         SDI_LOW_THRESHOLD \<Rightarrow> at_index (emc_low_threshold d) sensor_id
       | SDI_HIGH_THRESHOLD \<Rightarrow> at_index (emc_high_threshold d) sensor_id
       | SDI_CRITICAL_THRESHOLD \<Rightarrow> at_index (emc_critical_threshold d) sensor_id);
     Some (STD_ERR_OK, t, d, w)
   })"

text \<open>The three branches of the switch: the limit goes to the chip, and is remembered if it got there.\<close>

definition sdi_emc142x_threshold_set ::
    "'w chip \<Rightarrow> u32 \<Rightarrow> sdi_threshold \<Rightarrow> u32 \<Rightarrow> (emc142x_device \<times> 'w) action" where
  "sdi_emc142x_threshold_set chip sensor_id type temperature = (\<lambda>(d, w).
     if \<not> fits_byte temperature then Some (SDI_DEVICE_ERRCODE EINVAL, d, w)
     else case type of
       SDI_LOW_THRESHOLD \<Rightarrow> do {
         reg \<leftarrow> at_index emc_low_limit_reg sensor_id;
         (rc, w) \<leftarrow> chip_write chip reg (ucast temperature) w;
         if rc \<noteq> STD_ERR_OK then Some (rc, d, w)
         else Some (rc, d\<lparr>emc_low_threshold := (emc_low_threshold d)[unat sensor_id := temperature]\<rparr>, w)
       }
     | SDI_HIGH_THRESHOLD \<Rightarrow> do {
         reg \<leftarrow> at_index emc_high_limit_reg sensor_id;
         (rc, w) \<leftarrow> chip_write chip reg (ucast temperature) w;
         if rc \<noteq> STD_ERR_OK then Some (rc, d, w)
         else Some (rc, d\<lparr>emc_high_threshold := (emc_high_threshold d)[unat sensor_id := temperature]\<rparr>, w)
       }
     | SDI_CRITICAL_THRESHOLD \<Rightarrow> do {
         reg \<leftarrow> at_index emc_critical_limit_reg sensor_id;
         (rc, w) \<leftarrow> chip_write chip reg (ucast temperature) w;
         if rc \<noteq> STD_ERR_OK then Some (rc, d, w)
         else Some (rc, d\<lparr>emc_critical_threshold := (emc_critical_threshold d)[unat sensor_id := temperature]\<rparr>, w)
       })"

definition sdi_emc142x_status_get ::
    "sensor_lib \<Rightarrow> 'w chip \<Rightarrow> u32 \<Rightarrow> (bool, emc142x_device \<times> 'w) query" where
  "sdi_emc142x_status_get B chip sensor_id status = (\<lambda>(d, w). do {
     (rc, buf, w) \<leftarrow> chip_read chip EMC142x_FAULT_STATUS w;
     if rc \<noteq> STD_ERR_OK then Some (rc, status, d, w) else Some (rc, array_test B buf sensor_id, d, w)
   })"

text \<open>The initialisation returns early for the low and the high limit, but not for the critical one.\<close>

definition sdi_emc142x_resource_init :: "'w chip \<Rightarrow> u32 \<Rightarrow> (emc142x_device \<times> 'w) action" where
  "sdi_emc142x_resource_init chip sensor_id s = do {
     t \<leftarrow> at_index (emc_default_low_threshold (fst s)) sensor_id;
     (rc, d, w) \<leftarrow> sdi_emc142x_threshold_set chip sensor_id SDI_LOW_THRESHOLD t s;
     if rc \<noteq> STD_ERR_OK then Some (rc, d, w)
     else do {
       let d = d\<lparr>emc_low_threshold := (emc_low_threshold d)[unat sensor_id := t]\<rparr>;
       t \<leftarrow> at_index (emc_default_high_threshold d) sensor_id;
       (rc, d, w) \<leftarrow> sdi_emc142x_threshold_set chip sensor_id SDI_HIGH_THRESHOLD t (d, w);
       if rc \<noteq> STD_ERR_OK then Some (rc, d, w)
       else do {
         let d = d\<lparr>emc_high_threshold := (emc_high_threshold d)[unat sensor_id := t]\<rparr>;
         t \<leftarrow> at_index (emc_default_critical_threshold d) sensor_id;
         (rc, d, w) \<leftarrow> sdi_emc142x_threshold_set chip sensor_id SDI_CRITICAL_THRESHOLD t (d, w);
         Some (rc, d\<lparr>emc_critical_threshold := (emc_critical_threshold d)[unat sensor_id := t]\<rparr>, w)
       }
     }
   }"

definition emc142x_sensor :: "sensor_lib \<Rightarrow> 'w chip \<Rightarrow> u32 \<Rightarrow> (emc142x_device \<times> 'w) temperature_sensor" where
  "emc142x_sensor B chip sensor_id = \<lparr>
     ts_init = Some (sdi_emc142x_resource_init chip sensor_id),
     ts_temperature_get = sdi_emc142x_temperature_get chip sensor_id,
     ts_threshold_get = sdi_emc142x_threshold_get chip sensor_id,
     ts_threshold_set = sdi_emc142x_threshold_set chip sensor_id,
     ts_status_get = sdi_emc142x_status_get B chip sensor_id\<rparr>"

text \<open>One sensor node of the configuration: its limits, its name, and its resource.\<close>

definition sensor_instance :: "config_node \<Rightarrow> u32" where
  "sensor_instance node =
     (case std_config_attr_get node ''instance'' of None \<Rightarrow> 0 | Some v \<Rightarrow> ucast (strtoul v 0))"

definition sdi_emc142x_device_database_init ::
    "sensor_lib \<Rightarrow> config_node \<Rightarrow> 'w chip \<Rightarrow> (emc142x_device \<times> 'w) sdi_sys
      \<Rightarrow> (emc142x_device \<times> 'w) sdi_sys option" where
  "sdi_emc142x_device_database_init B cur_node chip s =
     (if \<not> strncmp_eq (std_config_name_get cur_node) ''temp_sensor'' (length ''temp_sensor'') then Some s
      else do {
        let sensor_id = sensor_instance cur_node;
        STD_ASSERT (unat sensor_id < EMC142x_MAX_SENSORS);
        let i = unat sensor_id;
        let alias = (case std_config_attr_get cur_node ''alias'' of
            None \<Rightarrow> snprintf SDI_MAX_NAME_LEN (''emc142x-'' @ signed_decimal (sint (chip_instance chip)) @
              ''-'' @ signed_decimal (sint sensor_id))
          | Some a \<Rightarrow> a);
        let d = fst (dev s);
        let d = d\<lparr>emc_connected := array_set B (emc_connected d) sensor_id,
          emc_default_low_threshold :=
            (emc_default_low_threshold d)[i := threshold_attr cur_node ''low_threshold'' 0x00],
          emc_default_high_threshold :=
            (emc_default_high_threshold d)[i := threshold_attr cur_node ''high_threshold'' 0x55],
          emc_default_critical_threshold :=
            (emc_default_critical_threshold d)[i := threshold_attr cur_node ''critical_threshold'' 0x55],
          emc_alias := (emc_alias d)[i := alias]\<rparr>;
        Some (sdi_resource_add (sensor_std B) SDI_RESOURCE_TEMPERATURE alias
          (Temperature_Fns (emc142x_sensor B chip sensor_id)) (s\<lparr>dev := (d, snd (dev s))\<rparr>))
      })"

primrec emc142x_database_init_each ::
    "sensor_lib \<Rightarrow> 'w chip \<Rightarrow> config_node list \<Rightarrow> (emc142x_device \<times> 'w) sdi_sys
      \<Rightarrow> (emc142x_device \<times> 'w) sdi_sys option" where
  "emc142x_database_init_each B chip [] s = Some s"
| "emc142x_database_init_each B chip (n # ns) s = do {
     s \<leftarrow> sdi_emc142x_device_database_init B n chip s;
     emc142x_database_init_each B chip ns s
   }"

definition emc142x_data_new :: emc142x_device where
  "emc142x_data_new = \<lparr>
     emc_connected = 0,
     emc_low_threshold = replicate EMC142x_MAX_SENSORS 0,
     emc_high_threshold = replicate EMC142x_MAX_SENSORS 0,
     emc_critical_threshold = replicate EMC142x_MAX_SENSORS 0,
     emc_default_low_threshold = replicate EMC142x_MAX_SENSORS 0,
     emc_default_high_threshold = replicate EMC142x_MAX_SENSORS 0,
     emc_default_critical_threshold = replicate EMC142x_MAX_SENSORS 0,
     emc_alias = replicate EMC142x_MAX_SENSORS []\<rparr>"

definition sdi_emc142x_register ::
    "sensor_lib \<Rightarrow> config_node \<Rightarrow> 'w sdi_i2c_bus \<Rightarrow> (emc142x_device \<times> 'w) sdi_sys
      \<Rightarrow> (t_std_error \<times> 'w chip \<times> (emc142x_device \<times> 'w) sdi_sys) option" where
  "sdi_emc142x_register B node bus_handle s = do {
     STD_ASSERT (bus_type (bus bus_handle) = SDI_I2C_BUS);
     inst_attr \<leftarrow> std_config_attr_get node ''instance'';
     addr \<leftarrow> std_config_attr_get node ''addr'';
     let chip = \<lparr>chip_bus = bus_handle,
       chip_addr = \<lparr>i2c_addr = ucast (strtoul addr 16), addr_mode_16bit = False\<rparr>,
       chip_instance = ucast (strtoul inst_attr 0), chip_alias = []\<rparr>;
     s \<leftarrow> emc142x_database_init_each B chip (each_node B node) (s\<lparr>dev := (emc142x_data_new, snd (dev s))\<rparr>);
     Some (STD_ERR_OK, chip, s)
   }"

text \<open>The loop over the connected sensors stops at the first error.\<close>

primrec emc142x_init_sensors ::
    "sensor_lib \<Rightarrow> 'w chip \<Rightarrow> u32 list \<Rightarrow> (emc142x_device \<times> 'w) action" where
  "emc142x_init_sensors B chip [] s = Some (STD_ERR_OK, s)"
| "emc142x_init_sensors B chip (i # is) s =
     (if \<not> array_test B (emc_connected (fst s)) i then emc142x_init_sensors B chip is s
      else do {
        (rc, s) \<leftarrow> sdi_emc142x_resource_init chip i s;
        if rc \<noteq> STD_ERR_OK then Some (rc, s) else emc142x_init_sensors B chip is s
      })"

definition sdi_emc142x_chip_init :: "sensor_lib \<Rightarrow> 'w chip \<Rightarrow> (emc142x_device \<times> 'w) action" where
  "sdi_emc142x_chip_init B chip = emc142x_init_sensors B chip [0, 1, 2, 3, 4, 5, 6, 7]"

section \<open>The MAX6699\<close>

definition MAX6699_MAX_SENSORS :: nat where "MAX6699_MAX_SENSORS = 5"
definition MAX6699_STATUS_1_REG :: u8 where "MAX6699_STATUS_1_REG = 0x44"

definition max_temp_reg :: "u8 list" where "max_temp_reg = [0x07, 0x01, 0x02, 0x03, 0x04]"
definition max_high_limit_reg :: "u8 list" where "max_high_limit_reg = [0x17, 0x11, 0x12, 0x13, 0x14]"
definition max_high_limit_reg_por_value :: "u8 list" where
  "max_high_limit_reg_por_value = [0x5A, 0x6E, 0x7F, 0x64, 0x64]"
definition max_status_bit_mask :: "u8 list" where "max_status_bit_mask = [6, 0, 1, 2, 3]"

record max6699_device =
  max_connected :: u8
  max_high_threshold :: "u32 list"
  max_default_high_threshold :: "u32 list"
  max_alias :: "string list"

definition sdi_max6699_temperature_get ::
    "'w chip \<Rightarrow> u32 \<Rightarrow> (u32, max6699_device \<times> 'w) query" where
  "sdi_max6699_temperature_get chip sensor_id temperature = (\<lambda>(d, w). do {
     reg \<leftarrow> at_index max_temp_reg sensor_id;
     (rc, buf, w) \<leftarrow> chip_read chip reg w;
     if rc \<noteq> STD_ERR_OK then Some (rc, temperature, d, w) else Some (rc, ucast buf, d, w)
   })"

definition sdi_max6699_threshold_get ::
    "'w chip \<Rightarrow> u32 \<Rightarrow> sdi_threshold \<Rightarrow> (u32, max6699_device \<times> 'w) query" where
  "sdi_max6699_threshold_get chip sensor_id type temperature = (\<lambda>(d, w).
     case type of
       SDI_HIGH_THRESHOLD \<Rightarrow> do {
         t \<leftarrow> at_index (max_high_threshold d) sensor_id;
         Some (STD_ERR_OK, t, d, w)
       }
     | _ \<Rightarrow> Some (SDI_DEVICE_ERRCODE EOPNOTSUPP, temperature, d, w))"

definition sdi_max6699_threshold_set ::
    "'w chip \<Rightarrow> u32 \<Rightarrow> sdi_threshold \<Rightarrow> u32 \<Rightarrow> (max6699_device \<times> 'w) action" where
  "sdi_max6699_threshold_set chip sensor_id type temperature = (\<lambda>(d, w).
     if \<not> fits_byte temperature then Some (SDI_DEVICE_ERRCODE EINVAL, d, w)
     else case type of
       SDI_HIGH_THRESHOLD \<Rightarrow> do {
         reg \<leftarrow> at_index max_high_limit_reg sensor_id;
         (rc, w) \<leftarrow> chip_write chip reg (ucast temperature) w;
         if rc \<noteq> STD_ERR_OK then Some (rc, d, w)
         else Some (rc, d\<lparr>max_high_threshold := (max_high_threshold d)[unat sensor_id := temperature]\<rparr>, w)
       }
     | _ \<Rightarrow> Some (SDI_DEVICE_ERRCODE EOPNOTSUPP, d, w))"

definition sdi_max6699_status_get ::
    "sensor_lib \<Rightarrow> 'w chip \<Rightarrow> u32 \<Rightarrow> (bool, max6699_device \<times> 'w) query" where
  "sdi_max6699_status_get B chip sensor_id status = (\<lambda>(d, w). do {
     (rc, buf, w) \<leftarrow> chip_read chip MAX6699_STATUS_1_REG w;
     if rc \<noteq> STD_ERR_OK then Some (rc, status, d, w)
     else do {
       b \<leftarrow> at_index max_status_bit_mask sensor_id;
       Some (rc, bit8_test (sensor_std B) buf (ucast b), d, w)
     }
   })"

definition sdi_max6699_resource_init :: "'w chip \<Rightarrow> u32 \<Rightarrow> (max6699_device \<times> 'w) action" where
  "sdi_max6699_resource_init chip sensor_id s = do {
     t \<leftarrow> at_index (max_default_high_threshold (fst s)) sensor_id;
     (rc, d, w) \<leftarrow> sdi_max6699_threshold_set chip sensor_id SDI_HIGH_THRESHOLD t s;
     if rc \<noteq> STD_ERR_OK then Some (rc, d, w)
     else Some (rc, d\<lparr>max_high_threshold := (max_high_threshold d)[unat sensor_id := t]\<rparr>, w)
   }"

definition max6699_sensor :: "sensor_lib \<Rightarrow> 'w chip \<Rightarrow> u32 \<Rightarrow> (max6699_device \<times> 'w) temperature_sensor" where
  "max6699_sensor B chip sensor_id = \<lparr>
     ts_init = Some (sdi_max6699_resource_init chip sensor_id),
     ts_temperature_get = sdi_max6699_temperature_get chip sensor_id,
     ts_threshold_get = sdi_max6699_threshold_get chip sensor_id,
     ts_threshold_set = sdi_max6699_threshold_set chip sensor_id,
     ts_status_get = sdi_max6699_status_get B chip sensor_id\<rparr>"

definition sdi_max6699_device_database_init ::
    "sensor_lib \<Rightarrow> config_node \<Rightarrow> 'w chip \<Rightarrow> (max6699_device \<times> 'w) sdi_sys
      \<Rightarrow> (max6699_device \<times> 'w) sdi_sys option" where
  "sdi_max6699_device_database_init B cur_node chip s =
     (if \<not> strncmp_eq (std_config_name_get cur_node) ''temp_sensor'' (length ''temp_sensor'') then Some s
      else do {
        let sensor_id = sensor_instance cur_node;
        STD_ASSERT (unat sensor_id < MAX6699_MAX_SENSORS);
        let i = unat sensor_id;
        let alias = (case std_config_attr_get cur_node ''alias'' of
            None \<Rightarrow> snprintf SDI_MAX_NAME_LEN (''max6699-'' @ signed_decimal (sint (chip_instance chip)) @
              ''-'' @ signed_decimal (sint sensor_id))
          | Some a \<Rightarrow> safestrncpy (sensor_std B) SDI_MAX_NAME_LEN a);
        let d = fst (dev s);
        let d = d\<lparr>max_connected := array_set B (max_connected d) sensor_id,
          max_default_high_threshold := (max_default_high_threshold d)
            [i := threshold_attr cur_node ''high_threshold'' (ucast (max_high_limit_reg_por_value ! i))],
          max_alias := (max_alias d)[i := alias]\<rparr>;
        Some (sdi_resource_add (sensor_std B) SDI_RESOURCE_TEMPERATURE alias
          (Temperature_Fns (max6699_sensor B chip sensor_id)) (s\<lparr>dev := (d, snd (dev s))\<rparr>))
      })"

primrec max6699_database_init_each ::
    "sensor_lib \<Rightarrow> 'w chip \<Rightarrow> config_node list \<Rightarrow> (max6699_device \<times> 'w) sdi_sys
      \<Rightarrow> (max6699_device \<times> 'w) sdi_sys option" where
  "max6699_database_init_each B chip [] s = Some s"
| "max6699_database_init_each B chip (n # ns) s = do {
     s \<leftarrow> sdi_max6699_device_database_init B n chip s;
     max6699_database_init_each B chip ns s
   }"

definition sdi_max6699_register ::
    "sensor_lib \<Rightarrow> config_node \<Rightarrow> 'w sdi_i2c_bus \<Rightarrow> (max6699_device \<times> 'w) sdi_sys
      \<Rightarrow> (t_std_error \<times> 'w chip \<times> (max6699_device \<times> 'w) sdi_sys) option" where
  "sdi_max6699_register B node bus_handle s = do {
     STD_ASSERT (bus_type (bus bus_handle) = SDI_I2C_BUS);
     inst_attr \<leftarrow> std_config_attr_get node ''instance'';
     addr \<leftarrow> std_config_attr_get node ''addr'';
     let chip = \<lparr>chip_bus = bus_handle,
       chip_addr = \<lparr>i2c_addr = ucast (strtoul addr 16), addr_mode_16bit = False\<rparr>,
       chip_instance = ucast (strtoul inst_attr 0), chip_alias = []\<rparr>;
     let d = \<lparr>max_connected = 0, max_high_threshold = replicate MAX6699_MAX_SENSORS 0,
       max_default_high_threshold = replicate MAX6699_MAX_SENSORS 0,
       max_alias = replicate MAX6699_MAX_SENSORS []\<rparr>;
     s \<leftarrow> max6699_database_init_each B chip (each_node B node) (s\<lparr>dev := (d, snd (dev s))\<rparr>);
     Some (STD_ERR_OK, chip, s)
   }"

primrec max6699_init_sensors ::
    "sensor_lib \<Rightarrow> 'w chip \<Rightarrow> u32 list \<Rightarrow> (max6699_device \<times> 'w) action" where
  "max6699_init_sensors B chip [] s = Some (STD_ERR_OK, s)"
| "max6699_init_sensors B chip (i # is) s =
     (if \<not> array_test B (max_connected (fst s)) i then max6699_init_sensors B chip is s
      else do {
        (rc, s) \<leftarrow> sdi_max6699_resource_init chip i s;
        if rc \<noteq> STD_ERR_OK then Some (rc, s) else max6699_init_sensors B chip is s
      })"

definition sdi_max6699_init :: "sensor_lib \<Rightarrow> 'w chip \<Rightarrow> (max6699_device \<times> 'w) action" where
  "sdi_max6699_init B chip = max6699_init_sensors B chip [0, 1, 2, 3, 4]"

end
