(* ===== verification/Comm_Dev.thy ===== *)
theory Comm_Dev
  imports Temp_Sensors
begin

text \<open>
  The communication device (src/drivers/sdi\_comm\_dev\_driver.c): a memory of registers, files and two
  mailboxes behind an I2C bus, through which the switch and the controller of its chassis exchange
  messages; the external control that is a pair of its registers (sdi\_comm\_dev\_ext\_ctrl.c), and the
  CPLD of the host system (sdi\_cpld\_driver.c), which tells that a message has come.
\<close>

section \<open>Constants\<close>

definition SDI_COMM_DEV_CHASSIS_SERVICE_TAG :: u16 where "SDI_COMM_DEV_CHASSIS_SERVICE_TAG = 0x7402"
definition SDI_COMM_DEV_CHASSIS_SERVICE_TAG_SIZE :: u16 where "SDI_COMM_DEV_CHASSIS_SERVICE_TAG_SIZE = 34"
definition SDI_COMM_DEV_IOM_VENDOR_FW_REV :: u16 where "SDI_COMM_DEV_IOM_VENDOR_FW_REV = 0x7800"
definition SDI_COMM_DEV_IOM_VENDOR_FW_REV_SIZE :: u16 where "SDI_COMM_DEV_IOM_VENDOR_FW_REV_SIZE = 32"
definition SDI_COMM_DEV_MAILBOX_ENABLE_REG :: u16 where "SDI_COMM_DEV_MAILBOX_ENABLE_REG = 0x7B7E"
definition SDI_COMM_DEV_MAILBOX_ENABLE_REG_SIZE :: u16 where "SDI_COMM_DEV_MAILBOX_ENABLE_REG_SIZE = 2"
definition SDI_COMM_DEV_SENSOR_06_TELEMETRY :: u16 where "SDI_COMM_DEV_SENSOR_06_TELEMETRY = 0x7C7A"
definition SDI_COMM_DEV_SENSOR_06_TELEMETRY_SIZE :: u16 where "SDI_COMM_DEV_SENSOR_06_TELEMETRY_SIZE = 2"
definition SDI_COMM_DEV_SENSOR_07_TELEMETRY :: u16 where "SDI_COMM_DEV_SENSOR_07_TELEMETRY = 0x7C7C"
definition SDI_COMM_DEV_SENSOR_07_TELEMETRY_SIZE :: u16 where "SDI_COMM_DEV_SENSOR_07_TELEMETRY_SIZE = 2"
definition SDI_COMM_DEV_VENDOR_INTELLIGENCE_STATUS_REGISTER :: u16 where
  "SDI_COMM_DEV_VENDOR_INTELLIGENCE_STATUS_REGISTER = 0x7C90"
definition SDI_COMM_DEV_VENDOR_INTELLIGENCE_STATUS_REGISTER_SIZE :: u16 where
  "SDI_COMM_DEV_VENDOR_INTELLIGENCE_STATUS_REGISTER_SIZE = 2"
definition SDI_COMM_DEV_VENDOR_INTELLIGENCE_MAILBOX_CONTROL :: u16 where
  "SDI_COMM_DEV_VENDOR_INTELLIGENCE_MAILBOX_CONTROL = 0x7C92"
definition SDI_COMM_DEV_VENDOR_INTELLIGENCE_MAILBOX_CONTROL_SIZE :: u16 where
  "SDI_COMM_DEV_VENDOR_INTELLIGENCE_MAILBOX_CONTROL_SIZE = 2"
definition SDI_COMM_DEV_DELL_MANAGEMENT_FW_REVS :: u16 where "SDI_COMM_DEV_DELL_MANAGEMENT_FW_REVS = 0x7C96"
definition SDI_COMM_DEV_DELL_MANAGEMENT_FW_REVS_SIZE :: u16 where
  "SDI_COMM_DEV_DELL_MANAGEMENT_FW_REVS_SIZE = 64"
definition SDI_COMM_DEV_IOM_SLOT_OCCUPATION :: u16 where "SDI_COMM_DEV_IOM_SLOT_OCCUPATION = 0x7CD6"
definition SDI_COMM_DEV_IOM_SLOT_OCCUPATION_SIZE :: u16 where "SDI_COMM_DEV_IOM_SLOT_OCCUPATION_SIZE = 2"
definition SDI_COMM_DEV_NORTHBOUND_MAILBOX_STATUS :: u16 where
  "SDI_COMM_DEV_NORTHBOUND_MAILBOX_STATUS = 0x7CD8"
definition SDI_COMM_DEV_NORTHBOUND_MAILBOX_STATUS_SIZE :: u16 where
  "SDI_COMM_DEV_NORTHBOUND_MAILBOX_STATUS_SIZE = 4"
definition SDI_COMM_DEV_NORTHBOUND_MAILBOX_START_ADDRESS :: u16 where
  "SDI_COMM_DEV_NORTHBOUND_MAILBOX_START_ADDRESS = 0x8500"
definition SDI_COMM_DEV_SOUTHBOUND_MAILBOX_START_ADDRESS :: u16 where
  "SDI_COMM_DEV_SOUTHBOUND_MAILBOX_START_ADDRESS = 0x9504"
definition SDI_COMM_DEV_BIT_NB_FLUSH_MAILBOX :: u32 where "SDI_COMM_DEV_BIT_NB_FLUSH_MAILBOX = 0"
definition SDI_COMM_DEV_BIT_SB_PACKAGE_READ_AND_VERIFIED :: u32 where
  "SDI_COMM_DEV_BIT_SB_PACKAGE_READ_AND_VERIFIED = 1"
definition SDI_COMM_DEV_BIT_NB_PACKAGE_DOWNLOAD_COMPLETE :: u32 where
  "SDI_COMM_DEV_BIT_NB_PACKAGE_DOWNLOAD_COMPLETE = 2"
definition SDI_COMM_DEV_BIT_NB_PACKAGE_IN_MAILBOX :: u32 where "SDI_COMM_DEV_BIT_NB_PACKAGE_IN_MAILBOX = 0"
definition SDI_COMM_DEV_VENDOR_INTELLIGENCE_STATUS_BIT_RESET :: u32 where
  "SDI_COMM_DEV_VENDOR_INTELLIGENCE_STATUS_BIT_RESET = 0"
definition SDI_COMM_DEV_MAILBOX_ENABLE :: u16 where "SDI_COMM_DEV_MAILBOX_ENABLE = 3"
definition SDI_COMM_DEV_MAILBOX_DISABLE :: u16 where "SDI_COMM_DEV_MAILBOX_DISABLE = 0"
definition COMM_DEV_I2C_ADDR :: u8 where "COMM_DEV_I2C_ADDR = 0x32"
definition SDI_COMM_DEV_MAILBOX_HEADER_SIZE :: u16 where "SDI_COMM_DEV_MAILBOX_HEADER_SIZE = 4"
definition SDI_COMM_DEV_SERVICE_TAG_SIZE :: nat where "SDI_COMM_DEV_SERVICE_TAG_SIZE = 35"
definition SDI_COMM_DEV_FW_VERSION_SIZE :: nat where "SDI_COMM_DEV_FW_VERSION_SIZE = 65"
definition SDI_COMM_DEV_BUFFER_MAX_SIZE :: u16 where "SDI_COMM_DEV_BUFFER_MAX_SIZE = 4100"
definition NORTHBOUND_MAILBOX_TIME_THRESHOLD :: u16 where "NORTHBOUND_MAILBOX_TIME_THRESHOLD = 3"
definition COMM_DEV_STATUS_CLEAR :: u16 where "COMM_DEV_STATUS_CLEAR = 0"
definition I2C_SMBUS_BLOCK_HALF :: nat where "I2C_SMBUS_BLOCK_HALF = 16"

text \<open>A two byte integer in memory, low byte first.\<close>

definition u16_bytes :: "u16 \<Rightarrow> u8 list" where
  "u16_bytes x = [ucast (x AND 0xFF), ucast (drop_bit 8 x AND 0xFF)]"

section \<open>Transfers\<close>

text \<open>
  The functions of the driver get the resource, whose type they test again, and take the device from
  its callback handle. \<open>stack\<close> is what the memory holds that a block write or the header of a
  mailbox is put into.
\<close>

record 'w comm_dev_res =
  cd_type :: sdi_resource_type
  cd_chip :: "'w chip"

definition comm_dev_i2c_addr :: "u8 \<Rightarrow> sdi_i2c_addr" where
  "comm_dev_i2c_addr a = \<lparr>i2c_addr = ucast a, addr_mode_16bit = False\<rparr>"

text \<open>The loop of receives does not stop at an error; the result is that of the last one.\<close>

primrec comm_dev_recv_each ::
    "'w sdi_i2c_bus \<Rightarrow> sdi_i2c_addr \<Rightarrow> nat \<Rightarrow> t_std_error \<Rightarrow> (u8 list, 'w) query" where
  "comm_dev_recv_each h a 0 rc regData w = Some (rc, regData, w)"
| "comm_dev_recv_each h a (Suc n) rc regData w =
     (case regData of
        [] \<Rightarrow> None
      | b # bs \<Rightarrow> do {
          (rc, b, w) \<leftarrow> sdi_smbus_recv_byte h a b SDI_I2C_FLAG_NONE w;
          (rc, bs, w) \<leftarrow> comm_dev_recv_each h a n rc bs w;
          Some (rc, b # bs, w)
        })"

definition sdi_comm_dev_recv_byte :: "'w chip \<Rightarrow> u8 \<Rightarrow> u16 \<Rightarrow> u16 \<Rightarrow> (u8 list, 'w) query" where
  "sdi_comm_dev_recv_byte comm_dev_device a reg_offset len regData w = do {
     (rc, w) \<leftarrow> sdi_smbus_write_byte (chip_bus comm_dev_device) (comm_dev_i2c_addr a)
       (ucast (reg_offset AND 0xFF)) (ucast (drop_bit 8 reg_offset)) SDI_I2C_FLAG_NONE w;
     if rc = STD_ERR_OK
     then comm_dev_recv_each (chip_bus comm_dev_device) (comm_dev_i2c_addr a) (unat len) rc regData w
     else Some (rc, regData, w)
   }"

definition sdi_comm_dev_write_block ::
    "u8 list \<Rightarrow> 'w chip \<Rightarrow> u8 \<Rightarrow> u16 \<Rightarrow> u16 \<Rightarrow> u8 list \<Rightarrow> 'w action" where
  "sdi_comm_dev_write_block stack comm_dev_device a reg_offset len regData =
     sdi_smbus_write_i2c_block_data stack (chip_bus comm_dev_device) (comm_dev_i2c_addr a) reg_offset
       (ucast len) regData SDI_I2C_FLAG_NONE"

definition sdi_comm_dev_read :: "'w comm_dev_res \<Rightarrow> u8 \<Rightarrow> u16 \<Rightarrow> u16 \<Rightarrow> (u8 list, 'w) query" where
  "sdi_comm_dev_read r a offset len data w =
     (if cd_type r \<noteq> SDI_RESOURCE_COMM_DEV then Some (SDI_ERRCODE EPERM, data, w)
      else sdi_comm_dev_recv_byte (cd_chip r) a offset len data w)"

text \<open>The loop that both writers have: blocks of sixteen bytes, and a last one of what is left.\<close>

fun comm_dev_write_blocks ::
    "u8 list \<Rightarrow> 'w chip \<Rightarrow> u8 \<Rightarrow> u16 \<Rightarrow> nat \<Rightarrow> u8 list \<Rightarrow> t_std_error \<Rightarrow> 'w action" where
  "comm_dev_write_blocks stack c a offset left data rc w =
     (if left = 0 then Some (rc, w)
      else do {
        (rc, w) \<leftarrow> sdi_comm_dev_write_block stack c a offset
          (of_nat (if I2C_SMBUS_BLOCK_HALF < left then I2C_SMBUS_BLOCK_HALF else left)) data w;
        if rc \<noteq> STD_ERR_OK then Some (rc, w)
        else comm_dev_write_blocks stack c a (offset + of_nat I2C_SMBUS_BLOCK_HALF)
          (left - 16) (drop I2C_SMBUS_BLOCK_HALF data) rc w
      })"

declare comm_dev_write_blocks.simps [simp del]

definition sdi_comm_dev_write ::
    "u8 list \<Rightarrow> 'w comm_dev_res \<Rightarrow> u8 \<Rightarrow> u16 \<Rightarrow> u16 \<Rightarrow> u8 list \<Rightarrow> 'w action" where
  "sdi_comm_dev_write stack r a offset len data w =
     (if cd_type r \<noteq> SDI_RESOURCE_COMM_DEV then Some (SDI_ERRCODE EPERM, w)
      else comm_dev_write_blocks stack (cd_chip r) a offset (unat len) data STD_ERR_OK w)"

section \<open>Status and control\<close>

text \<open>The bytes of a register that the driver reads into a cleared array of its own.\<close>

definition comm_dev_read_register :: "'w comm_dev_res \<Rightarrow> u16 \<Rightarrow> u16 \<Rightarrow> nat \<Rightarrow> 'w
    \<Rightarrow> (t_std_error \<times> u8 list \<times> 'w) option" where
  "comm_dev_read_register r reg len n w = sdi_comm_dev_read r COMM_DEV_I2C_ADDR reg len (replicate n 0) w"

definition comm_dev_write_register ::
    "u8 list \<Rightarrow> 'w comm_dev_res \<Rightarrow> u16 \<Rightarrow> u16 \<Rightarrow> u8 list \<Rightarrow> 'w action" where
  "comm_dev_write_register stack r = sdi_comm_dev_write stack r COMM_DEV_I2C_ADDR"

text \<open>Setting a bit of the mailbox control register, in the way of three functions of the driver.\<close>

definition comm_dev_set_control :: "std_lib \<Rightarrow> u8 list \<Rightarrow> 'w comm_dev_res \<Rightarrow> u32 \<Rightarrow> 'w action" where
  "comm_dev_set_control L stack r b w = do {
     (rc, mbox_control, w) \<leftarrow> comm_dev_read_register r SDI_COMM_DEV_VENDOR_INTELLIGENCE_MAILBOX_CONTROL
       SDI_COMM_DEV_VENDOR_INTELLIGENCE_MAILBOX_CONTROL_SIZE 2 w;
     if rc \<noteq> STD_ERR_OK then Some (rc, w)
     else comm_dev_write_register stack r SDI_COMM_DEV_VENDOR_INTELLIGENCE_MAILBOX_CONTROL
       SDI_COMM_DEV_VENDOR_INTELLIGENCE_MAILBOX_CONTROL_SIZE
       (bit8_set L (hd mbox_control) b # tl mbox_control) w
   }"

definition sdi_package_read_and_verified :: "std_lib \<Rightarrow> u8 list \<Rightarrow> 'w comm_dev_res \<Rightarrow> 'w action" where
  "sdi_package_read_and_verified L stack r =
     comm_dev_set_control L stack r SDI_COMM_DEV_BIT_SB_PACKAGE_READ_AND_VERIFIED"

definition sdi_flush_msg_buffer :: "std_lib \<Rightarrow> u8 list \<Rightarrow> 'w comm_dev_res \<Rightarrow> 'w action" where
  "sdi_flush_msg_buffer L stack r = comm_dev_set_control L stack r SDI_COMM_DEV_BIT_NB_FLUSH_MAILBOX"

text \<open>The control register and the time threshold behind it are written together.\<close>

definition sdi_package_download_complete :: "std_lib \<Rightarrow> u8 list \<Rightarrow> 'w comm_dev_res \<Rightarrow> 'w action" where
  "sdi_package_download_complete L stack r w = do {
     (rc, mbox_control, w) \<leftarrow> comm_dev_read_register r SDI_COMM_DEV_VENDOR_INTELLIGENCE_MAILBOX_CONTROL
       SDI_COMM_DEV_VENDOR_INTELLIGENCE_MAILBOX_CONTROL_SIZE 4 w;
     if rc \<noteq> STD_ERR_OK then Some (rc, w)
     else comm_dev_write_register stack r SDI_COMM_DEV_VENDOR_INTELLIGENCE_MAILBOX_CONTROL 4
       ([bit8_set L (hd mbox_control) SDI_COMM_DEV_BIT_NB_PACKAGE_DOWNLOAD_COMPLETE, mbox_control ! 1]
         @ u16_bytes NORTHBOUND_MAILBOX_TIME_THRESHOLD) w
   }"

definition sdi_mailbox_enable :: "u8 list \<Rightarrow> 'w comm_dev_res \<Rightarrow> bool \<Rightarrow> 'w action" where
  "sdi_mailbox_enable stack r messaging_enable =
     comm_dev_write_register stack r SDI_COMM_DEV_MAILBOX_ENABLE_REG SDI_COMM_DEV_MAILBOX_ENABLE_REG_SIZE
       (u16_bytes (if messaging_enable then SDI_COMM_DEV_MAILBOX_ENABLE else SDI_COMM_DEV_MAILBOX_DISABLE))"

definition comm_dev_clear_status :: "u8 list \<Rightarrow> 'w comm_dev_res \<Rightarrow> 'w action" where
  "comm_dev_clear_status stack r =
     comm_dev_write_register stack r SDI_COMM_DEV_VENDOR_INTELLIGENCE_STATUS_REGISTER
       SDI_COMM_DEV_VENDOR_INTELLIGENCE_STATUS_REGISTER_SIZE (u16_bytes COMM_DEV_STATUS_CLEAR)"

text \<open>The bit of a reset is active low here: the mailbox is enabled again when it is clear.\<close>

definition sdi_comm_dev_reset_refresh :: "std_lib \<Rightarrow> u8 list \<Rightarrow> 'w comm_dev_res \<Rightarrow> 'w action" where
  "sdi_comm_dev_reset_refresh L stack r w = do {
     (rc, comm_dev_status, w) \<leftarrow> comm_dev_read_register r SDI_COMM_DEV_VENDOR_INTELLIGENCE_STATUS_REGISTER
       SDI_COMM_DEV_VENDOR_INTELLIGENCE_STATUS_REGISTER_SIZE 2 w;
     if rc \<noteq> STD_ERR_OK then Some (rc, w)
     else do {
       (rc, w) \<leftarrow> (if bit8_test L (hd comm_dev_status) SDI_COMM_DEV_VENDOR_INTELLIGENCE_STATUS_BIT_RESET
         then Some (rc, w) else sdi_mailbox_enable stack r True w);
       if rc \<noteq> STD_ERR_OK then Some (rc, w) else comm_dev_clear_status stack r w
     }
   }"

text \<open>The alarms are only logged; the error of the clearing is replaced by that of the flush.\<close>

definition sdi_comm_dev_status_check_and_clear :: "std_lib \<Rightarrow> u8 list \<Rightarrow> 'w comm_dev_res \<Rightarrow> 'w action" where
  "sdi_comm_dev_status_check_and_clear L stack r w = do {
     (rc, comm_dev_status, w) \<leftarrow> comm_dev_read_register r SDI_COMM_DEV_VENDOR_INTELLIGENCE_STATUS_REGISTER
       SDI_COMM_DEV_VENDOR_INTELLIGENCE_STATUS_REGISTER_SIZE 2 w;
     if rc \<noteq> STD_ERR_OK then Some (rc, w)
     else do {
       (rc, w) \<leftarrow> comm_dev_clear_status stack r w;
       sdi_flush_msg_buffer L stack r w
     }
   }"

definition sdi_is_buffer_ready :: "std_lib \<Rightarrow> 'w comm_dev_res \<Rightarrow> (bool, 'w) query" where
  "sdi_is_buffer_ready L r ready w = do {
     (rc, mbox_status, w) \<leftarrow> comm_dev_read_register r SDI_COMM_DEV_NORTHBOUND_MAILBOX_STATUS
       SDI_COMM_DEV_NORTHBOUND_MAILBOX_STATUS_SIZE 4 w;
     Some (rc, rc = STD_ERR_OK \<and> \<not> bit8_test L (hd mbox_status) SDI_COMM_DEV_BIT_NB_PACKAGE_IN_MAILBOX, w)
   }"

section \<open>Mailboxes\<close>

record sdi_mailbox_header =
  mbox_checksum :: u16
  mbox_size :: u16

definition header_bytes :: "sdi_mailbox_header \<Rightarrow> u8 list" where
  "header_bytes h = u16_bytes (mbox_checksum h) @ u16_bytes (mbox_size h)"

fun header_of_bytes :: "u8 list \<Rightarrow> sdi_mailbox_header option" where
  "header_of_bytes [a, b, c, d] = Some \<lparr>
     mbox_checksum = push_bit 8 (ucast b) OR ucast a, mbox_size = push_bit 8 (ucast d) OR ucast c\<rparr>"
| "header_of_bytes _ = None"

text \<open>The sum of the bytes of a message and of its size.\<close>

definition mailbox_sum :: "u8 list \<Rightarrow> u16 \<Rightarrow> u16" where
  "mailbox_sum bs n = foldl (\<lambda>s b. s + ucast b) 0 bs + (n AND 0xFF) + drop_bit 8 n"

definition check_mailbox_header :: "u8 list \<Rightarrow> sdi_mailbox_header \<Rightarrow> bool option" where
  "check_mailbox_header p_string p_header = do {
     STD_ASSERT (unat (mbox_size p_header) \<le> length p_string);
     let str_checksum = mailbox_sum (take (unat (mbox_size p_header)) p_string) (mbox_size p_header);
     Some (NOT str_checksum + 1 = mbox_checksum p_header)
   }"

text \<open>strlen of a buffer, which reads on behind a buffer without a NUL.\<close>

fun strlen_bytes :: "u8 list \<Rightarrow> nat option" where
  "strlen_bytes [] = None"
| "strlen_bytes (b # bs) = (if b = 0 then Some 0 else map_option Suc (strlen_bytes bs))"

definition add_mailbox_header :: "u8 list \<Rightarrow> sdi_mailbox_header option" where
  "add_mailbox_header p_string = do {
     n \<leftarrow> strlen_bytes p_string;
     let size = (of_nat n + 1 :: u16);
     STD_ASSERT (unat size \<le> length p_string);
     let str_checksum = mailbox_sum (take (unat size) p_string) size;
     Some \<lparr>mbox_checksum = NOT str_checksum + 1, mbox_size = size\<rparr>
   }"

text \<open>
  The size in the header is looked at before the error of the read, so that a failed read tests
  what the memory of the header held before.
\<close>

definition sdi_read_mailbox :: "u8 list \<Rightarrow> 'w comm_dev_res \<Rightarrow> (u8 list, 'w) query" where
  "sdi_read_mailbox stack r regData w = do {
     (rc, hdr, w) \<leftarrow> sdi_comm_dev_read r COMM_DEV_I2C_ADDR SDI_COMM_DEV_SOUTHBOUND_MAILBOX_START_ADDRESS
       SDI_COMM_DEV_MAILBOX_HEADER_SIZE (take 4 stack) w;
     mailbox_header \<leftarrow> header_of_bytes hdr;
     if SDI_COMM_DEV_BUFFER_MAX_SIZE < mbox_size mailbox_header then Some (SDI_ERRCODE EPERM, regData, w)
     else if rc \<noteq> STD_ERR_OK then Some (rc, regData, w)
     else do {
       (rc, regData, w) \<leftarrow> sdi_comm_dev_read r COMM_DEV_I2C_ADDR
         (SDI_COMM_DEV_SOUTHBOUND_MAILBOX_START_ADDRESS + SDI_COMM_DEV_MAILBOX_HEADER_SIZE)
         (mbox_size mailbox_header) regData w;
       if rc \<noteq> STD_ERR_OK then Some (rc, regData, w)
       else do {
         ok \<leftarrow> check_mailbox_header regData mailbox_header;
         Some (if ok then rc else SDI_ERRCODE EPERM, regData, w)
       }
     }
   }"

definition sdi_write_mailbox :: "std_lib \<Rightarrow> u8 list \<Rightarrow> 'w comm_dev_res \<Rightarrow> u16 \<Rightarrow> u8 list \<Rightarrow> 'w action" where
  "sdi_write_mailbox L stack r len regData w =
     (if cd_type r \<noteq> SDI_RESOURCE_COMM_DEV then Some (SDI_ERRCODE EPERM, w)
      else do {
        (rc, w) \<leftarrow> sdi_comm_dev_status_check_and_clear L stack r w;
        mailbox_header \<leftarrow> add_mailbox_header regData;
        (rc, w) \<leftarrow> sdi_comm_dev_write_block stack (cd_chip r) COMM_DEV_I2C_ADDR
          SDI_COMM_DEV_NORTHBOUND_MAILBOX_START_ADDRESS SDI_COMM_DEV_MAILBOX_HEADER_SIZE
          (header_bytes mailbox_header) w;
        if rc \<noteq> STD_ERR_OK then Some (SDI_ERRCODE EPERM, w)
        else comm_dev_write_blocks stack (cd_chip r) COMM_DEV_I2C_ADDR
          (SDI_COMM_DEV_NORTHBOUND_MAILBOX_START_ADDRESS + SDI_COMM_DEV_MAILBOX_HEADER_SIZE)
          (unat len) regData rc w
      })"

section \<open>Platform information and telemetry\<close>

definition sdi_comm_dev_read_svc_tag :: "'w comm_dev_res \<Rightarrow> (u8 list, 'w) query" where
  "sdi_comm_dev_read_svc_tag r = sdi_comm_dev_read r COMM_DEV_I2C_ADDR SDI_COMM_DEV_CHASSIS_SERVICE_TAG
     SDI_COMM_DEV_CHASSIS_SERVICE_TAG_SIZE"

definition sdi_comm_dev_read_fw_rev :: "'w comm_dev_res \<Rightarrow> (u8 list, 'w) query" where
  "sdi_comm_dev_read_fw_rev r = sdi_comm_dev_read r COMM_DEV_I2C_ADDR SDI_COMM_DEV_DELL_MANAGEMENT_FW_REVS
     SDI_COMM_DEV_DELL_MANAGEMENT_FW_REVS_SIZE"

definition sdi_read_write_iom_fw_revision ::
    "u8 list \<Rightarrow> 'w comm_dev_res \<Rightarrow> bool \<Rightarrow> (u8 list, 'w) query" where
  "sdi_read_write_iom_fw_revision stack r writeFlag regData w =
     (if writeFlag then do {
        (rc, w) \<leftarrow> sdi_comm_dev_write stack r COMM_DEV_I2C_ADDR SDI_COMM_DEV_IOM_VENDOR_FW_REV
          SDI_COMM_DEV_IOM_VENDOR_FW_REV_SIZE regData w;
        Some (rc, regData, w)
      }
      else sdi_comm_dev_read r COMM_DEV_I2C_ADDR SDI_COMM_DEV_IOM_VENDOR_FW_REV
        SDI_COMM_DEV_IOM_VENDOR_FW_REV_SIZE regData w)"

definition sdi_comm_dev_read_iom_slot :: "'w comm_dev_res \<Rightarrow> (u32, 'w) query" where
  "sdi_comm_dev_read_iom_slot r iom_slot w = do {
     (rc, slot_bytes, w) \<leftarrow> comm_dev_read_register r SDI_COMM_DEV_IOM_SLOT_OCCUPATION
       SDI_COMM_DEV_IOM_SLOT_OCCUPATION_SIZE 2 w;
     Some (rc, if rc = STD_ERR_OK then ucast (hd slot_bytes) AND 0x002F else 0, w)
   }"

text \<open>The information is cleared first and filled as far as the reads succeed.\<close>

definition zero_platform_info :: sdi_platform_info where
  "zero_platform_info = \<lparr>chassis_service_tag = replicate SDI_COMM_DEV_SERVICE_TAG_SIZE 0,
     comm_dev_fw_ver = replicate SDI_COMM_DEV_FW_VERSION_SIZE 0, slot_occupation = 0\<rparr>"

definition sdi_read_platform_info :: "'w comm_dev_res \<Rightarrow> (sdi_platform_info, 'w) query" where
  "sdi_read_platform_info r platform_info w = do {
     let p = zero_platform_info;
     (rc, tag, w) \<leftarrow> sdi_comm_dev_read_svc_tag r (chassis_service_tag p) w;
     let p = p\<lparr>chassis_service_tag := tag\<rparr>;
     if rc \<noteq> STD_ERR_OK then Some (rc, p, w)
     else do {
       (rc, ver, w) \<leftarrow> sdi_comm_dev_read_fw_rev r (comm_dev_fw_ver p) w;
       let p = p\<lparr>comm_dev_fw_ver := ver\<rparr>;
       if rc \<noteq> STD_ERR_OK then Some (rc, p, w)
       else do {
         (rc, iom_slot, w) \<leftarrow> sdi_comm_dev_read_iom_slot r (slot_occupation p) w;
         Some (rc, p\<lparr>slot_occupation := iom_slot\<rparr>, w)
       }
     }
   }"

text \<open>Temperatures are written in tenths of a degree, cut to two bytes.\<close>

definition sdi_write_sensor_06_telemetry ::
    "std_lib \<Rightarrow> u8 list \<Rightarrow> 'w comm_dev_res \<Rightarrow> u32 \<Rightarrow> 'w action" where
  "sdi_write_sensor_06_telemetry L stack r input_temperature w = do {
     (rc, w) \<leftarrow> sdi_comm_dev_reset_refresh L stack r w;
     if rc \<noteq> STD_ERR_OK then Some (rc, w)
     else do {
       t \<leftarrow> int_times_10 input_temperature;
       sdi_comm_dev_write stack r COMM_DEV_I2C_ADDR SDI_COMM_DEV_SENSOR_06_TELEMETRY
         SDI_COMM_DEV_SENSOR_06_TELEMETRY_SIZE (u16_bytes (ucast t)) w
     }
   }"

definition sdi_write_sensor_07_telemetry :: "u8 list \<Rightarrow> 'w comm_dev_res \<Rightarrow> u32 \<Rightarrow> 'w action" where
  "sdi_write_sensor_07_telemetry stack r input_temperature w = do {
     t \<leftarrow> int_times_10 input_temperature;
     sdi_comm_dev_write stack r COMM_DEV_I2C_ADDR SDI_COMM_DEV_SENSOR_07_TELEMETRY
       SDI_COMM_DEV_SENSOR_07_TELEMETRY_SIZE (u16_bytes (ucast t)) w
   }"

section \<open>Registration\<close>

definition comm_dev_ctrl :: "std_lib \<Rightarrow> u8 list \<Rightarrow> 'w comm_dev_res \<Rightarrow> 'w comm_dev_ctrl" where
  "comm_dev_ctrl L stack r = \<lparr>
     read_mbox = sdi_read_mailbox stack r,
     write_mbox = sdi_write_mailbox L stack r,
     write_pckg_read_verif = sdi_package_read_and_verified L stack r,
     write_pckg_downl_compl = sdi_package_download_complete L stack r,
     access_fw_rev = sdi_read_write_iom_fw_revision stack r,
     write_temp_sensor = sdi_write_sensor_06_telemetry L stack r,
     write_npu_temp_sensor = sdi_write_sensor_06_telemetry L stack r,
     write_ambient_temp_sensor = sdi_write_sensor_07_telemetry stack r,
     read_platform_info = sdi_read_platform_info r,
     flush_msg_buffer = sdi_flush_msg_buffer L stack r,
     get_buffer_ready = sdi_is_buffer_ready L r,
     ctrl_messaging_enable = sdi_mailbox_enable stack r\<rparr>"

text \<open>The device that the registration makes: the bus, and nothing else set.\<close>

definition bare_chip :: "'w sdi_i2c_bus \<Rightarrow> 'w chip" where
  "bare_chip b = \<lparr>chip_bus = b, chip_addr = \<lparr>i2c_addr = 0, addr_mode_16bit = False\<rparr>,
     chip_instance = 0, chip_alias = []\<rparr>"

definition sdi_comm_dev_driver_register ::
    "std_lib \<Rightarrow> u8 list \<Rightarrow> 'w sdi_i2c_bus \<Rightarrow> 'w sdi_sys \<Rightarrow> (t_std_error \<times> 'w chip \<times> 'w sdi_sys) option" where
  "sdi_comm_dev_driver_register L stack bus_handle s = do {
     STD_ASSERT (bus_type (bus bus_handle) = SDI_I2C_BUS);
     let dev_hdl = bare_chip bus_handle;
     Some (STD_ERR_OK, dev_hdl, sdi_resource_add L SDI_RESOURCE_COMM_DEV ''comm_dev''
       (Comm_Dev_Fns (comm_dev_ctrl L stack \<lparr>cd_type = SDI_RESOURCE_COMM_DEV, cd_chip = dev_hdl\<rparr>)) s)
   }"

definition sdi_comm_dev_driver_init :: "'w action" where
  "sdi_comm_dev_driver_init w = Some (STD_ERR_OK, w)"

section \<open>The external control\<close>

record comm_dev_ext_ctrl_device =
  cdx_ctrl_value_offset :: u16
  cdx_width :: u16
  cdx_step :: u16
  cdx_refresh :: bool

definition SDI_COMM_DEV_MAX_CTRL_DATA_LEN :: u16 where "SDI_COMM_DEV_MAX_CTRL_DATA_LEN = 2"

text \<open>After an error of the read, the value comes from what the buffer held.\<close>

definition sdi_comm_dev_ext_ctrl_data_get ::
    "u8 list \<Rightarrow> 'w comm_dev_res \<Rightarrow> u16 \<Rightarrow> u16 \<Rightarrow> (u32 \<times> u32, 'w) query" where
  "sdi_comm_dev_ext_ctrl_data_get stack r offset width out w = do {
     STD_ASSERT (width = SDI_COMM_DEV_MAX_CTRL_DATA_LEN);
     (rc, buffer, w) \<leftarrow> sdi_comm_dev_read r COMM_DEV_I2C_ADDR offset width (take 2 stack) w;
     STD_ASSERT (length buffer = 2);
     let data = push_bit 8 (ucast (buffer ! 1)) OR ucast (buffer ! 0);
     Some (rc, (int_div_10 data, 1), w)
   }"

definition sdi_comm_dev_ext_ctrl_data_set ::
    "std_lib \<Rightarrow> u8 list \<Rightarrow> 'w comm_dev_res \<Rightarrow> u16 \<Rightarrow> u16 \<Rightarrow> u32 \<Rightarrow> u32 \<Rightarrow> bool \<Rightarrow> 'w action" where
  "sdi_comm_dev_ext_ctrl_data_set L stack r offset width data size_in refresh w = do {
     STD_ASSERT (width = SDI_COMM_DEV_MAX_CTRL_DATA_LEN);
     STD_ASSERT (size_in = 1);
     t \<leftarrow> int_times_10 data;
     (rc, w) \<leftarrow> (if refresh then sdi_comm_dev_reset_refresh L stack r w else Some (STD_ERR_OK, w));
     if rc \<noteq> STD_ERR_OK then Some (rc, w)
     else sdi_comm_dev_write stack r COMM_DEV_I2C_ADDR offset width (u16_bytes (ucast t)) w
   }"

definition sdi_comm_dev_ext_ctrl_get ::
    "u8 list \<Rightarrow> 'w comm_dev_res \<Rightarrow> comm_dev_ext_ctrl_device \<Rightarrow> (u32 list \<times> u32, 'w) query" where
  "sdi_comm_dev_ext_ctrl_get stack r d out w = do {
     STD_ASSERT (fst out \<noteq> []);
     (rc, data_size, w) \<leftarrow> sdi_comm_dev_ext_ctrl_data_get stack r (cdx_ctrl_value_offset d) (cdx_width d)
       (hd (fst out), snd out) w;
     Some (rc, (fst data_size # tl (fst out), snd data_size), w)
   }"

definition sdi_comm_dev_ext_ctrl_set ::
    "std_lib \<Rightarrow> u8 list \<Rightarrow> 'w comm_dev_res \<Rightarrow> comm_dev_ext_ctrl_device \<Rightarrow> u32 list \<Rightarrow> u32 \<Rightarrow> 'w action" where
  "sdi_comm_dev_ext_ctrl_set L stack r d data size_in w = do {
     STD_ASSERT (data \<noteq> []);
     sdi_comm_dev_ext_ctrl_data_set L stack r (cdx_ctrl_value_offset d) (cdx_width d) (hd data) size_in
       (cdx_refresh d) w
   }"

definition sdi_comm_dev_ext_ctrl ::
    "std_lib \<Rightarrow> u8 list \<Rightarrow> 'w comm_dev_res \<Rightarrow> comm_dev_ext_ctrl_device \<Rightarrow> 'w ext_ctrl" where
  "sdi_comm_dev_ext_ctrl L stack r d = \<lparr>
     ec_init = None,
     ec_get = sdi_comm_dev_ext_ctrl_get stack r d,
     ec_set = sdi_comm_dev_ext_ctrl_set L stack r d\<rparr>"

text \<open>
  The defaults of width and step are one. The resource of the communication device is looked up by
  its name; \<open>chips\<close> gives the device that the callback handle of a resource points to.
\<close>

definition comm_dev_ext_ctrl_new :: "config_node \<Rightarrow> comm_dev_ext_ctrl_device" where
  "comm_dev_ext_ctrl_new node = \<lparr>
     cdx_ctrl_value_offset = (case std_config_attr_get node ''ctrl_value_offset'' of None \<Rightarrow> 0 | Some a \<Rightarrow> ucast (strtol a 0)),
     cdx_width = (case std_config_attr_get node ''width'' of None \<Rightarrow> 1 | Some a \<Rightarrow> ucast (strtol a 0)),
     cdx_step = (case std_config_attr_get node ''step'' of None \<Rightarrow> 1 | Some a \<Rightarrow> ucast (strtol a 0)),
     cdx_refresh = (case std_config_attr_get node ''refresh'' of None \<Rightarrow> False | Some a \<Rightarrow> ucast (strtol a 0) \<noteq> (0 :: u16))\<rparr>"

definition sdi_comm_dev_ext_ctrl_register ::
    "std_lib \<Rightarrow> u8 list \<Rightarrow> (res_hdl \<Rightarrow> 'w chip) \<Rightarrow> config_node \<Rightarrow> 'w sdi_i2c_bus \<Rightarrow> 'w sdi_sys
      \<Rightarrow> (t_std_error \<times> 'w sdi_sys) option" where
  "sdi_comm_dev_ext_ctrl_register L stack chips node bus_handle s = do {
     STD_ASSERT (bus_type (bus bus_handle) = SDI_I2C_BUS);
     h \<leftarrow> sdi_find_resource_by_name ''comm_dev'' s;
     let r = \<lparr>cd_type = res_type (resource_heap s h), cd_chip = chips h\<rparr>;
     let alias = device_alias L ''comm_dev_ext_ctrl-'' node (sensor_instance node);
     let name = safestrncpy L SDI_MAX_NAME_LEN
       (case std_config_attr_get node ''name'' of Some a \<Rightarrow> a | None \<Rightarrow> alias);
     Some (STD_ERR_OK, sdi_resource_add L SDI_RESOURCE_EXT_CONTROL name
       (Ext_Ctrl_Fns (sdi_comm_dev_ext_ctrl L stack r (comm_dev_ext_ctrl_new node))) s)
   }"

definition sdi_comm_dev_ext_ctrl_chip_init :: "'w action" where
  "sdi_comm_dev_ext_ctrl_chip_init w = Some (STD_ERR_OK, w)"

section \<open>The CPLD of the host system\<close>

definition MASTER_CPLD_I2C_ADDR :: u8 where "MASTER_CPLD_I2C_ADDR = 0x33"
definition SDI_CPLD_CTRL1_REGISTER_OFFSET :: u32 where "SDI_CPLD_CTRL1_REGISTER_OFFSET = 0x12"
definition SDI_CPLD_CTRL1_BIT_IOM_SLOT_POS :: u32 where "SDI_CPLD_CTRL1_BIT_IOM_SLOT_POS = 1"
definition SDI_CPLD_CTRL1_BIT_IOM_BOOTED :: u32 where "SDI_CPLD_CTRL1_BIT_IOM_BOOTED = 3"
definition SDI_CPLD_CTRL1_BIT_IOM_PACKG_NOTIFY :: u32 where "SDI_CPLD_CTRL1_BIT_IOM_PACKG_NOTIFY = 5"

text \<open>The register that all functions read first.\<close>

definition cpld_ctrl1 :: "'w chip \<Rightarrow> 'w \<Rightarrow> (t_std_error \<times> u8 \<times> 'w) option" where
  "cpld_ctrl1 cpld_device = sdi_smbus_read_byte (chip_bus cpld_device)
     (comm_dev_i2c_addr MASTER_CPLD_I2C_ADDR) (SDI_CPLD_CTRL1_REGISTER_OFFSET AND 0xFF) 0 SDI_I2C_FLAG_NONE"

definition sdi_cpld_get_iom_slot_pos :: "std_lib \<Rightarrow> 'w chip \<Rightarrow> (u8, 'w) query" where
  "sdi_cpld_get_iom_slot_pos L cpld_device input_slot w = do {
     (rc, v, w) \<leftarrow> cpld_ctrl1 cpld_device w;
     if rc \<noteq> STD_ERR_OK then Some (rc, input_slot, w)
     else Some (rc, if bit8_test L v SDI_CPLD_CTRL1_BIT_IOM_SLOT_POS then 1 else 0, w)
   }"

definition sdi_cpld_get_iom_pkg_notify :: "std_lib \<Rightarrow> 'w chip \<Rightarrow> (bool, 'w) query" where
  "sdi_cpld_get_iom_pkg_notify L cpld_device input_presence w = do {
     (rc, presence, w) \<leftarrow> cpld_ctrl1 cpld_device w;
     if rc \<noteq> STD_ERR_OK then Some (rc, input_presence, w)
     else Some (rc, bit8_test L presence SDI_CPLD_CTRL1_BIT_IOM_PACKG_NOTIFY, w)
   }"

definition sdi_cpld_set_iom_booted :: "std_lib \<Rightarrow> 'w chip \<Rightarrow> bool \<Rightarrow> 'w action" where
  "sdi_cpld_set_iom_booted L cpld_device input_booted w = do {
     (rc, booted, w) \<leftarrow> cpld_ctrl1 cpld_device w;
     if rc \<noteq> STD_ERR_OK then Some (rc, w)
     else sdi_smbus_write_byte (chip_bus cpld_device) (comm_dev_i2c_addr MASTER_CPLD_I2C_ADDR)
       SDI_CPLD_CTRL1_REGISTER_OFFSET
       (if input_booted then bit8_set L booted SDI_CPLD_CTRL1_BIT_IOM_BOOTED
        else bit8_clear L booted SDI_CPLD_CTRL1_BIT_IOM_BOOTED) SDI_I2C_FLAG_NONE w
   }"

definition cpld_ctrl :: "std_lib \<Rightarrow> 'w chip \<Rightarrow> 'w host_system_ctrl" where
  "cpld_ctrl L c = \<lparr>
     get_slot = sdi_cpld_get_iom_slot_pos L c,
     get_pkg_notify = sdi_cpld_get_iom_pkg_notify L c,
     set_booted = sdi_cpld_set_iom_booted L c\<rparr>"

definition sdi_cpld_driver_register ::
    "std_lib \<Rightarrow> 'w sdi_i2c_bus \<Rightarrow> 'w sdi_sys \<Rightarrow> (t_std_error \<times> 'w chip \<times> 'w sdi_sys) option" where
  "sdi_cpld_driver_register L bus_handle s = do {
     STD_ASSERT (bus_type (bus bus_handle) = SDI_I2C_BUS);
     let dev_hdl = bare_chip bus_handle;
     Some (STD_ERR_OK, dev_hdl, sdi_resource_add L SDI_RESOURCE_HOST_SYSTEM ''cpld''
       (Host_System_Fns (cpld_ctrl L dev_hdl)) s)
   }"

definition sdi_cpld_driver_init :: "'w action" where
  "sdi_cpld_driver_init w = Some (STD_ERR_OK, w)"

end
