(* ===== verification/Comm_Dev_Api.thy ===== *)
theory Comm_Dev_Api
  imports Comm_Dev Hwcore_Api
begin

text \<open>
  The calls on the communication device and the host system (src/hwcore/sdi\_comm\_dev.c,
  sdi\_host\_system.c). None of them asks whether the system has been initialised.
\<close>

section \<open>Messages\<close>

text \<open>
  A read clears as much of the buffer as the caller says it has; the driver then takes the length
  of the message from the mailbox.
\<close>

definition sdi_comm_dev_msg_read ::
    "res_hdl \<Rightarrow> u16 \<Rightarrow> u8 list \<Rightarrow> 'w sdi_sys \<Rightarrow> (t_std_error \<times> u8 list \<times> 'w sdi_sys) option" where
  "sdi_comm_dev_msg_read h size_data read_data s = do {
     STD_ASSERT (size_data \<noteq> 0 \<and> size_data \<le> SDI_COMM_DEV_BUFFER_MAX_SIZE);
     STD_ASSERT (unat size_data \<le> length read_data);
     let read_data = replicate (unat size_data) 0 @ drop (unat size_data) read_data;
     let r = resource_heap s h;
     if res_type r \<noteq> SDI_RESOURCE_COMM_DEV then Some (SDI_ERRCODE EPERM, read_data, s)
     else do {
       f \<leftarrow> as_comm_dev (callback_fns r);
       (rc, read_data, s) \<leftarrow> ask (read_mbox f read_data) s;
       if rc \<noteq> STD_ERR_OK then Some (rc, read_data, s)
       else do {
         (rc, s) \<leftarrow> act (write_pckg_read_verif f) s;
         Some (rc, read_data, s)
       }
     }
   }"

definition sdi_comm_dev_msg_write ::
    "res_hdl \<Rightarrow> u16 \<Rightarrow> u8 list \<Rightarrow> 'w sdi_sys \<Rightarrow> (t_std_error \<times> 'w sdi_sys) option" where
  "sdi_comm_dev_msg_write h size_data write_data s = do {
     STD_ASSERT (size_data \<noteq> 0 \<and> size_data \<le> SDI_COMM_DEV_BUFFER_MAX_SIZE);
     let r = resource_heap s h;
     if res_type r \<noteq> SDI_RESOURCE_COMM_DEV then Some (SDI_ERRCODE EPERM, s)
     else do {
       f \<leftarrow> as_comm_dev (callback_fns r);
       (rc, s) \<leftarrow> act (write_mbox f size_data write_data) s;
       if rc \<noteq> STD_ERR_OK then Some (rc, s) else act (write_pckg_downl_compl f) s
     }
   }"

section \<open>Information, telemetry and control\<close>

definition sdi_comm_dev_platform_info_get ::
    "res_hdl \<Rightarrow> sdi_platform_info \<Rightarrow> 'w sdi_sys \<Rightarrow> (t_std_error \<times> sdi_platform_info \<times> 'w sdi_sys) option" where
  "sdi_comm_dev_platform_info_get h platform_info s =
     (let r = resource_heap s h in
      if res_type r \<noteq> SDI_RESOURCE_COMM_DEV then Some (SDI_ERRCODE EPERM, platform_info, s)
      else do { f \<leftarrow> as_comm_dev (callback_fns r); ask (read_platform_info f zero_platform_info) s })"

definition sdi_comm_dev_host_sw_version_get ::
    "res_hdl \<Rightarrow> u8 list \<Rightarrow> 'w sdi_sys \<Rightarrow> (t_std_error \<times> u8 list \<times> 'w sdi_sys) option" where
  "sdi_comm_dev_host_sw_version_get h fw_rev s =
     (let r = resource_heap s h in
      if res_type r \<noteq> SDI_RESOURCE_COMM_DEV then Some (SDI_ERRCODE EPERM, fw_rev, s)
      else do { f \<leftarrow> as_comm_dev (callback_fns r); ask (access_fw_rev f False fw_rev) s })"

definition sdi_comm_dev_host_sw_version_set ::
    "res_hdl \<Rightarrow> u8 list \<Rightarrow> 'w sdi_sys \<Rightarrow> (t_std_error \<times> u8 list \<times> 'w sdi_sys) option" where
  "sdi_comm_dev_host_sw_version_set h fw_rev s =
     (let r = resource_heap s h in
      if res_type r \<noteq> SDI_RESOURCE_COMM_DEV then Some (SDI_ERRCODE EPERM, fw_rev, s)
      else do { f \<leftarrow> as_comm_dev (callback_fns r); ask (access_fw_rev f True fw_rev) s })"

definition sdi_comm_dev_host_temperature_set ::
    "res_hdl \<Rightarrow> u32 \<Rightarrow> 'w sdi_sys \<Rightarrow> (t_std_error \<times> 'w sdi_sys) option" where
  "sdi_comm_dev_host_temperature_set h temp s =
     (let r = resource_heap s h in
      if res_type r \<noteq> SDI_RESOURCE_COMM_DEV then Some (SDI_ERRCODE EPERM, s)
      else do { f \<leftarrow> as_comm_dev (callback_fns r); act (write_temp_sensor f temp) s })"

definition sdi_comm_dev_host_npu_temperature_set ::
    "res_hdl \<Rightarrow> u32 \<Rightarrow> 'w sdi_sys \<Rightarrow> (t_std_error \<times> 'w sdi_sys) option" where
  "sdi_comm_dev_host_npu_temperature_set h temp s =
     (let r = resource_heap s h in
      if res_type r \<noteq> SDI_RESOURCE_COMM_DEV then Some (SDI_ERRCODE EPERM, s)
      else do { f \<leftarrow> as_comm_dev (callback_fns r); act (write_npu_temp_sensor f temp) s })"

definition sdi_comm_dev_host_ambient_temperature_set ::
    "res_hdl \<Rightarrow> u32 \<Rightarrow> 'w sdi_sys \<Rightarrow> (t_std_error \<times> 'w sdi_sys) option" where
  "sdi_comm_dev_host_ambient_temperature_set h temp s =
     (let r = resource_heap s h in
      if res_type r \<noteq> SDI_RESOURCE_COMM_DEV then Some (SDI_ERRCODE EPERM, s)
      else do { f \<leftarrow> as_comm_dev (callback_fns r); act (write_ambient_temp_sensor f temp) s })"

definition sdi_comm_dev_messaging_enable ::
    "res_hdl \<Rightarrow> bool \<Rightarrow> 'w sdi_sys \<Rightarrow> (t_std_error \<times> 'w sdi_sys) option" where
  "sdi_comm_dev_messaging_enable h messaging_enable s =
     (let r = resource_heap s h in
      if res_type r \<noteq> SDI_RESOURCE_COMM_DEV then Some (SDI_ERRCODE EPERM, s)
      else do { f \<leftarrow> as_comm_dev (callback_fns r); act (ctrl_messaging_enable f messaging_enable) s })"

definition sdi_comm_dev_flush_msg_buffer ::
    "res_hdl \<Rightarrow> 'w sdi_sys \<Rightarrow> (t_std_error \<times> 'w sdi_sys) option" where
  "sdi_comm_dev_flush_msg_buffer h s =
     (let r = resource_heap s h in
      if res_type r \<noteq> SDI_RESOURCE_COMM_DEV then Some (SDI_ERRCODE EPERM, s)
      else do { f \<leftarrow> as_comm_dev (callback_fns r); act (flush_msg_buffer f) s })"

definition sdi_comm_dev_is_write_buffer_ready ::
    "res_hdl \<Rightarrow> bool \<Rightarrow> 'w sdi_sys \<Rightarrow> (t_std_error \<times> bool \<times> 'w sdi_sys) option" where
  "sdi_comm_dev_is_write_buffer_ready h ready s =
     (let r = resource_heap s h in
      if res_type r \<noteq> SDI_RESOURCE_COMM_DEV then Some (SDI_ERRCODE EPERM, ready, s)
      else do { f \<leftarrow> as_comm_dev (callback_fns r); ask (get_buffer_ready f ready) s })"

section \<open>The host system\<close>

definition sdi_comm_dev_is_msg_present ::
    "res_hdl \<Rightarrow> bool \<Rightarrow> 'w sdi_sys \<Rightarrow> (t_std_error \<times> bool \<times> 'w sdi_sys) option" where
  "sdi_comm_dev_is_msg_present h presence s =
     (let r = resource_heap s h in
      if res_type r \<noteq> SDI_RESOURCE_HOST_SYSTEM then Some (SDI_ERRCODE EPERM, presence, s)
      else do { f \<leftarrow> as_host_system (callback_fns r); ask (get_pkg_notify f presence) s })"

definition sdi_host_system_slot_pos_get ::
    "res_hdl \<Rightarrow> u8 \<Rightarrow> 'w sdi_sys \<Rightarrow> (t_std_error \<times> u8 \<times> 'w sdi_sys) option" where
  "sdi_host_system_slot_pos_get h slot_out s =
     (let r = resource_heap s h in
      if res_type r \<noteq> SDI_RESOURCE_HOST_SYSTEM then Some (SDI_ERRCODE EPERM, slot_out, s)
      else do { f \<leftarrow> as_host_system (callback_fns r); ask (get_slot f slot_out) s })"

definition sdi_host_system_booted_set ::
    "res_hdl \<Rightarrow> bool \<Rightarrow> 'w sdi_sys \<Rightarrow> (t_std_error \<times> 'w sdi_sys) option" where
  "sdi_host_system_booted_set h booted s =
     (let r = resource_heap s h in
      if res_type r \<noteq> SDI_RESOURCE_HOST_SYSTEM then Some (SDI_ERRCODE EPERM, s)
      else do { f \<leftarrow> as_host_system (callback_fns r); act (set_booted f booted) s })"

end
