(* ===== verification/Comm_Messages.thy ===== *)
theory Comm_Messages
  imports Comm_Dev_Api
begin

text \<open>
  What the communication device promises to its driver, a memory with an address counter, and what
  follows for the driver: data and messages arrive as they were sent.
\<close>

section \<open>Stretches of memory\<close>

fun put_bytes :: "(u16 \<Rightarrow> u8) \<Rightarrow> u16 \<Rightarrow> u8 list \<Rightarrow> (u16 \<Rightarrow> u8)" where
  "put_bytes m a [] = m"
| "put_bytes m a (b # bs) = put_bytes (m(a := b)) (a + 1) bs"

definition memory_from :: "(u16 \<Rightarrow> u8) \<Rightarrow> u16 \<Rightarrow> nat \<Rightarrow> u8 list" where
  "memory_from m a n = map (\<lambda>i. m (a + of_nat i)) [0..<n]"

lemma length_memory_from [simp]: "length (memory_from m a n) = n"
  by (simp add: memory_from_def)

lemma memory_from_0 [simp]: "memory_from m a 0 = []"
  by (simp add: memory_from_def)

lemma memory_from_Suc: "memory_from m a (Suc n) = m a # memory_from m (a + 1) n"
proof -
  have "[0..<Suc n] = 0 # map Suc [0..<n]" by (simp add: map_Suc_upt upt_conv_Cons)
  then show ?thesis by (simp add: memory_from_def algebra_simps del: upt_Suc)
qed

lemma memory_from_add: "memory_from m a (k + n) = memory_from m a k @ memory_from m (a + of_nat k) n"
  by (induction k arbitrary: a) (simp_all add: memory_from_Suc algebra_simps)

lemma memory_from_nth [simp]: "i < n \<Longrightarrow> memory_from m a n ! i = m (a + of_nat i)"
  by (simp add: memory_from_def)

lemma memory_from_cong:
  "(\<And>i. i < n \<Longrightarrow> m' (c + of_nat i) = m (a + of_nat i)) \<Longrightarrow> memory_from m' c n = memory_from m a n"
  by (simp add: memory_from_def)

lemma put_bytes_append:
  "put_bytes m a (xs @ ys) = put_bytes (put_bytes m a xs) (a + of_nat (length xs)) ys"
  by (induction xs arbitrary: m a) (simp_all add: algebra_simps)

lemma unat_Suc_u16: "unat (a :: u16) + 1 < 65536 \<Longrightarrow> unat (a + 1) = unat a + 1"
  by (simp add: unat_word_ariths)

lemma put_bytes_other:
  "unat a + length bs \<le> 65536 \<Longrightarrow> unat x < unat a \<or> unat a + length bs \<le> unat x \<Longrightarrow>
     put_bytes m a bs x = m x"
proof (induction bs arbitrary: m a)
  case (Cons b bs)
  have "x \<noteq> a" using Cons.prems(2) by auto
  show ?case
  proof (cases bs)
    case Nil
    then show ?thesis using \<open>x \<noteq> a\<close> by simp
  next
    case (Cons c cs)
    then have "unat (a + 1) = unat a + 1" using Cons.prems(1) by (intro unat_Suc_u16) simp
    then have "put_bytes (m(a := b)) (a + 1) bs x = (m(a := b)) x"
      using Cons.prems by (intro Cons.IH) auto
    then show ?thesis using \<open>x \<noteq> a\<close> by simp
  qed
qed simp

lemma put_bytes_at:
  "unat a + length bs \<le> 65536 \<Longrightarrow> i < length bs \<Longrightarrow> put_bytes m a bs (a + of_nat i) = bs ! i"
proof (induction bs arbitrary: m a i)
  case (Cons b bs)
  have next_a: "unat (a + 1) = unat a + 1" if "bs \<noteq> []"
    using that Cons.prems(1) by (intro unat_Suc_u16) (cases bs; simp)
  show ?case
  proof (cases i)
    case 0
    show ?thesis
    proof (cases "bs = []")
      case False
      then show ?thesis
        using put_bytes_other [of "a + 1" bs a] next_a Cons.prems(1) 0 by simp
    qed (simp add: 0)
  next
    case (Suc j)
    then have "bs \<noteq> []" using Cons.prems(2) by auto
    then have "put_bytes (m(a := b)) (a + 1) bs (a + 1 + of_nat j) = bs ! j"
      using next_a Cons.prems Suc by (intro Cons.IH) simp_all
    then show ?thesis using Suc by (simp add: algebra_simps)
  qed
qed simp

lemma memory_from_put:
  "unat a + length bs \<le> 65536 \<Longrightarrow> memory_from (put_bytes m a bs) a (length bs) = bs"
  by (rule nth_equalityI) (simp_all add: put_bytes_at)

lemma unat_add_u16: "unat (c :: u16) + i < 65536 \<Longrightarrow> unat (c + of_nat i) = unat c + i"
  by (simp add: unat_word_ariths unat_of_nat)

lemma memory_from_put_other:
  assumes "unat a + length bs \<le> 65536" and "unat c + n \<le> 65536"
    and "unat c + n \<le> unat a \<or> unat a + length bs \<le> unat c"
  shows "memory_from (put_bytes m a bs) c n = memory_from m c n"
  using assms by (intro memory_from_cong put_bytes_other) (auto simp: unat_add_u16)

section \<open>The device\<close>

text \<open>
  A write of one byte sets the address counter: its low byte is the command, its high byte the data. A
  receive delivers the byte at the counter and moves the counter on. A block write stores its bytes
  from an address on, whose high byte is in front of the data.
\<close>

abbreviation comm_addr :: sdi_i2c_addr where
  "comm_addr \<equiv> comm_dev_i2c_addr COMM_DEV_I2C_ADDR"

definition comm_memory :: "'w sdi_i2c_bus \<Rightarrow> ('w \<Rightarrow> u16 \<Rightarrow> u8) \<Rightarrow> ('w \<Rightarrow> u16) \<Rightarrow> bool" where
  "comm_memory h mem ptr \<longleftrightarrow>
     (\<forall>c v w. \<exists>w'. sdi_smbus_write_byte h comm_addr (ucast (c :: u16)) v SDI_I2C_FLAG_NONE w =
        Some (STD_ERR_OK, w') \<and> mem w' = mem w \<and>
        ptr w' = push_bit 8 (ucast v) OR (c AND 0xFF)) \<and>
     (\<forall>b w. \<exists>w'. sdi_smbus_recv_byte h comm_addr b SDI_I2C_FLAG_NONE w =
        Some (STD_ERR_OK, mem w (ptr w), w') \<and> mem w' = mem w \<and> ptr w' = ptr w + 1) \<and>
     (\<forall>stack a n bs w. n \<le> 16 \<longrightarrow> unat n \<le> length bs \<longrightarrow>
        (\<exists>w'. sdi_smbus_write_i2c_block_data stack h comm_addr a n bs SDI_I2C_FLAG_NONE w =
          Some (STD_ERR_OK, w') \<and> mem w' = put_bytes (mem w) a (take (unat n) bs)))"

lemma comm_memoryD:
  assumes "comm_memory h mem ptr"
  shows "\<exists>w'. sdi_smbus_write_byte h comm_addr (ucast (c :: u16)) v SDI_I2C_FLAG_NONE w =
      Some (STD_ERR_OK, w') \<and> mem w' = mem w \<and> ptr w' = push_bit 8 (ucast v) OR (c AND 0xFF)"
    and "\<exists>w'. sdi_smbus_recv_byte h comm_addr b SDI_I2C_FLAG_NONE w =
      Some (STD_ERR_OK, mem w (ptr w), w') \<and> mem w' = mem w \<and> ptr w' = ptr w + 1"
    and "n \<le> 16 \<Longrightarrow> unat n \<le> length bs \<Longrightarrow>
      \<exists>w'. sdi_smbus_write_i2c_block_data stack h comm_addr a n bs SDI_I2C_FLAG_NONE w =
        Some (STD_ERR_OK, w') \<and> mem w' = put_bytes (mem w) a (take (unat n) bs)"
  using assms unfolding comm_memory_def by blast+

lemma comm_recv_each:
  assumes M: "comm_memory h mem ptr"
  shows "n \<le> length bs \<Longrightarrow> \<exists>w'. comm_dev_recv_each h comm_addr n STD_ERR_OK bs w =
    Some (STD_ERR_OK, memory_from (mem w) (ptr w) n @ drop n bs, w') \<and> mem w' = mem w"
proof (induction n arbitrary: bs w)
  case (Suc n)
  then obtain b rest where bs: "bs = b # rest" by (cases bs) auto
  obtain w1 where w1: "sdi_smbus_recv_byte h comm_addr b SDI_I2C_FLAG_NONE w =
      Some (STD_ERR_OK, mem w (ptr w), w1)" "mem w1 = mem w" "ptr w1 = ptr w + 1"
    using comm_memoryD(2) [OF M] by blast
  obtain w2 where "comm_dev_recv_each h comm_addr n STD_ERR_OK rest w1 =
      Some (STD_ERR_OK, memory_from (mem w) (ptr w + 1) n @ drop n rest, w2)" "mem w2 = mem w"
    using Suc.IH [of rest w1] Suc.prems bs w1(2,3) by auto
  then show ?case using w1 bs by (simp add: memory_from_Suc)
qed simp

lemma address_of_bytes: "push_bit 8 (ucast (ucast (drop_bit 8 a) :: u8)) OR ((a AND 0xFF) AND 0xFF) = (a :: u16)"
proof -
  have "(0xFF :: u16) = mask 8" by (simp add: mask_eq_exp_minus_1)
  then show ?thesis
    by (simp only:) (rule bit_word_eqI, auto simp: bit_simps dest: bit_imp_le_length)
qed

lemma comm_read:
  assumes M: "comm_memory (chip_bus (cd_chip r)) mem ptr" and r: "cd_type r = SDI_RESOURCE_COMM_DEV"
    and "unat n \<le> length bs"
  shows "\<exists>w'. sdi_comm_dev_read r COMM_DEV_I2C_ADDR a n bs w =
    Some (STD_ERR_OK, memory_from (mem w) a (unat n) @ drop (unat n) bs, w') \<and> mem w' = mem w"
proof -
  obtain w1 where w1: "sdi_smbus_write_byte (chip_bus (cd_chip r)) comm_addr (ucast (a AND 0xFF))
      (ucast (drop_bit 8 a)) SDI_I2C_FLAG_NONE w = Some (STD_ERR_OK, w1)" "mem w1 = mem w" "ptr w1 = a"
    using comm_memoryD(1) [OF M, of "a AND 0xFF" "ucast (drop_bit 8 a)" w]
    unfolding address_of_bytes by blast
  show ?thesis
    using w1 comm_recv_each [OF M assms(3), of w1] r
    by (simp add: sdi_comm_dev_read_def sdi_comm_dev_recv_byte_def)
qed

lemma comm_write_block:
  assumes M: "comm_memory (chip_bus c) mem ptr" and "n \<le> 16" and "unat n \<le> length bs"
  shows "\<exists>w'. sdi_comm_dev_write_block stack c COMM_DEV_I2C_ADDR a n bs w = Some (STD_ERR_OK, w') \<and>
    mem w' = put_bytes (mem w) a (take (unat n) bs)"
proof -
  have "unat n \<le> 16" using assms(2) by (simp add: word_le_nat_alt)
  then have u: "unat (ucast n :: u8) = unat n"
    by (simp add: unsigned_ucast_eq take_bit_eq_mod)
  then have "(ucast n :: u8) \<le> 16" using \<open>unat n \<le> 16\<close> by (simp add: word_le_nat_alt)
  then show ?thesis
    using comm_memoryD(3) [OF M, of "ucast n" bs stack a w] assms(3) u
    by (simp add: sdi_comm_dev_write_block_def)
qed

lemma comm_write_blocks:
  assumes M: "comm_memory (chip_bus c) mem ptr"
  shows "n \<le> length bs \<Longrightarrow> n < 65536 \<Longrightarrow>
    \<exists>w'. comm_dev_write_blocks stack c COMM_DEV_I2C_ADDR a n bs STD_ERR_OK w = Some (STD_ERR_OK, w') \<and>
      mem w' = put_bytes (mem w) a (take n bs)"
proof (induction n arbitrary: a bs w rule: less_induct)
  case (less n)
  let ?k = "if 16 < n then 16 else n"
  have k: "unat (of_nat ?k :: u16) = ?k"
    using less.prems(2) by (simp add: unat_of_nat)
  obtain w1 where w1: "sdi_comm_dev_write_block stack c COMM_DEV_I2C_ADDR a (of_nat ?k) bs w = Some (STD_ERR_OK, w1)"
      "mem w1 = put_bytes (mem w) a (take ?k bs)"
    using comm_write_block [OF M, of "of_nat ?k" bs stack a w, unfolded k word_le_nat_alt] less.prems(1)
    by (cases "16 < n") auto
  show ?case
  proof (cases "n = 0")
    case False
    then have "n - 16 < n" and "n - 16 \<le> length (drop 16 bs)" and "n - 16 < 65536"
      using less.prems by simp_all
    then obtain w2 where w2: "comm_dev_write_blocks stack c COMM_DEV_I2C_ADDR (a + 16) (n - 16) (drop 16 bs)
        STD_ERR_OK w1 = Some (STD_ERR_OK, w2)" "mem w2 = put_bytes (mem w1) (a + 16) (take (n - 16) (drop 16 bs))"
      using less.IH by blast
    have "mem w2 = put_bytes (mem w) a (take n bs)"
    proof (cases "16 < n")
      case True
      then have "take n bs = take 16 bs @ take (n - 16) (drop 16 bs)"
        by (metis le_add_diff_inverse less_imp_le take_add)
      then show ?thesis using w1(2) w2(2) True less.prems(1) by (simp add: put_bytes_append)
    qed (use w1(2) w2(2) in simp)
    then show ?thesis
      using w1(1) w2(1) False
      by (subst comm_dev_write_blocks.simps) (simp add: I2C_SMBUS_BLOCK_HALF_def split: if_splits)
  qed (simp add: comm_dev_write_blocks.simps)
qed

lemma comm_write:
  assumes "comm_memory (chip_bus (cd_chip r)) mem ptr" and "cd_type r = SDI_RESOURCE_COMM_DEV"
    and "unat n \<le> length bs"
  shows "\<exists>w'. sdi_comm_dev_write stack r COMM_DEV_I2C_ADDR a n bs w = Some (STD_ERR_OK, w') \<and>
    mem w' = put_bytes (mem w) a (take (unat n) bs)"
proof -
  have "unat n < 65536" using unsigned_less [of n] by simp
  then show ?thesis
    using comm_write_blocks [OF assms(1,3)] assms(2) by (simp add: sdi_comm_dev_write_def)
qed

section \<open>Headers\<close>

definition message_header :: "u8 list \<Rightarrow> sdi_mailbox_header" where
  "message_header bs = \<lparr>mbox_checksum = NOT (mailbox_sum bs (of_nat (length bs))) + 1,
     mbox_size = of_nat (length bs)\<rparr>"

lemma strlen_message: "0 \<notin> set msg \<Longrightarrow> strlen_bytes (msg @ 0 # rest) = Some (length msg)"
  by (induction msg) auto

lemma unat_of_nat_u16: "n < 65536 \<Longrightarrow> unat (of_nat n :: u16) = n"
  by (simp add: unat_of_nat)

lemma add_header_message:
  assumes "0 \<notin> set msg" and "length msg < 65535"
  shows "add_mailbox_header (msg @ 0 # rest) = Some (message_header (msg @ [0]))"
proof -
  have "unat (of_nat (length msg) + 1 :: u16) = length msg + 1"
    using assms(2) unat_of_nat_u16 [of "length msg + 1"] by (simp add: add.commute)
  then show ?thesis
    using strlen_message [OF assms(1), of rest]
    by (simp add: add_mailbox_header_def message_header_def Let_def add.commute)
qed

lemma check_header_message:
  "length bs < 65536 \<Longrightarrow> check_mailbox_header (bs @ rest) (message_header bs) = Some True"
  by (simp add: check_mailbox_header_def message_header_def unat_of_nat_u16)

lemma bytes_of_u16:
  "push_bit 8 (ucast (ucast (drop_bit 8 (x :: u16) AND 0xFF) :: u8)) OR ucast (ucast (x AND 0xFF) :: u8) = x"
proof -
  have "(0xFF :: u16) = mask 8" by (simp add: mask_eq_exp_minus_1)
  then show ?thesis
    by (simp only:) (rule bit_word_eqI, auto simp: bit_simps dest: bit_imp_le_length)
qed

lemma header_round_trip: "header_of_bytes (header_bytes h) = Some h"
  using bytes_of_u16 by (simp add: header_bytes_def u16_bytes_def)

lemma length_u16_bytes [simp]: "length (u16_bytes x) = 2"
  by (simp add: u16_bytes_def)

lemma length_header_bytes [simp]: "length (header_bytes h) = 4"
  by (simp add: header_bytes_def)

section \<open>Steps of a message\<close>

lemma memory_from_2: "memory_from m a 2 = [m a, m (a + 1)]"
  by (simp add: numeral_2_eq_2 memory_from_Suc)

lemma comm_read_two:
  assumes "comm_memory (chip_bus (cd_chip r)) mem ptr" and "cd_type r = SDI_RESOURCE_COMM_DEV"
  shows "\<exists>w'. comm_dev_read_register r a 2 (2 + k) w =
    Some (STD_ERR_OK, [mem w a, mem w (a + 1)] @ replicate k 0, w') \<and> mem w' = mem w"
  using comm_read [OF assms, of 2 "replicate (2 + k) 0" a w]
  by (simp add: comm_dev_read_register_def memory_from_2)

lemma comm_set_control:
  assumes "comm_memory (chip_bus (cd_chip r)) mem ptr" and "cd_type r = SDI_RESOURCE_COMM_DEV"
  shows "\<exists>w'. comm_dev_set_control L stack r b w = Some (STD_ERR_OK, w') \<and>
    mem w' = put_bytes (mem w) 0x7C92 [bit8_set L (mem w 0x7C92) b, mem w 0x7C93]"
proof -
  obtain w1 where w1: "comm_dev_read_register r 0x7C92 2 2 w =
      Some (STD_ERR_OK, [mem w 0x7C92, mem w 0x7C93], w1)" "mem w1 = mem w"
    using comm_read_two [OF assms, of "0x7C92" 0 w] by auto
  show ?thesis
    using w1 comm_write [OF assms, of 2 "[bit8_set L (mem w 0x7C92) b, mem w 0x7C93]" stack "0x7C92" w1]
    by (simp add: comm_dev_set_control_def comm_dev_write_register_def
        SDI_COMM_DEV_VENDOR_INTELLIGENCE_MAILBOX_CONTROL_def
        SDI_COMM_DEV_VENDOR_INTELLIGENCE_MAILBOX_CONTROL_SIZE_def)
qed

lemma comm_status_cleared:
  assumes "comm_memory (chip_bus (cd_chip r)) mem ptr" and "cd_type r = SDI_RESOURCE_COMM_DEV"
  shows "\<exists>w'. sdi_comm_dev_status_check_and_clear L stack r w = Some (STD_ERR_OK, w')"
proof -
  obtain w1 a b where w1: "comm_dev_read_register r 0x7C90 2 2 w = Some (STD_ERR_OK, [a, b], w1)"
    using comm_read_two [OF assms, of "0x7C90" 0 w] by auto
  obtain w2 where w2: "comm_dev_clear_status stack r w1 = Some (STD_ERR_OK, w2)"
    using comm_write [OF assms, of 2 "u16_bytes COMM_DEV_STATUS_CLEAR" stack "0x7C90" w1]
    by (auto simp: comm_dev_clear_status_def comm_dev_write_register_def
        SDI_COMM_DEV_VENDOR_INTELLIGENCE_STATUS_REGISTER_def
        SDI_COMM_DEV_VENDOR_INTELLIGENCE_STATUS_REGISTER_SIZE_def)
  obtain w3 where "sdi_flush_msg_buffer L stack r w2 = Some (STD_ERR_OK, w3)"
    unfolding sdi_flush_msg_buffer_def using comm_set_control [OF assms] by blast
  then show ?thesis
    using w1 w2 by (simp add: sdi_comm_dev_status_check_and_clear_def
        SDI_COMM_DEV_VENDOR_INTELLIGENCE_STATUS_REGISTER_def
        SDI_COMM_DEV_VENDOR_INTELLIGENCE_STATUS_REGISTER_SIZE_def)
qed

lemma put_header_and_message:
  assumes "length hs = 4" and "length bs \<le> 4096"
  shows "memory_from (put_bytes (put_bytes m 0x8500 hs) 0x8504 bs) 0x8500 (4 + length bs) = hs @ bs"
proof -
  have "put_bytes (put_bytes m 0x8500 hs) 0x8504 bs = put_bytes m 0x8500 (hs @ bs)"
    using assms(1) by (simp add: put_bytes_append)
  then show ?thesis using memory_from_put [of "0x8500" "hs @ bs" m] assms by simp
qed

lemma comm_write_mailbox:
  assumes M: "comm_memory (chip_bus (cd_chip r)) mem ptr" and r: "cd_type r = SDI_RESOURCE_COMM_DEV"
    and msg: "0 \<notin> set msg" "length msg < 4096"
  shows "\<exists>w'. sdi_write_mailbox L stack r (of_nat (length msg + 1)) (msg @ 0 # rest) w = Some (STD_ERR_OK, w') \<and>
    memory_from (mem w') 0x8500 (4 + length (msg @ [0])) = header_bytes (message_header (msg @ [0])) @ msg @ [0]"
proof -
  let ?h = "message_header (msg @ [0])"
  obtain w1 where w1: "sdi_comm_dev_status_check_and_clear L stack r w = Some (STD_ERR_OK, w1)"
    using comm_status_cleared [OF M r] by blast
  obtain w2 where w2: "sdi_comm_dev_write_block stack (cd_chip r) COMM_DEV_I2C_ADDR 0x8500 4 (header_bytes ?h) w1 =
      Some (STD_ERR_OK, w2)" "mem w2 = put_bytes (mem w1) 0x8500 (header_bytes ?h)"
    using comm_write_block [OF M, of 4 "header_bytes ?h" stack "0x8500" w1] by auto
  obtain w3 where w3: "comm_dev_write_blocks stack (cd_chip r) COMM_DEV_I2C_ADDR 0x8504 (length msg + 1)
      (msg @ 0 # rest) STD_ERR_OK w2 = Some (STD_ERR_OK, w3)" "mem w3 = put_bytes (mem w2) 0x8504 (msg @ [0])"
    using comm_write_blocks [OF M, of "length msg + 1" "msg @ 0 # rest" stack "0x8504" w2] msg(2) by auto
  have n: "unat (of_nat (length msg + 1) :: u16) = length msg + 1"
    using msg(2) by (intro unat_of_nat_u16) simp
  have "sdi_write_mailbox L stack r (of_nat (length msg + 1)) (msg @ 0 # rest) w = Some (STD_ERR_OK, w3)"
    using w1 w2(1) w3(1) r n add_header_message [OF msg(1), of rest] msg(2)
    by (simp add: sdi_write_mailbox_def SDI_COMM_DEV_NORTHBOUND_MAILBOX_START_ADDRESS_def
        SDI_COMM_DEV_MAILBOX_HEADER_SIZE_def)
  moreover have "memory_from (mem w3) 0x8500 (4 + length (msg @ [0])) = header_bytes ?h @ msg @ [0]"
    using put_header_and_message [of "header_bytes ?h" "msg @ [0]" "mem w1"] w2(2) w3(2) msg(2) by simp
  ultimately show ?thesis by blast
qed

lemma comm_read_mailbox:
  assumes M: "comm_memory (chip_bus (cd_chip r)) mem ptr" and r: "cd_type r = SDI_RESOURCE_COMM_DEV"
    and box: "memory_from (mem w) 0x9504 (4 + length bs) = header_bytes h @ bs"
    and size: "unat (mbox_size h) = length bs" "length bs \<le> 4096" "length bs \<le> length buf" "4 \<le> length stack"
  shows "\<exists>w'. mem w' = mem w \<and> sdi_read_mailbox stack r buf w =
    do { ok \<leftarrow> check_mailbox_header (bs @ drop (length bs) buf) h;
         Some (if ok then STD_ERR_OK else SDI_ERRCODE EPERM, bs @ drop (length bs) buf, w') }"
proof -
  have parts: "memory_from (mem w) 0x9504 4 = header_bytes h" "memory_from (mem w) 0x9508 (length bs) = bs"
    using box by (simp_all add: memory_from_add)
  obtain w1 where w1: "sdi_comm_dev_read r COMM_DEV_I2C_ADDR 0x9504 4 (take 4 stack) w =
      Some (STD_ERR_OK, header_bytes h, w1)" "mem w1 = mem w"
    using comm_read [OF M r, of 4 "take 4 stack" "0x9504" w] size(4) parts(1) by auto
  obtain w2 where w2: "sdi_comm_dev_read r COMM_DEV_I2C_ADDR 0x9508 (mbox_size h) buf w1 =
      Some (STD_ERR_OK, bs @ drop (length bs) buf, w2)" "mem w2 = mem w1"
    using comm_read [OF M r, of "mbox_size h" buf "0x9508" w1] size(1,3) parts(2) w1(2) by auto
  have "\<not> SDI_COMM_DEV_BUFFER_MAX_SIZE < mbox_size h"
    using size(1,2) by (simp add: SDI_COMM_DEV_BUFFER_MAX_SIZE_def word_less_nat_alt)
  then show ?thesis
    using w1 w2 header_round_trip [of h]
    by (intro exI [where x = w2]) (simp add: sdi_read_mailbox_def SDI_COMM_DEV_SOUTHBOUND_MAILBOX_START_ADDRESS_def
        SDI_COMM_DEV_MAILBOX_HEADER_SIZE_def)
qed

section \<open>Calls\<close>

definition comm_resource ::
    "std_lib \<Rightarrow> u8 list \<Rightarrow> 'w comm_dev_res \<Rightarrow> res_hdl \<Rightarrow> 'w sdi_sys \<Rightarrow> bool" where
  "comm_resource L stack r h s \<longleftrightarrow>
     cd_type r = SDI_RESOURCE_COMM_DEV \<and> res_type (resource_heap s h) = SDI_RESOURCE_COMM_DEV \<and>
     callback_fns (resource_heap s h) = Comm_Dev_Fns (comm_dev_ctrl L stack r)"

lemma comm_dev_registered:
  assumes "sdi_comm_dev_driver_register L stack b s = Some (rc, c, s')"
  shows "comm_resource L stack \<lparr>cd_type = SDI_RESOURCE_COMM_DEV, cd_chip = c\<rparr> (Res_Hdl (next_resource s)) s'"
  using assms
  by (auto simp: sdi_comm_dev_driver_register_def comm_resource_def sdi_resource_new_def sdi_resource_add_new Let_def split: if_splits)

lemma replicate_two: "replicate 2 x = [x, x]"
  by (simp add: numeral_2_eq_2)

lemma comm_download_complete:
  assumes M: "comm_memory (chip_bus (cd_chip r)) mem ptr" and r: "cd_type r = SDI_RESOURCE_COMM_DEV"
  shows "\<exists>w'. sdi_package_download_complete L stack r w = Some (STD_ERR_OK, w') \<and>
    mem w' = put_bytes (mem w) 0x7C92 [bit8_set L (mem w 0x7C92) 2, mem w 0x7C93, 3, 0]"
proof -
  obtain w1 where w1: "comm_dev_read_register r 0x7C92 2 4 w =
      Some (STD_ERR_OK, [mem w 0x7C92, mem w 0x7C93, 0, 0], w1)" "mem w1 = mem w"
    using comm_read_two [OF M r, of "0x7C92" 2 w] by (auto simp: replicate_two)
  have three: "u16_bytes NORTHBOUND_MAILBOX_TIME_THRESHOLD = [3, 0]"
    by (simp add: u16_bytes_def NORTHBOUND_MAILBOX_TIME_THRESHOLD_def)
  show ?thesis
    using w1 comm_write [OF M r, of 4 "[bit8_set L (mem w 0x7C92) 2, mem w 0x7C93, 3, 0]" stack "0x7C92" w1]
    by (simp add: sdi_package_download_complete_def comm_dev_write_register_def three
        SDI_COMM_DEV_VENDOR_INTELLIGENCE_MAILBOX_CONTROL_def
        SDI_COMM_DEV_VENDOR_INTELLIGENCE_MAILBOX_CONTROL_SIZE_def
        SDI_COMM_DEV_BIT_NB_PACKAGE_DOWNLOAD_COMPLETE_def)
qed

lemma comm_msg_write:
  assumes M: "comm_memory (chip_bus (cd_chip r)) mem ptr" and R: "comm_resource L stack r h s"
    and L: "bit8_laws L" and msg: "0 \<notin> set msg" "length msg < 4096"
  shows "\<exists>s'. sdi_comm_dev_msg_write h (of_nat (length msg + 1)) (msg @ 0 # rest) s = Some (STD_ERR_OK, s') \<and>
    bit8_test L (mem (dev s') 0x7C92) 2 \<and>
    memory_from (mem (dev s')) 0x8500 (4 + length (msg @ [0])) = header_bytes (message_header (msg @ [0])) @ msg @ [0]"
proof -
  let ?n = "length msg + 1"
  have r: "cd_type r = SDI_RESOURCE_COMM_DEV" using R by (simp add: comm_resource_def)
  obtain w1 where w1: "sdi_write_mailbox L stack r (of_nat ?n) (msg @ 0 # rest) (dev s) = Some (STD_ERR_OK, w1)"
    "memory_from (mem w1) 0x8500 (4 + length (msg @ [0])) = header_bytes (message_header (msg @ [0])) @ msg @ [0]"
    using comm_write_mailbox [OF M r msg] by blast
  obtain w2 where w2: "sdi_package_download_complete L stack r w1 = Some (STD_ERR_OK, w2)"
    "mem w2 = put_bytes (mem w1) 0x7C92 [bit8_set L (mem w1 0x7C92) 2, mem w1 0x7C93, 3, 0]"
    using comm_download_complete [OF M r] by blast
  have "unat (of_nat ?n :: u16) = ?n" using msg(2) by (intro unat_of_nat_u16) simp
  then have "(of_nat ?n :: u16) \<noteq> 0" "(of_nat ?n :: u16) \<le> SDI_COMM_DEV_BUFFER_MAX_SIZE"
    using msg(2) by (auto simp: SDI_COMM_DEV_BUFFER_MAX_SIZE_def word_le_nat_alt)
  then have "sdi_comm_dev_msg_write h (of_nat ?n) (msg @ 0 # rest) s = Some (STD_ERR_OK, s\<lparr>dev := w2\<rparr>)"
    using R w1(1) w2(1) by (simp add: sdi_comm_dev_msg_write_def comm_resource_def comm_dev_ctrl_def act_def)
  moreover have "mem w2 0x7C92 = bit8_set L (mem w1 0x7C92) 2"
    using put_bytes_at [of "0x7C92" "[bit8_set L (mem w1 0x7C92) 2, mem w1 0x7C93, 3, 0]" 0 "mem w1"] w2(2) by simp
  then have "bit8_test L (mem w2 0x7C92) 2" using L by (simp add: bit8_laws_def)
  moreover have "memory_from (mem w2) 0x8500 (4 + length (msg @ [0])) = memory_from (mem w1) 0x8500 (4 + length (msg @ [0]))"
    unfolding w2(2) using msg(2) by (intro memory_from_put_other) simp_all
  ultimately show ?thesis using w1(2) by (intro exI [where x = "s\<lparr>dev := w2\<rparr>"]) simp
qed

lemma comm_msg_read:
  assumes M: "comm_memory (chip_bus (cd_chip r)) mem ptr" and R: "comm_resource L stack r h s"
    and box: "memory_from (mem (dev s)) 0x9504 (4 + length bs) = header_bytes d @ bs"
    and size: "unat (mbox_size d) = length bs" "length bs \<le> 4096" "length bs \<le> length buf"
      "0 < length buf" "length buf \<le> 4100" "4 \<le> length stack"
  defines "out \<equiv> bs @ replicate (length buf - length bs) 0"
  shows "check_mailbox_header out d = Some True \<Longrightarrow> bit8_laws L \<Longrightarrow>
      \<exists>s'. sdi_comm_dev_msg_read h (of_nat (length buf)) buf s = Some (STD_ERR_OK, out, s') \<and>
        bit8_test L (mem (dev s') 0x7C92) 1"
    and "check_mailbox_header out d = Some False \<Longrightarrow>
      \<exists>s'. sdi_comm_dev_msg_read h (of_nat (length buf)) buf s = Some (SDI_ERRCODE EPERM, out, s') \<and>
        mem (dev s') = mem (dev s)"
proof -
  let ?n = "of_nat (length buf) :: u16"
  have r: "cd_type r = SDI_RESOURCE_COMM_DEV" using R by (simp add: comm_resource_def)
  have n: "unat ?n = length buf" using size(5) by (intro unat_of_nat_u16) simp
  then have ok: "?n \<noteq> 0" "?n \<le> SDI_COMM_DEV_BUFFER_MAX_SIZE"
    using size(4,5) by (auto simp: SDI_COMM_DEV_BUFFER_MAX_SIZE_def word_le_nat_alt)
  obtain w1 where w1: "mem w1 = mem (dev s)" "sdi_read_mailbox stack r (replicate (length buf) 0) (dev s) =
      do { ok \<leftarrow> check_mailbox_header out d; Some (if ok then STD_ERR_OK else SDI_ERRCODE EPERM, out, w1) }"
    using comm_read_mailbox [OF M r box size(1,2), of "replicate (length buf) 0" stack] size(3,6)
    by (auto simp: out_def)
  have step: "sdi_comm_dev_msg_read h ?n buf s = do {
      (rc, data, w) \<leftarrow> sdi_read_mailbox stack r (replicate (length buf) 0) (dev s);
      if rc \<noteq> STD_ERR_OK then Some (rc, data, s\<lparr>dev := w\<rparr>)
      else do { (rc, w) \<leftarrow> sdi_package_read_and_verified L stack r w; Some (rc, data, s\<lparr>dev := w\<rparr>) } }"
    using R ok n by (cases "sdi_read_mailbox stack r (replicate (length buf) 0) (dev s)")
      (auto simp: sdi_comm_dev_msg_read_def comm_resource_def comm_dev_ctrl_def act_def ask_def Option.bind_assoc
        split: Option.bind_splits)
  show "check_mailbox_header out d = Some False \<Longrightarrow>
      \<exists>s'. sdi_comm_dev_msg_read h ?n buf s = Some (SDI_ERRCODE EPERM, out, s') \<and> mem (dev s') = mem (dev s)"
    using w1 by (intro exI [where x = "s\<lparr>dev := w1\<rparr>"]) (simp add: step)
  obtain w2 where w2: "sdi_package_read_and_verified L stack r w1 = Some (STD_ERR_OK, w2)"
    "mem w2 = put_bytes (mem w1) 0x7C92 [bit8_set L (mem w1 0x7C92) 1, mem w1 0x7C93]"
    unfolding sdi_package_read_and_verified_def SDI_COMM_DEV_BIT_SB_PACKAGE_READ_AND_VERIFIED_def
    using comm_set_control [OF M r] by blast
  have "mem w2 0x7C92 = bit8_set L (mem w1 0x7C92) 1"
    using put_bytes_at [of "0x7C92" "[bit8_set L (mem w1 0x7C92) 1, mem w1 0x7C93]" 0 "mem w1"] w2(2) by simp
  then show "check_mailbox_header out d = Some True \<Longrightarrow> bit8_laws L \<Longrightarrow>
      \<exists>s'. sdi_comm_dev_msg_read h ?n buf s = Some (STD_ERR_OK, out, s') \<and> bit8_test L (mem (dev s') 0x7C92) 1"
    using w1 w2(1) by (intro exI [where x = "s\<lparr>dev := w2\<rparr>"]) (simp add: step bit8_laws_def)
qed

end
