(* ===== verification/Comm_Roundtrip.thy ===== *)
theory Comm_Roundtrip
  imports Comm_Messages
begin

text \<open>
  The communication device on a kernel bus, and the properties of the messages: they arrive, and a
  message with a wrong byte is refused.
\<close>

section \<open>The device on a kernel bus\<close>

text \<open>The transfers of the kernel that reach the device; the first byte of a block is its length.\<close>

definition comm_kernel :: "'w i2c_os \<Rightarrow> int \<Rightarrow> ('w \<Rightarrow> u16 \<Rightarrow> u8) \<Rightarrow> ('w \<Rightarrow> u16) \<Rightarrow> bool" where
  "comm_kernel os fd mem ptr \<longleftrightarrow>
     (\<forall>a w. \<exists>w'. ioctl_slave os fd a w = Some (True, w') \<and> mem w' = mem w \<and> ptr w' = ptr w) \<and>
     (\<forall>c v w. \<exists>d w'. ioctl_smbus os fd SDI_SMBUS_WRITE c I2C_SMBUS_BYTE_DATA (Some (Buf8 v)) w =
        Some (True, d, w') \<and> mem w' = mem w \<and> ptr w' = offset16 v c) \<and>
     (\<forall>w. \<exists>w'. ioctl_smbus os fd SDI_SMBUS_READ 0 I2C_SMBUS_BYTE (Some (Buf8 0)) w =
        Some (True, Some (Buf8 (mem w (ptr w))), w') \<and> mem w' = mem w \<and> ptr w' = ptr w + 1) \<and>
     (\<forall>c hi n bs rest w. n \<le> 16 \<longrightarrow> length bs = unat n \<longrightarrow>
        (\<exists>d w'. ioctl_smbus os fd SDI_SMBUS_WRITE c I2C_SMBUS_I2C_BLOCK_BROKEN
            (Some (BufBlk ([n + 1, hi] @ bs @ rest))) w = Some (True, Some d, w') \<and>
          mem w' = put_bytes (mem w) (offset16 hi c) bs)) \<and>
     (\<forall>m w. \<exists>w'. std_mutex_lock os m w = Some (STD_ERR_OK, w') \<and> mem w' = mem w \<and> ptr w' = ptr w) \<and>
     (\<forall>m w. \<exists>w'. std_mutex_unlock os m w = Some (STD_ERR_OK, w') \<and> mem w' = mem w \<and> ptr w' = ptr w) \<and>
     (\<forall>t w. mem (std_usleep os t w) = mem w \<and> ptr (std_usleep os t w) = ptr w)"

lemma comm_kernelD:
  assumes "comm_kernel os fd mem ptr"
  shows "\<exists>w'. ioctl_slave os fd a w = Some (True, w') \<and> mem w' = mem w \<and> ptr w' = ptr w"
    and "\<exists>d w'. ioctl_smbus os fd SDI_SMBUS_WRITE c I2C_SMBUS_BYTE_DATA (Some (Buf8 v)) w =
        Some (True, d, w') \<and> mem w' = mem w \<and> ptr w' = offset16 v c"
    and "\<exists>w'. ioctl_smbus os fd SDI_SMBUS_READ 0 I2C_SMBUS_BYTE (Some (Buf8 0)) w =
        Some (True, Some (Buf8 (mem w (ptr w))), w') \<and> mem w' = mem w \<and> ptr w' = ptr w + 1"
    and "n \<le> 16 \<Longrightarrow> length bs = unat n \<Longrightarrow>
        \<exists>d w'. ioctl_smbus os fd SDI_SMBUS_WRITE c I2C_SMBUS_I2C_BLOCK_BROKEN
            (Some (BufBlk ([n + 1, hi] @ bs @ rest))) w = Some (True, Some d, w') \<and>
          mem w' = put_bytes (mem w) (offset16 hi c) bs"
    and "\<exists>w'. std_mutex_lock os m w = Some (STD_ERR_OK, w') \<and> mem w' = mem w \<and> ptr w' = ptr w"
    and "\<exists>w'. std_mutex_unlock os m w = Some (STD_ERR_OK, w') \<and> mem w' = mem w \<and> ptr w' = ptr w"
    and "mem (std_usleep os t w) = mem w" and "ptr (std_usleep os t w) = ptr w"
  using assms unfolding comm_kernel_def by blast+

lemma comm_with_bus:
  assumes K: "comm_kernel os (i2cdev_fd b) mem ptr"
    and f: "\<And>w. \<exists>w'. f w = Some (STD_ERR_OK, x (mem w) (ptr w), w') \<and> Q (mem w) (ptr w) (mem w') (ptr w')"
  shows "\<exists>w'. with_bus (i2cdev_bus os b) p f w = Some (STD_ERR_OK, x (mem w) (ptr w), w') \<and>
    Q (mem w) (ptr w) (mem w') (ptr w')"
proof -
  obtain w1 where w1: "std_mutex_lock os (sys_lock b) w = Some (STD_ERR_OK, w1)" "mem w1 = mem w" "ptr w1 = ptr w"
    using comm_kernelD(5) [OF K] by blast
  obtain w2 where w2: "f w1 = Some (STD_ERR_OK, x (mem w) (ptr w), w2)" "Q (mem w) (ptr w) (mem w2) (ptr w2)"
    using f [of w1] w1(2,3) by auto
  obtain w3 where w3: "std_mutex_unlock os (sys_lock b) w2 = Some (STD_ERR_OK, w3)" "mem w3 = mem w2" "ptr w3 = ptr w2"
    using comm_kernelD(6) [OF K] by blast
  show ?thesis
    using w1 w2 w3 by (simp add: with_bus_def sdi_i2c_acquire_bus_def sdi_i2c_release_bus_def
        i2cdev_bus_def sdi_i2cdev_bus_ops_def sdi_i2cdev_acquire_bus_def sdi_i2cdev_release_bus_def)
qed

lemma ff_and_u8: "0xFF AND (x :: u8) = x"
  by (rule bit_word_eqI) (auto simp: bit_simps)

lemmas comm_transfer_defs =
  sdi_smbus_execute_def i2cdev_bus_def sdi_i2cdev_bus_ops_def sdi_i2cdev_smbus_execute_def
  smbus_switch_def pec_off_def keep_buffer_def SDI_I2C_FLAG_PEC_def SDI_I2C_FLAG_NONE_def
  sdi_smbus_write_byte_i2cdev_def sdi_smbus_recv_byte_i2cdev_def sdi_smbus_write_block_i2cdev_def
  comm_dev_i2c_addr_def ff_and_u8

lemma comm_execute:
  assumes K: "comm_kernel os (i2cdev_fd b) mem ptr"
  shows "\<exists>w'. sdi_smbus_execute (i2cdev_bus os b) comm_addr SDI_SMBUS_WRITE SDI_SMBUS_BYTE_DATA c (Buf8 v)
      SDI_I2C_FLAG_NONE w = Some (STD_ERR_OK, Buf8 v, w') \<and> mem w' = mem w \<and> ptr w' = offset16 v (ucast c)"
    and "\<exists>w'. sdi_smbus_execute (i2cdev_bus os b) comm_addr SDI_SMBUS_READ SDI_SMBUS_BYTE 0 (Buf8 v)
      SDI_I2C_FLAG_NONE w = Some (STD_ERR_OK, Buf8 (mem w (ptr w)), w') \<and> mem w' = mem w \<and> ptr w' = ptr w + 1"
    and "n \<le> 16 \<Longrightarrow> length bs = unat n \<Longrightarrow>
      \<exists>d w'. sdi_smbus_execute (i2cdev_bus os b) comm_addr SDI_SMBUS_WRITE SDI_SMBUS_BLOCK_DATA c
        (BufBlk ([n + 1, hi] @ bs @ rest)) SDI_I2C_FLAG_NONE w = Some (STD_ERR_OK, d, w') \<and>
        mem w' = put_bytes (mem w) (offset16 hi (ucast c)) bs"
proof -
  obtain w1 where w1: "ioctl_slave os (i2cdev_fd b) (ucast COMM_DEV_I2C_ADDR) w = Some (True, w1)"
      "mem w1 = mem w" "ptr w1 = ptr w"
    using comm_kernelD(1) [OF K] by blast
  note sleep = comm_kernelD(7,8) [OF K]
  obtain d w2 where w2: "ioctl_smbus os (i2cdev_fd b) SDI_SMBUS_WRITE (ucast c) I2C_SMBUS_BYTE_DATA (Some (Buf8 v)) w1 =
      Some (True, d, w2)" "mem w2 = mem w1" "ptr w2 = offset16 v (ucast c)"
    using comm_kernelD(2) [OF K] by blast
  show "\<exists>w'. sdi_smbus_execute (i2cdev_bus os b) comm_addr SDI_SMBUS_WRITE SDI_SMBUS_BYTE_DATA c (Buf8 v)
      SDI_I2C_FLAG_NONE w = Some (STD_ERR_OK, Buf8 v, w') \<and> mem w' = mem w \<and> ptr w' = offset16 v (ucast c)"
    using smbus_execute_first_try [OF w2(1)] w1 w2(2,3) sleep by (simp add: comm_transfer_defs)
  obtain w3 where w3: "ioctl_smbus os (i2cdev_fd b) SDI_SMBUS_READ (ucast (0 :: u32)) I2C_SMBUS_BYTE (Some (Buf8 0)) w1 =
      Some (True, Some (Buf8 (mem w1 (ptr w1))), w3)" "mem w3 = mem w1" "ptr w3 = ptr w1 + 1"
    using comm_kernelD(3) [OF K, of w1] by auto
  show "\<exists>w'. sdi_smbus_execute (i2cdev_bus os b) comm_addr SDI_SMBUS_READ SDI_SMBUS_BYTE 0 (Buf8 v)
      SDI_I2C_FLAG_NONE w = Some (STD_ERR_OK, Buf8 (mem w (ptr w)), w') \<and> mem w' = mem w \<and> ptr w' = ptr w + 1"
    using smbus_execute_first_try [OF w3(1)] w1 w3(2,3) sleep by (simp add: comm_transfer_defs)
  assume n: "n \<le> 16" "length bs = unat n"
  obtain e w4 where w4: "ioctl_smbus os (i2cdev_fd b) SDI_SMBUS_WRITE (ucast c) I2C_SMBUS_I2C_BLOCK_BROKEN
      (Some (BufBlk ([n + 1, hi] @ bs @ rest))) w1 = Some (True, Some e, w4)"
      "mem w4 = put_bytes (mem w1) (offset16 hi (ucast c)) bs"
    using comm_kernelD(4) [OF K n] by blast
  show "\<exists>d w'. sdi_smbus_execute (i2cdev_bus os b) comm_addr SDI_SMBUS_WRITE SDI_SMBUS_BLOCK_DATA c
        (BufBlk ([n + 1, hi] @ bs @ rest)) SDI_I2C_FLAG_NONE w = Some (STD_ERR_OK, d, w') \<and>
        mem w' = put_bytes (mem w) (offset16 hi (ucast c)) bs"
    using smbus_execute_first_try [OF w4(1)] w1 w4(2) sleep by (simp add: comm_transfer_defs)
qed

lemma offset16_parts:
  "offset16 v (ucast (ucast (c :: u16) :: u32)) = push_bit 8 (ucast v) OR (c AND 0xFF)"
  "offset16 (ucast (drop_bit 8 a AND 0xFF)) (ucast (ucast (a AND 0xFF) :: u32)) = (a :: u16)"
proof -
  have "(0xFF :: u16) = mask 8" by (simp add: mask_eq_exp_minus_1)
  note m = this
  show "offset16 v (ucast (ucast c :: u32)) = push_bit 8 (ucast v) OR (c AND 0xFF)"
    unfolding offset16_def m by (rule bit_word_eqI) (auto simp: bit_simps dest: bit_imp_le_length)
  show "offset16 (ucast (drop_bit 8 a AND 0xFF)) (ucast (ucast (a AND 0xFF) :: u32)) = a"
    unfolding offset16_def m by (rule bit_word_eqI) (auto simp: bit_simps dest: bit_imp_le_length)
qed

lemma i2cdev_comm_memory:
  assumes K: "comm_kernel os (i2cdev_fd b) mem ptr"
  shows "comm_memory (i2cdev_bus os b) mem ptr"
  unfolding comm_memory_def
proof (intro conjI allI impI)
  fix c v w
  show "\<exists>w'. sdi_smbus_write_byte (i2cdev_bus os b) comm_addr (ucast (c :: u16)) v SDI_I2C_FLAG_NONE w =
      Some (STD_ERR_OK, w') \<and> mem w' = mem w \<and> ptr w' = push_bit 8 (ucast v) OR (c AND 0xFF)"
    using comm_with_bus [OF K, of "sdi_smbus_execute (i2cdev_bus os b) comm_addr SDI_SMBUS_WRITE
        SDI_SMBUS_BYTE_DATA (ucast c) (Buf8 v) SDI_I2C_FLAG_NONE" "\<lambda>_ _. Buf8 v"
        "\<lambda>m p m' p'. m' = m \<and> p' = offset16 v (ucast (ucast c :: u32))" "Buf8 v" w]
      comm_execute(1) [OF K, of "ucast c" v]
    by (auto simp: sdi_smbus_write_byte_def offset16_parts)
next
  fix v w
  have "\<exists>w'. (do { (error, p, w) \<leftarrow> sdi_smbus_execute (i2cdev_bus os b) comm_addr SDI_SMBUS_READ SDI_SMBUS_BYTE
        SDI_SMBUS_OFFSET_NON_CMD (Buf8 v) SDI_I2C_FLAG_NONE u; v \<leftarrow> load_byte p; Some (error, v, w) }) =
      Some (STD_ERR_OK, mem u (ptr u), w') \<and> mem w' = mem u \<and> ptr w' = ptr u + 1" for u
    using comm_execute(2) [OF K, of v u] by (auto simp: SDI_SMBUS_OFFSET_NON_CMD_def)
  then show "\<exists>w'. sdi_smbus_recv_byte (i2cdev_bus os b) comm_addr v SDI_I2C_FLAG_NONE w =
      Some (STD_ERR_OK, mem w (ptr w), w') \<and> mem w' = mem w \<and> ptr w' = ptr w + 1"
    unfolding sdi_smbus_recv_byte_def
    by (intro comm_with_bus [OF K, where x = "\<lambda>m p. m p" and Q = "\<lambda>m p m' p'. m' = m \<and> p' = p + 1"])
next
  fix stack bs :: "u8 list" and a w and n :: u8
  assume n: "n \<le> 16" "unat n \<le> length (bs :: u8 list)"
  then have len: "length (take (unat n) bs) = unat n" by simp
  define hi :: u8 where "hi = ucast (drop_bit 8 (a :: u16) AND 0xFF)"
  define rest where "rest = drop (2 + unat n) stack"
  define block where "block = [n + 1, hi] @ take (unat n) bs @ rest"
  have "\<not> 16 < n" using n(1) by (simp add: not_less)
  then have blk: "smbus_block stack a n bs = Some block"
    using n(2) by (simp add: smbus_block_def block_def hi_def rest_def Let_def)
  have run: "\<exists>d w'. sdi_smbus_execute (i2cdev_bus os b) comm_addr SDI_SMBUS_WRITE SDI_SMBUS_BLOCK_DATA
      (ucast (a AND 0xFF)) (BufBlk block) SDI_I2C_FLAG_NONE u = Some (STD_ERR_OK, d, w') \<and>
      mem w' = put_bytes (mem u) a (take (unat n) bs)" for u
    using comm_execute(3) [OF K n(1) len, of "ucast (a AND 0xFF)" hi rest u]
    unfolding block_def hi_def offset16_parts(2) by blast
  obtain w1 where w1: "std_mutex_lock os (sys_lock b) w = Some (STD_ERR_OK, w1)" "mem w1 = mem w"
    using comm_kernelD(5) [OF K] by blast
  obtain d w2 where w2: "sdi_smbus_execute (i2cdev_bus os b) comm_addr SDI_SMBUS_WRITE SDI_SMBUS_BLOCK_DATA
      (ucast (a AND 0xFF)) (BufBlk block) SDI_I2C_FLAG_NONE w1 = Some (STD_ERR_OK, d, w2)"
      "mem w2 = put_bytes (mem w) a (take (unat n) bs)"
    using run [of w1] w1(2) by auto
  obtain w3 where w3: "std_mutex_unlock os (sys_lock b) w2 = Some (STD_ERR_OK, w3)" "mem w3 = mem w2"
    using comm_kernelD(6) [OF K] by blast
  have bus: "bus_type (bus (i2cdev_bus os b)) = SDI_I2C_BUS"
    "sdi_i2c_acquire_bus (i2cdev_bus os b) w = Some (STD_ERR_OK, w1)"
    "sdi_i2c_release_bus (i2cdev_bus os b) w2 = Some w3"
    using w1 w3 by (simp_all add: sdi_i2c_acquire_bus_def sdi_i2c_release_bus_def i2cdev_bus_def
        sdi_i2cdev_bus_ops_def sdi_i2cdev_acquire_bus_def sdi_i2cdev_release_bus_def)
  show "\<exists>w'. sdi_smbus_write_i2c_block_data stack (i2cdev_bus os b) comm_addr a n bs SDI_I2C_FLAG_NONE w =
      Some (STD_ERR_OK, w') \<and> mem w' = put_bytes (mem w) a (take (unat n) bs)"
    using bus blk w2 w3(2) by (simp add: sdi_smbus_write_i2c_block_data_def with_bus_def)
qed

section \<open>Messages\<close>

text \<open>
  C4. A message arrives. Let two switches have communication devices that are memories behind
  their buses. A message of less than 4096 bytes without a NUL that the first writes is accepted, with
  the bit that tells the controller that the download is complete. When the controller has put what
  is in the outgoing mailbox into the incoming mailbox of the second, whatever else has happened
  there, a read with a buffer that has room for the message and its NUL delivers it and the rest of
  the buffer cleared, and marks the message as read and verified.
\<close>

theorem message_round_trip:
  assumes "comm_memory (chip_bus (cd_chip r)) mem ptr" and "comm_resource L stack r h s" and "bit8_laws L"
    and "comm_memory (chip_bus (cd_chip r')) mem' ptr'" and "4 \<le> length stack'"
    and "0 \<notin> set msg" and "length msg < 4096"
  shows "\<exists>s1. sdi_comm_dev_msg_write h (of_nat (length msg + 1)) (msg @ 0 # rest) s = Some (STD_ERR_OK, s1) \<and>
    bit8_test L (mem (dev s1) SDI_COMM_DEV_VENDOR_INTELLIGENCE_MAILBOX_CONTROL)
      SDI_COMM_DEV_BIT_NB_PACKAGE_DOWNLOAD_COMPLETE \<and>
    (\<forall>s2 h' buf. comm_resource L stack' r' h' s2 \<longrightarrow>
       memory_from (mem' (dev s2)) SDI_COMM_DEV_SOUTHBOUND_MAILBOX_START_ADDRESS 4100 =
         memory_from (mem (dev s1)) SDI_COMM_DEV_NORTHBOUND_MAILBOX_START_ADDRESS 4100 \<longrightarrow>
       length msg < length buf \<longrightarrow> length buf \<le> 4100 \<longrightarrow>
       (\<exists>s3. sdi_comm_dev_msg_read h' (of_nat (length buf)) buf s2 =
          Some (STD_ERR_OK, msg @ replicate (length buf - length msg) 0, s3) \<and>
        bit8_test L (mem' (dev s3) SDI_COMM_DEV_VENDOR_INTELLIGENCE_MAILBOX_CONTROL)
          SDI_COMM_DEV_BIT_SB_PACKAGE_READ_AND_VERIFIED))"
proof -
  let ?bs = "msg @ [0]"
  obtain s1 where s1: "sdi_comm_dev_msg_write h (of_nat (length msg + 1)) (msg @ 0 # rest) s = Some (STD_ERR_OK, s1)"
      "bit8_test L (mem (dev s1) 0x7C92) 2"
      "memory_from (mem (dev s1)) 0x8500 (4 + length ?bs) = header_bytes (message_header ?bs) @ ?bs"
    using comm_msg_write [OF assms(1-3,6,7)] by auto
  have "\<exists>s3. sdi_comm_dev_msg_read h' (of_nat (length buf)) buf s2 =
        Some (STD_ERR_OK, msg @ replicate (length buf - length msg) 0, s3) \<and> bit8_test L (mem' (dev s3) 0x7C92) 1"
    if R: "comm_resource L stack' r' h' s2" and n: "length msg < length buf" "length buf \<le> 4100"
      and box: "memory_from (mem' (dev s2)) 0x9504 4100 = memory_from (mem (dev s1)) 0x8500 4100" for s2 h' buf
  proof -
    have "memory_from (mem' (dev s2)) 0x9504 (4 + length ?bs) = memory_from (mem (dev s1)) 0x8500 (4 + length ?bs)"
      using arg_cong [OF box, of "take (4 + length ?bs)"] assms(7)
      by (simp add: memory_from_def take_map)
    then have b: "memory_from (mem' (dev s2)) 0x9504 (4 + length ?bs) = header_bytes (message_header ?bs) @ ?bs"
      using s1(3) by simp
    have size: "unat (mbox_size (message_header ?bs)) = length ?bs"
      using assms(7) unat_of_nat_u16 [of "length ?bs"] by (simp add: message_header_def)
    have ok: "check_mailbox_header (?bs @ replicate (length buf - length ?bs) 0) (message_header ?bs) = Some True"
      using assms(7) by (intro check_header_message) simp
    have out: "?bs @ replicate (length buf - length ?bs) 0 = msg @ replicate (length buf - length msg) 0"
      using n(1) by (simp add: Suc_diff_Suc flip: replicate_Suc)
    have "buf \<noteq> []" using n(1) by auto
    then show ?thesis
      using comm_msg_read(1) [OF assms(4) R b size _ _ _ n(2) assms(5) ok assms(3)] assms(7) n(1) out by simp
  qed
  then show ?thesis
    using s1(1,2)
    by (auto simp: SDI_COMM_DEV_VENDOR_INTELLIGENCE_MAILBOX_CONTROL_def
        SDI_COMM_DEV_BIT_NB_PACKAGE_DOWNLOAD_COMPLETE_def SDI_COMM_DEV_BIT_SB_PACKAGE_READ_AND_VERIFIED_def
        SDI_COMM_DEV_SOUTHBOUND_MAILBOX_START_ADDRESS_def SDI_COMM_DEV_NORTHBOUND_MAILBOX_START_ADDRESS_def)
qed

text \<open>A device on a kernel bus: the world is its memory and its address counter.\<close>

definition comm_i2c_os :: "((u16 \<Rightarrow> u8) \<times> u16) i2c_os" where
  "comm_i2c_os = \<lparr>
     std_mutex_lock_init = (\<lambda>m w. w),
     std_mutex_lock = (\<lambda>m w. Some (STD_ERR_OK, w)),
     std_mutex_unlock = (\<lambda>m w. Some (STD_ERR_OK, w)),
     std_usleep = (\<lambda>n w. w),
     os_errno = (\<lambda>w. EIO),
     ioctl_slave = (\<lambda>fd a w. Some (True, w)),
     ioctl_pec = (\<lambda>fd on w. Some (True, w)),
     ioctl_smbus = (\<lambda>fd oper c sz d w.
        case (oper, d) of
          (SDI_SMBUS_WRITE, Some (Buf8 v)) \<Rightarrow> Some (True, d, (fst w, offset16 v c))
        | (SDI_SMBUS_WRITE, Some (BufBlk (k # hi # bs))) \<Rightarrow>
            Some (True, d, (put_bytes (fst w) (offset16 hi c) (take (unat (k - 1)) bs), snd w))
        | (SDI_SMBUS_READ, _) \<Rightarrow> Some (True, Some (Buf8 (fst w (snd w))), (fst w, snd w + 1))
        | _ \<Rightarrow> Some (False, d, w)),
     reset_script_access = (\<lambda>w. False),
     reset_script_run = (\<lambda>f oper sz c w. w)\<rparr>"

lemma sample_comm_memory: "comm_memory (i2cdev_bus comm_i2c_os sample_i2c_bus) fst snd"
  by (rule i2cdev_comm_memory) (simp add: comm_kernel_def comm_i2c_os_def)

definition sample_comm :: "((u16 \<Rightarrow> u8) \<times> u16) comm_dev_res" where
  "sample_comm = \<lparr>cd_type = SDI_RESOURCE_COMM_DEV, cd_chip = bare_chip (i2cdev_bus comm_i2c_os sample_i2c_bus)\<rparr>"

definition sample_comm_sys :: "(u16 \<Rightarrow> u8) \<Rightarrow> ((u16 \<Rightarrow> u8) \<times> u16) sdi_sys" where
  "sample_comm_sys m = sdi_resource_add sample_lib SDI_RESOURCE_COMM_DEV ''comm_dev''
     (Comm_Dev_Fns (comm_dev_ctrl sample_lib (replicate 34 0) sample_comm)) (sample_sys (m, 0))"

lemma sample_comm_resource:
  "comm_resource sample_lib (replicate 34 0) sample_comm (Res_Hdl 0) (sample_comm_sys m)"
  "dev (sample_comm_sys m) = (m, 0)"
  by (simp_all add: comm_resource_def sample_comm_sys_def sample_comm_def sample_sys_def
      sdi_resource_add_def sdi_resource_new_def Let_def)

lemma message_round_trip_witness:
  "\<exists>s1 s3. sdi_comm_dev_msg_write (Res_Hdl 0) 3 [72, 105, 0] (sample_comm_sys (\<lambda>_. 0)) = Some (STD_ERR_OK, s1) \<and>
     sdi_comm_dev_msg_read (Res_Hdl 0) 5 [1, 2, 3, 4, 5]
       (sample_comm_sys (\<lambda>a. fst (dev s1) (a - 0x9504 + 0x8500))) =
     Some (STD_ERR_OK, [72, 105, 0, 0, 0], s3)"
proof -
  have chip: "chip_bus (cd_chip sample_comm) = i2cdev_bus comm_i2c_os sample_i2c_bus"
    by (simp add: sample_comm_def bare_chip_def)
  note M = sample_comm_memory [folded chip]
  obtain s1 where s1: "sdi_comm_dev_msg_write (Res_Hdl 0) (of_nat (length [72, 105 :: u8] + 1)) ([72, 105] @ 0 # [])
      (sample_comm_sys (\<lambda>_. 0)) = Some (STD_ERR_OK, s1)"
    and read: "\<forall>s2 h' buf. comm_resource sample_lib (replicate 34 0) sample_comm h' s2 \<longrightarrow>
       memory_from (fst (dev s2)) SDI_COMM_DEV_SOUTHBOUND_MAILBOX_START_ADDRESS 4100 =
         memory_from (fst (dev s1)) SDI_COMM_DEV_NORTHBOUND_MAILBOX_START_ADDRESS 4100 \<longrightarrow>
       length [72, 105 :: u8] < length buf \<longrightarrow> length buf \<le> 4100 \<longrightarrow>
       (\<exists>s3. sdi_comm_dev_msg_read h' (of_nat (length buf)) buf s2 =
          Some (STD_ERR_OK, [72, 105] @ replicate (length buf - length [72, 105 :: u8]) 0, s3) \<and>
        bit8_test sample_lib (fst (dev s3) SDI_COMM_DEV_VENDOR_INTELLIGENCE_MAILBOX_CONTROL)
          SDI_COMM_DEV_BIT_SB_PACKAGE_READ_AND_VERIFIED)"
    using message_round_trip [OF M sample_comm_resource(1) [of "\<lambda>_. 0"] sample_lib_bit8 M,
        of "replicate 34 0" "[72, 105]" "[]"] by auto
  let ?s2 = "sample_comm_sys (\<lambda>a. fst (dev s1) (a - 0x9504 + 0x8500))"
  have "memory_from (fst (dev ?s2)) SDI_COMM_DEV_SOUTHBOUND_MAILBOX_START_ADDRESS 4100 =
      memory_from (fst (dev s1)) SDI_COMM_DEV_NORTHBOUND_MAILBOX_START_ADDRESS 4100"
    by (simp add: sample_comm_resource(2) memory_from_def algebra_simps
        SDI_COMM_DEV_SOUTHBOUND_MAILBOX_START_ADDRESS_def SDI_COMM_DEV_NORTHBOUND_MAILBOX_START_ADDRESS_def)
  then obtain s3 where "sdi_comm_dev_msg_read (Res_Hdl 0) (of_nat (length [1, 2, 3, 4, 5 :: u8])) [1, 2, 3, 4, 5] ?s2 =
      Some (STD_ERR_OK, [72, 105] @ replicate (length [1, 2, 3, 4, 5 :: u8] - length [72, 105 :: u8]) 0, s3)"
    using read [rule_format, OF sample_comm_resource(1), of _ "[1, 2, 3, 4, 5]"] by auto
  then show ?thesis using s1 by (auto simp: eval_nat_numeral)
qed

text \<open>A changed byte changes the sum, which is taken modulo \<open>2^16\<close>.\<close>

lemma foldl_sum: "foldl (\<lambda>s b. s + ucast b) x bs = x + sum_list (map ucast bs :: u16 list)" for bs :: "u8 list"
  by (induction bs arbitrary: x) (simp_all add: algebra_simps)

lemma sum_list_update_word:
  "i < length xs \<Longrightarrow> sum_list (xs[i := x]) = sum_list xs - xs ! i + (x :: u16)"
  by (induction xs arbitrary: i) (auto split: nat.split simp: algebra_simps)

lemma ucast_u8_u16_inj: "(ucast x :: u16) = ucast y \<longleftrightarrow> x = (y :: u8)"
proof
  assume "(ucast x :: u16) = ucast y"
  then have "unat (ucast x :: u16) = unat (ucast y :: u16)" by simp
  then show "x = y"
    using unsigned_less [of x] unsigned_less [of y]
    by (simp add: unsigned_ucast_eq take_bit_eq_mod word_unat_eq_iff)
qed simp

lemma mailbox_sum_update:
  assumes "i < length bs" and "b \<noteq> bs ! i"
  shows "mailbox_sum (bs[i := b]) n \<noteq> mailbox_sum bs n"
  using assms ucast_u8_u16_inj [of b "bs ! i"]
  by (auto simp: mailbox_sum_def foldl_sum map_update sum_list_update_word)

lemma check_header_changed:
  assumes "i < length bs" and "b \<noteq> bs ! i" and "length bs < 65536"
  shows "check_mailbox_header (bs[i := b] @ rest) (message_header bs) = Some False"
  using assms mailbox_sum_update [OF assms(1,2)]
  by (simp add: check_mailbox_header_def message_header_def unat_of_nat_u16)

text \<open>
  C7. A message with a wrong byte is refused. If the incoming mailbox holds the header of a message
  and the message with one byte changed, whichever and to whatever, a read with a buffer that has
  room for it returns the error EPERM and changes nothing on the device: the message is
  not marked as verified, so that the controller can send it again.
\<close>

theorem changed_message_refused:
  assumes "comm_memory (chip_bus (cd_chip r)) mem ptr" and "comm_resource L stack r h s"
    and "memory_from (mem (dev s)) SDI_COMM_DEV_SOUTHBOUND_MAILBOX_START_ADDRESS (4 + length bs) =
      header_bytes (message_header bs) @ bs[i := b]"
    and "i < length bs" and "b \<noteq> bs ! i"
    and "length bs \<le> 4096" and "length bs \<le> length buf" and "length buf \<le> 4100" and "4 \<le> length stack"
  shows "\<exists>s'. sdi_comm_dev_msg_read h (of_nat (length buf)) buf s =
      Some (SDI_ERRCODE EPERM, bs[i := b] @ replicate (length buf - length bs) 0, s') \<and>
    mem (dev s') = mem (dev s)"
proof -
  have size: "unat (mbox_size (message_header bs)) = length (bs[i := b])"
    using assms(6) unat_of_nat_u16 [of "length bs"] by (simp add: message_header_def)
  have refused: "check_mailbox_header (bs[i := b] @ replicate (length buf - length (bs[i := b])) 0)
      (message_header bs) = Some False"
    using assms(6) by (intro check_header_changed assms(4,5)) simp
  have "buf \<noteq> []" using assms(4,7) by auto
  then show ?thesis
    using comm_msg_read(2) [OF assms(1,2) _ size _ _ _ assms(8,9) refused] assms(3,6,7)
    by (simp add: SDI_COMM_DEV_SOUTHBOUND_MAILBOX_START_ADDRESS_def)
qed

lemma changed_message_refused_witness:
  "\<exists>s'. sdi_comm_dev_msg_read (Res_Hdl 0) 3 [1, 2, 3]
      (sample_comm_sys (put_bytes (\<lambda>_. 0) 0x9504 (header_bytes (message_header [72, 105]) @ [72, 104]))) =
    Some (SDI_ERRCODE EPERM, [72, 104, 0], s')"
proof -
  let ?box = "header_bytes (message_header [72, 105]) @ [72, 104]"
  let ?s = "sample_comm_sys (put_bytes (\<lambda>_. 0) 0x9504 ?box)"
  have chip: "chip_bus (cd_chip sample_comm) = i2cdev_bus comm_i2c_os sample_i2c_bus"
    by (simp add: sample_comm_def bare_chip_def)
  have "memory_from (fst (dev ?s)) SDI_COMM_DEV_SOUTHBOUND_MAILBOX_START_ADDRESS (4 + length [72, 105 :: u8]) =
      header_bytes (message_header [72, 105]) @ [72, 105][1 := 104]"
    using memory_from_put [of "0x9504" ?box "\<lambda>_. 0"]
    by (simp add: sample_comm_resource(2) SDI_COMM_DEV_SOUTHBOUND_MAILBOX_START_ADDRESS_def)
  then show ?thesis
    using changed_message_refused [OF sample_comm_memory [folded chip] sample_comm_resource(1),
        where bs = "[72, 105]" and i = 1 and b = 104 and buf = "[1, 2, 3]"]
    by auto
qed

end
