(* ===== verification/Cpld_Pin_Group.thy ===== *)
theory Cpld_Pin_Group
  imports Pin_Bus
begin

text \<open>
  The CPLD pin group driver, src/drivers/sdi\_cpld\_pin\_group.c: a group of pins is a bit field that
  starts in one register of the CPLD (the least significant byte) and may go on in the registers
  after or before it.

  The C code shifts \<open>int\<close>s by amounts the configuration determines. A shift by the width of the type
  or more, or a shift of 1 into the sign bit, is undefined: \<open>None\<close> (\<open>low_mask\<close>, \<open>shl64\<close>).
\<close>

section \<open>The group and its masks\<close>

record 'w cpld_pin_group =
  grp_defs :: pin_defaults
  grp_start_addr :: u32
  grp_start_offset :: u32
  grp_end_addr :: u32
  grp_end_offset :: u32
  grp_length :: u32
  grp_cpld :: "'w cpld_dev"

text \<open>\<open>(1 << n) - 1\<close> on \<open>int\<close>.\<close>

definition low_mask :: "u64 \<Rightarrow> u32 option" where
  "low_mask n = (if n < 31 then Some (mask (unat n)) else None)"

text \<open>
  The macros SDI\_CPLD\_BIT\_MASK and SDI\_CPLD\_TOGGLE\_AND\_MASK; \<open>width\<close> is the value of
  \<open>(end_offset - start_offset) + 1\<close> in the unsigned arithmetic of the place of use.
\<close>

definition SDI_CPLD_BIT_MASK :: "u8 \<Rightarrow> u64 \<Rightarrow> u8 option" where
  "SDI_CPLD_BIT_MASK d width = do { m \<leftarrow> low_mask width; Some (d AND ucast m) }"

definition SDI_CPLD_TOGGLE_AND_MASK :: "u8 \<Rightarrow> u64 \<Rightarrow> u8 option" where
  "SDI_CPLD_TOGGLE_AND_MASK d width = do { m \<leftarrow> low_mask width; Some (NOT d AND ucast m) }"

definition width32 :: "u32 \<Rightarrow> u32 \<Rightarrow> u64" where
  "width32 start_offset end_offset = ucast ((end_offset - start_offset) + 1)"

definition width64 :: "u32 \<Rightarrow> u32 \<Rightarrow> u64" where
  "width64 start_offset end_offset = (ucast end_offset - ucast start_offset) + 1"

definition inverted :: "'w cpld_pin_group \<Rightarrow> bool" where
  "inverted g \<longleftrightarrow> default_polarity (grp_defs g) = SDI_PIN_POLARITY_INVERTED"

definition toggle_if :: "bool \<Rightarrow> u8 \<Rightarrow> u64 \<Rightarrow> u8 option" where
  "toggle_if flip d width = (if flip then SDI_CPLD_TOGGLE_AND_MASK d width else Some d)"

text \<open>The address of the next register: downwards unless the end lies above the start.\<close>

definition next_offset :: "'w cpld_pin_group \<Rightarrow> u32 \<Rightarrow> u32" where
  "next_offset g offset = (if grp_start_addr g \<ge> grp_end_addr g then offset - 1 else offset + 1)"

section \<open>Reading\<close>

text \<open>
  One turn of the loop: what the register \<open>buffer\<close>, the \<open>reg_count\<close>-th, adds to the level. The
  variable \<open>data\<close> is a byte, so \<open>buffer >> start_offset\<close> is cut to 8 bits.
\<close>

definition read_step :: "'w cpld_pin_group \<Rightarrow> u32 \<Rightarrow> u8 \<Rightarrow> u32 \<Rightarrow> u32 option" where
  "read_step g reg_count buffer level =
     (if grp_length g = 1 then do {
        STD_ASSERT (grp_start_offset g < 32);
        data \<leftarrow> SDI_CPLD_BIT_MASK (drop_bit (unat (grp_start_offset g)) buffer)
                  (width32 (grp_start_offset g) (grp_end_offset g));
        data \<leftarrow> toggle_if (inverted g) data (width32 (grp_start_offset g) (grp_end_offset g));
        Some (ucast data)
      } else if reg_count = grp_length g then do {
        data \<leftarrow> SDI_CPLD_BIT_MASK buffer (width32 0 (grp_end_offset g));
        data \<leftarrow> toggle_if (inverted g) data (width32 0 (grp_end_offset g));
        STD_ASSERT ((reg_count - 1) * 8 < 32);
        STD_ASSERT (grp_start_offset g < 32);
        Some (drop_bit (unat (grp_start_offset g))
                (level OR push_bit (unat ((reg_count - 1) * 8)) (ucast data)))
      } else if reg_count = 1 then do {
        data \<leftarrow> toggle_if (inverted g) buffer (width32 (grp_start_offset g) 7);
        Some (ucast data)
      } else do {
        data \<leftarrow> toggle_if (inverted g) buffer 8;
        STD_ASSERT ((reg_count - 1) * 8 < 32);
        Some (level OR push_bit (unat ((reg_count - 1) * 8)) (ucast data))
      })"

primrec read_regs ::
    "'w port_io \<Rightarrow> 'w cpld_pin_group \<Rightarrow> nat \<Rightarrow> u32 \<Rightarrow> u32 \<Rightarrow> u32 \<Rightarrow> 'w
      \<Rightarrow> (t_std_error \<times> u32 \<times> 'w) option" where
  "read_regs io g 0 reg_count offset level w = Some (STD_ERR_OK, level, w)"
| "read_regs io g (Suc n) reg_count offset level w = do {
     (error, buffer, w) \<leftarrow> sdi_bus_read_byte io (cpld_bus (grp_cpld g)) (cpld_addr (grp_cpld g)) offset 0 w;
     if error \<noteq> STD_ERR_OK then Some (error, level, w)
     else do {
       level \<leftarrow> read_step g reg_count buffer level;
       read_regs io g n (reg_count + 1) (next_offset g offset) level w
     }
   }"

definition sdi_cpld_pin_group_read_level ::
    "'w port_io \<Rightarrow> 'w cpld_pin_group \<Rightarrow> u32 \<Rightarrow> 'w \<Rightarrow> (t_std_error \<times> u32 \<times> 'w) option" where
  "sdi_cpld_pin_group_read_level io g value w = do {
     STD_ASSERT (cpld_width (grp_cpld g) = SDI_CPLD_DEFAULT_REGISTER_WIDTH);
     (error, level, w) \<leftarrow> read_regs io g (unat (grp_length g)) 1 (grp_start_addr g) 0 w;
     if error \<noteq> STD_ERR_OK then Some (error, value, w) else Some (error, level, w)
   }"

section \<open>Writing\<close>

definition shl64 :: "u64 \<Rightarrow> u64 \<Rightarrow> u64 option" where
  "shl64 x n = (if n < 64 then Some (push_bit (unat n) x) else None)"

definition sdi_cpld_bit_set_sub_bitstream :: "u64 \<Rightarrow> u64 \<Rightarrow> u64 \<Rightarrow> u64 \<Rightarrow> u64 option" where
  "sdi_cpld_bit_set_sub_bitstream dst_target src_bit_stream start_bit_offset end_bit_offset = do {
     STD_ASSERT (start_bit_offset \<le> 64);
     STD_ASSERT (end_bit_offset \<le> 64);
     e \<leftarrow> shl64 1 end_bit_offset;
     s \<leftarrow> shl64 1 start_bit_offset;
     let left = NOT 0 - (e - 1);
     let right = s - 1;
     let msk = left OR right;
     src \<leftarrow> shl64 src_bit_stream start_bit_offset;
     Some ((dst_target AND msk) OR src)
   }"

definition set_sub_byte :: "u8 \<Rightarrow> u8 \<Rightarrow> u64 \<Rightarrow> u64 \<Rightarrow> u8 option" where
  "set_sub_byte buffer level s e = do {
     r \<leftarrow> sdi_cpld_bit_set_sub_bitstream (ucast buffer) (ucast level) s e;
     Some (ucast r)
   }"

text \<open>
  One turn of the loop: the new content of the register, for the lowest byte of \<open>data\<close>. The counter
  \<open>reg_count\<close> runs down from the length.
\<close>

definition write_step :: "'w cpld_pin_group \<Rightarrow> u32 \<Rightarrow> u8 \<Rightarrow> u8 \<Rightarrow> u8 option" where
  "write_step g reg_count level buffer =
     (let s = ucast (grp_start_offset g) :: u64; e = ucast (grp_end_offset g) :: u64 in
      if grp_length g = 1 then do {
        level \<leftarrow> toggle_if (inverted g) level (width64 (grp_start_offset g) (grp_end_offset g));
        set_sub_byte buffer level s (e + 1)
      } else if reg_count = grp_length g then do {
        level \<leftarrow> toggle_if (inverted g) level (width64 (grp_start_offset g) 7);
        set_sub_byte buffer level s 8
      } else if reg_count = 1 then do {
        level \<leftarrow> toggle_if (inverted g) level (width64 0 (grp_end_offset g));
        set_sub_byte buffer level 0 (e + 1)
      } else set_sub_byte buffer (if inverted g then NOT level else level) 0 8)"

primrec write_regs ::
    "'w port_io \<Rightarrow> 'w cpld_pin_group \<Rightarrow> nat \<Rightarrow> u32 \<Rightarrow> u32 \<Rightarrow> 'w \<Rightarrow> (t_std_error \<times> 'w) option" where
  "write_regs io g 0 offset data w = Some (STD_ERR_OK, w)"
| "write_regs io g (Suc n) offset data w = do {
     (error, buffer, w) \<leftarrow> sdi_bus_read_byte io (cpld_bus (grp_cpld g)) (cpld_addr (grp_cpld g)) offset 0 w;
     if error \<noteq> STD_ERR_OK then Some (error, w)
     else do {
       buffer \<leftarrow> write_step g (of_nat (Suc n)) (ucast (data AND 0xFF)) buffer;
       (error, w) \<leftarrow> sdi_bus_write_byte io (cpld_bus (grp_cpld g)) (cpld_addr (grp_cpld g)) offset buffer w;
       if error \<noteq> STD_ERR_OK then Some (error, w)
       else write_regs io g n (next_offset g offset) (drop_bit 8 data) w
     }
   }"

definition sdi_cpld_pin_group_write_level ::
    "'w port_io \<Rightarrow> 'w cpld_pin_group \<Rightarrow> u32 \<Rightarrow> 'w \<Rightarrow> (t_std_error \<times> 'w) option" where
  "sdi_cpld_pin_group_write_level io g value w = do {
     STD_ASSERT (cpld_width (grp_cpld g) = SDI_CPLD_DEFAULT_REGISTER_WIDTH);
     write_regs io g (unat (grp_length g)) (grp_start_addr g) value w
   }"

section \<open>The operation table\<close>

definition sdi_cpld_pin_group_set_direction :: "sdi_pin_bus_direction \<Rightarrow> 'w \<Rightarrow> (t_std_error \<times> 'w) option" where
  "sdi_cpld_pin_group_set_direction direction w = Some (SDI_DEVICE_ERRCODE ENOTSUP, w)"

definition sdi_cpld_pin_group_get_direction ::
    "'w cpld_pin_group \<Rightarrow> sdi_pin_bus_direction \<Rightarrow> 'w \<Rightarrow> (t_std_error \<times> sdi_pin_bus_direction \<times> 'w) option" where
  "sdi_cpld_pin_group_get_direction g direction w = Some (STD_ERR_OK, default_direction (grp_defs g), w)"

definition sdi_cpld_pin_group_set_polarity :: "sdi_pin_bus_polarity \<Rightarrow> 'w \<Rightarrow> (t_std_error \<times> 'w) option" where
  "sdi_cpld_pin_group_set_polarity polarity w = Some (SDI_DEVICE_ERRCODE ENOTSUP, w)"

definition sdi_cpld_pin_group_get_polarity ::
    "'w cpld_pin_group \<Rightarrow> sdi_pin_bus_polarity \<Rightarrow> 'w \<Rightarrow> (t_std_error \<times> sdi_pin_bus_polarity \<times> 'w) option" where
  "sdi_cpld_pin_group_get_polarity g polarity w = Some (STD_ERR_OK, default_polarity (grp_defs g), w)"

definition sdi_cpld_pin_group_ops :: "'w port_io \<Rightarrow> 'w cpld_pin_group \<Rightarrow> (u32, 'w) pin_ops" where
  "sdi_cpld_pin_group_ops io g = \<lparr>
     ops_read_level = sdi_cpld_pin_group_read_level io g,
     ops_write_level = sdi_cpld_pin_group_write_level io g,
     ops_set_direction = sdi_cpld_pin_group_set_direction,
     ops_get_direction = sdi_cpld_pin_group_get_direction g,
     ops_set_polarity = sdi_cpld_pin_group_set_polarity,
     ops_get_polarity = sdi_cpld_pin_group_get_polarity g\<rparr>"

definition sdi_cpld_pin_group_driver_init ::
    "'w port_io \<Rightarrow> 'w cpld_pin_group \<Rightarrow> 'w \<Rightarrow> (t_std_error \<times> 'w) option" where
  "sdi_cpld_pin_group_driver_init io g w = do {
     let offset = (if grp_start_addr g < grp_end_addr g then grp_start_addr g else grp_end_addr g);
     let (error, w) = (case cpld_bus (grp_cpld g) of
                         IO_Handle _ \<Rightarrow> ioperm io offset (grp_length g) w
                       | _ \<Rightarrow> (STD_ERR_OK, w));
     if error \<noteq> STD_ERR_OK then Some (error, w)
     else if default_direction (grp_defs g) = SDI_PIN_BUS_OUTPUT
     then sdi_cpld_pin_group_write_level io g (default_level (grp_defs g)) w
     else Some (error, w)
   }"

section \<open>Groups inside one register\<close>

text \<open>
  The bit field of a group of one register, written down directly: bits \<open>s\<close> to \<open>e\<close>, complemented
  when the polarity is inverted. Putting does not mask the value unless it is complemented.
\<close>

definition field_width :: "nat \<Rightarrow> nat \<Rightarrow> nat" where
  "field_width s e = e - s + 1"

definition field_get :: "bool \<Rightarrow> nat \<Rightarrow> nat \<Rightarrow> u8 \<Rightarrow> u32" where
  "field_get flip s e r =
     ucast ((if flip then NOT (drop_bit s r AND mask (field_width s e)) else drop_bit s r)
            AND mask (field_width s e))"

definition field_put :: "bool \<Rightarrow> nat \<Rightarrow> nat \<Rightarrow> u32 \<Rightarrow> u8 \<Rightarrow> u8" where
  "field_put flip s e v r =
     (r AND NOT (push_bit s (mask (field_width s e)))) OR
     push_bit s (if flip then NOT (ucast v) AND mask (field_width s e) else ucast v)"

definition one_register :: "'w cpld_pin_group \<Rightarrow> bool" where
  "one_register g \<longleftrightarrow> grp_length g = 1 \<and> grp_start_offset g \<le> grp_end_offset g \<and> grp_end_offset g < 8"

lemma width_value:
  assumes "s \<le> e" and "(e :: u32) < 8"
  shows "unat (e - s + 1) = field_width (unat s) (unat e)" and "width32 s e < 9" and "width64 s e = width32 s e"
    and "unat (width32 s e) = field_width (unat s) (unat e)"
proof -
  have e: "unat e < 8" using assms(2) by (simp add: word_less_nat_alt)
  have le: "unat s \<le> unat e" using assms(1) by (simp add: word_le_nat_alt)
  show 1: "unat (e - s + 1) = field_width (unat s) (unat e)"
    using e le assms(1) by (simp add: field_width_def unat_word_ariths unat_sub)
  have u: "unat (ucast (e - s + 1) :: u64) = field_width (unat s) (unat e)"
    using 1 by (simp add:)
  then show "unat (width32 s e) = field_width (unat s) (unat e)" by (simp add: width32_def)
  then show "width32 s e < 9" using e by (simp add: word_less_nat_alt field_width_def)
  show "width64 s e = width32 s e"
  proof -
    have "(ucast s :: u64) \<le> ucast e" using le by (simp add: word_le_nat_alt)
    then have "unat (width64 s e) = field_width (unat s) (unat e)"
      using e le by (simp add: width64_def field_width_def unat_word_ariths unat_sub)
    then show ?thesis
      using u by (simp add: width32_def word_unat_eq_iff)
  qed
qed

lemma low_mask_width: "(n :: u64) < 9 \<Longrightarrow> low_mask n = Some (mask (unat n))"
proof -
  assume "n < 9"
  then have "n < 31" by (rule order.strict_trans) simp
  then show ?thesis by (simp add: low_mask_def)
qed

lemma ucast_mask_byte: "(ucast (mask n :: u32) :: u8) = mask n"
  by (rule bit_word_eqI) (auto simp: bit_simps)

lemma read_step_one_register:
  assumes "one_register g"
  shows "read_step g 1 r level = Some (field_get (inverted g)
    (unat (grp_start_offset g)) (unat (grp_end_offset g)) r)"
proof -
  let ?s = "grp_start_offset g" and ?e = "grp_end_offset g"
  have b: "?s \<le> ?e" "?e < 8" "grp_length g = 1" using assms by (simp_all add: one_register_def)
  note w = width_value [OF b(1,2)]
  have "?s < 32" using b(1,2) by (simp add: word_le_nat_alt word_less_nat_alt)
  then show ?thesis
    using b(3) w
    by (simp add: read_step_def SDI_CPLD_BIT_MASK_def SDI_CPLD_TOGGLE_AND_MASK_def toggle_if_def
        low_mask_width ucast_mask_byte field_get_def)
qed

lemma set_sub_bitstream_masks:
  assumes "s < 64" and "e < 64"
  shows "sdi_cpld_bit_set_sub_bitstream dst src s e =
    Some ((dst AND (NOT (mask (unat e)) OR mask (unat s))) OR push_bit (unat s) src)"
proof -
  have "NOT 0 - (push_bit (unat e) 1 - 1) = NOT (mask (unat e) :: u64)"
    by (simp add: not_eq_complement mask_eq_exp_minus_1 push_bit_of_1)
  moreover have "push_bit (unat s) 1 - 1 = (mask (unat s) :: u64)"
    by (simp add: mask_eq_exp_minus_1 push_bit_of_1)
  moreover have "s \<le> 64" "e \<le> 64" using assms by simp_all
  ultimately show ?thesis
    using assms by (simp add: sdi_cpld_bit_set_sub_bitstream_def shl64_def Let_def)
qed

lemma set_sub_byte_bits:
  assumes "s < 8" and "e \<le> 8"
  shows "set_sub_byte buffer level s e =
    Some ((buffer AND (NOT (mask (unat e)) OR mask (unat s))) OR push_bit (unat s) level)"
proof -
  have "s < 64" "e < 64"
    using assms by (simp_all add: word_less_nat_alt word_le_nat_alt)
  then show ?thesis
    by (simp add: set_sub_byte_def set_sub_bitstream_masks)
      (rule bit_word_eqI, auto simp: bit_simps)
qed

lemma write_step_one_register:
  assumes "one_register g"
  shows "write_step g 1 (ucast (v AND 0xFF)) r = Some (field_put (inverted g)
    (unat (grp_start_offset g)) (unat (grp_end_offset g)) v r)"
proof -
  let ?s = "grp_start_offset g" and ?e = "grp_end_offset g"
  have b: "?s \<le> ?e" "?e < 8" "grp_length g = 1" using assms by (simp_all add: one_register_def)
  note w = width_value [OF b(1,2)]
  have s8: "(ucast ?s :: u64) < 8" and e8: "(ucast ?e :: u64) + 1 \<le> 8"
    and un: "unat (ucast ?s :: u64) = unat ?s" "unat ((ucast ?e :: u64) + 1) = unat ?e + 1"
    using b(1,2) by (simp_all add: word_less_nat_alt word_le_nat_alt unat_word_ariths)
  have le: "unat ?s \<le> unat ?e" using b(1) by (simp add: word_le_nat_alt)
  have keep: "NOT (mask (unat ?e + 1)) OR mask (unat ?s) =
      NOT (push_bit (unat ?s) (mask (field_width (unat ?s) (unat ?e))) :: u8)"
    using le by (intro bit_word_eqI) (auto simp: bit_simps field_width_def)
  have low: "(ucast (v AND 0xFF) :: u8) = ucast v"
    by (rule bit_word_eqI) (auto simp: bit_simps)
  show ?thesis
    using b(3) w set_sub_byte_bits [OF s8 e8] keep
    by (simp add: write_step_def SDI_CPLD_TOGGLE_AND_MASK_def toggle_if_def low_mask_width
        ucast_mask_byte field_put_def Let_def un low)
qed

definition field_bits_outside :: "nat \<Rightarrow> nat \<Rightarrow> u8 \<Rightarrow> nat \<Rightarrow> bool" where
  "field_bits_outside s e r c \<longleftrightarrow> \<not> (s \<le> c \<and> c \<le> e) \<and> bit r c"

lemma bit_above_value:
  assumes "unat (v :: u32) < 2 ^ n" and "n \<le> k"
  shows "\<not> bit v k"
proof -
  have eq: "take_bit n (unat v) = unat v" using assms(1) by (simp add: take_bit_nat_eq_self)
  have "\<not> bit (take_bit n (unat v)) k" using assms(2) by (simp add: bit_take_bit_iff)
  then show ?thesis unfolding eq by (simp add: bit_unsigned_iff)
qed

interpretation cpld_group_field: byte_field
  "field_get flip s e" "field_put flip s e"
  "\<lambda>v. s \<le> e \<and> e < 8 \<and> unat v < 2 ^ field_width s e"
  "field_bits_outside s e"
  for flip s e
proof unfold_locales
  fix v :: u32 and r :: u8
  assume fits: "s \<le> e \<and> e < 8 \<and> unat v < 2 ^ field_width s e"
  have high: "\<And>k. field_width s e \<le> k \<Longrightarrow> \<not> bit v k"
    using fits bit_above_value [of v "field_width s e"] by auto
  show "field_get flip s e (field_put flip s e v r) = v"
  proof (rule bit_word_eqI)
    fix n
    assume "n < LENGTH(32)"
    show "bit (field_get flip s e (field_put flip s e v r)) n = bit v n"
    proof (cases "n < field_width s e")
      case True
      then have "n < 8" "s + n < 8" using fits by (auto simp: field_width_def)
      then show ?thesis using True \<open>n < LENGTH(32)\<close>
        by (auto simp: field_get_def field_put_def bit_simps add.commute)
    next
      case False
      then show ?thesis using high [of n] \<open>n < LENGTH(32)\<close>
        by (auto simp: field_get_def field_put_def bit_simps)
    qed
  qed
  show "field_bits_outside s e (field_put flip s e v r) = field_bits_outside s e r"
  proof (rule ext)
    fix c
    show "field_bits_outside s e (field_put flip s e v r) c = field_bits_outside s e r c"
    proof (cases "c < 8")
      case True
      have "e < c \<Longrightarrow> \<not> bit v (c - s)"
        using fits by (intro high) (unfold field_width_def, arith)
      then show ?thesis
        using fits True
        by (auto simp: field_bits_outside_def field_put_def bit_simps field_width_def)
    next
      case False
      then show ?thesis
        by (auto simp: field_bits_outside_def bit_word.rep_eq dest: bit_imp_le_length)
    qed
  qed
qed

lemma write_level_one_register:
  assumes "one_register g" and "cpld_width (grp_cpld g) = SDI_CPLD_DEFAULT_REGISTER_WIDTH"
  shows "sdi_cpld_pin_group_write_level io g v w =
    rmw_byte io (cpld_bus (grp_cpld g)) (cpld_addr (grp_cpld g)) (grp_start_addr g)
      (field_put (inverted g) (unat (grp_start_offset g)) (unat (grp_end_offset g)) v) w"
proof -
  have one: "unat (grp_length g) = 1" using assms(1) by (simp add: one_register_def)
  have step: "write_step g (of_nat (Suc 0)) (ucast (v AND 0xFF)) r = Some (field_put (inverted g)
      (unat (grp_start_offset g)) (unat (grp_end_offset g)) v r)" for r
    using write_step_one_register [OF assms(1)] by simp
  show ?thesis
    unfolding sdi_cpld_pin_group_write_level_def one One_nat_def write_regs.simps rmw_byte_def step
    using assms(2) by (auto split: bind_split)
qed

lemma read_level_one_register:
  assumes "one_register g" and "cpld_width (grp_cpld g) = SDI_CPLD_DEFAULT_REGISTER_WIDTH"
    and "byte_memory A io (cpld_bus (grp_cpld g)) (cpld_addr (grp_cpld g)) reg" and "grp_start_addr g \<in> A"
  obtains w' where "sdi_cpld_pin_group_read_level io g old w = Some (STD_ERR_OK,
    field_get (inverted g) (unat (grp_start_offset g)) (unat (grp_end_offset g)) (reg w (grp_start_addr g)), w')"
proof -
  have one: "unat (grp_length g) = 1" using assms(1) by (simp add: one_register_def)
  obtain w' where "sdi_bus_read_byte io (cpld_bus (grp_cpld g)) (cpld_addr (grp_cpld g)) (grp_start_addr g) 0 w =
      Some (STD_ERR_OK, reg w (grp_start_addr g), w')"
    using byte_memory_readE [OF assms(3,4)] by blast
  then have "sdi_cpld_pin_group_read_level io g old w = Some (STD_ERR_OK,
    field_get (inverted g) (unat (grp_start_offset g)) (unat (grp_end_offset g)) (reg w (grp_start_addr g)), w')"
    using assms(2) read_step_one_register [OF assms(1)]
    by (simp add: sdi_cpld_pin_group_read_level_def one)
  then show ?thesis by (rule that)
qed

text \<open>
  C13. A pin group inside one register keeps its level. For a group of bits s to e of one register,
  writing a value that fits into the e - s + 1 bits succeeds, reading the group returns the value for
  either polarity, and no bit outside the group and no other register of the device changes.
\<close>

theorem cpld_group_write_read:
  assumes "byte_memory A io (cpld_bus (grp_cpld g)) (cpld_addr (grp_cpld g)) reg" and "grp_start_addr g \<in> A"
    and "one_register g" and "cpld_width (grp_cpld g) = SDI_CPLD_DEFAULT_REGISTER_WIDTH"
    and "unat v < 2 ^ field_width (unat (grp_start_offset g)) (unat (grp_end_offset g))"
  shows "\<exists>w1 w2. sdi_cpld_pin_group_write_level io g v w = Some (STD_ERR_OK, w1) \<and>
    sdi_cpld_pin_group_read_level io g old w1 = Some (STD_ERR_OK, v, w2) \<and>
    field_bits_outside (unat (grp_start_offset g)) (unat (grp_end_offset g)) (reg w1 (grp_start_addr g)) =
      field_bits_outside (unat (grp_start_offset g)) (unat (grp_end_offset g)) (reg w (grp_start_addr g)) \<and>
    (\<forall>a\<in>A. a \<noteq> grp_start_addr g \<longrightarrow> reg w1 a = reg w a)"
proof -
  have "unat (grp_start_offset g) \<le> unat (grp_end_offset g) \<and> unat (grp_end_offset g) < 8 \<and>
      unat v < 2 ^ field_width (unat (grp_start_offset g)) (unat (grp_end_offset g))"
    using assms(3,5) by (simp add: one_register_def word_le_nat_alt word_less_nat_alt)
  from cpld_group_field.rmw_get [OF assms(1,2) this, of "inverted g" w]
  obtain w1 where w1: "rmw_byte io (cpld_bus (grp_cpld g)) (cpld_addr (grp_cpld g)) (grp_start_addr g)
        (field_put (inverted g) (unat (grp_start_offset g)) (unat (grp_end_offset g)) v) w = Some (STD_ERR_OK, w1)"
    and get: "field_get (inverted g) (unat (grp_start_offset g)) (unat (grp_end_offset g))
        (reg w1 (grp_start_addr g)) = v"
    and rest: "field_bits_outside (unat (grp_start_offset g)) (unat (grp_end_offset g)) (reg w1 (grp_start_addr g)) =
      field_bits_outside (unat (grp_start_offset g)) (unat (grp_end_offset g)) (reg w (grp_start_addr g))"
      "\<forall>a\<in>A. a \<noteq> grp_start_addr g \<longrightarrow> reg w1 a = reg w a"
    by blast
  obtain w2 where "sdi_cpld_pin_group_read_level io g old w1 = Some (STD_ERR_OK, v, w2)"
    using read_level_one_register [OF assms(3,4,1,2)] get by metis
  then show ?thesis
    using w1 rest write_level_one_register [OF assms(3,4)] by auto
qed

text \<open>A group of the bits 2 to 4 of register 0x20 of the memory device.\<close>

definition sample_group :: "u32 \<Rightarrow> u32 \<Rightarrow> u32 \<Rightarrow> u32 \<Rightarrow> u32 \<Rightarrow> (u16 \<Rightarrow> u8) cpld_pin_group" where
  "sample_group start_addr s end_addr e len = \<lparr>
     grp_defs = \<lparr>default_direction = SDI_PIN_BUS_OUTPUT, default_polarity = SDI_PIN_POLARITY_NORMAL,
       default_level = 0\<rparr>,
     grp_start_addr = start_addr, grp_start_offset = s, grp_end_addr = end_addr, grp_end_offset = e,
     grp_length = len, grp_cpld = memory_cpld\<rparr>"

lemma sample_group_one: "one_register (sample_group 0x20 2 0x20 4 1)"
  by (simp add: one_register_def sample_group_def)

lemma sample_group_memory:
  "byte_memory {a. a < 0x10000} memory_ports (cpld_bus (grp_cpld (sample_group a s b e n)))
     (cpld_addr (grp_cpld (sample_group a s b e n))) (\<lambda>w a. w (ucast a))"
  "cpld_width (grp_cpld (sample_group a s b e n)) = SDI_CPLD_DEFAULT_REGISTER_WIDTH"
  by (simp_all add: sample_group_def memory_cpld_byte_memory)
    (simp add: memory_cpld_def SDI_CPLD_DEFAULT_REGISTER_WIDTH_def)

lemma sample_group_addr: "grp_start_addr (sample_group 0x20 s b e n) \<in> {a. a < 0x10000}"
  by (simp add: sample_group_def)

lemma cpld_group_write_read_witness:
  "\<exists>w1 w2. sdi_cpld_pin_group_write_level memory_ports (sample_group 0x20 2 0x20 4 1) 5 (\<lambda>_. 0xFF) =
      Some (STD_ERR_OK, w1) \<and>
    sdi_cpld_pin_group_read_level memory_ports (sample_group 0x20 2 0x20 4 1) 0 w1 = Some (STD_ERR_OK, 5, w2)"
proof -
  have "unat (5 :: u32) < 2 ^ field_width (unat (grp_start_offset (sample_group 0x20 2 0x20 4 1)))
      (unat (grp_end_offset (sample_group 0x20 2 0x20 4 1)))"
    by (simp add: sample_group_def field_width_def)
  from cpld_group_write_read [OF sample_group_memory(1) sample_group_addr sample_group_one sample_group_memory(2) this]
  show ?thesis by blast
qed

text \<open>
  A value too large for its group spills into the register. With normal polarity nothing masks
  the value, so after the write every bit c of the register above the group is its old value or'ed
  with bit c - s of the value: sdi\_cpld\_bit\_set\_sub\_bitstream clears only the bits of the group in
  its target but shifts the whole source in, although it documents that only the bits from start to
  end are set.
\<close>

theorem cpld_group_overwide_value_spills:
  assumes "byte_memory A io (cpld_bus (grp_cpld g)) (cpld_addr (grp_cpld g)) reg" and "grp_start_addr g \<in> A"
    and "one_register g" and "cpld_width (grp_cpld g) = SDI_CPLD_DEFAULT_REGISTER_WIDTH"
    and "default_polarity (grp_defs g) = SDI_PIN_POLARITY_NORMAL"
  shows "\<exists>w1. sdi_cpld_pin_group_write_level io g v w = Some (STD_ERR_OK, w1) \<and>
    (\<forall>c < 8. unat (grp_end_offset g) < c \<longrightarrow>
       bit (reg w1 (grp_start_addr g)) c =
         (bit (reg w (grp_start_addr g)) c \<or> bit v (c - unat (grp_start_offset g))))"
proof -
  let ?s = "unat (grp_start_offset g)" and ?e = "unat (grp_end_offset g)" and ?a = "grp_start_addr g"
  have se: "?s \<le> ?e" using assms(3) by (simp add: one_register_def word_le_nat_alt)
  obtain w0 where r: "sdi_bus_read_byte io (cpld_bus (grp_cpld g)) (cpld_addr (grp_cpld g)) ?a 0 w =
      Some (STD_ERR_OK, reg w ?a, w0)" "same_registers A (reg w) (reg w0)"
    using byte_memory_readE [OF assms(1,2)] by blast
  obtain w1 where x: "sdi_bus_write_byte io (cpld_bus (grp_cpld g)) (cpld_addr (grp_cpld g)) ?a
      (field_put False ?s ?e v (reg w ?a)) w0 = Some (STD_ERR_OK, w1)"
      "same_registers A ((reg w0)(?a := field_put False ?s ?e v (reg w ?a))) (reg w1)"
    using byte_memory_writeE [OF assms(1,2)] by blast
  have at: "reg w1 ?a = field_put False ?s ?e v (reg w ?a)" using x(2) assms(2) by (simp add: same_registers_def)
  have "\<not> inverted g" by (simp add: inverted_def assms(5))
  then have "sdi_cpld_pin_group_write_level io g v w = Some (STD_ERR_OK, w1)"
    using r x write_level_one_register [OF assms(3,4)] by (simp add: rmw_byte_def)
  moreover have "bit (field_put False ?s ?e v (reg w ?a)) c = (bit (reg w ?a) c \<or> bit v (c - ?s))"
    if "c < 8" "?e < c" for c
    using that se by (auto simp: field_put_def bit_simps field_width_def)
  ultimately show ?thesis using at by auto
qed

lemma cpld_group_overwide_value_spills_witness:
  "\<exists>w1. sdi_cpld_pin_group_write_level memory_ports (sample_group 0x20 2 0x20 4 1) 8 (\<lambda>_. 0) =
      Some (STD_ERR_OK, w1) \<and> bit (w1 0x20) 5"
proof -
  have "default_polarity (grp_defs (sample_group 0x20 2 0x20 4 1)) = SDI_PIN_POLARITY_NORMAL"
    by (simp add: sample_group_def)
  from cpld_group_overwide_value_spills [OF sample_group_memory(1) sample_group_addr sample_group_one
      sample_group_memory(2) this, where v = 8 and w = "\<lambda>_. 0"]
  obtain w1 where w1: "sdi_cpld_pin_group_write_level memory_ports (sample_group 0x20 2 0x20 4 1) 8 (\<lambda>_. 0) =
      Some (STD_ERR_OK, w1)"
    and spill: "\<forall>c < 8. 4 < c \<longrightarrow> bit (w1 0x20) c = (bit (0 :: u8) c \<or> bit (8 :: u32) (c - 2))"
    by (auto simp: sample_group_def)
  have "bit (8 :: u32) 3" by (simp add: bit_numeral_simps)
  with spill [rule_format, of 5] have "bit (w1 0x20) 5" by simp
  with w1 show ?thesis by blast
qed

text \<open>
  A group that spans registers and starts above bit 0 does not keep its value: writing 0xFF to
  the eight bit field in bits 4 to 7 of register 0x20 and bits 0 to 3 of register 0x21 succeeds, and
  reading the field returns 0x0F. The first register takes the low byte of the value shifted up, whose
  upper half is lost, but the second register continues with the next byte instead of the next bit.
\<close>

theorem cpld_group_two_registers_loses_bits:
  "\<exists>w1 w2. sdi_cpld_pin_group_write_level memory_ports (sample_group 0x20 4 0x21 3 2) 0xFF (\<lambda>_. 0) =
      Some (STD_ERR_OK, w1) \<and>
    sdi_cpld_pin_group_read_level memory_ports (sample_group 0x20 4 0x21 3 2) 0 w1 = Some (STD_ERR_OK, 0x0F, w2)"
proof -
  let ?g = "sample_group 0x20 4 0x21 3 2"
  have step1: "write_step ?g 2 0xFF 0 = Some 0xF0" and step2: "write_step ?g 1 0 0 = Some 0"
    and read1: "read_step ?g 1 0xF0 0 = Some 0xF0" and read2: "read_step ?g 2 0 0xF0 = Some 0x0F"
    by code_simp+
  have g: "unat (grp_length ?g) = Suc (Suc 0)" "grp_cpld ?g = memory_cpld" "grp_start_addr ?g = 0x20"
    "next_offset ?g off = off + 1" "cpld_width memory_cpld = SDI_CPLD_DEFAULT_REGISTER_WIDTH" for off
    by (simp_all add: sample_group_def next_offset_def memory_cpld_def SDI_CPLD_DEFAULT_REGISTER_WIDTH_def)
  have mem: "sdi_bus_read_byte memory_ports (cpld_bus memory_cpld) addr a v m = Some (STD_ERR_OK, m (ucast a), m)"
    "sdi_bus_write_byte memory_ports (cpld_bus memory_cpld) addr a v m = Some (STD_ERR_OK, m(ucast a := v))"
    for addr a v m
    by (simp_all add: memory_cpld_def memory_ports_def sdi_bus_read_byte_def sdi_bus_write_byte_def
        sdi_io_read_byte_def sdi_io_write_byte_def)
  have "sdi_cpld_pin_group_write_level memory_ports ?g 0xFF (\<lambda>_. 0) =
      Some (STD_ERR_OK, (\<lambda>_. 0)(0x20 := 0xF0, 0x21 := 0))"
    by (simp add: sdi_cpld_pin_group_write_level_def g mem step1 step2)
  moreover have "sdi_cpld_pin_group_read_level memory_ports ?g 0 ((\<lambda>_. 0)(0x20 := 0xF0, 0x21 := 0)) =
      Some (STD_ERR_OK, 0x0F, (\<lambda>_. 0)(0x20 := 0xF0, 0x21 := 0))"
    by (simp add: sdi_cpld_pin_group_read_level_def g mem read1 read2)
  ultimately show ?thesis by blast
qed

end
