(* ===== verification/I2c_Mux.thy ===== *)
theory I2c_Mux
  imports I2cdev Cpld_Pin_Group
begin

text \<open>
  The two I2C multiplexer drivers: src/drivers/sdi\_i2cmux\_pca.c (the channel is selected by a byte
  written to the mux over the parent I2C bus) and src/drivers/sdi\_i2cmux\_pin.c (the channel is
  selected by a pin group). Each channel of a mux is an I2C bus; its operation table has no
  \<open>sdi_i2c_execute\<close>.
\<close>

section \<open>The PCA mux\<close>

record 'w sdi_i2cmux_pca =
  pca_i2c_bus :: "'w sdi_i2c_bus"
  pca_mux_lock :: mutex

record 'w sdi_i2cmux_pca_chan =
  pca_chan_base :: sdi_bus
  mux_i2c_addr :: sdi_i2c_addr
  mux_sel_value :: u32
  pca_i2c_mux :: "'w sdi_i2cmux_pca"

definition sdi_i2cmux_pca_chan_acquire_bus ::
    "'w os \<Rightarrow> 'w sdi_i2cmux_pca_chan \<Rightarrow> 'w \<Rightarrow> (t_std_error \<times> 'w) option" where
  "sdi_i2cmux_pca_chan_acquire_bus os ch w = do {
     let mux = pca_i2c_mux ch;
     (error, w) \<leftarrow> std_mutex_lock os (pca_mux_lock mux) w;
     if error \<noteq> STD_ERR_OK then Some (SDI_DEVICE_ERRCODE (os_errno os w), w)
     else do {
       (error, w) \<leftarrow> sdi_smbus_write_byte (pca_i2c_bus mux) (mux_i2c_addr ch) 0 (ucast (mux_sel_value ch)) 0 w;
       if error \<noteq> STD_ERR_OK then do {
         (_, w) \<leftarrow> std_mutex_unlock os (pca_mux_lock mux) w;
         Some (error, w)
       } else Some (error, w)
     }
   }"

definition sdi_i2cmux_pca_chan_release_bus ::
    "'w os \<Rightarrow> 'w sdi_i2cmux_pca_chan \<Rightarrow> 'w \<Rightarrow> 'w option" where
  "sdi_i2cmux_pca_chan_release_bus os ch w = do {
     let mux = pca_i2c_mux ch;
     (_, w) \<leftarrow> sdi_smbus_write_byte (pca_i2c_bus mux) (mux_i2c_addr ch) 0 0 0 w;
     (_, w) \<leftarrow> std_mutex_unlock os (pca_mux_lock mux) w;
     Some w
   }"

definition sdi_i2cmux_pca_chan_get_capability :: "'w sdi_i2cmux_pca_chan \<Rightarrow> u64" where
  "sdi_i2cmux_pca_chan_get_capability ch = sdi_i2c_bus_get_capability (pca_i2c_bus (pca_i2c_mux ch))"

definition sdi_i2cmux_pca_chan_execute ::
    "'w sdi_i2cmux_pca_chan \<Rightarrow> sdi_i2c_addr \<Rightarrow> sdi_smbus_operation \<Rightarrow> sdi_smbus_data_type \<Rightarrow> u32
      \<Rightarrow> smbus_buf \<Rightarrow> u32 \<Rightarrow> 'w \<Rightarrow> (t_std_error \<times> smbus_buf \<times> 'w) option" where
  "sdi_i2cmux_pca_chan_execute ch = sdi_smbus_execute (pca_i2c_bus (pca_i2c_mux ch))"

definition sdi_i2cmux_pca_chan_bus_operations ::
    "'w os \<Rightarrow> 'w sdi_i2cmux_pca_chan \<Rightarrow> 'w sdi_i2c_bus_ops" where
  "sdi_i2cmux_pca_chan_bus_operations os ch = \<lparr>
     ops_acquire_bus = sdi_i2cmux_pca_chan_acquire_bus os ch,
     ops_smbus_execute = sdi_i2cmux_pca_chan_execute ch,
     ops_i2c_execute = None,
     ops_release_bus = sdi_i2cmux_pca_chan_release_bus os ch,
     ops_get_capability = sdi_i2cmux_pca_chan_get_capability ch\<rparr>"

text \<open>The registration of the driver makes every channel a bus of type SDI\_I2C\_BUS.\<close>

definition pca_chan_bus :: "'w os \<Rightarrow> 'w sdi_i2cmux_pca_chan \<Rightarrow> 'w sdi_i2c_bus" where
  "pca_chan_bus os ch = \<lparr>bus = (pca_chan_base ch)\<lparr>bus_type := SDI_I2C_BUS\<rparr>,
     ops = sdi_i2cmux_pca_chan_bus_operations os ch\<rparr>"

section \<open>The pin mux\<close>

record 'w sdi_i2cmux_pin =
  pingroup_hdl :: "(u32, 'w) pin_bus"
  i2cbus_hdl :: "'w sdi_i2c_bus"
  pin_mux_lock :: mutex

record 'w sdi_i2cmux_pin_chan =
  pin_chan_base :: sdi_bus
  i2c_mux_channel :: u32
  pin_i2c_mux :: "'w sdi_i2cmux_pin"

text \<open>
  The block of acquire that a failure breaks out of; the second result is the flag
  \<open>is_pin_group_bus_acquired\<close>, which decides what a failure gives back.
\<close>

definition pin_chan_select ::
    "'w os \<Rightarrow> 'w sdi_i2cmux_pin_chan \<Rightarrow> 'w \<Rightarrow> (t_std_error \<times> bool \<times> 'w) option" where
  "pin_chan_select os ch w = do {
     let mux = pin_i2c_mux ch;
     (error, w) \<leftarrow> sdi_pin_group_acquire_bus os (pingroup_hdl mux) w;
     if error \<noteq> STD_ERR_OK then Some (error, False, w)
     else do {
       (error, w) \<leftarrow> sdi_pin_group_write_level (pingroup_hdl mux) (i2c_mux_channel ch) w;
       if error \<noteq> STD_ERR_OK then Some (error, True, w)
       else do {
         (error, w) \<leftarrow> sdi_i2c_acquire_bus (i2cbus_hdl mux) w;
         Some (error, True, w)
       }
     }
   }"

definition pin_chan_give_back ::
    "'w os \<Rightarrow> 'w sdi_i2cmux_pin_chan \<Rightarrow> bool \<Rightarrow> 'w \<Rightarrow> 'w option" where
  "pin_chan_give_back os ch is_pin_group_bus_acquired w = do {
     let mux = pin_i2c_mux ch;
     w \<leftarrow> (if is_pin_group_bus_acquired then sdi_pin_group_release_bus os (pingroup_hdl mux) w else Some w);
     (_, w) \<leftarrow> std_mutex_unlock os (pin_mux_lock mux) w;
     Some w
   }"

definition sdi_i2cmux_pin_chan_acquire_bus ::
    "'w os \<Rightarrow> 'w sdi_i2cmux_pin_chan \<Rightarrow> 'w \<Rightarrow> (t_std_error \<times> 'w) option" where
  "sdi_i2cmux_pin_chan_acquire_bus os ch w = do {
     let mux = pin_i2c_mux ch;
     (error, w) \<leftarrow> std_mutex_lock os (pin_mux_lock mux) w;
     if error \<noteq> STD_ERR_OK then Some (SDI_DEVICE_ERRCODE (os_errno os w), w)
     else do {
       (error, is_pin_group_bus_acquired, w) \<leftarrow> pin_chan_select os ch w;
       if error \<noteq> STD_ERR_OK then do {
         w \<leftarrow> pin_chan_give_back os ch is_pin_group_bus_acquired w;
         Some (error, w)
       } else Some (error, w)
     }
   }"

definition sdi_i2cmux_pin_chan_release_bus ::
    "'w os \<Rightarrow> 'w sdi_i2cmux_pin_chan \<Rightarrow> 'w \<Rightarrow> 'w option" where
  "sdi_i2cmux_pin_chan_release_bus os ch w = do {
     let mux = pin_i2c_mux ch;
     w \<leftarrow> sdi_i2c_release_bus (i2cbus_hdl mux) w;
     w \<leftarrow> sdi_pin_group_release_bus os (pingroup_hdl mux) w;
     (_, w) \<leftarrow> std_mutex_unlock os (pin_mux_lock mux) w;
     Some w
   }"

definition sdi_i2cmux_pin_chan_get_capability :: "'w sdi_i2cmux_pin_chan \<Rightarrow> u64" where
  "sdi_i2cmux_pin_chan_get_capability ch = sdi_i2c_bus_get_capability (i2cbus_hdl (pin_i2c_mux ch))"

definition sdi_i2cmux_pin_chan_execute ::
    "'w sdi_i2cmux_pin_chan \<Rightarrow> sdi_i2c_addr \<Rightarrow> sdi_smbus_operation \<Rightarrow> sdi_smbus_data_type \<Rightarrow> u32
      \<Rightarrow> smbus_buf \<Rightarrow> u32 \<Rightarrow> 'w \<Rightarrow> (t_std_error \<times> smbus_buf \<times> 'w) option" where
  "sdi_i2cmux_pin_chan_execute ch = sdi_smbus_execute (i2cbus_hdl (pin_i2c_mux ch))"

definition sdi_i2cmux_pin_chan_bus_operations ::
    "'w os \<Rightarrow> 'w sdi_i2cmux_pin_chan \<Rightarrow> 'w sdi_i2c_bus_ops" where
  "sdi_i2cmux_pin_chan_bus_operations os ch = \<lparr>
     ops_acquire_bus = sdi_i2cmux_pin_chan_acquire_bus os ch,
     ops_smbus_execute = sdi_i2cmux_pin_chan_execute ch,
     ops_i2c_execute = None,
     ops_release_bus = sdi_i2cmux_pin_chan_release_bus os ch,
     ops_get_capability = sdi_i2cmux_pin_chan_get_capability ch\<rparr>"

definition pin_chan_bus :: "'w os \<Rightarrow> 'w sdi_i2cmux_pin_chan \<Rightarrow> 'w sdi_i2c_bus" where
  "pin_chan_bus os ch = \<lparr>bus = (pin_chan_base ch)\<lparr>bus_type := SDI_I2C_BUS\<rparr>,
     ops = sdi_i2cmux_pin_chan_bus_operations os ch\<rparr>"

section \<open>Channels are providers\<close>

text \<open>A channel keeps the contract of the I2C bus whenever its parent bus keeps it.\<close>

lemma chan_execute [sdi_simps]:
  "sdi_smbus_execute (pca_chan_bus os pch) = sdi_smbus_execute (pca_i2c_bus (pca_i2c_mux pch))"
  "sdi_smbus_execute (pin_chan_bus os ch) = sdi_smbus_execute (i2cbus_hdl (pin_i2c_mux ch))"
  by (simp_all add: sdi_smbus_execute_def pca_chan_bus_def sdi_i2cmux_pca_chan_bus_operations_def
      sdi_i2cmux_pca_chan_execute_def pin_chan_bus_def sdi_i2cmux_pin_chan_bus_operations_def
      sdi_i2cmux_pin_chan_execute_def)

lemma chan_bus_type [sdi_simps]:
  "bus_type (bus (pca_chan_bus os pch)) = SDI_I2C_BUS"
  "bus_type (bus (pin_chan_bus os ch)) = SDI_I2C_BUS"
  by (simp_all add: pca_chan_bus_def pin_chan_bus_def)

locale pca_mux = parent: smbus_provider "pca_i2c_bus mux" for mux :: "'w sdi_i2cmux_pca"

sublocale pca_mux \<subseteq> chan: smbus_provider "pca_chan_bus os (ch\<lparr>pca_i2c_mux := mux\<rparr>)" for os ch
  by unfold_locales
    (auto simp: sdi_simps intro: parent.execute_kind parent.write_keeps parent.failure_keeps)

interpretation i2cdev_pca: pca_mux "\<lparr>pca_i2c_bus = i2cdev_bus os b, pca_mux_lock = l\<rparr>"
  for os :: "'w i2c_os" and b l
  by unfold_locales
    (auto simp: i2cdev.is_i2c intro: i2cdev.execute_kind i2cdev.write_keeps i2cdev.failure_keeps)

locale pin_mux = parent: smbus_provider "i2cbus_hdl mux" for mux :: "'w sdi_i2cmux_pin"

sublocale pin_mux \<subseteq> chan: smbus_provider "pin_chan_bus os (ch\<lparr>pin_i2c_mux := mux\<rparr>)" for os ch
  by unfold_locales
    (auto simp: sdi_simps intro: parent.execute_kind parent.write_keeps parent.failure_keeps)

interpretation i2cdev_pin: pin_mux "\<lparr>pingroup_hdl = g, i2cbus_hdl = i2cdev_bus os b, pin_mux_lock = l\<rparr>"
  for g and os :: "'w i2c_os" and b l
  by unfold_locales
    (auto simp: i2cdev.is_i2c intro: i2cdev.execute_kind i2cdev.write_keeps i2cdev.failure_keeps)

section \<open>Lock discipline of the channels\<close>

lemma truncate_os [simp]:
  "std_mutex_lock (os.truncate os) = std_mutex_lock os"
  "std_mutex_unlock (os.truncate os) = std_mutex_unlock os"
  "os_errno (os.truncate os) = os_errno os"
  by (simp_all add: os.truncate_def)

lemma traced_mutex_runs:
  "std_mutex_lock (traced_i2c_os os) k w = Some (STD_ERR_OK, w') \<Longrightarrow> runs snd m fd ctx (k # ctx) w w'"
  "std_mutex_lock (traced_i2c_os os) k w = Some (e, w') \<Longrightarrow> e \<noteq> STD_ERR_OK \<Longrightarrow> runs snd m fd ctx ctx w w'"
  "std_mutex_unlock (traced_i2c_os os) k w = Some (e, w') \<Longrightarrow> runs snd m fd (k # ctx) ctx w w'"
  by (auto simp: traced_i2c_os_def traced_lock_def traced_unlock_def runs_def split: option.splits)

text \<open>
  A PCA channel over a kernel bus: its transfers on the file descriptor of the parent all happen
  under the lock of the mux.
\<close>

definition pca_on_i2cdev ::
    "'w i2c_os \<Rightarrow> sdi_sys_i2c_bus \<Rightarrow> mutex \<Rightarrow> ('w \<times> event list) sdi_i2cmux_pca" where
  "pca_on_i2cdev os b l = \<lparr>pca_i2c_bus = i2cdev_bus (traced_i2c_os os) b, pca_mux_lock = l\<rparr>"

definition pca_channel ::
    "'w i2c_os \<Rightarrow> sdi_sys_i2c_bus \<Rightarrow> mutex \<Rightarrow> sdi_bus \<Rightarrow> sdi_i2c_addr \<Rightarrow> u32
      \<Rightarrow> ('w \<times> event list) sdi_i2c_bus" where
  "pca_channel os b l base addr sel = pca_chan_bus (os.truncate (traced_i2c_os os))
     \<lparr>pca_chan_base = base, mux_i2c_addr = addr, mux_sel_value = sel, pca_i2c_mux = pca_on_i2cdev os b l\<rparr>"

lemmas pca_channel_defs = pca_channel_def pca_chan_bus_def sdi_i2cmux_pca_chan_bus_operations_def
  sdi_i2cmux_pca_chan_acquire_bus_def sdi_i2cmux_pca_chan_release_bus_def
  sdi_i2cmux_pca_chan_execute_def pca_on_i2cdev_def

interpretation pca_locks: bus_locking "pca_channel os b l base addr sel" snd l "i2cdev_fd b" "[l]" ctx
  for os :: "'w i2c_os" and b l base addr sel ctx
proof unfold_locales
  fix w w' :: "'w \<times> event list" and e
  let ?R = "runs snd l (i2cdev_fd b)"
  note api = i2cdev_outer.api_runs(4) [where ctx = ctx and m = l]
  show "sdi_i2c_acquire_bus (pca_channel os b l base addr sel) w = Some (STD_ERR_OK, w') \<Longrightarrow>
      ?R ctx ([l] @ ctx) w w'"
    by (auto simp: sdi_i2c_acquire_bus_def pca_channel_defs bind_SomeD Let_def split: if_splits
        dest!: api dest: traced_mutex_runs(1) intro: runs_trans)
  show "sdi_i2c_acquire_bus (pca_channel os b l base addr sel) w = Some (e, w') \<Longrightarrow> e \<noteq> STD_ERR_OK \<Longrightarrow>
      ?R ctx ctx w w'"
    by (auto simp: sdi_i2c_acquire_bus_def pca_channel_defs bind_SomeD Let_def split: if_splits
        dest!: api dest: traced_mutex_runs intro: runs_trans)
  show "sdi_i2c_release_bus (pca_channel os b l base addr sel) w = Some w' \<Longrightarrow> ?R ([l] @ ctx) ctx w w'"
    by (auto simp: sdi_i2c_release_bus_def pca_channel_defs bind_SomeD Let_def
        dest!: api dest: traced_mutex_runs(3) intro: runs_trans)
next
  fix w w' :: "'w \<times> event list" and caddr oper dt cmd p flags e p'
  assume "sdi_smbus_execute (pca_channel os b l base addr sel) caddr oper dt cmd p flags w = Some (e, p', w')"
  then show "runs snd l (i2cdev_fd b) ([l] @ ctx) ([l] @ ctx) w w'"
    by (auto simp: pca_channel_def pca_on_i2cdev_def chan_execute intro: i2cdev_execute_runs'(1) [rotated])
next
  fix w w' :: "'w \<times> event list" and caddr iop cs cl p bl flags e p'
  assume "sdi_i2c_bus_execute (pca_channel os b l base addr sel) caddr iop cs cl p bl flags w = Some (e, p', w')"
  then show "runs snd l (i2cdev_fd b) ([l] @ ctx) ([l] @ ctx) w w'"
    by (simp add: sdi_i2c_bus_execute_def pca_channel_defs)
qed

text \<open>
  A pin mux channel whose pin group is in a CPLD behind I/O ports: the port accesses leave no trace.
\<close>

definition traced_port_io :: "'w port_io \<Rightarrow> ('w \<times> event list) port_io" where
  "traced_port_io io = \<lparr>
     inb = (\<lambda>a wt. (fst (inb io a (fst wt)), (snd (inb io a (fst wt)), snd wt))),
     outb = (\<lambda>a v wt. (outb io a v (fst wt), snd wt)),
     ioperm = (\<lambda>a n wt. (fst (ioperm io a n (fst wt)), (snd (ioperm io a n (fst wt)), snd wt)))\<rparr>"

definition port_group ::
    "'w port_io \<Rightarrow> ('w \<times> event list) cpld_pin_group \<Rightarrow> sdi_bus \<Rightarrow> sdi_bus \<Rightarrow> mutex
      \<Rightarrow> (u32, 'w \<times> event list) pin_bus" where
  "port_group io g port_bus base l = \<lparr>pin_base = base\<lparr>bus_type := SDI_PIN_GROUP_BUS\<rparr>, pin_lock = l,
     pin_ops = sdi_cpld_pin_group_ops (traced_port_io io)
       (g\<lparr>grp_cpld := (grp_cpld g)\<lparr>cpld_bus := IO_Handle (port_bus\<lparr>bus_type := SDI_IO_BUS\<rparr>)\<rparr>\<rparr>)\<rparr>"

lemma write_regs_trace:
  assumes "cpld_bus (grp_cpld g) = IO_Handle pb"
  shows "write_regs (traced_port_io io) g n off data w = Some (e, w') \<Longrightarrow> snd w' = snd w"
proof (induction n arbitrary: off data w)
  case (Suc n)
  then show ?case
    by (auto simp: bind_SomeD sdi_bus_read_byte_def sdi_bus_write_byte_def assms sdi_io_read_byte_def
        sdi_io_write_byte_def traced_port_io_def split: if_splits)
qed simp

lemma port_group_write_runs:
  "sdi_pin_group_write_level (port_group io g pb base l) v w = Some (e, w') \<Longrightarrow> runs snd m fd ctx ctx w w'"
  by (rule runs_same)
    (auto simp: sdi_pin_group_write_level_def port_group_def sdi_cpld_pin_group_ops_def
      sdi_cpld_pin_group_write_level_def split: if_splits dest: write_regs_trace [rotated])

definition pin_channel ::
    "'w i2c_os \<Rightarrow> sdi_sys_i2c_bus \<Rightarrow> mutex \<Rightarrow> sdi_bus \<Rightarrow> u32 \<Rightarrow> (u32, 'w \<times> event list) pin_bus
      \<Rightarrow> ('w \<times> event list) sdi_i2c_bus" where
  "pin_channel os b l base sel g = pin_chan_bus (os.truncate (traced_i2c_os os))
     \<lparr>pin_chan_base = base, i2c_mux_channel = sel,
      pin_i2c_mux = \<lparr>pingroup_hdl = g, i2cbus_hdl = i2cdev_bus (traced_i2c_os os) b, pin_mux_lock = l\<rparr>\<rparr>"

lemmas pin_channel_defs = pin_channel_def pin_chan_bus_def sdi_i2cmux_pin_chan_bus_operations_def
  sdi_i2cmux_pin_chan_release_bus_def sdi_i2cmux_pin_chan_execute_def sdi_pin_group_acquire_bus_def
  sdi_pin_group_release_bus_def

text \<open>The channel record and its calls, with the group and the parent fixed.\<close>

definition pin_chan_on ::
    "'w i2c_os \<Rightarrow> sdi_sys_i2c_bus \<Rightarrow> mutex \<Rightarrow> sdi_bus \<Rightarrow> u32 \<Rightarrow> (u32, 'w \<times> event list) pin_bus
      \<Rightarrow> ('w \<times> event list) sdi_i2cmux_pin_chan" where
  "pin_chan_on os b l base sel g =
     \<lparr>pin_chan_base = base, i2c_mux_channel = sel,
      pin_i2c_mux = \<lparr>pingroup_hdl = g, i2cbus_hdl = i2cdev_bus (traced_i2c_os os) b, pin_mux_lock = l\<rparr>\<rparr>"

lemma port_group_lock [simp]: "pin_lock (port_group io g pb gb gl) = gl"
  by (simp add: port_group_def)

lemma pin_chan_select_runs:
  assumes "pin_chan_select (os.truncate (traced_i2c_os os))
      (pin_chan_on os b l base sel (port_group io g pb gb gl)) w = Some (e, acq, w')"
  shows "runs snd m fd ctx
      ((if e = STD_ERR_OK then [sys_lock b] else []) @ (if acq then [gl] else []) @ ctx) w w' \<and>
    (e = STD_ERR_OK \<longrightarrow> acq)"
proof -
  note run = traced_mutex_runs(1) [where m = m and fd = fd and ctx = ctx]
    port_group_write_runs [where m = m and fd = fd and ctx = "gl # ctx"]
    i2cdev_acquire_runs(1) [where m = m and fd = fd and ctx = "gl # ctx"]
  note err = traced_mutex_runs(2) [where m = m and fd = fd and ctx = ctx]
    i2cdev_acquire_runs(2) [where m = m and fd = fd and ctx = "gl # ctx"]
  show ?thesis
    using assms
    by (auto simp: pin_chan_select_def pin_chan_on_def sdi_pin_group_acquire_bus_def bind_SomeD Let_def
        split: if_splits dest!: run dest: err intro: runs_trans)
qed

lemma pin_chan_give_back_runs:
  assumes "pin_chan_give_back (os.truncate (traced_i2c_os os))
      (pin_chan_on os b l base sel (port_group io g pb gb gl)) acq w = Some w'"
  shows "runs snd m fd ((if acq then [gl] else []) @ l # ctx) ctx w w'"
  using assms
  by (auto simp: pin_chan_give_back_def pin_chan_on_def sdi_pin_group_release_bus_def bind_SomeD Let_def
      split: if_splits dest!: traced_mutex_runs(3) intro: runs_trans)

lemma pin_channel_acquire:
  assumes "sdi_i2c_acquire_bus (pin_channel os b l base sel (port_group io g pb gb gl)) w = Some (e, w')"
  shows "runs snd m fd ctx
     (if e = STD_ERR_OK then [sys_lock b, gl, l] @ ctx else ctx) w w'"
proof -
  let ?os = "os.truncate (traced_i2c_os os)" and ?ch = "pin_chan_on os b l base sel (port_group io g pb gb gl)"
  let ?R = "runs snd m fd"
  have "sdi_i2cmux_pin_chan_acquire_bus ?os ?ch w = Some (e, w')"
    using assms by (simp add: sdi_i2c_acquire_bus_def pin_channel_defs pin_chan_on_def)
  then obtain e1 w1 where l1: "std_mutex_lock (traced_i2c_os os) l w = Some (e1, w1)"
    and rest: "(if e1 \<noteq> STD_ERR_OK then Some (SDI_DEVICE_ERRCODE (os_errno ?os w1), w1)
      else pin_chan_select ?os ?ch w1 \<bind> (\<lambda>(error, acq, w).
        if error \<noteq> STD_ERR_OK then pin_chan_give_back ?os ?ch acq w \<bind> (\<lambda>w. Some (error, w))
        else Some (error, w))) = Some (e, w')"
    unfolding sdi_i2cmux_pin_chan_acquire_bus_def
    by (auto simp: pin_chan_on_def bind_pair_eq_Some simp del: split_paired_Ex)
  show ?thesis
  proof (cases "e1 = STD_ERR_OK")
    case False
    then show ?thesis using l1 rest by (auto dest: traced_mutex_runs(2))
  next
    case True
    have w1: "?R ctx (l # ctx) w w1" using l1 True by (auto dest: traced_mutex_runs(1))
    from rest True obtain e2 acq w2 where sel: "pin_chan_select ?os ?ch w1 = Some (e2, acq, w2)"
      and e: "(if e2 \<noteq> STD_ERR_OK then pin_chan_give_back ?os ?ch acq w2 \<bind> (\<lambda>w. Some (e2, w))
        else Some (e2, w2)) = Some (e, w')"
      by (auto simp: bind_triple_eq_Some simp del: split_paired_Ex)
    note w2 = pin_chan_select_runs [OF sel, where m = m and fd = fd and ctx = "l # ctx"]
    show ?thesis
    proof (cases "e2 = STD_ERR_OK")
      case True
      then show ?thesis using w1 w2 e by (auto intro: runs_trans)
    next
      case False
      then have gb: "pin_chan_give_back ?os ?ch acq w2 = Some w'" and "e = e2"
        using e by (auto simp: bind_any_eq_Some simp del: split_paired_Ex)
      have "?R ((if acq then [gl] else []) @ l # ctx) ctx w2 w'"
        by (rule pin_chan_give_back_runs [OF gb])
      then show ?thesis using w1 w2 False \<open>e = e2\<close> by (auto intro: runs_trans)
    qed
  qed
qed

text \<open>The transfers happen while all three locks are held, so each of them guards.\<close>

lemma pin_channel_locking:
  fixes os :: "'w i2c_os"
  assumes m: "m \<in> {sys_lock b, gl, l}"
  shows "bus_locking (pin_channel os b l base sel (port_group io g pb gb gl)) snd m (i2cdev_fd b)
    [sys_lock b, gl, l] ctx"
proof unfold_locales
  fix w w' :: "'w \<times> event list" and e
  let ?ch = "pin_channel os b l base sel (port_group io g pb gb gl)"
  let ?R = "runs snd m (i2cdev_fd b)"
  show "sdi_i2c_acquire_bus ?ch w = Some (STD_ERR_OK, w') \<Longrightarrow> ?R ctx ([sys_lock b, gl, l] @ ctx) w w'"
    by (drule pin_channel_acquire [where ctx = ctx]) simp
  show "sdi_i2c_acquire_bus ?ch w = Some (e, w') \<Longrightarrow> e \<noteq> STD_ERR_OK \<Longrightarrow> ?R ctx ctx w w'"
    by (drule pin_channel_acquire [where ctx = ctx]) simp
  have gl: "pin_lock (port_group io g pb gb gl) = gl" by (simp add: port_group_def)
  show "sdi_i2c_release_bus ?ch w = Some w' \<Longrightarrow> ?R ([sys_lock b, gl, l] @ ctx) ctx w w'"
    unfolding sdi_i2c_release_bus_def [of ?ch]
    by (auto simp: pin_channel_defs gl bind_SomeD Let_def
        dest!: traced_mutex_runs(3) i2cdev_acquire_runs(3) intro: runs_trans)
next
  fix w w' :: "'w \<times> event list" and caddr oper dt cmd p flags e p'
  assume "sdi_smbus_execute (pin_channel os b l base sel (port_group io g pb gb gl)) caddr oper dt cmd p flags w =
      Some (e, p', w')"
  then show "runs snd m (i2cdev_fd b) ([sys_lock b, gl, l] @ ctx) ([sys_lock b, gl, l] @ ctx) w w'"
    using m by (auto simp: pin_channel_def chan_execute intro: i2cdev_execute_runs'(1) [rotated])
next
  fix w w' :: "'w \<times> event list" and caddr iop cs cl p bl flags e p'
  assume "sdi_i2c_bus_execute (pin_channel os b l base sel (port_group io g pb gb gl)) caddr iop cs cl p bl flags w =
      Some (e, p', w')"
  then show "runs snd m (i2cdev_fd b) ([sys_lock b, gl, l] @ ctx) ([sys_lock b, gl, l] @ ctx) w w'"
    by (simp add: sdi_i2c_bus_execute_def pin_channel_defs)
qed

interpretation under_bus_lock: bus_locking "pin_channel os b l base sel (port_group io g pb gb gl)" snd
  "sys_lock b" "i2cdev_fd b" "[sys_lock b, gl, l]" ctx
  for os :: "'w i2c_os" and b l base sel io g pb gb gl ctx
  by (rule pin_channel_locking) simp

interpretation under_group_lock: bus_locking "pin_channel os b l base sel (port_group io g pb gb gl)" snd
  gl "i2cdev_fd b" "[sys_lock b, gl, l]" ctx
  for os :: "'w i2c_os" and b l base sel io g pb gb gl ctx
  by (rule pin_channel_locking) simp

interpretation under_mux_lock: bus_locking "pin_channel os b l base sel (port_group io g pb gb gl)" snd
  l "i2cdev_fd b" "[sys_lock b, gl, l]" ctx
  for os :: "'w i2c_os" and b l base sel io g pb gb gl ctx
  by (rule pin_channel_locking) simp

section \<open>Properties of the channels\<close>

text \<open>
  C16. A pin mux channel keeps the whole way to the device locked. In any sequence of SMBus API
  calls on a channel of a pin mux (its pin group in a CPLD behind I/O ports, its parent a kernel
  bus), every transfer on the parent's file descriptor happens while the lock of the mux, the lock of
  the pin group that selects the channel and the mutex of the parent bus are all held, and at the end
  no lock is held that was not held before, also when selecting the channel or acquiring the parent
  fails.
\<close>

theorem pin_mux_lock_discipline:
  assumes "(api_step (pin_channel os b l base sel (port_group io g pb gb gl)))\<^sup>*\<^sup>* (w, ts) (w', ts')"
  shows "\<exists>us. ts' = ts @ us \<and>
    (\<forall>hs. locks_held us hs = hs \<and> transfers_guarded l (i2cdev_fd b) us hs \<and>
       transfers_guarded gl (i2cdev_fd b) us hs \<and> transfers_guarded (sys_lock b) (i2cdev_fd b) us hs)"
  using under_mux_lock.api_steps_run [OF assms, where ctx = "[]"] under_group_lock.api_steps_run [OF assms, where ctx = "[]"]
    under_bus_lock.api_steps_run [OF assms, where ctx = "[]"]
  by (auto simp: runs_def)

definition sample_mux_base :: sdi_bus where
  "sample_mux_base = \<lparr>bus_type = SDI_I2C_BUS, bus_id = 2, bus_name = ''mux-0'', sdi_device_list = []\<rparr>"

definition sample_port_cpld :: "(mutex list \<times> event list) cpld_pin_group" where
  "sample_port_cpld = \<lparr>grp_defs = \<lparr>default_direction = SDI_PIN_BUS_OUTPUT,
       default_polarity = SDI_PIN_POLARITY_NORMAL, default_level = 0\<rparr>,
     grp_start_addr = 0x20, grp_start_offset = 0, grp_end_addr = 0x20, grp_end_offset = 1, grp_length = 1,
     grp_cpld = \<lparr>cpld_bus = Other_Handle sample_mux_base, cpld_addr = sample_addr, cpld_width = 1\<rparr>\<rparr>"

definition sample_port_group :: "(u32, mutex list \<times> event list) pin_bus" where
  "sample_port_group = port_group no_ports sample_port_cpld sample_mux_base sample_mux_base (Mutex 30)"

lemma sample_port_group_select:
  "sdi_pin_group_write_level sample_port_group 1 wt = Some (STD_ERR_OK, wt)"
proof -
  have "write_step (sample_port_cpld\<lparr>grp_cpld := c\<rparr>) 1 1 0 = Some 1" for c
    by (simp add: sample_port_cpld_def write_step_def toggle_if_def inverted_def set_sub_byte_def
        sdi_cpld_bit_set_sub_bitstream_def shl64_def)
  then show ?thesis
    by (simp add: sample_port_group_def sdi_pin_group_write_level_def port_group_def
        sdi_cpld_pin_group_ops_def sdi_cpld_pin_group_write_level_def SDI_CPLD_DEFAULT_REGISTER_WIDTH_def
        sdi_bus_read_byte_def sdi_bus_write_byte_def sdi_io_read_byte_def sdi_io_write_byte_def
        traced_port_io_def no_ports_def sample_port_cpld_def)
qed

lemma pin_mux_lock_discipline_witness:
  "let ts = [Locked (Mutex 31), Locked (Mutex 30), Locked (Mutex 20), Transfer 5, Unlocked (Mutex 20),
      Unlocked (Mutex 30), Unlocked (Mutex 31)]
   in transfers_guarded (Mutex 31) 5 ts [] \<and> transfers_guarded (Mutex 30) 5 ts [] \<and> transfers_guarded (Mutex 20) 5 ts []"
proof -
  let ?ts = "[Locked (Mutex 31), Locked (Mutex 30), Locked (Mutex 20), Transfer 5, Unlocked (Mutex 20),
      Unlocked (Mutex 30), Unlocked (Mutex 31)]"
  let ?ch = "pin_channel idle_i2c_os sample_i2c_bus (Mutex 31) sample_mux_base 1"
  have lock: "pin_lock sample_port_group = Mutex 30"
    by (simp add: sample_port_group_def)
  have "sdi_smbus_read_byte (?ch sample_port_group) sample_addr 7 9 SDI_I2C_FLAG_NONE ([], []) =
      Some (STD_ERR_OK, 0, ([], ?ts))"
    by (simp add: sdi_smbus_read_byte_def sdi_smbus_read_byte_i2cdev_def i2cdev_eval idle_i2c_os_def
        traced_i2c_os_def lift_ok_def traced_lock_def traced_unlock_def sdi_simps pin_channel_defs
        sdi_i2cmux_pin_chan_acquire_bus_def pin_chan_select_def sample_port_group_select lock Let_def)
  then have "(api_step (?ch sample_port_group))\<^sup>*\<^sup>* ([], []) ([], ?ts)"
    by (intro r_into_rtranclp) (rule api_step.read_byte)
  then have "(api_step (?ch (port_group no_ports sample_port_cpld sample_mux_base sample_mux_base (Mutex 30))))\<^sup>*\<^sup>*
      ([], []) ([], ?ts)"
    by (simp only: sample_port_group_def)
  from pin_mux_lock_discipline [OF this] show ?thesis by (simp add: sample_i2c_bus_def)
qed

text \<open>
  C17. A PCA mux channel keeps the mux locked. In any sequence of API calls on a PCA channel over a
  kernel bus the transfers on the parent's file descriptor happen under the lock of the mux, so two
  channels of one mux never mix, and the calls leave no lock held.
\<close>

theorem pca_mux_lock_discipline:
  assumes "(api_step (pca_channel os b l base addr sel))\<^sup>*\<^sup>* (w, ts) (w', ts')"
  shows "\<exists>us. ts' = ts @ us \<and>
    (\<forall>hs. locks_held us hs = hs \<and> transfers_guarded l (i2cdev_fd b) us hs)"
  using pca_locks.api_steps_run [OF assms, where ctx = "[]"] by (simp add: runs_def)

definition pca_read_trace :: "event list" where
  "pca_read_trace = [Locked (Mutex 31), Locked (Mutex 20), Transfer 5, Unlocked (Mutex 20), Transfer 5,
    Locked (Mutex 20), Transfer 5, Unlocked (Mutex 20), Unlocked (Mutex 31)]"

lemma pca_read_trace:
  "sdi_smbus_read_byte (pca_channel idle_i2c_os sample_i2c_bus (Mutex 31) base sample_addr 1)
     sample_addr 7 9 SDI_I2C_FLAG_NONE ([], []) = Some (STD_ERR_OK, 0, ([], pca_read_trace))"
  by (simp add: sdi_smbus_read_byte_def sdi_smbus_write_byte_def sdi_smbus_read_byte_i2cdev_def
      sdi_smbus_write_byte_i2cdev_def i2cdev_eval idle_i2c_os_def traced_i2c_os_def lift_ok_def
      traced_lock_def traced_unlock_def sdi_simps pca_channel_defs pca_read_trace_def)

lemma pca_mux_lock_discipline_witness:
  "transfers_guarded (Mutex 31) 5 pca_read_trace []"
proof -
  have "(api_step (pca_channel idle_i2c_os sample_i2c_bus (Mutex 31) (sys_bus sample_i2c_bus) sample_addr 1))\<^sup>*\<^sup>*
      ([], []) ([], pca_read_trace)"
    by (intro r_into_rtranclp) (rule api_step.read_byte [OF pca_read_trace])
  from pca_mux_lock_discipline [OF this] show ?thesis by (simp add: sample_i2c_bus_def)
qed

text \<open>
  But a PCA channel transfers on its parent bus without holding the mutex of the parent: a read
  on a channel over a kernel bus that answers succeeds with a trace in which the transfer to the
  device happens while nobody holds that mutex, so a call on the parent bus itself can come between
  the selection of the slave address and the transfer.
\<close>

theorem pca_channel_transfers_without_parent_lock:
  "\<exists>us. sdi_smbus_read_byte (pca_channel idle_i2c_os sample_i2c_bus (Mutex 31) base sample_addr 1)
       sample_addr 7 9 SDI_I2C_FLAG_NONE ([], []) = Some (STD_ERR_OK, 0, ([], us)) \<and>
     \<not> transfers_guarded (sys_lock sample_i2c_bus) (i2cdev_fd sample_i2c_bus) us []"
  by (rule exI, rule conjI, rule pca_read_trace) (simp add: pca_read_trace_def sample_i2c_bus_def)

end
