(* ===== verification/Bus_Drivers.thy ===== *)
theory Bus_Drivers
  imports Entity
begin

text \<open>
  The drivers of the buses that carry ports, memory and mailboxes: src/drivers/sdi\_pseudo\_bus.c,
  sdi\_io\_bus.c, sdi\_sf\_io\_bus.c, sdi\_fpga\_pci\_bus.c and sdi\_bmc\_io\_bus.c. A register function
  gets the handle \<open>b\<close> that its calloc returns, and the mutex within it.
\<close>

section \<open>A new bus\<close>

text \<open>
  What the drivers share: a bus is made from its node, registered with the framework and, when that
  succeeded, its devices are registered.
\<close>

definition register_new_bus ::
    "'w os \<Rightarrow> 'w driver_lib \<Rightarrow> config_node \<Rightarrow> bus_hdl \<Rightarrow> sdi_bus_type \<Rightarrow> u32 \<Rightarrow> string \<Rightarrow> 'w sdi_fw
      \<Rightarrow> (t_std_error \<times> bus_hdl option \<times> 'w sdi_fw) option" where
  "register_new_bus os dl node b t i n s = do {
     let s = s\<lparr>bus_heap := (bus_heap s)(b := \<lparr>bus_type = t, bus_id = i, bus_name = n, sdi_device_list = []\<rparr>)\<rparr>;
     (error, s) \<leftarrow> sdi_bus_register os b s;
     if error \<noteq> STD_ERR_OK then Some (error, None, s)
     else do {
       s \<leftarrow> sdi_bus_register_device_list os dl node b s;
       Some (error, Some b, s)
     }
   }"

text \<open>The attributes of a node that a driver insists on.\<close>

definition bus_node_name :: "std_lib \<Rightarrow> config_node \<Rightarrow> string option" where
  "bus_node_name L node = do {
     a \<leftarrow> std_config_attr_get node ''bus_name'';
     Some (safestrncpy L SDI_MAX_NAME_LEN a)
   }"

definition bus_node_number :: "config_node \<Rightarrow> string \<Rightarrow> nat \<Rightarrow> u32 option" where
  "bus_node_number node attr base = do {
     a \<leftarrow> std_config_attr_get node attr;
     Some (ucast (strtoul a base))
   }"

section \<open>Pseudo buses\<close>

definition sdi_pseudo_bus_init ::
    "'w os \<Rightarrow> 'w driver_lib \<Rightarrow> bus_hdl \<Rightarrow> 'w sdi_fw \<Rightarrow> (t_std_error \<times> 'w sdi_fw) option" where
  "sdi_pseudo_bus_init os dl b s = do {
     s \<leftarrow> sdi_bus_init_device_list os dl b s;
     Some (STD_ERR_OK, s)
   }"

text \<open>The error of sdi\_bus\_register is ignored.\<close>

definition sdi_pseudo_bus_register ::
    "'w os \<Rightarrow> 'w driver_lib \<Rightarrow> std_lib \<Rightarrow> bus_hdl \<Rightarrow> config_node \<Rightarrow> 'w sdi_fw
      \<Rightarrow> (t_std_error \<times> bus_hdl option \<times> 'w sdi_fw) option" where
  "sdi_pseudo_bus_register os dl L b node s = do {
     let s = s\<lparr>bus_heap := (bus_heap s)(b := \<lparr>bus_type = SDI_PSEUDO_BUS, bus_id = 0,
       bus_name = safestrncpy L SDI_MAX_NAME_LEN (std_config_name_get node), sdi_device_list = []\<rparr>)\<rparr>;
     (_, s) \<leftarrow> sdi_bus_register os b s;
     s \<leftarrow> sdi_bus_register_device_list os dl node b s;
     Some (STD_ERR_OK, Some b, s)
   }"

section \<open>IO buses\<close>

definition sdi_io_driver_init ::
    "'w os \<Rightarrow> 'w driver_lib \<Rightarrow> bus_hdl \<Rightarrow> 'w sdi_fw \<Rightarrow> (t_std_error \<times> 'w sdi_fw) option" where
  "sdi_io_driver_init os dl b s = do {
     s \<leftarrow> sdi_bus_init_device_list os dl b s;
     Some (STD_ERR_OK, s)
   }"

definition sdi_io_driver_register ::
    "'w os \<Rightarrow> 'w driver_lib \<Rightarrow> std_lib \<Rightarrow> bus_hdl \<Rightarrow> config_node \<Rightarrow> 'w sdi_fw
      \<Rightarrow> (t_std_error \<times> bus_hdl option \<times> 'w sdi_fw) option" where
  "sdi_io_driver_register os dl L b node s = do {
     n \<leftarrow> bus_node_name L node;
     register_new_bus os dl node b SDI_IO_BUS 0 n s
   }"

section \<open>BMC buses\<close>

definition bmc_io_bus_driver_init ::
    "'w os \<Rightarrow> 'w driver_lib \<Rightarrow> bus_hdl \<Rightarrow> 'w sdi_fw \<Rightarrow> (t_std_error \<times> 'w sdi_fw) option" where
  "bmc_io_bus_driver_init os dl b s = do {
     STD_ASSERT (bus_type (bus_heap s b) = SDI_BMC_IO_BUS);
     s \<leftarrow> sdi_bus_init_device_list os dl b s;
     Some (STD_ERR_OK, s)
   }"

definition bmc_io_bus_driver_register ::
    "'w os \<Rightarrow> 'w driver_lib \<Rightarrow> std_lib \<Rightarrow> bus_hdl \<Rightarrow> mutex \<Rightarrow> config_node \<Rightarrow> 'w sdi_fw
      \<Rightarrow> (t_std_error \<times> bus_hdl option \<times> 'w sdi_fw) option" where
  "bmc_io_bus_driver_register os dl L b m node s = do {
     n \<leftarrow> bus_node_name L node;
     i \<leftarrow> bus_node_number node ''instance'' 0;
     register_new_bus os dl node b SDI_BMC_IO_BUS i n (fw_lock_init os m s)
   }"

section \<open>SmartFusion buses\<close>

text \<open>A window of four ports onto the memory of the SmartFusion: its address, and its data each way.\<close>

record sf_io_bus =
  sf_bus :: sdi_bus
  sf_lock :: mutex
  ram_addr_high_io_addr :: u32
  ram_addr_low_io_addr :: u32
  ram_read_data_io_addr :: u32
  ram_write_data_io_addr :: u32

definition sdi_io_port_read_byte :: "'w port_io \<Rightarrow> u16 \<Rightarrow> 'w \<Rightarrow> u8 \<times> 'w" where
  "sdi_io_port_read_byte io addr = inb io addr"

definition sdi_io_port_write_byte :: "'w port_io \<Rightarrow> u16 \<Rightarrow> u8 \<Rightarrow> 'w \<Rightarrow> 'w" where
  "sdi_io_port_write_byte io addr buffer = outb io addr buffer"

definition sf_bus_read_byte ::
    "'w port_io \<Rightarrow> sf_io_bus \<Rightarrow> u32 \<Rightarrow> u8 \<Rightarrow> 'w \<Rightarrow> (t_std_error \<times> u8 \<times> 'w) option" where
  "sf_bus_read_byte io sf addr v w = do {
     STD_ASSERT (bus_type (sf_bus sf) = SDI_SF_IO_BUS);
     let w = sdi_io_port_write_byte io (ucast (ram_addr_high_io_addr sf)) (ucast (drop_bit 8 addr AND 0xFF)) w;
     let w = sdi_io_port_write_byte io (ucast (ram_addr_low_io_addr sf)) (ucast (addr AND 0xFF)) w;
     let (v, w) = sdi_io_port_read_byte io (ucast (ram_read_data_io_addr sf)) w;
     Some (STD_ERR_OK, v, w)
   }"

definition sf_bus_write_byte ::
    "'w port_io \<Rightarrow> sf_io_bus \<Rightarrow> u32 \<Rightarrow> u8 \<Rightarrow> 'w \<Rightarrow> (t_std_error \<times> 'w) option" where
  "sf_bus_write_byte io sf addr v w = do {
     STD_ASSERT (bus_type (sf_bus sf) = SDI_SF_IO_BUS);
     let w = sdi_io_port_write_byte io (ucast (ram_addr_high_io_addr sf)) (ucast (drop_bit 8 addr AND 0xFF)) w;
     let w = sdi_io_port_write_byte io (ucast (ram_addr_low_io_addr sf)) (ucast (addr AND 0xFF)) w;
     let w = sdi_io_port_write_byte io (ucast (ram_write_data_io_addr sf)) v w;
     Some (STD_ERR_OK, w)
   }"

definition sf_bus_ops :: "'w port_io \<Rightarrow> sf_io_bus \<Rightarrow> 'w byte_ops" where
  "sf_bus_ops io sf = \<lparr>ops_read_byte = sf_bus_read_byte io sf, ops_write_byte = sf_bus_write_byte io sf\<rparr>"

text \<open>The permission for the four ports, up to the first one that is refused.\<close>

primrec sf_io_permissions :: "'w port_io \<Rightarrow> u32 list \<Rightarrow> 'w sdi_fw \<Rightarrow> t_std_error \<times> 'w sdi_fw" where
  "sf_io_permissions io [] s = (STD_ERR_OK, s)"
| "sf_io_permissions io (a # as) s =
     (let (rc, w) = ioperm io a 1 (os_world s); s = s\<lparr>os_world := w\<rparr>
      in if rc \<noteq> STD_ERR_OK then (rc, s) else sf_io_permissions io as s)"

definition sf_io_bus_driver_init ::
    "'w os \<Rightarrow> 'w driver_lib \<Rightarrow> 'w port_io \<Rightarrow> sf_io_bus \<Rightarrow> bus_hdl \<Rightarrow> 'w sdi_fw \<Rightarrow> (t_std_error \<times> 'w sdi_fw) option" where
  "sf_io_bus_driver_init os dl io sf b s = do {
     STD_ASSERT (bus_type (bus_heap s b) = SDI_SF_IO_BUS);
     let (rc, s) = sf_io_permissions io [ram_addr_high_io_addr sf, ram_addr_low_io_addr sf,
       ram_write_data_io_addr sf, ram_read_data_io_addr sf] s;
     if rc \<noteq> STD_ERR_OK then Some (rc, s)
     else do {
       s \<leftarrow> sdi_bus_init_device_list os dl b s;
       Some (rc, s)
     }
   }"

definition sf_io_bus_driver_register ::
    "'w os \<Rightarrow> 'w driver_lib \<Rightarrow> std_lib \<Rightarrow> bus_hdl \<Rightarrow> mutex \<Rightarrow> config_node \<Rightarrow> 'w sdi_fw
      \<Rightarrow> (t_std_error \<times> (bus_hdl \<times> sf_io_bus) option \<times> 'w sdi_fw) option" where
  "sf_io_bus_driver_register os dl L b m node s = do {
     n \<leftarrow> bus_node_name L node;
     i \<leftarrow> bus_node_number node ''instance'' 0;
     high \<leftarrow> bus_node_number node ''ram_addr_high'' 16;
     low \<leftarrow> bus_node_number node ''ram_addr_low'' 16;
     rd \<leftarrow> bus_node_number node ''ram_read_data_addr'' 16;
     wr \<leftarrow> bus_node_number node ''ram_write_data_addr'' 16;
     (error, h, s) \<leftarrow> register_new_bus os dl node b SDI_SF_IO_BUS i n (fw_lock_init os m s);
     Some (error, map_option (\<lambda>h. (h, \<lparr>sf_bus = bus_heap s h, sf_lock = m, ram_addr_high_io_addr = high,
       ram_addr_low_io_addr = low, ram_read_data_io_addr = rd, ram_write_data_io_addr = wr\<rparr>)) h, s)
   }"

section \<open>FPGA buses\<close>

text \<open>
  The memory of the FPGA behind its map, which open and mmap of the operating system provide: a
  parameter, like the ports. The map has 24576 bytes; an access outside of it is undefined.
\<close>

record 'w fpga_memory =
  fpga_open :: "string \<Rightarrow> 'w \<Rightarrow> bool \<times> 'w"
  fpga_get :: "nat \<Rightarrow> 'w \<Rightarrow> u8 \<times> 'w"
  fpga_put :: "nat \<Rightarrow> u8 \<Rightarrow> 'w \<Rightarrow> 'w"

record fpga_pci_bus =
  fpga_bus :: sdi_bus
  fpga_lock :: mutex
  fpga_sysfs_name :: string

definition FPGA_MAP_SIZE :: nat where "FPGA_MAP_SIZE = 24576"

definition fpga_bus_read_byte ::
    "'w fpga_memory \<Rightarrow> fpga_pci_bus \<Rightarrow> u32 \<Rightarrow> u8 \<Rightarrow> 'w \<Rightarrow> (t_std_error \<times> u8 \<times> 'w) option" where
  "fpga_bus_read_byte F f addr v w = do {
     STD_ASSERT (bus_type (fpga_bus f) = SDI_FPGA_PCI_BUS);
     STD_ASSERT (unat addr < FPGA_MAP_SIZE);
     let (v, w) = fpga_get F (unat addr) w;
     Some (STD_ERR_OK, v, w)
   }"

definition fpga_bus_write_byte ::
    "'w fpga_memory \<Rightarrow> fpga_pci_bus \<Rightarrow> u32 \<Rightarrow> u8 \<Rightarrow> 'w \<Rightarrow> (t_std_error \<times> 'w) option" where
  "fpga_bus_write_byte F f addr v w = do {
     STD_ASSERT (bus_type (fpga_bus f) = SDI_FPGA_PCI_BUS);
     STD_ASSERT (unat addr < FPGA_MAP_SIZE);
     Some (STD_ERR_OK, fpga_put F (unat addr) v w)
   }"

definition fpga_bus_ops :: "'w fpga_memory \<Rightarrow> fpga_pci_bus \<Rightarrow> 'w byte_ops" where
  "fpga_bus_ops F f = \<lparr>ops_read_byte = fpga_bus_read_byte F f, ops_write_byte = fpga_bus_write_byte F f\<rparr>"

definition fpga_pci_bus_driver_init ::
    "'w os \<Rightarrow> 'w driver_lib \<Rightarrow> 'w fpga_memory \<Rightarrow> errno \<Rightarrow> fpga_pci_bus \<Rightarrow> bus_hdl \<Rightarrow> 'w sdi_fw
      \<Rightarrow> (t_std_error \<times> 'w sdi_fw) option" where
  "fpga_pci_bus_driver_init os dl F ebadfd f b s = do {
     STD_ASSERT (bus_type (bus_heap s b) = SDI_FPGA_PCI_BUS);
     let (opened, w) = fpga_open F (fpga_sysfs_name f) (os_world s);
     let s = s\<lparr>os_world := w\<rparr>;
     if opened then do {
       s \<leftarrow> sdi_bus_init_device_list os dl b s;
       Some (STD_ERR_OK, s)
     } else Some (SDI_DEVICE_ERRCODE ebadfd, s)
   }"

definition fpga_pci_bus_driver_register ::
    "'w os \<Rightarrow> 'w driver_lib \<Rightarrow> std_lib \<Rightarrow> bus_hdl \<Rightarrow> mutex \<Rightarrow> config_node \<Rightarrow> 'w sdi_fw
      \<Rightarrow> (t_std_error \<times> (bus_hdl \<times> fpga_pci_bus) option \<times> 'w sdi_fw) option" where
  "fpga_pci_bus_driver_register os dl L b m node s = do {
     n \<leftarrow> bus_node_name L node;
     i \<leftarrow> bus_node_number node ''instance'' 0;
     sysfs \<leftarrow> std_config_attr_get node ''fpga_sysfs_name'';
     (error, h, s) \<leftarrow> register_new_bus os dl node b SDI_FPGA_PCI_BUS i n (fw_lock_init os m s);
     Some (error, map_option (\<lambda>h. (h, \<lparr>fpga_bus = bus_heap s h, fpga_lock = m,
       fpga_sysfs_name = safestrncpy L SDI_MAX_NAME_LEN sysfs\<rparr>)) h, s)
   }"

end
