(* ===== verification/Sf_Drivers.thy ===== *)
theory Sf_Drivers
  imports Temp_Sensors Bus_Drivers
begin

text \<open>
  The drivers of the devices behind a SmartFusion bus: the temperature sensor
  (src/drivers/sdi\_sf\_tmp.c), the fan controller (sdi\_sf\_fan.c) and the external control
  (sdi\_sf\_ext\_ctrl.c), whose values are bytes, or pairs of bytes with the high one first.
\<close>

section \<open>The bus of a device\<close>

record 'w sf_io_bus_hdl =
  sf_hdl_base :: sdi_bus
  sf_hdl_lock :: mutex
  sf_hdl_ops :: "'w byte_ops"

definition sdi_sf_io_acquire_bus :: "'w os \<Rightarrow> 'w sf_io_bus_hdl \<Rightarrow> 'w action" where
  "sdi_sf_io_acquire_bus os b w = std_mutex_lock os (sf_hdl_lock b) w"

definition sdi_sf_io_release_bus :: "'w os \<Rightarrow> 'w sf_io_bus_hdl \<Rightarrow> 'w \<Rightarrow> 'w option" where
  "sdi_sf_io_release_bus os b w = do { (_, w) \<leftarrow> std_mutex_unlock os (sf_hdl_lock b) w; Some w }"

section \<open>The temperature sensor\<close>

record sf_tmp_device =
  temp_sensor_addr_offset :: u16
  temp_low_threshold_addr_offset :: u16
  temp_high_threshold_addr_offset :: u16
  temp_status_addr_offset :: u16
  low_threshold_offset_valid :: bool
  high_threshold_offset_valid :: bool
  status_offset_valid :: bool

text \<open>The private data of a sensor does not change after its registration.\<close>

definition sdi_sf_tmp_data_get ::
    "'w os \<Rightarrow> 'w sf_io_bus_hdl \<Rightarrow> u16 \<Rightarrow> nat \<Rightarrow> (u32, 'w) query" where
  "sdi_sf_tmp_data_get os b offset width data w = do {
     (rc, w) \<leftarrow> sdi_sf_io_acquire_bus os b w;
     if rc \<noteq> STD_ERR_OK then Some (rc, data, w)
     else do {
       (rc, high_byte, w) \<leftarrow> sdi_sf_io_bus_read_byte (sf_hdl_ops b) (ucast offset) 0 w;
       if rc \<noteq> STD_ERR_OK then do {
         w \<leftarrow> sdi_sf_io_release_bus os b w;
         Some (rc, data, w)
       }
       else do {
         (rc, low_byte, w) \<leftarrow> (if width = 2 then sdi_sf_io_bus_read_byte (sf_hdl_ops b) (ucast offset + 1) 0 w
           else Some (rc, 0, w));
         w \<leftarrow> sdi_sf_io_release_bus os b w;
         if rc \<noteq> STD_ERR_OK then Some (rc, data, w)
         else if low_byte = 0xFF \<and> high_byte = 0xFF then Some (SDI_DEVICE_ERRCODE EINVAL, data, w)
         else Some (rc, push_bit 8 (ucast high_byte) OR ucast low_byte, w)
       }
     }
   }"

text \<open>The value of the sensor is in tenths of a degree; it is never negative.\<close>

definition sdi_sf_tmp_temperature_get ::
    "'w os \<Rightarrow> 'w sf_io_bus_hdl \<Rightarrow> sf_tmp_device \<Rightarrow> (u32, 'w) query" where
  "sdi_sf_tmp_temperature_get os b d temperature w = do {
     (rc, temperature, w) \<leftarrow> sdi_sf_tmp_data_get os b (temp_sensor_addr_offset d) 2 temperature w;
     if rc \<noteq> STD_ERR_OK then Some (rc, temperature, w) else Some (rc, temperature div 10, w)
   }"

definition sdi_sf_tmp_threshold_get ::
    "'w os \<Rightarrow> 'w sf_io_bus_hdl \<Rightarrow> sf_tmp_device \<Rightarrow> sdi_threshold \<Rightarrow> (u32, 'w) query" where
  "sdi_sf_tmp_threshold_get os b d t temperature w =
     (case t of
        SDI_LOW_THRESHOLD \<Rightarrow>
          if low_threshold_offset_valid d
          then sdi_sf_tmp_data_get os b (temp_low_threshold_addr_offset d) 2 temperature w
          else Some (SDI_DEVICE_ERRCODE EOPNOTSUPP, temperature, w)
      | SDI_HIGH_THRESHOLD \<Rightarrow>
          if high_threshold_offset_valid d
          then sdi_sf_tmp_data_get os b (temp_high_threshold_addr_offset d) 2 temperature w
          else Some (SDI_DEVICE_ERRCODE EOPNOTSUPP, temperature, w)
      | _ \<Rightarrow> Some (SDI_DEVICE_ERRCODE EOPNOTSUPP, temperature, w))"

definition sdi_sf_tmp_threshold_set :: "sdi_threshold \<Rightarrow> u32 \<Rightarrow> 'w action" where
  "sdi_sf_tmp_threshold_set t temperature w =
     (if 255 < sint temperature \<or> sint temperature < - 256 then Some (SDI_DEVICE_ERRCODE EINVAL, w)
      else Some (SDI_DEVICE_ERRCODE EOPNOTSUPP, w))"

definition sdi_sf_tmp_status_get ::
    "'w os \<Rightarrow> 'w sf_io_bus_hdl \<Rightarrow> sf_tmp_device \<Rightarrow> (bool, 'w) query" where
  "sdi_sf_tmp_status_get os b d status w =
     (if status_offset_valid d then do {
        (rc, tmp_status, w) \<leftarrow> sdi_sf_tmp_data_get os b (temp_status_addr_offset d) 1 0 w;
        Some (rc, if rc \<noteq> STD_ERR_OK then status else tmp_status \<noteq> 0, w)
      }
      else Some (SDI_DEVICE_ERRCODE EOPNOTSUPP, status, w))"

definition sdi_sf_tmp_sensor :: "'w os \<Rightarrow> 'w sf_io_bus_hdl \<Rightarrow> sf_tmp_device \<Rightarrow> 'w temperature_sensor" where
  "sdi_sf_tmp_sensor os b d = \<lparr>
     ts_init = None,
     ts_temperature_get = sdi_sf_tmp_temperature_get os b d,
     ts_threshold_get = sdi_sf_tmp_threshold_get os b d,
     ts_threshold_set = sdi_sf_tmp_threshold_set,
     ts_status_get = sdi_sf_tmp_status_get os b d\<rparr>"

definition sf_offset :: "config_node \<Rightarrow> string \<Rightarrow> u16" where
  "sf_offset node attr = (case std_config_attr_get node attr of None \<Rightarrow> 0 | Some a \<Rightarrow> ucast (strtol a 0))"

definition sf_tmp_data_new :: "config_node \<Rightarrow> sf_tmp_device" where
  "sf_tmp_data_new node = \<lparr>
     temp_sensor_addr_offset = sf_offset node ''temp_value_offset'',
     temp_low_threshold_addr_offset = sf_offset node ''temp_low_threshold_offset'',
     temp_high_threshold_addr_offset = sf_offset node ''temp_high_threshold_offset'',
     temp_status_addr_offset = sf_offset node ''temp_fault_status_offset'',
     low_threshold_offset_valid = (std_config_attr_get node ''temp_low_threshold_offset'' \<noteq> None),
     high_threshold_offset_valid = (std_config_attr_get node ''temp_high_threshold_offset'' \<noteq> None),
     status_offset_valid = (std_config_attr_get node ''temp_fault_status_offset'' \<noteq> None)\<rparr>"

definition sdi_sf_tmp_register ::
    "'w os \<Rightarrow> std_lib \<Rightarrow> config_node \<Rightarrow> 'w sf_io_bus_hdl \<Rightarrow> 'w sdi_sys \<Rightarrow> (t_std_error \<times> 'w sdi_sys) option" where
  "sdi_sf_tmp_register os L node bus_handle s = do {
     STD_ASSERT (bus_type (sf_hdl_base bus_handle) = SDI_SF_IO_BUS);
     inst \<leftarrow> bus_node_number node ''instance'' 0;
     Some (STD_ERR_OK, sdi_resource_add L SDI_RESOURCE_TEMPERATURE (device_alias L ''sdi_sf_tmp-'' node inst)
       (Temperature_Fns (sdi_sf_tmp_sensor os bus_handle (sf_tmp_data_new node))) s)
   }"

definition sdi_sf_tmp_chip_init :: "'w action" where
  "sdi_sf_tmp_chip_init w = Some (STD_ERR_OK, w)"

section \<open>The fan controller\<close>

definition MAX_SF_FAN_COUNT :: nat where "MAX_SF_FAN_COUNT = 16"

record 'w sf_fan_data =
  sdi_sf_fan_status_hdl :: "(sdi_pin_bus_level, 'w) pin_bus option"
  fan_speed_offset :: u32
  sf_fan_alias :: string

text \<open>The private data is the list of the fans; the functions work on pairs of it and the world.\<close>

type_synonym 'w sf_fans = "'w sf_fan_data list \<times> 'w"

definition sdi_sf_fan_speed_get ::
    "'w os \<Rightarrow> 'w sf_io_bus_hdl \<Rightarrow> u32 \<Rightarrow> (u32, 'w sf_fans) query" where
  "sdi_sf_fan_speed_get os b fan_id speed = (\<lambda>(d, w). do {
     fan \<leftarrow> at_index d fan_id;
     let offset = fan_speed_offset fan;
     (rc, w) \<leftarrow> sdi_sf_io_acquire_bus os b w;
     if rc \<noteq> STD_ERR_OK then Some (rc, speed, d, w)
     else do {
       (rc, high_byte, w) \<leftarrow> sdi_sf_io_bus_read_byte (sf_hdl_ops b) offset 0 w;
       if rc \<noteq> STD_ERR_OK then do {
         w \<leftarrow> sdi_sf_io_release_bus os b w;
         Some (rc, speed, d, w)
       }
       else do {
         (rc, low_byte, w) \<leftarrow> sdi_sf_io_bus_read_byte (sf_hdl_ops b) (offset + 1) 0 w;
         w \<leftarrow> sdi_sf_io_release_bus os b w;
         if rc \<noteq> STD_ERR_OK then Some (rc, speed, d, w)
         else Some (rc, push_bit 8 (ucast high_byte) OR ucast low_byte, d, w)
       }
     }
   })"

text \<open>The level is low before the read: a pin that cannot be read reports a fault with its error.\<close>

definition sdi_sf_fan_status_get :: "'w os \<Rightarrow> u32 \<Rightarrow> (bool, 'w sf_fans) query" where
  "sdi_sf_fan_status_get os fan_id status = (\<lambda>(d, w). do {
     fan \<leftarrow> at_index d fan_id;
     pin \<leftarrow> sdi_sf_fan_status_hdl fan;
     (rc, level, w) \<leftarrow> sdi_pin_read_level os pin SDI_PIN_LEVEL_LOW w;
     Some (rc, level \<noteq> SDI_PIN_LEVEL_HIGH, d, w)
   })"

definition sdi_sf_fan_resource :: "'w os \<Rightarrow> 'w sf_io_bus_hdl \<Rightarrow> u32 \<Rightarrow> 'w sf_fans fan_ctrl" where
  "sdi_sf_fan_resource os b fan_id = \<lparr>
     fan_init = None,
     fan_speed_get = (\<lambda>_. sdi_sf_fan_speed_get os b fan_id),
     fan_speed_set = None,
     fan_status_get = sdi_sf_fan_status_get os fan_id,
     fan_rpm_to_pct = None,
     fan_pct_to_rpm = None\<rparr>"

text \<open>
  A configured name is the format of the snprintf that copies it; a conversion in it would read an
  argument of the wrong type, which is undefined, and only two percent signs are harmless.
\<close>

fun plain_format :: "string \<Rightarrow> string option" where
  "plain_format [] = Some []"
| "plain_format (c # s) =
     (if c \<noteq> CHR ''%'' then map_option (Cons c) (plain_format s)
      else case s of
        [] \<Rightarrow> None
      | e # s \<Rightarrow> if e = CHR ''%'' then map_option (Cons e) (plain_format s) else None)"

definition sdi_sf_fan_device_database_init ::
    "'w sdi_env \<Rightarrow> config_node \<Rightarrow> 'w sf_io_bus_hdl \<Rightarrow> u32 \<Rightarrow> 'w sf_fans sdi_sys \<Rightarrow> 'w sf_fans sdi_sys option" where
  "sdi_sf_fan_device_database_init E cur_node b inst s =
     (if \<not> strncmp_eq (std_config_name_get cur_node) ''fan'' (length ''fan'') then Some s
      else do {
        let fan_id = sensor_instance cur_node;
        STD_ASSERT (unat fan_id < MAX_SF_FAN_COUNT);
        offset \<leftarrow> bus_node_number cur_node ''fan_speed_offset'' 16;
        pin_name \<leftarrow> std_config_attr_get cur_node ''fan_status_bus'';
        pin \<leftarrow> sdi_get_pin_bus_handle_by_name E pin_name;
        alias \<leftarrow> (case std_config_attr_get cur_node ''alias'' of
            None \<Rightarrow> Some (''sf-fan-'' @ signed_decimal (sint inst) @ ''-'' @ signed_decimal (sint fan_id))
          | Some a \<Rightarrow> plain_format a);
        let alias = snprintf SDI_MAX_NAME_LEN alias;
        let (d, w) = dev s;
        let d = d[unat fan_id := \<lparr>sdi_sf_fan_status_hdl = Some pin, fan_speed_offset = offset, sf_fan_alias = alias\<rparr>];
        Some (sdi_resource_add (env_lib E) SDI_RESOURCE_FAN alias
          (Fan_Fns (sdi_sf_fan_resource (env_os E) b fan_id)) (s\<lparr>dev := (d, w)\<rparr>))
      })"

primrec sf_fan_database_init_each ::
    "'w sdi_env \<Rightarrow> 'w sf_io_bus_hdl \<Rightarrow> u32 \<Rightarrow> config_node list \<Rightarrow> 'w sf_fans sdi_sys \<Rightarrow> 'w sf_fans sdi_sys option" where
  "sf_fan_database_init_each E b inst [] s = Some s"
| "sf_fan_database_init_each E b inst (n # ns) s = do {
     s \<leftarrow> sdi_sf_fan_device_database_init E n b inst s;
     sf_fan_database_init_each E b inst ns s
   }"

text \<open>The name of the controller itself, which nothing reads, is not kept.\<close>

definition sdi_sf_fan_register ::
    "'w sdi_env \<Rightarrow> (config_node \<Rightarrow> config_node list) \<Rightarrow> config_node \<Rightarrow> 'w sf_io_bus_hdl \<Rightarrow> 'w sf_fans sdi_sys
      \<Rightarrow> (t_std_error \<times> 'w sf_fans sdi_sys) option" where
  "sdi_sf_fan_register E nodes node bus_handle s = do {
     STD_ASSERT (bus_type (sf_hdl_base bus_handle) = SDI_SF_IO_BUS);
     inst \<leftarrow> bus_node_number node ''instance'' 0;
     let d = replicate MAX_SF_FAN_COUNT \<lparr>sdi_sf_fan_status_hdl = None, fan_speed_offset = 0, sf_fan_alias = []\<rparr>;
     s \<leftarrow> sf_fan_database_init_each E bus_handle inst (nodes node) (s\<lparr>dev := (d, snd (dev s))\<rparr>);
     Some (STD_ERR_OK, s)
   }"

definition sdi_sf_fan_chip_init :: "'w action" where
  "sdi_sf_fan_chip_init w = Some (STD_ERR_OK, w)"

section \<open>The external control\<close>

record sf_ext_ctrl_device =
  ctrl_value_offset :: u16
  ctrl_width :: u16
  ctrl_step :: u16
  io_bus_failure :: u64
  write_failure :: u64

definition SMF_EXT_CTRL_REGISTER_STEP_ALLOWED :: u16 where "SMF_EXT_CTRL_REGISTER_STEP_ALLOWED = 1"
definition SMF_EXT_CTRL_REGISTER_TWO_BYTE_WIDTH :: u16 where "SMF_EXT_CTRL_REGISTER_TWO_BYTE_WIDTH = 2"

text \<open>
  The bytes of the value: the error, the value written so far, and the byte read last, which is what
  the test for a device that is not ready looks at, even after an error.
\<close>

definition sf_ext_ctrl_bytes ::
    "'w sf_io_bus_hdl \<Rightarrow> u16 \<Rightarrow> u16 \<Rightarrow> u16 \<Rightarrow> u32 \<Rightarrow> 'w \<Rightarrow> (t_std_error \<times> u32 \<times> u8 \<times> 'w) option" where
  "sf_ext_ctrl_bytes b offset width step data w = do {
     (rc, byte, w) \<leftarrow> sdi_sf_io_bus_read_byte (sf_hdl_ops b) (ucast offset) 0 w;
     if rc \<noteq> STD_ERR_OK then Some (rc, data, byte, w)
     else if width = SMF_EXT_CTRL_REGISTER_TWO_BYTE_WIDTH then do {
       let data = push_bit 8 (ucast byte);
       (rc, byte, w) \<leftarrow> sdi_sf_io_bus_read_byte (sf_hdl_ops b) (ucast offset + ucast step) byte w;
       if rc \<noteq> STD_ERR_OK then Some (rc, data, byte, w)
       else Some (rc, data OR ucast byte, byte, w)
     }
     else Some (rc, ucast byte, byte, w)
   }"

definition sdi_sf_ext_ctrl_data_get ::
    "'w os \<Rightarrow> 'w sf_io_bus_hdl \<Rightarrow> u16 \<Rightarrow> u16 \<Rightarrow> u16 \<Rightarrow> (u32 \<times> u32, sf_ext_ctrl_device \<times> 'w) query" where
  "sdi_sf_ext_ctrl_data_get os b offset width step out = (\<lambda>(d, w). do {
     STD_ASSERT (width \<le> SMF_EXT_CTRL_REGISTER_TWO_BYTE_WIDTH);
     STD_ASSERT (step = SMF_EXT_CTRL_REGISTER_STEP_ALLOWED);
     (rc, w) \<leftarrow> sdi_sf_io_acquire_bus os b w;
     if rc \<noteq> STD_ERR_OK then Some (rc, out, d\<lparr>io_bus_failure := io_bus_failure d + 1\<rparr>, w)
     else do {
       (rc, data, byte, w) \<leftarrow> sf_ext_ctrl_bytes b offset width step (fst out) w;
       w \<leftarrow> sdi_sf_io_release_bus os b w;
       if byte = 0xFF then Some (SDI_DEVICE_ERRCODE EINVAL, (data, snd out), d, w)
       else Some (rc, (int_div_10 data, 1), d, w)
     }
   })"

text \<open>One byte of a write; a failure is counted.\<close>

definition sf_ext_ctrl_put ::
    "'w sf_io_bus_hdl \<Rightarrow> u32 \<Rightarrow> u8 \<Rightarrow> (sf_ext_ctrl_device \<times> 'w) action" where
  "sf_ext_ctrl_put b offset byte = (\<lambda>(d, w). do {
     (rc, w) \<leftarrow> sdi_sf_io_bus_write_byte (sf_hdl_ops b) offset byte w;
     Some (rc, if rc \<noteq> STD_ERR_OK then d\<lparr>write_failure := write_failure d + 1\<rparr> else d, w)
   })"

text \<open>
  A write of more than two bytes is skipped without an error. The value in the buffer of the caller
  is multiplied too, which the model does not show.
\<close>

definition sdi_sf_ext_ctrl_data_set ::
    "'w os \<Rightarrow> 'w sf_io_bus_hdl \<Rightarrow> u16 \<Rightarrow> u16 \<Rightarrow> u16 \<Rightarrow> u32 \<Rightarrow> u32 \<Rightarrow> (sf_ext_ctrl_device \<times> 'w) action" where
  "sdi_sf_ext_ctrl_data_set os b offset width step data size_in = (\<lambda>(d, w). do {
     STD_ASSERT (step \<noteq> 0);
     let n_iter = width div step;
     STD_ASSERT (width \<le> SMF_EXT_CTRL_REGISTER_TWO_BYTE_WIDTH);
     STD_ASSERT (size_in = 1);
     (rc, w) \<leftarrow> sdi_sf_io_acquire_bus os b w;
     if rc \<noteq> STD_ERR_OK then Some (rc, d\<lparr>io_bus_failure := io_bus_failure d + 1\<rparr>, w)
     else do {
       (rc, d, w) \<leftarrow> (if 2 < n_iter then Some (rc, d, w)
         else do {
           data \<leftarrow> int_times_10 data;
           if n_iter = 2 then do {
             (rc, d, w) \<leftarrow> sf_ext_ctrl_put b (ucast offset) (ucast (drop_bit 8 data AND 0xFF)) (d, w);
             if rc \<noteq> STD_ERR_OK then Some (rc, d, w)
             else sf_ext_ctrl_put b (ucast offset + ucast step) (ucast (data AND 0xFF)) (d, w)
           }
           else sf_ext_ctrl_put b (ucast offset) (ucast (data AND 0xFF)) (d, w)
         });
       w \<leftarrow> sdi_sf_io_release_bus os b w;
       Some (rc, d, w)
     }
   })"

text \<open>The buffer of the caller holds at least one int.\<close>

definition sdi_sf_ext_ctrl_get ::
    "'w os \<Rightarrow> 'w sf_io_bus_hdl \<Rightarrow> (u32 list \<times> u32, sf_ext_ctrl_device \<times> 'w) query" where
  "sdi_sf_ext_ctrl_get os b out = (\<lambda>(d, w). do {
     STD_ASSERT (fst out \<noteq> []);
     (rc, data_size, d, w) \<leftarrow> sdi_sf_ext_ctrl_data_get os b (ctrl_value_offset d) (ctrl_width d) (ctrl_step d)
       (hd (fst out), snd out) (d, w);
     Some (rc, (fst data_size # tl (fst out), snd data_size), d, w)
   })"

definition sdi_sf_ext_ctrl_set ::
    "'w os \<Rightarrow> 'w sf_io_bus_hdl \<Rightarrow> u32 list \<Rightarrow> u32 \<Rightarrow> (sf_ext_ctrl_device \<times> 'w) action" where
  "sdi_sf_ext_ctrl_set os b ext_ctrl size_in = (\<lambda>(d, w). do {
     STD_ASSERT (ext_ctrl \<noteq> []);
     sdi_sf_ext_ctrl_data_set os b (ctrl_value_offset d) (ctrl_width d) (ctrl_step d) (hd ext_ctrl) size_in (d, w)
   })"

definition sdi_sf_ext_ctrl :: "'w os \<Rightarrow> 'w sf_io_bus_hdl \<Rightarrow> (sf_ext_ctrl_device \<times> 'w) ext_ctrl" where
  "sdi_sf_ext_ctrl os b = \<lparr>
     ec_init = None,
     ec_get = sdi_sf_ext_ctrl_get os b,
     ec_set = sdi_sf_ext_ctrl_set os b\<rparr>"

definition sf_ext_ctrl_data_new :: "config_node \<Rightarrow> sf_ext_ctrl_device" where
  "sf_ext_ctrl_data_new node = \<lparr>
     ctrl_value_offset = sf_offset node ''ctrl_value_offset'',
     ctrl_width = (case std_config_attr_get node ''width'' of None \<Rightarrow> 1 | Some a \<Rightarrow> ucast (strtol a 0)),
     ctrl_step = (case std_config_attr_get node ''step'' of None \<Rightarrow> 1 | Some a \<Rightarrow> ucast (strtol a 0)),
     io_bus_failure = 0, write_failure = 0\<rparr>"

definition sdi_sf_ext_ctrl_register ::
    "'w os \<Rightarrow> std_lib \<Rightarrow> config_node \<Rightarrow> 'w sf_io_bus_hdl \<Rightarrow> (sf_ext_ctrl_device \<times> 'w) sdi_sys
      \<Rightarrow> (t_std_error \<times> (sf_ext_ctrl_device \<times> 'w) sdi_sys) option" where
  "sdi_sf_ext_ctrl_register os L node bus_handle s = do {
     STD_ASSERT (bus_type (sf_hdl_base bus_handle) = SDI_SF_IO_BUS);
     let inst = sensor_instance node;
     let alias = device_alias L ''sdi_sf_ext_ctrl-'' node inst;
     let name = safestrncpy L SDI_MAX_NAME_LEN
       (case std_config_attr_get node ''name'' of Some a \<Rightarrow> a | None \<Rightarrow> alias);
     Some (STD_ERR_OK, sdi_resource_add L SDI_RESOURCE_EXT_CONTROL name
       (Ext_Ctrl_Fns (sdi_sf_ext_ctrl os bus_handle)) (s\<lparr>dev := (sf_ext_ctrl_data_new node, snd (dev s))\<rparr>))
   }"

definition sdi_sf_ext_ctrl_chip_init :: "'w action" where
  "sdi_sf_ext_ctrl_chip_init w = Some (STD_ERR_OK, w)"

end
