(* ===== verification/Sf_Control.thy ===== *)
theory Sf_Control
  imports Sf_Drivers
begin

text \<open>
  Through the window of four ports onto its memory, a SmartFusion device keeps the value that its
  external control was set to.
\<close>

section \<open>The window onto the memory\<close>

definition sf_memory :: "'w byte_ops \<Rightarrow> ('w \<Rightarrow> u16 \<Rightarrow> u8) \<Rightarrow> bool" where
  "sf_memory bops mem \<longleftrightarrow>
     (\<forall>a v w. \<exists>w'. ops_read_byte bops a v w = Some (STD_ERR_OK, mem w (ucast a), w') \<and> mem w' = mem w) \<and>
     (\<forall>a v w. \<exists>w'. ops_write_byte bops a v w = Some (STD_ERR_OK, w') \<and> mem w' = (mem w)(ucast a := v))"

text \<open>The device behind the ports: an address register of two bytes, and the data at that address.\<close>

definition sf_window :: "'w port_io \<Rightarrow> sf_io_bus \<Rightarrow> ('w \<Rightarrow> u16) \<Rightarrow> ('w \<Rightarrow> u16 \<Rightarrow> u8) \<Rightarrow> bool" where
  "sf_window io sf reg mem \<longleftrightarrow>
     bus_type (sf_bus sf) = SDI_SF_IO_BUS \<and>
     (\<forall>v w. let w' = outb io (ucast (ram_addr_high_io_addr sf)) v w in
        reg w' = push_bit 8 (ucast v) OR (reg w AND 0xFF) \<and> mem w' = mem w) \<and>
     (\<forall>v w. let w' = outb io (ucast (ram_addr_low_io_addr sf)) v w in
        reg w' = (reg w AND 0xFF00) OR ucast v \<and> mem w' = mem w) \<and>
     (\<forall>w. fst (inb io (ucast (ram_read_data_io_addr sf)) w) = mem w (reg w) \<and>
        mem (snd (inb io (ucast (ram_read_data_io_addr sf)) w)) = mem w) \<and>
     (\<forall>v w. mem (outb io (ucast (ram_write_data_io_addr sf)) v w) = (mem w)(reg w := v))"

lemma byte_masks: "(0xFF :: 'a::len word) = mask 8" "(0xFF00 :: u16) = push_bit 8 (mask 8)"
  by (simp_all add: mask_eq_exp_minus_1)

lemma window_address:
  "((push_bit 8 (ucast (ucast (drop_bit 8 a AND 0xFF) :: u8)) OR (x AND 0xFF)) AND 0xFF00) OR
    ucast (ucast (a AND 0xFF) :: u8) = (ucast (a :: u32) :: u16)"
  unfolding byte_masks by (rule bit_word_eqI) (auto simp: bit_simps dest: bit_imp_le_length)

text \<open>Through the window, the bus is the memory.\<close>

lemma sf_window_memory:
  assumes W: "sf_window io sf reg mem"
  shows "sf_memory (sf_bus_ops io sf) mem"
  unfolding sf_memory_def
proof (intro conjI allI)
  fix a :: u32 and v :: u8 and w
  define w1 where "w1 = outb io (ucast (ram_addr_high_io_addr sf)) (ucast (drop_bit 8 a AND 0xFF)) w"
  define w2 where "w2 = outb io (ucast (ram_addr_low_io_addr sf)) (ucast (a AND 0xFF)) w1"
  have w1: "reg w1 = push_bit 8 (ucast (ucast (drop_bit 8 a AND 0xFF) :: u8)) OR (reg w AND 0xFF)" "mem w1 = mem w"
    using W unfolding sf_window_def Let_def w1_def by blast+
  have w2: "reg w2 = (reg w1 AND 0xFF00) OR ucast (ucast (a AND 0xFF) :: u8)" "mem w2 = mem w1"
    using W unfolding sf_window_def Let_def w2_def by blast+
  have a: "reg w2 = ucast a" unfolding w2(1) w1(1) by (rule window_address)
  have t: "bus_type (sf_bus sf) = SDI_SF_IO_BUS" using W by (simp add: sf_window_def)
  obtain u w3 where w3: "inb io (ucast (ram_read_data_io_addr sf)) w2 = (u, w3)" by fastforce
  then have "u = mem w2 (reg w2)" "mem w3 = mem w2"
    using W unfolding sf_window_def by (metis fst_conv, metis snd_conv)
  then show "\<exists>w'. ops_read_byte (sf_bus_ops io sf) a v w = Some (STD_ERR_OK, mem w (ucast a), w') \<and> mem w' = mem w"
    using w3 t a w1(2) w2(2)
    by (simp add: sf_bus_ops_def sf_bus_read_byte_def sdi_io_port_write_byte_def sdi_io_port_read_byte_def
        w1_def [symmetric] w2_def [symmetric] Let_def)
  have "mem (outb io (ucast (ram_write_data_io_addr sf)) v w2) = (mem w2)(reg w2 := v)"
    using W unfolding sf_window_def by blast
  then show "\<exists>w'. ops_write_byte (sf_bus_ops io sf) a v w = Some (STD_ERR_OK, w') \<and> mem w' = (mem w)(ucast a := v)"
    using t a w1(2) w2(2)
    by (simp add: sf_bus_ops_def sf_bus_write_byte_def sdi_io_port_write_byte_def
        w1_def [symmetric] w2_def [symmetric] Let_def)
qed

section \<open>Ten times a value, and back\<close>

lemma ten_times:
  assumes "v \<le> (6553 :: u32)"
  shows "int_times_10 v = Some (10 * v)" and "int_div_10 (10 * v) = v"
    and "unat (10 * v) = 10 * unat v"
proof -
  have v: "unat v \<le> 6553" using assms by (simp add: word_le_nat_alt)
  then show u: "unat (10 * v) = 10 * unat v" by (simp add: unat_word_ariths)
  have small: "sint x = int (unat x)" if "unat x < 2 ^ 31" for x :: u32
  proof -
    obtain n where n: "unat x = n" by simp
    then have "x = of_nat n" by auto
    moreover have "sint (of_nat n :: u32) = int n"
      using n that by (simp add: signed_of_nat signed_take_bit_int_eq_self)
    ultimately show ?thesis using n by simp
  qed
  have sv: "sint v = int (unat v)" using v by (intro small) simp
  have s10: "sint (10 * v) = int (10 * unat v)" using v u small [of "10 * v"] by simp
  obtain n where n: "unat v = n" by simp
  then have vn: "v = of_nat n" by auto
  have "(word_of_int (int n * 10) :: u32) = 10 * v" unfolding vn by simp
  moreover have "int n * 10 < 2 ^ 31" using v n by simp
  ultimately show "int_times_10 v = Some (10 * v)"
    unfolding int_times_10_def sv n Let_def by simp
  have "int (10 * k) sdiv 10 = int k" for k :: nat
    by (cases "k = 0") (simp_all add: signed_divide_int_def)
  then show "int_div_10 (10 * v) = v" by (simp only: int_div_10_def s10) simp
qed

section \<open>Setting and reading the control\<close>

definition sf_hdl_ok :: "'w os \<Rightarrow> 'w sf_io_bus_hdl \<Rightarrow> ('w \<Rightarrow> u16 \<Rightarrow> u8) \<Rightarrow> bool" where
  "sf_hdl_ok os b mem \<longleftrightarrow> sf_memory (sf_hdl_ops b) mem \<and>
     (\<forall>w. \<exists>w'. std_mutex_lock os (sf_hdl_lock b) w = Some (STD_ERR_OK, w') \<and> mem w' = mem w) \<and>
     (\<forall>w. \<exists>e w'. std_mutex_unlock os (sf_hdl_lock b) w = Some (e, w') \<and> mem w' = mem w)"

lemma sf_hdl_okD:
  assumes "sf_hdl_ok os b mem"
  shows "\<exists>w'. sdi_sf_io_acquire_bus os b w = Some (STD_ERR_OK, w') \<and> mem w' = mem w"
    and "\<exists>w'. sdi_sf_io_release_bus os b w = Some w' \<and> mem w' = mem w"
    and "\<exists>w'. sdi_sf_io_bus_read_byte (sf_hdl_ops b) a v w = Some (STD_ERR_OK, mem w (ucast a), w') \<and> mem w' = mem w"
    and "\<exists>w'. sf_ext_ctrl_put b a v (d, w) = Some (STD_ERR_OK, d, w') \<and> mem w' = (mem w)(ucast a := v)"
proof -
  show "\<exists>w'. sdi_sf_io_acquire_bus os b w = Some (STD_ERR_OK, w') \<and> mem w' = mem w"
    using assms by (simp add: sf_hdl_ok_def sdi_sf_io_acquire_bus_def)
  obtain e w' where "std_mutex_unlock os (sf_hdl_lock b) w = Some (e, w')" "mem w' = mem w"
    using assms unfolding sf_hdl_ok_def by blast
  then show "\<exists>w'. sdi_sf_io_release_bus os b w = Some w' \<and> mem w' = mem w"
    by (simp add: sdi_sf_io_release_bus_def)
  show "\<exists>w'. sdi_sf_io_bus_read_byte (sf_hdl_ops b) a v w = Some (STD_ERR_OK, mem w (ucast a), w') \<and> mem w' = mem w"
    using assms by (simp add: sf_hdl_ok_def sf_memory_def sdi_sf_io_bus_read_byte_def)
  obtain w' where "ops_write_byte (sf_hdl_ops b) a v w = Some (STD_ERR_OK, w')" "mem w' = (mem w)(ucast a := v)"
    using assms unfolding sf_hdl_ok_def sf_memory_def by blast
  then show "\<exists>w'. sf_ext_ctrl_put b a v (d, w) = Some (STD_ERR_OK, d, w') \<and> mem w' = (mem w)(ucast a := v)"
    by (simp add: sf_ext_ctrl_put_def sdi_sf_io_bus_write_byte_def)
qed

text \<open>The two bytes of a value at an offset, the high one first.\<close>

definition control_bytes :: "u16 \<Rightarrow> u32 \<Rightarrow> (u16 \<Rightarrow> u8) \<Rightarrow> u16 \<Rightarrow> u8" where
  "control_bytes offset x m =
     (m(ucast (ucast offset :: u32) := ucast (drop_bit 8 x AND 0xFF)))
       (ucast (ucast offset + 1 :: u32) := ucast (x AND 0xFF))"

lemma control_bytes_get:
  assumes "unat x < 65536"
  shows "push_bit 8 (ucast (control_bytes offset x m (ucast (ucast offset :: u32)))) OR
    ucast (control_bytes offset x m (ucast (ucast offset + 1 :: u32))) = x"
proof -
  have "(ucast (ucast offset + 1 :: u32) :: u16) = offset + 1"
    by (simp add: word_unat_eq_iff unat_word_ariths unsigned_ucast_eq take_bit_eq_mod mod_mod_cancel)
  moreover have "(ucast (ucast offset :: u32) :: u16) = offset"
    by (rule bit_word_eqI) (auto simp: bit_simps)
  ultimately have "(ucast (ucast offset :: u32) :: u16) \<noteq> ucast (ucast offset + 1 :: u32)" by simp
  moreover have "push_bit 8 (ucast (ucast (drop_bit 8 x AND 0xFF) :: u8)) OR ucast (ucast (x AND 0xFF) :: u8) = x"
  proof -
    have "x = take_bit 16 x"
      using assms by (simp add: word_unat_eq_iff unsigned_take_bit_eq take_bit_nat_eq_self)
    then have high: "n < 16" if "bit x n" for n
      using that by (metis bit_take_bit_iff)
    have "n - 8 < 8" if "bit x n" "8 \<le> n" for n
      using high [OF that(1)] that(2) by arith
    then show ?thesis unfolding byte_masks
      by (intro bit_word_eqI) (auto simp: bit_simps not_less dest: high)
  qed
  ultimately show ?thesis by (simp add: control_bytes_def)
qed

text \<open>The two bytes read: the device counts as ready, since ten times a value is even.\<close>

lemma ten_times_ready: "ucast (10 * v AND 0xFF :: u32) \<noteq> (0xFF :: u8)"
proof
  assume e: "ucast (10 * v AND 0xFF :: u32) = (0xFF :: u8)"
  have "even (10 * v)" by simp
  then have "\<not> bit (10 * v) 0" by (simp add: bit_0)
  then have "\<not> bit (ucast (10 * v AND 0xFF) :: u8) 0" by (simp add: bit_simps)
  then show False unfolding e by simp
qed

text \<open>
  C14. A SmartFusion external control of two bytes keeps the value it is set to. Let the four ports of
  the bus be a window onto a memory, with an address register of two bytes, and let the locks of the
  bus work. Then setting a value from 0 to 6553 succeeds and changes the two bytes at the offset of
  the control only, to ten times the value, high byte first; and in every later world with that
  memory the driver reads the value back, through the window, and never takes it for a device that
  is not ready.
\<close>

theorem sf_ext_ctrl_round_trip:
  assumes "sf_window io sf reg mem" and "sf_hdl_ops b = sf_bus_ops io sf"
    and "\<forall>w. \<exists>w'. std_mutex_lock os (sf_hdl_lock b) w = Some (STD_ERR_OK, w') \<and> mem w' = mem w"
    and "\<forall>w. \<exists>e w'. std_mutex_unlock os (sf_hdl_lock b) w = Some (e, w') \<and> mem w' = mem w"
    and "ctrl_width d = 2" and "ctrl_step d = 1" and "v \<le> 6553"
  shows "\<exists>w1. sdi_sf_ext_ctrl_set os b [v] 1 (d, w) = Some (STD_ERR_OK, d, w1) \<and>
    mem w1 = control_bytes (ctrl_value_offset d) (10 * v) (mem w) \<and>
    (\<forall>w2. mem w2 = mem w1 \<longrightarrow>
      (\<exists>w3. sdi_sf_ext_ctrl_get os b ([x], n) (d, w2) = Some (STD_ERR_OK, ([v], 1), d, w3) \<and> mem w3 = mem w2))"
proof -
  let ?a = "ctrl_value_offset d"
  have H: "sf_hdl_ok os b mem"
    using assms(2-4) sf_window_memory [OF assms(1)] by (simp add: sf_hdl_ok_def)
  note ten = ten_times [OF assms(7)]
  have two: "(2 :: u16) div 1 = 2" "\<not> (2 :: u16) < 2" "(2 :: u16) \<le> SMF_EXT_CTRL_REGISTER_TWO_BYTE_WIDTH"
    by (simp_all add: SMF_EXT_CTRL_REGISTER_TWO_BYTE_WIDTH_def)
  obtain u0 where u0: "sdi_sf_io_acquire_bus os b w = Some (STD_ERR_OK, u0)" "mem u0 = mem w"
    using sf_hdl_okD(1) [OF H] by blast
  obtain u1 where u1: "sf_ext_ctrl_put b (ucast ?a) (ucast (drop_bit 8 (10 * v) AND 0xFF)) (d, u0) = Some (STD_ERR_OK, d, u1)"
    "mem u1 = (mem u0)(ucast (ucast ?a :: u32) := ucast (drop_bit 8 (10 * v) AND 0xFF))"
    using sf_hdl_okD(4) [OF H] by blast
  obtain u2 where u2: "sf_ext_ctrl_put b (ucast ?a + 1) (ucast (10 * v AND 0xFF)) (d, u1) = Some (STD_ERR_OK, d, u2)"
    "mem u2 = (mem u1)(ucast (ucast ?a + 1 :: u32) := ucast (10 * v AND 0xFF))"
    using sf_hdl_okD(4) [OF H] by blast
  obtain w1 where w1: "sdi_sf_io_release_bus os b u2 = Some w1" "mem w1 = mem u2"
    using sf_hdl_okD(2) [OF H] by blast
  have set: "sdi_sf_ext_ctrl_set os b [v] 1 (d, w) = Some (STD_ERR_OK, d, w1)"
    using u0(1) u1(1) u2(1) w1(1) two assms(5,6) ten(1)
    by (simp add: sdi_sf_ext_ctrl_set_def sdi_sf_ext_ctrl_data_set_def)
  have mem1: "mem w1 = control_bytes ?a (10 * v) (mem w)"
    unfolding w1(2) u2(2) u1(2) u0(2) by (simp only: control_bytes_def)
  have "unat (10 * v) < 65536" using ten(3) assms(7) by (simp add: word_le_nat_alt)
  note bytes = control_bytes_get [OF this, of ?a "mem w"]
  have get: "\<exists>w3. sdi_sf_ext_ctrl_get os b ([x], n) (d, w2) = Some (STD_ERR_OK, ([v], 1), d, w3) \<and> mem w3 = mem w2"
    if w2: "mem w2 = mem w1" for w2
  proof -
    obtain v0 where v0: "sdi_sf_io_acquire_bus os b w2 = Some (STD_ERR_OK, v0)" "mem v0 = mem w2"
      using sf_hdl_okD(1) [OF H] by blast
    obtain v1 where v1: "sdi_sf_io_bus_read_byte (sf_hdl_ops b) (ucast ?a) 0 v0 =
        Some (STD_ERR_OK, mem v0 (ucast (ucast ?a :: u32)), v1)" "mem v1 = mem v0"
      using sf_hdl_okD(3) [OF H] by blast
    obtain v2 where v2: "sdi_sf_io_bus_read_byte (sf_hdl_ops b) (ucast ?a + 1) (mem v0 (ucast (ucast ?a :: u32))) v1 =
        Some (STD_ERR_OK, mem v1 (ucast (ucast ?a + 1 :: u32)), v2)" "mem v2 = mem v1"
      using sf_hdl_okD(3) [OF H] by blast
    obtain w3 where w3: "sdi_sf_io_release_bus os b v2 = Some w3" "mem w3 = mem v2"
      using sf_hdl_okD(2) [OF H] by blast
    have low: "mem v1 (ucast (ucast ?a + 1 :: u32)) = ucast (10 * v AND 0xFF)"
      unfolding v1(2) v0(2) w2 mem1 control_bytes_def by simp
    have sum: "push_bit 8 (ucast (mem v0 (ucast (ucast ?a :: u32)))) OR ucast (mem v1 (ucast (ucast ?a + 1 :: u32))) = 10 * v"
      unfolding v1(2) v0(2) w2 mem1 by (rule bytes)
    have "sf_ext_ctrl_bytes b ?a 2 1 x v0 = Some (STD_ERR_OK, 10 * v, mem v1 (ucast (ucast ?a + 1 :: u32)), v2)"
      using v1(1) v2(1) sum by (simp add: sf_ext_ctrl_bytes_def SMF_EXT_CTRL_REGISTER_TWO_BYTE_WIDTH_def Let_def)
    then have "sdi_sf_ext_ctrl_get os b ([x], n) (d, w2) = Some (STD_ERR_OK, ([v], 1), d, w3)"
      using v0(1) w3(1) two assms(5,6) ten(2) ten_times_ready [of v]
      by (simp add: sdi_sf_ext_ctrl_get_def sdi_sf_ext_ctrl_data_get_def SMF_EXT_CTRL_REGISTER_STEP_ALLOWED_def low)
    then show ?thesis using w3(2) v2(2) v1(2) v0(2) by simp
  qed
  show ?thesis using set mem1 get by blast
qed

section \<open>Sample\<close>

text \<open>The ports 0x10 to 0x13 of a device: the address register, and the memory.\<close>

definition sample_window_ports :: "(u16 \<times> (u16 \<Rightarrow> u8)) port_io" where
  "sample_window_ports = \<lparr>
     inb = (\<lambda>a w. if a = 0x12 then (snd w (fst w), w) else (0, w)),
     outb = (\<lambda>a v w.
       if a = 0x10 then (push_bit 8 (ucast v) OR (fst w AND 0xFF), snd w)
       else if a = 0x11 then ((fst w AND 0xFF00) OR ucast v, snd w)
       else if a = 0x13 then (fst w, (snd w)(fst w := v))
       else w),
     ioperm = (\<lambda>a n w. (STD_ERR_OK, w))\<rparr>"

definition sample_window_bus :: sf_io_bus where
  "sample_window_bus = \<lparr>
     sf_bus = \<lparr>bus_type = SDI_SF_IO_BUS, bus_id = 0, bus_name = ''sf_bus'', sdi_device_list = []\<rparr>,
     sf_lock = Mutex 0, ram_addr_high_io_addr = 0x10, ram_addr_low_io_addr = 0x11,
     ram_read_data_io_addr = 0x12, ram_write_data_io_addr = 0x13\<rparr>"

definition sample_window_hdl :: "(u16 \<times> (u16 \<Rightarrow> u8)) sf_io_bus_hdl" where
  "sample_window_hdl = \<lparr>sf_hdl_base = sf_bus sample_window_bus, sf_hdl_lock = Mutex 0,
     sf_hdl_ops = sf_bus_ops sample_window_ports sample_window_bus\<rparr>"

definition sample_control :: sf_ext_ctrl_device where
  "sample_control = \<lparr>ctrl_value_offset = 0x0430, ctrl_width = 2, ctrl_step = 1, io_bus_failure = 0, write_failure = 0\<rparr>"

text \<open>25 degrees, which are the bytes 0x00 and 0xFA.\<close>

theorem sf_ext_ctrl_round_trip_witness:
  "\<exists>w1 w3. sdi_sf_ext_ctrl_set quiet_os sample_window_hdl [25] 1 (sample_control, 0, \<lambda>_. 0xFF) =
      Some (STD_ERR_OK, sample_control, w1) \<and>
    snd w1 = (\<lambda>_. 0xFF)(0x0430 := 0, 0x0431 := 0xFA) \<and>
    sdi_sf_ext_ctrl_get quiet_os sample_window_hdl ([0], 0) (sample_control, w1) =
      Some (STD_ERR_OK, ([25], 1), sample_control, w3)"
proof -
  have W: "sf_window sample_window_ports sample_window_bus fst snd"
    by (simp add: sf_window_def sample_window_ports_def sample_window_bus_def)
  have ops: "sf_hdl_ops sample_window_hdl = sf_bus_ops sample_window_ports sample_window_bus"
    by (simp add: sample_window_hdl_def)
  have locks: "\<forall>w. \<exists>w'. std_mutex_lock quiet_os (sf_hdl_lock sample_window_hdl) w = Some (STD_ERR_OK, w') \<and> snd w' = snd w"
    "\<forall>w. \<exists>e w'. std_mutex_unlock quiet_os (sf_hdl_lock sample_window_hdl) w = Some (e, w') \<and> snd w' = snd w"
    by (simp_all add: quiet_os_def)
  have d: "ctrl_width sample_control = 2" "ctrl_step sample_control = 1" and v: "(25 :: u32) \<le> 6553"
    by (simp_all add: sample_control_def)
  have bytes: "control_bytes (ctrl_value_offset sample_control) (10 * 25) (\<lambda>_. 0xFF) =
      (\<lambda>_. 0xFF)(0x0430 := 0, 0x0431 := 0xFA)"
    by (simp add: control_bytes_def sample_control_def)
  obtain w1 where w1: "sdi_sf_ext_ctrl_set quiet_os sample_window_hdl [25] 1 (sample_control, 0, \<lambda>_. 0xFF) =
      Some (STD_ERR_OK, sample_control, w1)"
    and mem: "snd w1 = control_bytes (ctrl_value_offset sample_control) (10 * 25) (\<lambda>_. 0xFF)"
    and get: "\<exists>w3. sdi_sf_ext_ctrl_get quiet_os sample_window_hdl ([0], 0) (sample_control, w1) =
      Some (STD_ERR_OK, ([25], 1), sample_control, w3)"
    using sf_ext_ctrl_round_trip [OF W ops locks d v, where w = "(0, \<lambda>_. 0xFF)" and x = 0 and n = 0] by fastforce
  show ?thesis using w1 get unfolding mem [unfolded bytes, symmetric] by blast
qed

end
