(* ===== verification/Cpld_Buses.thy ===== *)
theory Cpld_Buses
  imports Cpld_Pin_Group Register_Device Sf_Control Bus_Drivers
begin

text \<open>
  The buses that a CPLD can be behind, each with the addresses at which it is memory: the 256
  registers of an I2C device, the 65536 addresses of a SmartFusion window, the 24576 bytes of the map
  of an FPGA; the I/O ports are in Pin\_Bus. What C12 and C13 say of a pin and of a group holds behind
  each of them.
\<close>

lemma register_number_eq:
  fixes a b :: u32
  assumes "a < 0x100" and "b < 0x100"
  shows "(ucast a :: u8) = ucast b \<longleftrightarrow> a = b"
  using assms by (simp add: word_unat_eq_iff unsigned_ucast_eq take_bit_eq_mod word_less_nat_alt)

lemma register_file_byte_memory:
  assumes R: "register_file h addr regs"
  shows "byte_memory {a. a < 0x100} io (I2C_Handle h) addr (\<lambda>w a. regs w (ucast a))"
  unfolding byte_memory_def
proof (intro conjI ballI allI)
  fix a :: u32 and v :: u8 and w
  assume a: "a \<in> {a. a < 0x100}"
  show "\<exists>w'. sdi_bus_read_byte io (I2C_Handle h) addr a v w = Some (STD_ERR_OK, regs w (ucast a), w') \<and>
      same_registers {a. a < 0x100} (\<lambda>a. regs w (ucast a)) (\<lambda>a. regs w' (ucast a))"
    using register_read_byte [OF R, of a v w] by (auto simp: sdi_bus_read_byte_def same_registers_def)
  show "\<exists>w'. sdi_bus_write_byte io (I2C_Handle h) addr a v w = Some (STD_ERR_OK, w') \<and>
      same_registers {a. a < 0x100} ((\<lambda>a. regs w (ucast a))(a := v)) (\<lambda>a. regs w' (ucast a))"
    using register_write_byte [OF R, of a v w] a
    by (auto simp: sdi_bus_write_byte_def same_registers_def register_number_eq)
qed

lemma kernel_bus_byte_memory:
  assumes "byte_addressed_memory os (i2cdev_fd b) mem" and "\<not> addr_mode_16bit addr"
  shows "byte_memory {a. a < 0x100} io (I2C_Handle (i2cdev_bus os b)) addr (\<lambda>w a. mem w (ucast a))"
  by (rule register_file_byte_memory) (rule i2cdev_register_file [OF assms])

lemma sf_bus_byte_memory:
  assumes "sf_window io sf reg mem"
  shows "byte_memory {a. a < 0x10000} io (SF_IO_Handle l (sf_bus_ops io sf)) addr (\<lambda>w a. mem w (ucast a))"
  unfolding byte_memory_def
proof (intro conjI ballI allI)
  note M = sf_window_memory [OF assms, unfolded sf_memory_def]
  fix a :: u32 and v :: u8 and w
  assume a: "a \<in> {a. a < 0x10000}"
  show "\<exists>w'. sdi_bus_read_byte io (SF_IO_Handle l (sf_bus_ops io sf)) addr a v w =
      Some (STD_ERR_OK, mem w (ucast a), w') \<and>
      same_registers {a. a < 0x10000} (\<lambda>a. mem w (ucast a)) (\<lambda>a. mem w' (ucast a))"
    using conjunct1 [OF M, rule_format, of a v w]
    by (auto simp: sdi_bus_read_byte_def sdi_sf_io_bus_read_byte_def same_registers_def)
  show "\<exists>w'. sdi_bus_write_byte io (SF_IO_Handle l (sf_bus_ops io sf)) addr a v w = Some (STD_ERR_OK, w') \<and>
      same_registers {a. a < 0x10000} ((\<lambda>a. mem w (ucast a))(a := v)) (\<lambda>a. mem w' (ucast a))"
    using conjunct2 [OF M, rule_format, of a v w] a
    by (auto simp: sdi_bus_write_byte_def sdi_sf_io_bus_write_byte_def same_registers_def port_number_eq)
qed

text \<open>The map of an FPGA as memory.\<close>

definition fpga_map :: "'w fpga_memory \<Rightarrow> ('w \<Rightarrow> nat \<Rightarrow> u8) \<Rightarrow> bool" where
  "fpga_map F mem \<longleftrightarrow>
     (\<forall>a < FPGA_MAP_SIZE. \<forall>w. fst (fpga_get F a w) = mem w a \<and> mem (snd (fpga_get F a w)) = mem w) \<and>
     (\<forall>a < FPGA_MAP_SIZE. \<forall>v w. mem (fpga_put F a v w) = (mem w)(a := v))"

lemma fpga_bus_byte_memory:
  assumes F: "fpga_map F mem" and b: "bus_type (fpga_bus f) = SDI_FPGA_PCI_BUS"
  shows "byte_memory {a. unat a < FPGA_MAP_SIZE} io (FPGA_PCI_Handle l (fpga_bus_ops F f)) addr (\<lambda>w a. mem w (unat a))"
  unfolding byte_memory_def
proof (intro conjI ballI allI)
  fix a :: u32 and v :: u8 and w
  assume a: "a \<in> {a. unat a < FPGA_MAP_SIZE}"
  obtain x w' where x: "fpga_get F (unat a) w = (x, w')" by fastforce
  then have "x = mem w (unat a)" "mem w' = mem w"
    using F a unfolding fpga_map_def by (metis fst_conv mem_Collect_eq, metis snd_conv mem_Collect_eq)
  then show "\<exists>w'. sdi_bus_read_byte io (FPGA_PCI_Handle l (fpga_bus_ops F f)) addr a v w =
      Some (STD_ERR_OK, mem w (unat a), w') \<and>
      same_registers {a. unat a < FPGA_MAP_SIZE} (\<lambda>a. mem w (unat a)) (\<lambda>a. mem w' (unat a))"
    using x a b
    by (simp add: sdi_bus_read_byte_def sdi_fpga_pci_bus_read_byte_def fpga_bus_ops_def fpga_bus_read_byte_def
        same_registers_def)
  show "\<exists>w'. sdi_bus_write_byte io (FPGA_PCI_Handle l (fpga_bus_ops F f)) addr a v w = Some (STD_ERR_OK, w') \<and>
      same_registers {a. unat a < FPGA_MAP_SIZE} ((\<lambda>a. mem w (unat a))(a := v)) (\<lambda>a. mem w' (unat a))"
    using F a b
    by (simp add: sdi_bus_write_byte_def sdi_fpga_pci_bus_write_byte_def fpga_bus_ops_def fpga_bus_write_byte_def
        same_registers_def fpga_map_def word_unat_eq_iff)
qed

text \<open>A pin of a CPLD on the kernel I2C bus, as an example.\<close>

lemma i2c_cpld_pin_write_read:
  assumes M: "byte_addressed_memory os (i2cdev_fd b) mem"
    and pin: "cpld_bus (pin_cpld pin) = I2C_Handle (i2cdev_bus os b)" "\<not> addr_mode_16bit (cpld_addr (pin_cpld pin))"
      "pin_addr pin < 0x100" "pin_offset pin < 8" "cpld_width (pin_cpld pin) = SDI_CPLD_DEFAULT_REGISTER_WIDTH"
      "default_direction (pin_defs pin) = SDI_PIN_BUS_OUTPUT"
    and "bit8_laws L"
  shows "\<exists>w1 w2. sdi_cpld_pin_write_level io L pin v w = Some (STD_ERR_OK, w1) \<and>
    sdi_cpld_pin_read_level io L pin old w1 = Some (STD_ERR_OK, v, w2)"
proof -
  have m: "byte_memory {a. a < 0x100} io (cpld_bus (pin_cpld pin)) (cpld_addr (pin_cpld pin)) (\<lambda>w a. mem w (ucast a))"
    unfolding pin(1) by (rule kernel_bus_byte_memory [OF M pin(2)])
  obtain w1 where w1: "rmw_byte io (cpld_bus (pin_cpld pin)) (cpld_addr (pin_cpld pin)) (pin_addr pin)
        (\<lambda>r. apply_level L (default_polarity (pin_defs pin)) v r (pin_offset pin)) w = Some (STD_ERR_OK, w1)"
      "level_of_bit (default_polarity (pin_defs pin)) (bit8_test L (mem w1 (ucast (pin_addr pin))) (pin_offset pin)) = v"
    using cpld_pin_field.rmw_get [OF m, of "pin_addr pin" L "pin_offset pin"] pin assms(8) by blast
  obtain w2 where "sdi_bus_read_byte io (cpld_bus (pin_cpld pin)) (cpld_addr (pin_cpld pin))
      (pin_addr pin) 0 w1 = Some (STD_ERR_OK, mem w1 (ucast (pin_addr pin)), w2)"
    using byte_memory_readE [OF m, of "pin_addr pin" 0 w1] pin(3) by blast
  then show ?thesis
    using w1 pin by (simp add: sdi_cpld_pin_write_level_def sdi_cpld_pin_read_level_def Let_def)
qed

end
