(* ===== verification/Entity_Ops.thy ===== *)
theory Entity_Ops
  imports Hwcore_Api
begin

text \<open>
  What the framework does with an entity at run time: presence with the cache of the entity
  information, faults, PSU output power, the LPC check (src/hwcore/sdi\_entity.c), reset and power
  control (sdi\_entity\_reset.c), initialisation (sdi\_entity\_init of sdi\_entity\_framework.c) and the
  start of the system (sdi\_startup.c).
\<close>

section \<open>BMC sensors\<close>

definition SDI_BMC_ENTITY_PRESENT :: u32 where "SDI_BMC_ENTITY_PRESENT = 1"
definition SDI_BMC_PSU_STATUS_PRSNT :: u32 where "SDI_BMC_PSU_STATUS_PRSNT = 0"
definition SDI_BMC_PSU_STATUS_FAILURE :: u32 where "SDI_BMC_PSU_STATUS_FAILURE = 1"
definition SDI_BMC_PSU_STATUS_INPUT_LOST :: u32 where "SDI_BMC_PSU_STATUS_INPUT_LOST = 3"

definition sdi_bmc_dc_sensor_reading_get_by_name ::
    "'w sdi_env \<Rightarrow> string \<Rightarrow> u32 \<Rightarrow> 'w \<Rightarrow> t_std_error \<times> u32" where
  "sdi_bmc_dc_sensor_reading_get_by_name E sensor_id data w =
     (case sdi_bmc_db_sensor_get_by_name E sensor_id w of
        None \<Rightarrow> (SDI_ERRCODE EINVAL, data)
      | Some sensor \<Rightarrow>
          if reading_type sensor \<noteq> SDI_SDR_READING_DISCRETE then (SDI_ERRCODE ENOTSUP, data)
          else (STD_ERR_OK, discrete_state sensor))"

section \<open>Presence and the entity information cache\<close>

definition sdi_entity_inserted :: "ent_hdl \<Rightarrow> 'w sdi_sys \<Rightarrow> (t_std_error \<times> 'w sdi_sys) option" where
  "sdi_entity_inserted h s = do {
     let s = upd_entity h (\<lambda>e. e\<lparr>entity_info := zero_entity_info\<rparr>) s;
     info_hdl \<leftarrow> entity_info_hdl (entity_heap s h);
     f \<leftarrow> as_entity_info (callback_fns (resource_heap s info_hdl));
     (rc, info, s) \<leftarrow> ask (entity_info_data_get f (entity_info (entity_heap s h))) s;
     let s = upd_entity h (\<lambda>e. e\<lparr>entity_info := info\<rparr>) s;
     if rc = STD_ERR_OK then Some (rc, upd_entity h (\<lambda>e. e\<lparr>entity_info_valid := True\<rparr>) s)
     else Some (rc, s)
   }"

definition sdi_entity_removed :: "ent_hdl \<Rightarrow> 'w sdi_sys \<Rightarrow> t_std_error \<times> 'w sdi_sys" where
  "sdi_entity_removed h s = (STD_ERR_OK, upd_entity h (\<lambda>e. e\<lparr>entity_info_valid := False\<rparr>) s)"

text \<open>
  The three ways to learn the presence. The boolean of the result says that the function returns
  at once with this code.
\<close>

definition presence_status ::
    "'w sdi_env \<Rightarrow> ent_hdl \<Rightarrow> bool \<Rightarrow> 'w sdi_sys \<Rightarrow> (t_std_error \<times> bool \<times> bool \<times> 'w sdi_sys) option" where
  "presence_status E h presence s =
     (let e = entity_heap s h in
      if entity_has_feature E e (feature_bit SDI_HOTSWAPPABLE) then
        if access_type e = SDI_ENT_ACCESS_BMC then
          let (rc, reading) = sdi_bmc_dc_sensor_reading_get_by_name E (pres_attr e) 0 (dev s);
              presence =
                (if rc = STD_ERR_OK then
                   (if ent_type e = SDI_ENTITY_FAN_TRAY then
                      (if pres_bit e = SDI_BMC_INVALID_BIT then reading = SDI_BMC_ENTITY_PRESENT
                       else bit32_test (env_lib E) reading (pres_bit e))
                    else if ent_type e = SDI_ENTITY_PSU_TRAY
                    then bit32_test (env_lib E) reading SDI_BMC_PSU_STATUS_PRSNT
                    else presence)
                 else presence)
          in Some (rc, False, presence, s)
        else do {
          pin \<leftarrow> pres_pin_hdl e;
          (rc, bus_val, s) \<leftarrow> ask (sdi_pin_read_level (env_os E) pin SDI_PIN_LEVEL_LOW) s;
          if rc \<noteq> STD_ERR_OK then Some (rc, True, presence, s)
          else Some (rc, False, bus_val = SDI_PIN_LEVEL_HIGH, s)
        }
      else Some (STD_ERR_OK, False, True, s))"

text \<open>
  Whether the entity is powered: always, unless it is a power supply. The return code of the
  reading replaces the one so far.
\<close>

definition bmc_power_good :: "'w sdi_env \<Rightarrow> u32 \<Rightarrow> bool" where
  "bmc_power_good E reading \<longleftrightarrow>
     \<not> (bit32_test (env_lib E) reading SDI_BMC_PSU_STATUS_FAILURE \<or>
        bit32_test (env_lib E) reading SDI_BMC_PSU_STATUS_INPUT_LOST)"

definition psu_power_good ::
    "'w sdi_env \<Rightarrow> ent_hdl \<Rightarrow> t_std_error \<Rightarrow> 'w sdi_sys \<Rightarrow> (t_std_error \<times> bool \<times> 'w sdi_sys) option" where
  "psu_power_good E h rc s =
     (let e = entity_heap s h in
      if ent_type e \<noteq> SDI_ENTITY_PSU_TRAY then Some (rc, True, s)
      else case power_output_status_pin_hdl e of
        Some pin \<Rightarrow> do {
          (rc, bus_val, s) \<leftarrow> ask (sdi_pin_read_level (env_os E) pin SDI_PIN_LEVEL_LOW) s;
          Some (rc, rc = STD_ERR_OK \<and> bus_val = SDI_PIN_LEVEL_HIGH, s)
        }
      | None \<Rightarrow>
          if access_type e = SDI_ENT_ACCESS_BMC then
            let (rc, reading) =
                  sdi_bmc_dc_sensor_reading_get_by_name E (power_output_status_attr e) 0 (dev s)
            in Some (rc, rc = STD_ERR_OK \<and> bmc_power_good E reading, s)
          else Some (rc, False, s))"

text \<open>The action on a change of the presence; the codes of the two functions are dropped.\<close>

definition presence_action :: "ent_hdl \<Rightarrow> bool \<Rightarrow> bool \<Rightarrow> 'w sdi_sys \<Rightarrow> 'w sdi_sys option" where
  "presence_action h presence power_good s = (
     let old = present (entity_heap s h);
         s = upd_entity h (\<lambda>e. e\<lparr>present := presence\<rparr>) s
     in if (presence \<and> \<not> old) \<or> (\<not> entity_info_valid (entity_heap s h) \<and> power_good)
        then map_option snd (sdi_entity_inserted h s)
        else if \<not> presence \<and> old then Some (snd (sdi_entity_removed h s))
        else Some s)"

definition sdi_entity_presence_get ::
    "'w sdi_env \<Rightarrow> ent_hdl \<Rightarrow> bool \<Rightarrow> 'w sdi_sys \<Rightarrow> (t_std_error \<times> bool \<times> 'w sdi_sys) option" where
  "sdi_entity_presence_get E h presence s = do {
     st \<leftarrow> presence_status E h presence s;
     (case st of (rc, stop, presence, s) \<Rightarrow>
        if stop then Some (rc, presence, s)
        else do {
          (rc, power_good, s) \<leftarrow> psu_power_good E h rc s;
          s \<leftarrow> presence_action h presence power_good s;
          Some (rc, presence, s)
        })
   }"

section \<open>Faults\<close>

definition sdi_check_fault_each_resource ::
    "res_hdl \<Rightarrow> bool \<Rightarrow> 'w sdi_sys \<Rightarrow> (bool \<times> 'w sdi_sys) option" where
  "sdi_check_fault_each_resource h data s =
     (if sdi_resource_type_get h s = SDI_RESOURCE_FAN then do {
        (rc, fault, s) \<leftarrow> sdi_fan_status_get h False s;
        if rc \<noteq> STD_ERR_OK then Some (data, s) else Some (data \<or> fault, s)
      } else Some (data, s))"

definition sdi_entity_fault_status_get ::
    "'w sdi_env \<Rightarrow> ent_hdl \<Rightarrow> 'w sdi_sys \<Rightarrow> (t_std_error \<times> bool \<times> 'w sdi_sys) option" where
  "sdi_entity_fault_status_get E h s =
     (case fault_status_pin_hdl (entity_heap s h) of
        Some pin \<Rightarrow> do {
          (rc, bus_val, s) \<leftarrow> ask (sdi_pin_read_level (env_os E) pin SDI_PIN_LEVEL_LOW) s;
          if rc \<noteq> STD_ERR_OK then Some (rc, False, s)
          else Some (rc, bus_val = SDI_PIN_LEVEL_HIGH, s)
        }
      | None \<Rightarrow> do {
          (rc, pres, s) \<leftarrow> sdi_entity_presence_get E h False s;
          if rc \<noteq> STD_ERR_OK then Some (rc, False, s)
          else if pres then do {
            (fault, s) \<leftarrow> sdi_entity_for_each_resource E h sdi_check_fault_each_resource False s;
            Some (rc, fault, s)
          } else Some (SDI_ERRCODE ENXIO, False, s)
        })"

section \<open>PSU output power and the LPC check\<close>

definition sdi_entity_psu_output_power_status_get ::
    "'w sdi_env \<Rightarrow> ent_hdl \<Rightarrow> 'w sdi_sys \<Rightarrow> (t_std_error \<times> bool \<times> 'w sdi_sys) option" where
  "sdi_entity_psu_output_power_status_get E h s =
     (if ent_type (entity_heap s h) \<noteq> SDI_ENTITY_PSU_TRAY then Some (SDI_ERRCODE ENOTSUP, False, s)
      else do {
        (rc, pres, s) \<leftarrow> sdi_entity_presence_get E h False s;
        if rc \<noteq> STD_ERR_OK then Some (rc, False, s)
        else if \<not> pres then Some (SDI_ERRCODE EPERM, False, s)
        else
          (let e = entity_heap s h in
           case power_output_status_pin_hdl e of
             Some pin \<Rightarrow> do {
               (rc, bus_val, s) \<leftarrow> ask (sdi_pin_read_level (env_os E) pin SDI_PIN_LEVEL_LOW) s;
               if rc \<noteq> STD_ERR_OK then Some (rc, False, s)
               else Some (rc, bus_val = SDI_PIN_LEVEL_HIGH, s)
             }
           | None \<Rightarrow>
               if access_type e = SDI_ENT_ACCESS_BMC then
                 let (rc, reading) =
                       sdi_bmc_dc_sensor_reading_get_by_name E (power_output_status_attr e) 0 (dev s)
                 in Some (rc, rc = STD_ERR_OK \<and> bmc_power_good E reading, s)
               else Some (rc, False, s))
      })"

text \<open>A group register written or read between acquiring and releasing its bus.\<close>

definition release_group :: "'w sdi_env \<Rightarrow> (u32, 'w) pin_bus \<Rightarrow> 'w sdi_sys \<Rightarrow> 'w sdi_sys option" where
  "release_group E g s = do { w \<leftarrow> sdi_pin_group_release_bus (env_os E) g (dev s); Some (s\<lparr>dev := w\<rparr>) }"

definition group_write ::
    "'w sdi_env \<Rightarrow> (u32, 'w) pin_bus \<Rightarrow> u32 \<Rightarrow> 'w sdi_sys \<Rightarrow> (t_std_error \<times> 'w sdi_sys) option" where
  "group_write E g value s = do {
     (rc, s) \<leftarrow> act (sdi_pin_group_acquire_bus (env_os E) g) s;
     if rc \<noteq> STD_ERR_OK then Some (rc, s)
     else do {
       (rc, s) \<leftarrow> act (sdi_pin_group_write_level g value) s;
       s \<leftarrow> release_group E g s;
       Some (rc, s)
     }
   }"

definition group_read ::
    "'w sdi_env \<Rightarrow> (u32, 'w) pin_bus \<Rightarrow> u32 \<Rightarrow> 'w sdi_sys \<Rightarrow> (t_std_error \<times> u32 \<times> 'w sdi_sys) option" where
  "group_read E g value s = do {
     (rc, s) \<leftarrow> act (sdi_pin_group_acquire_bus (env_os E) g) s;
     if rc \<noteq> STD_ERR_OK then Some (rc, value, s)
     else do {
       (rc, value, s) \<leftarrow> ask (sdi_pin_group_read_level g value) s;
       s \<leftarrow> release_group E g s;
       Some (rc, value, s)
     }
   }"

definition sdi_entity_lpc_bus_check ::
    "'w sdi_env \<Rightarrow> ent_hdl \<Rightarrow> 'w sdi_sys \<Rightarrow> (t_std_error \<times> bool \<times> 'w sdi_sys) option" where
  "sdi_entity_lpc_bus_check E h s =
     (if ent_type (entity_heap s h) \<noteq> SDI_ENTITY_SYSTEM_BOARD then Some (SDI_ERRCODE ENOTSUP, False, s)
      else do {
        (rc, pres, s) \<leftarrow> sdi_entity_presence_get E h False s;
        if rc \<noteq> STD_ERR_OK then Some (rc, False, s)
        else if \<not> pres then Some (SDI_ERRCODE EPERM, False, s)
        else case gpr_pin_grp_hdl (entity_heap s h) of
          None \<Rightarrow> Some (rc, False, s)
        | Some g \<Rightarrow> do {
            (rc, s) \<leftarrow> group_write E g 0x55 s;
            if rc \<noteq> STD_ERR_OK then Some (rc, False, s)
            else do {
              (rc, read_value, s) \<leftarrow> group_read E g 0 s;
              if rc \<noteq> STD_ERR_OK then Some (rc, False, s)
              else Some (rc, (0x55 :: u32) \<noteq> read_value, s)
            }
          }
      })"

section \<open>Initialisation\<close>

text \<open>\<open>data\<close> keeps the maximum speed of the last fan, as the C variable does.\<close>

primrec init_resources ::
    "'w sdi_env \<Rightarrow> sdi_entity_info \<Rightarrow> res_hdl list \<Rightarrow> u32 \<Rightarrow> t_std_error \<Rightarrow> 'w sdi_sys
      \<Rightarrow> (t_std_error \<times> 'w sdi_sys) option" where
  "init_resources E info [] data rc s = Some (rc, s)"
| "init_resources E info (h # hs) data rc s = do {
     let data = (if sdi_resource_type_get h s = SDI_RESOURCE_FAN then max_speed info else data);
     (ret, s) \<leftarrow> sdi_resource_init h data s;
     init_resources E info hs data (t_or E rc ret) s
   }"

definition sdi_entity_init :: "'w sdi_env \<Rightarrow> ent_hdl \<Rightarrow> 'w sdi_sys \<Rightarrow> (t_std_error \<times> 'w sdi_sys) option" where
  "sdi_entity_init E h s = do {
     (rc, presence, s) \<leftarrow> sdi_entity_presence_get E h False s;
     if \<not> presence then Some (SDI_ERRCODE EPERM, s)
     else do {
       (rc, info, s) \<leftarrow>
         (case entity_info_hdl (entity_heap s h) of
            None \<Rightarrow> Some (rc, zero_entity_info, s)
          | Some info_hdl \<Rightarrow> do {
              (rc, info) \<leftarrow> sdi_entity_info_read info_hdl zero_entity_info s;
              if rc = STD_ERR_OK then Some (rc, info, upd_entity h (\<lambda>e. e\<lparr>entity_info := info\<rparr>) s)
              else Some (rc, info, s)
            });
       init_resources E info (entity_resource_list (entity_heap s h)) 0 rc s
     }
   }"

section \<open>Reset and power control\<close>

definition nap :: "'w sdi_env \<Rightarrow> ent_hdl \<Rightarrow> 'w sdi_sys \<Rightarrow> 'w sdi_sys" where
  "nap E h s = s\<lparr>dev := std_usleep (env_os E) (unat (1000 * delay (entity_heap s h))) (dev s)\<rparr>"

definition sdi_entity_reset ::
    "'w sdi_env \<Rightarrow> ent_hdl \<Rightarrow> sdi_reset_type \<Rightarrow> 'w sdi_sys \<Rightarrow> (t_std_error \<times> 'w sdi_sys) option" where
  "sdi_entity_reset E h type s =
     (let e = entity_heap s h in
      if type = MAX_NUM_RESET then Some (SDI_ERRCODE ENOTSUP, s)
      else if \<not> sdi_is_entity_feature_support E h (reset_bit type) s then Some (SDI_ERRCODE ENOTSUP, s)
      else case reset_pin_grp_hdl e type of
        None \<Rightarrow> Some (SDI_ERRCODE EINVAL, s)
      | Some g \<Rightarrow> do {
          (ret, s) \<leftarrow> group_write E g (reset_value e type) s;
          if ret \<noteq> STD_ERR_OK then Some (ret, s)
          else do {
            (ret, s) \<leftarrow> (case reset_pin_grp_hdl_l1 e of
                           None \<Rightarrow> Some (ret, s)
                         | Some g1 \<Rightarrow> group_write E g1 (reset_value_l1 e) s);
            if ret \<noteq> STD_ERR_OK then Some (ret, s)
            else do {
              (_, s) \<leftarrow> sdi_entity_init E h (nap E h s);
              Some (ret, s)
            }
          }
        })"

definition sdi_entity_power_status_control ::
    "'w sdi_env \<Rightarrow> ent_hdl \<Rightarrow> bool \<Rightarrow> 'w sdi_sys \<Rightarrow> (t_std_error \<times> 'w sdi_sys) option" where
  "sdi_entity_power_status_control E h enable s =
     (if sdi_is_entity_feature_support E h (feature_bit SDI_PWR_CTRL_SUPPORT) s then
        (case power_pin_hdl (entity_heap s h) of
           None \<Rightarrow> Some (SDI_ERRCODE ENOTSUP, s)
         | Some pin \<Rightarrow> do {
             (ret, s) \<leftarrow> act (sdi_pin_write_level (env_os E) pin
                                (if enable then SDI_PIN_LEVEL_HIGH else SDI_PIN_LEVEL_LOW)) s;
             if ret \<noteq> STD_ERR_OK then Some (ret, s)
             else if enable then do {
               (_, s) \<leftarrow> sdi_entity_init E h (nap E h s);
               Some (STD_ERR_OK, s)
             } else Some (STD_ERR_OK, s)
           })
      else Some (SDI_ERRCODE ENOTSUP, s))"

section \<open>Starting the system\<close>

definition sdi_sys_entity_init ::
    "'w sdi_env \<Rightarrow> ent_hdl \<Rightarrow> t_std_error \<Rightarrow> 'w sdi_sys \<Rightarrow> (t_std_error \<times> 'w sdi_sys) option" where
  "sdi_sys_entity_init E h init_status s =
     (if \<not> entity_has_feature E (entity_heap s h) (feature_bit SDI_HOTSWAPPABLE) then do {
        (ret, s) \<leftarrow> sdi_entity_init E h s;
        if ret \<noteq> STD_ERR_OK \<and> init_status = STD_ERR_OK then Some (ret, s) else Some (init_status, s)
      } else Some (init_status, s))"

text \<open>
  \<open>register_drivers\<close> is what sdi\_bus\_framework\_init and sdi\_register\_drivers do to this state: the
  drivers add their resources.
\<close>

definition sdi_sys_init ::
    "'w sdi_env \<Rightarrow> ('w sdi_sys \<Rightarrow> 'w sdi_sys option) \<Rightarrow> (string \<Rightarrow> config_node option) \<Rightarrow> string
      \<Rightarrow> 'w sdi_sys \<Rightarrow> (t_std_error \<times> 'w sdi_sys) option" where
  "sdi_sys_init E register_drivers config_load entity_cfg_file s = do {
     s \<leftarrow> register_drivers (sdi_resource_mgr_init s);
     s \<leftarrow> sdi_register_entities E config_load entity_cfg_file s;
     (rc, s) \<leftarrow> sdi_entity_for_each (sdi_sys_entity_init E) STD_ERR_OK s;
     Some (rc, s\<lparr>sdi_init_status := True\<rparr>)
   }"

section \<open>What the operations change\<close>

text \<open>
  At run time only the device and, in the entities, the presence and the cached information
  change. The relation is a preorder that every operation stays in.
\<close>

definition entity_static :: "'w sdi_entity \<Rightarrow> 'w sdi_entity" where
  "entity_static e = e\<lparr>entity_info := zero_entity_info, present := False, entity_info_valid := False\<rparr>"

lemma entity_static_update [simp]:
  "entity_static (e\<lparr>entity_info := i\<rparr>) = entity_static e"
  "entity_static (e\<lparr>present := p\<rparr>) = entity_static e"
  "entity_static (e\<lparr>entity_info_valid := v\<rparr>) = entity_static e"
  by (simp_all add: entity_static_def)

lemma entity_static_sel:
  "entity_static e = entity_static e' \<Longrightarrow>
     entity_resource_list e = entity_resource_list e' \<and> entity_info_hdl e = entity_info_hdl e' \<and>
     ent_type e = ent_type e' \<and> ent_instance e = ent_instance e' \<and> access_type e = access_type e' \<and>
     pres_pin_hdl e = pres_pin_hdl e' \<and> oper_support_flag e = oper_support_flag e'"
  unfolding entity_static_def by (cases e; cases e') simp

definition runtime_change :: "'w sdi_sys \<Rightarrow> 'w sdi_sys \<Rightarrow> bool" where
  "runtime_change s s' \<longleftrightarrow>
     resource_heap s' = resource_heap s \<and> resource_list s' = resource_list s \<and>
     next_resource s' = next_resource s \<and> next_entity s' = next_entity s \<and>
     entity_list s' = entity_list s \<and> sdi_init_status s' = sdi_init_status s \<and>
     (\<forall>k. entity_static (entity_heap s' k) = entity_static (entity_heap s k))"

lemma runtime_change_refl [simp, intro]: "runtime_change s s"
  by (simp add: runtime_change_def)

lemma runtime_change_dev [simp]: "runtime_change s (s\<lparr>dev := w\<rparr>)"
  by (simp add: runtime_change_def)

lemma runtime_change_trans [trans]:
  "runtime_change s t \<Longrightarrow> runtime_change t u \<Longrightarrow> runtime_change s u"
  by (simp add: runtime_change_def)

lemma runtime_change_cache [simp]:
  "runtime_change s (upd_entity h (\<lambda>e. e\<lparr>entity_info := i\<rparr>) t) \<longleftrightarrow> runtime_change s t"
  "runtime_change s (upd_entity h (\<lambda>e. e\<lparr>present := p\<rparr>) t) \<longleftrightarrow> runtime_change s t"
  "runtime_change s (upd_entity h (\<lambda>e. e\<lparr>entity_info_valid := v\<rparr>) t) \<longleftrightarrow> runtime_change s t"
  by (auto simp: runtime_change_def)

lemma runtime_change_cache_left [simp]:
  "runtime_change (upd_entity h (\<lambda>e. e\<lparr>entity_info := i\<rparr>) s) t \<longleftrightarrow> runtime_change s t"
  "runtime_change (upd_entity h (\<lambda>e. e\<lparr>present := p\<rparr>) s) t \<longleftrightarrow> runtime_change s t"
  by (auto simp: runtime_change_def)

lemma runtime_change_act: "act f s = Some (e, s') \<Longrightarrow> runtime_change s s'"
  by (drule act_frame) auto

lemma runtime_change_ask: "ask f s = Some (e, x, s') \<Longrightarrow> runtime_change s s'"
  by (drule ask_frame) auto

lemma runtime_change_resource_init: "sdi_resource_init h data s = Some (e, s') \<Longrightarrow> runtime_change s s'"
  by (drule sdi_resource_init_frame) auto

lemma runtime_change_api: "run_api c h s = Some (e, s') \<Longrightarrow> runtime_change s s'"
  by (drule run_api_frame) auto

lemma runtime_change_inserted:
  "sdi_entity_inserted h s = Some (e, s') \<Longrightarrow> runtime_change s s'"
  by (auto simp: sdi_entity_inserted_def bind_SomeD Let_def split: if_splits dest!: runtime_change_ask)

lemma runtime_change_presence_action:
  "presence_action h p g s = Some s' \<Longrightarrow> runtime_change s s'"
  unfolding presence_action_def Let_def sdi_entity_removed_def
  by (auto split: if_splits dest!: runtime_change_inserted)

lemma runtime_change_presence_status:
  "presence_status E h p s = Some (e, b, p', s') \<Longrightarrow> runtime_change s s'"
  by (auto simp: presence_status_def bind_SomeD Let_def split: if_splits prod.splits
      dest: runtime_change_ask)

lemma runtime_change_power_good:
  "psu_power_good E h rc s = Some (e, g, s') \<Longrightarrow> runtime_change s s'"
  by (auto simp: psu_power_good_def bind_SomeD Let_def split: if_splits prod.splits option.splits
      dest: runtime_change_ask)

text \<open>The two ways a poll ends.\<close>

lemma sdi_entity_presence_get_cases:
  assumes "sdi_entity_presence_get E h p s = Some (e, p', s')"
  obtains (stop) "presence_status E h p s = Some (e, True, p', s')"
  | (done_) rc s1 g s2 where "presence_status E h p s = Some (rc, False, p', s1)"
      and "psu_power_good E h rc s1 = Some (e, g, s2)"
      and "presence_action h p' g s2 = Some s'"
proof -
  obtain rc st q s1 where s1: "presence_status E h p s = Some (rc, st, q, s1)"
    and rest: "(if st then Some (rc, q, s1) else do {
          (rc, g, s) \<leftarrow> psu_power_good E h rc s1; s \<leftarrow> presence_action h q g s; Some (rc, q, s) }) =
        Some (e, p', s')"
    using assms by (auto simp: sdi_entity_presence_get_def bind_any_eq_Some)
  show thesis
  proof (cases st)
    case True
    then show thesis using s1 rest stop by simp
  next
    case False
    then obtain rc' g s2 where "psu_power_good E h rc s1 = Some (rc', g, s2)"
      and "do { s \<leftarrow> presence_action h q g s2; Some (rc', q, s) } = Some (e, p', s')"
      using rest by (auto simp: bind_any_eq_Some)
    then show thesis
      using s1 False done_ by (cases "presence_action h q g s2") auto
  qed
qed

lemma runtime_change_presence_get:
  assumes "sdi_entity_presence_get E h p s = Some (e, p', s')"
  shows "runtime_change s s'"
  using assms
proof (cases rule: sdi_entity_presence_get_cases)
  case stop
  then show ?thesis by (rule runtime_change_presence_status)
next
  case (done_ rc s1 g s2)
  have "runtime_change s s1" using done_(1) by (rule runtime_change_presence_status)
  also have "runtime_change s1 s2" using done_(2) by (rule runtime_change_power_good)
  also have "runtime_change s2 s'" using done_(3) by (rule runtime_change_presence_action)
  finally show ?thesis .
qed

lemma runtime_change_check_fault:
  "sdi_check_fault_each_resource h d s = Some (d', s') \<Longrightarrow> runtime_change s s'"
  unfolding sdi_check_fault_each_resource_def sdi_fan_status_get_def
  by (auto simp: bind_SomeD Let_def split: if_splits dest!: runtime_change_ask)

lemma runtime_change_for_each_resource:
  assumes "\<And>h d s d' s'. fn h d s = Some (d', s') \<Longrightarrow> runtime_change s s'"
  shows "for_each_resource E fn hs d s = Some (d', s') \<Longrightarrow> runtime_change s s'"
proof (induction hs arbitrary: d s)
  case (Cons h hs)
  obtain m where m: "resource_entity_ppid_match E h s = Some m"
    using Cons.prems by (cases "resource_entity_ppid_match E h s") auto
  show ?case
  proof (cases m)
    case True
    then obtain d1 s1 where *: "fn h d s = Some (d1, s1)" "for_each_resource E fn hs d1 s1 = Some (d', s')"
      using Cons.prems m by (cases "fn h d s") auto
    show ?thesis using assms [OF *(1)] Cons.IH [OF *(2)] by (rule runtime_change_trans)
  next
    case False
    then show ?thesis using Cons m by simp
  qed
qed simp

lemma runtime_change_check_faults:
  "for_each_resource E sdi_check_fault_each_resource hs d s = Some (d', s') \<Longrightarrow> runtime_change s s'"
  by (rule runtime_change_for_each_resource [OF runtime_change_check_fault])

lemma runtime_change_group_write:
  assumes "group_write E g v s = Some (e, s')"
  shows "runtime_change s s'"
proof -
  obtain rc s1 where s1: "act (sdi_pin_group_acquire_bus (env_os E) g) s = Some (rc, s1)"
    using assms by (auto simp: group_write_def bind_any_eq_Some)
  show ?thesis
  proof (cases "rc = STD_ERR_OK")
    case True
    then obtain s2 w where s2: "act (sdi_pin_group_write_level g v) s1 = Some (e, s2)" "s' = s2\<lparr>dev := w\<rparr>"
      using assms s1 by (auto simp: group_write_def release_group_def bind_any_eq_Some)
    show ?thesis
      using runtime_change_act [OF s1] runtime_change_act [OF s2(1)] s2(2) runtime_change_trans
        runtime_change_dev by metis
  next
    case False
    then show ?thesis using assms s1 runtime_change_act [OF s1] by (simp add: group_write_def)
  qed
qed

lemma runtime_change_group_read:
  assumes "group_read E g v s = Some (e, x, s')"
  shows "runtime_change s s'"
proof -
  obtain rc s1 where s1: "act (sdi_pin_group_acquire_bus (env_os E) g) s = Some (rc, s1)"
    using assms by (auto simp: group_read_def bind_any_eq_Some)
  show ?thesis
  proof (cases "rc = STD_ERR_OK")
    case True
    then obtain s2 w where s2: "ask (sdi_pin_group_read_level g v) s1 = Some (e, x, s2)" "s' = s2\<lparr>dev := w\<rparr>"
      using assms s1 by (auto simp: group_read_def release_group_def bind_any_eq_Some)
    show ?thesis
      using runtime_change_act [OF s1] runtime_change_ask [OF s2(1)] s2(2) runtime_change_trans
        runtime_change_dev by metis
  next
    case False
    then show ?thesis using assms s1 runtime_change_act [OF s1] by (simp add: group_read_def)
  qed
qed

lemma runtime_change_init_resources:
  "init_resources E info hs data rc s = Some (e, s') \<Longrightarrow> runtime_change s s'"
proof (induction hs arbitrary: data rc s)
  case (Cons h hs)
  obtain ret s1 data' where *: "sdi_resource_init h data' s = Some (ret, s1)"
      "init_resources E info hs data' (t_or E rc ret) s1 = Some (e, s')"
    using Cons.prems by (auto simp: bind_any_eq_Some Let_def)
  show ?case using runtime_change_resource_init [OF *(1)] Cons.IH [OF *(2)] by (rule runtime_change_trans)
qed simp

text \<open>
  Partial correctness of a call: what holds of the result if it returns. The rules follow the
  structure of the do-blocks.
\<close>

definition returns_with :: "'a option \<Rightarrow> ('a \<Rightarrow> bool) \<Rightarrow> bool" where
  "returns_with r P \<longleftrightarrow> (\<forall>x. r = Some x \<longrightarrow> P x)"

lemma returns_with_simps [simp]:
  "returns_with (Some x) P \<longleftrightarrow> P x" "returns_with None P"
  "returns_with (if b then r1 else r2) P \<longleftrightarrow> (b \<longrightarrow> returns_with r1 P) \<and> (\<not> b \<longrightarrow> returns_with r2 P)"
  by (auto simp: returns_with_def)

lemma returns_with_bind: "returns_with m (\<lambda>x. returns_with (f x) P) \<Longrightarrow> returns_with (m \<bind> f) P"
  by (cases m) (simp_all add: returns_with_def)

lemma returns_with_mono: "returns_with r P \<Longrightarrow> (\<And>x. P x \<Longrightarrow> Q x) \<Longrightarrow> returns_with r Q"
  by (auto simp: returns_with_def)

lemma returns_with_any: "(\<And>x. P x) \<Longrightarrow> returns_with m P"
  by (simp add: returns_with_def)

lemma returns_with_option:
  "(\<And>x. m = Some x \<Longrightarrow> returns_with (f x) P) \<Longrightarrow> (m = None \<Longrightarrow> returns_with n P) \<Longrightarrow>
     returns_with (case m of None \<Rightarrow> n | Some x \<Rightarrow> f x) P"
  by (cases m) simp_all

text \<open>The calls inside an operation, from any state the operation has reached.\<close>

lemma keeps_pair:
  assumes "\<And>e s'. r = Some (e, s') \<Longrightarrow> runtime_change t s'" and "runtime_change s t"
    and "\<And>e s'. runtime_change s s' \<Longrightarrow> Q (e, s')"
  shows "returns_with r Q"
  using assms runtime_change_trans by (fastforce simp: returns_with_def)

lemma keeps_triple:
  assumes "\<And>e x s'. r = Some (e, x, s') \<Longrightarrow> runtime_change t s'" and "runtime_change s t"
    and "\<And>e x s'. runtime_change s s' \<Longrightarrow> Q (e, x, s')"
  shows "returns_with r Q"
  using assms runtime_change_trans by (fastforce simp: returns_with_def)

lemma keeps_act:
  "runtime_change s t \<Longrightarrow> (\<And>e s'. runtime_change s s' \<Longrightarrow> Q (e, s')) \<Longrightarrow> returns_with (act f t) Q"
  by (rule keeps_pair [where s = s and t = t]) (erule runtime_change_act)

lemma keeps_ask:
  "runtime_change s t \<Longrightarrow> (\<And>e x s'. runtime_change s s' \<Longrightarrow> Q (e, x, s')) \<Longrightarrow> returns_with (ask f t) Q"
  by (rule keeps_triple [where s = s and t = t]) (erule runtime_change_ask)

lemma keeps_presence_get:
  "runtime_change s t \<Longrightarrow> (\<And>e x s'. runtime_change s s' \<Longrightarrow> Q (e, x, s')) \<Longrightarrow> returns_with (sdi_entity_presence_get E h p t) Q"
  by (rule keeps_triple [where s = s and t = t]) (erule runtime_change_presence_get)

lemma keeps_group_write:
  "runtime_change s t \<Longrightarrow> (\<And>e s'. runtime_change s s' \<Longrightarrow> Q (e, s')) \<Longrightarrow> returns_with (group_write E g v t) Q"
  by (rule keeps_pair [where s = s and t = t]) (erule runtime_change_group_write)

lemma keeps_group_read:
  "runtime_change s t \<Longrightarrow> (\<And>e x s'. runtime_change s s' \<Longrightarrow> Q (e, x, s')) \<Longrightarrow> returns_with (group_read E g v t) Q"
  by (rule keeps_triple [where s = s and t = t]) (erule runtime_change_group_read)

lemma keeps_init_resources:
  "runtime_change s t \<Longrightarrow> (\<And>e s'. runtime_change s s' \<Longrightarrow> Q (e, s')) \<Longrightarrow> returns_with (init_resources E info hs d rc t) Q"
  by (rule keeps_pair [where s = s and t = t]) (erule runtime_change_init_resources)

lemma keeps_check_faults:
  "runtime_change s t \<Longrightarrow> (\<And>e s'. runtime_change s s' \<Longrightarrow> Q (e, s')) \<Longrightarrow> returns_with (for_each_resource E sdi_check_fault_each_resource hs d t) Q"
  by (rule keeps_pair [where s = s and t = t]) (erule runtime_change_check_faults)

lemmas keeps = keeps_act keeps_ask keeps_presence_get keeps_group_write keeps_group_read
  keeps_init_resources keeps_check_faults

lemma runtime_change_fault:
  "returns_with (sdi_entity_fault_status_get E h s) (\<lambda>(e, x, s'). runtime_change s s')"
  unfolding sdi_entity_fault_status_get_def sdi_entity_for_each_resource_def
  by (auto intro!: returns_with_option returns_with_bind keeps [where s = s])

lemma runtime_change_psu:
  "returns_with (sdi_entity_psu_output_power_status_get E h s) (\<lambda>(e, x, s'). runtime_change s s')"
  unfolding sdi_entity_psu_output_power_status_get_def Let_def
  by (auto intro!: returns_with_option returns_with_bind keeps [where s = s] split: prod.split)

lemma runtime_change_lpc:
  "returns_with (sdi_entity_lpc_bus_check E h s) (\<lambda>(e, x, s'). runtime_change s s')"
  unfolding sdi_entity_lpc_bus_check_def
  by (auto intro!: returns_with_option returns_with_bind keeps [where s = s])

lemma runtime_change_init:
  "returns_with (sdi_entity_init E h s) (\<lambda>(e, s'). runtime_change s s')"
  unfolding sdi_entity_init_def
  by (auto intro!: returns_with_option returns_with_bind keeps [where s = s]
      returns_with_any [where m = "sdi_entity_info_read _ _ _"])

lemma keeps_init:
  "runtime_change s t \<Longrightarrow> (\<And>e s'. runtime_change s s' \<Longrightarrow> Q (e, s')) \<Longrightarrow>
     returns_with (sdi_entity_init E h t) Q"
  using runtime_change_init [of E h t] runtime_change_trans by (fastforce simp: returns_with_def)

lemma runtime_change_nap [simp]: "runtime_change s (nap E h t) \<longleftrightarrow> runtime_change s t"
  by (simp add: nap_def runtime_change_def)

lemma runtime_change_reset:
  "returns_with (sdi_entity_reset E h type s) (\<lambda>(e, s'). runtime_change s s')"
  unfolding sdi_entity_reset_def Let_def
  by (auto intro!: returns_with_option returns_with_bind keeps [where s = s] keeps_init [where s = s])

lemma runtime_change_power:
  "returns_with (sdi_entity_power_status_control E h enable s) (\<lambda>(e, s'). runtime_change s s')"
  unfolding sdi_entity_power_status_control_def Let_def
  by (auto intro!: returns_with_option returns_with_bind keeps [where s = s] keeps_init [where s = s])

lemma runtime_change_sys_entity_init:
  "sdi_sys_entity_init E h st s = Some (st', s') \<Longrightarrow> runtime_change s s'"
proof -
  have "returns_with (sdi_sys_entity_init E h st s) (\<lambda>(e, s'). runtime_change s s')"
    unfolding sdi_sys_entity_init_def by (auto intro!: returns_with_bind keeps_init [where s = s])
  then show "sdi_sys_entity_init E h st s = Some (st', s') \<Longrightarrow> runtime_change s s'"
    by (simp add: returns_with_def)
qed

section \<open>The states of a running system\<close>

lemma sys_wf_runtime:
  assumes "sys_wf s" and "runtime_change s s'"
  shows "sys_wf s'"
proof -
  have eq: "resource_heap s' = resource_heap s" "resource_list s' = resource_list s"
      "next_resource s' = next_resource s" "next_entity s' = next_entity s" "entity_list s' = entity_list s"
    using assms(2) by (simp_all add: runtime_change_def)
  have "entity_ok s' h" if "entity_ok s h" for h
    using that entity_static_sel [of "entity_heap s' h" "entity_heap s h"] assms(2)
    by (simp add: entity_ok_def member_ok_def runtime_change_def)
  then show ?thesis
    using assms(1) eq by (simp add: sys_wf_def resources_wf_def resource_ok_def)
qed

text \<open>
  The transitions of a system from its start: a driver adds a resource (with the table of its
  type), an entity is registered from a configuration node without invalid patterns, an operation
  runs on an entity or a resource, the environment changes the device, initialisation completes.
\<close>

inductive sys_reachable :: "'w sdi_env \<Rightarrow> 'w sdi_sys \<Rightarrow> bool" for E where
  start: "sys_reachable E (sdi_resource_mgr_init (s\<lparr>entity_list := [], next_entity := 0\<rparr>))"
| add_resource: "sys_reachable E s \<Longrightarrow> table_fits t fns \<Longrightarrow>
    sys_reachable E (sdi_resource_add L t name fns s)"
| register: "sys_reachable E s \<Longrightarrow> patterns_ok E node \<Longrightarrow> sdi_register_entity E node s = Some s' \<Longrightarrow>
    sys_reachable E s'"
| environment: "sys_reachable E s \<Longrightarrow> sys_reachable E (s\<lparr>dev := w\<rparr>)"
| inited: "sys_reachable E s \<Longrightarrow> sys_reachable E (s\<lparr>sdi_init_status := b\<rparr>)"
| presence: "sys_reachable E s \<Longrightarrow> sdi_entity_presence_get E h p s = Some (e, p', s') \<Longrightarrow> sys_reachable E s'"
| fault: "sys_reachable E s \<Longrightarrow> sdi_entity_fault_status_get E h s = Some (e, p', s') \<Longrightarrow> sys_reachable E s'"
| psu: "sys_reachable E s \<Longrightarrow> sdi_entity_psu_output_power_status_get E h s = Some (e, p', s') \<Longrightarrow>
    sys_reachable E s'"
| lpc: "sys_reachable E s \<Longrightarrow> sdi_entity_lpc_bus_check E h s = Some (e, p', s') \<Longrightarrow> sys_reachable E s'"
| init: "sys_reachable E s \<Longrightarrow> sdi_entity_init E h s = Some (e, s') \<Longrightarrow> sys_reachable E s'"
| reset: "sys_reachable E s \<Longrightarrow> sdi_entity_reset E h type s = Some (e, s') \<Longrightarrow> sys_reachable E s'"
| power: "sys_reachable E s \<Longrightarrow> sdi_entity_power_status_control E h b s = Some (e, s') \<Longrightarrow> sys_reachable E s'"
| api: "sys_reachable E s \<Longrightarrow> run_api c r s = Some (e, s') \<Longrightarrow> sys_reachable E s'"

lemma sys_reachable_wf: "sys_reachable E s \<Longrightarrow> sys_wf s"
proof (induction rule: sys_reachable.induct)
  case (start s)
  show ?case by (rule sys_wf_init)
next
  case (add_resource s t fns L name)
  then show ?case by (blast intro: sdi_resource_add_sys_wf)
next
  case (register s node s')
  then show ?case by (blast intro: sdi_register_entity_sys_wf)
next
  case (environment s w)
  then show ?case by (blast intro: sys_wf_runtime runtime_change_dev)
next
  case (inited s b)
  then show ?case
    by (simp add: sys_wf_def resources_wf_def entity_ok_def member_ok_def resource_ok_def)
next
  case (fault s h e p' s')
  then show ?case using sys_wf_runtime runtime_change_fault [of E h s] by (auto simp: returns_with_def)
next
  case (psu s h e p' s')
  then show ?case using sys_wf_runtime runtime_change_psu [of E h s] by (auto simp: returns_with_def)
next
  case (lpc s h e p' s')
  then show ?case using sys_wf_runtime runtime_change_lpc [of E h s] by (auto simp: returns_with_def)
next
  case (init s h e s')
  then show ?case using sys_wf_runtime runtime_change_init [of E h s] by (auto simp: returns_with_def)
next
  case (reset s h type e s')
  then show ?case using sys_wf_runtime runtime_change_reset [of E h type s] by (auto simp: returns_with_def)
next
  case (power s h b e s')
  then show ?case using sys_wf_runtime runtime_change_power [of E h b s] by (auto simp: returns_with_def)
next
  case (presence s h p e p' s')
  then show ?case using sys_wf_runtime runtime_change_presence_get by blast
next
  case (api s c r e s')
  then show ?case using sys_wf_runtime runtime_change_api by blast
qed

text \<open>
  C24. The queries of a running system always return. In every state that a system reaches from
  its start by adding resources, registering entities whose patterns compile, running any of the
  entity operations and resource calls in any order, and changes of the devices, the resource
  queries of every registered entity return, and every resource an entity lists is a registered
  one with a parent and with the callback table of its type.
\<close>

theorem reachable_queries_return:
  assumes "sys_reachable E s" and "h \<in> set (entity_list s)"
  shows "sdi_entity_resource_count_get E h t s \<noteq> None \<and> sdi_entity_resource_lookup E h t alias s \<noteq> None \<and>
    (\<forall>r \<in> set (entity_resource_list (entity_heap s h)).
       r \<in> set (resource_list s) \<and> res_parent (resource_heap s r) \<noteq> None \<and>
       table_fits (sdi_resource_type_get r s) (callback_fns (resource_heap s r)))"
proof -
  have wf: "sys_wf s" using assms(1) by (rule sys_reachable_wf)
  then have h: "ent_no h < next_entity s" using assms(2) by (rule sys_wfD(2))
  have "member_ok s r \<and> resource_ok s r" if "r \<in> set (entity_resource_list (entity_heap s h))" for r
    using entity_okD(1) [OF sys_wfD(3) [OF wf h] that] sys_wfD(4) [OF wf] by (simp add: member_ok_def)
  moreover have "\<forall>r \<in> set (entity_resource_list (entity_heap s h)).
      resource_entity_ppid_match E r s = Some (ppid_visible E s r)"
    using entity_resources_defined [OF wf h] by blast
  ultimately show ?thesis
    using count_resources_filter [of "entity_resource_list (entity_heap s h)" E s t "0"]
      find_resource_find [of "entity_resource_list (entity_heap s h)" E s "alias"]
    by (simp add: sdi_entity_resource_count_get_def sdi_entity_resource_lookup_def member_ok_def
        resource_ok_def sdi_resource_type_get_def sdi_internal_resource_type_get_def)
qed

lemma sample_sys_reachable: "sys_reachable sample_env sample_entities"
  by (rule sys_reachable.register [OF _ _ sample_entities_eq])
    (auto simp: sample_resources_def sample_fan_def sample_eeprom_def patterns_ok_def linked_def
      sample_node_def sample_env_def intro!: sys_reachable.add_resource sys_reachable.start split: option.split)

theorem reachable_queries_return_witness:
  "sdi_entity_resource_count_get sample_env (Ent_Hdl 0) SDI_RESOURCE_FAN sample_entities \<noteq> None"
proof -
  have "Ent_Hdl 0 \<in> set (entity_list sample_entities)" by code_simp
  from reachable_queries_return [OF sample_sys_reachable this] show ?thesis by blast
qed

end
