(* ===== verification/Presence.thy ===== *)
theory Presence
  imports Entity_Ops
begin

text \<open>
  The presence of an entity as a state machine: polls by sdi\_entity\_presence\_get
  (src/hwcore/sdi\_entity.c) interleaved with changes of the hardware, and what they do to the
  cache of the entity information that the other calls read.
\<close>

section \<open>One poll\<close>

text \<open>A hot-swappable slot with a presence pin and an EEPROM behind the driver table \<open>f\<close>.\<close>

definition slot ::
    "'w sdi_env \<Rightarrow> ent_hdl \<Rightarrow> (sdi_pin_bus_level, 'w) pin_bus \<Rightarrow> 'w entity_info_ctrl \<Rightarrow> 'w sdi_sys \<Rightarrow> bool" where
  "slot E h pin f s \<longleftrightarrow>
     entity_has_feature E (entity_heap s h) (feature_bit SDI_HOTSWAPPABLE) \<and>
     access_type (entity_heap s h) = SDI_ENT_ACCESS_DIRECT \<and>
     ent_type (entity_heap s h) \<noteq> SDI_ENTITY_PSU_TRAY \<and> pres_pin_hdl (entity_heap s h) = Some pin \<and>
     (\<exists>rh. entity_info_hdl (entity_heap s h) = Some rh \<and>
           callback_fns (resource_heap s rh) = Entity_Info_Fns f)"

lemma slot_runtime: "runtime_change s s' \<Longrightarrow> slot E h pin f s' \<longleftrightarrow> slot E h pin f s"
  using entity_static_sel [of "entity_heap s' h" "entity_heap s h"]
  by (auto simp: slot_def runtime_change_def entity_has_feature_def)

text \<open>Reading the EEPROM into a cleared record.\<close>

lemma sdi_entity_inserted_slot:
  assumes "slot E h pin f s" and "sdi_entity_inserted h s = Some (e, s')"
  shows "\<exists>info w. entity_info_data_get f zero_entity_info (dev s) = Some (e, info, w) \<and>
    entity_heap s' h = (entity_heap s h)\<lparr>entity_info := info,
      entity_info_valid := (e = STD_ERR_OK \<or> entity_info_valid (entity_heap s h))\<rparr>"
proof -
  obtain rh where rh: "entity_info_hdl (entity_heap s h) = Some rh"
      "callback_fns (resource_heap s rh) = Entity_Info_Fns f"
    using assms(1) by (auto simp: slot_def)
  obtain rc info w where r: "entity_info_data_get f zero_entity_info (dev s) = Some (rc, info, w)"
    using assms(2) rh by (auto simp: sdi_entity_inserted_def ask_def bind_any_eq_Some Let_def)
  then show ?thesis
    using assms(2) rh by (auto simp: sdi_entity_inserted_def ask_def Let_def split: if_splits)
qed

text \<open>What a poll of a slot is: a pin error, or the action on the level that was read.\<close>

lemma slot_poll:
  assumes "slot E h pin f s" and "sdi_entity_presence_get E h p s = Some (e, p', s')"
  obtains (pin_error) w where "e \<noteq> STD_ERR_OK" and "p' = p" and "s' = s\<lparr>dev := w\<rparr>"
  | (level) v w where "sdi_pin_read_level (env_os E) pin SDI_PIN_LEVEL_LOW (dev s) = Some (STD_ERR_OK, v, w)"
      and "e = STD_ERR_OK" and "p' = (v = SDI_PIN_LEVEL_HIGH)"
      and "presence_action h p' True (s\<lparr>dev := w\<rparr>) = Some s'"
  using assms(2)
proof (cases rule: sdi_entity_presence_get_cases)
  case stop
  then show thesis
    using assms(1) pin_error by (auto simp: presence_status_def slot_def ask_def bind_SomeD split: if_splits)
next
  case (done_ rc s1 g s2)
  obtain v w where "sdi_pin_read_level (env_os E) pin SDI_PIN_LEVEL_LOW (dev s) = Some (STD_ERR_OK, v, w)"
      and "rc = STD_ERR_OK" and "p' = (v = SDI_PIN_LEVEL_HIGH)" and s1: "s1 = s\<lparr>dev := w\<rparr>"
    using assms(1) done_(1) by (auto simp: presence_status_def slot_def ask_def bind_SomeD split: if_splits)
  moreover have "e = rc \<and> g \<and> s2 = s1"
    using assms(1) done_(2) by (auto simp: psu_power_good_def slot_def s1)
  ultimately show thesis using level done_(3) by simp
qed

lemma presence_action_present:
  "presence_action h p g s = Some s' \<Longrightarrow> slot E h pin f s \<Longrightarrow> present (entity_heap s' h) = p"
proof -
  assume a: "presence_action h p g s = Some s'" and sl: "slot E h pin f s"
  let ?s = "upd_entity h (\<lambda>e. e\<lparr>present := p\<rparr>) s"
  have "slot E h pin f ?s" using sl slot_runtime [of s ?s] by simp
  from sdi_entity_inserted_slot [OF this] a show ?thesis
    by (auto simp: presence_action_def Let_def sdi_entity_removed_def split: if_splits)
qed

section \<open>The polled slot\<close>

text \<open>
  A slot that starts empty, is polled in any order with changes of the hardware in between, and
  whose framework may do anything else that leaves this entity's cache alone.
\<close>

inductive polled ::
    "'w sdi_env \<Rightarrow> ent_hdl \<Rightarrow> (sdi_pin_bus_level, 'w) pin_bus \<Rightarrow> 'w entity_info_ctrl \<Rightarrow> 'w sdi_sys \<Rightarrow> bool"
  for E h pin f where
  empty: "slot E h pin f s \<Longrightarrow> \<not> present (entity_heap s h) \<Longrightarrow> \<not> entity_info_valid (entity_heap s h) \<Longrightarrow>
    polled E h pin f s"
| elsewhere: "polled E h pin f s \<Longrightarrow> runtime_change s s' \<Longrightarrow> entity_heap s' h = entity_heap s h \<Longrightarrow>
    polled E h pin f s'"
| poll: "polled E h pin f s \<Longrightarrow> sdi_entity_presence_get E h p s = Some (e, p', s') \<Longrightarrow> polled E h pin f s'"

text \<open>While the pin says that nothing is there, the EEPROM cannot be read.\<close>

definition absent_unreadable ::
    "'w os \<Rightarrow> (sdi_pin_bus_level, 'w) pin_bus \<Rightarrow> 'w entity_info_ctrl \<Rightarrow> bool" where
  "absent_unreadable os pin f \<longleftrightarrow>
     (\<forall>w v w1 e i w2. sdi_pin_read_level os pin SDI_PIN_LEVEL_LOW w = Some (STD_ERR_OK, v, w1) \<longrightarrow>
        v \<noteq> SDI_PIN_LEVEL_HIGH \<longrightarrow> entity_info_data_get f zero_entity_info w1 = Some (e, i, w2) \<longrightarrow>
        e \<noteq> STD_ERR_OK)"

definition cache_coherent :: "'w entity_info_ctrl \<Rightarrow> 'w sdi_entity \<Rightarrow> bool" where
  "cache_coherent f e \<longleftrightarrow>
     (entity_info_valid e \<longrightarrow> present e \<and>
        (\<exists>w w'. entity_info_data_get f zero_entity_info w = Some (STD_ERR_OK, entity_info e, w')))"

lemma presence_action_coherent:
  assumes "slot E h pin f s" and "cache_coherent f (entity_heap s h)"
    and "presence_action h p True s = Some s'"
    and "\<not> p \<longrightarrow> (\<forall>e i w. entity_info_data_get f zero_entity_info (dev s) = Some (e, i, w) \<longrightarrow> e \<noteq> STD_ERR_OK)"
  shows "cache_coherent f (entity_heap s' h)"
proof -
  let ?s = "upd_entity h (\<lambda>e. e\<lparr>present := p\<rparr>) s"
  have sl: "slot E h pin f ?s" using assms(1) slot_runtime [of s ?s] by simp
  consider
      (read) "(p \<and> \<not> present (entity_heap s h)) \<or> \<not> entity_info_valid (entity_heap s h)"
    | (gone) "\<not> p" "present (entity_heap s h)" "entity_info_valid (entity_heap s h)"
    | (same) "entity_info_valid (entity_heap s h)" "p = present (entity_heap s h)"
    by blast
  then show ?thesis
  proof cases
    case read
    then have "\<not> entity_info_valid (entity_heap s h)"
      using assms(2) by (auto simp: cache_coherent_def)
    moreover from read obtain e where "sdi_entity_inserted h ?s = Some (e, s')"
      using assms(3) by (auto simp: presence_action_def Let_def)
    from sdi_entity_inserted_slot [OF sl this] obtain info w where
        get: "entity_info_data_get f zero_entity_info (dev s) = Some (e, info, w)"
      and "entity_heap s' h = (entity_heap ?s h)\<lparr>entity_info := info,
             entity_info_valid := (e = STD_ERR_OK \<or> entity_info_valid (entity_heap s h))\<rparr>"
      by auto
    ultimately show ?thesis
      using assms(4) by (auto simp: cache_coherent_def)
  next
    case gone
    then show ?thesis
      using assms(3) by (auto simp: presence_action_def sdi_entity_removed_def cache_coherent_def Let_def)
  next
    case same
    then show ?thesis
      using assms(2,3)
      by (auto simp: presence_action_def cache_coherent_def Let_def split: if_splits) blast+
  qed
qed

lemma polled_invariant:
  assumes "polled E h pin f s" and "absent_unreadable (env_os E) pin f"
  shows "slot E h pin f s \<and> cache_coherent f (entity_heap s h)"
  using assms(1)
proof (induction rule: polled.induct)
  case (empty s)
  then show ?case by (simp add: cache_coherent_def)
next
  case (elsewhere s s')
  then show ?case by (simp add: slot_runtime)
next
  case (poll s p e p' s')
  then have sl: "slot E h pin f s" and co: "cache_coherent f (entity_heap s h)" by simp_all
  have sl': "slot E h pin f s'"
    using sl slot_runtime [OF runtime_change_presence_get [OF poll.hyps(2)]] by simp
  from sl poll.hyps(2) show ?case
  proof (cases rule: slot_poll)
    case (pin_error w)
    then show ?thesis using sl' co by simp
  next
    case (level v w)
    have "slot E h pin f (s\<lparr>dev := w\<rparr>)" using sl slot_runtime [of s "s\<lparr>dev := w\<rparr>"] by simp
    moreover have "\<not> p' \<longrightarrow> (\<forall>e i w2. entity_info_data_get f zero_entity_info w = Some (e, i, w2) \<longrightarrow> e \<noteq> STD_ERR_OK)"
      using assms(2) level(1,3) by (auto simp: absent_unreadable_def)
    ultimately show ?thesis
      using presence_action_coherent [of E h pin f "s\<lparr>dev := w\<rparr>" p' s'] co level(4) sl' by simp
  qed
qed

text \<open>
  C25. As long as the EEPROM of an empty slot cannot be read, the cached information is that of the
  entity that is there. Take a hot-swappable slot with a presence pin that starts empty and is
  polled any number of times while the hardware and the rest of the system change in any way that
  leaves its EEPROM unreadable whenever the pin says that the slot is empty. Then information that is
  marked valid belongs to an entity that is marked present and is what a successful read of the
  EEPROM delivered; and after a poll that finds the slot empty, the information is invalid and
  sdi\_entity\_info\_read answers ENODATA. Of other hardware this does not hold: C27 shows the cleared
  information of a failed read marked valid.
\<close>

theorem polled_cache_coherent:
  assumes "polled E h pin f s" and "absent_unreadable (env_os E) pin f"
  shows "(entity_info_valid (entity_heap s h) \<longrightarrow> present (entity_heap s h) \<and>
      (\<exists>w w'. entity_info_data_get f zero_entity_info w = Some (STD_ERR_OK, entity_info (entity_heap s h), w'))) \<and>
    (sdi_entity_presence_get E h p s = Some (STD_ERR_OK, False, s') \<longrightarrow>
      res_parent (resource_heap s' rh) = Some h \<longrightarrow>
      sdi_entity_info_read rh info s' = Some (SDI_ERRCODE ENODATA, info))"
proof (intro conjI impI)
  note inv = polled_invariant [OF assms]
  assume "entity_info_valid (entity_heap s h)"
  with inv show "present (entity_heap s h)" and
    "\<exists>w w'. entity_info_data_get f zero_entity_info w = Some (STD_ERR_OK, entity_info (entity_heap s h), w')"
    by (auto simp: cache_coherent_def)
next
  assume p: "sdi_entity_presence_get E h p s = Some (STD_ERR_OK, False, s')"
    and rh: "res_parent (resource_heap s' rh) = Some h"
  have sl: "slot E h pin f s" using polled_invariant [OF assms] by simp
  have "cache_coherent f (entity_heap s' h)"
    using polled_invariant [OF polled.poll [OF assms(1) p] assms(2)] by simp
  moreover have "\<not> present (entity_heap s' h)"
    using sl p
  proof (cases rule: slot_poll)
    case (level v w)
    have "slot E h pin f (s\<lparr>dev := w\<rparr>)" using sl slot_runtime [of s "s\<lparr>dev := w\<rparr>"] by simp
    with level(4) show ?thesis by (simp add: presence_action_present)
  qed simp
  ultimately show "sdi_entity_info_read rh info s' = Some (SDI_ERRCODE ENODATA, info)"
    using rh by (auto simp: sdi_entity_info_read_def cache_coherent_def)
qed

section \<open>Registered entities can be polled\<close>

text \<open>The presence attributes survive the rest of the configuration.\<close>

lemma fill_pres_pin [simp]:
  "pres_pin_hdl (sdi_fill_reset_info E node e) = pres_pin_hdl e"
  "pres_pin_hdl (fill_status_attrs E node e) = pres_pin_hdl e"
  "access_type (sdi_fill_reset_info E node e) = access_type e"
  "access_type (fill_status_attrs E node e) = access_type e"
  unfolding sdi_fill_reset_info_def fill_status_attrs_def fill_reset_type_def Let_def set_feature_def
  by (simp_all add: with_attr_preserves [where P = pres_pin_hdl] with_attr_preserves [where P = access_type])

lemma fill_status_attrs_flag [simp]: "oper_support_flag (fill_status_attrs E node e) = oper_support_flag e"
  unfolding fill_status_attrs_def Let_def
  by (simp add: with_attr_preserves [where P = oper_support_flag])

lemma set_feature_hotswap:
  assumes "bit32_laws (env_lib E)" and "b < 32" and "b \<noteq> 2"
  shows "bit32_test (env_lib E) (oper_support_flag (set_feature E b e)) 2 =
    bit32_test (env_lib E) (oper_support_flag e) 2"
  using assms by (simp add: set_feature_def bit32_laws_def)

lemma fill_reset_hotswap:
  assumes "bit32_laws (env_lib E)"
  shows "entity_has_feature E (sdi_fill_reset_info E node e) (feature_bit SDI_HOTSWAPPABLE) =
    entity_has_feature E e (feature_bit SDI_HOTSWAPPABLE)"
proof -
  let ?P = "\<lambda>e. bit32_test (env_lib E) (oper_support_flag e) 2"
  note p = with_attr_preserves [where P = ?P] set_feature_hotswap [OF assms]
  have "?P (sdi_fill_reset_info E node e) = ?P e"
    unfolding sdi_fill_reset_info_def fill_reset_type_def Let_def by (simp add: p)
  then show ?thesis by (simp add: entity_has_feature_def)
qed

text \<open>A slot that is hot-swappable and not behind the BMC has its presence pin.\<close>

definition pin_ok :: "'w sdi_env \<Rightarrow> 'w sdi_entity \<Rightarrow> bool" where
  "pin_ok E e \<longleftrightarrow>
     (entity_has_feature E e (feature_bit SDI_HOTSWAPPABLE) \<and> access_type e \<noteq> SDI_ENT_ACCESS_BMC \<longrightarrow>
        (\<exists>pin \<in> set (pin_buses E). pres_pin_hdl e = Some pin)) \<and>
     (power_output_status_pin_hdl e \<noteq> None \<longrightarrow>
        (\<exists>pin \<in> set (pin_buses E). power_output_status_pin_hdl e = Some pin))"

lemma fill_presence_pin:
  assumes "bit32_laws (env_lib E)" and "fill_presence E n e = Some e'"
    and "entity_has_feature E e' (feature_bit SDI_HOTSWAPPABLE)" and "access_type e' \<noteq> SDI_ENT_ACCESS_BMC"
  shows "\<exists>pin \<in> set (pin_buses E). pres_pin_hdl e' = Some pin"
proof -
  have "\<not> bit32_test (env_lib E) (bit32_clear (env_lib E) (oper_support_flag e) 2) 2"
    using assms(1) by (simp add: bit32_laws_def)
  then show ?thesis
    using assms(2-4) find_Some_in_set
    by (fastforce simp: fill_presence_def bind_any_eq_Some Let_def entity_has_feature_def
        clear_feature_def sdi_get_pin_bus_handle_by_name_def split: if_splits)
qed

lemma with_attr_induct: "(\<And>v e. P e \<Longrightarrow> P (f v e)) \<Longrightarrow> P e \<Longrightarrow> P (with_attr node a f e)"
  by (simp add: with_attr_def split: option.split)

definition power_pin_ok :: "'w sdi_env \<Rightarrow> 'w sdi_entity \<Rightarrow> bool" where
  "power_pin_ok E e \<longleftrightarrow> power_output_status_pin_hdl e = None \<or>
     (\<exists>pin \<in> set (pin_buses E). power_output_status_pin_hdl e = Some pin)"

lemma sdi_get_pin_bus_handle_by_name_in:
  "sdi_get_pin_bus_handle_by_name E n = None \<or>
     (\<exists>pin \<in> set (pin_buses E). sdi_get_pin_bus_handle_by_name E n = Some pin)"
  unfolding sdi_get_pin_bus_handle_by_name_def
  by (cases "List.find (\<lambda>b. strncmp_eq n (bus_name (pin_base b)) SDI_MAX_NAME_LEN) (pin_buses E)")
    (auto dest: find_Some_in_set)

lemma fill_power_pin:
  assumes "power_pin_ok E e"
  shows "power_pin_ok E (sdi_fill_reset_info E node (fill_status_attrs E node e))"
proof -
  have "power_pin_ok E (e'\<lparr>power_output_status_attr := a,
      power_output_status_pin_hdl := sdi_get_pin_bus_handle_by_name E v\<rparr>)" for e' a v
    using sdi_get_pin_bus_handle_by_name_in [of E v] by (simp add: power_pin_ok_def)
  then have "power_pin_ok E (fill_status_attrs E node e)"
    unfolding fill_status_attrs_def Let_def
    by (intro with_attr_induct [where P = "power_pin_ok E"]) (simp_all add: assms [unfolded power_pin_ok_def] power_pin_ok_def)
  moreover have "power_output_status_pin_hdl (sdi_fill_reset_info E node e') =
      power_output_status_pin_hdl e'" for e'
    unfolding sdi_fill_reset_info_def fill_reset_type_def Let_def set_feature_def
    by (simp add: with_attr_preserves [where P = power_output_status_pin_hdl])
  ultimately show ?thesis by (simp add: power_pin_ok_def)
qed

lemma fill_presence_power_pin:
  "fill_presence E n e = Some e' \<Longrightarrow> power_output_status_pin_hdl e' = power_output_status_pin_hdl e"
  unfolding fill_presence_def Let_def
  by (auto simp: bind_any_eq_Some set_feature_def clear_feature_def split: if_split_asm)

lemma registered_pin_ok:
  fixes E :: "'w sdi_env"
  assumes "bit32_laws (env_lib E)" and "sdi_register_entity E node s = Some s'"
  shows "pin_ok E (entity_heap s' (Ent_Hdl (next_entity s)))"
proof -
  let ?h = "Ent_Hdl (next_entity s)"
  obtain inst t pn e s1 where
    e: "fill_presence E pn (fill_access_type node
          (sdi_entity_new (env_lib E) t (atoi inst) (entity_alias E node (atoi inst)))) = Some e"
    and s1: "register_resources E (std_config_children node) ?h
           (s\<lparr>next_entity := Suc (next_entity s),
              entity_heap := (entity_heap s)(?h :=
                sdi_fill_reset_info E node (fill_status_attrs E node e))\<rparr>) = Some s1"
    and s': "s' = sdi_add_entity ?h s1"
    using sdi_register_entity_cases [OF assms(2)] by metis
  let ?e = "sdi_fill_reset_info E node (fill_status_attrs E node e)"
  have "power_output_status_pin_hdl (fill_access_type node
      (sdi_entity_new (env_lib E) t (atoi inst) (entity_alias E node (atoi inst)) :: 'w sdi_entity)) = None"
    unfolding fill_access_type_def
    by (subst with_attr_preserves [where P = power_output_status_pin_hdl]) (simp_all add: sdi_entity_new_def)
  then have "power_pin_ok E ?e"
    using fill_power_pin [of E e node] fill_presence_power_pin [OF e] by (simp add: power_pin_ok_def)
  moreover have "\<exists>pin \<in> set (pin_buses E). pres_pin_hdl ?e = Some pin"
    if "entity_has_feature E ?e (feature_bit SDI_HOTSWAPPABLE)" "access_type ?e \<noteq> SDI_ENT_ACCESS_BMC"
  proof -
    have "entity_has_feature E e (feature_bit SDI_HOTSWAPPABLE)"
      using that(1) by (simp only: fill_reset_hotswap [OF assms(1)]) (simp add: entity_has_feature_def)
    then show ?thesis using fill_presence_pin [OF assms(1) e] that(2) by simp
  qed
  ultimately have "pin_ok E ?e" by (auto simp: pin_ok_def power_pin_ok_def)
  moreover obtain i l where "entity_heap s' ?h = ?e\<lparr>entity_info_hdl := i, entity_resource_list := l\<rparr>"
    using register_resources_frame [OF s1] by (auto simp: s' sdi_add_entity_def)
  ultimately show ?thesis by (simp add: pin_ok_def entity_has_feature_def)
qed

section \<open>When a poll returns\<close>

definition pins_return :: "'w sdi_env \<Rightarrow> bool" where
  "pins_return E \<longleftrightarrow>
     (\<forall>m w. std_mutex_lock (env_os E) m w \<noteq> None \<and> std_mutex_unlock (env_os E) m w \<noteq> None) \<and>
     (\<forall>b \<in> set (pin_buses E). bus_type (pin_base b) = SDI_PIN_BUS \<and>
        (\<forall>v w. ops_read_level (pin_ops b) v w \<noteq> None))"

lemma pin_read_returns:
  assumes "pins_return E" and "b \<in> set (pin_buses E)"
  shows "sdi_pin_read_level (env_os E) b v w \<noteq> None"
proof -
  obtain e w1 where l: "std_mutex_lock (env_os E) (pin_lock b) w = Some (e, w1)"
    using assms(1) unfolding pins_return_def by fastforce
  obtain r where r: "ops_read_level (pin_ops b) v w1 = Some r"
    using assms unfolding pins_return_def by fastforce
  obtain u where "std_mutex_unlock (env_os E) (pin_lock b) (snd (snd r)) = Some u"
    using assms(1) unfolding pins_return_def by fastforce
  then show ?thesis
    using assms l r by (cases r; cases u) (auto simp: sdi_pin_read_level_def with_pin_def pins_return_def)
qed

lemma presence_status_returns:
  assumes "pins_return E" and "pin_ok E (entity_heap s h)"
  shows "presence_status E h p s \<noteq> None"
proof (cases "entity_has_feature E (entity_heap s h) (feature_bit SDI_HOTSWAPPABLE) \<and>
    access_type (entity_heap s h) \<noteq> SDI_ENT_ACCESS_BMC")
  case True
  then obtain pin where pin: "pin \<in> set (pin_buses E)" "pres_pin_hdl (entity_heap s h) = Some pin"
    using assms(2) by (auto simp: pin_ok_def)
  obtain e v w where "sdi_pin_read_level (env_os E) pin SDI_PIN_LEVEL_LOW (dev s) = Some (e, v, w)"
    using pin_read_returns [OF assms(1) pin(1)] by fastforce
  then show ?thesis using True pin(2) by (auto simp: presence_status_def ask_def Let_def)
next
  case False
  then show ?thesis by (auto simp: presence_status_def Let_def split: prod.split)
qed

lemma psu_power_good_returns:
  assumes "pins_return E" and "pin_ok E (entity_heap s h)"
  shows "psu_power_good E h rc s \<noteq> None"
proof (cases "power_output_status_pin_hdl (entity_heap s h)")
  case None
  then show ?thesis by (auto simp: psu_power_good_def Let_def split: prod.split)
next
  case (Some pin)
  then have "pin \<in> set (pin_buses E)" using assms(2) by (auto simp: pin_ok_def)
  then obtain e v w where "sdi_pin_read_level (env_os E) pin SDI_PIN_LEVEL_LOW (dev s) = Some (e, v, w)"
    using pin_read_returns [OF assms(1)] by fastforce
  then show ?thesis using Some by (auto simp: psu_power_good_def ask_def Let_def)
qed

lemma presence_action_returns:
  assumes "entity_info_hdl (entity_heap s h) = Some rh"
    and "callback_fns (resource_heap s rh) = Entity_Info_Fns f" and "query_returns (entity_info_data_get f)"
  shows "presence_action h p g s \<noteq> None"
proof -
  let ?s = "upd_entity h (\<lambda>e. e\<lparr>entity_info := zero_entity_info\<rparr>) (upd_entity h (\<lambda>e. e\<lparr>present := p\<rparr>) s)"
  obtain e i t where "ask (entity_info_data_get f zero_entity_info) ?s = Some (e, i, t)"
    using query_returns_ask [OF assms(3)] by blast
  then have "sdi_entity_inserted h (upd_entity h (\<lambda>e. e\<lparr>present := p\<rparr>) s) \<noteq> None"
    using assms(1,2) by (simp add: sdi_entity_inserted_def Let_def)
  then show ?thesis by (auto simp: presence_action_def Let_def)
qed

lemma pin_ok_runtime:
  "runtime_change s s' \<Longrightarrow> pin_ok E (entity_heap s' h) \<longleftrightarrow> pin_ok E (entity_heap s h)"
proof -
  assume "runtime_change s s'"
  then have eq: "entity_static (entity_heap s' h) = entity_static (entity_heap s h)"
    by (simp add: runtime_change_def)
  have "power_output_status_pin_hdl (entity_heap s' h) = power_output_status_pin_hdl (entity_heap s h)"
    using arg_cong [OF eq, of power_output_status_pin_hdl] by (simp add: entity_static_def)
  then show ?thesis
    using entity_static_sel [OF eq] by (simp add: pin_ok_def entity_has_feature_def)
qed

lemma poll_returns:
  assumes "pins_return E" and "pin_ok E (entity_heap s h)"
    and "entity_info_hdl (entity_heap s h) = Some rh" and "callback_fns (resource_heap s rh) = Entity_Info_Fns f"
    and "query_returns (entity_info_data_get f)"
  shows "sdi_entity_presence_get E h p s \<noteq> None"
proof -
  obtain rc st q s1 where s1: "presence_status E h p s = Some (rc, st, q, s1)"
    using presence_status_returns [OF assms(1,2), of p] by fastforce
  note r1 = runtime_change_presence_status [OF s1]
  have ok1: "pin_ok E (entity_heap s1 h)" using assms(2) pin_ok_runtime [OF r1] by simp
  obtain e g s2 where s2: "psu_power_good E h rc s1 = Some (e, g, s2)"
    using psu_power_good_returns [OF assms(1) ok1, of rc] by fastforce
  have r2: "runtime_change s s2"
    using runtime_change_power_good [OF s2] r1 by (blast intro: runtime_change_trans)
  then have "entity_info_hdl (entity_heap s2 h) = Some rh" "callback_fns (resource_heap s2 rh) = Entity_Info_Fns f"
    using assms(3,4) entity_static_sel [of "entity_heap s2 h" "entity_heap s h"]
    by (simp_all add: runtime_change_def)
  then obtain s3 where "presence_action h q g s2 = Some s3"
    using presence_action_returns [OF _ _ assms(5), of s2 h rh q g] by auto
  then show ?thesis using s1 s2 by (simp add: sdi_entity_presence_get_def)
qed

lemma fixed_poll_without_eeprom:
  assumes "\<not> entity_has_feature E (entity_heap s h) (feature_bit SDI_HOTSWAPPABLE)"
    and "ent_type (entity_heap s h) \<noteq> SDI_ENTITY_PSU_TRAY" and "\<not> entity_info_valid (entity_heap s h)"
    and "entity_info_hdl (entity_heap s h) = None"
  shows "sdi_entity_presence_get E h p s = None"
  using assms
  by (simp add: sdi_entity_presence_get_def presence_status_def psu_power_good_def presence_action_def
      sdi_entity_inserted_def Let_def)

text \<open>
  C26. When a poll returns. Take an entity that was registered from the configuration and a
  well-formed state reached from there by run-time operations, and let the mutexes and the pins
  return. If one of the entity's resources is its EEPROM and the EEPROM's driver returns, a poll
  returns: no assertion about a missing presence pin fails and no handle is NULL. If the entity is
  fixed in its slot, is not a power supply, and has no EEPROM resource, the first poll does not
  return, because the code uses the missing handle, and neither does sdi\_entity\_init.
\<close>

theorem registered_entity_polls:
  assumes "bit32_laws (env_lib E)" and "sdi_register_entity E node s0 = Some s1" and "runtime_change s1 s"
    and "sys_wf s" and "pins_return E"
  shows "(entity_info_hdl (entity_heap s (Ent_Hdl (next_entity s0))) = Some rh \<longrightarrow>
        table_returns (callback_fns (resource_heap s rh)) \<longrightarrow>
        sdi_entity_presence_get E (Ent_Hdl (next_entity s0)) p s \<noteq> None) \<and>
    (entity_info_hdl (entity_heap s (Ent_Hdl (next_entity s0))) = None \<longrightarrow>
        \<not> sdi_is_entity_feature_support E (Ent_Hdl (next_entity s0)) (feature_bit SDI_HOTSWAPPABLE) s \<longrightarrow>
        sdi_entity_type_get (Ent_Hdl (next_entity s0)) s \<noteq> SDI_ENTITY_PSU_TRAY \<longrightarrow>
        \<not> entity_info_valid (entity_heap s (Ent_Hdl (next_entity s0))) \<longrightarrow>
        sdi_entity_presence_get E (Ent_Hdl (next_entity s0)) p s = None \<and>
        sdi_entity_init E (Ent_Hdl (next_entity s0)) s = None)"
proof (intro conjI impI)
  let ?h = "Ent_Hdl (next_entity s0)"
  assume rh: "entity_info_hdl (entity_heap s ?h) = Some rh"
    and ret: "table_returns (callback_fns (resource_heap s rh))"
  have "ent_no ?h < next_entity s"
    using sdi_register_entity_keeps [OF assms(2)] assms(3) by (simp add: runtime_change_def)
  then have m: "member_ok s rh \<and> res_type (resource_heap s rh) = SDI_RESOURCE_ENTITY_INFO"
    using entity_okD(2) [OF sys_wfD(3) [OF assms(4)] rh] by blast
  then have "table_fits SDI_RESOURCE_ENTITY_INFO (callback_fns (resource_heap s rh))"
    using sys_wfD(4) [OF assms(4), of rh] by (auto simp: member_ok_def resource_ok_def)
  then obtain f where f: "callback_fns (resource_heap s rh) = Entity_Info_Fns f" by auto
  have "pin_ok E (entity_heap s ?h)"
    using registered_pin_ok [OF assms(1,2)] pin_ok_runtime [OF assms(3)] by simp
  then show "sdi_entity_presence_get E ?h p s \<noteq> None"
    using poll_returns [OF assms(5) _ rh f] ret f by simp
next
  let ?h = "Ent_Hdl (next_entity s0)"
  assume "entity_info_hdl (entity_heap s ?h) = None"
    and "\<not> sdi_is_entity_feature_support E ?h (feature_bit SDI_HOTSWAPPABLE) s"
    and "sdi_entity_type_get ?h s \<noteq> SDI_ENTITY_PSU_TRAY" and "\<not> entity_info_valid (entity_heap s ?h)"
  then have none: "sdi_entity_presence_get E ?h q s = None" for q
    by (intro fixed_poll_without_eeprom)
      (simp_all add: sdi_is_entity_feature_support_def sdi_entity_type_get_def)
  show "sdi_entity_presence_get E ?h p s = None" and "sdi_entity_init E ?h s = None"
    by (simp_all add: none sdi_entity_init_def)
qed

text \<open>
  C27. A failed re-read leaves cleared information marked valid. Let the EEPROM of an empty slot be
  readable all the same when a poll finds the slot empty (a second poll then finds it occupied,
  and reading the EEPROM fails). Although the read failed, the information stays marked valid, and
  what it holds is what the failed read left in the cleared record: sdi\_entity\_info\_read reports
  success for it, and if its maximum speed is still zero, the conversion of a fan speed of this
  entity to percent divides by zero.
\<close>

theorem failed_reread_stays_valid:
  assumes "slot E h pin f s" and "\<not> present (entity_heap s h)"
    and "sdi_pin_read_level (env_os E) pin SDI_PIN_LEVEL_LOW (dev s) = Some (STD_ERR_OK, SDI_PIN_LEVEL_LOW, w1)"
    and "entity_info_data_get f zero_entity_info w1 = Some (STD_ERR_OK, info1, w2)"
    and "sdi_pin_read_level (env_os E) pin SDI_PIN_LEVEL_LOW w3 = Some (STD_ERR_OK, SDI_PIN_LEVEL_HIGH, w4)"
    and "entity_info_data_get f zero_entity_info w4 = Some (e, info2, w5)" and "e \<noteq> STD_ERR_OK"
    and "\<not> entity_info_valid (entity_heap s h)"
  shows "\<exists>s1 s2. sdi_entity_presence_get E h p s = Some (STD_ERR_OK, False, s1) \<and>
    sdi_entity_presence_get E h q (s1\<lparr>dev := w3\<rparr>) = Some (STD_ERR_OK, True, s2) \<and>
    entity_info_valid (entity_heap s2 h) \<and> entity_info (entity_heap s2 h) = info2 \<and>
    (\<forall>rh info. res_parent (resource_heap s rh) = Some h \<longrightarrow>
       sdi_entity_info_read rh info s2 = Some (STD_ERR_OK, info2) \<and>
       (\<forall>c rpm. callback_fns (resource_heap s rh) = Fan_Fns c \<longrightarrow> fan_rpm_to_pct c = None \<longrightarrow>
          max_speed info2 = 0 \<longrightarrow> sdi_fan_speed_rpm_to_pct rh rpm s2 = None))"
proof -
  obtain rh0 where cfg: "entity_has_feature E (entity_heap s h) (feature_bit SDI_HOTSWAPPABLE)"
      "access_type (entity_heap s h) = SDI_ENT_ACCESS_DIRECT" "ent_type (entity_heap s h) \<noteq> SDI_ENTITY_PSU_TRAY"
      "pres_pin_hdl (entity_heap s h) = Some pin" "entity_info_hdl (entity_heap s h) = Some rh0"
      "callback_fns (resource_heap s rh0) = Entity_Info_Fns f"
    using assms(1) by (auto simp: slot_def)
  have feature: "bit32_test (env_lib E) (oper_support_flag (entity_heap s h)) 2"
    using cfg(1) by (simp add: entity_has_feature_def)
  let ?s1 = "s\<lparr>dev := w2, entity_heap := (entity_heap s)(h :=
      (entity_heap s h)\<lparr>present := False, entity_info := info1, entity_info_valid := True\<rparr>)\<rparr>"
  let ?s2 = "s\<lparr>dev := w5, entity_heap := (entity_heap s)(h :=
      (entity_heap s h)\<lparr>entity_info_valid := True, present := True, entity_info := info2\<rparr>)\<rparr>"
  have "sdi_entity_presence_get E h p s = Some (STD_ERR_OK, False, ?s1)"
    using cfg(2-) feature assms(2-4,8)
    by (simp add: sdi_entity_presence_get_def presence_status_def psu_power_good_def presence_action_def
        sdi_entity_inserted_def entity_has_feature_def ask_def upd_entity_def Let_def)
  moreover have "sdi_entity_presence_get E h q (?s1\<lparr>dev := w3\<rparr>) = Some (STD_ERR_OK, True, ?s2)"
    using cfg(2-) feature assms(5-7)
    by (simp add: sdi_entity_presence_get_def presence_status_def psu_power_good_def presence_action_def
        sdi_entity_inserted_def entity_has_feature_def ask_def upd_entity_def Let_def)
  moreover have "sdi_entity_info_read rh info ?s2 = Some (STD_ERR_OK, info2)"
    and "callback_fns (resource_heap s rh) = Fan_Fns c \<Longrightarrow> fan_rpm_to_pct c = None \<Longrightarrow>
           max_speed info2 = 0 \<Longrightarrow> sdi_fan_speed_rpm_to_pct rh rpm ?s2 = None"
    if "res_parent (resource_heap s rh) = Some h" for rh info c rpm
    using that by (simp_all add: sdi_entity_info_read_def sdi_fan_speed_rpm_to_pct_def Let_def)
  ultimately show ?thesis by (intro exI [of _ ?s1] exI [of _ ?s2]) simp
qed

section \<open>Faults of an entity without a fault pin\<close>

text \<open>Fans whose status is a fact of the moment: the answer does not change the device.\<close>

definition fans_answer ::
    "'w sdi_sys \<Rightarrow> (res_hdl \<Rightarrow> t_std_error) \<Rightarrow> (res_hdl \<Rightarrow> bool) \<Rightarrow> res_hdl list \<Rightarrow> bool" where
  "fans_answer s st fl hs \<longleftrightarrow>
     (\<forall>r \<in> set hs. sdi_resource_type_get r s = SDI_RESOURCE_FAN \<longrightarrow>
        (\<exists>f. callback_fns (resource_heap s r) = Fan_Fns f \<and>
             (\<forall>b. fan_status_get f b (dev s) = Some (st r, fl r, dev s))))"

definition fan_fault ::
    "'w sdi_env \<Rightarrow> 'w sdi_sys \<Rightarrow> (res_hdl \<Rightarrow> t_std_error) \<Rightarrow> (res_hdl \<Rightarrow> bool) \<Rightarrow> res_hdl \<Rightarrow> bool" where
  "fan_fault E s st fl r \<longleftrightarrow>
     ppid_visible E s r \<and> sdi_resource_type_get r s = SDI_RESOURCE_FAN \<and> st r = STD_ERR_OK \<and> fl r"

lemma check_faults_fold:
  assumes "is_sdi_inited s"
  shows "\<forall>h \<in> set hs. resource_entity_ppid_match E h s = Some (ppid_visible E s h) \<Longrightarrow> fans_answer s st fl hs \<Longrightarrow>
    for_each_resource E sdi_check_fault_each_resource hs d s =
      Some (d \<or> (\<exists>r \<in> set hs. fan_fault E s st fl r), s)"
proof (induction hs arbitrary: d)
  case (Cons h hs)
  have ih: "for_each_resource E sdi_check_fault_each_resource hs d s =
      Some (d \<or> (\<exists>r \<in> set hs. fan_fault E s st fl r), s)" for d
    using Cons by (simp add: fans_answer_def)
  show ?case
  proof (cases "ppid_visible E s h \<and> sdi_resource_type_get h s = SDI_RESOURCE_FAN")
    case True
    then obtain f where "callback_fns (resource_heap s h) = Fan_Fns f"
        "fan_status_get f False (dev s) = Some (st h, fl h, dev s)"
      using Cons.prems(2) by (auto simp: fans_answer_def)
    then have "sdi_check_fault_each_resource h d s = Some (if st h = STD_ERR_OK then d \<or> fl h else d, s)"
      using True assms
      by (simp add: sdi_check_fault_each_resource_def sdi_fan_status_get_def sdi_resource_type_get_def
          sdi_internal_resource_type_get_def ask_def)
    then show ?thesis
      using True Cons.prems(1) ih by (auto simp: fan_fault_def)
  next
    case False
    have "sdi_check_fault_each_resource h d s = Some (d, s)"
      if "sdi_resource_type_get h s \<noteq> SDI_RESOURCE_FAN"
      using that by (simp add: sdi_check_fault_each_resource_def)
    then show ?thesis
      using False Cons.prems(1) ih by (auto simp: fan_fault_def)
  qed
qed simp

text \<open>
  C28. The fault of an entity. In a well-formed, initialised system, when an entity without a fault
  pin polls as present, sdi\_entity\_fault\_status\_get reports a fault exactly when some fan of the
  entity that is visible under its PPID can be read and reports a fault; fans that cannot be read
  and resources of other types do not count.
\<close>

theorem entity_fault_is_fan_fault:
  assumes "sys_wf s" and "ent_no h < next_entity s" and "is_sdi_inited s"
    and "fault_status_pin_hdl (entity_heap s h) = None"
    and "sdi_entity_presence_get E h False s = Some (STD_ERR_OK, True, s1)"
    and "fans_answer s1 st fl (entity_resource_list (entity_heap s1 h))"
  shows "sdi_entity_fault_status_get E h s =
    Some (STD_ERR_OK, \<exists>r \<in> set (entity_resource_list (entity_heap s1 h)). fan_fault E s1 st fl r, s1)"
proof -
  note rt = runtime_change_presence_get [OF assms(5)]
  have wf: "sys_wf s1" using sys_wf_runtime [OF assms(1) rt] .
  have "ent_no h < next_entity s1" and inited: "is_sdi_inited s1"
    using assms(2,3) rt by (simp_all add: runtime_change_def is_sdi_inited_def)
  then have "\<forall>r \<in> set (entity_resource_list (entity_heap s1 h)).
      resource_entity_ppid_match E r s1 = Some (ppid_visible E s1 r)"
    using entity_resources_defined [OF wf] by blast
  from check_faults_fold [OF inited this assms(6), of False] show ?thesis
    using assms(4,5) by (simp add: sdi_entity_fault_status_get_def sdi_entity_for_each_resource_def)
qed

section \<open>The sample fan tray\<close>

text \<open>
  The sample fan tray: its pin and its EEPROM follow the same world, so it satisfies the
  hypothesis.
\<close>

definition sample_eeprom_table :: "bool entity_info_ctrl" where
  "sample_eeprom_table = \<lparr>ei_init = None,
     entity_info_data_get = (\<lambda>i w. if w then Some (STD_ERR_OK, i\<lparr>ppid := ''PP1'', max_speed := 10000\<rparr>, w)
                                   else Some (SDI_ERRCODE EIO, i, w))\<rparr>"

lemma sample_absent_unreadable:
  "absent_unreadable (env_os sample_env) sample_presence_pin sample_eeprom_table"
  by (auto simp: absent_unreadable_def sample_env_def quiet_os_def sample_presence_pin_def
      sample_eeprom_table_def sdi_pin_read_level_def with_pin_def)

lemma sample_entity_config:
  "entity_info_hdl (entity_heap sample_entities (Ent_Hdl 0)) = Some (Res_Hdl 0)"
  "access_type (entity_heap sample_entities (Ent_Hdl 0)) = SDI_ENT_ACCESS_DIRECT"
  "ent_type (entity_heap sample_entities (Ent_Hdl 0)) = SDI_ENTITY_FAN_TRAY"
  "oper_support_flag (entity_heap sample_entities (Ent_Hdl 0)) = 4"
  "present (entity_heap sample_entities (Ent_Hdl 0)) = False"
  "entity_info_valid (entity_heap sample_entities (Ent_Hdl 0)) = False"
  "res_parent (resource_heap sample_entities (Res_Hdl 0)) = Some (Ent_Hdl 0)"
  "map_option (\<lambda>p. bus_name (pin_base p)) (pres_pin_hdl (entity_heap sample_entities (Ent_Hdl 0))) =
     Some ''fan_presence''"
  by code_simp+

lemma sample_slot: "slot sample_env (Ent_Hdl 0) sample_presence_pin sample_eeprom_table sample_entities"
proof -
  have "next_entity sample_resources = 0"
    by (simp add: sample_resources_def sdi_resource_mgr_init_def)
  then have "pin_ok sample_env (entity_heap sample_entities (Ent_Hdl 0))"
    using registered_pin_ok [OF _ sample_entities_eq] sample_lib_bit32 by (simp add: sample_env_def)
  moreover have "entity_has_feature sample_env (entity_heap sample_entities (Ent_Hdl 0)) 2"
    unfolding entity_has_feature_def sample_entity_config by code_simp
  ultimately have "pres_pin_hdl (entity_heap sample_entities (Ent_Hdl 0)) = Some sample_presence_pin"
    using sample_entity_config(2) by (auto simp: pin_ok_def sample_env_def)
  moreover have "callback_fns (resource_heap sample_entities (Res_Hdl 0)) =
      callback_fns (resource_heap sample_resources (Res_Hdl 0))"
    using sdi_register_entity_keeps [OF sample_entities_eq, of "Res_Hdl 0"] by blast
  then have "callback_fns (resource_heap sample_entities (Res_Hdl 0)) = Entity_Info_Fns sample_eeprom_table"
    by (simp add: sample_resources_def sdi_resource_mgr_init_def sdi_resource_new_def sample_sys_def
        sample_eeprom_def sample_eeprom_table_def sdi_resource_add_def Let_def)
  ultimately show ?thesis
    using sample_entity_config \<open>entity_has_feature sample_env (entity_heap sample_entities (Ent_Hdl 0)) 2\<close>
    by (simp add: slot_def)
qed

theorem polled_cache_coherent_witness:
  "\<exists>s1. sdi_entity_presence_get sample_env (Ent_Hdl 0) False sample_entities = Some (STD_ERR_OK, True, s1) \<and>
     present (entity_heap s1 (Ent_Hdl 0)) \<and>
     (\<exists>w w'. entity_info_data_get sample_eeprom_table zero_entity_info w =
        Some (STD_ERR_OK, entity_info (entity_heap s1 (Ent_Hdl 0)), w'))"
proof -
  have "map_option (\<lambda>(e, p, s1). (e, p, entity_info_valid (entity_heap s1 (Ent_Hdl 0))))
      (sdi_entity_presence_get sample_env (Ent_Hdl 0) False sample_entities) = Some (STD_ERR_OK, True, True)"
    by code_simp
  then obtain s1 where s1: "sdi_entity_presence_get sample_env (Ent_Hdl 0) False sample_entities =
      Some (STD_ERR_OK, True, s1)" "entity_info_valid (entity_heap s1 (Ent_Hdl 0))"
    by (auto simp: map_option_eq_Some split: prod.splits)
  have "polled sample_env (Ent_Hdl 0) sample_presence_pin sample_eeprom_table sample_entities"
    using sample_slot sample_entity_config(5,6) by (intro polled.empty) simp_all
  from polled_cache_coherent [OF polled.poll [OF this s1(1)] sample_absent_unreadable] s1
  show ?thesis by blast
qed

lemma sample_pins_return: "pins_return sample_env"
  by (simp add: pins_return_def sample_env_def quiet_os_def sample_presence_pin_def)

theorem registered_entity_polls_witness:
  "sdi_entity_presence_get sample_env (Ent_Hdl 0) False sample_entities \<noteq> None"
proof -
  have no: "next_entity sample_resources = 0"
    by (simp add: sample_resources_def sdi_resource_mgr_init_def)
  have laws: "bit32_laws (env_lib sample_env)" by (simp add: sample_env_def sample_lib_bit32)
  have "table_returns (callback_fns (resource_heap sample_entities (Res_Hdl 0)))"
    using sample_slot sample_entity_config(1)
    by (auto simp: slot_def sample_eeprom_table_def query_returns_def)
  then show ?thesis
    using registered_entity_polls [OF laws sample_entities_eq runtime_change_refl sample_entities_wf
        sample_pins_return, of "Res_Hdl 0" False]
    by (simp add: no sample_entity_config(1))
qed

text \<open>An EEPROM that can be read only while the slot reads as empty.\<close>

definition stale_table :: "bool entity_info_ctrl" where
  "stale_table = \<lparr>ei_init = None,
     entity_info_data_get = (\<lambda>i w. if w then Some (SDI_ERRCODE EIO, i, w)
                                   else Some (STD_ERR_OK, i\<lparr>max_speed := 10000\<rparr>, w))\<rparr>"

definition stale_entities :: "bool sdi_sys" where
  "stale_entities =
     (upd_resource (Res_Hdl 0) (\<lambda>r. r\<lparr>callback_fns := Entity_Info_Fns stale_table\<rparr>) sample_entities)\<lparr>dev := False\<rparr>"

theorem failed_reread_stays_valid_witness:
  "\<exists>s1 s2. sdi_entity_presence_get sample_env (Ent_Hdl 0) False stale_entities = Some (STD_ERR_OK, False, s1) \<and>
     sdi_entity_presence_get sample_env (Ent_Hdl 0) False (s1\<lparr>dev := True\<rparr>) = Some (STD_ERR_OK, True, s2) \<and>
     entity_info_valid (entity_heap s2 (Ent_Hdl 0)) \<and> sdi_fan_speed_rpm_to_pct (Res_Hdl 1) 100 s2 = None"
proof -
  have slot: "slot sample_env (Ent_Hdl 0) sample_presence_pin stale_table stale_entities"
    using sample_slot sample_entity_config(1) by (auto simp: slot_def stale_entities_def)
  have old: "\<not> present (entity_heap stale_entities (Ent_Hdl 0))"
    "\<not> entity_info_valid (entity_heap stale_entities (Ent_Hdl 0))" "dev stale_entities = False"
    using sample_entity_config(5,6) by (simp_all add: stale_entities_def)
  have pin: "sdi_pin_read_level (env_os sample_env) sample_presence_pin SDI_PIN_LEVEL_LOW w =
      Some (STD_ERR_OK, if w then SDI_PIN_LEVEL_HIGH else SDI_PIN_LEVEL_LOW, w)" for w
    by (simp add: sdi_pin_read_level_def with_pin_def sample_env_def quiet_os_def sample_presence_pin_def)
  have fan: "res_parent (resource_heap stale_entities (Res_Hdl 1)) = Some (Ent_Hdl 0)"
    "callback_fns (resource_heap stale_entities (Res_Hdl 1)) = sample_fan"
    using sample_fan_parent sample_running_fan(1) by (simp_all add: stale_entities_def sample_running_def)
  have reread: "entity_info_data_get stale_table zero_entity_info False =
      Some (STD_ERR_OK, zero_entity_info\<lparr>max_speed := 10000\<rparr>, False)"
    "entity_info_data_get stale_table zero_entity_info True = Some (SDI_ERRCODE EIO, zero_entity_info, True)"
    by (simp_all add: stale_table_def)
  have e: "SDI_ERRCODE EIO \<noteq> STD_ERR_OK" by simp
  have table: "\<exists>c. callback_fns (resource_heap stale_entities (Res_Hdl 1)) = Fan_Fns c \<and> fan_rpm_to_pct c = None"
    using fan(2) by (simp add: sample_fan_def)
  have zero: "max_speed zero_entity_info = 0" by (simp add: zero_entity_info_def)
  from failed_reread_stays_valid [OF slot old(1) _ reread(1) _ reread(2) e old(2), of True False False]
  show ?thesis using pin old(3) fan(1) table zero by fastforce
qed

theorem entity_fault_is_fan_fault_witness:
  "\<exists>b s1. sdi_entity_fault_status_get sample_env (Ent_Hdl 0) sample_running = Some (STD_ERR_OK, b, s1)"
proof -
  have config: "ent_no (Ent_Hdl 0) < next_entity sample_running"
    "fault_status_pin_hdl (entity_heap sample_running (Ent_Hdl 0)) = None"
    "map_option (\<lambda>r. fst r = STD_ERR_OK \<and> fst (snd r))
       (sdi_entity_presence_get sample_env (Ent_Hdl 0) False sample_running) = Some True"
    by code_simp+
  then obtain s1 where s1: "sdi_entity_presence_get sample_env (Ent_Hdl 0) False sample_running =
      Some (STD_ERR_OK, True, s1)"
    by (cases "sdi_entity_presence_get sample_env (Ent_Hdl 0) False sample_running") auto
  have "entity_resource_list (entity_heap sample_running (Ent_Hdl 0)) = [Res_Hdl 0, Res_Hdl 1]"
    "res_type (resource_heap sample_running (Res_Hdl 0)) = SDI_RESOURCE_ENTITY_INFO"
    by code_simp+
  moreover note rt = runtime_change_presence_get [OF s1]
  ultimately have "fans_answer s1 (\<lambda>_. STD_ERR_OK) (\<lambda>_. True) (entity_resource_list (entity_heap s1 (Ent_Hdl 0)))"
    using sample_running_fan(1) entity_static_sel [of "entity_heap s1 (Ent_Hdl 0)" "entity_heap sample_running (Ent_Hdl 0)"]
    by (simp add: fans_answer_def runtime_change_def sdi_resource_type_get_def
        sdi_internal_resource_type_get_def sample_fan_def)
  moreover have "is_sdi_inited sample_running" by (simp add: is_sdi_inited_def sample_running_def)
  ultimately show ?thesis
    using entity_fault_is_fan_fault [OF sample_running_wf config(1) _ config(2) s1] by blast
qed

end
