(* ===== verification/Temp_Limits.thy ===== *)
theory Temp_Limits
  imports Temp_Sensors
begin

text \<open>
  The limits of the temperature sensors: a driver remembers the limits it has written and answers
  queries from that memory. When does the memory agree with the registers of the chip?
\<close>

section \<open>Chips whose transfers may fail\<close>

text \<open>
  The registers in \<open>R\<close> change only when a write to them succeeds; a transfer may fail, and may
  change anything else.
\<close>

definition limit_device :: "'w chip \<Rightarrow> u8 set \<Rightarrow> ('w \<Rightarrow> u8 \<Rightarrow> u8) \<Rightarrow> bool" where
  "limit_device c R regs \<longleftrightarrow>
     (\<forall>reg w e v w'. chip_read c reg w = Some (e, v, w') \<longrightarrow> (\<forall>r \<in> R. regs w' r = regs w r)) \<and>
     (\<forall>reg v w e w'. chip_write c reg v w = Some (e, w') \<longrightarrow>
        (\<forall>r \<in> R. regs w' r = (if e = STD_ERR_OK \<and> r = reg then v else regs w r)))"

lemma limit_device_read:
  "limit_device c R regs \<Longrightarrow> chip_read c reg w = Some (e, v, w') \<Longrightarrow> r \<in> R \<Longrightarrow> regs w' r = regs w r"
  by (auto simp: limit_device_def)

lemma limit_device_write:
  "limit_device c R regs \<Longrightarrow> chip_write c reg v w = Some (e, w') \<Longrightarrow> r \<in> R \<Longrightarrow>
     regs w' r = (if e = STD_ERR_OK \<and> r = reg then v else regs w r)"
  by (auto simp: limit_device_def)

lemma register_file_limit_device:
  assumes "register_file (chip_bus c) (chip_addr c) regs"
  shows "limit_device c R regs"
  unfolding limit_device_def
proof (intro conjI allI impI)
  show "\<forall>r \<in> R. regs w' r = regs w r" if "chip_read c reg w = Some (e, v, w')" for reg w e v w'
    using register_chip_read [OF assms, of reg w] that by auto
  show "\<forall>r \<in> R. regs w' r = (if e = STD_ERR_OK \<and> r = reg then v else regs w r)"
    if "chip_write c reg v w = Some (e, w')" for reg v w e w'
    using register_chip_write [OF assms, of reg v w] that by auto
qed

section \<open>Remembered limits\<close>

text \<open>
  Setting the limit with key \<open>k\<close>, as the drivers do: check the range, write the register, remember
  the value.
\<close>

definition limit_set ::
    "('k \<Rightarrow> u8) \<Rightarrow> ('k \<Rightarrow> u32 \<Rightarrow> 'd \<Rightarrow> 'd) \<Rightarrow> 'w chip \<Rightarrow> 'k \<Rightarrow> u32 \<Rightarrow> ('d \<times> 'w) action" where
  "limit_set reg put chip k v = (\<lambda>(d, w).
     if \<not> fits_byte v then Some (SDI_DEVICE_ERRCODE EINVAL, d, w)
     else do {
       (rc, w) \<leftarrow> chip_write chip (reg k) (ucast v) w;
       if rc \<noteq> STD_ERR_OK then Some (rc, d, w) else Some (rc, put k v d, w)
     })"

locale limit_cache =
  fixes keys :: "'k set" and reg :: "'k \<Rightarrow> u8" and cached :: "'d \<Rightarrow> 'k \<Rightarrow> u32"
    and put :: "'k \<Rightarrow> u32 \<Rightarrow> 'd \<Rightarrow> 'd" and shape :: "'d \<Rightarrow> bool"
  assumes reg_inj: "inj_on reg keys"
    and cached_put: "shape d \<Longrightarrow> k \<in> keys \<Longrightarrow> j \<in> keys \<Longrightarrow>
      cached (put k v d) j = (if j = k then v else cached d j)"
    and shape_put: "shape d \<Longrightarrow> k \<in> keys \<Longrightarrow> shape (put k v d)"
begin

text \<open>A successful call stores the limit in both places, under its key and no other.\<close>

lemma limit_set_cases:
  assumes dev: "limit_device c (reg ` keys) regs" and d: "shape d" and k: "k \<in> keys"
    and set: "limit_set reg put c k v (d, w) = Some (e, d', w')"
  shows "shape d' \<and> (e = STD_ERR_OK \<longrightarrow> d' = put k v d) \<and> (e \<noteq> STD_ERR_OK \<longrightarrow> d' = d) \<and>
    (\<forall>j \<in> keys. (cached d' j = cached d j \<and> regs w' (reg j) = regs w (reg j) \<and>
         (e = STD_ERR_OK \<longrightarrow> j \<noteq> k)) \<or>
       (e = STD_ERR_OK \<and> j = k \<and> cached d' j = v \<and> cached d' j = ucast (regs w' (reg j))))"
proof (cases "fits_byte v")
  case False
  then show ?thesis using set d by (auto simp: limit_set_def)
next
  case True
  then obtain rc where w': "chip_write c (reg k) (ucast v) w = Some (rc, w')"
    and r: "rc \<noteq> STD_ERR_OK \<and> e = rc \<and> d' = d \<or> rc = STD_ERR_OK \<and> e = rc \<and> d' = put k v d"
    using set by (auto simp: limit_set_def bind_SomeD split: if_splits)
  have reg: "regs w' (reg j) = (if rc = STD_ERR_OK \<and> j = k then ucast v else regs w (reg j))"
    if "j \<in> keys" for j
    using limit_device_write [OF dev w', of "reg j"] that k reg_inj by (auto dest: inj_onD)
  show ?thesis
    using r reg d k fits_byte_ucast [OF True] by (auto simp: cached_put shape_put)
qed

text \<open>So agreement of memory and chip survives every call, and a successful call establishes it.\<close>

lemma limit_set_coherent:
  assumes "limit_device c (reg ` keys) regs" and "shape d" and "k \<in> keys"
    and "limit_set reg put c k v (d, w) = Some (e, d', w')" and "j \<in> keys"
    and "cached d j = ucast (regs w (reg j)) \<or> e = STD_ERR_OK \<and> j = k"
  shows "cached d' j = ucast (regs w' (reg j))"
  using limit_set_cases [OF assms(1-4)] assms(5,6) by auto

lemma limit_set_shape:
  assumes "limit_device c (reg ` keys) regs" and "shape d" and "k \<in> keys"
    and "limit_set reg put c k v (d, w) = Some (e, d', w')"
  shows "shape d'"
  using limit_set_cases [OF assms] by blast

end

section \<open>The limits of the EMC142x\<close>

definition emc_keys :: "(u32 \<times> sdi_threshold) set" where
  "emc_keys = {(i, t). unat i < EMC142x_MAX_SENSORS}"

fun emc_limit_reg :: "u32 \<times> sdi_threshold \<Rightarrow> u8" where
  "emc_limit_reg (i, SDI_LOW_THRESHOLD) = emc_low_limit_reg ! unat i"
| "emc_limit_reg (i, SDI_HIGH_THRESHOLD) = emc_high_limit_reg ! unat i"
| "emc_limit_reg (i, SDI_CRITICAL_THRESHOLD) = emc_critical_limit_reg ! unat i"

fun emc_cached :: "emc142x_device \<Rightarrow> u32 \<times> sdi_threshold \<Rightarrow> u32" where
  "emc_cached d (i, SDI_LOW_THRESHOLD) = emc_low_threshold d ! unat i"
| "emc_cached d (i, SDI_HIGH_THRESHOLD) = emc_high_threshold d ! unat i"
| "emc_cached d (i, SDI_CRITICAL_THRESHOLD) = emc_critical_threshold d ! unat i"

fun emc_put :: "u32 \<times> sdi_threshold \<Rightarrow> u32 \<Rightarrow> emc142x_device \<Rightarrow> emc142x_device" where
  "emc_put (i, SDI_LOW_THRESHOLD) v d = d\<lparr>emc_low_threshold := (emc_low_threshold d)[unat i := v]\<rparr>"
| "emc_put (i, SDI_HIGH_THRESHOLD) v d = d\<lparr>emc_high_threshold := (emc_high_threshold d)[unat i := v]\<rparr>"
| "emc_put (i, SDI_CRITICAL_THRESHOLD) v d = d\<lparr>emc_critical_threshold := (emc_critical_threshold d)[unat i := v]\<rparr>"

definition emc_shape :: "emc142x_device \<Rightarrow> bool" where
  "emc_shape d \<longleftrightarrow>
     length (emc_low_threshold d) = EMC142x_MAX_SENSORS \<and>
     length (emc_high_threshold d) = EMC142x_MAX_SENSORS \<and>
     length (emc_critical_threshold d) = EMC142x_MAX_SENSORS \<and>
     length (emc_default_low_threshold d) = EMC142x_MAX_SENSORS \<and>
     length (emc_default_high_threshold d) = EMC142x_MAX_SENSORS \<and>
     length (emc_default_critical_threshold d) = EMC142x_MAX_SENSORS \<and>
     length (emc_alias d) = EMC142x_MAX_SENSORS"

text \<open>The 24 limit registers are different registers.\<close>

lemma emc_limit_reg_inj: "inj_on emc_limit_reg emc_keys"
proof -
  let ?regs = "emc_low_limit_reg @ emc_high_limit_reg @ emc_critical_limit_reg"
  let ?pos = "\<lambda>(i, t). unat (i :: u32) + (case t of SDI_LOW_THRESHOLD \<Rightarrow> 0 | SDI_HIGH_THRESHOLD \<Rightarrow> 8
    | SDI_CRITICAL_THRESHOLD \<Rightarrow> 16)"
  have "distinct ?regs" and len: "length ?regs = 24"
    and lens: "length emc_low_limit_reg = 8" "length emc_high_limit_reg = 8" by code_simp+
  have at: "k \<in> emc_keys \<Longrightarrow> ?pos k < 24 \<and> emc_limit_reg k = ?regs ! ?pos k" for k
    by (cases k; cases "snd k")
      (auto simp: emc_keys_def EMC142x_MAX_SENSORS_def nth_append lens)
  show ?thesis
  proof (rule inj_onI)
    fix k j assume k: "k \<in> emc_keys" and j: "j \<in> emc_keys" and "emc_limit_reg k = emc_limit_reg j"
    then have "?pos k = ?pos j"
      using at [OF k] at [OF j] nth_eq_iff_index_eq [OF \<open>distinct ?regs\<close>] len by metis
    then show "k = j"
      using k j by (auto simp: emc_keys_def EMC142x_MAX_SENSORS_def word_unat_eq_iff split: sdi_threshold.splits)
  qed
qed

interpretation emc: limit_cache emc_keys emc_limit_reg emc_cached emc_put emc_shape
proof unfold_locales
  show "inj_on emc_limit_reg emc_keys" by (rule emc_limit_reg_inj)
  show "emc_cached (emc_put k v d) j = (if j = k then v else emc_cached d j)"
    if "emc_shape d" "k \<in> emc_keys" "j \<in> emc_keys" for d k j v
    using that
    by (cases k; cases j; cases "snd k"; cases "snd j")
      (auto simp: emc_keys_def emc_shape_def nth_list_update word_unat_eq_iff)
  show "emc_shape (emc_put k v d)" if "emc_shape d" "k \<in> emc_keys" for d k v
    using that by (cases k; cases "snd k") (auto simp: emc_shape_def)
qed

lemma emc_threshold_set:
  assumes "unat i < EMC142x_MAX_SENSORS"
  shows "sdi_emc142x_threshold_set chip i t v = limit_set emc_limit_reg emc_put chip (i, t) v"
proof
  fix s :: "emc142x_device \<times> 'a"
  have regs: "at_index emc_low_limit_reg i = Some (emc_low_limit_reg ! unat i)"
    "at_index emc_high_limit_reg i = Some (emc_high_limit_reg ! unat i)"
    "at_index emc_critical_limit_reg i = Some (emc_critical_limit_reg ! unat i)"
    using assms by (simp_all add: EMC142x_MAX_SENSORS_def emc_low_limit_reg_def emc_high_limit_reg_def
        emc_critical_limit_reg_def at_index_def)
  show "sdi_emc142x_threshold_set chip i t v s = limit_set emc_limit_reg emc_put chip (i, t) v s"
    by (cases t) (simp_all only: sdi_emc142x_threshold_set_def limit_set_def regs sdi_threshold.case
        Option.bind.bind_lunit emc_limit_reg.simps emc_put.simps)
qed

lemma emc_threshold_get:
  assumes "emc_shape d" and "unat i < EMC142x_MAX_SENSORS"
  shows "sdi_emc142x_threshold_get chip i t v (d, w) = Some (STD_ERR_OK, emc_cached d (i, t), d, w)"
  using assms by (cases t) (simp_all add: sdi_emc142x_threshold_get_def emc_shape_def at_index_def)

text \<open>Memory and chip agree about the limit \<open>k\<close>.\<close>

definition emc_agrees :: "('w \<Rightarrow> u8 \<Rightarrow> u8) \<Rightarrow> emc142x_device \<Rightarrow> 'w \<Rightarrow> u32 \<times> sdi_threshold \<Rightarrow> bool" where
  "emc_agrees regs d w k \<longleftrightarrow> emc_cached d k = ucast (regs w (emc_limit_reg k))"

lemma emc_key [simp]: "(i, t) \<in> emc_keys \<longleftrightarrow> unat i < EMC142x_MAX_SENSORS"
  by (simp add: emc_keys_def)

lemma emc_put_same: "emc_shape d \<Longrightarrow> k \<in> emc_keys \<Longrightarrow> emc_put k (emc_cached d k) d = d"
  by (cases k; cases "snd k") simp_all

lemma emc_put_connected [simp]: "emc_connected (emc_put k v d) = emc_connected d"
  by (cases k; cases "snd k") simp_all

lemma emc_threshold_set_agrees:
  assumes dev: "limit_device chip (emc_limit_reg ` emc_keys) regs" and d: "emc_shape d"
    and i: "unat i < EMC142x_MAX_SENSORS"
    and set: "sdi_emc142x_threshold_set chip i t v (d, w) = Some (e, d', w')"
  shows "emc_shape d'" and "emc_connected d' = emc_connected d"
    and "k \<in> emc_keys \<Longrightarrow> emc_agrees regs d w k \<or> e = STD_ERR_OK \<and> k = (i, t) \<Longrightarrow> emc_agrees regs d' w' k"
    and "e = STD_ERR_OK \<Longrightarrow> emc_put (i, t) v d' = d'"
proof -
  note set' = set [unfolded emc_threshold_set [OF i]]
  have k: "(i, t) \<in> emc_keys" using i by simp
  note cs = emc.limit_set_cases [OF dev d k set']
  show "emc_shape d'" and "emc_connected d' = emc_connected d"
    using cs by (cases "e = STD_ERR_OK"; auto)+
  show "k \<in> emc_keys \<Longrightarrow> emc_agrees regs d w k \<or> e = STD_ERR_OK \<and> k = (i, t) \<Longrightarrow> emc_agrees regs d' w' k"
    unfolding emc_agrees_def by (rule emc.limit_set_coherent [OF dev d k set'])
  show "e = STD_ERR_OK \<Longrightarrow> emc_put (i, t) v d' = d'"
    using cs emc_put_same [of d' "(i, t)"] k emc.cached_put [OF d k k, of v] by auto
qed

text \<open>A successful initialisation of a sensor makes its three limits agree and spoils no other.\<close>

lemma emc_resource_init_agrees:
  assumes dev: "limit_device chip (emc_limit_reg ` emc_keys) regs" and d: "emc_shape d"
    and i: "unat i < EMC142x_MAX_SENSORS"
    and init: "sdi_emc142x_resource_init chip i (d, w) = Some (STD_ERR_OK, d', w')"
  shows "emc_shape d' \<and> emc_connected d' = emc_connected d \<and>
    (\<forall>k \<in> emc_keys. emc_agrees regs d w k \<or> fst k = i \<longrightarrow> emc_agrees regs d' w' k)"
proof -
  obtain t1 d1 w1 t2 d2 w2 t3 d3 where
    s1: "sdi_emc142x_threshold_set chip i SDI_LOW_THRESHOLD t1 (d, w) = Some (STD_ERR_OK, d1, w1)"
    and s2: "sdi_emc142x_threshold_set chip i SDI_HIGH_THRESHOLD t2 (emc_put (i, SDI_LOW_THRESHOLD) t1 d1, w1) =
      Some (STD_ERR_OK, d2, w2)"
    and s3: "sdi_emc142x_threshold_set chip i SDI_CRITICAL_THRESHOLD t3 (emc_put (i, SDI_HIGH_THRESHOLD) t2 d2, w2) =
      Some (STD_ERR_OK, d3, w')"
    and d': "d' = emc_put (i, SDI_CRITICAL_THRESHOLD) t3 d3"
    using init by (auto simp: sdi_emc142x_resource_init_def bind_SomeD Let_def split: if_splits)
  note a1 = emc_threshold_set_agrees [OF dev d i s1]
  note s2' = s2 [unfolded a1(4) [OF refl]]
  note a2 = emc_threshold_set_agrees [OF dev a1(1) i s2']
  note s3' = s3 [unfolded a2(4) [OF refl]]
  note a3 = emc_threshold_set_agrees [OF dev a2(1) i s3']
  have "emc_agrees regs d' w' k" if k: "k \<in> emc_keys" and or: "emc_agrees regs d w k \<or> fst k = i" for k
  proof -
    consider "emc_agrees regs d w k" | "k = (i, SDI_LOW_THRESHOLD)" | "k = (i, SDI_HIGH_THRESHOLD)"
      | "k = (i, SDI_CRITICAL_THRESHOLD)"
      using or by (cases k; cases "snd k") auto
    then show ?thesis
      using a1(3) [OF k] a2(3) [OF k] a3(3) [OF k] d' a3(4) by cases auto
  qed
  with a1 a2 a3 d' show ?thesis by auto
qed

lemma emc_init_sensors_agree:
  assumes dev: "limit_device chip (emc_limit_reg ` emc_keys) regs"
  shows "emc_shape d \<Longrightarrow> \<forall>i \<in> set is. unat i < EMC142x_MAX_SENSORS \<Longrightarrow>
    emc142x_init_sensors B chip is (d, w) = Some (STD_ERR_OK, d', w') \<Longrightarrow>
    emc_shape d' \<and> emc_connected d' = emc_connected d \<and>
    (\<forall>k \<in> emc_keys. emc_agrees regs d w k \<or> fst k \<in> set is \<and> array_test B (emc_connected d) (fst k) \<longrightarrow>
       emc_agrees regs d' w' k)"
proof (induction "is" arbitrary: d w)
  case (Cons i "is")
  show ?case
  proof (cases "array_test B (emc_connected d) i")
    case True
    then obtain d1 w1 where init: "sdi_emc142x_resource_init chip i (d, w) = Some (STD_ERR_OK, d1, w1)"
      and rest: "emc142x_init_sensors B chip is (d1, w1) = Some (STD_ERR_OK, d', w')"
      using Cons.prems(3) by (auto simp: bind_SomeD split: if_splits)
    have i: "unat i < EMC142x_MAX_SENSORS" using Cons.prems(2) by simp
    note one = emc_resource_init_agrees [OF dev Cons.prems(1) i init]
    from Cons.IH [OF _ _ rest] one Cons.prems(2) show ?thesis by auto
  next
    case False
    then show ?thesis using Cons by auto
  qed
qed simp

section \<open>What happens to an EMC142x after its initialisation\<close>

text \<open>
  The calls of its sensors, with any arguments, and changes of the device that leave the limit
  registers alone (temperatures and the fault status change by themselves).
\<close>

inductive emc_step ::
    "sensor_lib \<Rightarrow> 'w chip \<Rightarrow> ('w \<Rightarrow> u8 \<Rightarrow> u8) \<Rightarrow> emc142x_device \<times> 'w \<Rightarrow> emc142x_device \<times> 'w \<Rightarrow> bool"
  for B chip regs where
  temperature: "sdi_emc142x_temperature_get chip i t s = Some (e, t', s') \<Longrightarrow> emc_step B chip regs s s'"
| status: "sdi_emc142x_status_get B chip i b s = Some (e, b', s') \<Longrightarrow> emc_step B chip regs s s'"
| limit: "sdi_emc142x_threshold_get chip i k t s = Some (e, t', s') \<Longrightarrow> emc_step B chip regs s s'"
| set_limit: "unat i < EMC142x_MAX_SENSORS \<Longrightarrow>
    sdi_emc142x_threshold_set chip i k t s = Some (e, s') \<Longrightarrow> emc_step B chip regs s s'"
| device: "\<forall>k \<in> emc_keys. regs w' (emc_limit_reg k) = regs w (emc_limit_reg k) \<Longrightarrow>
    emc_step B chip regs (d, w) (d, w')"

lemma emc_step_agrees:
  assumes dev: "limit_device chip (emc_limit_reg ` emc_keys) regs" and "emc_step B chip regs (d, w) (d', w')"
    and "emc_shape d"
  shows "emc_shape d' \<and> (\<forall>k \<in> emc_keys. emc_agrees regs d w k \<longrightarrow> emc_agrees regs d' w' k)"
  using assms(2)
proof cases
  case (temperature i t e t')
  then obtain reg v where "chip_read chip reg w = Some (e, v, w')" and "d' = d"
    by (auto simp: sdi_emc142x_temperature_get_def bind_SomeD split: if_splits)
  with limit_device_read [OF dev] assms(3) show ?thesis by (auto simp: emc_agrees_def)
next
  case (status i b e b')
  then obtain v where "chip_read chip EMC142x_FAULT_STATUS w = Some (e, v, w')" and "d' = d"
    by (auto simp: sdi_emc142x_status_get_def bind_SomeD split: if_splits)
  with limit_device_read [OF dev] assms(3) show ?thesis by (auto simp: emc_agrees_def)
next
  case (limit i k t e t')
  then show ?thesis using assms(3) by (auto simp: sdi_emc142x_threshold_get_def bind_SomeD)
next
  case (set_limit i k t e)
  from emc_threshold_set_agrees [OF dev assms(3) set_limit] show ?thesis by blast
next
  case device
  then show ?thesis using assms(3) by (simp add: emc_agrees_def)
qed

lemma emc_steps_agree:
  assumes dev: "limit_device chip (emc_limit_reg ` emc_keys) regs" and "(emc_step B chip regs)\<^sup>*\<^sup>* s s'"
    and "emc_shape (fst s)"
  shows "emc_shape (fst s') \<and>
    (\<forall>k \<in> emc_keys. emc_agrees regs (fst s) (snd s) k \<longrightarrow> emc_agrees regs (fst s') (snd s') k)"
  using assms(2)
proof (induction rule: rtranclp_induct)
  case base
  then show ?case using assms(3) by simp
next
  case (step y z)
  then show ?case
    using emc_step_agrees [OF dev, of B "fst y" "snd y" "fst z" "snd z"] by auto
qed

section \<open>Registration of an EMC142x\<close>

definition is_sensor_node :: "config_node \<Rightarrow> bool" where
  "is_sensor_node n \<longleftrightarrow> strncmp_eq (std_config_name_get n) ''temp_sensor'' (length ''temp_sensor'')"

lemma emc_database_init:
  assumes laws: "bit_array_laws B" and "sdi_emc142x_device_database_init B n chip s = Some s'"
    and "emc_shape (fst (dev s))"
  shows "emc_shape (fst (dev s')) \<and> snd (dev s') = snd (dev s) \<and>
    (\<forall>i. i < 8 \<longrightarrow> array_test B (emc_connected (fst (dev s))) i \<longrightarrow> array_test B (emc_connected (fst (dev s'))) i) \<and>
    (is_sensor_node n \<longrightarrow> sensor_instance n < 8 \<and> array_test B (emc_connected (fst (dev s'))) (sensor_instance n))"
proof (cases "is_sensor_node n")
  case True
  then have "unat (sensor_instance n) < 8"
    using assms(2) by (simp add: sdi_emc142x_device_database_init_def is_sensor_node_def
        EMC142x_MAX_SENSORS_def Let_def split: if_splits)
  then have "sensor_instance n < 8" by (simp add: word_less_nat_alt)
  then show ?thesis
    using assms(2,3) True laws
    by (auto simp: sdi_emc142x_device_database_init_def is_sensor_node_def Let_def emc_shape_def
        bit_array_laws_def split: if_splits)
qed (use assms(2,3) in \<open>simp add: sdi_emc142x_device_database_init_def is_sensor_node_def\<close>)

lemma emc_database_init_each:
  assumes laws: "bit_array_laws B"
  shows "emc142x_database_init_each B chip ns s = Some s' \<Longrightarrow> emc_shape (fst (dev s)) \<Longrightarrow>
    emc_shape (fst (dev s')) \<and> snd (dev s') = snd (dev s) \<and>
    (\<forall>i. i < 8 \<longrightarrow> array_test B (emc_connected (fst (dev s))) i \<longrightarrow> array_test B (emc_connected (fst (dev s'))) i) \<and>
    (\<forall>n \<in> set ns. is_sensor_node n \<longrightarrow>
       sensor_instance n < 8 \<and> array_test B (emc_connected (fst (dev s'))) (sensor_instance n))"
proof (induction ns arbitrary: s)
  case (Cons n ns)
  then obtain s1 where s1: "sdi_emc142x_device_database_init B n chip s = Some s1"
    and rest: "emc142x_database_init_each B chip ns s1 = Some s'"
    by (auto simp: bind_SomeD)
  note one = emc_database_init [OF laws s1 Cons.prems(2)]
  with Cons.IH [OF rest] show ?case by auto
qed simp

lemma emc_register:
  assumes laws: "bit_array_laws B" and "sdi_emc142x_register B node h s = Some (e, chip, s')"
  shows "emc_shape (fst (dev s')) \<and> chip_bus chip = h \<and> snd (dev s') = snd (dev s) \<and>
    (\<forall>n \<in> set (each_node B node). is_sensor_node n \<longrightarrow>
       sensor_instance n < 8 \<and> array_test B (emc_connected (fst (dev s'))) (sensor_instance n))"
proof -
  have new: "emc_shape emc142x_data_new" by (simp add: emc_shape_def emc142x_data_new_def)
  obtain c where "emc142x_database_init_each B c (each_node B node) (s\<lparr>dev := (emc142x_data_new, snd (dev s))\<rparr>) = Some s'"
    and "c = chip" "chip_bus c = h"
    using assms(2) by (auto simp: sdi_emc142x_register_def bind_any_eq_Some Let_def split: if_splits)
  with emc_database_init_each [OF laws this(1)] new show ?thesis by simp
qed

lemma u32_below_8:
  assumes "unat (i :: u32) < 8"
  shows "i = 0 \<or> i = 1 \<or> i = 2 \<or> i = 3 \<or> i = 4 \<or> i = 5 \<or> i = 6 \<or> i = 7"
proof -
  define m where "m = unat i"
  have i: "i = of_nat m" by (simp add: m_def)
  have "m = 0 \<or> m = 1 \<or> m = 2 \<or> m = 3 \<or> m = 4 \<or> m = 5 \<or> m = 6 \<or> m = 7"
    using assms unfolding m_def by arith
  then show ?thesis unfolding i by (elim disjE) simp_all
qed

text \<open>
  C29. The limits an EMC142x answers with are those of the chip. Register an EMC142x from its
  configuration node and initialise it successfully, on a device whose limit registers change only
  by successful writes. After any sequence of calls of its sensors, with any arguments, failing
  or not, and of other changes of the device, threshold\_get of every configured sensor and every
  kind of limit succeeds and returns what the limit register of that sensor holds: no two limits
  share a register, and a failed write is never remembered.
\<close>

theorem emc142x_limits_are_the_chips:
  assumes "bit_array_laws B" and "sdi_emc142x_register B node h s0 = Some (STD_ERR_OK, chip, s1)"
    and "limit_device chip (emc_limit_reg ` emc_keys) regs"
    and "sdi_emc142x_chip_init B chip (dev s1) = Some (STD_ERR_OK, dw1)"
    and "(emc_step B chip regs)\<^sup>*\<^sup>* dw1 (d, w)"
    and "n \<in> set (each_node B node)" and "strncmp_eq (std_config_name_get n) ''temp_sensor'' 11"
  shows "sdi_emc142x_threshold_get chip (sensor_instance n) k old (d, w) =
    Some (STD_ERR_OK, ucast (regs w (emc_limit_reg (sensor_instance n, k))), d, w)"
proof -
  let ?i = "sensor_instance n"
  note reg = emc_register [OF assms(1,2)]
  have "length ''temp_sensor'' = 11" by simp
  with assms(7) have "is_sensor_node n" by (simp only: is_sensor_node_def)
  with reg assms(6) have "?i < 8" and conn: "array_test B (emc_connected (fst (dev s1))) ?i" by blast+
  then have i: "unat ?i < EMC142x_MAX_SENSORS" by (simp add: EMC142x_MAX_SENSORS_def word_less_nat_alt)
  have mem: "?i \<in> set [0, 1, 2, 3, 4, 5, 6, 7]"
    using u32_below_8 [of ?i] i by (simp add: EMC142x_MAX_SENSORS_def)
  have small: "\<forall>j \<in> set [0, 1, 2, 3, 4, 5, 6, 7 :: u32]. unat j < EMC142x_MAX_SENSORS"
    by (simp add: EMC142x_MAX_SENSORS_def)
  have init: "emc142x_init_sensors B chip [0, 1, 2, 3, 4, 5, 6, 7] (fst (dev s1), snd (dev s1)) =
      Some (STD_ERR_OK, fst dw1, snd dw1)"
    using assms(4) by (simp add: sdi_emc142x_chip_init_def)
  have shape1: "emc_shape (fst (dev s1))" using reg by blast
  have key: "(?i, k) \<in> emc_keys" using i by simp
  note agree = emc_init_sensors_agree [OF assms(3) shape1 small init]
  have a1: "emc_agrees regs (fst dw1) (snd dw1) (?i, k)" and "emc_shape (fst dw1)"
    using agree mem conn key by auto
  with emc_steps_agree [OF assms(3,5)] have "emc_agrees regs d w (?i, k)" and "emc_shape d"
    using key by auto
  then show ?thesis
    using emc_threshold_get [of d ?i chip k old w] i by (simp add: emc_agrees_def)
qed

text \<open>A chip with one configured sensor on a kernel bus.\<close>

definition sample_sensor_lib :: sensor_lib where
  "sample_sensor_lib = \<lparr>
     sensor_std = sample_lib,
     array_test = (\<lambda>x i. bit x (unat i)),
     array_set = (\<lambda>x i. set_bit (unat i) x),
     each_node = (\<lambda>n. n # std_config_children n)\<rparr>"

lemma sample_bit_array: "bit_array_laws sample_sensor_lib"
  unfolding bit_array_laws_def sample_sensor_lib_def
  by (auto simp: bit_simps unat_less_numeral_u32 unat_inj_iff)

definition sample_sensor_node :: config_node where
  "sample_sensor_node = Config_Node ''temp_sensor'' [(''instance'', ''2''), (''high_threshold'', ''90'')] []"

definition sample_emc_node :: config_node where
  "sample_emc_node =
     Config_Node ''emc142x'' [(''instance'', ''0''), (''addr'', ''4c'')] [sample_sensor_node]"

definition sample_emc :: "(u8 \<Rightarrow> u8) chip \<times> (emc142x_device \<times> (u8 \<Rightarrow> u8)) sdi_sys" where
  "sample_emc = snd (the (sdi_emc142x_register sample_sensor_lib sample_emc_node sample_bus
     (sample_sys (emc142x_data_new, \<lambda>_. 25))))"

definition sample_emc_ready :: "emc142x_device \<times> (u8 \<Rightarrow> u8)" where
  "sample_emc_ready = snd (the (sdi_emc142x_chip_init sample_sensor_lib (fst sample_emc) (dev (snd sample_emc))))"

lemma sample_emc_eq:
  "sdi_emc142x_register sample_sensor_lib sample_emc_node sample_bus (sample_sys (emc142x_data_new, \<lambda>_. 25)) =
     Some (STD_ERR_OK, fst sample_emc, snd sample_emc)"
proof -
  have "map_option fst (sdi_emc142x_register sample_sensor_lib sample_emc_node sample_bus
      (sample_sys (emc142x_data_new, \<lambda>_. 25))) = Some STD_ERR_OK" by code_simp
  from the_SomeI [OF this] show ?thesis by (simp add: sample_emc_def)
qed

lemma sample_emc_ready_eq:
  "sdi_emc142x_chip_init sample_sensor_lib (fst sample_emc) (dev (snd sample_emc)) =
     Some (STD_ERR_OK, sample_emc_ready)"
proof -
  have "map_option fst (sdi_emc142x_chip_init sample_sensor_lib (fst sample_emc) (dev (snd sample_emc))) =
      Some STD_ERR_OK" by code_simp
  from the_SomeI [OF this] show ?thesis by (simp add: sample_emc_ready_def)
qed

theorem emc142x_limits_are_the_chips_witness:
  "map_option (\<lambda>(e, t, s). (e, t)) (sdi_emc142x_threshold_get (fst sample_emc) 2 SDI_HIGH_THRESHOLD 0
     sample_emc_ready) = Some (STD_ERR_OK, 90)"
proof -
  have chip: "chip_bus (fst sample_emc) = sample_bus"
    using emc_register [OF sample_bit_array sample_emc_eq] by blast
  have "chip_addr (fst sample_emc) = sample_chip_addr" by code_simp
  then have "limit_device (fst sample_emc) (emc_limit_reg ` emc_keys) (\<lambda>w. w)"
    using sample_register_file chip by (intro register_file_limit_device) simp
  moreover have "sample_sensor_node \<in> set (each_node sample_sensor_lib sample_emc_node)"
    by (simp add: sample_sensor_lib_def sample_emc_node_def)
  moreover have "strncmp_eq (std_config_name_get sample_sensor_node) ''temp_sensor'' 11"
    by (simp add: sample_sensor_node_def)
  moreover have "sensor_instance sample_sensor_node = 2" by code_simp
  moreover have "snd sample_emc_ready (emc_limit_reg (2, SDI_HIGH_THRESHOLD)) = 90" by code_simp
  moreover have "(emc_step sample_sensor_lib (fst sample_emc) (\<lambda>w. w))\<^sup>*\<^sup>* sample_emc_ready
      (fst sample_emc_ready, snd sample_emc_ready)" by simp
  ultimately show ?thesis
    using emc142x_limits_are_the_chips [OF sample_bit_array sample_emc_eq _ sample_emc_ready_eq,
        where regs = "\<lambda>w. w" and d = "fst sample_emc_ready" and w = "snd sample_emc_ready"
          and n = sample_sensor_node and k = SDI_HIGH_THRESHOLD and old = 0]
    by simp
qed

end
