(* ===== verification/Temp_Status.thy ===== *)
theory Temp_Status
  imports Temp_Limits
begin

text \<open>
  The TMP75 from its configuration node to the thermal API of src/hwcore/sdi\_thermal.c, and what a
  failed write of a limit does to the answers of the drivers.
\<close>

section \<open>Limits and temperatures are small\<close>

lemma sint_of_u8: "sint (ucast (b :: u8) :: u32) = int (unat b)"
proof -
  have u: "uint (ucast b :: u32) = int (unat b)"
    by (simp flip: unat_ucast_widen(2))
  have "uint b < 256" using unsigned_less [of b] by simp
  moreover have "- (2 ^ 31) \<le> uint b" using order_trans [of "- (2 ^ 31)" 0 "uint b"] by simp
  ultimately have "- (2 ^ 31) \<le> uint b" "uint b < 2 ^ 31" by simp_all
  then show ?thesis by (simp add: sint_uint u signed_take_bit_int_eq_self)
qed

lemma sle_of_fits:
  assumes "fits_byte a" and "fits_byte b"
  shows "a <=s b \<longleftrightarrow> unat a \<le> unat b"
proof -
  have "sint x = int (unat x)" if "fits_byte x" for x
    using sint_of_u8 [of "ucast x"] fits_byte_ucast [OF that] unat_ucast_widen(2) [of "ucast x"] by metis
  from this [OF assms(1)] this [OF assms(2)] show ?thesis by (simp add: word_sle_eq flip: of_nat_le_iff [where 'a = int])
qed

section \<open>The TMP75 on a register device\<close>

lemma tmp75_threshold_set_register:
  assumes R: "register_file (chip_bus c) (chip_addr c) regs" and "fits_byte t"
  shows "\<exists>w'. sdi_tmp75_threshold_set c SDI_LOW_THRESHOLD t (d, w) =
        Some (STD_ERR_OK, d\<lparr>tmp_low_threshold := t\<rparr>, w') \<and> regs w' = (regs w)(TMP75_TLOW_REG := ucast t)"
    and "\<exists>w'. sdi_tmp75_threshold_set c SDI_HIGH_THRESHOLD t (d, w) =
        Some (STD_ERR_OK, d\<lparr>tmp_high_threshold := t\<rparr>, w') \<and> regs w' = (regs w)(TMP75_THIGH_REG := ucast t)"
  using register_chip_write [OF R, of TMP75_TLOW_REG "ucast t" w]
    register_chip_write [OF R, of TMP75_THIGH_REG "ucast t" w] assms(2)
  by (auto simp: sdi_tmp75_threshold_set_def)

lemma tmp75_chip_init_register:
  assumes R: "register_file (chip_bus c) (chip_addr c) regs"
    and "fits_byte (tmp_default_low_threshold d)" and "fits_byte (tmp_default_high_threshold d)"
  shows "\<exists>w'. sdi_tmp75_chip_init c (d, w) = Some (STD_ERR_OK,
        d\<lparr>tmp_low_threshold := tmp_default_low_threshold d, tmp_high_threshold := tmp_default_high_threshold d\<rparr>, w') \<and>
      regs w' = (regs w)(TMP75_TLOW_REG := ucast (tmp_default_low_threshold d),
        TMP75_THIGH_REG := ucast (tmp_default_high_threshold d))"
proof -
  let ?lo = "tmp_default_low_threshold d" and ?hi = "tmp_default_high_threshold d"
  obtain w1 where w1: "sdi_tmp75_threshold_set c SDI_LOW_THRESHOLD ?lo (d, w) =
      Some (STD_ERR_OK, d\<lparr>tmp_low_threshold := ?lo\<rparr>, w1)" "regs w1 = (regs w)(TMP75_TLOW_REG := ucast ?lo)"
    using tmp75_threshold_set_register(1) [OF R assms(2)] by blast
  obtain w2 where w2: "sdi_tmp75_threshold_set c SDI_HIGH_THRESHOLD ?hi (d\<lparr>tmp_low_threshold := ?lo\<rparr>, w1) =
      Some (STD_ERR_OK, d\<lparr>tmp_low_threshold := ?lo, tmp_high_threshold := ?hi\<rparr>, w2)"
      "regs w2 = (regs w1)(TMP75_THIGH_REG := ucast ?hi)"
    using tmp75_threshold_set_register(2) [OF R assms(3)] by blast
  show ?thesis
    using w1 w2 by (simp add: sdi_tmp75_chip_init_def)
qed

lemma tmp75_status_register:
  assumes R: "register_file (chip_bus c) (chip_addr c) regs"
    and "fits_byte (tmp_low_threshold d)" and "fits_byte (tmp_high_threshold d)"
  shows "\<exists>w'. sdi_tmp75_status_get c b (d, w) = Some (STD_ERR_OK,
      unat (tmp_high_threshold d) \<le> unat (regs w TMP75_TEMP_REG) \<or>
      unat (regs w TMP75_TEMP_REG) \<le> unat (tmp_low_threshold d), d, w')"
  using register_chip_read [OF R, of TMP75_TEMP_REG w] assms(2,3)
  by (auto simp: sdi_tmp75_status_get_def sdi_tmp75_temperature_get_def sle_of_fits)

lemma tmp75_registered:
  assumes "sdi_tmp75_register L node h s0 = Some (e, chip, s1)"
  shows "e = STD_ERR_OK \<and> chip_bus chip = h \<and> dev s1 = (tmp75_data_new node, snd (dev s0)) \<and>
    callback_fns (resource_heap s1 (Res_Hdl (next_resource s0))) = Temperature_Fns (tmp75_sensor chip) \<and>
    res_type (resource_heap s1 (Res_Hdl (next_resource s0))) = SDI_RESOURCE_TEMPERATURE"
proof -
  let ?s = "s0\<lparr>dev := (tmp75_data_new node, snd (dev s0))\<rparr>"
  have "s1 = sdi_resource_add L SDI_RESOURCE_TEMPERATURE (chip_alias chip) (Temperature_Fns (tmp75_sensor chip)) ?s"
    and "e = STD_ERR_OK" and "chip_bus chip = h"
    using assms by (auto simp: sdi_tmp75_register_def bind_any_eq_Some Let_def split: if_splits)
  then show ?thesis
    using sdi_resource_add_new [of L SDI_RESOURCE_TEMPERATURE _ "Temperature_Fns (tmp75_sensor chip)" ?s] by simp
qed

text \<open>
  C30. The alarm of a TMP75, from the configuration to the API. Register a TMP75 whose configured
  limits fit into a byte and initialise it, on a register device. The initialisation succeeds and
  writes both limits to the chip; from then on sdi\_temperature\_status\_get on the resource of the
  sensor reports an alarm exactly when the register value is at least the high limit or at most
  the low limit. In particular, with no limits configured (70 and 80 degrees) the alarm is on at
  every temperature up to 70 degrees, and off only between 71 and 79.
\<close>

theorem tmp75_alarm:
  assumes "sdi_tmp75_register L node h s0 = Some (e, chip, s1)" and "register_file h (chip_addr chip) regs"
    and "lo = threshold_attr node ''low_threshold'' 70" and "hi = threshold_attr node ''high_threshold'' 80"
    and "fits_byte lo" and "fits_byte hi"
  shows "\<exists>d w1. sdi_tmp75_chip_init chip (dev s1) = Some (STD_ERR_OK, d, w1) \<and>
    regs w1 TMP75_TLOW_REG = ucast lo \<and> regs w1 TMP75_THIGH_REG = ucast hi \<and>
    (\<forall>w b. \<exists>w'. sdi_temperature_status_get (Res_Hdl (next_resource s0)) b
        (s1\<lparr>sdi_init_status := True, dev := (d, w)\<rparr>) =
      Some (STD_ERR_OK,
        unat hi \<le> unat (regs w TMP75_TEMP_REG) \<or> unat (regs w TMP75_TEMP_REG) \<le> unat lo,
        s1\<lparr>sdi_init_status := True, dev := (d, w')\<rparr>)) \<and>
    (std_config_attr_get node ''low_threshold'' = None \<longrightarrow> std_config_attr_get node ''high_threshold'' = None \<longrightarrow>
      unat lo = 70 \<and> unat hi = 80)"
proof -
  note reg = tmp75_registered [OF assms(1)]
  let ?d0 = "tmp75_data_new node"
  have limits: "tmp_default_low_threshold ?d0 = lo" "tmp_default_high_threshold ?d0 = hi"
    by (simp_all add: tmp75_data_new_def assms(3,4) TMP75_DEFAULT_TLOW_def TMP75_DEFAULT_THIGH_def)
  have R: "register_file (chip_bus chip) (chip_addr chip) regs" using assms(2) reg by simp
  obtain w1 where init: "sdi_tmp75_chip_init chip (dev s1) = Some (STD_ERR_OK,
        ?d0\<lparr>tmp_low_threshold := lo, tmp_high_threshold := hi\<rparr>, w1)"
      "regs w1 = (regs (snd (dev s0)))(TMP75_TLOW_REG := ucast lo, TMP75_THIGH_REG := ucast hi)"
    using tmp75_chip_init_register [OF R, of ?d0 "snd (dev s0)"] assms(5,6) limits reg by auto
  let ?d = "?d0\<lparr>tmp_low_threshold := lo, tmp_high_threshold := hi\<rparr>"
  have "\<exists>w'. sdi_temperature_status_get (Res_Hdl (next_resource s0)) b
        (s1\<lparr>sdi_init_status := True, dev := (?d, w)\<rparr>) =
      Some (STD_ERR_OK, unat hi \<le> unat (regs w TMP75_TEMP_REG) \<or> unat (regs w TMP75_TEMP_REG) \<le> unat lo,
        s1\<lparr>sdi_init_status := True, dev := (?d, w')\<rparr>)" for w b
  proof -
    obtain w' where "sdi_tmp75_status_get chip b (?d, w) = Some (STD_ERR_OK,
        unat hi \<le> unat (regs w TMP75_TEMP_REG) \<or> unat (regs w TMP75_TEMP_REG) \<le> unat lo, ?d, w')"
      using tmp75_status_register [OF R, of ?d b w] assms(5,6) by auto
    then show ?thesis
      using reg by (simp add: sdi_temperature_status_get_def is_sdi_inited_def tmp75_sensor_def ask_def exI [of _ w'])
  qed
  moreover have "unat lo = 70 \<and> unat hi = 80"
    if "std_config_attr_get node ''low_threshold'' = None" "std_config_attr_get node ''high_threshold'' = None"
    using that by (simp add: assms(3,4) threshold_attr_def)
  ultimately show ?thesis
    using init by (auto simp: TMP75_TLOW_REG_def TMP75_THIGH_REG_def)
qed

text \<open>
  A limit that never reached the chip is reported all the same. When the chip refuses the
  write of a new high limit, the TMP75 driver returns the error but remembers the limit: it is what
  threshold\_get reports from then on, while the register keeps the old value. The EMC142x driver
  does not remember a limit that is refused in threshold\_set; but when the chip refuses the
  critical limit in resource\_init, the error is returned and threshold\_get reports the refused
  limit.
\<close>

theorem refused_limit_is_reported:
  assumes "limit_device c UNIV regs" and "e \<noteq> STD_ERR_OK" and "fits_byte t"
    and "unat i < 8" and "emc_shape ed" and "emc_default_critical_threshold ed ! unat i = t"
    and "fits_byte (emc_default_low_threshold ed ! unat i)" and "fits_byte (emc_default_high_threshold ed ! unat i)"
    and "chip_write c TMP75_THIGH_REG (ucast t) w = Some (e, w1)"
    and "chip_write c (emc_limit_reg (i, SDI_LOW_THRESHOLD)) (ucast (emc_default_low_threshold ed ! unat i)) w =
      Some (STD_ERR_OK, wa)"
    and "chip_write c (emc_limit_reg (i, SDI_HIGH_THRESHOLD)) (ucast (emc_default_high_threshold ed ! unat i)) wa =
      Some (STD_ERR_OK, wb)"
    and "chip_write c (emc_limit_reg (i, SDI_CRITICAL_THRESHOLD)) (ucast t) wb = Some (e, wc)"
  shows "(\<exists>d'. sdi_tmp75_threshold_set c SDI_HIGH_THRESHOLD t (d, w) = Some (e, d', w1) \<and>
      sdi_tmp75_threshold_get c SDI_HIGH_THRESHOLD old (d', w1) = Some (STD_ERR_OK, t, d', w1) \<and>
      regs w1 TMP75_THIGH_REG = regs w TMP75_THIGH_REG) \<and>
    sdi_emc142x_threshold_set c i SDI_CRITICAL_THRESHOLD t (ed, wb) = Some (e, ed, wc) \<and>
    (\<exists>ed'. sdi_emc142x_resource_init c i (ed, w) = Some (e, ed', wc) \<and>
      sdi_emc142x_threshold_get c i SDI_CRITICAL_THRESHOLD old (ed', wc) = Some (STD_ERR_OK, t, ed', wc) \<and>
      regs wc (emc_limit_reg (i, SDI_CRITICAL_THRESHOLD)) = regs wb (emc_limit_reg (i, SDI_CRITICAL_THRESHOLD)))"
proof -
  let ?lo = "emc_default_low_threshold ed ! unat i" and ?hi = "emc_default_high_threshold ed ! unat i"
  have i: "unat i < EMC142x_MAX_SENSORS" using assms(4) by (simp add: EMC142x_MAX_SENSORS_def)
  note set = emc_threshold_set [OF i]
  have at: "at_index (emc_default_low_threshold ed) i = Some ?lo"
      "at_index (emc_default_high_threshold ed) i = Some ?hi"
      "at_index (emc_default_critical_threshold ed) i = Some t"
    using assms(5,6) i by (simp_all add: emc_shape_def at_index_def)
  have len: "unat i < length (emc_critical_threshold ed)"
    using assms(5) i by (simp add: emc_shape_def)
  have "regs w1 TMP75_THIGH_REG = regs w TMP75_THIGH_REG"
    using limit_device_write [OF assms(1) assms(9), of TMP75_THIGH_REG] assms(2) by simp
  then have tmp: "\<exists>d'. sdi_tmp75_threshold_set c SDI_HIGH_THRESHOLD t (d, w) = Some (e, d', w1) \<and>
      sdi_tmp75_threshold_get c SDI_HIGH_THRESHOLD old (d', w1) = Some (STD_ERR_OK, t, d', w1) \<and>
      regs w1 TMP75_THIGH_REG = regs w TMP75_THIGH_REG"
    using assms(3,9) by (simp add: sdi_tmp75_threshold_set_def sdi_tmp75_threshold_get_def)
  have crit: "limit_set emc_limit_reg emc_put c (i, SDI_CRITICAL_THRESHOLD) t (x, wb) = Some (e, x, wc)" for x
    using assms(2,3,12) by (simp add: limit_set_def)
  have reg: "regs wc (emc_limit_reg (i, SDI_CRITICAL_THRESHOLD)) = regs wb (emc_limit_reg (i, SDI_CRITICAL_THRESHOLD))"
    using limit_device_write [OF assms(1) assms(12), of "emc_limit_reg (i, SDI_CRITICAL_THRESHOLD)"] assms(2) by simp
  have low: "limit_set emc_limit_reg emc_put c (i, SDI_LOW_THRESHOLD) ?lo (ed, w) =
      Some (STD_ERR_OK, emc_put (i, SDI_LOW_THRESHOLD) ?lo ed, wa)"
    using assms(7,10) by (simp add: limit_set_def)
  have high: "limit_set emc_limit_reg emc_put c (i, SDI_HIGH_THRESHOLD) ?hi (x, wa) =
      Some (STD_ERR_OK, emc_put (i, SDI_HIGH_THRESHOLD) ?hi x, wb)" for x
    using assms(8,11) by (simp add: limit_set_def)
  obtain ed' where "sdi_emc142x_resource_init c i (ed, w) = Some (e, ed', wc)"
      "at_index (emc_critical_threshold ed') i = Some t"
    unfolding sdi_emc142x_resource_init_def fst_conv
    by (simp add: at set low high crit Let_def len)
  then have "sdi_emc142x_resource_init c i (ed, w) = Some (e, ed', wc) \<and>
      sdi_emc142x_threshold_get c i SDI_CRITICAL_THRESHOLD old (ed', wc) = Some (STD_ERR_OK, t, ed', wc)"
    by (simp add: sdi_emc142x_threshold_get_def at_index_def split: if_splits)
  then show ?thesis
    using tmp crit [of ed] reg unfolding set by blast
qed

section \<open>Samples\<close>

definition sample_tmp75_node :: config_node where
  "sample_tmp75_node = Config_Node ''tmp75'' [(''instance'', ''1''), (''addr'', ''4c'')] []"

definition sample_tmp75 :: "(u8 \<Rightarrow> u8) chip \<times> (tmp75_device \<times> (u8 \<Rightarrow> u8)) sdi_sys" where
  "sample_tmp75 = snd (the (sdi_tmp75_register sample_lib sample_tmp75_node sample_bus
     (sample_sys (tmp75_data_new sample_tmp75_node, \<lambda>_. 25))))"

text \<open>At 25 degrees a TMP75 with the default limits is in alarm.\<close>

theorem tmp75_alarm_witness:
  "\<exists>d s'. sdi_temperature_status_get (Res_Hdl 0) False
     ((snd sample_tmp75)\<lparr>sdi_init_status := True, dev := (d, \<lambda>_. 25)\<rparr>) = Some (STD_ERR_OK, True, s')"
proof -
  have "map_option fst (sdi_tmp75_register sample_lib sample_tmp75_node sample_bus
      (sample_sys (tmp75_data_new sample_tmp75_node, \<lambda>_. 25))) = Some STD_ERR_OK" by code_simp
  from the_SomeI [OF this] have reg: "sdi_tmp75_register sample_lib sample_tmp75_node sample_bus
      (sample_sys (tmp75_data_new sample_tmp75_node, \<lambda>_. 25)) = Some (STD_ERR_OK, fst sample_tmp75, snd sample_tmp75)"
    by (simp add: sample_tmp75_def)
  have "chip_addr (fst sample_tmp75) = sample_chip_addr" by code_simp
  then have R: "register_file sample_bus (chip_addr (fst sample_tmp75)) (\<lambda>w. w)"
    using sample_register_file by simp
  have lo: "70 = threshold_attr sample_tmp75_node ''low_threshold'' 70"
    and hi: "80 = threshold_attr sample_tmp75_node ''high_threshold'' 80"
    and fits: "fits_byte 70" "fits_byte 80" and next_: "next_resource (sample_sys (tmp75_data_new sample_tmp75_node, \<lambda>_. 25 :: u8)) = 0"
    by code_simp+
  from tmp75_alarm [OF reg R lo hi fits] obtain d where
    "\<forall>w b. \<exists>w'. sdi_temperature_status_get (Res_Hdl 0) b
        ((snd sample_tmp75)\<lparr>sdi_init_status := True, dev := (d, w)\<rparr>) =
      Some (STD_ERR_OK, unat (80 :: u32) \<le> unat (w TMP75_TEMP_REG) \<or> unat (w TMP75_TEMP_REG) \<le> unat (70 :: u32),
        (snd sample_tmp75)\<lparr>sdi_init_status := True, dev := (d, w')\<rparr>)"
    unfolding next_ by blast
  from this [rule_format, of False "\<lambda>_. 25"] show ?thesis by auto
qed

text \<open>A chip that accepts writes except of the value 99.\<close>

definition picky_bus :: "(u8 \<Rightarrow> u8) sdi_i2c_bus" where
  "picky_bus = \<lparr>bus = bus sample_bus, ops = (ops sample_bus)\<lparr>
     ops_smbus_execute := (\<lambda>addr oper dt c p flags w.
       if oper = SDI_SMBUS_WRITE \<and> p = Buf8 99 then Some (SDI_ERRCODE EIO, p, w)
       else ops_smbus_execute (ops sample_bus) addr oper dt c p flags w)\<rparr>\<rparr>"

definition picky_chip :: "(u8 \<Rightarrow> u8) chip" where
  "picky_chip = \<lparr>chip_bus = picky_bus, chip_addr = sample_chip_addr, chip_instance = 0, chip_alias = []\<rparr>"

lemma picky_register:
  "chip_read picky_chip reg w = Some (STD_ERR_OK, w reg, w)"
  "chip_write picky_chip reg v w = Some (if v = 99 then (SDI_ERRCODE EIO, w) else (STD_ERR_OK, w(reg := v)))"
proof -
  have ff: "0xFF AND (x :: u8) = x" for x
    by (rule bit_word_eqI) (auto simp: bit_simps)
  note defs = chip_read_def chip_write_def picky_chip_def picky_bus_def sdi_smbus_read_byte_def
    sdi_smbus_write_byte_def with_bus_def sdi_smbus_execute_def sdi_i2c_acquire_bus_def
    sdi_i2c_release_bus_def i2cdev_bus_def sdi_i2cdev_bus_ops_def sdi_i2cdev_smbus_execute_def
    smbus_switch_def pec_off_def keep_buffer_def SDI_I2C_FLAG_PEC_def SDI_I2C_FLAG_NONE_def
    sdi_smbus_write_byte_i2cdev_def sdi_smbus_read_byte_i2cdev_def sdi_i2cdev_acquire_bus_def
    sdi_i2cdev_release_bus_def register_i2c_os_def sample_chip_addr_def sdi_sys_smbus_execute_def
    SDI_MAX_IIC_RETRY_def sample_i2c_bus_def ff
  show "chip_read picky_chip reg w = Some (STD_ERR_OK, w reg, w)"
    by (simp add: defs sdi_simps)
  show "chip_write picky_chip reg v w = Some (if v = 99 then (SDI_ERRCODE EIO, w) else (STD_ERR_OK, w(reg := v)))"
    by (simp add: defs sdi_simps)
qed

definition refused_emc :: emc142x_device where
  "refused_emc = emc142x_data_new\<lparr>emc_default_critical_threshold := replicate 8 99\<rparr>"

theorem refused_limit_is_reported_witness:
  "\<exists>ed'. sdi_emc142x_threshold_get picky_chip 0 SDI_CRITICAL_THRESHOLD 0 (ed', (\<lambda>_. 25)(6 := 0, 5 := 0)) =
     Some (STD_ERR_OK, 99, ed', (\<lambda>_. 25)(6 := 0, 5 := 0))"
proof -
  have dev: "limit_device picky_chip UNIV (\<lambda>w. w)"
    by (auto simp: limit_device_def picky_register split: if_splits)
  have shape: "emc_shape refused_emc"
    by (simp add: emc_shape_def refused_emc_def emc142x_data_new_def EMC142x_MAX_SENSORS_def)
  have vals: "emc_default_critical_threshold refused_emc ! 0 = 99"
    "emc_default_low_threshold refused_emc ! 0 = 0" "emc_default_high_threshold refused_emc ! 0 = 0"
    "emc_low_limit_reg ! 0 = 6" "emc_high_limit_reg ! 0 = 5" "fits_byte 99" "fits_byte 0"
    by code_simp+
  from refused_limit_is_reported [OF dev, where e = "SDI_ERRCODE EIO" and t = 99 and i = 0 and ed = refused_emc
      and w = "\<lambda>_. 25" and ?w1.0 = "\<lambda>_. 25" and wa = "(\<lambda>_. 25)(6 := 0)" and wb = "(\<lambda>_. 25)(6 := 0, 5 := 0)"
      and wc = "(\<lambda>_. 25)(6 := 0, 5 := 0)" and old = 0]
  show ?thesis
    using shape by (simp add: vals picky_register) blast
qed

end
