(* ===== verification/Eeprom.thy ===== *)
theory Eeprom
  imports Device
begin

text \<open>
  The identity EEPROMs of fan trays and power supplies: the EEPROM device (src/drivers/sdi\_eeprom.c)
  and the parser of the ONIE format (src/drivers/sdi\_onie\_eeprom.c).

  The buffer of a read is the list of the bytes from the pointer on; a read past it is \<open>None\<close>. The
  parser keeps the part number of the system in a static variable, which is threaded beside the
  world.
\<close>

section \<open>The EEPROM device\<close>

datatype sdi_entity_parser =
    SDI_ONIE_SYS_EEPROM | SDI_ONIE_PSU_EEPROM | SDI_ONIE_FAN_EEPROM
  | SDI_DELL_LEGACY_PSU_EEPROM | SDI_DELL_LEGACY_FAN_EEPROM | SDI_DELTA_PSU_EEPROM

record entity_info_device =
  entity_size :: u32
  no_of_fans :: u32
  max_fan_speed :: u32

record 'w eeprom_chip = "'w chip" +
  eeprom_data :: entity_info_device

text \<open>
  The loop for the 8 KiB devices: before every byte the offset is set by a dummy write, whose command
  byte is always zero and whose data byte is the low byte of the offset.
\<close>

primrec eeprom_random_read ::
    "'w sdi_i2c_bus \<Rightarrow> sdi_i2c_addr \<Rightarrow> nat \<Rightarrow> u32 \<Rightarrow> u8 list \<Rightarrow> 'w \<Rightarrow> (t_std_error \<times> u8 list \<times> 'w) option" where
  "eeprom_random_read h addr 0 offset data w = Some (STD_ERR_OK, data, w)"
| "eeprom_random_read h addr (Suc n) offset data w =
     (case data of
        [] \<Rightarrow> None
      | b # rest \<Rightarrow> do {
          (error, w) \<leftarrow> sdi_smbus_write_byte h addr 0 (ucast (offset AND 0xFF)) SDI_I2C_FLAG_NONE w;
          if error \<noteq> STD_ERR_OK then Some (error, b # rest, w)
          else do {
            (error, b, w) \<leftarrow> sdi_smbus_recv_byte h addr b SDI_I2C_FLAG_NONE w;
            if error \<noteq> STD_ERR_OK then Some (error, b # rest, w)
            else do {
              (error, rest, w) \<leftarrow> eeprom_random_read h addr n (offset + 1) rest w;
              Some (error, b # rest, w)
            }
          }
        })"

definition sdi_eeprom_read ::
    "'w eeprom_chip \<Rightarrow> u32 \<Rightarrow> u8 list \<Rightarrow> u32 \<Rightarrow> 'w \<Rightarrow> (t_std_error \<times> u8 list \<times> 'w) option" where
  "sdi_eeprom_read hdl offset data len w =
     (if entity_size (eeprom_data hdl) \<le> offset then Some (SDI_ERRCODE EINVAL, data, w)
      else if entity_size (eeprom_data hdl) = 8192 then
        eeprom_random_read (chip_bus hdl) (chip_addr hdl) (unat len) offset data w
      else if entity_size (eeprom_data hdl) = 256 then
        sdi_smbus_read_multi_byte (chip_bus hdl) (chip_addr hdl) offset data len SDI_I2C_FLAG_NONE w
      else Some (SDI_DEVICE_ERRCODE EINVAL, data, w))"

section \<open>The ONIE format\<close>

text \<open>
  What is outside of the repository: the CRC of zlib, std\_parse\_string of the OPX base library (the
  fields of a string between delimiters, of which std\_parse\_string\_next returns one after the other),
  the allocator and errno.
\<close>

record 'w onie_env =
  onie_os :: "'w os"
  onie_lib :: std_lib
  crc32 :: "u8 list \<Rightarrow> u32"
  std_parse_string :: "string \<Rightarrow> string \<Rightarrow> string list option"
  calloc_ok :: "u32 \<Rightarrow> bool"

definition byte_at :: "u8 list \<Rightarrow> nat \<Rightarrow> u8 option" where
  "byte_at buf p = (if p < length buf then Some (buf ! p) else None)"

definition bytes_at :: "u8 list \<Rightarrow> nat \<Rightarrow> nat \<Rightarrow> u8 list option" where
  "bytes_at buf p n = (if p + n \<le> length buf then Some (take n (drop p buf)) else None)"

text \<open>isprint in the C locale, where the bytes above 127 are not printable.\<close>

definition isprint :: "u8 \<Rightarrow> bool" where
  "isprint c \<longleftrightarrow> 0x20 \<le> c \<and> c \<le> 0x7E"

fun copy_chars :: "nat \<Rightarrow> u8 list \<Rightarrow> string \<Rightarrow> string option" where
  "copy_chars 0 src d = Some d"
| "copy_chars (Suc n) [] d = None"
| "copy_chars (Suc n) (c # src) d =
     (if c = 0 then Some d
      else if \<not> isprint c then Some []
      else copy_chars n src (d @ [char_of (unat c)]))"

definition copy_bytes_to_string :: "nat \<Rightarrow> u8 list \<Rightarrow> nat \<Rightarrow> string option" where
  "copy_bytes_to_string dst_size src src_size = copy_chars (min (dst_size - 1) src_size) src []"

definition NAME_MAX :: nat where "NAME_MAX = 255"
definition SDI_PPID_LEN :: nat where "SDI_PPID_LEN = 120"
definition SDI_HW_REV_LEN :: nat where "SDI_HW_REV_LEN = 8"
definition SDI_PART_NUM_LEN :: nat where "SDI_PART_NUM_LEN = 10"

text \<open>The header: the identification, a version, the length of what follows.\<close>

definition SDI_TLV_HEADER_SIZE :: nat where "SDI_TLV_HEADER_SIZE = 11"

definition tlv_total_len :: "u8 list \<Rightarrow> u16 option" where
  "tlv_total_len buf = do {
     hi \<leftarrow> byte_at buf 9;
     lo \<leftarrow> byte_at buf 10;
     Some (push_bit 8 (ucast hi) OR ucast lo)
   }"

definition onie_id_string :: "u8 list" where
  "onie_id_string = map of_char ''TlvInfo'' @ [0]"

definition sdi_onie_validate_header :: "u8 list \<Rightarrow> u32 \<Rightarrow> t_std_error option" where
  "sdi_onie_validate_header buf sz = do {
     id_string \<leftarrow> bytes_at buf 0 8;
     hdr_version \<leftarrow> byte_at buf 8;
     total_len \<leftarrow> tlv_total_len buf;
     Some (if id_string = onie_id_string \<and> hdr_version = 1 \<and>
              (ucast total_len :: u64) \<le> scast sz - of_nat SDI_TLV_HEADER_SIZE
           then STD_ERR_OK else SDI_DEVICE_ERRCODE EINVAL)
   }"

definition sdi_onie_validate_checksum :: "'w onie_env \<Rightarrow> u8 list \<Rightarrow> 'w \<Rightarrow> t_std_error option" where
  "sdi_onie_validate_checksum E buf w = do {
     total_len \<leftarrow> tlv_total_len buf;
     let crc_offset = SDI_TLV_HEADER_SIZE + unat total_len - 6;
     tag \<leftarrow> byte_at buf crc_offset;
     len \<leftarrow> byte_at buf (crc_offset + 1);
     if tag \<noteq> 0xFE \<or> len \<noteq> 4 then Some (SDI_ERRCODE (os_errno (onie_os E) w))
     else do {
       covered \<leftarrow> bytes_at buf 0 (SDI_TLV_HEADER_SIZE + unat total_len - 4);
       stored \<leftarrow> bytes_at buf (crc_offset + 2) 4;
       let stored_crc = push_bit 24 (ucast (stored ! 0)) OR push_bit 16 (ucast (stored ! 1)) OR
         push_bit 8 (ucast (stored ! 2)) OR (ucast (stored ! 3) :: u32);
       Some (if crc32 E covered = stored_crc then STD_ERR_OK else SDI_DEVICE_ERRCODE EINVAL)
     }
   }"

section \<open>The vendor extension\<close>

definition c_string :: "u8 list \<Rightarrow> string" where
  "c_string bs = map (\<lambda>c. char_of (unat c)) (takeWhile (\<lambda>c. c \<noteq> 0) bs)"

definition iana_num :: "u8 list" where "iana_num = [0x00, 0x00, 0x02, 0xA2, 0x2D]"
definition iana_ascii :: "u8 list" where "iana_ascii = map of_char ''674-''"

definition SDI_PWR_AIR_FLOW_NORMAL :: u32 where "SDI_PWR_AIR_FLOW_NORMAL = 0"
definition SDI_PWR_AIR_FLOW_REVERSE :: u32 where "SDI_PWR_AIR_FLOW_REVERSE = 1"

text \<open>The type field of the extension: \<open>None\<close> when it is not one of the known types.\<close>

definition onie_vendor_type :: "sdi_entity_parser \<Rightarrow> u32 \<Rightarrow> sdi_entity_info \<Rightarrow> sdi_entity_info option" where
  "onie_vendor_type parser_type temp info =
     (if parser_type = SDI_ONIE_PSU_EEPROM then
        (if temp = 0 then Some (info\<lparr>ac_power := True, air_flow := SDI_PWR_AIR_FLOW_NORMAL\<rparr>)
         else if temp = 1 then Some (info\<lparr>ac_power := True, air_flow := SDI_PWR_AIR_FLOW_REVERSE\<rparr>)
         else if temp = 2 then Some (info\<lparr>dc_power := True, air_flow := SDI_PWR_AIR_FLOW_NORMAL\<rparr>)
         else if temp = 3 then Some (info\<lparr>dc_power := True, air_flow := SDI_PWR_AIR_FLOW_REVERSE\<rparr>)
         else None)
      else if parser_type = SDI_ONIE_FAN_EEPROM then
        (if temp = 0 then Some (info\<lparr>air_flow := SDI_PWR_AIR_FLOW_NORMAL\<rparr>)
         else if temp = 1 then Some (info\<lparr>air_flow := SDI_PWR_AIR_FLOW_REVERSE\<rparr>)
         else None)
      else Some info)"

text \<open>
  The fields after the type, in the long or the short notation. A missing field ends the parsing
  with what was filled in so far; the terminator is only checked for the log.
\<close>

definition onie_vendor_last :: "string list \<Rightarrow> sdi_entity_info \<Rightarrow> sdi_entity_info" where
  "onie_vendor_last ts info =
     (case ts of
        [] \<Rightarrow> info
      | v # ts \<Rightarrow>
          if v = ''FANS'' then
            (case ts of [] \<Rightarrow> info | v # _ \<Rightarrow> info\<lparr>num_fans := ucast (strtoul v 0)\<rparr>)
          else info\<lparr>max_speed := ucast (strtoul v 0)\<rparr>)"

definition onie_vendor_numbers :: "string list \<Rightarrow> sdi_entity_info \<Rightarrow> sdi_entity_info" where
  "onie_vendor_numbers ts info =
     (case ts of
        [] \<Rightarrow> info
      | v # ts \<Rightarrow>
          if v = ''MAXRPM'' then
            (case ts of
               [] \<Rightarrow> info
             | v # ts \<Rightarrow> onie_vendor_last ts (info\<lparr>max_speed := ucast (strtoul v 0)\<rparr>))
          else onie_vendor_last ts (info\<lparr>num_fans := ucast (strtoul v 0)\<rparr>))"

definition onie_vendor_fields ::
    "sdi_entity_parser \<Rightarrow> string list \<Rightarrow> sdi_entity_info \<Rightarrow> sdi_entity_info" where
  "onie_vendor_fields parser_type ts info =
     (let after_name =
        (case ts of
           [] \<Rightarrow> []
         | v # rest \<Rightarrow>
             if v = ''FANTRAY'' then (if parser_type \<noteq> SDI_ONIE_FAN_EEPROM then [] else rest)
             else if v = ''PSU'' then (if parser_type \<noteq> SDI_ONIE_PSU_EEPROM then [] else rest)
             else ts)
      in case after_name of
           [] \<Rightarrow> info
         | v # ts \<Rightarrow>
             (case onie_vendor_type parser_type (ucast (strtoul v 0)) info of
                None \<Rightarrow> info
              | Some info \<Rightarrow> onie_vendor_numbers ts info))"

definition sdi_onie_fill_vendor_extn ::
    "'w onie_env \<Rightarrow> u8 list \<Rightarrow> sdi_entity_parser \<Rightarrow> sdi_entity_info \<Rightarrow> sdi_entity_info" where
  "sdi_onie_fill_vendor_extn E val parser_type info =
     (if parser_type \<noteq> SDI_ONIE_FAN_EEPROM \<and> parser_type \<noteq> SDI_ONIE_PSU_EEPROM then info
      else
        let vendor_extn = val @ replicate (256 - length val) 0;
            rest = (if take 5 vendor_extn = iana_num then Some (drop 5 vendor_extn)
                    else if take 4 vendor_extn = iana_ascii then Some (drop 4 vendor_extn)
                    else None)
        in case rest of
             None \<Rightarrow> info
           | Some r \<Rightarrow>
               (case std_parse_string E (c_string r) ''-'' of
                  None \<Rightarrow> info
                | Some ts \<Rightarrow> onie_vendor_fields parser_type ts info))"

section \<open>The fields of the EEPROM\<close>

text \<open>
  One case of the switch on the tag; \<open>p\<close> is the position of the value. The state is the entity
  information and the static part number.
\<close>

definition onie_tlv ::
    "'w onie_env \<Rightarrow> sdi_entity_parser \<Rightarrow> u8 list \<Rightarrow> nat \<Rightarrow> u8 \<Rightarrow> u8 \<Rightarrow> sdi_entity_info \<times> string
      \<Rightarrow> (sdi_entity_info \<times> string) option" where
  "onie_tlv E parser_type buf p tag len = (\<lambda>(info, part).
     let str = (\<lambda>dst_size. copy_bytes_to_string dst_size (drop p buf) (unat len)) in
     if tag = 0x21 then do { s \<leftarrow> str NAME_MAX; Some (info\<lparr>prod_name := s\<rparr>, part) }
     else if tag = 0x23 then do { s \<leftarrow> str SDI_PPID_LEN; Some (info\<lparr>ppid := s\<rparr>, part) }
     else if tag = 0x2F then do { s \<leftarrow> str NAME_MAX; Some (info\<lparr>service_tag := s\<rparr>, part) }
     else if tag = 0x27 then do { s \<leftarrow> str SDI_HW_REV_LEN; Some (info\<lparr>hw_revision := s\<rparr>, part) }
     else if tag = 0x28 then do { s \<leftarrow> str NAME_MAX; Some (info\<lparr>platform_name := s\<rparr>, part) }
     else if tag = 0x2D then do { s \<leftarrow> str NAME_MAX; Some (info\<lparr>vendor_name := s\<rparr>, part) }
     else if tag = 0x24 then
       (if unat len = length (base_mac info)
        then do { m \<leftarrow> bytes_at buf p (unat len); Some (info\<lparr>base_mac := m\<rparr>, part) }
        else Some (info, part))
     else if tag = 0x2A then do {
       lo \<leftarrow> byte_at buf (p + 1);
       hi \<leftarrow> byte_at buf p;
       Some (info\<lparr>mac_size := ucast lo OR push_bit 8 (ucast hi)\<rparr>, part)
     }
     else if tag = 0xFD then do {
       v \<leftarrow> bytes_at buf p (unat len);
       Some (sdi_onie_fill_vendor_extn E v parser_type info, part)
     }
     else if tag = 0x22 then do {
       s \<leftarrow> str SDI_PART_NUM_LEN;
       Some (info\<lparr>part_number := s\<rparr>, safestrncpy (onie_lib E) SDI_PART_NUM_LEN s)
     }
     else Some (info, part))"

lemma minus_one_less_uint: "- 1 < uint x"
  by (rule less_le_trans [of _ 0]) simp_all

text \<open>
  The loop. The cursor moves behind the value to the next field; what is subtracted from the length
  that is left is the length of that next field, and one byte for its header of two.
\<close>

function onie_fill_tlvs ::
    "'w onie_env \<Rightarrow> sdi_entity_parser \<Rightarrow> u8 list \<Rightarrow> nat \<Rightarrow> int \<Rightarrow> sdi_entity_info \<times> string
      \<Rightarrow> (sdi_entity_info \<times> string) option" where
  "onie_fill_tlvs E parser_type buf p tlv_len st =
     (if tlv_len \<le> 0 then Some st
      else do {
        tag \<leftarrow> byte_at buf p;
        len \<leftarrow> byte_at buf (p + 1);
        st \<leftarrow> onie_tlv E parser_type buf (p + 2) tag len st;
        let tlv_fld = p + (unat len + 2);
        next_len \<leftarrow> byte_at buf (tlv_fld + 1);
        onie_fill_tlvs E parser_type buf tlv_fld (tlv_len - int (unat next_len) - 1) st
      })"
  by pat_completeness auto
termination
  by (relation "measure (\<lambda>(E, parser_type, buf, p, tlv_len, st). nat tlv_len)") (auto simp: minus_one_less_uint)

declare onie_fill_tlvs.simps [simp del]

definition sdi_onie_fill_tlv_entity_info ::
    "'w onie_env \<Rightarrow> u8 list \<Rightarrow> sdi_entity_parser \<Rightarrow> string \<Rightarrow> (sdi_entity_info \<times> string) option" where
  "sdi_onie_fill_tlv_entity_info E buf parser_type part = do {
     total_len \<leftarrow> tlv_total_len buf;
     onie_fill_tlvs E parser_type buf SDI_TLV_HEADER_SIZE (int (unat total_len) - 6) (zero_entity_info, part)
   }"

section \<open>Reading the EEPROM\<close>

text \<open>The values of the configuration stand in for a speed or a number of fans that is zero.\<close>

definition onie_defaults :: "entity_info_device \<Rightarrow> sdi_entity_info \<Rightarrow> sdi_entity_info" where
  "onie_defaults d info =
     (let info = (if max_speed info = 0 then info\<lparr>max_speed := max_fan_speed d\<rparr> else info)
      in if num_fans info = 0 then info\<lparr>num_fans := no_of_fans d\<rparr> else info)"

definition sdi_onie_eeprom_data_get ::
    "'w onie_env \<Rightarrow> 'w eeprom_chip \<Rightarrow> sdi_entity_parser \<Rightarrow> (sdi_entity_info, string \<times> 'w) query" where
  "sdi_onie_eeprom_data_get E chip format info0 = (\<lambda>(part, w). do {
     let d = eeprom_data chip;
     STD_ASSERT (entity_size d \<noteq> 0);
     if \<not> calloc_ok E (entity_size d) then Some (SDI_DEVICE_ERRCODE ENOMEM, info0, part, w)
     else do {
       let buf = replicate (unat (entity_size d)) 0;
       (rc, buf, w) \<leftarrow> sdi_eeprom_read chip 0 buf (of_nat SDI_TLV_HEADER_SIZE) w;
       if rc \<noteq> STD_ERR_OK then Some (rc, info0, part, w)
       else do {
         rc \<leftarrow> sdi_onie_validate_header buf (entity_size d);
         if rc \<noteq> STD_ERR_OK then Some (rc, info0, part, w)
         else do {
           total_tlv_data_size \<leftarrow> tlv_total_len buf;
           (_, rest, w) \<leftarrow> sdi_eeprom_read chip (of_nat SDI_TLV_HEADER_SIZE) (drop SDI_TLV_HEADER_SIZE buf)
             (ucast total_tlv_data_size) w;
           let buf = take SDI_TLV_HEADER_SIZE buf @ rest;
           rc \<leftarrow> sdi_onie_validate_checksum E buf w;
           if rc \<noteq> STD_ERR_OK then Some (rc, info0, part, w)
           else case format of
             SDI_ONIE_SYS_EEPROM \<Rightarrow> do {
               (info, part) \<leftarrow> sdi_onie_fill_tlv_entity_info E buf SDI_ONIE_SYS_EEPROM part;
               Some (rc, info, part, w)
             }
           | SDI_ONIE_PSU_EEPROM \<Rightarrow> do {
               (info, part) \<leftarrow> sdi_onie_fill_tlv_entity_info E buf SDI_ONIE_PSU_EEPROM part;
               Some (rc, onie_defaults d info, part, w)
             }
           | SDI_ONIE_FAN_EEPROM \<Rightarrow> do {
               (info, part) \<leftarrow> sdi_onie_fill_tlv_entity_info E buf SDI_ONIE_FAN_EEPROM part;
               Some (rc, onie_defaults d info, part, w)
             }
           | _ \<Rightarrow> Some (SDI_DEVICE_ERRCODE EPERM, info0, part, w)
         }
       }
     }
   })"

definition sdi_onie_sys_eeprom_data_get ::
    "'w onie_env \<Rightarrow> 'w eeprom_chip \<Rightarrow> (sdi_entity_info, string \<times> 'w) query" where
  "sdi_onie_sys_eeprom_data_get E chip = sdi_onie_eeprom_data_get E chip SDI_ONIE_SYS_EEPROM"

definition sdi_onie_psu_eeprom_data_get ::
    "'w onie_env \<Rightarrow> 'w eeprom_chip \<Rightarrow> (sdi_entity_info, string \<times> 'w) query" where
  "sdi_onie_psu_eeprom_data_get E chip = sdi_onie_eeprom_data_get E chip SDI_ONIE_PSU_EEPROM"

definition sdi_onie_fan_eeprom_data_get ::
    "'w onie_env \<Rightarrow> 'w eeprom_chip \<Rightarrow> (sdi_entity_info, string \<times> 'w) query" where
  "sdi_onie_fan_eeprom_data_get E chip = sdi_onie_eeprom_data_get E chip SDI_ONIE_FAN_EEPROM"

end
