(* ===== verification/Dell_Eeprom.thy ===== *)
theory Dell_Eeprom
  imports Eeprom
begin

text \<open>
  The parsers of the Dell legacy and Delta EEPROMs, src/drivers/sdi\_dell\_eeprom.c, and the
  registration of an EEPROM device with one of the parsers (src/drivers/sdi\_eeprom.c).
\<close>

section \<open>The fields\<close>

record sdi_eeprom_info =
  field_name :: string
  field_offset :: u32
  field_size :: u16

definition sdi_dell_legacy_fan_eeprom_info :: "sdi_eeprom_info list" where
  "sdi_dell_legacy_fan_eeprom_info = [
     \<lparr>field_name = ''DELL_LEGACY_EEPROM_PPID'', field_offset = 6, field_size = 20\<rparr>,
     \<lparr>field_name = ''DELL_LEGACY_EEPROM_REV'', field_offset = 26, field_size = 3\<rparr>,
     \<lparr>field_name = ''DELL_LEGACY_EEPROM_SERVICE_TAG'', field_offset = 29, field_size = 7\<rparr>,
     \<lparr>field_name = ''DELL_LEGACY_EEPROM_PART_NUM'', field_offset = 36, field_size = 10\<rparr>,
     \<lparr>field_name = ''DELL_LEGACY_FAN_COUNT'', field_offset = 134, field_size = 1\<rparr>,
     \<lparr>field_name = ''DELL_LEGACY_FAN_TYPE'', field_offset = 135, field_size = 1\<rparr>]"

definition sdi_dell_legacy_psu_eeprom_info :: "sdi_eeprom_info list" where
  "sdi_dell_legacy_psu_eeprom_info = [
     \<lparr>field_name = ''DELL_LEGACY_EEPROM_PPID'', field_offset = 6, field_size = 20\<rparr>,
     \<lparr>field_name = ''DELL_LEGACY_EEPROM_REV'', field_offset = 26, field_size = 3\<rparr>,
     \<lparr>field_name = ''DELL_LEGACY_EEPROM_SERVICE_TAG'', field_offset = 29, field_size = 7\<rparr>,
     \<lparr>field_name = ''DELL_LEGACY_EEPROM_PART_NUM'', field_offset = 36, field_size = 10\<rparr>,
     \<lparr>field_name = ''DELL_LEGACY_PSU_TYPE'', field_offset = 134, field_size = 1\<rparr>]"

definition sdi_delta_psu_eeprom_info :: "sdi_eeprom_info list" where
  "sdi_delta_psu_eeprom_info = [
     \<lparr>field_name = ''DELTA_PSU_SERIAL_NUM'', field_offset = 0xC4, field_size = 20\<rparr>,
     \<lparr>field_name = ''DELTA_PSU_PART_NUM'', field_offset = 0xD8, field_size = 6\<rparr>,
     \<lparr>field_name = ''DELTA_PSU_LABEL_REV'', field_offset = 0xDE, field_size = 3\<rparr>,
     \<lparr>field_name = ''DELTA_PSU_FAN_AIRFLOW'', field_offset = 0xE1, field_size = 7\<rparr>,
     \<lparr>field_name = ''DELTA_PSU_POWER_SRC'', field_offset = 0xE8, field_size = 5\<rparr>,
     \<lparr>field_name = ''DELTA_PSU_POWER_WATT'', field_offset = 0xED, field_size = 4\<rparr>,
     \<lparr>field_name = ''DELTA_PSU_FAN_NUMBER'', field_offset = 0xF1, field_size = 1\<rparr>,
     \<lparr>field_name = ''DELTA_PSU_FAN_SPEED'', field_offset = 0xF2, field_size = 5\<rparr>]"

section \<open>One field of a Dell legacy EEPROM\<close>

text \<open>Every update of the result comes with the code that the loop continues with.\<close>

definition dell_fan_type :: "u8 \<Rightarrow> sdi_entity_info \<Rightarrow> t_std_error \<times> sdi_entity_info" where
  "dell_fan_type v info =
     (if v = 1 then (STD_ERR_OK, info\<lparr>air_flow := SDI_PWR_AIR_FLOW_NORMAL\<rparr>)
      else if v = 2 then (STD_ERR_OK, info\<lparr>air_flow := SDI_PWR_AIR_FLOW_REVERSE\<rparr>)
      else (SDI_DEVICE_ERR_CFG, info))"

definition dell_psu_type :: "u8 \<Rightarrow> sdi_entity_info \<Rightarrow> t_std_error \<times> sdi_entity_info" where
  "dell_psu_type v info =
     (if v = 1 then (STD_ERR_OK, info\<lparr>ac_power := True, air_flow := SDI_PWR_AIR_FLOW_NORMAL\<rparr>)
      else if v = 2 then (STD_ERR_OK, info\<lparr>ac_power := True, air_flow := SDI_PWR_AIR_FLOW_REVERSE\<rparr>)
      else if v = 3 then (STD_ERR_OK, info\<lparr>dc_power := True, air_flow := SDI_PWR_AIR_FLOW_NORMAL\<rparr>)
      else if v = 4 then (STD_ERR_OK, info\<lparr>dc_power := True, air_flow := SDI_PWR_AIR_FLOW_REVERSE\<rparr>)
      else (SDI_DEVICE_ERR_CFG, info))"

definition has_prefix :: "string \<Rightarrow> string \<Rightarrow> bool" where
  "has_prefix s p = strncmp_eq s p (length p)"

definition dell_legacy_field ::
    "sdi_eeprom_info \<Rightarrow> u8 list \<Rightarrow> sdi_entity_info \<Rightarrow> (t_std_error \<times> sdi_entity_info) option" where
  "dell_legacy_field f data info =
     (let name = field_name f;
          str = (\<lambda>dst_size. copy_bytes_to_string dst_size data (unat (field_size f)))
      in if has_prefix name ''DELL_LEGACY_FAN_TYPE'' then do { v \<leftarrow> byte_at data 0; Some (dell_fan_type v info) }
         else if has_prefix name ''DELL_LEGACY_PSU_TYPE'' then do { v \<leftarrow> byte_at data 0; Some (dell_psu_type v info) }
         else if has_prefix name ''DELL_LEGACY_FAN_COUNT'' then
           do { v \<leftarrow> byte_at data 0; Some (STD_ERR_OK, info\<lparr>num_fans := ucast v\<rparr>) }
         else if has_prefix name ''DELL_LEGACY_EEPROM_PPID'' then do {
           a \<leftarrow> str NAME_MAX;
           b \<leftarrow> str SDI_PPID_LEN;
           Some (STD_ERR_OK, info\<lparr>prod_name := a, ppid := b\<rparr>)
         }
         else if name = ''DELL_LEGACY_EEPROM_REV'' then
           do { a \<leftarrow> str SDI_HW_REV_LEN; Some (STD_ERR_OK, info\<lparr>hw_revision := a\<rparr>) }
         else if name = ''DELL_LEGACY_EEPROM_SERVICE_TAG'' then
           do { a \<leftarrow> str NAME_MAX; Some (STD_ERR_OK, info\<lparr>service_tag := a\<rparr>) }
         else if name = ''DELL_LEGACY_EEPROM_PART_NUM'' then
           do { a \<leftarrow> str SDI_PART_NUM_LEN; Some (STD_ERR_OK, info\<lparr>part_number := a\<rparr>) }
         else Some (STD_ERR_OK, info))"

section \<open>One field of a Delta EEPROM\<close>

definition strstr :: "string \<Rightarrow> string \<Rightarrow> bool" where
  "strstr s t \<longleftrightarrow> (\<exists>i \<in> set [0..<Suc (length s)]. take (length t) (drop i s) = t)"

definition delta_atoi :: "u8 list \<Rightarrow> nat \<Rightarrow> u32 option" where
  "delta_atoi data n = do { bs \<leftarrow> bytes_at data 0 n; Some (atoi (c_string bs)) }"

definition delta_power_src :: "string \<Rightarrow> sdi_entity_info \<Rightarrow> t_std_error \<times> sdi_entity_info" where
  "delta_power_src temp info =
     (let info = (if strstr temp ''DC'' then info\<lparr>dc_power := True\<rparr> else info);
          info = (if strstr temp ''AC'' then info\<lparr>ac_power := True\<rparr> else info)
      in (if dc_power info \<or> ac_power info then STD_ERR_OK else SDI_DEVICE_ERR_CFG, info))"

definition delta_air_flow :: "u8 list \<Rightarrow> sdi_entity_info \<Rightarrow> t_std_error \<times> sdi_entity_info" where
  "delta_air_flow data info =
     (if take 7 data = map of_char ''REVERSE'' then (STD_ERR_OK, info\<lparr>air_flow := SDI_PWR_AIR_FLOW_REVERSE\<rparr>)
      else if take 7 data = map of_char ''FORWARD'' then (STD_ERR_OK, info\<lparr>air_flow := SDI_PWR_AIR_FLOW_NORMAL\<rparr>)
      else (SDI_DEVICE_ERR_CFG, info))"

definition delta_field ::
    "sdi_eeprom_info \<Rightarrow> u8 list \<Rightarrow> sdi_entity_info \<Rightarrow> (t_std_error \<times> sdi_entity_info) option" where
  "delta_field f data info =
     (let off = field_offset f; n = unat (field_size f);
          str = (\<lambda>dst_size. copy_bytes_to_string dst_size data n)
      in if off = 0xC4 then do { a \<leftarrow> str SDI_PPID_LEN; Some (STD_ERR_OK, info\<lparr>ppid := a\<rparr>) }
         else if off = 0xD8 then do { a \<leftarrow> str SDI_PART_NUM_LEN; Some (STD_ERR_OK, info\<lparr>part_number := a\<rparr>) }
         else if off = 0xDE then do { a \<leftarrow> str SDI_HW_REV_LEN; Some (STD_ERR_OK, info\<lparr>hw_revision := a\<rparr>) }
         else if off = 0xE8 then do { bs \<leftarrow> bytes_at data 0 n; Some (delta_power_src (c_string bs) info) }
         else if off = 0xE1 then Some (delta_air_flow data info)
         else if off = 0xED then do { v \<leftarrow> delta_atoi data n; Some (STD_ERR_OK, info\<lparr>power_rating := v\<rparr>) }
         else if off = 0xF1 then do { v \<leftarrow> delta_atoi data n; Some (STD_ERR_OK, info\<lparr>num_fans := v\<rparr>) }
         else if off = 0xF2 then do { v \<leftarrow> delta_atoi data n; Some (STD_ERR_OK, info\<lparr>max_speed := v\<rparr>) }
         else Some (STD_ERR_OK, info))"

section \<open>Reading all fields\<close>

text \<open>
  The loop of both parsers: every field is read into the same local buffer of 64 bytes, an error of
  the bus ends the loop, and the code of a field is overwritten by the read of the next one.
\<close>

primrec eeprom_fields ::
    "(sdi_eeprom_info \<Rightarrow> u8 list \<Rightarrow> sdi_entity_info \<Rightarrow> (t_std_error \<times> sdi_entity_info) option)
      \<Rightarrow> 'w eeprom_chip \<Rightarrow> sdi_eeprom_info list \<Rightarrow> u8 list \<Rightarrow> t_std_error \<Rightarrow> sdi_entity_info \<Rightarrow> 'w
      \<Rightarrow> (t_std_error \<times> sdi_entity_info \<times> 'w) option" where
  "eeprom_fields field chip [] data rc info w = Some (rc, info, w)"
| "eeprom_fields field chip (f # fs) data rc info w = do {
     (rc, data, w) \<leftarrow> sdi_smbus_read_multi_byte (chip_bus chip) (chip_addr chip) (field_offset f) data
       (ucast (field_size f)) SDI_I2C_FLAG_NONE w;
     if rc \<noteq> STD_ERR_OK then Some (rc, info, w)
     else do {
       (rc, info) \<leftarrow> field f data info;
       eeprom_fields field chip fs data rc info w
     }
   }"

definition configured_info :: "entity_info_device \<Rightarrow> sdi_entity_info" where
  "configured_info d = zero_entity_info\<lparr>num_fans := no_of_fans d, max_speed := max_fan_speed d\<rparr>"

definition sdi_delta_psu_eeprom_info_fill ::
    "'w eeprom_chip \<Rightarrow> sdi_entity_parser \<Rightarrow> 'w \<Rightarrow> (t_std_error \<times> sdi_entity_info \<times> 'w) option" where
  "sdi_delta_psu_eeprom_info_fill chip parser_type w =
     (let info = configured_info (eeprom_data chip) in
      if parser_type = SDI_DELTA_PSU_EEPROM
      then eeprom_fields delta_field chip sdi_delta_psu_eeprom_info (replicate 64 0) STD_ERR_OK info w
      else Some (SDI_DEVICE_ERR_PARAM, info, w))"

definition sdi_dell_legacy_info_fill ::
    "'w eeprom_chip \<Rightarrow> sdi_entity_parser \<Rightarrow> 'w \<Rightarrow> (t_std_error \<times> sdi_entity_info \<times> 'w) option" where
  "sdi_dell_legacy_info_fill chip parser_type w =
     (let info = configured_info (eeprom_data chip) in
      case parser_type of
        SDI_DELL_LEGACY_PSU_EEPROM \<Rightarrow>
          eeprom_fields dell_legacy_field chip sdi_dell_legacy_psu_eeprom_info (replicate 64 0) STD_ERR_OK info w
      | SDI_DELL_LEGACY_FAN_EEPROM \<Rightarrow>
          eeprom_fields dell_legacy_field chip sdi_dell_legacy_fan_eeprom_info (replicate 64 0) STD_ERR_OK info w
      | _ \<Rightarrow> Some (SDI_DEVICE_ERR_PARAM, info, w))"

definition sdi_delta_eeprom_data_get ::
    "'w eeprom_chip \<Rightarrow> sdi_entity_parser \<Rightarrow> (sdi_entity_info, 'w) query" where
  "sdi_delta_eeprom_data_get chip format info w =
     (case format of
        SDI_DELTA_PSU_EEPROM \<Rightarrow> sdi_delta_psu_eeprom_info_fill chip SDI_DELTA_PSU_EEPROM w
      | _ \<Rightarrow> Some (SDI_DEVICE_ERRCODE EPERM, info, w))"

definition sdi_dell_legacy_eeprom_data_get ::
    "'w eeprom_chip \<Rightarrow> sdi_entity_parser \<Rightarrow> (sdi_entity_info, 'w) query" where
  "sdi_dell_legacy_eeprom_data_get chip format info w =
     (case format of
        SDI_DELL_LEGACY_PSU_EEPROM \<Rightarrow> sdi_dell_legacy_info_fill chip SDI_DELL_LEGACY_PSU_EEPROM w
      | SDI_DELL_LEGACY_FAN_EEPROM \<Rightarrow> sdi_dell_legacy_info_fill chip SDI_DELL_LEGACY_FAN_EEPROM w
      | _ \<Rightarrow> Some (SDI_DEVICE_ERRCODE EPERM, info, w))"

section \<open>Registration\<close>

text \<open>The Dell parsers do not touch the part number that the ONIE parser keeps.\<close>

definition beside_part :: "(sdi_entity_info, 'w) query \<Rightarrow> (sdi_entity_info, string \<times> 'w) query" where
  "beside_part f info = (\<lambda>(part, w). do { (e, info, w) \<leftarrow> f info w; Some (e, info, part, w) })"

definition eeprom_table :: "'w onie_env \<Rightarrow> 'w eeprom_chip \<Rightarrow> string \<Rightarrow> (string \<times> 'w) entity_info_ctrl option" where
  "eeprom_table E chip parser =
     (let table = (\<lambda>f. Some \<lparr>ei_init = None, entity_info_data_get = f\<rparr>) in
      if has_prefix parser ''ONIE_SYS_EEPROM'' then table (sdi_onie_sys_eeprom_data_get E chip)
      else if has_prefix parser ''ONIE_PSU_EEPROM'' then table (sdi_onie_psu_eeprom_data_get E chip)
      else if has_prefix parser ''ONIE_FAN_EEPROM'' then table (sdi_onie_fan_eeprom_data_get E chip)
      else if has_prefix parser ''DELL_PSU_EEPROM'' then
        table (beside_part (sdi_dell_legacy_eeprom_data_get chip SDI_DELL_LEGACY_PSU_EEPROM))
      else if has_prefix parser ''DELTA_PSU_EEPROM'' then
        table (beside_part (sdi_delta_eeprom_data_get chip SDI_DELTA_PSU_EEPROM))
      else if has_prefix parser ''DELL_FAN_EEPROM'' then
        table (beside_part (sdi_dell_legacy_eeprom_data_get chip SDI_DELL_LEGACY_FAN_EEPROM))
      else None)"

definition number_attr :: "config_node \<Rightarrow> string \<Rightarrow> u32" where
  "number_attr node a = (case std_config_attr_get node a of None \<Rightarrow> 0 | Some v \<Rightarrow> ucast (strtoul v 0))"

definition sdi_eeprom_register ::
    "'w onie_env \<Rightarrow> config_node \<Rightarrow> 'w sdi_i2c_bus \<Rightarrow> (string \<times> 'w) sdi_sys
      \<Rightarrow> (t_std_error \<times> 'w eeprom_chip \<times> (string \<times> 'w) sdi_sys) option" where
  "sdi_eeprom_register E node bus_handle s = do {
     STD_ASSERT (bus_type (bus bus_handle) = SDI_I2C_BUS);
     inst_attr \<leftarrow> std_config_attr_get node ''instance'';
     addr \<leftarrow> std_config_attr_get node ''addr'';
     let inst = ucast (strtoul inst_attr 0);
     let chip = \<lparr>chip_bus = bus_handle,
       chip_addr = \<lparr>i2c_addr = ucast (strtoul addr 16),
         addr_mode_16bit = (std_config_attr_get node ''dev_addr_mode_16bit'' = Some ''enabled'')\<rparr>,
       chip_instance = inst,
       chip_alias = (case std_config_attr_get node ''alias'' of
           None \<Rightarrow> snprintf SDI_MAX_NAME_LEN (''eeprom-'' @ signed_decimal (sint inst))
         | Some a \<Rightarrow> safestrncpy (onie_lib E) SDI_MAX_NAME_LEN a),
       eeprom_data = \<lparr>entity_size = number_attr node ''size'', no_of_fans = number_attr node ''no_of_fans'',
         max_fan_speed = number_attr node ''max_fan_speed''\<rparr>\<rparr>;
     parser \<leftarrow> std_config_attr_get node ''parser'';
     table \<leftarrow> eeprom_table E chip parser;
     Some (STD_ERR_OK, chip, sdi_resource_add (onie_lib E) SDI_RESOURCE_ENTITY_INFO (chip_alias chip)
       (Entity_Info_Fns table) s)
   }"

end
