(* ===== verification/Onie_Image.thy ===== *)
theory Onie_Image
  imports Dell_Eeprom
begin

text \<open>
  What the ONIE parser makes of an image: an independent description of the format (how a list of
  fields is laid out, and what each field means), and the proof that the parser of
  src/drivers/sdi\_onie\_eeprom.c, reading the device byte by byte, computes it, as long as it stays
  inside its buffer.
\<close>

section \<open>The format\<close>

text \<open>A field is a tag and the bytes of its value; the image has a header, the fields and a checksum.\<close>

type_synonym tlv = "u8 \<times> u8 list"

definition tlv_bytes :: "tlv \<Rightarrow> u8 list" where
  "tlv_bytes f = fst f # of_nat (length (snd f)) # snd f"

definition onie_body :: "tlv list \<Rightarrow> u8 list" where
  "onie_body fs = concat (map tlv_bytes fs)"

definition onie_header :: "nat \<Rightarrow> u8 list" where
  "onie_header n = onie_id_string @ [1, of_nat (n div 256), of_nat n]"

definition onie_covered :: "tlv list \<Rightarrow> u8 list" where
  "onie_covered fs = onie_header (length (onie_body fs) + 6) @ onie_body fs @ [0xFE, 4]"

definition be32 :: "u32 \<Rightarrow> u8 list" where
  "be32 c = [ucast (drop_bit 24 c), ucast (drop_bit 16 c), ucast (drop_bit 8 c), ucast c]"

definition onie_image :: "'w onie_env \<Rightarrow> tlv list \<Rightarrow> u8 list" where
  "onie_image E fs = onie_covered fs @ be32 (crc32 E (onie_covered fs))"

text \<open>The value of the number-of-MACs field has two bytes.\<close>

definition tlv_ok :: "tlv \<Rightarrow> bool" where
  "tlv_ok f \<longleftrightarrow> length (snd f) < 256 \<and> (fst f = 0x2A \<longrightarrow> 2 \<le> length (snd f))"

text \<open>
  The text of a value in a string of \<open>n\<close> characters: up to the first NUL, and nothing when a
  character before it is not printable.
\<close>

definition tlv_text :: "nat \<Rightarrow> u8 list \<Rightarrow> string" where
  "tlv_text n v =
     (let s = takeWhile (\<lambda>c. c \<noteq> 0) (take n v)
      in if list_all isprint s then map (\<lambda>c. char_of (unat c)) s else [])"

definition tlv_meaning ::
    "'w onie_env \<Rightarrow> sdi_entity_parser \<Rightarrow> tlv \<Rightarrow> sdi_entity_info \<times> string \<Rightarrow> sdi_entity_info \<times> string" where
  "tlv_meaning E parser_type f = (\<lambda>(info, part).
     let tag = fst f; v = snd f in
     if tag = 0x21 then (info\<lparr>prod_name := tlv_text 254 v\<rparr>, part)
     else if tag = 0x22 then (info\<lparr>part_number := tlv_text 9 v\<rparr>, safestrncpy (onie_lib E) 10 (tlv_text 9 v))
     else if tag = 0x23 then (info\<lparr>ppid := tlv_text 119 v\<rparr>, part)
     else if tag = 0x24 then (if length v = length (base_mac info) then (info\<lparr>base_mac := v\<rparr>, part) else (info, part))
     else if tag = 0x27 then (info\<lparr>hw_revision := tlv_text 7 v\<rparr>, part)
     else if tag = 0x28 then (info\<lparr>platform_name := tlv_text 254 v\<rparr>, part)
     else if tag = 0x2A then (info\<lparr>mac_size := of_nat (256 * unat (v ! 0) + unat (v ! 1))\<rparr>, part)
     else if tag = 0x2D then (info\<lparr>vendor_name := tlv_text 254 v\<rparr>, part)
     else if tag = 0x2F then (info\<lparr>service_tag := tlv_text 254 v\<rparr>, part)
     else if tag = 0xFD then (sdi_onie_fill_vendor_extn E v parser_type info, part)
     else (info, part))"

section \<open>Reading from the buffer\<close>

lemma copy_chars_eq:
  "n \<le> length src \<Longrightarrow> copy_chars n src d =
    Some (let s = takeWhile (\<lambda>c. c \<noteq> 0) (take n src)
          in if list_all isprint s then d @ map (\<lambda>c. char_of (unat c)) s else [])"
proof (induction n src d rule: copy_chars.induct)
  case (3 n c src d)
  then show ?case by (auto simp: Let_def)
qed simp_all

lemma copy_bytes_to_string_eq:
  assumes "drop p buf = v @ rest"
  shows "copy_bytes_to_string (Suc m) (drop p buf) (length v) = Some (tlv_text m v)"
proof -
  have "take (min m (length v)) (v @ rest) = take m v" by (simp add: take_append min_def)
  then show ?thesis
    using copy_chars_eq [of "min m (length v)" "v @ rest" "[]"]
    by (simp add: copy_bytes_to_string_def assms tlv_text_def Let_def)
qed

lemma drop_eq_length:
  assumes "drop p buf = v @ rest" and "v \<noteq> []"
  shows "length buf = p + length v + length rest"
  using arg_cong [OF assms(1), of length] assms(2) by (cases "p \<le> length buf") auto

lemma byte_at_drop: "byte_at buf (p + i) = byte_at (drop p buf) i"
  by (auto simp: byte_at_def)

lemma bytes_at_eq:
  assumes "drop p buf = v @ rest" and "v \<noteq> []"
  shows "bytes_at buf p (length v) = Some v"
  using assms drop_eq_length [OF assms] by (simp add: bytes_at_def)

lemma byte_at_eq:
  assumes "drop p buf = v @ rest" and "i < length v"
  shows "byte_at buf (p + i) = Some (v ! i)"
  unfolding byte_at_drop assms(1) using assms(2) by (simp add: byte_at_def nth_append)

lemma big_endian_16:
  "ucast (lo :: u8) OR push_bit 8 (ucast (hi :: u8)) = (of_nat (256 * unat hi + unat lo) :: u32)"
proof -
  have "ucast lo AND push_bit 8 (ucast hi) = (0 :: u32)"
    by (rule bit_word_eqI) (auto simp: bit_simps dest: bit_imp_le_length)
  then have "ucast lo OR push_bit 8 (ucast hi) = (ucast lo + push_bit 8 (ucast hi) :: u32)"
    using word_plus_and_or [of "ucast lo :: u32" "push_bit 8 (ucast hi)"] by simp
  also have "\<dots> = of_nat (256 * unat hi + unat lo)"
    by (simp add: push_bit_eq_mult)
  finally show ?thesis .
qed

text \<open>One field: the parser does what the field means.\<close>

lemma onie_tlv_meaning:
  assumes p: "drop p buf = v @ rest" and v: "v \<noteq> [] \<or> p \<le> length buf" and len: "unat len = length v"
    and ok: "tlv_ok (tag, v)"
  shows "onie_tlv E parser_type buf p tag len st = Some (tlv_meaning E parser_type (tag, v) st)"
proof -
  have str: "n = length v \<Longrightarrow> copy_bytes_to_string NAME_MAX (drop p buf) n = Some (tlv_text 254 v)"
    "n = length v \<Longrightarrow> copy_bytes_to_string SDI_PPID_LEN (drop p buf) n = Some (tlv_text 119 v)"
    "n = length v \<Longrightarrow> copy_bytes_to_string SDI_HW_REV_LEN (drop p buf) n = Some (tlv_text 7 v)"
    "n = length v \<Longrightarrow> copy_bytes_to_string 10 (drop p buf) n = Some (tlv_text 9 v)" for n
    using copy_bytes_to_string_eq [OF p, of 254] copy_bytes_to_string_eq [OF p, of 119]
      copy_bytes_to_string_eq [OF p, of 7] copy_bytes_to_string_eq [OF p, of 9]
    by (simp_all add: NAME_MAX_def SDI_PPID_LEN_def SDI_HW_REV_LEN_def)
  have bytes: "n = length v \<Longrightarrow> bytes_at buf p n = Some v" for n
    using bytes_at_eq [OF p] v by (cases "v = []") (auto simp: bytes_at_def)
  have mac: "byte_at buf p = Some (v ! 0)" "byte_at buf (Suc p) = Some (v ! 1)" if "tag = 0x2A"
  proof -
    have "0 < length v" "1 < length v" using ok that by (auto simp: tlv_ok_def)
    from byte_at_eq [OF p this(1)] byte_at_eq [OF p this(2)]
    show "byte_at buf p = Some (v ! 0)" "byte_at buf (Suc p) = Some (v ! 1)" by simp_all
  qed
  show ?thesis
    by (cases st) (auto simp: onie_tlv_def tlv_meaning_def str bytes mac len Let_def big_endian_16
        SDI_PART_NUM_LEN_def)
qed

section \<open>The loop over the fields\<close>

lemma unat_length_u8: "n < 256 \<Longrightarrow> unat (of_nat n :: u8) = n"
  by (simp add: unat_of_nat)

text \<open>What the loop has left to do before a field, and after it.\<close>

definition tlvs_len :: "tlv list \<Rightarrow> int" where
  "tlvs_len fs = sum_list (map (\<lambda>f. int (length (snd f)) + 1) fs)"

lemma length_onie_body: "int (length (onie_body fs)) = tlvs_len fs + int (length fs)"
  by (induction fs) (auto simp: onie_body_def tlvs_len_def tlv_bytes_def)

lemma tlvs_len_nonneg: "0 \<le> tlvs_len fs"
  by (induction fs) (auto simp: tlvs_len_def)

lemma onie_fill_tlvs_field:
  assumes p: "drop p buf = tlv_bytes f @ rest" and ok: "tlv_ok f" and "0 < n"
  shows "onie_fill_tlvs E parser_type buf p n st = do {
    next_len \<leftarrow> byte_at rest 1;
    onie_fill_tlvs E parser_type buf (p + length (tlv_bytes f)) (n - int (unat next_len) - 1)
      (tlv_meaning E parser_type f st) }"
proof -
  obtain tag v where f: "f = (tag, v)" by (cases f)
  have len: "unat (of_nat (length v) :: u8) = length v"
    using ok f by (simp add: tlv_ok_def unat_length_u8)
  have "length buf = p + length (tlv_bytes f) + length rest"
    using drop_eq_length [OF p] by (simp add: tlv_bytes_def)
  moreover have "byte_at buf p = Some tag" "byte_at buf (p + 1) = Some (of_nat (length v))"
    using byte_at_eq [OF p, of 0] byte_at_eq [OF p, of 1] by (simp_all add: tlv_bytes_def f)
  moreover have "drop (p + 2) buf = v @ rest"
    using arg_cong [OF p, of "drop 2"] by (simp add: tlv_bytes_def f add.commute)
  moreover have "drop (p + length (tlv_bytes f)) buf = rest"
    using arg_cong [OF p, of "drop (length (tlv_bytes f))"] by (simp add: add.commute)
  then have "byte_at buf (p + (length v + 2) + 1) = byte_at rest 1"
    using byte_at_drop [of buf "p + (length v + 2)" 1] by (simp add: tlv_bytes_def f)
  ultimately show ?thesis
    using onie_tlv_meaning [of "p + 2" buf v rest "of_nat (length v)" tag E parser_type st] ok len \<open>0 < n\<close>
    by (subst onie_fill_tlvs.simps) (simp add: f tlv_bytes_def Let_def)
qed

text \<open>
  The fields up to the header of what follows: every field is paid for by the length of the next one.
\<close>

lemma onie_fill_tlvs_body:
  "drop p buf = onie_body (f # fs) @ t # l # rest \<Longrightarrow> \<forall>f \<in> set (f # fs). tlv_ok f \<Longrightarrow> 0 < int (unat l) + 1 + k \<Longrightarrow>
    onie_fill_tlvs E parser_type buf p (tlvs_len fs + (int (unat l) + 1 + k)) st =
    onie_fill_tlvs E parser_type buf (p + length (onie_body (f # fs))) k
      (fold (tlv_meaning E parser_type) (f # fs) st)"
proof (induction fs arbitrary: f p st)
  case Nil
  have p: "drop p buf = tlv_bytes f @ t # l # rest" using Nil(1) by (simp add: onie_body_def)
  then show ?case
    using onie_fill_tlvs_field [OF p, of "int (unat l) + 1 + k" E parser_type st] Nil(2,3)
    by (simp add: tlvs_len_def onie_body_def byte_at_def)
next
  case (Cons g fs)
  have p: "drop p buf = tlv_bytes f @ onie_body (g # fs) @ t # l # rest"
    using Cons.prems(1) by (simp add: onie_body_def)
  have pos: "0 < tlvs_len (g # fs) + (int (unat l) + 1 + k)"
    using tlvs_len_nonneg [of "g # fs"] Cons.prems(3) by linarith
  have ok: "tlv_ok f" "\<forall>f \<in> set (g # fs). tlv_ok f" "tlv_ok g" using Cons.prems(2) by simp_all
  have p': "drop (p + length (tlv_bytes f)) buf = onie_body (g # fs) @ t # l # rest"
    using arg_cong [OF p, of "drop (length (tlv_bytes f))"] by (simp add: add.commute)
  have "byte_at (onie_body (g # fs) @ t # l # rest) 1 = Some (of_nat (length (snd g)))"
    by (simp add: onie_body_def tlv_bytes_def byte_at_def)
  moreover have "unat (of_nat (length (snd g)) :: u8) = length (snd g)"
    using ok(3) by (simp add: tlv_ok_def unat_length_u8)
  moreover have "tlvs_len (g # fs) + (int (unat l) + 1 + k) - int (length (snd g)) - 1 =
      tlvs_len fs + (int (unat l) + 1 + k)"
    by (simp add: tlvs_len_def)
  ultimately have "onie_fill_tlvs E parser_type buf p (tlvs_len (g # fs) + (int (unat l) + 1 + k)) st =
      onie_fill_tlvs E parser_type buf (p + length (tlv_bytes f)) (tlvs_len fs + (int (unat l) + 1 + k))
        (tlv_meaning E parser_type f st)"
    unfolding onie_fill_tlvs_field [OF p ok(1) pos] by (simp only: Option.bind.bind_lunit)
  then show ?case
    unfolding Cons.IH [OF p' ok(2) Cons.prems(3)] by (simp add: onie_body_def add.assoc)
qed

text \<open>Bytes that are zero are fields without a value: two bytes are read for each, and the next two.\<close>

lemma onie_fill_tlvs_zeros:
  "drop p buf = replicate m 0 \<Longrightarrow> onie_fill_tlvs E parser_type buf p (int k) st =
    (if k = 0 \<or> 2 * k + 2 \<le> m then Some st else None)"
proof (induction k arbitrary: p m st)
  case 0
  then show ?case by (subst onie_fill_tlvs.simps) simp
next
  case (Suc k)
  consider "m = 0" | "m = 1" | m' where "m = Suc (Suc m')"
    by (metis One_nat_def not0_implies_Suc)
  then show ?case
  proof cases
    case 1
    then show ?thesis using Suc.prems by (subst onie_fill_tlvs.simps) (simp add: byte_at_def)
  next
    case 2
    then have "length buf = Suc p" using drop_eq_length [of p buf "[0]" "[]"] Suc.prems by simp
    then show ?thesis using 2 by (subst onie_fill_tlvs.simps) (auto simp: byte_at_def)
  next
    case 3
    have p: "drop p buf = tlv_bytes (0, []) @ replicate m' 0"
      using Suc.prems 3 by (simp add: tlv_bytes_def)
    have p': "drop (p + 2) buf = replicate m' 0"
      using arg_cong [OF p, of "drop 2"] by (simp add: tlv_bytes_def add.commute)
    have "tlv_meaning E parser_type (0, []) st = st"
      by (cases st) (simp add: tlv_meaning_def)
    then have step: "onie_fill_tlvs E parser_type buf p (int (Suc k)) st =
        (if 2 \<le> m' then onie_fill_tlvs E parser_type buf (p + 2) (int k) st else None)"
      using onie_fill_tlvs_field [OF p, of "int (Suc k)" E parser_type st]
      by (simp add: tlv_ok_def tlv_bytes_def byte_at_def)
    show ?thesis unfolding step Suc.IH [OF p'] using 3 by auto
  qed
qed

text \<open>
  The whole parse. The length that the loop counts down is that of all fields with two bytes of
  header each, but the length of the first field and one byte of every header are never subtracted,
  so the loop goes on behind the checksum field; that takes two bytes a round.
\<close>

definition onie_overrun :: "tlv list \<Rightarrow> nat" where
  "onie_overrun fs = (case fs of [] \<Rightarrow> 0 | f # _ \<Rightarrow> 2 * (length (snd f) + length fs - 4))"

lemma onie_fill_image:
  assumes p: "drop p buf = onie_body fs @ [0xFE, 4] @ crc @ replicate m 0" and "length crc = 4"
    and ok: "\<forall>f \<in> set fs. tlv_ok f"
  shows "onie_fill_tlvs E parser_type buf p (int (length (onie_body fs))) st =
    (if onie_overrun fs \<le> m then Some (fold (tlv_meaning E parser_type) fs st) else None)"
proof (cases fs)
  case Nil
  then show ?thesis by (subst onie_fill_tlvs.simps) (simp add: onie_body_def onie_overrun_def)
next
  case (Cons f gs)
  let ?st = "fold (tlv_meaning E parser_type) fs st" and ?p = "p + length (onie_body fs)"
  let ?k = "int (length (snd f) + length fs) - 4"
  have u: "int (unat (4 :: u8)) = 4" by simp
  have "int (length (onie_body fs)) = tlvs_len gs + (int (unat (4 :: u8)) + 1 + ?k)"
    using length_onie_body [of fs] Cons by (simp add: tlvs_len_def)
  moreover have "0 < int (unat (4 :: u8)) + 1 + ?k" using Cons by simp
  moreover have "drop p buf = onie_body (f # gs) @ 0xFE # 4 # crc @ replicate m 0" using p Cons by simp
  ultimately have body: "onie_fill_tlvs E parser_type buf p (int (length (onie_body fs))) st =
      onie_fill_tlvs E parser_type buf ?p ?k ?st"
    using onie_fill_tlvs_body [of p buf f gs "0xFE" 4 "crc @ replicate m 0" ?k] ok Cons by simp
  have p1: "drop ?p buf = tlv_bytes (0xFE, crc) @ replicate m 0"
    using arg_cong [OF p, of "drop (length (onie_body fs))"] assms(2) by (simp add: tlv_bytes_def add.commute)
  have p2: "drop (?p + 6) buf = replicate m 0"
    using arg_cong [OF p1, of "drop 6"] assms(2) by (simp add: tlv_bytes_def add.commute)
  have over: "onie_overrun fs = 2 * (length (snd f) + length fs - 4)" by (simp add: onie_overrun_def Cons)
  show ?thesis
  proof (cases "?k \<le> 0")
    case True
    then have "onie_overrun fs = 0" using over by simp
    then show ?thesis unfolding body using True by (subst onie_fill_tlvs.simps) simp
  next
    case False
    define k where "k = length (snd f) + length fs - 5"
    have k: "?k = int k + 1" "onie_overrun fs = 2 * k + 2" using False over by (simp_all add: k_def)
    have "tlv_meaning E parser_type (0xFE, crc) ?st = ?st"
      by (cases ?st) (simp add: tlv_meaning_def)
    then have "onie_fill_tlvs E parser_type buf ?p (int k + 1) ?st =
        (if 2 \<le> m then onie_fill_tlvs E parser_type buf (?p + 6) (int k) ?st else None)"
      using onie_fill_tlvs_field [OF p1, of "int k + 1" E parser_type ?st] assms(2)
      by (auto simp: tlv_ok_def tlv_bytes_def byte_at_def)
    then show ?thesis
      unfolding body k onie_fill_tlvs_zeros [OF p2] by auto
  qed
qed

section \<open>Reading an image from the device\<close>

lemma onie_image_eq:
  "onie_image E fs = onie_header (length (onie_body fs) + 6) @ onie_body fs @ [0xFE, 4] @
     be32 (crc32 E (onie_covered fs))"
  by (simp add: onie_image_def onie_covered_def)

lemma length_onie_header [simp]: "length (onie_header n) = 11"
  by (simp add: onie_header_def onie_id_string_def)

lemma length_onie_image: "length (onie_image E fs) = length (onie_body fs) + 17"
  by (simp add: onie_image_eq be32_def)

lemma unat_u16_u64: "unat (ucast (x :: u16) :: u64) = unat x"
  by (transfer, simp)

lemma ucast_u16_of_nat: "m < 256 \<Longrightarrow> (ucast (of_nat m :: u16) :: u32) = of_nat m"
  by (simp add: word_unat_eq_iff unat_of_nat)

lemma ucast_of_nat_u32: "(ucast (of_nat n :: u32) :: u8) = of_nat n"
  by (rule bit_word_eqI) (auto simp: bit_simps)

lemma registers_from_image:
  assumes "\<forall>i < length img. regs (of_nat i) = img ! i" and "k + n \<le> length img"
  shows "registers_from regs (of_nat k) n = take n (drop k img)"
proof (rule nth_equalityI)
  show "length (registers_from regs (of_nat k) n) = length (take n (drop k img))"
    using assms(2) by simp
  fix i assume "i < length (registers_from regs (of_nat k) n)"
  then have i: "i < n" by simp
  have "(ucast (of_nat k + of_nat i :: u32) :: u8) = of_nat (k + i)"
    using ucast_of_nat_u32 [of "k + i"] by simp
  then show "registers_from regs (of_nat k) n ! i = take n (drop k img) ! i"
    using assms(1) [rule_format, of "k + i"] assms(2) i by (simp add: registers_from_def)
qed

lemma eeprom_read_256:
  assumes R: "register_file (chip_bus chip) (chip_addr chip) regs" and "entity_size (eeprom_data chip) = 256"
    and img: "\<forall>i < length img. regs w (of_nat i) = img ! i"
    and "k + n \<le> length img" and "k < 256" and "n < 256" and "n \<le> length buf"
  shows "\<exists>w'. sdi_eeprom_read chip (of_nat k) buf (of_nat n) w =
    Some (STD_ERR_OK, take n (drop k img) @ drop n buf, w') \<and> regs w' = regs w"
proof -
  have un: "unat (of_nat n :: u32) = n" using assms(6) by (simp add: unat_of_nat)
  have "\<not> (256 :: u32) \<le> of_nat k"
    using assms(5) by (simp add: word_le_nat_alt unat_of_nat)
  then show ?thesis
    using register_read_multi [OF R, of "of_nat n" buf "of_nat k" w] assms(2,7) registers_from_image [OF img assms(4)]
    by (simp add: sdi_eeprom_read_def un)
qed

lemma tlv_total_len_header:
  assumes "n < 256"
  shows "tlv_total_len (onie_header n @ rest) = Some (of_nat n)"
proof -
  have "byte_at (onie_header n @ rest) 9 = Some (of_nat (n div 256))" "byte_at (onie_header n @ rest) 10 = Some (of_nat n)"
    by (simp_all add: byte_at_def onie_header_def onie_id_string_def nth_append)
  moreover have "(ucast (of_nat n :: u8) :: u16) = of_nat n"
    using assms by (simp add: word_unat_eq_iff unat_of_nat)
  ultimately show ?thesis using assms by (simp add: tlv_total_len_def)
qed

lemma be32_value:
  "push_bit 24 (ucast (be32 c ! 0)) OR push_bit 16 (ucast (be32 c ! 1)) OR
     push_bit 8 (ucast (be32 c ! 2)) OR (ucast (be32 c ! 3) :: u32) = c"
proof (rule bit_word_eqI)
  fix n assume "n < LENGTH(32)"
  then consider "n < 8" | "8 \<le> n" "n < 16" | "16 \<le> n" "n < 24" | "24 \<le> n" "n < 32"
    by fastforce
  then show "bit (push_bit 24 (ucast (be32 c ! 0)) OR push_bit 16 (ucast (be32 c ! 1)) OR
      push_bit 8 (ucast (be32 c ! 2)) OR (ucast (be32 c ! 3) :: u32)) n = bit c n"
    by cases (auto simp: be32_def bit_simps)
qed

lemma checksum_of_image:
  assumes "length (onie_image E fs) \<le> 256"
  shows "sdi_onie_validate_checksum E (onie_image E fs @ zeros) w = Some STD_ERR_OK"
proof -
  let ?n = "length (onie_body fs)" and ?c = "be32 (crc32 E (onie_covered fs))"
  let ?buf = "onie_image E fs @ zeros"
  have n: "?n + 6 < 256" using assms by (simp add: length_onie_image)
  have total: "tlv_total_len ?buf = Some (of_nat (?n + 6))"
    unfolding onie_image_eq append_assoc by (rule tlv_total_len_header [OF n])
  have len: "unat (of_nat (?n + 6) :: u16) = ?n + 6" using n by (simp only: unat_of_nat) simp
  have tail: "drop (11 + ?n) ?buf = [0xFE, 4] @ ?c @ zeros"
    by (simp add: onie_image_eq)
  have crc: "byte_at ?buf (11 + ?n) = Some 0xFE" "byte_at ?buf (11 + ?n + 1) = Some 4"
    using byte_at_eq [OF tail, of 0] byte_at_eq [OF tail, of 1] by simp_all
  have stored: "bytes_at ?buf (11 + ?n + 2) 4 = Some ?c"
  proof -
    have "drop 2 (drop (11 + ?n) ?buf) = ?c @ zeros" unfolding tail by simp
    then have "drop (11 + ?n + 2) ?buf = ?c @ zeros" by (simp only: drop_drop add.commute)
    moreover have "length ?c = 4" "?c \<noteq> []" by (simp_all add: be32_def)
    ultimately show ?thesis using bytes_at_eq [of "11 + ?n + 2" ?buf ?c zeros] by simp
  qed
  have "bytes_at ?buf 0 (13 + ?n) = Some (onie_covered fs)"
    by (simp add: bytes_at_def onie_image_def onie_covered_def be32_def)
  moreover have "11 + (?n + 6) - 6 = 11 + ?n" "11 + (?n + 6) - 4 = 13 + ?n" by simp_all
  ultimately show ?thesis
    unfolding sdi_onie_validate_checksum_def total SDI_TLV_HEADER_SIZE_def Option.bind.bind_lunit len Let_def
    using crc stored be32_value [of "crc32 E (onie_covered fs)"] by simp
qed

text \<open>The result for one of the three ONIE parsers.\<close>

definition onie_result ::
    "'w onie_env \<Rightarrow> 'w eeprom_chip \<Rightarrow> sdi_entity_parser \<Rightarrow> tlv list \<Rightarrow> string \<Rightarrow> sdi_entity_info \<times> string" where
  "onie_result E chip format fs part =
     (let (info, part) = fold (tlv_meaning E format) fs (zero_entity_info, part)
      in (if format = SDI_ONIE_SYS_EEPROM then info else onie_defaults (eeprom_data chip) info, part))"

text \<open>The whole read: header, contents, checksum and parse.\<close>

lemma onie_data_get:
  assumes "register_file (chip_bus chip) (chip_addr chip) regs"
    and "entity_size (eeprom_data chip) = 256" and "calloc_ok E 256"
    and "\<forall>f \<in> set fs. tlv_ok f" and "length (onie_image E fs) \<le> 256"
    and "\<forall>i < length (onie_image E fs). regs w (of_nat i) = onie_image E fs ! i"
    and "format \<in> {SDI_ONIE_SYS_EEPROM, SDI_ONIE_PSU_EEPROM, SDI_ONIE_FAN_EEPROM}"
  shows "\<exists>w'. sdi_onie_eeprom_data_get E chip format info (part, w) =
    (if onie_overrun fs \<le> 256 - length (onie_image E fs)
     then Some (STD_ERR_OK, fst (onie_result E chip format fs part), snd (onie_result E chip format fs part), w')
     else None)"
proof -
  let ?img = "onie_image E fs" and ?n = "length (onie_body fs)"
  let ?slack = "256 - length (onie_image E fs)"
  let ?buf = "onie_image E fs @ replicate ?slack 0"
  have n: "?n + 6 < 256" "?n + 17 \<le> 256" using assms(5) by (simp_all add: length_onie_image)
  obtain w1 where w1: "sdi_eeprom_read chip 0 (replicate 256 0) 11 w =
      Some (STD_ERR_OK, take 11 ?img @ replicate 245 0, w1)" "regs w1 = regs w"
    using eeprom_read_256 [OF assms(1,2,6), of 0 11 "replicate 256 0"] by (auto simp: length_onie_image)
  have hdr: "take 11 ?img = onie_header (?n + 6)" by (simp add: onie_image_eq)
  have total: "tlv_total_len (onie_header (?n + 6) @ r) = Some (of_nat (?n + 6))" for r
    by (rule tlv_total_len_header [OF n(1)])
  have len: "unat (of_nat (?n + 6) :: u16) = ?n + 6" using n by (simp only: unat_of_nat) simp
  have "ucast (of_nat (?n + 6) :: u16) \<le> scast (256 :: u32) - (of_nat 11 :: u64)"
  proof -
    have "unat (ucast (of_nat (?n + 6) :: u16) :: u64) = ?n + 6" using len by (simp only: unat_u16_u64)
    then show ?thesis using n unfolding word_le_nat_alt by simp
  qed
  then have header: "sdi_onie_validate_header (onie_header (?n + 6) @ replicate 245 0) 256 = Some STD_ERR_OK"
    using total [of "replicate 245 0"]
    by (simp add: sdi_onie_validate_header_def bytes_at_def byte_at_def SDI_TLV_HEADER_SIZE_def)
      (simp add: onie_header_def onie_id_string_def)
  obtain w2 where "sdi_eeprom_read chip (of_nat 11) (replicate 245 0) (of_nat (?n + 6)) w1 =
      Some (STD_ERR_OK, take (?n + 6) (drop 11 ?img) @ drop (?n + 6) (replicate 245 0), w2)"
    using eeprom_read_256 [OF assms(1,2), of "?img" w1 11 "?n + 6" "replicate 245 0"] assms(6) w1(2) n
    by (auto simp: length_onie_image)
  moreover have "take (?n + 6) (drop 11 ?img) = drop 11 ?img" by (simp add: length_onie_image)
  moreover have "drop (?n + 6) (replicate 245 0) = (replicate ?slack 0 :: u8 list)"
    using n by (simp add: length_onie_image)
  moreover have "(ucast (of_nat (?n + 6) :: u16) :: u32) = of_nat (?n + 6)"
    using n(1) by (rule ucast_u16_of_nat)
  ultimately have w2: "sdi_eeprom_read chip 11 (replicate 245 0) (ucast (of_nat (?n + 6) :: u16)) w1 =
      Some (STD_ERR_OK, drop 11 ?img @ replicate ?slack 0, w2)" by simp
  have glue: "onie_header (?n + 6) @ drop 11 ?img @ z = ?img @ z" for z by (simp add: onie_image_eq)
  have parse: "sdi_onie_fill_tlv_entity_info E ?buf format part =
      (if onie_overrun fs \<le> ?slack then Some (fold (tlv_meaning E format) fs (zero_entity_info, part)) else None)"
  proof -
    have "tlv_total_len ?buf = Some (of_nat (?n + 6))"
      unfolding onie_image_eq append_assoc by (rule total)
    moreover have "drop 11 ?buf = onie_body fs @ [0xFE, 4] @ be32 (crc32 E (onie_covered fs)) @ replicate ?slack 0"
      by (simp add: onie_image_eq)
    from onie_fill_image [OF this _ assms(4), of E format "(zero_entity_info, part)"]
    have "onie_fill_tlvs E format ?buf 11 (int (?n + 6) - 6) (zero_entity_info, part) =
        (if onie_overrun fs \<le> ?slack then Some (fold (tlv_meaning E format) fs (zero_entity_info, part)) else None)"
      by (simp add: be32_def)
    ultimately show ?thesis
      unfolding sdi_onie_fill_tlv_entity_info_def SDI_TLV_HEADER_SIZE_def by (simp only: Option.bind.bind_lunit len)
  qed
  note check = checksum_of_image [OF assms(5), of "replicate ?slack 0" w2]
  have "(256 :: u32) \<noteq> 0" "unat (256 :: u32) = 256" by simp_all
  then have "sdi_onie_eeprom_data_get E chip format info (part, w) =
      (case format of
         SDI_ONIE_SYS_EEPROM \<Rightarrow> do {
           (info, part) \<leftarrow> sdi_onie_fill_tlv_entity_info E ?buf SDI_ONIE_SYS_EEPROM part;
           Some (STD_ERR_OK, info, part, w2) }
       | SDI_ONIE_PSU_EEPROM \<Rightarrow> do {
           (info, part) \<leftarrow> sdi_onie_fill_tlv_entity_info E ?buf SDI_ONIE_PSU_EEPROM part;
           Some (STD_ERR_OK, onie_defaults (eeprom_data chip) info, part, w2) }
       | SDI_ONIE_FAN_EEPROM \<Rightarrow> do {
           (info, part) \<leftarrow> sdi_onie_fill_tlv_entity_info E ?buf SDI_ONIE_FAN_EEPROM part;
           Some (STD_ERR_OK, onie_defaults (eeprom_data chip) info, part, w2) }
       | _ \<Rightarrow> Some (SDI_DEVICE_ERRCODE EPERM, info, part, w2))"
    using w1(1) w2 header total [of "replicate 245 0"] check
    by (simp add: sdi_onie_eeprom_data_get_def assms(2,3) hdr SDI_TLV_HEADER_SIZE_def glue Let_def
        cong: sdi_entity_parser.case_cong)
  then show ?thesis
    using assms(7) parse by (auto simp: onie_result_def split: prod.split)
qed

text \<open>
  C32. The ONIE parser computes the meaning of the image, if the image leaves room behind it. Let a
  256 byte EEPROM on a register device hold the image of any list of well-formed fields. Reading it
  with one of the ONIE parsers succeeds and returns the fold of the meanings of the fields, when
  the EEPROM is at least \<open>2 (l + n - 4)\<close> bytes longer than the image of \<open>n\<close> fields of which the first
  has a value of \<open>l\<close> bytes; otherwise the parser reads behind its buffer. (The loop never subtracts
  the length of the first field and counts one byte of each header of two, so it runs on into the
  bytes behind the checksum.)
\<close>

theorem onie_parser_meaning:
  assumes "register_file (chip_bus chip) (chip_addr chip) regs"
    and "entity_size (eeprom_data chip) = 256" and "calloc_ok E 256"
    and "\<forall>f \<in> set fs. tlv_ok f" and "length (onie_image E fs) \<le> 256"
    and "\<forall>i < length (onie_image E fs). regs w (of_nat i) = onie_image E fs ! i"
    and "format \<in> {SDI_ONIE_SYS_EEPROM, SDI_ONIE_PSU_EEPROM, SDI_ONIE_FAN_EEPROM}"
  shows "\<exists>w'. sdi_onie_eeprom_data_get E chip format info (part, w) =
    (if onie_overrun fs \<le> 256 - length (onie_image E fs)
     then Some (STD_ERR_OK, fst (onie_result E chip format fs part), snd (onie_result E chip format fs part), w')
     else None)"
  by (rule onie_data_get [OF assms])

text \<open>A sample EEPROM, whose CRC is the constant zero.\<close>

definition sample_onie_env :: "(u8 \<Rightarrow> u8) onie_env" where
  "sample_onie_env = \<lparr>onie_os = quiet_os, onie_lib = sample_lib, crc32 = (\<lambda>_. 0),
     std_parse_string = (\<lambda>s d. None), calloc_ok = (\<lambda>_. True)\<rparr>"

definition sample_eeprom_chip :: "(u8 \<Rightarrow> u8) eeprom_chip" where
  "sample_eeprom_chip = \<lparr>chip_bus = sample_bus, chip_addr = sample_chip_addr, chip_instance = 0,
     chip_alias = ''eeprom-0'', eeprom_data = \<lparr>entity_size = 256, no_of_fans = 2, max_fan_speed = 18000\<rparr>\<rparr>"

text \<open>The contents of an EEPROM that holds a list of bytes.\<close>

definition eeprom_contents :: "u8 list \<Rightarrow> u8 \<Rightarrow> u8" where
  "eeprom_contents img a = (if unat a < length img then img ! unat a else 0)"

lemma eeprom_contents_nth:
  assumes "length img \<le> 256" and "i < length img"
  shows "eeprom_contents img (of_nat i) = img ! i"
  using assms by (simp add: eeprom_contents_def unat_of_nat)

lemma sample_eeprom_chip_simps [simp]:
  "chip_bus sample_eeprom_chip = sample_bus" "chip_addr sample_eeprom_chip = sample_chip_addr"
  "eeprom_data sample_eeprom_chip = \<lparr>entity_size = 256, no_of_fans = 2, max_fan_speed = 18000\<rparr>"
  "calloc_ok sample_onie_env n"
  by (simp_all add: sample_eeprom_chip_def sample_onie_env_def)

theorem onie_parser_meaning_witness:
  "let img = onie_image sample_onie_env [(0x23, map of_char ''PP1''), (0x27, map of_char ''A0'')]
   in \<exists>w'. sdi_onie_eeprom_data_get sample_onie_env sample_eeprom_chip SDI_ONIE_PSU_EEPROM zero_entity_info
        (''X'', eeprom_contents img) =
      Some (STD_ERR_OK, zero_entity_info\<lparr>ppid := ''PP1'', hw_revision := ''A0'', max_speed := 18000, num_fans := 2\<rparr>,
        ''X'', w')"
proof -
  let ?fs = "[(0x23, map of_char ''PP1''), (0x27, map of_char ''A0'')] :: tlv list"
  let ?img = "onie_image sample_onie_env ?fs"
  have len: "length ?img = 26" by (simp add: length_onie_image onie_body_def tlv_bytes_def)
  have "register_file (chip_bus sample_eeprom_chip) (chip_addr sample_eeprom_chip) (\<lambda>w. w)"
    by (simp add: sample_register_file)
  from onie_parser_meaning [OF this, of sample_onie_env ?fs "eeprom_contents ?img" SDI_ONIE_PSU_EEPROM
      zero_entity_info "''X''"] len
  have "\<exists>w'. sdi_onie_eeprom_data_get sample_onie_env sample_eeprom_chip SDI_ONIE_PSU_EEPROM zero_entity_info
        (''X'', eeprom_contents ?img) =
      Some (STD_ERR_OK, fst (onie_result sample_onie_env sample_eeprom_chip SDI_ONIE_PSU_EEPROM ?fs ''X''),
        snd (onie_result sample_onie_env sample_eeprom_chip SDI_ONIE_PSU_EEPROM ?fs ''X''), w')"
    by (simp add: tlv_ok_def eeprom_contents_nth onie_overrun_def)
  moreover have "onie_result sample_onie_env sample_eeprom_chip SDI_ONIE_PSU_EEPROM ?fs ''X'' =
      (zero_entity_info\<lparr>ppid := ''PP1'', hw_revision := ''A0'', max_speed := 18000, num_fans := 2\<rparr>, ''X'')"
    by code_simp
  ultimately show ?thesis by (simp add: Let_def)
qed

end
