(* ===== verification/Onie_Roundtrip.thy ===== *)
theory Onie_Roundtrip
  imports Onie_Image
begin

text \<open>
  Writing and reading back: the entity information of a system board, laid out as the nine fields the
  parser knows, is what the parser of src/drivers/sdi\_onie\_eeprom.c returns.
\<close>

section \<open>Writing the entity information\<close>

definition onie_text :: "nat \<Rightarrow> string \<Rightarrow> bool" where
  "onie_text n s \<longleftrightarrow> length s \<le> n \<and> (\<forall>c \<in> set s. isprint (of_char c))"

definition entity_tlvs :: "sdi_entity_info \<Rightarrow> tlv list" where
  "entity_tlvs info =
     [(0x21, map of_char (prod_name info)), (0x22, map of_char (part_number info)),
      (0x23, map of_char (ppid info)), (0x24, base_mac info), (0x27, map of_char (hw_revision info)),
      (0x28, map of_char (platform_name info)),
      (0x2A, [ucast (drop_bit 8 (mac_size info)), ucast (mac_size info)]),
      (0x2D, map of_char (vendor_name info)), (0x2F, map of_char (service_tag info))]"

text \<open>The fields fit, and what the format has no field for is zero.\<close>

definition onie_printable :: "sdi_entity_info \<Rightarrow> bool" where
  "onie_printable info \<longleftrightarrow>
     onie_text 254 (prod_name info) \<and> onie_text 9 (part_number info) \<and> onie_text 119 (ppid info) \<and>
     onie_text 7 (hw_revision info) \<and> onie_text 254 (platform_name info) \<and>
     onie_text 254 (vendor_name info) \<and> onie_text 254 (service_tag info) \<and>
     length (base_mac info) = 6 \<and> mac_size info < 65536 \<and>
     num_fans info = 0 \<and> max_speed info = 0 \<and> air_flow info = 0 \<and> power_rating info = 0 \<and>
     \<not> ac_power info \<and> \<not> dc_power info"

section \<open>Reading it back\<close>

lemma unat_of_char_u8: "unat (of_char c :: u8) = of_char c"
proof -
  have "unat (of_nat (of_char c) :: u8) = of_char c"
    using nat_of_char_less_256 [of c] by (simp add: unat_of_nat)
  then show ?thesis by (simp only: of_nat_of_char)
qed

lemma tlv_text_of_string:
  assumes "onie_text n s"
  shows "tlv_text n (map of_char s) = s"
proof -
  have print: "\<forall>c \<in> set s. isprint (of_char c)" and len: "length s \<le> n"
    using assms by (simp_all add: onie_text_def)
  have "(of_char c :: u8) \<noteq> 0" if "c \<in> set s" for c
    using print [rule_format, OF that] by (auto simp: isprint_def)
  then have "takeWhile (\<lambda>c. c \<noteq> 0) (take n (map of_char s)) = (map of_char s :: u8 list)"
    using len by (auto simp: takeWhile_eq_all_conv)
  then show ?thesis
    using print by (simp add: tlv_text_def list_all_iff unat_of_char_u8 comp_def)
qed

lemma mac_size_bytes:
  assumes "(m :: u32) < 65536"
  shows "(of_nat (256 * unat (ucast (drop_bit 8 m) :: u8) + unat (ucast m :: u8)) :: u32) = m"
proof -
  have m: "unat m < 65536" using assms by (simp add: word_less_nat_alt)
  have hi: "(ucast (drop_bit 8 m) :: u8) = of_nat (unat m div 256)"
  proof -
    have "drop_bit 8 m = of_nat (unat m div 256)"
      using m by (simp add: drop_bit_eq_div word_unat_eq_iff unat_div unat_of_nat)
    then show ?thesis by (simp only: ucast_of_nat_u32)
  qed
  have lo: "(ucast m :: u8) = of_nat (unat m)"
    using ucast_of_nat_u32 [of "unat m"] by simp
  from m have "256 * unat (ucast (drop_bit 8 m) :: u8) + unat (ucast m :: u8) = unat m"
    unfolding hi lo by (simp only: unat_of_nat) simp
  then show ?thesis by (simp only: of_nat_unat ucast_id)
qed

lemma entity_tlvs_ok: "onie_printable info \<Longrightarrow> \<forall>f \<in> set (entity_tlvs info). tlv_ok f"
  by (simp add: onie_printable_def entity_tlvs_def tlv_ok_def onie_text_def)

lemma entity_tlvs_meaning:
  assumes "onie_printable info"
  shows "fold (tlv_meaning E parser_type) (entity_tlvs info) (zero_entity_info, part) =
    (info, safestrncpy (onie_lib E) 10 (part_number info))"
  using assms
  by (cases info) (simp add: onie_printable_def entity_tlvs_def tlv_meaning_def tlv_text_of_string
      zero_entity_info_def mac_size_bytes [simplified])

text \<open>
  C33. What is written is read back. Lay out the entity information of a system board as a list of
  ONIE fields (product name, part number, PPID, base MAC, revision, platform, number of MACs, vendor,
  service tag), with strings that are printable and fit, in a 256 byte EEPROM with \<open>2 (l + 5)\<close>
  bytes to spare, where \<open>l\<close> is the length of the product name. Then the system parser reads the device without an error and returns exactly this
  entity information, whatever the buffer of the caller held before, and the static part number
  becomes that of the EEPROM.
\<close>

theorem onie_roundtrip:
  assumes "register_file (chip_bus chip) (chip_addr chip) regs"
    and "entity_size (eeprom_data chip) = 256" and "calloc_ok E 256"
    and "onie_printable info"
    and "length (onie_image E (entity_tlvs info)) + 2 * (length (prod_name info) + 5) \<le> 256"
    and "\<forall>i < length (onie_image E (entity_tlvs info)). regs w (of_nat i) = onie_image E (entity_tlvs info) ! i"
  shows "\<exists>w'. sdi_onie_sys_eeprom_data_get E chip buffer (part, w) =
    Some (STD_ERR_OK, info, safestrncpy (onie_lib E) 10 (part_number info), w')"
proof -
  have "onie_overrun (entity_tlvs info) = 2 * (length (prod_name info) + 5)"
    by (simp add: entity_tlvs_def onie_overrun_def)
  moreover have "onie_result E chip SDI_ONIE_SYS_EEPROM (entity_tlvs info) part =
      (info, safestrncpy (onie_lib E) 10 (part_number info))"
    using assms(4) by (simp add: onie_result_def entity_tlvs_meaning)
  moreover have "2 * (length (prod_name info) + 5) \<le> 256 - length (onie_image E (entity_tlvs info))"
    "length (onie_image E (entity_tlvs info)) \<le> 256"
    using assms(5) by simp_all
  ultimately show ?thesis
    using onie_data_get [OF assms(1-3) entity_tlvs_ok [OF assms(4)] _ assms(6), of SDI_ONIE_SYS_EEPROM buffer part]
    by (simp add: sdi_onie_sys_eeprom_data_get_def)
qed

definition sample_board :: sdi_entity_info where
  "sample_board = zero_entity_info\<lparr>prod_name := ''S6000'', ppid := ''CN0'', hw_revision := ''A0'',
     platform_name := ''x86_64'', vendor_name := ''Dell'', service_tag := ''7Q'', mac_size := 384,
     base_mac := [0, 1, 2, 3, 4, 0xF0], part_number := ''0W8N''\<rparr>"

theorem onie_roundtrip_witness:
  "\<exists>w'. sdi_onie_sys_eeprom_data_get sample_onie_env sample_eeprom_chip zero_entity_info
      (''X'', eeprom_contents (onie_image sample_onie_env (entity_tlvs sample_board))) =
    Some (STD_ERR_OK, sample_board, safestrncpy (onie_lib sample_onie_env) 10 ''0W8N'', w')"
proof -
  let ?img = "onie_image sample_onie_env (entity_tlvs sample_board)"
  have len: "length ?img = 69"
    by (simp add: length_onie_image onie_body_def tlv_bytes_def entity_tlvs_def sample_board_def zero_entity_info_def)
  have "register_file (chip_bus sample_eeprom_chip) (chip_addr sample_eeprom_chip) (\<lambda>w. w)"
    by (simp add: sample_register_file)
  moreover have "onie_printable sample_board" by code_simp
  moreover have "part_number sample_board = ''0W8N''" "prod_name sample_board = ''S6000''"
    by (simp_all add: sample_board_def)
  ultimately show ?thesis
    using onie_roundtrip [of sample_eeprom_chip "\<lambda>w. w" sample_onie_env sample_board "eeprom_contents ?img"
        zero_entity_info "''X''"] len by (simp add: eeprom_contents_nth)
qed

end
