(* ===== verification/Dell_Errors.thy ===== *)
theory Dell_Errors
  imports Dell_Eeprom Onie_Image
begin

text \<open>
  Which configuration errors of an EEPROM reach the caller of the parsers of
  src/drivers/sdi\_dell\_eeprom.c: only those of the field that is read last.
\<close>

section \<open>Fields never run out of their buffer\<close>

lemma copy_bytes_total:
  assumes "n \<le> length data"
  shows "\<exists>s. copy_bytes_to_string k data n = Some s"
  using copy_chars_eq [of "min (k - 1) n" data "[]"] assms by (simp add: copy_bytes_to_string_def)

text \<open>The fields of a table are total on a buffer of 64 bytes.\<close>

definition total_field ::
    "(sdi_eeprom_info \<Rightarrow> u8 list \<Rightarrow> sdi_entity_info \<Rightarrow> (t_std_error \<times> sdi_entity_info) option)
      \<Rightarrow> sdi_eeprom_info \<Rightarrow> bool" where
  "total_field field f \<longleftrightarrow> 0 < field_size f \<and> field_size f \<le> 64 \<and>
     (\<forall>data info. length data = 64 \<longrightarrow> field f data info \<noteq> None)"

lemma total_fieldI:
  assumes "0 < field_size f" and "field_size f \<le> 64"
    and "\<And>data info. length data = 64 \<Longrightarrow> unat (field_size f) \<le> length data \<Longrightarrow> field f data info \<noteq> None"
  shows "total_field field f"
proof -
  have "unat (field_size f) \<le> 64" using assms(2) by (simp add: word_le_nat_alt)
  then show ?thesis using assms by (auto simp: total_field_def)
qed

lemma total_dell_legacy_field:
  assumes "0 < field_size f" and "field_size f \<le> 64"
  shows "total_field dell_legacy_field f"
proof (rule total_fieldI [OF assms])
  fix data :: "u8 list" and info
  assume "length data = 64" and n: "unat (field_size f) \<le> length data"
  then have "byte_at data 0 \<noteq> None" by (simp add: byte_at_def)
  moreover have "copy_bytes_to_string k data (unat (field_size f)) \<noteq> None" for k
    using copy_bytes_total [OF n] by auto
  ultimately show "dell_legacy_field f data info \<noteq> None"
    by (auto simp: dell_legacy_field_def Let_def simp del: not_None_eq split: Option.bind_split)
qed

lemma total_delta_field:
  assumes "0 < field_size f" and "field_size f \<le> 64"
  shows "total_field delta_field f"
proof (rule total_fieldI [OF assms])
  fix data :: "u8 list" and info
  assume n: "unat (field_size f) \<le> length data"
  then have "bytes_at data 0 (unat (field_size f)) \<noteq> None" by (simp add: bytes_at_def)
  moreover have "copy_bytes_to_string k data (unat (field_size f)) \<noteq> None" for k
    using copy_bytes_total [OF n] by auto
  ultimately show "delta_field f data info \<noteq> None"
    by (auto simp: delta_field_def delta_atoi_def Let_def simp del: not_None_eq split: Option.bind_split)
qed

section \<open>The loop on a register device\<close>

lemma eeprom_field_read:
  assumes R: "register_file (chip_bus chip) (chip_addr chip) regs"
    and f: "total_field field f" and data: "length data = 64"
  obtains data' w' where "sdi_smbus_read_multi_byte (chip_bus chip) (chip_addr chip) (field_offset f) data
        (ucast (field_size f)) SDI_I2C_FLAG_NONE w = Some (STD_ERR_OK, data', w')"
    and "length data' = 64" and "regs w' = regs w" and "data' ! 0 = regs w (ucast (field_offset f))"
proof -
  let ?n = "unat (field_size f)"
  have n: "0 < ?n" "?n \<le> 64" using f by (simp_all add: total_field_def word_le_nat_alt word_less_nat_alt)
  have u: "unat (ucast (field_size f) :: u32) = ?n" by (transfer, simp)
  obtain w' where w': "sdi_smbus_read_multi_byte (chip_bus chip) (chip_addr chip) (field_offset f) data
        (ucast (field_size f)) SDI_I2C_FLAG_NONE w =
      Some (STD_ERR_OK, registers_from (regs w) (field_offset f) ?n @ drop ?n data, w')" "regs w' = regs w"
    using register_read_multi [OF R, of "ucast (field_size f)" data "field_offset f" w] n data u by auto
  moreover have "length (registers_from (regs w) (field_offset f) ?n @ drop ?n data) = 64" using n data by simp
  moreover have "(registers_from (regs w) (field_offset f) ?n @ drop ?n data) ! 0 = regs w (ucast (field_offset f))"
    using n(1) by (cases ?n) (simp_all add: registers_from_Suc)
  ultimately show ?thesis using that by metis
qed

lemma total_fieldD:
  assumes "total_field field f" and "length data = 64"
  obtains rc info' where "field f data info = Some (rc, info')"
  using assms by (cases "field f data info") (auto simp: total_field_def simp del: not_None_eq)

text \<open>The result is that of the last field, whatever the codes of the others were.\<close>

lemma eeprom_fields_last:
  assumes R: "register_file (chip_bus chip) (chip_addr chip) regs"
  shows "\<forall>f \<in> set (fs @ [g]). total_field field f \<Longrightarrow> length data = 64 \<Longrightarrow>
    \<exists>data' info' rc' info'' w'. length data' = 64 \<and> data' ! 0 = regs w (ucast (field_offset g)) \<and>
      field g data' info' = Some (rc', info'') \<and>
      eeprom_fields field chip (fs @ [g]) data rc info w = Some (rc', info'', w')"
proof (induction fs arbitrary: data rc info w)
  case Nil
  obtain data' w' where d: "sdi_smbus_read_multi_byte (chip_bus chip) (chip_addr chip) (field_offset g) data
        (ucast (field_size g)) SDI_I2C_FLAG_NONE w = Some (STD_ERR_OK, data', w')"
      "length data' = 64" "regs w' = regs w" "data' ! 0 = regs w (ucast (field_offset g))"
    using eeprom_field_read [OF R, of field g data w] Nil by auto
  obtain rc' info' where "field g data' info = Some (rc', info')"
    using total_fieldD [of field g data' info] Nil(1) d(2) by auto
  with d show ?case by auto
next
  case (Cons f fs)
  obtain data' w' where d: "sdi_smbus_read_multi_byte (chip_bus chip) (chip_addr chip) (field_offset f) data
        (ucast (field_size f)) SDI_I2C_FLAG_NONE w = Some (STD_ERR_OK, data', w')"
      "length data' = 64" "regs w' = regs w" "data' ! 0 = regs w (ucast (field_offset f))"
    using eeprom_field_read [OF R, of field f data w] Cons.prems by auto
  obtain rc' info' where "field f data' info = Some (rc', info')"
    using total_fieldD [of field f data' info] Cons.prems(1) d(2) by auto
  with d show ?case
    using Cons.IH [of data' w' rc' info'] Cons.prems(1) by simp
qed

section \<open>The parsers\<close>

lemma total_tables:
  "\<forall>f \<in> set sdi_dell_legacy_fan_eeprom_info. total_field dell_legacy_field f"
  "\<forall>f \<in> set sdi_dell_legacy_psu_eeprom_info. total_field dell_legacy_field f"
  "\<forall>f \<in> set sdi_delta_psu_eeprom_info. total_field delta_field f"
  by (simp_all add: sdi_dell_legacy_fan_eeprom_info_def sdi_dell_legacy_psu_eeprom_info_def
      sdi_delta_psu_eeprom_info_def total_dell_legacy_field total_delta_field)

lemma tables_not_empty:
  "sdi_dell_legacy_fan_eeprom_info \<noteq> []" "sdi_dell_legacy_psu_eeprom_info \<noteq> []"
  "sdi_delta_psu_eeprom_info \<noteq> []"
  by (simp_all add: sdi_dell_legacy_fan_eeprom_info_def sdi_dell_legacy_psu_eeprom_info_def
      sdi_delta_psu_eeprom_info_def)

lemma eeprom_fields_table:
  assumes R: "register_file (chip_bus chip) (chip_addr chip) regs"
    and t: "t \<noteq> []" and total: "\<forall>f \<in> set t. total_field field f"
    and rc: "\<And>data info rc' info'. length data = 64 \<Longrightarrow> data ! 0 = regs w (ucast (field_offset (last t))) \<Longrightarrow>
      field (last t) data info = Some (rc', info') \<Longrightarrow> rc' = e"
  shows "\<exists>info' w'. eeprom_fields field chip t (replicate 64 0) STD_ERR_OK info w = Some (e, info', w')"
proof -
  have t: "butlast t @ [last t] = t" using t by simp
  have "length (replicate 64 0 :: u8 list) = 64" by simp
  from eeprom_fields_last [OF R, of "butlast t" "last t" field, unfolded t, OF total this, of w STD_ERR_OK info]
  obtain data info0 rc' info' w' where "length data = 64" "data ! 0 = regs w (ucast (field_offset (last t)))"
    "field (last t) data info0 = Some (rc', info')"
    and r: "eeprom_fields field chip t (replicate 64 0) STD_ERR_OK info w = Some (rc', info', w')"
    by blast
  from rc [OF this(1-3)] r show ?thesis by blast
qed

lemma last_fields:
  "0 < length data \<Longrightarrow> dell_legacy_field (last sdi_dell_legacy_fan_eeprom_info) data info =
    Some (dell_fan_type (data ! 0) info)"
  "0 < length data \<Longrightarrow> dell_legacy_field (last sdi_dell_legacy_psu_eeprom_info) data info =
    Some (dell_psu_type (data ! 0) info)"
  "delta_field (last sdi_delta_psu_eeprom_info) data info =
    map_option (\<lambda>v. (STD_ERR_OK, info\<lparr>max_speed := v\<rparr>)) (delta_atoi data 5)"
  by (simp_all add: sdi_dell_legacy_fan_eeprom_info_def sdi_dell_legacy_psu_eeprom_info_def
      sdi_delta_psu_eeprom_info_def dell_legacy_field_def delta_field_def has_prefix_def strncmp_eq_def
      byte_at_def map_conv_bind_option comp_def)

lemma last_offsets:
  "field_offset (last sdi_dell_legacy_fan_eeprom_info) = 135"
  "field_offset (last sdi_dell_legacy_psu_eeprom_info) = 134"
  by (simp_all add: sdi_dell_legacy_fan_eeprom_info_def sdi_dell_legacy_psu_eeprom_info_def)

text \<open>
  C34. Which configuration errors of an EEPROM reach the caller. On a device whose reads succeed,
  the Dell parsers report an invalid type byte (134 of a power supply, 135 of a fan tray), which is
  the last field they read, with SDI\_DEVICE\_ERR\_CFG, and no other contents as an error; the Delta
  parser reports no error for any contents: the codes of an air flow that is neither FORWARD nor
  REVERSE and of a power source that is neither AC nor DC are overwritten by the next read.
\<close>

theorem dell_config_errors:
  assumes "register_file (chip_bus chip) (chip_addr chip) regs"
  shows "(\<exists>info' w'. sdi_dell_legacy_eeprom_data_get chip SDI_DELL_LEGACY_FAN_EEPROM info w =
        Some (if regs w 135 \<in> {1, 2} then STD_ERR_OK else SDI_DEVICE_ERR_CFG, info', w')) \<and>
    (\<exists>info' w'. sdi_dell_legacy_eeprom_data_get chip SDI_DELL_LEGACY_PSU_EEPROM info w =
        Some (if regs w 134 \<in> {1, 2, 3, 4} then STD_ERR_OK else SDI_DEVICE_ERR_CFG, info', w')) \<and>
    (\<exists>info' w'. sdi_delta_eeprom_data_get chip SDI_DELTA_PSU_EEPROM info w = Some (STD_ERR_OK, info', w'))"
proof (intro conjI)
  note table = eeprom_fields_table [OF assms, where info = "configured_info (eeprom_data chip)" and w = w]
  show "\<exists>info' w'. sdi_dell_legacy_eeprom_data_get chip SDI_DELL_LEGACY_FAN_EEPROM info w =
      Some (if regs w 135 \<in> {1, 2} then STD_ERR_OK else SDI_DEVICE_ERR_CFG, info', w')"
    unfolding sdi_dell_legacy_eeprom_data_get_def sdi_dell_legacy_info_fill_def Let_def sdi_entity_parser.case
    by (rule table [OF tables_not_empty(1) total_tables(1)])
      (auto simp: last_fields last_offsets dell_fan_type_def split: if_splits)
  show "\<exists>info' w'. sdi_dell_legacy_eeprom_data_get chip SDI_DELL_LEGACY_PSU_EEPROM info w =
      Some (if regs w 134 \<in> {1, 2, 3, 4} then STD_ERR_OK else SDI_DEVICE_ERR_CFG, info', w')"
    unfolding sdi_dell_legacy_eeprom_data_get_def sdi_dell_legacy_info_fill_def Let_def sdi_entity_parser.case
    by (rule table [OF tables_not_empty(2) total_tables(2)])
      (auto simp: last_fields last_offsets dell_psu_type_def split: if_splits)
  show "\<exists>info' w'. sdi_delta_eeprom_data_get chip SDI_DELTA_PSU_EEPROM info w = Some (STD_ERR_OK, info', w')"
    unfolding sdi_delta_eeprom_data_get_def sdi_delta_psu_eeprom_info_fill_def Let_def sdi_entity_parser.case
      simp_thms if_True
    by (rule table [OF tables_not_empty(3) total_tables(3)]) (auto simp: last_fields)
qed

theorem dell_config_errors_witness:
  "(\<exists>info w'. sdi_delta_eeprom_data_get sample_eeprom_chip SDI_DELTA_PSU_EEPROM zero_entity_info (\<lambda>_. 0) =
      Some (STD_ERR_OK, info, w')) \<and>
    (\<exists>info w'. sdi_dell_legacy_eeprom_data_get sample_eeprom_chip SDI_DELL_LEGACY_FAN_EEPROM zero_entity_info (\<lambda>_. 0) =
      Some (SDI_DEVICE_ERR_CFG, info, w'))"
proof -
  have "register_file (chip_bus sample_eeprom_chip) (chip_addr sample_eeprom_chip) (\<lambda>w. w)"
    by (simp add: sample_register_file)
  from dell_config_errors [OF this, of zero_entity_info "\<lambda>_. 0"] show ?thesis by simp
qed

end
