(* ===== verification/Fan_Emc2305.thy ===== *)
theory Fan_Emc2305
  imports Temp_Sensors "HOL-Library.Signed_Division"
begin

text \<open>
  The fan controller driver src/drivers/sdi\_emc2305.c: five fans, each with registers for its drive,
  its tachometer and its target, in the direct mode (a drive byte) or the RPM mode (a tachometer
  target). The functions work on pairs of the private data and the world (\<open>Device\<close>).
\<close>

section \<open>Registers and constants\<close>

definition EMC2305_MAX_FANS :: nat where "EMC2305_MAX_FANS = 5"
definition EMC2305_FAN_STATUS_REG :: u8 where "EMC2305_FAN_STATUS_REG = 0x24"
definition EMC2305_TACH_FREQ :: int where "EMC2305_TACH_FREQ = 32768"
definition EMC2305_RPM_CONST_VAL :: int where "EMC2305_RPM_CONST_VAL = 60"
definition EMC2305_FAN_RANGEX_DEFAULT :: u8 where "EMC2305_FAN_RANGEX_DEFAULT = 2"

definition fault_status_reg :: "u8 list" where "fault_status_reg = [0x24, 0x25, 0x26, 0x27]"
definition fan_fault_reg :: "u8 list" where "fan_fault_reg = [0x25, 0x26, 0x27]"
definition fan_driv_set_reg :: "u8 list" where "fan_driv_set_reg = [0x30, 0x40, 0x50, 0x60, 0x70]"
definition fan_config1_reg :: "u8 list" where "fan_config1_reg = [0x32, 0x42, 0x52, 0x62, 0x72]"
definition pole_edge_mapping :: "u8 list" where "pole_edge_mapping = [3, 5, 7, 9]"
definition fan_tach_reg :: "(u8 \<times> u8) list" where
  "fan_tach_reg = [(0x3E, 0x3F), (0x4E, 0x4F), (0x5E, 0x5F), (0x6E, 0x6F), (0x7E, 0x7F)]"
definition fan_tach_target_reg :: "(u8 \<times> u8) list" where
  "fan_tach_target_reg = [(0x3D, 0x3C), (0x4D, 0x4C), (0x5D, 0x5C), (0x6D, 0x6C), (0x7D, 0x7C)]"
definition min_drv_reg :: "u8 list" where "min_drv_reg = [0x38, 0x48, 0x58, 0x68, 0x78]"

text \<open>The value of a control type is that of the configuration register.\<close>

datatype sdi_emc2305_fan_control = EMC2305_FAN_CONTROL_DIRECT | EMC2305_FAN_CONTROL_RPM

primrec control_byte :: "sdi_emc2305_fan_control \<Rightarrow> u8" where
  "control_byte EMC2305_FAN_CONTROL_DIRECT = 0x2B"
| "control_byte EMC2305_FAN_CONTROL_RPM = 0xAB"

record emc2305_fan_data =
  e_max_speed :: u32
  e_poles :: u8
  e_edges :: u8
  e_ranges :: u8
  e_alias :: string

record emc2305_device =
  emc2305_fan :: "emc2305_fan_data list"
  fan_control_type :: sdi_emc2305_fan_control

section \<open>Conversions\<close>

text \<open>The first product is an int, the second an unsigned int; a division by zero is undefined.\<close>

definition sdi_speed_percent_to_drv_volt_get :: "u8 \<Rightarrow> u8" where
  "sdi_speed_percent_to_drv_volt_get percent = of_nat (unat percent * 0xFF div 100)"

definition sdi_rpm_to_speed_percent_get :: "u32 \<Rightarrow> u32 \<Rightarrow> u8 option" where
  "sdi_rpm_to_speed_percent_get full rpm = (if full = 0 then None else Some (ucast (rpm * 100 div full)))"

definition sdi_fan_poles_get :: "u8 \<Rightarrow> u8" where
  "sdi_fan_poles_get data = drop_bit 3 (data AND 0x18) + 1"

text \<open>An int that is out of range is undefined.\<close>

definition in_int :: "int \<Rightarrow> int option" where
  "in_int i = (if - (2 ^ 31) \<le> i \<and> i < 2 ^ 31 then Some i else None)"

definition sdi_rpm_to_tach_count :: "emc2305_fan_data \<Rightarrow> u32 \<Rightarrow> u16 option" where
  "sdi_rpm_to_tach_count fan speed = do {
     v \<leftarrow> in_int ((uint (e_edges fan) - 1) * EMC2305_TACH_FREQ * EMC2305_RPM_CONST_VAL);
     STD_ASSERT (e_poles fan \<noteq> 0 \<and> speed \<noteq> 0);
     let tachval = (ucast ((word_of_int (v sdiv uint (e_poles fan) * uint (e_poles fan)) :: u32) div speed) :: u16);
     Some (push_bit 3 tachval)
   }"

section \<open>The callbacks\<close>

primrec emc2305_read_all :: "'w chip \<Rightarrow> u8 list \<Rightarrow> 'w action" where
  "emc2305_read_all chip [] w = Some (STD_ERR_OK, w)"
| "emc2305_read_all chip (r # rs) w = do {
     (rc, buf, w) \<leftarrow> chip_read chip r w;
     if rc \<noteq> STD_ERR_OK then Some (rc, w) else emc2305_read_all chip rs w
   }"

definition sdi_emc2305_clear_fan_fault :: "'w chip \<Rightarrow> (emc2305_device \<times> 'w) action" where
  "sdi_emc2305_clear_fan_fault chip = (\<lambda>(d, w). do {
     (rc, w) \<leftarrow> emc2305_read_all chip fault_status_reg w;
     Some (rc, d, w)
   })"

definition sdi_emc2305_fan_speed_get ::
    "'w chip \<Rightarrow> u32 \<Rightarrow> (u32, emc2305_device \<times> 'w) query" where
  "sdi_emc2305_fan_speed_get chip fan_id speed = (\<lambda>(d, w). do {
     (tach_reg, ltach_reg) \<leftarrow> at_index fan_tach_reg fan_id;
     fan \<leftarrow> at_index (emc2305_fan d) fan_id;
     (rc, tach, w) \<leftarrow> chip_read chip tach_reg w;
     if rc \<noteq> STD_ERR_OK then Some (rc, 0, d, w)
     else do {
       (rc, ltach, w) \<leftarrow> chip_read chip ltach_reg w;
       if rc \<noteq> STD_ERR_OK then Some (rc, 0, d, w)
       else do {
         let count = (256 * uint tach + uint ltach) div 8;
         v \<leftarrow> in_int ((uint (e_edges fan) - 1) * EMC2305_TACH_FREQ * uint (e_ranges fan) * EMC2305_RPM_CONST_VAL);
         STD_ASSERT (count * uint (e_poles fan) \<noteq> 0);
         Some (rc, word_of_int (v sdiv (count * uint (e_poles fan))), d, w)
       }
     }
   })"

text \<open>In the RPM mode the last of three writes sets the control type, with the flags 1.\<close>

definition sdi_emc2305_fan_speed_set ::
    "'w chip \<Rightarrow> u32 \<Rightarrow> u32 \<Rightarrow> (emc2305_device \<times> 'w) action" where
  "sdi_emc2305_fan_speed_set chip fan_id speed = (\<lambda>(d, w). do {
     fan \<leftarrow> at_index (emc2305_fan d) fan_id;
     let speed = (if e_max_speed fan < speed then e_max_speed fan else speed);
     if fan_control_type d = EMC2305_FAN_CONTROL_RPM then do {
       tachval \<leftarrow> sdi_rpm_to_tach_count fan speed;
       (targ_reg, ltarg_reg) \<leftarrow> at_index fan_tach_target_reg fan_id;
       cfg_reg \<leftarrow> at_index fan_config1_reg fan_id;
       (rc, w) \<leftarrow> chip_write chip targ_reg (ucast (drop_bit 8 tachval)) w;
       if rc \<noteq> STD_ERR_OK then Some (rc, d, w)
       else do {
         (rc, w) \<leftarrow> chip_write chip ltarg_reg (ucast tachval) w;
         if rc \<noteq> STD_ERR_OK then Some (rc, d, w)
         else do {
           (rc, w) \<leftarrow> sdi_smbus_write_byte (chip_bus chip) (chip_addr chip) (ucast cfg_reg)
             (control_byte (fan_control_type d)) 1 w;
           Some (rc, d, w)
         }
       }
     }
     else do {
       speed_percent \<leftarrow> sdi_rpm_to_speed_percent_get (e_max_speed fan) speed;
       set_reg \<leftarrow> at_index fan_driv_set_reg fan_id;
       (rc, w) \<leftarrow> chip_write chip set_reg (sdi_speed_percent_to_drv_volt_get speed_percent) w;
       Some (rc, d, w)
     }
   })"

text \<open>An error of the write of the minimum drive is only logged.\<close>

definition sdi_emc2305_resource_init ::
    "'w chip \<Rightarrow> u32 \<Rightarrow> u32 \<Rightarrow> (emc2305_device \<times> 'w) action" where
  "sdi_emc2305_resource_init chip fan_id max_rpm = (\<lambda>(d, w). do {
     reg \<leftarrow> at_index min_drv_reg fan_id;
     (_, w) \<leftarrow> chip_write chip reg 0x50 w;
     fan \<leftarrow> at_index (emc2305_fan d) fan_id;
     let fan = (if e_max_speed fan = 0 \<and> max_rpm \<noteq> 0 then fan\<lparr>e_max_speed := max_rpm\<rparr> else fan);
     sdi_emc2305_fan_speed_set chip fan_id (e_max_speed fan)
       (d\<lparr>emc2305_fan := (emc2305_fan d)[unat fan_id := fan]\<rparr>, w)
   })"

primrec emc2305_fan_fault :: "'w chip \<Rightarrow> u32 \<Rightarrow> u8 list \<Rightarrow> 'w \<Rightarrow> (t_std_error \<times> bool \<times> 'w) option" where
  "emc2305_fan_fault chip fan_id [] w = do {
     (rc, buf, w) \<leftarrow> chip_read chip EMC2305_FAN_STATUS_REG w;
     if rc \<noteq> STD_ERR_OK then Some (rc, False, w) else Some (rc, buf AND 0x80 \<noteq> 0, w)
   }"
| "emc2305_fan_fault chip fan_id (r # rs) w = do {
     (rc, buf, w) \<leftarrow> chip_read chip r w;
     if rc \<noteq> STD_ERR_OK then Some (rc, False, w)
     else if bit buf (unat fan_id) then Some (rc, True, w)
     else emc2305_fan_fault chip fan_id rs w
   }"

definition sdi_emc2305_fan_status_get :: "'w chip \<Rightarrow> u32 \<Rightarrow> (bool, emc2305_device \<times> 'w) query" where
  "sdi_emc2305_fan_status_get chip fan_id status = (\<lambda>(d, w). do {
     (rc, status, w) \<leftarrow> emc2305_fan_fault chip fan_id fan_fault_reg w;
     Some (rc, status, d, w)
   })"

definition emc2305_fan_resource :: "'w chip \<Rightarrow> u32 \<Rightarrow> (emc2305_device \<times> 'w) fan_ctrl" where
  "emc2305_fan_resource chip fan_id = \<lparr>
     fan_init = Some (sdi_emc2305_resource_init chip fan_id),
     fan_speed_get = (\<lambda>_. sdi_emc2305_fan_speed_get chip fan_id),
     fan_speed_set = Some (\<lambda>_. sdi_emc2305_fan_speed_set chip fan_id),
     fan_status_get = sdi_emc2305_fan_status_get chip fan_id,
     fan_rpm_to_pct = None,
     fan_pct_to_rpm = None\<rparr>"

section \<open>Registration\<close>

definition upd_fan ::
    "nat \<Rightarrow> (emc2305_fan_data \<Rightarrow> emc2305_fan_data) \<Rightarrow> emc2305_device \<Rightarrow> emc2305_device" where
  "upd_fan i f d = d\<lparr>emc2305_fan := (emc2305_fan d)[i := f (emc2305_fan d ! i)]\<rparr>"

text \<open>
  One node of the configuration. A fan whose number of poles cannot be read from the chip, or is
  not one to four, keeps what was filled in but gets no resource.
\<close>

definition emc2305_add_fan ::
    "sensor_lib \<Rightarrow> config_node \<Rightarrow> 'w chip \<Rightarrow> u32 \<Rightarrow> u8 \<Rightarrow> (emc2305_device \<times> 'w) sdi_sys
      \<Rightarrow> (emc2305_device \<times> 'w) sdi_sys" where
  "emc2305_add_fan B cur_node chip fan_id poles s =
     (let i = unat fan_id;
          (d, w) = dev s;
          d = upd_fan i (\<lambda>f. f\<lparr>e_poles := poles, e_ranges := EMC2305_FAN_RANGEX_DEFAULT\<rparr>) d
      in if 1 \<le> poles \<and> poles \<le> 4 then
           (let alias = (case std_config_attr_get cur_node ''alias'' of
                None \<Rightarrow> snprintf SDI_MAX_NAME_LEN (''emc2305-'' @ signed_decimal (sint (chip_instance chip)) @
                  ''-'' @ signed_decimal (sint fan_id))
              | Some a \<Rightarrow> safestrncpy (sensor_std B) (length a + 1) a);
                d = upd_fan i (\<lambda>f. f\<lparr>e_edges := pole_edge_mapping ! (unat poles - 1), e_alias := alias\<rparr>) d
            in sdi_resource_add (sensor_std B) SDI_RESOURCE_FAN alias (Fan_Fns (emc2305_fan_resource chip fan_id))
                 (s\<lparr>dev := (d, w)\<rparr>))
         else s\<lparr>dev := (d, w)\<rparr>)"

definition sdi_emc2305_device_database_init ::
    "sensor_lib \<Rightarrow> config_node \<Rightarrow> 'w chip \<Rightarrow> (emc2305_device \<times> 'w) sdi_sys
      \<Rightarrow> (emc2305_device \<times> 'w) sdi_sys option" where
  "sdi_emc2305_device_database_init B cur_node chip s =
     (if \<not> strncmp_eq (std_config_name_get cur_node) ''fan'' (length ''fan'') then Some s
      else do {
        let fan_id = sensor_instance cur_node;
        STD_ASSERT (unat fan_id < EMC2305_MAX_FANS);
        speed_attr \<leftarrow> std_config_attr_get cur_node ''fan_speed'';
        let (d, w) = dev s;
        let d = upd_fan (unat fan_id) (\<lambda>f. f\<lparr>e_max_speed := ucast (strtoul speed_attr 0)\<rparr>) d;
        case std_config_attr_get cur_node ''poles'' of
          Some p \<Rightarrow> Some (emc2305_add_fan B cur_node chip fan_id (ucast (strtoul p 0)) (s\<lparr>dev := (d, w)\<rparr>))
        | None \<Rightarrow> do {
            reg \<leftarrow> at_index fan_config1_reg fan_id;
            (rc, buf, w) \<leftarrow> chip_read chip reg w;
            if rc \<noteq> STD_ERR_OK then Some (s\<lparr>dev := (d, w)\<rparr>)
            else Some (emc2305_add_fan B cur_node chip fan_id (sdi_fan_poles_get buf) (s\<lparr>dev := (d, w)\<rparr>))
          }
      })"

primrec emc2305_database_init_each ::
    "sensor_lib \<Rightarrow> 'w chip \<Rightarrow> config_node list \<Rightarrow> (emc2305_device \<times> 'w) sdi_sys
      \<Rightarrow> (emc2305_device \<times> 'w) sdi_sys option" where
  "emc2305_database_init_each B chip [] s = Some s"
| "emc2305_database_init_each B chip (n # ns) s = do {
     s \<leftarrow> sdi_emc2305_device_database_init B n chip s;
     emc2305_database_init_each B chip ns s
   }"

definition emc2305_data_new :: "config_node \<Rightarrow> emc2305_device" where
  "emc2305_data_new node = \<lparr>
     emc2305_fan = replicate EMC2305_MAX_FANS
       \<lparr>e_max_speed = 0, e_poles = 0, e_edges = 0, e_ranges = 0, e_alias = []\<rparr>,
     fan_control_type = (if std_config_attr_get node ''fan_control_type'' = Some ''RPM''
       then EMC2305_FAN_CONTROL_RPM else EMC2305_FAN_CONTROL_DIRECT)\<rparr>"

definition sdi_emc2305_register ::
    "sensor_lib \<Rightarrow> config_node \<Rightarrow> 'w sdi_i2c_bus \<Rightarrow> (emc2305_device \<times> 'w) sdi_sys
      \<Rightarrow> (t_std_error \<times> 'w chip \<times> (emc2305_device \<times> 'w) sdi_sys) option" where
  "sdi_emc2305_register B node bus_handle s = do {
     STD_ASSERT (bus_type (bus bus_handle) = SDI_I2C_BUS);
     inst_attr \<leftarrow> std_config_attr_get node ''instance'';
     addr \<leftarrow> std_config_attr_get node ''addr'';
     let chip = \<lparr>chip_bus = bus_handle,
       chip_addr = \<lparr>i2c_addr = ucast (strtoul addr 16), addr_mode_16bit = False\<rparr>,
       chip_instance = ucast (strtoul inst_attr 0), chip_alias = []\<rparr>;
     s \<leftarrow> emc2305_database_init_each B chip (each_node B node) (s\<lparr>dev := (emc2305_data_new node, snd (dev s))\<rparr>);
     Some (STD_ERR_OK, chip, s)
   }"

definition sdi_emc2305_chip_init :: "'w chip \<Rightarrow> (emc2305_device \<times> 'w) action" where
  "sdi_emc2305_chip_init chip = sdi_emc2305_clear_fan_fault chip"

end
