(* ===== verification/Fan_Drives.thy ===== *)
theory Fan_Drives
  imports Fan_Emc2305
begin

text \<open>
  What the EMC2305 driver is for: in the direct mode the five fans are five independent drives, and
  a call of the driver does to them what an abstract bank of drives does.
\<close>

section \<open>A bank of drives\<close>

text \<open>The drive for a speed, in 1/255 of the full drive: the percentage is rounded down first.\<close>

definition percent_of :: "nat \<Rightarrow> nat \<Rightarrow> nat" where
  "percent_of full v = 100 * min v full div full"

definition drive_for :: "nat \<Rightarrow> nat \<Rightarrow> u8" where
  "drive_for full v = of_nat (percent_of full v * 255 div 100)"

datatype fan_call = Set_Speed u32 u32 | Get_Speed u32 | Get_Status u32

primrec call_fan :: "fan_call \<Rightarrow> u32" where
  "call_fan (Set_Speed i v) = i"
| "call_fan (Get_Speed i) = i"
| "call_fan (Get_Status i) = i"

text \<open>The bank: the full speeds of the fans do not change, the drives do.\<close>

fun bank_step :: "u32 list \<Rightarrow> fan_call \<Rightarrow> u8 list \<Rightarrow> u8 list" where
  "bank_step full (Set_Speed i v) ds = ds[unat i := drive_for (unat (full ! unat i)) (unat v)]"
| "bank_step full (Get_Speed i) ds = ds"
| "bank_step full (Get_Status i) ds = ds"

section \<open>The driver as an implementation of the bank\<close>

primrec emc2305_call :: "'w chip \<Rightarrow> fan_call \<Rightarrow> (emc2305_device \<times> 'w) action" where
  "emc2305_call chip (Set_Speed i v) s = sdi_emc2305_fan_speed_set chip i v s"
| "emc2305_call chip (Get_Speed i) s = do {
     (e, speed, s) \<leftarrow> sdi_emc2305_fan_speed_get chip i 0 s;
     Some (e, s)
   }"
| "emc2305_call chip (Get_Status i) s = do {
     (e, status, s) \<leftarrow> sdi_emc2305_fan_status_get chip i False s;
     Some (e, s)
   }"

primrec emc2305_calls ::
    "'w chip \<Rightarrow> fan_call list \<Rightarrow> emc2305_device \<times> 'w \<Rightarrow> (t_std_error list \<times> emc2305_device \<times> 'w) option" where
  "emc2305_calls chip [] s = Some ([], s)"
| "emc2305_calls chip (c # cs) s = do {
     (e, s) \<leftarrow> emc2305_call chip c s;
     (es, s) \<leftarrow> emc2305_calls chip cs s;
     Some (e # es, s)
   }"

definition bank_of :: "(u8 \<Rightarrow> u8) \<Rightarrow> u8 list" where
  "bank_of regs = map regs fan_driv_set_reg"

definition bank_full :: "emc2305_device \<Rightarrow> u32 list" where
  "bank_full d = map e_max_speed (emc2305_fan d)"

text \<open>
  A configured fan: its full speed is not zero and small enough for the percentage, and its edges
  belong to its number of poles.
\<close>

definition fan_configured :: "emc2305_fan_data \<Rightarrow> bool" where
  "fan_configured f \<longleftrightarrow> 0 < e_max_speed f \<and> e_max_speed f \<le> 42949672 \<and>
     1 \<le> e_poles f \<and> e_poles f \<le> 4 \<and> e_edges f = 2 * e_poles f + 1 \<and> e_ranges f = 2"

definition direct_fans :: "emc2305_device \<Rightarrow> bool" where
  "direct_fans d \<longleftrightarrow> length (emc2305_fan d) = 5 \<and> fan_control_type d = EMC2305_FAN_CONTROL_DIRECT \<and>
     (\<forall>f \<in> set (emc2305_fan d). fan_configured f)"

text \<open>The tachometers do not read zero.\<close>

definition tachs_count :: "(u8 \<Rightarrow> u8) \<Rightarrow> bool" where
  "tachs_count regs \<longleftrightarrow> (\<forall>(hi, lo) \<in> set fan_tach_reg. 8 \<le> 256 * uint (regs hi) + uint (regs lo))"

section \<open>One call\<close>

lemma unat_percent:
  assumes "0 < full" and "full \<le> (42949672 :: u32)"
  shows "unat (ucast ((if full < v then full else v) * 100 div full) :: u8) = percent_of (unat full) (unat v)"
proof -
  let ?v = "if full < v then full else v"
  have min: "unat ?v = min (unat v) (unat full)" by (simp add: word_less_nat_alt min_def)
  have "unat full \<le> 42949672" using assms(2) by (simp add: word_le_nat_alt)
  then have "unat (?v * 100) = 100 * min (unat v) (unat full)"
    using min by (simp add: unat_word_ariths)
  then have q: "unat (?v * 100 div full) = percent_of (unat full) (unat v)"
    by (simp add: unat_div percent_of_def)
  have "0 < unat full" using assms(1) by (simp add: word_less_nat_alt)
  then have "percent_of (unat full) (unat v) \<le> 100"
    unfolding percent_of_def by (metis div_le_mono div_mult_self_is_m min.cobounded2 mult_le_mono2)
  then show ?thesis
    using q by (simp only: unsigned_ucast_eq take_bit_eq_mod) simp
qed

lemma drive_set:
  assumes R: "register_file (chip_bus chip) (chip_addr chip) regs" and d: "direct_fans d" and i: "unat i < 5"
  shows "\<exists>w'. sdi_emc2305_fan_speed_set chip i v (d, w) = Some (STD_ERR_OK, d, w') \<and>
    regs w' = (regs w)(fan_driv_set_reg ! unat i :=
      drive_for (unat (bank_full d ! unat i)) (unat v))"
proof -
  let ?f = "emc2305_fan d ! unat i"
  have len: "length (emc2305_fan d) = 5" and mode: "fan_control_type d = EMC2305_FAN_CONTROL_DIRECT"
    and "fan_configured ?f"
    using d i by (simp_all add: direct_fans_def)
  then have full: "0 < e_max_speed ?f" "e_max_speed ?f \<le> 42949672" by (simp_all add: fan_configured_def)
  obtain w' where "chip_write chip (fan_driv_set_reg ! unat i)
      (drive_for (unat (e_max_speed ?f)) (unat v)) w = Some (STD_ERR_OK, w')"
    "regs w' = (regs w)(fan_driv_set_reg ! unat i := drive_for (unat (e_max_speed ?f)) (unat v))"
    using register_chip_write [OF R] by blast
  moreover have "bank_full d ! unat i = e_max_speed ?f" using i len by (simp add: bank_full_def)
  moreover have "at_index (emc2305_fan d) i = Some ?f" using i len by (simp add: at_index_def)
  moreover have "at_index fan_driv_set_reg i = Some (fan_driv_set_reg ! unat i)"
    using i by (simp add: at_index_def fan_driv_set_reg_def)
  moreover have "e_max_speed ?f \<noteq> 0" using full(1) by auto
  ultimately show ?thesis
    using mode unat_percent [OF full, of v]
    by (simp add: sdi_emc2305_fan_speed_set_def sdi_rpm_to_speed_percent_get_def
        sdi_speed_percent_to_drv_volt_get_def drive_for_def Let_def del: at_index_eq_Some)
qed

lemma speed_read:
  assumes R: "register_file (chip_bus chip) (chip_addr chip) regs" and d: "direct_fans d" and i: "unat i < 5"
    and t: "tachs_count (regs w)"
  shows "\<exists>v w'. sdi_emc2305_fan_speed_get chip i v0 (d, w) = Some (STD_ERR_OK, v, d, w') \<and> regs w' = regs w"
proof -
  let ?f = "emc2305_fan d ! unat i"
  obtain hi lo where reg: "fan_tach_reg ! unat i = (hi, lo)" by fastforce
  obtain w1 where w1: "chip_read chip hi w = Some (STD_ERR_OK, regs w hi, w1)" "regs w1 = regs w"
    using register_chip_read [OF R] by blast
  obtain w2 where w2: "chip_read chip lo w1 = Some (STD_ERR_OK, regs w1 lo, w2)" "regs w2 = regs w1"
    using register_chip_read [OF R] by blast
  have "unat i < length fan_tach_reg" using i by (simp add: fan_tach_reg_def)
  from nth_mem [OF this] have count: "1 \<le> (256 * uint (regs w hi) + uint (regs w lo)) div 8"
    using t reg by (auto simp: tachs_count_def)
  have f: "fan_configured ?f" and len: "length (emc2305_fan d) = 5" using d i by (simp_all add: direct_fans_def)
  have "1 \<le> unat (e_poles ?f)" "unat (e_poles ?f) \<le> 4"
    using f by (simp_all add: fan_configured_def word_le_nat_alt)
  then have "unat (e_poles ?f) = 1 \<or> unat (e_poles ?f) = 2 \<or> unat (e_poles ?f) = 3 \<or> unat (e_poles ?f) = 4"
    by arith
  then have p: "e_poles ?f = 1 \<or> e_poles ?f = 2 \<or> e_poles ?f = 3 \<or> e_poles ?f = 4"
    by (simp add: word_unat_eq_iff)
  have "at_index fan_tach_reg i = Some (hi, lo)"
    using reg \<open>unat i < length fan_tach_reg\<close> by simp
  moreover have "at_index (emc2305_fan d) i = Some ?f" using i len by simp
  moreover have "in_int ((uint (e_edges ?f) - 1) * EMC2305_TACH_FREQ * uint (e_ranges ?f) * EMC2305_RPM_CONST_VAL) =
      Some ((uint (e_edges ?f) - 1) * EMC2305_TACH_FREQ * uint (e_ranges ?f) * EMC2305_RPM_CONST_VAL)"
    using f p by (auto simp: fan_configured_def in_int_def EMC2305_TACH_FREQ_def EMC2305_RPM_CONST_VAL_def)
  moreover have "(256 * uint (regs w hi) + uint (regs w lo)) div 8 * uint (e_poles ?f) \<noteq> 0"
    using count p by auto
  ultimately show ?thesis
    using w1 w2 by (simp add: sdi_emc2305_fan_speed_get_def STD_ASSERT_def Let_def del: at_index_eq_Some)
qed

lemma status_read:
  assumes R: "register_file (chip_bus chip) (chip_addr chip) regs"
  shows "\<exists>b w'. emc2305_fan_fault chip i rs w = Some (STD_ERR_OK, b, w') \<and> regs w' = regs w"
proof (induction rs arbitrary: w)
  case Nil
  obtain w1 where "chip_read chip EMC2305_FAN_STATUS_REG w = Some (STD_ERR_OK, regs w EMC2305_FAN_STATUS_REG, w1)"
    "regs w1 = regs w"
    using register_chip_read [OF R] by blast
  then show ?case by simp
next
  case (Cons r rs)
  obtain w1 where "chip_read chip r w = Some (STD_ERR_OK, regs w r, w1)" "regs w1 = regs w"
    using register_chip_read [OF R] by blast
  then show ?case using Cons [of w1] by (cases "bit (regs w r) (unat i)") auto
qed

lemma bank_of_set:
  assumes "i < 5"
  shows "bank_of (r(fan_driv_set_reg ! i := b)) = (bank_of r)[i := b]"
proof -
  have "i = 0 \<or> i = 1 \<or> i = 2 \<or> i = 3 \<or> i = 4" using assms by arith
  then show ?thesis by (auto simp: bank_of_def fan_driv_set_reg_def)
qed

lemma tachs_count_set:
  assumes "i < 5"
  shows "tachs_count (r(fan_driv_set_reg ! i := b)) = tachs_count r"
proof -
  have "i = 0 \<or> i = 1 \<or> i = 2 \<or> i = 3 \<or> i = 4" using assms by arith
  then show ?thesis by (auto simp: tachs_count_def fan_driv_set_reg_def fan_tach_reg_def)
qed

text \<open>A call does to the registers what it does to the bank.\<close>

lemma emc2305_call_refines:
  assumes R: "register_file (chip_bus chip) (chip_addr chip) regs" and d: "direct_fans d"
    and i: "unat (call_fan c) < 5" and t: "tachs_count (regs w)"
  shows "\<exists>w'. emc2305_call chip c (d, w) = Some (STD_ERR_OK, d, w') \<and> tachs_count (regs w') \<and>
    bank_of (regs w') = bank_step (bank_full d) c (bank_of (regs w))"
proof (cases c)
  case (Set_Speed j v)
  then show ?thesis
    using drive_set [OF R d, of j v w] i t by (auto simp: bank_of_set tachs_count_set)
next
  case (Get_Speed j)
  then show ?thesis using speed_read [OF R d _ t, of j 0] i t by auto
next
  case (Get_Status j)
  then show ?thesis
    using status_read [OF R, of j fan_fault_reg w] t by (auto simp: sdi_emc2305_fan_status_get_def)
qed

lemma emc2305_calls_refine:
  assumes R: "register_file (chip_bus chip) (chip_addr chip) regs" and d: "direct_fans d"
  shows "\<forall>c \<in> set cs. unat (call_fan c) < 5 \<Longrightarrow> tachs_count (regs w) \<Longrightarrow>
    \<exists>w'. emc2305_calls chip cs (d, w) = Some (replicate (length cs) STD_ERR_OK, d, w') \<and>
      bank_of (regs w') = fold (bank_step (bank_full d)) cs (bank_of (regs w))"
proof (induction cs arbitrary: w)
  case (Cons c cs)
  obtain w1 where "emc2305_call chip c (d, w) = Some (STD_ERR_OK, d, w1)" "tachs_count (regs w1)"
    "bank_of (regs w1) = bank_step (bank_full d) c (bank_of (regs w))"
    using emc2305_call_refines [OF R d, of c w] Cons.prems by auto
  then show ?case using Cons.IH [of w1] Cons.prems(1) by auto
qed simp

section \<open>The properties\<close>

text \<open>
  C35. In the direct mode the EMC2305 driver implements a bank of five independent drives. On a
  register device whose tachometers do not read zero, with five configured fans in the direct mode,
  any sequence of speed settings, speed reads and status reads of the fans returns STD\_ERR\_OK for
  every call and leaves in the drive registers what the abstract bank computes: setting a speed sets
  the drive of that fan to the rounded percentage of its full speed (the full drive for the full
  speed and any speed above it) and no other, and reads change nothing.
\<close>

theorem emc2305_refines_bank:
  assumes "register_file (chip_bus chip) (chip_addr chip) regs" and "direct_fans d"
    and "\<forall>c \<in> set cs. unat (call_fan c) < 5" and "tachs_count (regs w)"
  shows "\<exists>w'. emc2305_calls chip cs (d, w) = Some (replicate (length cs) STD_ERR_OK, d, w') \<and>
    bank_of (regs w') = fold (bank_step (bank_full d)) cs (bank_of (regs w))"
  by (rule emc2305_calls_refine [OF assms])

definition sample_fans :: emc2305_device where
  "sample_fans = \<lparr>emc2305_fan = replicate 5
       \<lparr>e_max_speed = 18000, e_poles = 2, e_edges = 5, e_ranges = 2, e_alias = ''fan''\<rparr>,
     fan_control_type = EMC2305_FAN_CONTROL_DIRECT\<rparr>"

definition sample_fan_chip :: "(u8 \<Rightarrow> u8) chip" where
  "sample_fan_chip = \<lparr>chip_bus = sample_bus, chip_addr = sample_chip_addr, chip_instance = 0, chip_alias = ''fans''\<rparr>"

theorem emc2305_refines_bank_witness:
  "\<exists>w'. emc2305_calls sample_fan_chip [Set_Speed 1 9000, Get_Speed 1, Set_Speed 4 20000] (sample_fans, \<lambda>_. 64) =
      Some ([STD_ERR_OK, STD_ERR_OK, STD_ERR_OK], sample_fans, w') \<and>
    bank_of w' = [64, 127, 64, 64, 255]"
proof -
  have "register_file (chip_bus sample_fan_chip) (chip_addr sample_fan_chip) (\<lambda>w. w)"
    by (simp add: sample_register_file sample_fan_chip_def)
  moreover have "direct_fans sample_fans" by (simp add: sample_fans_def direct_fans_def fan_configured_def)
  moreover have "tachs_count (\<lambda>_. 64)" by (simp add: tachs_count_def fan_tach_reg_def)
  moreover have "fold (bank_step (bank_full sample_fans)) [Set_Speed 1 9000, Get_Speed 1, Set_Speed 4 20000]
      (bank_of (\<lambda>_. 64)) = [64, 127, 64, 64, 255]"
    by (simp add: bank_full_def sample_fans_def bank_of_def fan_driv_set_reg_def drive_for_def percent_of_def)
  ultimately show ?thesis
    using emc2305_refines_bank [of sample_fan_chip "\<lambda>w. w" sample_fans
        "[Set_Speed 1 9000, Get_Speed 1, Set_Speed 4 20000]" "\<lambda>_. 64"] by simp
qed

section \<open>The RPM mode\<close>

text \<open>The tachometer count of one revolution per minute, as the target is computed.\<close>

definition tach_scale :: "emc2305_fan_data \<Rightarrow> nat" where
  "tach_scale f = 3932160 * unat (e_poles f)"

lemma fan_poles_cases:
  assumes "fan_configured f"
  shows "e_poles f = 1 \<or> e_poles f = 2 \<or> e_poles f = 3 \<or> e_poles f = 4"
proof -
  have "1 \<le> unat (e_poles f)" "unat (e_poles f) \<le> 4"
    using assms by (simp_all add: fan_configured_def word_le_nat_alt)
  then have "unat (e_poles f) = 1 \<or> unat (e_poles f) = 2 \<or> unat (e_poles f) = 3 \<or> unat (e_poles f) = 4"
    by arith
  then show ?thesis by (simp add: word_unat_eq_iff)
qed

lemma unat_push_bit_3: "unat (push_bit 3 (x :: u16)) = 8 * (unat x mod 8192)"
  using mult_mod_right [of 8 "unat x" 8192] by (simp add: push_bit_eq_mult unat_word_ariths mult.commute)

lemma rpm_target:
  assumes f: "fan_configured f" and v: "0 < v"
  shows "\<exists>t. sdi_rpm_to_tach_count f v = Some t \<and> unat t = 8 * (tach_scale f div unat v mod 8192)"
proof -
  let ?q = "(word_of_int (int (tach_scale f)) :: u32) div v"
  let ?k = "(uint (e_edges f) - 1) * EMC2305_TACH_FREQ * EMC2305_RPM_CONST_VAL"
  have k: "in_int ?k = Some ?k" "?k sdiv uint (e_poles f) * uint (e_poles f) = int (tach_scale f)"
    using f fan_poles_cases [OF f]
    by (auto simp: fan_configured_def in_int_def tach_scale_def EMC2305_TACH_FREQ_def EMC2305_RPM_CONST_VAL_def)
  have nz: "e_poles f \<noteq> 0" "v \<noteq> 0" using fan_poles_cases [OF f] v by auto
  have "tach_scale f < 2 ^ 32" using fan_poles_cases [OF f] by (auto simp: tach_scale_def)
  then have "unat (word_of_int (int (tach_scale f)) :: u32) = tach_scale f"
    by (simp add: unat_of_nat)
  then have "unat ?q = tach_scale f div unat v" by (simp only: unat_div)
  then have "unat (push_bit 3 (ucast ?q :: u16)) = 8 * (tach_scale f div unat v mod 8192)"
    unfolding unat_push_bit_3 unsigned_ucast_eq take_bit_eq_mod by (simp add: mod_mod_cancel)
  moreover have "sdi_rpm_to_tach_count f v = Some (push_bit 3 (ucast ?q))"
    unfolding sdi_rpm_to_tach_count_def k Option.bind.bind_lunit
    using nz by (simp add: STD_ASSERT_def Let_def)
  ultimately show ?thesis by blast
qed

lemma high_low_bytes:
  "256 * uint (ucast (drop_bit 8 (t :: u16)) :: u8) + uint (ucast t :: u8) = uint t"
proof -
  have hi: "uint (ucast (drop_bit 8 t) :: u8) = uint t div 256"
  proof -
    have "uint t < 65536" using unsigned_less [of t] by simp
    then have "uint t div 256 mod 256 = uint t div 256"
      by (intro mod_pos_pos_trivial) (simp_all add: pos_imp_zdiv_nonneg_iff)
    then show ?thesis
      by (simp add: unsigned_ucast_eq unsigned_drop_bit_eq drop_bit_eq_div take_bit_eq_mod uint_div)
  qed
  have lo: "uint (ucast t :: u8) = uint t mod 256"
    by (simp add: unsigned_ucast_eq take_bit_eq_mod)
  show ?thesis unfolding hi lo by simp
qed

lemma sdiv_int_nat: "int a sdiv int b = int (a div b)"
  by (simp add: signed_divide_int_def zdiv_int sgn_if)

text \<open>
  C36. What the RPM mode makes of a speed. Let a fan of the EMC2305 be configured with \<open>p\<close> poles
  and let its tachometer registers have reached the target that sdi\_rpm\_to\_tach\_count computes
  for the speed \<open>v\<close>. Then the driver reads the speed \<open>2 K / (c p)\<close>, where \<open>K\<close> is 3932160 times
  \<open>p\<close> and \<open>c\<close> is \<open>K / v\<close> cut off to 13 bits: about \<open>2 v / p\<close>, so the target is the speed asked for
  only with two poles, and only when the count fits into 13 bits.
\<close>

theorem emc2305_rpm_mode_speed:
  assumes "register_file (chip_bus chip) (chip_addr chip) regs"
    and "at_index (emc2305_fan d) i = Some f" and "at_index fan_tach_reg i = Some (hi, lo)"
    and "fan_configured f" and "0 < v"
    and "sdi_rpm_to_tach_count f v = Some t"
    and "regs w hi = ucast (drop_bit 8 t)" and "regs w lo = ucast t"
    and "tach_scale f div unat v mod 8192 \<noteq> 0"
  shows "\<exists>w'. sdi_emc2305_fan_speed_get chip i 0 (d, w) =
    Some (STD_ERR_OK,
      of_nat (2 * tach_scale f div ((tach_scale f div unat v mod 8192) * unat (e_poles f))), d, w')"
proof -
  let ?c = "tach_scale f div unat v mod 8192"
  obtain w1 where w1: "chip_read chip hi w = Some (STD_ERR_OK, regs w hi, w1)" "regs w1 = regs w"
    using register_chip_read [OF assms(1)] by blast
  obtain w2 where w2: "chip_read chip lo w1 = Some (STD_ERR_OK, regs w1 lo, w2)"
    using register_chip_read [OF assms(1)] by blast
  have t: "unat t = 8 * ?c" using rpm_target [OF assms(4,5)] assms(6) by auto
  have "256 * uint (regs w hi) + uint (regs w lo) = uint t"
    using high_low_bytes [of t] assms(7,8) by simp
  moreover have "uint t = 8 * int ?c"
    using arg_cong [OF t, of int] by (simp only: uint_nat of_nat_mult of_nat_numeral)
  ultimately have count: "(256 * uint (regs w hi) + uint (regs w lo)) div 8 = int ?c" by simp
  have v: "(uint (e_edges f) - 1) * EMC2305_TACH_FREQ * uint (e_ranges f) * EMC2305_RPM_CONST_VAL =
      int (2 * tach_scale f)"
    using assms(4) fan_poles_cases [OF assms(4)]
    by (auto simp: fan_configured_def tach_scale_def EMC2305_TACH_FREQ_def EMC2305_RPM_CONST_VAL_def)
  have "in_int (int (2 * tach_scale f)) = Some (int (2 * tach_scale f))"
    using fan_poles_cases [OF assms(4)] by (auto simp: in_int_def tach_scale_def)
  moreover have p: "uint (e_poles f) = int (unat (e_poles f))" by (rule uint_nat)
  have "uint (e_poles f) \<noteq> 0" using fan_poles_cases [OF assms(4)] by auto
  then have "int ?c * uint (e_poles f) \<noteq> 0" using assms(9) by simp
  moreover have "int (2 * tach_scale f) sdiv (int ?c * uint (e_poles f)) =
      int (2 * tach_scale f div (?c * unat (e_poles f)))"
    unfolding p of_nat_mult [symmetric] by (rule sdiv_int_nat)
  ultimately show ?thesis
    using w1 w2 assms(2,3) count
    by (simp add: sdi_emc2305_fan_speed_get_def v STD_ASSERT_def Let_def del: at_index_eq_Some of_nat_mult)
qed

definition one_pole_fan :: emc2305_fan_data where
  "one_pole_fan = \<lparr>e_max_speed = 18000, e_poles = 1, e_edges = 3, e_ranges = 2, e_alias = ''fan''\<rparr>"

text \<open>The target for 9000 RPM on a fan with one pole, once reached, is read as 18037 RPM.\<close>

theorem emc2305_rpm_mode_speed_witness:
  "\<exists>w'. sdi_emc2305_fan_speed_get sample_fan_chip 0 0
      (sample_fans\<lparr>emc2305_fan := [one_pole_fan]\<rparr>, (\<lambda>_. 0)(0x3E := 13, 0x3F := 160)) =
    Some (STD_ERR_OK, 18037, sample_fans\<lparr>emc2305_fan := [one_pole_fan]\<rparr>, w')"
proof -
  let ?w = "(\<lambda>_. 0)(0x3E := 13, 0x3F := 160) :: u8 \<Rightarrow> u8"
  have R: "register_file (chip_bus sample_fan_chip) (chip_addr sample_fan_chip) (\<lambda>w. w)"
    by (simp add: sample_register_file sample_fan_chip_def)
  have f: "fan_configured one_pole_fan" by (simp add: fan_configured_def one_pole_fan_def)
  have scale: "tach_scale one_pole_fan = 3932160" by (simp add: tach_scale_def one_pole_fan_def)
  obtain t where t: "sdi_rpm_to_tach_count one_pole_fan 9000 = Some t" "unat t = 3488"
    using rpm_target [OF f, of 9000] scale by auto
  have "t = 3488" using t(2) by (simp add: word_unat_eq_iff)
  then have bytes: "ucast (drop_bit 8 t) = (13 :: u8)" "ucast t = (160 :: u8)" by simp_all
  show ?thesis
    using emc2305_rpm_mode_speed [OF R, where d = "sample_fans\<lparr>emc2305_fan := [one_pole_fan]\<rparr>" and i = 0
        and f = one_pole_fan and hi = "0x3E" and lo = "0x3F" and v = 9000 and t = t and w = ?w] f t(1) bytes scale
    by (simp add: fan_tach_reg_def one_pole_fan_def)
qed

end
