(* ===== verification/Media_Regs.thy ===== *)
theory Media_Regs
  imports Sdi_Prelude
begin

text \<open>
  The constants of the media drivers: status flags of src/inc/opx/sdi\_media.h, register offsets and
  bits of src/inc/opx/private/sdi\_qsfp\_reg.h and sdi\_sfp\_reg.h. Offsets and bit numbers are
  unsigned ints, flags within a byte are bytes. They are abbreviations, so that terms that contain
  them evaluate as they are.
\<close>

section \<open>Flags of the media API (sdi\_media.h)\<close>

abbreviation (input) SDI_MEDIA_STATUS_TEMP_HIGH_ALARM :: u32 where "SDI_MEDIA_STATUS_TEMP_HIGH_ALARM \<equiv> 1"
abbreviation (input) SDI_MEDIA_STATUS_TEMP_LOW_ALARM :: u32 where "SDI_MEDIA_STATUS_TEMP_LOW_ALARM \<equiv> 2"
abbreviation (input) SDI_MEDIA_STATUS_TEMP_HIGH_WARNING :: u32 where "SDI_MEDIA_STATUS_TEMP_HIGH_WARNING \<equiv> 4"
abbreviation (input) SDI_MEDIA_STATUS_TEMP_LOW_WARNING :: u32 where "SDI_MEDIA_STATUS_TEMP_LOW_WARNING \<equiv> 8"
abbreviation (input) SDI_MEDIA_STATUS_VOLT_HIGH_ALARM :: u32 where "SDI_MEDIA_STATUS_VOLT_HIGH_ALARM \<equiv> 16"
abbreviation (input) SDI_MEDIA_STATUS_VOLT_LOW_ALARM :: u32 where "SDI_MEDIA_STATUS_VOLT_LOW_ALARM \<equiv> 32"
abbreviation (input) SDI_MEDIA_STATUS_VOLT_HIGH_WARNING :: u32 where "SDI_MEDIA_STATUS_VOLT_HIGH_WARNING \<equiv> 64"
abbreviation (input) SDI_MEDIA_STATUS_VOLT_LOW_WARNING :: u32 where "SDI_MEDIA_STATUS_VOLT_LOW_WARNING \<equiv> 128"
abbreviation (input) SDI_MEDIA_STATUS_TXDISABLE :: u32 where "SDI_MEDIA_STATUS_TXDISABLE \<equiv> 1"
abbreviation (input) SDI_MEDIA_STATUS_TXFAULT :: u32 where "SDI_MEDIA_STATUS_TXFAULT \<equiv> 2"
abbreviation (input) SDI_MEDIA_STATUS_TXLOSS :: u32 where "SDI_MEDIA_STATUS_TXLOSS \<equiv> 4"
abbreviation (input) SDI_MEDIA_STATUS_RXLOSS :: u32 where "SDI_MEDIA_STATUS_RXLOSS \<equiv> 8"
abbreviation (input) SDI_MEDIA_RX_PWR_HIGH_ALARM :: u32 where "SDI_MEDIA_RX_PWR_HIGH_ALARM \<equiv> 1"
abbreviation (input) SDI_MEDIA_RX_PWR_LOW_ALARM :: u32 where "SDI_MEDIA_RX_PWR_LOW_ALARM \<equiv> 2"
abbreviation (input) SDI_MEDIA_RX_PWR_HIGH_WARNING :: u32 where "SDI_MEDIA_RX_PWR_HIGH_WARNING \<equiv> 4"
abbreviation (input) SDI_MEDIA_RX_PWR_LOW_WARNING :: u32 where "SDI_MEDIA_RX_PWR_LOW_WARNING \<equiv> 8"
abbreviation (input) SDI_MEDIA_TX_BIAS_HIGH_ALARM :: u32 where "SDI_MEDIA_TX_BIAS_HIGH_ALARM \<equiv> 16"
abbreviation (input) SDI_MEDIA_TX_BIAS_LOW_ALARM :: u32 where "SDI_MEDIA_TX_BIAS_LOW_ALARM \<equiv> 32"
abbreviation (input) SDI_MEDIA_TX_BIAS_HIGH_WARNING :: u32 where "SDI_MEDIA_TX_BIAS_HIGH_WARNING \<equiv> 64"
abbreviation (input) SDI_MEDIA_TX_BIAS_LOW_WARNING :: u32 where "SDI_MEDIA_TX_BIAS_LOW_WARNING \<equiv> 128"
abbreviation (input) SDI_MEDIA_TX_PWR_HIGH_ALARM :: u32 where "SDI_MEDIA_TX_PWR_HIGH_ALARM \<equiv> 256"
abbreviation (input) SDI_MEDIA_TX_PWR_LOW_ALARM :: u32 where "SDI_MEDIA_TX_PWR_LOW_ALARM \<equiv> 512"
abbreviation (input) SDI_MEDIA_TX_PWR_HIGH_WARNING :: u32 where "SDI_MEDIA_TX_PWR_HIGH_WARNING \<equiv> 1024"
abbreviation (input) SDI_MEDIA_TX_PWR_LOW_WARNING :: u32 where "SDI_MEDIA_TX_PWR_LOW_WARNING \<equiv> 2048"

section \<open>Registers of a QSFP module (private/sdi\_qsfp\_reg.h)\<close>

abbreviation (input) IDENTIFIER_OFFSET :: u32 where "IDENTIFIER_OFFSET \<equiv> 0"
abbreviation (input) QSFP_STATUS_INDICATOR_OFFSET :: u32 where "QSFP_STATUS_INDICATOR_OFFSET \<equiv> 2"
abbreviation (input) QSFP_CHANNEL_LOS_INDICATOR :: u32 where "QSFP_CHANNEL_LOS_INDICATOR \<equiv> 3"
abbreviation (input) QSFP_CHANNEL_TXFAULT_INDICATOR :: u32 where "QSFP_CHANNEL_TXFAULT_INDICATOR \<equiv> 4"
abbreviation (input) QSFP_TEMP_INTERRUPT_OFFSET :: u32 where "QSFP_TEMP_INTERRUPT_OFFSET \<equiv> 6"
abbreviation (input) QSFP_VOLT_INTERRUPT_OFFSET :: u32 where "QSFP_VOLT_INTERRUPT_OFFSET \<equiv> 7"
abbreviation (input) QSFP_RX12_POWER_INTERRUPT_OFFSET :: u32 where "QSFP_RX12_POWER_INTERRUPT_OFFSET \<equiv> 9"
abbreviation (input) QSFP_RX34_POWER_INTERRUPT_OFFSET :: u32 where "QSFP_RX34_POWER_INTERRUPT_OFFSET \<equiv> 10"
abbreviation (input) QSFP_TX12_BIAS_INTERRUPT_OFFSET :: u32 where "QSFP_TX12_BIAS_INTERRUPT_OFFSET \<equiv> 11"
abbreviation (input) QSFP_TX34_BIAS_INTERRUPT_OFFSET :: u32 where "QSFP_TX34_BIAS_INTERRUPT_OFFSET \<equiv> 12"
abbreviation (input) QSFP_TEMPERATURE_OFFSET :: u32 where "QSFP_TEMPERATURE_OFFSET \<equiv> 22"
abbreviation (input) QSFP_RX1_POWER_OFFSET :: u32 where "QSFP_RX1_POWER_OFFSET \<equiv> 34"
abbreviation (input) QSFP_RX2_POWER_OFFSET :: u32 where "QSFP_RX2_POWER_OFFSET \<equiv> 36"
abbreviation (input) QSFP_RX3_POWER_OFFSET :: u32 where "QSFP_RX3_POWER_OFFSET \<equiv> 38"
abbreviation (input) QSFP_RX4_POWER_OFFSET :: u32 where "QSFP_RX4_POWER_OFFSET \<equiv> 40"
abbreviation (input) QSFP_TX1_POWER_BIAS_OFFSET :: u32 where "QSFP_TX1_POWER_BIAS_OFFSET \<equiv> 42"
abbreviation (input) QSFP_TX2_POWER_BIAS_OFFSET :: u32 where "QSFP_TX2_POWER_BIAS_OFFSET \<equiv> 44"
abbreviation (input) QSFP_TX3_POWER_BIAS_OFFSET :: u32 where "QSFP_TX3_POWER_BIAS_OFFSET \<equiv> 46"
abbreviation (input) QSFP_TX4_POWER_BIAS_OFFSET :: u32 where "QSFP_TX4_POWER_BIAS_OFFSET \<equiv> 48"
abbreviation (input) QSFP_TX_CONTROL_OFFSET :: u32 where "QSFP_TX_CONTROL_OFFSET \<equiv> 86"
abbreviation (input) QSFP_RX_EXT_RATE_SELECT_OFFSET :: u32 where "QSFP_RX_EXT_RATE_SELECT_OFFSET \<equiv> 87"
abbreviation (input) QSFP_TX_EXT_RATE_SELECT_OFFSET :: u32 where "QSFP_TX_EXT_RATE_SELECT_OFFSET \<equiv> 88"
abbreviation (input) QSFP_POWER_CLASS_CONTROL_OFFSET :: u32 where "QSFP_POWER_CLASS_CONTROL_OFFSET \<equiv> 93"
abbreviation (input) QSFP_CDR_CONTROL_OFFSET :: u32 where "QSFP_CDR_CONTROL_OFFSET \<equiv> 98"
abbreviation (input) QSFP_FREE_SIDE_DEV_PROP_OFFSET :: u32 where "QSFP_FREE_SIDE_DEV_PROP_OFFSET \<equiv> 113"
abbreviation (input) QSFP_PAGE_SELECT_BYTE_OFFSET :: u32 where "QSFP_PAGE_SELECT_BYTE_OFFSET \<equiv> 127"
abbreviation (input) QSFP_IDENTIFIER_OFFSET :: u32 where "QSFP_IDENTIFIER_OFFSET \<equiv> 128"
abbreviation (input) QSFP_EXT_IDENTIFIER_OFFSET :: u32 where "QSFP_EXT_IDENTIFIER_OFFSET \<equiv> 129"
abbreviation (input) QSFP_CONNECTOR_OFFSET :: u32 where "QSFP_CONNECTOR_OFFSET \<equiv> 130"
abbreviation (input) QSFP_COMPLIANCE_CODE_OFFSET :: u32 where "QSFP_COMPLIANCE_CODE_OFFSET \<equiv> 131"
abbreviation (input) QSFP_ENCODING_TYPE_OFFSET :: u32 where "QSFP_ENCODING_TYPE_OFFSET \<equiv> 139"
abbreviation (input) QSFP_NM_BITRATE_OFFSET :: u32 where "QSFP_NM_BITRATE_OFFSET \<equiv> 140"
abbreviation (input) QSFP_LENGTH_SMF_KM_OFFSET :: u32 where "QSFP_LENGTH_SMF_KM_OFFSET \<equiv> 142"
abbreviation (input) QSFP_LENGTH_OM3_OFFSET :: u32 where "QSFP_LENGTH_OM3_OFFSET \<equiv> 143"
abbreviation (input) QSFP_LENGTH_OM2_OFFSET :: u32 where "QSFP_LENGTH_OM2_OFFSET \<equiv> 144"
abbreviation (input) QSFP_LENGTH_OM1_OFFSET :: u32 where "QSFP_LENGTH_OM1_OFFSET \<equiv> 145"
abbreviation (input) QSFP_LENGTH_CABLE_ASSEMBLY_OFFSET :: u32 where "QSFP_LENGTH_CABLE_ASSEMBLY_OFFSET \<equiv> 146"
abbreviation (input) QSFP_DEVICE_TECH_OFFSET :: u32 where "QSFP_DEVICE_TECH_OFFSET \<equiv> 147"
abbreviation (input) QSFP_VENDOR_NAME_OFFSET :: u32 where "QSFP_VENDOR_NAME_OFFSET \<equiv> 148"
abbreviation (input) QSFP_VENDOR_OUI_OFFSET :: u32 where "QSFP_VENDOR_OUI_OFFSET \<equiv> 165"
abbreviation (input) QSFP_VENDOR_PN_OFFSET :: u32 where "QSFP_VENDOR_PN_OFFSET \<equiv> 168"
abbreviation (input) QSFP_VENDOR_REVISION_OFFSET :: u32 where "QSFP_VENDOR_REVISION_OFFSET \<equiv> 184"
abbreviation (input) QSFP_WAVELENGTH_OFFSET :: u32 where "QSFP_WAVELENGTH_OFFSET \<equiv> 186"
abbreviation (input) QSFP_WAVELENGTH_TOLERANCE_OFFSET :: u32 where "QSFP_WAVELENGTH_TOLERANCE_OFFSET \<equiv> 188"
abbreviation (input) QSFP_MAX_CASE_TEMP_OFFSET :: u32 where "QSFP_MAX_CASE_TEMP_OFFSET \<equiv> 190"
abbreviation (input) QSFP_CC_BASE_OFFSET :: u32 where "QSFP_CC_BASE_OFFSET \<equiv> 191"
abbreviation (input) QSFP_OPTIONS1_OFFSET :: u32 where "QSFP_OPTIONS1_OFFSET \<equiv> 192"
abbreviation (input) QSFP_OPTIONS3_OFFSET :: u32 where "QSFP_OPTIONS3_OFFSET \<equiv> 194"
abbreviation (input) QSFP_OPTIONS4_OFFSET :: u32 where "QSFP_OPTIONS4_OFFSET \<equiv> 195"
abbreviation (input) QSFP_VENDOR_SN_OFFSET :: u32 where "QSFP_VENDOR_SN_OFFSET \<equiv> 196"
abbreviation (input) QSFP_VENDOR_DATE_OFFSET :: u32 where "QSFP_VENDOR_DATE_OFFSET \<equiv> 212"
abbreviation (input) QSFP_DIAG_MON_TYPE_OFFSET :: u32 where "QSFP_DIAG_MON_TYPE_OFFSET \<equiv> 220"
abbreviation (input) QSFP_ENHANCED_OPTIONS_OFFSET :: u32 where "QSFP_ENHANCED_OPTIONS_OFFSET \<equiv> 221"
abbreviation (input) QSFP_CC_EXT_OFFSET :: u32 where "QSFP_CC_EXT_OFFSET \<equiv> 223"
abbreviation (input) QSFP_TEMP_HIGH_ALARM_THRESHOLD_OFFSET :: u32 where "QSFP_TEMP_HIGH_ALARM_THRESHOLD_OFFSET \<equiv> 128"
abbreviation (input) QSFP_TEMP_LOW_ALARM_THRESHOLD_OFFSET :: u32 where "QSFP_TEMP_LOW_ALARM_THRESHOLD_OFFSET \<equiv> 130"
abbreviation (input) QSFP_TEMP_HIGH_WARNING_THRESHOLD_OFFSET :: u32 where "QSFP_TEMP_HIGH_WARNING_THRESHOLD_OFFSET \<equiv> 132"
abbreviation (input) QSFP_TEMP_LOW_WARNING_THRESHOLD_OFFSET :: u32 where "QSFP_TEMP_LOW_WARNING_THRESHOLD_OFFSET \<equiv> 134"
abbreviation (input) QSFP_VOLT_HIGH_ALARM_THRESHOLD_OFFSET :: u32 where "QSFP_VOLT_HIGH_ALARM_THRESHOLD_OFFSET \<equiv> 144"
abbreviation (input) QSFP_VOLT_LOW_ALARM_THRESHOLD_OFFSET :: u32 where "QSFP_VOLT_LOW_ALARM_THRESHOLD_OFFSET \<equiv> 146"
abbreviation (input) QSFP_VOLT_HIGH_WARNING_THRESHOLD_OFFSET :: u32 where "QSFP_VOLT_HIGH_WARNING_THRESHOLD_OFFSET \<equiv> 148"
abbreviation (input) QSFP_VOLT_LOW_WARNING_THRESHOLD_OFFSET :: u32 where "QSFP_VOLT_LOW_WARNING_THRESHOLD_OFFSET \<equiv> 150"
abbreviation (input) QSFP_RX_PWR_HIGH_ALARM_THRESHOLD_OFFSET :: u32 where "QSFP_RX_PWR_HIGH_ALARM_THRESHOLD_OFFSET \<equiv> 176"
abbreviation (input) QSFP_RX_PWR_LOW_ALARM_THRESHOLD_OFFSET :: u32 where "QSFP_RX_PWR_LOW_ALARM_THRESHOLD_OFFSET \<equiv> 178"
abbreviation (input) QSFP_RX_PWR_HIGH_WARNING_THRESHOLD_OFFSET :: u32 where "QSFP_RX_PWR_HIGH_WARNING_THRESHOLD_OFFSET \<equiv> 180"
abbreviation (input) QSFP_RX_PWR_LOW_WARNING_THRESHOLD_OFFSET :: u32 where "QSFP_RX_PWR_LOW_WARNING_THRESHOLD_OFFSET \<equiv> 182"
abbreviation (input) QSFP_TX_BIAS_HIGH_ALARM_THRESHOLD_OFFSET :: u32 where "QSFP_TX_BIAS_HIGH_ALARM_THRESHOLD_OFFSET \<equiv> 184"
abbreviation (input) QSFP_TX_BIAS_LOW_ALARM_THRESHOLD_OFFSET :: u32 where "QSFP_TX_BIAS_LOW_ALARM_THRESHOLD_OFFSET \<equiv> 186"
abbreviation (input) QSFP_TX_BIAS_HIGH_WARNING_THRESHOLD_OFFSET :: u32 where "QSFP_TX_BIAS_HIGH_WARNING_THRESHOLD_OFFSET \<equiv> 188"
abbreviation (input) QSFP_TX_BIAS_LOW_WARNING_THRESHOLD_OFFSET :: u32 where "QSFP_TX_BIAS_LOW_WARNING_THRESHOLD_OFFSET \<equiv> 190"
abbreviation (input) QSFP_DD_CHANNEL_TX_LOS_INDICATOR :: u32 where "QSFP_DD_CHANNEL_TX_LOS_INDICATOR \<equiv> 3"
abbreviation (input) QSFP_DD_CHANNEL_RX_LOS_INDICATOR :: u32 where "QSFP_DD_CHANNEL_RX_LOS_INDICATOR \<equiv> 4"
abbreviation (input) QSFP_DD_CHANNEL_TXFAULT_INDICATOR :: u32 where "QSFP_DD_CHANNEL_TXFAULT_INDICATOR \<equiv> 7"
abbreviation (input) QSFP_DD_TEMP_INTERRUPT_OFFSET :: u32 where "QSFP_DD_TEMP_INTERRUPT_OFFSET \<equiv> 8"
abbreviation (input) QSFP_DD_VOLT_INTERRUPT_OFFSET :: u32 where "QSFP_DD_VOLT_INTERRUPT_OFFSET \<equiv> 9"
abbreviation (input) QSFP_DD_VOLTAGE_OFFSET :: u32 where "QSFP_DD_VOLTAGE_OFFSET \<equiv> 26"
abbreviation (input) QSFP_DD_RX5_POWER_OFFSET :: u32 where "QSFP_DD_RX5_POWER_OFFSET \<equiv> 42"
abbreviation (input) QSFP_DD_RX6_POWER_OFFSET :: u32 where "QSFP_DD_RX6_POWER_OFFSET \<equiv> 44"
abbreviation (input) QSFP_DD_RX7_POWER_OFFSET :: u32 where "QSFP_DD_RX7_POWER_OFFSET \<equiv> 46"
abbreviation (input) QSFP_DD_RX8_POWER_OFFSET :: u32 where "QSFP_DD_RX8_POWER_OFFSET \<equiv> 48"
abbreviation (input) QSFP_DD_TX1_BIAS_OFFSET :: u32 where "QSFP_DD_TX1_BIAS_OFFSET \<equiv> 50"
abbreviation (input) QSFP_DD_TX2_BIAS_OFFSET :: u32 where "QSFP_DD_TX2_BIAS_OFFSET \<equiv> 52"
abbreviation (input) QSFP_DD_TX3_BIAS_OFFSET :: u32 where "QSFP_DD_TX3_BIAS_OFFSET \<equiv> 54"
abbreviation (input) QSFP_DD_TX4_BIAS_OFFSET :: u32 where "QSFP_DD_TX4_BIAS_OFFSET \<equiv> 56"
abbreviation (input) QSFP_DD_TX5_BIAS_OFFSET :: u32 where "QSFP_DD_TX5_BIAS_OFFSET \<equiv> 58"
abbreviation (input) QSFP_DD_TX6_BIAS_OFFSET :: u32 where "QSFP_DD_TX6_BIAS_OFFSET \<equiv> 60"
abbreviation (input) QSFP_DD_TX7_BIAS_OFFSET :: u32 where "QSFP_DD_TX7_BIAS_OFFSET \<equiv> 62"
abbreviation (input) QSFP_DD_TX8_BIAS_OFFSET :: u32 where "QSFP_DD_TX8_BIAS_OFFSET \<equiv> 64"
abbreviation (input) QSFP_DD_TX1_POWER_OFFSET :: u32 where "QSFP_DD_TX1_POWER_OFFSET \<equiv> 66"
abbreviation (input) QSFP_DD_TX2_POWER_OFFSET :: u32 where "QSFP_DD_TX2_POWER_OFFSET \<equiv> 68"
abbreviation (input) QSFP_DD_TX3_POWER_OFFSET :: u32 where "QSFP_DD_TX3_POWER_OFFSET \<equiv> 70"
abbreviation (input) QSFP_DD_TX4_POWER_OFFSET :: u32 where "QSFP_DD_TX4_POWER_OFFSET \<equiv> 72"
abbreviation (input) QSFP_DD_TX5_POWER_OFFSET :: u32 where "QSFP_DD_TX5_POWER_OFFSET \<equiv> 74"
abbreviation (input) QSFP_DD_TX6_POWER_OFFSET :: u32 where "QSFP_DD_TX6_POWER_OFFSET \<equiv> 76"
abbreviation (input) QSFP_DD_TX7_POWER_OFFSET :: u32 where "QSFP_DD_TX7_POWER_OFFSET \<equiv> 78"
abbreviation (input) QSFP_DD_TX8_POWER_OFFSET :: u32 where "QSFP_DD_TX8_POWER_OFFSET \<equiv> 80"
abbreviation (input) QSFP_DD_TX_CONTROL_OFFSET :: u32 where "QSFP_DD_TX_CONTROL_OFFSET \<equiv> 84"
abbreviation (input) QSFP_DD_TX_CDR_CONTROL_OFFSET :: u32 where "QSFP_DD_TX_CDR_CONTROL_OFFSET \<equiv> 90"
abbreviation (input) QSFP_DD_RX_CDR_CONTROL_OFFSET :: u32 where "QSFP_DD_RX_CDR_CONTROL_OFFSET \<equiv> 91"
abbreviation (input) QSFP28_DD_R2_TEMPERATURE_OFFSET :: u32 where "QSFP28_DD_R2_TEMPERATURE_OFFSET \<equiv> 26"
abbreviation (input) QSFP28_DD_R2_VOLTAGE_OFFSET :: u32 where "QSFP28_DD_R2_VOLTAGE_OFFSET \<equiv> 30"
abbreviation (input) QSFP28_DD_R3_IDENTIFIER_OFFSET :: u32 where "QSFP28_DD_R3_IDENTIFIER_OFFSET \<equiv> 0"
abbreviation (input) QSFP28_DD_R3_TEMPERATURE_OFFSET :: u32 where "QSFP28_DD_R3_TEMPERATURE_OFFSET \<equiv> 14"
abbreviation (input) QSFP28_DD_R3_VOLTAGE_OFFSET :: u32 where "QSFP28_DD_R3_VOLTAGE_OFFSET \<equiv> 16"
abbreviation (input) QSFP28_DD_R3_LANE_ASSIGNMENT_OFFSET :: u32 where "QSFP28_DD_R3_LANE_ASSIGNMENT_OFFSET \<equiv> 89"
abbreviation (input) QSFP28_DD_R3_VENDOR_NAME_OFFSET :: u32 where "QSFP28_DD_R3_VENDOR_NAME_OFFSET \<equiv> 129"
abbreviation (input) QSFP28_DD_R3_VENDOR_OUI_OFFSET :: u32 where "QSFP28_DD_R3_VENDOR_OUI_OFFSET \<equiv> 145"
abbreviation (input) QSFP28_DD_R3_VENDOR_PN_OFFSET :: u32 where "QSFP28_DD_R3_VENDOR_PN_OFFSET \<equiv> 148"
abbreviation (input) QSFP28_DD_R3_VENDOR_REVISION_OFFSET :: u32 where "QSFP28_DD_R3_VENDOR_REVISION_OFFSET \<equiv> 164"
abbreviation (input) QSFP28_DD_R3_VENDOR_SN_OFFSET :: u32 where "QSFP28_DD_R3_VENDOR_SN_OFFSET \<equiv> 166"
abbreviation (input) QSFP28_DD_R3_VENDOR_DATE_OFFSET :: u32 where "QSFP28_DD_R3_VENDOR_DATE_OFFSET \<equiv> 182"
abbreviation (input) QSFP28_DD_R3_LENGTH_CABLE_ASSEMBLY_OFFSET :: u32 where "QSFP28_DD_R3_LENGTH_CABLE_ASSEMBLY_OFFSET \<equiv> 202"
abbreviation (input) QSFP28_DD_R3_CONNECTOR_OFFSET :: u32 where "QSFP28_DD_R3_CONNECTOR_OFFSET \<equiv> 203"
abbreviation (input) QSFP28_DD_EEPROM_VERSION_OFFSET :: u32 where "QSFP28_DD_EEPROM_VERSION_OFFSET \<equiv> 1"
abbreviation (input) QSFP28_DD_R3_TEMP_HIGH_ALARM_THRESHOLD_OFFSET :: u32 where "QSFP28_DD_R3_TEMP_HIGH_ALARM_THRESHOLD_OFFSET \<equiv> 128"
abbreviation (input) QSFP28_DD_R3_TEMP_LOW_ALARM_THRESHOLD_OFFSET :: u32 where "QSFP28_DD_R3_TEMP_LOW_ALARM_THRESHOLD_OFFSET \<equiv> 130"
abbreviation (input) QSFP28_DD_R3_TEMP_HIGH_WARNING_THRESHOLD_OFFSET :: u32 where "QSFP28_DD_R3_TEMP_HIGH_WARNING_THRESHOLD_OFFSET \<equiv> 132"
abbreviation (input) QSFP28_DD_R3_TEMP_LOW_WARNING_THRESHOLD_OFFSET :: u32 where "QSFP28_DD_R3_TEMP_LOW_WARNING_THRESHOLD_OFFSET \<equiv> 134"
abbreviation (input) QSFP28_DD_R3_VOLT_HIGH_ALARM_THRESHOLD_OFFSET :: u32 where "QSFP28_DD_R3_VOLT_HIGH_ALARM_THRESHOLD_OFFSET \<equiv> 136"
abbreviation (input) QSFP28_DD_R3_VOLT_LOW_ALARM_THRESHOLD_OFFSET :: u32 where "QSFP28_DD_R3_VOLT_LOW_ALARM_THRESHOLD_OFFSET \<equiv> 138"
abbreviation (input) QSFP28_DD_R3_VOLT_HIGH_WARNING_THRESHOLD_OFFSET :: u32 where "QSFP28_DD_R3_VOLT_HIGH_WARNING_THRESHOLD_OFFSET \<equiv> 140"
abbreviation (input) QSFP28_DD_R3_VOLT_LOW_WARNING_THRESHOLD_OFFSET :: u32 where "QSFP28_DD_R3_VOLT_LOW_WARNING_THRESHOLD_OFFSET \<equiv> 142"
abbreviation (input) QSFP28_DD_R3_TX_PWR_HIGH_ALARM_THRESHOLD_OFFSET :: u32 where "QSFP28_DD_R3_TX_PWR_HIGH_ALARM_THRESHOLD_OFFSET \<equiv> 176"
abbreviation (input) QSFP28_DD_R3_TX_PWR_LOW_ALARM_THRESHOLD_OFFSET :: u32 where "QSFP28_DD_R3_TX_PWR_LOW_ALARM_THRESHOLD_OFFSET \<equiv> 178"
abbreviation (input) QSFP28_DD_R3_TX_PWR_HIGH_WARNING_THRESHOLD_OFFSET :: u32 where "QSFP28_DD_R3_TX_PWR_HIGH_WARNING_THRESHOLD_OFFSET \<equiv> 180"
abbreviation (input) QSFP28_DD_R3_TX_PWR_LOW_WARNING_THRESHOLD_OFFSET :: u32 where "QSFP28_DD_R3_TX_PWR_LOW_WARNING_THRESHOLD_OFFSET \<equiv> 182"
abbreviation (input) QSFP28_DD_R3_TX_BIAS_HIGH_ALARM_THRESHOLD_OFFSET :: u32 where "QSFP28_DD_R3_TX_BIAS_HIGH_ALARM_THRESHOLD_OFFSET \<equiv> 184"
abbreviation (input) QSFP28_DD_R3_TX_BIAS_LOW_ALARM_THRESHOLD_OFFSET :: u32 where "QSFP28_DD_R3_TX_BIAS_LOW_ALARM_THRESHOLD_OFFSET \<equiv> 186"
abbreviation (input) QSFP28_DD_R3_TX_BIAS_HIGH_WARNING_THRESHOLD_OFFSET :: u32 where "QSFP28_DD_R3_TX_BIAS_HIGH_WARNING_THRESHOLD_OFFSET \<equiv> 188"
abbreviation (input) QSFP28_DD_R3_TX_BIAS_LOW_WARNING_THRESHOLD_OFFSET :: u32 where "QSFP28_DD_R3_TX_BIAS_LOW_WARNING_THRESHOLD_OFFSET \<equiv> 190"
abbreviation (input) QSFP28_DD_R3_RX_PWR_HIGH_ALARM_THRESHOLD_OFFSET :: u32 where "QSFP28_DD_R3_RX_PWR_HIGH_ALARM_THRESHOLD_OFFSET \<equiv> 192"
abbreviation (input) QSFP28_DD_R3_RX_PWR_LOW_ALARM_THRESHOLD_OFFSET :: u32 where "QSFP28_DD_R3_RX_PWR_LOW_ALARM_THRESHOLD_OFFSET \<equiv> 194"
abbreviation (input) QSFP28_DD_R3_RX_PWR_HIGH_WARNING_THRESHOLD_OFFSET :: u32 where "QSFP28_DD_R3_RX_PWR_HIGH_WARNING_THRESHOLD_OFFSET \<equiv> 196"
abbreviation (input) QSFP28_DD_R3_RX_PWR_LOW_WARNING_THRESHOLD_OFFSET :: u32 where "QSFP28_DD_R3_RX_PWR_LOW_WARNING_THRESHOLD_OFFSET \<equiv> 198"
abbreviation (input) QSFP_FLAT_MEM_BIT_OFFSET :: u32 where "QSFP_FLAT_MEM_BIT_OFFSET \<equiv> 2"
abbreviation (input) QSFP_TX_LOS_BIT_OFFSET :: u32 where "QSFP_TX_LOS_BIT_OFFSET \<equiv> 16"
abbreviation (input) QSFP_RX_LOS_BIT_OFFSET :: u32 where "QSFP_RX_LOS_BIT_OFFSET \<equiv> 1"
abbreviation (input) QSFP_DD_TX_LOS_BIT_OFFSET :: u32 where "QSFP_DD_TX_LOS_BIT_OFFSET \<equiv> 1"
abbreviation (input) QSFP_DD_RX_LOS_BIT_OFFSET :: u32 where "QSFP_DD_RX_LOS_BIT_OFFSET \<equiv> 1"
abbreviation (input) QSFP_TX_CDR_CONTROL_BIT_OFFSET :: u32 where "QSFP_TX_CDR_CONTROL_BIT_OFFSET \<equiv> 7"
abbreviation (input) QSFP_RX_CDR_CONTROL_BIT_OFFSET :: u32 where "QSFP_RX_CDR_CONTROL_BIT_OFFSET \<equiv> 6"
abbreviation (input) QSFP_TX_DISABLE_BIT_OFFSET :: u32 where "QSFP_TX_DISABLE_BIT_OFFSET \<equiv> 4"
abbreviation (input) QSFP_RATE_SELECT_BIT_OFFSET :: u32 where "QSFP_RATE_SELECT_BIT_OFFSET \<equiv> 5"
abbreviation (input) QSFP_WAVELENGTH_DIVIDER :: u32 where "QSFP_WAVELENGTH_DIVIDER \<equiv> 20"
abbreviation (input) QSFP_WAVELENGTH_TOLERANCE_DIVIDER :: u32 where "QSFP_WAVELENGTH_TOLERANCE_DIVIDER \<equiv> 200"
abbreviation (input) SDI_QSFP_QSA28_OUI_OFFSET :: u32 where "SDI_QSFP_QSA28_OUI_OFFSET \<equiv> 64"
abbreviation (input) SDI_QSFP_QSA28_OUI_VAL0 :: u8 where "SDI_QSFP_QSA28_OUI_VAL0 \<equiv> 0"
abbreviation (input) SDI_QSFP_QSA28_OUI_VAL1 :: u8 where "SDI_QSFP_QSA28_OUI_VAL1 \<equiv> 2"
abbreviation (input) SDI_QSFP_QSA28_OUI_VAL2 :: u8 where "SDI_QSFP_QSA28_OUI_VAL2 \<equiv> 201"
abbreviation (input) QSFP_TEMP_HIGH_ALARM_FLAG :: u8 where "QSFP_TEMP_HIGH_ALARM_FLAG \<equiv> 128"
abbreviation (input) QSFP_TEMP_LOW_ALARM_FLAG :: u8 where "QSFP_TEMP_LOW_ALARM_FLAG \<equiv> 64"
abbreviation (input) QSFP_TEMP_HIGH_WARNING_FLAG :: u8 where "QSFP_TEMP_HIGH_WARNING_FLAG \<equiv> 32"
abbreviation (input) QSFP_TEMP_LOW_WARNING_FLAG :: u8 where "QSFP_TEMP_LOW_WARNING_FLAG \<equiv> 16"
abbreviation (input) QSFP_VOLT_HIGH_ALARM_FLAG :: u8 where "QSFP_VOLT_HIGH_ALARM_FLAG \<equiv> 128"
abbreviation (input) QSFP_VOLT_LOW_ALARM_FLAG :: u8 where "QSFP_VOLT_LOW_ALARM_FLAG \<equiv> 64"
abbreviation (input) QSFP_VOLT_HIGH_WARNING_FLAG :: u8 where "QSFP_VOLT_HIGH_WARNING_FLAG \<equiv> 32"
abbreviation (input) QSFP_VOLT_LOW_WARNING_FLAG :: u8 where "QSFP_VOLT_LOW_WARNING_FLAG \<equiv> 16"
abbreviation (input) QSFP_RX13_POWER_HIGH_ALARM_FLAG :: u8 where "QSFP_RX13_POWER_HIGH_ALARM_FLAG \<equiv> 128"
abbreviation (input) QSFP_RX13_POWER_LOW_ALARM_FLAG :: u8 where "QSFP_RX13_POWER_LOW_ALARM_FLAG \<equiv> 64"
abbreviation (input) QSFP_RX13_POWER_HIGH_WARNING_FLAG :: u8 where "QSFP_RX13_POWER_HIGH_WARNING_FLAG \<equiv> 32"
abbreviation (input) QSFP_RX13_POWER_LOW_WARNING_FLAG :: u8 where "QSFP_RX13_POWER_LOW_WARNING_FLAG \<equiv> 16"
abbreviation (input) QSFP_RX24_POWER_HIGH_ALARM_FLAG :: u8 where "QSFP_RX24_POWER_HIGH_ALARM_FLAG \<equiv> 8"
abbreviation (input) QSFP_RX24_POWER_LOW_ALARM_FLAG :: u8 where "QSFP_RX24_POWER_LOW_ALARM_FLAG \<equiv> 4"
abbreviation (input) QSFP_RX24_POWER_HIGH_WARNING_FLAG :: u8 where "QSFP_RX24_POWER_HIGH_WARNING_FLAG \<equiv> 2"
abbreviation (input) QSFP_RX24_POWER_LOW_WARNING_FLAG :: u8 where "QSFP_RX24_POWER_LOW_WARNING_FLAG \<equiv> 1"
abbreviation (input) QSFP_TX13_BIAS_HIGH_ALARM_FLAG :: u8 where "QSFP_TX13_BIAS_HIGH_ALARM_FLAG \<equiv> 128"
abbreviation (input) QSFP_TX13_BIAS_LOW_ALARM_FLAG :: u8 where "QSFP_TX13_BIAS_LOW_ALARM_FLAG \<equiv> 64"
abbreviation (input) QSFP_TX13_BIAS_HIGH_WARNING_FLAG :: u8 where "QSFP_TX13_BIAS_HIGH_WARNING_FLAG \<equiv> 32"
abbreviation (input) QSFP_TX13_BIAS_LOW_WARNING_FLAG :: u8 where "QSFP_TX13_BIAS_LOW_WARNING_FLAG \<equiv> 16"
abbreviation (input) QSFP_TX24_BIAS_HIGH_ALARM_FLAG :: u8 where "QSFP_TX24_BIAS_HIGH_ALARM_FLAG \<equiv> 8"
abbreviation (input) QSFP_TX24_BIAS_LOW_ALARM_FLAG :: u8 where "QSFP_TX24_BIAS_LOW_ALARM_FLAG \<equiv> 4"
abbreviation (input) QSFP_TX24_BIAS_HIGH_WARNING_FLAG :: u8 where "QSFP_TX24_BIAS_HIGH_WARNING_FLAG \<equiv> 2"
abbreviation (input) QSFP_TX24_BIAS_LOW_WARNING_FLAG :: u8 where "QSFP_TX24_BIAS_LOW_WARNING_FLAG \<equiv> 1"

section \<open>Registers of an SFP module (private/sdi\_sfp\_reg.h)\<close>

abbreviation (input) SFP_IDENTIFIER_OFFSET :: u32 where "SFP_IDENTIFIER_OFFSET \<equiv> 0"
abbreviation (input) SFP_EXT_IDENTIFIER_OFFSET :: u32 where "SFP_EXT_IDENTIFIER_OFFSET \<equiv> 1"
abbreviation (input) SFP_CONNECTOR_OFFSET :: u32 where "SFP_CONNECTOR_OFFSET \<equiv> 2"
abbreviation (input) SFP_COMPLIANCE_CODE_OFFSET :: u32 where "SFP_COMPLIANCE_CODE_OFFSET \<equiv> 3"
abbreviation (input) SFP_ENCODING_TYPE_OFFSET :: u32 where "SFP_ENCODING_TYPE_OFFSET \<equiv> 11"
abbreviation (input) SFP_NM_BITRATE_OFFSET :: u32 where "SFP_NM_BITRATE_OFFSET \<equiv> 12"
abbreviation (input) SFP_LENGTH_SMF_KM_OFFSET :: u32 where "SFP_LENGTH_SMF_KM_OFFSET \<equiv> 14"
abbreviation (input) SFP_LENGTH_SMF_OFFSET :: u32 where "SFP_LENGTH_SMF_OFFSET \<equiv> 15"
abbreviation (input) SFP_LENGTH_OM2_OFFSET :: u32 where "SFP_LENGTH_OM2_OFFSET \<equiv> 16"
abbreviation (input) SFP_LENGTH_OM1_OFFSET :: u32 where "SFP_LENGTH_OM1_OFFSET \<equiv> 17"
abbreviation (input) SFP_LENGTH_CABLE_ASSEMBLY_OFFSET :: u32 where "SFP_LENGTH_CABLE_ASSEMBLY_OFFSET \<equiv> 18"
abbreviation (input) SFP_LENGTH_OM3_OFFSET :: u32 where "SFP_LENGTH_OM3_OFFSET \<equiv> 19"
abbreviation (input) SFP_VENDOR_NAME_OFFSET :: u32 where "SFP_VENDOR_NAME_OFFSET \<equiv> 20"
abbreviation (input) SFP_EXT_COMPLIANCE_CODE_OFFSET :: u32 where "SFP_EXT_COMPLIANCE_CODE_OFFSET \<equiv> 36"
abbreviation (input) SFP_VENDOR_OUI_OFFSET :: u32 where "SFP_VENDOR_OUI_OFFSET \<equiv> 37"
abbreviation (input) SFP_VENDOR_PN_OFFSET :: u32 where "SFP_VENDOR_PN_OFFSET \<equiv> 40"
abbreviation (input) SFP_VENDOR_REVISION_OFFSET :: u32 where "SFP_VENDOR_REVISION_OFFSET \<equiv> 56"
abbreviation (input) SFP_WAVELENGTH_OFFSET :: u32 where "SFP_WAVELENGTH_OFFSET \<equiv> 60"
abbreviation (input) SFP_CC_BASE_OFFSET :: u32 where "SFP_CC_BASE_OFFSET \<equiv> 63"
abbreviation (input) SFP_OPTIONS_OFFSET :: u32 where "SFP_OPTIONS_OFFSET \<equiv> 64"
abbreviation (input) SFP_OPTIONS2_OFFSET :: u32 where "SFP_OPTIONS2_OFFSET \<equiv> 65"
abbreviation (input) SFP_MAX_BITRATE_OFFSET :: u32 where "SFP_MAX_BITRATE_OFFSET \<equiv> 66"
abbreviation (input) SFP_MIN_BITRATE_OFFSET :: u32 where "SFP_MIN_BITRATE_OFFSET \<equiv> 67"
abbreviation (input) SFP_VENDOR_SN_OFFSET :: u32 where "SFP_VENDOR_SN_OFFSET \<equiv> 68"
abbreviation (input) SFP_VENDOR_DATE_OFFSET :: u32 where "SFP_VENDOR_DATE_OFFSET \<equiv> 84"
abbreviation (input) SFP_DIAG_MON_TYPE_OFFSET :: u32 where "SFP_DIAG_MON_TYPE_OFFSET \<equiv> 92"
abbreviation (input) SFP_ENHANCED_OPTIONS_OFFSET :: u32 where "SFP_ENHANCED_OPTIONS_OFFSET \<equiv> 93"
abbreviation (input) SFP_CC_EXT_OFFSET :: u32 where "SFP_CC_EXT_OFFSET \<equiv> 95"
abbreviation (input) SFP_EXT_MOD_CTRL_SUPPORT_OFFSET :: u32 where "SFP_EXT_MOD_CTRL_SUPPORT_OFFSET \<equiv> 101"
abbreviation (input) SFP_TEMP_HIGH_ALARM_THRESHOLD_OFFSET :: u32 where "SFP_TEMP_HIGH_ALARM_THRESHOLD_OFFSET \<equiv> 0"
abbreviation (input) SFP_TEMP_LOW_ALARM_THRESHOLD_OFFSET :: u32 where "SFP_TEMP_LOW_ALARM_THRESHOLD_OFFSET \<equiv> 2"
abbreviation (input) SFP_TEMP_HIGH_WARNING_THRESHOLD_OFFSET :: u32 where "SFP_TEMP_HIGH_WARNING_THRESHOLD_OFFSET \<equiv> 4"
abbreviation (input) SFP_TEMP_LOW_WARNING_THRESHOLD_OFFSET :: u32 where "SFP_TEMP_LOW_WARNING_THRESHOLD_OFFSET \<equiv> 6"
abbreviation (input) SFP_VOLT_HIGH_ALARM_THRESHOLD_OFFSET :: u32 where "SFP_VOLT_HIGH_ALARM_THRESHOLD_OFFSET \<equiv> 8"
abbreviation (input) SFP_VOLT_LOW_ALARM_THRESHOLD_OFFSET :: u32 where "SFP_VOLT_LOW_ALARM_THRESHOLD_OFFSET \<equiv> 10"
abbreviation (input) SFP_VOLT_HIGH_WARNING_THRESHOLD_OFFSET :: u32 where "SFP_VOLT_HIGH_WARNING_THRESHOLD_OFFSET \<equiv> 12"
abbreviation (input) SFP_VOLT_LOW_WARNING_THRESHOLD_OFFSET :: u32 where "SFP_VOLT_LOW_WARNING_THRESHOLD_OFFSET \<equiv> 14"
abbreviation (input) SFP_BIAS_HIGH_ALARM_THRESHOLD_OFFSET :: u32 where "SFP_BIAS_HIGH_ALARM_THRESHOLD_OFFSET \<equiv> 16"
abbreviation (input) SFP_BIAS_LOW_ALARM_THRESHOLD_OFFSET :: u32 where "SFP_BIAS_LOW_ALARM_THRESHOLD_OFFSET \<equiv> 18"
abbreviation (input) SFP_BIAS_HIGH_WARNING_THRESHOLD_OFFSET :: u32 where "SFP_BIAS_HIGH_WARNING_THRESHOLD_OFFSET \<equiv> 20"
abbreviation (input) SFP_BIAS_LOW_WARNING_THRESHOLD_OFFSET :: u32 where "SFP_BIAS_LOW_WARNING_THRESHOLD_OFFSET \<equiv> 22"
abbreviation (input) SFP_TX_PWR_HIGH_ALARM_THRESHOLD_OFFSET :: u32 where "SFP_TX_PWR_HIGH_ALARM_THRESHOLD_OFFSET \<equiv> 24"
abbreviation (input) SFP_TX_PWR_LOW_ALARM_THRESHOLD_OFFSET :: u32 where "SFP_TX_PWR_LOW_ALARM_THRESHOLD_OFFSET \<equiv> 26"
abbreviation (input) SFP_TX_PWR_HIGH_WARNING_THRESHOLD_OFFSET :: u32 where "SFP_TX_PWR_HIGH_WARNING_THRESHOLD_OFFSET \<equiv> 28"
abbreviation (input) SFP_TX_PWR_LOW_WARNING_THRESHOLD_OFFSET :: u32 where "SFP_TX_PWR_LOW_WARNING_THRESHOLD_OFFSET \<equiv> 30"
abbreviation (input) SFP_RX_PWR_HIGH_ALARM_THRESHOLD_OFFSET :: u32 where "SFP_RX_PWR_HIGH_ALARM_THRESHOLD_OFFSET \<equiv> 32"
abbreviation (input) SFP_RX_PWR_LOW_ALARM_THRESHOLD_OFFSET :: u32 where "SFP_RX_PWR_LOW_ALARM_THRESHOLD_OFFSET \<equiv> 34"
abbreviation (input) SFP_RX_PWR_HIGH_WARNING_THRESHOLD_OFFSET :: u32 where "SFP_RX_PWR_HIGH_WARNING_THRESHOLD_OFFSET \<equiv> 36"
abbreviation (input) SFP_RX_PWR_LOW_WARNING_THRESHOLD_OFFSET :: u32 where "SFP_RX_PWR_LOW_WARNING_THRESHOLD_OFFSET \<equiv> 38"
abbreviation (input) SFP_CALIB_RX_POWER_CONST_START_OFFSET :: u32 where "SFP_CALIB_RX_POWER_CONST_START_OFFSET \<equiv> 56"
abbreviation (input) SFP_CALIB_TX_BIAS_SLOPE_OFFSET :: u32 where "SFP_CALIB_TX_BIAS_SLOPE_OFFSET \<equiv> 76"
abbreviation (input) SFP_CALIB_TX_BIAS_CONST_OFFSET :: u32 where "SFP_CALIB_TX_BIAS_CONST_OFFSET \<equiv> 78"
abbreviation (input) SFP_CALIB_TX_POWER_SLOPE_OFFSET :: u32 where "SFP_CALIB_TX_POWER_SLOPE_OFFSET \<equiv> 80"
abbreviation (input) SFP_CALIB_TX_POWER_CONST_OFFSET :: u32 where "SFP_CALIB_TX_POWER_CONST_OFFSET \<equiv> 82"
abbreviation (input) SFP_CALIB_TEMP_SLOPE_OFFSET :: u32 where "SFP_CALIB_TEMP_SLOPE_OFFSET \<equiv> 84"
abbreviation (input) SFP_CALIB_TEMP_CONST_OFFSET :: u32 where "SFP_CALIB_TEMP_CONST_OFFSET \<equiv> 86"
abbreviation (input) SFP_CALIB_VOLT_SLOPE_OFFSET :: u32 where "SFP_CALIB_VOLT_SLOPE_OFFSET \<equiv> 88"
abbreviation (input) SFP_CALIB_VOLT_CONST_OFFSET :: u32 where "SFP_CALIB_VOLT_CONST_OFFSET \<equiv> 90"
abbreviation (input) SFP_TEMPERATURE_OFFSET :: u32 where "SFP_TEMPERATURE_OFFSET \<equiv> 96"
abbreviation (input) SFP_VOLTAGE_OFFSET :: u32 where "SFP_VOLTAGE_OFFSET \<equiv> 98"
abbreviation (input) SFP_TX_BIAS_CURRENT_OFFSET :: u32 where "SFP_TX_BIAS_CURRENT_OFFSET \<equiv> 100"
abbreviation (input) SFP_TX_OUTPUT_POWER_OFFSET :: u32 where "SFP_TX_OUTPUT_POWER_OFFSET \<equiv> 102"
abbreviation (input) SFP_RX_INPUT_POWER_OFFSET :: u32 where "SFP_RX_INPUT_POWER_OFFSET \<equiv> 104"
abbreviation (input) SFP_OPTIONAL_STATUS_CONTROL_OFFSET :: u32 where "SFP_OPTIONAL_STATUS_CONTROL_OFFSET \<equiv> 110"
abbreviation (input) SFP_ALARM_STATUS_1_OFFSET :: u32 where "SFP_ALARM_STATUS_1_OFFSET \<equiv> 112"
abbreviation (input) SFP_ALARM_STATUS_2_OFFSET :: u32 where "SFP_ALARM_STATUS_2_OFFSET \<equiv> 113"
abbreviation (input) SFP_WARNING_STATUS_1_OFFSET :: u32 where "SFP_WARNING_STATUS_1_OFFSET \<equiv> 116"
abbreviation (input) SFP_WARNING_STATUS_2_OFFSET :: u32 where "SFP_WARNING_STATUS_2_OFFSET \<equiv> 117"
abbreviation (input) SFP_PAGE_SELECT_BYTE_OFFSET :: u32 where "SFP_PAGE_SELECT_BYTE_OFFSET \<equiv> 127"
abbreviation (input) SFP_TUNE_TYPE_SUPPORT_OFFSET :: u32 where "SFP_TUNE_TYPE_SUPPORT_OFFSET \<equiv> 128"
abbreviation (input) SFP_TUNABLE_FREQ_CAPABILITIES_OFFSET :: u32 where "SFP_TUNABLE_FREQ_CAPABILITIES_OFFSET \<equiv> 132"
abbreviation (input) SFP_CHANNEL_NUMBER_SET_OFFSET :: u32 where "SFP_CHANNEL_NUMBER_SET_OFFSET \<equiv> 144"
abbreviation (input) SFP_WAVELENGTH_SET_OFFSET :: u32 where "SFP_WAVELENGTH_SET_OFFSET \<equiv> 146"
abbreviation (input) SFP_CALIB_TYPE_EXTERNAL_BIT_OFFSET :: u32 where "SFP_CALIB_TYPE_EXTERNAL_BIT_OFFSET \<equiv> 4"
abbreviation (input) SFP_CALIB_TYPE_INTERNAL_BIT_OFFSET :: u32 where "SFP_CALIB_TYPE_INTERNAL_BIT_OFFSET \<equiv> 5"
abbreviation (input) SFP_DDM_SUPPORT_BIT_OFFSET :: u32 where "SFP_DDM_SUPPORT_BIT_OFFSET \<equiv> 6"
abbreviation (input) SFP_SOFT_RX_LOS_MNTR_BIT_OFFSET :: u32 where "SFP_SOFT_RX_LOS_MNTR_BIT_OFFSET \<equiv> 4"
abbreviation (input) SFP_SOFT_TX_FAULT_MNTR_BIT_OFFSET :: u32 where "SFP_SOFT_TX_FAULT_MNTR_BIT_OFFSET \<equiv> 5"
abbreviation (input) SFP_SOFT_TX_DISABLE_CTRL_BIT_OFFSET :: u32 where "SFP_SOFT_TX_DISABLE_CTRL_BIT_OFFSET \<equiv> 6"
abbreviation (input) SFP_ALARM_SUPPORT_BIT_OFFSET :: u32 where "SFP_ALARM_SUPPORT_BIT_OFFSET \<equiv> 7"
abbreviation (input) SFP_OPTIONAL_RX_LOSS_STATE_BIT_OFFSET :: u32 where "SFP_OPTIONAL_RX_LOSS_STATE_BIT_OFFSET \<equiv> 1"
abbreviation (input) SFP_OPTIONAL_TX_FAULT_STATE_BIT_OFFSET :: u32 where "SFP_OPTIONAL_TX_FAULT_STATE_BIT_OFFSET \<equiv> 2"
abbreviation (input) SFP_OPTIONAL_SOFT_TX_DISABLE_STATE_BIT_OFFSET :: u32 where "SFP_OPTIONAL_SOFT_TX_DISABLE_STATE_BIT_OFFSET \<equiv> 6"
abbreviation (input) SFP_OPTIONAL_TX_DISABLE_STATE_BIT_OFFSET :: u32 where "SFP_OPTIONAL_TX_DISABLE_STATE_BIT_OFFSET \<equiv> 7"
abbreviation (input) SFP_RATE_SELECT_BIT_OFFSET :: u32 where "SFP_RATE_SELECT_BIT_OFFSET \<equiv> 1"
abbreviation (input) SFP_TEMP_HIGH_ALARM_FLAG :: u8 where "SFP_TEMP_HIGH_ALARM_FLAG \<equiv> 128"
abbreviation (input) SFP_TEMP_LOW_ALARM_FLAG :: u8 where "SFP_TEMP_LOW_ALARM_FLAG \<equiv> 64"
abbreviation (input) SFP_VOLT_HIGH_ALARM_FLAG :: u8 where "SFP_VOLT_HIGH_ALARM_FLAG \<equiv> 32"
abbreviation (input) SFP_VOLT_LOW_ALARM_FLAG :: u8 where "SFP_VOLT_LOW_ALARM_FLAG \<equiv> 16"
abbreviation (input) SFP_TX_BIAS_HIGH_ALARM_FLAG :: u8 where "SFP_TX_BIAS_HIGH_ALARM_FLAG \<equiv> 8"
abbreviation (input) SFP_TX_BIAS_LOW_ALARM_FLAG :: u8 where "SFP_TX_BIAS_LOW_ALARM_FLAG \<equiv> 4"
abbreviation (input) SFP_TX_PWR_HIGH_ALARM_FLAG :: u8 where "SFP_TX_PWR_HIGH_ALARM_FLAG \<equiv> 2"
abbreviation (input) SFP_TX_PWR_LOW_ALARM_FLAG :: u8 where "SFP_TX_PWR_LOW_ALARM_FLAG \<equiv> 1"
abbreviation (input) SFP_RX_PWR_HIGH_ALARM_FLAG :: u8 where "SFP_RX_PWR_HIGH_ALARM_FLAG \<equiv> 128"
abbreviation (input) SFP_RX_PWR_LOW_ALARM_FLAG :: u8 where "SFP_RX_PWR_LOW_ALARM_FLAG \<equiv> 64"
abbreviation (input) SFP_TEMP_HIGH_WARNING_FLAG :: u8 where "SFP_TEMP_HIGH_WARNING_FLAG \<equiv> 128"
abbreviation (input) SFP_TEMP_LOW_WARNING_FLAG :: u8 where "SFP_TEMP_LOW_WARNING_FLAG \<equiv> 64"
abbreviation (input) SFP_VOLT_HIGH_WARNING_FLAG :: u8 where "SFP_VOLT_HIGH_WARNING_FLAG \<equiv> 32"
abbreviation (input) SFP_VOLT_LOW_WARNING_FLAG :: u8 where "SFP_VOLT_LOW_WARNING_FLAG \<equiv> 16"
abbreviation (input) SFP_TX_BIAS_HIGH_WARNING_FLAG :: u8 where "SFP_TX_BIAS_HIGH_WARNING_FLAG \<equiv> 8"
abbreviation (input) SFP_TX_BIAS_LOW_WARNING_FLAG :: u8 where "SFP_TX_BIAS_LOW_WARNING_FLAG \<equiv> 4"
abbreviation (input) SFP_TX_PWR_HIGH_WARNING_FLAG :: u8 where "SFP_TX_PWR_HIGH_WARNING_FLAG \<equiv> 2"
abbreviation (input) SFP_TX_PWR_LOW_WARNING_FLAG :: u8 where "SFP_TX_PWR_LOW_WARNING_FLAG \<equiv> 1"
abbreviation (input) SFP_RX_PWR_HIGH_WARNING_FLAG :: u8 where "SFP_RX_PWR_HIGH_WARNING_FLAG \<equiv> 128"
abbreviation (input) SFP_RX_PWR_LOW_WARNING_FLAG :: u8 where "SFP_RX_PWR_LOW_WARNING_FLAG \<equiv> 64"
abbreviation (input) SFP_EXT_MOD_CTRL_BIT :: u32 where "SFP_EXT_MOD_CTRL_BIT \<equiv> 0"
abbreviation (input) SDI_SFP_TX_FREQ_CHANNEL_TUNE_SUPPORT_BITMASK :: u32 where "SDI_SFP_TX_FREQ_CHANNEL_TUNE_SUPPORT_BITMASK \<equiv> 1"
abbreviation (input) SDI_SFP_TX_WAVELENGTH_TUNE_SUPPORT_BITMASK :: u32 where "SDI_SFP_TX_WAVELENGTH_TUNE_SUPPORT_BITMASK \<equiv> 0"
abbreviation (input) SDI_SFP_TUNABLE_SUPPORT_BITMASK :: u8 where "SDI_SFP_TUNABLE_SUPPORT_BITMASK \<equiv> 64"

section \<open>Registers of a copper PHY\<close>

abbreviation (input) SFP_COPPER_CTRL_REG :: u32 where "SFP_COPPER_CTRL_REG \<equiv> 0"
abbreviation (input) SFP_COPPER_ANA_REG :: u32 where "SFP_COPPER_ANA_REG \<equiv> 4"
abbreviation (input) SFP_COPPER_GB_CTRL_REG :: u32 where "SFP_COPPER_GB_CTRL_REG \<equiv> 9"
abbreviation (input) SFP_COPPER_PHY_CTRL_REG :: u32 where "SFP_COPPER_PHY_CTRL_REG \<equiv> 16"
abbreviation (input) SFP_COPPER_EXT_STATUS_1_REG :: u32 where "SFP_COPPER_EXT_STATUS_1_REG \<equiv> 17"
abbreviation (input) SFP_COPPER_EXT_STATUS_2_REG :: u32 where "SFP_COPPER_EXT_STATUS_2_REG \<equiv> 27"
abbreviation (input) SFP_COPPER_EXT_ADDRESS_REG :: u32 where "SFP_COPPER_EXT_ADDRESS_REG \<equiv> 29"
abbreviation (input) SFP_COPPER_EXT_PHY_CTRL_REG :: u32 where "SFP_COPPER_EXT_PHY_CTRL_REG \<equiv> 30"

end
