(* ===== verification/Media_Base.thy ===== *)
theory Media_Base
  imports Device Media_Regs
begin

text \<open>
  What the media drivers share: the selection of a module behind pin groups, the transfers on its
  bus, and the byte order helpers of src/drivers/sdi\_platform\_util.c.
\<close>

section \<open>Byte order\<close>

definition sdi_platform_util_convert_be_to_uint16 :: "u8 \<Rightarrow> u8 \<Rightarrow> u16" where
  "sdi_platform_util_convert_be_to_uint16 b0 b1 = push_bit 8 (ucast b0) OR ucast b1"

definition sdi_platform_util_write_16bit_to_bytearray_le :: "u16 \<Rightarrow> u8 \<times> u8" where
  "sdi_platform_util_write_16bit_to_bytearray_le v = (ucast v, ucast (drop_bit 8 v))"

section \<open>Transfers\<close>

text \<open>
  A word of the bus is little endian and goes into a byte array; the registers of the modules are
  big endian. \<open>media_read_word\<close> is sdi\_smbus\_read\_word followed by the conversion, on the two
  bytes of the array.
\<close>

abbreviation media_read ::
    "'w chip \<Rightarrow> sdi_i2c_addr \<Rightarrow> u32 \<Rightarrow> u8 \<Rightarrow> 'w \<Rightarrow> (t_std_error \<times> u8 \<times> 'w) option" where
  "media_read c a offset buf \<equiv> sdi_smbus_read_byte (chip_bus c) a offset buf SDI_I2C_FLAG_NONE"

abbreviation media_write ::
    "'w chip \<Rightarrow> sdi_i2c_addr \<Rightarrow> u32 \<Rightarrow> u8 \<Rightarrow> 'w \<Rightarrow> (t_std_error \<times> 'w) option" where
  "media_write c a offset v \<equiv> sdi_smbus_write_byte (chip_bus c) a offset v SDI_I2C_FLAG_NONE"

definition media_read_word ::
    "'w chip \<Rightarrow> sdi_i2c_addr \<Rightarrow> u32 \<Rightarrow> u16 \<Rightarrow> 'w \<Rightarrow> (t_std_error \<times> (u8 \<times> u8) \<times> 'w) option" where
  "media_read_word c a offset temp_buf w = do {
     (rc, temp_buf, w) \<leftarrow> sdi_smbus_read_word (chip_bus c) a offset temp_buf SDI_I2C_FLAG_NONE w;
     Some (rc, sdi_platform_util_write_16bit_to_bytearray_le temp_buf, w)
   }"

abbreviation media_read_multi ::
    "'w chip \<Rightarrow> sdi_i2c_addr \<Rightarrow> u32 \<Rightarrow> u8 list \<Rightarrow> u32 \<Rightarrow> 'w \<Rightarrow> (t_std_error \<times> u8 list \<times> 'w) option" where
  "media_read_multi c a offset buf n \<equiv> sdi_smbus_read_multi_byte (chip_bus c) a offset buf n SDI_I2C_FLAG_NONE"

abbreviation media_write_multi ::
    "'w chip \<Rightarrow> sdi_i2c_addr \<Rightarrow> u32 \<Rightarrow> u8 list \<Rightarrow> u32 \<Rightarrow> 'w \<Rightarrow> (t_std_error \<times> u8 list \<times> 'w) option" where
  "media_write_multi c a offset buf n \<equiv> sdi_smbus_write_multi_byte (chip_bus c) a offset buf n SDI_I2C_FLAG_NONE"

text \<open>The 16 bits of two bytes, the high one first.\<close>

definition raw16 :: "u8 \<times> u8 \<Rightarrow> u16" where
  "raw16 b = push_bit 8 (ucast (fst b)) OR ucast (snd b)"

section \<open>Selection of a module\<close>

text \<open>
  Modules that share a bus address are told apart by a multiplexer and by select lines, both behind
  pin groups; a NULL handle means that a module needs none. The presence pins have to exist: using
  them through a NULL handle is undefined. The record is the common beginning of
  the private data of both drivers.
\<close>

record 'w media_sel =
  media_chip :: "'w chip"
  mux_sel_hdl :: "(u32, 'w) pin_bus option"
  mux_sel_val :: u32
  mod_sel_hdl :: "(u32, 'w) pin_bus option"
  mod_sel_val :: u32
  mod_pres_hdl :: "(u32, 'w) pin_bus option"
  mod_pres_bitmask :: u32

definition release_group_opt :: "'w os \<Rightarrow> (u32, 'w) pin_bus option \<Rightarrow> 'w \<Rightarrow> 'w option" where
  "release_group_opt os g w = (case g of None \<Rightarrow> Some w | Some g \<Rightarrow> sdi_pin_group_release_bus os g w)"

definition sdi_qsfp_module_select :: "'w os \<Rightarrow> ('w, 'x) media_sel_scheme \<Rightarrow> 'w action" where
  "sdi_qsfp_module_select os d w = do {
     (rc, w) \<leftarrow> (case mux_sel_hdl d of None \<Rightarrow> Some (STD_ERR_OK, w) | Some g \<Rightarrow> do {
       (rc, w) \<leftarrow> sdi_pin_group_acquire_bus os g w;
       if rc \<noteq> STD_ERR_OK then Some (rc, w)
       else do {
         (rc, w) \<leftarrow> sdi_pin_group_write_level g (mux_sel_val d) w;
         if rc \<noteq> STD_ERR_OK then do {
           w \<leftarrow> sdi_pin_group_release_bus os g w;
           Some (rc, w)
         } else Some (rc, w)
       }
     });
     if rc \<noteq> STD_ERR_OK then Some (rc, w)
     else case mod_sel_hdl d of None \<Rightarrow> Some (rc, w) | Some g \<Rightarrow> do {
       (rc, w) \<leftarrow> sdi_pin_group_acquire_bus os g w;
       if rc \<noteq> STD_ERR_OK then do {
         w \<leftarrow> release_group_opt os (mux_sel_hdl d) w;
         Some (rc, w)
       } else do {
         (rc, w) \<leftarrow> sdi_pin_group_write_level g (mod_sel_val d) w;
         if rc \<noteq> STD_ERR_OK then do {
           w \<leftarrow> release_group_opt os (mux_sel_hdl d) w;
           w \<leftarrow> sdi_pin_group_release_bus os g w;
           Some (rc, w)
         } else Some (rc, w)
       }
     }
   }"

definition sdi_qsfp_module_deselect :: "'w os \<Rightarrow> ('w, 'x) media_sel_scheme \<Rightarrow> 'w \<Rightarrow> 'w option" where
  "sdi_qsfp_module_deselect os d w = do {
     w \<leftarrow> release_group_opt os (mux_sel_hdl d) w;
     release_group_opt os (mod_sel_hdl d) w
   }"

text \<open>The SFP driver has its own copies of both functions.\<close>

definition sdi_sfp_module_select :: "'w os \<Rightarrow> ('w, 'x) media_sel_scheme \<Rightarrow> 'w action" where
  "sdi_sfp_module_select = sdi_qsfp_module_select"

definition sdi_sfp_module_deselect :: "'w os \<Rightarrow> ('w, 'x) media_sel_scheme \<Rightarrow> 'w \<Rightarrow> 'w option" where
  "sdi_sfp_module_deselect = sdi_qsfp_module_deselect"

text \<open>
  The shape of most operations: select, give up on an error, work, deselect. What follows after the
  deselection only computes from \<open>rc\<close> and what was read.
\<close>

definition with_module ::
    "'w os \<Rightarrow> ('w, 'x) media_sel_scheme \<Rightarrow> 'a \<Rightarrow> ('w \<Rightarrow> (t_std_error \<times> 'a \<times> 'w) option) \<Rightarrow> 'w
      \<Rightarrow> (t_std_error \<times> 'a \<times> 'w) option" where
  "with_module os d x f w = do {
     (rc, w) \<leftarrow> sdi_qsfp_module_select os d w;
     if rc \<noteq> STD_ERR_OK then Some (rc, x, w)
     else do {
       (rc, x, w) \<leftarrow> f w;
       w \<leftarrow> sdi_qsfp_module_deselect os d w;
       Some (rc, x, w)
     }
   }"

text \<open>A register that is read only on demand, and the test of one bit of a register.\<close>

definition media_read_if ::
    "bool \<Rightarrow> 'w chip \<Rightarrow> sdi_i2c_addr \<Rightarrow> u32 \<Rightarrow> u8 \<Rightarrow> 'w \<Rightarrow> (t_std_error \<times> u8 \<times> 'w) option" where
  "media_read_if b c a offset buf w = (if b then media_read c a offset buf w else Some (STD_ERR_OK, buf, w))"

definition media_bit_get ::
    "std_lib \<Rightarrow> 'w chip \<Rightarrow> u32 \<Rightarrow> u32 \<Rightarrow> 'w \<Rightarrow> (t_std_error \<times> bool \<times> 'w) option" where
  "media_bit_get L c offset b w = do {
     (rc, buf, w) \<leftarrow> media_read c (chip_addr c) offset 0 w;
     if rc \<noteq> STD_ERR_OK then Some (rc, False, w) else Some (rc, bit8_test L buf b, w)
   }"

text \<open>One flag of a status word.\<close>

definition raise_if :: "bool \<Rightarrow> u32 \<Rightarrow> u32 \<Rightarrow> u32" where
  "raise_if b flag status = (if b then status OR flag else status)"

definition raise_first :: "bool \<Rightarrow> u32 \<Rightarrow> bool \<Rightarrow> u32 \<Rightarrow> u32 \<Rightarrow> u32" where
  "raise_first b flag c other status = (if b then status OR flag else if c then status OR other else status)"

section \<open>Vendor fields\<close>

text \<open>
  A field is read into a zeroed buffer of SDI\_MAX\_NAME\_LEN bytes, without its last byte; then the
  characters that cannot be printed are replaced and the padding at the end is cut off. \<open>vendor_end\<close>
  is the second loop: \<open>buf_ptr\<close> walks down while the byte before it is padding, and the byte before
  the first one of the array is outside of it.
\<close>

definition isprint_byte :: "u8 \<Rightarrow> bool" where
  "isprint_byte b \<longleftrightarrow> 0x20 \<le> b \<and> b \<le> 0x7E"

definition vendor_printable :: "nat \<Rightarrow> u8 list \<Rightarrow> u8 list" where
  "vendor_printable data_len data_buf =
     map (\<lambda>b. if \<not> isprint_byte b \<and> b \<noteq> 0 then 0x3F else b) (take (data_len - 1) data_buf)
       @ 0 # drop data_len data_buf"

primrec vendor_end :: "nat \<Rightarrow> u8 list \<Rightarrow> nat option" where
  "vendor_end 0 data_buf = None"
| "vendor_end (Suc i) data_buf =
     (if data_buf ! i = 0x20 \<or> data_buf ! i = 0 then vendor_end i data_buf else Some (Suc i))"

text \<open>The bytes copied into the buffer of the caller.\<close>

definition vendor_field :: "bool \<Rightarrow> nat \<Rightarrow> u8 list \<Rightarrow> u8 list \<Rightarrow> u8 list option" where
  "vendor_field printable data_len data_buf vendor_info = do {
     let data_buf = (if printable then vendor_printable data_len data_buf else data_buf);
     n \<leftarrow> vendor_end (data_len - 1) data_buf;
     let data = take n data_buf @ [0];
     let m = min (n + 1) (length vendor_info);
     Some (take m data @ drop m vendor_info)
   }"

end
