(* ===== verification/Fan_Max6620.thy ===== *)
theory Fan_Max6620
  imports Media_Base Temp_Sensors
begin

text \<open>
  The fan controller driver src/drivers/sdi\_max6620.c: four fans in the RPM mode. The driver writes
  the tachometer count that belongs to a speed into the target register of a fan, and reads the
  speed back from its tachometer. The functions work on pairs of the private data and the world
  (\<open>Device\<close>); \<open>fan_faults\<close> of the private data is a latch that the four fans share.
\<close>

section \<open>Registers and constants\<close>

definition MAX6620_MAX_FANS :: nat where "MAX6620_MAX_FANS = 4"
definition MAX6620_MAX_TACH_COUNT :: u32 where "MAX6620_MAX_TACH_COUNT = 2047"
definition MAX6620_GLOBALCFG :: u32 where "MAX6620_GLOBALCFG = 0x0"
definition MAX6620_FANFAULT :: u32 where "MAX6620_FANFAULT = 0x1"
definition MAX6620_FAN1CFG :: u32 where "MAX6620_FAN1CFG = 0x2"
definition MAX6620_FAN1DYN :: u32 where "MAX6620_FAN1DYN = 0x6"
definition MAX6620_FAN1TACHCNT :: u32 where "MAX6620_FAN1TACHCNT = 0x10"
definition MAX6620_FAN1TGTTACHCNT :: u32 where "MAX6620_FAN1TGTTACHCNT = 0x20"
definition MAX6620_FAN1TGTDRVVOLT :: u32 where "MAX6620_FAN1TGTDRVVOLT = 0x28"
definition MAX6620_FAN_CTRL_SPEED_RANGE_MASK :: u8 where "MAX6620_FAN_CTRL_SPEED_RANGE_MASK = 0xE0"
definition MAX6620_FAN_CTRL_FAN_FULL_SPD_MASK :: u8 where "MAX6620_FAN_CTRL_FAN_FULL_SPD_MASK = 0x10"
definition MAX6620_FAN_CTRL_SPIN_UP_1S_MASK :: u8 where "MAX6620_FAN_CTRL_SPIN_UP_1S_MASK = 0x40"
definition MAX6620_FAN_CTRL_RPM_MODE_EN_MASK :: u8 where "MAX6620_FAN_CTRL_RPM_MODE_EN_MASK = 0x80"
definition MAX6620_FREQUENCY_HZ :: u32 where "MAX6620_FREQUENCY_HZ = 8192"
definition MAX6620_DEFAULT_TACH_PULSE_COUNT :: u32 where "MAX6620_DEFAULT_TACH_PULSE_COUNT = 2"

definition MAX6620_FANCFG :: "u32 \<Rightarrow> u32" where "MAX6620_FANCFG x = MAX6620_FAN1CFG + x"
definition MAX6620_FANDYN :: "u32 \<Rightarrow> u32" where "MAX6620_FANDYN x = MAX6620_FAN1DYN + x"
definition MAX6620_FANTACHCNT :: "u32 \<Rightarrow> u32" where
  "MAX6620_FANTACHCNT x = MAX6620_FAN1TACHCNT + push_bit 1 x"
definition MAX6620_FANTGTTACHCNT :: "u32 \<Rightarrow> u32" where
  "MAX6620_FANTGTTACHCNT x = MAX6620_FAN1TGTTACHCNT + push_bit 1 x"
definition MAX6620_FANTGTDRVVOLT :: "u32 \<Rightarrow> u32" where
  "MAX6620_FANTGTDRVVOLT x = MAX6620_FAN1TGTDRVVOLT + push_bit 1 x"

text \<open>The operands of the macros are bytes, which C promotes to int.\<close>

definition TACH_COUNT_VAL :: "u8 \<Rightarrow> u8 \<Rightarrow> u32" where
  "TACH_COUNT_VAL msb lsb = push_bit 3 (ucast lsb) OR drop_bit 5 (ucast msb)"

definition DATA_TO_DRV_VOLT :: "u8 \<times> u8 \<Rightarrow> u16" where
  "DATA_TO_DRV_VOLT data =
     ucast (drop_bit 7 (push_bit 8 (ucast (fst data)) OR ucast (snd data) :: u32))"

definition DRV_VOLT_TO_SPEED_PERCENT :: "u16 \<Rightarrow> u32" where
  "DRV_VOLT_TO_SPEED_PERCENT duty = of_nat (unat duty * 100 div 0x1FF)"

definition SPEED_PERCENT_TO_RPM :: "u32 \<Rightarrow> u32 \<Rightarrow> u32" where
  "SPEED_PERCENT_TO_RPM full percent = full * percent div 100"

definition sdi_platform_util_convert_le_to_uint16 :: "u8 \<times> u8 \<Rightarrow> u16" where
  "sdi_platform_util_convert_le_to_uint16 data = ucast (fst data) OR push_bit 8 (ucast (snd data))"

record max6620_fan_data =
  m_no_of_tach_pulse :: u32
  m_tach_count_period :: u32
  m_max_speed :: u32
  m_alias :: string

record max6620_device =
  is_full_speed_on_fail :: bool
  max6620_fan :: "max6620_fan_data list"
  fan_faults :: u32

section \<open>Transfers\<close>

abbreviation max6620_read_byte :: "'w chip \<Rightarrow> u32 \<Rightarrow> 'w \<Rightarrow> (t_std_error \<times> u8 \<times> 'w) option" where
  "max6620_read_byte chip reg \<equiv>
     sdi_smbus_read_byte (chip_bus chip) (chip_addr chip) reg 0 SDI_I2C_FLAG_NONE"

abbreviation max6620_write_byte :: "'w chip \<Rightarrow> u32 \<Rightarrow> u8 \<Rightarrow> 'w action" where
  "max6620_write_byte chip reg v \<equiv>
     sdi_smbus_write_byte (chip_bus chip) (chip_addr chip) reg v SDI_I2C_FLAG_NONE"

abbreviation max6620_read_word :: "'w chip \<Rightarrow> u32 \<Rightarrow> u16 \<Rightarrow> 'w \<Rightarrow> (t_std_error \<times> u16 \<times> 'w) option" where
  "max6620_read_word chip reg v \<equiv>
     sdi_smbus_read_word (chip_bus chip) (chip_addr chip) reg v SDI_I2C_FLAG_NONE"

abbreviation max6620_write_word :: "'w chip \<Rightarrow> u32 \<Rightarrow> u16 \<Rightarrow> 'w action" where
  "max6620_write_word chip reg v \<equiv>
     sdi_smbus_write_word (chip_bus chip) (chip_addr chip) reg v SDI_I2C_FLAG_NONE"

definition sdi_max6620_onfail_fullspeed_enable :: "'w chip \<Rightarrow> bool \<Rightarrow> 'w action" where
  "sdi_max6620_onfail_fullspeed_enable chip enable w = do {
     (rc, buf, w) \<leftarrow> max6620_read_byte chip MAX6620_GLOBALCFG w;
     if rc \<noteq> STD_ERR_OK then Some (rc, w)
     else max6620_write_byte chip MAX6620_GLOBALCFG
       (if enable then buf AND NOT MAX6620_FAN_CTRL_FAN_FULL_SPD_MASK
        else buf OR MAX6620_FAN_CTRL_FAN_FULL_SPD_MASK) w
   }"

definition sdi_max6620_clear_fan_fault :: "'w chip \<Rightarrow> 'w action" where
  "sdi_max6620_clear_fan_fault chip = max6620_write_byte chip MAX6620_FANFAULT 0"

text \<open>The tach count period of a full speed, and its code in the bits 5 to 7 of the fan's register.\<close>

definition max6620_speed_range :: "u32 \<Rightarrow> u32 \<times> u8" where
  "max6620_speed_range speed =
     (if 0 < speed \<and> speed \<le> 500 then (1, 0)
      else if 500 < speed \<and> speed \<le> 1000 then (2, 1)
      else if 1000 < speed \<and> speed \<le> 2000 then (4, 2)
      else if 2000 < speed \<and> speed \<le> 4000 then (8, 3)
      else if 4000 < speed \<and> speed \<le> 8000 then (16, 4)
      else (32, 5))"

definition upd_max6620_fan ::
    "u32 \<Rightarrow> (max6620_fan_data \<Rightarrow> max6620_fan_data) \<Rightarrow> max6620_device \<Rightarrow> max6620_device" where
  "upd_max6620_fan i f d = d\<lparr>max6620_fan := (max6620_fan d)[unat i := f (max6620_fan d ! unat i)]\<rparr>"

definition sdi_max6620_fan_tach_count_period_set ::
    "'w chip \<Rightarrow> u32 \<Rightarrow> (max6620_device \<times> 'w) action" where
  "sdi_max6620_fan_tach_count_period_set chip fan_id = (\<lambda>(d, w). do {
     fan \<leftarrow> at_index (max6620_fan d) fan_id;
     let (period, data) = max6620_speed_range (m_max_speed fan);
     let d = upd_max6620_fan fan_id (\<lambda>f. f\<lparr>m_tach_count_period := period\<rparr>) d;
     (rc, buf, w) \<leftarrow> max6620_read_byte chip (MAX6620_FANDYN fan_id) w;
     if rc \<noteq> STD_ERR_OK then Some (rc, d, w)
     else do {
       let buf = (buf AND NOT MAX6620_FAN_CTRL_SPEED_RANGE_MASK) OR
         (push_bit 5 data AND MAX6620_FAN_CTRL_SPEED_RANGE_MASK);
       (rc, w) \<leftarrow> max6620_write_byte chip (MAX6620_FANDYN fan_id) buf w;
       Some (rc, d, w)
     }
   })"

definition sdi_max6620_fan_tach_count_get :: "'w chip \<Rightarrow> u32 \<Rightarrow> (u32, 'w) query" where
  "sdi_max6620_fan_tach_count_get chip fan_id tach_count w = do {
     (rc, buf, w) \<leftarrow> max6620_read_word chip (MAX6620_FANTACHCNT fan_id) 0 w;
     if rc \<noteq> STD_ERR_OK then Some (rc, tach_count, w)
     else do {
       let byte_array = sdi_platform_util_write_16bit_to_bytearray_le buf;
       Some (rc, TACH_COUNT_VAL (snd byte_array) (fst byte_array), w)
     }
   }"

text \<open>The count goes into the word with its bits 10 to 3 in the low byte and 2 to 0 in the high one.\<close>

definition max6620_target_word :: "u32 \<Rightarrow> u16 \<Rightarrow> u16" where
  "max6620_target_word target_tach_count temp_buf =
     (let data0 = ucast (drop_bit 3 (target_tach_count AND 0x7FF) AND 0xFF) :: u8;
          data1 = ucast (push_bit 5 (target_tach_count AND 0x7) AND 0xFF) :: u8;
          buf = sdi_platform_util_write_16bit_to_bytearray_le temp_buf
      in sdi_platform_util_convert_le_to_uint16 (data0, (snd buf AND NOT 0xE0) OR (data1 AND 0xE0)))"

definition sdi_max6620_fan_target_tach_count_set :: "'w chip \<Rightarrow> u32 \<Rightarrow> u32 \<Rightarrow> 'w action" where
  "sdi_max6620_fan_target_tach_count_set chip fan_id target_tach_count w = do {
     (rc, temp_buf, w) \<leftarrow> max6620_read_word chip (MAX6620_FANTGTTACHCNT fan_id) 0 w;
     if rc \<noteq> STD_ERR_OK then Some (rc, w)
     else max6620_write_word chip (MAX6620_FANTGTTACHCNT fan_id)
       (max6620_target_word target_tach_count temp_buf) w
   }"

text \<open>The voltage is computed even after an error, from what the call left in its buffer.\<close>

definition sdi_max6620_fan_current_drive_volt_get :: "'w chip \<Rightarrow> u32 \<Rightarrow> (u16, 'w) query" where
  "sdi_max6620_fan_current_drive_volt_get chip fan_id volt w = do {
     (rc, buf, w) \<leftarrow> max6620_read_word chip (MAX6620_FANTGTDRVVOLT fan_id) 0 w;
     Some (rc, DATA_TO_DRV_VOLT (sdi_platform_util_write_16bit_to_bytearray_le buf), w)
   }"

section \<open>The callbacks\<close>

text \<open>A tachometer count of zero leaves the output unwritten. A division by zero is undefined.\<close>

definition sdi_max6620_fan_speed_get ::
    "'w chip \<Rightarrow> u32 \<Rightarrow> (u32, max6620_device \<times> 'w) query" where
  "sdi_max6620_fan_speed_get chip fan_id speed = (\<lambda>(d, w). do {
     (rc, tach_count, w) \<leftarrow> sdi_max6620_fan_tach_count_get chip fan_id 0 w;
     if rc \<noteq> STD_ERR_OK then Some (rc, speed, d, w)
     else if tach_count = 0 then Some (rc, speed, d, w)
     else if tach_count = MAX6620_MAX_TACH_COUNT then Some (rc, 0, d, w)
     else do {
       fan \<leftarrow> at_index (max6620_fan d) fan_id;
       STD_ASSERT (m_no_of_tach_pulse fan * tach_count \<noteq> 0);
       Some (rc, m_tach_count_period fan * (60 * MAX6620_FREQUENCY_HZ) div
         (m_no_of_tach_pulse fan * tach_count), d, w)
     }
   })"

definition sdi_max6620_fan_speed_set ::
    "'w chip \<Rightarrow> u32 \<Rightarrow> u32 \<Rightarrow> (max6620_device \<times> 'w) action" where
  "sdi_max6620_fan_speed_set chip fan_id speed = (\<lambda>(d, w). do {
     fan \<leftarrow> at_index (max6620_fan d) fan_id;
     if m_max_speed fan < speed then Some (SDI_DEVICE_ERRCODE EOPNOTSUPP, d, w)
     else do {
       STD_ASSERT (speed = 0 \<or> m_no_of_tach_pulse fan * speed \<noteq> 0);
       let tgt_tach_count = (if speed = 0 then MAX6620_MAX_TACH_COUNT
         else m_tach_count_period fan * (60 * MAX6620_FREQUENCY_HZ) div (m_no_of_tach_pulse fan * speed));
       (rc, w) \<leftarrow> sdi_max6620_fan_target_tach_count_set chip fan_id tgt_tach_count w;
       Some (rc, d, w)
     }
   })"

text \<open>An error of the tach count period is overwritten by the next call.\<close>

definition sdi_max6620_init_fan :: "'w chip \<Rightarrow> u32 \<Rightarrow> (max6620_device \<times> 'w) action" where
  "sdi_max6620_init_fan chip fan_id = (\<lambda>(d, w). do {
     (_, d, w) \<leftarrow> sdi_max6620_fan_tach_count_period_set chip fan_id (d, w);
     (rc, drv_volt, w) \<leftarrow> sdi_max6620_fan_current_drive_volt_get chip fan_id 0 w;
     if rc \<noteq> STD_ERR_OK then Some (rc, d, w)
     else do {
       let speed_percent = DRV_VOLT_TO_SPEED_PERCENT drv_volt;
       fan \<leftarrow> at_index (max6620_fan d) fan_id;
       let rpm = SPEED_PERCENT_TO_RPM (m_max_speed fan) speed_percent;
       (rc, d, w) \<leftarrow> sdi_max6620_fan_speed_set chip fan_id rpm (d, w);
       if rc \<noteq> STD_ERR_OK then Some (rc, d, w)
       else do {
         (rc, w) \<leftarrow> max6620_write_byte chip (MAX6620_FANCFG fan_id)
           (MAX6620_FAN_CTRL_RPM_MODE_EN_MASK OR MAX6620_FAN_CTRL_SPIN_UP_1S_MASK) w;
         Some (rc, d, w)
       }
     }
   })"

definition sdi_max6620_resource_init ::
    "'w chip \<Rightarrow> u32 \<Rightarrow> u32 \<Rightarrow> (max6620_device \<times> 'w) action" where
  "sdi_max6620_resource_init chip fan_id max_rpm = (\<lambda>(d, w). do {
     fan \<leftarrow> at_index (max6620_fan d) fan_id;
     sdi_max6620_init_fan chip fan_id
       (if max_rpm \<noteq> 0 then upd_max6620_fan fan_id (\<lambda>f. f\<lparr>m_max_speed := max_rpm\<rparr>) d else d, w)
   })"

text \<open>
  The faults of a read go into the latch. A fault of this fan is cleared from it once its target has
  been written again, which re-enables the detection.
\<close>

definition max6620_fault_mask :: "u32 \<Rightarrow> u32" where
  "max6620_fault_mask fan_id = push_bit (unat fan_id + 4) 1"

definition sdi_max6620_fan_status_get ::
    "'w chip \<Rightarrow> u32 \<Rightarrow> (bool, max6620_device \<times> 'w) query" where
  "sdi_max6620_fan_status_get chip fan_id status = (\<lambda>(d, w). do {
     (rc, buf, w) \<leftarrow> max6620_read_byte chip MAX6620_FANFAULT w;
     if rc \<noteq> STD_ERR_OK then Some (rc, False, d, w)
     else do {
       let m = max6620_fault_mask fan_id;
       let d = d\<lparr>fan_faults := fan_faults d OR ucast buf\<rparr>;
       if fan_faults d AND m = 0 then Some (rc, False, d, w)
       else do {
         (rc, tach, w) \<leftarrow> max6620_read_word chip (MAX6620_FANTGTTACHCNT fan_id) 0 w;
         if rc \<noteq> STD_ERR_OK then Some (rc, True, d, w)
         else do {
           (rc, w) \<leftarrow> max6620_write_word chip (MAX6620_FANTGTTACHCNT fan_id) tach w;
           if rc \<noteq> STD_ERR_OK then Some (rc, True, d, w)
           else Some (rc, True, d\<lparr>fan_faults := fan_faults d AND NOT m\<rparr>, w)
         }
       }
     }
   })"

definition max6620_fan_resource :: "'w chip \<Rightarrow> u32 \<Rightarrow> (max6620_device \<times> 'w) fan_ctrl" where
  "max6620_fan_resource chip fan_id = \<lparr>
     fan_init = Some (sdi_max6620_resource_init chip fan_id),
     fan_speed_get = (\<lambda>_. sdi_max6620_fan_speed_get chip fan_id),
     fan_speed_set = Some (\<lambda>_. sdi_max6620_fan_speed_set chip fan_id),
     fan_status_get = sdi_max6620_fan_status_get chip fan_id,
     fan_rpm_to_pct = None,
     fan_pct_to_rpm = None\<rparr>"

section \<open>Registration\<close>

definition sdi_max6620_device_database_init ::
    "sensor_lib \<Rightarrow> config_node \<Rightarrow> 'w chip \<Rightarrow> (max6620_device \<times> 'w) sdi_sys
      \<Rightarrow> (max6620_device \<times> 'w) sdi_sys option" where
  "sdi_max6620_device_database_init B cur_node chip s =
     (if \<not> strncmp_eq (std_config_name_get cur_node) ''fan'' (length ''fan'') then Some s
      else do {
        let fan_id = sensor_instance cur_node;
        STD_ASSERT (unat fan_id < MAX6620_MAX_FANS);
        let pulses = (case std_config_attr_get cur_node ''no_of_tach_pulse'' of
            Some a \<Rightarrow> ucast (strtoul a 0) | None \<Rightarrow> MAX6620_DEFAULT_TACH_PULSE_COUNT);
        speed_attr \<leftarrow> std_config_attr_get cur_node ''fan_speed'';
        let alias = (case std_config_attr_get cur_node ''alias'' of
            None \<Rightarrow> snprintf SDI_MAX_NAME_LEN (''max6620-'' @ signed_decimal (sint (chip_instance chip)) @
              ''-'' @ signed_decimal (sint fan_id))
          | Some a \<Rightarrow> a);
        let (d, w) = dev s;
        let d = upd_max6620_fan fan_id (\<lambda>f. f\<lparr>m_no_of_tach_pulse := pulses,
          m_max_speed := ucast (strtoul speed_attr 0), m_alias := alias\<rparr>) d;
        Some (sdi_resource_add (sensor_std B) SDI_RESOURCE_FAN alias
          (Fan_Fns (max6620_fan_resource chip fan_id)) (s\<lparr>dev := (d, w)\<rparr>))
      })"

primrec max6620_database_init_each ::
    "sensor_lib \<Rightarrow> 'w chip \<Rightarrow> config_node list \<Rightarrow> (max6620_device \<times> 'w) sdi_sys
      \<Rightarrow> (max6620_device \<times> 'w) sdi_sys option" where
  "max6620_database_init_each B chip [] s = Some s"
| "max6620_database_init_each B chip (n # ns) s = do {
     s \<leftarrow> sdi_max6620_device_database_init B n chip s;
     max6620_database_init_each B chip ns s
   }"

definition max6620_data_new :: "config_node \<Rightarrow> max6620_device" where
  "max6620_data_new node = \<lparr>
     is_full_speed_on_fail = (std_config_attr_get node ''enable_full_speed'' = Some ''yes''),
     max6620_fan = replicate MAX6620_MAX_FANS
       \<lparr>m_no_of_tach_pulse = 0, m_tach_count_period = 0, m_max_speed = 0, m_alias = []\<rparr>,
     fan_faults = 0\<rparr>"

definition sdi_max6620_register ::
    "sensor_lib \<Rightarrow> config_node \<Rightarrow> 'w sdi_i2c_bus \<Rightarrow> (max6620_device \<times> 'w) sdi_sys
      \<Rightarrow> (t_std_error \<times> 'w chip \<times> (max6620_device \<times> 'w) sdi_sys) option" where
  "sdi_max6620_register B node bus_handle s = do {
     STD_ASSERT (bus_type (bus bus_handle) = SDI_I2C_BUS);
     inst_attr \<leftarrow> std_config_attr_get node ''instance'';
     addr \<leftarrow> std_config_attr_get node ''addr'';
     let chip = \<lparr>chip_bus = bus_handle,
       chip_addr = \<lparr>i2c_addr = ucast (strtoul addr 16), addr_mode_16bit = False\<rparr>,
       chip_instance = ucast (strtoul inst_attr 0), chip_alias = []\<rparr>;
     s \<leftarrow> max6620_database_init_each B chip (each_node B node) (s\<lparr>dev := (max6620_data_new node, snd (dev s))\<rparr>);
     Some (STD_ERR_OK, chip, s)
   }"

definition sdi_max6620_chip_init :: "'w chip \<Rightarrow> (max6620_device \<times> 'w) action" where
  "sdi_max6620_chip_init chip = (\<lambda>(d, w). do {
     (rc, w) \<leftarrow> sdi_max6620_onfail_fullspeed_enable chip (is_full_speed_on_fail d) w;
     if rc \<noteq> STD_ERR_OK then Some (rc, d, w)
     else do {
       (rc, w) \<leftarrow> sdi_max6620_clear_fan_fault chip w;
       Some (rc, d, w)
     }
   })"

end
