(* ===== verification/Max6620_Speed.thy ===== *)
theory Max6620_Speed
  imports Fan_Max6620 Fan_Drives
begin

text \<open>
  What the MAX6620 driver is for: a speed that was set is the speed that is read once the fan turns
  at its target, and a fault that the chip reported once is reported to the fan it belongs to.
\<close>

section \<open>Word registers behind a bus\<close>

text \<open>The read and the write of a word, as a chip with sixteen bit registers answers them.\<close>

definition word_registers :: "'w chip \<Rightarrow> ('w \<Rightarrow> u8 \<Rightarrow> u16) \<Rightarrow> bool" where
  "word_registers chip words \<longleftrightarrow>
     (\<forall>r v w. \<exists>w'. max6620_read_word chip r v w = Some (STD_ERR_OK, words w (ucast r), w') \<and> words w' = words w) \<and>
     (\<forall>r v w. \<exists>w'. max6620_write_word chip r v w = Some (STD_ERR_OK, w') \<and> words w' = (words w)(ucast r := v))"

lemma word_registers_read:
  "word_registers chip words \<Longrightarrow>
    \<exists>w'. max6620_read_word chip r v w = Some (STD_ERR_OK, words w (ucast r), w') \<and> words w' = words w"
  by (simp add: word_registers_def)

lemma word_registers_write:
  "word_registers chip words \<Longrightarrow>
    \<exists>w'. max6620_write_word chip r v w = Some (STD_ERR_OK, w') \<and> words w' = (words w)(ucast r := v)"
  by (simp add: word_registers_def)

section \<open>Counts in words\<close>

definition count_of :: "u16 \<Rightarrow> u32" where
  "count_of v = (let b = sdi_platform_util_write_16bit_to_bytearray_le v in TACH_COUNT_VAL (snd b) (fst b))"

lemma masks_as_bits:
  "(0x7FF :: u32) = mask 11" "(0xFF :: u32) = mask 8" "(0x7 :: u32) = mask 3" "(0xE0 :: u8) = push_bit 5 (mask 3)"
  by (simp_all add: mask_eq_exp_minus_1)

lemma le_bytes [simp]:
  "sdi_platform_util_write_16bit_to_bytearray_le (sdi_platform_util_convert_le_to_uint16 b) = b"
proof -
  have "ucast (ucast lo OR push_bit 8 (ucast hi) :: u16) = lo" for lo hi :: u8
    by (rule bit_word_eqI) (simp add: bit_simps)
  moreover have "ucast (drop_bit 8 (ucast lo OR push_bit 8 (ucast hi) :: u16)) = hi" for lo hi :: u8
    by (rule bit_word_eqI) (auto simp: bit_simps dest: bit_imp_le_length)
  ultimately show ?thesis
    by (simp add: sdi_platform_util_write_16bit_to_bytearray_le_def
        sdi_platform_util_convert_le_to_uint16_def prod_eq_iff)
qed

lemma low_bits_of_target:
  "drop_bit 5 (ucast ((x AND NOT 0xE0) OR (ucast (push_bit 5 (t AND 0x7) AND 0xFF :: u32) AND 0xE0) :: u8) :: u32)
    = t AND mask 3"
  unfolding masks_as_bits by (rule bit_word_eqI) (auto simp: bit_simps dest: bit_imp_le_length)

lemma high_bits_of_target:
  "push_bit 3 (ucast (ucast (drop_bit 3 (t AND 0x7FF) AND 0xFF :: u32) :: u8)) OR t AND mask 3 = (t AND 0x7FF :: u32)"
  unfolding masks_as_bits by (rule bit_word_eqI) (auto simp: bit_simps)

lemma count_of_target [simp]: "count_of (max6620_target_word t b) = t AND 0x7FF"
  unfolding count_of_def max6620_target_word_def TACH_COUNT_VAL_def Let_def le_bytes fst_conv snd_conv
    low_bits_of_target high_bits_of_target ..

section \<open>Setting and reading a speed\<close>

text \<open>The numerator of both conversions, and the count of a speed as a number.\<close>

definition max6620_scale :: "max6620_fan_data \<Rightarrow> nat" where
  "max6620_scale f = unat (m_tach_count_period f) * 491520"

definition max6620_count :: "max6620_fan_data \<Rightarrow> u32 \<Rightarrow> nat" where
  "max6620_count f v = max6620_scale f div (unat (m_no_of_tach_pulse f) * unat v)"

text \<open>A fan after sdi\_max6620\_resource\_init: its period is one that the driver chooses.\<close>

definition max6620_ready :: "max6620_fan_data \<Rightarrow> bool" where
  "max6620_ready f \<longleftrightarrow> m_no_of_tach_pulse f \<noteq> 0 \<and> m_tach_count_period f \<le> 32"

lemma max6620_scale_word:
  assumes "max6620_ready f"
  shows "unat (m_tach_count_period f * (60 * MAX6620_FREQUENCY_HZ)) = max6620_scale f"
    and "max6620_scale f < 2 ^ 32"
proof -
  have "unat (m_tach_count_period f) \<le> 32"
    using assms by (simp add: max6620_ready_def word_le_nat_alt)
  then show "max6620_scale f < 2 ^ 32" by (simp add: max6620_scale_def)
  then show "unat (m_tach_count_period f * (60 * MAX6620_FREQUENCY_HZ)) = max6620_scale f"
    by (simp add: max6620_scale_def MAX6620_FREQUENCY_HZ_def unat_word_ariths)
qed

text \<open>The division of the driver, where the product below it does not wrap around.\<close>

lemma max6620_quotient:
  assumes f: "max6620_ready f" and x: "0 < unat x" and le: "unat (m_no_of_tach_pulse f) * unat x \<le> max6620_scale f"
  shows "m_no_of_tach_pulse f * x \<noteq> 0"
    and "unat (m_tach_count_period f * (60 * MAX6620_FREQUENCY_HZ) div (m_no_of_tach_pulse f * x)) = max6620_count f x"
proof -
  have u: "unat (m_no_of_tach_pulse f * x) = unat (m_no_of_tach_pulse f) * unat x"
    using le max6620_scale_word(2) [OF f] by (simp add: unat_word_ariths)
  have "0 < unat (m_no_of_tach_pulse f)" using f by (simp add: max6620_ready_def unat_gt_0)
  then show "m_no_of_tach_pulse f * x \<noteq> 0" using u x by (metis mult_eq_0_iff not_gr0 unat_0)
  show "unat (m_tach_count_period f * (60 * MAX6620_FREQUENCY_HZ) div (m_no_of_tach_pulse f * x)) = max6620_count f x"
    by (simp add: unat_div u max6620_scale_word(1) [OF f] max6620_count_def)
qed

text \<open>The speed of the count of a speed: it is not below that speed, and near it for a large count.\<close>

lemma count_quotient_bounds:
  fixes k n v :: nat
  assumes n: "0 < n" and c: "0 < k div (n * v)"
  shows "v \<le> k div (n * (k div (n * v)))"
    and "(k div (n * (k div (n * v))) - v) * (k div (n * v)) < v"
proof -
  let ?c = "k div (n * v)" and ?s = "k div (n * (k div (n * v)))"
  have v: "0 < v" using c by (cases v) auto
  have "?c * (n * v) \<le> k" by (rule div_times_less_eq_dividend)
  then have "v * (n * ?c) \<le> k" by (simp add: ac_simps)
  then show "v \<le> ?s" using n c by (simp add: less_eq_div_iff_mult_less_eq)
  have "n * (?s * ?c) = ?s * (n * ?c)" by simp
  also have "\<dots> \<le> k" by (rule div_times_less_eq_dividend)
  also have "k < n * v * Suc ?c" using n v dividend_less_times_div [of "n * v" k] by simp
  finally have "n * (?s * ?c) < n * (v * Suc ?c)" by (simp only: mult.assoc)
  then have "?s * ?c < v * Suc ?c" using n by (simp only: nat_mult_less_cancel1)
  then have "?s * ?c - v * ?c < v" using v unfolding mult_Suc_right by arith
  then show "(?s - v) * ?c < v" by (simp only: diff_mult_distrib)
qed

lemma unat_count_bits: "unat (t AND 0x7FF :: u32) = unat t mod 2048"
proof -
  have bits: "t AND 0x7FF = take_bit 11 t" unfolding masks_as_bits by (simp add: take_bit_eq_mask)
  show ?thesis unfolding bits unsigned_take_bit_eq by (simp add: take_bit_eq_mod)
qed

text \<open>What a call of the driver with a speed of the fan leaves in the target register.\<close>

lemma max6620_speed_set_target:
  assumes R: "word_registers chip words" and f: "at_index (max6620_fan d) i = Some f" and ready: "max6620_ready f"
    and v: "0 < v" "v \<le> m_max_speed f" and le: "unat (m_no_of_tach_pulse f) * unat v \<le> max6620_scale f"
  shows "\<exists>w'. sdi_max6620_fan_speed_set chip i v (d, w) = Some (STD_ERR_OK, d, w') \<and>
    unat (count_of (words w' (ucast (MAX6620_FANTGTTACHCNT i)))) = max6620_count f v mod 2048"
proof -
  let ?r = "MAX6620_FANTGTTACHCNT i"
  let ?t = "m_tach_count_period f * (60 * MAX6620_FREQUENCY_HZ) div (m_no_of_tach_pulse f * v)"
  obtain w1 where w1: "max6620_read_word chip ?r 0 w = Some (STD_ERR_OK, words w (ucast ?r), w1)"
    using word_registers_read [OF R] by blast
  obtain w2 where w2: "max6620_write_word chip ?r (max6620_target_word ?t (words w (ucast ?r))) w1 = Some (STD_ERR_OK, w2)"
    "words w2 = (words w1)(ucast ?r := max6620_target_word ?t (words w (ucast ?r)))"
    using word_registers_write [OF R] by blast
  have "0 < unat v" using v(1) by (simp add: word_less_nat_alt)
  note q = max6620_quotient [OF ready this le]
  have set: "sdi_max6620_fan_target_tach_count_set chip i ?t w = Some (STD_ERR_OK, w2)"
    using w1 w2(1) by (simp add: sdi_max6620_fan_target_tach_count_set_def)
  have "sdi_max6620_fan_speed_set chip i v (d, w) = Some (STD_ERR_OK, d, w2)"
    using f set q(1) v by (simp add: sdi_max6620_fan_speed_set_def not_less del: at_index_eq_Some) auto
  then show ?thesis using w2(2) q(2) by (simp add: unat_count_bits)
qed

text \<open>What the driver reads from a tachometer that shows a count.\<close>

lemma max6620_speed_get_count:
  assumes R: "word_registers chip words" and f: "at_index (max6620_fan d) i = Some f" and ready: "max6620_ready f"
    and c: "unat (count_of (words w (ucast (MAX6620_FANTACHCNT i)))) = c" "0 < c" "c < 2047"
    and le: "unat (m_no_of_tach_pulse f) * c \<le> max6620_scale f"
  shows "\<exists>s w'. sdi_max6620_fan_speed_get chip i s0 (d, w) = Some (STD_ERR_OK, s, d, w') \<and>
    unat s = max6620_scale f div (unat (m_no_of_tach_pulse f) * c)"
proof -
  let ?x = "count_of (words w (ucast (MAX6620_FANTACHCNT i)))"
  obtain w1 where w1: "max6620_read_word chip (MAX6620_FANTACHCNT i) 0 w =
      Some (STD_ERR_OK, words w (ucast (MAX6620_FANTACHCNT i)), w1)"
    using word_registers_read [OF R] by blast
  have get: "sdi_max6620_fan_tach_count_get chip i 0 w = Some (STD_ERR_OK, ?x, w1)"
    using w1 by (simp add: sdi_max6620_fan_tach_count_get_def count_of_def Let_def)
  have "?x \<noteq> 0" "?x \<noteq> MAX6620_MAX_TACH_COUNT"
    using c by (auto simp: MAX6620_MAX_TACH_COUNT_def)
  moreover note q = max6620_quotient [OF ready, of ?x]
  ultimately show ?thesis
    using get f c le by (simp add: sdi_max6620_fan_speed_get_def max6620_count_def del: at_index_eq_Some)
qed

text \<open>
  C9. A speed of a MAX6620 fan is read back as it was set. Let the chip answer reads and writes of
  words, let the fan have a tach count period that the driver chooses and let \<open>v\<close> be a speed up to
  its full speed whose count \<open>c\<close> = \<open>K / (n v)\<close> is in the range of the register, from 1 to 2046 (2047
  means that the fan stands still). Then setting \<open>v\<close> succeeds, and in every world whose tachometer
  shows the target's count the driver reads a speed that is at least \<open>v\<close> and above it by less than
  \<open>v / c\<close>.
\<close>

theorem max6620_speed_round_trip:
  assumes "word_registers chip words" and "at_index (max6620_fan d) i = Some f" and "max6620_ready f"
    and "0 < v" and "v \<le> m_max_speed f" and "0 < max6620_count f v" and "max6620_count f v < 2047"
  shows "\<exists>w1. sdi_max6620_fan_speed_set chip i v (d, w) = Some (STD_ERR_OK, d, w1) \<and>
    (\<forall>w2. count_of (words w2 (ucast (MAX6620_FANTACHCNT i))) = count_of (words w1 (ucast (MAX6620_FANTGTTACHCNT i))) \<longrightarrow>
      (\<exists>s w3. sdi_max6620_fan_speed_get chip i s0 (d, w2) = Some (STD_ERR_OK, s, d, w3) \<and>
        unat v \<le> unat s \<and> (unat s - unat v) * max6620_count f v < unat v))"
proof -
  let ?n = "unat (m_no_of_tach_pulse f)" and ?c = "max6620_count f v"
  have n: "0 < ?n" using assms(3) by (simp add: max6620_ready_def unat_gt_0)
  have "0 < max6620_scale f div (?n * unat v)" using assms(6) by (simp add: max6620_count_def)
  then have le: "?n * unat v \<le> max6620_scale f" by (metis div_less not_gr0 not_less)
  obtain w1 where w1: "sdi_max6620_fan_speed_set chip i v (d, w) = Some (STD_ERR_OK, d, w1)"
    "unat (count_of (words w1 (ucast (MAX6620_FANTGTTACHCNT i)))) = ?c"
    using max6620_speed_set_target [OF assms(1-5) le, of w] assms(7) by auto
  have bounds: "unat v \<le> max6620_scale f div (?n * ?c)"
      "(max6620_scale f div (?n * ?c) - unat v) * ?c < unat v"
    using count_quotient_bounds [OF n, of "max6620_scale f" "unat v"] assms(6)
    by (simp_all add: max6620_count_def)
  have "?c * (?n * unat v) \<le> max6620_scale f" unfolding max6620_count_def by (rule div_times_less_eq_dividend)
  moreover have "?n * ?c \<le> ?c * (?n * unat v)" using assms(4) by (simp add: word_less_nat_alt)
  ultimately have "?n * ?c \<le> max6620_scale f" by (rule order_trans [rotated])
  note get = max6620_speed_get_count [OF assms(1-3) _ assms(6,7) this, of _ s0]
  show ?thesis
    using w1 bounds get by (intro exI [of _ w1] conjI allI impI) (simp, metis)
qed

section \<open>Sample\<close>

text \<open>A kernel with one slave that has a word register for every command; a byte is its low half.\<close>

definition word_i2c_os :: "(u8 \<Rightarrow> u16) i2c_os" where
  "word_i2c_os = \<lparr>
     std_mutex_lock_init = (\<lambda>m w. w),
     std_mutex_lock = (\<lambda>m w. Some (STD_ERR_OK, w)),
     std_mutex_unlock = (\<lambda>m w. Some (STD_ERR_OK, w)),
     std_usleep = (\<lambda>n w. w),
     os_errno = (\<lambda>w. EIO),
     ioctl_slave = (\<lambda>fd a w. Some (True, w)),
     ioctl_pec = (\<lambda>fd on w. Some (True, w)),
     ioctl_smbus = (\<lambda>fd oper c sz d w.
        case (oper, d) of
          (SDI_SMBUS_WRITE, Some (Buf16 v)) \<Rightarrow> Some (True, d, w(c := v))
        | (SDI_SMBUS_READ, Some (Buf8 _)) \<Rightarrow> Some (True, Some (Buf8 (ucast (w c))), w)
        | (SDI_SMBUS_READ, _) \<Rightarrow> Some (True, Some (Buf16 (w c)), w)
        | _ \<Rightarrow> Some (False, d, w)),
     reset_script_access = (\<lambda>w. False),
     reset_script_run = (\<lambda>f oper sz c w. w)\<rparr>"

definition sample_max6620 :: "(u8 \<Rightarrow> u16) chip" where
  "sample_max6620 = \<lparr>chip_bus = i2cdev_bus word_i2c_os sample_i2c_bus, chip_addr = sample_chip_addr,
     chip_instance = 0, chip_alias = []\<rparr>"

lemma sample_max6620_transfers:
  "max6620_read_word sample_max6620 r v w = Some (STD_ERR_OK, w (ucast r), w)"
  "max6620_write_word sample_max6620 r v w = Some (STD_ERR_OK, w(ucast r := v))"
  "max6620_read_byte sample_max6620 r w = Some (STD_ERR_OK, ucast (w (ucast r)), w)"
proof -
  note defs = sample_max6620_def word_i2c_os_def sample_chip_addr_def sdi_smbus_read_word_def
    sdi_smbus_write_word_def sdi_smbus_read_byte_def with_bus_def sdi_i2c_acquire_bus_def
    sdi_i2c_release_bus_def sdi_smbus_execute_def i2cdev_bus_def sdi_i2cdev_bus_ops_def
    sdi_i2cdev_smbus_execute_def sdi_i2cdev_acquire_bus_def sdi_i2cdev_release_bus_def sample_i2c_bus_def
    smbus_switch_def pec_off_def keep_buffer_def SDI_I2C_FLAG_PEC_def SDI_I2C_FLAG_NONE_def
    sdi_smbus_write_word_i2cdev_def sdi_smbus_read_word_i2cdev_def sdi_smbus_read_byte_i2cdev_def
    sdi_sys_smbus_execute_def SDI_MAX_IIC_RETRY_def
  have "0xFFFF AND (x :: u16) = x" "0xFF AND (y :: u8) = y" for x y
    by (rule bit_word_eqI; auto simp: bit_simps)+
  then show "max6620_read_word sample_max6620 r v w = Some (STD_ERR_OK, w (ucast r), w)"
    "max6620_write_word sample_max6620 r v w = Some (STD_ERR_OK, w(ucast r := v))"
    "max6620_read_byte sample_max6620 r w = Some (STD_ERR_OK, ucast (w (ucast r)), w)"
    by (simp_all add: defs sdi_simps)
qed

lemma sample_max6620_words: "word_registers sample_max6620 (\<lambda>w. w)"
  by (simp add: word_registers_def sample_max6620_transfers)

definition sample_max6620_fan :: max6620_fan_data where
  "sample_max6620_fan = \<lparr>m_no_of_tach_pulse = 2, m_tach_count_period = 32, m_max_speed = 16000, m_alias = ''fan''\<rparr>"

definition sample_max6620_data :: max6620_device where
  "sample_max6620_data = \<lparr>is_full_speed_on_fail = False, max6620_fan = replicate 4 sample_max6620_fan, fan_faults = 0\<rparr>"

lemma sample_max6620_ready:
  "max6620_ready sample_max6620_fan" "at_index (max6620_fan sample_max6620_data) 0 = Some sample_max6620_fan"
  "max6620_scale sample_max6620_fan = 15728640"
  by (simp_all add: max6620_ready_def sample_max6620_fan_def sample_max6620_data_def max6620_scale_def)

theorem max6620_speed_round_trip_witness:
  "\<exists>w1 s w3. sdi_max6620_fan_speed_set sample_max6620 0 8000 (sample_max6620_data, \<lambda>_. 0) =
      Some (STD_ERR_OK, sample_max6620_data, w1) \<and>
    sdi_max6620_fan_speed_get sample_max6620 0 0 (sample_max6620_data, w1(0x10 := w1 0x20)) =
      Some (STD_ERR_OK, s, sample_max6620_data, w3) \<and>
    8000 \<le> unat s \<and> (unat s - 8000) * 983 < 8000"
proof -
  have c: "max6620_count sample_max6620_fan 8000 = 983"
    by (simp add: max6620_count_def sample_max6620_ready(3)) (simp add: sample_max6620_fan_def)
  have le: "8000 \<le> m_max_speed sample_max6620_fan" by (simp add: sample_max6620_fan_def)
  obtain w1 where w1: "sdi_max6620_fan_speed_set sample_max6620 0 8000 (sample_max6620_data, \<lambda>_. 0) =
      Some (STD_ERR_OK, sample_max6620_data, w1)"
    and get: "\<And>w2. count_of (w2 0x10) = count_of (w1 0x20) \<Longrightarrow>
      \<exists>s w3. sdi_max6620_fan_speed_get sample_max6620 0 0 (sample_max6620_data, w2) =
        Some (STD_ERR_OK, s, sample_max6620_data, w3) \<and> 8000 \<le> unat s \<and> (unat s - 8000) * 983 < 8000"
    using max6620_speed_round_trip [OF sample_max6620_words sample_max6620_ready(2,1) _ le,
        where w = "\<lambda>_. 0" and ?s0.0 = 0] c
    by (auto simp: MAX6620_FANTACHCNT_def MAX6620_FAN1TACHCNT_def MAX6620_FANTGTTACHCNT_def MAX6620_FAN1TGTTACHCNT_def)
  show ?thesis using w1 get [of "w1(0x10 := w1 0x20)"] by auto
qed

text \<open>
  Below the range of the register the count is cut off to eleven bits: on a fan of 16000 RPM with two
  pulses, 1000 RPM become the target of 4572 RPM.
\<close>

lemma max6620_low_speed_wraps:
  "\<exists>w1. sdi_max6620_fan_speed_set sample_max6620 0 1000 (sample_max6620_data, w) =
      Some (STD_ERR_OK, sample_max6620_data, w1) \<and>
    (\<exists>w3. sdi_max6620_fan_speed_get sample_max6620 0 0 (sample_max6620_data, w1(0x10 := w1 0x20)) =
      Some (STD_ERR_OK, 4572, sample_max6620_data, w3))"
proof -
  have c: "max6620_count sample_max6620_fan 1000 mod 2048 = 1720"
    by (simp add: max6620_count_def sample_max6620_ready(3)) (simp add: sample_max6620_fan_def)
  have full: "1000 \<le> m_max_speed sample_max6620_fan" and n: "unat (m_no_of_tach_pulse sample_max6620_fan) = 2"
    by (simp_all add: sample_max6620_fan_def)
  note regs = MAX6620_FANTACHCNT_def MAX6620_FAN1TACHCNT_def MAX6620_FANTGTTACHCNT_def MAX6620_FAN1TGTTACHCNT_def
  obtain w1 where w1: "sdi_max6620_fan_speed_set sample_max6620 0 1000 (sample_max6620_data, w) =
      Some (STD_ERR_OK, sample_max6620_data, w1)" "unat (count_of (w1 0x20)) = 1720"
    using max6620_speed_set_target [OF sample_max6620_words sample_max6620_ready(2,1) _ full, of w] c n
    by (auto simp: sample_max6620_ready(3) regs)
  then obtain s w3 where "sdi_max6620_fan_speed_get sample_max6620 0 0 (sample_max6620_data, w1(0x10 := w1 0x20)) =
      Some (STD_ERR_OK, s, sample_max6620_data, w3)" "unat s = 4572"
    using max6620_speed_get_count [OF sample_max6620_words sample_max6620_ready(2,1),
        where w = "w1(0x10 := w1 0x20)" and c = 1720 and ?s0.0 = 0] n
    by (auto simp: sample_max6620_ready(3) regs)
  moreover from this(2) have "s = 4572" by (simp add: word_unat_eq_iff)
  ultimately show ?thesis using w1(1) by blast
qed

section \<open>The fault latch\<close>

definition latched :: "max6620_device \<Rightarrow> u32 \<Rightarrow> bool" where
  "latched d i \<longleftrightarrow> bit (fan_faults d) (unat i + 4)"

primrec max6620_call :: "'w chip \<Rightarrow> fan_call \<Rightarrow> (max6620_device \<times> 'w) action" where
  "max6620_call chip (Set_Speed i v) s = sdi_max6620_fan_speed_set chip i v s"
| "max6620_call chip (Get_Speed i) s = do {
     (e, speed, s) \<leftarrow> sdi_max6620_fan_speed_get chip i 0 s;
     Some (e, s)
   }"
| "max6620_call chip (Get_Status i) s = do {
     (e, status, s) \<leftarrow> sdi_max6620_fan_status_get chip i False s;
     Some (e, s)
   }"

primrec max6620_calls ::
    "'w chip \<Rightarrow> fan_call list \<Rightarrow> max6620_device \<times> 'w \<Rightarrow> (t_std_error list \<times> max6620_device \<times> 'w) option" where
  "max6620_calls chip [] s = Some ([], s)"
| "max6620_calls chip (c # cs) s = do {
     (e, s) \<leftarrow> max6620_call chip c s;
     (es, s) \<leftarrow> max6620_calls chip cs s;
     Some (e # es, s)
   }"

lemma fault_mask_bit: "unat i < 4 \<Longrightarrow> x AND max6620_fault_mask i = 0 \<longleftrightarrow> \<not> bit x (unat i + 4)"
  by (simp add: max6620_fault_mask_def bit_iff_and_push_bit_not_eq_0)

text \<open>The cases of a status call.\<close>

lemma max6620_status_cases:
  assumes "sdi_max6620_fan_status_get chip i s0 (d, w) = Some (e, s, d', w')" and i: "unat i < 4"
    and read: "max6620_read_byte chip MAX6620_FANFAULT w = Some (rc, buf, w1)"
    and d1: "d1 = d\<lparr>fan_faults := fan_faults d OR ucast buf\<rparr>"
  shows "rc \<noteq> STD_ERR_OK \<and> e = rc \<and> \<not> s \<and> d' = d \<or>
    rc = STD_ERR_OK \<and> e = STD_ERR_OK \<and> \<not> s \<and> d' = d1 \<and> \<not> latched d1 i \<or>
    rc = STD_ERR_OK \<and> e \<noteq> STD_ERR_OK \<and> s \<and> d' = d1 \<and> latched d1 i \<or>
    rc = STD_ERR_OK \<and> e = STD_ERR_OK \<and> s \<and> latched d1 i \<and>
      d' = d1\<lparr>fan_faults := fan_faults d1 AND NOT (max6620_fault_mask i)\<rparr>"
proof (cases "rc = STD_ERR_OK \<and> latched d1 i")
  case True
  then have "fan_faults d1 AND max6620_fault_mask i \<noteq> 0"
    by (simp add: fault_mask_bit [OF i] latched_def)
  then show ?thesis
    using assms(1) read True
    unfolding sdi_max6620_fan_status_get_def split Let_def d1
    by (auto simp: bind_triple_eq_Some bind_pair_eq_Some split: if_splits)
next
  case False
  then have "rc = STD_ERR_OK \<Longrightarrow> fan_faults d1 AND max6620_fault_mask i = 0"
    by (simp add: fault_mask_bit [OF i] latched_def)
  then show ?thesis
    using assms(1) read False
    unfolding sdi_max6620_fan_status_get_def split Let_def d1
    by (cases "rc = STD_ERR_OK") simp_all
qed

lemma latched_simps:
  "latched (d\<lparr>fan_faults := x OR y\<rparr>) j \<longleftrightarrow> bit x (unat j + 4) \<or> bit y (unat j + 4)"
  "unat i < 4 \<Longrightarrow> unat j < 4 \<Longrightarrow>
    latched (d\<lparr>fan_faults := x AND NOT (max6620_fault_mask i)\<rparr>) j \<longleftrightarrow> bit x (unat j + 4) \<and> j \<noteq> i"
  by (auto simp: latched_def max6620_fault_mask_def bit_simps word_unat_eq_iff)

lemma max6620_status_keeps:
  assumes "sdi_max6620_fan_status_get chip i s0 (d, w) = Some (e, s, d', w')" and "unat i < 4" "unat j < 4" "j \<noteq> i"
    and "latched d j"
  shows "latched d' j"
proof -
  obtain rc buf w1 where read: "max6620_read_byte chip MAX6620_FANFAULT w = Some (rc, buf, w1)"
    using assms(1) by (auto simp: sdi_max6620_fan_status_get_def bind_triple_eq_Some)
  show ?thesis
    using max6620_status_cases [OF assms(1,2) read refl] assms(2-5)
    by (auto simp: latched_simps latched_def [of d] bit_or_iff)
qed

lemma max6620_speed_frames:
  "sdi_max6620_fan_speed_set chip i v (d, w) = Some (e, d', w') \<Longrightarrow> d' = d"
  "sdi_max6620_fan_speed_get chip i v (d, w) = Some (e, s, d', w') \<Longrightarrow> d' = d"
  by (auto simp: sdi_max6620_fan_speed_set_def sdi_max6620_fan_speed_get_def Let_def bind_triple_eq_Some
      bind_pair_eq_Some bind_eq_Some_conv split: if_splits)

lemma max6620_call_keeps:
  assumes "max6620_call chip c (d, w) = Some (e, d', w')" and "unat (call_fan c) < 4" "unat j < 4"
    and "c \<noteq> Get_Status j" and "latched d j"
  shows "latched d' j"
proof (cases c)
  case (Set_Speed i v)
  then show ?thesis using assms max6620_speed_frames(1) [of chip i v d w e d' w'] by simp
next
  case (Get_Speed i)
  then obtain s where "sdi_max6620_fan_speed_get chip i 0 (d, w) = Some (e, s, d', w')"
    using assms(1) by (auto simp: bind_triple_eq_Some)
  then show ?thesis using assms(5) by (auto dest: max6620_speed_frames(2))
next
  case (Get_Status i)
  then obtain s where "sdi_max6620_fan_status_get chip i False (d, w) = Some (e, s, d', w')"
    using assms(1) by (auto simp: bind_triple_eq_Some)
  then show ?thesis using max6620_status_keeps [of chip i False d w e s d' w' j] assms Get_Status by auto
qed

lemma max6620_calls_keep:
  assumes "max6620_calls chip cs (d, w) = Some (es, d', w')" and "\<forall>c \<in> set cs. unat (call_fan c) < 4"
    and "unat j < 4" and "Get_Status j \<notin> set cs" and "latched d j"
  shows "latched d' j"
  using assms
proof (induction cs arbitrary: d w es)
  case Nil
  then show ?case by simp
next
  case (Cons c cs)
  obtain e d1 w1 fs where "max6620_call chip c (d, w) = Some (e, d1, w1)"
      "max6620_calls chip cs (d1, w1) = Some (fs, d', w')"
    using Cons.prems(1) by (auto simp: bind_triple_eq_Some bind_pair_eq_Some)
  moreover have "latched d1 j"
    using calculation(1) Cons.prems by (intro max6620_call_keeps [of chip c d w e d1 w1 j]) auto
  ultimately show ?case using Cons.IH [of d1 w1 fs] Cons.prems by simp
qed

text \<open>
  C10. No fault is lost between the fans. If a status call for the fan \<open>i\<close> reads a fault byte of the
  MAX6620 with the bit of another fan \<open>j\<close>, then whatever calls for speeds and for the status of
  other fans follow, with whatever errors of the bus, and whatever the chip shows by then: the next
  status call for \<open>j\<close> that succeeds reports the fault, and takes it out of the latch.
\<close>

theorem max6620_fault_reported:
  assumes "max6620_read_byte chip MAX6620_FANFAULT w = Some (STD_ERR_OK, buf, w0)" and "bit buf (unat j + 4)"
    and "sdi_max6620_fan_status_get chip i s0 (d, w) = Some (e, s, d1, w1)"
    and "unat i < 4" and "unat j < 4" and "j \<noteq> i"
    and "max6620_calls chip cs (d1, w1) = Some (es, d2, w2)"
    and "\<forall>c \<in> set cs. unat (call_fan c) < 4" and "Get_Status j \<notin> set cs"
    and "sdi_max6620_fan_status_get chip j s1 (d2, w2) = Some (STD_ERR_OK, reported, d3, w3)"
  shows "reported \<and> \<not> latched d3 j"
proof -
  have "latched d1 j"
    using max6620_status_cases [OF assms(3,4,1) refl] assms(2,4-6)
    by (auto simp: latched_simps bit_or_iff bit_ucast_iff)
  then have "latched d2 j" using max6620_calls_keep [OF assms(7,8,5,9)] by simp
  moreover obtain rc b w' where "max6620_read_byte chip MAX6620_FANFAULT w2 = Some (rc, b, w')"
    using assms(10) by (auto simp: sdi_max6620_fan_status_get_def bind_triple_eq_Some)
  note max6620_status_cases [OF assms(10,5) this refl]
  ultimately show ?thesis using assms(5) by (auto simp: latched_simps latched_def [of d2] bit_or_iff)
qed

text \<open>The fans 1 and 2 fail; the status of fan 1 is asked for, then that of fan 0, then that of fan 2.\<close>

theorem max6620_fault_reported_witness:
  "\<exists>d1 d2 d3 w1 w2 w3 e es reported.
    sdi_max6620_fan_status_get sample_max6620 1 False (sample_max6620_data, (\<lambda>_. 0)(1 := 0x60)) = Some (e, True, d1, w1) \<and>
    max6620_calls sample_max6620 [Get_Status 0] (d1, w1) = Some (es, d2, w2) \<and>
    sdi_max6620_fan_status_get sample_max6620 2 False (d2, w2) = Some (STD_ERR_OK, reported, d3, w3) \<and>
    reported \<and> \<not> latched d3 2"
proof -
  let ?w = "(\<lambda>_. 0)(1 := 0x60) :: u8 \<Rightarrow> u16" and ?d = sample_max6620_data
  note defs = sdi_max6620_fan_status_get_def sample_max6620_transfers max6620_fault_mask_def MAX6620_FANFAULT_def
    MAX6620_FANTGTTACHCNT_def MAX6620_FAN1TGTTACHCNT_def
  have call1: "sdi_max6620_fan_status_get sample_max6620 1 False (?d, ?w) =
      Some (STD_ERR_OK, True, ?d\<lparr>fan_faults := 0x40\<rparr>, ?w)"
    by (simp add: defs sample_max6620_data_def) auto
  have call2: "max6620_calls sample_max6620 [Get_Status 0] (?d\<lparr>fan_faults := 0x40\<rparr>, ?w) =
      Some ([STD_ERR_OK], ?d\<lparr>fan_faults := 0x60\<rparr>, ?w)"
    by (simp add: defs)
  obtain s d3 w3 where call3: "sdi_max6620_fan_status_get sample_max6620 2 False (?d\<lparr>fan_faults := 0x60\<rparr>, ?w) =
      Some (STD_ERR_OK, s, d3, w3)"
    by (simp add: defs)
  have "bit (0x60 :: u8) (unat (2 :: u32) + 4)" by simp
  moreover have "max6620_read_byte sample_max6620 MAX6620_FANFAULT ?w = Some (STD_ERR_OK, 0x60, ?w)"
    by (simp add: sample_max6620_transfers MAX6620_FANFAULT_def)
  ultimately have "s \<and> \<not> latched d3 2"
    using max6620_fault_reported [OF _ _ call1 _ _ _ call2 _ _ call3, of "0x60" ?w] by simp
  then show ?thesis using call1 call2 call3 by blast
qed

end
