(* ===== verification/Nvram_Driver.thy ===== *)
theory Nvram_Driver
  imports Temp_Sensors
begin

text \<open>
  The driver of non-volatile memory (src/drivers/sdi\_nvram.c): a stretch of bytes of a file, such as
  a raw disk, or of an EEPROM on an I2C bus. Behind a register file it is an array of bytes.
\<close>

section \<open>The device\<close>

text \<open>
  The files of the system are a parameter: opening (for reading or writing), seeking, reading at
  most so many bytes, writing (the number of bytes written) and closing.
\<close>

record 'w file_io =
  file_open :: "string \<Rightarrow> bool \<Rightarrow> 'w \<Rightarrow> int option \<times> 'w"
  file_lseek :: "int \<Rightarrow> u64 \<Rightarrow> 'w \<Rightarrow> bool \<times> 'w"
  file_read :: "int \<Rightarrow> nat \<Rightarrow> 'w \<Rightarrow> u8 list option \<times> 'w"
  file_write :: "int \<Rightarrow> u8 list \<Rightarrow> 'w \<Rightarrow> nat option \<times> 'w"
  file_close :: "int \<Rightarrow> 'w \<Rightarrow> 'w"

record nvram_device =
  nvd_alias :: string
  nvd_dev :: "string option"
  nvd_ofs :: u64
  nvd_size :: u32

definition nvram_size :: "nvram_device \<Rightarrow> (u32, 'w) query" where
  "nvram_size d size_out w = Some (STD_ERR_OK, nvd_size d, w)"

text \<open>A read that is too short has the error that errno happens to hold.\<close>

definition nvram_file_read ::
    "'w os \<Rightarrow> 'w file_io \<Rightarrow> string \<Rightarrow> u64 \<Rightarrow> u32 \<Rightarrow> (u8 list, 'w) query" where
  "nvram_file_read os F path pos len buf w =
     (case file_open F path False w of
        (None, w) \<Rightarrow> Some (SDI_DEVICE_ERRCODE (os_errno os w), buf, w)
      | (Some fd, w) \<Rightarrow>
          (case file_lseek F fd pos w of
             (False, w) \<Rightarrow> Some (SDI_DEVICE_ERRCODE (os_errno os w), buf, file_close F fd w)
           | (True, w) \<Rightarrow>
               (case file_read F fd (unat len) w of
                  (None, w) \<Rightarrow> Some (SDI_DEVICE_ERRCODE (os_errno os w), buf, file_close F fd w)
                | (Some bs, w) \<Rightarrow> do {
                    STD_ASSERT (length bs \<le> length buf);
                    Some (if length bs = unat len then STD_ERR_OK else SDI_DEVICE_ERRCODE (os_errno os w),
                      bs @ drop (length bs) buf, file_close F fd w)
                  })))"

definition nvram_file_write ::
    "'w os \<Rightarrow> 'w file_io \<Rightarrow> string \<Rightarrow> u64 \<Rightarrow> u32 \<Rightarrow> u8 list \<Rightarrow> 'w action" where
  "nvram_file_write os F path pos len buf w =
     (case file_open F path True w of
        (None, w) \<Rightarrow> Some (SDI_DEVICE_ERRCODE (os_errno os w), w)
      | (Some fd, w) \<Rightarrow>
          (case file_lseek F fd pos w of
             (False, w) \<Rightarrow> Some (SDI_DEVICE_ERRCODE (os_errno os w), file_close F fd w)
           | (True, w) \<Rightarrow> do {
               STD_ASSERT (unat len \<le> length buf);
               let (n, w) = file_write F fd (take (unat len) buf) w;
               Some (if n = Some (unat len) then STD_ERR_OK else SDI_DEVICE_ERRCODE (os_errno os w),
                 file_close F fd w)
             }))"

text \<open>The sum of offset and length is one of 32 bits; the offset of the bus has 32 bits too.\<close>

definition nvram_read ::
    "'w os \<Rightarrow> 'w file_io \<Rightarrow> 'w chip \<Rightarrow> nvram_device \<Rightarrow> u32 \<Rightarrow> u32 \<Rightarrow> (u8 list, 'w) query" where
  "nvram_read os F chip d ofs len buf w =
     (if nvd_size d < ofs + len then Some (SDI_DEVICE_ERRCODE EINVAL, buf, w)
      else case nvd_dev d of
        Some path \<Rightarrow> nvram_file_read os F path (nvd_ofs d + ucast ofs) len buf w
      | None \<Rightarrow> sdi_smbus_read_multi_byte (chip_bus chip) (chip_addr chip) (ucast (nvd_ofs d + ucast ofs)) buf len
          SDI_I2C_FLAG_NONE w)"

definition nvram_write ::
    "'w os \<Rightarrow> 'w file_io \<Rightarrow> 'w chip \<Rightarrow> nvram_device \<Rightarrow> u8 list \<Rightarrow> u32 \<Rightarrow> u32 \<Rightarrow> 'w action" where
  "nvram_write os F chip d buf ofs len w =
     (if nvd_size d < ofs + len then Some (SDI_DEVICE_ERRCODE EINVAL, w)
      else case nvd_dev d of
        Some path \<Rightarrow> nvram_file_write os F path (nvd_ofs d + ucast ofs) len buf w
      | None \<Rightarrow> do {
          (rc, _, w) \<leftarrow> sdi_smbus_write_multi_byte (chip_bus chip) (chip_addr chip) (ucast (nvd_ofs d + ucast ofs))
            buf len SDI_I2C_FLAG_NONE w;
          Some (rc, w)
        })"

definition nvram_resource_callbacks ::
    "'w os \<Rightarrow> 'w file_io \<Rightarrow> 'w chip \<Rightarrow> nvram_device \<Rightarrow> 'w nvram_ctrl" where
  "nvram_resource_callbacks os F chip d = \<lparr>
     nv_init = None,
     nv_size = nvram_size d,
     nv_read = nvram_read os F chip d,
     nv_write = nvram_write os F chip d\<rparr>"

definition sdi_nvram_init :: "'w action" where
  "sdi_nvram_init w = Some (STD_ERR_OK, w)"

text \<open>A file and an address exclude each other, and one of them has to be there.\<close>

definition sdi_nvram_register ::
    "'w os \<Rightarrow> std_lib \<Rightarrow> 'w file_io \<Rightarrow> config_node \<Rightarrow> 'w sdi_i2c_bus \<Rightarrow> 'w sdi_sys
      \<Rightarrow> (t_std_error \<times> 'w chip \<times> 'w sdi_sys) option" where
  "sdi_nvram_register os L F node bus_handle s = do {
     inst_attr \<leftarrow> std_config_attr_get node ''instance'';
     let inst = ucast (strtoul inst_attr 0);
     let alias = (case std_config_attr_get node ''alias'' of
         None \<Rightarrow> snprintf SDI_MAX_NAME_LEN (''nvram-'' @ signed_decimal (sint (inst :: u32)))
       | Some a \<Rightarrow> a);
     let device = std_config_attr_get node ''dev'';
     addr \<leftarrow> (case std_config_attr_get node ''addr'' of
         None \<Rightarrow> do { STD_ASSERT (device \<noteq> None); Some 0 }
       | Some a \<Rightarrow> do { STD_ASSERT (device = None); Some (ucast (strtoul a 16)) });
     let chip = \<lparr>chip_bus = bus_handle, chip_addr = \<lparr>i2c_addr = addr, addr_mode_16bit = False\<rparr>,
       chip_instance = inst, chip_alias = []\<rparr>;
     ofs_attr \<leftarrow> std_config_attr_get node ''offset'';
     size_attr \<leftarrow> std_config_attr_get node ''size'';
     let d = \<lparr>nvd_alias = alias, nvd_dev = device, nvd_ofs = strtoul ofs_attr 10, nvd_size = ucast (strtoul size_attr 10)\<rparr>;
     Some (STD_ERR_OK, chip, sdi_resource_add L SDI_RESOURCE_NVRAM alias
       (Nvram_Fns (nvram_resource_callbacks os F chip d)) s)
   }"

section \<open>An array of bytes\<close>

text \<open>Writing several registers.\<close>

fun put_registers :: "(u8 \<Rightarrow> u8) \<Rightarrow> u32 \<Rightarrow> u8 list \<Rightarrow> (u8 \<Rightarrow> u8)" where
  "put_registers regs c [] = regs"
| "put_registers regs c (b # bs) = put_registers (regs(ucast c := b)) (c + 1) bs"

lemma register_write_each:
  assumes R: "register_file h addr regs"
  shows "n \<le> length bs \<Longrightarrow> \<exists>w'. smbus_multi h addr SDI_SMBUS_WRITE SDI_I2C_FLAG_NONE n c bs w =
    Some (STD_ERR_OK, bs, w') \<and> regs w' = put_registers (regs w) c (take n bs)"
proof (induction n arbitrary: c bs w)
  case (Suc n)
  then obtain b rest where bs: "bs = b # rest" by (cases bs) auto
  obtain w1 where w1: "sdi_smbus_execute h addr SDI_SMBUS_WRITE SDI_SMBUS_BYTE_DATA c (Buf8 b)
      SDI_I2C_FLAG_NONE w = Some (STD_ERR_OK, Buf8 b, w1)" "regs w1 = (regs w)(ucast c := b)"
    using register_fileD(5) [OF R] by blast
  obtain w2 where "smbus_multi h addr SDI_SMBUS_WRITE SDI_I2C_FLAG_NONE n (c + 1) rest w1 =
      Some (STD_ERR_OK, rest, w2)" "regs w2 = put_registers (regs w1) (c + 1) (take n rest)"
    using Suc.IH [of rest "c + 1" w1] Suc.prems bs by auto
  then show ?case using w1 bs by simp
qed simp

lemma register_write_multi:
  assumes R: "register_file h addr regs" and n: "unat n \<le> length bs"
  shows "\<exists>w'. sdi_smbus_write_multi_byte h addr c bs n SDI_I2C_FLAG_NONE w = Some (STD_ERR_OK, bs, w') \<and>
    regs w' = put_registers (regs w) c (take (unat n) bs)"
  unfolding sdi_smbus_write_multi_byte_def
  by (rule register_with_bus [OF R, where g = "\<lambda>r. put_registers r c (take (unat n) bs)" and x = "\<lambda>_. bs"])
    (rule register_write_each [OF R n])

end
