(* ===== verification/Nvram_Array.thy ===== *)
theory Nvram_Array
  imports Nvram_Driver
begin

text \<open>The NVRAM driver refines an array of bytes: reads and writes of stretches of it.\<close>

section \<open>Stretches of registers\<close>

lemma register_number: "unat c + i < 256 \<Longrightarrow> unat (ucast (c + of_nat i :: u32) :: u8) = unat c + i"
  by (simp add: unsigned_ucast_eq take_bit_eq_mod unat_word_ariths unat_of_nat)

lemma unat_next_register: "unat c + 1 < 256 \<Longrightarrow> unat (c + 1 :: u32) = unat c + 1"
  by (simp add: unat_word_ariths)

lemma put_registers_other:
  "unat c + length bs \<le> 256 \<Longrightarrow> unat x < unat c \<or> unat c + length bs \<le> unat x \<Longrightarrow>
     put_registers regs c bs x = regs x"
proof (induction bs arbitrary: regs c)
  case (Cons b bs)
  have "unat (ucast c :: u8) = unat c" using register_number [of c 0] Cons.prems(1) by simp
  then have "x \<noteq> ucast c" using Cons.prems(2) by auto
  show ?case
  proof (cases bs)
    case Nil
    then show ?thesis using \<open>x \<noteq> ucast c\<close> by simp
  next
    case (Cons e es)
    then have "unat (c + 1) = unat c + 1" using Cons.prems(1) by (intro unat_next_register) simp
    then have "put_registers (regs(ucast c := b)) (c + 1) bs x = (regs(ucast c := b)) x"
      using Cons.prems by (intro Cons.IH) auto
    then show ?thesis using \<open>x \<noteq> ucast c\<close> by simp
  qed
qed simp

lemma put_registers_at:
  "unat c + length bs \<le> 256 \<Longrightarrow> i < length bs \<Longrightarrow>
     put_registers regs c bs (ucast (c + of_nat i)) = bs ! i"
proof (induction bs arbitrary: regs c i)
  case (Cons b bs)
  have c: "unat (ucast c :: u8) = unat c" using register_number [of c 0] Cons.prems(1) by simp
  have next_c: "unat (c + 1) = unat c + 1" if "bs \<noteq> []"
    using that Cons.prems(1) by (intro unat_next_register) (cases bs; simp)
  show ?case
  proof (cases i)
    case 0
    show ?thesis
    proof (cases "bs = []")
      case False
      then show ?thesis
        using put_registers_other [of "c + 1" bs "ucast c" "regs(ucast c := b)"] next_c Cons.prems(1) 0 c by simp
    qed (simp add: 0)
  next
    case (Suc j)
    then have "bs \<noteq> []" using Cons.prems(2) by auto
    then have "put_registers (regs(ucast c := b)) (c + 1) bs (ucast (c + 1 + of_nat j)) = bs ! j"
      using next_c Cons.prems Suc by (intro Cons.IH) simp_all
    then show ?thesis using Suc by (simp add: algebra_simps)
  qed
qed simp

lemma registers_from_put:
  assumes "unat c + n \<le> 256" and "k + length bs \<le> n"
  shows "registers_from (put_registers regs (c + of_nat k) bs) c n =
    take k (registers_from regs c n) @ bs @ drop (k + length bs) (registers_from regs c n)"
proof (rule nth_equalityI)
  show "length (registers_from (put_registers regs (c + of_nat k) bs) c n) =
      length (take k (registers_from regs c n) @ bs @ drop (k + length bs) (registers_from regs c n))"
    using assms(2) by simp
  fix i
  assume "i < length (registers_from (put_registers regs (c + of_nat k) bs) c n)"
  then have i: "i < n" by simp
  then have idx: "unat (ucast (c + of_nat i) :: u8) = unat c + i"
    using assms(1) by (intro register_number) simp
  have base: "unat (c + of_nat k) = unat c + k" if "bs \<noteq> []"
    using that assms by (cases bs) (simp_all add: unat_word_ariths unat_of_nat)
  show "registers_from (put_registers regs (c + of_nat k) bs) c n ! i =
      (take k (registers_from regs c n) @ bs @ drop (k + length bs) (registers_from regs c n)) ! i"
  proof (cases "bs = []")
    case True
    then show ?thesis using i assms by (simp add: registers_from_def nth_append)
  next
    case False
    show ?thesis
    proof (cases "k \<le> i \<and> i < k + length bs")
      case True
      then have "put_registers regs (c + of_nat k) bs (ucast (c + of_nat k + of_nat (i - k))) = bs ! (i - k)"
        using False assms base by (intro put_registers_at) auto
      moreover have "c + of_nat k + of_nat (i - k) = c + of_nat i"
        using True by (auto simp: of_nat_diff algebra_simps)
      ultimately show ?thesis using True i assms by (auto simp: registers_from_def nth_append)
    next
      case outside: False
      then have "put_registers regs (c + of_nat k) bs (ucast (c + of_nat i)) = regs (ucast (c + of_nat i))"
        using False assms base idx by (intro put_registers_other) auto
      then show ?thesis using outside i assms by (auto simp: registers_from_def nth_append)
    qed
  qed
qed

lemma registers_from_window:
  assumes "k + m \<le> n"
  shows "registers_from regs (c + of_nat k) m = take m (drop k (registers_from regs c n))"
  using assms by (intro nth_equalityI) (simp_all add: registers_from_def algebra_simps)

section \<open>Calls\<close>

datatype nvram_call = Nvram_Read u32 u32 | Nvram_Write u32 "u8 list"

text \<open>The array: a stretch is read or replaced, or the call is refused.\<close>

fun array_step :: "nvram_call \<Rightarrow> u8 list \<Rightarrow> (t_std_error \<times> u8 list) \<times> u8 list" where
  "array_step (Nvram_Read ofs len) a =
     (if length a < unat ofs + unat len then ((SDI_DEVICE_ERRCODE EINVAL, replicate (unat len) 0), a)
      else ((STD_ERR_OK, take (unat len) (drop (unat ofs) a)), a))"
| "array_step (Nvram_Write ofs bs) a =
     (if length a < unat ofs + length bs then ((SDI_DEVICE_ERRCODE EINVAL, []), a)
      else ((STD_ERR_OK, []), take (unat ofs) a @ bs @ drop (unat ofs + length bs) a))"

text \<open>The calls of the driver, a read into a cleared buffer; the sum of their arguments must not wrap.\<close>

fun nvram_step :: "'w nvram_ctrl \<Rightarrow> nvram_call \<Rightarrow> 'w \<Rightarrow> ((t_std_error \<times> u8 list) \<times> 'w) option" where
  "nvram_step f (Nvram_Read ofs len) w = do {
     (rc, buf, w) \<leftarrow> nv_read f ofs len (replicate (unat len) 0) w;
     Some ((rc, buf), w)
   }"
| "nvram_step f (Nvram_Write ofs bs) w = do {
     (rc, w) \<leftarrow> nv_write f bs ofs (of_nat (length bs)) w;
     Some ((rc, []), w)
   }"

fun call_in_range :: "nvram_call \<Rightarrow> bool" where
  "call_in_range (Nvram_Read ofs len) = (unat ofs + unat len < 2 ^ 32)"
| "call_in_range (Nvram_Write ofs bs) = (unat ofs + length bs < 2 ^ 32)"

fun array_steps :: "nvram_call list \<Rightarrow> u8 list \<Rightarrow> (t_std_error \<times> u8 list) list \<times> u8 list" where
  "array_steps [] a = ([], a)"
| "array_steps (c # cs) a =
     (let (r, a) = array_step c a; (rs, a) = array_steps cs a in (r # rs, a))"

fun nvram_steps :: "'w nvram_ctrl \<Rightarrow> nvram_call list \<Rightarrow> 'w \<Rightarrow> ((t_std_error \<times> u8 list) list \<times> 'w) option" where
  "nvram_steps f [] w = Some ([], w)"
| "nvram_steps f (c # cs) w = do {
     (r, w) \<leftarrow> nvram_step f c w;
     (rs, w) \<leftarrow> nvram_steps f cs w;
     Some (r # rs, w)
   }"

definition nvram_array :: "nvram_device \<Rightarrow> (u8 \<Rightarrow> u8) \<Rightarrow> u8 list" where
  "nvram_array d regs = registers_from regs (ucast (nvd_ofs d)) (unat (nvd_size d))"

lemma array_step_length: "length (snd (array_step c a)) = length a"
  by (cases c) auto

lemma ucast_sum: "(ucast (x + ucast y) :: u32) = ucast (x :: u64) + (y :: u32)"
  by (simp add: word_unat_eq_iff unsigned_ucast_eq take_bit_eq_mod unat_word_ariths mod_simps mod_mod_cancel)

lemma nvram_command:
  assumes "unat (nvd_ofs d) + unat (nvd_size d) \<le> 256"
  shows "(ucast (nvd_ofs d + ucast ofs) :: u32) = ucast (nvd_ofs d) + of_nat (unat (ofs :: u32))"
    and "unat (ucast (nvd_ofs d) :: u32) = unat (nvd_ofs d)"
proof -
  show "unat (ucast (nvd_ofs d) :: u32) = unat (nvd_ofs d)"
    using assms by (simp add: unsigned_ucast_eq take_bit_eq_mod)
  show "(ucast (nvd_ofs d + ucast ofs) :: u32) = ucast (nvd_ofs d) + of_nat (unat (ofs :: u32))"
    by (simp add: ucast_sum)
qed

lemma sum_not_over:
  assumes "unat (ofs :: u32) + unat len < 2 ^ 32"
  shows "n < ofs + len \<longleftrightarrow> unat n < unat ofs + unat len"
  using assms by (simp add: word_less_nat_alt unat_word_ariths)

lemma nvram_step_array:
  assumes R: "register_file (chip_bus chip) (chip_addr chip) regs" and dev: "nvd_dev d = None"
    and fits: "unat (nvd_ofs d) + unat (nvd_size d) \<le> 256" and c: "call_in_range c"
  shows "\<exists>w'. nvram_step (nvram_resource_callbacks os F chip d) c w =
      Some (fst (array_step c (nvram_array d (regs w))), w') \<and>
    nvram_array d (regs w') = snd (array_step c (nvram_array d (regs w)))"
proof (cases c)
  case (Nvram_Read ofs len)
  have lt: "nvd_size d < ofs + len \<longleftrightarrow> unat (nvd_size d) < unat ofs + unat len"
    using c Nvram_Read by (intro sum_not_over) simp
  obtain w1 where w1: "sdi_smbus_read_multi_byte (chip_bus chip) (chip_addr chip) (ucast (nvd_ofs d + ucast ofs))
      (replicate (unat len) 0) len SDI_I2C_FLAG_NONE w =
      Some (STD_ERR_OK, registers_from (regs w) (ucast (nvd_ofs d) + of_nat (unat ofs)) (unat len), w1)"
      "regs w1 = regs w"
    using register_read_multi [OF R, of len "replicate (unat len) 0" "ucast (nvd_ofs d + ucast ofs)" w]
      nvram_command(1) [OF fits, of ofs] by auto
  show ?thesis
  proof (cases "unat (nvd_size d) < unat ofs + unat len")
    case True
    then show ?thesis
      using Nvram_Read lt by (simp add: nvram_resource_callbacks_def nvram_read_def nvram_array_def)
  next
    case False
    then have "registers_from (regs w) (ucast (nvd_ofs d) + of_nat (unat ofs)) (unat len) =
        take (unat len) (drop (unat ofs) (nvram_array d (regs w)))"
      unfolding nvram_array_def by (intro registers_from_window) simp
    then show ?thesis
      using Nvram_Read lt False w1 dev
      by (simp add: nvram_resource_callbacks_def nvram_read_def nvram_array_def)
  qed
next
  case (Nvram_Write ofs bs)
  have len: "unat (of_nat (length bs) :: u32) = length bs"
    using c Nvram_Write by (simp add: unat_of_nat)
  have lt: "nvd_size d < ofs + of_nat (length bs) \<longleftrightarrow> unat (nvd_size d) < unat ofs + length bs"
    using c Nvram_Write len sum_not_over [of ofs "of_nat (length bs)" "nvd_size d"] by simp
  show ?thesis
  proof (cases "unat (nvd_size d) < unat ofs + length bs")
    case True
    then show ?thesis
      using Nvram_Write lt by (simp add: nvram_resource_callbacks_def nvram_write_def nvram_array_def)
  next
    case False
    obtain w1 where w1: "sdi_smbus_write_multi_byte (chip_bus chip) (chip_addr chip) (ucast (nvd_ofs d + ucast ofs))
        bs (of_nat (length bs)) SDI_I2C_FLAG_NONE w = Some (STD_ERR_OK, bs, w1)"
        "regs w1 = put_registers (regs w) (ucast (nvd_ofs d) + of_nat (unat ofs)) bs"
      using register_write_multi [OF R, of "of_nat (length bs)" bs "ucast (nvd_ofs d + ucast ofs)" w] len
        nvram_command(1) [OF fits, of ofs] by auto
    have "nvram_array d (regs w1) = take (unat ofs) (nvram_array d (regs w)) @ bs @
        drop (unat ofs + length bs) (nvram_array d (regs w))"
      unfolding nvram_array_def w1(2) using fits False nvram_command(2) [OF fits]
      by (intro registers_from_put) simp_all
    then show ?thesis
      using Nvram_Write lt False w1(1) dev
      by (simp add: nvram_resource_callbacks_def nvram_write_def nvram_array_def)
  qed
qed

text \<open>
  The test for the end takes the sum of 32 bits: a read of two bytes from the offset \<open>2 ^ 32 - 1\<close> passes
  it, and starts at the byte in front of the NVRAM.
\<close>

lemma nvram_read_wraps:
  assumes R: "register_file (chip_bus chip) (chip_addr chip) regs" and "nvd_dev d = None"
    and "0 < nvd_size d" and "2 \<le> length buf"
  shows "\<exists>w'. nvram_read os F chip d 0xFFFFFFFF 2 buf w =
    Some (STD_ERR_OK, registers_from (regs w) (ucast (nvd_ofs d) - 1) 2 @ drop 2 buf, w')"
proof -
  have "(ucast (nvd_ofs d + ucast (0xFFFFFFFF :: u32)) :: u32) = ucast (nvd_ofs d) - 1"
    unfolding ucast_sum by simp
  moreover have "\<not> nvd_size d < 0xFFFFFFFF + 2"
    using assms(3) by (simp add: word_less_nat_alt word_gt_0)
  ultimately show ?thesis
    using register_read_multi [OF R, of 2 buf "ucast (nvd_ofs d) - 1" w] assms(2,4)
    by (auto simp: nvram_read_def)
qed

text \<open>
  C18. NVRAM refines an array. Behind a register file whose numbers the NVRAM does not exceed, every
  sequence of reads and writes whose offsets and lengths do not overflow has the results, byte by
  byte and error by error, of the same calls on an array of as many bytes, and leaves in the
  registers the array that they leave: a stretch inside of it is read or replaced, a call beyond its
  end is the error EINVAL without effect.
\<close>

theorem nvram_refines_array:
  assumes "register_file (chip_bus chip) (chip_addr chip) regs" and "nvd_dev d = None"
    and "unat (nvd_ofs d) + unat (nvd_size d) \<le> 256" and "\<forall>c \<in> set cs. call_in_range c"
  shows "\<exists>w'. nvram_steps (nvram_resource_callbacks os F chip d) cs w =
      Some (fst (array_steps cs (nvram_array d (regs w))), w') \<and>
    nvram_array d (regs w') = snd (array_steps cs (nvram_array d (regs w)))"
  using assms(4)
proof (induction cs arbitrary: w)
  case (Cons c cs)
  then obtain w1 where w1: "nvram_step (nvram_resource_callbacks os F chip d) c w =
      Some (fst (array_step c (nvram_array d (regs w))), w1)"
    "nvram_array d (regs w1) = snd (array_step c (nvram_array d (regs w)))"
    using nvram_step_array [OF assms(1-3), of c os F w] by auto
  obtain w2 where "nvram_steps (nvram_resource_callbacks os F chip d) cs w1 =
      Some (fst (array_steps cs (nvram_array d (regs w1))), w2)"
    "nvram_array d (regs w2) = snd (array_steps cs (nvram_array d (regs w1)))"
    using Cons.IH [of w1] Cons.prems by auto
  then show ?case using w1 by (simp add: case_prod_unfold Let_def)
qed simp

text \<open>A memory of four bytes on a kernel bus, and the files of a system that has none.\<close>

definition sample_nvram :: nvram_device where
  "sample_nvram = \<lparr>nvd_alias = ''nvram-0'', nvd_dev = None, nvd_ofs = 16, nvd_size = 4\<rparr>"

definition no_files :: "'w file_io" where
  "no_files = \<lparr>file_open = (\<lambda>_ _ w. (None, w)), file_lseek = (\<lambda>_ _ w. (False, w)),
     file_read = (\<lambda>_ _ w. (None, w)), file_write = (\<lambda>_ _ w. (None, w)), file_close = (\<lambda>_ w. w)\<rparr>"

lemma nvram_refines_array_witness:
  "\<exists>w'. nvram_steps (nvram_resource_callbacks quiet_os no_files
      \<lparr>chip_bus = sample_bus, chip_addr = sample_chip_addr, chip_instance = 0, chip_alias = []\<rparr> sample_nvram)
      [Nvram_Write 1 [7, 8], Nvram_Read 0 4, Nvram_Write 3 [1, 2]] (\<lambda>_. 5) =
    Some ([(STD_ERR_OK, []), (STD_ERR_OK, [5, 7, 8, 5]), (SDI_ERRCODE EINVAL, [])], w')"
proof -
  let ?chip = "\<lparr>chip_bus = sample_bus, chip_addr = sample_chip_addr, chip_instance = 0, chip_alias = []\<rparr>"
  have R: "register_file (chip_bus ?chip) (chip_addr ?chip) (\<lambda>w. w)"
    using sample_register_file by simp
  have a: "nvram_array sample_nvram (\<lambda>_. 5) = [5, 5, 5, 5]"
    by (simp add: nvram_array_def sample_nvram_def registers_from_def upt_rec)
  show ?thesis
    using nvram_refines_array [OF R, of sample_nvram "[Nvram_Write 1 [7, 8], Nvram_Read 0 4, Nvram_Write 3 [1, 2]]"
        quiet_os no_files "\<lambda>_. 5"] a
    by (auto simp: sample_nvram_def)
qed

end
