(* ===== verification/Pmbus.thy ===== *)
theory Pmbus
  imports Fan_Max6620
begin

text \<open>
  Power supplies on the PMBus: the devices with temperature sensors and fans
  (src/drivers/sdi\_pmbus\_dev.c) and the supply of the S6000 (sdi\_s6k\_psu.c), which has one of each. The
  private data are the speeds of the fan; the sensors and the maps between speed and percentage are
  fixed at the registration.
\<close>

section \<open>Registers and sensors\<close>

datatype sdi_pmbus_resource =
    SDI_PMBUS_TEMPERATURE_1 | SDI_PMBUS_TEMPERATURE_2 | SDI_PMBUS_TEMPERATURE_3
  | SDI_PMBUS_FAN_1 | SDI_PMBUS_FAN_2 | SDI_PMBUS_FAN_3 | SDI_PMBUS_FAN_4

datatype pmbus_sensor_format = SDI_PMBUS_LINEAR | SDI_PMBUS_DIRECT

record sdi_pmbus_sensor =
  pmbus_resource :: sdi_pmbus_resource
  pmbus_format :: pmbus_sensor_format
  pmbus_alias :: string

fun pmbus_temperature_reg :: "sdi_pmbus_resource \<Rightarrow> u32 option" where
  "pmbus_temperature_reg SDI_PMBUS_TEMPERATURE_1 = Some 0x8D"
| "pmbus_temperature_reg SDI_PMBUS_TEMPERATURE_2 = Some 0x8E"
| "pmbus_temperature_reg SDI_PMBUS_TEMPERATURE_3 = Some 0x8F"
| "pmbus_temperature_reg _ = None"

fun pmbus_fan_speed_reg :: "sdi_pmbus_resource \<Rightarrow> u32 option" where
  "pmbus_fan_speed_reg SDI_PMBUS_FAN_1 = Some 0x90"
| "pmbus_fan_speed_reg SDI_PMBUS_FAN_2 = Some 0x91"
| "pmbus_fan_speed_reg SDI_PMBUS_FAN_3 = Some 0x92"
| "pmbus_fan_speed_reg SDI_PMBUS_FAN_4 = Some 0x93"
| "pmbus_fan_speed_reg _ = None"

fun pmbus_fan_command_reg :: "sdi_pmbus_resource \<Rightarrow> u32 option" where
  "pmbus_fan_command_reg SDI_PMBUS_FAN_1 = Some 0x3B"
| "pmbus_fan_command_reg SDI_PMBUS_FAN_2 = Some 0x3C"
| "pmbus_fan_command_reg SDI_PMBUS_FAN_3 = Some 0x3E"
| "pmbus_fan_command_reg SDI_PMBUS_FAN_4 = Some 0x3F"
| "pmbus_fan_command_reg _ = None"

definition SDI_PMBUS_CMD_STATUS_FANS_1_2 :: u32 where "SDI_PMBUS_CMD_STATUS_FANS_1_2 = 0x81"
definition SDI_PMBUS_CMD_STATUS_FANS_3_4 :: u32 where "SDI_PMBUS_CMD_STATUS_FANS_3_4 = 0x82"
definition SDI_FAN_1_3_FAULT_MASK :: u8 where "SDI_FAN_1_3_FAULT_MASK = 0x80"
definition SDI_FAN_2_4_FAULT_MASK :: u8 where "SDI_FAN_2_4_FAULT_MASK = 0x40"

text \<open>The status register of a fan and the bit of its fault.\<close>

fun pmbus_fan_status :: "sdi_pmbus_resource \<Rightarrow> (u32 \<times> u8) option" where
  "pmbus_fan_status SDI_PMBUS_FAN_1 = Some (SDI_PMBUS_CMD_STATUS_FANS_1_2, SDI_FAN_1_3_FAULT_MASK)"
| "pmbus_fan_status SDI_PMBUS_FAN_2 = Some (SDI_PMBUS_CMD_STATUS_FANS_1_2, SDI_FAN_2_4_FAULT_MASK)"
| "pmbus_fan_status SDI_PMBUS_FAN_3 = Some (SDI_PMBUS_CMD_STATUS_FANS_3_4, SDI_FAN_1_3_FAULT_MASK)"
| "pmbus_fan_status SDI_PMBUS_FAN_4 = Some (SDI_PMBUS_CMD_STATUS_FANS_3_4, SDI_FAN_2_4_FAULT_MASK)"
| "pmbus_fan_status _ = None"

section \<open>The device\<close>

text \<open>
  A map holds for the supplies whose PPID matches its pattern; its entries are in the order of the
  list, which is that of the configuration backwards.
\<close>

record sdi_fan_speed_map_entry =
  map_rpm :: u32
  map_pct :: u32

record sdi_fan_speed_ppid_map =
  ppid_pat :: string
  map_speeds :: "sdi_fan_speed_map_entry list"

record 'w sdi_pmbus_dev =
  pmbus_chip :: "'w chip"
  pec_req :: u32
  sdi_pmbus_sensors :: "sdi_pmbus_sensor list"
  fan_speed_map :: "sdi_fan_speed_ppid_map list"

record pmbus_dev_device =
  default_fan_speed :: u32
  max_fan_speed :: u32

section \<open>Readings\<close>

text \<open>
  The linear format: a mantissa of 11 bits and an exponent of 5 bits, both signed. A negative
  exponent shifts the magnitude of the mantissa to the right; a positive one shifts it to the left,
  which also a negative mantissa is assumed to do.
\<close>

definition sdi_pmbus_linear_data_to_int :: "u8 \<Rightarrow> u8 \<Rightarrow> u32" where
  "sdi_pmbus_linear_data_to_int msb lsb =
     (let y = (push_bit 8 (ucast (msb AND 0x7)) OR ucast lsb :: u32);
         n = (drop_bit 3 (ucast msb) :: u32);
         y = (if y AND push_bit 10 1 \<noteq> 0 then y OR push_bit 11 (- 1) else y);
         n = (if n AND push_bit 4 1 \<noteq> 0 then n OR push_bit 5 (- 1) else n)
     in if n <s 0 then (let n = unat (- n) in if y <s 0 then - drop_bit n (- y) else drop_bit n y)
        else push_bit (unat n) y)"

definition pmbus_value :: "pmbus_sensor_format \<Rightarrow> u8 \<times> u8 \<Rightarrow> u32" where
  "pmbus_value f buf = (case f of
       SDI_PMBUS_LINEAR \<Rightarrow> sdi_pmbus_linear_data_to_int (snd buf) (fst buf)
     | SDI_PMBUS_DIRECT \<Rightarrow> ucast (fst buf))"

definition pmbus_read_word :: "'w sdi_pmbus_dev \<Rightarrow> u32 \<Rightarrow> 'w \<Rightarrow> (t_std_error \<times> u16 \<times> 'w) option" where
  "pmbus_read_word p reg = sdi_smbus_read_word (chip_bus (pmbus_chip p)) (chip_addr (pmbus_chip p)) reg 0 (pec_req p)"

definition sdi_pmbus_dev_temperature_get ::
    "'w sdi_pmbus_dev \<Rightarrow> sdi_pmbus_sensor \<Rightarrow> (u32, pmbus_dev_device \<times> 'w) query" where
  "sdi_pmbus_dev_temperature_get p sensor temperature = (\<lambda>(d, w).
     case pmbus_temperature_reg (pmbus_resource sensor) of
       None \<Rightarrow> Some (SDI_DEVICE_ERRCODE EOPNOTSUPP, temperature, d, w)
     | Some reg \<Rightarrow> do {
         (rc, data, w) \<leftarrow> pmbus_read_word p reg w;
         let buf = sdi_platform_util_write_16bit_to_bytearray_le data;
         if rc \<noteq> STD_ERR_OK then Some (rc, temperature, d, w)
         else Some (rc, pmbus_value (pmbus_format sensor) buf, d, w)
       })"

definition sdi_pmbus_dev_fan_speed_get ::
    "'w sdi_pmbus_dev \<Rightarrow> sdi_pmbus_sensor \<Rightarrow> (u32, pmbus_dev_device \<times> 'w) query" where
  "sdi_pmbus_dev_fan_speed_get p sensor fan_speed = (\<lambda>(d, w).
     case pmbus_fan_speed_reg (pmbus_resource sensor) of
       None \<Rightarrow> Some (SDI_DEVICE_ERRCODE EOPNOTSUPP, fan_speed, d, w)
     | Some reg \<Rightarrow> do {
         (rc, data, w) \<leftarrow> pmbus_read_word p reg w;
         let buf = sdi_platform_util_write_16bit_to_bytearray_le data;
         if rc \<noteq> STD_ERR_OK then Some (rc, fan_speed, d, w)
         else Some (rc, pmbus_value (pmbus_format sensor) buf, d, w)
       })"

definition sdi_pmbus_dev_temp_threshold_get :: "sdi_threshold \<Rightarrow> (u32, 'w) query" where
  "sdi_pmbus_dev_temp_threshold_get t temperature w = Some (SDI_DEVICE_ERRCODE EOPNOTSUPP, temperature, w)"

definition sdi_pmbus_dev_temp_threshold_set :: "sdi_threshold \<Rightarrow> u32 \<Rightarrow> 'w action" where
  "sdi_pmbus_dev_temp_threshold_set t temperature w = Some (SDI_DEVICE_ERRCODE EOPNOTSUPP, w)"

definition sdi_pmbus_dev_temperature_status_get :: "(bool, 'w) query" where
  "sdi_pmbus_dev_temperature_status_get status w = Some (SDI_DEVICE_ERRCODE EOPNOTSUPP, status, w)"

definition sdi_pmbus_dev_fan_status_get ::
    "'w sdi_pmbus_dev \<Rightarrow> sdi_pmbus_sensor \<Rightarrow> (bool, pmbus_dev_device \<times> 'w) query" where
  "sdi_pmbus_dev_fan_status_get p sensor status = (\<lambda>(d, w).
     case pmbus_fan_status (pmbus_resource sensor) of
       None \<Rightarrow> Some (SDI_DEVICE_ERRCODE EOPNOTSUPP, status, d, w)
     | Some (reg, fault) \<Rightarrow> do {
         (rc, buf, w) \<leftarrow> sdi_smbus_read_byte (chip_bus (pmbus_chip p)) (chip_addr (pmbus_chip p)) reg 0 (pec_req p) w;
         if rc \<noteq> STD_ERR_OK then Some (rc, status, d, w)
         else Some (rc, buf AND fault \<noteq> 0, d, w)
       })"

section \<open>Speeds and percentages\<close>

definition abs_diff :: "u32 \<Rightarrow> u32 \<Rightarrow> u32" where
  "abs_diff a b = (if b \<le> a then a - b else b - a)"

text \<open>
  The walk over the entries of a map: the first one whose \<open>key\<close> is closest. The second argument is the
  best one so far.
\<close>

fun pmbus_best_entry ::
    "(sdi_fan_speed_map_entry \<Rightarrow> u32) \<Rightarrow> u32 \<Rightarrow> sdi_fan_speed_map_entry option \<Rightarrow> sdi_fan_speed_map_entry list
      \<Rightarrow> sdi_fan_speed_map_entry option" where
  "pmbus_best_entry key v best [] = best"
| "pmbus_best_entry key v best (q # qs) =
     pmbus_best_entry key v
       (case best of
          None \<Rightarrow> Some q
        | Some b \<Rightarrow> if abs_diff v (key b) \<le> abs_diff v (key q) then Some b else Some q) qs"

text \<open>
  The entry for the PPID of the parent entity: \<open>None\<close> in the outer option when there is no parent to ask,
  which is undefined; without a resource (not \<open>known\<close>) the maps are not used.
\<close>

definition pmbus_map_entry ::
    "'w sdi_env \<Rightarrow> sdi_fan_speed_ppid_map list \<Rightarrow> bool \<Rightarrow> sdi_entity_info option
      \<Rightarrow> (sdi_fan_speed_map_entry \<Rightarrow> u32) \<Rightarrow> u32 \<Rightarrow> sdi_fan_speed_map_entry option option" where
  "pmbus_map_entry E maps known info key v =
     (if maps = [] \<or> \<not> known then Some None
      else do {
        i \<leftarrow> info;
        Some (case find (\<lambda>m. regexec_match E (ppid_pat m) (ppid i)) maps of
            None \<Rightarrow> None
          | Some m \<Rightarrow> pmbus_best_entry key v None (map_speeds m))
      })"

text \<open>The macro divides the greatest speed first, so that one below 100 divides by zero.\<close>

definition SDI_FAN_RPM_TO_DUTY_CYCLE :: "u32 \<Rightarrow> u32" where
  "SDI_FAN_RPM_TO_DUTY_CYCLE x = x div 100"

definition sdi_pmbus_dev_fan_speed_rpm_to_pct ::
    "'w sdi_env \<Rightarrow> 'w sdi_pmbus_dev \<Rightarrow> bool \<Rightarrow> sdi_entity_info option \<Rightarrow> u32 \<Rightarrow> pmbus_dev_device \<Rightarrow> u32 option" where
  "sdi_pmbus_dev_fan_speed_rpm_to_pct E p known info rpm d = do {
     best \<leftarrow> pmbus_map_entry E (fan_speed_map p) known info map_rpm rpm;
     case best of
       Some q \<Rightarrow> Some (map_pct q)
     | None \<Rightarrow>
         if max_fan_speed d = 0 then Some 100
         else if SDI_FAN_RPM_TO_DUTY_CYCLE (max_fan_speed d) = 0 then None
         else Some (rpm div SDI_FAN_RPM_TO_DUTY_CYCLE (max_fan_speed d))
   }"

definition sdi_pmbus_dev_fan_speed_pct_to_rpm ::
    "'w sdi_env \<Rightarrow> 'w sdi_pmbus_dev \<Rightarrow> bool \<Rightarrow> sdi_entity_info option \<Rightarrow> u32 \<Rightarrow> pmbus_dev_device \<Rightarrow> u32 option" where
  "sdi_pmbus_dev_fan_speed_pct_to_rpm E p known info pct d = do {
     best \<leftarrow> pmbus_map_entry E (fan_speed_map p) known info map_pct pct;
     case best of
       Some q \<Rightarrow> Some (map_rpm q)
     | None \<Rightarrow> Some (if max_fan_speed d = 0 then 0 else (pct * max_fan_speed d) div 100)
   }"

text \<open>The percentage is cut to a byte.\<close>

definition sdi_pmbus_dev_fan_speed_set ::
    "'w sdi_env \<Rightarrow> 'w sdi_pmbus_dev \<Rightarrow> sdi_pmbus_sensor \<Rightarrow> bool \<Rightarrow> sdi_entity_info option \<Rightarrow> u32
      \<Rightarrow> (pmbus_dev_device \<times> 'w) action" where
  "sdi_pmbus_dev_fan_speed_set E p sensor known info fan_speed = (\<lambda>(d, w).
     case pmbus_fan_command_reg (pmbus_resource sensor) of
       None \<Rightarrow> Some (SDI_DEVICE_ERRCODE EOPNOTSUPP, d, w)
     | Some reg \<Rightarrow> do {
         pct \<leftarrow> sdi_pmbus_dev_fan_speed_rpm_to_pct E p known info fan_speed d;
         let pval = sdi_platform_util_convert_le_to_uint16 (ucast pct, 0);
         (rc, w) \<leftarrow> sdi_smbus_write_word (chip_bus (pmbus_chip p)) (chip_addr (pmbus_chip p)) reg pval (pec_req p) w;
         Some (rc, d, w)
       })"

definition sdi_pmbus_dev_resource_init ::
    "'w sdi_env \<Rightarrow> 'w sdi_pmbus_dev \<Rightarrow> sdi_pmbus_sensor \<Rightarrow> u32 \<Rightarrow> (pmbus_dev_device \<times> 'w) action" where
  "sdi_pmbus_dev_resource_init E p sensor max_rpm = (\<lambda>(d, w).
     let d = d\<lparr>max_fan_speed := max_rpm\<rparr>
     in if default_fan_speed d \<noteq> 0
        then sdi_pmbus_dev_fan_speed_set E p sensor False None (default_fan_speed d) (d, w)
        else Some (STD_ERR_OK, d, w))"

section \<open>Registration\<close>

definition pmbus_dev_temp_sensor ::
    "'w sdi_pmbus_dev \<Rightarrow> sdi_pmbus_sensor \<Rightarrow> (pmbus_dev_device \<times> 'w) temperature_sensor" where
  "pmbus_dev_temp_sensor p sensor = \<lparr>
     ts_init = None,
     ts_temperature_get = sdi_pmbus_dev_temperature_get p sensor,
     ts_threshold_get = sdi_pmbus_dev_temp_threshold_get,
     ts_threshold_set = sdi_pmbus_dev_temp_threshold_set,
     ts_status_get = sdi_pmbus_dev_temperature_status_get\<rparr>"

definition pmbus_dev_fan ::
    "'w sdi_env \<Rightarrow> 'w sdi_pmbus_dev \<Rightarrow> sdi_pmbus_sensor \<Rightarrow> (pmbus_dev_device \<times> 'w) fan_ctrl" where
  "pmbus_dev_fan E p sensor = \<lparr>
     fan_init = Some (sdi_pmbus_dev_resource_init E p sensor),
     fan_speed_get = (\<lambda>_. sdi_pmbus_dev_fan_speed_get p sensor),
     fan_speed_set = Some (sdi_pmbus_dev_fan_speed_set E p sensor True),
     fan_status_get = sdi_pmbus_dev_fan_status_get p sensor,
     fan_rpm_to_pct = Some (\<lambda>info rpm (d, w). sdi_pmbus_dev_fan_speed_rpm_to_pct E p True info rpm d),
     fan_pct_to_rpm = Some (\<lambda>info pct (d, w). sdi_pmbus_dev_fan_speed_pct_to_rpm E p True info pct d)\<rparr>"

definition pmbus_is_fan :: "sdi_pmbus_resource \<Rightarrow> bool" where
  "pmbus_is_fan r \<longleftrightarrow> pmbus_fan_speed_reg r \<noteq> None"

primrec sdi_pmbus_resource_add ::
    "'w sdi_env \<Rightarrow> 'w sdi_pmbus_dev \<Rightarrow> sdi_pmbus_sensor list \<Rightarrow> (pmbus_dev_device \<times> 'w) sdi_sys
      \<Rightarrow> (pmbus_dev_device \<times> 'w) sdi_sys" where
  "sdi_pmbus_resource_add E p [] s = s"
| "sdi_pmbus_resource_add E p (sensor # ss) s =
     (let alias = snprintf (SDI_MAX_NAME_LEN * 2) (''psu-'' @ signed_decimal (sint (chip_instance (pmbus_chip p)))
            @ ''-'' @ pmbus_alias sensor);
          s = (if pmbus_is_fan (pmbus_resource sensor)
            then sdi_resource_add (env_lib E) SDI_RESOURCE_FAN alias (Fan_Fns (pmbus_dev_fan E p sensor)) s
            else sdi_resource_add (env_lib E) SDI_RESOURCE_TEMPERATURE alias
              (Temperature_Fns (pmbus_dev_temp_sensor p sensor)) s)
      in sdi_pmbus_resource_add E p ss s)"

definition sdi_pmbus_dev_register ::
    "'w sdi_env \<Rightarrow> sdi_pmbus_sensor list \<Rightarrow> sdi_fan_speed_ppid_map list \<Rightarrow> config_node \<Rightarrow> 'w sdi_i2c_bus
      \<Rightarrow> (pmbus_dev_device \<times> 'w) sdi_sys
      \<Rightarrow> ('w sdi_pmbus_dev \<times> (pmbus_dev_device \<times> 'w) sdi_sys) option" where
  "sdi_pmbus_dev_register E sensors maps node bus_handle s = do {
     STD_ASSERT (bus_type (bus bus_handle) = SDI_I2C_BUS);
     inst_attr \<leftarrow> std_config_attr_get node ''instance'';
     let inst = ucast (strtoul inst_attr 0);
     addr \<leftarrow> std_config_attr_get node ''addr'';
     let pec = (case std_config_attr_get node ''i2c_flag'' of
         None \<Rightarrow> SDI_I2C_FLAG_PEC | Some a \<Rightarrow> ucast (strtoul a 16));
     let chip = \<lparr>chip_bus = bus_handle, chip_addr = \<lparr>i2c_addr = ucast (strtoul addr 16), addr_mode_16bit = False\<rparr>,
       chip_instance = inst, chip_alias = device_alias (env_lib E) ''psu-'' node inst\<rparr>;
     let p = \<lparr>pmbus_chip = chip, pec_req = pec, sdi_pmbus_sensors = sensors, fan_speed_map = maps\<rparr>;
     let d = \<lparr>default_fan_speed = (case std_config_attr_get node ''fan_speed'' of
         None \<Rightarrow> 0 | Some a \<Rightarrow> ucast (strtoul a 0)), max_fan_speed = 0\<rparr>;
     Some (p, sdi_pmbus_resource_add E p sensors (s\<lparr>dev := (d, snd (dev s))\<rparr>))
   }"

section \<open>The supply of the S6000\<close>

definition sdi_pmbus_sensor_s6k :: "sdi_pmbus_sensor list" where
  "sdi_pmbus_sensor_s6k = [
     \<lparr>pmbus_resource = SDI_PMBUS_TEMPERATURE_1, pmbus_format = SDI_PMBUS_LINEAR, pmbus_alias = ''Temperature-1''\<rparr>,
     \<lparr>pmbus_resource = SDI_PMBUS_FAN_1, pmbus_format = SDI_PMBUS_LINEAR, pmbus_alias = ''Fan-1''\<rparr>]"

text \<open>A child node that is not as expected is skipped; a new entry goes to the front.\<close>

definition s6k_speed_entry :: "config_node \<Rightarrow> sdi_fan_speed_map_entry option" where
  "s6k_speed_entry n =
     (if std_config_name_get n \<noteq> ''speed'' then None
      else do {
        rpm \<leftarrow> std_config_attr_get n ''rpm'';
        pct \<leftarrow> std_config_attr_get n ''percent'';
        Some \<lparr>map_rpm = ucast (strtoul rpm 0), map_pct = ucast (strtoul pct 0)\<rparr>
      })"

definition s6k_fan_map :: "'w sdi_env \<Rightarrow> config_node \<Rightarrow> sdi_fan_speed_ppid_map option" where
  "s6k_fan_map E n =
     (if std_config_name_get n \<noteq> ''fan'' then None
      else do {
        s \<leftarrow> std_config_attr_get n ''ppid'';
        if \<not> regcomp_ok E s then None
        else Some \<lparr>ppid_pat = s, map_speeds = rev (List.map_filter s6k_speed_entry (std_config_children n))\<rparr>
      })"

definition sdi_s6k_psu_register ::
    "'w sdi_env \<Rightarrow> config_node \<Rightarrow> 'w sdi_i2c_bus \<Rightarrow> (pmbus_dev_device \<times> 'w) sdi_sys
      \<Rightarrow> (t_std_error \<times> 'w sdi_pmbus_dev \<times> (pmbus_dev_device \<times> 'w) sdi_sys) option" where
  "sdi_s6k_psu_register E node bus_handle s = do {
     (p, s) \<leftarrow> sdi_pmbus_dev_register E sdi_pmbus_sensor_s6k
       (rev (List.map_filter (s6k_fan_map E) (std_config_children node))) node bus_handle s;
     Some (STD_ERR_OK, p, s)
   }"

definition sdi_s6k_psu_chip_init :: "'w action" where
  "sdi_s6k_psu_chip_init w = Some (STD_ERR_OK, w)"

end
