(* ===== verification/Pmbus_Values.thy ===== *)
theory Pmbus_Values
  imports Pmbus
begin

unbundle bit_operations_syntax

text \<open>
  The values of Pmbus: the linear format is the mantissa times a power of two, rounded towards
  zero, and the entry that a map gives is the first one whose key is the nearest.
\<close>

section \<open>The linear format\<close>

text \<open>The two fields of the format, and the value they stand for.\<close>

definition linear_mantissa :: "u8 \<Rightarrow> u8 \<Rightarrow> int" where
  "linear_mantissa msb lsb = (let y = 256 * (uint msb mod 8) + uint lsb in if 1024 \<le> y then y - 2048 else y)"

definition linear_exponent :: "u8 \<Rightarrow> int" where
  "linear_exponent msb = (let n = uint msb div 8 in if 16 \<le> n then n - 32 else n)"

definition linear_value :: "int \<Rightarrow> int \<Rightarrow> int" where
  "linear_value y n = (if 0 \<le> n then y * 2 ^ nat n else sgn y * (\<bar>y\<bar> div 2 ^ nat (- n)))"

lemma odd_div_iff:
  fixes u d :: int
  assumes "0 < d" and "0 \<le> u" and "u < 2 * d"
  shows "odd (u div d) \<longleftrightarrow> d \<le> u"
proof (cases "d \<le> u")
  case True
  then show ?thesis using assms by (simp add: div_pos_geq div_pos_pos_trivial)
next
  case False
  then show ?thesis using assms by (simp add: div_pos_pos_trivial)
qed

lemma bit_top_iff:
  fixes v :: u32
  assumes "uint v < 2 ^ Suc k"
  shows "v AND push_bit k 1 \<noteq> 0 \<longleftrightarrow> 2 ^ k \<le> uint v"
proof -
  have "v AND push_bit k 1 \<noteq> 0 \<longleftrightarrow> odd (uint v div 2 ^ k)"
    by (auto simp only: bit_iff_and_push_bit_not_eq_0 [symmetric] bit_iff_odd [of "uint v", symmetric] bit_uint_iff
        dest: bit_imp_le_length)
  then show ?thesis using assms by (simp add: odd_div_iff)
qed

lemma sign_extension:
  fixes v :: u32
  assumes "uint v < 2 ^ Suc k" and "k < 30"
  shows "sint (if v AND push_bit k 1 \<noteq> 0 then v OR push_bit (Suc k) (- 1) else v) =
    (if 2 ^ k \<le> uint v then uint v - 2 ^ Suc k else uint v)"
proof -
  have "(2::int) ^ Suc k \<le> 2 ^ 30" using assms(2) by (intro power_increasing) auto
  then have small: "(2::int) ^ Suc k \<le> 1073741824" by simp
  have nonneg: "0 \<le> uint v" by simp
  have "take_bit (Suc k) (uint v) = uint v"
    using assms(1) by (simp add: take_bit_int_eq_self)
  then have high: "n < Suc k" if "bit v n" for n
    using that by (metis bit_take_bit_iff bit_uint_iff bit_imp_le_length)
  then have "v AND push_bit (Suc k) (- 1) = 0"
    by (auto intro!: bit_word_eqI simp: bit_simps)
  then have "v OR push_bit (Suc k) (- 1) = v + push_bit (Suc k) (- 1)"
    using word_plus_and_or [of v "push_bit (Suc k) (- 1)"] by simp
  also have "\<dots> = word_of_int (uint v - 2 ^ Suc k)"
    by (simp add: push_bit_eq_mult word_of_int_power_hom flip: wi_hom_syms)
  finally have "v OR push_bit (Suc k) (- 1) = word_of_int (uint v - 2 ^ Suc k)" .
  moreover have "signed_take_bit 31 (uint v - 2 ^ Suc k) = uint v - 2 ^ Suc k"
  proof (rule signed_take_bit_int_eq_self)
    have "- 2147483648 \<le> uint v - 2 ^ Suc k" using nonneg small by linarith
    then show "- (2 ^ 31) \<le> uint v - 2 ^ Suc k" by simp
    show "uint v - 2 ^ Suc k < 2 ^ 31" using assms(1) by simp
  qed
  moreover have "- 2147483648 \<le> uint v" using nonneg by linarith
  then have "sint v = uint v"
    unfolding sint_uint using assms(1) small by (intro signed_take_bit_int_eq_self) simp_all
  ultimately have "sint (v OR push_bit (Suc k) (- 1)) = uint v - 2 ^ Suc k" and "sint v = uint v"
    by (simp_all only: sint_sbintrunc' len_of_numeral_defs) simp
  then show ?thesis
    by (simp only: bit_top_iff [OF assms(1)] split: if_split) simp
qed

lemma uint_of_small: "0 \<le> x \<Longrightarrow> x < 2 ^ 32 \<Longrightarrow> uint (word_of_int x :: u32) = x"
  by (simp add: uint_word_of_int take_bit_int_eq_self)

lemma linear_fields:
  "(push_bit 8 (ucast (msb AND 0x7)) OR ucast lsb :: u32) = word_of_int (256 * (uint (msb::u8) mod 8) + uint (lsb::u8))"
  "(drop_bit 3 (ucast msb) :: u32) = word_of_int (uint msb div 8)"
proof -
  have "msb AND 0x7 = take_bit 3 msb" by (simp add: take_bit_eq_mask mask_eq_exp_minus_1)
  moreover have "push_bit 8 (ucast (take_bit 3 msb)) AND (ucast lsb :: u32) = 0"
    by (auto intro!: bit_word_eqI simp: bit_simps dest!: bit_imp_le_length [of lsb])
  ultimately have sum: "(push_bit 8 (ucast (msb AND 0x7)) OR ucast lsb :: u32) = push_bit 8 (ucast (take_bit 3 msb)) + ucast lsb"
    using word_plus_and_or [of "push_bit 8 (ucast (take_bit 3 msb))" "ucast lsb :: u32"] by simp
  have hi: "(ucast (take_bit 3 msb) :: u32) = word_of_int (uint msb mod 8)"
    unfolding ucast_eq unsigned_take_bit_eq unfolding take_bit_eq_mod by simp
  have lo: "(ucast lsb :: u32) = word_of_int (uint lsb)" by (rule ucast_eq)
  have shift: "push_bit 8 (word_of_int (uint msb mod 8)) = (word_of_int (256 * (uint msb mod 8)) :: u32)"
    by (simp add: push_bit_eq_mult mult.commute)
  show "(push_bit 8 (ucast (msb AND 0x7)) OR ucast lsb :: u32) = word_of_int (256 * (uint msb mod 8) + uint lsb)"
    unfolding sum unfolding hi lo shift of_int_add ..
  show "(drop_bit 3 (ucast msb) :: u32) = word_of_int (uint msb div 8)"
  proof -
    have "uint msb div 8 < 32" "0 \<le> uint msb div 8"
      using uint_lt2p [of msb] by (simp_all add: pos_imp_zdiv_nonneg_iff)
    then have "uint (word_of_int (uint msb div 8) :: u32) = uint msb div 8" by (intro uint_of_small) simp_all
    moreover have "take_bit 32 (uint msb) = uint msb"
      using uint_lt2p [of msb] by (intro take_bit_int_eq_self) simp_all
    ultimately show ?thesis
      unfolding word_uint_eq_iff unsigned_drop_bit_eq by (simp add: drop_bit_eq_div unsigned_ucast_eq)
  qed
qed

lemma sint_of_small:
  assumes "- (2 ^ 31) \<le> x" and "x < 2 ^ 31"
  shows "sint (word_of_int x :: u32) = x"
  using assms by (simp add: sint_sbintrunc' signed_take_bit_int_eq_self)

lemma linear_mantissa_bounds: "- 1024 \<le> linear_mantissa msb lsb \<and> linear_mantissa msb lsb \<le> 1023"
proof -
  have "0 \<le> uint msb mod 8" "uint msb mod 8 < 8" "0 \<le> uint lsb" "uint lsb < 256"
    using uint_lt2p [of lsb] by simp_all
  then show ?thesis unfolding linear_mantissa_def Let_def by (split if_split) linarith
qed

lemma linear_exponent_bounds: "- 16 \<le> linear_exponent msb \<and> linear_exponent msb \<le> 15"
proof -
  have "0 \<le> uint msb div 8" "uint msb div 8 < 32"
    using uint_lt2p [of msb] by (simp_all add: pos_imp_zdiv_nonneg_iff)
  then show ?thesis unfolding linear_exponent_def Let_def by (split if_split) linarith
qed

lemma div_power_le: "0 \<le> x \<Longrightarrow> x div 2 ^ m \<le> (x::int)"
  using zdiv_mono2 [of x 1 "2 ^ m"] by simp

lemma drop_bit_of_small:
  assumes "0 \<le> x" and "x < 2 ^ 32"
  shows "drop_bit m (word_of_int x :: u32) = word_of_int (x div 2 ^ m)"
proof -
  have "x div 2 ^ m \<le> x" using assms(1) by (rule div_power_le)
  then show ?thesis
    using assms unfolding word_uint_eq_iff unsigned_drop_bit_eq
    by (simp add: uint_of_small drop_bit_eq_div pos_imp_zdiv_nonneg_iff take_bit_int_eq_self)
qed

lemma linear_code_fields:
  fixes y n :: u32
  assumes "sint y = Y" and "sint n = N" and Y: "- 1024 \<le> Y" "Y \<le> 1023" and N: "- 16 \<le> N" "N \<le> 15"
  shows "sint (if n <s 0 then (let n = unat (- n) in if y <s 0 then - drop_bit n (- y) else drop_bit n y)
        else push_bit (unat n) y) = linear_value Y N"
proof -
  have y: "y = word_of_int Y" and n: "n = word_of_int N" using assms by auto
  have neg: "y <s 0 \<longleftrightarrow> Y < 0" "n <s 0 \<longleftrightarrow> N < 0" using assms by (simp_all add: word_sless_alt)
  show ?thesis
  proof (cases "N < 0")
    case True
    have m: "unat (- n) = nat (- N)"
      using uint_of_small [of "- N"] True N by (simp add: n unat_eq_nat_uint)
    have le: "0 \<le> \<bar>Y\<bar> div 2 ^ nat (- N)" "\<bar>Y\<bar> div 2 ^ nat (- N) \<le> 1024"
      using Y by (auto simp: pos_imp_zdiv_nonneg_iff intro: order_trans [OF div_power_le])
    show ?thesis
    proof (cases "Y < 0")
      case True
      have "- drop_bit (nat (- N)) (- y) = word_of_int (- (\<bar>Y\<bar> div 2 ^ nat (- N)))"
        using drop_bit_of_small [of "- Y" "nat (- N)"] True Y by (simp add: y)
      moreover have "sint (word_of_int (- (\<bar>Y\<bar> div 2 ^ nat (- N))) :: u32) = - (\<bar>Y\<bar> div 2 ^ nat (- N))"
        using le by (intro sint_of_small) auto
      ultimately show ?thesis
        using True \<open>N < 0\<close> by (simp only: neg m Let_def linear_value_def if_True) simp
    next
      case False
      have "drop_bit (nat (- N)) y = word_of_int (\<bar>Y\<bar> div 2 ^ nat (- N))"
        using drop_bit_of_small [of Y "nat (- N)"] False Y by (simp add: y)
      then show ?thesis
        using le False \<open>N < 0\<close> by (simp add: neg m Let_def linear_value_def sint_of_small sgn_if)
    qed
  next
    case False
    have "unat n = nat N" using uint_of_small [of N] False N by (simp add: n unat_eq_nat_uint)
    moreover have "push_bit (nat N) y = word_of_int (Y * 2 ^ nat N)" by (simp add: y push_bit_eq_mult)
    moreover have "(2::int) ^ nat N \<le> 2 ^ 15" using N by (intro power_increasing) auto
    then have "\<bar>Y * 2 ^ nat N\<bar> \<le> 1024 * 32768"
      unfolding abs_mult using Y by (intro mult_mono) auto
    then have "sint (word_of_int (Y * 2 ^ nat N) :: u32) = Y * 2 ^ nat N"
      by (intro sint_of_small) (auto simp: abs_le_iff)
    ultimately show ?thesis using False by (simp only: neg linear_value_def if_False) simp
  qed
qed

text \<open>
  C31. What a reading in the linear format of the PMBus is read as: whatever the two bytes are, the
  signed result is the mantissa of 11 bits times two to the power of the exponent of 5 bits, rounded
  towards zero, for both signs of both fields; no reading overflows an int.
\<close>

theorem pmbus_linear_value:
  "sint (sdi_pmbus_linear_data_to_int msb lsb) = linear_value (linear_mantissa msb lsb) (linear_exponent msb)"
proof -
  have y: "uint (word_of_int (256 * (uint msb mod 8) + uint lsb) :: u32) = 256 * (uint msb mod 8) + uint lsb"
    and n: "uint (word_of_int (uint msb div 8) :: u32) = uint msb div 8"
    by (rule uint_of_small; use uint_lt2p [of lsb] uint_lt2p [of msb] in \<open>simp add: pos_imp_zdiv_nonneg_iff\<close>)+
  have "0 \<le> uint msb mod 8" "uint msb mod 8 < 8" "uint lsb < 256" "uint msb div 8 < 32"
    using uint_lt2p [of lsb] uint_lt2p [of msb] by simp_all
  then have small: "256 * (uint msb mod 8) + uint lsb < 2 ^ Suc 10" "uint msb div 8 < 2 ^ Suc 4" by simp_all
  have Suc: "Suc 10 = 11" "Suc 4 = 5" by simp_all
  note y' = sign_extension [of "word_of_int (256 * (uint msb mod 8) + uint lsb)" 10, unfolded y, OF small(1), unfolded Suc]
  note n' = sign_extension [of "word_of_int (uint msb div 8)" 4, unfolded n, OF small(2), unfolded Suc]
  show ?thesis
    unfolding sdi_pmbus_linear_data_to_int_def Let_def linear_fields
    using linear_mantissa_bounds [of msb lsb] linear_exponent_bounds [of msb]
    by (intro linear_code_fields [unfolded Let_def] y' [THEN trans] n' [THEN trans])
      (simp_all add: linear_mantissa_def linear_exponent_def Let_def)
qed

section \<open>The nearest entry of a map\<close>

lemma pmbus_best_entry_from:
  "\<exists>q. pmbus_best_entry key v (Some b) qs = Some q \<and> q \<in> set (b # qs) \<and>
    (\<forall>x\<in>set (b # qs). abs_diff v (key q) \<le> abs_diff v (key x))"
proof (induction qs arbitrary: b)
  case (Cons x xs)
  show ?case
  proof (cases "abs_diff v (key b) \<le> abs_diff v (key x)")
    case True
    then show ?thesis using Cons.IH [of b] by fastforce
  next
    case False
    then show ?thesis using Cons.IH [of x] by fastforce
  qed
qed simp

lemma pmbus_best_entry_nearest:
  assumes "qs \<noteq> []"
  shows "\<exists>q. pmbus_best_entry key v None qs = Some q \<and> q \<in> set qs \<and>
    (\<forall>x\<in>set qs. abs_diff v (key q) \<le> abs_diff v (key x))"
  using assms pmbus_best_entry_from [of key v] by (cases qs) auto

lemma abs_diff_value: "uint (abs_diff a b) = \<bar>uint a - uint b\<bar>"
  by (simp add: abs_diff_def word_le_def uint_minus_simple_alt [THEN iffD1])

text \<open>Without a map, the conversion divides by zero exactly for a greatest speed below 100.\<close>

lemma pmbus_small_max_traps:
  "sdi_pmbus_dev_fan_speed_rpm_to_pct E p False info rpm d = None \<longleftrightarrow> max_fan_speed d \<noteq> 0 \<and> max_fan_speed d < 100"
  by (auto simp: sdi_pmbus_dev_fan_speed_rpm_to_pct_def pmbus_map_entry_def SDI_FAN_RPM_TO_DUTY_CYCLE_def
      word_unat_eq_iff unat_div word_less_nat_alt div_eq_0_iff split: if_splits)

end
