(* ===== verification/Power_Ina219.thy ===== *)
theory Power_Ina219
  imports Device
begin

text \<open>
  The power monitor driver src/drivers/sdi\_ina219.c: current and voltage are words of the chip, the
  power is their product. The functions work on pairs of the private data and the world (\<open>Device\<close>).
  The host is little endian, so that ntohs swaps the bytes of a word.
\<close>

section \<open>Registers and conversions\<close>

definition INA219_CONFIG_REG_OFFSET :: u32 where "INA219_CONFIG_REG_OFFSET = 0x00"
definition INA219_BUS_VOLTAGE_REG_OFFSET :: u32 where "INA219_BUS_VOLTAGE_REG_OFFSET = 0x02"
definition INA219_CURRENT_REG_OFFSET :: u32 where "INA219_CURRENT_REG_OFFSET = 0x04"
definition INA219_CALIBRATION_REG_OFFSET :: u32 where "INA219_CALIBRATION_REG_OFFSET = 0x05"
definition INA219_DEFAULT_CONFIG_REG_VAL :: u16 where "INA219_DEFAULT_CONFIG_REG_VAL = 0x399F"
definition INA219_DEFAULT_CALIB_REG_VAL :: u16 where "INA219_DEFAULT_CALIB_REG_VAL = 0x0"
definition INA219_DEFAULT_PSU_OFFSET_LOSS :: int where "INA219_DEFAULT_PSU_OFFSET_LOSS = 1"
definition INA219_VOLTAGE_REG_BIT_SHIFT :: nat where "INA219_VOLTAGE_REG_BIT_SHIFT = 3"
definition INA219_VOLTAGE_REG_BIT_VAL_IN_VOLT :: c_float where
  "INA219_VOLTAGE_REG_BIT_VAL_IN_VOLT = double_const (4 / 1000)"

definition ntohs :: "u16 \<Rightarrow> u16" where
  "ntohs v = push_bit 8 v OR drop_bit 8 v"

record ina219_device =
  psu_offset_loss :: c_float
  config_reg_val :: u16
  calib_reg_val :: u16

text \<open>
  The current is divided in float, the voltage is an int times a double that is rounded to float, the
  power is a product of floats.
\<close>

definition ina219_current :: "ina219_device \<Rightarrow> u16 \<Rightarrow> c_float" where
  "ina219_current d current_reg_val =
     fp_div 24 (fp_div 24 (float_of_int (uint current_reg_val)) (psu_offset_loss d)) (float_of_int 1000)"

definition ina219_voltage :: "u16 \<Rightarrow> c_float" where
  "ina219_voltage voltage_reg_val =
     to_float (fp_mul 53 (Fin (of_int (uint (drop_bit INA219_VOLTAGE_REG_BIT_SHIFT voltage_reg_val))))
       INA219_VOLTAGE_REG_BIT_VAL_IN_VOLT)"

abbreviation ina219_read :: "'w chip \<Rightarrow> u32 \<Rightarrow> 'w \<Rightarrow> (t_std_error \<times> u16 \<times> 'w) option" where
  "ina219_read chip reg \<equiv> sdi_smbus_read_word (chip_bus chip) (chip_addr chip) reg 0 SDI_I2C_FLAG_NONE"

abbreviation ina219_write :: "'w chip \<Rightarrow> u32 \<Rightarrow> u16 \<Rightarrow> 'w action" where
  "ina219_write chip reg v \<equiv> sdi_smbus_write_word (chip_bus chip) (chip_addr chip) reg v SDI_I2C_FLAG_NONE"

section \<open>The callbacks\<close>

definition sdi_ina219_current_amp_get :: "'w chip \<Rightarrow> (c_float, ina219_device \<times> 'w) query" where
  "sdi_ina219_current_amp_get chip current_amp = (\<lambda>(d, w). do {
     (rc, current_reg_val, w) \<leftarrow> ina219_read chip INA219_CURRENT_REG_OFFSET w;
     Some (rc, if rc \<noteq> STD_ERR_OK then current_amp else ina219_current d current_reg_val, d, w)
   })"

definition sdi_ina219_voltage_volt_get :: "'w chip \<Rightarrow> (c_float, ina219_device \<times> 'w) query" where
  "sdi_ina219_voltage_volt_get chip voltage_volt = (\<lambda>(d, w). do {
     (rc, voltage_reg_val, w) \<leftarrow> ina219_read chip INA219_BUS_VOLTAGE_REG_OFFSET w;
     Some (rc, if rc \<noteq> STD_ERR_OK then voltage_volt else ina219_voltage voltage_reg_val, d, w)
   })"

definition sdi_ina219_power_watt_get :: "'w chip \<Rightarrow> (c_float, ina219_device \<times> 'w) query" where
  "sdi_ina219_power_watt_get chip power_watt = (\<lambda>(d, w). do {
     (rc, current_amp, d, w) \<leftarrow> sdi_ina219_current_amp_get chip NaN (d, w);
     if rc \<noteq> STD_ERR_OK then Some (rc, power_watt, d, w)
     else do {
       (rc, voltage_volt, d, w) \<leftarrow> sdi_ina219_voltage_volt_get chip NaN (d, w);
       if rc \<noteq> STD_ERR_OK then Some (rc, power_watt, d, w)
       else Some (rc, fp_mul 24 current_amp voltage_volt, d, w)
     }
   })"

definition ina219_power_monitor :: "'w chip \<Rightarrow> (ina219_device \<times> 'w) power_monitor" where
  "ina219_power_monitor chip = \<lparr>
     pm_init = None,
     pm_current_amp_get = sdi_ina219_current_amp_get chip,
     pm_voltage_volt_get = sdi_ina219_voltage_volt_get chip,
     pm_power_watt_get = sdi_ina219_power_watt_get chip\<rparr>"

section \<open>Registration\<close>

text \<open>strtof of the C library is a parameter, and so is the code of a general failure.\<close>

definition ina219_data_new :: "(string \<Rightarrow> c_float) \<Rightarrow> config_node \<Rightarrow> ina219_device" where
  "ina219_data_new strtof node = \<lparr>
     psu_offset_loss = (case std_config_attr_get node ''psu_offset_loss'' of
         Some a \<Rightarrow> strtof a | None \<Rightarrow> float_of_int INA219_DEFAULT_PSU_OFFSET_LOSS),
     config_reg_val = (case std_config_attr_get node ''config_reg_val'' of
         Some a \<Rightarrow> ucast (strtol a 0) | None \<Rightarrow> INA219_DEFAULT_CONFIG_REG_VAL),
     calib_reg_val = (case std_config_attr_get node ''calib_reg_val'' of
         Some a \<Rightarrow> ucast (strtol a 0) | None \<Rightarrow> INA219_DEFAULT_CALIB_REG_VAL)\<rparr>"

definition sdi_ina219_register ::
    "std_lib \<Rightarrow> (string \<Rightarrow> c_float) \<Rightarrow> config_node \<Rightarrow> 'w sdi_i2c_bus \<Rightarrow> (ina219_device \<times> 'w) sdi_sys
      \<Rightarrow> (t_std_error \<times> 'w chip \<times> (ina219_device \<times> 'w) sdi_sys) option" where
  "sdi_ina219_register L strtof node bus_handle s = do {
     STD_ASSERT (bus_type (bus bus_handle) = SDI_I2C_BUS);
     inst_attr \<leftarrow> std_config_attr_get node ''instance'';
     let inst = (ucast (strtoul inst_attr 0) :: u32);
     addr \<leftarrow> std_config_attr_get node ''addr'';
     let chip = \<lparr>chip_bus = bus_handle,
       chip_addr = \<lparr>i2c_addr = ucast (strtoul addr 16), addr_mode_16bit = False\<rparr>,
       chip_instance = inst,
       chip_alias = (case std_config_attr_get node ''alias'' of
           None \<Rightarrow> snprintf SDI_MAX_NAME_LEN (''ina219-'' @ signed_decimal (sint inst))
         | Some a \<Rightarrow> safestrncpy L SDI_MAX_NAME_LEN a)\<rparr>;
     let s = s\<lparr>dev := (ina219_data_new strtof node, snd (dev s))\<rparr>;
     Some (STD_ERR_OK, chip, sdi_resource_add L SDI_RESOURCE_POWER_MONITOR (chip_alias chip)
       (Power_Monitor_Fns (ina219_power_monitor chip)) s)
   }"

text \<open>The configuration register is swapped before it is compared, the values written are not.\<close>

definition sdi_ina219_chip_init :: "t_std_error \<Rightarrow> 'w chip \<Rightarrow> (ina219_device \<times> 'w) action" where
  "sdi_ina219_chip_init e_std_err_code_FAIL chip = (\<lambda>(d, w). do {
     (rc, reg_value, w) \<leftarrow> ina219_read chip INA219_CONFIG_REG_OFFSET w;
     if rc \<noteq> STD_ERR_OK then Some (rc, d, w)
     else if ntohs reg_value \<noteq> INA219_DEFAULT_CONFIG_REG_VAL then Some (e_std_err_code_FAIL, d, w)
     else do {
       (rc, w) \<leftarrow> ina219_write chip INA219_CONFIG_REG_OFFSET (config_reg_val d) w;
       if rc \<noteq> STD_ERR_OK then Some (rc, d, w)
       else do {
         (rc, w) \<leftarrow> ina219_write chip INA219_CALIBRATION_REG_OFFSET (calib_reg_val d) w;
         Some (rc, d, w)
       }
     }
   })"

end
