(* ===== verification/Led_Drivers.thy ===== *)
theory Led_Drivers
  imports Device
begin

text \<open>
  The LED and display drivers: src/drivers/sdi\_mono\_color\_pin\_led.c (an LED on a pin or on a pin
  group), sdi\_seven\_segment\_pin\_led.c (a hexadecimal digit on a pin group whose power is another
  pin) and sdi\_segment\_display.c (a character on a pin group, through a map of patterns).
\<close>

section \<open>Values on a pin group\<close>

text \<open>One value written to a pin group, or read from it, under the lock of the group.\<close>

definition sdi_segment_display_set_value ::
    "'w os \<Rightarrow> (u32, 'w) pin_bus \<Rightarrow> u32 \<Rightarrow> 'w action" where
  "sdi_segment_display_set_value os bus_hdl v w = do {
     (rc, w) \<leftarrow> sdi_pin_group_acquire_bus os bus_hdl w;
     if rc \<noteq> STD_ERR_OK then Some (rc, w)
     else do {
       (rc, w) \<leftarrow> sdi_pin_group_write_level bus_hdl v w;
       w \<leftarrow> sdi_pin_group_release_bus os bus_hdl w;
       Some (rc, w)
     }
   }"

definition sdi_segment_display_get_value ::
    "'w os \<Rightarrow> (u32, 'w) pin_bus \<Rightarrow> (u32, 'w) query" where
  "sdi_segment_display_get_value os bus_hdl v w = do {
     (rc, w) \<leftarrow> sdi_pin_group_acquire_bus os bus_hdl w;
     if rc \<noteq> STD_ERR_OK then Some (rc, v, w)
     else do {
       (rc, v, w) \<leftarrow> sdi_pin_group_read_level bus_hdl v w;
       w \<leftarrow> sdi_pin_group_release_bus os bus_hdl w;
       Some (rc, v, w)
     }
   }"

section \<open>Mono colour LEDs\<close>

definition SDI_LED_OFF_NOT_SUPPORTED :: u32 where "SDI_LED_OFF_NOT_SUPPORTED = - 1"

record mono_color_pin_group_led =
  on_value :: u32
  off_value :: u32

definition sdi_mono_color_pin_led_sensor_on :: "'w os \<Rightarrow> (sdi_pin_bus_level, 'w) pin_bus \<Rightarrow> 'w action" where
  "sdi_mono_color_pin_led_sensor_on os b = sdi_pin_write_level os b SDI_PIN_LEVEL_HIGH"

definition sdi_mono_color_pin_led_sensor_off :: "'w os \<Rightarrow> (sdi_pin_bus_level, 'w) pin_bus \<Rightarrow> 'w action" where
  "sdi_mono_color_pin_led_sensor_off os b = sdi_pin_write_level os b SDI_PIN_LEVEL_LOW"

definition sdi_mono_color_pin_led_sensor :: "'w os \<Rightarrow> (sdi_pin_bus_level, 'w) pin_bus \<Rightarrow> 'w led_sensor" where
  "sdi_mono_color_pin_led_sensor os b = \<lparr>
     led_on = sdi_mono_color_pin_led_sensor_on os b,
     led_off = sdi_mono_color_pin_led_sensor_off os b\<rparr>"

definition sdi_mono_color_pin_group_led_sensor_on ::
    "'w os \<Rightarrow> (u32, 'w) pin_bus \<Rightarrow> mono_color_pin_group_led \<Rightarrow> 'w action" where
  "sdi_mono_color_pin_group_led_sensor_on os bus_hdl led w = do {
     (rc, w) \<leftarrow> sdi_pin_group_acquire_bus os bus_hdl w;
     if rc \<noteq> STD_ERR_OK then Some (rc, w)
     else do {
       (rc, w) \<leftarrow> sdi_pin_group_write_level bus_hdl (on_value led) w;
       w \<leftarrow> sdi_pin_group_release_bus os bus_hdl w;
       Some (rc, w)
     }
   }"

definition sdi_mono_color_pin_group_led_sensor_off ::
    "'w os \<Rightarrow> (u32, 'w) pin_bus \<Rightarrow> mono_color_pin_group_led \<Rightarrow> 'w action" where
  "sdi_mono_color_pin_group_led_sensor_off os bus_hdl led w =
     (if off_value led = SDI_LED_OFF_NOT_SUPPORTED then Some (SDI_DEVICE_ERRCODE EOPNOTSUPP, w)
      else do {
        (rc, w) \<leftarrow> sdi_pin_group_acquire_bus os bus_hdl w;
        if rc \<noteq> STD_ERR_OK then Some (rc, w)
        else do {
          (rc, w) \<leftarrow> sdi_pin_group_write_level bus_hdl (off_value led) w;
          w \<leftarrow> sdi_pin_group_release_bus os bus_hdl w;
          Some (rc, w)
        }
      })"

definition sdi_mono_color_pin_group_led_sensor ::
    "'w os \<Rightarrow> (u32, 'w) pin_bus \<Rightarrow> mono_color_pin_group_led \<Rightarrow> 'w led_sensor" where
  "sdi_mono_color_pin_group_led_sensor os b led = \<lparr>
     led_on = sdi_mono_color_pin_group_led_sensor_on os b led,
     led_off = sdi_mono_color_pin_group_led_sensor_off os b led\<rparr>"

text \<open>The handle of the parent bus, which is cast according to its type.\<close>

datatype 'w led_bus = Led_Pin "(sdi_pin_bus_level, 'w) pin_bus" | Led_Group "(u32, 'w) pin_bus"

primrec led_bus_base :: "'w led_bus \<Rightarrow> sdi_bus" where
  "led_bus_base (Led_Pin b) = pin_base b"
| "led_bus_base (Led_Group b) = pin_base b"

text \<open>The instance and the name of a device from its node.\<close>

definition led_instance :: "config_node \<Rightarrow> u32 option" where
  "led_instance node = do { a \<leftarrow> std_config_attr_get node ''instance''; Some (ucast (strtoul a 0)) }"

definition led_alias :: "std_lib \<Rightarrow> string \<Rightarrow> config_node \<Rightarrow> u32 \<Rightarrow> string" where
  "led_alias L prefix node inst =
     (case std_config_attr_get node ''alias'' of
        None \<Rightarrow> snprintf SDI_MAX_NAME_LEN (prefix @ decimal (unat inst))
      | Some a \<Rightarrow> safestrncpy L SDI_MAX_NAME_LEN a)"

definition mono_color_values :: "config_node \<Rightarrow> mono_color_pin_group_led option" where
  "mono_color_values node = do {
     on_attr \<leftarrow> std_config_attr_get node ''led_on_value'';
     Some \<lparr>on_value = ucast (strtoul on_attr 0),
       off_value = (case std_config_attr_get node ''led_off_value'' of
           Some a \<Rightarrow> ucast (strtoul a 0) | None \<Rightarrow> SDI_LED_OFF_NOT_SUPPORTED)\<rparr>
   }"

definition sdi_mono_color_pin_led_register ::
    "'w os \<Rightarrow> std_lib \<Rightarrow> config_node \<Rightarrow> 'w led_bus \<Rightarrow> 'w sdi_sys \<Rightarrow> (t_std_error \<times> 'w sdi_sys) option" where
  "sdi_mono_color_pin_led_register os L node bus_handle s = do {
     STD_ASSERT (bus_type (led_bus_base bus_handle) = SDI_PIN_BUS \<or>
       bus_type (led_bus_base bus_handle) = SDI_PIN_GROUP_BUS);
     inst \<leftarrow> led_instance node;
     let alias = led_alias L ''mono-color-led-'' node inst;
     fns \<leftarrow> (if bus_type (led_bus_base bus_handle) = SDI_PIN_GROUP_BUS then do {
         led \<leftarrow> mono_color_values node;
         case bus_handle of
           Led_Group b \<Rightarrow> Some (sdi_mono_color_pin_group_led_sensor os b led)
         | Led_Pin _ \<Rightarrow> None
       }
       else (case bus_handle of
           Led_Pin b \<Rightarrow> Some (sdi_mono_color_pin_led_sensor os b)
         | Led_Group _ \<Rightarrow> None));
     Some (STD_ERR_OK, sdi_resource_add L SDI_RESOURCE_LED alias (Led_Fns fns) s)
   }"

section \<open>Seven segment LEDs\<close>

definition SDI_LED_NUM_OF_DIGIT_SUPPORTED :: nat where "SDI_LED_NUM_OF_DIGIT_SUPPORTED = 1"

text \<open>The conversion \<open>%X\<close> of printf.\<close>

definition hex_digit :: "nat \<Rightarrow> char" where
  "hex_digit n = char_of (if n < 10 then 48 + n else 55 + n)"

fun hexadecimal :: "nat \<Rightarrow> string" where
  "hexadecimal n = (if n < 16 then [hex_digit n] else hexadecimal (n div 16) @ [hex_digit (n mod 16)])"

declare hexadecimal.simps [simp del]

text \<open>The first character of a string, which is its terminator for the empty string.\<close>

definition is_display_string_valid :: "string \<Rightarrow> bool" where
  "is_display_string_valid display_string =
     (let c = (case display_string of [] \<Rightarrow> 0 | c # _ \<Rightarrow> of_char c) :: nat
      in (48 \<le> c \<and> c \<le> 57) \<or> (65 \<le> c \<and> c \<le> 70) \<or> (97 \<le> c \<and> c \<le> 102))"

text \<open>The string is written whatever the read returned; a buffer of no bytes is not written.\<close>

definition sdi_seven_segment_led_get ::
    "'w os \<Rightarrow> (u32, 'w) pin_bus \<Rightarrow> nat \<Rightarrow> (string, 'w) query" where
  "sdi_seven_segment_led_get os bus_hdl buf_size display_string w = do {
     (rc, w) \<leftarrow> sdi_pin_group_acquire_bus os bus_hdl w;
     if rc \<noteq> STD_ERR_OK then Some (rc, display_string, w)
     else do {
       (rc, read_value, w) \<leftarrow> sdi_pin_group_read_level bus_hdl 0 w;
       let n = min buf_size (SDI_LED_NUM_OF_DIGIT_SUPPORTED + 1);
       w \<leftarrow> sdi_pin_group_release_bus os bus_hdl w;
       Some (rc, if n = 0 then display_string else snprintf n (hexadecimal (unat read_value)), w)
     }
   }"

definition sdi_seven_segment_led_set ::
    "'w os \<Rightarrow> (u32, 'w) pin_bus \<Rightarrow> string \<Rightarrow> 'w action" where
  "sdi_seven_segment_led_set os bus_hdl display_string w =
     (if length display_string \<noteq> SDI_LED_NUM_OF_DIGIT_SUPPORTED then Some (SDI_DEVICE_ERRCODE EOPNOTSUPP, w)
      else if \<not> is_display_string_valid display_string then Some (SDI_DEVICE_ERRCODE EINVAL, w)
      else do {
        let led_set_value = ucast (strtoul display_string 16);
        (rc, w) \<leftarrow> sdi_pin_group_acquire_bus os bus_hdl w;
        if rc \<noteq> STD_ERR_OK then Some (rc, w)
        else do {
          (rc, w) \<leftarrow> sdi_pin_group_write_level bus_hdl led_set_value w;
          w \<leftarrow> sdi_pin_group_release_bus os bus_hdl w;
          Some (rc, w)
        }
      })"

text \<open>The power pin: a NULL handle, which is what a wrong name in the configuration leaves, aborts.\<close>

definition sdi_seven_segment_led_get_state ::
    "'w os \<Rightarrow> (sdi_pin_bus_level, 'w) pin_bus option \<Rightarrow> (bool, 'w) query" where
  "sdi_seven_segment_led_get_state os ctrl state w = do {
     led_ctrl_hdl \<leftarrow> ctrl;
     (rc, pin_state, w) \<leftarrow> sdi_pin_read_level os led_ctrl_hdl SDI_PIN_LEVEL_LOW w;
     Some (rc, if rc = STD_ERR_OK then pin_state = SDI_PIN_LEVEL_HIGH else state, w)
   }"

definition sdi_seven_segment_led_on ::
    "'w os \<Rightarrow> (sdi_pin_bus_level, 'w) pin_bus option \<Rightarrow> 'w action" where
  "sdi_seven_segment_led_on os ctrl w = do {
     led_ctrl_hdl \<leftarrow> ctrl;
     sdi_pin_write_level os led_ctrl_hdl SDI_PIN_LEVEL_HIGH w
   }"

definition sdi_seven_segment_led_off ::
    "'w os \<Rightarrow> (sdi_pin_bus_level, 'w) pin_bus option \<Rightarrow> 'w action" where
  "sdi_seven_segment_led_off os ctrl w = do {
     led_ctrl_hdl \<leftarrow> ctrl;
     sdi_pin_write_level os led_ctrl_hdl SDI_PIN_LEVEL_LOW w
   }"

definition sdi_seven_segment_led ::
    "'w os \<Rightarrow> (u32, 'w) pin_bus \<Rightarrow> (sdi_pin_bus_level, 'w) pin_bus option \<Rightarrow> 'w digital_display_led" where
  "sdi_seven_segment_led os bus_hdl ctrl = \<lparr>
     digital_on = sdi_seven_segment_led_on os ctrl,
     digital_off = sdi_seven_segment_led_off os ctrl,
     digital_get_state = sdi_seven_segment_led_get_state os ctrl,
     digital_get = sdi_seven_segment_led_get os bus_hdl,
     digital_set = sdi_seven_segment_led_set os bus_hdl\<rparr>"

definition sdi_seven_segment_led_register ::
    "'w sdi_env \<Rightarrow> config_node \<Rightarrow> (u32, 'w) pin_bus \<Rightarrow> 'w sdi_sys \<Rightarrow> (t_std_error \<times> 'w sdi_sys) option" where
  "sdi_seven_segment_led_register E node bus_handle s = do {
     STD_ASSERT (bus_type (pin_base bus_handle) = SDI_PIN_GROUP_BUS);
     inst \<leftarrow> led_instance node;
     let alias = led_alias (env_lib E) ''seven_segment_led_'' node inst;
     ctrl_attr \<leftarrow> std_config_attr_get node ''led_control_bus'';
     let ctrl = sdi_get_pin_bus_handle_by_name E ctrl_attr;
     Some (STD_ERR_OK, sdi_resource_add (env_lib E) SDI_RESOURCE_DIGIT_DISPLAY_LED alias
       (Digital_Led_Fns (sdi_seven_segment_led (env_os E) bus_handle ctrl)) s)
   }"

section \<open>Segment displays\<close>

definition SDI_SEGMENT_DISPLAY_MAP_SIZE :: nat where "SDI_SEGMENT_DISPLAY_MAP_SIZE = 256"
definition SDI_SEGMENT_DISPLAY_OFF_PATTERN_DEFAULT :: u32 where "SDI_SEGMENT_DISPLAY_OFF_PATTERN_DEFAULT = 0xFF"

text \<open>
  The private data comes from malloc: the pattern written last is undefined (None) until the first
  character has been set.
\<close>

record segment_display_data =
  off_pattern :: u32
  last_written :: "u32 option"
  char_map :: "u32 list"

text \<open>The character whose pattern is shown: the first one of the map, or a question mark.\<close>

definition parsed_character :: "segment_display_data \<Rightarrow> u32 \<Rightarrow> nat" where
  "parsed_character d read_value =
     (case List.find (\<lambda>i. char_map d ! i = read_value) [0..<SDI_SEGMENT_DISPLAY_MAP_SIZE] of
        Some i \<Rightarrow> i | None \<Rightarrow> of_char (CHR ''?''))"

text \<open>The conversion \<open>%c\<close>; the character 0 ends the string.\<close>

definition character_string :: "nat \<Rightarrow> string" where
  "character_string n = (if n = 0 then [] else [char_of n])"

definition sdi_segment_display_get ::
    "'w os \<Rightarrow> (u32, 'w) pin_bus \<Rightarrow> nat \<Rightarrow> (string, segment_display_data \<times> 'w) query" where
  "sdi_segment_display_get os bus_hdl buf_size display_string = (\<lambda>(d, w). do {
     (rc, read_value, w) \<leftarrow> sdi_segment_display_get_value os bus_hdl 0 w;
     if rc \<noteq> STD_ERR_OK then Some (rc, display_string, d, w)
     else do {
       let n = min buf_size (SDI_LED_NUM_OF_DIGIT_SUPPORTED + 1);
       Some (rc, if n = 0 then display_string
         else snprintf n (character_string (parsed_character d read_value)), d, w)
     }
   })"

text \<open>char is signed: a character above 127 is a huge index, and the access is undefined.\<close>

definition char_index :: "char \<Rightarrow> u32" where
  "char_index c = scast (of_char c :: u8)"

definition sdi_segment_display_set ::
    "'w os \<Rightarrow> (u32, 'w) pin_bus \<Rightarrow> string \<Rightarrow> (segment_display_data \<times> 'w) action" where
  "sdi_segment_display_set os bus_hdl display_string = (\<lambda>(d, w).
     if length display_string \<noteq> SDI_LED_NUM_OF_DIGIT_SUPPORTED then Some (SDI_DEVICE_ERRCODE EOPNOTSUPP, d, w)
     else do {
       led_set_value \<leftarrow> at_index (char_map d) (char_index (hd display_string));
       (rc, w) \<leftarrow> sdi_segment_display_set_value os bus_hdl led_set_value w;
       Some (rc, if rc = STD_ERR_OK then d\<lparr>last_written := Some led_set_value\<rparr> else d, w)
     })"

definition sdi_segment_display_get_state ::
    "'w os \<Rightarrow> (u32, 'w) pin_bus \<Rightarrow> (bool, segment_display_data \<times> 'w) query" where
  "sdi_segment_display_get_state os bus_hdl state = (\<lambda>(d, w). do {
     (rc, read_value, w) \<leftarrow> sdi_segment_display_get_value os bus_hdl 0 w;
     Some (rc, if rc = STD_ERR_OK then read_value \<noteq> off_pattern d else state, d, w)
   })"

definition sdi_segment_display_on ::
    "'w os \<Rightarrow> (u32, 'w) pin_bus \<Rightarrow> (segment_display_data \<times> 'w) action" where
  "sdi_segment_display_on os bus_hdl = (\<lambda>(d, w). do {
     v \<leftarrow> last_written d;
     (rc, w) \<leftarrow> sdi_segment_display_set_value os bus_hdl v w;
     Some (rc, d, w)
   })"

definition sdi_segment_display_off ::
    "'w os \<Rightarrow> (u32, 'w) pin_bus \<Rightarrow> (segment_display_data \<times> 'w) action" where
  "sdi_segment_display_off os bus_hdl = (\<lambda>(d, w). do {
     (rc, w) \<leftarrow> sdi_segment_display_set_value os bus_hdl (off_pattern d) w;
     Some (rc, d, w)
   })"

definition segment_display_led ::
    "'w os \<Rightarrow> (u32, 'w) pin_bus \<Rightarrow> (segment_display_data \<times> 'w) digital_display_led" where
  "segment_display_led os bus_hdl = \<lparr>
     digital_on = sdi_segment_display_on os bus_hdl,
     digital_off = sdi_segment_display_off os bus_hdl,
     digital_get_state = sdi_segment_display_get_state os bus_hdl,
     digital_get = sdi_segment_display_get os bus_hdl,
     digital_set = sdi_segment_display_set os bus_hdl\<rparr>"

text \<open>The map starts with the off pattern everywhere; an input that is not a character is discarded.\<close>

primrec segment_display_map :: "config_node list \<Rightarrow> u32 list \<Rightarrow> u32 list option" where
  "segment_display_map [] m = Some m"
| "segment_display_map (map_node # ns) m =
     (if std_config_name_get map_node \<noteq> ''display_map'' then segment_display_map ns m
      else do {
        input_attr \<leftarrow> std_config_attr_get map_node ''input'';
        let input_character = (ucast (strtoul input_attr 0) :: u32);
        output_attr \<leftarrow> std_config_attr_get map_node ''output'';
        let output_pattern = (ucast (strtoul output_attr 0) :: u32);
        segment_display_map ns
          (if unat input_character < SDI_SEGMENT_DISPLAY_MAP_SIZE
           then m[unat input_character := output_pattern] else m)
      })"

definition sdi_segment_display_register ::
    "'w os \<Rightarrow> std_lib \<Rightarrow> config_node \<Rightarrow> (u32, 'w) pin_bus \<Rightarrow> (segment_display_data \<times> 'w) sdi_sys
      \<Rightarrow> (t_std_error \<times> (segment_display_data \<times> 'w) sdi_sys) option" where
  "sdi_segment_display_register os L node bus_handle s = do {
     STD_ASSERT (bus_type (pin_base bus_handle) = SDI_PIN_GROUP_BUS);
     inst \<leftarrow> led_instance node;
     let alias = led_alias L ''seven_segment_led_'' node inst;
     let off = (case std_config_attr_get node ''off_pattern'' of
         None \<Rightarrow> SDI_SEGMENT_DISPLAY_OFF_PATTERN_DEFAULT | Some a \<Rightarrow> ucast (strtoul a 0));
     m \<leftarrow> segment_display_map (std_config_children node) (replicate SDI_SEGMENT_DISPLAY_MAP_SIZE off);
     let s = s\<lparr>dev := (\<lparr>off_pattern = off, last_written = None, char_map = m\<rparr>, snd (dev s))\<rparr>;
     Some (STD_ERR_OK, sdi_resource_add L SDI_RESOURCE_DIGIT_DISPLAY_LED alias
       (Digital_Led_Fns (segment_display_led os bus_handle)) s)
   }"

end
