(* ===== verification/Led_Display.thy ===== *)
theory Led_Display
  imports Led_Drivers Entity Cpld_Pin_Group
begin

text \<open>
  What the segment display is for: behind a pin group that keeps what is written to it, such as a CPLD
  group within one register, the driver is a display with a remembered character.
\<close>

section \<open>Pin groups that keep their value\<close>

definition group_keeps ::
    "'w os \<Rightarrow> (u32, 'w) pin_bus \<Rightarrow> ('w \<Rightarrow> u32) \<Rightarrow> (u32 \<Rightarrow> bool) \<Rightarrow> bool" where
  "group_keeps os b get fits \<longleftrightarrow>
     bus_type (pin_base b) = SDI_PIN_GROUP_BUS \<and>
     (\<forall>w. \<exists>w'. std_mutex_lock os (pin_lock b) w = Some (STD_ERR_OK, w') \<and> get w' = get w) \<and>
     (\<forall>w. \<exists>e w'. std_mutex_unlock os (pin_lock b) w = Some (e, w') \<and> get w' = get w) \<and>
     (\<forall>v w. \<exists>w'. ops_read_level (pin_ops b) v w = Some (STD_ERR_OK, get w, w') \<and> get w' = get w) \<and>
     (\<forall>v w. fits v \<longrightarrow> (\<exists>w'. ops_write_level (pin_ops b) v w = Some (STD_ERR_OK, w') \<and> get w' = v))"

lemma group_keepsD:
  assumes "group_keeps os b get fits"
  shows "bus_type (pin_base b) = SDI_PIN_GROUP_BUS"
    and "\<exists>w'. std_mutex_lock os (pin_lock b) w = Some (STD_ERR_OK, w') \<and> get w' = get w"
    and "\<exists>e w'. std_mutex_unlock os (pin_lock b) w = Some (e, w') \<and> get w' = get w"
    and "\<exists>w'. ops_read_level (pin_ops b) v w = Some (STD_ERR_OK, get w, w') \<and> get w' = get w"
    and "fits v \<Longrightarrow> \<exists>w'. ops_write_level (pin_ops b) v w = Some (STD_ERR_OK, w') \<and> get w' = v"
  using assms unfolding group_keeps_def by blast+

lemma display_set_value:
  assumes G: "group_keeps os b get fits" and v: "fits v"
  shows "\<exists>w'. sdi_segment_display_set_value os b v w = Some (STD_ERR_OK, w') \<and> get w' = v"
proof -
  obtain w1 where w1: "std_mutex_lock os (pin_lock b) w = Some (STD_ERR_OK, w1)"
    using group_keepsD(2) [OF G] by blast
  obtain w2 where w2: "ops_write_level (pin_ops b) v w1 = Some (STD_ERR_OK, w2)" "get w2 = v"
    using group_keepsD(5) [OF G v] by blast
  obtain e w3 where w3: "std_mutex_unlock os (pin_lock b) w2 = Some (e, w3)" "get w3 = get w2"
    using group_keepsD(3) [OF G] by blast
  show ?thesis
    using w1 w2 w3 group_keepsD(1) [OF G]
    by (simp add: sdi_segment_display_set_value_def sdi_pin_group_acquire_bus_def
        sdi_pin_group_write_level_def sdi_pin_group_release_bus_def)
qed

lemma display_get_value:
  assumes G: "group_keeps os b get fits"
  shows "\<exists>w'. sdi_segment_display_get_value os b v w = Some (STD_ERR_OK, get w, w') \<and> get w' = get w"
proof -
  obtain w1 where w1: "std_mutex_lock os (pin_lock b) w = Some (STD_ERR_OK, w1)" "get w1 = get w"
    using group_keepsD(2) [OF G] by blast
  obtain w2 where w2: "ops_read_level (pin_ops b) v w1 = Some (STD_ERR_OK, get w1, w2)" "get w2 = get w1"
    using group_keepsD(4) [OF G] by blast
  obtain e w3 where w3: "std_mutex_unlock os (pin_lock b) w2 = Some (e, w3)" "get w3 = get w2"
    using group_keepsD(3) [OF G] by blast
  show ?thesis
    using w1 w2 w3 group_keepsD(1) [OF G]
    by (simp add: sdi_segment_display_get_value_def sdi_pin_group_acquire_bus_def
        sdi_pin_group_read_level_def sdi_pin_group_release_bus_def)
qed

section \<open>A display\<close>

text \<open>A display: the pattern it shows, and the one that turning it on shows again.\<close>

record display =
  shown :: u32
  remembered :: u32

datatype display_call = Show char | Turn_On | Turn_Off | Ask_Character nat | Ask_State

primrec display_step :: "segment_display_data \<Rightarrow> display_call \<Rightarrow> display \<Rightarrow> display" where
  "display_step d (Show c) s = (let p = char_map d ! unat (char_index c) in s\<lparr>shown := p, remembered := p\<rparr>)"
| "display_step d Turn_On s = s\<lparr>shown := remembered s\<rparr>"
| "display_step d Turn_Off s = s\<lparr>shown := off_pattern d\<rparr>"
| "display_step d (Ask_Character n) s = s"
| "display_step d Ask_State s = s"

primrec segment_display_call ::
    "'w os \<Rightarrow> (u32, 'w) pin_bus \<Rightarrow> display_call \<Rightarrow> (segment_display_data \<times> 'w) action" where
  "segment_display_call os b (Show c) s = sdi_segment_display_set os b [c] s"
| "segment_display_call os b Turn_On s = sdi_segment_display_on os b s"
| "segment_display_call os b Turn_Off s = sdi_segment_display_off os b s"
| "segment_display_call os b (Ask_Character n) s = do {
     (rc, _, s) \<leftarrow> sdi_segment_display_get os b n [] s;
     Some (rc, s)
   }"
| "segment_display_call os b Ask_State s = do {
     (rc, _, s) \<leftarrow> sdi_segment_display_get_state os b False s;
     Some (rc, s)
   }"

primrec segment_display_calls ::
    "'w os \<Rightarrow> (u32, 'w) pin_bus \<Rightarrow> display_call list \<Rightarrow> segment_display_data \<times> 'w
      \<Rightarrow> (t_std_error list \<times> segment_display_data \<times> 'w) option" where
  "segment_display_calls os b [] s = Some ([], s)"
| "segment_display_calls os b (c # cs) s = do {
     (rc, s) \<leftarrow> segment_display_call os b c s;
     (rcs, s) \<leftarrow> segment_display_calls os b cs s;
     Some (rc # rcs, s)
   }"

text \<open>The map of a display has 256 patterns that the group can show, and so has the off pattern.\<close>

definition display_fits :: "(u32 \<Rightarrow> bool) \<Rightarrow> segment_display_data \<Rightarrow> bool" where
  "display_fits fits d \<longleftrightarrow> length (char_map d) = SDI_SEGMENT_DISPLAY_MAP_SIZE \<and> fits (off_pattern d) \<and>
     (\<forall>p \<in> set (char_map d). fits p) \<and> (\<exists>p. last_written d = Some p \<and> fits p)"

definition display_of :: "('w \<Rightarrow> u32) \<Rightarrow> segment_display_data \<times> 'w \<Rightarrow> display" where
  "display_of get s = \<lparr>shown = get (snd s), remembered = the (last_written (fst s))\<rparr>"

primrec ascii_call :: "display_call \<Rightarrow> bool" where
  "ascii_call (Show c) = (of_char c < (128 :: nat))"
| "ascii_call Turn_On = True"
| "ascii_call Turn_Off = True"
| "ascii_call (Ask_Character n) = True"
| "ascii_call Ask_State = True"

lemma char_index_ascii:
  assumes "of_char c < (128 :: nat)"
  shows "unat (char_index c) = of_char c"
proof -
  obtain n where n: "of_char c = n" "n < (128 :: nat)" using assms by simp
  have "(of_char c :: u8) = of_nat n" using n(1) by (metis of_nat_of_char)
  moreover have "sint (of_nat n :: u8) = int n"
    using n(2) by (simp add: signed_of_nat signed_take_bit_int_eq_self)
  then have "(scast (of_nat n :: u8) :: u32) = of_nat n" by (simp add: scast_eq)
  ultimately show ?thesis using n by (simp add: char_index_def unat_of_nat del: of_nat_of_char)
qed

text \<open>One call of the driver is one step of the display, and keeps what the driver needs.\<close>

lemma display_call_step:
  assumes G: "group_keeps os b get fits" and d: "display_fits fits d" and c: "ascii_call c"
  shows "\<exists>d' w'. segment_display_call os b c (d, w) = Some (STD_ERR_OK, d', w') \<and> display_fits fits d' \<and>
    off_pattern d' = off_pattern d \<and> char_map d' = char_map d \<and>
    display_of get (d', w') = display_step d c (display_of get (d, w))"
proof (cases c)
  case (Show x)
  let ?p = "char_map d ! unat (char_index x)"
  have i: "unat (char_index x) < length (char_map d)"
    using c d Show char_index_ascii [of x] by (simp add: display_fits_def SDI_SEGMENT_DISPLAY_MAP_SIZE_def)
  then have p: "fits ?p" "at_index (char_map d) (char_index x) = Some ?p"
    using d by (simp_all add: display_fits_def)
  obtain w' where "sdi_segment_display_set_value os b ?p w = Some (STD_ERR_OK, w')" "get w' = ?p"
    using display_set_value [OF G p(1)] by blast
  then show ?thesis
    using Show p d by (simp add: sdi_segment_display_set_def SDI_LED_NUM_OF_DIGIT_SUPPORTED_def
        display_fits_def display_of_def Let_def del: at_index_eq_Some)
next
  case Turn_On
  obtain p where p: "last_written d = Some p" "fits p" using d by (auto simp: display_fits_def)
  obtain w' where "sdi_segment_display_set_value os b p w = Some (STD_ERR_OK, w')" "get w' = p"
    using display_set_value [OF G p(2)] by blast
  then show ?thesis
    using Turn_On p(1) d by (simp add: sdi_segment_display_on_def display_of_def)
next
  case Turn_Off
  have "fits (off_pattern d)" using d by (simp add: display_fits_def)
  then obtain w' where "sdi_segment_display_set_value os b (off_pattern d) w = Some (STD_ERR_OK, w')"
      "get w' = off_pattern d"
    using display_set_value [OF G] by blast
  then show ?thesis
    using Turn_Off d by (simp add: sdi_segment_display_off_def display_of_def)
next
  case (Ask_Character n)
  obtain w' where "sdi_segment_display_get_value os b 0 w = Some (STD_ERR_OK, get w, w')" "get w' = get w"
    using display_get_value [OF G] by blast
  then show ?thesis
    using Ask_Character d by (simp add: sdi_segment_display_get_def display_of_def Let_def)
next
  case Ask_State
  obtain w' where "sdi_segment_display_get_value os b 0 w = Some (STD_ERR_OK, get w, w')" "get w' = get w"
    using display_get_value [OF G] by blast
  then show ?thesis
    using Ask_State d by (simp add: sdi_segment_display_get_state_def display_of_def)
qed

lemma display_step_cong:
  "off_pattern d' = off_pattern d \<Longrightarrow> char_map d' = char_map d \<Longrightarrow> display_step d' c = display_step d c"
  by (rule ext) (cases c; simp)

lemma display_calls_fold:
  assumes G: "group_keeps os b get fits" and d: "display_fits fits d" and cs: "list_all ascii_call cs"
  shows "\<exists>d' w'. segment_display_calls os b cs (d, w) = Some (replicate (length cs) STD_ERR_OK, d', w') \<and>
    off_pattern d' = off_pattern d \<and> char_map d' = char_map d \<and>
    display_of get (d', w') = fold (display_step d) cs (display_of get (d, w))"
  using d cs
proof (induction cs arbitrary: d w)
  case Nil
  then show ?case by simp
next
  case (Cons c cs)
  obtain d1 w1 where one: "segment_display_call os b c (d, w) = Some (STD_ERR_OK, d1, w1)" "display_fits fits d1"
      "off_pattern d1 = off_pattern d" "char_map d1 = char_map d"
      "display_of get (d1, w1) = display_step d c (display_of get (d, w))"
    using display_call_step [OF G Cons.prems(1), of c w] Cons.prems(2) by auto
  have "list_all ascii_call cs" using Cons.prems(2) by simp
  from Cons.IH [OF one(2) this, of w1] obtain d2 w2 where
    "segment_display_calls os b cs (d1, w1) = Some (replicate (length cs) STD_ERR_OK, d2, w2)"
    "off_pattern d2 = off_pattern d1" "char_map d2 = char_map d1"
    "display_of get (d2, w2) = fold (display_step d1) cs (display_of get (d1, w1))"
    by blast
  moreover have "display_step d1 = display_step d"
    using display_step_cong [OF one(3,4)] by (rule ext)
  ultimately show ?case using one(1,3-5) by simp
qed

text \<open>
  C15. The segment display refines a display with a remembered character. Behind a pin group that
  keeps the patterns of the map, once a character has been set, every sequence of calls with ASCII
  characters succeeds call by call and leaves the pattern shown and the one remembered that the
  display has after the same calls: a character is shown and remembered, off shows the off pattern,
  on shows the remembered one again, and asking changes nothing. The state is then reported as on
  exactly when the pattern shown is not the off pattern.
\<close>

theorem segment_display_refines:
  assumes "group_keeps os b get fits" and "display_fits fits d" and "list_all ascii_call cs"
  shows "\<exists>d' w' w''. segment_display_calls os b cs (d, w) = Some (replicate (length cs) STD_ERR_OK, d', w') \<and>
    display_of get (d', w') = fold (display_step d) cs (display_of get (d, w)) \<and>
    sdi_segment_display_get_state os b False (d', w') = Some (STD_ERR_OK,
      shown (fold (display_step d) cs (display_of get (d, w))) \<noteq> off_pattern d, d', w'')"
proof -
  obtain d' w' where calls: "segment_display_calls os b cs (d, w) =
      Some (replicate (length cs) STD_ERR_OK, d', w')" "off_pattern d' = off_pattern d"
      "display_of get (d', w') = fold (display_step d) cs (display_of get (d, w))"
    using display_calls_fold [OF assms] by blast
  obtain w'' where "sdi_segment_display_get_value os b 0 w' = Some (STD_ERR_OK, get w', w'')"
    using display_get_value [OF assms(1)] by blast
  moreover have "get w' = shown (fold (display_step d) cs (display_of get (d, w)))"
    unfolding calls(3) [symmetric] by (simp add: display_of_def)
  ultimately show ?thesis
    using calls by (auto simp: sdi_segment_display_get_state_def)
qed

section \<open>CPLD groups within one register\<close>

definition cpld_group_value :: "'w cpld_pin_group \<Rightarrow> ('w \<Rightarrow> u32 \<Rightarrow> u8) \<Rightarrow> 'w \<Rightarrow> u32" where
  "cpld_group_value g reg w = field_get (inverted g) (unat (grp_start_offset g)) (unat (grp_end_offset g))
     (reg w (grp_start_addr g))"

lemma cpld_group_keeps:
  assumes M: "byte_memory A io (cpld_bus (grp_cpld g)) (cpld_addr (grp_cpld g)) reg"
    and at: "grp_start_addr g \<in> A"
    and g: "one_register g" "cpld_width (grp_cpld g) = SDI_CPLD_DEFAULT_REGISTER_WIDTH"
    and b: "bus_type (pin_base b) = SDI_PIN_GROUP_BUS" "pin_ops b = sdi_cpld_pin_group_ops io g"
    and locks: "\<And>w. \<exists>w'. std_mutex_lock os (pin_lock b) w = Some (STD_ERR_OK, w') \<and> reg w' = reg w"
      "\<And>w. \<exists>e w'. std_mutex_unlock os (pin_lock b) w = Some (e, w') \<and> reg w' = reg w"
  shows "group_keeps os b (cpld_group_value g reg)
    (\<lambda>v. unat v < 2 ^ field_width (unat (grp_start_offset g)) (unat (grp_end_offset g)))"
  unfolding group_keeps_def
proof (intro conjI allI impI)
  let ?get = "cpld_group_value g reg"
  have cong: "same_registers A (reg w) (reg w') \<Longrightarrow> ?get w' = ?get w" for w w'
    using at by (simp add: cpld_group_value_def same_registers_def)
  have same: "reg w' = reg w \<Longrightarrow> ?get w' = ?get w" for w w' by (simp add: cpld_group_value_def)
  show "bus_type (pin_base b) = SDI_PIN_GROUP_BUS" by (rule b(1))
  show "\<exists>w'. std_mutex_lock os (pin_lock b) w = Some (STD_ERR_OK, w') \<and> ?get w' = ?get w" for w
    using locks(1) same by blast
  show "\<exists>e w'. std_mutex_unlock os (pin_lock b) w = Some (e, w') \<and> ?get w' = ?get w" for w
    using locks(2) same by blast
  show "\<exists>w'. ops_read_level (pin_ops b) v w = Some (STD_ERR_OK, ?get w, w') \<and> ?get w' = ?get w" for v w
  proof -
    have one: "unat (grp_length g) = 1" using g(1) by (simp add: one_register_def)
    obtain w' where w': "sdi_bus_read_byte io (cpld_bus (grp_cpld g)) (cpld_addr (grp_cpld g)) (grp_start_addr g) 0 w =
        Some (STD_ERR_OK, reg w (grp_start_addr g), w')" "same_registers A (reg w) (reg w')"
      using byte_memory_readE [OF M at] by blast
    then have "sdi_cpld_pin_group_read_level io g v w = Some (STD_ERR_OK, ?get w, w')"
      using g(2) read_step_one_register [OF g(1)]
      by (simp add: sdi_cpld_pin_group_read_level_def one cpld_group_value_def)
    then show ?thesis using cong [OF w'(2)] b(2) by (simp add: sdi_cpld_pin_group_ops_def)
  qed
  fix v :: u32 and w
  assume "unat v < 2 ^ field_width (unat (grp_start_offset g)) (unat (grp_end_offset g))"
  then have "unat (grp_start_offset g) \<le> unat (grp_end_offset g) \<and> unat (grp_end_offset g) < 8 \<and>
      unat v < 2 ^ field_width (unat (grp_start_offset g)) (unat (grp_end_offset g))"
    using g(1) by (simp add: one_register_def word_le_nat_alt word_less_nat_alt)
  from cpld_group_field.rmw_get [OF M at this, of "inverted g" w]
  obtain w1 where "rmw_byte io (cpld_bus (grp_cpld g)) (cpld_addr (grp_cpld g)) (grp_start_addr g)
        (field_put (inverted g) (unat (grp_start_offset g)) (unat (grp_end_offset g)) v) w = Some (STD_ERR_OK, w1)"
      "?get w1 = v"
    unfolding cpld_group_value_def by blast
  then show "\<exists>w'. ops_write_level (pin_ops b) v w = Some (STD_ERR_OK, w') \<and> ?get w' = v"
    using write_level_one_register [OF g] b(2)
    by (simp add: sdi_cpld_pin_group_ops_def)
qed

section \<open>Sample\<close>

text \<open>A display on the eight bits of register 0x20, with patterns for the characters 1 and 7.\<close>

definition sample_display_bus :: "(u32, u16 \<Rightarrow> u8) pin_bus" where
  "sample_display_bus = \<lparr>
     pin_base = \<lparr>bus_type = SDI_PIN_GROUP_BUS, bus_id = 0, bus_name = ''display'', sdi_device_list = []\<rparr>,
     pin_lock = Mutex 0, pin_ops = sdi_cpld_pin_group_ops memory_ports (sample_group 0x20 0 0x20 7 1)\<rparr>"

definition sample_display :: segment_display_data where
  "sample_display = \<lparr>off_pattern = 0xFF, last_written = Some 0xFF,
     char_map = (replicate 256 0xFF)[49 := 0xF9, 55 := 0xF8]\<rparr>"

lemma sample_display_keeps:
  "group_keeps quiet_os sample_display_bus (cpld_group_value (sample_group 0x20 0 0x20 7 1) (\<lambda>w a. w (ucast a))) (\<lambda>v. unat v < 256)"
proof -
  let ?g = "sample_group 0x20 0 0x20 7 1"
  have one: "one_register ?g" by (simp add: one_register_def sample_group_def)
  have "field_width (unat (grp_start_offset ?g)) (unat (grp_end_offset ?g)) = 8"
    by (simp add: sample_group_def field_width_def)
  then have fits: "(\<lambda>v :: u32. unat v < 2 ^ field_width (unat (grp_start_offset ?g)) (unat (grp_end_offset ?g))) =
      (\<lambda>v. unat v < 256)"
    by simp
  show ?thesis
    unfolding fits [symmetric]
  proof (rule cpld_group_keeps [where io = memory_ports, OF sample_group_memory(1) sample_group_addr one sample_group_memory(2)])
    show "bus_type (pin_base sample_display_bus) = SDI_PIN_GROUP_BUS"
      "pin_ops sample_display_bus = sdi_cpld_pin_group_ops memory_ports ?g"
      by (simp_all add: sample_display_bus_def)
  qed (simp_all add: quiet_os_def)
qed

lemma sample_display_fits: "display_fits (\<lambda>v. unat v < 256) sample_display"
proof -
  have "set (char_map sample_display) \<subseteq> {0xFF, 0xF9, 0xF8}"
    unfolding sample_display_def segment_display_data.select_convs
    by (intro order_trans [OF set_update_subset_insert] insert_subsetI) auto
  then show ?thesis by (auto simp: display_fits_def sample_display_def SDI_SEGMENT_DISPLAY_MAP_SIZE_def)
qed

text \<open>A 7 is shown, turned off and on again: the 7 is back, and the display is on.\<close>

theorem segment_display_refines_witness:
  "\<exists>d' w' w''. segment_display_calls quiet_os sample_display_bus [Show (CHR ''7''), Turn_Off, Ask_State, Turn_On]
      (sample_display, \<lambda>_. 0) = Some (replicate 4 STD_ERR_OK, d', w') \<and>
    display_of (cpld_group_value (sample_group 0x20 0 0x20 7 1) (\<lambda>w a. w (ucast a))) (d', w') =
      \<lparr>shown = 0xF8, remembered = 0xF8\<rparr> \<and>
    sdi_segment_display_get_state quiet_os sample_display_bus False (d', w') = Some (STD_ERR_OK, True, d', w'')"
proof -
  let ?cs = "[Show (CHR ''7''), Turn_Off, Ask_State, Turn_On]"
  have index: "unat (char_index (CHR ''7'')) = 55" by (subst char_index_ascii) simp_all
  have map7: "char_map sample_display ! 55 = 0xF8" "off_pattern sample_display = 0xFF"
    by (simp_all add: sample_display_def)
  have fold: "fold (display_step sample_display) ?cs s = \<lparr>shown = 0xF8, remembered = 0xF8\<rparr>" for s :: display
    by (cases s) (simp add: index map7)
  have len: "length ?cs = 4" and on: "(shown \<lparr>shown = 0xF8, remembered = 0xF8\<rparr> \<noteq> off_pattern sample_display) = True"
    by (simp_all add: map7)
  have "list_all ascii_call ?cs" by simp
  from segment_display_refines [OF sample_display_keeps sample_display_fits this, of "\<lambda>_. 0"]
  show ?thesis unfolding fold len on .
qed

end
