(* ===== verification/Media_Phy.thy ===== *)
theory Media_Phy
  imports Media_Base
begin

text \<open>
  The PHYs inside copper modules: src/drivers/sdi\_media\_phy\_mgmt.c (registers of a Marvell PHY),
  sdi\_qsfp\_4X1\_1000baseT.c (four such PHYs behind a multiplexer in the module),
  sdi\_media\_ext\_mod\_ctrl.c (a mailbox for the registers of an Aquantia PHY) and sdi\_sfp\_plus\_aq.c
  (what the mailbox is used for). All of them get the device handle of the module; they use its bus.
\<close>

section \<open>The Marvell PHY\<close>

definition sfp_phy_i2c_addr :: sdi_i2c_addr where
  "sfp_phy_i2c_addr = \<lparr>i2c_addr = 0x56, addr_mode_16bit = False\<rparr>"

definition SFP_COPPER_CTRL_AE :: u16 where "SFP_COPPER_CTRL_AE = 0x1000"
definition SFP_COPPER_CTRL_PD :: u16 where "SFP_COPPER_CTRL_PD = 0x800"
definition SFP_COPPER_CTRL_RESET :: u16 where "SFP_COPPER_CTRL_RESET = 0x8000"
definition SFP_COPPER_EXT_STAT_LA :: u16 where "SFP_COPPER_EXT_STAT_LA = 0x400"
definition SFP_COPPER_PHY_CTRL_MAC_INT_PD :: u16 where "SFP_COPPER_PHY_CTRL_MAC_INT_PD = 8"
definition PHY_SGMII_MODE :: u16 where "PHY_SGMII_MODE = 0x9084"
definition EXT_ADD_SERDES_TX_RX_CONTROL :: u16 where "EXT_ADD_SERDES_TX_RX_CONTROL = 0x001F"
definition EXT_PHY_CTRL_SERDES_TX_RX_ENABLE :: u16 where "EXT_PHY_CTRL_SERDES_TX_RX_ENABLE = 0"
definition EXT_PHY_CTRL_SERDES_TX_RX_DISABLE :: u16 where "EXT_PHY_CTRL_SERDES_TX_RX_DISABLE = 0x2001"
definition PHY_CTRL_DELAY :: nat where "PHY_CTRL_DELAY = 100000"

definition sdi_sfp_phy_write :: "'w chip \<Rightarrow> u32 \<Rightarrow> u16 \<Rightarrow> 'w action" where
  "sdi_sfp_phy_write c reg_offset reg_data =
     sdi_smbus_write_word (chip_bus c) sfp_phy_i2c_addr reg_offset
       (drop_bit 8 reg_data OR push_bit 8 reg_data) SDI_I2C_FLAG_NONE"

definition sdi_sfp_phy_read :: "'w chip \<Rightarrow> u32 \<Rightarrow> (u16, 'w) query" where
  "sdi_sfp_phy_read c reg_offset reg_data w = do {
     (rc, word_buf, w) \<leftarrow> sdi_smbus_read_word (chip_bus c) sfp_phy_i2c_addr reg_offset 0 SDI_I2C_FLAG_NONE w;
     if rc \<noteq> STD_ERR_OK then Some (rc, reg_data, w)
     else Some (rc, sdi_platform_util_convert_be_to_uint16 (ucast word_buf) (ucast (drop_bit 8 word_buf)), w)
   }"

text \<open>The reset ignores a failure of its read.\<close>

definition sdi_media_phy_sw_reset :: "'w chip \<Rightarrow> 'w action" where
  "sdi_media_phy_sw_reset c w = do {
     (_, regData, w) \<leftarrow> sdi_sfp_phy_read c SFP_COPPER_CTRL_REG 0 w;
     sdi_sfp_phy_write c SFP_COPPER_CTRL_REG (regData OR SFP_COPPER_CTRL_RESET) w
   }"

definition sdi_cusfp_phy_autoneg_set :: "'w chip \<Rightarrow> bool \<Rightarrow> 'w action" where
  "sdi_cusfp_phy_autoneg_set c enable w = do {
     (rc, regData, w) \<leftarrow> sdi_sfp_phy_read c SFP_COPPER_CTRL_REG 0 w;
     if rc \<noteq> STD_ERR_OK then Some (rc, w)
     else do {
       let regData = (if enable then regData OR SFP_COPPER_CTRL_AE else regData AND NOT SFP_COPPER_CTRL_AE);
       (rc, w) \<leftarrow> sdi_sfp_phy_write c SFP_COPPER_CTRL_REG regData w;
       if rc \<noteq> STD_ERR_OK then Some (rc, w)
       else if regData AND SFP_COPPER_CTRL_PD = 0 then sdi_media_phy_sw_reset c w
       else Some (rc, w)
     }
   }"

text \<open>The test for power down looks at the value of the extended status register.\<close>

definition sdi_cusfp_phy_mode_set :: "'w chip \<Rightarrow> sdi_media_mode \<Rightarrow> 'w action" where
  "sdi_cusfp_phy_mode_set c mode w = do {
     (rc, regData, w) \<leftarrow> sdi_sfp_phy_read c SFP_COPPER_EXT_STATUS_2_REG 0 w;
     if rc \<noteq> STD_ERR_OK then Some (rc, w)
     else do {
       let regData = (if mode = SDI_MEDIA_MODE_SGMII then PHY_SGMII_MODE else regData);
       (rc, w) \<leftarrow> sdi_sfp_phy_write c SFP_COPPER_EXT_STATUS_2_REG regData w;
       if rc \<noteq> STD_ERR_OK then Some (rc, w)
       else if regData AND SFP_COPPER_CTRL_PD = 0 then sdi_media_phy_sw_reset c w
       else Some (rc, w)
     }
   }"

text \<open>The abilities that are advertised at a speed: 10 and 100 Mb/s, and 1 Gb/s.\<close>

definition phy_abil :: "sdi_media_speed \<Rightarrow> u16" where
  "phy_abil speed =
     (if speed = SDI_MEDIA_SPEED_100M then 0x140 else if speed = SDI_MEDIA_SPEED_10M then 0x40 else 0)"

definition phy_abilGB :: "sdi_media_speed \<Rightarrow> u16" where
  "phy_abilGB speed = (if speed = SDI_MEDIA_SPEED_1G then 0x200 else 0)"

definition sdi_cusfp_phy_speed_set :: "'w chip \<Rightarrow> sdi_media_speed \<Rightarrow> 'w action" where
  "sdi_cusfp_phy_speed_set c speed w = do {
     (rc, regData, w) \<leftarrow> sdi_sfp_phy_read c SFP_COPPER_ANA_REG 0 w;
     if rc \<noteq> STD_ERR_OK then Some (rc, w)
     else do {
       (rc, w) \<leftarrow> sdi_sfp_phy_write c SFP_COPPER_ANA_REG (regData AND NOT 0x1E0 OR phy_abil speed) w;
       if rc \<noteq> STD_ERR_OK then Some (rc, w)
       else do {
         (rc, regData, w) \<leftarrow> sdi_sfp_phy_read c SFP_COPPER_GB_CTRL_REG regData w;
         if rc \<noteq> STD_ERR_OK then Some (rc, w)
         else sdi_sfp_phy_write c SFP_COPPER_GB_CTRL_REG (regData AND NOT 0x300 OR phy_abilGB speed) w
       }
     }
   }"

definition sdi_cusfp_phy_link_status_get :: "'w chip \<Rightarrow> (bool, 'w) query" where
  "sdi_cusfp_phy_link_status_get c status w = do {
     (rc, reg_data, w) \<leftarrow> sdi_sfp_phy_read c SFP_COPPER_EXT_STATUS_1_REG 0 w;
     if rc \<noteq> STD_ERR_OK then Some (rc, status, w)
     else Some (rc, reg_data AND SFP_COPPER_EXT_STAT_LA \<noteq> 0, w)
   }"

text \<open>The value written at the end is the one read at the beginning, before a reset.\<close>

definition sdi_cusfp_phy_power_down_enable :: "'w chip \<Rightarrow> bool \<Rightarrow> 'w action" where
  "sdi_cusfp_phy_power_down_enable c enable w = do {
     (rc, reg_data, w) \<leftarrow> sdi_sfp_phy_read c SFP_COPPER_CTRL_REG 0 w;
     if rc \<noteq> STD_ERR_OK then Some (rc, w)
     else do {
       (rc, st_reg_data, w) \<leftarrow> sdi_sfp_phy_read c SFP_COPPER_PHY_CTRL_REG 0 w;
       if rc \<noteq> STD_ERR_OK then Some (rc, w)
       else do {
         (rc, w) \<leftarrow> (if st_reg_data AND SFP_COPPER_PHY_CTRL_MAC_INT_PD \<noteq> 0 then do {
             (rc, w) \<leftarrow> sdi_sfp_phy_write c SFP_COPPER_PHY_CTRL_REG
                (st_reg_data AND NOT SFP_COPPER_PHY_CTRL_MAC_INT_PD) w;
             if rc \<noteq> STD_ERR_OK then Some (rc, w)
             else do { (_, w) \<leftarrow> sdi_media_phy_sw_reset c w; Some (rc, w) }
           } else Some (rc, w));
         if rc \<noteq> STD_ERR_OK then Some (rc, w)
         else if enable = (reg_data AND SFP_COPPER_CTRL_PD \<noteq> 0) then Some (rc, w)
         else sdi_sfp_phy_write c SFP_COPPER_CTRL_REG
           (if enable then reg_data OR SFP_COPPER_CTRL_PD else reg_data AND NOT SFP_COPPER_CTRL_PD) w
       }
     }
   }"

definition sdi_cusfp_phy_serdes_control :: "'w os \<Rightarrow> 'w chip \<Rightarrow> bool \<Rightarrow> 'w action" where
  "sdi_cusfp_phy_serdes_control os c enable w = do {
     (rc, w) \<leftarrow> sdi_sfp_phy_write c SFP_COPPER_EXT_ADDRESS_REG EXT_ADD_SERDES_TX_RX_CONTROL w;
     if rc \<noteq> STD_ERR_OK then Some (rc, w)
     else sdi_sfp_phy_write c SFP_COPPER_EXT_PHY_CTRL_REG
       (if enable then EXT_PHY_CTRL_SERDES_TX_RX_ENABLE else EXT_PHY_CTRL_SERDES_TX_RX_DISABLE)
       (std_usleep os PHY_CTRL_DELAY w)
   }"

section \<open>Four PHYs in one module\<close>

definition channel_sel_mux_val :: "u32 list" where "channel_sel_mux_val = [1, 2, 4, 8]"

definition sdi_qsfp_4X1_1000baseT_channel_select :: "'w chip \<Rightarrow> u32 \<Rightarrow> 'w action" where
  "sdi_qsfp_4X1_1000baseT_channel_select c channel w =
     (if 4 \<le> channel then Some (SDI_DEVICE_ERR_PARAM, w)
      else do {
        v \<leftarrow> at_index channel_sel_mux_val channel;
        media_write c \<lparr>i2c_addr = 0x74, addr_mode_16bit = False\<rparr> 0 (ucast v) w
      })"

definition on_4X1_channel :: "'w chip \<Rightarrow> u32 \<Rightarrow> 'w action \<Rightarrow> 'w action" where
  "on_4X1_channel c channel f w = do {
     (rc, w) \<leftarrow> sdi_qsfp_4X1_1000baseT_channel_select c channel w;
     if rc \<noteq> STD_ERR_OK then Some (rc, w) else f w
   }"

definition sdi_qsfp_4X1_1000baseT_mode_set :: "'w chip \<Rightarrow> u32 \<Rightarrow> sdi_media_mode \<Rightarrow> 'w action" where
  "sdi_qsfp_4X1_1000baseT_mode_set c channel mode = on_4X1_channel c channel (sdi_cusfp_phy_mode_set c mode)"

definition sdi_qsfp_4X1_1000baseT_speed_set :: "'w chip \<Rightarrow> u32 \<Rightarrow> sdi_media_speed \<Rightarrow> 'w action" where
  "sdi_qsfp_4X1_1000baseT_speed_set c channel speed = on_4X1_channel c channel (sdi_cusfp_phy_speed_set c speed)"

definition sdi_qsfp_4X1_1000baseT_autoneg_set :: "'w chip \<Rightarrow> u32 \<Rightarrow> bool \<Rightarrow> 'w action" where
  "sdi_qsfp_4X1_1000baseT_autoneg_set c channel enable =
     on_4X1_channel c channel (sdi_cusfp_phy_autoneg_set c enable)"

section \<open>The mailbox\<close>

datatype ext_mem_oper = MEM_READ | MEM_WRITE

primrec oper_byte :: "ext_mem_oper \<Rightarrow> u8" where
  "oper_byte MEM_READ = 1"
| "oper_byte MEM_WRITE = 2"

record ext_dev_ctrl_oper_packet =
  mem_addr :: u8
  reg_offset :: u16
  data_buf_big_endian :: u16
  oper :: ext_mem_oper

definition STATUS_POLL_MAX_TIMEOUT_MS :: nat where "STATUS_POLL_MAX_TIMEOUT_MS = 100"
definition STATUS_POLL_INTERVAL_MS :: nat where "STATUS_POLL_INTERVAL_MS = 10"

text \<open>
  The address of a raw transfer: the one of the device when it is AUTO; a smaller one is an error.
\<close>

definition raw_addr :: "'w chip \<Rightarrow> int \<Rightarrow> sdi_i2c_addr option" where
  "raw_addr c device_addr =
     (if device_addr = SDI_MEDIA_DEVICE_ADDR_AUTO then Some (chip_addr c)
      else if device_addr < SDI_MEDIA_DEVICE_ADDR_AUTO then None
      else Some ((chip_addr c)\<lparr>i2c_addr := word_of_int device_addr\<rparr>))"

definition sdi_sfp_read_generic_raw ::
    "'w chip \<Rightarrow> sdi_media_eeprom_addr \<Rightarrow> u32 \<Rightarrow> (u8 list, 'w) query" where
  "sdi_sfp_read_generic_raw c addr data_len data w = do {
     STD_ASSERT (data_len > 0);
     case raw_addr c (eeprom_device_addr addr) of
       None \<Rightarrow> Some (SDI_DEVICE_ERRCODE EINVAL, data, w)
     | Some a \<Rightarrow> media_read_multi c a (eeprom_offset addr) data data_len w
   }"

definition sdi_sfp_write_generic_raw ::
    "'w chip \<Rightarrow> sdi_media_eeprom_addr \<Rightarrow> u32 \<Rightarrow> (u8 list, 'w) query" where
  "sdi_sfp_write_generic_raw c addr data_len data w = do {
     STD_ASSERT (data_len > 0);
     case raw_addr c (eeprom_device_addr addr) of
       None \<Rightarrow> Some (SDI_DEVICE_ERRCODE EINVAL, data, w)
     | Some a \<Rightarrow> media_write_multi c a (eeprom_offset addr) data data_len w
   }"

definition mailbox_addr :: "u32 \<Rightarrow> sdi_media_eeprom_addr" where
  "mailbox_addr offset = \<lparr>eeprom_device_addr = SDI_MEDIA_DEVICE_ADDR_A2,
     eeprom_page = SDI_MEDIA_PAGE_SELECT_IGNORE, eeprom_offset = offset\<rparr>"

text \<open>
  The poll of the status bits. The counter counts milliseconds, the sleep microseconds. The error
  state of the mailbox is polled on like the idle one.
\<close>

function poll_status ::
    "'w os \<Rightarrow> 'w chip \<Rightarrow> nat \<Rightarrow> u8 \<Rightarrow> 'w \<Rightarrow> (t_std_error \<times> bool \<times> 'w) option" where
  "poll_status os c status_poll_timeout status w =
     (if status_poll_timeout < STATUS_POLL_MAX_TIMEOUT_MS then
        (case sdi_sfp_read_generic_raw c (mailbox_addr 255) 1 [status] w of
           None \<Rightarrow> None
         | Some (rc, buf, w) \<Rightarrow>
             (if rc \<noteq> STD_ERR_OK then Some (rc, False, w)
              else if drop_bit 2 (hd buf AND 0x0C) = 1 then Some (rc, True, w)
              else poll_status os c (status_poll_timeout + STATUS_POLL_INTERVAL_MS) (hd buf)
                (std_usleep os STATUS_POLL_INTERVAL_MS w)))
      else Some (STD_ERR_OK, False, w))"
  by pat_completeness auto
termination
  by (relation "measure (\<lambda>(_, _, t, _). STATUS_POLL_MAX_TIMEOUT_MS - t)")
    (auto simp: STATUS_POLL_MAX_TIMEOUT_MS_def STATUS_POLL_INTERVAL_MS_def)

declare poll_status.simps [simp del]

definition perform_oper ::
    "'w os \<Rightarrow> 'w chip \<Rightarrow> u8 \<Rightarrow> u16 \<Rightarrow> ext_mem_oper \<Rightarrow> (u16, 'w) query" where
  "perform_oper os c a r m data_buf_be w = do {
     let set_buf = [a, ucast (drop_bit 8 r), ucast r]
       @ (if m = MEM_WRITE then [ucast (drop_bit 8 data_buf_be), ucast data_buf_be] else [0, 0])
       @ [3 AND oper_byte m];
     (rc, _, w) \<leftarrow> sdi_sfp_write_generic_raw c (mailbox_addr 250) 6 set_buf w;
     if rc \<noteq> STD_ERR_OK then Some (rc, data_buf_be, w)
     else do {
       (rc, oper_set_success, w) \<leftarrow> poll_status os c 0 0 w;
       if rc \<noteq> STD_ERR_OK \<or> \<not> oper_set_success \<or> m = MEM_WRITE then Some (rc, data_buf_be, w)
       else do {
         (rc, buf_read, w) \<leftarrow> sdi_sfp_read_generic_raw c (mailbox_addr 253) 2 [0, 0] w;
         if rc \<noteq> STD_ERR_OK then Some (rc, data_buf_be, w)
         else Some (rc, push_bit 8 (ucast (buf_read ! 0)) OR ucast (buf_read ! 1), w)
       }
     }
   }"

primrec sdi_media_ext_mod_ctrl_chain_oper ::
    "'w os \<Rightarrow> 'w chip \<Rightarrow> ext_dev_ctrl_oper_packet list \<Rightarrow> 'w
      \<Rightarrow> (t_std_error \<times> ext_dev_ctrl_oper_packet list \<times> 'w) option" where
  "sdi_media_ext_mod_ctrl_chain_oper os c [] w = Some (STD_ERR_OK, [], w)"
| "sdi_media_ext_mod_ctrl_chain_oper os c (p # ps) w = do {
     (rc, data, w) \<leftarrow> perform_oper os c (mem_addr p) (reg_offset p) (oper p) (data_buf_big_endian p) w;
     let p = p\<lparr>data_buf_big_endian := data\<rparr>;
     if rc \<noteq> STD_ERR_OK then Some (rc, p # ps, w)
     else do {
       (rc, ps, w) \<leftarrow> sdi_media_ext_mod_ctrl_chain_oper os c ps w;
       Some (rc, p # ps, w)
     }
   }"

section \<open>The Aquantia PHY\<close>

abbreviation (input) NOT_STD_ERR_OK :: t_std_error where "NOT_STD_ERR_OK \<equiv> STD_ERR_OTHER 4294967295"

definition packet :: "u8 \<Rightarrow> u16 \<Rightarrow> u16 \<Rightarrow> ext_mem_oper \<Rightarrow> ext_dev_ctrl_oper_packet" where
  "packet a r d m = \<lparr>mem_addr = a, reg_offset = r, data_buf_big_endian = d, oper = m\<rparr>"

text \<open>The packets that set a rate differ in three of their values.\<close>

definition aq_rate_set_packets :: "u16 \<Rightarrow> u16 \<Rightarrow> u16 \<Rightarrow> ext_dev_ctrl_oper_packet list" where
  "aq_rate_set_packets a b d =
     [packet 7 0x0000 0x2000 MEM_WRITE, packet 7 0x0010 a MEM_WRITE, packet 7 0xC400 b MEM_WRITE,
      packet 7 0x0020 d MEM_WRITE, packet 7 0x0000 0x3000 MEM_WRITE]"

definition aq_rate_packets :: "sdi_media_speed \<Rightarrow> ext_dev_ctrl_oper_packet list" where
  "aq_rate_packets rate =
     (if rate = SDI_MEDIA_SPEED_100M then aq_rate_set_packets 0x0101 0x0040 0x0001
      else if rate = SDI_MEDIA_SPEED_1G then aq_rate_set_packets 0x8001 0x8040 0x0001
      else if rate = SDI_MEDIA_SPEED_2500M then aq_rate_set_packets 0x9001 0x0040 0x00A1
      else if rate = SDI_MEDIA_SPEED_5G then aq_rate_set_packets 0x9001 0x0040 0x0141
      else aq_rate_set_packets 0x9001 0x0040 0x1001)"

text \<open>One packet: its data before and after.\<close>

definition aq_oper :: "'w os \<Rightarrow> 'w chip \<Rightarrow> ext_dev_ctrl_oper_packet \<Rightarrow> 'w \<Rightarrow> (t_std_error \<times> u16 \<times> 'w) option" where
  "aq_oper os c p w = do {
     (rc, ps, w) \<leftarrow> sdi_media_ext_mod_ctrl_chain_oper os c [p] w;
     Some (rc, data_buf_big_endian (hd ps), w)
   }"

definition aq_speed :: "u16 \<Rightarrow> (t_std_error \<times> sdi_media_speed)" where
  "aq_speed v =
     (if v = 1 then (STD_ERR_OK, SDI_MEDIA_SPEED_100M) else if v = 2 then (STD_ERR_OK, SDI_MEDIA_SPEED_1G)
      else if v = 3 then (STD_ERR_OK, SDI_MEDIA_SPEED_10G) else if v = 4 then (STD_ERR_OK, SDI_MEDIA_SPEED_2500M)
      else if v = 5 then (STD_ERR_OK, SDI_MEDIA_SPEED_5G) else if v = 0 then (STD_ERR_OK, SDI_MEDIA_INVALID_SPEED)
      else (NOT_STD_ERR_OK, SDI_MEDIA_INVALID_SPEED))"

definition sdi_media_aq_get_system_side_status ::
    "'w os \<Rightarrow> 'w chip \<Rightarrow> (bool \<times> bool \<times> sdi_media_speed, 'w) query" where
  "sdi_media_aq_get_system_side_status os c out w = do {
     let (rx, tx, _) = out;
     (rc, data, w) \<leftarrow> aq_oper os c (packet 4 0xE812 0 MEM_READ) w;
     if rc \<noteq> STD_ERR_OK then Some (rc, (rx, tx, SDI_MEDIA_INVALID_SPEED), w)
     else do {
       let (rc, speed) = aq_speed (drop_bit 8 (0x0F00 AND data));
       Some (rc, (data AND 0x2000 \<noteq> 0, data AND 0x1000 \<noteq> 0, speed), w)
     }
   }"

definition sdi_media_aq_set_tx_state :: "'w os \<Rightarrow> 'w chip \<Rightarrow> bool \<Rightarrow> 'w action" where
  "sdi_media_aq_set_tx_state os c state w = do {
     (rc, data, w) \<leftarrow> aq_oper os c (packet 1 0x0009 0 MEM_READ) w;
     if rc \<noteq> STD_ERR_OK then Some (rc, w)
     else do {
       (rc, _, w) \<leftarrow> aq_oper os c
         (packet 1 0x0009 (if state then data AND NOT 1 else data OR 1) MEM_WRITE) w;
       Some (rc, w)
     }
   }"

definition sdi_media_aq_get_tx_state :: "'w os \<Rightarrow> 'w chip \<Rightarrow> (bool, 'w) query" where
  "sdi_media_aq_get_tx_state os c state w = do {
     (rc, data, w) \<leftarrow> aq_oper os c (packet 1 0x0009 0 MEM_READ) w;
     if rc \<noteq> STD_ERR_OK then Some (rc, state, w) else Some (rc, data AND 1 = 0, w)
   }"

text \<open>The packet of the link state is used again for the speed, with the data of the first read.\<close>

definition sdi_media_aq_get_line_side_status ::
    "'w os \<Rightarrow> 'w chip \<Rightarrow> (bool \<times> sdi_media_speed, 'w) query" where
  "sdi_media_aq_get_line_side_status os c out w = do {
     let (link_status, _) = out;
     (rc, data, w) \<leftarrow> aq_oper os c (packet 1 0xE800 0 MEM_READ) w;
     if rc \<noteq> STD_ERR_OK then Some (rc, (link_status, SDI_MEDIA_INVALID_SPEED), w)
     else do {
       let link_status = (data AND 1 \<noteq> 0);
       (rc, data, w) \<leftarrow> aq_oper os c (packet 7 0xC800 data MEM_READ) w;
       if rc \<noteq> STD_ERR_OK then Some (rc, (link_status, SDI_MEDIA_INVALID_SPEED), w)
       else do {
         let (rc, speed) = aq_speed (drop_bit 1 (0xE AND data));
         Some (rc, (link_status, speed), w)
       }
     }
   }"

definition sdi_media_aq_get_link_status :: "'w os \<Rightarrow> 'w chip \<Rightarrow> (bool, 'w) query" where
  "sdi_media_aq_get_link_status os c status w = do {
     (rc, (link_status_ls, speed_ls), w) \<leftarrow>
       sdi_media_aq_get_line_side_status os c (False, SDI_MEDIA_INVALID_SPEED) w;
     if rc \<noteq> STD_ERR_OK then Some (rc, False, w)
     else do {
       (rc, (ss_rx, ss_tx, speed_ss), w) \<leftarrow>
         sdi_media_aq_get_system_side_status os c (False, False, SDI_MEDIA_INVALID_SPEED) w;
       if rc \<noteq> STD_ERR_OK then Some (rc, False, w)
       else Some (rc, speed_ls = speed_ss \<and> ss_tx \<and> ss_rx \<and> link_status_ls, w)
     }
   }"

definition AQ_SPEED_SET_SERDES_ON_DELAY_US :: nat where "AQ_SPEED_SET_SERDES_ON_DELAY_US = 800000"

definition sdi_media_aq_set_rate :: "'w os \<Rightarrow> 'w chip \<Rightarrow> sdi_media_speed \<Rightarrow> 'w action" where
  "sdi_media_aq_set_rate os c rate w = do {
     (rc, (_, curr_speed), w) \<leftarrow> sdi_media_aq_get_line_side_status os c (False, SDI_MEDIA_INVALID_SPEED) w;
     if rc \<noteq> STD_ERR_OK \<or> curr_speed = rate then Some (rc, w)
     else do {
       (rc, serdes_stat, w) \<leftarrow> sdi_media_aq_get_tx_state os c False w;
       if rc \<noteq> STD_ERR_OK then Some (rc, w)
       else do {
         (rc, w) \<leftarrow> sdi_media_aq_set_tx_state os c False w;
         if rc \<noteq> STD_ERR_OK then Some (rc, w)
         else do {
           (rc, _, w) \<leftarrow> sdi_media_ext_mod_ctrl_chain_oper os c (aq_rate_packets rate)
             (std_usleep os AQ_SPEED_SET_SERDES_ON_DELAY_US w);
           if rc \<noteq> STD_ERR_OK then Some (rc, w)
           else do {
             let w = std_usleep os AQ_SPEED_SET_SERDES_ON_DELAY_US w;
             if serdes_stat then sdi_media_aq_set_tx_state os c True w else Some (rc, w)
           }
         }
       }
     }
   }"

section \<open>The calls for an Aquantia module\<close>

definition sdi_cusfp_plus_phy_serdes_control :: "'w os \<Rightarrow> 'w chip \<Rightarrow> bool \<Rightarrow> 'w action" where
  "sdi_cusfp_plus_phy_serdes_control os c enable = sdi_media_aq_set_tx_state os c enable"

definition sdi_cusfp_plus_phy_link_status_get :: "'w os \<Rightarrow> 'w chip \<Rightarrow> (bool, 'w) query" where
  "sdi_cusfp_plus_phy_link_status_get os c status = sdi_media_aq_get_link_status os c status"

definition sdi_cusfp_plus_phy_speed_set :: "'w os \<Rightarrow> 'w chip \<Rightarrow> sdi_media_speed \<Rightarrow> 'w action" where
  "sdi_cusfp_plus_phy_speed_set os c speed = sdi_media_aq_set_rate os c speed"

definition sdi_cusfp_plus_phy_speed_get :: "'w os \<Rightarrow> 'w chip \<Rightarrow> (sdi_media_speed, 'w) query" where
  "sdi_cusfp_plus_phy_speed_get os c speed w = do {
     (rc, (_, speed), w) \<leftarrow> sdi_media_aq_get_line_side_status os c (False, speed) w;
     Some (rc, speed, w)
   }"

end
