(* ===== verification/Sfp_Eeprom.thy ===== *)
theory Sfp_Eeprom
  imports Media_Phy
begin

text \<open>
  The EEPROM of SFP modules, src/drivers/sdi\_sfp\_eeprom.c. The private data of the device does not
  change after its registration, so the functions take it as an argument; the world is that of the
  bus and of the pin groups. \<open>L\<close> are the bit macros, \<open>M\<close> the mathematical functions.
\<close>

section \<open>Data\<close>

record 'w sfp_device = "'w media_sel" +
  mod_tx_control_hdl :: "(u32, 'w) pin_bus option"
  mod_tx_control_bitmask :: u32
  mod_sfp_rx_los_hdl :: "(u32, 'w) pin_bus option"
  mod_sfp_rx_los_bitmask :: u32
  mod_sfp_tx_fault_hdl :: "(u32, 'w) pin_bus option"
  mod_sfp_tx_fault_bitmask :: u32
  sfp_capability :: sdi_media_speed

definition sfp_i2c_addr :: sdi_i2c_addr where
  "sfp_i2c_addr = \<lparr>i2c_addr = 0x51, addr_mode_16bit = False\<rparr>"

text \<open>Offset and size in bytes; (0, 0) is not supported.\<close>

fun sfp_param_reg_info :: "sdi_media_param_type \<Rightarrow> u32 \<times> nat" where
  "sfp_param_reg_info SDI_MEDIA_WAVELENGTH = (SFP_WAVELENGTH_OFFSET, 2)"
| "sfp_param_reg_info SDI_MEDIA_CC_BASE = (SFP_CC_BASE_OFFSET, 1)"
| "sfp_param_reg_info SDI_MEDIA_CC_EXT = (SFP_CC_EXT_OFFSET, 1)"
| "sfp_param_reg_info SDI_MEDIA_CONNECTOR = (SFP_CONNECTOR_OFFSET, 1)"
| "sfp_param_reg_info SDI_MEDIA_ENCODING_TYPE = (SFP_ENCODING_TYPE_OFFSET, 1)"
| "sfp_param_reg_info SDI_MEDIA_NM_BITRATE = (SFP_NM_BITRATE_OFFSET, 1)"
| "sfp_param_reg_info SDI_MEDIA_IDENTIFIER = (SFP_IDENTIFIER_OFFSET, 1)"
| "sfp_param_reg_info SDI_MEDIA_EXT_IDENTIFIER = (SFP_EXT_IDENTIFIER_OFFSET, 1)"
| "sfp_param_reg_info SDI_MEDIA_LENGTH_SMF_KM = (SFP_LENGTH_SMF_KM_OFFSET, 1)"
| "sfp_param_reg_info SDI_MEDIA_LENGTH_OM1 = (SFP_LENGTH_OM1_OFFSET, 1)"
| "sfp_param_reg_info SDI_MEDIA_LENGTH_OM2 = (SFP_LENGTH_OM2_OFFSET, 1)"
| "sfp_param_reg_info SDI_MEDIA_LENGTH_OM3 = (SFP_LENGTH_OM3_OFFSET, 1)"
| "sfp_param_reg_info SDI_MEDIA_LENGTH_CABLE_ASSEMBLY = (SFP_LENGTH_CABLE_ASSEMBLY_OFFSET, 1)"
| "sfp_param_reg_info SDI_MEDIA_LENGTH_SMF = (SFP_LENGTH_SMF_OFFSET, 1)"
| "sfp_param_reg_info SDI_MEDIA_OPTIONS = (SFP_OPTIONS_OFFSET, 2)"
| "sfp_param_reg_info SDI_MEDIA_ENHANCED_OPTIONS = (SFP_ENHANCED_OPTIONS_OFFSET, 1)"
| "sfp_param_reg_info SDI_MEDIA_DIAG_MON_TYPE = (SFP_DIAG_MON_TYPE_OFFSET, 1)"
| "sfp_param_reg_info SDI_MEDIA_MAX_BITRATE = (SFP_MAX_BITRATE_OFFSET, 1)"
| "sfp_param_reg_info SDI_MEDIA_MIN_BITRATE = (SFP_MIN_BITRATE_OFFSET, 1)"
| "sfp_param_reg_info SDI_MEDIA_EXT_COMPLIANCE_CODE = (SFP_EXT_COMPLIANCE_CODE_OFFSET, 1)"
| "sfp_param_reg_info SDI_TUNE_WAVELENGTH_PICO_METERS = (SFP_WAVELENGTH_SET_OFFSET, 2)"
| "sfp_param_reg_info _ = (0, 0)"

text \<open>Offset, size and whether the field is printable.\<close>

fun sfp_vendor_reg_info :: "sdi_media_vendor_info_type \<Rightarrow> u32 \<times> nat \<times> bool" where
  "sfp_vendor_reg_info SDI_MEDIA_VENDOR_NAME = (SFP_VENDOR_NAME_OFFSET, 17, True)"
| "sfp_vendor_reg_info SDI_MEDIA_VENDOR_OUI = (SFP_VENDOR_OUI_OFFSET, 4, False)"
| "sfp_vendor_reg_info SDI_MEDIA_VENDOR_SN = (SFP_VENDOR_SN_OFFSET, 17, True)"
| "sfp_vendor_reg_info SDI_MEDIA_VENDOR_DATE = (SFP_VENDOR_DATE_OFFSET, 9, True)"
| "sfp_vendor_reg_info SDI_MEDIA_VENDOR_PN = (SFP_VENDOR_PN_OFFSET, 17, True)"
| "sfp_vendor_reg_info SDI_MEDIA_VENDOR_REVISION = (SFP_VENDOR_REVISION_OFFSET, 3, True)"

text \<open>
  The thresholds come in four groups for each of the quantities that are measured; the enumeration
  has the quantities in a different order than the registers.
\<close>

datatype quantity = Temperature | Voltage | Rx_Power | Tx_Bias | Tx_Power

fun threshold_quantity :: "sdi_media_threshold_type \<Rightarrow> quantity" where
  "threshold_quantity SDI_MEDIA_TEMP_HIGH_ALARM_THRESHOLD = Temperature"
| "threshold_quantity SDI_MEDIA_TEMP_LOW_ALARM_THRESHOLD = Temperature"
| "threshold_quantity SDI_MEDIA_TEMP_HIGH_WARNING_THRESHOLD = Temperature"
| "threshold_quantity SDI_MEDIA_TEMP_LOW_WARNING_THRESHOLD = Temperature"
| "threshold_quantity SDI_MEDIA_VOLT_HIGH_ALARM_THRESHOLD = Voltage"
| "threshold_quantity SDI_MEDIA_VOLT_LOW_ALARM_THRESHOLD = Voltage"
| "threshold_quantity SDI_MEDIA_VOLT_HIGH_WARNING_THRESHOLD = Voltage"
| "threshold_quantity SDI_MEDIA_VOLT_LOW_WARNING_THRESHOLD = Voltage"
| "threshold_quantity SDI_MEDIA_RX_PWR_HIGH_ALARM_THRESHOLD = Rx_Power"
| "threshold_quantity SDI_MEDIA_RX_PWR_LOW_ALARM_THRESHOLD = Rx_Power"
| "threshold_quantity SDI_MEDIA_RX_PWR_HIGH_WARNING_THRESHOLD = Rx_Power"
| "threshold_quantity SDI_MEDIA_RX_PWR_LOW_WARNING_THRESHOLD = Rx_Power"
| "threshold_quantity SDI_MEDIA_TX_BIAS_HIGH_ALARM_THRESHOLD = Tx_Bias"
| "threshold_quantity SDI_MEDIA_TX_BIAS_LOW_ALARM_THRESHOLD = Tx_Bias"
| "threshold_quantity SDI_MEDIA_TX_BIAS_HIGH_WARNING_THRESHOLD = Tx_Bias"
| "threshold_quantity SDI_MEDIA_TX_BIAS_LOW_WARNING_THRESHOLD = Tx_Bias"
| "threshold_quantity SDI_MEDIA_TX_PWR_HIGH_ALARM_THRESHOLD = Tx_Power"
| "threshold_quantity SDI_MEDIA_TX_PWR_LOW_ALARM_THRESHOLD = Tx_Power"
| "threshold_quantity SDI_MEDIA_TX_PWR_HIGH_WARNING_THRESHOLD = Tx_Power"
| "threshold_quantity SDI_MEDIA_TX_PWR_LOW_WARNING_THRESHOLD = Tx_Power"

fun sfp_threshold_reg_info :: "sdi_media_threshold_type \<Rightarrow> u32" where
  "sfp_threshold_reg_info SDI_MEDIA_TEMP_HIGH_ALARM_THRESHOLD = SFP_TEMP_HIGH_ALARM_THRESHOLD_OFFSET"
| "sfp_threshold_reg_info SDI_MEDIA_TEMP_LOW_ALARM_THRESHOLD = SFP_TEMP_LOW_ALARM_THRESHOLD_OFFSET"
| "sfp_threshold_reg_info SDI_MEDIA_TEMP_HIGH_WARNING_THRESHOLD = SFP_TEMP_HIGH_WARNING_THRESHOLD_OFFSET"
| "sfp_threshold_reg_info SDI_MEDIA_TEMP_LOW_WARNING_THRESHOLD = SFP_TEMP_LOW_WARNING_THRESHOLD_OFFSET"
| "sfp_threshold_reg_info SDI_MEDIA_VOLT_HIGH_ALARM_THRESHOLD = SFP_VOLT_HIGH_ALARM_THRESHOLD_OFFSET"
| "sfp_threshold_reg_info SDI_MEDIA_VOLT_LOW_ALARM_THRESHOLD = SFP_VOLT_LOW_ALARM_THRESHOLD_OFFSET"
| "sfp_threshold_reg_info SDI_MEDIA_VOLT_HIGH_WARNING_THRESHOLD = SFP_VOLT_HIGH_WARNING_THRESHOLD_OFFSET"
| "sfp_threshold_reg_info SDI_MEDIA_VOLT_LOW_WARNING_THRESHOLD = SFP_VOLT_LOW_WARNING_THRESHOLD_OFFSET"
| "sfp_threshold_reg_info SDI_MEDIA_RX_PWR_HIGH_ALARM_THRESHOLD = SFP_RX_PWR_HIGH_ALARM_THRESHOLD_OFFSET"
| "sfp_threshold_reg_info SDI_MEDIA_RX_PWR_LOW_ALARM_THRESHOLD = SFP_RX_PWR_LOW_ALARM_THRESHOLD_OFFSET"
| "sfp_threshold_reg_info SDI_MEDIA_RX_PWR_HIGH_WARNING_THRESHOLD = SFP_RX_PWR_HIGH_WARNING_THRESHOLD_OFFSET"
| "sfp_threshold_reg_info SDI_MEDIA_RX_PWR_LOW_WARNING_THRESHOLD = SFP_RX_PWR_LOW_WARNING_THRESHOLD_OFFSET"
| "sfp_threshold_reg_info SDI_MEDIA_TX_BIAS_HIGH_ALARM_THRESHOLD = SFP_BIAS_HIGH_ALARM_THRESHOLD_OFFSET"
| "sfp_threshold_reg_info SDI_MEDIA_TX_BIAS_LOW_ALARM_THRESHOLD = SFP_BIAS_LOW_ALARM_THRESHOLD_OFFSET"
| "sfp_threshold_reg_info SDI_MEDIA_TX_BIAS_HIGH_WARNING_THRESHOLD = SFP_BIAS_HIGH_WARNING_THRESHOLD_OFFSET"
| "sfp_threshold_reg_info SDI_MEDIA_TX_BIAS_LOW_WARNING_THRESHOLD = SFP_BIAS_LOW_WARNING_THRESHOLD_OFFSET"
| "sfp_threshold_reg_info SDI_MEDIA_TX_PWR_HIGH_ALARM_THRESHOLD = SFP_TX_PWR_HIGH_ALARM_THRESHOLD_OFFSET"
| "sfp_threshold_reg_info SDI_MEDIA_TX_PWR_LOW_ALARM_THRESHOLD = SFP_TX_PWR_LOW_ALARM_THRESHOLD_OFFSET"
| "sfp_threshold_reg_info SDI_MEDIA_TX_PWR_HIGH_WARNING_THRESHOLD = SFP_TX_PWR_HIGH_WARNING_THRESHOLD_OFFSET"
| "sfp_threshold_reg_info SDI_MEDIA_TX_PWR_LOW_WARNING_THRESHOLD = SFP_TX_PWR_LOW_WARNING_THRESHOLD_OFFSET"

section \<open>Conversions\<close>

datatype sfp_calib_info_type = SFP_CALIB_TYPE_INTERNAL | SFP_CALIB_TYPE_EXTERNAL

record sfp_calib_info =
  calib_type :: sfp_calib_info_type
  calib_offset :: u16
  calib_slope :: "u8 \<times> u8"

text \<open>The first bytes of the five constants, from the fourth power down.\<close>

record sfp_rx_power_calib_info =
  rx_calib_type :: sfp_calib_info_type
  rx_power_const :: "u8 list"

definition sdi_convert_mw_to_dbm :: "math_lib \<Rightarrow> c_float \<Rightarrow> c_float" where
  "sdi_convert_mw_to_dbm M power_mw =
     (if power_mw = Fin 0 then NaN else to_float (fp_mul 53 (double_const 10) (log10f M power_mw)))"

text \<open>The low byte of the slope is divided by 256 as an int.\<close>

definition calib_slope_value :: "sfp_calib_info \<Rightarrow> c_float" where
  "calib_slope_value calib =
     fp_add 24 (float_of_int (uint (snd (calib_slope calib)) div 256)) (float_of_int (uint (fst (calib_slope calib))))"

definition calibrated :: "sfp_calib_info \<Rightarrow> int \<Rightarrow> c_float" where
  "calibrated calib raw =
     fp_add 24 (fp_mul 24 (calib_slope_value calib) (float_of_int raw)) (float_of_int (uint (calib_offset calib)))"

definition int_over :: "int \<Rightarrow> rat \<Rightarrow> c_float" where
  "int_over i q = to_float (fp_div 53 (float_of_int i) (double_const q))"

text \<open>The magnitude of a temperature, as the int16\_t the code computes.\<close>

definition temp_magnitude :: "u16 \<Rightarrow> u16" where
  "temp_magnitude temp = (if temp <s 0 then NOT temp + 1 else temp)"

definition sign_temp :: "u16 \<Rightarrow> c_float \<Rightarrow> c_float" where
  "sign_temp temp v = (if temp <s 0 then fp_neg v else v)"

text \<open>The fraction and the whole degrees are added in double.\<close>

definition internal_temp :: "u16 \<Rightarrow> c_float" where
  "internal_temp m = to_float (fp_add 53 (fp_div 53 (float_of_int (uint (m AND 0xFF))) (double_const 256))
     (Fin (of_int (uint (drop_bit 8 (m AND 0xFF00))))))"

definition convert_sfp_temp :: "u8 \<times> u8 \<Rightarrow> sfp_calib_info \<Rightarrow> c_float" where
  "convert_sfp_temp buf calib =
     (let temp = raw16 buf; m = temp_magnitude temp
      in sign_temp temp (case calib_type calib of
           SFP_CALIB_TYPE_INTERNAL \<Rightarrow> internal_temp m
         | SFP_CALIB_TYPE_EXTERNAL \<Rightarrow> fp_div 24 (calibrated calib (sint m)) (float_of_int 256)))"

definition convert_sfp_volt :: "u8 \<times> u8 \<Rightarrow> sfp_calib_info \<Rightarrow> c_float" where
  "convert_sfp_volt buf calib =
     (case calib_type calib of
        SFP_CALIB_TYPE_INTERNAL \<Rightarrow> int_over (uint (raw16 buf)) 10000
      | SFP_CALIB_TYPE_EXTERNAL \<Rightarrow>
          to_float (fp_div 53 (calibrated calib (uint (raw16 buf))) (double_const 10000)))"

definition convert_sfp_rx_power :: "math_lib \<Rightarrow> u8 \<times> u8 \<Rightarrow> sfp_rx_power_calib_info \<Rightarrow> c_float" where
  "convert_sfp_rx_power M buf calib =
     (let rx = float_of_int (uint (raw16 buf));
          k = (\<lambda>i. float_of_int (uint (rx_power_const calib ! i)));
          term = (\<lambda>i n. fp_mul 24 (k i) (powf M rx (Fin n)))
      in sdi_convert_mw_to_dbm M (case rx_calib_type calib of
           SFP_CALIB_TYPE_INTERNAL \<Rightarrow> int_over (uint (raw16 buf)) 10000
         | SFP_CALIB_TYPE_EXTERNAL \<Rightarrow>
             fp_add 24 (fp_add 24 (fp_add 24 (fp_add 24 (term 0 4) (term 1 3)) (term 2 2)) (fp_mul 24 (k 3) rx)) (k 4)))"

definition convert_sfp_tx_power :: "math_lib \<Rightarrow> u8 \<times> u8 \<Rightarrow> sfp_calib_info \<Rightarrow> c_float" where
  "convert_sfp_tx_power M buf calib =
     sdi_convert_mw_to_dbm M (case calib_type calib of
        SFP_CALIB_TYPE_INTERNAL \<Rightarrow> int_over (uint (raw16 buf)) 10000
      | SFP_CALIB_TYPE_EXTERNAL \<Rightarrow>
          to_float (fp_div 53 (calibrated calib (uint (raw16 buf))) (double_const 10000)))"

definition convert_sfp_tx_bias_current :: "u8 \<times> u8 \<Rightarrow> sfp_calib_info \<Rightarrow> c_float" where
  "convert_sfp_tx_bias_current buf calib =
     (case calib_type calib of
        SFP_CALIB_TYPE_INTERNAL \<Rightarrow> int_over (uint (raw16 buf) * 2) 1000
      | SFP_CALIB_TYPE_EXTERNAL \<Rightarrow>
          to_float (fp_div 53 (fp_mul 24 (calibrated calib (uint (raw16 buf))) (float_of_int 2)) (double_const 1000)))"

end
