(* ===== verification/Sfp_Status.thy ===== *)
theory Sfp_Status
  imports Sfp_Eeprom
begin

text \<open>
  The status and control calls of src/drivers/sdi\_sfp\_eeprom.c: which optional features a module
  has, its alarm and warning flags, and the transmitter. The module is selected around every
  transfer; a \<open>break\<close> out of the \<open>do while(0)\<close> blocks is the end of the function that is given to
  \<open>with_module\<close>.
\<close>

section \<open>Optional features\<close>

definition sdi_is_alarm_flags_supported :: "std_lib \<Rightarrow> 'w chip \<Rightarrow> 'w \<Rightarrow> (t_std_error \<times> bool \<times> 'w) option" where
  "sdi_is_alarm_flags_supported L c =
     media_bit_get L c SFP_ENHANCED_OPTIONS_OFFSET SFP_ALARM_SUPPORT_BIT_OFFSET"

definition sdi_is_diag_monitoring_supported :: "std_lib \<Rightarrow> 'w chip \<Rightarrow> 'w \<Rightarrow> (t_std_error \<times> bool \<times> 'w) option" where
  "sdi_is_diag_monitoring_supported L c =
     media_bit_get L c SFP_DIAG_MON_TYPE_OFFSET SFP_DDM_SUPPORT_BIT_OFFSET"

definition sdi_is_rate_select_supported :: "std_lib \<Rightarrow> 'w chip \<Rightarrow> 'w \<Rightarrow> (t_std_error \<times> bool \<times> 'w) option" where
  "sdi_is_rate_select_supported L c =
     media_bit_get L c SFP_ENHANCED_OPTIONS_OFFSET SFP_RATE_SELECT_BIT_OFFSET"

definition sdi_is_ext_mod_ctrl_supported :: "std_lib \<Rightarrow> 'w chip \<Rightarrow> 'w \<Rightarrow> (t_std_error \<times> bool \<times> 'w) option" where
  "sdi_is_ext_mod_ctrl_supported L c =
     media_bit_get L c SFP_EXT_MOD_CTRL_SUPPORT_OFFSET SFP_EXT_MOD_CTRL_BIT"

definition sdi_is_sfp_plus_aq_ext_mod_ctrl_sup :: "std_lib \<Rightarrow> 'w chip \<Rightarrow> 'w \<Rightarrow> (bool \<times> 'w) option" where
  "sdi_is_sfp_plus_aq_ext_mod_ctrl_sup L c w = do {
     (rc, status, w) \<leftarrow> sdi_is_ext_mod_ctrl_supported L c w;
     Some (status \<and> rc = STD_ERR_OK, w)
   }"

text \<open>This one leaves the status alone when it cannot read.\<close>

definition sdi_is_wavelength_tune_supported :: "'w chip \<Rightarrow> (bool, 'w) query" where
  "sdi_is_wavelength_tune_supported c status w = do {
     (rc, buf, w) \<leftarrow> media_read c (chip_addr c) SFP_OPTIONS2_OFFSET 0 w;
     if rc \<noteq> STD_ERR_OK then Some (rc, status, w)
     else Some (rc, buf AND SDI_SFP_TUNABLE_SUPPORT_BITMASK \<noteq> 0, w)
   }"

definition sdi_sfp_feature_support_status_get ::
    "std_lib \<Rightarrow> 'w os \<Rightarrow> ('w, 'x) sfp_device_scheme \<Rightarrow> (sdi_sfp_supported_feature, 'w) query" where
  "sdi_sfp_feature_support_status_get L os d feature_support =
     with_module os d feature_support (\<lambda>w. do {
       let c = media_chip d;
       let f = feature_support;
       (rc, b, w) \<leftarrow> sdi_is_alarm_flags_supported L c w;
       let f = f\<lparr>alarm_support_status := b\<rparr>;
       if rc \<noteq> STD_ERR_OK then Some (rc, f, w)
       else do {
         (rc, b, w) \<leftarrow> sdi_is_diag_monitoring_supported L c w;
         let f = f\<lparr>diag_mntr_support_status := b\<rparr>;
         if rc \<noteq> STD_ERR_OK then Some (rc, f, w)
         else do {
           (rc, b, w) \<leftarrow> sdi_is_rate_select_supported L c w;
           let f = f\<lparr>rate_select_status := b\<rparr>;
           if rc \<noteq> STD_ERR_OK then Some (rc, f, w)
           else do {
             (rc, b, w) \<leftarrow> sdi_is_wavelength_tune_supported c (wavelength_tune_support_status f) w;
             let f = f\<lparr>wavelength_tune_support_status := b\<rparr>;
             if rc \<noteq> STD_ERR_OK then Some (rc, f, w)
             else do {
               (rc, b, w) \<leftarrow> sdi_is_ext_mod_ctrl_supported L c w;
               Some (rc, f\<lparr>ext_mod_ctrl_support_status := b\<rparr>, w)
             }
           }
         }
       }
     })"

section \<open>Alarms and warnings of the module\<close>

definition sfp_module_status :: "u8 \<Rightarrow> u8 \<Rightarrow> u32" where
  "sfp_module_status alarm_status_buf warning_status_buf =
     (raise_first (warning_status_buf AND SFP_VOLT_HIGH_WARNING_FLAG \<noteq> 0) SDI_MEDIA_STATUS_VOLT_HIGH_WARNING
        (warning_status_buf AND SFP_VOLT_LOW_WARNING_FLAG \<noteq> 0) SDI_MEDIA_STATUS_VOLT_LOW_WARNING
     (raise_first (warning_status_buf AND SFP_TEMP_HIGH_WARNING_FLAG \<noteq> 0) SDI_MEDIA_STATUS_TEMP_HIGH_WARNING
        (warning_status_buf AND SFP_TEMP_LOW_WARNING_FLAG \<noteq> 0) SDI_MEDIA_STATUS_TEMP_LOW_WARNING
     (raise_first (alarm_status_buf AND SFP_VOLT_HIGH_ALARM_FLAG \<noteq> 0) SDI_MEDIA_STATUS_VOLT_HIGH_ALARM
        (alarm_status_buf AND SFP_VOLT_LOW_ALARM_FLAG \<noteq> 0) SDI_MEDIA_STATUS_VOLT_LOW_ALARM
     (raise_first (alarm_status_buf AND SFP_TEMP_HIGH_ALARM_FLAG \<noteq> 0) SDI_MEDIA_STATUS_TEMP_HIGH_ALARM
        (alarm_status_buf AND SFP_TEMP_LOW_ALARM_FLAG \<noteq> 0) SDI_MEDIA_STATUS_TEMP_LOW_ALARM 0))))"

definition sdi_sfp_module_monitor_status_get ::
    "std_lib \<Rightarrow> 'w os \<Rightarrow> ('w, 'x) sfp_device_scheme \<Rightarrow> u32 \<Rightarrow> (u32, 'w) query" where
  "sdi_sfp_module_monitor_status_get L os d flags status w = do {
     let c = media_chip d;
     (rc, (alarm_status_buf, warning_status_buf), w) \<leftarrow> with_module os d (0, 0) (\<lambda>w. do {
       (rc, alarm_support_status, w) \<leftarrow> sdi_is_alarm_flags_supported L c w;
       if rc \<noteq> STD_ERR_OK then Some (rc, (0, 0), w)
       else if \<not> alarm_support_status then Some (SDI_DEVICE_ERRCODE EOPNOTSUPP, (0, 0), w)
       else do {
         (rc, alarm_status_buf, w) \<leftarrow> media_read_if
           (flags AND (SDI_MEDIA_STATUS_TEMP_HIGH_ALARM OR SDI_MEDIA_STATUS_TEMP_LOW_ALARM OR
              SDI_MEDIA_STATUS_VOLT_HIGH_ALARM OR SDI_MEDIA_STATUS_VOLT_LOW_ALARM) \<noteq> 0)
           c sfp_i2c_addr SFP_ALARM_STATUS_1_OFFSET 0 w;
         if rc \<noteq> STD_ERR_OK then Some (rc, (alarm_status_buf, 0), w)
         else do {
           (rc, warning_status_buf, w) \<leftarrow> media_read_if
             (flags AND (SDI_MEDIA_STATUS_TEMP_HIGH_WARNING OR SDI_MEDIA_STATUS_TEMP_LOW_WARNING OR
                SDI_MEDIA_STATUS_VOLT_HIGH_WARNING OR SDI_MEDIA_STATUS_VOLT_LOW_WARNING) \<noteq> 0)
             c sfp_i2c_addr SFP_WARNING_STATUS_1_OFFSET 0 w;
           Some (rc, (alarm_status_buf, warning_status_buf), w)
         }
       }
     }) w;
     Some (rc, if rc = STD_ERR_OK then sfp_module_status alarm_status_buf warning_status_buf else 0, w)
   }"

section \<open>Alarms and warnings of the channel\<close>

definition SDI_SFP_CHANNEL_NUM :: u32 where "SDI_SFP_CHANNEL_NUM = 0"

text \<open>The low flags of the received power are looked up in the bytes of the transmitter.\<close>

definition sfp_channel_status :: "u8 \<Rightarrow> u8 \<Rightarrow> u8 \<Rightarrow> u8 \<Rightarrow> u32" where
  "sfp_channel_status tx_alarm_status rx_alarm_status tx_warn_status rx_warn_status =
     (raise_first (rx_warn_status AND SFP_RX_PWR_HIGH_WARNING_FLAG \<noteq> 0) SDI_MEDIA_RX_PWR_HIGH_WARNING
        (tx_warn_status AND SFP_RX_PWR_LOW_WARNING_FLAG \<noteq> 0) SDI_MEDIA_RX_PWR_LOW_WARNING
     (raise_first (tx_warn_status AND SFP_TX_PWR_HIGH_WARNING_FLAG \<noteq> 0) SDI_MEDIA_TX_PWR_HIGH_WARNING
        (tx_warn_status AND SFP_TX_PWR_LOW_WARNING_FLAG \<noteq> 0) SDI_MEDIA_TX_PWR_LOW_WARNING
     (raise_first (tx_warn_status AND SFP_TX_BIAS_HIGH_WARNING_FLAG \<noteq> 0) SDI_MEDIA_TX_BIAS_HIGH_WARNING
        (tx_warn_status AND SFP_TX_BIAS_LOW_WARNING_FLAG \<noteq> 0) SDI_MEDIA_TX_BIAS_LOW_WARNING
     (raise_first (rx_alarm_status AND SFP_RX_PWR_HIGH_ALARM_FLAG \<noteq> 0) SDI_MEDIA_RX_PWR_HIGH_ALARM
        (tx_alarm_status AND SFP_RX_PWR_LOW_ALARM_FLAG \<noteq> 0) SDI_MEDIA_RX_PWR_LOW_ALARM
     (raise_first (tx_alarm_status AND SFP_TX_PWR_HIGH_ALARM_FLAG \<noteq> 0) SDI_MEDIA_TX_PWR_HIGH_ALARM
        (tx_alarm_status AND SFP_TX_PWR_LOW_ALARM_FLAG \<noteq> 0) SDI_MEDIA_TX_PWR_LOW_ALARM
     (raise_first (tx_alarm_status AND SFP_TX_BIAS_HIGH_ALARM_FLAG \<noteq> 0) SDI_MEDIA_TX_BIAS_HIGH_ALARM
        (tx_alarm_status AND SFP_TX_BIAS_LOW_ALARM_FLAG \<noteq> 0) SDI_MEDIA_TX_BIAS_LOW_ALARM 0))))))"

definition sfp_channel_flags_read ::
    "std_lib \<Rightarrow> 'w chip \<Rightarrow> u32 \<Rightarrow> 'w \<Rightarrow> (t_std_error \<times> u32 \<times> 'w) option" where
  "sfp_channel_flags_read L c flags w = do {
     (rc, alarm_support_status, w) \<leftarrow> sdi_is_alarm_flags_supported L c w;
     if rc \<noteq> STD_ERR_OK then Some (rc, 0, w)
     else if \<not> alarm_support_status then Some (SDI_DEVICE_ERRCODE EOPNOTSUPP, 0, w)
     else do {
       (rc, tx_alarm_status, w) \<leftarrow> media_read_if
         (flags AND (SDI_MEDIA_TX_BIAS_HIGH_ALARM OR SDI_MEDIA_TX_BIAS_LOW_ALARM OR
            SDI_MEDIA_TX_PWR_HIGH_ALARM OR SDI_MEDIA_TX_PWR_LOW_ALARM) \<noteq> 0)
         c sfp_i2c_addr SFP_ALARM_STATUS_1_OFFSET 0 w;
       if rc \<noteq> STD_ERR_OK then Some (rc, 0, w)
       else do {
         (rc, rx_alarm_status, w) \<leftarrow> media_read_if
           (flags AND (SDI_MEDIA_RX_PWR_HIGH_ALARM OR SDI_MEDIA_RX_PWR_LOW_ALARM) \<noteq> 0)
           c sfp_i2c_addr SFP_ALARM_STATUS_2_OFFSET 0 w;
         if rc \<noteq> STD_ERR_OK then Some (rc, 0, w)
         else do {
           (rc, tx_warn_status, w) \<leftarrow> media_read_if
             (flags AND (SDI_MEDIA_TX_PWR_HIGH_WARNING OR SDI_MEDIA_TX_PWR_LOW_WARNING OR
                SDI_MEDIA_TX_BIAS_HIGH_WARNING OR SDI_MEDIA_TX_BIAS_LOW_WARNING) \<noteq> 0)
             c sfp_i2c_addr SFP_WARNING_STATUS_1_OFFSET 0 w;
           if rc \<noteq> STD_ERR_OK then Some (rc, 0, w)
           else do {
             (rc, rx_warn_status, w) \<leftarrow> media_read_if
               (flags AND (SDI_MEDIA_RX_PWR_HIGH_WARNING OR SDI_MEDIA_RX_PWR_LOW_WARNING) \<noteq> 0)
               c sfp_i2c_addr SFP_WARNING_STATUS_2_OFFSET 0 w;
             if rc \<noteq> STD_ERR_OK then Some (rc, 0, w)
             else Some (rc, sfp_channel_status tx_alarm_status rx_alarm_status tx_warn_status rx_warn_status, w)
           }
         }
       }
     }
   }"

definition sdi_sfp_channel_monitor_status_get ::
    "std_lib \<Rightarrow> 'w os \<Rightarrow> ('w, 'x) sfp_device_scheme \<Rightarrow> u32 \<Rightarrow> u32 \<Rightarrow> (u32, 'w) query" where
  "sdi_sfp_channel_monitor_status_get L os d channel flags status w =
     (if channel \<noteq> SDI_SFP_CHANNEL_NUM then Some (SDI_DEVICE_ERRCODE EINVAL, 0, w)
      else with_module os d 0 (sfp_channel_flags_read L (media_chip d) flags) w)"

section \<open>Transmitter and receiver\<close>

text \<open>
  The enhanced options and the optional control byte; the latter is read only when there are
  enhanced options.
\<close>

definition sfp_soft_control_read ::
    "'w chip \<Rightarrow> 'w \<Rightarrow> (t_std_error \<times> (u8 \<times> u8) \<times> 'w) option" where
  "sfp_soft_control_read c w = do {
     (rc, buf_sup, w) \<leftarrow> media_read c (chip_addr c) SFP_ENHANCED_OPTIONS_OFFSET 0 w;
     if rc \<noteq> STD_ERR_OK \<or> buf_sup = 0 then Some (rc, (buf_sup, 0), w)
     else do {
       (rc, buf_data, w) \<leftarrow> media_read c sfp_i2c_addr SFP_OPTIONAL_STATUS_CONTROL_OFFSET 0 w;
       Some (rc, (buf_sup, buf_data), w)
     }
   }"

text \<open>
  One of the three signals: from its pin group when there is one, else from the control byte. The
  first component says that the function returns at once.
\<close>

definition sfp_signal_get ::
    "std_lib \<Rightarrow> 'w os \<Rightarrow> (u32, 'w) pin_bus option \<Rightarrow> u32 \<Rightarrow> u32 \<Rightarrow> u32 \<Rightarrow> u32 \<Rightarrow> u8 \<times> u8
      \<Rightarrow> t_std_error \<Rightarrow> u32 \<Rightarrow> 'w \<Rightarrow> (bool \<times> t_std_error \<times> u32 \<times> 'w) option" where
  "sfp_signal_get L os hdl bitmask flag sup_bit data_bit buf rc status w =
     (case hdl of
        None \<Rightarrow>
          if bit8_test L (fst buf) sup_bit
          then Some (False, rc, raise_if (bit8_test L (snd buf) data_bit) flag status, w)
          else Some (False, SDI_DEVICE_ERRCODE EOPNOTSUPP, status, w)
      | Some g \<Rightarrow> do {
          (rc, w) \<leftarrow> sdi_pin_group_acquire_bus os g w;
          if rc \<noteq> STD_ERR_OK then Some (True, rc, status, w)
          else do {
            (rc, value, w) \<leftarrow> sdi_pin_group_read_level g 0 w;
            w \<leftarrow> sdi_pin_group_release_bus os g w;
            if rc \<noteq> STD_ERR_OK then Some (True, rc, status, w)
            else Some (False, rc, raise_if (bit32_test L value bitmask) flag status, w)
          }
        })"

definition sfp_signal_get_if ::
    "bool \<Rightarrow> (t_std_error \<Rightarrow> u32 \<Rightarrow> 'w \<Rightarrow> (bool \<times> t_std_error \<times> u32 \<times> 'w) option)
      \<Rightarrow> bool \<times> t_std_error \<times> u32 \<times> 'w \<Rightarrow> (bool \<times> t_std_error \<times> u32 \<times> 'w) option" where
  "sfp_signal_get_if b f = (\<lambda>(stop, rc, status, w).
     if stop \<or> \<not> b then Some (stop, rc, status, w) else f rc status w)"

definition sdi_sfp_channel_status_get ::
    "std_lib \<Rightarrow> 'w os \<Rightarrow> ('w, 'x) sfp_device_scheme \<Rightarrow> u32 \<Rightarrow> u32 \<Rightarrow> (u32, 'w) query" where
  "sdi_sfp_channel_status_get L os d channel flags status w =
     (if channel \<noteq> SDI_SFP_CHANNEL_NUM then Some (SDI_DEVICE_ERRCODE EINVAL, 0, w)
      else do {
        (rc, buf, w) \<leftarrow>
          (if mod_tx_control_hdl d = None \<or> mod_sfp_rx_los_hdl d = None \<or> mod_sfp_tx_fault_hdl d = None
           then with_module os d (0, 0) (sfp_soft_control_read (media_chip d)) w
           else Some (STD_ERR_OK, (0, 0), w));
        if rc \<noteq> STD_ERR_OK then Some (rc, 0, w)
        else do {
          r \<leftarrow> sfp_signal_get_if (flags AND SDI_MEDIA_STATUS_TXDISABLE \<noteq> 0)
            (sfp_signal_get L os (mod_tx_control_hdl d) (mod_tx_control_bitmask d) SDI_MEDIA_STATUS_TXDISABLE
               SFP_SOFT_TX_DISABLE_CTRL_BIT_OFFSET SFP_OPTIONAL_TX_DISABLE_STATE_BIT_OFFSET buf)
            (False, rc, 0, w);
          r \<leftarrow> sfp_signal_get_if (flags AND SDI_MEDIA_STATUS_TXFAULT \<noteq> 0)
            (sfp_signal_get L os (mod_sfp_tx_fault_hdl d) (mod_sfp_tx_fault_bitmask d) SDI_MEDIA_STATUS_TXFAULT
               SFP_SOFT_TX_FAULT_MNTR_BIT_OFFSET SFP_OPTIONAL_TX_FAULT_STATE_BIT_OFFSET buf) r;
          (stop, rc, status, w) \<leftarrow> sfp_signal_get_if (flags AND SDI_MEDIA_STATUS_RXLOSS \<noteq> 0)
            (sfp_signal_get L os (mod_sfp_rx_los_hdl d) (mod_sfp_rx_los_bitmask d) SDI_MEDIA_STATUS_RXLOSS
               SFP_SOFT_RX_LOS_MNTR_BIT_OFFSET SFP_OPTIONAL_RX_LOSS_STATE_BIT_OFFSET buf) r;
          if \<not> stop \<and> flags AND SDI_MEDIA_STATUS_TXLOSS \<noteq> 0
          then Some (SDI_DEVICE_ERRCODE EOPNOTSUPP, status, w)
          else Some (rc, status, w)
        }
      })"

text \<open>
  Switching the transmitter by the control byte. What the mailbox of an Aquantia module answers is
  overwritten.
\<close>

definition sfp_soft_tx_control :: "std_lib \<Rightarrow> 'w os \<Rightarrow> 'w chip \<Rightarrow> bool \<Rightarrow> 'w \<Rightarrow> (t_std_error \<times> unit \<times> 'w) option" where
  "sfp_soft_tx_control L os c enable w = do {
     (aq, w) \<leftarrow> sdi_is_sfp_plus_aq_ext_mod_ctrl_sup L c w;
     (_, w) \<leftarrow> (if aq then sdi_cusfp_plus_phy_serdes_control os c enable w else Some (STD_ERR_OK, w));
     (rc, (buf_sup, buf_data), w) \<leftarrow> sfp_soft_control_read c w;
     if rc \<noteq> STD_ERR_OK \<or> buf_sup = 0 then Some (rc, (), w)
     else if bit8_test L buf_sup SFP_SOFT_TX_DISABLE_CTRL_BIT_OFFSET then do {
       let buf_data = (if enable then bit8_clear L buf_data SFP_OPTIONAL_SOFT_TX_DISABLE_STATE_BIT_OFFSET
                       else bit8_set L buf_data SFP_OPTIONAL_SOFT_TX_DISABLE_STATE_BIT_OFFSET);
       (rc, w) \<leftarrow> media_write c sfp_i2c_addr SFP_OPTIONAL_STATUS_CONTROL_OFFSET buf_data w;
       Some (rc, (), w)
     } else Some (SDI_DEVICE_ERRCODE EOPNOTSUPP, (), w)
   }"

definition sfp_pin_tx_control ::
    "std_lib \<Rightarrow> 'w os \<Rightarrow> (u32, 'w) pin_bus \<Rightarrow> u32 \<Rightarrow> bool \<Rightarrow> 'w action" where
  "sfp_pin_tx_control L os g bitmask enable w = do {
     (rc, w) \<leftarrow> sdi_pin_group_acquire_bus os g w;
     if rc \<noteq> STD_ERR_OK then Some (rc, w)
     else do {
       (rc, value, w) \<leftarrow> sdi_pin_group_read_level g 0 w;
       (rc, w) \<leftarrow> (if rc \<noteq> STD_ERR_OK then Some (rc, w)
          else sdi_pin_group_write_level g
            (if enable then bit32_clear L value bitmask else bit32_set L value bitmask) w);
       w \<leftarrow> sdi_pin_group_release_bus os g w;
       Some (rc, w)
     }
   }"

definition sdi_sfp_tx_control ::
    "std_lib \<Rightarrow> 'w os \<Rightarrow> ('w, 'x) sfp_device_scheme \<Rightarrow> u32 \<Rightarrow> bool \<Rightarrow> 'w action" where
  "sdi_sfp_tx_control L os d channel enable w =
     (if channel \<noteq> SDI_SFP_CHANNEL_NUM then Some (SDI_DEVICE_ERRCODE EINVAL, w)
      else case mod_tx_control_hdl d of
        None \<Rightarrow> do {
          (rc, _, w) \<leftarrow> with_module os d () (sfp_soft_tx_control L os (media_chip d) enable) w;
          Some (rc, w)
        }
      | Some g \<Rightarrow> sfp_pin_tx_control L os g (mod_tx_control_bitmask d) enable w)"

definition sdi_sfp_tx_control_status_get ::
    "std_lib \<Rightarrow> 'w os \<Rightarrow> ('w, 'x) sfp_device_scheme \<Rightarrow> u32 \<Rightarrow> (bool, 'w) query" where
  "sdi_sfp_tx_control_status_get L os d channel status w =
     (if channel \<noteq> SDI_SFP_CHANNEL_NUM then Some (SDI_DEVICE_ERRCODE EINVAL, status, w)
      else case mod_tx_control_hdl d of
        None \<Rightarrow> with_module os d status (\<lambda>w. do {
          (rc, (buf_sup, buf_data), w) \<leftarrow> sfp_soft_control_read (media_chip d) w;
          if rc \<noteq> STD_ERR_OK \<or> buf_sup = 0 then Some (rc, status, w)
          else if bit8_test L buf_sup SFP_SOFT_TX_DISABLE_CTRL_BIT_OFFSET
          then Some (rc, \<not> bit8_test L buf_data SFP_OPTIONAL_SOFT_TX_DISABLE_STATE_BIT_OFFSET, w)
          else Some (SDI_DEVICE_ERRCODE EOPNOTSUPP, status, w)
        }) w
      | Some g \<Rightarrow> do {
          (rc, w) \<leftarrow> sdi_pin_group_acquire_bus os g w;
          if rc \<noteq> STD_ERR_OK then Some (rc, status, w)
          else do {
            (rc, value, w) \<leftarrow> sdi_pin_group_read_level g 0 w;
            w \<leftarrow> sdi_pin_group_release_bus os g w;
            if rc = STD_ERR_OK then Some (rc, \<not> bit32_test L value (mod_tx_control_bitmask d), w)
            else Some (rc, status, w)
          }
        })"

definition sdi_sfp_speed_get :: "('w, 'x) sfp_device_scheme \<Rightarrow> (sdi_media_speed, 'w) query" where
  "sdi_sfp_speed_get d speed w = Some (STD_ERR_OK, sfp_capability d, w)"

section \<open>Calls on the PHY\<close>

definition with_module_do :: "'w os \<Rightarrow> ('w, 'x) media_sel_scheme \<Rightarrow> 'w action \<Rightarrow> 'w action" where
  "with_module_do os d f w = do {
     (rc, _, w) \<leftarrow> with_module os d () (\<lambda>w. do { (rc, w) \<leftarrow> f w; Some (rc, (), w) }) w;
     Some (rc, w)
   }"

definition SFP_PHY_DELAY :: nat where "SFP_PHY_DELAY = 100 * 1000"

definition sdi_sfp_phy_autoneg_set ::
    "'w os \<Rightarrow> ('w, 'x) sfp_device_scheme \<Rightarrow> u32 \<Rightarrow> sdi_media_type \<Rightarrow> bool \<Rightarrow> 'w action" where
  "sdi_sfp_phy_autoneg_set os d channel type enable =
     with_module_do os d (sdi_cusfp_phy_autoneg_set (media_chip d) enable)"

definition sdi_sfp_phy_mode_set ::
    "'w os \<Rightarrow> ('w, 'x) sfp_device_scheme \<Rightarrow> u32 \<Rightarrow> sdi_media_type \<Rightarrow> sdi_media_mode \<Rightarrow> 'w action" where
  "sdi_sfp_phy_mode_set os d channel type mode =
     with_module_do os d (\<lambda>w. sdi_cusfp_phy_mode_set (media_chip d) mode (std_usleep os SFP_PHY_DELAY w))"

definition sdi_sfp_phy_speed_set ::
    "std_lib \<Rightarrow> 'w os \<Rightarrow> ('w, 'x) sfp_device_scheme \<Rightarrow> u32 \<Rightarrow> sdi_media_type \<Rightarrow> sdi_media_speed \<Rightarrow> 'w action" where
  "sdi_sfp_phy_speed_set L os d channel type speed =
     with_module_do os d (\<lambda>w. do {
       (aq, w) \<leftarrow> sdi_is_sfp_plus_aq_ext_mod_ctrl_sup L (media_chip d) w;
       if aq then sdi_cusfp_plus_phy_speed_set os (media_chip d) speed w
       else sdi_cusfp_phy_speed_set (media_chip d) speed w
     })"

definition sdi_sfp_phy_link_status_get ::
    "std_lib \<Rightarrow> 'w os \<Rightarrow> ('w, 'x) sfp_device_scheme \<Rightarrow> u32 \<Rightarrow> sdi_media_type \<Rightarrow> (bool, 'w) query" where
  "sdi_sfp_phy_link_status_get L os d channel type status =
     with_module os d status (\<lambda>w. do {
       (aq, w) \<leftarrow> sdi_is_sfp_plus_aq_ext_mod_ctrl_sup L (media_chip d) w;
       if aq then sdi_cusfp_plus_phy_link_status_get os (media_chip d) status w
       else sdi_cusfp_phy_link_status_get (media_chip d) status w
     })"

definition sdi_sfp_phy_power_down_enable ::
    "'w os \<Rightarrow> ('w, 'x) sfp_device_scheme \<Rightarrow> u32 \<Rightarrow> sdi_media_type \<Rightarrow> bool \<Rightarrow> 'w action" where
  "sdi_sfp_phy_power_down_enable os d channel type enable =
     with_module_do os d (sdi_cusfp_phy_power_down_enable (media_chip d) enable)"

definition sdi_sfp_phy_serdes_control ::
    "std_lib \<Rightarrow> 'w os \<Rightarrow> ('w, 'x) sfp_device_scheme \<Rightarrow> u32 \<Rightarrow> sdi_media_type \<Rightarrow> bool \<Rightarrow> 'w action" where
  "sdi_sfp_phy_serdes_control L os d channel type enable =
     with_module_do os d (\<lambda>w. do {
       (aq, w) \<leftarrow> sdi_is_sfp_plus_aq_ext_mod_ctrl_sup L (media_chip d) w;
       if aq then sdi_cusfp_plus_phy_serdes_control os (media_chip d) enable w
       else sdi_cusfp_phy_serdes_control os (media_chip d) enable w
     })"

definition sdi_sfp_module_init :: "bool \<Rightarrow> 'w action" where
  "sdi_sfp_module_init pres w = Some (STD_ERR_OK, w)"

definition sdi_sfp_qsa_adapter_type_get :: "(sdi_qsa_adapter_type, 'w) query" where
  "sdi_sfp_qsa_adapter_type_get qsa_adapter w = Some (STD_ERR_OK, SDI_QSA_ADAPTER_NONE, w)"

end
