(* ===== verification/Sfp_Values.thy ===== *)
theory Sfp_Values
  imports Sfp_Status
begin

text \<open>
  The calls of src/drivers/sdi\_sfp\_eeprom.c that read values: parameters, vendor fields, compliance
  codes, thresholds, monitors, raw bytes; and the wavelength of tunable modules.
\<close>

section \<open>Tunable modules\<close>

definition SDI_SFP_DEFAULT_PAGE :: u32 where "SDI_SFP_DEFAULT_PAGE = 0"
definition SDI_SFP_TUNABLE_PAGE :: u32 where "SDI_SFP_TUNABLE_PAGE = 2"

definition SDI_FREQ_WAVELENGTH_DIVISION_FACTOR :: c_float where
  "SDI_FREQ_WAVELENGTH_DIVISION_FACTOR = double_const (5 / 100)"

definition sdi_sfp_page_select :: "'w chip \<Rightarrow> u32 \<Rightarrow> 'w action" where
  "sdi_sfp_page_select c page = media_write c sfp_i2c_addr SFP_PAGE_SELECT_BYTE_OFFSET (ucast page)"

section \<open>Parameters\<close>

text \<open>The scaling of a wavelength is done in double; the conversion back must fit.\<close>

definition scale_wavelength :: "sdi_media_param_type \<Rightarrow> u32 \<Rightarrow> u32 option" where
  "scale_wavelength param v =
     map_option word_of_int (fp_to_int 0 (2 ^ 32 - 1)
       (fp_mul 53 (to_double (Fin (of_int (uint v))))
         (if param = SDI_TUNE_WAVELENGTH_PICO_METERS
          then fp_mul 53 SDI_FREQ_WAVELENGTH_DIVISION_FACTOR (double_const 1000)
          else SDI_FREQ_WAVELENGTH_DIVISION_FACTOR)))"

text \<open>
  The wavelength of a tunable module. The first component of the result says that the function
  returns at once, without the deselection that follows.
\<close>

definition sfp_tunable_wavelength_get ::
    "'w chip \<Rightarrow> sdi_media_param_type \<Rightarrow> u32 \<Rightarrow> 'w \<Rightarrow> (bool \<times> t_std_error \<times> u32 \<times> 'w) option" where
  "sfp_tunable_wavelength_get c param value w = do {
     (rc, w) \<leftarrow> sdi_sfp_page_select c SDI_SFP_TUNABLE_PAGE w;
     if rc \<noteq> STD_ERR_OK then Some (False, rc, value, w)
     else do {
       (rc, byte_buf, w) \<leftarrow> media_read c sfp_i2c_addr SFP_WAVELENGTH_SET_OFFSET 0 w;
       if rc \<noteq> STD_ERR_OK then Some (True, rc, value, w)
       else do {
         let value = push_bit 8 (ucast byte_buf :: u32);
         (rc, byte_buf, w) \<leftarrow> media_read c sfp_i2c_addr (SFP_WAVELENGTH_SET_OFFSET + 1) byte_buf w;
         if rc \<noteq> STD_ERR_OK then Some (True, rc, value, w)
         else do {
           value \<leftarrow> scale_wavelength param (value OR ucast byte_buf);
           (rc, w) \<leftarrow> sdi_sfp_page_select c SDI_SFP_DEFAULT_PAGE w;
           Some (False, rc, value, w)
         }
       }
     }
   }"

definition sfp_param_read :: "'w chip \<Rightarrow> u32 \<times> nat \<Rightarrow> (u32, 'w) query" where
  "sfp_param_read c info value w =
     (if snd info = 1 then do {
        (rc, byte_buf, w) \<leftarrow> media_read c (chip_addr c) (fst info) 0 w;
        Some (rc, if rc = STD_ERR_OK then ucast byte_buf else value, w)
      } else if snd info = 2 then do {
        (rc, word_buf, w) \<leftarrow> media_read_word c (chip_addr c) (fst info) 0 w;
        Some (rc, if rc = STD_ERR_OK then ucast (raw16 word_buf) else value, w)
      } else Some (SDI_DEVICE_ERRCODE EINVAL, value, w))"

definition sdi_sfp_parameter_get ::
    "'w os \<Rightarrow> ('w, 'x) sfp_device_scheme \<Rightarrow> sdi_media_param_type \<Rightarrow> (u32, 'w) query" where
  "sdi_sfp_parameter_get os d param value w =
     (if sfp_param_reg_info param = (0, 0) then Some (SDI_DEVICE_ERRCODE EOPNOTSUPP, value, w)
      else do {
        (rc, w) \<leftarrow> sdi_sfp_module_select os d w;
        if rc \<noteq> STD_ERR_OK then Some (rc, value, w)
        else do {
          let c = media_chip d;
          (rc, tune, w) \<leftarrow> (if param = SDI_MEDIA_WAVELENGTH then sdi_is_wavelength_tune_supported c False w
                          else Some (rc, False, w));
          (stop, rc, value, w) \<leftarrow>
            (if rc \<noteq> STD_ERR_OK then Some (False, rc, value, w)
             else if param = SDI_TUNE_WAVELENGTH_PICO_METERS \<or> tune
             then sfp_tunable_wavelength_get c param value w
             else do {
               (rc, value, w) \<leftarrow> sfp_param_read c (sfp_param_reg_info param) value w;
               Some (False, rc, value, w)
             });
          if stop then Some (rc, value, w)
          else do {
            w \<leftarrow> sdi_sfp_module_deselect os d w;
            Some (rc, value, w)
          }
        }
      })"

section \<open>Vendor fields\<close>

definition sdi_sfp_vendor_info_get ::
    "'w os \<Rightarrow> ('w, 'x) sfp_device_scheme \<Rightarrow> sdi_media_vendor_info_type \<Rightarrow> (u8 list, 'w) query" where
  "sdi_sfp_vendor_info_get os d vendor_info_type vendor_info w = do {
     let (offset, data_len, printable) = sfp_vendor_reg_info vendor_info_type;
     STD_ASSERT (length vendor_info \<ge> data_len);
     (rc, data_buf, w) \<leftarrow> with_module os d (replicate SDI_MAX_NAME_LEN 0) (\<lambda>w.
        media_read_multi (media_chip d) (chip_addr (media_chip d)) offset (replicate SDI_MAX_NAME_LEN 0)
          (of_nat (data_len - 1)) w) w;
     if rc = STD_ERR_OK then do {
       vendor_info \<leftarrow> vendor_field printable data_len data_buf vendor_info;
       Some (rc, vendor_info, w)
     } else Some (rc, vendor_info, w)
   }"

section \<open>Compliance codes\<close>

text \<open>Every value fits into the bit field it goes to.\<close>

definition sfp_transceiver_descr :: "u8 list \<Rightarrow> sdi_sfp_transceiver_descr" where
  "sfp_transceiver_descr xvr = \<lparr>
     sdi_sfp_eth_10g_code = drop_bit 4 (xvr ! 0) AND 0xF,
     sdi_sfp_infiniband_code = xvr ! 0 AND 0xF,
     sdi_sfp_escon_code = ucast (drop_bit 6 (xvr ! 1) AND 0x3),
     sdi_sfp_sonet_code = ucast (xvr ! 2) OR push_bit 8 (ucast (xvr ! 1 AND 0x3F)),
     sdi_sfp_eth_1g_code = xvr ! 3,
     sdi_sfp_fc_distance = ucast (drop_bit 3 (xvr ! 4) AND 0x1F),
     sdi_sfp_fc_technology = ucast (drop_bit 4 (xvr ! 5) AND 0xF) OR push_bit 4 (ucast (xvr ! 4 AND 0x7)),
     sdi_sfp_plus_cable_technology = ucast (drop_bit 2 (xvr ! 5) AND 0x3),
     sdi_sfp_fc_media = xvr ! 6,
     sdi_sfp_fc_speed = xvr ! 7\<rparr>"

text \<open>The codes are computed even when the read failed, but not when the selection did.\<close>

definition sdi_sfp_transceiver_code_get ::
    "'w os \<Rightarrow> ('w, 'x) sfp_device_scheme \<Rightarrow> (sdi_sfp_transceiver_descr, 'w) query" where
  "sdi_sfp_transceiver_code_get os d transceiver_info =
     with_module os d transceiver_info (\<lambda>w. do {
       (rc, xvr_buff, w) \<leftarrow> media_read_multi (media_chip d) (chip_addr (media_chip d))
         SFP_COMPLIANCE_CODE_OFFSET (replicate 8 0) 8 w;
       Some (rc, sfp_transceiver_descr xvr_buff, w)
     })"

section \<open>Calibration\<close>

text \<open>
  What every reading of a measured quantity begins with: is there diagnostic monitoring, and who
  calibrates. The calibration type does not matter when there is an error.
\<close>

definition sfp_calib_type_get ::
    "std_lib \<Rightarrow> 'w os \<Rightarrow> ('w, 'x) sfp_device_scheme \<Rightarrow> 'w
      \<Rightarrow> (t_std_error \<times> sfp_calib_info_type \<times> 'w) option" where
  "sfp_calib_type_get L os d w = do {
     (rc, diag_mon_value, w) \<leftarrow> sdi_sfp_parameter_get os d SDI_MEDIA_DIAG_MON_TYPE 0 w;
     if rc \<noteq> STD_ERR_OK then Some (rc, SFP_CALIB_TYPE_INTERNAL, w)
     else if \<not> bit32_test L diag_mon_value SFP_DDM_SUPPORT_BIT_OFFSET
     then Some (SDI_DEVICE_ERRCODE EOPNOTSUPP, SFP_CALIB_TYPE_INTERNAL, w)
     else if bit32_test L diag_mon_value SFP_CALIB_TYPE_EXTERNAL_BIT_OFFSET
     then Some (rc, SFP_CALIB_TYPE_EXTERNAL, w)
     else if bit32_test L diag_mon_value SFP_CALIB_TYPE_INTERNAL_BIT_OFFSET
     then Some (rc, SFP_CALIB_TYPE_INTERNAL, w)
     else Some (SDI_DEVICE_ERRCODE EINVAL, SFP_CALIB_TYPE_INTERNAL, w)
   }"

fun calib_offsets :: "quantity \<Rightarrow> u32 \<times> u32" where
  "calib_offsets Temperature = (SFP_CALIB_TEMP_SLOPE_OFFSET, SFP_CALIB_TEMP_CONST_OFFSET)"
| "calib_offsets Voltage = (SFP_CALIB_VOLT_SLOPE_OFFSET, SFP_CALIB_VOLT_CONST_OFFSET)"
| "calib_offsets Tx_Bias = (SFP_CALIB_TX_BIAS_SLOPE_OFFSET, SFP_CALIB_TX_BIAS_CONST_OFFSET)"
| "calib_offsets Tx_Power = (SFP_CALIB_TX_POWER_SLOPE_OFFSET, SFP_CALIB_TX_POWER_CONST_OFFSET)"
| "calib_offsets Rx_Power = (0, SFP_CALIB_RX_POWER_CONST_START_OFFSET)"

definition EXT_CAL_RX_POWER_DATA_LEN :: nat where "EXT_CAL_RX_POWER_DATA_LEN = 4"
definition EXT_CAL_RX_POWER_LEN :: nat where "EXT_CAL_RX_POWER_LEN = EXT_CAL_RX_POWER_DATA_LEN * 5"

text \<open>The first bytes of the five constants of four bytes each.\<close>

definition rx_power_consts :: "u8 list \<Rightarrow> u8 list" where
  "rx_power_consts data = map (\<lambda>i. data ! (EXT_CAL_RX_POWER_DATA_LEN * i)) [0..<5]"

definition sdi_sfp_rx_power_value_read ::
    "'w chip \<Rightarrow> u32 \<Rightarrow> u32 \<Rightarrow> (u16 \<times> sfp_rx_power_calib_info, 'w) query" where
  "sdi_sfp_rx_power_value_read c val_offset vs_offset = (\<lambda>(buf, calib) w. do {
     (rc, buf, w) \<leftarrow> sdi_smbus_read_word (chip_bus c) sfp_i2c_addr val_offset buf SDI_I2C_FLAG_NONE w;
     if rc \<noteq> STD_ERR_OK then Some (rc, (buf, calib), w)
     else if rx_calib_type calib = SFP_CALIB_TYPE_EXTERNAL then do {
       (rc, data, w) \<leftarrow> media_read_multi c sfp_i2c_addr vs_offset (replicate EXT_CAL_RX_POWER_LEN 0)
         (of_nat EXT_CAL_RX_POWER_LEN) w;
       if rc \<noteq> STD_ERR_OK then Some (rc, (buf, calib), w)
       else Some (rc, (buf, calib\<lparr>rx_power_const := rx_power_consts data\<rparr>), w)
     } else Some (rc, (buf, calib), w)
   })"

definition sdi_sfp_module_monitor_value_read ::
    "'w chip \<Rightarrow> u32 \<Rightarrow> u32 \<times> u32 \<Rightarrow> (u16 \<times> sfp_calib_info, 'w) query" where
  "sdi_sfp_module_monitor_value_read c val_offset offsets = (\<lambda>(buf, calib) w. do {
     (rc, buf, w) \<leftarrow> sdi_smbus_read_word (chip_bus c) sfp_i2c_addr val_offset buf SDI_I2C_FLAG_NONE w;
     if rc \<noteq> STD_ERR_OK then Some (rc, (buf, calib), w)
     else if calib_type calib = SFP_CALIB_TYPE_EXTERNAL then do {
       (rc, temp_buf, w) \<leftarrow> media_read_word c sfp_i2c_addr (fst offsets) 0 w;
       let calib = calib\<lparr>calib_slope := temp_buf\<rparr>;
       if rc \<noteq> STD_ERR_OK then Some (rc, (buf, calib), w)
       else do {
         (rc, const, w) \<leftarrow> sdi_smbus_read_word (chip_bus c) sfp_i2c_addr (snd offsets) (calib_offset calib)
           SDI_I2C_FLAG_NONE w;
         Some (rc, (buf, calib\<lparr>calib_offset := const\<rparr>), w)
       }
     } else Some (rc, (buf, calib), w)
   })"

section \<open>Thresholds\<close>

text \<open>
  The words a threshold is made of. The word buffer is shared by the threshold and the slope.
\<close>

definition sfp_threshold_read ::
    "'w chip \<Rightarrow> u32 \<Rightarrow> quantity \<Rightarrow> sfp_calib_info_type \<Rightarrow> 'w
      \<Rightarrow> (t_std_error \<times> ((u8 \<times> u8) \<times> sfp_calib_info \<times> u8 list) \<times> 'w) option" where
  "sfp_threshold_read c offset q type w = do {
     let calib = \<lparr>calib_type = type, calib_offset = 0, calib_slope = (0, 0)\<rparr>;
     let rx_data = replicate EXT_CAL_RX_POWER_LEN 0;
     (rc, temp_buf, w) \<leftarrow> sdi_smbus_read_word (chip_bus c) sfp_i2c_addr offset 0 SDI_I2C_FLAG_NONE w;
     let threshold_buf = sdi_platform_util_write_16bit_to_bytearray_le temp_buf;
     if rc \<noteq> STD_ERR_OK \<or> type \<noteq> SFP_CALIB_TYPE_EXTERNAL then Some (rc, (threshold_buf, calib, rx_data), w)
     else if q = Rx_Power then do {
       (rc, rx_data, w) \<leftarrow> media_read_multi c sfp_i2c_addr (snd (calib_offsets q)) rx_data
         (of_nat EXT_CAL_RX_POWER_LEN) w;
       Some (rc, (threshold_buf, calib, rx_data), w)
     } else do {
       (rc, temp_buf, w) \<leftarrow> sdi_smbus_read_word (chip_bus c) sfp_i2c_addr (fst (calib_offsets q)) temp_buf
         SDI_I2C_FLAG_NONE w;
       let calib = calib\<lparr>calib_slope := sdi_platform_util_write_16bit_to_bytearray_le temp_buf\<rparr>;
       if rc \<noteq> STD_ERR_OK then Some (rc, (threshold_buf, calib, rx_data), w)
       else do {
         (rc, const, w) \<leftarrow> sdi_smbus_read_word (chip_bus c) sfp_i2c_addr (snd (calib_offsets q))
           (calib_offset calib) SDI_I2C_FLAG_NONE w;
         Some (rc, (threshold_buf, calib\<lparr>calib_offset := const\<rparr>, rx_data), w)
       }
     }
   }"

definition sfp_convert :: "math_lib \<Rightarrow> quantity \<Rightarrow> u8 \<times> u8 \<Rightarrow> sfp_calib_info \<Rightarrow> u8 list \<Rightarrow> c_float" where
  "sfp_convert M q buf calib consts =
     (case q of
        Temperature \<Rightarrow> convert_sfp_temp buf calib
      | Voltage \<Rightarrow> convert_sfp_volt buf calib
      | Rx_Power \<Rightarrow> convert_sfp_rx_power M buf \<lparr>rx_calib_type = calib_type calib, rx_power_const = consts\<rparr>
      | Tx_Bias \<Rightarrow> convert_sfp_tx_bias_current buf calib
      | Tx_Power \<Rightarrow> convert_sfp_tx_power M buf calib)"

definition sdi_sfp_threshold_get ::
    "std_lib \<Rightarrow> math_lib \<Rightarrow> 'w os \<Rightarrow> ('w, 'x) sfp_device_scheme \<Rightarrow> sdi_media_threshold_type
      \<Rightarrow> (c_float, 'w) query" where
  "sdi_sfp_threshold_get L M os d threshold_type value w = do {
     (rc, type, w) \<leftarrow> sfp_calib_type_get L os d w;
     if rc \<noteq> STD_ERR_OK then Some (rc, value, w)
     else do {
       let q = threshold_quantity threshold_type;
       (rc, value, w) \<leftarrow> with_module os d value (\<lambda>w. do {
         (rc, (buf, calib, rx_data), w) \<leftarrow>
           sfp_threshold_read (media_chip d) (sfp_threshold_reg_info threshold_type) q type w;
         Some (rc, if rc = STD_ERR_OK then sfp_convert M q buf calib (rx_power_consts rx_data) else value, w)
       }) w;
       Some (rc, value, w)
     }
   }"

definition sdi_sfp_module_monitor_threshold_get :: "u32 \<Rightarrow> (u32, 'w) query" where
  "sdi_sfp_module_monitor_threshold_get threshold_type value w = Some (STD_ERR_UNIMPLEMENTED, value, w)"

definition sdi_sfp_channel_monitor_threshold_get :: "u32 \<Rightarrow> (u32, 'w) query" where
  "sdi_sfp_channel_monitor_threshold_get threshold_type value w = Some (STD_ERR_UNIMPLEMENTED, value, w)"

section \<open>Monitors\<close>

text \<open>A quantity other than the received power, read and converted while the module is selected.\<close>

definition sfp_monitor_get ::
    "math_lib \<Rightarrow> 'w os \<Rightarrow> ('w, 'x) sfp_device_scheme \<Rightarrow> quantity \<Rightarrow> u32 \<Rightarrow> sfp_calib_info_type
      \<Rightarrow> (c_float, 'w) query" where
  "sfp_monitor_get M os d q val_offset type value =
     with_module os d value (\<lambda>w. do {
       (rc, (buf, calib), w) \<leftarrow> sdi_sfp_module_monitor_value_read (media_chip d) val_offset (calib_offsets q)
         (0, \<lparr>calib_type = type, calib_offset = 0, calib_slope = (0, 0)\<rparr>) w;
       Some (rc, if rc = STD_ERR_OK
         then sfp_convert M q (sdi_platform_util_write_16bit_to_bytearray_le buf) calib [] else value, w)
     })"

definition sdi_sfp_module_monitor_get ::
    "std_lib \<Rightarrow> math_lib \<Rightarrow> 'w os \<Rightarrow> ('w, 'x) sfp_device_scheme \<Rightarrow> sdi_media_module_monitor
      \<Rightarrow> (c_float, 'w) query" where
  "sdi_sfp_module_monitor_get L M os d monitor value w = do {
     (rc, type, w) \<leftarrow> sfp_calib_type_get L os d w;
     if rc \<noteq> STD_ERR_OK then Some (rc, value, w)
     else (case monitor of
        SDI_MEDIA_TEMP \<Rightarrow> sfp_monitor_get M os d Temperature SFP_TEMPERATURE_OFFSET type value w
      | SDI_MEDIA_VOLT \<Rightarrow> sfp_monitor_get M os d Voltage SFP_VOLTAGE_OFFSET type value w)
   }"

definition sfp_rx_power_get ::
    "math_lib \<Rightarrow> 'w os \<Rightarrow> ('w, 'x) sfp_device_scheme \<Rightarrow> sfp_calib_info_type \<Rightarrow> (c_float, 'w) query" where
  "sfp_rx_power_get M os d type value =
     with_module os d value (\<lambda>w. do {
       (rc, (buf, calib), w) \<leftarrow> sdi_sfp_rx_power_value_read (media_chip d) SFP_RX_INPUT_POWER_OFFSET
         SFP_CALIB_RX_POWER_CONST_START_OFFSET (0, \<lparr>rx_calib_type = type, rx_power_const = [0, 0, 0, 0, 0]\<rparr>) w;
       Some (rc, if rc = STD_ERR_OK
         then convert_sfp_rx_power M (sdi_platform_util_write_16bit_to_bytearray_le buf) calib else value, w)
     })"

definition sdi_sfp_channel_monitor_get ::
    "std_lib \<Rightarrow> math_lib \<Rightarrow> 'w os \<Rightarrow> ('w, 'x) sfp_device_scheme \<Rightarrow> u32 \<Rightarrow> sdi_media_channel_monitor
      \<Rightarrow> (c_float, 'w) query" where
  "sdi_sfp_channel_monitor_get L M os d channel monitor value w =
     (if channel \<noteq> SDI_SFP_CHANNEL_NUM then Some (SDI_DEVICE_ERRCODE EINVAL, value, w)
      else do {
        (rc, type, w) \<leftarrow> sfp_calib_type_get L os d w;
        if rc \<noteq> STD_ERR_OK then Some (rc, value, w)
        else (case monitor of
           SDI_MEDIA_INTERNAL_RX_POWER_MONITOR \<Rightarrow> sfp_rx_power_get M os d type value w
         | SDI_MEDIA_INTERNAL_TX_BIAS_CURRENT \<Rightarrow>
             sfp_monitor_get M os d Tx_Bias SFP_TX_BIAS_CURRENT_OFFSET type value w
         | SDI_MEDIA_INTERNAL_TX_OUTPUT_POWER \<Rightarrow>
             sfp_monitor_get M os d Tx_Power SFP_TX_OUTPUT_POWER_OFFSET type value w)
      })"

section \<open>Raw bytes\<close>

definition sdi_sfp_read_generic ::
    "'w os \<Rightarrow> ('w, 'x) sfp_device_scheme \<Rightarrow> sdi_media_eeprom_addr \<Rightarrow> u32 \<Rightarrow> (u8 list, 'w) query" where
  "sdi_sfp_read_generic os d addr data_len data w = do {
     STD_ASSERT (data_len > 0);
     case raw_addr (media_chip d) (eeprom_device_addr addr) of
       None \<Rightarrow> Some (SDI_DEVICE_ERRCODE EINVAL, data, w)
     | Some a \<Rightarrow> with_module os d data
         (media_read_multi (media_chip d) a (eeprom_offset addr) data data_len) w
   }"

definition sdi_sfp_write_generic ::
    "'w os \<Rightarrow> ('w, 'x) sfp_device_scheme \<Rightarrow> sdi_media_eeprom_addr \<Rightarrow> u32 \<Rightarrow> (u8 list, 'w) query" where
  "sdi_sfp_write_generic os d addr data_len data w = do {
     STD_ASSERT (data_len > 0);
     case raw_addr (media_chip d) (eeprom_device_addr addr) of
       None \<Rightarrow> Some (SDI_DEVICE_ERRCODE EINVAL, data, w)
     | Some a \<Rightarrow> with_module os d data
         (media_write_multi (media_chip d) a (eeprom_offset addr) data data_len) w
   }"

definition sfp_plain_addr :: "u32 \<Rightarrow> sdi_media_eeprom_addr" where
  "sfp_plain_addr offset = \<lparr>eeprom_device_addr = SDI_MEDIA_DEVICE_ADDR_AUTO,
     eeprom_page = SDI_MEDIA_PAGE_SELECT_IGNORE, eeprom_offset = offset\<rparr>"

definition sdi_sfp_read ::
    "'w os \<Rightarrow> ('w, 'x) sfp_device_scheme \<Rightarrow> u32 \<Rightarrow> u32 \<Rightarrow> (u8 list, 'w) query" where
  "sdi_sfp_read os d offset data_len = sdi_sfp_read_generic os d (sfp_plain_addr offset) data_len"

definition sdi_sfp_write ::
    "'w os \<Rightarrow> ('w, 'x) sfp_device_scheme \<Rightarrow> u32 \<Rightarrow> u32 \<Rightarrow> (u8 list, 'w) query" where
  "sdi_sfp_write os d offset data_len = sdi_sfp_write_generic os d (sfp_plain_addr offset) data_len"

section \<open>Setting the wavelength\<close>

definition SPEED_OF_LIGHT :: c_float where "SPEED_OF_LIGHT = double_const 299792458"

definition WAVELENGTH_NM_TO_FREQ_THZ :: "c_float \<Rightarrow> c_float" where
  "WAVELENGTH_NM_TO_FREQ_THZ wav = fp_div 53 (fp_mul 53 (double_const (1 / 1000)) SPEED_OF_LIGHT) wav"

definition SDI_FREQ_JOIN :: "c_float \<Rightarrow> c_float \<Rightarrow> c_float" where
  "SDI_FREQ_JOIN integer_part frac_part =
     fp_add 53 integer_part (fp_div 53 frac_part (double_const 10000))"

definition SDI_GET_CHANNEL_NO_FROM_FREQ :: "math_lib \<Rightarrow> c_float \<Rightarrow> c_float \<Rightarrow> c_float \<Rightarrow> int" where
  "SDI_GET_CHANNEL_NO_FROM_FREQ M target_freq first_freq grid_spacing =
     lroundf M (fp_add 24 (Fin 1) (fp_div 24 (fp_sub 24 target_freq first_freq) grid_spacing))"

record sdi_sfp_tunable_capabilities =
  min_freq :: c_float
  max_freq :: c_float
  grid_spacing :: c_float
  channel_set_support :: bool
  wavelength_set_support :: bool
  channel_count :: u32

text \<open>The ten bytes of the capabilities are five big endian words.\<close>

definition capability_word :: "u8 list \<Rightarrow> nat \<Rightarrow> c_float" where
  "capability_word buf i = float_of_int (uint (raw16 (buf ! (2 * i), buf ! (2 * i + 1))))"

definition tunable_capabilities ::
    "math_lib \<Rightarrow> bool \<Rightarrow> bool \<Rightarrow> u8 list \<Rightarrow> sdi_sfp_tunable_capabilities" where
  "tunable_capabilities M channel_set wavelength_set buf =
     (let lo = to_float (SDI_FREQ_JOIN (capability_word buf 0) (capability_word buf 1));
          hi = to_float (SDI_FREQ_JOIN (capability_word buf 2) (capability_word buf 3));
          grid = to_float (fp_div 53 (capability_word buf 4) (double_const 10000))
      in \<lparr>min_freq = lo, max_freq = hi, grid_spacing = grid, channel_set_support = channel_set,
          wavelength_set_support = wavelength_set,
          channel_count = word_of_int (SDI_GET_CHANNEL_NO_FROM_FREQ M hi lo grid)\<rparr>)"

text \<open>The capabilities matter only when there is no error.\<close>

definition sdi_sfp_get_tunable_capabilities ::
    "std_lib \<Rightarrow> math_lib \<Rightarrow> 'w chip \<Rightarrow> 'w
      \<Rightarrow> (t_std_error \<times> sdi_sfp_tunable_capabilities \<times> 'w) option" where
  "sdi_sfp_get_tunable_capabilities L M c w = do {
     (rc, support_buf, w) \<leftarrow> media_read c sfp_i2c_addr SFP_TUNE_TYPE_SUPPORT_OFFSET 0 w;
     let channel_set = bit8_test L support_buf SDI_SFP_TX_FREQ_CHANNEL_TUNE_SUPPORT_BITMASK;
     let wavelength_set = bit8_test L support_buf SDI_SFP_TX_WAVELENGTH_TUNE_SUPPORT_BITMASK;
     let none = tunable_capabilities M channel_set wavelength_set (replicate 10 0);
     if rc \<noteq> STD_ERR_OK then Some (rc, none, w)
     else if \<not> (channel_set \<or> wavelength_set) then Some (SDI_DEVICE_ERRCODE EOPNOTSUPP, none, w)
     else do {
       (rc, capabilities_buf, w) \<leftarrow> media_read_multi c sfp_i2c_addr SFP_TUNABLE_FREQ_CAPABILITIES_OFFSET
         (replicate 10 0) 10 w;
       let cap = tunable_capabilities M channel_set wavelength_set capabilities_buf;
       if rc \<noteq> STD_ERR_OK then Some (rc, none, w)
       else if fp_less (max_freq cap) (min_freq cap) then Some (SDI_DEVICE_ERRCODE (EBADMSG), cap, w)
       else Some (rc, cap, w)
     }
   }"

text \<open>Two bytes, the high one first; the second is not written after an error.\<close>

definition sfp_write_word_be :: "'w chip \<Rightarrow> u32 \<Rightarrow> u16 \<Rightarrow> 'w action" where
  "sfp_write_word_be c offset v w = do {
     (rc, w) \<leftarrow> media_write c sfp_i2c_addr offset (ucast (drop_bit 8 v)) w;
     if rc \<noteq> STD_ERR_OK then Some (rc, w)
     else media_write c sfp_i2c_addr (offset + 1) (ucast v) w
   }"

definition sdi_sfp_set_tunable_module_by_wavelength ::
    "math_lib \<Rightarrow> 'w chip \<Rightarrow> sdi_sfp_tunable_capabilities \<Rightarrow> c_float \<Rightarrow> 'w action" where
  "sdi_sfp_set_tunable_module_by_wavelength M c cap wavelength_nm w =
     (let target_freq_thz = to_float (WAVELENGTH_NM_TO_FREQ_THZ wavelength_nm)
      in if fp_less (max_freq cap) target_freq_thz \<or> fp_less target_freq_thz (min_freq cap)
         then Some (SDI_DEVICE_ERRCODE EINVAL, w)
         else do {
           v \<leftarrow> fp_to_int 0 (2 ^ 16 - 1) (fp_div 53 wavelength_nm SDI_FREQ_WAVELENGTH_DIVISION_FACTOR);
           let n = SDI_GET_CHANNEL_NO_FROM_FREQ M target_freq_thz (min_freq cap) (grid_spacing cap);
           if channel_set_support cap
           then sfp_write_word_be c SFP_CHANNEL_NUMBER_SET_OFFSET (word_of_int n) w
           else if wavelength_set_support cap
           then sfp_write_word_be c SFP_WAVELENGTH_SET_OFFSET (word_of_int v) w
           else Some (SDI_DEVICE_ERRCODE EOPNOTSUPP, w)
         })"

text \<open>The masks are combined by AND, and no two of them share a bit.\<close>

definition TEST_LATCHED_STATUS :: "u8 \<Rightarrow> bool" where
  "TEST_LATCHED_STATUS x \<longleftrightarrow> x AND 0x40 AND 0x20 AND 0x10 = 0"

definition TEST_UNLATCHED_STATUS :: "u8 \<Rightarrow> bool" where
  "TEST_UNLATCHED_STATUS x \<longleftrightarrow> x AND 0x40 AND 0x20 AND 0x10 AND 0x08 = 0"

definition SDI_WAVELENGTH_SET_TIMEOUT_MS :: nat where "SDI_WAVELENGTH_SET_TIMEOUT_MS = 100"
definition SDI_WAVELENGTH_SET_POLL_PERIOD_MS :: nat where "SDI_WAVELENGTH_SET_POLL_PERIOD_MS = 10"

function sfp_tune_set_poll ::
    "'w os \<Rightarrow> 'w chip \<Rightarrow> nat \<Rightarrow> u8 \<Rightarrow> u8 \<Rightarrow> t_std_error \<Rightarrow> 'w \<Rightarrow> (t_std_error \<times> bool \<times> 'w) option" where
  "sfp_tune_set_poll os c elapsed_time_ms unlatched_status latched_status rc w =
     (if elapsed_time_ms < SDI_WAVELENGTH_SET_TIMEOUT_MS then
        (case media_read c sfp_i2c_addr SFP_TUNE_TYPE_SUPPORT_OFFSET unlatched_status w of
           None \<Rightarrow> None
         | Some (rc, unlatched_status, w) \<Rightarrow>
             (case media_read c sfp_i2c_addr SFP_TUNE_TYPE_SUPPORT_OFFSET latched_status w of
                None \<Rightarrow> None
              | Some (rc, latched_status, w) \<Rightarrow>
                  (if TEST_UNLATCHED_STATUS unlatched_status \<and> TEST_LATCHED_STATUS latched_status
                   then Some (rc, True, w)
                   else sfp_tune_set_poll os c (elapsed_time_ms + SDI_WAVELENGTH_SET_POLL_PERIOD_MS)
                     unlatched_status latched_status rc
                     (std_usleep os (SDI_WAVELENGTH_SET_POLL_PERIOD_MS * 1000) w))))
      else Some (rc, False, w))"
  by pat_completeness auto
termination
  by (relation "measure (\<lambda>(_, _, t, _). SDI_WAVELENGTH_SET_TIMEOUT_MS - t)")
    (auto simp: SDI_WAVELENGTH_SET_TIMEOUT_MS_def SDI_WAVELENGTH_SET_POLL_PERIOD_MS_def)

declare sfp_tune_set_poll.simps [simp del]

definition sdi_sfp_tune_set_status_get :: "'w os \<Rightarrow> 'w chip \<Rightarrow> (bool, 'w) query" where
  "sdi_sfp_tune_set_status_get os c status w = sfp_tune_set_poll os c 0 0xFF 0xFF STD_ERR_OK w"

text \<open>On a module that is not tunable, nothing is done and the result is OK.\<close>

definition sdi_sfp_wavelength_set ::
    "std_lib \<Rightarrow> math_lib \<Rightarrow> 'w os \<Rightarrow> ('w, 'x) sfp_device_scheme \<Rightarrow> c_float \<Rightarrow> 'w action" where
  "sdi_sfp_wavelength_set L M os d value w =
     (if fp_le value (Fin 0) then Some (SDI_DEVICE_ERRCODE EINVAL, w)
      else with_module_do os d (\<lambda>w. do {
        let c = media_chip d;
        (rc, status, w) \<leftarrow> sdi_is_wavelength_tune_supported c False w;
        if rc \<noteq> STD_ERR_OK \<or> \<not> status then Some (rc, w)
        else do {
          (rc, w) \<leftarrow> sdi_sfp_page_select c SDI_SFP_TUNABLE_PAGE w;
          if rc \<noteq> STD_ERR_OK then Some (rc, w)
          else do {
            (rc, cap, w) \<leftarrow> sdi_sfp_get_tunable_capabilities L M c w;
            if rc \<noteq> STD_ERR_OK then Some (rc, w)
            else do {
              (rc, w) \<leftarrow> sdi_sfp_set_tunable_module_by_wavelength M c cap value w;
              if rc \<noteq> STD_ERR_OK then Some (rc, w)
              else do {
                (rc, status, w) \<leftarrow> sdi_sfp_tune_set_status_get os c status w;
                if rc \<noteq> STD_ERR_OK then Some (rc, w)
                else if \<not> status then Some (SDI_DEVICE_ERRCODE (Errno 4294967295), w)
                else sdi_sfp_page_select c SDI_SFP_DEFAULT_PAGE w
              }
            }
          }
        }
      }) w)"

end
