(* ===== verification/Media_Api.thy ===== *)
theory Media_Api
  imports Resource
begin

text \<open>
  The calls an application makes on media resources, src/hwcore/sdi\_media.c. Each checks that the
  resource is a media and calls the function of its table with the handle of the driver; the calls
  for which a driver may leave the entry NULL check that as well. They do not ask whether the system
  is initialised.
\<close>

section \<open>Calling the driver\<close>

definition media_ask ::
    "('w media_ctrl \<Rightarrow> ('a, 'w) query) \<Rightarrow> res_hdl \<Rightarrow> ('a, 'w sdi_sys) query" where
  "media_ask call h x s =
     (let r = resource_heap s h
      in if res_type r \<noteq> SDI_RESOURCE_MEDIA then Some (SDI_ERRCODE EPERM, x, s)
         else do { f \<leftarrow> as_media (callback_fns r); ask (call f x) s })"

definition media_act :: "('w media_ctrl \<Rightarrow> 'w action) \<Rightarrow> res_hdl \<Rightarrow> 'w sdi_sys action" where
  "media_act call h s =
     (let r = resource_heap s h
      in if res_type r \<noteq> SDI_RESOURCE_MEDIA then Some (SDI_ERRCODE EPERM, s)
         else do { f \<leftarrow> as_media (callback_fns r); act (call f) s })"

definition media_ask_opt ::
    "('w media_ctrl \<Rightarrow> ('a, 'w) query option) \<Rightarrow> res_hdl \<Rightarrow> ('a, 'w sdi_sys) query" where
  "media_ask_opt call h x s =
     (let r = resource_heap s h
      in if res_type r \<noteq> SDI_RESOURCE_MEDIA then Some (SDI_ERRCODE EPERM, x, s)
         else do {
           f \<leftarrow> as_media (callback_fns r);
           case call f of None \<Rightarrow> Some (SDI_ERRCODE EOPNOTSUPP, x, s) | Some g \<Rightarrow> ask (g x) s
         })"

definition media_act_opt :: "('w media_ctrl \<Rightarrow> 'w action option) \<Rightarrow> res_hdl \<Rightarrow> 'w sdi_sys action" where
  "media_act_opt call h s =
     (let r = resource_heap s h
      in if res_type r \<noteq> SDI_RESOURCE_MEDIA then Some (SDI_ERRCODE EPERM, s)
         else do {
           f \<leftarrow> as_media (callback_fns r);
           case call f of None \<Rightarrow> Some (SDI_ERRCODE EOPNOTSUPP, s) | Some g \<Rightarrow> act g s
         })"

section \<open>The calls\<close>

definition sdi_media_presence_get ::
    "res_hdl \<Rightarrow> (bool, 'w sdi_sys) query" where
  "sdi_media_presence_get h presence = media_ask (\<lambda>f. mc_presence_get f) h presence"

definition sdi_media_module_monitor_status_get ::
    "res_hdl \<Rightarrow> u32 \<Rightarrow> (u32, 'w sdi_sys) query" where
  "sdi_media_module_monitor_status_get h flags status = media_ask (\<lambda>f. mc_module_monitor_status_get f flags) h 0"

definition sdi_media_channel_monitor_status_get ::
    "res_hdl \<Rightarrow> u32 \<Rightarrow> u32 \<Rightarrow> (u32, 'w sdi_sys) query" where
  "sdi_media_channel_monitor_status_get h channel flags status = media_ask (\<lambda>f. mc_channel_monitor_status_get f channel flags) h 0"

definition sdi_media_channel_status_get ::
    "res_hdl \<Rightarrow> u32 \<Rightarrow> u32 \<Rightarrow> (u32, 'w sdi_sys) query" where
  "sdi_media_channel_status_get h channel flags status = media_ask (\<lambda>f. mc_channel_status_get f channel flags) h 0"

definition sdi_media_tx_control ::
    "res_hdl \<Rightarrow> u32 \<Rightarrow> bool \<Rightarrow> 'w sdi_sys action" where
  "sdi_media_tx_control h channel enable = media_act (\<lambda>f. mc_tx_control f channel enable) h"

definition sdi_media_tx_control_status_get ::
    "res_hdl \<Rightarrow> u32 \<Rightarrow> (bool, 'w sdi_sys) query" where
  "sdi_media_tx_control_status_get h channel status = media_ask (\<lambda>f. mc_tx_control_status_get f channel) h status"

definition sdi_media_cdr_status_set ::
    "res_hdl \<Rightarrow> u32 \<Rightarrow> bool \<Rightarrow> 'w sdi_sys action" where
  "sdi_media_cdr_status_set h channel enable = media_act_opt (\<lambda>f. map_option (\<lambda>g. g channel enable) (mc_cdr_status_set f)) h"

definition sdi_media_cdr_status_get ::
    "res_hdl \<Rightarrow> u32 \<Rightarrow> (bool, 'w sdi_sys) query" where
  "sdi_media_cdr_status_get h channel status = media_ask_opt (\<lambda>f. map_option (\<lambda>g. g channel) (mc_cdr_status_get f)) h status"

definition sdi_media_speed_get ::
    "res_hdl \<Rightarrow> (sdi_media_speed, 'w sdi_sys) query" where
  "sdi_media_speed_get h speed = media_ask (\<lambda>f. mc_speed_get f) h speed"

definition sdi_media_parameter_get ::
    "res_hdl \<Rightarrow> sdi_media_param_type \<Rightarrow> (u32, 'w sdi_sys) query" where
  "sdi_media_parameter_get h param value = media_ask (\<lambda>f. mc_parameter_get f param) h value"

definition sdi_media_vendor_info_get ::
    "res_hdl \<Rightarrow> sdi_media_vendor_info_type \<Rightarrow> (u8 list, 'w sdi_sys) query" where
  "sdi_media_vendor_info_get h vendor_info_type vendor_info = media_ask (\<lambda>f. mc_vendor_info_get f vendor_info_type) h vendor_info"

definition sdi_media_transceiver_code_get ::
    "res_hdl \<Rightarrow> (sdi_media_transceiver_descr, 'w sdi_sys) query" where
  "sdi_media_transceiver_code_get h transceiver_info = media_ask (\<lambda>f. mc_transceiver_code_get f) h transceiver_info"

definition sdi_media_threshold_get ::
    "res_hdl \<Rightarrow> sdi_media_threshold_type \<Rightarrow> (c_float, 'w sdi_sys) query" where
  "sdi_media_threshold_get h threshold_type value = media_ask (\<lambda>f. mc_threshold_get f threshold_type) h value"

definition sdi_media_module_control ::
    "res_hdl \<Rightarrow> sdi_media_module_ctrl_type \<Rightarrow> bool \<Rightarrow> 'w sdi_sys action" where
  "sdi_media_module_control h ctrl_type enable = media_act_opt (\<lambda>f. map_option (\<lambda>g. g ctrl_type enable) (mc_module_control f)) h"

definition sdi_media_module_control_status_get ::
    "res_hdl \<Rightarrow> sdi_media_module_ctrl_type \<Rightarrow> (bool, 'w sdi_sys) query" where
  "sdi_media_module_control_status_get h ctrl_type status = media_ask_opt (\<lambda>f. map_option (\<lambda>g. g ctrl_type) (mc_module_control_status_get f)) h status"

definition sdi_media_module_monitor_get ::
    "res_hdl \<Rightarrow> sdi_media_module_monitor \<Rightarrow> (c_float, 'w sdi_sys) query" where
  "sdi_media_module_monitor_get h monitor value = media_ask (\<lambda>f. mc_module_monitor_get f monitor) h value"

definition sdi_media_channel_monitor_get ::
    "res_hdl \<Rightarrow> u32 \<Rightarrow> sdi_media_channel_monitor \<Rightarrow> (c_float, 'w sdi_sys) query" where
  "sdi_media_channel_monitor_get h channel monitor value = media_ask (\<lambda>f. mc_channel_monitor_get f channel monitor) h value"

definition sdi_media_feature_support_status_get ::
    "res_hdl \<Rightarrow> (sdi_media_supported_feature, 'w sdi_sys) query" where
  "sdi_media_feature_support_status_get h feature_support = media_ask (\<lambda>f. mc_feature_support_status_get f) h feature_support"

definition sdi_media_read_generic ::
    "res_hdl \<Rightarrow> sdi_media_eeprom_addr \<Rightarrow> u32 \<Rightarrow> (u8 list, 'w sdi_sys) query" where
  "sdi_media_read_generic h addr data_len data = media_ask (\<lambda>f. mc_read_generic f addr data_len) h data"

definition sdi_media_write_generic ::
    "res_hdl \<Rightarrow> sdi_media_eeprom_addr \<Rightarrow> u32 \<Rightarrow> (u8 list, 'w sdi_sys) query" where
  "sdi_media_write_generic h addr data_len data = media_ask (\<lambda>f. mc_write_generic f addr data_len) h data"

definition sdi_media_read ::
    "res_hdl \<Rightarrow> u32 \<Rightarrow> u32 \<Rightarrow> (u8 list, 'w sdi_sys) query" where
  "sdi_media_read h offset data_len data = media_ask (\<lambda>f. mc_read f offset data_len) h data"

definition sdi_media_write ::
    "res_hdl \<Rightarrow> u32 \<Rightarrow> u32 \<Rightarrow> (u8 list, 'w sdi_sys) query" where
  "sdi_media_write h offset data_len data = media_ask (\<lambda>f. mc_write f offset data_len) h data"

definition sdi_media_module_init ::
    "res_hdl \<Rightarrow> bool \<Rightarrow> 'w sdi_sys action" where
  "sdi_media_module_init h pres = media_act (\<lambda>f. mc_module_init f pres) h"

definition sdi_media_ext_rate_select ::
    "res_hdl \<Rightarrow> u32 \<Rightarrow> sdi_media_fw_rev \<Rightarrow> bool \<Rightarrow> 'w sdi_sys action" where
  "sdi_media_ext_rate_select h channel fw_rev cdr_enable = media_act_opt (\<lambda>f. map_option (\<lambda>g. g channel fw_rev cdr_enable) (mc_ext_rate_select f)) h"

definition sdi_media_wavelength_set ::
    "res_hdl \<Rightarrow> c_float \<Rightarrow> 'w sdi_sys action" where
  "sdi_media_wavelength_set h value = media_act (\<lambda>f. mc_wavelength_set f value) h"

definition sdi_media_phy_autoneg_set ::
    "res_hdl \<Rightarrow> u32 \<Rightarrow> sdi_media_type \<Rightarrow> bool \<Rightarrow> 'w sdi_sys action" where
  "sdi_media_phy_autoneg_set h channel type enable = media_act (\<lambda>f. mc_phy_autoneg_set f channel type enable) h"

definition sdi_media_phy_mode_set ::
    "res_hdl \<Rightarrow> u32 \<Rightarrow> sdi_media_type \<Rightarrow> sdi_media_mode \<Rightarrow> 'w sdi_sys action" where
  "sdi_media_phy_mode_set h channel type mode = media_act (\<lambda>f. mc_phy_mode_set f channel type mode) h"

definition sdi_media_phy_link_status_get ::
    "res_hdl \<Rightarrow> u32 \<Rightarrow> sdi_media_type \<Rightarrow> (bool, 'w sdi_sys) query" where
  "sdi_media_phy_link_status_get h channel type status = media_ask (\<lambda>f. mc_phy_link_status_get f channel type) h status"

definition sdi_media_phy_power_down_enable ::
    "res_hdl \<Rightarrow> u32 \<Rightarrow> sdi_media_type \<Rightarrow> bool \<Rightarrow> 'w sdi_sys action" where
  "sdi_media_phy_power_down_enable h channel type enable = media_act (\<lambda>f. mc_phy_power_down_enable f channel type enable) h"

definition sdi_media_phy_serdes_control ::
    "res_hdl \<Rightarrow> u32 \<Rightarrow> sdi_media_type \<Rightarrow> bool \<Rightarrow> 'w sdi_sys action" where
  "sdi_media_phy_serdes_control h channel type enable = media_act (\<lambda>f. mc_phy_serdes_control f channel type enable) h"

definition sdi_media_qsa_adapter_type_get ::
    "res_hdl \<Rightarrow> (sdi_qsa_adapter_type, 'w sdi_sys) query" where
  "sdi_media_qsa_adapter_type_get h qsa_adapter = media_ask (\<lambda>f. mc_qsa_adapter_type_get f) h qsa_adapter"

text \<open>These two never reach the driver.\<close>

definition sdi_media_module_monitor_threshold_get :: "res_hdl \<Rightarrow> u32 \<Rightarrow> (u32, 'w sdi_sys) query" where
  "sdi_media_module_monitor_threshold_get h threshold_type value s = Some (STD_ERR_OK, value, s)"

definition sdi_media_channel_monitor_threshold_get :: "res_hdl \<Rightarrow> u32 \<Rightarrow> (u32, 'w sdi_sys) query" where
  "sdi_media_channel_monitor_threshold_get h threshold_type value s = Some (STD_ERR_OK, value, s)"

text \<open>The entry for the LED is not checked; a driver without one is called through a NULL pointer.\<close>

definition sdi_media_led_set ::
    "res_hdl \<Rightarrow> u32 \<Rightarrow> sdi_media_speed \<Rightarrow> 'w sdi_sys action" where
  "sdi_media_led_set h channel speed s =
     (let r = resource_heap s h
      in if res_type r \<noteq> SDI_RESOURCE_MEDIA then Some (SDI_ERRCODE EPERM, s)
         else do {
           f \<leftarrow> as_media (callback_fns r);
           g \<leftarrow> mc_led_set f;
           act (g channel speed) s
         })"

text \<open>The speeds are set one after the other; only the result of the last one is returned.\<close>

primrec media_phy_speed_loop ::
    "'w media_ctrl \<Rightarrow> u32 \<Rightarrow> sdi_media_type \<Rightarrow> sdi_media_speed list \<Rightarrow> t_std_error \<Rightarrow> 'w sdi_sys action" where
  "media_phy_speed_loop f channel type [] rc s = Some (rc, s)"
| "media_phy_speed_loop f channel type (speed # speeds) rc s = do {
     (rc, s) \<leftarrow> act (mc_phy_speed_set f channel type speed) s;
     media_phy_speed_loop f channel type speeds rc s
   }"

definition sdi_media_phy_speed_set ::
    "res_hdl \<Rightarrow> u32 \<Rightarrow> sdi_media_type \<Rightarrow> sdi_media_speed list \<Rightarrow> 'w sdi_sys action" where
  "sdi_media_phy_speed_set h channel type speed s =
     (let r = resource_heap s h
      in if res_type r \<noteq> SDI_RESOURCE_MEDIA then Some (SDI_ERRCODE EPERM, s)
         else do {
           f \<leftarrow> as_media (callback_fns r);
           media_phy_speed_loop f channel type speed STD_ERR_OK s
         })"

end
