(* ===== verification/Sfp.thy ===== *)
theory Sfp
  imports Sfp_Values Media_Api
begin

text \<open>
  The SFP driver, src/drivers/sdi\_sfp.c: presence, port LED, the callback table and the
  registration from the configuration file.
\<close>

section \<open>The device\<close>

record 'w sdi_media_led =
  led_bus_hdl :: "(u32, 'w) pin_bus option"
  led_bitmask :: u32
  led_1g_mode_value :: u32
  led_10g_mode_value :: u32

text \<open>\<open>port_led\<close> is None when port\_led\_control\_flag is false.\<close>

record 'w sfp_port = "'w sfp_device" +
  port_led :: "'w sdi_media_led option"
  sfp_max_port_power_mw :: int

definition SDI_SFP_LED_HIGH_VALUE :: u32 where "SDI_SFP_LED_HIGH_VALUE = 1"

text \<open>A pin of a group, read under the lock of the group.\<close>

definition pin_group_get ::
    "'w os \<Rightarrow> (u32, 'w) pin_bus option \<Rightarrow> 'w \<Rightarrow> (t_std_error \<times> u32 \<times> 'w) option" where
  "pin_group_get os hdl w = do {
     g \<leftarrow> hdl;
     (rc, w) \<leftarrow> sdi_pin_group_acquire_bus os g w;
     if rc \<noteq> STD_ERR_OK then Some (rc, 0, w)
     else do {
       (rc, value, w) \<leftarrow> sdi_pin_group_read_level g 0 w;
       w \<leftarrow> sdi_pin_group_release_bus os g w;
       Some (rc, value, w)
     }
   }"

definition sdi_sfp_presence_get :: "std_lib \<Rightarrow> 'w os \<Rightarrow> ('w, 'x) sfp_device_scheme \<Rightarrow> (bool, 'w) query" where
  "sdi_sfp_presence_get L os d pres w = do {
     (rc, value, w) \<leftarrow> pin_group_get os (mod_pres_hdl d) w;
     Some (rc, if rc = STD_ERR_OK then bit32_test L value (mod_pres_bitmask d) else pres, w)
   }"

definition led_value :: "std_lib \<Rightarrow> 'w sdi_media_led \<Rightarrow> u32 \<Rightarrow> u32 \<Rightarrow> u32" where
  "led_value L l mode_value value =
     (if mode_value = SDI_SFP_LED_HIGH_VALUE then bit32_set L value (led_bitmask l)
      else bit32_clear L value (led_bitmask l))"

definition sdi_sfp_led_set ::
    "std_lib \<Rightarrow> 'w os \<Rightarrow> ('w, 'x) sfp_port_scheme \<Rightarrow> u32 \<Rightarrow> sdi_media_speed \<Rightarrow> 'w action" where
  "sdi_sfp_led_set L os d channel speed w =
     (if channel \<noteq> SDI_SFP_CHANNEL_NUM then Some (SDI_DEVICE_ERRCODE EINVAL, w)
      else case port_led d of
        None \<Rightarrow> Some (SDI_DEVICE_ERRCODE EOPNOTSUPP, w)
      | Some l \<Rightarrow> do {
          g \<leftarrow> led_bus_hdl l;
          (rc, w) \<leftarrow> sdi_pin_group_acquire_bus os g w;
          if rc \<noteq> STD_ERR_OK then Some (rc, w)
          else do {
            (rc, value, w) \<leftarrow> sdi_pin_group_read_level g 0 w;
            (rc, w) \<leftarrow>
              (if rc \<noteq> STD_ERR_OK then Some (rc, w)
               else if speed = SDI_MEDIA_SPEED_1G
               then sdi_pin_group_write_level g (led_value L l (led_1g_mode_value l) value) w
               else if speed = SDI_MEDIA_SPEED_10G
               then sdi_pin_group_write_level g (led_value L l (led_10g_mode_value l) value) w
               else Some (SDI_DEVICE_ERRCODE EINVAL, w));
            w \<leftarrow> sdi_pin_group_release_bus os g w;
            Some (rc, w)
          }
        })"

definition sdi_sfp_module_info_get :: "(sdi_media_module_info, 'w) query" where
  "sdi_sfp_module_info_get module_info w = Some (STD_ERR_OK, module_info, w)"

definition sdi_sfp_port_info_get :: "(sdi_media_port_info, 'w) query" where
  "sdi_sfp_port_info_get port_info w = Some (STD_ERR_OK, port_info, w)"

section \<open>The callback table\<close>

text \<open>The results of the two unions, as the drivers of both modules write them.\<close>

definition sfp_descr_out ::
    "(sdi_sfp_transceiver_descr \<Rightarrow> 'w \<Rightarrow> (t_std_error \<times> sdi_sfp_transceiver_descr \<times> 'w) option)
      \<Rightarrow> (sdi_media_transceiver_descr, 'w) query" where
  "sfp_descr_out f d w = do {
     let none = sfp_transceiver_descr (replicate 8 0);
     (rc, x, w) \<leftarrow> f (case d of Sfp_Descr x \<Rightarrow> x | Qsfp_Descr _ \<Rightarrow> none) w;
     Some (rc, Sfp_Descr x, w)
   }"

definition sfp_features_out ::
    "(sdi_sfp_supported_feature, 'w) query \<Rightarrow> (sdi_media_supported_feature, 'w) query" where
  "sfp_features_out f x w = do {
     (rc, x, w) \<leftarrow> f (sfp_features x) w;
     Some (rc, Sfp_Features x, w)
   }"

definition sfp_media ::
    "std_lib \<Rightarrow> math_lib \<Rightarrow> 'w os \<Rightarrow> ('w, 'x) sfp_port_scheme \<Rightarrow> 'w media_ctrl" where
  "sfp_media L M os d = \<lparr>
     mc_presence_get = sdi_sfp_presence_get L os d,
     mc_module_init = sdi_sfp_module_init,
     mc_module_monitor_status_get = sdi_sfp_module_monitor_status_get L os d,
     mc_channel_monitor_status_get = sdi_sfp_channel_monitor_status_get L os d,
     mc_channel_status_get = sdi_sfp_channel_status_get L os d,
     mc_tx_control = sdi_sfp_tx_control L os d,
     mc_tx_control_status_get = sdi_sfp_tx_control_status_get L os d,
     mc_cdr_status_set = None,
     mc_cdr_status_get = None,
     mc_speed_get = sdi_sfp_speed_get d,
     mc_parameter_get = sdi_sfp_parameter_get os d,
     mc_vendor_info_get = sdi_sfp_vendor_info_get os d,
     mc_transceiver_code_get = sfp_descr_out (sdi_sfp_transceiver_code_get os d),
     mc_threshold_get = sdi_sfp_threshold_get L M os d,
     mc_module_monitor_threshold_get = sdi_sfp_module_monitor_threshold_get,
     mc_channel_monitor_threshold_get = sdi_sfp_channel_monitor_threshold_get,
     mc_module_control = None,
     mc_module_control_status_get = None,
     mc_module_monitor_get = sdi_sfp_module_monitor_get L M os d,
     mc_channel_monitor_get = sdi_sfp_channel_monitor_get L M os d,
     mc_feature_support_status_get = sfp_features_out (sdi_sfp_feature_support_status_get L os d),
     mc_led_set = Some (sdi_sfp_led_set L os d),
     mc_read = sdi_sfp_read os d,
     mc_write = sdi_sfp_write os d,
     mc_read_generic = sdi_sfp_read_generic os d,
     mc_write_generic = sdi_sfp_write_generic os d,
     mc_phy_autoneg_set = sdi_sfp_phy_autoneg_set os d,
     mc_phy_speed_set = sdi_sfp_phy_speed_set L os d,
     mc_phy_mode_set = sdi_sfp_phy_mode_set os d,
     mc_wavelength_set = sdi_sfp_wavelength_set L M os d,
     mc_phy_link_status_get = sdi_sfp_phy_link_status_get L os d,
     mc_phy_power_down_enable = sdi_sfp_phy_power_down_enable os d,
     mc_ext_rate_select = None,
     mc_phy_serdes_control = sdi_sfp_phy_serdes_control L os d,
     mc_qsa_adapter_type_get = sdi_sfp_qsa_adapter_type_get,
     mc_port_info_get = sdi_sfp_port_info_get,
     mc_module_info_get = sdi_sfp_module_info_get\<rparr>"

section \<open>Registration\<close>

text \<open>The two ways an attribute is read: it has to be there, or it has a default.\<close>

definition attr_num :: "config_node \<Rightarrow> string \<Rightarrow> nat \<Rightarrow> u32 option" where
  "attr_num node attr base = do {
     a \<leftarrow> std_config_attr_get node attr;
     Some (ucast (strtoul a base))
   }"

definition attr_num_or :: "config_node \<Rightarrow> string \<Rightarrow> nat \<Rightarrow> u32 \<Rightarrow> u32" where
  "attr_num_or node attr base v = (case attr_num node attr base of None \<Rightarrow> v | Some n \<Rightarrow> n)"

definition attr_group :: "'w sdi_env \<Rightarrow> config_node \<Rightarrow> string \<Rightarrow> (u32, 'w) pin_bus option option" where
  "attr_group E node attr = do {
     a \<leftarrow> std_config_attr_get node attr;
     Some (sdi_get_pin_group_bus_handle_by_name E a)
   }"

text \<open>The address, instance and name of a media device.\<close>

definition media_chip_new :: "string \<Rightarrow> config_node \<Rightarrow> 'w sdi_i2c_bus \<Rightarrow> 'w chip option" where
  "media_chip_new kind node bus_handle = do {
     a \<leftarrow> std_config_attr_get node ''addr'';
     inst_attr \<leftarrow> std_config_attr_get node ''instance'';
     let inst = ucast (strtoul inst_attr 0);
     Some \<lparr>chip_bus = bus_handle,
       chip_addr = \<lparr>i2c_addr = ucast (strtoul a 16), addr_mode_16bit = False\<rparr>,
       chip_instance = inst, chip_alias = snprintf SDI_MAX_NAME_LEN (kind @ decimal (unat inst))\<rparr>
   }"

text \<open>
  The selection of a module. \<open>base\<close> is the base of mod\_sel\_value and mod\_pres\_bitmask.
\<close>

definition media_sel_new ::
    "'w sdi_env \<Rightarrow> config_node \<Rightarrow> nat \<Rightarrow> 'w chip \<Rightarrow> 'w media_sel option" where
  "media_sel_new E node base chip = do {
     sel \<leftarrow> std_config_attr_get node ''mod_sel_bus'';
     let always = strncmp_eq sel ''module_always_enabled'' (length ''module_always_enabled'');
     sel_value \<leftarrow> (if always then Some 0 else attr_num node ''mod_sel_value'' base);
     pres \<leftarrow> attr_group E node ''mod_pres_bus'';
     pres_bitmask \<leftarrow> attr_num node ''mod_pres_bitmask'' base;
     Some \<lparr>media_chip = chip,
       mux_sel_hdl = (case attr_group E node ''mux_sel_bus'' of None \<Rightarrow> None | Some g \<Rightarrow> g),
       mux_sel_val = attr_num_or node ''mux_sel_value'' 0 0,
       mod_sel_hdl = (if always then None else sdi_get_pin_group_bus_handle_by_name E sel),
       mod_sel_val = sel_value,
       mod_pres_hdl = pres,
       mod_pres_bitmask = pres_bitmask\<rparr>
   }"

definition sfp_capability_of :: "config_node \<Rightarrow> sdi_media_speed" where
  "sfp_capability_of node =
     (if std_config_attr_get node ''port_type'' = Some ''SFP'' then SDI_MEDIA_SPEED_1G
      else if std_config_attr_get node ''port_type'' = Some ''SFP28'' then SDI_MEDIA_SPEED_25G
      else SDI_MEDIA_SPEED_10G)"

definition sfp_port_led_new :: "'w sdi_env \<Rightarrow> config_node \<Rightarrow> 'w sdi_media_led option option" where
  "sfp_port_led_new E node =
     (case std_config_attr_get node ''port_led_bus'' of
        None \<Rightarrow> Some None
      | Some a \<Rightarrow> do {
          b \<leftarrow> attr_num node ''port_led_bit_mask'' 16;
          v1 \<leftarrow> attr_num node ''port_led_1g_mode_value'' 16;
          v10 \<leftarrow> attr_num node ''port_led_10g_mode_value'' 16;
          Some (Some \<lparr>led_bus_hdl = sdi_get_pin_group_bus_handle_by_name E a, led_bitmask = b, led_1g_mode_value = v1, led_10g_mode_value = v10\<rparr>)
        })"

definition SDI_MEDIA_DEFAULT_SFP_MAX_PORT_POWER_MILLIWATTS :: u32 where
  "SDI_MEDIA_DEFAULT_SFP_MAX_PORT_POWER_MILLIWATTS = 2000"

definition sfp_data_new :: "'w sdi_env \<Rightarrow> config_node \<Rightarrow> 'w chip \<Rightarrow> 'w sfp_port option" where
  "sfp_data_new E node chip = do {
     sel \<leftarrow> media_sel_new E node 16 chip;
     tx \<leftarrow> attr_group E node ''mod_tx_control_bus'';
     tx_bitmask \<leftarrow> attr_num node ''mod_tx_control_bitmask'' 16;
     los \<leftarrow> attr_group E node ''mod_rx_los_bus'';
     los_bitmask \<leftarrow> attr_num node ''mod_rx_los_bitmask'' 16;
     fault \<leftarrow> attr_group E node ''mod_tx_fault_bus'';
     fault_bitmask \<leftarrow> attr_num node ''mod_tx_fault_bitmask'' 16;
     led \<leftarrow> sfp_port_led_new E node;
     Some (media_sel.extend sel \<lparr>mod_tx_control_hdl = tx, mod_tx_control_bitmask = tx_bitmask,
       mod_sfp_rx_los_hdl = los, mod_sfp_rx_los_bitmask = los_bitmask,
       mod_sfp_tx_fault_hdl = fault, mod_sfp_tx_fault_bitmask = fault_bitmask,
       sfp_capability = sfp_capability_of node, port_led = led,
       sfp_max_port_power_mw = sint (attr_num_or node ''max_port_power_mw'' 0
         SDI_MEDIA_DEFAULT_SFP_MAX_PORT_POWER_MILLIWATTS)\<rparr>)
   }"

definition sdi_sfp_register ::
    "'w sdi_env \<Rightarrow> math_lib \<Rightarrow> config_node \<Rightarrow> 'w sdi_i2c_bus \<Rightarrow> 'w sdi_sys
      \<Rightarrow> (t_std_error \<times> 'w chip \<times> 'w sdi_sys) option" where
  "sdi_sfp_register E M node bus_handle s = do {
     STD_ASSERT (bus_type (bus bus_handle) = SDI_I2C_BUS);
     chip \<leftarrow> media_chip_new ''sfp-'' node bus_handle;
     d \<leftarrow> sfp_data_new E node chip;
     Some (STD_ERR_OK, chip, sdi_resource_add (env_lib E) SDI_RESOURCE_MEDIA (chip_alias chip)
       (Media_Fns (sfp_media (env_lib E) M (env_os E) d)) s)
   }"

definition sdi_sfp_init :: "'w chip \<Rightarrow> 'w sdi_sys \<Rightarrow> (t_std_error \<times> 'w sdi_sys) option" where
  "sdi_sfp_init device_hdl s = Some (STD_ERR_OK, s)"

end
