(* ===== verification/Qsfp_Eeprom.thy ===== *)
theory Qsfp_Eeprom
  imports Sfp
begin

text \<open>
  The EEPROM of QSFP modules, src/drivers/sdi\_qsfp\_eeprom.c: the tables, the pages, the optional
  features, and the status and control calls. The private data of the device changes only in
  sdi\_qsfp\_module\_init; the other functions take it as an argument. When a QSA adapter is plugged
  in, most calls are those of the SFP driver on the SFP device inside.
\<close>

section \<open>Data\<close>

datatype qsfp_category = SDI_CATEGORY_QSFP | SDI_CATEGORY_QSFPPLUS | SDI_CATEGORY_QSFP28 | SDI_CATEGORY_QSFPDD

text \<open>
  \<open>qsfp_delay\<close> and \<open>qsa_sfp_device\<close> are the members delay and sfp\_device.
\<close>

record 'w qsfp_device = "'w media_sel" +
  mod_reset_hdl :: "(u32, 'w) pin_bus option"
  mod_reset_bitmask :: u32
  mod_reset_delay_ms :: u32
  mod_lpmode_hdl :: "(u32, 'w) pin_bus option"
  mod_lpmode_bitmask :: u32
  qsfp_delay :: u32
  mod_type :: sdi_media_type
  qsa_sfp_device :: "'w sfp_device option"
  mod_category :: qsfp_category
  qsfp_capability :: sdi_media_speed
  module_info :: sdi_media_module_info
  port_info :: sdi_media_port_info
  eeprom_version :: u32

definition QSFP28_DD_EEPROM_VERSION_2 :: u32 where "QSFP28_DD_EEPROM_VERSION_2 = 0x20"
definition QSFP28_DD_EEPROM_VERSION_3 :: u32 where "QSFP28_DD_EEPROM_VERSION_3 = 0x30"

section \<open>Register tables\<close>

text \<open>Offset and size in bytes; (0, 0) is not supported.\<close>

fun qsfp_param_reg_info :: "sdi_media_param_type \<Rightarrow> u32 \<times> nat" where
  "qsfp_param_reg_info SDI_MEDIA_WAVELENGTH = (QSFP_WAVELENGTH_OFFSET, 2)"
| "qsfp_param_reg_info SDI_MEDIA_WAVELENGTH_TOLERANCE = (QSFP_WAVELENGTH_TOLERANCE_OFFSET, 2)"
| "qsfp_param_reg_info SDI_MEDIA_MAX_CASE_TEMP = (QSFP_MAX_CASE_TEMP_OFFSET, 1)"
| "qsfp_param_reg_info SDI_MEDIA_CC_BASE = (QSFP_CC_BASE_OFFSET, 1)"
| "qsfp_param_reg_info SDI_MEDIA_CC_EXT = (QSFP_CC_EXT_OFFSET, 1)"
| "qsfp_param_reg_info SDI_MEDIA_CONNECTOR = (QSFP_CONNECTOR_OFFSET, 1)"
| "qsfp_param_reg_info SDI_MEDIA_ENCODING_TYPE = (QSFP_ENCODING_TYPE_OFFSET, 1)"
| "qsfp_param_reg_info SDI_MEDIA_NM_BITRATE = (QSFP_NM_BITRATE_OFFSET, 1)"
| "qsfp_param_reg_info SDI_MEDIA_IDENTIFIER = (QSFP_IDENTIFIER_OFFSET, 1)"
| "qsfp_param_reg_info SDI_MEDIA_EXT_IDENTIFIER = (QSFP_EXT_IDENTIFIER_OFFSET, 1)"
| "qsfp_param_reg_info SDI_MEDIA_LENGTH_SMF_KM = (QSFP_LENGTH_SMF_KM_OFFSET, 1)"
| "qsfp_param_reg_info SDI_MEDIA_LENGTH_OM1 = (QSFP_LENGTH_OM1_OFFSET, 1)"
| "qsfp_param_reg_info SDI_MEDIA_LENGTH_OM2 = (QSFP_LENGTH_OM2_OFFSET, 1)"
| "qsfp_param_reg_info SDI_MEDIA_LENGTH_OM3 = (QSFP_LENGTH_OM3_OFFSET, 1)"
| "qsfp_param_reg_info SDI_MEDIA_LENGTH_CABLE_ASSEMBLY = (QSFP_LENGTH_CABLE_ASSEMBLY_OFFSET, 1)"
| "qsfp_param_reg_info SDI_MEDIA_LENGTH_SMF = (0, 0)"
| "qsfp_param_reg_info SDI_MEDIA_OPTIONS = (QSFP_OPTIONS1_OFFSET, 4)"
| "qsfp_param_reg_info SDI_MEDIA_ENHANCED_OPTIONS = (QSFP_ENHANCED_OPTIONS_OFFSET, 1)"
| "qsfp_param_reg_info SDI_MEDIA_DIAG_MON_TYPE = (QSFP_DIAG_MON_TYPE_OFFSET, 1)"
| "qsfp_param_reg_info SDI_MEDIA_DEVICE_TECH = (QSFP_DEVICE_TECH_OFFSET, 1)"
| "qsfp_param_reg_info SDI_FREE_SIDE_DEV_PROP = (QSFP_FREE_SIDE_DEV_PROP_OFFSET, 1)"
| "qsfp_param_reg_info _ = (0, 0)"

text \<open>
  The table of revision 3 of a double density module has no entry for the last parameter; looking
  it up reads behind the table.
\<close>

fun qsfp28_dd_r3_param_reg_info :: "sdi_media_param_type \<Rightarrow> (u32 \<times> nat) option" where
  "qsfp28_dd_r3_param_reg_info SDI_MEDIA_CONNECTOR = Some (QSFP28_DD_R3_CONNECTOR_OFFSET, 1)"
| "qsfp28_dd_r3_param_reg_info SDI_MEDIA_IDENTIFIER = Some (QSFP28_DD_R3_IDENTIFIER_OFFSET, 1)"
| "qsfp28_dd_r3_param_reg_info SDI_MEDIA_LENGTH_CABLE_ASSEMBLY =
     Some (QSFP28_DD_R3_LENGTH_CABLE_ASSEMBLY_OFFSET, 1)"
| "qsfp28_dd_r3_param_reg_info SDI_TUNE_WAVELENGTH_PICO_METERS = None"
| "qsfp28_dd_r3_param_reg_info _ = Some (0, 0)"

text \<open>Offset, size and whether the field is printable.\<close>

fun qsfp_vendor_reg_info :: "sdi_media_vendor_info_type \<Rightarrow> u32 \<times> nat \<times> bool" where
  "qsfp_vendor_reg_info SDI_MEDIA_VENDOR_NAME = (QSFP_VENDOR_NAME_OFFSET, 17, True)"
| "qsfp_vendor_reg_info SDI_MEDIA_VENDOR_OUI = (QSFP_VENDOR_OUI_OFFSET, 4, False)"
| "qsfp_vendor_reg_info SDI_MEDIA_VENDOR_SN = (QSFP_VENDOR_SN_OFFSET, 17, True)"
| "qsfp_vendor_reg_info SDI_MEDIA_VENDOR_DATE = (QSFP_VENDOR_DATE_OFFSET, 9, True)"
| "qsfp_vendor_reg_info SDI_MEDIA_VENDOR_PN = (QSFP_VENDOR_PN_OFFSET, 17, True)"
| "qsfp_vendor_reg_info SDI_MEDIA_VENDOR_REVISION = (QSFP_VENDOR_REVISION_OFFSET, 3, True)"

fun qsfp28_dd_r3_vendor_reg_info :: "sdi_media_vendor_info_type \<Rightarrow> u32 \<times> nat \<times> bool" where
  "qsfp28_dd_r3_vendor_reg_info SDI_MEDIA_VENDOR_NAME = (QSFP28_DD_R3_VENDOR_NAME_OFFSET, 17, True)"
| "qsfp28_dd_r3_vendor_reg_info SDI_MEDIA_VENDOR_OUI = (QSFP28_DD_R3_VENDOR_OUI_OFFSET, 4, False)"
| "qsfp28_dd_r3_vendor_reg_info SDI_MEDIA_VENDOR_SN = (QSFP28_DD_R3_VENDOR_SN_OFFSET, 17, True)"
| "qsfp28_dd_r3_vendor_reg_info SDI_MEDIA_VENDOR_DATE = (QSFP28_DD_R3_VENDOR_DATE_OFFSET, 9, True)"
| "qsfp28_dd_r3_vendor_reg_info SDI_MEDIA_VENDOR_PN = (QSFP28_DD_R3_VENDOR_PN_OFFSET, 17, True)"
| "qsfp28_dd_r3_vendor_reg_info SDI_MEDIA_VENDOR_REVISION = (QSFP28_DD_R3_VENDOR_REVISION_OFFSET, 3, True)"

text \<open>Offsets of the thresholds; 0 is not supported.\<close>

fun qsfp_threshold_reg_info :: "sdi_media_threshold_type \<Rightarrow> u32" where
  "qsfp_threshold_reg_info SDI_MEDIA_TEMP_HIGH_ALARM_THRESHOLD = QSFP_TEMP_HIGH_ALARM_THRESHOLD_OFFSET"
| "qsfp_threshold_reg_info SDI_MEDIA_TEMP_LOW_ALARM_THRESHOLD = QSFP_TEMP_LOW_ALARM_THRESHOLD_OFFSET"
| "qsfp_threshold_reg_info SDI_MEDIA_TEMP_HIGH_WARNING_THRESHOLD = QSFP_TEMP_HIGH_WARNING_THRESHOLD_OFFSET"
| "qsfp_threshold_reg_info SDI_MEDIA_TEMP_LOW_WARNING_THRESHOLD = QSFP_TEMP_LOW_WARNING_THRESHOLD_OFFSET"
| "qsfp_threshold_reg_info SDI_MEDIA_VOLT_HIGH_ALARM_THRESHOLD = QSFP_VOLT_HIGH_ALARM_THRESHOLD_OFFSET"
| "qsfp_threshold_reg_info SDI_MEDIA_VOLT_LOW_ALARM_THRESHOLD = QSFP_VOLT_LOW_ALARM_THRESHOLD_OFFSET"
| "qsfp_threshold_reg_info SDI_MEDIA_VOLT_HIGH_WARNING_THRESHOLD = QSFP_VOLT_HIGH_WARNING_THRESHOLD_OFFSET"
| "qsfp_threshold_reg_info SDI_MEDIA_VOLT_LOW_WARNING_THRESHOLD = QSFP_VOLT_LOW_WARNING_THRESHOLD_OFFSET"
| "qsfp_threshold_reg_info SDI_MEDIA_RX_PWR_HIGH_ALARM_THRESHOLD = QSFP_RX_PWR_HIGH_ALARM_THRESHOLD_OFFSET"
| "qsfp_threshold_reg_info SDI_MEDIA_RX_PWR_LOW_ALARM_THRESHOLD = QSFP_RX_PWR_LOW_ALARM_THRESHOLD_OFFSET"
| "qsfp_threshold_reg_info SDI_MEDIA_RX_PWR_HIGH_WARNING_THRESHOLD = QSFP_RX_PWR_HIGH_WARNING_THRESHOLD_OFFSET"
| "qsfp_threshold_reg_info SDI_MEDIA_RX_PWR_LOW_WARNING_THRESHOLD = QSFP_RX_PWR_LOW_WARNING_THRESHOLD_OFFSET"
| "qsfp_threshold_reg_info SDI_MEDIA_TX_BIAS_HIGH_ALARM_THRESHOLD = QSFP_TX_BIAS_HIGH_ALARM_THRESHOLD_OFFSET"
| "qsfp_threshold_reg_info SDI_MEDIA_TX_BIAS_LOW_ALARM_THRESHOLD = QSFP_TX_BIAS_LOW_ALARM_THRESHOLD_OFFSET"
| "qsfp_threshold_reg_info SDI_MEDIA_TX_BIAS_HIGH_WARNING_THRESHOLD = QSFP_TX_BIAS_HIGH_WARNING_THRESHOLD_OFFSET"
| "qsfp_threshold_reg_info SDI_MEDIA_TX_BIAS_LOW_WARNING_THRESHOLD = QSFP_TX_BIAS_LOW_WARNING_THRESHOLD_OFFSET"
| "qsfp_threshold_reg_info _ = 0"

fun qsfp28_dd_r3_threshold_reg_info :: "sdi_media_threshold_type \<Rightarrow> u32" where
  "qsfp28_dd_r3_threshold_reg_info SDI_MEDIA_TEMP_HIGH_ALARM_THRESHOLD = QSFP28_DD_R3_TEMP_HIGH_ALARM_THRESHOLD_OFFSET"
| "qsfp28_dd_r3_threshold_reg_info SDI_MEDIA_TEMP_LOW_ALARM_THRESHOLD = QSFP28_DD_R3_TEMP_LOW_ALARM_THRESHOLD_OFFSET"
| "qsfp28_dd_r3_threshold_reg_info SDI_MEDIA_TEMP_HIGH_WARNING_THRESHOLD = QSFP28_DD_R3_TEMP_HIGH_WARNING_THRESHOLD_OFFSET"
| "qsfp28_dd_r3_threshold_reg_info SDI_MEDIA_TEMP_LOW_WARNING_THRESHOLD = QSFP28_DD_R3_TEMP_LOW_WARNING_THRESHOLD_OFFSET"
| "qsfp28_dd_r3_threshold_reg_info SDI_MEDIA_VOLT_HIGH_ALARM_THRESHOLD = QSFP28_DD_R3_VOLT_HIGH_ALARM_THRESHOLD_OFFSET"
| "qsfp28_dd_r3_threshold_reg_info SDI_MEDIA_VOLT_LOW_ALARM_THRESHOLD = QSFP28_DD_R3_VOLT_LOW_ALARM_THRESHOLD_OFFSET"
| "qsfp28_dd_r3_threshold_reg_info SDI_MEDIA_VOLT_HIGH_WARNING_THRESHOLD = QSFP28_DD_R3_VOLT_HIGH_WARNING_THRESHOLD_OFFSET"
| "qsfp28_dd_r3_threshold_reg_info SDI_MEDIA_VOLT_LOW_WARNING_THRESHOLD = QSFP28_DD_R3_VOLT_LOW_WARNING_THRESHOLD_OFFSET"
| "qsfp28_dd_r3_threshold_reg_info SDI_MEDIA_RX_PWR_HIGH_ALARM_THRESHOLD = QSFP28_DD_R3_RX_PWR_HIGH_ALARM_THRESHOLD_OFFSET"
| "qsfp28_dd_r3_threshold_reg_info SDI_MEDIA_RX_PWR_LOW_ALARM_THRESHOLD = QSFP28_DD_R3_RX_PWR_LOW_ALARM_THRESHOLD_OFFSET"
| "qsfp28_dd_r3_threshold_reg_info SDI_MEDIA_RX_PWR_HIGH_WARNING_THRESHOLD = QSFP28_DD_R3_RX_PWR_HIGH_WARNING_THRESHOLD_OFFSET"
| "qsfp28_dd_r3_threshold_reg_info SDI_MEDIA_RX_PWR_LOW_WARNING_THRESHOLD = QSFP28_DD_R3_RX_PWR_LOW_WARNING_THRESHOLD_OFFSET"
| "qsfp28_dd_r3_threshold_reg_info SDI_MEDIA_TX_BIAS_HIGH_ALARM_THRESHOLD = QSFP28_DD_R3_TX_BIAS_HIGH_ALARM_THRESHOLD_OFFSET"
| "qsfp28_dd_r3_threshold_reg_info SDI_MEDIA_TX_BIAS_LOW_ALARM_THRESHOLD = QSFP28_DD_R3_TX_BIAS_LOW_ALARM_THRESHOLD_OFFSET"
| "qsfp28_dd_r3_threshold_reg_info SDI_MEDIA_TX_BIAS_HIGH_WARNING_THRESHOLD = QSFP28_DD_R3_TX_BIAS_HIGH_WARNING_THRESHOLD_OFFSET"
| "qsfp28_dd_r3_threshold_reg_info SDI_MEDIA_TX_BIAS_LOW_WARNING_THRESHOLD = QSFP28_DD_R3_TX_BIAS_LOW_WARNING_THRESHOLD_OFFSET"
| "qsfp28_dd_r3_threshold_reg_info SDI_MEDIA_TX_PWR_HIGH_ALARM_THRESHOLD = QSFP28_DD_R3_TX_PWR_HIGH_ALARM_THRESHOLD_OFFSET"
| "qsfp28_dd_r3_threshold_reg_info SDI_MEDIA_TX_PWR_LOW_ALARM_THRESHOLD = QSFP28_DD_R3_TX_PWR_LOW_ALARM_THRESHOLD_OFFSET"
| "qsfp28_dd_r3_threshold_reg_info SDI_MEDIA_TX_PWR_HIGH_WARNING_THRESHOLD = QSFP28_DD_R3_TX_PWR_HIGH_WARNING_THRESHOLD_OFFSET"
| "qsfp28_dd_r3_threshold_reg_info SDI_MEDIA_TX_PWR_LOW_WARNING_THRESHOLD = QSFP28_DD_R3_TX_PWR_LOW_WARNING_THRESHOLD_OFFSET"

section \<open>Selection and pages\<close>

text \<open>MILLI\_TO\_MICRO of the base library multiplies by 1000.\<close>

definition MILLI_TO_MICRO :: "u32 \<Rightarrow> nat" where "MILLI_TO_MICRO x = unat (x * 1000)"

text \<open>Most functions wait after the selection.\<close>

definition qsfp_wait :: "'w os \<Rightarrow> ('w, 'x) qsfp_device_scheme \<Rightarrow> 'w \<Rightarrow> 'w" where
  "qsfp_wait os d w = std_usleep os (MILLI_TO_MICRO (qsfp_delay d)) w"

definition with_qsfp ::
    "'w os \<Rightarrow> ('w, 'x) qsfp_device_scheme \<Rightarrow> 'a \<Rightarrow> ('w \<Rightarrow> (t_std_error \<times> 'a \<times> 'w) option) \<Rightarrow> 'w
      \<Rightarrow> (t_std_error \<times> 'a \<times> 'w) option" where
  "with_qsfp os d x f = with_module os d x (\<lambda>w. f (qsfp_wait os d w))"

definition with_qsfp_do ::
    "'w os \<Rightarrow> ('w, 'x) qsfp_device_scheme \<Rightarrow> 'w action \<Rightarrow> 'w action" where
  "with_qsfp_do os d f = with_module_do os d (\<lambda>w. f (qsfp_wait os d w))"

definition sdi_qsfp_validate_channel :: "u32 \<Rightarrow> qsfp_category \<Rightarrow> bool" where
  "sdi_qsfp_validate_channel channel category \<longleftrightarrow>
     (if category = SDI_CATEGORY_QSFPDD then channel \<le> 7 else channel \<le> 3)"

text \<open>
  One bit of a group, changed under the lock of the group; \<open>usec\<close> is the time to wait before the
  lock is given back.
\<close>

definition pin_group_set_bit ::
    "std_lib \<Rightarrow> 'w os \<Rightarrow> (u32, 'w) pin_bus option \<Rightarrow> u32 \<Rightarrow> bool \<Rightarrow> nat option \<Rightarrow> 'w action" where
  "pin_group_set_bit L os hdl bitmask b usec w = do {
     g \<leftarrow> hdl;
     (rc, w) \<leftarrow> sdi_pin_group_acquire_bus os g w;
     if rc \<noteq> STD_ERR_OK then Some (rc, w)
     else do {
       (rc, value, w) \<leftarrow> sdi_pin_group_read_level g 0 w;
       (rc, w) \<leftarrow> (if rc \<noteq> STD_ERR_OK then Some (rc, w) else do {
         (rc, w) \<leftarrow> sdi_pin_group_write_level g
           (if b then bit32_set L value bitmask else bit32_clear L value bitmask) w;
         Some (rc, case usec of None \<Rightarrow> w | Some n \<Rightarrow> if rc \<noteq> STD_ERR_OK then w else std_usleep os n w)
       });
       w \<leftarrow> sdi_pin_group_release_bus os g w;
       Some (rc, w)
     }
   }"

definition sdi_qsfp_page_select :: "std_lib \<Rightarrow> 'w chip \<Rightarrow> u32 \<Rightarrow> 'w action" where
  "sdi_qsfp_page_select L c page_num w = do {
     (rc, buf, w) \<leftarrow> media_read c (chip_addr c) QSFP_STATUS_INDICATOR_OFFSET 0 w;
     if rc \<noteq> STD_ERR_OK then Some (rc, w)
     else if bit8_test L buf QSFP_FLAT_MEM_BIT_OFFSET then Some (SDI_DEVICE_ERRCODE ENOTSUP, w)
     else media_write c (chip_addr c) QSFP_PAGE_SELECT_BYTE_OFFSET (ucast page_num) w
   }"

section \<open>Optional features\<close>

definition sdi_is_tx_control_supported :: "std_lib \<Rightarrow> 'w chip \<Rightarrow> 'w \<Rightarrow> (t_std_error \<times> bool \<times> 'w) option" where
  "sdi_is_tx_control_supported L c = media_bit_get L c QSFP_OPTIONS4_OFFSET QSFP_TX_DISABLE_BIT_OFFSET"

text \<open>The two bits of the result say which of the two circuits can be controlled.\<close>

definition cdr_tx_flag :: u32 where "cdr_tx_flag = push_bit (unat QSFP_TX_CDR_CONTROL_BIT_OFFSET) 1"
definition cdr_rx_flag :: u32 where "cdr_rx_flag = push_bit (unat QSFP_RX_CDR_CONTROL_BIT_OFFSET) 1"

definition sdi_is_cdr_control_supported :: "std_lib \<Rightarrow> 'w chip \<Rightarrow> 'w \<Rightarrow> (t_std_error \<times> u32 \<times> 'w) option" where
  "sdi_is_cdr_control_supported L c w = do {
     (rc, buf, w) \<leftarrow> media_read c (chip_addr c) QSFP_OPTIONS3_OFFSET 0 w;
     if rc \<noteq> STD_ERR_OK then Some (rc, 0, w)
     else Some (rc, raise_if (bit8_test L buf QSFP_RX_CDR_CONTROL_BIT_OFFSET) cdr_rx_flag
       (raise_if (bit8_test L buf QSFP_TX_CDR_CONTROL_BIT_OFFSET) cdr_tx_flag 0), w)
   }"

definition sdi_is_paging_supported :: "std_lib \<Rightarrow> 'w chip \<Rightarrow> 'w \<Rightarrow> (t_std_error \<times> bool \<times> 'w) option" where
  "sdi_is_paging_supported L c w = do {
     (rc, buf, w) \<leftarrow> media_read c (chip_addr c) QSFP_STATUS_INDICATOR_OFFSET 0 w;
     if rc \<noteq> STD_ERR_OK then Some (rc, False, w)
     else Some (rc, \<not> bit8_test L buf QSFP_FLAT_MEM_BIT_OFFSET, w)
   }"

definition qsfp_is_rate_select_supported :: "std_lib \<Rightarrow> 'w chip \<Rightarrow> 'w \<Rightarrow> (t_std_error \<times> bool \<times> 'w) option" where
  "qsfp_is_rate_select_supported L c = media_bit_get L c QSFP_OPTIONS4_OFFSET QSFP_RATE_SELECT_BIT_OFFSET"

text \<open>
  Page 0 is selected first when there are pages. Failures on the way to it are only logged.
\<close>

definition qsfp_default_page_if_paged :: "std_lib \<Rightarrow> 'w chip \<Rightarrow> 'w action" where
  "qsfp_default_page_if_paged L c w = do {
     (rc, paging_support, w) \<leftarrow> sdi_is_paging_supported L c w;
     if rc = STD_ERR_OK \<and> paging_support then sdi_qsfp_page_select L c (ucast SDI_MEDIA_PAGE_DEFAULT) w
     else Some (STD_ERR_OK, w)
   }"

definition sdi_is_software_controlled_power_mode_supported ::
    "std_lib \<Rightarrow> 'w chip \<Rightarrow> 'w \<Rightarrow> (t_std_error \<times> bool \<times> 'w) option" where
  "sdi_is_software_controlled_power_mode_supported L c w = do {
     (_, w) \<leftarrow> qsfp_default_page_if_paged L c w;
     (rc, buf, w) \<leftarrow> media_read c (chip_addr c) QSFP_EXT_IDENTIFIER_OFFSET 0 w;
     if rc \<noteq> STD_ERR_OK then Some (rc, False, w)
     else Some (rc, buf AND 0x03 \<noteq> 0, w)
   }"

text \<open>Each flag is cleared before it is determined; a failure ends the function.\<close>

definition qsfp_features_get ::
    "std_lib \<Rightarrow> 'w chip \<Rightarrow> (sdi_qsfp_supported_feature, 'w) query" where
  "qsfp_features_get L c f w = do {
     (rc, b, w) \<leftarrow> sdi_is_tx_control_supported L c w;
     let f = f\<lparr>tx_control_support_status := b\<rparr>;
     if rc \<noteq> STD_ERR_OK then Some (rc, f, w)
     else do {
       (rc, b, w) \<leftarrow> sdi_is_paging_supported L c w;
       let f = f\<lparr>paging_support_status := b\<rparr>;
       if rc \<noteq> STD_ERR_OK then Some (rc, f, w)
       else do {
         (rc, b, w) \<leftarrow> qsfp_is_rate_select_supported L c w;
         let f = f\<lparr>qsfp_rate_select_status := b\<rparr>;
         if rc \<noteq> STD_ERR_OK then Some (rc, f, w)
         else do {
           (rc, b, w) \<leftarrow> sdi_is_software_controlled_power_mode_supported L c w;
           Some (rc, f\<lparr>software_controlled_power_mode_status := b\<rparr>, w)
         }
       }
     }
   }"

definition sdi_qsfp_feature_support_status_get ::
    "std_lib \<Rightarrow> 'w os \<Rightarrow> ('w, 'x) qsfp_device_scheme \<Rightarrow> (sdi_media_supported_feature, 'w) query" where
  "sdi_qsfp_feature_support_status_get L os d feature_support w =
     (if mod_type d = QSFP_QSA_ADAPTER then do {
        s \<leftarrow> qsa_sfp_device d;
        sfp_features_out (sdi_sfp_feature_support_status_get L os s) feature_support w
      } else do {
        (rc, f, w) \<leftarrow> with_qsfp os d (qsfp_features feature_support)
          (qsfp_features_get L (media_chip d) (qsfp_features feature_support)) w;
        Some (rc, Qsfp_Features f, w)
      })"

section \<open>Alarms and warnings\<close>

text \<open>The register of one kind of module or of the other.\<close>

definition dd_offset :: "('w, 'x) qsfp_device_scheme \<Rightarrow> u32 \<Rightarrow> u32 \<Rightarrow> u32" where
  "dd_offset d dd other = (if mod_category d = SDI_CATEGORY_QSFPDD then dd else other)"

definition qsfp_module_status :: "u8 \<Rightarrow> u8 \<Rightarrow> u32 \<Rightarrow> u32" where
  "qsfp_module_status temp_status_buf volt_status_buf status =
     (raise_first (volt_status_buf AND QSFP_VOLT_HIGH_WARNING_FLAG \<noteq> 0) SDI_MEDIA_STATUS_VOLT_HIGH_WARNING
        (volt_status_buf AND QSFP_VOLT_LOW_WARNING_FLAG \<noteq> 0) SDI_MEDIA_STATUS_VOLT_LOW_WARNING
     (raise_first (volt_status_buf AND QSFP_VOLT_HIGH_ALARM_FLAG \<noteq> 0) SDI_MEDIA_STATUS_VOLT_HIGH_ALARM
        (volt_status_buf AND QSFP_VOLT_LOW_ALARM_FLAG \<noteq> 0) SDI_MEDIA_STATUS_VOLT_LOW_ALARM
     (raise_first (temp_status_buf AND QSFP_TEMP_HIGH_WARNING_FLAG \<noteq> 0) SDI_MEDIA_STATUS_TEMP_HIGH_WARNING
        (temp_status_buf AND QSFP_TEMP_LOW_WARNING_FLAG \<noteq> 0) SDI_MEDIA_STATUS_TEMP_LOW_WARNING
     (raise_first (temp_status_buf AND QSFP_TEMP_HIGH_ALARM_FLAG \<noteq> 0) SDI_MEDIA_STATUS_TEMP_HIGH_ALARM
        (temp_status_buf AND QSFP_TEMP_LOW_ALARM_FLAG \<noteq> 0) SDI_MEDIA_STATUS_TEMP_LOW_ALARM status))))"

text \<open>The two bytes of flags, each read only on demand.\<close>

definition qsfp_two_flags_read ::
    "'w chip \<Rightarrow> bool \<Rightarrow> u32 \<Rightarrow> bool \<Rightarrow> u32 \<Rightarrow> 'w \<Rightarrow> (t_std_error \<times> (u8 \<times> u8) \<times> 'w) option" where
  "qsfp_two_flags_read c b1 offset1 b2 offset2 w = do {
     (rc, buf1, w) \<leftarrow> media_read_if b1 c (chip_addr c) offset1 0 w;
     if rc \<noteq> STD_ERR_OK then Some (rc, (buf1, 0), w)
     else do {
       (rc, buf2, w) \<leftarrow> media_read_if b2 c (chip_addr c) offset2 0 w;
       Some (rc, (buf1, buf2), w)
     }
   }"

definition sdi_qsfp_module_monitor_status_get ::
    "std_lib \<Rightarrow> 'w os \<Rightarrow> ('w, 'x) qsfp_device_scheme \<Rightarrow> u32 \<Rightarrow> (u32, 'w) query" where
  "sdi_qsfp_module_monitor_status_get L os d flags status w =
     (if mod_type d = QSFP_QSA_ADAPTER then do {
        s \<leftarrow> qsa_sfp_device d;
        sdi_sfp_module_monitor_status_get L os s flags status w
      } else do {
        (rc, (temp_status_buf, volt_status_buf), w) \<leftarrow> with_qsfp os d (0, 0) (qsfp_two_flags_read (media_chip d)
          (flags AND (SDI_MEDIA_STATUS_TEMP_HIGH_ALARM OR SDI_MEDIA_STATUS_TEMP_LOW_ALARM OR
             SDI_MEDIA_STATUS_TEMP_HIGH_WARNING OR SDI_MEDIA_STATUS_TEMP_LOW_WARNING) \<noteq> 0)
          (dd_offset d QSFP_DD_TEMP_INTERRUPT_OFFSET QSFP_TEMP_INTERRUPT_OFFSET)
          (flags AND (SDI_MEDIA_STATUS_VOLT_HIGH_ALARM OR SDI_MEDIA_STATUS_VOLT_LOW_ALARM OR
             SDI_MEDIA_STATUS_VOLT_HIGH_WARNING OR SDI_MEDIA_STATUS_VOLT_LOW_WARNING) \<noteq> 0)
          (dd_offset d QSFP_DD_VOLT_INTERRUPT_OFFSET QSFP_VOLT_INTERRUPT_OFFSET)) w;
        Some (rc, if rc = STD_ERR_OK then qsfp_module_status temp_status_buf volt_status_buf status else status, w)
      })"

text \<open>Each byte holds the flags of two channels, and both are tested.\<close>

definition qsfp_channel_status :: "u8 \<Rightarrow> u8 \<Rightarrow> u32 \<Rightarrow> u32" where
  "qsfp_channel_status rx_pwr_buf tx_bias_buf status =
     (raise_first
        (tx_bias_buf AND (QSFP_TX13_BIAS_HIGH_WARNING_FLAG OR QSFP_TX24_BIAS_HIGH_WARNING_FLAG) \<noteq> 0)
        SDI_MEDIA_TX_BIAS_HIGH_WARNING
        (tx_bias_buf AND (QSFP_TX13_BIAS_LOW_WARNING_FLAG OR QSFP_TX24_BIAS_LOW_WARNING_FLAG) \<noteq> 0)
        SDI_MEDIA_TX_BIAS_LOW_WARNING
     (raise_first
        (tx_bias_buf AND (QSFP_TX13_BIAS_HIGH_ALARM_FLAG OR QSFP_TX24_BIAS_HIGH_ALARM_FLAG) \<noteq> 0)
        SDI_MEDIA_TX_BIAS_HIGH_ALARM
        (tx_bias_buf AND (QSFP_TX13_BIAS_LOW_ALARM_FLAG OR QSFP_TX24_BIAS_LOW_ALARM_FLAG) \<noteq> 0)
        SDI_MEDIA_TX_BIAS_LOW_ALARM
     (raise_first
        (rx_pwr_buf AND (QSFP_RX13_POWER_HIGH_WARNING_FLAG OR QSFP_RX24_POWER_HIGH_WARNING_FLAG) \<noteq> 0)
        SDI_MEDIA_RX_PWR_HIGH_WARNING
        (rx_pwr_buf AND (QSFP_RX13_POWER_LOW_WARNING_FLAG OR QSFP_RX24_POWER_LOW_WARNING_FLAG) \<noteq> 0)
        SDI_MEDIA_RX_PWR_LOW_WARNING
     (raise_first
        (rx_pwr_buf AND (QSFP_RX13_POWER_HIGH_ALARM_FLAG OR QSFP_RX24_POWER_HIGH_ALARM_FLAG) \<noteq> 0)
        SDI_MEDIA_RX_PWR_HIGH_ALARM
        (rx_pwr_buf AND (QSFP_RX13_POWER_LOW_ALARM_FLAG OR QSFP_RX24_POWER_LOW_ALARM_FLAG) \<noteq> 0)
        SDI_MEDIA_RX_PWR_LOW_ALARM status))))"

definition sdi_qsfp_channel_monitor_status_get ::
    "std_lib \<Rightarrow> 'w os \<Rightarrow> ('w, 'x) qsfp_device_scheme \<Rightarrow> u32 \<Rightarrow> u32 \<Rightarrow> (u32, 'w) query" where
  "sdi_qsfp_channel_monitor_status_get L os d channel flags status w =
     (if mod_type d = QSFP_QSA_ADAPTER then do {
        s \<leftarrow> qsa_sfp_device d;
        sdi_sfp_channel_monitor_status_get L os s channel flags status w
      } else if \<not> sdi_qsfp_validate_channel channel (mod_category d) then Some (SDI_DEVICE_ERR_PARAM, status, w)
      else do {
        let first = (channel = 0 \<or> channel = 1);
        (rc, (rx_pwr_buf, tx_bias_buf), w) \<leftarrow> with_qsfp os d (0, 0) (qsfp_two_flags_read (media_chip d)
          (flags AND (SDI_MEDIA_RX_PWR_HIGH_ALARM OR SDI_MEDIA_RX_PWR_LOW_ALARM OR
             SDI_MEDIA_RX_PWR_HIGH_WARNING OR SDI_MEDIA_RX_PWR_LOW_WARNING) \<noteq> 0)
          (if first then QSFP_RX12_POWER_INTERRUPT_OFFSET else QSFP_RX34_POWER_INTERRUPT_OFFSET)
          (flags AND (SDI_MEDIA_TX_BIAS_HIGH_ALARM OR SDI_MEDIA_TX_BIAS_LOW_ALARM OR
             SDI_MEDIA_TX_BIAS_HIGH_WARNING OR SDI_MEDIA_TX_BIAS_LOW_WARNING) \<noteq> 0)
          (if first then QSFP_TX12_BIAS_INTERRUPT_OFFSET else QSFP_TX34_BIAS_INTERRUPT_OFFSET)) w;
        Some (rc, if rc = STD_ERR_OK then qsfp_channel_status rx_pwr_buf tx_bias_buf status else status, w)
      })"

section \<open>Transmitters and receivers\<close>

text \<open>
  The flags that are wanted, one register after the other; each leaves its flag in the status
  before the next one is read.
\<close>

definition qsfp_flag_get ::
    "'w chip \<Rightarrow> bool \<Rightarrow> u32 \<Rightarrow> (u8 \<Rightarrow> u32 \<Rightarrow> u32) \<Rightarrow> t_std_error \<times> (u8 \<times> u32) \<times> 'w
      \<Rightarrow> (t_std_error \<times> (u8 \<times> u32) \<times> 'w) option" where
  "qsfp_flag_get c b offset f = (\<lambda>(rc, (buf, status), w).
     if rc \<noteq> STD_ERR_OK \<or> \<not> b then Some (rc, (buf, status), w)
     else do {
       (rc, buf, w) \<leftarrow> media_read c (chip_addr c) offset buf w;
       Some (rc, (buf, if rc = STD_ERR_OK then f buf status else status), w)
     })"

definition los_flag :: "u32 \<Rightarrow> u32 \<Rightarrow> u8 \<Rightarrow> bool" where
  "los_flag b channel buf \<longleftrightarrow> ucast buf AND push_bit (unat channel) b \<noteq> 0"

definition qsfp_channel_flags_read ::
    "std_lib \<Rightarrow> ('w, 'x) qsfp_device_scheme \<Rightarrow> u32 \<Rightarrow> u32 \<Rightarrow> (u32, 'w) query" where
  "qsfp_channel_flags_read L d channel flags status w = do {
     let c = media_chip d;
     let tx = (flags AND SDI_MEDIA_STATUS_TXLOSS \<noteq> 0);
     let rx = (flags AND SDI_MEDIA_STATUS_RXLOSS \<noteq> 0);
     r \<leftarrow> qsfp_flag_get c (flags AND SDI_MEDIA_STATUS_TXDISABLE \<noteq> 0)
       (dd_offset d QSFP_DD_TX_CONTROL_OFFSET QSFP_TX_CONTROL_OFFSET)
       (\<lambda>buf. raise_if (bit8_test L buf channel) SDI_MEDIA_STATUS_TXDISABLE) (STD_ERR_OK, (0, status), w);
     r \<leftarrow> qsfp_flag_get c (flags AND SDI_MEDIA_STATUS_TXFAULT \<noteq> 0)
       (dd_offset d QSFP_DD_CHANNEL_TXFAULT_INDICATOR QSFP_CHANNEL_TXFAULT_INDICATOR)
       (\<lambda>buf. raise_if (bit8_test L buf channel) SDI_MEDIA_STATUS_TXFAULT) r;
     (rc, (_, status), w) \<leftarrow>
       (if mod_category d = SDI_CATEGORY_QSFPDD then do {
          r \<leftarrow> qsfp_flag_get c tx QSFP_DD_CHANNEL_TX_LOS_INDICATOR
            (\<lambda>buf. raise_if (los_flag QSFP_DD_TX_LOS_BIT_OFFSET channel buf) SDI_MEDIA_STATUS_TXLOSS) r;
          qsfp_flag_get c rx QSFP_DD_CHANNEL_RX_LOS_INDICATOR
            (\<lambda>buf. raise_if (los_flag QSFP_DD_RX_LOS_BIT_OFFSET channel buf) SDI_MEDIA_STATUS_RXLOSS) r
        } else
          qsfp_flag_get c (tx \<or> rx) QSFP_CHANNEL_LOS_INDICATOR
            (\<lambda>buf status. raise_if (los_flag QSFP_RX_LOS_BIT_OFFSET channel buf) SDI_MEDIA_STATUS_RXLOSS
              (raise_if (los_flag QSFP_TX_LOS_BIT_OFFSET channel buf) SDI_MEDIA_STATUS_TXLOSS status)) r);
     Some (rc, status, w)
   }"

definition sdi_qsfp_channel_status_get ::
    "std_lib \<Rightarrow> 'w os \<Rightarrow> ('w, 'x) qsfp_device_scheme \<Rightarrow> u32 \<Rightarrow> u32 \<Rightarrow> (u32, 'w) query" where
  "sdi_qsfp_channel_status_get L os d channel flags status w =
     (if mod_type d = QSFP_QSA_ADAPTER then do {
        s \<leftarrow> qsa_sfp_device d;
        sdi_sfp_channel_status_get L os s channel flags status w
      } else if \<not> sdi_qsfp_validate_channel channel (mod_category d) then Some (SDI_DEVICE_ERR_PARAM, status, w)
      else with_qsfp os d status (qsfp_channel_flags_read L d channel flags status) w)"

definition QSFP_TX_ENABLE_DELAY :: nat where "QSFP_TX_ENABLE_DELAY = 400 * 1000"
definition QSFP_TX_DISABLE_DELAY :: nat where "QSFP_TX_DISABLE_DELAY = 100 * 1000"

definition qsfp_tx_switch ::
    "std_lib \<Rightarrow> 'w os \<Rightarrow> 'w chip \<Rightarrow> u32 \<Rightarrow> u32 \<Rightarrow> bool \<Rightarrow> 'w action" where
  "qsfp_tx_switch L os c tx_control channel enable w = do {
     (rc, support_status, w) \<leftarrow> sdi_is_tx_control_supported L c w;
     if rc \<noteq> STD_ERR_OK then Some (rc, w)
     else if \<not> support_status then Some (SDI_DEVICE_ERRCODE EOPNOTSUPP, w)
     else do {
       (rc, buf, w) \<leftarrow> media_read c (chip_addr c) tx_control 0 w;
       if rc \<noteq> STD_ERR_OK then Some (rc, w)
       else do {
         (rc, w) \<leftarrow> media_write c (chip_addr c) tx_control
           (if enable then bit8_clear L buf channel else bit8_set L buf channel) w;
         Some (rc, std_usleep os (if enable then QSFP_TX_ENABLE_DELAY else QSFP_TX_DISABLE_DELAY) w)
       }
     }
   }"

definition qsfp_tx_control_reg :: "('w, 'x) qsfp_device_scheme \<Rightarrow> u32" where
  "qsfp_tx_control_reg d = dd_offset d QSFP_DD_TX_CONTROL_OFFSET QSFP_TX_CONTROL_OFFSET"

definition sdi_qsfp_tx_control ::
    "std_lib \<Rightarrow> 'w os \<Rightarrow> ('w, 'x) qsfp_device_scheme \<Rightarrow> u32 \<Rightarrow> bool \<Rightarrow> 'w action" where
  "sdi_qsfp_tx_control L os d channel enable w =
     (if mod_type d = QSFP_QSA_ADAPTER then do {
        s \<leftarrow> qsa_sfp_device d;
        sdi_sfp_tx_control L os s channel enable w
      } else if \<not> sdi_qsfp_validate_channel channel (mod_category d) then Some (SDI_DEVICE_ERR_PARAM, w)
      else with_qsfp_do os d (qsfp_tx_switch L os (media_chip d) (qsfp_tx_control_reg d) channel enable) w)"

definition sdi_qsfp_tx_control_status_get ::
    "std_lib \<Rightarrow> 'w os \<Rightarrow> ('w, 'x) qsfp_device_scheme \<Rightarrow> u32 \<Rightarrow> (bool, 'w) query" where
  "sdi_qsfp_tx_control_status_get L os d channel status w =
     (if mod_type d = QSFP_QSA_ADAPTER then do {
        s \<leftarrow> qsa_sfp_device d;
        sdi_sfp_tx_control_status_get L os s channel status w
      } else if \<not> sdi_qsfp_validate_channel channel (mod_category d) then Some (SDI_DEVICE_ERR_PARAM, status, w)
      else with_qsfp os d status (\<lambda>w. do {
        (rc, buf, w) \<leftarrow> media_read (media_chip d) (chip_addr (media_chip d)) (qsfp_tx_control_reg d) 0 w;
        Some (rc, if rc = STD_ERR_OK then \<not> bit8_test L buf channel else status, w)
      }) w)"

end
