(* ===== verification/Qsfp_Values.thy ===== *)
theory Qsfp_Values
  imports Qsfp_Eeprom
begin

text \<open>
  The calls of src/drivers/sdi\_qsfp\_eeprom.c on the clock and data recovery (CDR), the rate select,
  parameters, vendor fields, compliance codes, thresholds, monitors, raw bytes and the PHYs.
\<close>

section \<open>Clock and data recovery\<close>

definition cdr_bit :: "std_lib \<Rightarrow> u32 \<Rightarrow> u32 \<Rightarrow> bool \<Rightarrow> u32 \<Rightarrow> u8 \<Rightarrow> u8" where
  "cdr_bit L support_status flag enable b buf =
     (if support_status AND flag = 0 then buf else if enable then bit8_set L buf b else bit8_clear L buf b)"

text \<open>The result of a write is only the result of the function when it is the last one.\<close>

definition qsfp_cdr_set ::
    "std_lib \<Rightarrow> ('w, 'x) qsfp_device_scheme \<Rightarrow> u32 \<Rightarrow> bool \<Rightarrow> 'w action" where
  "qsfp_cdr_set L d channel enable w = do {
     let c = media_chip d;
     let a = chip_addr (media_chip d);
     (rc, sup, w) \<leftarrow> sdi_is_cdr_control_supported L c w;
     if rc \<noteq> STD_ERR_OK then Some (rc, w)
     else if sup = 0 then Some (SDI_DEVICE_ERRCODE EOPNOTSUPP, w)
     else if mod_category d = SDI_CATEGORY_QSFPDD then do {
       (rc, buf, w) \<leftarrow> media_read c a QSFP_DD_TX_CDR_CONTROL_OFFSET 0 w;
       if rc \<noteq> STD_ERR_OK then Some (rc, w)
       else do {
         let buf = cdr_bit L sup cdr_tx_flag enable channel buf;
         (_, w) \<leftarrow> media_write c a QSFP_DD_TX_CDR_CONTROL_OFFSET buf w;
         (rc, buf, w) \<leftarrow> media_read c a QSFP_DD_RX_CDR_CONTROL_OFFSET buf w;
         if rc \<noteq> STD_ERR_OK then Some (rc, w)
         else media_write c a QSFP_DD_RX_CDR_CONTROL_OFFSET (cdr_bit L sup cdr_rx_flag enable channel buf) w
       }
     } else do {
       (rc, buf, w) \<leftarrow> media_read c a QSFP_CDR_CONTROL_OFFSET 0 w;
       if rc \<noteq> STD_ERR_OK then Some (rc, w)
       else media_write c a QSFP_CDR_CONTROL_OFFSET
         (cdr_bit L sup cdr_rx_flag enable channel (cdr_bit L sup cdr_tx_flag enable (channel + 4) buf)) w
     }
   }"

definition sdi_qsfp_cdr_status_set ::
    "std_lib \<Rightarrow> 'w os \<Rightarrow> ('w, 'x) qsfp_device_scheme \<Rightarrow> u32 \<Rightarrow> bool \<Rightarrow> 'w action" where
  "sdi_qsfp_cdr_status_set L os d channel enable w =
     (if mod_type d = QSFP_QSA_ADAPTER then Some (SDI_DEVICE_ERRCODE EOPNOTSUPP, w)
      else if \<not> sdi_qsfp_validate_channel channel (mod_category d) then Some (SDI_DEVICE_ERR_PARAM, w)
      else with_qsfp_do os d (qsfp_cdr_set L d channel enable) w)"

definition qsfp_cdr_get ::
    "std_lib \<Rightarrow> ('w, 'x) qsfp_device_scheme \<Rightarrow> u32 \<Rightarrow> (bool, 'w) query" where
  "qsfp_cdr_get L d channel status w = do {
     let c = media_chip d;
     let a = chip_addr (media_chip d);
     (rc, sup, w) \<leftarrow> sdi_is_cdr_control_supported L c w;
     if rc \<noteq> STD_ERR_OK then Some (rc, status, w)
     else if sup = 0 then Some (SDI_DEVICE_ERRCODE EOPNOTSUPP, status, w)
     else if mod_category d = SDI_CATEGORY_QSFPDD then do {
       (_, buf, w) \<leftarrow> media_read c a QSFP_DD_TX_CDR_CONTROL_OFFSET 0 w;
       (rc, buf1, w) \<leftarrow> media_read c a QSFP_DD_RX_CDR_CONTROL_OFFSET 0 w;
       Some (rc, if rc = STD_ERR_OK then bit8_test L buf channel \<or> bit8_test L buf1 channel else status, w)
     } else do {
       (rc, buf, w) \<leftarrow> media_read c a QSFP_CDR_CONTROL_OFFSET 0 w;
       Some (rc, if rc = STD_ERR_OK then bit8_test L buf (channel + 4) \<or> bit8_test L buf channel else status, w)
     }
   }"

definition sdi_qsfp_cdr_status_get ::
    "std_lib \<Rightarrow> 'w os \<Rightarrow> ('w, 'x) qsfp_device_scheme \<Rightarrow> u32 \<Rightarrow> (bool, 'w) query" where
  "sdi_qsfp_cdr_status_get L os d channel status w =
     (if mod_type d = QSFP_QSA_ADAPTER then Some (SDI_DEVICE_ERRCODE EOPNOTSUPP, status, w)
      else if \<not> sdi_qsfp_validate_channel channel (mod_category d) then Some (SDI_DEVICE_ERR_PARAM, status, w)
      else with_qsfp os d status (qsfp_cdr_get L d channel status) w)"

section \<open>Extended rate select\<close>

fun ext_rate_value :: "sdi_media_fw_rev \<Rightarrow> bool \<Rightarrow> u8" where
  "ext_rate_value SDI_MEDIA_FW_REV0 cdr_enable = (if cdr_enable then 0xAA else 0)"
| "ext_rate_value SDI_MEDIA_FW_REV1 cdr_enable = (if cdr_enable then 0xFF else 0x55)"

definition write_if_changed ::
    "'w chip \<Rightarrow> u32 \<Rightarrow> u8 \<Rightarrow> u8 \<Rightarrow> t_std_error \<Rightarrow> 'w action" where
  "write_if_changed c offset tmp buf rc w =
     (if tmp \<noteq> buf then media_write c (chip_addr c) offset buf w else Some (rc, w))"

definition qsfp_ext_rate_write :: "'w chip \<Rightarrow> u8 \<Rightarrow> 'w action" where
  "qsfp_ext_rate_write c v w = do {
     (rc, rx_tmp, w) \<leftarrow> media_read c (chip_addr c) QSFP_RX_EXT_RATE_SELECT_OFFSET 0 w;
     if rc \<noteq> STD_ERR_OK then Some (rc, w)
     else do {
       (rc, tx_tmp, w) \<leftarrow> media_read c (chip_addr c) QSFP_TX_EXT_RATE_SELECT_OFFSET 0 w;
       if rc \<noteq> STD_ERR_OK then Some (rc, w)
       else do {
         (rc, w) \<leftarrow> write_if_changed c QSFP_RX_EXT_RATE_SELECT_OFFSET rx_tmp v rc w;
         write_if_changed c QSFP_TX_EXT_RATE_SELECT_OFFSET tx_tmp v rc w
       }
     }
   }"

definition sdi_qsfp_ext_rate_select ::
    "'w os \<Rightarrow> ('w, 'x) qsfp_device_scheme \<Rightarrow> u32 \<Rightarrow> sdi_media_fw_rev \<Rightarrow> bool \<Rightarrow> 'w action" where
  "sdi_qsfp_ext_rate_select os d channel fw_rev cdr_enable w =
     (if mod_type d = QSFP_QSA_ADAPTER then Some (SDI_DEVICE_ERRCODE EOPNOTSUPP, w)
      else if \<not> sdi_qsfp_validate_channel channel (mod_category d) then Some (SDI_DEVICE_ERR_PARAM, w)
      else with_qsfp_do os d (qsfp_ext_rate_write (media_chip d) (ext_rate_value fw_rev cdr_enable)) w)"

section \<open>Parameters\<close>

definition sdi_qsfp_speed_get :: "('w, 'x) qsfp_device_scheme \<Rightarrow> (sdi_media_speed, 'w) query" where
  "sdi_qsfp_speed_get d speed w =
     (if mod_type d = QSFP_QSA_ADAPTER then do {
        s \<leftarrow> qsa_sfp_device d;
        sdi_sfp_speed_get s speed w
      } else Some (STD_ERR_OK, qsfp_capability d, w))"

text \<open>The low six bits are the mantissa, the high two the exponent plus one.\<close>

definition sdi_convert_length_code_to_length :: "math_lib \<Rightarrow> u8 \<Rightarrow> c_float" where
  "sdi_convert_length_code_to_length M len_code =
     fp_mul 53 (Fin (of_int (uint (len_code AND 0x3F))))
       (pow M (Fin 10) (Fin (of_int (uint (drop_bit 6 (len_code AND 0xC0)) - 1))))"

definition SDI_MEDIA_RX_PWR_OMA :: u32 where "SDI_MEDIA_RX_PWR_OMA = 0"
definition SDI_MEDIA_RX_PWR_AVG :: u32 where "SDI_MEDIA_RX_PWR_AVG = 1"

definition qsfp_byte_param ::
    "std_lib \<Rightarrow> math_lib \<Rightarrow> sdi_media_param_type \<Rightarrow> bool \<Rightarrow> u8 \<Rightarrow> u32 option" where
  "qsfp_byte_param L M param length_code byte_buf =
     (if param = SDI_MEDIA_DIAG_MON_TYPE
      then Some (if bit8_test L byte_buf 3 then SDI_MEDIA_RX_PWR_AVG else SDI_MEDIA_RX_PWR_OMA)
      else if length_code
      then map_option word_of_int (fp_to_int 0 (2 ^ 32 - 1) (sdi_convert_length_code_to_length M byte_buf))
      else Some (ucast byte_buf))"

definition qsfp_word_param :: "sdi_media_param_type \<Rightarrow> u32 \<Rightarrow> u32" where
  "qsfp_word_param param v =
     (if param = SDI_MEDIA_WAVELENGTH then v div QSFP_WAVELENGTH_DIVIDER
      else if param = SDI_MEDIA_WAVELENGTH_TOLERANCE then v div QSFP_WAVELENGTH_TOLERANCE_DIVIDER
      else v)"

definition be32 :: "u8 list \<Rightarrow> u32" where
  "be32 buf = push_bit 24 (ucast (buf ! 0)) OR push_bit 16 (ucast (buf ! 1)) OR push_bit 8 (ucast (buf ! 2))
     OR ucast (buf ! 3)"

definition qsfp_param_read ::
    "std_lib \<Rightarrow> math_lib \<Rightarrow> 'w chip \<Rightarrow> sdi_media_param_type \<Rightarrow> bool \<Rightarrow> u8 \<Rightarrow> u32 \<times> nat \<Rightarrow> (u32, 'w) query" where
  "qsfp_param_read L M c param length_code byte_buf info value w =
     (if snd info = 1 then do {
        (rc, byte_buf, w) \<leftarrow> media_read c (chip_addr c) (fst info) byte_buf w;
        if rc \<noteq> STD_ERR_OK then Some (rc, value, w)
        else do { value \<leftarrow> qsfp_byte_param L M param length_code byte_buf; Some (rc, value, w) }
      } else if snd info = 2 then do {
        (rc, word_buf, w) \<leftarrow> media_read_word c (chip_addr c) (fst info) 0 w;
        Some (rc, if rc = STD_ERR_OK then qsfp_word_param param (ucast (raw16 word_buf)) else value, w)
      } else if snd info = 4 then do {
        (rc, buf, w) \<leftarrow> media_read_multi c (chip_addr c) (fst info) [0, 0, 0, 0] 4 w;
        Some (rc, if rc = STD_ERR_OK then be32 buf else value, w)
      } else Some (SDI_DEVICE_ERRCODE EINVAL, value, w))"

definition qsfp_param_info :: "('w, 'x) qsfp_device_scheme \<Rightarrow> sdi_media_param_type \<Rightarrow> (u32 \<times> nat) option" where
  "qsfp_param_info d param =
     (if eeprom_version d \<ge> QSFP28_DD_EEPROM_VERSION_3 then qsfp28_dd_r3_param_reg_info param
      else Some (qsfp_param_reg_info param))"

text \<open>
  The length of revision 3 is a code only when the module assigns lanes, which a first read tells.
\<close>

definition sdi_qsfp_parameter_get ::
    "std_lib \<Rightarrow> math_lib \<Rightarrow> 'w os \<Rightarrow> ('w, 'x) qsfp_device_scheme \<Rightarrow> sdi_media_param_type
      \<Rightarrow> (u32, 'w) query" where
  "sdi_qsfp_parameter_get L M os d param value w =
     (if mod_type d = QSFP_QSA_ADAPTER then do {
        s \<leftarrow> qsa_sfp_device d;
        sdi_sfp_parameter_get os s param value w
      } else do {
        info \<leftarrow> qsfp_param_info d param;
        let length_code = (eeprom_version d \<ge> QSFP28_DD_EEPROM_VERSION_3 \<and>
          fst info = QSFP28_DD_R3_LENGTH_CABLE_ASSEMBLY_OFFSET);
        if info = (0, 0) then Some (SDI_DEVICE_ERRCODE EOPNOTSUPP, value, w)
        else with_qsfp os d value (\<lambda>w. do {
          let c = media_chip d;
          (rc, byte_buf, w) \<leftarrow>
            media_read_if length_code c (chip_addr c) QSFP28_DD_R3_LANE_ASSIGNMENT_OFFSET 0 w;
          if rc \<noteq> STD_ERR_OK then Some (rc, value, w)
          else qsfp_param_read L M c param (length_code \<and> byte_buf > 0) byte_buf info value w
        }) w
      })"

section \<open>Vendor fields\<close>

definition qsfp_vendor_info :: "('w, 'x) qsfp_device_scheme \<Rightarrow> sdi_media_vendor_info_type \<Rightarrow> u32 \<times> nat \<times> bool" where
  "qsfp_vendor_info d type =
     (if eeprom_version d \<ge> QSFP28_DD_EEPROM_VERSION_3 then qsfp28_dd_r3_vendor_reg_info type
      else qsfp_vendor_reg_info type)"

definition sdi_qsfp_vendor_info_get ::
    "'w os \<Rightarrow> ('w, 'x) qsfp_device_scheme \<Rightarrow> sdi_media_vendor_info_type \<Rightarrow> (u8 list, 'w) query" where
  "sdi_qsfp_vendor_info_get os d vendor_info_type vendor_info w =
     (if mod_type d = QSFP_QSA_ADAPTER then do {
        s \<leftarrow> qsa_sfp_device d;
        sdi_sfp_vendor_info_get os s vendor_info_type vendor_info w
      } else do {
        let (offset, data_len, printable) = qsfp_vendor_info d vendor_info_type;
        let c = media_chip d;
        (rc, data_buf, w) \<leftarrow> with_qsfp os d (replicate SDI_MAX_NAME_LEN 0) (\<lambda>w. do {
          STD_ASSERT (length vendor_info \<ge> data_len);
          media_read_multi c (chip_addr c) offset (replicate SDI_MAX_NAME_LEN 0) (of_nat (data_len - 1)) w
        }) w;
        if rc = STD_ERR_OK then do {
          vendor_info \<leftarrow> vendor_field printable data_len data_buf vendor_info;
          Some (rc, vendor_info, w)
        } else Some (rc, vendor_info, w)
      })"

section \<open>Compliance codes\<close>

text \<open>
  The eight bytes are copied over the packed structure; its two bit fields of 6 and 10 bits are
  those of a little endian word, from the low bits on.
\<close>

definition qsfp_transceiver_descr :: "u8 list \<Rightarrow> sdi_qsfp_transceiver_descr" where
  "qsfp_transceiver_descr buf =
     (let fc = raw16 (buf ! 5, buf ! 4)
      in \<lparr>sdi_qsfp_eth_1040g_code = buf ! 0, sdi_qsfp_sonet_code = buf ! 1, sdi_qsfp_sas_code = buf ! 2,
          sdi_qsfp_eth_1g_code = buf ! 3, sdi_qsfp_fc_distance = fc AND 0x3F,
          sdi_qsfp_fc_technology = drop_bit 6 fc, sdi_qsfp_fc_media = buf ! 6, sdi_qsfp_fc_speed = buf ! 7\<rparr>)"

definition sdi_qsfp_transceiver_code_get ::
    "'w os \<Rightarrow> ('w, 'x) qsfp_device_scheme \<Rightarrow> (sdi_media_transceiver_descr, 'w) query" where
  "sdi_qsfp_transceiver_code_get os d transceiver_info w =
     (if mod_type d = QSFP_QSA_ADAPTER then do {
        s \<leftarrow> qsa_sfp_device d;
        sfp_descr_out (sdi_sfp_transceiver_code_get os s) transceiver_info w
      } else with_qsfp os d transceiver_info (\<lambda>w. do {
        (rc, buf, w) \<leftarrow> media_read_multi (media_chip d) (chip_addr (media_chip d)) QSFP_COMPLIANCE_CODE_OFFSET
          (replicate 8 0) 8 w;
        Some (rc, if rc = STD_ERR_OK then Qsfp_Descr (qsfp_transceiver_descr buf) else transceiver_info, w)
      }) w)"

section \<open>Conversions\<close>

definition convert_qsfp_temp :: "u8 \<times> u8 \<Rightarrow> c_float" where
  "convert_qsfp_temp buf = sign_temp (raw16 buf) (internal_temp (temp_magnitude (raw16 buf)))"

definition convert_qsfp_volt :: "u8 \<times> u8 \<Rightarrow> c_float" where
  "convert_qsfp_volt buf = int_over (uint (raw16 buf)) 10000"

definition convert_qsfp_rx_power :: "math_lib \<Rightarrow> u8 \<times> u8 \<Rightarrow> c_float" where
  "convert_qsfp_rx_power M buf = sdi_convert_mw_to_dbm M (int_over (uint (raw16 buf)) 10000)"

definition convert_qsfp_tx_bias :: "u8 \<times> u8 \<Rightarrow> c_float" where
  "convert_qsfp_tx_bias buf = int_over (uint (raw16 buf) * 2) 1000"

text \<open>There is no conversion of the transmitted power; the value is left alone.\<close>

fun qsfp_convert :: "math_lib \<Rightarrow> quantity \<Rightarrow> u8 \<times> u8 \<Rightarrow> c_float \<Rightarrow> c_float" where
  "qsfp_convert M Temperature buf value = convert_qsfp_temp buf"
| "qsfp_convert M Voltage buf value = convert_qsfp_volt buf"
| "qsfp_convert M Rx_Power buf value = convert_qsfp_rx_power M buf"
| "qsfp_convert M Tx_Bias buf value = convert_qsfp_tx_bias buf"
| "qsfp_convert M Tx_Power buf value = value"

section \<open>Thresholds\<close>

text \<open>
  Work on a page: the page is selected, and page 0 is selected again unless the module has no
  pages. The result of the second selection replaces that of the work.
\<close>

definition on_page ::
    "std_lib \<Rightarrow> 'w chip \<Rightarrow> u32 \<Rightarrow> 'a \<Rightarrow> ('w \<Rightarrow> (t_std_error \<times> 'a \<times> 'w) option) \<Rightarrow> 'w
      \<Rightarrow> (t_std_error \<times> 'a \<times> 'w) option" where
  "on_page L c page x f w = do {
     (rc, w) \<leftarrow> sdi_qsfp_page_select L c page w;
     let paged = (rc \<noteq> SDI_DEVICE_ERRCODE ENOTSUP);
     (rc, x, w) \<leftarrow> (if rc \<noteq> STD_ERR_OK then Some (rc, x, w) else f w);
     if paged then do {
       (rc, w) \<leftarrow> sdi_qsfp_page_select L c (ucast SDI_MEDIA_PAGE_DEFAULT) w;
       Some (rc, x, w)
     } else Some (rc, x, w)
   }"

text \<open>The value is computed from the bytes, which are zero when they could not be read.\<close>

definition sdi_qsfp_threshold_get ::
    "std_lib \<Rightarrow> math_lib \<Rightarrow> 'w os \<Rightarrow> ('w, 'x) qsfp_device_scheme \<Rightarrow> sdi_media_threshold_type
      \<Rightarrow> (c_float, 'w) query" where
  "sdi_qsfp_threshold_get L M os d threshold_type value w =
     (if mod_type d = QSFP_QSA_ADAPTER then do {
        s \<leftarrow> qsa_sfp_device d;
        sdi_sfp_threshold_get L M os s threshold_type value w
      } else do {
        let r3 = (eeprom_version d \<ge> QSFP28_DD_EEPROM_VERSION_3);
        let offset = (if r3 then qsfp28_dd_r3_threshold_reg_info threshold_type
                      else qsfp_threshold_reg_info threshold_type);
        let c = media_chip d;
        if offset = 0 then Some (SDI_DEVICE_ERRCODE EOPNOTSUPP, value, w)
        else with_qsfp os d value (\<lambda>w. do {
          (rc, buf, w) \<leftarrow> on_page L c (if r3 then 2 else 3) (0, 0)
            (media_read_word c (chip_addr c) offset 0) w;
          Some (rc, qsfp_convert M (threshold_quantity threshold_type) buf value, w)
        }) w
      })"

definition sdi_qsfp_module_monitor_threshold_get :: "u32 \<Rightarrow> (u32, 'w) query" where
  "sdi_qsfp_module_monitor_threshold_get threshold_type value w = Some (STD_ERR_OK, value, w)"

definition sdi_qsfp_channel_monitor_threshold_get :: "u32 \<Rightarrow> (u32, 'w) query" where
  "sdi_qsfp_channel_monitor_threshold_get threshold_type value w = Some (STD_ERR_OK, value, w)"

section \<open>Monitors\<close>

definition qsfp_quantity_read ::
    "math_lib \<Rightarrow> 'w os \<Rightarrow> ('w, 'x) qsfp_device_scheme \<Rightarrow> quantity \<Rightarrow> u32 \<Rightarrow> (c_float, 'w) query" where
  "qsfp_quantity_read M os d q offset value =
     with_qsfp os d value (\<lambda>w. do {
       (rc, buf, w) \<leftarrow> media_read_word (media_chip d) (chip_addr (media_chip d)) offset 0 w;
       Some (rc, if rc = STD_ERR_OK then qsfp_convert M q buf value else value, w)
     })"

definition qsfp_temp_offset :: "('w, 'x) qsfp_device_scheme \<Rightarrow> u32" where
  "qsfp_temp_offset d =
     (if eeprom_version d \<ge> QSFP28_DD_EEPROM_VERSION_3 then QSFP28_DD_R3_TEMPERATURE_OFFSET
      else if eeprom_version d < QSFP28_DD_EEPROM_VERSION_2 then QSFP_TEMPERATURE_OFFSET
      else QSFP28_DD_R2_TEMPERATURE_OFFSET)"

definition qsfp_volt_offset :: "('w, 'x) qsfp_device_scheme \<Rightarrow> u32" where
  "qsfp_volt_offset d =
     (if eeprom_version d \<ge> QSFP28_DD_EEPROM_VERSION_3 then QSFP28_DD_R3_VOLTAGE_OFFSET
      else if eeprom_version d < QSFP28_DD_EEPROM_VERSION_2 then QSFP_DD_VOLTAGE_OFFSET
      else QSFP28_DD_R2_VOLTAGE_OFFSET)"

definition sdi_qsfp_module_monitor_get ::
    "std_lib \<Rightarrow> math_lib \<Rightarrow> 'w os \<Rightarrow> ('w, 'x) qsfp_device_scheme \<Rightarrow> sdi_media_module_monitor
      \<Rightarrow> (c_float, 'w) query" where
  "sdi_qsfp_module_monitor_get L M os d monitor value w =
     (if mod_type d = QSFP_QSA_ADAPTER then do {
        s \<leftarrow> qsa_sfp_device d;
        sdi_sfp_module_monitor_get L M os s monitor value w
      } else (case monitor of
         SDI_MEDIA_TEMP \<Rightarrow> qsfp_quantity_read M os d Temperature (qsfp_temp_offset d) value w
       | SDI_MEDIA_VOLT \<Rightarrow> qsfp_quantity_read M os d Voltage (qsfp_volt_offset d) value w))"

definition qsfp_rx_power_offsets :: "u32 list" where
  "qsfp_rx_power_offsets =
     [QSFP_RX1_POWER_OFFSET, QSFP_RX2_POWER_OFFSET, QSFP_RX3_POWER_OFFSET, QSFP_RX4_POWER_OFFSET,
      QSFP_DD_RX5_POWER_OFFSET, QSFP_DD_RX6_POWER_OFFSET, QSFP_DD_RX7_POWER_OFFSET, QSFP_DD_RX8_POWER_OFFSET]"

definition qsfp_dd_tx_bias_offsets :: "u32 list" where
  "qsfp_dd_tx_bias_offsets =
     [QSFP_DD_TX1_BIAS_OFFSET, QSFP_DD_TX2_BIAS_OFFSET, QSFP_DD_TX3_BIAS_OFFSET, QSFP_DD_TX4_BIAS_OFFSET,
      QSFP_DD_TX5_BIAS_OFFSET, QSFP_DD_TX6_BIAS_OFFSET, QSFP_DD_TX7_BIAS_OFFSET, QSFP_DD_TX8_BIAS_OFFSET]"

definition qsfp_tx_bias_offsets :: "u32 list" where
  "qsfp_tx_bias_offsets =
     [QSFP_TX1_POWER_BIAS_OFFSET, QSFP_TX2_POWER_BIAS_OFFSET, QSFP_TX3_POWER_BIAS_OFFSET,
      QSFP_TX4_POWER_BIAS_OFFSET]"

definition qsfp_dd_tx_power_offsets :: "u32 list" where
  "qsfp_dd_tx_power_offsets =
     [QSFP_DD_TX1_POWER_OFFSET, QSFP_DD_TX2_POWER_OFFSET, QSFP_DD_TX3_POWER_OFFSET, QSFP_DD_TX4_POWER_OFFSET,
      QSFP_DD_TX5_POWER_OFFSET, QSFP_DD_TX6_POWER_OFFSET, QSFP_DD_TX7_POWER_OFFSET, QSFP_DD_TX8_POWER_OFFSET]"

text \<open>The register of a channel; a channel without one is an EINVAL.\<close>

definition channel_register :: "u32 list \<Rightarrow> u32 \<Rightarrow> t_std_error + u32" where
  "channel_register offsets channel =
     (case at_index offsets channel of None \<Rightarrow> Inl (SDI_DEVICE_ERRCODE EINVAL) | Some r \<Rightarrow> Inr r)"

definition qsfp_channel_register ::
    "('w, 'x) qsfp_device_scheme \<Rightarrow> u32 \<Rightarrow> sdi_media_channel_monitor \<Rightarrow> t_std_error + u32" where
  "qsfp_channel_register d channel monitor =
     (let dd = (mod_category d = SDI_CATEGORY_QSFPDD)
      in case monitor of
           SDI_MEDIA_INTERNAL_RX_POWER_MONITOR \<Rightarrow> channel_register qsfp_rx_power_offsets channel
         | SDI_MEDIA_INTERNAL_TX_BIAS_CURRENT \<Rightarrow>
             channel_register (if dd then qsfp_dd_tx_bias_offsets else qsfp_tx_bias_offsets) channel
         | SDI_MEDIA_INTERNAL_TX_OUTPUT_POWER \<Rightarrow>
             if dd then channel_register qsfp_dd_tx_power_offsets channel
             else Inl (SDI_DEVICE_ERRCODE EOPNOTSUPP))"

fun monitor_quantity :: "sdi_media_channel_monitor \<Rightarrow> quantity" where
  "monitor_quantity SDI_MEDIA_INTERNAL_RX_POWER_MONITOR = Rx_Power"
| "monitor_quantity SDI_MEDIA_INTERNAL_TX_BIAS_CURRENT = Tx_Bias"
| "monitor_quantity SDI_MEDIA_INTERNAL_TX_OUTPUT_POWER = Tx_Power"

definition sdi_qsfp_channel_monitor_get ::
    "std_lib \<Rightarrow> math_lib \<Rightarrow> 'w os \<Rightarrow> ('w, 'x) qsfp_device_scheme \<Rightarrow> u32 \<Rightarrow> sdi_media_channel_monitor
      \<Rightarrow> (c_float, 'w) query" where
  "sdi_qsfp_channel_monitor_get L M os d channel monitor value w =
     (if mod_type d = QSFP_QSA_ADAPTER then do {
        s \<leftarrow> qsa_sfp_device d;
        sdi_sfp_channel_monitor_get L M os s channel monitor value w
      } else if \<not> sdi_qsfp_validate_channel channel (mod_category d) then Some (SDI_DEVICE_ERR_PARAM, value, w)
      else (case qsfp_channel_register d channel monitor of
         Inl e \<Rightarrow> Some (e, value, w)
       | Inr offset \<Rightarrow> qsfp_quantity_read M os d (monitor_quantity monitor) offset value w))"

section \<open>Raw bytes\<close>

text \<open>
  Whether to page is found out before the module is selected. A page that was asked for is ignored
  when the module has no pages or does not say so.
\<close>

definition qsfp_raw ::
    "std_lib \<Rightarrow> 'w os \<Rightarrow> ('w, 'x) qsfp_device_scheme \<Rightarrow> sdi_media_eeprom_addr
      \<Rightarrow> (sdi_i2c_addr \<Rightarrow> 'w \<Rightarrow> (t_std_error \<times> u8 list \<times> 'w) option) \<Rightarrow> (u8 list, 'w) query" where
  "qsfp_raw L os d addr f data w =
     (let c = media_chip d
      in case raw_addr c (eeprom_device_addr addr) of
           None \<Rightarrow> Some (SDI_DEVICE_ERRCODE EINVAL, data, w)
         | Some a \<Rightarrow>
             if eeprom_page addr = SDI_MEDIA_PAGE_SELECT_IGNORE then with_qsfp os d data (f a) w
             else if eeprom_page addr < SDI_MEDIA_MINIMUM_PAGE then Some (SDI_DEVICE_ERRCODE EINVAL, data, w)
             else do {
               (_, paging_support_flag, w) \<leftarrow> sdi_is_paging_supported L c w;
               with_qsfp os d data
                 (if paging_support_flag then on_page L c (word_of_int (eeprom_page addr)) data (f a) else f a) w
             })"

definition sdi_qsfp_read_generic ::
    "std_lib \<Rightarrow> 'w os \<Rightarrow> ('w, 'x) qsfp_device_scheme \<Rightarrow> sdi_media_eeprom_addr \<Rightarrow> u32 \<Rightarrow> (u8 list, 'w) query" where
  "sdi_qsfp_read_generic L os d addr data_len data w = do {
     STD_ASSERT (data_len > 0);
     if mod_type d = QSFP_QSA_ADAPTER then do {
       s \<leftarrow> qsa_sfp_device d;
       sdi_sfp_read_generic os s addr data_len data w
     } else qsfp_raw L os d addr
         (\<lambda>a. media_read_multi (media_chip d) a (eeprom_offset addr) data data_len) data w
   }"

definition sdi_qsfp_write_generic ::
    "std_lib \<Rightarrow> 'w os \<Rightarrow> ('w, 'x) qsfp_device_scheme \<Rightarrow> sdi_media_eeprom_addr \<Rightarrow> u32 \<Rightarrow> (u8 list, 'w) query" where
  "sdi_qsfp_write_generic L os d addr data_len data w = do {
     STD_ASSERT (data_len > 0);
     if mod_type d = QSFP_QSA_ADAPTER then do {
       s \<leftarrow> qsa_sfp_device d;
       sdi_sfp_write_generic os s addr data_len data w
     } else qsfp_raw L os d addr
         (\<lambda>a. media_write_multi (media_chip d) a (eeprom_offset addr) data data_len) data w
   }"

definition sdi_qsfp_read ::
    "std_lib \<Rightarrow> 'w os \<Rightarrow> ('w, 'x) qsfp_device_scheme \<Rightarrow> u32 \<Rightarrow> u32 \<Rightarrow> (u8 list, 'w) query" where
  "sdi_qsfp_read L os d offset data_len = sdi_qsfp_read_generic L os d (sfp_plain_addr offset) data_len"

definition sdi_qsfp_write ::
    "std_lib \<Rightarrow> 'w os \<Rightarrow> ('w, 'x) qsfp_device_scheme \<Rightarrow> u32 \<Rightarrow> u32 \<Rightarrow> (u8 list, 'w) query" where
  "sdi_qsfp_write L os d offset data_len = sdi_qsfp_write_generic L os d (sfp_plain_addr offset) data_len"

section \<open>Calls on the PHYs\<close>

definition on_4X1 :: "'w os \<Rightarrow> ('w, 'x) qsfp_device_scheme \<Rightarrow> sdi_media_type \<Rightarrow> 'w action \<Rightarrow> 'w action" where
  "on_4X1 os d type f =
     with_module_do os d (if type = QSFP_4X1_1000BASE_T then f else (\<lambda>w. Some (SDI_DEVICE_ERR_PARAM, w)))"

definition sdi_qsfp_phy_autoneg_set ::
    "'w os \<Rightarrow> ('w, 'x) qsfp_device_scheme \<Rightarrow> u32 \<Rightarrow> sdi_media_type \<Rightarrow> bool \<Rightarrow> 'w action" where
  "sdi_qsfp_phy_autoneg_set os d channel type enable w =
     (if mod_type d = QSFP_QSA_ADAPTER then do {
        s \<leftarrow> qsa_sfp_device d;
        sdi_sfp_phy_autoneg_set os s channel type enable w
      } else on_4X1 os d type (sdi_qsfp_4X1_1000baseT_autoneg_set (media_chip d) channel enable) w)"

definition sdi_qsfp_phy_mode_set ::
    "'w os \<Rightarrow> ('w, 'x) qsfp_device_scheme \<Rightarrow> u32 \<Rightarrow> sdi_media_type \<Rightarrow> sdi_media_mode \<Rightarrow> 'w action" where
  "sdi_qsfp_phy_mode_set os d channel type mode w =
     (if mod_type d = QSFP_QSA_ADAPTER then do {
        s \<leftarrow> qsa_sfp_device d;
        sdi_sfp_phy_mode_set os s channel type mode w
      } else on_4X1 os d type (sdi_qsfp_4X1_1000baseT_mode_set (media_chip d) channel mode) w)"

definition sdi_qsfp_phy_speed_set ::
    "std_lib \<Rightarrow> 'w os \<Rightarrow> ('w, 'x) qsfp_device_scheme \<Rightarrow> u32 \<Rightarrow> sdi_media_type \<Rightarrow> sdi_media_speed \<Rightarrow> 'w action" where
  "sdi_qsfp_phy_speed_set L os d channel type speed w =
     (if mod_type d = QSFP_QSA_ADAPTER then do {
        s \<leftarrow> qsa_sfp_device d;
        sdi_sfp_phy_speed_set L os s channel type speed w
      } else on_4X1 os d type (sdi_qsfp_4X1_1000baseT_speed_set (media_chip d) channel speed) w)"

definition sdi_qsfp_phy_link_status_get ::
    "std_lib \<Rightarrow> 'w os \<Rightarrow> ('w, 'x) qsfp_device_scheme \<Rightarrow> u32 \<Rightarrow> sdi_media_type \<Rightarrow> (bool, 'w) query" where
  "sdi_qsfp_phy_link_status_get L os d channel type status w =
     (if mod_type d = QSFP_QSA_ADAPTER then do {
        s \<leftarrow> qsa_sfp_device d;
        sdi_sfp_phy_link_status_get L os s channel type status w
      } else Some (SDI_DEVICE_ERRCODE EOPNOTSUPP, status, w))"

definition sdi_qsfp_phy_power_down_enable ::
    "'w os \<Rightarrow> ('w, 'x) qsfp_device_scheme \<Rightarrow> u32 \<Rightarrow> sdi_media_type \<Rightarrow> bool \<Rightarrow> 'w action" where
  "sdi_qsfp_phy_power_down_enable os d channel type enable w =
     (if mod_type d = QSFP_QSA_ADAPTER then do {
        s \<leftarrow> qsa_sfp_device d;
        sdi_sfp_phy_power_down_enable os s channel type enable w
      } else Some (SDI_DEVICE_ERRCODE EOPNOTSUPP, w))"

definition sdi_qsfp_phy_serdes_control ::
    "std_lib \<Rightarrow> 'w os \<Rightarrow> ('w, 'x) qsfp_device_scheme \<Rightarrow> u32 \<Rightarrow> sdi_media_type \<Rightarrow> bool \<Rightarrow> 'w action" where
  "sdi_qsfp_phy_serdes_control L os d channel type enable w =
     (if mod_type d = QSFP_QSA_ADAPTER then do {
        s \<leftarrow> qsa_sfp_device d;
        sdi_sfp_phy_serdes_control L os s channel type enable w
      } else Some (SDI_DEVICE_ERRCODE EOPNOTSUPP, w))"

definition sdi_qsfp_wavelength_set ::
    "std_lib \<Rightarrow> math_lib \<Rightarrow> 'w os \<Rightarrow> ('w, 'x) qsfp_device_scheme \<Rightarrow> c_float \<Rightarrow> 'w action" where
  "sdi_qsfp_wavelength_set L M os d value w =
     (if mod_type d = QSFP_QSA_ADAPTER then do {
        s \<leftarrow> qsa_sfp_device d;
        sdi_sfp_wavelength_set L M os s value w
      } else Some (SDI_DEVICE_ERRCODE EOPNOTSUPP, w))"

end
