(* ===== verification/Qsfp.thy ===== *)
theory Qsfp
  imports Qsfp_Values
begin

text \<open>
  The rest of the QSFP driver: what happens when a module is plugged in (module\_init, the power
  class and the QSA adapter of src/drivers/sdi\_qsfp\_eeprom.c), and presence, module control, the
  callback table and the registration of src/drivers/sdi\_qsfp.c. The callback table works on pairs
  of the private data and the world.
\<close>

section \<open>Power classes\<close>

abbreviation (input) SDI_MEDIA_NO_MAX_POWER_DEFINED :: int where "SDI_MEDIA_NO_MAX_POWER_DEFINED \<equiv> - 1"

definition power_class_mw :: "u8 \<Rightarrow> int" where
  "power_class_mw buf =
     (if buf AND 0x03 = 1 then 4000 else if buf AND 0x03 = 2 then 4500 else if buf AND 0x03 = 3 then 5000
      else if drop_bit 6 (buf AND 0xC0) = 0 then 1500 else if drop_bit 6 (buf AND 0xC0) = 1 then 2000
      else if drop_bit 6 (buf AND 0xC0) = 2 then 2500 else 3500)"

text \<open>After a failed read the function returns without the deselection.\<close>

definition sdi_qsfp_media_max_power_get ::
    "'w os \<Rightarrow> ('w, 'x) qsfp_device_scheme \<Rightarrow> 'w \<Rightarrow> (t_std_error \<times> (int \<times> bool) \<times> 'w) option" where
  "sdi_qsfp_media_max_power_get os d w =
     (let none = (SDI_MEDIA_NO_MAX_POWER_DEFINED, False)
      in if mod_type d = QSFP_QSA_ADAPTER then Some (SDI_ERRCODE ENOTSUP, none, w)
         else do {
           (rc, w) \<leftarrow> sdi_qsfp_module_select os d w;
           if rc \<noteq> STD_ERR_OK then Some (rc, none, w)
           else do {
             (rc, buf, w) \<leftarrow> media_read (media_chip d) (chip_addr (media_chip d)) QSFP_EXT_IDENTIFIER_OFFSET 0
               (qsfp_wait os d w);
             if rc \<noteq> STD_ERR_OK then Some (rc, none, w)
             else do {
               w \<leftarrow> sdi_qsfp_module_deselect os d w;
               Some (rc, (power_class_mw buf, buf AND 0x03 \<noteq> 0), w)
             }
           }
         })"

definition bit8_put :: "std_lib \<Rightarrow> bool \<Rightarrow> u32 \<Rightarrow> u8 \<Rightarrow> u8" where
  "bit8_put L v b buf = (if v then bit8_set L buf b else bit8_clear L buf b)"

definition qsfp_power_class_write ::
    "std_lib \<Rightarrow> 'w os \<Rightarrow> ('w, 'x) qsfp_device_scheme \<Rightarrow> bool \<Rightarrow> 'w action" where
  "qsfp_power_class_write L os d state w = do {
     let c = media_chip d;
     (rc, feature_sup, w) \<leftarrow> sdi_is_software_controlled_power_mode_supported L c w;
     if rc \<noteq> STD_ERR_OK then Some (rc, w)
     else if \<not> feature_sup then Some (SDI_ERRCODE ENOTSUP, w)
     else do {
       (rc, buf, w) \<leftarrow> media_read c (chip_addr c) QSFP_POWER_CLASS_CONTROL_OFFSET 0 w;
       if rc \<noteq> STD_ERR_OK then Some (rc, w)
       else media_write c (chip_addr c) QSFP_POWER_CLASS_CONTROL_OFFSET
         (bit8_put L True 0 (bit8_put L (\<not> state) 1 (bit8_put L state 2 buf))) (qsfp_wait os d w)
     }
   }"

definition sdi_qsfp_media_force_power_mode_set ::
    "std_lib \<Rightarrow> 'w os \<Rightarrow> ('w, 'x) qsfp_device_scheme \<Rightarrow> bool \<Rightarrow> 'w action" where
  "sdi_qsfp_media_force_power_mode_set L os d state w =
     (if mod_type d = QSFP_QSA_ADAPTER then Some (SDI_ERRCODE ENOTSUP, w)
      else with_qsfp_do os d (qsfp_power_class_write L os d state) w)"

section \<open>A module is plugged in or out\<close>

definition sdi_qsfp_get_category :: "u8 \<Rightarrow> qsfp_category" where
  "sdi_qsfp_get_category identifier =
     (if identifier = 0x0c then SDI_CATEGORY_QSFP
      else if identifier = 0x0d then SDI_CATEGORY_QSFPPLUS
      else if identifier = 0x11 then SDI_CATEGORY_QSFP28
      else if identifier = 0x18 then SDI_CATEGORY_QSFPDD
      else SDI_CATEGORY_QSFP)"

text \<open>
  The SFP device inside of a QSA adapter shares the chip and the selection; everything else is
  zero, its speed the first one of the enumeration.
\<close>

definition qsa_sfp_device_new :: "('w, 'x) qsfp_device_scheme \<Rightarrow> 'w sfp_device" where
  "qsa_sfp_device_new d = \<lparr>media_chip = media_chip d,
     mux_sel_hdl = mux_sel_hdl d, mux_sel_val = mux_sel_val d,
     mod_sel_hdl = mod_sel_hdl d, mod_sel_val = mod_sel_val d,
     mod_pres_hdl = mod_pres_hdl d, mod_pres_bitmask = mod_pres_bitmask d,
     mod_tx_control_hdl = None, mod_tx_control_bitmask = 0,
     mod_sfp_rx_los_hdl = None, mod_sfp_rx_los_bitmask = 0,
     mod_sfp_tx_fault_hdl = None, mod_sfp_tx_fault_bitmask = 0,
     sfp_capability = SDI_MEDIA_SPEED_10M\<rparr>"

definition QSFP28_DD_DATAPATH_POWERUP_VALUE :: u8 where "QSFP28_DD_DATAPATH_POWERUP_VALUE = 0xFF"
definition QSFP28_DD_DATAPATH_POWERUP_OFFSET :: u32 where "QSFP28_DD_DATAPATH_POWERUP_OFFSET = 92"
definition QSFP28_DD_DATAPATH_POWERUP_OFFSET_REV3 :: u32 where "QSFP28_DD_DATAPATH_POWERUP_OFFSET_REV3 = 128"

text \<open>
  The data path of a double density module. The version is read twice; the first reading is kept
  and chooses the register, the second one decides whether the path is powered up.
\<close>

definition qsfp_dd_init ::
    "std_lib \<Rightarrow> 'w os \<Rightarrow> ('w, 'x) qsfp_device_scheme \<Rightarrow> 'w \<Rightarrow> (t_std_error \<times> u8 \<times> 'w) option" where
  "qsfp_dd_init L os d w = do {
     let c = media_chip d;
     (_, version, w) \<leftarrow> media_read c (chip_addr c) QSFP28_DD_EEPROM_VERSION_OFFSET 0 w;
     let r3 = ((ucast version :: u32) = QSFP28_DD_EEPROM_VERSION_3);
     let offset = (if r3 then QSFP28_DD_DATAPATH_POWERUP_OFFSET_REV3 else QSFP28_DD_DATAPATH_POWERUP_OFFSET);
     (rc, version2, w) \<leftarrow> media_read c (chip_addr c) QSFP28_DD_EEPROM_VERSION_OFFSET version w;
     if ucast version2 \<ge> QSFP28_DD_EEPROM_VERSION_2 then do {
       (_, w) \<leftarrow> sdi_qsfp_page_select L c (if r3 then 16 else 0) (qsfp_wait os d w);
       (_, w) \<leftarrow> media_write c (chip_addr c) offset QSFP28_DD_DATAPATH_POWERUP_VALUE (qsfp_wait os d w);
       (rc, _, w) \<leftarrow> media_read c (chip_addr c) offset 0 (qsfp_wait os d w);
       (_, w) \<leftarrow> sdi_qsfp_page_select L c (ucast SDI_MEDIA_PAGE_DEFAULT) (qsfp_wait os d w);
       Some (rc, version, w)
     } else Some (rc, version, w)
   }"

text \<open>
  The power class of any other module, determined after the module was deselected. A module that
  controls its power by software is put into low power; the result of that is dropped.
\<close>

definition qsfp_power_init ::
    "std_lib \<Rightarrow> 'w os \<Rightarrow> 'w qsfp_device \<Rightarrow> 'w \<Rightarrow> ('w qsfp_device \<times> 'w) option" where
  "qsfp_power_init L os d w = do {
     (rc, (mw, soft), w) \<leftarrow> sdi_qsfp_media_max_power_get os d w;
     let d = d\<lparr>module_info := (module_info d)\<lparr>max_module_power_mw := mw, software_controlled_power_mode := soft\<rparr>\<rparr>;
     if rc = STD_ERR_OK \<and> soft then do {
       (_, w) \<leftarrow> sdi_qsfp_media_force_power_mode_set L os d False w;
       Some (d, w)
     } else Some (d, w)
   }"

definition qsfp_module_plugged ::
    "std_lib \<Rightarrow> 'w os \<Rightarrow> ('w qsfp_device \<times> 'w) action" where
  "qsfp_module_plugged L os = (\<lambda>(d, w). do {
     (rc, w) \<leftarrow> sdi_qsfp_module_select os d w;
     if rc \<noteq> STD_ERR_OK then Some (rc, (d, w))
     else do {
       let c = media_chip d;
       (rc, identifier, w) \<leftarrow> media_read c (chip_addr c) IDENTIFIER_OFFSET 0 w;
       if rc \<noteq> STD_ERR_OK then do {
         w \<leftarrow> sdi_qsfp_module_deselect os d w;
         Some (rc, (d, w))
       } else do {
         let d = d\<lparr>mod_type := (if identifier = 0x03 \<or> identifier = 0x0b then QSFP_QSA_ADAPTER else mod_type d),
           mod_category := sdi_qsfp_get_category identifier\<rparr>;
         if mod_type d = QSFP_QSA_ADAPTER then do {
           let d = d\<lparr>qsa_sfp_device := Some (qsa_sfp_device_new d)\<rparr>;
           w \<leftarrow> sdi_qsfp_module_deselect os d w;
           Some (rc, (d, w))
         } else do {
           (rc, w) \<leftarrow> qsfp_default_page_if_paged L c w;
           if identifier = 0x18 then do {
             (rc, version, w) \<leftarrow> qsfp_dd_init L os d w;
             w \<leftarrow> sdi_qsfp_module_deselect os d w;
             Some (rc, (d\<lparr>eeprom_version := ucast version\<rparr>, w))
           } else do {
             w \<leftarrow> sdi_qsfp_module_deselect os d w;
             (d, w) \<leftarrow> qsfp_power_init L os d w;
             Some (rc, (d, w))
           }
         }
       }
     }
   })"

definition sdi_qsfp_module_init :: "std_lib \<Rightarrow> 'w os \<Rightarrow> bool \<Rightarrow> ('w qsfp_device \<times> 'w) action" where
  "sdi_qsfp_module_init L os pres = (\<lambda>(d, w).
     let d = d\<lparr>eeprom_version := 0\<rparr>
     in if pres then qsfp_module_plugged L os (d, w)
        else if mod_type d = QSFP_QSA_ADAPTER
        then Some (STD_ERR_OK, (d\<lparr>mod_type := SDI_MEDIA_DEFAULT, qsa_sfp_device := None\<rparr>, w))
        else Some (STD_ERR_OK, (d, w)))"

section \<open>The QSA adapter\<close>

definition sdi_qsfp_module_reset ::
    "std_lib \<Rightarrow> 'w os \<Rightarrow> ('w, 'x) qsfp_device_scheme \<Rightarrow> bool \<Rightarrow> 'w action" where
  "sdi_qsfp_module_reset L os d reset =
     pin_group_set_bit L os (mod_reset_hdl d) (mod_reset_bitmask d) reset
       (Some (MILLI_TO_MICRO (mod_reset_delay_ms d)))"

definition qsa_adapter_of :: "u8 list \<Rightarrow> sdi_qsa_adapter_type" where
  "qsa_adapter_of buf =
     (if buf ! 0 = SDI_QSFP_QSA28_OUI_VAL0 \<and> buf ! 1 = SDI_QSFP_QSA28_OUI_VAL1 \<and>
         buf ! 2 = SDI_QSFP_QSA28_OUI_VAL2
      then SDI_QSA_ADAPTER_QSA28 else SDI_QSA_ADAPTER_QSA)"

text \<open>
  The module is held in reset while the adapter is asked. The result is that of leaving the reset.
\<close>

definition sdi_qsfp_qsa_adapter_type_get ::
    "std_lib \<Rightarrow> 'w os \<Rightarrow> ('w, 'x) qsfp_device_scheme \<Rightarrow> (sdi_qsa_adapter_type, 'w) query" where
  "sdi_qsfp_qsa_adapter_type_get L os d qsa_adapter w =
     (if mod_type d \<noteq> QSFP_QSA_ADAPTER then Some (STD_ERR_OK, SDI_QSA_ADAPTER_NONE, w)
      else do {
        (_, w) \<leftarrow> sdi_qsfp_module_reset L os d True w;
        (rc, w) \<leftarrow> sdi_qsfp_module_select os d w;
        if rc \<noteq> STD_ERR_OK then Some (rc, SDI_QSA_ADAPTER_UNKNOWN, w)
        else do {
          (rc, buf, w) \<leftarrow> media_read_multi (media_chip d) (chip_addr (media_chip d)) SDI_QSFP_QSA28_OUI_OFFSET
            [0, 0, 0] 3 (qsfp_wait os d w);
          let adapter = (if rc = STD_ERR_OK then qsa_adapter_of buf else SDI_QSA_ADAPTER_UNKNOWN);
          w \<leftarrow> sdi_qsfp_module_deselect os d w;
          (rc, w) \<leftarrow> sdi_qsfp_module_reset L os d False w;
          Some (rc, adapter, w)
        }
      })"

section \<open>Presence and module control\<close>

definition sdi_qsfp_presence_get ::
    "std_lib \<Rightarrow> 'w os \<Rightarrow> ('w, 'x) qsfp_device_scheme \<Rightarrow> (bool, 'w) query" where
  "sdi_qsfp_presence_get L os d pres w = do {
     (rc, value, w) \<leftarrow> pin_group_get os (mod_pres_hdl d) w;
     Some (rc, rc = STD_ERR_OK \<and> bit32_test L value (mod_pres_bitmask d), w)
   }"

text \<open>Whether the software control worked is only logged; the low power line is set in any case.\<close>

definition sdi_qsfp_module_control ::
    "std_lib \<Rightarrow> 'w os \<Rightarrow> ('w, 'x) qsfp_device_scheme \<Rightarrow> sdi_media_module_ctrl_type \<Rightarrow> bool \<Rightarrow> 'w action" where
  "sdi_qsfp_module_control L os d ctrl_type enable w =
     (if mod_type d = QSFP_QSA_ADAPTER then Some (SDI_ERRCODE EOPNOTSUPP, w)
      else case ctrl_type of
        SDI_MEDIA_LP_MODE \<Rightarrow>
          if max_port_power_mw (port_info d) < max_module_power_mw (module_info d) \<and> \<not> enable
          then Some (SDI_DEVICE_ERRCODE EOPNOTSUPP, w)
          else do {
            (_, w) \<leftarrow> (if software_controlled_power_mode (module_info d)
               then sdi_qsfp_media_force_power_mode_set L os d (\<not> enable) w else Some (STD_ERR_OK, w));
            pin_group_set_bit L os (mod_lpmode_hdl d) (mod_lpmode_bitmask d) enable None w
          }
      | SDI_MEDIA_RESET \<Rightarrow> pin_group_set_bit L os (mod_reset_hdl d) (mod_reset_bitmask d) enable None w)"

definition sdi_qsfp_module_control_status_get ::
    "std_lib \<Rightarrow> 'w os \<Rightarrow> ('w, 'x) qsfp_device_scheme \<Rightarrow> sdi_media_module_ctrl_type \<Rightarrow> (bool, 'w) query" where
  "sdi_qsfp_module_control_status_get L os d ctrl_type status w =
     (if mod_type d = QSFP_QSA_ADAPTER then Some (SDI_ERRCODE EOPNOTSUPP, status, w)
      else do {
        let (hdl, bitmask) = (case ctrl_type of
           SDI_MEDIA_LP_MODE \<Rightarrow> (mod_lpmode_hdl d, mod_lpmode_bitmask d)
         | SDI_MEDIA_RESET \<Rightarrow> (mod_reset_hdl d, mod_reset_bitmask d));
        (rc, value, w) \<leftarrow> pin_group_get os hdl w;
        Some (rc, if rc = STD_ERR_OK then bit32_test L value bitmask else status, w)
      })"

definition sdi_qsfp_module_info_get :: "(sdi_media_module_info, 'w) query" where
  "sdi_qsfp_module_info_get info w = Some (STD_ERR_OK, info, w)"

definition sdi_qsfp_port_info_get :: "(sdi_media_port_info, 'w) query" where
  "sdi_qsfp_port_info_get info w = Some (STD_ERR_OK, info, w)"

section \<open>The callback table\<close>

text \<open>A function that leaves the private data alone, on pairs.\<close>

definition q_ask :: "('d \<Rightarrow> ('a, 'w) query) \<Rightarrow> ('a, 'd \<times> 'w) query" where
  "q_ask f x = (\<lambda>(d, w). do { (rc, x, w) \<leftarrow> f d x w; Some (rc, x, (d, w)) })"

definition q_act :: "('d \<Rightarrow> 'w action) \<Rightarrow> ('d \<times> 'w) action" where
  "q_act f = (\<lambda>(d, w). do { (rc, w) \<leftarrow> f d w; Some (rc, (d, w)) })"

definition qsfp_media :: "std_lib \<Rightarrow> math_lib \<Rightarrow> 'w os \<Rightarrow> ('w qsfp_device \<times> 'w) media_ctrl" where
  "qsfp_media L M os = \<lparr>
     mc_presence_get = q_ask (sdi_qsfp_presence_get L os),
     mc_module_init = sdi_qsfp_module_init L os,
     mc_module_monitor_status_get = (\<lambda>flags. q_ask (\<lambda>d. sdi_qsfp_module_monitor_status_get L os d flags)),
     mc_channel_monitor_status_get =
       (\<lambda>ch flags. q_ask (\<lambda>d. sdi_qsfp_channel_monitor_status_get L os d ch flags)),
     mc_channel_status_get = (\<lambda>ch flags. q_ask (\<lambda>d. sdi_qsfp_channel_status_get L os d ch flags)),
     mc_tx_control = (\<lambda>ch b. q_act (\<lambda>d. sdi_qsfp_tx_control L os d ch b)),
     mc_tx_control_status_get = (\<lambda>ch. q_ask (\<lambda>d. sdi_qsfp_tx_control_status_get L os d ch)),
     mc_cdr_status_set = Some (\<lambda>ch b. q_act (\<lambda>d. sdi_qsfp_cdr_status_set L os d ch b)),
     mc_cdr_status_get = Some (\<lambda>ch. q_ask (\<lambda>d. sdi_qsfp_cdr_status_get L os d ch)),
     mc_speed_get = q_ask sdi_qsfp_speed_get,
     mc_parameter_get = (\<lambda>p. q_ask (\<lambda>d. sdi_qsfp_parameter_get L M os d p)),
     mc_vendor_info_get = (\<lambda>t. q_ask (\<lambda>d. sdi_qsfp_vendor_info_get os d t)),
     mc_transceiver_code_get = q_ask (sdi_qsfp_transceiver_code_get os),
     mc_threshold_get = (\<lambda>t. q_ask (\<lambda>d. sdi_qsfp_threshold_get L M os d t)),
     mc_module_monitor_threshold_get = sdi_qsfp_module_monitor_threshold_get,
     mc_channel_monitor_threshold_get = sdi_qsfp_channel_monitor_threshold_get,
     mc_module_control = Some (\<lambda>t b. q_act (\<lambda>d. sdi_qsfp_module_control L os d t b)),
     mc_module_control_status_get = Some (\<lambda>t. q_ask (\<lambda>d. sdi_qsfp_module_control_status_get L os d t)),
     mc_module_monitor_get = (\<lambda>m. q_ask (\<lambda>d. sdi_qsfp_module_monitor_get L M os d m)),
     mc_channel_monitor_get = (\<lambda>ch m. q_ask (\<lambda>d. sdi_qsfp_channel_monitor_get L M os d ch m)),
     mc_feature_support_status_get = q_ask (sdi_qsfp_feature_support_status_get L os),
     mc_led_set = None,
     mc_read = (\<lambda>i n. q_ask (\<lambda>d. sdi_qsfp_read L os d i n)),
     mc_write = (\<lambda>i n. q_ask (\<lambda>d. sdi_qsfp_write L os d i n)),
     mc_read_generic = (\<lambda>a n. q_ask (\<lambda>d. sdi_qsfp_read_generic L os d a n)),
     mc_write_generic = (\<lambda>a n. q_ask (\<lambda>d. sdi_qsfp_write_generic L os d a n)),
     mc_phy_autoneg_set = (\<lambda>ch t b. q_act (\<lambda>d. sdi_qsfp_phy_autoneg_set os d ch t b)),
     mc_phy_speed_set = (\<lambda>ch t v. q_act (\<lambda>d. sdi_qsfp_phy_speed_set L os d ch t v)),
     mc_phy_mode_set = (\<lambda>ch t v. q_act (\<lambda>d. sdi_qsfp_phy_mode_set os d ch t v)),
     mc_wavelength_set = (\<lambda>v. q_act (\<lambda>d. sdi_qsfp_wavelength_set L M os d v)),
     mc_phy_link_status_get = (\<lambda>ch t. q_ask (\<lambda>d. sdi_qsfp_phy_link_status_get L os d ch t)),
     mc_phy_power_down_enable = (\<lambda>ch t b. q_act (\<lambda>d. sdi_qsfp_phy_power_down_enable os d ch t b)),
     mc_ext_rate_select = Some (\<lambda>ch r b. q_act (\<lambda>d. sdi_qsfp_ext_rate_select os d ch r b)),
     mc_phy_serdes_control = (\<lambda>ch t b. q_act (\<lambda>d. sdi_qsfp_phy_serdes_control L os d ch t b)),
     mc_qsa_adapter_type_get = q_ask (sdi_qsfp_qsa_adapter_type_get L os),
     mc_port_info_get = sdi_qsfp_port_info_get,
     mc_module_info_get = sdi_qsfp_module_info_get\<rparr>"

section \<open>Registration\<close>

definition SDI_MEDIA_DEFAULT_QSFP28_DD_MAX_PORT_POWER_MILLIWATTS :: u32 where
  "SDI_MEDIA_DEFAULT_QSFP28_DD_MAX_PORT_POWER_MILLIWATTS = 7000"
definition SDI_MEDIA_DEFAULT_QSFP28_MAX_PORT_POWER_MILLIWATTS :: u32 where
  "SDI_MEDIA_DEFAULT_QSFP28_MAX_PORT_POWER_MILLIWATTS = 4500"
definition SDI_MEDIA_DEFAULT_QSFP_MAX_PORT_POWER_MILLIWATTS :: u32 where
  "SDI_MEDIA_DEFAULT_QSFP_MAX_PORT_POWER_MILLIWATTS = 3500"

text \<open>Speed, port type, density and rank by the port type of the configuration.\<close>

definition qsfp_port_kind :: "config_node \<Rightarrow> sdi_media_speed \<times> sdi_port_type \<times> u32 \<times> u32" where
  "qsfp_port_kind node =
     (let a = std_config_attr_get node ''port_type''
      in if a = Some ''QSFP28'' then (SDI_MEDIA_SPEED_100G, SDI_MEDIA_PORT_TYPE_QSFP28, 1, 0)
         else if a = Some ''QSFP28-DD-1'' then (SDI_MEDIA_SPEED_200G, SDI_MEDIA_PORT_TYPE_QSFP28_DD_1, 2, 0)
         else if a = Some ''QSFP28-DD-2'' then (SDI_MEDIA_SPEED_200G, SDI_MEDIA_PORT_TYPE_QSFP28_DD_2, 2, 1)
         else (SDI_MEDIA_SPEED_40G, SDI_MEDIA_PORT_TYPE_QSFP_PLUS, 1, 0))"

definition qsfp_default_port_power :: "sdi_media_speed \<Rightarrow> u32" where
  "qsfp_default_port_power speed =
     (if speed = SDI_MEDIA_SPEED_100G then SDI_MEDIA_DEFAULT_QSFP28_MAX_PORT_POWER_MILLIWATTS
      else if speed = SDI_MEDIA_SPEED_200G then SDI_MEDIA_DEFAULT_QSFP28_DD_MAX_PORT_POWER_MILLIWATTS
      else SDI_MEDIA_DEFAULT_QSFP_MAX_PORT_POWER_MILLIWATTS)"

definition qsfp_data_new :: "'w sdi_env \<Rightarrow> config_node \<Rightarrow> 'w chip \<Rightarrow> 'w qsfp_device option" where
  "qsfp_data_new E node chip = do {
     sel \<leftarrow> media_sel_new E node 0 chip;
     reset \<leftarrow> attr_group E node ''mod_reset_bus'';
     reset_bitmask \<leftarrow> attr_num node ''mod_reset_bitmask'' 0;
     lpmode \<leftarrow> attr_group E node ''mod_lpmode_bus'';
     lpmode_bitmask \<leftarrow> attr_num node ''mod_lpmode_bitmask'' 0;
     let (speed, type, density, rank) = qsfp_port_kind node;
     Some (media_sel.extend sel \<lparr>mod_reset_hdl = reset, mod_reset_bitmask = reset_bitmask,
       mod_reset_delay_ms = attr_num_or node ''mod_reset_delay_ms'' 0 0,
       mod_lpmode_hdl = lpmode, mod_lpmode_bitmask = lpmode_bitmask,
       qsfp_delay = attr_num_or node ''mod_sel_delay'' 0 0,
       mod_type = SDI_MEDIA_DEFAULT, qsa_sfp_device = None, mod_category = SDI_CATEGORY_QSFP,
       qsfp_capability = speed,
       module_info = \<lparr>module_density = 0, eeprom_map_version = 0, software_controlled_power_mode = False,
         max_module_power_mw = 0\<rparr>,
       port_info = \<lparr>max_port_speed_mbps = 0, port_density = density,
         max_port_power_mw = sint (attr_num_or node ''max_port_power_mw'' 0 (qsfp_default_port_power speed)),
         port_type = type, sub_port_rank = rank, sub_port_channel_offset = 0\<rparr>,
       eeprom_version = 0\<rparr>)
   }"

definition sdi_qsfp_register ::
    "'w sdi_env \<Rightarrow> math_lib \<Rightarrow> config_node \<Rightarrow> 'w sdi_i2c_bus \<Rightarrow> ('w qsfp_device \<times> 'w) sdi_sys
      \<Rightarrow> (t_std_error \<times> 'w chip \<times> ('w qsfp_device \<times> 'w) sdi_sys) option" where
  "sdi_qsfp_register E M node bus_handle s = do {
     STD_ASSERT (bus_type (bus bus_handle) = SDI_I2C_BUS);
     chip \<leftarrow> media_chip_new ''qsfp-'' node bus_handle;
     d \<leftarrow> qsfp_data_new E node chip;
     Some (STD_ERR_OK, chip, sdi_resource_add (env_lib E) SDI_RESOURCE_MEDIA (chip_alias chip)
       (Media_Fns (qsfp_media (env_lib E) M (env_os E))) (s\<lparr>dev := (d, snd (dev s))\<rparr>))
   }"

definition sdi_qsfp_init :: "'w chip \<Rightarrow> 'w sdi_sys \<Rightarrow> (t_std_error \<times> 'w sdi_sys) option" where
  "sdi_qsfp_init device_hdl s = Some (STD_ERR_OK, s)"

end
