(* ===== verification/Qsfp_Channels.thy ===== *)
theory Qsfp_Channels
  imports Qsfp
begin

text \<open>
  What the channels of a QSFP module are to the caller: independent transmitters and clock and data
  recovery circuits that are switched on and off. The driver keeps them in bits of shared
  registers, behind a module selection, at places that depend on the kind of module. Any sequence
  of calls does to the registers what the same sequence does to a board of switches.
\<close>

section \<open>A module that answers\<close>

text \<open>
  The module is a register file behind its bus; selecting it, waiting and deselecting it do not
  fail and do not touch its registers.
\<close>

definition quiet_group :: "'w os \<Rightarrow> ('w \<Rightarrow> u8 \<Rightarrow> u8) \<Rightarrow> (u32, 'w) pin_bus \<Rightarrow> bool" where
  "quiet_group os regs g \<longleftrightarrow>
     (\<forall>w. \<exists>w'. sdi_pin_group_acquire_bus os g w = Some (STD_ERR_OK, w') \<and> regs w' = regs w) \<and>
     (\<forall>v w. \<exists>w'. sdi_pin_group_write_level g v w = Some (STD_ERR_OK, w') \<and> regs w' = regs w) \<and>
     (\<forall>w. \<exists>w'. sdi_pin_group_release_bus os g w = Some w' \<and> regs w' = regs w)"

definition answering_module :: "'w os \<Rightarrow> ('w, 'x) media_sel_scheme \<Rightarrow> ('w \<Rightarrow> u8 \<Rightarrow> u8) \<Rightarrow> bool" where
  "answering_module os d regs \<longleftrightarrow>
     register_file (chip_bus (media_chip d)) (chip_addr (media_chip d)) regs \<and>
     (\<forall>g \<in> set_option (mux_sel_hdl d) \<union> set_option (mod_sel_hdl d). quiet_group os regs g) \<and>
     (\<forall>n w. regs (std_usleep os n w) = regs w)"

lemma quiet_groupE:
  assumes "quiet_group os regs g"
  obtains w1 where "sdi_pin_group_acquire_bus os g w = Some (STD_ERR_OK, w1)" "regs w1 = regs w"
  using assms unfolding quiet_group_def by meson

lemma quiet_group_writeE:
  assumes "quiet_group os regs g"
  obtains w1 where "sdi_pin_group_write_level g v w = Some (STD_ERR_OK, w1)" "regs w1 = regs w"
  using assms unfolding quiet_group_def by meson

lemma quiet_group_releaseE:
  assumes "quiet_group os regs g"
  obtains w1 where "sdi_pin_group_release_bus os g w = Some w1" "regs w1 = regs w"
  using assms unfolding quiet_group_def by meson

lemma quiet_group_select:
  assumes "\<forall>g \<in> set_option h. quiet_group os regs g"
  obtains w1 where "(case h of None \<Rightarrow> Some (STD_ERR_OK, w) | Some g \<Rightarrow> do {
      (rc, w) \<leftarrow> sdi_pin_group_acquire_bus os g w;
      if rc \<noteq> STD_ERR_OK then Some (rc, w)
      else do {
        (rc, w) \<leftarrow> sdi_pin_group_write_level g v w;
        if rc \<noteq> STD_ERR_OK then do { w \<leftarrow> sdi_pin_group_release_bus os g w; Some (rc, w) }
        else Some (rc, w)
      }
    }) = Some (STD_ERR_OK, w1)" "regs w1 = regs w"
proof (cases h)
  case (Some g)
  then have q: "quiet_group os regs g" using assms by simp
  obtain w1 where "sdi_pin_group_acquire_bus os g w = Some (STD_ERR_OK, w1)" "regs w1 = regs w"
    by (rule quiet_groupE [OF q])
  moreover obtain w2 where "sdi_pin_group_write_level g v w1 = Some (STD_ERR_OK, w2)" "regs w2 = regs w1"
    by (rule quiet_group_writeE [OF q])
  ultimately show ?thesis using that [of w2] Some by simp
qed (use that in simp)

lemma answering_select:
  assumes "answering_module os d regs"
  shows "\<exists>w'. sdi_qsfp_module_select os d w = Some (STD_ERR_OK, w') \<and> regs w' = regs w"
proof -
  have q: "\<forall>g \<in> set_option (mux_sel_hdl d). quiet_group os regs g" "\<forall>g \<in> set_option (mod_sel_hdl d). quiet_group os regs g"
    using assms by (auto simp: answering_module_def)
  obtain w1 where w1: "(case mux_sel_hdl d of None \<Rightarrow> Some (STD_ERR_OK, w) | Some g \<Rightarrow> do {
      (rc, w) \<leftarrow> sdi_pin_group_acquire_bus os g w;
      if rc \<noteq> STD_ERR_OK then Some (rc, w)
      else do {
        (rc, w) \<leftarrow> sdi_pin_group_write_level g (mux_sel_val d) w;
        if rc \<noteq> STD_ERR_OK then do { w \<leftarrow> sdi_pin_group_release_bus os g w; Some (rc, w) }
        else Some (rc, w)
      }
    }) = Some (STD_ERR_OK, w1)" "regs w1 = regs w"
    by (rule quiet_group_select [OF q(1)])
  show ?thesis
  proof (cases "mod_sel_hdl d")
    case None
    then show ?thesis using w1 by (simp add: sdi_qsfp_module_select_def)
  next
    case (Some g)
    then have g: "quiet_group os regs g" using q(2) by simp
    obtain w2 where "sdi_pin_group_acquire_bus os g w1 = Some (STD_ERR_OK, w2)" "regs w2 = regs w1"
      by (rule quiet_groupE [OF g])
    moreover obtain w3 where "sdi_pin_group_write_level g (mod_sel_val d) w2 = Some (STD_ERR_OK, w3)" "regs w3 = regs w2"
      by (rule quiet_group_writeE [OF g])
    ultimately show ?thesis using w1 Some by (simp add: sdi_qsfp_module_select_def)
  qed
qed

lemma answering_release:
  assumes "\<forall>g \<in> set_option h. quiet_group os regs g"
  shows "\<exists>w'. release_group_opt os h w = Some w' \<and> regs w' = regs w"
  using assms unfolding release_group_opt_def quiet_group_def by (cases h) auto

lemma answering_deselect:
  assumes "answering_module os d regs"
  shows "\<exists>w'. sdi_qsfp_module_deselect os d w = Some w' \<and> regs w' = regs w"
proof -
  have q: "\<forall>g \<in> set_option (mux_sel_hdl d). quiet_group os regs g" "\<forall>g \<in> set_option (mod_sel_hdl d). quiet_group os regs g"
    using assms by (auto simp: answering_module_def)
  obtain w1 where "release_group_opt os (mux_sel_hdl d) w = Some w1" "regs w1 = regs w"
    using answering_release [OF q(1)] by blast
  moreover obtain w2 where "release_group_opt os (mod_sel_hdl d) w1 = Some w2" "regs w2 = regs w1"
    using answering_release [OF q(2)] by blast
  ultimately show ?thesis by (simp add: sdi_qsfp_module_deselect_def)
qed

text \<open>Work on a selected module.\<close>

lemma answering_with_module:
  assumes M: "answering_module os d regs"
    and f: "\<And>u. regs u = regs w \<Longrightarrow> \<exists>w'. f u = Some (rc, x, w') \<and> regs w' = r"
  shows "\<exists>w'. with_module os d y f w = Some (rc, x, w') \<and> regs w' = r"
proof -
  obtain w1 where w1: "sdi_qsfp_module_select os d w = Some (STD_ERR_OK, w1)" "regs w1 = regs w"
    using answering_select [OF M] by blast
  obtain w2 where w2: "f w1 = Some (rc, x, w2)" "regs w2 = r"
    using f w1(2) by blast
  obtain w3 where w3: "sdi_qsfp_module_deselect os d w2 = Some w3" "regs w3 = regs w2"
    using answering_deselect [OF M] by blast
  show ?thesis using w1 w2 w3 by (simp add: with_module_def)
qed

lemma answering_with_qsfp:
  assumes M: "answering_module os d regs"
    and f: "\<And>u. regs u = regs w \<Longrightarrow> \<exists>w'. f u = Some (rc, x, w') \<and> regs w' = r"
  shows "\<exists>w'. with_qsfp os d y f w = Some (rc, x, w') \<and> regs w' = r"
  unfolding with_qsfp_def
  by (rule answering_with_module [OF M], rule f) (use M in \<open>simp add: answering_module_def qsfp_wait_def\<close>)

lemma answering_with_qsfp_do:
  assumes M: "answering_module os d regs"
    and f: "\<And>u. regs u = regs w \<Longrightarrow> \<exists>w'. f u = Some (rc, w') \<and> regs w' = r"
  shows "\<exists>w'. with_qsfp_do os d f w = Some (rc, w') \<and> regs w' = r"
proof -
  let ?f = "\<lambda>w. do { (rc, w) \<leftarrow> f w; Some (rc, (), w) }"
  have "\<exists>w'. with_qsfp os d () ?f w = Some (rc, (), w') \<and> regs w' = r"
    by (rule answering_with_qsfp [OF M]) (use f in fastforce)
  then show ?thesis
    by (auto simp: with_qsfp_do_def with_module_do_def with_qsfp_def)
qed

lemma answering_read:
  assumes "answering_module os d regs"
  shows "\<exists>w'. media_read (media_chip d) (chip_addr (media_chip d)) r v w =
    Some (STD_ERR_OK, regs w (ucast r), w') \<and> regs w' = regs w"
  using assms by (intro register_read_byte) (simp add: answering_module_def)

lemma answering_write:
  assumes "answering_module os d regs"
  shows "\<exists>w'. media_write (media_chip d) (chip_addr (media_chip d)) r v w = Some (STD_ERR_OK, w') \<and>
    regs w' = (regs w)(ucast r := v)"
  using assms by (intro register_write_byte) (simp add: answering_module_def)

section \<open>Switches in the bits of a register\<close>

interpretation switch: reg_field
  "\<lambda>r. bit8_test L r b" "\<lambda>v. bit8_put L v b" "\<lambda>_. bit8_laws L \<and> b < 8" "pin_bits_outside L b"
  for L b
proof
  fix v :: bool and r
  assume laws: "bit8_laws L \<and> b < 8"
  show "bit8_test L (bit8_put L v b r) b = v"
    using laws by (simp add: bit8_put_def bit8_laws_def)
  show "pin_bits_outside L b (bit8_put L v b r) = pin_bits_outside L b r"
    using laws by (intro ext) (auto simp: pin_bits_outside_def bit8_put_def bit8_laws_def)
qed

lemma bit8_test_put:
  assumes "bit8_laws L" and "b < 8" and "c < 8"
  shows "bit8_test L (bit8_put L v b r) c = (if c = b then v else bit8_test L r c)"
proof (cases "c = b")
  case False
  have "pin_bits_outside L b (bit8_put L v b r) c = pin_bits_outside L b r c"
    using switch.put_outside [of L b v r] assms by simp
  then show ?thesis using False assms(3) by (simp add: pin_bits_outside_def)
qed (use switch.get_put [of L b v r] assms in simp)

section \<open>The board of switches\<close>

record channel_board =
  transmits :: "u32 \<Rightarrow> bool"
  recovers :: "u32 \<Rightarrow> bool"

datatype channel_call = Tx_Control u32 bool | Tx_Status u32 | Cdr_Set u32 bool | Cdr_Status u32

primrec call_channel :: "channel_call \<Rightarrow> u32" where
  "call_channel (Tx_Control c b) = c"
| "call_channel (Tx_Status c) = c"
| "call_channel (Cdr_Set c b) = c"
| "call_channel (Cdr_Status c) = c"

fun board_step :: "channel_call \<Rightarrow> channel_board \<Rightarrow> bool \<times> channel_board" where
  "board_step (Tx_Control c b) s = (False, s\<lparr>transmits := (transmits s)(c := b)\<rparr>)"
| "board_step (Tx_Status c) s = (transmits s c, s)"
| "board_step (Cdr_Set c b) s = (False, s\<lparr>recovers := (recovers s)(c := b)\<rparr>)"
| "board_step (Cdr_Status c) s = (recovers s c, s)"

text \<open>A call for a channel that the module does not have is refused.\<close>

definition channel_count :: "qsfp_category \<Rightarrow> u32" where
  "channel_count k = (if k = SDI_CATEGORY_QSFPDD then 8 else 4)"

definition board_call :: "qsfp_category \<Rightarrow> channel_call \<Rightarrow> channel_board \<Rightarrow> (t_std_error \<times> bool) \<times> channel_board" where
  "board_call k c s =
     (if call_channel c < channel_count k
      then (let (answer, s) = board_step c s in ((STD_ERR_OK, answer), s))
      else ((SDI_DEVICE_ERR_PARAM, False), s))"

primrec board_calls ::
    "qsfp_category \<Rightarrow> channel_call list \<Rightarrow> channel_board \<Rightarrow> (t_std_error \<times> bool) list \<times> channel_board" where
  "board_calls k [] s = ([], s)"
| "board_calls k (c # cs) s =
     (let (a, s) = board_call k c s; (answers, s) = board_calls k cs s in (a # answers, s))"

section \<open>The driver\<close>

primrec qsfp_channel_call ::
    "std_lib \<Rightarrow> 'w os \<Rightarrow> 'w qsfp_device \<Rightarrow> channel_call \<Rightarrow> 'w \<Rightarrow> ((t_std_error \<times> bool) \<times> 'w) option" where
  "qsfp_channel_call L os d (Tx_Control c b) w = do {
     (rc, w) \<leftarrow> sdi_qsfp_tx_control L os d c b w; Some ((rc, False), w) }"
| "qsfp_channel_call L os d (Tx_Status c) w = do {
     (rc, status, w) \<leftarrow> sdi_qsfp_tx_control_status_get L os d c False w; Some ((rc, status), w) }"
| "qsfp_channel_call L os d (Cdr_Set c b) w = do {
     (rc, w) \<leftarrow> sdi_qsfp_cdr_status_set L os d c b w; Some ((rc, False), w) }"
| "qsfp_channel_call L os d (Cdr_Status c) w = do {
     (rc, status, w) \<leftarrow> sdi_qsfp_cdr_status_get L os d c False w; Some ((rc, status), w) }"

primrec qsfp_channel_calls ::
    "std_lib \<Rightarrow> 'w os \<Rightarrow> 'w qsfp_device \<Rightarrow> channel_call list \<Rightarrow> 'w
      \<Rightarrow> ((t_std_error \<times> bool) list \<times> 'w) option" where
  "qsfp_channel_calls L os d [] w = Some ([], w)"
| "qsfp_channel_calls L os d (c # cs) w = do {
     (a, w) \<leftarrow> qsfp_channel_call L os d c w;
     (answers, w) \<leftarrow> qsfp_channel_calls L os d cs w;
     Some (a # answers, w)
   }"

text \<open>
  Where the switches are. A transmitter is on when its bit is clear; the recovery circuits of the
  two directions of a channel count as one, which is on when either of them is.
\<close>

definition tx_register :: "qsfp_category \<Rightarrow> u8" where
  "tx_register k = (if k = SDI_CATEGORY_QSFPDD then 84 else 86)"

definition cdr_on :: "std_lib \<Rightarrow> qsfp_category \<Rightarrow> (u8 \<Rightarrow> u8) \<Rightarrow> u32 \<Rightarrow> bool" where
  "cdr_on L k r c =
     (if k = SDI_CATEGORY_QSFPDD then bit8_test L (r 90) c \<or> bit8_test L (r 91) c
      else bit8_test L (r 98) (c + 4) \<or> bit8_test L (r 98) c)"

definition board_of :: "std_lib \<Rightarrow> qsfp_category \<Rightarrow> (u8 \<Rightarrow> u8) \<Rightarrow> channel_board" where
  "board_of L k r = \<lparr>
     transmits = (\<lambda>c. c < channel_count k \<and> \<not> bit8_test L (r (tx_register k)) c),
     recovers = (\<lambda>c. c < channel_count k \<and> cdr_on L k r c)\<rparr>"

definition switch_registers :: "qsfp_category \<Rightarrow> u8 set" where
  "switch_registers k = (if k = SDI_CATEGORY_QSFPDD then {84, 90, 91} else {86, 98})"

text \<open>The options of a module that can switch everything: transmitters, and recovery both ways.\<close>

definition all_switchable :: "std_lib \<Rightarrow> (u8 \<Rightarrow> u8) \<Rightarrow> bool" where
  "all_switchable L r \<longleftrightarrow> bit8_test L (r 195) 4 \<and> bit8_test L (r 194) 7 \<and> bit8_test L (r 194) 6"

section \<open>One call\<close>

lemma channel_valid: "sdi_qsfp_validate_channel c k \<longleftrightarrow> c < channel_count k"
  by (auto simp: sdi_qsfp_validate_channel_def channel_count_def word_le_nat_alt word_less_nat_alt)

lemma channel_bit:
  assumes "c < channel_count k"
  shows "c < 8" and "k \<noteq> SDI_CATEGORY_QSFPDD \<Longrightarrow> c + 4 < 8 \<and> c + 4 \<noteq> c"
proof -
  show "c < 8" using assms by (auto simp: channel_count_def word_less_nat_alt split: if_splits)
  assume "k \<noteq> SDI_CATEGORY_QSFPDD"
  then have "unat c < 4" using assms by (simp add: channel_count_def word_less_nat_alt)
  then show "c + 4 < 8 \<and> c + 4 \<noteq> c" by (simp add: word_less_nat_alt unat_word_ariths)
qed

lemma tx_switch_registers:
  assumes M: "answering_module os d regs" and S: "bit8_test L (regs w 195) 4"
  shows "\<exists>w'. qsfp_tx_switch L os (media_chip d) t c b w = Some (STD_ERR_OK, w') \<and>
    regs w' = (regs w)(ucast t := bit8_put L (\<not> b) c (regs w (ucast t)))"
proof -
  let ?h = "media_chip d"
  obtain w1 where w1: "media_read ?h (chip_addr ?h) QSFP_OPTIONS4_OFFSET 0 w = Some (STD_ERR_OK, regs w 195, w1)" "regs w1 = regs w"
    using answering_read [OF M, of QSFP_OPTIONS4_OFFSET 0 w] by auto
  obtain w2 where w2: "media_read ?h (chip_addr ?h) t 0 w1 = Some (STD_ERR_OK, regs w1 (ucast t), w2)" "regs w2 = regs w1"
    using answering_read [OF M, of t 0 w1] by auto
  let ?v = "if b then bit8_clear L (regs w (ucast t)) c else bit8_set L (regs w (ucast t)) c"
  obtain w3 where w3: "media_write ?h (chip_addr ?h) t ?v w2 = Some (STD_ERR_OK, w3)" "regs w3 = (regs w2)(ucast t := ?v)"
    using answering_write [OF M, of t ?v w2] by auto
  have "regs (std_usleep os n w3) = regs w3" for n using M by (simp add: answering_module_def)
  then show ?thesis
    using w1 w2 w3 S by (cases b) (simp_all add: qsfp_tx_switch_def sdi_is_tx_control_supported_def media_bit_get_def bit8_put_def)
qed

lemma cdr_flags:
  "bit8_test L v0 7 \<Longrightarrow> bit8_test L v0 6 \<Longrightarrow>
     raise_if (bit8_test L v0 6) cdr_rx_flag (raise_if (bit8_test L v0 7) cdr_tx_flag 0) = 192"
  "cdr_bit L 192 cdr_tx_flag b c v = bit8_put L b c v"
  "cdr_bit L 192 cdr_rx_flag b c v = bit8_put L b c v"
  by (simp_all add: raise_if_def cdr_bit_def bit8_put_def cdr_tx_flag_def cdr_rx_flag_def)

lemma cdr_support_read:
  assumes M: "answering_module os d regs" and S: "bit8_test L (regs w 194) 7" "bit8_test L (regs w 194) 6"
  shows "\<exists>w'. sdi_is_cdr_control_supported L (media_chip d) w = Some (STD_ERR_OK, 192, w') \<and> regs w' = regs w"
proof -
  obtain w1 where "media_read (media_chip d) (chip_addr (media_chip d)) QSFP_OPTIONS3_OFFSET 0 w =
      Some (STD_ERR_OK, regs w 194, w1)" "regs w1 = regs w"
    using answering_read [OF M, of QSFP_OPTIONS3_OFFSET 0 w] by auto
  then show ?thesis
    using cdr_flags(1) [OF S] by (simp add: sdi_is_cdr_control_supported_def)
qed

definition cdr_set_registers :: "std_lib \<Rightarrow> qsfp_category \<Rightarrow> u32 \<Rightarrow> bool \<Rightarrow> (u8 \<Rightarrow> u8) \<Rightarrow> u8 \<Rightarrow> u8" where
  "cdr_set_registers L k c b r =
     (if k = SDI_CATEGORY_QSFPDD then r(90 := bit8_put L b c (r 90), 91 := bit8_put L b c (r 91))
      else r(98 := bit8_put L b c (bit8_put L b (c + 4) (r 98))))"

lemma cdr_set_registers:
  assumes M: "answering_module os d regs" and S: "bit8_test L (regs w 194) 7" "bit8_test L (regs w 194) 6"
  shows "\<exists>w'. qsfp_cdr_set L d c b w = Some (STD_ERR_OK, w') \<and>
    regs w' = cdr_set_registers L (mod_category d) c b (regs w)"
proof -
  let ?h = "media_chip d"
  note put = cdr_flags(2,3)
  obtain w1 where w1: "sdi_is_cdr_control_supported L ?h w = Some (STD_ERR_OK, 192, w1)" "regs w1 = regs w"
    using cdr_support_read [OF M S] by blast
  show ?thesis
  proof (cases "mod_category d = SDI_CATEGORY_QSFPDD")
    case True
    obtain w2 where w2: "media_read ?h (chip_addr ?h) QSFP_DD_TX_CDR_CONTROL_OFFSET 0 w1 =
        Some (STD_ERR_OK, regs w 90, w2)" "regs w2 = regs w"
      using answering_read [OF M, of QSFP_DD_TX_CDR_CONTROL_OFFSET 0 w1] w1(2) by auto
    obtain w3 where w3: "media_write ?h (chip_addr ?h) QSFP_DD_TX_CDR_CONTROL_OFFSET
        (bit8_put L b c (regs w 90)) w2 = Some (STD_ERR_OK, w3)" "regs w3 = (regs w)(90 := bit8_put L b c (regs w 90))"
      using answering_write [OF M, of QSFP_DD_TX_CDR_CONTROL_OFFSET _ w2] w2(2) by auto
    obtain w4 where w4: "media_read ?h (chip_addr ?h) QSFP_DD_RX_CDR_CONTROL_OFFSET (bit8_put L b c (regs w 90)) w3 =
        Some (STD_ERR_OK, regs w 91, w4)" "regs w4 = regs w3"
      using answering_read [OF M, of QSFP_DD_RX_CDR_CONTROL_OFFSET _ w3] w3(2) by auto
    obtain w5 where "media_write ?h (chip_addr ?h) QSFP_DD_RX_CDR_CONTROL_OFFSET
        (bit8_put L b c (regs w 91)) w4 = Some (STD_ERR_OK, w5)" "regs w5 = (regs w3)(91 := bit8_put L b c (regs w 91))"
      using answering_write [OF M, of QSFP_DD_RX_CDR_CONTROL_OFFSET _ w4] w4(2) by auto
    then show ?thesis
      using True w1 w2 w3 w4 put by (simp add: qsfp_cdr_set_def cdr_set_registers_def)
  next
    case False
    obtain w2 where w2: "media_read ?h (chip_addr ?h) QSFP_CDR_CONTROL_OFFSET 0 w1 =
        Some (STD_ERR_OK, regs w 98, w2)" "regs w2 = regs w"
      using answering_read [OF M, of QSFP_CDR_CONTROL_OFFSET 0 w1] w1(2) by auto
    obtain w3 where "media_write ?h (chip_addr ?h) QSFP_CDR_CONTROL_OFFSET
        (bit8_put L b c (bit8_put L b (c + 4) (regs w 98))) w2 = Some (STD_ERR_OK, w3)"
      "regs w3 = (regs w)(98 := bit8_put L b c (bit8_put L b (c + 4) (regs w 98)))"
      using answering_write [OF M, of QSFP_CDR_CONTROL_OFFSET _ w2] w2(2) by auto
    then show ?thesis
      using False w1 w2 put by (simp add: qsfp_cdr_set_def cdr_set_registers_def)
  qed
qed

lemma cdr_get_registers:
  assumes M: "answering_module os d regs" and S: "bit8_test L (regs w 194) 7" "bit8_test L (regs w 194) 6"
  shows "\<exists>w'. qsfp_cdr_get L d c b w = Some (STD_ERR_OK, cdr_on L (mod_category d) (regs w) c, w') \<and> regs w' = regs w"
proof -
  let ?h = "media_chip d"
  obtain w1 where w1: "sdi_is_cdr_control_supported L ?h w = Some (STD_ERR_OK, 192, w1)" "regs w1 = regs w"
    using cdr_support_read [OF M S] by blast
  show ?thesis
  proof (cases "mod_category d = SDI_CATEGORY_QSFPDD")
    case True
    obtain w2 where w2: "media_read ?h (chip_addr ?h) QSFP_DD_TX_CDR_CONTROL_OFFSET 0 w1 =
        Some (STD_ERR_OK, regs w 90, w2)" "regs w2 = regs w"
      using answering_read [OF M, of QSFP_DD_TX_CDR_CONTROL_OFFSET 0 w1] w1(2) by auto
    obtain w3 where "media_read ?h (chip_addr ?h) QSFP_DD_RX_CDR_CONTROL_OFFSET 0 w2 =
        Some (STD_ERR_OK, regs w 91, w3)" "regs w3 = regs w"
      using answering_read [OF M, of QSFP_DD_RX_CDR_CONTROL_OFFSET 0 w2] w2(2) by auto
    then show ?thesis
      using True w1 w2 by (simp add: qsfp_cdr_get_def cdr_on_def)
  next
    case False
    obtain w2 where "media_read ?h (chip_addr ?h) QSFP_CDR_CONTROL_OFFSET 0 w1 =
        Some (STD_ERR_OK, regs w 98, w2)" "regs w2 = regs w"
      using answering_read [OF M, of QSFP_CDR_CONTROL_OFFSET 0 w1] w1(2) by auto
    then show ?thesis
      using False w1 by (simp add: qsfp_cdr_get_def cdr_on_def)
  qed
qed

text \<open>The board after the registers have changed.\<close>

lemma board_of_tx:
  assumes "bit8_laws L" and "c < channel_count k"
  shows "board_of L k (r(tx_register k := bit8_put L (\<not> b) c (r (tx_register k)))) =
    (board_of L k r)\<lparr>transmits := (transmits (board_of L k r))(c := b)\<rparr>"
proof -
  have other: "tx_register k \<noteq> 90 \<and> tx_register k \<noteq> 91 \<and> tx_register k \<noteq> 98" by (simp add: tx_register_def)
  have "cdr_on L k (r(tx_register k := v)) = cdr_on L k r" for v
    using other by (cases "k = SDI_CATEGORY_QSFPDD") (auto simp: cdr_on_def fun_eq_iff tx_register_def)
  moreover have "x < channel_count k \<Longrightarrow>
      bit8_test L (bit8_put L (\<not> b) c (r (tx_register k))) x = (if x = c then \<not> b else bit8_test L (r (tx_register k)) x)" for x
    using assms by (intro bit8_test_put) (auto dest: channel_bit(1))
  ultimately show ?thesis using assms(2) by (auto simp: board_of_def fun_eq_iff)
qed

lemma cdr_on_set:
  assumes L: "bit8_laws L" and c: "c < channel_count k" and x: "x < channel_count k"
  shows "cdr_on L k (cdr_set_registers L k c b r) x = (if x = c then b else cdr_on L k r x)"
proof (cases "k = SDI_CATEGORY_QSFPDD")
  case True
  then show ?thesis
    using bit8_test_put [OF L channel_bit(1) [OF c] channel_bit(1) [OF x]]
    by (simp add: cdr_on_def cdr_set_registers_def)
next
  case False
  have 8: "c < 8" "x < 8" "c + 4 < 8" "x + 4 < 8" using channel_bit [OF c] channel_bit [OF x] False by auto
  have "unat c < 4" "unat x < 4" using c x False by (simp_all add: channel_count_def word_less_nat_alt)
  then have ne: "x + 4 \<noteq> c" "c + 4 \<noteq> x" by (auto simp: word_unat_eq_iff unat_word_ariths)
  show ?thesis
    using False ne by (simp add: cdr_on_def cdr_set_registers_def bit8_test_put [OF L] 8)
qed

lemma board_of_cdr:
  assumes "bit8_laws L" and "c < channel_count k"
  shows "board_of L k (cdr_set_registers L k c b r) =
    (board_of L k r)\<lparr>recovers := (recovers (board_of L k r))(c := b)\<rparr>"
proof -
  have "cdr_set_registers L k c b r (tx_register k) = r (tx_register k)"
    by (simp add: tx_register_def cdr_set_registers_def)
  then show ?thesis using assms by (auto simp: board_of_def fun_eq_iff cdr_on_set)
qed

text \<open>One call of the driver is one step of the board and leaves every other register as it was.\<close>

definition only_switches :: "qsfp_category \<Rightarrow> (u8 \<Rightarrow> u8) \<Rightarrow> (u8 \<Rightarrow> u8) \<Rightarrow> bool" where
  "only_switches k r r' \<longleftrightarrow> (\<forall>n. n \<notin> switch_registers k \<longrightarrow> r' n = r n)"

lemma only_switches_tx: "only_switches k r (r(tx_register k := v))"
  by (simp add: only_switches_def tx_register_def switch_registers_def)

lemma only_switches_cdr: "only_switches k r (cdr_set_registers L k c b r)"
  by (simp add: only_switches_def cdr_set_registers_def switch_registers_def)

lemma only_switches_refl: "only_switches k r r"
  by (simp add: only_switches_def)

lemma only_switches_trans: "only_switches k r s \<Longrightarrow> only_switches k s t \<Longrightarrow> only_switches k r t"
  by (simp add: only_switches_def)

lemma only_switches_switchable: "only_switches k r s \<Longrightarrow> all_switchable L r \<Longrightarrow> all_switchable L s"
  by (cases "k = SDI_CATEGORY_QSFPDD") (simp_all add: only_switches_def all_switchable_def switch_registers_def)

lemma tx_register: "ucast (qsfp_tx_control_reg d) = tx_register (mod_category d)"
  by (simp add: qsfp_tx_control_reg_def dd_offset_def tx_register_def)

lemma tx_control_call:
  assumes M: "answering_module os d regs" and L: "bit8_laws L" and Q: "mod_type d \<noteq> QSFP_QSA_ADAPTER"
    and S: "bit8_test L (regs w 195) 4" and c: "c < channel_count (mod_category d)"
  shows "\<exists>w'. sdi_qsfp_tx_control L os d c b w = Some (STD_ERR_OK, w') \<and>
    board_of L (mod_category d) (regs w') =
      (board_of L (mod_category d) (regs w))\<lparr>transmits := (transmits (board_of L (mod_category d) (regs w)))(c := b)\<rparr> \<and>
    only_switches (mod_category d) (regs w) (regs w')"
proof -
  let ?k = "mod_category d"
  let ?r = "(regs w)(tx_register ?k := bit8_put L (\<not> b) c (regs w (tx_register ?k)))"
  have "\<exists>w'. with_qsfp_do os d (qsfp_tx_switch L os (media_chip d) (qsfp_tx_control_reg d) c b) w = Some (STD_ERR_OK, w') \<and> regs w' = ?r"
  proof (rule answering_with_qsfp_do [OF M])
    fix u assume u: "regs u = regs w"
    then have "bit8_test L (regs u 195) 4" using S by simp
    from tx_switch_registers [OF M this, of "qsfp_tx_control_reg d" c b]
    show "\<exists>w'. qsfp_tx_switch L os (media_chip d) (qsfp_tx_control_reg d) c b u = Some (STD_ERR_OK, w') \<and> regs w' = ?r"
      by (simp add: u tx_register)
  qed
  then show ?thesis
    using Q c board_of_tx [OF L c] only_switches_tx
    by (auto simp: sdi_qsfp_tx_control_def channel_valid)
qed

lemma tx_status_call:
  assumes M: "answering_module os d regs" and Q: "mod_type d \<noteq> QSFP_QSA_ADAPTER"
    and c: "c < channel_count (mod_category d)"
  shows "\<exists>w'. sdi_qsfp_tx_control_status_get L os d c s w =
    Some (STD_ERR_OK, transmits (board_of L (mod_category d) (regs w)) c, w') \<and> regs w' = regs w"
proof -
  let ?t = "qsfp_tx_control_reg d" and ?h = "media_chip d"
  let ?f = "\<lambda>w. do {
        (rc, buf, w) \<leftarrow> media_read ?h (chip_addr ?h) ?t 0 w;
        Some (rc, if rc = STD_ERR_OK then \<not> bit8_test L buf c else s, w)
      }"
  have "\<exists>w'. with_qsfp os d s ?f w =
      Some (STD_ERR_OK, \<not> bit8_test L (regs w (tx_register (mod_category d))) c, w') \<and> regs w' = regs w"
  proof (rule answering_with_qsfp [OF M])
    fix u assume u: "regs u = regs w"
    obtain u1 where "media_read ?h (chip_addr ?h) ?t 0 u = Some (STD_ERR_OK, regs u (ucast ?t), u1)" "regs u1 = regs u"
      using answering_read [OF M] by blast
    then show "\<exists>w'. ?f u = Some (STD_ERR_OK, \<not> bit8_test L (regs w (tx_register (mod_category d))) c, w') \<and> regs w' = regs w"
      by (simp add: u tx_register)
  qed
  then show ?thesis
    using Q c by (simp add: sdi_qsfp_tx_control_status_get_def channel_valid board_of_def)
qed

lemma cdr_set_call:
  assumes M: "answering_module os d regs" and L: "bit8_laws L" and Q: "mod_type d \<noteq> QSFP_QSA_ADAPTER"
    and S: "bit8_test L (regs w 194) 7" "bit8_test L (regs w 194) 6" and c: "c < channel_count (mod_category d)"
  shows "\<exists>w'. sdi_qsfp_cdr_status_set L os d c b w = Some (STD_ERR_OK, w') \<and>
    board_of L (mod_category d) (regs w') =
      (board_of L (mod_category d) (regs w))\<lparr>recovers := (recovers (board_of L (mod_category d) (regs w)))(c := b)\<rparr> \<and>
    only_switches (mod_category d) (regs w) (regs w')"
proof -
  let ?r = "cdr_set_registers L (mod_category d) c b (regs w)"
  have "\<exists>w'. with_qsfp_do os d (qsfp_cdr_set L d c b) w = Some (STD_ERR_OK, w') \<and> regs w' = ?r"
  proof (rule answering_with_qsfp_do [OF M])
    fix u assume u: "regs u = regs w"
    then have "bit8_test L (regs u 194) 7" "bit8_test L (regs u 194) 6" using S by simp_all
    from cdr_set_registers [OF M this, of c b]
    show "\<exists>w'. qsfp_cdr_set L d c b u = Some (STD_ERR_OK, w') \<and> regs w' = ?r" by (simp add: u)
  qed
  then show ?thesis
    using Q c board_of_cdr [OF L c] only_switches_cdr
    by (auto simp: sdi_qsfp_cdr_status_set_def channel_valid)
qed

lemma cdr_status_call:
  assumes M: "answering_module os d regs" and Q: "mod_type d \<noteq> QSFP_QSA_ADAPTER"
    and S: "bit8_test L (regs w 194) 7" "bit8_test L (regs w 194) 6" and c: "c < channel_count (mod_category d)"
  shows "\<exists>w'. sdi_qsfp_cdr_status_get L os d c s w =
    Some (STD_ERR_OK, recovers (board_of L (mod_category d) (regs w)) c, w') \<and> regs w' = regs w"
proof -
  have "\<exists>w'. with_qsfp os d s (qsfp_cdr_get L d c s) w =
      Some (STD_ERR_OK, cdr_on L (mod_category d) (regs w) c, w') \<and> regs w' = regs w"
  proof (rule answering_with_qsfp [OF M])
    fix u assume u: "regs u = regs w"
    then have "bit8_test L (regs u 194) 7" "bit8_test L (regs u 194) 6" using S by simp_all
    from cdr_get_registers [OF M this, of c s]
    show "\<exists>w'. qsfp_cdr_get L d c s u = Some (STD_ERR_OK, cdr_on L (mod_category d) (regs w) c, w') \<and> regs w' = regs w"
      by (simp add: u)
  qed
  then show ?thesis
    using Q c by (simp add: sdi_qsfp_cdr_status_get_def channel_valid board_of_def)
qed

lemma refused_call:
  assumes "mod_type d \<noteq> QSFP_QSA_ADAPTER" and "\<not> call_channel x < channel_count (mod_category d)"
  shows "qsfp_channel_call L os d x w = Some ((SDI_DEVICE_ERR_PARAM, False), w)"
  using assms
  by (cases x) (simp_all add: sdi_qsfp_tx_control_def sdi_qsfp_tx_control_status_get_def
      sdi_qsfp_cdr_status_set_def sdi_qsfp_cdr_status_get_def channel_valid)

lemma channel_call_refines:
  assumes M: "answering_module os d regs" and L: "bit8_laws L" and Q: "mod_type d \<noteq> QSFP_QSA_ADAPTER"
    and S: "all_switchable L (regs w)"
  shows "\<exists>w'. qsfp_channel_call L os d x w =
      Some (fst (board_call (mod_category d) x (board_of L (mod_category d) (regs w))), w') \<and>
    board_of L (mod_category d) (regs w') =
      snd (board_call (mod_category d) x (board_of L (mod_category d) (regs w))) \<and>
    only_switches (mod_category d) (regs w) (regs w')"
proof (cases "call_channel x < channel_count (mod_category d)")
  case False
  then show ?thesis using refused_call [OF Q] by (simp add: board_call_def only_switches_refl)
next
  case True
  note S = S [unfolded all_switchable_def]
  show ?thesis
  proof (cases x)
    case (Tx_Control c b)
    then show ?thesis using tx_control_call [OF M L Q, of w c b] S True by (auto simp: board_call_def)
  next
    case (Tx_Status c)
    then show ?thesis using tx_status_call [OF M Q, of c L False w] True
      by (auto simp: board_call_def only_switches_refl)
  next
    case (Cdr_Set c b)
    then show ?thesis using cdr_set_call [OF M L Q, of w c b] S True by (auto simp: board_call_def)
  next
    case (Cdr_Status c)
    then show ?thesis using cdr_status_call [OF M Q, of L w c False] S True
      by (auto simp: board_call_def only_switches_refl)
  qed
qed

section \<open>Any sequence of calls\<close>

text \<open>
  C37. On a QSFP or QSFP-DD module that answers and can switch everything, any sequence of the four
  channel calls of the driver gives the answers of a board of independent switches, with SDI_DEVICE_ERR_PARAM
  for the channels the module does not have. It leaves the registers where the board ends
  up, and every register that holds no switch as it was.
\<close>

theorem qsfp_channels_refine:
  assumes "answering_module os d regs" and "bit8_laws L" and "mod_type d \<noteq> QSFP_QSA_ADAPTER"
    and "all_switchable L (regs w)"
  shows "\<exists>w'. qsfp_channel_calls L os d cs w =
      Some (fst (board_calls (mod_category d) cs (board_of L (mod_category d) (regs w))), w') \<and>
    board_of L (mod_category d) (regs w') =
      snd (board_calls (mod_category d) cs (board_of L (mod_category d) (regs w))) \<and>
    only_switches (mod_category d) (regs w) (regs w')"
  using assms(4)
proof (induction cs arbitrary: w)
  case (Cons x cs)
  obtain w1 where w1: "qsfp_channel_call L os d x w =
      Some (fst (board_call (mod_category d) x (board_of L (mod_category d) (regs w))), w1)"
    "board_of L (mod_category d) (regs w1) = snd (board_call (mod_category d) x (board_of L (mod_category d) (regs w)))"
    "only_switches (mod_category d) (regs w) (regs w1)"
    using channel_call_refines [OF assms(1-3) Cons.prems] by blast
  from only_switches_switchable [OF w1(3) Cons.prems] Cons.IH
  obtain w2 where "qsfp_channel_calls L os d cs w1 =
      Some (fst (board_calls (mod_category d) cs (board_of L (mod_category d) (regs w1))), w2)"
    "board_of L (mod_category d) (regs w2) = snd (board_calls (mod_category d) cs (board_of L (mod_category d) (regs w1)))"
    "only_switches (mod_category d) (regs w1) (regs w2)" by blast
  then show ?case using w1 only_switches_trans by (auto simp: case_prod_beta)
qed (simp add: only_switches_refl)

definition sample_select_group :: "(u32, u8 \<Rightarrow> u8) pin_bus" where
  "sample_select_group = \<lparr>
     pin_base = \<lparr>bus_type = SDI_PIN_GROUP_BUS, bus_id = 0, bus_name = ''module_select'', sdi_device_list = []\<rparr>,
     pin_lock = Mutex 7,
     pin_ops = \<lparr>
       ops_read_level = (\<lambda>v w. Some (STD_ERR_OK, v, w)),
       ops_write_level = (\<lambda>v w. Some (STD_ERR_OK, w)),
       ops_set_direction = (\<lambda>v w. Some (STD_ERR_OK, w)),
       ops_get_direction = (\<lambda>v w. Some (STD_ERR_OK, v, w)),
       ops_set_polarity = (\<lambda>v w. Some (STD_ERR_OK, w)),
       ops_get_polarity = (\<lambda>v w. Some (STD_ERR_OK, v, w))\<rparr>\<rparr>"

definition sample_qsfp :: "'w chip \<Rightarrow> (u32, 'w) pin_bus option \<Rightarrow> 'w qsfp_device" where
  "sample_qsfp c sel = \<lparr>media_chip = c, mux_sel_hdl = None, mux_sel_val = 0, mod_sel_hdl = sel, mod_sel_val = 1,
     mod_pres_hdl = None, mod_pres_bitmask = 0, mod_reset_hdl = None, mod_reset_bitmask = 0,
     mod_reset_delay_ms = 0, mod_lpmode_hdl = None, mod_lpmode_bitmask = 0, qsfp_delay = 0,
     mod_type = SDI_MEDIA_DEFAULT, qsa_sfp_device = None, mod_category = SDI_CATEGORY_QSFP28,
     qsfp_capability = SDI_MEDIA_SPEED_100G,
     module_info = \<lparr>module_density = 4, eeprom_map_version = 0, software_controlled_power_mode = False,
       max_module_power_mw = 0\<rparr>,
     port_info = \<lparr>max_port_speed_mbps = 100000, port_density = 4, max_port_power_mw = 3500,
       port_type = SDI_MEDIA_PORT_TYPE_QSFP28, sub_port_rank = 0, sub_port_channel_offset = 0\<rparr>,
     eeprom_version = 0\<rparr>"

definition sample_module :: "(u8 \<Rightarrow> u8) qsfp_device" where
  "sample_module = sample_qsfp
     \<lparr>chip_bus = sample_bus, chip_addr = sample_chip_addr, chip_instance = 0, chip_alias = ''qsfp''\<rparr>
     (Some sample_select_group)"

definition sample_module_os :: "(u8 \<Rightarrow> u8) os" where
  "sample_module_os = \<lparr>std_mutex_lock_init = (\<lambda>m w. w), std_mutex_lock = (\<lambda>m w. Some (STD_ERR_OK, w)),
     std_mutex_unlock = (\<lambda>m w. Some (STD_ERR_OK, w)), std_usleep = (\<lambda>n w. w), os_errno = (\<lambda>w. EIO)\<rparr>"

lemma sample_module_answers: "answering_module sample_module_os sample_module (\<lambda>w. w)"
  by (simp add: answering_module_def sample_module_def sample_qsfp_def sample_register_file quiet_group_def
      sample_select_group_def sdi_pin_group_acquire_bus_def sdi_pin_group_write_level_def
      sdi_pin_group_release_bus_def sample_module_os_def)

theorem qsfp_channels_refine_witness:
  "\<exists>w'. qsfp_channel_calls sample_lib sample_module_os sample_module
      [Tx_Control 2 False, Tx_Status 2, Cdr_Set 1 True, Cdr_Status 1, Tx_Status 5]
      ((\<lambda>_. 0)(194 := 192, 195 := 16)) =
    Some ([(STD_ERR_OK, False), (STD_ERR_OK, False), (STD_ERR_OK, False), (STD_ERR_OK, True),
      (SDI_DEVICE_ERR_PARAM, False)], w') \<and> w' 194 = 192"
proof -
  let ?w = "(\<lambda>_. 0)(194 := 192, 195 := 16) :: u8 \<Rightarrow> u8"
  let ?cs = "[Tx_Control 2 False, Tx_Status 2, Cdr_Set 1 True, Cdr_Status 1, Tx_Status 5]"
  have k: "mod_category sample_module = SDI_CATEGORY_QSFP28" by (simp add: sample_module_def sample_qsfp_def)
  have S: "all_switchable sample_lib ?w" by (simp add: all_switchable_def sample_lib_def)
  obtain w' where w': "qsfp_channel_calls sample_lib sample_module_os sample_module ?cs ?w =
      Some (fst (board_calls SDI_CATEGORY_QSFP28 ?cs (board_of sample_lib SDI_CATEGORY_QSFP28 ?w)), w')"
    "only_switches SDI_CATEGORY_QSFP28 ?w w'"
    using qsfp_channels_refine [OF sample_module_answers sample_lib_bit8, where w = ?w and cs = ?cs] S k
    by (auto simp: sample_module_def sample_qsfp_def)
  have "w' 194 = 192" using w'(2) by (simp add: only_switches_def switch_registers_def)
  then show ?thesis using w'(1) by (simp add: board_call_def channel_count_def)
qed

end
