(* ===== verification/Qsfp_Locks.thy ===== *)
theory Qsfp_Locks
  imports Qsfp_Channels I2c_Mux
begin

text \<open>
  The locks of a QSFP module: its calls select the module with the group of its select lines, hold
  the lock of that group while they talk to the module, and give it back on every path.
\<close>

section \<open>Steps that keep the locks\<close>

text \<open>
  A step that keeps the held locks as they are, and does its transfers under the lock \<open>m\<close>: the
  composition rules of such steps, for the two kinds of results that the driver functions have.
\<close>

definition keeps ::
    "('w \<Rightarrow> 'w \<Rightarrow> bool) \<Rightarrow> 'w \<Rightarrow> (t_std_error \<times> 'a \<times> 'w) option \<Rightarrow> bool" where
  "keeps R w r \<longleftrightarrow> (\<forall>e x w'. r = Some (e, x, w') \<longrightarrow> R w w')"

definition keeps_do :: "('w \<Rightarrow> 'w \<Rightarrow> bool) \<Rightarrow> 'w \<Rightarrow> (t_std_error \<times> 'w) option \<Rightarrow> bool" where
  "keeps_do R w r \<longleftrightarrow> (\<forall>e w'. r = Some (e, w') \<longrightarrow> R w w')"

named_theorems keeps_intros

lemma keeps_return [keeps_intros]:
  "R w w' \<Longrightarrow> keeps R w (Some (e, x, w'))"
  "R w w' \<Longrightarrow> keeps_do R w (Some (e, w'))"
  by (simp_all add: keeps_def keeps_do_def)

lemma keeps_if [keeps_intros]:
  "(b \<Longrightarrow> keeps R w r) \<Longrightarrow> (\<not> b \<Longrightarrow> keeps R w s) \<Longrightarrow> keeps R w (if b then r else s)"
  "(b \<Longrightarrow> keeps_do R w p) \<Longrightarrow> (\<not> b \<Longrightarrow> keeps_do R w q) \<Longrightarrow> keeps_do R w (if b then p else q)"
  by simp_all

lemma keeps_bind [keeps_intros]:
  assumes "transp R"
  shows "keeps R w r \<Longrightarrow> (\<And>e x u. keeps R u (f e x u)) \<Longrightarrow> keeps R w (r \<bind> (\<lambda>(e, x, u). f e x u))"
    and "keeps R w r \<Longrightarrow> (\<And>e x u. keeps_do R u (g e x u)) \<Longrightarrow> keeps_do R w (r \<bind> (\<lambda>(e, x, u). g e x u))"
    and "keeps_do R w p \<Longrightarrow> (\<And>e u. keeps R u (h e u)) \<Longrightarrow> keeps R w (p \<bind> (\<lambda>(e, u). h e u))"
    and "keeps_do R w p \<Longrightarrow> (\<And>e u. keeps_do R u (k e u)) \<Longrightarrow> keeps_do R w (p \<bind> (\<lambda>(e, u). k e u))"
  using assms unfolding keeps_def keeps_do_def transp_def
  by (auto simp: bind_eq_Some_conv split: prod.splits)

lemma keeps_split [keeps_intros]:
  "(\<And>a b. keeps R w (f a b w)) \<Longrightarrow> keeps R w (case_prod f x w)"
  "(\<And>a b. keeps_do R w (g a b w)) \<Longrightarrow> keeps_do R w (case_prod g x w)"
  by (simp_all split: prod.splits)

lemma keeps_case:
  "(\<And>a b. keeps R w (f a b)) \<Longrightarrow> keeps R w (case_prod f x)"
  by (simp split: prod.splits)

lemma keepsD: "keeps R w r \<Longrightarrow> r = Some (e, x, w') \<Longrightarrow> R w w'"
  by (simp add: keeps_def)

lemma keeps_doD: "keeps_do R w p \<Longrightarrow> p = Some (e, w') \<Longrightarrow> R w w'"
  by (simp add: keeps_do_def)

lemma keeps_from:
  "transp R \<Longrightarrow> R w u \<Longrightarrow> keeps R u r \<Longrightarrow> keeps R w r"
  "transp R \<Longrightarrow> R w u \<Longrightarrow> keeps_do R u p \<Longrightarrow> keeps_do R w p"
  unfolding keeps_def keeps_do_def transp_def by blast+

lemma runs_transp [keeps_intros]: "transp (runs tr m fd hs hs)"
  by (auto simp: transp_def intro: runs_trans)

lemma runs_self [keeps_intros]: "runs tr m fd hs hs w w"
  by simp

section \<open>The calls on the EEPROM of a module\<close>

text \<open>
  One call of src/drivers/sdi\_qsfp\_eeprom.c on a module that is plugged in, with any arguments, that
  returns. Three things are left out. A raw transfer that asks for a page looks at the module before
  it selects it. The query of the maximal power is a step only when it succeeds: when the read fails,
  it keeps the locks (\<open>failed_max_power_keeps_locks\<close>). And sdi\_qsfp\_module\_init, which is called when a
  module is plugged in or out and makes that query, changes the private data that are fixed here.
\<close>

inductive qsfp_step ::
    "std_lib \<Rightarrow> math_lib \<Rightarrow> 'w os \<Rightarrow> ('w, 'x) qsfp_device_scheme \<Rightarrow> 'w \<Rightarrow> 'w \<Rightarrow> bool" for L M os d where
  "sdi_qsfp_feature_support_status_get L os d f w = Some (e, f', w') \<Longrightarrow> qsfp_step L M os d w w'"
| "sdi_qsfp_module_monitor_status_get L os d fl s w = Some (e, s', w') \<Longrightarrow> qsfp_step L M os d w w'"
| "sdi_qsfp_channel_monitor_status_get L os d ch fl s w = Some (e, s', w') \<Longrightarrow> qsfp_step L M os d w w'"
| "sdi_qsfp_channel_status_get L os d ch fl s w = Some (e, s', w') \<Longrightarrow> qsfp_step L M os d w w'"
| "sdi_qsfp_tx_control L os d ch b w = Some (e, w') \<Longrightarrow> qsfp_step L M os d w w'"
| "sdi_qsfp_tx_control_status_get L os d ch b w = Some (e, b', w') \<Longrightarrow> qsfp_step L M os d w w'"
| "sdi_qsfp_cdr_status_set L os d ch b w = Some (e, w') \<Longrightarrow> qsfp_step L M os d w w'"
| "sdi_qsfp_cdr_status_get L os d ch b w = Some (e, b', w') \<Longrightarrow> qsfp_step L M os d w w'"
| "sdi_qsfp_ext_rate_select os d ch fw b w = Some (e, w') \<Longrightarrow> qsfp_step L M os d w w'"
| "sdi_qsfp_parameter_get L M os d p v w = Some (e, v', w') \<Longrightarrow> qsfp_step L M os d w w'"
| "sdi_qsfp_vendor_info_get os d t vs w = Some (e, vs', w') \<Longrightarrow> qsfp_step L M os d w w'"
| "sdi_qsfp_transceiver_code_get os d c w = Some (e, c', w') \<Longrightarrow> qsfp_step L M os d w w'"
| "sdi_qsfp_threshold_get L M os d h x w = Some (e, x', w') \<Longrightarrow> qsfp_step L M os d w w'"
| "sdi_qsfp_module_monitor_get L M os d mm x w = Some (e, x', w') \<Longrightarrow> qsfp_step L M os d w w'"
| "sdi_qsfp_channel_monitor_get L M os d ch cm x w = Some (e, x', w') \<Longrightarrow> qsfp_step L M os d w w'"
| "sdi_qsfp_read_generic L os d a n vs w = Some (e, vs', w') \<Longrightarrow> eeprom_page a = SDI_MEDIA_PAGE_SELECT_IGNORE \<Longrightarrow>
     qsfp_step L M os d w w'"
| "sdi_qsfp_write_generic L os d a n vs w = Some (e, vs', w') \<Longrightarrow> eeprom_page a = SDI_MEDIA_PAGE_SELECT_IGNORE \<Longrightarrow>
     qsfp_step L M os d w w'"
| "sdi_qsfp_phy_autoneg_set os d ch ty b w = Some (e, w') \<Longrightarrow> qsfp_step L M os d w w'"
| "sdi_qsfp_phy_mode_set os d ch ty mo w = Some (e, w') \<Longrightarrow> qsfp_step L M os d w w'"
| "sdi_qsfp_phy_speed_set L os d ch ty sp w = Some (e, w') \<Longrightarrow> qsfp_step L M os d w w'"
| "sdi_qsfp_media_force_power_mode_set L os d b w = Some (e, w') \<Longrightarrow> qsfp_step L M os d w w'"
| "sdi_qsfp_media_max_power_get os d w = Some (STD_ERR_OK, pw, w') \<Longrightarrow> qsfp_step L M os d w w'"
| "sdi_qsfp_read L os d ofs n vs w = Some (e, vs', w') \<Longrightarrow> qsfp_step L M os d w w'"
| "sdi_qsfp_write L os d ofs n vs w = Some (e, vs', w') \<Longrightarrow> qsfp_step L M os d w w'"
| "sdi_qsfp_qsa_adapter_type_get L os d q w = Some (e, q', w') \<Longrightarrow> qsfp_step L M os d w w'"
| "sdi_qsfp_speed_get d v w = Some (e, v', w') \<Longrightarrow> qsfp_step L M os d w w'"
| "sdi_qsfp_module_monitor_threshold_get t v w = Some (e, v', w') \<Longrightarrow> qsfp_step L M os d w w'"
| "sdi_qsfp_channel_monitor_threshold_get t v w = Some (e, v', w') \<Longrightarrow> qsfp_step L M os d w w'"
| "sdi_qsfp_phy_link_status_get L os d ch ty b w = Some (e, b', w') \<Longrightarrow> qsfp_step L M os d w w'"
| "sdi_qsfp_phy_power_down_enable os d ch ty b w = Some (e, w') \<Longrightarrow> qsfp_step L M os d w w'"
| "sdi_qsfp_phy_serdes_control L os d ch ty b w = Some (e, w') \<Longrightarrow> qsfp_step L M os d w w'"
| "sdi_qsfp_wavelength_set L M os d wl w = Some (e, w') \<Longrightarrow> qsfp_step L M os d w w'"

section \<open>A module whose selection is a lock\<close>

text \<open>
  What the driver needs of the selection: it takes the locks \<open>sel\<close> or none, deselecting gives them
  back, sleeping leaves no trace, and the bus of the module is locked for every transfer as well.
\<close>

locale selected_module =
  bus_locking "chip_bus (media_chip d)" tr m fd locks "sel @ ctx"
  for os :: "'w os" and d :: "('w, 'x) qsfp_device_scheme" and tr m fd locks sel ctx +
  assumes select_ok: "sdi_qsfp_module_select os d w = Some (STD_ERR_OK, w') \<Longrightarrow> runs tr m fd ctx (sel @ ctx) w w'"
    and select_err:
      "sdi_qsfp_module_select os d w = Some (e, w') \<Longrightarrow> e \<noteq> STD_ERR_OK \<Longrightarrow> runs tr m fd ctx ctx w w'"
    and deselect: "sdi_qsfp_module_deselect os d w = Some w' \<Longrightarrow> runs tr m fd (sel @ ctx) ctx w w'"
    and sleep: "tr (std_usleep os n w) = tr w"
begin

text \<open>Between selecting and deselecting, and outside.\<close>

abbreviation inside :: "'w \<Rightarrow> 'w \<Rightarrow> bool" where "inside \<equiv> runs tr m fd (sel @ ctx) (sel @ ctx)"
abbreviation outside :: "'w \<Rightarrow> 'w \<Rightarrow> bool" where "outside \<equiv> runs tr m fd ctx ctx"

lemma sleep_runs: "runs tr m fd hs hs w (std_usleep os n w)"
  by (auto simp: runs_def sleep intro: exI [of _ "[]"])

lemma wait_runs: "runs tr m fd hs hs w (qsfp_wait os d w)"
  by (simp add: qsfp_wait_def sleep_runs)

lemma transfers:
  "keeps inside w (media_read (media_chip d) a r v w)"
  "keeps_do inside w (media_write (media_chip d) a r v w)"
  "keeps inside w (media_read_multi (media_chip d) a r vs n w)"
  "keeps inside w (media_write_multi (media_chip d) a r vs n w)"
  "keeps inside w (sdi_smbus_read_word (chip_bus (media_chip d)) a r u flags w)"
  "keeps_do inside w (sdi_smbus_write_word (chip_bus (media_chip d)) a r u flags w)"
  by (auto simp: keeps_def keeps_do_def dest: api_runs)

lemma selected:
  assumes "\<And>u. keeps inside u (f u)"
  shows "keeps outside w (with_module os d x f w)"
proof -
  have f: "f u = Some (e, y, u') \<Longrightarrow> inside u u'" for u e y u' using assms by (auto simp: keeps_def)
  show ?thesis
    by (auto simp: keeps_def with_module_def bind_eq_Some_conv split: if_splits
        dest: select_err dest!: select_ok f deselect intro: runs_trans)
qed

lemma selected_qsfp:
  assumes "\<And>u. keeps inside u (f u)"
  shows "keeps outside w (with_qsfp os d x f w)"
  unfolding with_qsfp_def
  by (rule selected, rule keeps_from [OF runs_transp wait_runs], rule assms)

lemma selected_do:
  assumes "\<And>u. keeps_do inside u (f u)"
  shows "keeps_do outside w (with_module_do os d f w)"
    and "keeps_do outside w (with_qsfp_do os d f w)"
proof -
  have "keeps_do outside w (with_module_do os d g w)" if "\<And>u. keeps_do inside u (g u)" for g
  proof -
    have "keeps inside u (do { (rc, u) \<leftarrow> g u; Some (rc, (), u) })" for u
      using that by (auto simp: keeps_def keeps_do_def bind_eq_Some_conv)
    then have "keeps outside w (with_module os d () (\<lambda>u. do { (rc, u) \<leftarrow> g u; Some (rc, (), u) }) w)"
      by (rule selected)
    then show ?thesis
      by (auto simp: keeps_def keeps_do_def with_module_do_def bind_eq_Some_conv)
  qed
  note module = this
  show "keeps_do outside w (with_module_do os d f w)" by (rule module) (rule assms)
  show "keeps_do outside w (with_qsfp_do os d f w)"
    unfolding with_qsfp_do_def by (rule module, rule keeps_from [OF runs_transp wait_runs], rule assms)
qed

text \<open>The parts of the driver that run on a selected module.\<close>

lemma word_read: "keeps inside w (media_read_word (media_chip d) a r u w)"
  unfolding media_read_word_def by (intro keeps_intros transfers)

lemma read_if: "keeps inside w (media_read_if b (media_chip d) a r v w)"
  unfolding media_read_if_def by (intro keeps_intros transfers)

lemma bit_get: "keeps inside w (media_bit_get L (media_chip d) r b w)"
  unfolding media_bit_get_def by (intro keeps_intros transfers)

lemma page_select: "keeps_do inside w (sdi_qsfp_page_select L (media_chip d) n w)"
  unfolding sdi_qsfp_page_select_def by (intro keeps_intros transfers)

lemma supported:
  "keeps inside w (sdi_is_tx_control_supported L (media_chip d) w)"
  "keeps inside w (sdi_is_cdr_control_supported L (media_chip d) w)"
  "keeps inside w (sdi_is_paging_supported L (media_chip d) w)"
  "keeps inside w (qsfp_is_rate_select_supported L (media_chip d) w)"
  unfolding sdi_is_tx_control_supported_def sdi_is_cdr_control_supported_def
    sdi_is_paging_supported_def qsfp_is_rate_select_supported_def
  by (intro keeps_intros transfers bit_get)+

lemma default_page: "keeps_do inside w (qsfp_default_page_if_paged L (media_chip d) w)"
  unfolding qsfp_default_page_if_paged_def by (intro keeps_intros supported page_select)

lemma power_supported: "keeps inside w (sdi_is_software_controlled_power_mode_supported L (media_chip d) w)"
  unfolding sdi_is_software_controlled_power_mode_supported_def by (intro keeps_intros default_page transfers)

lemma features: "keeps inside w (qsfp_features_get L (media_chip d) f w)"
  unfolding qsfp_features_get_def Let_def by (intro keeps_intros supported power_supported)

lemma two_flags: "keeps inside w (qsfp_two_flags_read (media_chip d) b r c s w)"
  unfolding qsfp_two_flags_read_def by (intro keeps_intros read_if)

lemma tx_switch: "keeps_do inside w (qsfp_tx_switch L os (media_chip d) r ch b w)"
  unfolding qsfp_tx_switch_def by (intro keeps_intros supported transfers sleep_runs)

lemma cdr_set: "keeps_do inside w (qsfp_cdr_set L d ch b w)"
  unfolding qsfp_cdr_set_def Let_def by (intro keeps_intros supported transfers)

lemma cdr_get: "keeps inside w (qsfp_cdr_get L d ch b w)"
  unfolding qsfp_cdr_get_def Let_def by (intro keeps_intros supported transfers)

lemma ext_rate: "keeps_do inside w (qsfp_ext_rate_write (media_chip d) v w)"
  unfolding qsfp_ext_rate_write_def write_if_changed_def by (intro keeps_intros transfers)

lemma on_page:
  assumes "\<And>u. keeps inside u (f u)"
  shows "keeps inside w (on_page L (media_chip d) n x f w)"
  unfolding on_page_def Let_def by (intro keeps_intros page_select assms)

lemma power_class_write: "keeps_do inside w (qsfp_power_class_write L os d b w)"
  unfolding qsfp_power_class_write_def Let_def
  by (intro keeps_intros power_supported transfers keeps_from(2) [OF runs_transp wait_runs])

lemma flag_get: "keeps inside w (qsfp_flag_get (media_chip d) b r f (e, v, w))"
proof (cases v)
  case (Pair buf status)
  show ?thesis unfolding Pair qsfp_flag_get_def prod.case by (intro keeps_intros transfers)
qed

lemma keeps_whole:
  assumes "keeps inside w r" and "\<And>e x u. keeps inside u (f (e, x, u))"
  shows "keeps inside w (r \<bind> f)"
  using keeps_bind(1) [OF runs_transp, of tr m fd "sel @ ctx" w r "\<lambda>e x u. f (e, x, u)"] assms by simp

lemma channel_flags: "keeps inside w (qsfp_channel_flags_read L d ch flags status w)"
  unfolding qsfp_channel_flags_read_def Let_def
  by (rule keeps_whole [OF flag_get], rule keeps_whole [OF flag_get])
    (intro keeps_intros keeps_whole [OF flag_get] flag_get)

lemma keeps_value:
  "(\<And>x. keeps R w (f x)) \<Longrightarrow> keeps R w (v \<bind> f)"
  "(\<And>x. keeps_do R w (g x)) \<Longrightarrow> keeps_do R w (v \<bind> g)"
  by (auto simp: keeps_def keeps_do_def bind_eq_Some_conv)

lemma param_read: "keeps inside w (qsfp_param_read L M (media_chip d) p lc b info v w)"
  unfolding qsfp_param_read_def
  by (intro keeps_intros transfers word_read) (rule keeps_value, intro keeps_intros)

text \<open>The PHYs.\<close>

lemma phy_registers:
  "keeps inside w (sdi_sfp_phy_read (media_chip d) r v w)"
  "keeps_do inside w (sdi_sfp_phy_write (media_chip d) r v w)"
  unfolding sdi_sfp_phy_read_def sdi_sfp_phy_write_def by (intro keeps_intros transfers)+

lemma phy_reset: "keeps_do inside w (sdi_media_phy_sw_reset (media_chip d) w)"
  unfolding sdi_media_phy_sw_reset_def by (intro keeps_intros phy_registers)

lemma phy_settings:
  "keeps_do inside w (sdi_cusfp_phy_autoneg_set (media_chip d) b w)"
  "keeps_do inside w (sdi_cusfp_phy_mode_set (media_chip d) mode w)"
  "keeps_do inside w (sdi_cusfp_phy_speed_set (media_chip d) speed w)"
  unfolding sdi_cusfp_phy_autoneg_set_def sdi_cusfp_phy_mode_set_def sdi_cusfp_phy_speed_set_def Let_def
  by (intro keeps_intros phy_registers phy_reset)+

lemma channel_phy:
  assumes "\<And>u. keeps_do inside u (f u)"
  shows "keeps_do inside w (on_4X1_channel (media_chip d) ch f w)"
proof -
  have "keeps_do inside u (sdi_qsfp_4X1_1000baseT_channel_select (media_chip d) ch u)" for u
    unfolding sdi_qsfp_4X1_1000baseT_channel_select_def
    by (intro keeps_intros) (rule keeps_value, rule transfers)
  then show ?thesis unfolding on_4X1_channel_def by (intro keeps_intros assms)
qed

lemma on_phy: "(\<And>u. keeps_do inside u (f u)) \<Longrightarrow> keeps_do outside w (on_4X1 os d type f w)"
  unfolding on_4X1_def by (rule selected_do) (simp add: keeps_return)

text \<open>Each call, on a module that is not an adapter.\<close>

lemma status_calls:
  assumes Q: "mod_type d \<noteq> QSFP_QSA_ADAPTER"
  shows "keeps outside w (sdi_qsfp_feature_support_status_get L os d f w)"
    and "keeps outside w (sdi_qsfp_module_monitor_status_get L os d fl s w)"
    and "keeps outside w (sdi_qsfp_channel_monitor_status_get L os d ch fl s w)"
    and "keeps outside w (sdi_qsfp_channel_status_get L os d ch fl s w)"
  unfolding sdi_qsfp_feature_support_status_get_def sdi_qsfp_module_monitor_status_get_def
    sdi_qsfp_channel_monitor_status_get_def sdi_qsfp_channel_status_get_def Let_def if_not_P [OF Q]
  by (intro keeps_intros selected_qsfp features two_flags channel_flags)+

lemma control_calls:
  assumes Q: "mod_type d \<noteq> QSFP_QSA_ADAPTER"
  shows "keeps_do outside w (sdi_qsfp_tx_control L os d ch b w)"
    and "keeps outside w (sdi_qsfp_tx_control_status_get L os d ch b w)"
    and "keeps_do outside w (sdi_qsfp_cdr_status_set L os d ch b w)"
    and "keeps outside w (sdi_qsfp_cdr_status_get L os d ch b w)"
    and "keeps_do outside w (sdi_qsfp_ext_rate_select os d ch fw b w)"
    and "keeps_do outside w (sdi_qsfp_media_force_power_mode_set L os d b w)"
  unfolding sdi_qsfp_tx_control_def sdi_qsfp_tx_control_status_get_def sdi_qsfp_cdr_status_set_def
    sdi_qsfp_cdr_status_get_def sdi_qsfp_ext_rate_select_def sdi_qsfp_media_force_power_mode_set_def if_not_P [OF Q]
  by (intro keeps_intros selected_qsfp selected_do(2) transfers tx_switch cdr_set cdr_get ext_rate power_class_write)+

lemma quantity_read: "keeps outside w (qsfp_quantity_read M os d q r x w)"
  unfolding qsfp_quantity_read_def by (intro selected_qsfp keeps_intros word_read)

lemma value_calls:
  assumes Q: "mod_type d \<noteq> QSFP_QSA_ADAPTER"
  shows "keeps outside w (sdi_qsfp_parameter_get L M os d p v w)"
    and "keeps outside w (sdi_qsfp_vendor_info_get os d t vs w)"
    and "keeps outside w (sdi_qsfp_transceiver_code_get os d c w)"
    and "keeps outside w (sdi_qsfp_threshold_get L M os d h x w)"
    and "keeps outside w (sdi_qsfp_module_monitor_get L M os d mm x w)"
    and "keeps outside w (sdi_qsfp_channel_monitor_get L M os d ch cm x w)"
proof -
  show "keeps outside w (sdi_qsfp_parameter_get L M os d p v w)"
    unfolding sdi_qsfp_parameter_get_def Let_def if_not_P [OF Q]
    by (rule keeps_value) (intro keeps_intros selected_qsfp read_if param_read)
  show "keeps outside w (sdi_qsfp_vendor_info_get os d t vs w)"
    unfolding sdi_qsfp_vendor_info_get_def Let_def if_not_P [OF Q]
    by (intro keeps_case keeps_intros selected_qsfp) (rule keeps_value(1), intro keeps_intros transfers)+
  show "keeps outside w (sdi_qsfp_transceiver_code_get os d c w)"
    unfolding sdi_qsfp_transceiver_code_get_def if_not_P [OF Q]
    by (intro selected_qsfp keeps_intros transfers)
  show "keeps outside w (sdi_qsfp_threshold_get L M os d h x w)"
    unfolding sdi_qsfp_threshold_get_def Let_def if_not_P [OF Q]
    by (intro keeps_intros selected_qsfp on_page word_read)
  show "keeps outside w (sdi_qsfp_module_monitor_get L M os d mm x w)"
    unfolding sdi_qsfp_module_monitor_get_def if_not_P [OF Q]
    by (cases mm) (simp_all add: quantity_read)
  show "keeps outside w (sdi_qsfp_channel_monitor_get L M os d ch cm x w)"
    unfolding sdi_qsfp_channel_monitor_get_def if_not_P [OF Q]
    by (intro keeps_intros) (simp add: quantity_read keeps_return split: sum.split)
qed

lemma raw_calls:
  assumes Q: "mod_type d \<noteq> QSFP_QSA_ADAPTER" and page: "eeprom_page a = SDI_MEDIA_PAGE_SELECT_IGNORE"
  shows "keeps outside w (sdi_qsfp_read_generic L os d a n vs w)"
    and "keeps outside w (sdi_qsfp_write_generic L os d a n vs w)"
proof -
  have raw: "keeps outside w (qsfp_raw L os d a f vs w)" if "\<And>x u. keeps inside u (f x u)" for f
    using that by (auto simp: qsfp_raw_def page Let_def intro!: keeps_return selected_qsfp split: option.split)
  show "keeps outside w (sdi_qsfp_read_generic L os d a n vs w)"
    "keeps outside w (sdi_qsfp_write_generic L os d a n vs w)"
    unfolding sdi_qsfp_read_generic_def sdi_qsfp_write_generic_def if_not_P [OF Q]
    by (intro keeps_value(1) raw transfers)+
qed

lemma phy_calls:
  assumes Q: "mod_type d \<noteq> QSFP_QSA_ADAPTER"
  shows "keeps_do outside w (sdi_qsfp_phy_autoneg_set os d ch ty b w)"
    and "keeps_do outside w (sdi_qsfp_phy_mode_set os d ch ty mo w)"
    and "keeps_do outside w (sdi_qsfp_phy_speed_set L os d ch ty sp w)"
  unfolding sdi_qsfp_phy_autoneg_set_def sdi_qsfp_phy_mode_set_def sdi_qsfp_phy_speed_set_def
    sdi_qsfp_4X1_1000baseT_autoneg_set_def sdi_qsfp_4X1_1000baseT_mode_set_def sdi_qsfp_4X1_1000baseT_speed_set_def
    if_not_P [OF Q]
  by (intro on_phy channel_phy phy_settings)+

text \<open>
  The query of the maximal power: it gives the locks back when it succeeds or cannot select the
  module, but returns with the module selected when the read fails.
\<close>

lemma max_power_runs:
  assumes "mod_type d \<noteq> QSFP_QSA_ADAPTER" and "sdi_qsfp_media_max_power_get os d w = Some (e, x, w')"
  shows "if e = STD_ERR_OK then outside w w'
    else (sdi_qsfp_module_select os d w = Some (e, w') \<and> outside w w') \<or> runs tr m fd ctx (sel @ ctx) w w'"
proof -
  obtain e1 w1 where sel: "sdi_qsfp_module_select os d w = Some (e1, w1)"
    using assms by (auto simp: sdi_qsfp_media_max_power_get_def Let_def bind_eq_Some_conv)
  show ?thesis
  proof (cases "e1 = STD_ERR_OK")
    case False
    then show ?thesis
      using assms sel select_err [OF sel]
      by (auto simp: sdi_qsfp_media_max_power_get_def Let_def)
  next
    case True
    then have got: "runs tr m fd ctx (sel @ ctx) w w1" using select_ok sel by simp
    obtain e2 buf w2 where rd: "media_read (media_chip d) (chip_addr (media_chip d)) QSFP_EXT_IDENTIFIER_OFFSET 0
        (qsfp_wait os d w1) = Some (e2, buf, w2)"
      using assms sel True by (auto simp: sdi_qsfp_media_max_power_get_def Let_def bind_eq_Some_conv)
    have in2: "runs tr m fd ctx (sel @ ctx) w w2"
      by (rule runs_trans [OF got runs_trans [OF wait_runs keepsD [OF transfers(1) rd]]])
    show ?thesis
    proof (cases "e2 = STD_ERR_OK")
      case True
      then have "e = STD_ERR_OK" "sdi_qsfp_module_deselect os d w2 = Some w'"
        using assms sel rd \<open>e1 = STD_ERR_OK\<close>
        by (auto simp: sdi_qsfp_media_max_power_get_def Let_def bind_eq_Some_conv)
      then show ?thesis using runs_trans [OF in2 deselect] by simp
    next
      case False
      then have "e = e2" "w' = w2"
        using assms sel rd \<open>e1 = STD_ERR_OK\<close> by (auto simp: sdi_qsfp_media_max_power_get_def Let_def)
      then show ?thesis using False in2 by simp
    qed
  qed
qed

lemma max_power_ok_runs:
  "mod_type d \<noteq> QSFP_QSA_ADAPTER \<Longrightarrow> sdi_qsfp_media_max_power_get os d w = Some (STD_ERR_OK, x, w') \<Longrightarrow> outside w w'"
  using max_power_runs [of w STD_ERR_OK x w'] by simp

lemma plain_calls:
  assumes Q: "mod_type d \<noteq> QSFP_QSA_ADAPTER"
  shows "keeps outside w (sdi_qsfp_read L os d ofs n vs w)"
    and "keeps outside w (sdi_qsfp_write L os d ofs n vs w)"
    and "keeps outside w (sdi_qsfp_qsa_adapter_type_get L os d q w)"
    and "keeps outside w (sdi_qsfp_speed_get d v w)"
    and "keeps outside w (sdi_qsfp_module_monitor_threshold_get t u w)"
    and "keeps outside w (sdi_qsfp_channel_monitor_threshold_get t u w)"
    and "keeps outside w (sdi_qsfp_phy_link_status_get L os d ch ty b w)"
    and "keeps_do outside w (sdi_qsfp_phy_power_down_enable os d ch ty b w)"
    and "keeps_do outside w (sdi_qsfp_phy_serdes_control L os d ch ty b w)"
    and "keeps_do outside w (sdi_qsfp_wavelength_set L M os d wl w)"
  using Q raw_calls [OF Q, of "sfp_plain_addr ofs"]
  by (simp_all add: sdi_qsfp_read_def sdi_qsfp_write_def sfp_plain_addr_def sdi_qsfp_qsa_adapter_type_get_def
      sdi_qsfp_speed_get_def sdi_qsfp_module_monitor_threshold_get_def sdi_qsfp_channel_monitor_threshold_get_def
      sdi_qsfp_phy_link_status_get_def sdi_qsfp_phy_power_down_enable_def sdi_qsfp_phy_serdes_control_def
      sdi_qsfp_wavelength_set_def keeps_def keeps_do_def)

lemmas call_runs =
  status_calls [THEN keepsD] control_calls(1,3,5,6) [THEN keeps_doD] control_calls(2,4) [THEN keepsD]
  value_calls [THEN keepsD] raw_calls [THEN keepsD] phy_calls [THEN keeps_doD]
  plain_calls(1-7) [THEN keepsD] plain_calls(8-10) [THEN keeps_doD]

lemma qsfp_step_runs:
  assumes "mod_type d \<noteq> QSFP_QSA_ADAPTER" and "qsfp_step L M os d w w'"
  shows "outside w w'"
  using assms(2) by cases (blast dest: call_runs [OF assms(1)] max_power_ok_runs [OF assms(1)])+

lemma qsfp_steps_run:
  assumes "mod_type d \<noteq> QSFP_QSA_ADAPTER"
  shows "(qsfp_step L M os d)\<^sup>*\<^sup>* w w' \<Longrightarrow> outside w w'"
  by (induction rule: rtranclp_induct) (auto dest: qsfp_step_runs [OF assms] intro: runs_trans)

end

section \<open>A module behind port groups on a kernel bus\<close>

text \<open>
  The module of the private data \<open>d\<close> on a kernel bus, its select lines in a CPLD behind I/O ports,
  with a multiplexer in front or none.
\<close>

type_synonym 'w group_place = "'w port_io \<times> ('w \<times> event list) cpld_pin_group \<times> sdi_bus \<times> sdi_bus \<times> mutex"

definition group_at :: "'w group_place \<Rightarrow> (u32, 'w \<times> event list) pin_bus" where
  "group_at = (\<lambda>(io, g, pb, base, l). port_group io g pb base l)"

definition group_lock :: "'w group_place \<Rightarrow> mutex" where
  "group_lock = (\<lambda>(_, _, _, _, l). l)"

definition module_behind ::
    "'w i2c_os \<Rightarrow> sdi_sys_i2c_bus \<Rightarrow> 'w group_place option \<Rightarrow> 'w group_place
      \<Rightarrow> ('w \<times> event list) qsfp_device \<Rightarrow> ('w \<times> event list) qsfp_device" where
  "module_behind kos b mux sel d =
     d\<lparr>media_chip := (media_chip d)\<lparr>chip_bus := i2cdev_bus (traced_i2c_os kos) b\<rparr>,
       mux_sel_hdl := map_option group_at mux, mod_sel_hdl := Some (group_at sel)\<rparr>"

definition select_locks :: "'w group_place option \<Rightarrow> 'w group_place \<Rightarrow> mutex list" where
  "select_locks mux sel = group_lock sel # (case mux of None \<Rightarrow> [] | Some p \<Rightarrow> [group_lock p])"

lemma group_calls_run:
  "sdi_pin_group_acquire_bus (os.truncate (traced_i2c_os kos)) (group_at p) w = Some (STD_ERR_OK, w') \<Longrightarrow>
     runs snd m fd ctx (group_lock p # ctx) w w'"
  "sdi_pin_group_acquire_bus (os.truncate (traced_i2c_os kos)) (group_at p) w = Some (e, w') \<Longrightarrow> e \<noteq> STD_ERR_OK \<Longrightarrow>
     runs snd m fd ctx ctx w w'"
  "sdi_pin_group_write_level (group_at p) v w = Some (e, w') \<Longrightarrow> runs snd m fd ctx ctx w w'"
  "sdi_pin_group_release_bus (os.truncate (traced_i2c_os kos)) (group_at p) w = Some w' \<Longrightarrow>
     runs snd m fd (group_lock p # ctx) ctx w w'"
  by (auto simp: group_at_def group_lock_def sdi_pin_group_acquire_bus_def sdi_pin_group_release_bus_def
      bind_eq_Some_conv split: prod.splits dest: traced_mutex_runs port_group_write_runs)

text \<open>A lock given back under the one taken last.\<close>

lemma group_release_second:
  assumes "sdi_pin_group_release_bus (os.truncate (traced_i2c_os kos)) (group_at p) w = Some w'"
  shows "runs snd m fd (l # group_lock p # ctx) (l # ctx) w w'"
  using assms
  by (auto simp: group_at_def group_lock_def sdi_pin_group_release_bus_def traced_i2c_os_def traced_unlock_def
      runs_def bind_eq_Some_conv split: prod.splits option.splits)

lemma module_deselect_runs:
  assumes "sdi_qsfp_module_deselect (os.truncate (traced_i2c_os kos)) (module_behind kos b mux sel d) w = Some w'"
  shows "runs snd m fd (select_locks mux sel @ ctx) ctx w w'"
proof -
  let ?os = "os.truncate (traced_i2c_os kos)"
  obtain w1 where w1: "(case mux of None \<Rightarrow> Some w | Some p \<Rightarrow> sdi_pin_group_release_bus ?os (group_at p) w) = Some w1"
    and w2: "sdi_pin_group_release_bus ?os (group_at sel) w1 = Some w'"
    using assms
    by (cases mux) (auto simp: sdi_qsfp_module_deselect_def release_group_opt_def module_behind_def bind_eq_Some_conv)
  have "runs snd m fd (select_locks mux sel @ ctx) (group_lock sel # ctx) w w1"
    using w1 by (cases mux) (auto simp: select_locks_def dest: group_release_second)
  then show ?thesis by (rule runs_trans) (rule group_calls_run(4) [OF w2])
qed

lemma mux_phase_runs:
  assumes "(case map_option group_at mux of None \<Rightarrow> Some (STD_ERR_OK, w) | Some g \<Rightarrow> do {
      (rc, w) \<leftarrow> sdi_pin_group_acquire_bus (os.truncate (traced_i2c_os kos)) g w;
      if rc \<noteq> STD_ERR_OK then Some (rc, w)
      else do {
        (rc, w) \<leftarrow> sdi_pin_group_write_level g v w;
        if rc \<noteq> STD_ERR_OK then do {
          w \<leftarrow> sdi_pin_group_release_bus (os.truncate (traced_i2c_os kos)) g w; Some (rc, w) }
        else Some (rc, w)
      }
    }) = Some (e, w')"
  shows "runs snd m fd ctx (if e = STD_ERR_OK then tl (select_locks mux sel) @ ctx else ctx) w w'"
proof (cases mux)
  case None
  then show ?thesis using assms by (simp add: select_locks_def)
next
  case (Some p)
  let ?os = "os.truncate (traced_i2c_os kos)"
  obtain e1 w1 where a: "sdi_pin_group_acquire_bus ?os (group_at p) w = Some (e1, w1)"
    and rest: "(if e1 \<noteq> STD_ERR_OK then Some (e1, w1)
      else do {
        (rc, w) \<leftarrow> sdi_pin_group_write_level (group_at p) v w1;
        if rc \<noteq> STD_ERR_OK then do { w \<leftarrow> sdi_pin_group_release_bus ?os (group_at p) w; Some (rc, w) }
        else Some (rc, w)
      }) = Some (e, w')"
    using assms Some by (auto simp: bind_eq_Some_conv)
  show ?thesis
  proof (cases "e1 = STD_ERR_OK")
    case False
    then show ?thesis using rest group_calls_run(2) [OF a] by simp
  next
    case True
    then obtain w2 where b: "sdi_pin_group_write_level (group_at p) v w1 = Some (e, w2)"
      and fin: "if e \<noteq> STD_ERR_OK then sdi_pin_group_release_bus ?os (group_at p) w2 = Some w' else w2 = w'"
      using rest by (auto simp: bind_eq_Some_conv split: if_splits)
    have got: "runs snd m fd ctx (group_lock p # ctx) w w2"
      using group_calls_run(1) [OF a [unfolded True]] group_calls_run(3) [OF b] by (rule runs_trans)
    show ?thesis
    proof (cases "e = STD_ERR_OK")
      case True
      then show ?thesis using got fin Some by (simp add: select_locks_def)
    next
      case False
      then show ?thesis using runs_trans [OF got group_calls_run(4)] fin by simp
    qed
  qed
qed

lemma release_mux_runs:
  assumes "release_group_opt (os.truncate (traced_i2c_os kos)) (map_option group_at mux) w = Some w'"
  shows "runs snd m fd (tl (select_locks mux sel) @ ctx) ctx w w'"
    and "runs snd m fd (select_locks mux sel @ ctx) (group_lock sel # ctx) w w'"
  using assms
  by (cases mux; auto simp: release_group_opt_def select_locks_def dest: group_calls_run(4) group_release_second)+

lemma module_select_runs:
  assumes "sdi_qsfp_module_select (os.truncate (traced_i2c_os kos)) (module_behind kos b mux sel d) w = Some (e, w')"
  shows "runs snd m fd ctx (if e = STD_ERR_OK then select_locks mux sel @ ctx else ctx) w w'"
proof -
  let ?os = "os.truncate (traced_i2c_os kos)" and ?mux = "tl (select_locks mux sel) @ ctx"
  have fields: "mux_sel_hdl (module_behind kos b mux sel d) = map_option group_at mux"
    "mod_sel_hdl (module_behind kos b mux sel d) = Some (group_at sel)"
    "mux_sel_val (module_behind kos b mux sel d) = mux_sel_val d"
    "mod_sel_val (module_behind kos b mux sel d) = mod_sel_val d" by (simp_all add: module_behind_def)
  have locks: "select_locks mux sel @ ctx = group_lock sel # ?mux" by (simp add: select_locks_def)
  obtain e1 w1 where a: "(case map_option group_at mux of None \<Rightarrow> Some (STD_ERR_OK, w) | Some g \<Rightarrow> do {
      (rc, w) \<leftarrow> sdi_pin_group_acquire_bus ?os g w;
      if rc \<noteq> STD_ERR_OK then Some (rc, w)
      else do {
        (rc, w) \<leftarrow> sdi_pin_group_write_level g (mux_sel_val d) w;
        if rc \<noteq> STD_ERR_OK then do { w \<leftarrow> sdi_pin_group_release_bus ?os g w; Some (rc, w) }
        else Some (rc, w)
      }
    }) = Some (e1, w1)"
    and rest: "(if e1 \<noteq> STD_ERR_OK then Some (e1, w1) else do {
        (rc, w) \<leftarrow> sdi_pin_group_acquire_bus ?os (group_at sel) w1;
        if rc \<noteq> STD_ERR_OK then do { w \<leftarrow> release_group_opt ?os (map_option group_at mux) w; Some (rc, w) }
        else do {
          (rc, w) \<leftarrow> sdi_pin_group_write_level (group_at sel) (mod_sel_val d) w;
          if rc \<noteq> STD_ERR_OK then do {
            w \<leftarrow> release_group_opt ?os (map_option group_at mux) w;
            w \<leftarrow> sdi_pin_group_release_bus ?os (group_at sel) w;
            Some (rc, w)
          } else Some (rc, w)
        }
      }) = Some (e, w')"
    using assms [unfolded sdi_qsfp_module_select_def fields option.case] unfolding bind_pair_eq_Some by blast
  note mux = mux_phase_runs [OF a, where sel = sel]
  show ?thesis
  proof (cases "e1 = STD_ERR_OK")
    case False
    then show ?thesis using rest mux by auto
  next
    case True
    then have got: "runs snd m fd ctx ?mux w w1" using mux by simp
    obtain e2 w2 where b: "sdi_pin_group_acquire_bus ?os (group_at sel) w1 = Some (e2, w2)"
      using rest True by (auto simp: bind_eq_Some_conv)
    show ?thesis
    proof (cases "e2 = STD_ERR_OK")
      case False
      then have "release_group_opt ?os (map_option group_at mux) w2 = Some w'" "e = e2"
        using rest b True by (auto simp: bind_eq_Some_conv)
      then show ?thesis
        using False runs_trans [OF runs_trans [OF got group_calls_run(2) [OF b False]] release_mux_runs(1)] by simp
    next
      case True
      have both: "runs snd m fd ctx (select_locks mux sel @ ctx) w w2"
        unfolding locks using got group_calls_run(1) [OF b [unfolded True]] by (rule runs_trans)
      obtain w3 where c: "sdi_pin_group_write_level (group_at sel) (mod_sel_val d) w2 = Some (e, w3)"
        and fin: "if e \<noteq> STD_ERR_OK then \<exists>w4. release_group_opt ?os (map_option group_at mux) w3 = Some w4 \<and>
            sdi_pin_group_release_bus ?os (group_at sel) w4 = Some w' else w3 = w'"
        using rest b True \<open>e1 = STD_ERR_OK\<close> by (auto simp: bind_eq_Some_conv split: if_splits)
      note all = runs_trans [OF both group_calls_run(3) [OF c]]
      show ?thesis
      proof (cases "e = STD_ERR_OK")
        case True
        then show ?thesis using all fin by simp
      next
        case False
        then obtain w4 where d: "release_group_opt ?os (map_option group_at mux) w3 = Some w4"
          "sdi_pin_group_release_bus ?os (group_at sel) w4 = Some w'" using fin by auto
        show ?thesis
          using False runs_trans [OF runs_trans [OF all release_mux_runs(2) [OF d(1)]] group_calls_run(4) [OF d(2)]]
          by simp
      qed
    qed
  qed
qed

lemma module_chip_bus: "chip_bus (media_chip (module_behind kos b mux sel d)) = i2cdev_bus (traced_i2c_os kos) b"
  by (simp add: module_behind_def)

lemma traced_sleep: "snd (std_usleep (os.truncate (traced_i2c_os kos)) n w) = snd w"
  by (simp add: os.truncate_def traced_i2c_os_def)

text \<open>The transfers are guarded by the lock of the select lines, and by that of the bus.\<close>

interpretation module_select: selected_module "os.truncate (traced_i2c_os kos)" "module_behind kos b mux sel d" snd
  "group_lock sel" "i2cdev_fd b" "[sys_lock b]" "select_locks mux sel" ctx
  for kos :: "'w i2c_os" and b mux sel d ctx
proof (intro selected_module.intro selected_module_axioms.intro)
  show "bus_locking (chip_bus (media_chip (module_behind kos b mux sel d))) snd (group_lock sel) (i2cdev_fd b)
      [sys_lock b] (select_locks mux sel @ ctx)"
    unfolding module_chip_bus by (simp add: select_locks_def i2cdev_outer.bus_locking_axioms)
qed (auto dest: module_select_runs module_deselect_runs simp: traced_sleep)

interpretation module_bus: selected_module "os.truncate (traced_i2c_os kos)" "module_behind kos b mux sel d" snd
  "sys_lock b" "i2cdev_fd b" "[sys_lock b]" "select_locks mux sel" ctx
  for kos :: "'w i2c_os" and b mux sel d ctx
proof (intro selected_module.intro selected_module_axioms.intro)
  show "bus_locking (chip_bus (media_chip (module_behind kos b mux sel d))) snd (sys_lock b) (i2cdev_fd b)
      [sys_lock b] (select_locks mux sel @ ctx)"
    unfolding module_chip_bus by (rule i2cdev_locks.bus_locking_axioms)
qed (auto dest: module_select_runs module_deselect_runs simp: traced_sleep)

section \<open>The lock discipline of the driver\<close>

text \<open>
  C40. In any sequence of calls on the EEPROM of a QSFP module that is plugged in, other than raw
  transfers that ask for a page and queries of the maximal power that fail, whatever the kernel, the
  mutexes and the module answer and whatever branch each call takes, every transfer to the module
  happens while both the lock of its select lines and the lock of its bus are held, and at the end
  the calls hold no lock they did not hold before.
\<close>

theorem qsfp_lock_discipline:
  assumes "(qsfp_step L M (os.truncate (traced_i2c_os kos)) (module_behind kos b mux sel d))\<^sup>*\<^sup>* (w, ts) (w', ts')"
    and "mod_type d \<noteq> QSFP_QSA_ADAPTER"
  shows "\<exists>us. ts' = ts @ us \<and> (\<forall>hs. locks_held us hs = hs \<and>
    transfers_guarded (group_lock sel) (i2cdev_fd b) us hs \<and> transfers_guarded (sys_lock b) (i2cdev_fd b) us hs)"
proof -
  have Q: "mod_type (module_behind kos b mux sel d) \<noteq> QSFP_QSA_ADAPTER"
    using assms(2) by (simp add: module_behind_def)
  show ?thesis
    using module_select.qsfp_steps_run [OF Q assms(1), of "[]"] module_bus.qsfp_steps_run [OF Q assms(1), of "[]"]
    by (auto simp: runs_def)
qed

text \<open>
  What is left out has to be. After the failed read the query of the maximal power returns with the
  lock of the select lines, and that of the multiplexer in front, still held: when the selection
  succeeds and the query reports an error, it is the caller who holds them now.
\<close>

lemma failed_max_power_keeps_locks:
  assumes "sdi_qsfp_media_max_power_get (os.truncate (traced_i2c_os kos)) (module_behind kos b mux sel d) (w, ts) =
      Some (e, x, (w', ts'))"
    and "sdi_qsfp_module_select (os.truncate (traced_i2c_os kos)) (module_behind kos b mux sel d) (w, ts) =
      Some (STD_ERR_OK, w1)"
    and "mod_type d \<noteq> QSFP_QSA_ADAPTER" and "e \<noteq> STD_ERR_OK"
  shows "\<exists>us. ts' = ts @ us \<and> (\<forall>hs. locks_held us hs = select_locks mux sel @ hs)"
proof -
  have Q: "mod_type (module_behind kos b mux sel d) \<noteq> QSFP_QSA_ADAPTER"
    using assms(3) by (simp add: module_behind_def)
  show ?thesis
    using module_bus.max_power_runs [OF Q assms(1), where ctx = "[]"] assms(2,4) by (auto simp: runs_def)
qed

definition sample_place :: "mutex list group_place" where
  "sample_place = (no_ports, sample_port_cpld, sample_mux_base, sample_mux_base, Mutex 30)"

definition sample_locked :: "(mutex list \<times> event list) qsfp_device" where
  "sample_locked = sample_qsfp \<lparr>chip_bus = i2cdev_bus (traced_i2c_os idle_i2c_os) sample_i2c_bus,
     chip_addr = sample_addr, chip_instance = 0, chip_alias = ''qsfp''\<rparr> None"

theorem qsfp_lock_discipline_witness:
  "transfers_guarded (Mutex 30) 5
      [Locked (Mutex 30), Locked (Mutex 20), Transfer 5, Unlocked (Mutex 20), Unlocked (Mutex 30)] [] \<and>
   transfers_guarded (Mutex 20) 5
      [Locked (Mutex 30), Locked (Mutex 20), Transfer 5, Unlocked (Mutex 20), Unlocked (Mutex 30)] []"
proof -
  let ?os = "os.truncate (traced_i2c_os idle_i2c_os)"
  let ?d = "module_behind idle_i2c_os sample_i2c_bus None sample_place sample_locked"
  let ?M = "\<lparr>log10f = (\<lambda>x. x), powf = (\<lambda>x y. x), pow = (\<lambda>x y. x), lroundf_unspecified = (\<lambda>_. 0)\<rparr> :: math_lib"
  let ?ts = "[Locked (Mutex 30), Locked (Mutex 20), Transfer 5, Unlocked (Mutex 20), Unlocked (Mutex 30)]"
  have group: "group_at sample_place = sample_port_group" and lock: "pin_lock sample_port_group = Mutex 30"
    by (simp_all add: group_at_def sample_place_def sample_port_group_def)
  have d: "mux_sel_hdl ?d = None" "mod_sel_hdl ?d = Some sample_port_group" "mod_sel_val ?d = 1"
    "mod_type ?d = SDI_MEDIA_DEFAULT" "mod_category ?d = SDI_CATEGORY_QSFP28" "chip_addr (media_chip ?d) = sample_addr"
    "chip_bus (media_chip ?d) = i2cdev_bus (traced_i2c_os idle_i2c_os) sample_i2c_bus"
    by (simp_all add: module_behind_def sample_locked_def sample_qsfp_def group)
  have read: "media_read (media_chip ?d) (chip_addr (media_chip ?d)) r 0 ([Mutex 30], [Locked (Mutex 30)]) =
      Some (STD_ERR_OK, 0, ([Mutex 30], butlast ?ts))" for r
    unfolding d
    by (simp add: sdi_smbus_read_byte_def sdi_smbus_read_byte_i2cdev_def i2cdev_eval idle_i2c_os_def
        traced_i2c_os_def lift_ok_def traced_lock_def traced_unlock_def sdi_simps)
  have sel: "sdi_qsfp_module_select ?os ?d ([], []) = Some (STD_ERR_OK, ([Mutex 30], [Locked (Mutex 30)]))"
    unfolding sdi_qsfp_module_select_def d
    by (simp add: sdi_pin_group_acquire_bus_def lock sample_port_group_select idle_i2c_os_def traced_i2c_os_def traced_lock_def)
  have desel: "sdi_qsfp_module_deselect ?os ?d ([Mutex 30], butlast ?ts) = Some ([], ?ts)"
    unfolding sdi_qsfp_module_deselect_def d
    by (simp add: release_group_opt_def sdi_pin_group_release_bus_def lock idle_i2c_os_def traced_i2c_os_def traced_unlock_def)
  have wait: "qsfp_wait ?os ?d w = w" for w
    by (cases w) (simp add: qsfp_wait_def os.truncate_def traced_i2c_os_def idle_i2c_os_def)
  have "sdi_qsfp_tx_control_status_get sample_lib ?os ?d 0 False ([], []) =
      Some (STD_ERR_OK, \<not> bit8_test sample_lib 0 0, ([], ?ts))"
    unfolding sdi_qsfp_tx_control_status_get_def with_qsfp_def with_module_def wait
    by (simp add: d(4,5) sdi_qsfp_validate_channel_def sel read [simplified] desel [simplified])
  then have "(qsfp_step sample_lib ?M ?os ?d)\<^sup>*\<^sup>* ([], []) ([], ?ts)"
    by (intro r_into_rtranclp qsfp_step.intros(6))
  from qsfp_lock_discipline [OF this] show ?thesis
    by (simp add: sample_locked_def sample_qsfp_def sample_i2c_bus_def group_lock_def sample_place_def)
qed

end
