(* ===== verification/Media_Mailbox.thy ===== *)
theory Media_Mailbox
  imports Media_Phy I2cdev
begin

text \<open>
  The mailbox of an Aquantia module always answers: the poll of its status ends, after at most ten
  looks, and so does a chain of operations. Over the kernel bus, with its retries, the number of
  ioctls of a chain is bounded.
\<close>

section \<open>A bus whose transactions return\<close>

text \<open>
  The contract: the calls of the bus return, and a byte transaction costs at most \<open>k\<close> of whatever
  \<open>count\<close> counts; \<open>returns\<close> is what the provider needs for that.
\<close>

locale returning_bus =
  fixes h :: "'w sdi_i2c_bus" and count :: "'w \<Rightarrow> nat" and k :: nat and returns :: bool
  assumes i2c: "bus_type (bus h) = SDI_I2C_BUS"
    and acquire_returns:
      "returns \<Longrightarrow> \<exists>e w'. sdi_i2c_acquire_bus h w = Some (e, w') \<and> count w' = count w"
    and release_returns: "returns \<Longrightarrow> \<exists>w'. sdi_i2c_release_bus h w = Some w' \<and> count w' = count w"
    and byte_returns: "returns \<Longrightarrow> \<not> addr_mode_16bit addr \<Longrightarrow>
      \<exists>e v' w'. sdi_smbus_execute h addr opn SDI_SMBUS_BYTE_DATA cmd (Buf8 v) SDI_I2C_FLAG_NONE w =
        Some (e, Buf8 v', w') \<and> count w' \<le> count w + k"
begin

lemma smbus_multi_returns:
  assumes "returns" and "\<not> addr_mode_16bit addr"
  shows "n \<le> length buffer \<Longrightarrow>
    \<exists>e buffer' w'. smbus_multi h addr opn SDI_I2C_FLAG_NONE n cmd buffer w = Some (e, buffer', w') \<and>
      length buffer' = length buffer \<and> count w' \<le> count w + k * n"
proof (induction n arbitrary: cmd buffer w)
  case (Suc n)
  then obtain b rest where buffer: "buffer = b # rest" "n \<le> length rest" by (cases buffer) auto
  obtain e v w1 where w1: "sdi_smbus_execute h addr opn SDI_SMBUS_BYTE_DATA cmd (Buf8 b) SDI_I2C_FLAG_NONE w =
      Some (e, Buf8 v, w1)" "count w1 \<le> count w + k"
    using byte_returns [OF assms] by blast
  obtain e2 rest' w2 where "smbus_multi h addr opn SDI_I2C_FLAG_NONE n (cmd + 1) rest w1 = Some (e2, rest', w2)"
    "length rest' = length rest" "count w2 \<le> count w1 + k * n"
    using Suc.IH [OF buffer(2)] by blast
  then show ?case using w1 buffer(1) by (cases "e = STD_ERR_OK") auto
qed simp

lemma multi_byte_returns:
  assumes "returns" and "\<not> addr_mode_16bit addr" and "unat n \<le> length buffer"
  shows "\<exists>e buffer' w'. with_bus h buffer (smbus_multi h addr opn SDI_I2C_FLAG_NONE (unat n) cmd buffer) w =
      Some (e, buffer', w') \<and> length buffer' = length buffer \<and> count w' \<le> count w + k * unat n"
proof -
  obtain e w1 where w1: "sdi_i2c_acquire_bus h w = Some (e, w1)" "count w1 = count w"
    using acquire_returns [OF assms(1)] by blast
  obtain e2 b2 w2 where w2: "smbus_multi h addr opn SDI_I2C_FLAG_NONE (unat n) cmd buffer w1 = Some (e2, b2, w2)"
    "length b2 = length buffer" "count w2 \<le> count w1 + k * unat n"
    using smbus_multi_returns [OF assms] by blast
  obtain w3 where "sdi_i2c_release_bus h w2 = Some w3" "count w3 = count w2"
    using release_returns [OF assms(1)] by blast
  then show ?thesis using w1 w2 i2c by (cases "e = STD_ERR_OK") (auto simp: with_bus_def)
qed

end

section \<open>The kernel bus\<close>

text \<open>
  The calls of the kernel return, and \<open>count\<close> counts its ioctls: the one that selects the slave as well
  as those of the transactions.
\<close>

definition kernel_returns :: "'w i2c_os \<Rightarrow> ('w \<Rightarrow> nat) \<Rightarrow> bool" where
  "kernel_returns os count \<longleftrightarrow>
     (\<forall>fd opn c sz v w. \<exists>ok v' w'. ioctl_smbus os fd opn c sz (Some (Buf8 v)) w =
        Some (ok, Some (Buf8 v'), w') \<and> count w' = Suc (count w)) \<and>
     (\<forall>fd a w. \<exists>ok w'. ioctl_slave os fd a w = Some (ok, w') \<and> count w' = Suc (count w)) \<and>
     (\<forall>m w. \<exists>e w'. std_mutex_lock os m w = Some (e, w') \<and> count w' = count w) \<and>
     (\<forall>m w. \<exists>e w'. std_mutex_unlock os m w = Some (e, w') \<and> count w' = count w) \<and>
     (\<forall>t w. count (std_usleep os t w) = count w) \<and>
     (\<forall>f opn sz c w. count (reset_script_run os f opn sz c w) = count w)"

lemma kernel_ioctl:
  assumes "kernel_returns os count"
  obtains ok v' w' where "ioctl_smbus os fd opn c sz (Some (Buf8 v)) w = Some (ok, Some (Buf8 v'), w')"
    "count w' = Suc (count w)"
  using assms unfolding kernel_returns_def by meson

lemma kernel_reset:
  assumes "kernel_returns os count"
  shows "count (i2c_reset os opn sz c w) = count w" and "count (std_usleep os t w) = count w"
  using assms by (simp_all add: kernel_returns_def i2c_reset_def)

lemma smbus_retry_returns:
  assumes K: "kernel_returns os count"
  shows "\<exists>ok v' w'. smbus_retry os fd opn sz c n (Some (Buf8 v)) w = Some (ok, Some (Buf8 v'), w') \<and>
    count w' \<le> count w + n"
proof (induction n arbitrary: v w)
  case (Suc n)
  obtain ok v1 w1 where io: "ioctl_smbus os fd opn (ucast c) sz (Some (Buf8 v)) w = Some (ok, Some (Buf8 v1), w1)"
    "count w1 = Suc (count w)"
    by (rule kernel_ioctl [OF K])
  let ?w = "std_usleep os SDI_IIC_WAIT_TIME (i2c_reset os opn sz c w1)"
  obtain ok2 v2 w2 where "smbus_retry os fd opn sz c n (Some (Buf8 v1)) ?w = Some (ok2, Some (Buf8 v2), w2)"
    "count w2 \<le> count ?w + n"
    using Suc.IH by blast
  then show ?case using io kernel_reset [OF K] by (cases ok) auto
qed auto

lemma smbus_execute_returns:
  assumes K: "kernel_returns os count"
  shows "\<exists>e v' w'. sdi_sys_smbus_execute os fd opn sz c (Some (Buf8 v)) w = Some (e, Some (Buf8 v'), w') \<and>
    count w' \<le> count w + 5"
proof -
  obtain ok v1 w1 where "smbus_retry os fd opn sz c SDI_MAX_IIC_RETRY (Some (Buf8 v)) w =
      Some (ok, Some (Buf8 v1), w1)" "count w1 \<le> count w + 5"
    using smbus_retry_returns [OF K, of fd opn sz c SDI_MAX_IIC_RETRY v w]
    by (auto simp: SDI_MAX_IIC_RETRY_def)
  then show ?thesis
    using kernel_reset [OF K] by (cases ok) (auto simp: sdi_sys_smbus_execute_def Let_def)
qed

lemma i2cdev_byte_returns:
  assumes K: "kernel_returns os count" and A: "\<not> addr_mode_16bit addr"
  shows "\<exists>e v' w'. sdi_smbus_execute (i2cdev_bus os b) addr opn SDI_SMBUS_BYTE_DATA cmd (Buf8 v) SDI_I2C_FLAG_NONE w =
    Some (e, Buf8 v', w') \<and> count w' \<le> count w + 6"
proof -
  obtain ok w1 where w1: "ioctl_slave os (i2cdev_fd b) (i2c_addr addr) w = Some (ok, w1)" "count w1 = Suc (count w)"
    using K unfolding kernel_returns_def by meson
  have call: "\<exists>e v' w'. sdi_sys_smbus_execute os (i2cdev_fd b) opn I2C_SMBUS_BYTE_DATA cmd (Some (Buf8 x)) w1 =
      Some (e, Some (Buf8 v'), w') \<and> count w' \<le> count w + 6" for x
    using smbus_execute_returns [OF K, where w = w1] w1(2) by (simp add: add.commute)
  have "\<exists>e v' w'. smbus_switch os (i2cdev_fd b) addr opn SDI_SMBUS_BYTE_DATA cmd (Buf8 v) w1 =
      Some (e, Buf8 v', w') \<and> count w' \<le> count w + 6"
  proof (cases opn)
    case SDI_SMBUS_WRITE
    then show ?thesis
      using call [of v] A by (auto simp: smbus_switch_def keep_buffer_def sdi_smbus_write_byte_i2cdev_def)
  next
    case SDI_SMBUS_READ
    obtain e v' w' where "sdi_sys_smbus_execute os (i2cdev_fd b) opn I2C_SMBUS_BYTE_DATA cmd (Some (Buf8 0)) w1 =
      Some (e, Some (Buf8 v'), w')" "count w' \<le> count w + 6"
      using call by blast
    then show ?thesis
      using SDI_SMBUS_READ A by (cases "e = STD_ERR_OK")
        (auto simp: smbus_switch_def sdi_smbus_read_byte_i2cdev_def)
  qed
  then show ?thesis
    using w1 by (cases ok) (auto simp: sdi_smbus_execute_def i2cdev_bus_def sdi_i2cdev_bus_ops_def
        sdi_i2cdev_smbus_execute_def pec_off_def SDI_I2C_FLAG_NONE_def SDI_I2C_FLAG_PEC_def)
qed

interpretation kernel_returning: returning_bus "i2cdev_bus os b" count 6 "kernel_returns os count"
  for os b count
proof
  assume K: "kernel_returns os count"
  show "\<exists>e w'. sdi_i2c_acquire_bus (i2cdev_bus os b) w = Some (e, w') \<and> count w' = count w" for w
    using K by (simp add: sdi_i2c_acquire_bus_def i2cdev_bus_def sdi_i2cdev_bus_ops_def
        sdi_i2cdev_acquire_bus_def kernel_returns_def)
  show "\<exists>w'. sdi_i2c_release_bus (i2cdev_bus os b) w = Some w' \<and> count w' = count w" for w
  proof -
    obtain e w' where "std_mutex_unlock os (sys_lock b) w = Some (e, w')" "count w' = count w"
      using K unfolding kernel_returns_def by meson
    then show ?thesis
      by (simp add: sdi_i2c_release_bus_def i2cdev_bus_def sdi_i2cdev_bus_ops_def sdi_i2cdev_release_bus_def)
  qed
qed (simp add: i2cdev_bus_def, rule i2cdev_byte_returns)

section \<open>The mailbox\<close>

lemma mailbox_raw_addr:
  assumes "\<not> addr_mode_16bit (chip_addr c)"
  obtains a where "raw_addr c (eeprom_device_addr (mailbox_addr n)) = Some a" "\<not> addr_mode_16bit a"
  using assms that
  by (auto simp: raw_addr_def mailbox_addr_def)

context returning_bus
begin

lemma raw_transfer_returns:
  assumes "returns" and "chip_bus c = h" and "\<not> addr_mode_16bit (chip_addr c)"
    and "0 < n" and "unat n \<le> length data"
  shows "\<exists>e data' w'. sdi_sfp_read_generic_raw c (mailbox_addr off) n data w = Some (e, data', w') \<and>
      length data' = length data \<and> count w' \<le> count w + k * unat n"
    and "\<exists>e data' w'. sdi_sfp_write_generic_raw c (mailbox_addr off) n data w = Some (e, data', w') \<and>
      length data' = length data \<and> count w' \<le> count w + k * unat n"
proof -
  obtain a where a: "raw_addr c (eeprom_device_addr (mailbox_addr off)) = Some a" "\<not> addr_mode_16bit a"
    using mailbox_raw_addr [OF assms(3)] by blast
  note R = multi_byte_returns [OF assms(1) a(2) assms(5)]
  show "\<exists>e data' w'. sdi_sfp_read_generic_raw c (mailbox_addr off) n data w = Some (e, data', w') \<and>
      length data' = length data \<and> count w' \<le> count w + k * unat n"
    using R assms(2,4) a(1) by (simp add: sdi_sfp_read_generic_raw_def sdi_smbus_read_multi_byte_def)
  show "\<exists>e data' w'. sdi_sfp_write_generic_raw c (mailbox_addr off) n data w = Some (e, data', w') \<and>
      length data' = length data \<and> count w' \<le> count w + k * unat n"
    using R assms(2,4) a(1) by (simp add: sdi_sfp_write_generic_raw_def sdi_smbus_write_multi_byte_def)
qed

text \<open>The poll looks at most once every ten of its hundred milliseconds.\<close>

lemma poll_status_returns:
  assumes "returns" and "chip_bus c = h" and "\<not> addr_mode_16bit (chip_addr c)"
    and quiet: "\<And>n w. count (std_usleep os n w) = count w"
  shows "t = 100 - 10 * n \<Longrightarrow> n \<le> 10 \<Longrightarrow>
    \<exists>e ok w'. poll_status os c t status w = Some (e, ok, w') \<and> count w' \<le> count w + k * n"
proof (induction n arbitrary: t status w)
  case 0
  then show ?case by (subst poll_status.simps) (auto simp: STATUS_POLL_MAX_TIMEOUT_MS_def)
next
  case (Suc n)
  obtain e data w1 where w1: "sdi_sfp_read_generic_raw c (mailbox_addr 255) 1 [status] w = Some (e, data, w1)"
    "count w1 \<le> count w + k"
    using raw_transfer_returns(1) [OF assms(1-3), of 1 "[status]" 255 w] by auto
  have "t + STATUS_POLL_INTERVAL_MS = 100 - 10 * n" using Suc.prems by (simp add: STATUS_POLL_INTERVAL_MS_def)
  from Suc.IH [OF this, of "hd data" "std_usleep os STATUS_POLL_INTERVAL_MS w1"] Suc.prems(2)
  obtain e2 ok w2 where "poll_status os c (t + STATUS_POLL_INTERVAL_MS) (hd data)
      (std_usleep os STATUS_POLL_INTERVAL_MS w1) = Some (e2, ok, w2)" "count w2 \<le> count w1 + k * n"
    by (auto simp: quiet)
  then show ?case
    using w1 Suc.prems(1) by (subst poll_status.simps) (auto simp: STATUS_POLL_MAX_TIMEOUT_MS_def)
qed

lemma perform_oper_returns:
  assumes "returns" and "chip_bus c = h" and "\<not> addr_mode_16bit (chip_addr c)"
    and "\<And>n w. count (std_usleep os n w) = count w"
  shows "\<exists>e data w'. perform_oper os c a r opn v w = Some (e, data, w') \<and> count w' \<le> count w + 18 * k"
proof -
  note transfer = raw_transfer_returns [OF assms(1-3)]
  let ?set = "[a, ucast (drop_bit 8 r), ucast r]
      @ (if opn = MEM_WRITE then [ucast (drop_bit 8 v), ucast v] else [0, 0]) @ [3 AND oper_byte opn]"
  obtain e1 d1 w1 where w1: "sdi_sfp_write_generic_raw c (mailbox_addr 250) 6 ?set w = Some (e1, d1, w1)"
    "count w1 \<le> count w + k * 6"
    using transfer(2) [of 6 ?set 250 w] by (cases opn) auto
  obtain e2 ok w2 where w2: "poll_status os c 0 0 w1 = Some (e2, ok, w2)" "count w2 \<le> count w1 + k * 10"
    using poll_status_returns [OF assms, of 0 10 0 w1] by auto
  obtain e3 d3 w3 where w3: "sdi_sfp_read_generic_raw c (mailbox_addr 253) 2 [0, 0] w2 = Some (e3, d3, w3)"
    "count w3 \<le> count w2 + k * 2"
    using transfer(1) [of 2 "[0, 0]" 253 w2] by auto
  show ?thesis
    unfolding perform_oper_def Let_def
    using w1 w2 w3 by (auto simp del: append_Cons append_Nil)
qed

lemma chain_oper_returns:
  assumes "returns" and "chip_bus c = h" and "\<not> addr_mode_16bit (chip_addr c)"
    and "\<And>n w. count (std_usleep os n w) = count w"
  shows "\<exists>e ps' w'. sdi_media_ext_mod_ctrl_chain_oper os c ps w = Some (e, ps', w') \<and>
    count w' \<le> count w + 18 * k * length ps \<and>
    map (data_buf_big_endian_update (\<lambda>_. 0)) ps' = map (data_buf_big_endian_update (\<lambda>_. 0)) ps"
proof (induction ps arbitrary: w)
  case (Cons p ps)
  obtain e v w1 where w1: "perform_oper os c (mem_addr p) (reg_offset p) (oper p) (data_buf_big_endian p) w =
      Some (e, v, w1)" "count w1 \<le> count w + 18 * k"
    using perform_oper_returns [OF assms] by blast
  obtain e2 ps' w2 where "sdi_media_ext_mod_ctrl_chain_oper os c ps w1 = Some (e2, ps', w2)"
    "count w2 \<le> count w1 + 18 * k * length ps"
    "map (data_buf_big_endian_update (\<lambda>_. 0)) ps' = map (data_buf_big_endian_update (\<lambda>_. 0)) ps"
    using Cons.IH by blast
  then show ?case using w1 by (cases "e = STD_ERR_OK") (auto simp: algebra_simps)
qed simp

end

text \<open>
  C38. A chain of mailbox operations over the kernel bus returns, whatever the module and the kernel answer, even
  when the mailbox never reports that it is done. With at most 6 bytes written, 10 looks at the status
  and 2 bytes read, and for each of these 18 transfers the ioctl that selects the slave and at most 5
  attempts, it costs no more than 108 ioctls for every operation, and it changes nothing but the data
  of the packets.
\<close>

theorem mailbox_chain_returns:
  fixes kos :: "'w i2c_os" and count :: "'w \<Rightarrow> nat"
  assumes "kernel_returns kos count" and "\<forall>t w. count (std_usleep os t w) = count w"
    and "chip_bus c = i2cdev_bus kos b" and "\<not> addr_mode_16bit (chip_addr c)"
  shows "\<exists>e ps' w'. sdi_media_ext_mod_ctrl_chain_oper os c ps w = Some (e, ps', w') \<and>
    count w' \<le> count w + 108 * length ps \<and>
    map (data_buf_big_endian_update (\<lambda>_. 0)) ps' = map (data_buf_big_endian_update (\<lambda>_. 0)) ps"
  using kernel_returning.chain_oper_returns [OF assms(1,3,4), of os ps w] assms(2) by simp

text \<open>A kernel whose transactions succeed and a mailbox that is never done.\<close>

definition busy_i2c_os :: "nat i2c_os" where
  "busy_i2c_os = failing_i2c_os\<lparr>ioctl_smbus := (\<lambda>fd opn c sz d w. Some (True, d, Suc w)),
     ioctl_slave := (\<lambda>fd a w. Some (True, Suc w))\<rparr>"

definition busy_os :: "nat os" where
  "busy_os = \<lparr>std_mutex_lock_init = (\<lambda>m w. w), std_mutex_lock = (\<lambda>m w. Some (STD_ERR_OK, w)),
     std_mutex_unlock = (\<lambda>m w. Some (STD_ERR_OK, w)), std_usleep = (\<lambda>n w. w), os_errno = (\<lambda>w. EIO)\<rparr>"

definition busy_chip :: "nat chip" where
  "busy_chip = \<lparr>chip_bus = i2cdev_bus busy_i2c_os sample_i2c_bus, chip_addr = sample_addr, chip_instance = 0,
     chip_alias = ''aq''\<rparr>"

theorem mailbox_chain_returns_witness:
  "\<exists>e ps' w'. sdi_media_ext_mod_ctrl_chain_oper busy_os busy_chip [packet 7 0 0x2000 MEM_WRITE] 0 = Some (e, ps', w') \<and>
    w' \<le> 108 \<and> length ps' = 1"
proof -
  have "kernel_returns busy_i2c_os (\<lambda>w. w)"
    by (auto simp: kernel_returns_def busy_i2c_os_def failing_i2c_os_def)
  moreover have "\<not> addr_mode_16bit (chip_addr busy_chip)" by (simp add: busy_chip_def sample_addr_def)
  ultimately obtain e ps' w' where
    "sdi_media_ext_mod_ctrl_chain_oper busy_os busy_chip [packet 7 0 0x2000 MEM_WRITE] 0 = Some (e, ps', w')"
    "w' \<le> 108" "map (data_buf_big_endian_update (\<lambda>_. 0)) ps' = map (data_buf_big_endian_update (\<lambda>_. 0)) [packet 7 0 0x2000 MEM_WRITE]"
    using mailbox_chain_returns [of busy_i2c_os "\<lambda>w. w" busy_os busy_chip sample_i2c_bus "[packet 7 0 0x2000 MEM_WRITE]" 0]
    by (auto simp: busy_os_def busy_chip_def)
  then show ?thesis by (metis length_map length_Cons list.size(3) One_nat_def)
qed

end
