(* ===== verification/Media_Readings.thy ===== *)
theory Media_Readings
  imports Qsfp_Values
begin

text \<open>
  The temperatures of the modules: a 16 bit two's complement count of 1/256 degrees. The drivers
  take the sign off, convert the two bytes in floating point and put the sign back; nothing is
  rounded on the way.
\<close>

section \<open>Exact steps\<close>

lemma fraction_exact:
  assumes "\<bar>m\<bar> < 2 ^ p"
  shows "round_to p (of_int m / 256) = of_int m / 256"
proof -
  have "(2 :: rat) powi - 8 = 1 / 256" by (simp only: power_int_minus power_int_numeral) simp
  then show ?thesis using round_to_exact [OF assms, of "-8"] by simp
qed

lemma byte_parts:
  fixes m :: u16
  shows "uint (m AND 0xFF) = uint m mod 256" and "uint (drop_bit 8 (m AND 0xFF00)) = uint m div 256"
proof -
  have "m AND 0xFF = take_bit 8 m" by (simp add: take_bit_eq_mask mask_eq_exp_minus_1)
  then show "uint (m AND 0xFF) = uint m mod 256"
    by (simp only: unsigned_take_bit_eq) (simp add: take_bit_eq_mod)
  have "drop_bit 8 (m AND 0xFF00) = drop_bit 8 m"
    by (rule bit_word_eqI) (auto simp: bit_simps dest: bit_imp_le_length)
  then show "uint (drop_bit 8 (m AND 0xFF00)) = uint m div 256"
    by (simp add: drop_bit_eq_div uint_div)
qed

lemma sum_of_parts_exact:
  assumes "0 \<le> i" and "i < 2 ^ 16"
  shows "to_float (fp_add 53 (fp_div 53 (float_of_int (i mod 256)) (double_const 256)) (Fin (of_int (i div 256)))) =
    Fin (of_int i / 256)"
proof -
  have "float_of_int (i mod 256) = Fin (of_int (i mod 256))"
    using round_to_int [of "i mod 256" 24] by (simp add: float_of_int_def)
  moreover have "double_const 256 = Fin 256"
    using round_to_int [of 256 53] by (simp add: double_const_def)
  moreover have "round_to 53 (of_int (i mod 256) / 256) = of_int (i mod 256) / 256"
    by (rule fraction_exact) simp
  moreover have "of_int (i mod 256) / 256 + of_int (i div 256) = (of_int i :: rat) / 256"
  proof -
    have "(of_int (256 * (i div 256) + i mod 256) :: rat) = of_int i" by simp
    then have "256 * of_int (i div 256) + of_int (i mod 256) = (of_int i :: rat)"
      by (simp only: of_int_add of_int_mult of_int_numeral)
    then show ?thesis by (simp add: field_simps)
  qed
  moreover have "round_to 53 (of_int i / 256) = of_int i / 256" "round_to 24 (of_int i / 256) = of_int i / 256"
    using assms by (simp_all add: fraction_exact)
  ultimately show ?thesis
    by (simp only: fp_div.simps fp_add.simps fp_round.simps if_False zero_neq_numeral [symmetric])
qed

lemma internal_temp_exact: "internal_temp m = Fin (of_int (uint m) / 256)"
  unfolding internal_temp_def byte_parts
  by (rule sum_of_parts_exact) (use uint_bounded [of m] in simp_all)

lemma shifted_mod:
  fixes u :: int
  shows "32768 \<le> u \<Longrightarrow> u < 65536 \<Longrightarrow> (u + 32768) mod 65536 = u - 32768"
    and "0 \<le> u \<Longrightarrow> u < 32768 \<Longrightarrow> (u + 32768) mod 65536 = u + 32768"
proof -
  assume "32768 \<le> u" "u < 65536"
  then have "(u - 32768 + 65536) mod 65536 = u - 32768" by (simp only: mod_add_self2) simp
  then show "(u + 32768) mod 65536 = u - 32768" by (simp add: add.commute)
qed simp

lemma sint_16: "sint (t :: u16) = (if uint t < 2 ^ 15 then uint t else uint t - 2 ^ 16)"
proof -
  have "sint t = (uint t + 2 ^ 15) mod 2 ^ 16 - 2 ^ 15"
    by (simp add: sint_uint signed_take_bit_eq_take_bit_shift take_bit_eq_mod)
  moreover have "0 \<le> uint t" "uint t < 2 ^ 16" using uint_bounded [of t] by simp_all
  ultimately show ?thesis using shifted_mod [of "uint t"] by (cases "uint t < 2 ^ 15") simp_all
qed

lemma magnitude_sign:
  "sint t = (if t <s 0 then - uint (temp_magnitude t) else uint (temp_magnitude t))"
proof -
  have s: "t <s 0 \<longleftrightarrow> sint t < 0" by (simp add: word_sless_alt)
  have u: "0 \<le> uint t" "uint t < 2 ^ 16" using uint_bounded [of t] by simp_all
  have neg: "NOT t + 1 = - t" by (simp add: minus_eq_not_plus_1)
  show ?thesis
  proof (cases "t <s 0")
    case True
    then have "2 ^ 15 \<le> uint t" using s sint_16 [of t] u by (auto split: if_splits)
    moreover from this have "uint (- t) = 2 ^ 16 - uint t"
      using u by (simp add: uint_word_ariths zmod_zminus1_eq_if)
    ultimately show ?thesis using True sint_16 [of t] by (simp add: temp_magnitude_def neg)
  next
    case False
    then show ?thesis using s sint_16 [of t] u by (auto simp: temp_magnitude_def split: if_splits)
  qed
qed

section \<open>The temperature\<close>

text \<open>
  C39. The temperature that the QSFP driver reports, and the SFP driver for a module with internal
  calibration, is exactly the two's complement value of the two bytes over 256, for every one of the 65536 readings,
  the most negative one included.
\<close>

theorem module_temperature_exact:
  "uint (raw16 (hi, lo)) = 256 * uint hi + uint lo \<and>
   convert_qsfp_temp (hi, lo) = Fin (of_int (sint (raw16 (hi, lo))) / 256) \<and>
   convert_sfp_temp (hi, lo) (c\<lparr>calib_type := SFP_CALIB_TYPE_INTERNAL\<rparr>) = convert_qsfp_temp (hi, lo)"
proof -
  let ?t = "raw16 (hi, lo)"
  have "push_bit 8 (ucast hi) AND (ucast lo :: u16) = 0"
    by (rule bit_word_eqI) (auto simp: bit_simps dest: bit_imp_le_length)
  then have "?t = push_bit 8 (ucast hi) + ucast lo"
    using word_plus_and_or [of "push_bit 8 (ucast hi)" "ucast lo :: u16"] by (simp add: raw16_def)
  then have "?t = word_of_int (256 * uint hi + uint lo)"
    by (simp add: push_bit_eq_mult)
  then have "uint ?t = (256 * uint hi + uint lo) mod 2 ^ 16"
    by (simp only: uint_word_of_int) simp
  then have "uint ?t = 256 * uint hi + uint lo"
    using uint_bounded [of hi] uint_bounded [of lo] by simp
  moreover have "sign_temp ?t (internal_temp (temp_magnitude ?t)) = Fin (of_int (sint ?t) / 256)"
    by (simp add: sign_temp_def internal_temp_exact magnitude_sign [of ?t])
  ultimately show ?thesis
    by (simp add: convert_qsfp_temp_def convert_sfp_temp_def Let_def)
qed

end
