(* ===== verification/Spec2Isabelle.thy ===== *)
theory Spec2Isabelle
  imports Bus_Framework Comm_Roundtrip I2cdev I2c_Mux Pin_Bus Cpld_Pin_Group Cpld_Buses Presence Temp_Limits Temp_Status
    Onie_Roundtrip Dell_Errors Fan_Drives Max6620_Speed Nvram_Array Pmbus_Values Power_Ina219 Sf_Control Led_Display
    Qsfp_Locks Media_Mailbox Media_Readings
begin

text \<open>
  The System Device Interface of OPX (opx-sdi-sys): the layer between the platform services of a
  switch and its chips. An application asks an entity (a fan tray, a power supply, the system
  board) for its resources (fans, sensors, LEDs, EEPROMs, media ports) and calls them; the call goes
  through the callback table of the resource to a device driver, the driver to the API of its bus,
  the API to a bus driver, and that to the kernel. This development follows the same way from the
  bottom up. Every definition is a translation of the code that is named where it stands; the
  properties that this document lists are proved about these definitions.

  \<^bold>\<open>How the code is written down.\<close>
  \<^item> A C function that touches the outside world takes the world \<open>w\<close> and returns an option: \<open>None\<close>
    when the call does not return (a failed STD\_ASSERT, a NULL pointer followed, an access outside of a
    buffer, a division by zero, a lock that never comes), otherwise the error code, the values of its
    output parameters, and the world. Error codes are values of \<open>t_std_error\<close>; an output
    parameter that the code does not write keeps the value of the caller. The type of the world is a
    variable: the bus drivers work on whatever the kernel is.
  \<^item> Machine integers are words of their width (\<open>u8\<close>, \<open>u16\<close>, \<open>u32\<close>, \<open>u64\<close>), with signed
    comparisons where the C type is signed; int is 32 bits, the byte order is little endian. Values of float and double
    are rationals that are rounded after every operation (C\_Float).
  \<^item> Structures are records, enumerations and tagged unions datatypes, operation tables records of
    functions. Handles are numbers of allocations in a heap that only grows where the code keeps
    pointers in lists (buses, devices, resources, entities).
  \<^item> Loops are structural recursion over the list they walk; the loops with a counter (the retries of
    an SMBus transaction, five; the status poll of the mailbox and of the tunable modules, ten looks) recurse over
    the counter. No model needs fuel: each function is total.
  \<^item> Not in the repository, and therefore parameters: the mutexes, std\_usleep and errno (\<open>os\<close>), the
    ioctls of the kernel (\<open>i2c_os\<close>), the string and bit macros of the base library (\<open>std_lib\<close>, with \<open>bit8_laws\<close>,
    \<open>bit32_laws\<close> and \<open>string_laws\<close> for their documentation), regular expressions, CRC, dynamic loading, the IPMI client, the ports
    and the mapped memory of the machine (\<open>port_io\<close>, \<open>fpga_memory\<close>), its files (\<open>file_io\<close>), and
    the functions of the mathematical library (\<open>math_lib\<close>).

  \<^bold>\<open>Buses.\<close>
  \<^item> Sdi\_Prelude: errors, integers, the operating system, the base library, and what the theories share.
  \<^item> Bus\_Framework (src/framework/sdi\_bus\_framework.c, sdi\_driver\_framework.c): the lists of buses,
    registration and lookup, the devices of a bus and their drivers. The locale \<open>registry\<close> of the prelude is
    the contract of a list that things are added to and looked up in; buses, resources and entities keep it. C1 to C3 and C5: a registered bus is found, in every reachable state a
    lookup is right, unregistering undoes registering, and which handles a bus gets for its devices when
    drivers refuse some of them.
  \<^item> I2c\_Bus (src/framework/sdi\_i2c\_bus\_api.c): the interface of an I2C bus and the SMBus API on it. The
    locale \<open>smbus_provider\<close> says what drivers rely on, \<open>bus_locking\<close> what keeps the locks. I2cdev
    (sdi\_i2cdev.c) is the kernel bus that provides both; C6, C8 and C11: the lock discipline of any sequence
    of calls, the bound of the retries, and offsets of 16 bits. Two lemmas say what is lost on
    the wire: the data of a send byte, and the high byte of an offset.
  \<^item> Pin\_Bus and Cpld\_Pin\_Group (sdi\_cpld\_pin.c, sdi\_cpld\_pin\_group.c, the pin, pin group, I/O port,
    SmartFusion and FPGA PCI bus APIs): pins as bits of registers. The locale \<open>reg_field\<close> is a field of
    a register. C12 and C13: reading back what was written behind any bus that is memory at the
    addresses of the CPLD, which Cpld\_Buses proves of the kernel I2C bus, the SmartFusion window and the
    FPGA, and Pin\_Bus of the ports; two lemmas give the widths for which this fails.
  \<^item> Bus\_Drivers (sdi\_pseudo\_bus.c, sdi\_io\_bus.c, sdi\_bmc\_io\_bus.c, sdi\_sf\_io\_bus.c, sdi\_fpga\_pci\_bus.c): the
    drivers of the buses that reach ports, the BMC, the SmartFusion and the memory of the FPGA, with
    their registration from a configuration node.
  \<^item> I2c\_Mux (sdi\_i2cmux\_pca.c, sdi\_i2cmux\_pin.c): the channels of a multiplexer are buses again (\<open>sublocale\<close>
    of the contract of their parent). C16 and C17: which locks are held during a transfer (of a
    pin mux: those of the mux, of its pin group and of the parent bus); a
    lemma shows a transfer of a PCA channel without the lock of its parent bus.

  \<^bold>\<open>Entities and resources.\<close>
  \<^item> Resource (sdi\_resource\_framework.c, private/sdi\_resource\_internal.h, sdi\_entity\_internal.h), Entity
    (src/hwcore/sdi\_entity\_framework.c), Hwcore\_Api (sdi\_fan.c, sdi\_thermal.c, sdi\_led.c, sdi\_nvram.c,
    sdi\_power\_monitor.c, sdi\_ext\_ctrl.c), Entity\_Ops (sdi\_entity.c, sdi\_entity\_reset.c, sdi\_startup.c): the data, the
    configuration and the calls. C19 to C24: lookups after registrations, type safety of the calls,
    and that the queries return in every reachable state.
  \<^item> Presence (sdi\_entity.c): the presence polls as a state machine with the cache of the entity
    information. C25 to C28: the cache is never stale while the EEPROM of
    an empty slot is unreadable, when a poll returns, what a failed reading of
    the EEPROM leaves, and what a fault of an entity means.

  \<^bold>\<open>Devices.\<close>
  \<^item> Device and Register\_Device: a chip is a register file behind a bus (\<open>register_file\<close>, proved of the
    kernel bus over a kernel whose device is one).
  \<^item> Temp\_Sensors (sdi\_tmp75.c, sdi\_emc142x.c, sdi\_max6699.c), Temp\_Limits (locale \<open>limit_cache\<close>) and Temp\_Status. C29 and C30: the
    remembered limits are those of the chip after any sequence of changes, and when the TMP75 reports an
    alarm; a lemma says what a refused limit leaves.
  \<^item> Eeprom (sdi\_eeprom.c, sdi\_onie\_eeprom.c), Dell\_Eeprom (sdi\_dell\_eeprom.c), Onie\_Image, Onie\_Roundtrip and
    Dell\_Errors. C32 to C34: the parser computes the meaning of an image, what is written is read
    back, and which errors of the configuration are lost.
  \<^item> Fan\_Emc2305 (sdi\_emc2305.c) and Fan\_Drives. C35 and C36: five drives as a bank, and the speed of the
    RPM mode.
  \<^item> Fan\_Max6620 (sdi\_max6620.c) and Max6620\_Speed. C9: a speed is read back as it was
    set, up to the step of the counter; C10: no fault is lost between the fans.
  \<^item> Nvram\_Driver (sdi\_nvram.c) and Nvram\_Array. C18: the NVRAM behind a bus refines an array of bytes;
    a lemma shows the offset whose sum with the length wraps past the bound test.
  \<^item> Pmbus (sdi\_pmbus\_dev.c, sdi\_s6k\_psu.c) and Pmbus\_Values: power supplies on the PMBus. C31: the value
    of the linear format; lemmas say that a map gives the nearest entry and when the percentage traps.
  \<^item> Comm\_Dev (sdi\_comm\_dev\_driver.c, sdi\_comm\_dev\_ext\_ctrl.c, sdi\_cpld\_driver.c), Comm\_Dev\_Api
    (src/hwcore/sdi\_comm\_dev.c, sdi\_host\_system.c), Comm\_Messages and Comm\_Roundtrip: the mailbox between the
    switch and the chassis controller, and the host system. C4: a message that is written is what the
    other side reads; C7: a message with a changed byte is refused.
  \<^item> Sf\_Drivers (sdi\_sf\_tmp.c, sdi\_sf\_fan.c, sdi\_sf\_ext\_ctrl.c) and Sf\_Control: the devices of the
    SmartFusion. C14: an external control of two bytes keeps the value it is set to. Power\_Ina219 (sdi\_ina219.c): the power monitor.
  \<^item> Led\_Drivers (sdi\_mono\_color\_pin\_led.c, sdi\_seven\_segment\_pin\_led.c, sdi\_segment\_display.c) and Led\_Display.
    C15: the segment display refines a display with a remembered character.

  \<^bold>\<open>Media.\<close>
  \<^item> C\_Float, Media\_Types, Media\_Regs (src/inc/opx/sdi\_media.h, private/sdi\_qsfp\_reg.h, sdi\_sfp\_reg.h): floating
    point, the types and the constants. Media\_Api (src/hwcore/sdi\_media.c): the calls.
  \<^item> Media\_Base, Media\_Phy (sdi\_media\_phy\_mgmt.c, sdi\_media\_ext\_mod\_ctrl.c, sdi\_sfp\_plus\_aq.c,
    sdi\_qsfp\_4X1\_1000baseT.c): module selection and the PHYs. Sfp\_Eeprom, Sfp\_Status, Sfp\_Values (sdi\_sfp\_eeprom.c), Sfp
    (sdi\_sfp.c), Qsfp\_Eeprom, Qsfp\_Values (sdi\_qsfp\_eeprom.c), Qsfp (sdi\_qsfp.c): the two drivers.
  \<^item> Qsfp\_Channels. C37: the channels of a module are a board of independent switches, whatever the
    sequence of calls. Media\_Mailbox (locale \<open>returning_bus\<close>, interpreted on the kernel bus). C38: a chain of mailbox operations ends, with a bound on
    the ioctls. Media\_Readings. C39: temperatures are exact. Qsfp\_Locks (locale \<open>selected_module\<close>): the composition
    rules of steps that keep the locks. C40: every transfer to a module is done under two locks; a
    lemma shows the one call that keeps them, the query of the maximal power after a failed read.

  \<^bold>\<open>Not modelled.\<close>
  \<^item> The virtual machine back end (src/vmcore, src/vmdb) answers the same API from an SQL database, and
    the BMC drivers adapt the callbacks and threads of the OpenIPMI library: neither engine is in the
    repository.
  \<^item> Logging, command line tools, tests; the parsing of the XML files (a configuration node is a record
    of its attributes); the registration of multiplexers and CPLD pins from
    configuration nodes, which only copies attributes into the records.
  \<^item> GPIO pins through sysfs, the QSFP28-DD wrapper and fixed ports, and the drivers of entity
    information that is composed from other resources. They repeat the patterns of the modelled drivers.
  \<^item> Threads: a call is one step of the world. The lock discipline is stated on traces of lock and
    transfer events, not on interleavings.
\<close>

end
